(* ===== verification/Prelude.thy ===== *)
theory Prelude
  imports Main "HOL-Library.Word" "HOL-Library.Monad_Syntax"
begin

text \<open>
  The shared vocabulary of the development: the Rust integer types as words, the Rust
  integer operators on the values of those types, and the arithmetic lemmas the components
  use.

  Integers. A field of type \<open>u64\<close> is a \<open>64 word\<close>, read by \<open>unat\<close>; an \<open>as u64\<close> cast is
  \<open>word_of_nat\<close>, which truncates as Rust does. Intermediate \<open>u64\<close>/\<open>u128\<close> arithmetic is done
  on the values (type \<open>nat\<close>) with operators that carry the width.

  Overflow. Rust's \<open>+\<close>, \<open>-\<close> and \<open>*\<close> on integers panic when the result does not fit in a build
  with overflow checks (the dev profile) and wrap in a build without them (the release profile
  of this repository, whose Cargo.toml does not turn the checks on). Each operator takes the
  build's choice as its first argument \<open>oc\<close>: \<open>True\<close> is a build with overflow checks. \<open>None\<close>
  is a panic; \<open>/\<close> and \<open>%\<close> by zero panic in every build.

  Fallible functions return \<open>(error + value) option\<close>: the option layer is the panic, the sum
  is Rust's \<open>Result\<close>.
\<close>

section \<open>Types\<close>

type_synonym u8 = "8 word"
type_synonym u16 = "16 word"
type_synonym u32 = "32 word"
type_synonym u64 = "64 word"
type_synonym u128 = "128 word"

text \<open>Signed types are words read by \<open>sint\<close>.\<close>

type_synonym i32 = "32 word"
type_synonym i64 = "64 word"
type_synonym i128 = "128 word"

text \<open>A \<open>Pubkey\<close> is its 32 bytes.\<close>

type_synonym pubkey = "u8 list"

type_synonym bytes = "u8 list"

type_synonym ('e, 'a) outcome = "('e + 'a) option"

named_theorems rust_ok \<open>operators whose result fits are the mathematical ones\<close>
named_theorems rust_ops \<open>definitions of the operators\<close>

section \<open>Unsigned operators at a width\<close>

definition u_add :: "bool \<Rightarrow> nat \<Rightarrow> nat \<Rightarrow> nat \<Rightarrow> nat option" where
  [rust_ops]: "u_add oc w a b =
     (if a + b < 2 ^ w then Some (a + b) else if oc then None else Some ((a + b) mod 2 ^ w))"

definition u_sub :: "bool \<Rightarrow> nat \<Rightarrow> nat \<Rightarrow> nat \<Rightarrow> nat option" where
  [rust_ops]: "u_sub oc w a b =
     (if b \<le> a then Some (a - b) else if oc then None else Some ((2 ^ w + a - b) mod 2 ^ w))"

definition u_mul :: "bool \<Rightarrow> nat \<Rightarrow> nat \<Rightarrow> nat \<Rightarrow> nat option" where
  [rust_ops]: "u_mul oc w a b =
     (if a * b < 2 ^ w then Some (a * b) else if oc then None else Some ((a * b) mod 2 ^ w))"

definition u_div :: "nat \<Rightarrow> nat \<Rightarrow> nat option" where
  [rust_ops]: "u_div a b = (if b = 0 then None else Some (a div b))"

text \<open>\<open>div_ceil\<close>: the quotient, plus one when there is a remainder.\<close>

definition u_div_ceil :: "nat \<Rightarrow> nat \<Rightarrow> nat option" where
  [rust_ops]: "u_div_ceil a b =
     (if b = 0 then None else Some (if a mod b = 0 then a div b else a div b + 1))"

definition checked_add :: "nat \<Rightarrow> nat \<Rightarrow> nat \<Rightarrow> nat option" where
  [rust_ops]: "checked_add w a b = (if a + b < 2 ^ w then Some (a + b) else None)"

definition checked_sub :: "nat \<Rightarrow> nat \<Rightarrow> nat option" where
  [rust_ops]: "checked_sub a b = (if b \<le> a then Some (a - b) else None)"

definition checked_mul :: "nat \<Rightarrow> nat \<Rightarrow> nat \<Rightarrow> nat option" where
  [rust_ops]: "checked_mul w a b = (if a * b < 2 ^ w then Some (a * b) else None)"

definition checked_div :: "nat \<Rightarrow> nat \<Rightarrow> nat option" where
  [rust_ops]: "checked_div a b = (if b = 0 then None else Some (a div b))"

definition saturating_add :: "nat \<Rightarrow> nat \<Rightarrow> nat \<Rightarrow> nat" where
  [rust_ops]: "saturating_add w a b = min (a + b) (2 ^ w - 1)"

definition saturating_mul :: "nat \<Rightarrow> nat \<Rightarrow> nat \<Rightarrow> nat" where
  [rust_ops]: "saturating_mul w a b = min (a * b) (2 ^ w - 1)"

text \<open>\<open>saturating_sub\<close> on unsigned values is the truncated subtraction of \<open>nat\<close>.\<close>

abbreviation (input) saturating_sub :: "nat \<Rightarrow> nat \<Rightarrow> nat" where
  "saturating_sub a b \<equiv> a - b"

abbreviation as_u64 :: "nat \<Rightarrow> u64" where
  "as_u64 n \<equiv> word_of_nat n"

abbreviation as_u128 :: "nat \<Rightarrow> u128" where
  "as_u128 n \<equiv> word_of_nat n"

text \<open>\<open>as i32\<close> of an unsigned value: its low 32 bits in two's complement.\<close>

definition as_i32 :: "nat \<Rightarrow> int" where
  "as_i32 n = sint (word_of_nat n :: 32 word)"

section \<open>Signed operators at a width\<close>

definition in_signed :: "nat \<Rightarrow> int \<Rightarrow> bool" where
  "in_signed w i \<longleftrightarrow> - (2 ^ (w - 1)) \<le> i \<and> i < 2 ^ (w - 1)"

text \<open>A result that does not fit panics with overflow checks and wraps without.\<close>

definition i_fit :: "bool \<Rightarrow> nat \<Rightarrow> int \<Rightarrow> int option" where
  [rust_ops]: "i_fit oc w i =
     (if in_signed w i then Some i else if oc then None
      else Some ((i + 2 ^ (w - 1)) mod 2 ^ w - 2 ^ (w - 1)))"

text \<open>\<open>/\<close> and \<open>%\<close> truncate towards zero; a zero divisor and \<open>MIN / -1\<close> panic in every build.\<close>

definition quot_trunc :: "int \<Rightarrow> int \<Rightarrow> int" where
  "quot_trunc a b = sgn a * sgn b * (\<bar>a\<bar> div \<bar>b\<bar>)"

definition i_div :: "nat \<Rightarrow> int \<Rightarrow> int \<Rightarrow> int option" where
  [rust_ops]: "i_div w a b =
     (if b = 0 \<or> \<not> in_signed w (quot_trunc a b) then None else Some (quot_trunc a b))"

definition i_rem :: "nat \<Rightarrow> int \<Rightarrow> int \<Rightarrow> int option" where
  [rust_ops]: "i_rem w a b =
     (if b = 0 \<or> \<not> in_signed w (quot_trunc a b) then None else Some (a - b * quot_trunc a b))"

lemma i_fit_ok [rust_ok]: "in_signed w i \<Longrightarrow> i_fit oc w i = Some i"
  by (simp add: i_fit_def)

section \<open>The mathematical ceiling division\<close>

definition ceil_div :: "nat \<Rightarrow> nat \<Rightarrow> nat" where
  "ceil_div a b = (a + b - 1) div b"

lemma ceil_div_eq: "0 < b \<Longrightarrow> ceil_div a b = (if a mod b = 0 then a div b else a div b + 1)"
proof -
  assume b: "0 < b"
  obtain q r where a: "a = q * b + r" and r: "r < b"
    using b by (metis div_mult_mod_eq mod_less_divisor)
  show ?thesis
  proof (cases "r = 0")
    case True
    have "a + b - 1 = (b - 1) + q * b"
      using True a b by simp
    moreover have "((b - 1) + q * b) div b = q"
      using b by (simp only: div_mult_self1) simp
    ultimately show ?thesis
      using True a b by (simp add: ceil_div_def)
  next
    case False
    have "a + b - 1 = (r - 1) + (q + 1) * b"
      using False a by (simp add: algebra_simps)
    moreover have "((r - 1) + (q + 1) * b) div b = q + 1"
      using r b by (simp only: div_mult_self1) simp
    ultimately show ?thesis
      using a r b False by (simp add: ceil_div_def)
  qed
qed

lemma u_div_ceil_ok [rust_ok]: "0 < b \<Longrightarrow> u_div_ceil a b = Some (ceil_div a b)"
  by (simp add: u_div_ceil_def ceil_div_eq)

lemma ceil_div_le_iff: "0 < b \<Longrightarrow> ceil_div a b \<le> n \<longleftrightarrow> a \<le> n * b"
proof -
  assume b: "0 < b"
  have "ceil_div a b \<le> n \<longleftrightarrow> (a + b - 1) div b < n + 1"
    by (simp add: ceil_div_def less_Suc_eq_le)
  also have "\<dots> \<longleftrightarrow> a + b - 1 < (n + 1) * b"
    using b by (simp add: div_less_iff_less_mult)
  also have "\<dots> \<longleftrightarrow> a \<le> n * b"
    using b by (simp add: algebra_simps) linarith
  finally show ?thesis .
qed

lemma ceil_div_upper: "0 < b \<Longrightarrow> a \<le> ceil_div a b * b"
  using ceil_div_le_iff [of b a "ceil_div a b"] by simp

lemma ceil_div_lower: "0 < b \<Longrightarrow> 0 < a \<Longrightarrow> (ceil_div a b - 1) * b < a"
proof -
  assume b: "0 < b" and a: "0 < a"
  have pos: "0 < ceil_div a b"
  proof (rule ccontr)
    assume "\<not> 0 < ceil_div a b"
    then have "ceil_div a b \<le> 0" by simp
    with ceil_div_le_iff [OF b, of a 0] a show False by simp
  qed
  then have "\<not> ceil_div a b \<le> ceil_div a b - 1" by simp
  with ceil_div_le_iff [OF b, of a "ceil_div a b - 1"] show ?thesis by simp
qed

lemma ceil_div_0 [simp]: "ceil_div 0 b = 0"
  by (cases b) (simp_all add: ceil_div_def)

lemma ceil_div_mono: "a \<le> a' \<Longrightarrow> ceil_div a b \<le> ceil_div a' b"
  by (simp add: ceil_div_def div_le_mono diff_le_mono)

lemma ceil_div_ge_div: "0 < b \<Longrightarrow> a div b \<le> ceil_div a b"
  by (simp add: ceil_div_eq)

lemma ceil_div_le_self: "0 < b \<Longrightarrow> ceil_div a b \<le> a"
  using ceil_div_le_iff [of b a a] by (simp add: Suc_leI)

section \<open>Operators whose result fits\<close>

lemma u_add_ok [rust_ok]: "a + b < 2 ^ w \<Longrightarrow> u_add oc w a b = Some (a + b)"
  by (simp add: u_add_def)

lemma u_sub_ok [rust_ok]: "b \<le> a \<Longrightarrow> u_sub oc w a b = Some (a - b)"
  by (simp add: u_sub_def)

lemma u_mul_ok [rust_ok]: "a * b < 2 ^ w \<Longrightarrow> u_mul oc w a b = Some (a * b)"
  by (simp add: u_mul_def)

lemma u_div_ok [rust_ok]: "b \<noteq> 0 \<Longrightarrow> u_div a b = Some (a div b)"
  by (simp add: u_div_def)

lemma checked_add_Some [simp]: "checked_add w a b = Some c \<longleftrightarrow> a + b < 2 ^ w \<and> c = a + b"
  by (auto simp: checked_add_def)

lemma checked_sub_Some [simp]: "checked_sub a b = Some c \<longleftrightarrow> b \<le> a \<and> c = a - b"
  by (auto simp: checked_sub_def)

lemma checked_mul_Some [simp]: "checked_mul w a b = Some c \<longleftrightarrow> a * b < 2 ^ w \<and> c = a * b"
  by (auto simp: checked_mul_def)

lemma checked_div_Some [simp]: "checked_div a b = Some c \<longleftrightarrow> b \<noteq> 0 \<and> c = a div b"
  by (auto simp: checked_div_def)

section \<open>Word values and their bounds\<close>

lemma unat_u64_less: "unat (x :: u64) < 2 ^ 64"
  using unsigned_less [of x] by simp

lemma unat_u128_less: "unat (x :: u128) < 2 ^ 128"
  using unsigned_less [of x] by simp

lemma unat_as_u64 [simp]: "n < 2 ^ 64 \<Longrightarrow> unat (as_u64 n) = n"
  by (simp add: unsigned_of_nat take_bit_nat_eq_self)

lemma mult_u64_fits: "a < 2 ^ 64 \<Longrightarrow> b < 2 ^ 64 \<Longrightarrow> a * b < (2::nat) ^ 128"
proof -
  assume "a < 2 ^ 64" and "b < (2::nat) ^ 64"
  then have "a * b < 2 ^ 64 * 2 ^ 64"
    by (rule mult_strict_mono) auto
  then show ?thesis by simp
qed

lemma unat_as_u64_le: "unat (as_u64 n) \<le> n"
  by (simp add: unsigned_of_nat take_bit_nat_less_eq_self)

lemma u_sub_True: "u_sub True w a b = Some c \<longleftrightarrow> b \<le> a \<and> c = a - b"
  by (auto simp: u_sub_def)

lemma u_add_True: "u_add True w a b = Some c \<longleftrightarrow> a + b < 2 ^ w \<and> c = a + b"
  by (auto simp: u_add_def)

lemma u_mul_True: "u_mul True w a b = Some c \<longleftrightarrow> a * b < 2 ^ w \<and> c = a * b"
  by (auto simp: u_mul_def)

lemma u_div_Some: "u_div a b = Some c \<longleftrightarrow> b \<noteq> 0 \<and> c = a div b"
  by (auto simp: u_div_def)

lemma u_div_ceil_Some: "u_div_ceil a b = Some c \<longleftrightarrow> b \<noteq> 0 \<and> c = ceil_div a b"
  by (auto simp: u_div_ceil_def ceil_div_eq)

text \<open>Reading a classification at a result that is known.\<close>

lemma quoted_else:
  "(if c then Some (Inr q) = Some (Inl e) else \<exists>q'. Some (Inr q) = Some (Inr q') \<and> P q') \<Longrightarrow> P q"
  by (auto split: if_splits)

text \<open>A step list that succeeded, step by step.\<close>

lemmas steps =
  bind_eq_Some_conv u_add_True u_sub_True u_mul_True u_div_Some u_div_ceil_Some

end
