(* ===== verification/Access.thy ===== *)
theory Access
  imports Prelude
begin

text \<open>
  The cache's access contract (\<open>storage/traits/src/access.rs\<close>): the outcome of a slot-aware
  insertion and the laws that \<open>CacheInsert\<close> and \<open>CacheGet\<close> promise their callers. The two
  traits are one locale, \<open>slot_store\<close>: its parameters are the trait methods, its assumptions
  are the sentences of the traits' documentation, and what a caller may conclude about any
  sequence of insertions is proved once inside it.
\<close>

datatype insert_outcome = Inserted | UpdatedSameSlot | Advanced | Stale

text \<open>The outcome that the contract prescribes for a write at \<open>slot\<close>, from the current slot.\<close>

fun outcome_at :: "u64 option \<Rightarrow> u64 \<Rightarrow> insert_outcome" where
  "outcome_at None slot = Inserted"
| "outcome_at (Some cur) slot =
     (if slot < cur then Stale else if slot = cur then UpdatedSameSlot else Advanced)"

text \<open>An observation: the key, the value and the slot it was observed at.\<close>

type_synonym ('k, 'v) observation = "'k \<times> 'v \<times> u64"

text \<open>
  \<open>ins\<close> is \<open>CacheInsert::insert\<close>, \<open>cur\<close> is \<open>CacheGet::get_with_slot\<close>, \<open>at_slot\<close> is
  \<open>CacheGet::get_at_slot_with_slot\<close>, and \<open>inv\<close> is the representation invariant of the store.
\<close>

locale slot_store =
  fixes ins :: "'k \<Rightarrow> 'v \<Rightarrow> u64 \<Rightarrow> 'm \<Rightarrow> insert_outcome \<times> 'm"
    and cur :: "'k \<Rightarrow> 'm \<Rightarrow> ('v \<times> u64) option"
    and at_slot :: "'k \<Rightarrow> u64 \<Rightarrow> 'm \<Rightarrow> ('v \<times> u64) option"
    and inv :: "'m \<Rightarrow> bool"
  assumes inv_ins: "inv m \<Longrightarrow> inv (snd (ins k v s m))"
    and ins_outcome: "fst (ins k v s m) = outcome_at (map_option snd (cur k m)) s"
    and cur_ins_same: "cur k (snd (ins k v s m)) =
          (if outcome_at (map_option snd (cur k m)) s = Stale then cur k m else Some (v, s))"
    and cur_ins_other: "k' \<noteq> k \<Longrightarrow> cur k' (snd (ins k v s m)) = cur k' m"
    and at_ins_other: "k' \<noteq> k \<Longrightarrow> at_slot k' r (snd (ins k v s m)) = at_slot k' r m"
    and at_slot_cur: "cur k m = Some (v, s) \<Longrightarrow> s \<le> r \<Longrightarrow> at_slot k r m = Some (v, s)"
    and at_slot_bound: "inv m \<Longrightarrow> at_slot k r m = Some (v, s) \<Longrightarrow> s \<le> r"
    and at_slot_old: "inv m \<Longrightarrow> cur k m = Some (v, s) \<Longrightarrow> at_slot k r m = Some (v', s') \<Longrightarrow> s' \<le> s"
    and at_slot_none: "cur k m = None \<Longrightarrow> at_slot k r m = None"
begin

definition observe :: "('k, 'v) observation \<Rightarrow> 'm \<Rightarrow> 'm" where
  "observe ob m = (case ob of (k, v, s) \<Rightarrow> snd (ins k v s m))"

definition observe_all :: "('k, 'v) observation list \<Rightarrow> 'm \<Rightarrow> 'm" where
  "observe_all obs m = fold observe obs m"

lemma observe_all_simps [simp]:
  "observe_all [] m = m"
  "observe_all (ob # obs) m = observe_all obs (observe ob m)"
  "observe_all (xs @ ys) m = observe_all ys (observe_all xs m)"
  by (simp_all add: observe_all_def)

lemma observe_inv: "inv m \<Longrightarrow> inv (observe ob m)"
  by (cases ob) (simp add: observe_def inv_ins)

lemma observe_all_inv: "inv m \<Longrightarrow> inv (observe_all obs m)"
  by (induction obs arbitrary: m) (simp_all add: observe_inv)

text \<open>The current slot of a key never decreases, and a value never disappears.\<close>

lemma observe_current_mono:
  assumes "cur k m = Some (v, s)"
  shows "\<exists>v' s'. cur k (observe ob m) = Some (v', s') \<and> s \<le> s'"
proof (cases ob)
  case (fields k0 v0 s0)
  show ?thesis
    using assms cur_ins_same [of k v0 s0 m] cur_ins_other [of k k0 v0 s0 m] fields
    by (cases "k0 = k") (auto simp: observe_def split: if_splits)
qed

lemma observe_all_current_mono:
  "cur k m = Some (v, s) \<Longrightarrow> \<exists>v' s'. cur k (observe_all obs m) = Some (v', s') \<and> s \<le> s'"
proof (induction obs arbitrary: m v s)
  case (Cons ob obs)
  obtain v1 s1 where "cur k (observe ob m) = Some (v1, s1)" "s \<le> s1"
    using observe_current_mono [OF Cons.prems] by blast
  with Cons.IH [of "observe ob m" v1 s1] show ?case
    by (auto intro: order_trans)
qed simp

lemma observe_reaches: "\<exists>v' s'. cur k (observe (k, v, s) m) = Some (v', s') \<and> s \<le> s'"
  using cur_ins_same [of k v s m] by (cases "cur k m") (auto simp: observe_def)

text \<open>After any sequence of writes the current slot of a key bounds every slot written for it.\<close>

lemma observe_all_max:
  assumes "(k, v, s) \<in> set obs"
  shows "\<exists>v' s'. cur k (observe_all obs m) = Some (v', s') \<and> s \<le> s'"
proof -
  obtain xs ys where obs: "obs = xs @ (k, v, s) # ys"
    using assms by (meson split_list)
  obtain v1 s1 where "cur k (observe (k, v, s) (observe_all xs m)) = Some (v1, s1)" "s \<le> s1"
    using observe_reaches by blast
  moreover obtain v2 s2 where "cur k (observe_all obs m) = Some (v2, s2)" "s1 \<le> s2"
    using observe_all_current_mono [OF calculation(1), of ys] obs by auto
  ultimately show ?thesis by (auto intro: order_trans)
qed

text \<open>The current value is one that was written, at the slot it was written at.\<close>

lemma observe_all_origin:
  "cur k (observe_all obs m) = Some (v, s) \<Longrightarrow> cur k m = Some (v, s) \<or> (k, v, s) \<in> set obs"
proof (induction obs arbitrary: m)
  case (Cons ob obs)
  then have "cur k (observe ob m) = Some (v, s) \<or> (k, v, s) \<in> set obs"
    by simp
  moreover have "cur k (observe ob m) = Some (v, s) \<Longrightarrow> cur k m = Some (v, s) \<or> ob = (k, v, s)"
  proof (cases ob)
    case (fields k0 v0 s0)
    assume "cur k (observe ob m) = Some (v, s)"
    then show ?thesis
      using cur_ins_same [of k v0 s0 m] cur_ins_other [of k k0 v0 s0 m] fields
      by (cases "k0 = k") (auto simp: observe_def split: if_splits)
  qed
  ultimately show ?case by auto
qed simp

text \<open>
  When the slots written for a key are distinct, the current value does not depend on the order
  in which the writes arrive.
\<close>

lemma observe_all_order_independent:
  assumes empty: "cur k m = None"
    and same: "set obs' = set obs"
    and slots: "\<And>v v' s. (k, v, s) \<in> set obs \<Longrightarrow> (k, v', s) \<in> set obs \<Longrightarrow> v = v'"
  shows "cur k (observe_all obs m) = cur k (observe_all obs' m)"
proof -
  have dom: "cur k (observe_all os m) \<noteq> None" if "(k, v, s) \<in> set os" for os v s
    using observe_all_max [OF that, of m] by auto
  show ?thesis
  proof (cases "cur k (observe_all obs m)")
    case None
    have "cur k (observe_all obs' m) = None"
    proof (rule ccontr)
      assume "cur k (observe_all obs' m) \<noteq> None"
      then obtain v s where "(k, v, s) \<in> set obs'"
        using observe_all_origin [of k obs' m] empty by fastforce
      then show False using dom [of v s obs] same None by simp
    qed
    with None show ?thesis by simp
  next
    case (Some a)
    obtain v s where a: "a = (v, s)" by (cases a)
    have vs: "(k, v, s) \<in> set obs"
      using observe_all_origin [of k obs m v s] Some a empty by simp
    then obtain v' s' where b: "cur k (observe_all obs' m) = Some (v', s')" "s \<le> s'"
      using observe_all_max [of k v s obs' m] same by auto
    have vs': "(k, v', s') \<in> set obs"
      using observe_all_origin [of k obs' m v' s'] b empty same by simp
    then have "s' \<le> s"
      using observe_all_max [of k v' s' obs m] Some a by auto
    with b vs vs' slots Some a show ?thesis by auto
  qed
qed

text \<open>A reader at a reference slot sees an observation that is not newer than that slot, and
  sees the current one as soon as the reference slot reaches it.\<close>

lemma read_at_slot:
  assumes "inv m" "cur k m = Some (v, s)" "at_slot k r m = Some (v', s')"
  shows "s' \<le> r \<and> s' \<le> s \<and> (s \<le> r \<longrightarrow> v' = v \<and> s' = s)"
  using at_slot_bound [OF assms(1,3)] at_slot_old [OF assms] at_slot_cur [OF assms(2), of r] assms(3)
  by auto

text \<open>A reader whose reference slot is not before any write reads the current value; when the slots
  written for a key are distinct it reads the same after the writes in any order.\<close>

lemma at_slot_latest:
  assumes "\<And>v s. cur k m = Some (v, s) \<Longrightarrow> s \<le> r"
  shows "at_slot k r m = cur k m"
  using assms at_slot_none at_slot_cur by (cases "cur k m") auto

lemma observe_all_read_order_independent:
  assumes empty: "cur k m = None"
    and same: "set obs' = set obs"
    and slots: "\<And>v v' s. (k, v, s) \<in> set obs \<Longrightarrow> (k, v', s) \<in> set obs \<Longrightarrow> v = v'"
    and past: "\<And>v s. (k, v, s) \<in> set obs \<Longrightarrow> s \<le> r"
  shows "at_slot k r (observe_all obs m) = at_slot k r (observe_all obs' m)"
proof -
  have "at_slot k r (observe_all os m) = cur k (observe_all os m)" if "set os = set obs" for os
    using observe_all_origin [of k os m] past empty that by (intro at_slot_latest) fastforce
  then show ?thesis
    using observe_all_order_independent [OF empty same slots] same by simp
qed

end

end
