(* ===== verification/VersionedMap.thy ===== *)
theory VersionedMap
  imports Access
begin

text \<open>
  The slot-versioned map (\<open>storage/cache/src/versioned_map.rs\<close>), the primitive of the cache.
  A \<open>DashMap\<close> is a map; each operation holds the entry's shard lock from its first to its last
  access, so that a concurrent execution is a sequence of these operations. A \<open>VecDeque\<close> is a
  list, front first.

  The specification is the unbounded log of accepted observations of a key (\<open>log_insert\<close>,
  \<open>observation_log\<close>); the map with depth \<open>d\<close> is its \<open>d + 1\<close> newest elements.
\<close>

section \<open>Data\<close>

record 'a state_with_slot =
  st_state :: 'a
  st_slot :: u64

record 'a versioned_state =
  vs_current :: "'a state_with_slot"
  vs_history :: "'a state_with_slot list"

record ('k, 'a) versioned_map =
  vm_inner :: "'k \<rightharpoonup> 'a versioned_state"
  vm_depth :: nat

definition st_new :: "'a \<Rightarrow> u64 \<Rightarrow> 'a state_with_slot" where
  "st_new v s = \<lparr> st_state = v, st_slot = s \<rparr>"

definition vs_new :: "'a \<Rightarrow> u64 \<Rightarrow> 'a versioned_state" where
  "vs_new v s = \<lparr> vs_current = st_new v s, vs_history = [] \<rparr>"

section \<open>Operations\<close>

definition vm_with_depth :: "nat \<Rightarrow> ('k, 'a) versioned_map" where
  "vm_with_depth d = \<lparr> vm_inner = Map.empty, vm_depth = d \<rparr>"

definition vm_len :: "('k, 'a) versioned_map \<Rightarrow> nat" where
  "vm_len m = card (dom (vm_inner m))"

definition vm_is_empty :: "('k, 'a) versioned_map \<Rightarrow> bool" where
  "vm_is_empty m \<longleftrightarrow> dom (vm_inner m) = {}"

text \<open>\<open>while history.len() > depth { history.pop_back() }\<close>\<close>

function trim_history :: "nat \<Rightarrow> 'b list \<Rightarrow> 'b list" where
  "trim_history d h = (if length h > d then trim_history d (butlast h) else h)"
  by auto

termination trim_history
  by (relation "measure (\<lambda>(d, h). length h)") auto

definition vm_insert ::
  "'k \<Rightarrow> 'a \<Rightarrow> u64 \<Rightarrow> ('k, 'a) versioned_map \<Rightarrow> insert_outcome \<times> ('k, 'a) versioned_map" where
  "vm_insert k v s m =
     (case vm_inner m k of
        None \<Rightarrow> (Inserted, m \<lparr> vm_inner := (vm_inner m)(k \<mapsto> vs_new v s) \<rparr>)
      | Some e \<Rightarrow>
          if s < st_slot (vs_current e) then (Stale, m)
          else if s = st_slot (vs_current e)
          then (UpdatedSameSlot,
                m \<lparr> vm_inner := (vm_inner m)
                      (k \<mapsto> e \<lparr> vs_current := (vs_current e) \<lparr> st_state := v \<rparr> \<rparr>) \<rparr>)
          else (Advanced,
                m \<lparr> vm_inner := (vm_inner m)
                      (k \<mapsto> \<lparr> vs_current = st_new v s,
                             vs_history =
                               (if vm_depth m > 0
                                then trim_history (vm_depth m) (vs_current e # vs_history e)
                                else vs_history e) \<rparr>) \<rparr>))"

definition vm_get :: "'k \<Rightarrow> ('k, 'a) versioned_map \<Rightarrow> 'a option" where
  "vm_get k m = map_option (\<lambda>e. st_state (vs_current e)) (vm_inner m k)"

definition vm_get_with_slot :: "'k \<Rightarrow> ('k, 'a) versioned_map \<Rightarrow> ('a \<times> u64) option" where
  "vm_get_with_slot k m =
     map_option (\<lambda>e. (st_state (vs_current e), st_slot (vs_current e))) (vm_inner m k)"

definition vm_get_at_slot_with_slot ::
  "'k \<Rightarrow> u64 \<Rightarrow> ('k, 'a) versioned_map \<Rightarrow> ('a \<times> u64) option" where
  "vm_get_at_slot_with_slot k r m =
     Option.bind (vm_inner m k) (\<lambda>e.
       if st_slot (vs_current e) \<le> r then Some (st_state (vs_current e), st_slot (vs_current e))
       else map_option (\<lambda>x. (st_state x, st_slot x)) (find (\<lambda>x. st_slot x \<le> r) (vs_history e)))"

definition vm_get_at_slot :: "'k \<Rightarrow> u64 \<Rightarrow> ('k, 'a) versioned_map \<Rightarrow> 'a option" where
  "vm_get_at_slot k r m = map_option fst (vm_get_at_slot_with_slot k r m)"

definition vm_remove :: "'k \<Rightarrow> ('k, 'a) versioned_map \<Rightarrow> 'a option \<times> ('k, 'a) versioned_map" where
  "vm_remove k m =
     (map_option (\<lambda>e. st_state (vs_current e)) (vm_inner m k),
      m \<lparr> vm_inner := (vm_inner m)(k := None) \<rparr>)"

definition vm_clear :: "('k, 'a) versioned_map \<Rightarrow> ('k, 'a) versioned_map" where
  "vm_clear m = m \<lparr> vm_inner := Map.empty \<rparr>"

section \<open>The representation\<close>

lemma trim_history_take: "trim_history d h = take d h"
proof (induction d h rule: trim_history.induct)
  case (1 d h)
  then show ?case
    by (cases "length h > d") (simp_all add: take_butlast)
qed

declare trim_history.simps [simp del]

text \<open>The retained observations of an entry, newest first.\<close>

definition entries :: "'a versioned_state \<Rightarrow> 'a state_with_slot list" where
  "entries e = vs_current e # vs_history e"

definition vm_entries :: "'k \<Rightarrow> ('k, 'a) versioned_map \<Rightarrow> 'a state_with_slot list" where
  "vm_entries k m = (case vm_inner m k of None \<Rightarrow> [] | Some e \<Rightarrow> entries e)"

text \<open>Newest first with distinct slots, and no more history than the depth allows.\<close>

definition entry_wf :: "nat \<Rightarrow> 'a versioned_state \<Rightarrow> bool" where
  "entry_wf d e \<longleftrightarrow> sorted_wrt (\<lambda>x y. st_slot y < st_slot x) (entries e) \<and> length (vs_history e) \<le> d"

definition vm_wf :: "('k, 'a) versioned_map \<Rightarrow> bool" where
  "vm_wf m \<longleftrightarrow> (\<forall>k e. vm_inner m k = Some e \<longrightarrow> entry_wf (vm_depth m) e)"

lemma vm_wf_empty: "vm_wf (vm_with_depth d)"
  by (simp add: vm_wf_def vm_with_depth_def)

lemma vm_wf_entry: "vm_wf m \<Longrightarrow> vm_inner m k = Some e \<Longrightarrow> entry_wf (vm_depth m) e"
  by (simp add: vm_wf_def)

lemma vm_insert_depth [simp]: "vm_depth (snd (vm_insert k v s m)) = vm_depth m"
  by (simp add: vm_insert_def split: option.splits)

lemma vm_insert_other: "k' \<noteq> k \<Longrightarrow> vm_inner (snd (vm_insert k v s m)) k' = vm_inner m k'"
  by (auto simp: vm_insert_def split: option.splits)

lemma entry_wf_advance:
  assumes "entry_wf d e" "st_slot (vs_current e) < s"
  shows "entry_wf d \<lparr> vs_current = st_new v s,
    vs_history = (if d > 0 then trim_history d (vs_current e # vs_history e) else vs_history e) \<rparr>"
  using assms
  by (cases d)
    (auto simp: entry_wf_def entries_def st_new_def trim_history_take sorted_wrt_take
       dest: in_set_takeD less_trans)

lemma vm_insert_vacant:
  "vm_inner m k = None \<Longrightarrow>
   vm_insert k v s m = (Inserted, m \<lparr> vm_inner := (vm_inner m)(k \<mapsto> vs_new v s) \<rparr>)"
  by (simp add: vm_insert_def)

lemma vm_insert_stale:
  "vm_inner m k = Some e \<Longrightarrow> s < st_slot (vs_current e) \<Longrightarrow> vm_insert k v s m = (Stale, m)"
  by (simp add: vm_insert_def)

lemma vm_insert_same:
  "vm_inner m k = Some e \<Longrightarrow> s = st_slot (vs_current e) \<Longrightarrow>
   vm_insert k v s m = (UpdatedSameSlot, m \<lparr> vm_inner := (vm_inner m)
     (k \<mapsto> e \<lparr> vs_current := (vs_current e) \<lparr> st_state := v \<rparr> \<rparr>) \<rparr>)"
  by (simp add: vm_insert_def)

lemma vm_insert_advance:
  "vm_inner m k = Some e \<Longrightarrow> st_slot (vs_current e) < s \<Longrightarrow>
   vm_insert k v s m = (Advanced, m \<lparr> vm_inner := (vm_inner m)
     (k \<mapsto> \<lparr> vs_current = st_new v s, vs_history =
        (if vm_depth m > 0 then trim_history (vm_depth m) (vs_current e # vs_history e)
         else vs_history e) \<rparr>) \<rparr>)"
  by (simp add: vm_insert_def less_not_sym)

lemmas vm_insert_cases = vm_insert_vacant vm_insert_stale vm_insert_same vm_insert_advance

lemma vm_insert_entry_wf:
  assumes "vm_wf m" "vm_inner (snd (vm_insert k v s m)) k = Some e'"
  shows "entry_wf (vm_depth m) e'"
proof (cases "vm_inner m k")
  case None
  with assms(2) show ?thesis
    by (auto simp: vm_insert_cases vs_new_def entry_wf_def entries_def)
next
  case (Some e)
  have wf: "entry_wf (vm_depth m) e"
    using assms(1) Some by (rule vm_wf_entry)
  consider "s < st_slot (vs_current e)" | "s = st_slot (vs_current e)" | "st_slot (vs_current e) < s"
    by (meson linorder_cases)
  then show ?thesis
  proof cases
    case 1
    with assms(2) wf Some show ?thesis by (simp add: vm_insert_stale)
  next
    case 2
    with assms(2) wf Some show ?thesis
      by (auto simp: vm_insert_same entry_wf_def entries_def)
  next
    case 3
    have "e' = \<lparr> vs_current = st_new v s, vs_history =
        (if vm_depth m > 0 then trim_history (vm_depth m) (vs_current e # vs_history e)
         else vs_history e) \<rparr>"
      using assms(2) by (simp add: vm_insert_advance [OF Some 3])
    with entry_wf_advance [OF wf 3] show ?thesis by simp
  qed
qed

lemma vm_wf_insert: "vm_wf m \<Longrightarrow> vm_wf (snd (vm_insert k v s m))"
  unfolding vm_wf_def [of "snd (vm_insert k v s m)"]
proof (intro allI impI)
  fix k' e'
  assume m: "vm_wf m" and e': "vm_inner (snd (vm_insert k v s m)) k' = Some e'"
  show "entry_wf (vm_depth (snd (vm_insert k v s m))) e'"
  proof (cases "k' = k")
    case True
    with m e' show ?thesis by (auto dest: vm_insert_entry_wf)
  next
    case False
    with m e' show ?thesis by (auto simp: vm_insert_other dest: vm_wf_entry)
  qed
qed

lemma vm_get_at_slot_entries:
  "vm_get_at_slot_with_slot k r m =
     map_option (\<lambda>x. (st_state x, st_slot x)) (find (\<lambda>x. st_slot x \<le> r) (vm_entries k m))"
  by (simp add: vm_get_at_slot_with_slot_def vm_entries_def entries_def split: option.split)

section \<open>The map provides the access contract\<close>

lemma vm_get_with_slot_insert:
  "vm_get_with_slot k' (snd (vm_insert k v s m)) =
     (if k' = k \<and> outcome_at (map_option snd (vm_get_with_slot k m)) s \<noteq> Stale
      then Some (v, s) else vm_get_with_slot k' m)"
proof (cases "k' = k")
  case True
  show ?thesis
  proof (cases "vm_inner m k")
    case (Some e)
    consider "s < st_slot (vs_current e)" | "s = st_slot (vs_current e)"
      | "st_slot (vs_current e) < s"
      by (meson linorder_cases)
    then show ?thesis
      by cases (auto simp: True Some vm_get_with_slot_def st_new_def
          vm_insert_stale vm_insert_same vm_insert_advance)
  qed (simp add: True vm_get_with_slot_def vm_insert_vacant vs_new_def st_new_def)
qed (simp add: vm_get_with_slot_def vm_insert_other)

lemma vm_insert_outcome:
  "fst (vm_insert k v s m) = outcome_at (map_option snd (vm_get_with_slot k m)) s"
  by (simp add: vm_insert_def vm_get_with_slot_def split: option.splits)

lemma find_slot_bound: "find (\<lambda>x. st_slot x \<le> r) xs = Some x \<Longrightarrow> st_slot x \<le> r \<and> x \<in> set xs"
  by (auto simp: find_Some_iff)

lemma vm_history_older:
  assumes "vm_wf m" "vm_inner m k = Some e" "x \<in> set (entries e)"
  shows "st_slot x \<le> st_slot (vs_current e)"
  using vm_wf_entry [OF assms(1,2)] assms(3) by (auto simp: entry_wf_def entries_def)

lemma vm_at_slot_old:
  assumes "vm_wf m" "vm_get_with_slot k m = Some (v, s)"
    and "vm_get_at_slot_with_slot k r m = Some (v', s')"
  shows "s' \<le> s"
  using assms vm_history_older [of m k]
  by (auto simp: vm_get_with_slot_def vm_get_at_slot_with_slot_def entries_def
      split: if_splits dest!: find_slot_bound)

lemma vm_at_slot_bound: "vm_get_at_slot_with_slot k r m = Some (v, s) \<Longrightarrow> s \<le> r"
  by (auto simp: vm_get_at_slot_entries dest: find_slot_bound)

lemma vm_at_slot_other:
  "k' \<noteq> k \<Longrightarrow>
   vm_get_at_slot_with_slot k' r (snd (vm_insert k v s m)) = vm_get_at_slot_with_slot k' r m"
  by (simp add: vm_get_at_slot_with_slot_def vm_insert_other)

lemma vm_at_slot_cur:
  "vm_get_with_slot k m = Some (v, s) \<Longrightarrow> s \<le> r \<Longrightarrow> vm_get_at_slot_with_slot k r m = Some (v, s)"
  by (auto simp: vm_get_with_slot_def vm_get_at_slot_with_slot_def)

lemma vm_at_slot_none: "vm_get_with_slot k m = None \<Longrightarrow> vm_get_at_slot_with_slot k r m = None"
  by (simp add: vm_get_with_slot_def vm_get_at_slot_with_slot_def)

interpretation vmap: slot_store vm_insert vm_get_with_slot vm_get_at_slot_with_slot vm_wf
  by unfold_locales
    (assumption | rule vm_insert_outcome vm_wf_insert vm_at_slot_other vm_at_slot_cur
      vm_at_slot_none vm_at_slot_bound vm_at_slot_old | simp add: vm_get_with_slot_insert; fail)+

lemma vm_entries_empty [simp]: "vm_entries k (vm_with_depth d) = []"
  by (simp add: vm_entries_def vm_with_depth_def)

lemma vm_depth_empty [simp]: "vm_depth (vm_with_depth d) = d"
  by (simp add: vm_with_depth_def)

section \<open>Refinement of the observation log\<close>

fun log_insert :: "'v \<Rightarrow> u64 \<Rightarrow> 'v state_with_slot list \<Rightarrow> 'v state_with_slot list" where
  "log_insert v s [] = [st_new v s]"
| "log_insert v s (x # xs) =
     (if s < st_slot x then x # xs
      else if s = st_slot x then st_new v s # xs
      else st_new v s # x # xs)"

definition log_step ::
  "'k \<Rightarrow> ('k, 'v) observation \<Rightarrow> 'v state_with_slot list \<Rightarrow> 'v state_with_slot list" where
  "log_step k ob l = (case ob of (k', v, s) \<Rightarrow> if k' = k then log_insert v s l else l)"

definition observation_log :: "'k \<Rightarrow> ('k, 'v) observation list \<Rightarrow> 'v state_with_slot list" where
  "observation_log k obs = fold (log_step k) obs []"

definition log_lookup :: "u64 \<Rightarrow> 'v state_with_slot list \<Rightarrow> ('v \<times> u64) option" where
  "log_lookup r l = map_option (\<lambda>x. (st_state x, st_slot x)) (find (\<lambda>x. st_slot x \<le> r) l)"

definition vm_run ::
  "('k, 'v) observation list \<Rightarrow> ('k, 'v) versioned_map \<Rightarrow> ('k, 'v) versioned_map" where
  "vm_run obs m = fold (\<lambda>(k, v, s) m. snd (vm_insert k v s m)) obs m"

lemma vm_run_observe_all: "vm_run obs m = vmap.observe_all obs m"
  by (simp add: vm_run_def vmap.observe_all_def vmap.observe_def [abs_def] case_prod_unfold)

lemma vm_run_depth [simp]: "vm_depth (vm_run obs m) = vm_depth m"
  unfolding vm_run_def by (induction obs arbitrary: m) auto

lemma take_log_insert: "take (Suc d) (log_insert v s (take (Suc d) l)) = take (Suc d) (log_insert v s l)"
  by (cases l; cases d) (auto simp: take_Cons')

lemma vm_entries_insert:
  assumes "vm_wf m"
  shows "vm_entries k' (snd (vm_insert k v s m)) =
    (if k' = k then take (Suc (vm_depth m)) (log_insert v s (vm_entries k m)) else vm_entries k' m)"
proof (cases "k' = k \<and> vm_inner m k \<noteq> None")
  case True
  then obtain e where e: "k' = k" "vm_inner m k = Some e" by auto
  have len: "length (vs_history e) \<le> vm_depth m"
    using vm_wf_entry [OF assms e(2)] by (simp add: entry_wf_def)
  consider "s < st_slot (vs_current e)" | "s = st_slot (vs_current e)" | "st_slot (vs_current e) < s"
    by (meson linorder_cases)
  then show ?thesis
    using len e
    by cases (cases "vm_depth m"; auto simp: vm_entries_def entries_def st_new_def
        vm_insert_stale vm_insert_same vm_insert_advance trim_history_take; fail)+
qed (auto simp: vm_entries_def vm_insert_other vm_insert_vacant vs_new_def entries_def)

lemma vm_entries_run:
  "vm_wf m \<Longrightarrow> vm_entries k m = take (Suc (vm_depth m)) l \<Longrightarrow>
   vm_entries k (vm_run obs m) = take (Suc (vm_depth m)) (fold (log_step k) obs l)"
proof (induction obs arbitrary: m l)
  case (Cons ob obs)
  obtain k0 v s where ob: "ob = (k0, v, s)" by (cases ob)
  have "vm_entries k (snd (vm_insert k0 v s m)) = take (Suc (vm_depth m)) (log_step k ob l)"
    using Cons.prems by (auto simp: vm_entries_insert log_step_def ob take_log_insert)
  then show ?case
    using Cons.IH [of "snd (vm_insert k0 v s m)" "log_step k ob l"] Cons.prems
    by (simp add: vm_run_def ob vm_wf_insert)
qed (simp add: vm_run_def)

lemma vm_run_lookup:
  "vm_get_at_slot_with_slot k r (vm_run obs (vm_with_depth d)) =
     log_lookup r (take (Suc d) (observation_log k obs))"
proof -
  have "vm_entries k (vm_run obs (vm_with_depth d)) = take (Suc d) (observation_log k obs)"
    using vm_entries_run [of "vm_with_depth d" k "[]" obs] vm_wf_empty [of d]
    by (simp add: observation_log_def)
  then show ?thesis
    by (simp add: vm_get_at_slot_entries log_lookup_def)
qed

section \<open>What the log holds\<close>

abbreviation "log_sorted l \<equiv> sorted_wrt (\<lambda>x y. st_slot y < st_slot x) l"

lemma st_new_sel [simp]: "st_state (st_new v s) = v" "st_slot (st_new v s) = s"
  by (simp_all add: st_new_def)

lemma log_insert_sorted: "log_sorted l \<Longrightarrow> log_sorted (log_insert v s l)"
  by (cases l) (auto dest: less_trans)

lemma log_insert_set: "set (log_insert v s l) \<subseteq> insert (st_new v s) (set l)"
  by (cases l) auto

lemma observation_log_snoc: "observation_log k (obs @ [ob]) = log_step k ob (observation_log k obs)"
  by (simp add: observation_log_def)

lemma observation_log_Nil [simp]: "observation_log k [] = []"
  by (simp add: observation_log_def)

lemma observation_log_sorted: "log_sorted (observation_log k obs)"
  by (induction obs rule: rev_induct)
    (auto simp: observation_log_snoc log_step_def log_insert_sorted split: prod.split)

lemma observation_log_set:
  "x \<in> set (observation_log k obs) \<Longrightarrow> (k, st_state x, st_slot x) \<in> set obs"
proof (induction obs rule: rev_induct)
  case (snoc ob obs)
  obtain k0 v s where "ob = (k0, v, s)" by (cases ob)
  then show ?case
    using snoc log_insert_set [of v s "observation_log k obs"]
    by (auto simp: observation_log_snoc log_step_def split: if_splits)
qed simp

text \<open>On observations in slot order the log answers with the last observation at or before \<open>r\<close>.\<close>

definition last_at ::
  "'k \<Rightarrow> u64 \<Rightarrow> ('k, 'v) observation list \<Rightarrow> ('v \<times> u64) option" where
  "last_at k r obs =
     (if filter (\<lambda>(k', _, s). k' = k \<and> s \<le> r) obs = [] then None
      else Some (snd (last (filter (\<lambda>(k', _, s). k' = k \<and> s \<le> r) obs))))"

lemma last_at_Nil [simp]: "last_at k r [] = None"
  by (simp add: last_at_def)

lemma last_at_snoc:
  "last_at k r (obs @ [(k', v, s)]) = (if k' = k \<and> s \<le> r then Some (v, s) else last_at k r obs)"
  by (auto simp: last_at_def)

definition in_slot_order :: "'k \<Rightarrow> ('k, 'v) observation list \<Rightarrow> bool" where
  "in_slot_order k obs \<longleftrightarrow> sorted (map (\<lambda>(_, _, s). s) (filter (\<lambda>(k', _). k' = k) obs))"

lemma in_slot_order_snoc:
  "in_slot_order k (obs @ [(k', v, s)]) \<longleftrightarrow>
   in_slot_order k obs \<and> (k' = k \<longrightarrow> (\<forall>v' s'. (k, v', s') \<in> set obs \<longrightarrow> s' \<le> s))"
  by (force simp: in_slot_order_def sorted_append)

lemma log_lookup_in_order:
  "in_slot_order k obs \<Longrightarrow> log_lookup r (observation_log k obs) = last_at k r obs"
proof (induction obs rule: rev_induct)
  case (snoc ob obs)
  obtain k0 v s where ob: "ob = (k0, v, s)" by (cases ob)
  have IH: "log_lookup r (observation_log k obs) = last_at k r obs"
    using snoc by (simp add: ob in_slot_order_snoc)
  show ?case
  proof (cases "k0 = k")
    case True
    have le: "\<forall>x \<in> set (observation_log k obs). \<not> s < st_slot x"
      using observation_log_set [of _ k obs] snoc.prems
      by (fastforce simp: ob True in_slot_order_snoc not_less)
    show ?thesis
      using IH le
      by (cases "observation_log k obs")
        (auto simp: ob True observation_log_snoc log_step_def last_at_snoc log_lookup_def)
  qed (use IH in \<open>simp add: ob observation_log_snoc log_step_def last_at_snoc\<close>)
qed (simp add: log_lookup_def)

text \<open>Truncation loses no answer when at most \<open>d\<close> elements are newer than \<open>r\<close>.\<close>

lemma log_lookup_take:
  assumes "length (takeWhile (\<lambda>x. \<not> st_slot x \<le> r) l) \<le> d"
  shows "log_lookup r (take (Suc d) l) = log_lookup r l"
  using assms
proof (induction l arbitrary: d)
  case (Cons x l)
  then show ?case
    by (cases d) (auto simp: log_lookup_def split: if_splits)
qed (simp add: log_lookup_def)

lemma log_sorted_distinct: "log_sorted l \<Longrightarrow> distinct (map st_slot l)"
  by (induction l) auto

lemma newer_slots_bound:
  "length (takeWhile (\<lambda>x. \<not> st_slot x \<le> r) (observation_log k obs)) \<le>
   card {s. r < s \<and> (\<exists>v. (k, v, s) \<in> set obs)}"
proof -
  let ?t = "takeWhile (\<lambda>x. \<not> st_slot x \<le> r) (observation_log k obs)"
  have "log_sorted ?t"
    using observation_log_sorted [of k obs]
    by (metis sorted_wrt_append takeWhile_dropWhile_id)
  then have "distinct (map st_slot ?t)"
    by (rule log_sorted_distinct)
  moreover have "set (map st_slot ?t) \<subseteq> {s. r < s \<and> (\<exists>v. (k, v, s) \<in> set obs)}"
  proof
    fix s
    assume "s \<in> set (map st_slot ?t)"
    then obtain x where "x \<in> set ?t" "s = st_slot x" by auto
    then show "s \<in> {s. r < s \<and> (\<exists>v. (k, v, s) \<in> set obs)}"
      using set_takeWhileD [of x _ "observation_log k obs"] observation_log_set [of x k obs]
      by (auto simp: not_le)
  qed
  moreover have "finite {s. r < s \<and> (\<exists>v. (k, v, s) \<in> set obs)}"
    by (rule finite)
  ultimately show ?thesis
    using card_mono [of _ "set (map st_slot ?t)"] distinct_card [of "map st_slot ?t"] by simp
qed

lemma vm_as_of_slot:
  assumes "in_slot_order k obs"
    and "card {s. r < s \<and> (\<exists>v. (k, v, s) \<in> set obs)} \<le> d"
  shows "vm_get_at_slot_with_slot k r (vm_run obs (vm_with_depth d)) = last_at k r obs"
proof -
  have "length (takeWhile (\<lambda>x. \<not> st_slot x \<le> r) (observation_log k obs)) \<le> d"
    using newer_slots_bound [of r k obs] assms(2) by linarith
  then show ?thesis
    by (simp add: vm_run_lookup log_lookup_take log_lookup_in_order assms(1))
qed

lemma in_slot_order_filter: "in_slot_order k obs \<Longrightarrow> in_slot_order k (filter P obs)"
proof (induction obs rule: rev_induct)
  case (snoc ob obs)
  then show ?case
    by (cases ob) (auto simp: in_slot_order_snoc)
qed simp

text \<open>Within the depth, later observations are as if they had not been made.\<close>

lemma vm_read_past:
  assumes "in_slot_order k obs"
    and "card {s. r < s \<and> (\<exists>v. (k, v, s) \<in> set obs)} \<le> d"
  shows "vm_get_at_slot_with_slot k r (vm_run obs (vm_with_depth d)) =
    vm_get_at_slot_with_slot k r (vm_run (filter (\<lambda>(_, _, s). s \<le> r) obs) (vm_with_depth d))"
proof -
  let ?old = "filter (\<lambda>(_, _, s). s \<le> r) obs"
  have none: "card {s. r < s \<and> (\<exists>v. (k, v, s) \<in> set ?old)} \<le> d"
  proof -
    have "{s. r < s \<and> (\<exists>v. (k, v, s) \<in> set ?old)} = {}"
      by auto
    then show ?thesis
      by (simp only: card.empty le0)
  qed
  have "vm_get_at_slot_with_slot k r (vm_run ?old (vm_with_depth d)) = last_at k r ?old"
    using none by (intro vm_as_of_slot in_slot_order_filter assms(1))
  also have "\<dots> = last_at k r obs"
    unfolding last_at_def filter_filter by (simp add: case_prod_unfold conj_comms cong: conj_cong)
  finally show ?thesis
    using vm_as_of_slot [OF assms] by simp
qed

section \<open>Reachable maps\<close>

inductive vm_reachable :: "nat \<Rightarrow> ('k, 'a) versioned_map \<Rightarrow> bool" for d where
  vm_init: "vm_reachable d (vm_with_depth d)"
| vm_ins: "vm_reachable d m \<Longrightarrow> vm_reachable d (snd (vm_insert k v s m))"
| vm_rem: "vm_reachable d m \<Longrightarrow> vm_reachable d (snd (vm_remove k m))"
| vm_clr: "vm_reachable d m \<Longrightarrow> vm_reachable d (vm_clear m)"

lemma vm_wf_remove: "vm_wf m \<Longrightarrow> vm_wf (snd (vm_remove k m))"
  by (auto simp: vm_wf_def vm_remove_def)

lemma vm_wf_clear: "vm_wf (vm_clear m)"
  by (simp add: vm_wf_def vm_clear_def)

lemma vm_reachable_invariant: "vm_reachable d m \<Longrightarrow> vm_wf m \<and> vm_depth m = d"
  by (induction rule: vm_reachable.induct)
    (simp_all add: vm_wf_empty vm_wf_insert vm_wf_remove vm_wf_clear, simp_all add: vm_remove_def vm_clear_def)

section \<open>Properties\<close>

text \<open>C26: The versioned map refines the unbounded log of accepted observations: after any
  sequence of insertions into an empty map of depth \<open>d\<close>, a read at a reference slot answers as
  the log's \<open>d + 1\<close> newest observations do.\<close>

theorem vm_refines_observation_log:
  "vm_get_at_slot_with_slot k r (vm_run obs (vm_with_depth d)) =
     log_lookup r (take (Suc d) (observation_log k obs))"
  by (rule vm_run_lookup)

text \<open>C11: When the observations of a key arrive in slot order and at most \<open>depth\<close> of its slots are
  newer than the reference slot, a read at the reference slot returns exactly the last
  observation of the key at or before it: the state as of that slot.\<close>

theorem vm_state_as_of_slot:
  assumes "in_slot_order k obs"
    and "card {s. r < s \<and> (\<exists>v. (k, v, s) \<in> set obs)} \<le> d"
  shows "vm_get_at_slot_with_slot k r (vm_run obs (vm_with_depth d)) = last_at k r obs"
  using assms by (rule vm_as_of_slot)

lemma vm_state_as_of_slot_witness:
  "vm_get_at_slot_with_slot ''k'' 15
     (vm_run [(''k'', 1::nat, 10), (''k'', 2, 20)] (vm_with_depth 1)) = Some (1, 10)"
proof -
  have "{s. (15::u64) < s \<and> (\<exists>v. (''k'', v, s) \<in> set [(''k'', 1::nat, 10), (''k'', 2, 20)])} = {20}"
    by auto
  then have card: "card {s. (15::u64) < s \<and>
      (\<exists>v. (''k'', v, s) \<in> set [(''k'', 1::nat, 10), (''k'', 2, 20)])} \<le> 1"
    by (simp only: card.insert finite.emptyI card.empty) simp
  show ?thesis
    using vm_state_as_of_slot [OF _ card] by (simp add: in_slot_order_def last_at_def)
qed

text \<open>When no slot carries two different values of a key, the current value of the key after a
  set of insertions is the same in whatever order (and however often) they arrive.\<close>

lemma vm_current_order_independent:
  assumes "set obs' = set obs"
    and "\<forall>v v' s. (k, v, s) \<in> set obs \<longrightarrow> (k, v', s) \<in> set obs \<longrightarrow> v = v'"
  shows "vm_get_with_slot k (vm_run obs (vm_with_depth d)) =
         vm_get_with_slot k (vm_run obs' (vm_with_depth d))"
  unfolding vm_run_observe_all
  by (rule vmap.observe_all_order_independent)
    (use assms in \<open>auto simp: vm_get_with_slot_def vm_with_depth_def\<close>)

text \<open>Every map reachable by insertions, removals and clears keeps each entry's observations
  newest first with distinct slots, and at most \<open>depth\<close> of them beside the current one.\<close>

lemma vm_reachable_wf:
  assumes "vm_reachable d m" "vm_inner m k = Some e"
  shows "sorted_wrt (\<lambda>x y. st_slot y < st_slot x) (vs_current e # vs_history e) \<and>
         length (vs_history e) \<le> d"
  using vm_reachable_invariant [OF assms(1)] vm_wf_entry [OF _ assms(2)]
  by (auto simp: entry_wf_def entries_def)

end
