(* ===== verification/F64.thy ===== *)
theory F64
  imports Prelude
begin

text \<open>
  Rust's \<open>f64\<close>: IEEE 754 binary64 with rounding to nearest, ties to even, as an executable
  type. A finite value is a sign, a mantissa below \<open>2 ^ 53\<close> and an exponent of at least
  \<open>-1074\<close>; every operator computes the exact result as a fraction times a power of two and
  rounds it once (\<open>round_q\<close>). Casts to integers truncate and saturate, and send NaN to 0, as
  \<open>as u16\<close> and its kin do.

  \<open>powi\<close> is repeated squaring with one final reciprocal for a negative exponent (the runtime's
  own loop). \<open>powf\<close> and \<open>ln\<close>, whose precision Rust leaves unspecified, are the fields of a
  record \<open>libm\<close> that the definitions using them take.
\<close>

section \<open>Values\<close>

datatype f64 = F_NaN | F_Inf bool | F_Fin bool nat int

definition f_zero :: "bool \<Rightarrow> f64" where
  "f_zero s = F_Fin s 0 (-1074)"

abbreviation f_0 :: f64 where
  "f_0 \<equiv> f_zero False"

fun bit_length :: "nat \<Rightarrow> nat" where
  "bit_length n = (if n = 0 then 0 else Suc (bit_length (n div 2)))"

declare bit_length.simps [simp del]

definition ge_pow2 :: "nat \<Rightarrow> nat \<Rightarrow> int \<Rightarrow> bool" where
  "ge_pow2 n d b = (if 0 \<le> b then d * 2 ^ nat b \<le> n else d \<le> n * 2 ^ nat (- b))"

definition round_qr :: "nat \<Rightarrow> nat \<Rightarrow> nat \<Rightarrow> nat" where
  "round_qr d q r = (if 2 * r < d \<or> (2 * r = d \<and> even q) then q else q + 1)"

definition round_div :: "nat \<Rightarrow> nat \<Rightarrow> nat" where
  "round_div n d = round_qr d (n div d) (n mod d)"

text \<open>
  The double nearest to \<open>n / d * 2 ^ e\<close> (with \<open>0 < d\<close>): the exponent of the last place from
  the bit lengths, the mantissa rounded there, a carry out of 53 bits, overflow to infinity.
\<close>

definition floor_log :: "nat \<Rightarrow> nat \<Rightarrow> int \<Rightarrow> int" where
  "floor_log n d b = (if ge_pow2 n d b then b else b - 1)"

definition ulp_exp :: "nat \<Rightarrow> nat \<Rightarrow> int \<Rightarrow> int" where
  "ulp_exp n d e =
     max (floor_log n d (int (bit_length n) - int (bit_length d)) + e - 52) (-1074)"

definition pack :: "bool \<Rightarrow> nat \<Rightarrow> int \<Rightarrow> f64" where
  "pack s m u = (if 971 < u then F_Inf s else F_Fin s m u)"

definition carry :: "bool \<Rightarrow> nat \<Rightarrow> int \<Rightarrow> f64" where
  "carry s m u = (if m = 2 ^ 53 then pack s (2 ^ 52) (u + 1) else pack s m u)"

definition round_at :: "bool \<Rightarrow> nat \<Rightarrow> nat \<Rightarrow> int \<Rightarrow> int \<Rightarrow> f64" where
  "round_at s n d e u =
     carry s (if u \<le> e then round_div (n * 2 ^ nat (e - u)) d
              else round_div n (d * 2 ^ nat (u - e))) u"

definition round_q :: "bool \<Rightarrow> nat \<Rightarrow> nat \<Rightarrow> int \<Rightarrow> f64" where
  "round_q s n d e = (if n = 0 then f_zero s else round_at s n d e (ulp_exp n d e))"

definition f_of_nat :: "nat \<Rightarrow> f64" where
  "f_of_nat n = round_q False n 1 0"

definition f_of_int :: "int \<Rightarrow> f64" where
  "f_of_int i = round_q (i < 0) (nat \<bar>i\<bar>) 1 0"

section \<open>Arithmetic\<close>

fun f_neg :: "f64 \<Rightarrow> f64" where
  "f_neg F_NaN = F_NaN"
| "f_neg (F_Inf s) = F_Inf (\<not> s)"
| "f_neg (F_Fin s m e) = F_Fin (\<not> s) m e"

fun f_abs :: "f64 \<Rightarrow> f64" where
  "f_abs F_NaN = F_NaN"
| "f_abs (F_Inf _) = F_Inf False"
| "f_abs (F_Fin _ m e) = F_Fin False m e"

definition signed_at :: "bool \<Rightarrow> nat \<Rightarrow> int \<Rightarrow> int \<Rightarrow> int" where
  "signed_at s m e e0 = (if s then - int (m * 2 ^ nat (e - e0)) else int (m * 2 ^ nat (e - e0)))"

text \<open>An exact zero sum is negative only if both operands are.\<close>

definition round_sum :: "bool \<Rightarrow> int \<Rightarrow> int \<Rightarrow> f64" where
  "round_sum s v e = (if v = 0 then f_zero s else round_q (v < 0) (nat \<bar>v\<bar>) 1 e)"

fun f_add :: "f64 \<Rightarrow> f64 \<Rightarrow> f64" where
  "f_add F_NaN _ = F_NaN"
| "f_add _ F_NaN = F_NaN"
| "f_add (F_Inf s) (F_Inf t) = (if s = t then F_Inf s else F_NaN)"
| "f_add (F_Inf s) (F_Fin _ _ _) = F_Inf s"
| "f_add (F_Fin _ _ _) (F_Inf t) = F_Inf t"
| "f_add (F_Fin s m e) (F_Fin t n f) =
     round_sum (s \<and> t) (signed_at s m e (min e f) + signed_at t n f (min e f)) (min e f)"

definition f_sub :: "f64 \<Rightarrow> f64 \<Rightarrow> f64" where
  "f_sub a b = f_add a (f_neg b)"

fun f_mul :: "f64 \<Rightarrow> f64 \<Rightarrow> f64" where
  "f_mul F_NaN _ = F_NaN"
| "f_mul _ F_NaN = F_NaN"
| "f_mul (F_Inf s) (F_Inf t) = F_Inf (s \<noteq> t)"
| "f_mul (F_Inf s) (F_Fin t n _) = (if n = 0 then F_NaN else F_Inf (s \<noteq> t))"
| "f_mul (F_Fin s m _) (F_Inf t) = (if m = 0 then F_NaN else F_Inf (s \<noteq> t))"
| "f_mul (F_Fin s m e) (F_Fin t n f) = round_q (s \<noteq> t) (m * n) 1 (e + f)"

fun f_div :: "f64 \<Rightarrow> f64 \<Rightarrow> f64" where
  "f_div F_NaN _ = F_NaN"
| "f_div _ F_NaN = F_NaN"
| "f_div (F_Inf _) (F_Inf _) = F_NaN"
| "f_div (F_Inf s) (F_Fin t _ _) = F_Inf (s \<noteq> t)"
| "f_div (F_Fin s _ _) (F_Inf t) = f_zero (s \<noteq> t)"
| "f_div (F_Fin s m e) (F_Fin t n f) =
     (if n = 0 then (if m = 0 then F_NaN else F_Inf (s \<noteq> t))
      else round_q (s \<noteq> t) m n (e - f))"

section \<open>Comparisons\<close>

fun f_lt :: "f64 \<Rightarrow> f64 \<Rightarrow> bool" where
  "f_lt F_NaN _ = False"
| "f_lt _ F_NaN = False"
| "f_lt (F_Inf s) (F_Inf t) = (s \<and> \<not> t)"
| "f_lt (F_Inf s) (F_Fin _ _ _) = s"
| "f_lt (F_Fin _ _ _) (F_Inf t) = (\<not> t)"
| "f_lt (F_Fin s m e) (F_Fin t n f) = (signed_at s m e (min e f) < signed_at t n f (min e f))"

fun f_eq :: "f64 \<Rightarrow> f64 \<Rightarrow> bool" where
  "f_eq F_NaN _ = False"
| "f_eq _ F_NaN = False"
| "f_eq (F_Inf s) (F_Inf t) = (s = t)"
| "f_eq (F_Inf _) (F_Fin _ _ _) = False"
| "f_eq (F_Fin _ _ _) (F_Inf _) = False"
| "f_eq (F_Fin s m e) (F_Fin t n f) = (signed_at s m e (min e f) = signed_at t n f (min e f))"

definition f_le :: "f64 \<Rightarrow> f64 \<Rightarrow> bool" where
  "f_le a b = (f_lt a b \<or> f_eq a b)"

definition f_gt :: "f64 \<Rightarrow> f64 \<Rightarrow> bool" where
  "f_gt a b = f_lt b a"

text \<open>\<open>f64::min\<close> returns the other operand when one is NaN.\<close>

definition f_min :: "f64 \<Rightarrow> f64 \<Rightarrow> f64" where
  "f_min a b = (if a = F_NaN then b else if b = F_NaN then a else if f_lt b a then b else a)"

fun f_floor :: "f64 \<Rightarrow> f64" where
  "f_floor F_NaN = F_NaN"
| "f_floor (F_Inf s) = F_Inf s"
| "f_floor (F_Fin s m e) =
     (if 0 \<le> e then F_Fin s m e
      else round_q s (if s \<and> m mod 2 ^ nat (- e) \<noteq> 0 then m div 2 ^ nat (- e) + 1
                      else m div 2 ^ nat (- e)) 1 0)"

section \<open>Casts to integers\<close>

text \<open>\<open>as u16\<close>, \<open>as u64\<close>, \<open>as u128\<close>: truncate, saturate, NaN to 0.\<close>

fun f_to_uint :: "nat \<Rightarrow> f64 \<Rightarrow> nat" where
  "f_to_uint w F_NaN = 0"
| "f_to_uint w (F_Inf s) = (if s then 0 else 2 ^ w - 1)"
| "f_to_uint w (F_Fin s m e) =
     (if s then 0
      else min (2 ^ w - 1) (if 0 \<le> e then m * 2 ^ nat e else m div 2 ^ nat (- e)))"

definition f_as_u16 :: "f64 \<Rightarrow> u16" where
  "f_as_u16 x = word_of_nat (f_to_uint 16 x)"

text \<open>\<open>as i32\<close>.\<close>

definition f_as_i32 :: "f64 \<Rightarrow> int" where
  "f_as_i32 x =
     (if f_lt x (f_zero False) then - int (min (2 ^ 31) (f_to_uint 64 (f_abs x)))
      else int (min (2 ^ 31 - 1) (f_to_uint 64 x)))"

text \<open>
  The mathematical functions whose precision Rust leaves to the platform: parameters of the
  definitions that use them, about which nothing is assumed.
\<close>

record libm =
  lm_powf :: "f64 \<Rightarrow> f64 \<Rightarrow> f64"
  lm_ln :: "f64 \<Rightarrow> f64"

section \<open>powi\<close>

function powi_loop :: "f64 \<Rightarrow> f64 \<Rightarrow> nat \<Rightarrow> f64" where
  "powi_loop r a b =
     (if b div 2 = 0 then (if odd b then f_mul r a else r)
      else powi_loop (if odd b then f_mul r a else r) (f_mul a a) (b div 2))"
  by pat_completeness auto
termination
  by (relation "measure (\<lambda>(r, a, b). b)") auto

declare powi_loop.simps [simp del]

definition f_powi :: "f64 \<Rightarrow> int \<Rightarrow> f64" where
  "f_powi a k =
     (if k < 0 then f_div (f_of_nat 1) (powi_loop (f_of_nat 1) a (nat \<bar>k\<bar>))
      else powi_loop (f_of_nat 1) a (nat \<bar>k\<bar>))"

text \<open>The equations that evaluate a closed term by \<open>simp\<close>.\<close>

lemmas f64_eval =
  f_of_nat_def f_of_int_def f_zero_def round_q_def bit_length.simps ge_pow2_def round_div_def
  round_qr_def floor_log_def ulp_exp_def pack_def carry_def round_at_def round_sum_def
  signed_at_def f_sub_def f_powi_def powi_loop.simps f_le_def f_gt_def f_min_def f_as_u16_def

section \<open>Facts\<close>

lemma f_to_uint_bound: "f_to_uint w x < 2 ^ w"
  by (induction w x rule: f_to_uint.induct)
    (auto simp: min_def intro: order_le_less_trans [of _ "2 ^ _ - 1"])

lemma f_zero_not_gt: "\<not> f_gt (f_zero False) (f_zero False)"
  by (simp add: f_gt_def f_zero_def)

end
