(* ===== verification/SwapTypes.thy ===== *)
theory SwapTypes
  imports Prelude F64
begin

text \<open>
  The types every protocol's quoting code shares: the unified error
  (\<open>solana/protocols/src/error.rs\<close>), swap directions, amounts and parameters and the slippage
  arithmetic (\<open>traits.rs\<close>), the swap output and its builder (\<open>events/mod.rs\<close>). The trait
  \<open>SwapMath\<close> is the locale \<open>swap_math\<close>; each protocol's theory interprets it.
\<close>

section \<open>Errors\<close>

text \<open>A \<open>String\<close> payload is a \<open>string\<close>; a wrapped \<open>anyhow::Error\<close> is its text.\<close>

datatype error =
    InvalidAccountData string
  | DiscriminatorMismatch string string
  | AccountDataTooShort nat nat
  | ZeroAmount
  | InsufficientLiquidityData
  | InsufficientReserves u64 u64
  | ExcessivePriceImpact u16 u16
  | ArithmeticOverflow
  | FeesExceedOutput u64 u64
  | BondingCurveCompleted
  | PoolPaused string
  | PoolNotFound pubkey
  | MissingAccount string
  | InvalidPubkey string string
  | IdlHashMismatch string string string
  | IdlNotFound string
  | ProtocolError string string
  | OtherError string
  | BoxedError string

text \<open>\<open>hex::encode\<close>: two lower-case hexadecimal digits a byte.\<close>

definition hex_digits :: string where
  "hex_digits = ''0123456789abcdef''"

definition hex_encode :: "bytes \<Rightarrow> string" where
  "hex_encode bs =
     concat (map (\<lambda>b. [hex_digits ! (unat b div 16), hex_digits ! (unat b mod 16)]) bs)"

definition invalid_account_data :: "string \<Rightarrow> error" where
  "invalid_account_data m = InvalidAccountData m"

definition protocol_error :: "string \<Rightarrow> string \<Rightarrow> error" where
  "protocol_error p m = ProtocolError p m"

definition discriminator_mismatch :: "bytes \<Rightarrow> bytes \<Rightarrow> error" where
  "discriminator_mismatch e a = DiscriminatorMismatch (hex_encode e) (hex_encode a)"

definition parse_error :: "string \<Rightarrow> error" where
  "parse_error m = InvalidAccountData m"

definition swap_error :: "string \<Rightarrow> error" where
  "swap_error m = ProtocolError ''swap'' m"

fun is_recoverable :: "error \<Rightarrow> bool" where
  "is_recoverable (InsufficientReserves _ _) = True"
| "is_recoverable (ExcessivePriceImpact _ _) = True"
| "is_recoverable _ = False"

fun is_permanent :: "error \<Rightarrow> bool" where
  "is_permanent BondingCurveCompleted = True"
| "is_permanent (PoolNotFound _) = True"
| "is_permanent (PoolPaused _) = True"
| "is_permanent _ = False"

section \<open>Directions, amounts and parameters\<close>

datatype swap_direction = Buy | Sell

definition is_buy :: "swap_direction \<Rightarrow> bool" where
  "is_buy d = (case d of Buy \<Rightarrow> True | Sell \<Rightarrow> False)"

definition is_sell :: "swap_direction \<Rightarrow> bool" where
  "is_sell d = (case d of Sell \<Rightarrow> True | Buy \<Rightarrow> False)"

fun opposite :: "swap_direction \<Rightarrow> swap_direction" where
  "opposite Buy = Sell"
| "opposite Sell = Buy"

datatype swap_amount = ExactIn u64 | ExactOut u64

fun amount :: "swap_amount \<Rightarrow> u64" where
  "amount (ExactIn a) = a"
| "amount (ExactOut a) = a"

fun amount_is_exact_in :: "swap_amount \<Rightarrow> bool" where
  "amount_is_exact_in (ExactIn _) = True"
| "amount_is_exact_in (ExactOut _) = False"

fun amount_is_exact_out :: "swap_amount \<Rightarrow> bool" where
  "amount_is_exact_out (ExactOut _) = True"
| "amount_is_exact_out (ExactIn _) = False"

record swap_params =
  sp_amount :: swap_amount
  sp_direction :: swap_direction

definition buy :: "u64 \<Rightarrow> swap_params" where
  "buy a = \<lparr> sp_amount = ExactIn a, sp_direction = Buy \<rparr>"

definition sell :: "u64 \<Rightarrow> swap_params" where
  "sell a = \<lparr> sp_amount = ExactIn a, sp_direction = Sell \<rparr>"

definition buy_exact_out :: "u64 \<Rightarrow> swap_params" where
  "buy_exact_out a = \<lparr> sp_amount = ExactOut a, sp_direction = Buy \<rparr>"

definition sell_exact_out :: "u64 \<Rightarrow> swap_params" where
  "sell_exact_out a = \<lparr> sp_amount = ExactOut a, sp_direction = Sell \<rparr>"

definition is_exact_in :: "swap_params \<Rightarrow> bool" where
  "is_exact_in p = amount_is_exact_in (sp_amount p)"

definition is_exact_out :: "swap_params \<Rightarrow> bool" where
  "is_exact_out p = amount_is_exact_out (sp_amount p)"

definition amount_value :: "swap_params \<Rightarrow> u64" where
  "amount_value p = amount (sp_amount p)"

section \<open>Slippage\<close>

record slippage =
  sl_bps :: u16

definition slippage_new :: "u16 \<Rightarrow> slippage" where
  "slippage_new b = \<lparr> sl_bps = b \<rparr>"

definition from_percent :: "f64 \<Rightarrow> slippage" where
  "from_percent p = \<lparr> sl_bps = f_as_u16 (f_mul p (f_of_nat 100)) \<rparr>"

definition as_percent :: "slippage \<Rightarrow> f64" where
  "as_percent s = f_div (f_of_nat (unat (sl_bps s))) (f_of_nat 100)"

definition slippage_default :: slippage where
  "slippage_default = slippage_new 100"

text \<open>The \<open>u128\<close> computation that \<open>Slippage\<close> and \<open>SwapOutput\<close> both write out.\<close>

definition scale_down :: "bool \<Rightarrow> u64 \<Rightarrow> u16 \<Rightarrow> u64 option" where
  "scale_down oc a b = do {
     k \<leftarrow> u_sub oc 128 10000 (unat b);
     p \<leftarrow> u_mul oc 128 (unat a) k;
     q \<leftarrow> u_div p 10000;
     Some (as_u64 q)
   }"

definition scale_up :: "bool \<Rightarrow> u64 \<Rightarrow> u16 \<Rightarrow> u64 option" where
  "scale_up oc a b = do {
     k \<leftarrow> u_add oc 128 10000 (unat b);
     p \<leftarrow> u_mul oc 128 (unat a) k;
     q \<leftarrow> u_div p 10000;
     Some (as_u64 q)
   }"

definition apply_min :: "bool \<Rightarrow> slippage \<Rightarrow> u64 \<Rightarrow> u64 option" where
  "apply_min oc s a = scale_down oc a (sl_bps s)"

definition apply_max :: "bool \<Rightarrow> slippage \<Rightarrow> u64 \<Rightarrow> u64 option" where
  "apply_max oc s a = scale_up oc a (sl_bps s)"

section \<open>Swap output\<close>

record swap_output =
  so_amount_in :: u64
  so_amount_out :: u64
  so_fee :: u64
  so_protocol_fee :: u64
  so_lp_fee :: u64
  so_price_impact_bps :: u16
  so_effective_price :: f64
  so_post_swap_price :: f64
  so_accounts_used :: "pubkey list"

definition swap_output_new :: "u64 \<Rightarrow> u64 \<Rightarrow> u64 \<Rightarrow> u64 \<Rightarrow> u64 \<Rightarrow> swap_output" where
  "swap_output_new ain aout fee pf lf =
     \<lparr> so_amount_in = ain, so_amount_out = aout, so_fee = fee, so_protocol_fee = pf, so_lp_fee = lf,
       so_price_impact_bps = 0, so_effective_price = f_0, so_post_swap_price = f_0,
       so_accounts_used = [] \<rparr>"

definition swap_output_simple :: "u64 \<Rightarrow> u64 \<Rightarrow> u64 \<Rightarrow> swap_output" where
  "swap_output_simple ain aout fee =
     \<lparr> so_amount_in = ain, so_amount_out = aout, so_fee = fee, so_protocol_fee = fee, so_lp_fee = 0,
       so_price_impact_bps = 0, so_effective_price = f_0, so_post_swap_price = f_0,
       so_accounts_used = [] \<rparr>"

definition with_price_impact :: "u16 \<Rightarrow> swap_output \<Rightarrow> swap_output" where
  "with_price_impact b o1 = o1 \<lparr> so_price_impact_bps := b \<rparr>"

definition with_effective_price :: "f64 \<Rightarrow> swap_output \<Rightarrow> swap_output" where
  "with_effective_price p o1 = o1 \<lparr> so_effective_price := p \<rparr>"

definition with_post_swap_price :: "f64 \<Rightarrow> swap_output \<Rightarrow> swap_output" where
  "with_post_swap_price p o1 = o1 \<lparr> so_post_swap_price := p \<rparr>"

definition min_output :: "bool \<Rightarrow> swap_output \<Rightarrow> u16 \<Rightarrow> u64 option" where
  "min_output oc o1 b = scale_down oc (so_amount_out o1) b"

definition max_input :: "bool \<Rightarrow> swap_output \<Rightarrow> u16 \<Rightarrow> u64 option" where
  "max_input oc o1 b = scale_up oc (so_amount_in o1) b"

definition has_high_impact :: "swap_output \<Rightarrow> bool" where
  "has_high_impact o1 \<longleftrightarrow> so_price_impact_bps o1 > 100"

definition fee_percentage :: "swap_output \<Rightarrow> f64" where
  "fee_percentage o1 =
     (if so_amount_in o1 = 0 then f_0
      else f_mul (f_div (f_of_nat (unat (so_fee o1))) (f_of_nat (unat (so_amount_in o1))))
             (f_of_nat 100))"

definition swap_output_default :: swap_output where
  "swap_output_default =
     \<lparr> so_amount_in = 0, so_amount_out = 0, so_fee = 0, so_protocol_fee = 0, so_lp_fee = 0,
       so_price_impact_bps = 0, so_effective_price = f_0, so_post_swap_price = f_0,
       so_accounts_used = [] \<rparr>"

record swap_output_builder =
  sb_accounts_used :: "pubkey list"
  sb_amount_in :: u64
  sb_amount_out :: u64
  sb_protocol_fee :: u64
  sb_lp_fee :: u64
  sb_price_impact_bps :: u16
  sb_effective_price :: f64
  sb_post_swap_price :: f64

definition builder_new :: swap_output_builder where
  "builder_new =
     \<lparr> sb_accounts_used = [], sb_amount_in = 0, sb_amount_out = 0, sb_protocol_fee = 0,
       sb_lp_fee = 0, sb_price_impact_bps = 0, sb_effective_price = f_0,
       sb_post_swap_price = f_0 \<rparr>"

text \<open>The total fee is a \<open>u64\<close> sum.\<close>

definition build :: "bool \<Rightarrow> swap_output_builder \<Rightarrow> swap_output option" where
  "build oc b = do {
     fee \<leftarrow> u_add oc 64 (unat (sb_protocol_fee b)) (unat (sb_lp_fee b));
     Some \<lparr> so_amount_in = sb_amount_in b, so_amount_out = sb_amount_out b, so_fee = as_u64 fee,
            so_protocol_fee = sb_protocol_fee b, so_lp_fee = sb_lp_fee b,
            so_price_impact_bps = sb_price_impact_bps b,
            so_effective_price = sb_effective_price b,
            so_post_swap_price = sb_post_swap_price b, so_accounts_used = sb_accounts_used b \<rparr>
   }"

section \<open>Facts\<close>

lemma unat_u16_less: "unat (b :: u16) < 65536"
  using unsigned_less [of b] by simp

lemma scale_down_ok:
  "unat b \<le> 10000 \<Longrightarrow> scale_down oc a b = Some (as_u64 (unat a * (10000 - unat b) div 10000))"
proof -
  assume "unat b \<le> 10000"
  moreover have "unat a * (10000 - unat b) < 2 ^ 128"
    using unat_u64_less [of a] by (intro mult_u64_fits) auto
  ultimately show ?thesis
    by (simp add: scale_down_def rust_ok)
qed

lemma scale_up_ok: "scale_up oc a b = Some (as_u64 (unat a * (10000 + unat b) div 10000))"
proof -
  have "unat a * (10000 + unat b) < 2 ^ 128"
    using unat_u64_less [of a] unat_u16_less [of b] by (intro mult_u64_fits) auto
  then show ?thesis
    using unat_u16_less [of b] by (simp add: scale_up_def rust_ok)
qed

lemma scale_down_value:
  assumes "unat b \<le> 10000"
  shows "unat a * (10000 - unat b) div 10000 \<le> unat a"
proof -
  have "unat a * (10000 - unat b) \<le> unat a * 10000"
    by simp
  then show ?thesis
    using div_le_mono [of _ "unat a * 10000" 10000] by fastforce
qed

lemma build_fields:
  assumes "build oc b = Some o1"
  shows "so_amount_in o1 = sb_amount_in b" "so_amount_out o1 = sb_amount_out b"
    "so_protocol_fee o1 = sb_protocol_fee b" "so_lp_fee o1 = sb_lp_fee b"
    "oc \<Longrightarrow> unat (so_fee o1) = unat (so_protocol_fee o1) + unat (so_lp_fee o1)"
proof -
  obtain fee where fee: "u_add oc 64 (unat (sb_protocol_fee b)) (unat (sb_lp_fee b)) = Some fee"
    and o1: "o1 = \<lparr> so_amount_in = sb_amount_in b, so_amount_out = sb_amount_out b,
            so_fee = as_u64 fee, so_protocol_fee = sb_protocol_fee b, so_lp_fee = sb_lp_fee b,
            so_price_impact_bps = sb_price_impact_bps b,
            so_effective_price = sb_effective_price b,
            so_post_swap_price = sb_post_swap_price b, so_accounts_used = sb_accounts_used b \<rparr>"
    using assms by (auto simp: build_def bind_eq_Some_conv)
  show "so_amount_in o1 = sb_amount_in b" "so_amount_out o1 = sb_amount_out b"
    "so_protocol_fee o1 = sb_protocol_fee b" "so_lp_fee o1 = sb_lp_fee b"
    by (simp_all add: o1)
  show "oc \<Longrightarrow> unat (so_fee o1) = unat (so_protocol_fee o1) + unat (so_lp_fee o1)"
    using fee by (simp add: o1 u_add_def unat_as_u64 del: of_nat_add split: if_splits)
qed

section \<open>The contract of \<open>SwapMath\<close>\<close>

text \<open>
  What every implementation of \<open>SwapMath::calculate_swap\<close> promises of a successful quote, in a
  build with overflow checks: an exact-in quote spends exactly the amount asked for, the quote
  never pays out more than the pool holds on the output side (\<open>avail\<close>), and the fee is the sum
  of its two parts.
\<close>

locale swap_math =
  fixes calc :: "'s \<Rightarrow> swap_params \<Rightarrow> (error, swap_output) outcome"
    and avail :: "'s \<Rightarrow> swap_direction \<Rightarrow> nat"
  assumes exact_in_amount:
      "calc s p = Some (Inr q) \<Longrightarrow> is_exact_in p \<Longrightarrow> so_amount_in q = amount_value p"
    and out_bound: "calc s p = Some (Inr q) \<Longrightarrow> unat (so_amount_out q) \<le> avail s (sp_direction p)"
    and fee_split:
      "calc s p = Some (Inr q) \<Longrightarrow> unat (so_fee q) = unat (so_protocol_fee q) + unat (so_lp_fee q)"
begin

text \<open>The minimum a caller accepts under a slippage tolerance can be paid by the pool.\<close>

lemma min_output_payable:
  assumes "calc s p = Some (Inr q)" "unat b \<le> 10000"
  shows "\<exists>m. min_output oc q b = Some m \<and> unat m \<le> unat (so_amount_out q) \<and>
             unat m \<le> avail s (sp_direction p)"
proof -
  let ?n = "unat (so_amount_out q) * (10000 - unat b) div 10000"
  have le: "?n \<le> unat (so_amount_out q)"
    using assms(2) by (rule scale_down_value)
  then have "unat (as_u64 ?n) = ?n"
    using unat_u64_less [of "so_amount_out q"] by (intro unat_as_u64) linarith
  with le out_bound [OF assms(1)] show ?thesis
    by (simp add: min_output_def scale_down_ok assms(2))
qed

lemma protocol_fee_le: "calc s p = Some (Inr q) \<Longrightarrow> unat (so_protocol_fee q) \<le> unat (so_fee q)"
  using fee_split by fastforce

end

end
