(* ===== verification/AccountState.thy ===== *)
theory AccountState
  imports SwapTypes
begin

text \<open>
  The account-decoding contract (\<open>solana/protocols/src/parsing/state.rs\<close>) and what
  \<open>#[derive(OnchainState)]\<close> generates for it (\<open>solana/protocols-macros/src/onchain_state.rs\<close>): the
  discriminator check, the borsh prefix read of the fields, and the version-group check over the
  \<open>Legacy\<close> fields.

  borsh is not part of the repository. Its readers for the primitive types are the fields of a
  record \<open>borsh\<close> that every decoder takes, and \<open>borsh_ok\<close> is what the borsh specification says
  of them: little-endian integers of fixed width, a \<open>bool\<close> that is one byte 0 or 1, a \<open>Pubkey\<close> of
  32 bytes, and an error when the input ends first. \<open>borsh_std\<close> is one implementation of it.
  \<open>#[derive(BorshDeserialize)]\<close> reads a struct's fields in their order.
\<close>

section \<open>Little-endian bytes\<close>

fun le_bytes :: "nat \<Rightarrow> nat \<Rightarrow> bytes" where
  "le_bytes 0 n = []"
| "le_bytes (Suc k) n = word_of_nat (n mod 256) # le_bytes k (n div 256)"

fun le_val :: "bytes \<Rightarrow> nat" where
  "le_val [] = 0"
| "le_val (b # bs) = unat b + 256 * le_val bs"

lemma length_le_bytes [simp]: "length (le_bytes k n) = k"
  by (induction k arbitrary: n) simp_all

lemma le_val_le_bytes: "n < 256 ^ k \<Longrightarrow> le_val (le_bytes k n) = n"
proof (induction k arbitrary: n)
  case (Suc k)
  have "unat (word_of_nat (n mod 256) :: u8) = n mod 256"
    by (simp add: unsigned_of_nat take_bit_nat_eq_self)
  moreover have "n div 256 < 256 ^ k"
    using Suc.prems by (simp add: div_less_iff_less_mult mult.commute)
  ultimately show ?case
    using Suc.IH by simp
qed simp

lemma le_u64 [simp]: "le_val (le_bytes 8 (unat (v :: u64))) = unat v"
  using unat_u64_less [of v] by (intro le_val_le_bytes) simp

lemma le_u16 [simp]: "le_val (le_bytes 2 (unat (v :: u16))) = unat v"
  using unsigned_less [of v] by (intro le_val_le_bytes) simp

lemma le_u32 [simp]: "le_val (le_bytes 4 (unat (v :: u32))) = unat v"
  using unsigned_less [of v] by (intro le_val_le_bytes) simp

lemma le_u128 [simp]: "le_val (le_bytes 16 (unat (v :: u128))) = unat v"
  using unsigned_less [of v] by (intro le_val_le_bytes) simp

section \<open>Readers\<close>

text \<open>A reader consumes a prefix and returns the rest; \<open>Inl\<close> is the text of borsh's error.\<close>

type_synonym 'a reader = "bytes \<Rightarrow> string + ('a \<times> bytes)"

definition rret :: "'a \<Rightarrow> 'a reader" where
  "rret x bs = Inr (x, bs)"

definition rbind :: "'a reader \<Rightarrow> ('a \<Rightarrow> 'b reader) \<Rightarrow> 'b reader" where
  "rbind r f bs = (case r bs of Inl e \<Rightarrow> Inl e | Inr (x, bs') \<Rightarrow> f x bs')"

lemma rret_simp [simp]: "rret x bs = Inr (x, bs)"
  by (simp add: rret_def)

lemma rbind_Inr: "r bs = Inr (x, bs') \<Longrightarrow> rbind r f bs = f x bs'"
  by (simp add: rbind_def)

lemma rbind_Inl: "r bs = Inl e \<Longrightarrow> rbind r f bs = Inl e"
  by (simp add: rbind_def)

record borsh =
  rd_bool :: "bool reader"
  rd_u8 :: "u8 reader"
  rd_u16 :: "u16 reader"
  rd_u32 :: "u32 reader"
  rd_u64 :: "u64 reader"
  rd_u128 :: "u128 reader"
  rd_pubkey :: "pubkey reader"

definition bool_byte :: "bool \<Rightarrow> u8" where
  "bool_byte b = (if b then 1 else 0)"

definition borsh_ok :: "borsh \<Rightarrow> bool" where
  "borsh_ok B \<longleftrightarrow>
     (\<forall>b rest. rd_bool B (bool_byte b # rest) = Inr (b, rest)) \<and>
     (\<forall>v rest. rd_u8 B (v # rest) = Inr (v, rest)) \<and>
     (\<forall>v rest. rd_u16 B (le_bytes 2 (unat v) @ rest) = Inr (v, rest)) \<and>
     (\<forall>v rest. rd_u32 B (le_bytes 4 (unat v) @ rest) = Inr (v, rest)) \<and>
     (\<forall>v rest. rd_u64 B (le_bytes 8 (unat v) @ rest) = Inr (v, rest)) \<and>
     (\<forall>v rest. rd_u128 B (le_bytes 16 (unat v) @ rest) = Inr (v, rest)) \<and>
     (\<forall>k rest. length k = 32 \<longrightarrow> rd_pubkey B (k @ rest) = Inr (k, rest)) \<and>
     (\<forall>bs. length bs < 1 \<longrightarrow> (\<exists>e. rd_bool B bs = Inl e) \<and> (\<exists>e. rd_u8 B bs = Inl e)) \<and>
     (\<forall>bs. length bs < 2 \<longrightarrow> (\<exists>e. rd_u16 B bs = Inl e)) \<and>
     (\<forall>bs. length bs < 4 \<longrightarrow> (\<exists>e. rd_u32 B bs = Inl e)) \<and>
     (\<forall>bs. length bs < 8 \<longrightarrow> (\<exists>e. rd_u64 B bs = Inl e)) \<and>
     (\<forall>bs. length bs < 16 \<longrightarrow> (\<exists>e. rd_u128 B bs = Inl e)) \<and>
     (\<forall>bs. length bs < 32 \<longrightarrow> (\<exists>e. rd_pubkey B bs = Inl e)) \<and>
     (\<forall>v rest. 1 < v \<longrightarrow> (\<exists>e. rd_bool B (v # rest) = Inl e))"

definition short_error :: string where
  "short_error = ''Unexpected length of input''"

definition fixed_reader :: "nat \<Rightarrow> (bytes \<Rightarrow> 'a) \<Rightarrow> 'a reader" where
  "fixed_reader n f bs =
     (if length bs < n then Inl short_error else Inr (f (take n bs), drop n bs))"

definition borsh_std :: borsh where
  "borsh_std =
     \<lparr> rd_bool = (\<lambda>bs. case bs of [] \<Rightarrow> Inl short_error
                   | b # rest \<Rightarrow> if b = 0 then Inr (False, rest) else if b = 1 then Inr (True, rest)
                               else Inl ''Invalid bool representation''),
       rd_u8 = (\<lambda>bs. case bs of [] \<Rightarrow> Inl short_error | b # rest \<Rightarrow> Inr (b, rest)),
       rd_u16 = fixed_reader 2 (\<lambda>bs. word_of_nat (le_val bs)),
       rd_u32 = fixed_reader 4 (\<lambda>bs. word_of_nat (le_val bs)),
       rd_u64 = fixed_reader 8 (\<lambda>bs. word_of_nat (le_val bs)),
       rd_u128 = fixed_reader 16 (\<lambda>bs. word_of_nat (le_val bs)),
       rd_pubkey = fixed_reader 32 id \<rparr>"

lemma borsh_std_ok: "borsh_ok borsh_std"
  by (auto simp: borsh_ok_def borsh_std_def fixed_reader_def bool_byte_def)

lemma borsh_read [simp]:
  assumes "borsh_ok B"
  shows "rbind (rd_bool B) fb (bool_byte b # rest) = fb b rest"
    and "rbind (rd_u8 B) f8 (v # rest) = f8 v rest"
    and "rbind (rd_u16 B) f16 (le_bytes 2 (unat w) @ rest) = f16 w rest"
    and "rbind (rd_u32 B) f32 (le_bytes 4 (unat z) @ rest) = f32 z rest"
    and "rbind (rd_u64 B) f64 (le_bytes 8 (unat x) @ rest) = f64 x rest"
    and "rbind (rd_u128 B) f128 (le_bytes 16 (unat y) @ rest) = f128 y rest"
    and "length k = 32 \<Longrightarrow> rbind (rd_pubkey B) fk (k @ rest) = fk k rest"
  using assms by (auto simp: borsh_ok_def rbind_def)

text \<open>A fixed array \<open>[T; N]\<close> is its \<open>N\<close> elements, read in order.\<close>

primrec read_array :: "nat \<Rightarrow> 'a reader \<Rightarrow> 'a list reader" where
  "read_array 0 r = rret []"
| "read_array (Suc n) r = rbind r (\<lambda>x. rbind (read_array n r) (\<lambda>xs. rret (x # xs)))"

lemma read_array_u8: "borsh_ok B \<Longrightarrow> read_array (length xs) (rd_u8 B) (xs @ rest) = Inr (xs, rest)"
  by (induction xs) (simp_all add: rbind_Inr)

lemma read_array_u64:
  "borsh_ok B \<Longrightarrow> read_array (length xs) (rd_u64 B) (concat (map (\<lambda>x. le_bytes 8 (unat x)) xs) @ rest) =
     Inr (xs, rest)"
  by (induction xs) (simp_all add: rbind_Inr)

lemma borsh_read_array [simp]:
  assumes "borsh_ok B" "length xs = n"
  shows "rbind (read_array n (rd_u8 B)) f8 (xs @ rest) = f8 xs rest"
  using read_array_u8 [OF assms(1), of xs rest] assms(2) by (simp add: rbind_Inr)

lemma borsh_read_array_u64 [simp]:
  assumes "borsh_ok B" "length ys = n"
  shows "rbind (read_array n (rd_u64 B)) f64 (concat (map (\<lambda>x. le_bytes 8 (unat x)) ys) @ rest) = f64 ys rest"
  using read_array_u64 [OF assms(1), of ys rest] assms(2) by (simp add: rbind_Inr)

lemma borsh_bool [simp]: "borsh_ok B \<Longrightarrow> rd_bool B (bool_byte b # rest) = Inr (b, rest)"
  by (simp add: borsh_ok_def)

lemma borsh_short:
  assumes "borsh_ok B"
  shows "length bs < 8 \<Longrightarrow> \<exists>e. rbind (rd_u64 B) f64 bs = Inl e"
    and "length bs < 32 \<Longrightarrow> \<exists>e. rbind (rd_pubkey B) fk bs = Inl e"
    and "bs = [] \<Longrightarrow> \<exists>e. rbind (rd_bool B) fb bs = Inl e"
proof -
  show "length bs < 8 \<Longrightarrow> \<exists>e. rbind (rd_u64 B) f64 bs = Inl e"
    using assms unfolding borsh_ok_def by (metis rbind_Inl)
  show "length bs < 32 \<Longrightarrow> \<exists>e. rbind (rd_pubkey B) fk bs = Inl e"
    using assms unfolding borsh_ok_def by (metis rbind_Inl)
  show "bs = [] \<Longrightarrow> \<exists>e. rbind (rd_bool B) fb bs = Inl e"
    using assms unfolding borsh_ok_def by (metis rbind_Inl list.size(3) less_numeral_extra(1))
qed

section \<open>Version-added fields\<close>

datatype 'a legacy = Present 'a | Absent

fun is_present :: "'a legacy \<Rightarrow> bool" where
  "is_present (Present _) = True"
| "is_present Absent = False"

text \<open>Probe one byte: none left is \<open>Absent\<close>, otherwise the field is read from the probe on.\<close>

definition read_legacy :: "'a reader \<Rightarrow> 'a legacy reader" where
  "read_legacy r bs =
     (case bs of [] \<Rightarrow> Inr (Absent, [])
      | probe # rest \<Rightarrow>
          (case r (probe # rest) of Inl e \<Rightarrow> Inl e | Inr (x, bs') \<Rightarrow> Inr (Present x, bs')))"

lemma read_legacy_Nil [simp]: "rbind (read_legacy r) f [] = f Absent []"
  by (simp add: read_legacy_def rbind_def)

lemma read_legacy_bool [simp]:
  "borsh_ok B \<Longrightarrow> rbind (read_legacy (rd_bool B)) f (bool_byte b # rest) = f (Present b) rest"
  by (simp add: read_legacy_def rbind_def)

section \<open>Decoding an account\<close>

datatype account_parse_error =
    TooShort nat nat
  | Discriminator
  | Malformed string
  | TruncatedVersion string nat nat

definition borsh_fields :: "'s reader \<Rightarrow> bytes \<Rightarrow> account_parse_error + 's" where
  "borsh_fields r bs = (case r bs of Inl e \<Rightarrow> Inl (Malformed e) | Inr (s, _) \<Rightarrow> Inr s)"

text \<open>A group with more than one member must be wholly present or wholly absent.\<close>

fun group_checks :: "(string \<times> bool list) list \<Rightarrow> account_parse_error option" where
  "group_checks [] = None"
| "group_checks ((g, ps) # gs) =
     (if length ps > 1 \<and> length (filter id ps) \<noteq> 0 \<and> length (filter id ps) \<noteq> length ps
      then Some (TruncatedVersion g (length (filter id ps)) (length ps))
      else group_checks gs)"

definition decode_checked ::
  "'s reader \<Rightarrow> ('s \<Rightarrow> (string \<times> bool list) list) \<Rightarrow> bytes \<Rightarrow> account_parse_error + 's" where
  "decode_checked r groups bs =
     (case borsh_fields r bs of
        Inl e \<Rightarrow> Inl e
      | Inr s \<Rightarrow> (case group_checks (groups s) of Some e \<Rightarrow> Inl e | None \<Rightarrow> Inr s))"

definition onchain_from_account_data ::
  "bytes option \<Rightarrow> 's reader \<Rightarrow> ('s \<Rightarrow> (string \<times> bool list) list) \<Rightarrow> bytes \<Rightarrow>
   account_parse_error + 's" where
  "onchain_from_account_data disc r groups data =
     (case disc of
        None \<Rightarrow> decode_checked r groups data
      | Some d \<Rightarrow>
          if length data < 8 then Inl (TooShort (length data) 8)
          else if take 8 data \<noteq> d then Inl Discriminator
          else decode_checked r groups (drop 8 data))"

lemma onchain_with_disc:
  "length d = 8 \<Longrightarrow> onchain_from_account_data (Some d) r groups (d @ body) = decode_checked r groups body"
  by (simp add: onchain_from_account_data_def)

section \<open>The error's text and its conversion\<close>

fun show_nat :: "nat \<Rightarrow> string" where
  "show_nat n =
     (if n < 10 then [''0123456789'' ! n] else show_nat (n div 10) @ [''0123456789'' ! (n mod 10)])"

declare show_nat.simps [simp del]

fun parse_error_text :: "account_parse_error \<Rightarrow> string" where
  "parse_error_text (TooShort len need) =
     ''account data too short: '' @ show_nat len @ '' bytes, need at least '' @ show_nat need"
| "parse_error_text Discriminator = ''discriminator mismatch''"
| "parse_error_text (Malformed reason) = ''account fields did not decode: '' @ reason"
| "parse_error_text (TruncatedVersion g have need) =
     ''version group `'' @ g @ ''` truncated: '' @ show_nat have @ '' of '' @ show_nat need @ '' bytes''"

fun error_of_parse :: "account_parse_error \<Rightarrow> error" where
  "error_of_parse (TooShort len need) = AccountDataTooShort need len"
| "error_of_parse e = invalid_account_data (parse_error_text e)"

text \<open>\<open>Display\<close> of the unified error. \<open>show_key\<close> is the base58 text of a \<open>Pubkey\<close>.\<close>

fun error_text :: "(pubkey \<Rightarrow> string) \<Rightarrow> error \<Rightarrow> string" where
  "error_text sk (InvalidAccountData m) = ''invalid account data: '' @ m"
| "error_text sk (DiscriminatorMismatch e a) =
     ''discriminator mismatch: expected '' @ e @ '', got '' @ a"
| "error_text sk (AccountDataTooShort e a) =
     ''account data too short: need '' @ show_nat e @ '' bytes, got '' @ show_nat a"
| "error_text sk ZeroAmount = ''swap amount cannot be zero''"
| "error_text sk InsufficientLiquidityData =
     ''quote exhausted the cached liquidity data before completing the swap''"
| "error_text sk (InsufficientReserves n a) =
     ''insufficient reserves: need '' @ show_nat (unat n) @ '', have '' @ show_nat (unat a)"
| "error_text sk (ExcessivePriceImpact i m) =
     ''price impact too high: '' @ show_nat (unat i) @ '' bps exceeds max '' @ show_nat (unat m) @ '' bps''"
| "error_text sk ArithmeticOverflow = ''arithmetic overflow in swap calculation''"
| "error_text sk (FeesExceedOutput g t) =
     ''trade too small: gross output '' @ show_nat (unat g) @ '' does not cover fees '' @ show_nat (unat t)"
| "error_text sk BondingCurveCompleted = ''bonding curve has completed (graduated to AMM)''"
| "error_text sk (PoolPaused r) = ''pool is paused: '' @ r"
| "error_text sk (PoolNotFound k) = ''pool not found at '' @ sk k"
| "error_text sk (MissingAccount n) = ''missing required account: '' @ n"
| "error_text sk (InvalidPubkey f r) = ''invalid pubkey for '' @ f @ '': '' @ r"
| "error_text sk (IdlHashMismatch p e a) =
     ''IDL hash mismatch for '' @ p @ '': expected '' @ e @ '', got '' @ a"
| "error_text sk (IdlNotFound p) = ''IDL file not found: '' @ p"
| "error_text sk (ProtocolError p m) = p @ '' error: '' @ m"
| "error_text sk (OtherError m) = m"
| "error_text sk (BoxedError m) = m"

definition map_err :: "('e \<Rightarrow> 'f) \<Rightarrow> 'e + 'a \<Rightarrow> 'f + 'a" where
  "map_err f r = (case r of Inl e \<Rightarrow> Inl (f e) | Inr x \<Rightarrow> Inr x)"

lemma map_err_simps [simp]: "map_err f (Inl e) = Inl (f e)" "map_err f (Inr x) = Inr x"
  by (simp_all add: map_err_def)

end
