(* ===== verification/Persist.thy ===== *)
theory Persist
  imports AccountState
begin

text \<open>
  The snapshot file of the cache (\<open>storage/cache/src/persist.rs\<close>): a header of magic and schema
  version, then the compressed payload, written to a temporary file that is renamed over the
  target.

  The file system is a map from paths to contents. Every call into it may fail: \<open>fault\<close> names
  the call of a write that fails, and \<open>junk\<close> is what the interrupted, buffered write left in the
  temporary file. bincode and gzip are the parameter \<open>codec\<close>, a pair of an encoder and a decoder
  of payloads; \<open>codec_ok\<close> is the round trip they document. An I/O error is represented by the
  path it names.
\<close>

type_synonym path = string

type_synonym fs = "path \<rightharpoonup> bytes"

definition magic :: bytes where
  "magic = [0x53, 0x54, 0x43, 0x48]"

definition schema_version :: u32 where
  "schema_version = 1"

datatype cache_error =
    CacheIo path
  | CacheSerde path
  | BadMagic path bytes
  | UnsupportedVersion path u32 u32
  | NoPersistPath

record 'p codec =
  encode :: "'p \<Rightarrow> bytes option"
  decode :: "bytes \<Rightarrow> 'p option"

definition codec_ok :: "'p codec \<Rightarrow> bool" where
  "codec_ok C \<longleftrightarrow> (\<forall>p bs. encode C p = Some bs \<longrightarrow> decode C bs = Some p)"

definition tmp_path :: "path \<Rightarrow> path" where
  "tmp_path p = p @ ''.tmp''"

section \<open>Writing\<close>

datatype write_fault =
  No_fault | Fault_create | Fault_header | Fault_serialize | Fault_finish | Fault_flush | Fault_rename

text \<open>The whole file: the two header fields, uncompressed, and the payload.\<close>

definition snapshot :: "bytes \<Rightarrow> bytes" where
  "snapshot body = magic @ le_bytes 4 (unat schema_version) @ body"

text \<open>
  The result and the file systems a crash may expose, oldest first: each element is the file
  system after one more call.
\<close>

definition write_payload ::
  "'p codec \<Rightarrow> write_fault \<Rightarrow> bytes \<Rightarrow> path \<Rightarrow> 'p \<Rightarrow> fs \<Rightarrow> (cache_error + unit) \<times> fs list" where
  "write_payload C fault junk path p fs =
     (if fault = Fault_create then (Inl (CacheIo (tmp_path path)), [fs])
      else if fault = Fault_header
      then (Inl (CacheIo (tmp_path path)),
            [fs, fs(tmp_path path \<mapsto> []), fs(tmp_path path \<mapsto> junk)])
      else (case (if fault = Fault_serialize then None else encode C p) of
              None \<Rightarrow> (Inl (CacheSerde (tmp_path path)),
                       [fs, fs(tmp_path path \<mapsto> []), fs(tmp_path path \<mapsto> junk)])
            | Some body \<Rightarrow>
                if fault = Fault_finish \<or> fault = Fault_flush
                then (Inl (CacheIo (tmp_path path)),
                      [fs, fs(tmp_path path \<mapsto> []), fs(tmp_path path \<mapsto> junk)])
                else if fault = Fault_rename
                then (Inl (CacheIo path),
                      [fs, fs(tmp_path path \<mapsto> []), fs(tmp_path path \<mapsto> junk),
                       fs(tmp_path path \<mapsto> snapshot body)])
                else (Inr (),
                      [fs, fs(tmp_path path \<mapsto> []), fs(tmp_path path \<mapsto> junk),
                       fs(tmp_path path \<mapsto> snapshot body),
                       (fs(tmp_path path := None))(path \<mapsto> snapshot body)])))"

section \<open>Reading\<close>

text \<open>\<open>read_exact\<close> fails on a file that ends first.\<close>

definition read_payload :: "'p codec \<Rightarrow> path \<Rightarrow> fs \<Rightarrow> cache_error + 'p" where
  "read_payload C path fs =
     (case fs path of
        None \<Rightarrow> Inl (CacheIo path)
      | Some bs \<Rightarrow>
          if length bs < 4 then Inl (CacheIo path)
          else if take 4 bs \<noteq> magic then Inl (BadMagic path (take 4 bs))
          else if length bs < 8 then Inl (CacheIo path)
          else if word_of_nat (le_val (take 4 (drop 4 bs))) \<noteq> schema_version
          then Inl (UnsupportedVersion path schema_version (word_of_nat (le_val (take 4 (drop 4 bs)))))
          else (case decode C (drop 8 bs) of
                  None \<Rightarrow> Inl (CacheSerde path)
                | Some p \<Rightarrow> Inr p))"

section \<open>Lemmas\<close>

lemma tmp_path_neq [simp]: "tmp_path p \<noteq> p" "p \<noteq> tmp_path p"
  by (simp_all add: tmp_path_def)

lemma length_magic [simp]: "length magic = 4"
  by (simp add: magic_def)

lemma read_snapshot:
  "fs path = Some (snapshot body) \<Longrightarrow>
   read_payload C path fs = (case decode C body of None \<Rightarrow> Inl (CacheSerde path) | Some p \<Rightarrow> Inr p)"
  by (simp add: read_payload_def snapshot_def schema_version_def le_val_le_bytes)

lemma read_back:
  assumes "codec_ok C" "write_payload C fault junk path p fs = (Inr (), trace)"
  shows "read_payload C path (last trace) = Inr p"
proof -
  obtain body where "encode C p = Some body" "last trace path = Some (snapshot body)"
    using assms(2) by (auto simp: write_payload_def split: if_splits option.splits)
  with assms(1) show ?thesis
    by (simp add: read_snapshot codec_ok_def)
qed

section \<open>Properties\<close>

text \<open>C18: Writing a snapshot is atomic: after every call of a write, finished or failing at any of its
  calls, the target path holds either what it held before or the complete new snapshot, and it
  holds the new one only if the write succeeds.\<close>

theorem snapshot_write_atomic:
  assumes "write_payload C fault junk path p fs = (r, trace)" "fs' \<in> set trace"
  shows "fs' path = fs path \<or>
    (r = Inr () \<and> fs' = last trace \<and> (\<exists>body. encode C p = Some body \<and> fs' path = Some (snapshot body)))"
  using assms
  by (auto simp: write_payload_def split: if_splits option.splits)

definition byte_codec :: "bytes codec" where
  "byte_codec = \<lparr> encode = Some, decode = Some \<rparr>"

definition old_fs :: fs where
  "old_fs = [''c'' \<mapsto> [1]]"

lemma snapshot_write_atomic_witness:
  "list_all (\<lambda>fs'. fs' ''c'' = Some [1])
     (snd (write_payload byte_codec Fault_flush [7] ''c'' [5] old_fs))"
  unfolding list_all_iff
proof
  fix fs'
  assume t: "fs' \<in> set (snd (write_payload byte_codec Fault_flush [7] ''c'' [5] old_fs))"
  have w: "write_payload byte_codec Fault_flush [7] ''c'' [5] old_fs =
      (Inl (CacheIo (tmp_path ''c'')), snd (write_payload byte_codec Fault_flush [7] ''c'' [5] old_fs))"
    by (simp add: write_payload_def byte_codec_def)
  show "fs' ''c'' = Some [1]"
    using snapshot_write_atomic [OF w t] by (simp add: old_fs_def)
qed

end
