(* ===== verification/ConstantProduct.thy ===== *)
theory ConstantProduct
  imports SwapTypes
begin

text \<open>
  The constant-product rule \<open>x * y = k\<close> that the pools of this repository share, as mathematics on
  natural numbers: what a net input buys (\<open>cp_out\<close>), what input an output needs (\<open>cp_in\<close>), and
  the laws by which the quotes of the protocols are judged. The protocols' own code is in their
  theories; these are the reference definitions it is compared with.
\<close>

definition cp_out :: "nat \<Rightarrow> nat \<Rightarrow> nat \<Rightarrow> nat" where
  "cp_out rin rout x = rout * x div (rin + x)"

definition cp_in :: "nat \<Rightarrow> nat \<Rightarrow> nat \<Rightarrow> nat" where
  "cp_in rin rout y = ceil_div (rin * y) (rout - y)"

lemma cp_out_le: "cp_out rin rout x \<le> rout"
proof -
  have "rout * x \<le> rout * (rin + x)" by simp
  then show ?thesis
    unfolding cp_out_def by (metis div_le_mono div_mult_self_is_m gr0I le0 div_by_0 mult.commute)
qed

lemma cp_out_less: "0 < rin \<Longrightarrow> 0 < rout \<Longrightarrow> cp_out rin rout x < rout"
  unfolding cp_out_def by (simp add: div_less_iff_less_mult algebra_simps)

text \<open>A swap never decreases the product of the reserves.\<close>

lemma cp_product: "rin * rout \<le> (rin + x) * (rout - cp_out rin rout x)"
proof -
  have "(rin + x) * cp_out rin rout x \<le> rout * x"
    unfolding cp_out_def by (metis mult.commute times_div_less_eq_dividend)
  then have "(rin + x) * rout - rout * x \<le> (rin + x) * rout - (rin + x) * cp_out rin rout x"
    by simp
  then show ?thesis
    by (simp add: algebra_simps diff_mult_distrib2)
qed

text \<open>The quoted input is sufficient for the output, and it is the least such input.\<close>

lemma cp_in_sufficient:
  assumes "y < rout" "0 < rin"
  shows "y \<le> cp_out rin rout (cp_in rin rout y)"
proof -
  let ?x = "cp_in rin rout y"
  have "rin * y \<le> ?x * (rout - y)"
    unfolding cp_in_def using assms by (intro ceil_div_upper) simp
  then have "rin * y + ?x * y \<le> ?x * (rout - y) + ?x * y"
    by simp
  also have "\<dots> = ?x * rout"
    using assms(1) by (metis add.commute add_mult_distrib2 le_add_diff_inverse less_imp_le_nat)
  finally have "y * (rin + ?x) \<le> rout * ?x"
    by (simp add: algebra_simps)
  then show ?thesis
    unfolding cp_out_def using assms(2) by (simp add: less_eq_div_iff_mult_less_eq)
qed

lemma cp_in_least:
  assumes "y < rout" "0 < rin" "x < cp_in rin rout y"
  shows "cp_out rin rout x < y"
proof -
  have "\<not> rin * y \<le> x * (rout - y)"
    using assms ceil_div_le_iff [of "rout - y" "rin * y" x] by (simp add: cp_in_def not_le)
  then have "x * (rout - y) + x * y < rin * y + x * y"
    by simp
  moreover have "x * (rout - y) + x * y = x * rout"
    using assms(1) by (metis add.commute add_mult_distrib2 le_add_diff_inverse less_imp_le_nat)
  ultimately have "rout * x < y * (rin + x)"
    by (simp add: algebra_simps)
  then show ?thesis
    unfolding cp_out_def using assms(2) by (simp add: div_less_iff_less_mult)
qed

lemma cp_out_mono: "x \<le> x' \<Longrightarrow> cp_out rin rout x \<le> cp_out rin rout x'"
proof -
  assume le: "x \<le> x'"
  show ?thesis
  proof (cases "rin + x = 0")
    case True
    then show ?thesis by (simp add: cp_out_def)
  next
    case False
    have "cp_out rin rout x * rin \<le> rout * x - cp_out rin rout x * x"
      using times_div_less_eq_dividend [of "rin + x" "rout * x"]
      by (simp add: cp_out_def algebra_simps le_diff_conv2)
    also have "\<dots> = (rout - cp_out rin rout x) * x"
      by (simp add: diff_mult_distrib)
    also have "\<dots> \<le> (rout - cp_out rin rout x) * x'"
      using le by simp
    finally have "cp_out rin rout x * (rin + x') \<le> rout * x'"
      using cp_out_le [of rin rout x]
      by (simp add: algebra_simps diff_mult_distrib le_diff_conv2)
    then show ?thesis
      using False le unfolding cp_out_def [of rin rout x']
      by (subst less_eq_div_iff_mult_less_eq) auto
  qed
qed

text \<open>Selling back what a swap paid out returns at most its input, whatever the fees on either leg.\<close>

lemma cp_round_trip:
  assumes "net \<le> x" "z \<le> cp_out rin rout net"
  shows "cp_out (rout - cp_out rin rout net) (rin + x) z \<le> x"
proof -
  let ?y = "cp_out rin rout net"
  have y: "?y \<le> rout" by (rule cp_out_le)
  have "(rin + net) * ?y \<le> rout * net"
    by (metis cp_out_def mult.commute times_div_less_eq_dividend)
  moreover have "(x - net) * ?y \<le> rout * (x - net)"
    using y by (simp add: mult.commute)
  ultimately have "(rin + net) * ?y + (x - net) * ?y \<le> rout * (net + (x - net))"
    by (simp only: distrib_left)
  moreover have "(rin + x) * ?y = (rin + net) * ?y + (x - net) * ?y"
    using assms(1) by (simp flip: distrib_right)
  ultimately have "(rin + x) * ?y \<le> rout * x"
    using assms(1) by simp
  then have "(rin + x) * ?y div rout \<le> x"
    by (metis div_le_mono div_mult_self1_is_m gr0I div_by_0 le0)
  then have le: "cp_out (rout - ?y) (rin + x) ?y \<le> x"
    unfolding cp_out_def [of "rout - ?y"] using y by simp
  show ?thesis
    using cp_out_mono [OF assms(2)] le by (rule order_trans)
qed

end
