(* ===== verification/Pumpfun.thy ===== *)
theory Pumpfun
  imports AccountState ConstantProduct
begin

text \<open>
  Pump.fun bonding curves (\<open>solana/protocols/src/protocols/pumpfun/\<close>): the account layouts and their
  decode (\<open>state.rs\<close>, \<open>global.rs\<close>), the fee schedule (\<open>fee_config.rs\<close>), the constant-product
  math (\<open>math.rs\<close>) and the quote bundle (\<open>quote.rs\<close>). All swap arithmetic is \<open>u128\<close>; the cast
  back to \<open>u64\<close> truncates. The \<open>debug!\<close> lines are left out.
\<close>

section \<open>Accounts\<close>

record bonding_curve =
  bc_virtual_token_reserves :: u64
  bc_virtual_quote_reserves :: u64
  bc_real_token_reserves :: u64
  bc_real_quote_reserves :: u64
  bc_token_total_supply :: u64
  bc_complete :: bool
  bc_creator :: pubkey
  bc_is_mayhem_mode :: "bool legacy"
  bc_is_cashback_coin :: "bool legacy"

definition read_bonding_curve :: "borsh \<Rightarrow> bonding_curve reader" where
  "read_bonding_curve B =
     rbind (rd_u64 B) (\<lambda>vt. rbind (rd_u64 B) (\<lambda>vq. rbind (rd_u64 B) (\<lambda>rt. rbind (rd_u64 B) (\<lambda>rq.
     rbind (rd_u64 B) (\<lambda>ts. rbind (rd_bool B) (\<lambda>co. rbind (rd_pubkey B) (\<lambda>cr.
     rbind (read_legacy (rd_bool B)) (\<lambda>mm. rbind (read_legacy (rd_bool B)) (\<lambda>cb.
     rret \<lparr> bc_virtual_token_reserves = vt, bc_virtual_quote_reserves = vq,
            bc_real_token_reserves = rt, bc_real_quote_reserves = rq, bc_token_total_supply = ts,
            bc_complete = co, bc_creator = cr, bc_is_mayhem_mode = mm,
            bc_is_cashback_coin = cb \<rparr>)))))))))"

text \<open>The two flags are one version group; \<open>disc\<close> is the account's discriminator, which a macro
  computes at compile time.\<close>

definition bonding_curve_groups :: "bonding_curve \<Rightarrow> (string \<times> bool list) list" where
  "bonding_curve_groups c =
     [(''cashback'', [is_present (bc_is_mayhem_mode c), is_present (bc_is_cashback_coin c)])]"

definition bonding_curve_from_account_data ::
  "borsh \<Rightarrow> bytes \<Rightarrow> bytes \<Rightarrow> error + bonding_curve" where
  "bonding_curve_from_account_data B disc data =
     map_err error_of_parse
       (onchain_from_account_data (Some disc) (read_bonding_curve B) bonding_curve_groups data)"

text \<open>The encoders of the module's tests: the 81-byte core layout and the 83-byte one, which
  panics (\<open>None\<close>) on a curve without the flags.\<close>

definition encode_81 :: "bytes \<Rightarrow> bonding_curve \<Rightarrow> bytes" where
  "encode_81 disc c =
     disc @ le_bytes 8 (unat (bc_virtual_token_reserves c))
       @ le_bytes 8 (unat (bc_virtual_quote_reserves c))
       @ le_bytes 8 (unat (bc_real_token_reserves c))
       @ le_bytes 8 (unat (bc_real_quote_reserves c))
       @ le_bytes 8 (unat (bc_token_total_supply c))
       @ [bool_byte (bc_complete c)] @ bc_creator c"

definition encode_83 :: "bytes \<Rightarrow> bonding_curve \<Rightarrow> bytes option" where
  "encode_83 disc c =
     (case bc_is_mayhem_mode c of Absent \<Rightarrow> None
      | Present m \<Rightarrow>
          (case bc_is_cashback_coin c of Absent \<Rightarrow> None
           | Present k \<Rightarrow> Some (encode_81 disc c @ [bool_byte m, bool_byte k])))"

definition curve_is_active :: "bonding_curve \<Rightarrow> bool" where
  "curve_is_active c \<longleftrightarrow> \<not> bc_complete c"

section \<open>Fee schedule\<close>

record pumpfun_fees =
  pf_lp_fee_bps :: u64
  pf_protocol_fee_bps :: u64
  pf_creator_fee_bps :: u64

record pumpfun_fee_tier =
  ft_market_cap_lamports_threshold :: u128
  ft_fees :: pumpfun_fees

record pumpfun_fee_config =
  fc_bump :: u8
  fc_admin :: pubkey
  fc_flat_fees :: pumpfun_fees
  fc_fee_tiers :: "pumpfun_fee_tier list"

text \<open>The product of two \<open>u64\<close> values fits in \<open>u128\<close>.\<close>

definition bonding_curve_market_cap :: "bool \<Rightarrow> u64 \<Rightarrow> u64 \<Rightarrow> u64 \<Rightarrow> u128 option" where
  "bonding_curve_market_cap oc sol tok total_supply =
     (if tok = 0 then Some 0
      else do {
        p \<leftarrow> u_mul oc 128 (unat sol) (unat total_supply);
        q \<leftarrow> u_div p (unat tok);
        Some (as_u128 q)
      })"

definition zero_fees :: pumpfun_fees where
  "zero_fees = \<lparr> pf_lp_fee_bps = 0, pf_protocol_fee_bps = 0, pf_creator_fee_bps = 0 \<rparr>"

fun calculate_fee_tier :: "pumpfun_fee_tier list \<Rightarrow> u128 \<Rightarrow> pumpfun_fees" where
  "calculate_fee_tier [] cap = zero_fees"
| "calculate_fee_tier (first # rest) cap =
     (if cap < ft_market_cap_lamports_threshold first then ft_fees first
      else (case find (\<lambda>t. ft_market_cap_lamports_threshold t \<le> cap) (rev (first # rest)) of
              Some t \<Rightarrow> ft_fees t
            | None \<Rightarrow> ft_fees first))"

section \<open>The global account\<close>

record pumpfun_global =
  pg_initialized :: bool
  pg_authority :: pubkey
  pg_fee_recipient :: pubkey
  pg_initial_virtual_token_reserves :: u64
  pg_initial_virtual_sol_reserves :: u64
  pg_initial_real_token_reserves :: u64
  pg_token_total_supply :: u64
  pg_fee_basis_points :: u64
  pg_withdraw_authority :: pubkey
  pg_enable_migrate :: bool
  pg_pool_migration_fee :: u64
  pg_creator_fee_basis_points :: u64
  pg_fee_recipients :: "pubkey list"
  pg_set_creator_authority :: pubkey
  pg_admin_set_creator_authority :: pubkey
  pg_create_v2_enabled :: bool
  pg_whitelist_pda :: pubkey
  pg_reserved_fee_recipient :: pubkey
  pg_mayhem_mode_enabled :: bool
  pg_reserved_fee_recipients :: "pubkey list"
  pg_is_cashback_enabled :: bool

record pumpfun_fee_recipients =
  fr_regular :: pubkey
  fr_mayhem :: pubkey

text \<open>The two arrays hold 7 keys each, so that the first is there.\<close>

definition from_global :: "pumpfun_global \<Rightarrow> pumpfun_fee_recipients" where
  "from_global g =
     \<lparr> fr_regular = pg_fee_recipients g ! 0, fr_mayhem = pg_reserved_fee_recipients g ! 0 \<rparr>"

definition for_curve :: "pumpfun_fee_recipients \<Rightarrow> bool \<Rightarrow> pubkey" where
  "for_curve r is_mayhem = (if is_mayhem then fr_mayhem r else fr_regular r)"

section \<open>Prices\<close>

definition sol_decimals :: nat where "sol_decimals = 9"

definition token_decimals :: nat where "token_decimals = 6"

definition fee_denominator :: nat where "fee_denominator = 10000"

text \<open>\<open>sol / 10^9 / (token / 10^6)\<close>, each step rounded.\<close>

definition calculate_price :: "nat \<Rightarrow> nat \<Rightarrow> f64" where
  "calculate_price sol token =
     f_div (f_div (f_of_nat sol) (f_powi (f_of_nat 10) (int sol_decimals)))
           (f_div (f_of_nat token) (f_powi (f_of_nat 10) (int token_decimals)))"

definition calculate_effective_price :: "u64 \<Rightarrow> u64 \<Rightarrow> f64" where
  "calculate_effective_price sol token =
     (if token = 0 then f_0 else calculate_price (unat sol) (unat token))"

definition calculate_price_impact :: "f64 \<Rightarrow> f64 \<Rightarrow> u16" where
  "calculate_price_impact pre post =
     (if f_eq pre f_0 then 0
      else f_as_u16 (f_mul (f_abs (f_div (f_sub post pre) pre)) (f_of_nat 10000)))"

definition curve_spot_price :: "bonding_curve \<Rightarrow> f64" where
  "curve_spot_price c =
     (if bc_virtual_token_reserves c = 0 then f_0
      else calculate_price (unat (bc_virtual_quote_reserves c)) (unat (bc_virtual_token_reserves c)))"

section \<open>Swaps\<close>

text \<open>\<open>(amount * u128::from(bps)).div_ceil(FEE_DENOMINATOR as u128)\<close>\<close>

definition fee_ceil :: "bool \<Rightarrow> nat \<Rightarrow> u64 \<Rightarrow> nat option" where
  "fee_ceil oc a bps = do {
     p \<leftarrow> u_mul oc 128 a (unat bps);
     u_div_ceil p fee_denominator
   }"

text \<open>The end of each of the four functions: the price impact, the prices and the builder. The
  last four arguments are the reserves after the swap and the amounts of the effective price, SOL
  side first.\<close>

definition curve_output ::
  "bool \<Rightarrow> bonding_curve \<Rightarrow> u64 \<Rightarrow> u64 \<Rightarrow> nat \<Rightarrow> nat \<Rightarrow> nat \<Rightarrow> nat \<Rightarrow> u64 \<Rightarrow> u64 \<Rightarrow>
   (error, swap_output) outcome" where
  "curve_output oc c ain aout protocol_fee creator_fee new_sol new_token sol tok = do {
     q \<leftarrow> build oc (builder_new
       \<lparr> sb_amount_in := ain,
         sb_amount_out := aout,
         sb_protocol_fee := as_u64 protocol_fee,
         sb_lp_fee := as_u64 creator_fee,
         sb_price_impact_bps :=
           calculate_price_impact (curve_spot_price c) (calculate_price new_sol new_token),
         sb_effective_price := calculate_effective_price sol tok,
         sb_post_swap_price := calculate_price new_sol new_token \<rparr>);
     Some (Inr q)
   }"

definition calculate_buy ::
  "bool \<Rightarrow> bonding_curve \<Rightarrow> u64 \<Rightarrow> pumpfun_fees \<Rightarrow> (error, swap_output) outcome" where
  "calculate_buy oc c sol fees =
     (if bc_complete c then Some (Inl BondingCurveCompleted)
      else if sol = 0 then Some (Inl ZeroAmount)
      else do {
        protocol_fee \<leftarrow> fee_ceil oc (unat sol) (pf_protocol_fee_bps fees);
        creator_fee \<leftarrow> fee_ceil oc (unat sol) (pf_creator_fee_bps fees);
        total_fee \<leftarrow> u_add oc 128 protocol_fee creator_fee;
        amount_in_after_fee \<leftarrow> u_sub oc 128 (unat sol) total_fee;
        numerator \<leftarrow> u_mul oc 128 (unat (bc_virtual_token_reserves c)) amount_in_after_fee;
        denominator \<leftarrow> u_add oc 128 (unat (bc_virtual_quote_reserves c)) amount_in_after_fee;
        amount_out \<leftarrow> u_div numerator denominator;
        new_reserve_in \<leftarrow> u_add oc 128 (unat (bc_virtual_quote_reserves c)) amount_in_after_fee;
        new_reserve_out \<leftarrow> u_sub oc 128 (unat (bc_virtual_token_reserves c)) amount_out;
        curve_output oc c sol (as_u64 amount_out) protocol_fee creator_fee
          new_reserve_in new_reserve_out sol (as_u64 amount_out)
      })"

definition calculate_sell ::
  "bool \<Rightarrow> bonding_curve \<Rightarrow> u64 \<Rightarrow> pumpfun_fees \<Rightarrow> (error, swap_output) outcome" where
  "calculate_sell oc c tok fees =
     (if bc_complete c then Some (Inl BondingCurveCompleted)
      else if tok = 0 then Some (Inl ZeroAmount)
      else do {
        numerator \<leftarrow> u_mul oc 128 (unat (bc_virtual_quote_reserves c)) (unat tok);
        denominator \<leftarrow> u_add oc 128 (unat (bc_virtual_token_reserves c)) (unat tok);
        amount_out_before_fees \<leftarrow> u_div numerator denominator;
        protocol_fee \<leftarrow> fee_ceil oc amount_out_before_fees (pf_protocol_fee_bps fees);
        creator_fee \<leftarrow> fee_ceil oc amount_out_before_fees (pf_creator_fee_bps fees);
        total_fee \<leftarrow> u_add oc 128 protocol_fee creator_fee;
        amount_out \<leftarrow> u_sub oc 128 amount_out_before_fees total_fee;
        new_reserve_in \<leftarrow> u_add oc 128 (unat (bc_virtual_token_reserves c)) (unat tok);
        new_reserve_out \<leftarrow> u_sub oc 128 (unat (bc_virtual_quote_reserves c)) amount_out_before_fees;
        curve_output oc c tok (as_u64 amount_out) protocol_fee creator_fee
          new_reserve_out new_reserve_in (as_u64 amount_out) tok
      })"

definition calculate_buy_exact_out ::
  "bool \<Rightarrow> bonding_curve \<Rightarrow> u64 \<Rightarrow> pumpfun_fees \<Rightarrow> (error, swap_output) outcome" where
  "calculate_buy_exact_out oc c tok fees =
     (if bc_complete c then Some (Inl BondingCurveCompleted)
      else if tok = 0 then Some (Inl ZeroAmount)
      else if unat tok \<ge> unat (bc_virtual_token_reserves c)
      then Some (Inl (InsufficientReserves tok (bc_virtual_token_reserves c)))
      else do {
        denominator \<leftarrow> u_sub oc 128 (unat (bc_virtual_token_reserves c)) (unat tok);
        numerator \<leftarrow> u_mul oc 128 (unat (bc_virtual_quote_reserves c)) (unat tok);
        amount_in_after_fee \<leftarrow> u_div_ceil numerator denominator;
        total_fee_bps \<leftarrow> u_add oc 64 (unat (pf_protocol_fee_bps fees)) (unat (pf_creator_fee_bps fees));
        denominator_after_fee \<leftarrow> u_sub oc 64 fee_denominator total_fee_bps;
        gross \<leftarrow> u_mul oc 128 amount_in_after_fee fee_denominator;
        amount_in \<leftarrow> u_div_ceil gross denominator_after_fee;
        protocol_fee \<leftarrow> fee_ceil oc amount_in (pf_protocol_fee_bps fees);
        creator_fee \<leftarrow> fee_ceil oc amount_in (pf_creator_fee_bps fees);
        new_reserve_in \<leftarrow> u_add oc 128 (unat (bc_virtual_quote_reserves c)) amount_in_after_fee;
        new_reserve_out \<leftarrow> u_sub oc 128 (unat (bc_virtual_token_reserves c)) (unat tok);
        curve_output oc c (as_u64 amount_in) tok protocol_fee creator_fee
          new_reserve_in new_reserve_out (as_u64 amount_in) tok
      })"

text \<open>The reserve check comes after the gross-up, which may already panic.\<close>

definition calculate_sell_exact_out ::
  "bool \<Rightarrow> bonding_curve \<Rightarrow> u64 \<Rightarrow> pumpfun_fees \<Rightarrow> (error, swap_output) outcome" where
  "calculate_sell_exact_out oc c sol fees =
     (if bc_complete c then Some (Inl BondingCurveCompleted)
      else if sol = 0 then Some (Inl ZeroAmount)
      else do {
        total_fee_bps \<leftarrow> u_add oc 64 (unat (pf_protocol_fee_bps fees)) (unat (pf_creator_fee_bps fees));
        gross \<leftarrow> u_mul oc 128 (unat sol) fee_denominator;
        rate \<leftarrow> u_sub oc 64 fee_denominator total_fee_bps;
        sol_out_before_fees \<leftarrow> u_div_ceil gross rate;
        if sol_out_before_fees \<ge> unat (bc_virtual_quote_reserves c)
        then Some (Inl (InsufficientReserves (as_u64 sol_out_before_fees)
                          (bc_virtual_quote_reserves c)))
        else do {
          denominator \<leftarrow> u_sub oc 128 (unat (bc_virtual_quote_reserves c)) sol_out_before_fees;
          numerator \<leftarrow> u_mul oc 128 (unat (bc_virtual_token_reserves c)) sol_out_before_fees;
          tokens_in \<leftarrow> u_div_ceil numerator denominator;
          protocol_fee \<leftarrow> fee_ceil oc sol_out_before_fees (pf_protocol_fee_bps fees);
          creator_fee \<leftarrow> fee_ceil oc sol_out_before_fees (pf_creator_fee_bps fees);
          new_reserve_in \<leftarrow> u_add oc 128 (unat (bc_virtual_token_reserves c)) tokens_in;
          new_reserve_out \<leftarrow> u_sub oc 128 (unat (bc_virtual_quote_reserves c)) sol_out_before_fees;
          curve_output oc c (as_u64 tokens_in) sol protocol_fee creator_fee
          new_reserve_out new_reserve_in sol (as_u64 tokens_in)
        }
      })"

definition calculate_swap_with_fees ::
  "bool \<Rightarrow> bonding_curve \<Rightarrow> swap_params \<Rightarrow> pumpfun_fees \<Rightarrow> (error, swap_output) outcome" where
  "calculate_swap_with_fees oc c p fees =
     (case (sp_direction p, sp_amount p) of
        (Buy, ExactIn a) \<Rightarrow> calculate_buy oc c a fees
      | (Buy, ExactOut a) \<Rightarrow> calculate_buy_exact_out oc c a fees
      | (Sell, ExactIn a) \<Rightarrow> calculate_sell oc c a fees
      | (Sell, ExactOut a) \<Rightarrow> calculate_sell_exact_out oc c a fees)"

definition compiled_in_fees :: pumpfun_fees where
  "compiled_in_fees = \<lparr> pf_lp_fee_bps = 0, pf_protocol_fee_bps = 95, pf_creator_fee_bps = 30 \<rparr>"

definition curve_calculate_swap ::
  "bool \<Rightarrow> bonding_curve \<Rightarrow> swap_params \<Rightarrow> (error, swap_output) outcome" where
  "curve_calculate_swap oc c p = calculate_swap_with_fees oc c p compiled_in_fees"

section \<open>The quote bundle\<close>

record pumpfun_quote =
  pq_curve :: bonding_curve
  pq_fee_config :: pumpfun_fee_config
  pq_fees :: pumpfun_fees

text \<open>
  What \<open>#[derive(QuoteState)]\<close> generates: the root account is read from the cache at the slot, the
  singleton at its current value, and the computed field last; a missing account is \<open>None\<close>. The
  outer option is a panic.
\<close>

definition pumpfun_quote_assemble ::
  "bool \<Rightarrow> (pubkey \<Rightarrow> u64 \<Rightarrow> bonding_curve option) \<Rightarrow> pumpfun_fee_config option \<Rightarrow>
   pubkey \<Rightarrow> u64 \<Rightarrow> pumpfun_quote option option" where
  "pumpfun_quote_assemble oc get_curve config pool slot =
     (case get_curve pool slot of None \<Rightarrow> Some None
      | Some c \<Rightarrow>
          (case config of None \<Rightarrow> Some None
           | Some cfg \<Rightarrow> do {
               cap \<leftarrow> bonding_curve_market_cap oc (bc_virtual_quote_reserves c)
                       (bc_virtual_token_reserves c) (bc_token_total_supply c);
               Some (Some \<lparr> pq_curve = c, pq_fee_config = cfg,
                            pq_fees = calculate_fee_tier (fc_fee_tiers cfg) cap \<rparr>)
             }))"

definition market_cap_lamports :: "bool \<Rightarrow> pumpfun_quote \<Rightarrow> u128 option" where
  "market_cap_lamports oc q =
     bonding_curve_market_cap oc (bc_virtual_quote_reserves (pq_curve q))
       (bc_virtual_token_reserves (pq_curve q)) (bc_token_total_supply (pq_curve q))"

definition pumpfun_quote_calculate_swap ::
  "bool \<Rightarrow> pumpfun_quote \<Rightarrow> swap_params \<Rightarrow> (error, swap_output) outcome" where
  "pumpfun_quote_calculate_swap oc q p = calculate_swap_with_fees oc (pq_curve q) p (pq_fees q)"

section \<open>The quotes are the constant-product rule\<close>

definition fee_of :: "nat \<Rightarrow> u64 \<Rightarrow> nat" where
  "fee_of a bps = ceil_div (a * unat bps) 10000"

lemma fee_ceil_ok: "a < 2 ^ 64 \<Longrightarrow> fee_ceil oc a bps = Some (fee_of a bps)"
  using mult_u64_fits [of a "unat bps"] unat_u64_less [of bps]
  by (simp add: fee_ceil_def fee_of_def fee_denominator_def rust_ok)

text \<open>The builder's total fee fits when the two parts together do not exceed a \<open>u64\<close> value.\<close>

lemma build_ok:
  "unat (sb_protocol_fee b) + unat (sb_lp_fee b) < 2 ^ 64 \<Longrightarrow> \<exists>q. build oc b = Some q"
  by (simp add: build_def rust_ok)

lemma build_total:
  assumes "build oc b = Some q" "unat (sb_protocol_fee b) + unat (sb_lp_fee b) < 2 ^ 64"
  shows "unat (so_fee q) = unat (sb_protocol_fee b) + unat (sb_lp_fee b)"
  using assms by (auto simp: build_def rust_ok unat_as_u64 simp del: of_nat_add)

definition buy_fee :: "pumpfun_fees \<Rightarrow> nat \<Rightarrow> nat" where
  "buy_fee fees a = fee_of a (pf_protocol_fee_bps fees) + fee_of a (pf_creator_fee_bps fees)"

lemma curve_output_ok:
  assumes "p + k < 2 ^ 64"
  shows "\<exists>q. curve_output oc c ain aout p k ns nt es et = Some (Inr q) \<and> so_amount_in q = ain \<and>
     so_amount_out q = aout \<and> unat (so_protocol_fee q) = p \<and> unat (so_lp_fee q) = k \<and>
     unat (so_fee q) = p + k"
proof -
  let ?b = "builder_new \<lparr> sb_amount_in := ain, sb_amount_out := aout, sb_protocol_fee := as_u64 p,
     sb_lp_fee := as_u64 k, sb_price_impact_bps :=
       calculate_price_impact (curve_spot_price c) (calculate_price ns nt),
     sb_effective_price := calculate_effective_price es et,
     sb_post_swap_price := calculate_price ns nt \<rparr>"
  have parts: "unat (as_u64 p) = p" "unat (as_u64 k) = k"
    using assms by (auto intro!: unat_as_u64)
  obtain q where q: "build oc ?b = Some q"
    using build_ok [of ?b oc] parts assms by auto
  show ?thesis
    using q build_fields [OF q] build_total [OF q] parts assms
    by (simp add: curve_output_def)
qed

lemma curve_output_fields:
  assumes "curve_output oc c ain aout p k ns nt es et = Some (Inr q)"
  shows "so_amount_in q = ain" "so_amount_out q = aout"
    "oc \<Longrightarrow> unat (so_fee q) = unat (so_protocol_fee q) + unat (so_lp_fee q)"
  using assms build_fields by (force simp: curve_output_def bind_eq_Some_conv)+

lemma calculate_buy_ok:
  fixes c sol fees
  defines "rin \<equiv> unat (bc_virtual_quote_reserves c)"
    and "rout \<equiv> unat (bc_virtual_token_reserves c)"
    and "net \<equiv> unat sol - buy_fee fees (unat sol)"
  assumes live: "\<not> bc_complete c" "sol \<noteq> 0"
    and covers: "buy_fee fees (unat sol) \<le> unat sol" and pos: "0 < rin + net"
  shows "\<exists>q. calculate_buy oc c sol fees = Some (Inr q) \<and> so_amount_in q = sol \<and>
     unat (so_amount_out q) = cp_out rin rout net \<and>
     unat (so_protocol_fee q) = fee_of (unat sol) (pf_protocol_fee_bps fees) \<and>
     unat (so_lp_fee q) = fee_of (unat sol) (pf_creator_fee_bps fees) \<and>
     unat (so_fee q) = buy_fee fees (unat sol)"
proof -
  let ?p = "fee_of (unat sol) (pf_protocol_fee_bps fees)"
  let ?k = "fee_of (unat sol) (pf_creator_fee_bps fees)"
  let ?out = "cp_out rin rout net"
  have sol: "unat sol < 2 ^ 64" and rin: "rin < 2 ^ 64" and rout: "rout < 2 ^ 64"
    using unat_u64_less by (simp_all add: rin_def rout_def)
  have net: "net < 2 ^ 64" using sol by (simp add: net_def)
  have prod: "rout * net < 2 ^ 128" using rout net by (rule mult_u64_fits)
  have out: "?out \<le> rout" by (rule cp_out_le)
  have fees64: "?p + ?k < 2 ^ 64" using covers sol by (simp add: buy_fee_def)
  have "calculate_buy oc c sol fees =
      curve_output oc c sol (as_u64 ?out) ?p ?k (rin + net) (rout - ?out) sol (as_u64 ?out)"
  proof -
    have "u_add oc 128 ?p ?k = Some (?p + ?k)" "u_add oc 128 rin net = Some (rin + net)"
      "u_sub oc 128 (unat sol) (?p + ?k) = Some net" "u_sub oc 128 rout ?out = Some (rout - ?out)"
      "u_mul oc 128 rout net = Some (rout * net)" "u_div (rout * net) (rin + net) = Some ?out"
      using fees64 rin net covers out prod pos
      by (simp_all add: rust_ok net_def buy_fee_def cp_out_def)
    then show ?thesis
      using live sol by (simp add: calculate_buy_def fee_ceil_ok flip: rin_def rout_def)
  qed
  moreover have "unat (as_u64 ?out) = ?out"
    using out rout by (intro unat_as_u64) linarith
  ultimately show ?thesis
    using curve_output_ok [OF fees64, of oc c sol "as_u64 ?out" "rin + net" "rout - ?out" sol "as_u64 ?out"]
    by (auto simp: buy_fee_def)
qed

lemma calculate_sell_ok:
  fixes c tok fees
  defines "rin \<equiv> unat (bc_virtual_token_reserves c)"
    and "rout \<equiv> unat (bc_virtual_quote_reserves c)"
  defines "gross \<equiv> cp_out rin rout (unat tok)"
  assumes live: "\<not> bc_complete c" "tok \<noteq> 0" and covers: "buy_fee fees gross \<le> gross"
  shows "\<exists>q. calculate_sell oc c tok fees = Some (Inr q) \<and> so_amount_in q = tok \<and>
     unat (so_amount_out q) = gross - buy_fee fees gross \<and>
     unat (so_fee q) = buy_fee fees gross"
proof -
  let ?p = "fee_of gross (pf_protocol_fee_bps fees)"
  let ?k = "fee_of gross (pf_creator_fee_bps fees)"
  let ?out = "gross - (?p + ?k)"
  have tok: "unat tok < 2 ^ 64" "0 < unat tok" and rin: "rin < 2 ^ 64" and rout: "rout < 2 ^ 64"
    using unat_u64_less live(2) by (simp_all add: rin_def rout_def unat_gt_0)
  have gross: "gross \<le> rout" unfolding gross_def by (rule cp_out_le)
  have g64: "gross < 2 ^ 64" using gross rout by linarith
  have fees64: "?p + ?k < 2 ^ 64" using covers g64 by (simp add: buy_fee_def)
  have prod: "rout * unat tok < 2 ^ 128" using rout tok by (intro mult_u64_fits)
  have "calculate_sell oc c tok fees =
      curve_output oc c tok (as_u64 ?out) ?p ?k (rout - gross) (rin + unat tok) (as_u64 ?out) tok"
  proof -
    have "u_add oc 128 ?p ?k = Some (?p + ?k)" "u_add oc 128 rin (unat tok) = Some (rin + unat tok)"
      "u_sub oc 128 gross (?p + ?k) = Some ?out" "u_sub oc 128 rout gross = Some (rout - gross)"
      "u_mul oc 128 rout (unat tok) = Some (rout * unat tok)"
      "u_div (rout * unat tok) (rin + unat tok) = Some gross"
      using fees64 rin tok covers gross prod
      by (simp_all add: rust_ok buy_fee_def cp_out_def gross_def)
    then show ?thesis
      using live g64 by (simp add: calculate_sell_def fee_ceil_ok flip: rin_def rout_def)
  qed
  moreover have "unat (as_u64 ?out) = ?out"
    using g64 by (intro unat_as_u64) linarith
  ultimately show ?thesis
    using curve_output_ok [OF fees64, of oc c tok "as_u64 ?out" "rout - gross" "rin + unat tok" "as_u64 ?out" tok]
    by (auto simp: buy_fee_def)
qed

text \<open>The gross-up of an exact-out quote and what the fees, each rounded up, leave of it.\<close>

definition gross_up :: "pumpfun_fees \<Rightarrow> nat \<Rightarrow> nat" where
  "gross_up fees net =
     ceil_div (net * 10000)
       (10000 - (unat (pf_protocol_fee_bps fees) + unat (pf_creator_fee_bps fees)))"

definition total_bps :: "pumpfun_fees \<Rightarrow> nat" where
  "total_bps fees = unat (pf_protocol_fee_bps fees) + unat (pf_creator_fee_bps fees)"

lemma gross_up_covers:
  "total_bps fees < 10000 \<Longrightarrow> net * 10000 \<le> gross_up fees net * (10000 - total_bps fees)"
  unfolding gross_up_def total_bps_def by (rule ceil_div_upper) simp

lemma gross_up_ge: "total_bps fees < 10000 \<Longrightarrow> net \<le> gross_up fees net"
proof -
  assume t: "total_bps fees < 10000"
  have "net * 10000 \<le> gross_up fees net * 10000"
    using gross_up_covers [OF t, of net] by (meson diff_le_self le_trans mult_le_mono2)
  then show ?thesis by simp
qed

lemma fee_of_upper: "fee_of a b * 10000 < a * unat b + 10000"
proof (cases "a * unat b = 0")
  case False
  then have "(fee_of a b - 1) * 10000 < a * unat b"
    unfolding fee_of_def by (intro ceil_div_lower) auto
  then show ?thesis by (simp add: diff_mult_distrib)
qed (auto simp: fee_of_def)

text \<open>Two fees that round up separately take less than two units more than the exact fee.\<close>

lemma buy_fee_upper: "buy_fee fees a * 10000 + 2 \<le> a * total_bps fees + 20000"
  using fee_of_upper [of a "pf_protocol_fee_bps fees"] fee_of_upper [of a "pf_creator_fee_bps fees"]
  by (simp add: buy_fee_def total_bps_def algebra_simps)

lemma gross_up_net:
  assumes "total_bps fees < 10000"
  shows "net \<le> gross_up fees net - buy_fee fees (gross_up fees net) + 1"
proof -
  let ?a = "gross_up fees net" and ?t = "total_bps fees"
  have "net * 10000 + ?a * ?t \<le> ?a * 10000"
    using gross_up_covers [OF assms, of net] assms
    by (metis add_le_mono1 add_mult_distrib2 le_add_diff_inverse2 less_imp_le_nat)
  then have "net * 10000 + buy_fee fees ?a * 10000 + 2 \<le> ?a * 10000 + 20000"
    using buy_fee_upper [of fees ?a] by linarith
  then show ?thesis by linarith
qed

lemma buy_fee_fits:
  assumes "total_bps fees < 10000" "a < 2 ^ 64"
  shows "buy_fee fees a < 2 ^ 64"
proof -
  have "a * total_bps fees \<le> a * 9999"
    using assms(1) by (intro mult_le_mono2) simp
  moreover have "a < 18446744073709551616" using assms(2) by simp
  ultimately have "buy_fee fees a < 18446744073709551616"
    using buy_fee_upper [of fees a] by linarith
  then show ?thesis by simp
qed

lemma calculate_buy_exact_out_ok:
  fixes c tok fees
  defines "rin \<equiv> unat (bc_virtual_quote_reserves c)"
    and "rout \<equiv> unat (bc_virtual_token_reserves c)"
  defines "net \<equiv> cp_in rin rout (unat tok)"
  defines "a \<equiv> gross_up fees net"
  assumes live: "\<not> bc_complete c" "tok \<noteq> 0" and small: "unat tok < rout"
    and t: "total_bps fees < 10000" and fits: "a < 2 ^ 64"
  shows "\<exists>q. calculate_buy_exact_out oc c tok fees = Some (Inr q) \<and> so_amount_out q = tok \<and>
     unat (so_amount_in q) = a \<and> unat (so_fee q) = buy_fee fees a"
proof -
  let ?p = "fee_of a (pf_protocol_fee_bps fees)"
  let ?k = "fee_of a (pf_creator_fee_bps fees)"
  have tok: "unat tok < 2 ^ 64" and rin: "rin < 2 ^ 64" and rout: "rout < 2 ^ 64"
    using unat_u64_less by (simp_all add: rin_def rout_def)
  have net: "net \<le> a" unfolding a_def using t by (rule gross_up_ge)
  have n64: "net < 2 ^ 64" using net fits by linarith
  have fees64: "?p + ?k < 2 ^ 64" using buy_fee_fits [OF t fits] by (simp add: buy_fee_def)
  have prod: "rin * unat tok < 2 ^ 128" using rin tok by (rule mult_u64_fits)
  have gross: "net * 10000 < 2 ^ 128" using n64 by (intro mult_u64_fits) simp_all
  have "calculate_buy_exact_out oc c tok fees =
      curve_output oc c (as_u64 a) tok ?p ?k (rin + net) (rout - unat tok) (as_u64 a) tok"
  proof -
    have "u_sub oc 128 rout (unat tok) = Some (rout - unat tok)"
      "u_mul oc 128 rin (unat tok) = Some (rin * unat tok)"
      "u_div_ceil (rin * unat tok) (rout - unat tok) = Some net"
      "u_add oc 64 (unat (pf_protocol_fee_bps fees)) (unat (pf_creator_fee_bps fees)) =
         Some (total_bps fees)"
      "u_sub oc 64 fee_denominator (total_bps fees) = Some (10000 - total_bps fees)"
      "u_mul oc 128 net fee_denominator = Some (net * 10000)"
      "u_div_ceil (net * 10000) (10000 - total_bps fees) = Some a"
      "u_add oc 128 rin net = Some (rin + net)"
      using small prod t gross rin n64
      by (simp_all add: rust_ok cp_in_def net_def fee_denominator_def a_def gross_up_def total_bps_def)
    then show ?thesis
      using live small fits by (simp add: calculate_buy_exact_out_def fee_ceil_ok flip: rin_def rout_def)
  qed
  moreover have "unat (as_u64 a) = a"
    using fits by (rule unat_as_u64)
  ultimately show ?thesis
    using curve_output_ok [OF fees64, of oc c "as_u64 a" tok "rin + net" "rout - unat tok" "as_u64 a" tok]
    by (auto simp: buy_fee_def)
qed

lemma calculate_sell_exact_out_ok:
  fixes c sol fees
  defines "rin \<equiv> unat (bc_virtual_token_reserves c)"
    and "rout \<equiv> unat (bc_virtual_quote_reserves c)"
  defines "g \<equiv> gross_up fees (unat sol)"
  defines "x \<equiv> cp_in rin rout g"
  assumes live: "\<not> bc_complete c" "sol \<noteq> 0" and t: "total_bps fees < 10000"
    and small: "g < rout" and fits: "x < 2 ^ 64"
  shows "\<exists>q. calculate_sell_exact_out oc c sol fees = Some (Inr q) \<and> so_amount_out q = sol \<and>
     unat (so_amount_in q) = x \<and> unat (so_fee q) = buy_fee fees g"
proof -
  let ?p = "fee_of g (pf_protocol_fee_bps fees)"
  let ?k = "fee_of g (pf_creator_fee_bps fees)"
  have sol: "unat sol < 2 ^ 64" and rin: "rin < 2 ^ 64" and rout: "rout < 2 ^ 64"
    using unat_u64_less by (simp_all add: rin_def rout_def)
  have g64: "g < 2 ^ 64" using small rout by linarith
  have fees64: "?p + ?k < 2 ^ 64" using buy_fee_fits [OF t g64] by (simp add: buy_fee_def)
  have prod: "rin * g < 2 ^ 128" using rin g64 by (rule mult_u64_fits)
  have gross: "unat sol * 10000 < 2 ^ 128" using sol by (intro mult_u64_fits) simp_all
  have "calculate_sell_exact_out oc c sol fees =
      curve_output oc c (as_u64 x) sol ?p ?k (rout - g) (rin + x) sol (as_u64 x)"
  proof -
    have "u_add oc 64 (unat (pf_protocol_fee_bps fees)) (unat (pf_creator_fee_bps fees)) =
        Some (total_bps fees)"
      "u_mul oc 128 (unat sol) fee_denominator = Some (unat sol * 10000)"
      "u_sub oc 64 fee_denominator (total_bps fees) = Some (10000 - total_bps fees)"
      "u_div_ceil (unat sol * 10000) (10000 - total_bps fees) = Some g"
      "u_sub oc 128 rout g = Some (rout - g)" "u_mul oc 128 rin g = Some (rin * g)"
      "u_div_ceil (rin * g) (rout - g) = Some x" "u_add oc 128 rin x = Some (rin + x)"
      using small prod t gross rin fits
      by (simp_all add: rust_ok cp_in_def fee_denominator_def g_def gross_up_def total_bps_def x_def)
    then show ?thesis
      using live small g64
      by (simp add: calculate_sell_exact_out_def fee_ceil_ok flip: rin_def rout_def)
  qed
  moreover have "unat (as_u64 x) = x"
    using fits by (rule unat_as_u64)
  ultimately show ?thesis
    using curve_output_ok [OF fees64, of oc c "as_u64 x" sol "rout - g" "rin + x" sol "as_u64 x"]
    by (auto simp: buy_fee_def)
qed

section \<open>The curve implements the contract of \<open>SwapMath\<close>\<close>

definition curve_avail :: "bonding_curve \<Rightarrow> swap_direction \<Rightarrow> nat" where
  "curve_avail c d =
     (case d of Buy \<Rightarrow> unat (bc_virtual_token_reserves c) | Sell \<Rightarrow> unat (bc_virtual_quote_reserves c))"

lemma calculate_buy_quote:
  assumes "calculate_buy oc c sol fees = Some (Inr q)"
  shows "so_amount_in q = sol"
    and "oc \<Longrightarrow> unat (so_amount_out q) \<le> unat (bc_virtual_token_reserves c)"
    and "oc \<Longrightarrow> unat (so_fee q) = unat (so_protocol_fee q) + unat (so_lp_fee q)"
  using assms
  by (auto simp: calculate_buy_def steps curve_output_fields split: if_splits
      intro: order_trans [OF unat_as_u64_le])

lemma calculate_sell_quote:
  assumes "calculate_sell oc c tok fees = Some (Inr q)"
  shows "so_amount_in q = tok"
    and "oc \<Longrightarrow> unat (so_amount_out q) \<le> unat (bc_virtual_quote_reserves c)"
    and "oc \<Longrightarrow> unat (so_fee q) = unat (so_protocol_fee q) + unat (so_lp_fee q)"
  using assms
  by (auto simp: calculate_sell_def steps curve_output_fields simp del: of_nat_diff
      split: if_splits intro!: order_trans [OF unat_as_u64_le])

lemma calculate_buy_exact_out_quote:
  assumes "calculate_buy_exact_out oc c tok fees = Some (Inr q)"
  shows "unat (so_amount_out q) \<le> unat (bc_virtual_token_reserves c)"
    and "oc \<Longrightarrow> unat (so_fee q) = unat (so_protocol_fee q) + unat (so_lp_fee q)"
  using assms
  by (auto simp: calculate_buy_exact_out_def steps curve_output_fields split: if_splits)

lemma calculate_sell_exact_out_quote:
  assumes "calculate_sell_exact_out oc c sol fees = Some (Inr q)"
  shows "oc \<Longrightarrow> unat (so_amount_out q) \<le> unat (bc_virtual_quote_reserves c)"
    and "oc \<Longrightarrow> unat (so_fee q) = unat (so_protocol_fee q) + unat (so_lp_fee q)"
proof -
  show "oc \<Longrightarrow> unat (so_fee q) = unat (so_protocol_fee q) + unat (so_lp_fee q)"
    using assms
    by (auto simp: calculate_sell_exact_out_def steps curve_output_fields Let_def split: if_splits)
  assume oc: "oc"
  have t: "total_bps fees < 10000" and g: "gross_up fees (unat sol) < unat (bc_virtual_quote_reserves c)"
    and out: "so_amount_out q = sol"
    using assms oc
    by (auto simp: calculate_sell_exact_out_def steps curve_output_fields total_bps_def
        gross_up_def fee_denominator_def split: if_splits)
  show "unat (so_amount_out q) \<le> unat (bc_virtual_quote_reserves c)"
    using gross_up_ge [OF t, of "unat sol"] g out by simp
qed

lemmas curve_quotes = calculate_buy_quote calculate_sell_quote calculate_buy_exact_out_quote
  calculate_sell_exact_out_quote

lemma swap_with_fees_quote:
  assumes "calculate_swap_with_fees True c p fees = Some (Inr q)"
  shows "is_exact_in p \<Longrightarrow> so_amount_in q = amount_value p"
    and "unat (so_amount_out q) \<le> curve_avail c (sp_direction p)"
    and "unat (so_fee q) = unat (so_protocol_fee q) + unat (so_lp_fee q)"
  using assms
  by (cases "sp_direction p"; cases "sp_amount p";
      simp add: calculate_swap_with_fees_def is_exact_in_def amount_value_def curve_avail_def
        curve_quotes)+

interpretation curve: swap_math "curve_calculate_swap True" curve_avail
  by unfold_locales (simp_all add: curve_calculate_swap_def swap_with_fees_quote)

interpretation pumpfun_bundle: swap_math "pumpfun_quote_calculate_swap True" "\<lambda>q. curve_avail (pq_curve q)"
  by unfold_locales (simp_all add: pumpfun_quote_calculate_swap_def swap_with_fees_quote)

section \<open>Decoding a curve\<close>

lemma encode_81_body:
  "encode_81 disc c = disc @ le_bytes 8 (unat (bc_virtual_token_reserves c))
       @ le_bytes 8 (unat (bc_virtual_quote_reserves c))
       @ le_bytes 8 (unat (bc_real_token_reserves c))
       @ le_bytes 8 (unat (bc_real_quote_reserves c))
       @ le_bytes 8 (unat (bc_token_total_supply c))
       @ bool_byte (bc_complete c) # bc_creator c @ []"
  by (simp add: encode_81_def)

text \<open>Every decode of bytes that begin with the core layout.\<close>

lemma decode_core:
  assumes "borsh_ok B" "length disc = 8" "length (bc_creator c) = 32"
  shows "bonding_curve_from_account_data B disc (encode_81 disc c @ tail) =
     map_err error_of_parse (decode_checked
       (rbind (read_legacy (rd_bool B)) (\<lambda>mm. rbind (read_legacy (rd_bool B)) (\<lambda>cb.
          rret (c \<lparr> bc_is_mayhem_mode := mm, bc_is_cashback_coin := cb \<rparr>))))
       bonding_curve_groups tail)"
  using assms
  by (cases c) (simp add: bonding_curve_from_account_data_def encode_81_def onchain_with_disc
      decode_checked_def borsh_fields_def read_bonding_curve_def)

lemmas decode_tail = decode_checked_def borsh_fields_def bonding_curve_groups_def

section \<open>Tier lookup\<close>

abbreviation "threshold \<equiv> ft_market_cap_lamports_threshold"

lemma find_last_below:
  assumes "sorted_wrt (\<lambda>x y. threshold x < threshold y) ts" "t \<in> set ts" "threshold t \<le> cap"
    and "\<forall>u \<in> set ts. threshold u \<le> cap \<longrightarrow> threshold u \<le> threshold t"
  shows "find (\<lambda>u. threshold u \<le> cap) (rev ts) = Some t"
  using assms
proof (induction ts rule: rev_induct)
  case (snoc x xs)
  show ?case
  proof (cases "t = x")
    case False
    with snoc.prems have "t \<in> set xs" "threshold t < threshold x"
      by (auto simp: sorted_wrt_append)
    with snoc show ?thesis
      by (force simp: sorted_wrt_append not_le [symmetric])
  qed (use snoc.prems in simp)
qed simp

lemma fee_tier_highest:
  assumes "sorted_wrt (\<lambda>x y. threshold x < threshold y) ts" "t \<in> set ts"
    and "threshold t \<le> cap \<and> (\<forall>u \<in> set ts. threshold u \<le> cap \<longrightarrow> threshold u \<le> threshold t) \<or>
         t = hd ts \<and> cap < threshold t"
  shows "calculate_fee_tier ts cap = ft_fees t"
proof (cases ts)
  case (Cons x xs)
  show ?thesis
  proof (cases "cap < threshold x")
    case True
    have "t = x"
    proof (rule ccontr)
      assume "t \<noteq> x"
      with assms Cons have "threshold x < threshold t" "threshold t \<le> cap" by auto
      with True show False by simp
    qed
    with True Cons show ?thesis by simp
  next
    case False
    with assms(3) Cons have "threshold t \<le> cap"
      "\<forall>u \<in> set ts. threshold u \<le> cap \<longrightarrow> threshold u \<le> threshold t" by auto
    from find_last_below [OF assms(1,2) this] False Cons show ?thesis by simp
  qed
qed (use assms(2) in simp)

section \<open>Properties\<close>

text \<open>A curve in its initial state, for the examples.\<close>

definition initial_curve :: bonding_curve where
  "initial_curve =
     \<lparr> bc_virtual_token_reserves = 1000000000000000, bc_virtual_quote_reserves = 30000000000,
       bc_real_token_reserves = 800000000000000, bc_real_quote_reserves = 0,
       bc_token_total_supply = 1000000000000000, bc_complete = False,
       bc_creator = replicate 32 7, bc_is_mayhem_mode = Present False,
       bc_is_cashback_coin = Present True \<rparr>"

lemma initial_curve_sel:
  "bc_virtual_token_reserves initial_curve = 1000000000000000"
  "bc_virtual_quote_reserves initial_curve = 30000000000"
  "bc_complete initial_curve = False"
  by (simp_all add: initial_curve_def)

lemmas curve_example = initial_curve_def compiled_in_fees_def buy_fee_def fee_of_def total_bps_def
  gross_up_def ceil_div_def cp_in_def cp_out_def

text \<open>In a build with overflow checks an exact-in buy on a live curve with a quote reserve
  panics exactly when its two fees, each rounded up, exceed its input; every other non-zero
  buy returns a quote.\<close>

lemma pumpfun_buy_panics_iff:
  assumes "\<not> bc_complete c" "sol \<noteq> 0" "0 < unat (bc_virtual_quote_reserves c)"
  shows "calculate_buy True c sol fees = None \<longleftrightarrow> unat sol < buy_fee fees (unat sol)"
proof (cases "buy_fee fees (unat sol) \<le> unat sol")
  case True
  then show ?thesis
    using calculate_buy_ok [of c sol fees True] assms by auto
next
  case False
  have "calculate_buy True c sol fees = None"
  proof (rule ccontr)
    assume "calculate_buy True c sol fees \<noteq> None"
    then show False
      using False assms unat_u64_less [of sol]
      by (auto simp: calculate_buy_def steps fee_ceil_ok buy_fee_def split: if_splits)
  qed
  with False show ?thesis by simp
qed

text \<open>C14: What an exact-in buy of a non-zero amount answers on a live curve with a virtual quote
  reserve. When the input covers the two fees, each rounded up, it returns in both build profiles
  exactly what the constant-product rule gives for the input net of the fees; it spends the whole
  input, reports the fees it took, and the product of the virtual reserves does not decrease. When the
  input does not cover the fees, as with one lamport, a build with overflow checks panics; what the
  wrapped subtraction of the other build gives is outside this statement.\<close>

theorem pumpfun_buy_constant_product:
  assumes "\<not> bc_complete c" "sol \<noteq> 0" "0 < unat (bc_virtual_quote_reserves c)"
  shows "if buy_fee fees (unat sol) \<le> unat sol
    then \<exists>q net. calculate_buy oc c sol fees = Some (Inr q) \<and>
     net + unat (so_fee q) = unat sol \<and> so_amount_in q = sol \<and>
     unat (so_fee q) = buy_fee fees (unat sol) \<and>
     unat (so_amount_out q) =
       cp_out (unat (bc_virtual_quote_reserves c)) (unat (bc_virtual_token_reserves c)) net \<and>
     unat (bc_virtual_quote_reserves c) * unat (bc_virtual_token_reserves c) \<le>
       (unat (bc_virtual_quote_reserves c) + net) *
       (unat (bc_virtual_token_reserves c) - unat (so_amount_out q))
    else calculate_buy True c sol fees = None"
proof (cases "buy_fee fees (unat sol) \<le> unat sol")
  case True
  define net where "net = unat sol - buy_fee fees (unat sol)"
  have net: "net + buy_fee fees (unat sol) = unat sol"
    using True by (simp add: net_def)
  obtain q where "calculate_buy oc c sol fees = Some (Inr q)" "so_amount_in q = sol"
    "unat (so_fee q) = buy_fee fees (unat sol)" "unat (so_amount_out q) =
       cp_out (unat (bc_virtual_quote_reserves c)) (unat (bc_virtual_token_reserves c)) net"
    using calculate_buy_ok [of c sol fees oc] assms True unfolding net_def by auto
  with True net cp_product [of "unat (bc_virtual_quote_reserves c)" _ net] show ?thesis
    by (simp, intro exI [of _ q] exI [of _ net]) simp
next
  case False
  then show ?thesis
    using pumpfun_buy_panics_iff [OF assms] by simp
qed

lemma pumpfun_buy_constant_product_witness:
  "\<exists>q net. calculate_buy False initial_curve 1000000000 compiled_in_fees = Some (Inr q) \<and>
     net + unat (so_fee q) = 1000000000 \<and> unat (so_fee q) = 12500000 \<and>
     unat (so_amount_out q) = cp_out 30000000000 1000000000000000 net"
proof -
  have fee: "buy_fee compiled_in_fees 1000000000 = 12500000"
    by (simp add: curve_example)
  show ?thesis
    using pumpfun_buy_constant_product [of initial_curve 1000000000 compiled_in_fees False]
    by (auto simp: fee initial_curve_sel)
qed

text \<open>An exact-in sell whose gross output covers its fees pays the constant-product output
  less the fees on it, and the product of the virtual reserves does not decrease.\<close>

lemma pumpfun_sell_constant_product:
  fixes c tok
  defines "gross \<equiv> cp_out (unat (bc_virtual_token_reserves c)) (unat (bc_virtual_quote_reserves c))
                     (unat tok)"
  assumes "\<not> bc_complete c" "tok \<noteq> 0" "buy_fee fees gross \<le> gross"
  shows "\<exists>q. calculate_sell oc c tok fees = Some (Inr q) \<and> so_amount_in q = tok \<and>
     unat (so_amount_out q) + unat (so_fee q) = gross \<and> unat (so_fee q) = buy_fee fees gross \<and>
     unat (bc_virtual_token_reserves c) * unat (bc_virtual_quote_reserves c) \<le>
       (unat (bc_virtual_token_reserves c) + unat tok) *
       (unat (bc_virtual_quote_reserves c) - gross)"
  using calculate_sell_ok [of c tok fees oc] assms
  by (auto simp: cp_product)

text \<open>An exact-out buy within the reserves quotes the gross-up of the least net input that buys
  the tokens, and replaying the quoted input as an exact-in buy succeeds and buys at least what
  that net input less one unit buys: the two fees, rounded up separately, may cost one unit.\<close>

lemma pumpfun_buy_exact_out_replay:
  fixes c tok fees
  defines "rin \<equiv> unat (bc_virtual_quote_reserves c)"
    and "rout \<equiv> unat (bc_virtual_token_reserves c)"
  assumes "\<not> bc_complete c" "tok \<noteq> 0" "unat tok < rout" "0 < rin" "total_bps fees < 10000"
    and fits: "gross_up fees (cp_in rin rout (unat tok)) < 2 ^ 64"
    and covers: "buy_fee fees (gross_up fees (cp_in rin rout (unat tok)))
                   \<le> gross_up fees (cp_in rin rout (unat tok))"
  shows "\<exists>q q'. calculate_buy_exact_out oc c tok fees = Some (Inr q) \<and> so_amount_out q = tok \<and>
     unat (so_amount_in q) = gross_up fees (cp_in rin rout (unat tok)) \<and>
     calculate_buy oc c (so_amount_in q) fees = Some (Inr q') \<and>
     cp_out rin rout (cp_in rin rout (unat tok) - 1) \<le> unat (so_amount_out q')"
proof -
  let ?a = "gross_up fees (cp_in rin rout (unat tok))"
  obtain q where q: "calculate_buy_exact_out oc c tok fees = Some (Inr q)" "so_amount_out q = tok"
    "unat (so_amount_in q) = ?a"
    using calculate_buy_exact_out_ok [of c tok fees oc] assms by auto
  have "0 < rin * unat tok"
    using assms by (simp add: unat_gt_0)
  moreover have "rin * unat tok \<le> cp_in rin rout (unat tok) * (rout - unat tok)"
    unfolding cp_in_def using assms(5) by (intro ceil_div_upper) simp
  ultimately have "0 < cp_in rin rout (unat tok)"
    by (cases "cp_in rin rout (unat tok) = 0") simp_all
  then have "0 < ?a"
    using gross_up_ge [OF assms(7), of "cp_in rin rout (unat tok)"] by linarith
  then have nz: "so_amount_in q \<noteq> 0"
    using q(3) by auto
  obtain q' where q': "calculate_buy oc c (so_amount_in q) fees = Some (Inr q')"
    "unat (so_amount_out q') = cp_out rin rout (?a - buy_fee fees ?a)"
    using calculate_buy_ok [of c "so_amount_in q" fees oc] assms nz by (auto simp: q(3))
  have "cp_in rin rout (unat tok) - 1 \<le> ?a - buy_fee fees ?a"
    using gross_up_net [OF assms(7), of "cp_in rin rout (unat tok)"] by linarith
  then have "cp_out rin rout (cp_in rin rout (unat tok) - 1) \<le> unat (so_amount_out q')"
    unfolding q' by (rule cp_out_mono)
  with q q' show ?thesis by blast
qed

text \<open>The lost unit is real: on a curve in its initial state the exact-out quote for 1000000
  token units is 32 lamports, and an exact-in buy of 32 lamports delivers 999999.\<close>

lemma pumpfun_exact_out_underfunds:
  "\<exists>q q'. calculate_buy_exact_out True initial_curve 1000000 compiled_in_fees = Some (Inr q) \<and>
     so_amount_in q = 32 \<and>
     calculate_buy True initial_curve 32 compiled_in_fees = Some (Inr q') \<and>
     unat (so_amount_out q') = 999999"
proof -
  have vals: "gross_up compiled_in_fees (cp_in 30000000000 1000000000000000 1000000) = 32"
    "buy_fee compiled_in_fees 32 = 2" "total_bps compiled_in_fees = 125"
    "cp_out 30000000000 1000000000000000 30 = 999999"
    by (simp_all add: curve_example)
  obtain q where q: "calculate_buy_exact_out True initial_curve 1000000 compiled_in_fees = Some (Inr q)"
    "unat (so_amount_in q) = 32"
    using calculate_buy_exact_out_ok [of initial_curve 1000000 compiled_in_fees True]
    by (auto simp: vals initial_curve_sel)
  have "so_amount_in q = 32"
    using q(2) by (metis of_nat_numeral of_nat_unat ucast_id)
  moreover obtain q' where "calculate_buy True initial_curve 32 compiled_in_fees = Some (Inr q')"
    "unat (so_amount_out q') = 999999"
    using calculate_buy_ok [of initial_curve 32 compiled_in_fees True]
    by (auto simp: vals initial_curve_sel)
  ultimately show ?thesis
    using q(1) by blast
qed

text \<open>On tiers in strictly ascending order of threshold the fees for a market cap are those of
  the highest tier that the cap reaches; below the first threshold they are the first tier's.\<close>

lemma pumpfun_fee_tier_highest:
  assumes "sorted_wrt (\<lambda>x y. ft_market_cap_lamports_threshold x < ft_market_cap_lamports_threshold y) ts"
    and "t \<in> set ts"
    and "ft_market_cap_lamports_threshold t \<le> cap \<and>
           (\<forall>u \<in> set ts. ft_market_cap_lamports_threshold u \<le> cap \<longrightarrow>
              ft_market_cap_lamports_threshold u \<le> ft_market_cap_lamports_threshold t) \<or>
         t = hd ts \<and> cap < ft_market_cap_lamports_threshold t"
  shows "calculate_fee_tier ts cap = ft_fees t"
  by (rule fee_tier_highest [OF assms])

text \<open>Decoding the 83-byte encoding of a curve gives the curve back, whatever padding the account
  carries behind it.\<close>

lemma bonding_curve_roundtrip:
  assumes "borsh_ok B" "length disc = 8" "length (bc_creator c) = 32"
    and "encode_83 disc c = Some data"
  shows "bonding_curve_from_account_data B disc (data @ pad) = Inr c"
proof -
  obtain m k where mk: "bc_is_mayhem_mode c = Present m" "bc_is_cashback_coin c = Present k"
    and data: "data = encode_81 disc c @ [bool_byte m, bool_byte k]"
    using assms(4) by (auto simp: encode_83_def split: legacy.splits)
  have "c \<lparr> bc_is_mayhem_mode := Present m, bc_is_cashback_coin := Present k \<rparr> = c"
    using mk by (cases c) simp
  then show ?thesis
    using assms(1) mk by (simp add: data decode_core [OF assms(1-3)] decode_tail)
qed

text \<open>An account that ends after the core layout decodes with both version-added flags absent,
  and one that ends between the two flags of the upgrade is refused, naming the group.\<close>

lemma bonding_curve_version_group:
  assumes "borsh_ok B" "length disc = 8" "length (bc_creator c) = 32"
  shows "bonding_curve_from_account_data B disc (encode_81 disc c) =
           Inr (c \<lparr> bc_is_mayhem_mode := Absent, bc_is_cashback_coin := Absent \<rparr>) \<and>
         bonding_curve_from_account_data B disc (encode_81 disc c @ [bool_byte m]) =
           Inl (error_of_parse (TruncatedVersion ''cashback'' 1 2))"
  using decode_core [OF assms, of "[]"] decode_core [OF assms, of "[bool_byte m]"] assms(1)
  by (simp add: decode_tail numeral_2_eq_2 del: error_of_parse.simps)

text \<open>An account with the core layout that was allocated with at least two zero bytes of padding
  decodes as if it carried both flags with the value false: the derive keeps no length threshold,
  so that an old padded account is not told from an upgraded one.\<close>

lemma bonding_curve_padding_reads_present:
  assumes "borsh_ok B" "length disc = 8" "length (bc_creator c) = 32"
  shows "bonding_curve_from_account_data B disc (encode_81 disc c @ 0 # 0 # pad) =
     Inr (c \<lparr> bc_is_mayhem_mode := Present False, bc_is_cashback_coin := Present False \<rparr>)"
proof -
  have zero: "(0 :: u8) = bool_byte False"
    by (simp add: bool_byte_def)
  show ?thesis
    using assms(1) unfolding zero by (simp add: decode_core [OF assms] decode_tail)
qed

text \<open>Whatever quote the assembled bundle returns in a build with overflow checks, the minimum
  output a caller derives from it with a slippage of at most 10000 basis points exists, does not
  exceed the quoted output, and is covered by the curve's reserve on the output side.\<close>

lemma pumpfun_min_output_payable:
  assumes "pumpfun_quote_calculate_swap True q p = Some (Inr r)" "unat b \<le> 10000"
  shows "\<exists>m. min_output oc r b = Some m \<and> unat m \<le> unat (so_amount_out r) \<and>
             unat m \<le> curve_avail (pq_curve q) (sp_direction p)"
  using assms by (rule pumpfun_bundle.min_output_payable)

text \<open>The market cap that keys the lookup never overflows.\<close>

lemma pumpfun_market_cap:
  "bonding_curve_market_cap oc sol tok total_supply =
     Some (if tok = 0 then 0 else as_u128 (unat sol * unat total_supply div unat tok))"
  using mult_u64_fits [OF unat_u64_less [of sol] unat_u64_less [of total_supply]]
  by (simp add: bonding_curve_market_cap_def rust_ok unat_eq_zero)

end
