(* ===== verification/Tokens.thy ===== *)
theory Tokens
  imports AccountState
begin

text \<open>
  Tokens (\<open>solana/protocols/src/tokens.rs\<close>): base tokens, the two token programs, a mint with its
  program and the token account that carries a vault's balance. Program ids, the well-known mints
  and the derivation of an associated token account come from outside the repository: they are
  the fields of \<open>token_env\<close>.
\<close>

datatype token_program = SplToken | SplToken2022

record token_env =
  te_wsol :: pubkey
  te_usdc :: pubkey
  te_usdt :: pubkey
  te_spl_token_id :: pubkey
  te_spl_token_2022_id :: pubkey
  te_ata :: "pubkey \<Rightarrow> pubkey \<Rightarrow> pubkey \<Rightarrow> pubkey"

section \<open>Token programs\<close>

definition from_program_id :: "token_env \<Rightarrow> pubkey \<Rightarrow> token_program option" where
  "from_program_id E k =
     (if k = te_spl_token_id E then Some SplToken
      else if k = te_spl_token_2022_id E then Some SplToken2022
      else None)"

fun token_program_id :: "token_env \<Rightarrow> token_program \<Rightarrow> pubkey" where
  "token_program_id E SplToken = te_spl_token_id E"
| "token_program_id E SplToken2022 = te_spl_token_2022_id E"

text \<open>\<open>te_ata\<close> takes the owner, the mint and the token program's id.\<close>

definition program_ata :: "token_env \<Rightarrow> token_program \<Rightarrow> pubkey \<Rightarrow> pubkey \<Rightarrow> pubkey" where
  "program_ata E p mint owner =
     (case p of
        SplToken \<Rightarrow> te_ata E owner mint (te_spl_token_id E)
      | SplToken2022 \<Rightarrow> te_ata E owner mint (te_spl_token_2022_id E))"

fun inverse_program :: "token_program \<Rightarrow> token_program" where
  "inverse_program SplToken = SplToken2022"
| "inverse_program SplToken2022 = SplToken"

section \<open>Mints with their program\<close>

record token_with_program =
  tk_mint :: pubkey
  tk_program :: token_program

definition tk_spl_token :: "pubkey \<Rightarrow> token_with_program" where
  "tk_spl_token m = \<lparr> tk_mint = m, tk_program = SplToken \<rparr>"

definition tk_token_2022 :: "pubkey \<Rightarrow> token_with_program" where
  "tk_token_2022 m = \<lparr> tk_mint = m, tk_program = SplToken2022 \<rparr>"

definition tk_wsol :: "token_env \<Rightarrow> token_with_program" where
  "tk_wsol E = \<lparr> tk_mint = te_wsol E, tk_program = SplToken \<rparr>"

definition detect :: "token_env \<Rightarrow> pubkey \<Rightarrow> pubkey \<Rightarrow> pubkey \<Rightarrow> token_with_program option" where
  "detect E ata owner mint =
     (if program_ata E SplToken mint owner = ata
      then Some \<lparr> tk_mint = mint, tk_program = SplToken \<rparr>
      else if program_ata E SplToken2022 mint owner = ata
      then Some \<lparr> tk_mint = mint, tk_program = SplToken2022 \<rparr>
      else None)"

definition tk_is_wsol :: "token_env \<Rightarrow> token_with_program \<Rightarrow> bool" where
  "tk_is_wsol E t \<longleftrightarrow> tk_mint t = te_wsol E"

definition tk_ata :: "token_env \<Rightarrow> token_with_program \<Rightarrow> pubkey \<Rightarrow> pubkey" where
  "tk_ata E t owner = program_ata E (tk_program t) (tk_mint t) owner"

section \<open>Base tokens\<close>

datatype base_token = Sol | Usdc | Usdt

fun base_mint :: "token_env \<Rightarrow> base_token \<Rightarrow> pubkey" where
  "base_mint E Sol = te_wsol E"
| "base_mint E Usdc = te_usdc E"
| "base_mint E Usdt = te_usdt E"

fun base_decimals :: "base_token \<Rightarrow> u8" where
  "base_decimals Sol = 9"
| "base_decimals Usdc = 6"
| "base_decimals Usdt = 6"

definition base_program :: "base_token \<Rightarrow> token_program" where
  "base_program t = SplToken"

definition base_as_token :: "token_env \<Rightarrow> base_token \<Rightarrow> token_with_program" where
  "base_as_token E t = \<lparr> tk_mint = base_mint E t, tk_program = base_program t \<rparr>"

definition from_mint :: "token_env \<Rightarrow> pubkey \<Rightarrow> base_token option" where
  "from_mint E m =
     (if m = te_wsol E then Some Sol
      else if m = te_usdc E then Some Usdc
      else if m = te_usdt E then Some Usdt
      else None)"

definition is_base_token :: "token_env \<Rightarrow> pubkey \<Rightarrow> bool" where
  "is_base_token E m \<longleftrightarrow> from_mint E m \<noteq> None"

section \<open>Token accounts\<close>

record token_account =
  ta_token :: token_with_program
  ta_owner :: pubkey
  ta_balance :: u64

definition token_account_base_len :: nat where "token_account_base_len = 165"

text \<open>The fixed-offset reads cannot fail once the length gate has passed.\<close>

definition token_account_from_account_data ::
  "bytes \<Rightarrow> token_program \<Rightarrow> error + token_account" where
  "token_account_from_account_data data p =
     (if length data < token_account_base_len
      then Inl (AccountDataTooShort token_account_base_len (length data))
      else Inr \<lparr> ta_token = \<lparr> tk_mint = take 32 data, tk_program = p \<rparr>,
                 ta_owner = take 32 (drop 32 data),
                 ta_balance = word_of_nat (le_val (take 8 (drop 64 data))) \<rparr>)"

definition token_account_new :: "token_with_program \<Rightarrow> pubkey \<Rightarrow> u64 \<Rightarrow> token_account" where
  "token_account_new t owner b = \<lparr> ta_token = t, ta_owner = owner, ta_balance = b \<rparr>"

definition ta_ata :: "token_env \<Rightarrow> token_account \<Rightarrow> pubkey" where
  "ta_ata E a = tk_ata E (ta_token a) (ta_owner a)"

definition ta_is_empty :: "token_account \<Rightarrow> bool" where
  "ta_is_empty a \<longleftrightarrow> ta_balance a = 0"

section \<open>Properties\<close>

text \<open>A token account decodes to its mint, owner and amount whatever follows the 72 bytes of those
  fields, provided the account has the base length; a shorter account is refused. In particular
  the extensions of a Token-2022 account change nothing.\<close>

lemma token_account_decode:
  assumes "length mint = 32" "length owner = 32"
  shows "token_account_from_account_data (mint @ owner @ le_bytes 8 (unat balance) @ tail) p =
    (if length tail < 93 then Inl (AccountDataTooShort 165 (72 + length tail))
     else Inr (token_account_new \<lparr> tk_mint = mint, tk_program = p \<rparr> owner balance))"
  using assms
  by (simp add: token_account_from_account_data_def token_account_base_len_def token_account_new_def)

text \<open>\<open>detect\<close> names a program only if the address derives from it, and the round trip through
  \<open>associated_token_account\<close> holds.\<close>

lemma detect_sound: "detect E a owner mint = Some t \<Longrightarrow> tk_mint t = mint \<and> tk_ata E t owner = a"
  by (auto simp: detect_def tk_ata_def split: if_splits)

end
