(* ===== verification/Handlers.thy ===== *)
theory Handlers
  imports Prelude F64
begin

text \<open>
  Account handlers and their registry (\<open>storage/traits/src/handler/\<close>): the types that cross the
  handler boundary (\<open>types.rs\<close>), a handler erased to one \<open>handle\<close> call (\<open>traits.rs\<close>,
  \<open>registry.rs\<close>) and the two-level dispatch of the registry. A \<open>HashMap\<close> is a map and an \<open>Arc\<close>
  of a handler is the handler; the cache, which handlers mutate in place, is passed through.
\<close>

section \<open>Types\<close>

datatype delivery_expectation = Infrequent | Frequent | Dynamic

record dependency =
  d_pubkey :: pubkey
  d_expectation :: delivery_expectation

definition dependency_new :: "pubkey \<Rightarrow> delivery_expectation \<Rightarrow> dependency" where
  "dependency_new k e = \<lparr> d_pubkey = k, d_expectation = e \<rparr>"

record handle_result =
  hr_accounts_to_fetch :: "dependency list"
  hr_accounts_pending_grpc :: "dependency list"
  hr_accounts_to_subscribe :: "dependency list"
  hr_spot_price :: "f64 option"

datatype handler_error =
    Deserialize nat string
  | NoHandler pubkey "bytes option"
  | Apply pubkey string

fun handler_error_reason :: "handler_error \<Rightarrow> string" where
  "handler_error_reason (Deserialize _ _) = ''deserialize''"
| "handler_error_reason (NoHandler _ _) = ''no_handler''"
| "handler_error_reason (Apply _ _) = ''apply''"

definition handler_reasons :: "string list" where
  "handler_reasons = [''deserialize'', ''no_handler'', ''apply'']"

section \<open>Handlers\<close>

text \<open>\<open>'c\<close> is the cache; \<open>h_handle\<close> returns the result and the cache it leaves.\<close>

record 'c handler =
  h_program_id :: pubkey
  h_discriminator :: "bytes option"
  h_matches_account :: "bytes \<Rightarrow> bool"
  h_subscribe :: bool
  h_handle :: "'c \<Rightarrow> pubkey \<Rightarrow> bytes \<Rightarrow> u64 \<Rightarrow> (handler_error + handle_result) \<times> 'c"

text \<open>The blanket implementation: deserialize, then apply; a decode failure touches nothing.\<close>

definition erased_handle ::
  "(bytes \<Rightarrow> handler_error + 's) \<Rightarrow>
   ('c \<Rightarrow> pubkey \<Rightarrow> 's \<Rightarrow> u64 \<Rightarrow> (handler_error + handle_result) \<times> 'c) \<Rightarrow>
   'c \<Rightarrow> pubkey \<Rightarrow> bytes \<Rightarrow> u64 \<Rightarrow> (handler_error + handle_result) \<times> 'c" where
  "erased_handle deser app cache k data slot =
     (case deser data of Inl e \<Rightarrow> (Inl e, cache) | Inr s \<Rightarrow> app cache k s slot)"

section \<open>Registry\<close>

record 'c registry =
  r_by_discriminator :: "(pubkey \<times> bytes) \<rightharpoonup> 'c handler"
  r_fallback :: "pubkey \<rightharpoonup> 'c handler list"
  r_program_ids :: "pubkey set"
  r_subscribable :: "pubkey set"

definition registry_new :: "'c registry" where
  "registry_new = \<lparr> r_by_discriminator = Map.empty, r_fallback = Map.empty,
                    r_program_ids = {}, r_subscribable = {} \<rparr>"

definition note_program :: "'c handler \<Rightarrow> 'c registry \<Rightarrow> 'c registry" where
  "note_program h r =
     r \<lparr> r_program_ids := insert (h_program_id h) (r_program_ids r),
         r_subscribable := (if h_subscribe h then insert (h_program_id h) (r_subscribable r)
                            else r_subscribable r) \<rparr>"

definition push_fallback :: "'c handler \<Rightarrow> 'c registry \<Rightarrow> 'c registry" where
  "push_fallback h r =
     r \<lparr> r_fallback := (r_fallback r)(h_program_id h \<mapsto>
           (case r_fallback r (h_program_id h) of None \<Rightarrow> [] | Some l \<Rightarrow> l) @ [h]) \<rparr>"

text \<open>\<open>None\<close> is the panic on a duplicate key.\<close>

definition register :: "'c handler \<Rightarrow> 'c registry \<Rightarrow> 'c registry option" where
  "register h r0 =
     (let r = note_program h r0 in
      case h_discriminator h of
        Some d \<Rightarrow>
          if length d = 8
          then (if r_by_discriminator r (h_program_id h, d) \<noteq> None then None
                else Some (r \<lparr> r_by_discriminator := (r_by_discriminator r)((h_program_id h, d) \<mapsto> h) \<rparr>))
          else Some (push_fallback h r)
      | None \<Rightarrow> Some (push_fallback h r))"

definition first_eight :: "bytes \<Rightarrow> bytes option" where
  "first_eight data = (if length data < 8 then None else Some (take 8 data))"

definition starts_with :: "bytes \<Rightarrow> bytes \<Rightarrow> bool" where
  "starts_with data d \<longleftrightarrow> take (length d) data = d"

definition fallback_claims :: "bytes \<Rightarrow> 'c handler \<Rightarrow> bool" where
  "fallback_claims data h \<longleftrightarrow>
     (case h_discriminator h of Some d \<Rightarrow> starts_with data d | None \<Rightarrow> True) \<and>
     h_matches_account h data"

definition lookup :: "'c registry \<Rightarrow> pubkey \<Rightarrow> bytes \<Rightarrow> 'c handler option" where
  "lookup r owner data =
     (case Option.bind (first_eight data) (\<lambda>k. r_by_discriminator r (owner, k)) of
        Some h \<Rightarrow> Some h
      | None \<Rightarrow>
          (case r_fallback r owner of
             None \<Rightarrow> None
           | Some l \<Rightarrow> find (fallback_claims data) l))"

definition dispatch ::
  "'c registry \<Rightarrow> 'c \<Rightarrow> pubkey \<Rightarrow> pubkey \<Rightarrow> bytes \<Rightarrow> u64 \<Rightarrow>
   (handler_error + handle_result) \<times> 'c" where
  "dispatch r cache owner k data slot =
     (case lookup r owner data of
        Some h \<Rightarrow> h_handle h cache k data slot
      | None \<Rightarrow> (Inl (NoHandler owner (first_eight data)), cache))"

definition registry_len :: "'c registry \<Rightarrow> nat" where
  "registry_len r =
     card (dom (r_by_discriminator r)) +
     (\<Sum>p \<in> dom (r_fallback r). length (the (r_fallback r p)))"

definition registry_is_empty :: "'c registry \<Rightarrow> bool" where
  "registry_is_empty r \<longleftrightarrow> dom (r_by_discriminator r) = {} \<and> dom (r_fallback r) = {}"

section \<open>What a sequence of registrations means\<close>

fun register_all :: "'c handler list \<Rightarrow> 'c registry \<Rightarrow> 'c registry option" where
  "register_all [] r = Some r"
| "register_all (h # hs) r = Option.bind (register h r) (register_all hs)"

lemma register_all_snoc:
  "register_all (hs @ [h]) r = Option.bind (register_all hs r) (register h)"
  by (induction hs arbitrary: r) (auto split: bind_splits)

definition keyed :: "'c handler \<Rightarrow> bool" where
  "keyed h \<longleftrightarrow> (case h_discriminator h of Some d \<Rightarrow> length d = 8 | None \<Rightarrow> False)"

definition has_key :: "pubkey \<Rightarrow> bytes \<Rightarrow> 'c handler \<Rightarrow> bool" where
  "has_key p d h \<longleftrightarrow> h_program_id h = p \<and> h_discriminator h = Some d \<and> length d = 8"

text \<open>The specification: a keyed handler for the owner and the first eight bytes wins; otherwise the
  first registered unkeyed handler of the owner that claims the data.\<close>

definition lookup_spec :: "'c handler list \<Rightarrow> pubkey \<Rightarrow> bytes \<Rightarrow> 'c handler option" where
  "lookup_spec hs owner data =
     (case find (\<lambda>h. 8 \<le> length data \<and> has_key owner (take 8 data) h) hs of
        Some h \<Rightarrow> Some h
      | None \<Rightarrow> find (\<lambda>h. h_program_id h = owner \<and> \<not> keyed h \<and> fallback_claims data h) hs)"

text \<open>The registry holds exactly the handlers registered so far.\<close>

definition represents :: "'c handler list \<Rightarrow> 'c registry \<Rightarrow> bool" where
  "represents hs r \<longleftrightarrow>
     (\<forall>p d. r_by_discriminator r (p, d) = find (has_key p d) hs) \<and>
     (\<forall>p. (case r_fallback r p of None \<Rightarrow> [] | Some l \<Rightarrow> l) =
          filter (\<lambda>h. h_program_id h = p \<and> \<not> keyed h) hs) \<and>
     r_program_ids r = h_program_id ` set hs \<and>
     r_subscribable r = h_program_id ` {h \<in> set hs. h_subscribe h}"

lemma represents_new: "represents [] registry_new"
  by (simp add: represents_def registry_new_def)

lemma find_append: "find P (xs @ ys) = (case find P xs of Some x \<Rightarrow> Some x | None \<Rightarrow> find P ys)"
  by (induction xs) auto

lemma find_filter: "find P (filter Q xs) = find (\<lambda>x. Q x \<and> P x) xs"
  by (induction xs) auto

lemma represents_register:
  assumes "represents hs r" "register h r = Some r'"
  shows "represents (hs @ [h]) r'"
proof (cases "keyed h")
  case True
  then obtain d where d: "h_discriminator h = Some d" "length d = 8"
    by (auto simp: keyed_def split: option.splits)
  have free: "find (has_key (h_program_id h) d) hs = None"
    using assms d by (auto simp: register_def represents_def note_program_def Let_def split: if_splits)
  have r': "r' = (note_program h r) \<lparr> r_by_discriminator :=
      (r_by_discriminator r)((h_program_id h, d) \<mapsto> h) \<rparr>"
    using assms(2) d by (auto simp: register_def note_program_def Let_def split: if_splits)
  show ?thesis
    using assms(1) True d free
    by (auto simp: r' represents_def note_program_def find_append has_key_def fun_upd_def
        split: option.splits)
next
  case False
  then have r': "r' = push_fallback h (note_program h r)"
    using assms(2) by (auto simp: register_def keyed_def Let_def split: option.splits if_splits)
  have nokey: "\<not> has_key p d h" for p d
    using False by (auto simp: has_key_def keyed_def)
  show ?thesis
    using assms(1) False nokey
    by (auto simp: r' represents_def push_fallback_def note_program_def find_append
        split: option.splits)
qed

lemma represents_all:
  "represents hs0 r \<Longrightarrow> register_all hs r = Some r' \<Longrightarrow> represents (hs0 @ hs) r'"
proof (induction hs arbitrary: hs0 r)
  case (Cons h hs)
  then obtain r1 where "register h r = Some r1" "register_all hs r1 = Some r'"
    by (auto simp: bind_eq_Some_conv)
  with Cons.IH [of "hs0 @ [h]" r1] represents_register [OF Cons.prems(1)] show ?case
    by simp
qed simp

lemma lookup_represents: "represents hs r \<Longrightarrow> lookup r owner data = lookup_spec hs owner data"
proof -
  assume r: "represents hs r"
  have key: "Option.bind (first_eight data) (\<lambda>k. r_by_discriminator r (owner, k)) =
      find (\<lambda>h. 8 \<le> length data \<and> has_key owner (take 8 data) h) hs"
  proof (cases "length data < 8")
    case True
    have "find (\<lambda>h. False) hs = None"
      by (simp add: find_None_iff)
    with True show ?thesis by (simp add: first_eight_def)
  qed (use r in \<open>simp add: first_eight_def represents_def\<close>)
  have "(case r_fallback r owner of None \<Rightarrow> None | Some l \<Rightarrow> find (fallback_claims data) l) =
      find (fallback_claims data) (case r_fallback r owner of None \<Rightarrow> [] | Some l \<Rightarrow> l)"
    by (simp split: option.split)
  also have "\<dots> = find (\<lambda>h. h_program_id h = owner \<and> \<not> keyed h \<and> fallback_claims data h) hs"
    using r by (simp add: represents_def find_filter conj_assoc)
  finally show ?thesis
    by (cases "find (\<lambda>h. 8 \<le> length data \<and> has_key owner (take 8 data) h) hs")
      (simp_all add: lookup_def lookup_spec_def key)
qed

section \<open>Properties\<close>

text \<open>C22: A registry into which a list of handlers was registered dispatches every account as the
  two-level rule says: the handler keyed by the owner and the first eight bytes if there is one,
  otherwise the first registered handler of the owner whose declared prefix and predicate claim
  the data; with no such handler the update is refused with \<open>NoHandler\<close> and the cache is
  untouched.\<close>

theorem registry_dispatch_refines_spec:
  assumes "register_all hs registry_new = Some r"
  shows "dispatch r cache owner k data slot =
    (case lookup_spec hs owner data of
       Some h \<Rightarrow> h_handle h cache k data slot
     | None \<Rightarrow> (Inl (NoHandler owner (first_eight data)), cache))"
proof -
  have "represents hs r"
    using represents_all [OF represents_new assms] by simp
  then show ?thesis
    by (simp add: dispatch_def lookup_represents)
qed

definition example_handler :: "u8 list option \<Rightarrow> nat handler" where
  "example_handler d =
     \<lparr> h_program_id = replicate 32 9, h_discriminator = d, h_matches_account = (\<lambda>_. True),
       h_subscribe = True,
       h_handle = (\<lambda>c k data slot. (Inl (Apply k ''x''), c + length data)) \<rparr>"

lemma example_registers:
  "\<exists>r. register_all [example_handler None, example_handler (Some (replicate 8 1))] registry_new = Some r"
  by (simp add: register_def registry_new_def note_program_def push_fallback_def example_handler_def)

lemma registry_dispatch_refines_spec_witness:
  "\<exists>r. register_all [example_handler None, example_handler (Some (replicate 8 1))] registry_new = Some r \<and>
     dispatch r 0 (replicate 32 9) [] (replicate 8 1 @ [5]) 3 = (Inl (Apply [] ''x''), 9)"
proof -
  obtain r where r: "register_all [example_handler None, example_handler (Some (replicate 8 1))]
      registry_new = Some r"
    using example_registers by blast
  show ?thesis
    using r registry_dispatch_refines_spec [OF r, of 0 "replicate 32 9" "[]" "replicate 8 1 @ [5]" 3]
    by (simp add: lookup_spec_def has_key_def example_handler_def)
qed

lemma register_all_None:
  "represents hs0 r \<Longrightarrow>
   register_all hs r = None \<longleftrightarrow>
     (\<exists>xs h ys d. hs = xs @ h # ys \<and> (\<exists>g \<in> set (hs0 @ xs). has_key (h_program_id h) d g) \<and>
        has_key (h_program_id h) d h)"
proof (induction hs arbitrary: hs0 r)
  case (Cons h hs)
  have panic: "register h r = None \<longleftrightarrow>
      (\<exists>d. has_key (h_program_id h) d h \<and> (\<exists>g \<in> set hs0. has_key (h_program_id h) d g))"
    using Cons.prems
    by (auto simp: register_def note_program_def represents_def has_key_def find_None_iff Let_def
        split: option.splits if_splits)
  show ?case
  proof (cases "register h r")
    case None
    with panic obtain d where "has_key (h_program_id h) d h"
      "\<exists>g \<in> set hs0. has_key (h_program_id h) d g" by blast
    then have "\<exists>xs h' ys d. h # hs = xs @ h' # ys \<and>
        (\<exists>g \<in> set (hs0 @ xs). has_key (h_program_id h') d g) \<and> has_key (h_program_id h') d h'"
      by (intro exI [of _ "[]"] exI [of _ h] exI [of _ hs] exI [of _ d]) simp
    with None show ?thesis by simp
  next
    case (Some r1)
    have "register_all (h # hs) r = None \<longleftrightarrow>
        (\<exists>xs h' ys d. hs = xs @ h' # ys \<and>
          (\<exists>g \<in> set ((hs0 @ [h]) @ xs). has_key (h_program_id h') d g) \<and>
          has_key (h_program_id h') d h')"
      using Some Cons.IH [OF represents_register [OF Cons.prems Some]] by simp
    also have "\<dots> \<longleftrightarrow> (\<exists>xs h' ys d. h # hs = xs @ h' # ys \<and>
        (\<exists>g \<in> set (hs0 @ xs). has_key (h_program_id h') d g) \<and> has_key (h_program_id h') d h')"
      (is "?L \<longleftrightarrow> ?R")
    proof
      assume ?L
      then obtain xs h' ys d where "hs = xs @ h' # ys"
        "\<exists>g \<in> set ((hs0 @ [h]) @ xs). has_key (h_program_id h') d g" "has_key (h_program_id h') d h'"
        by blast
      then show ?R
        by (intro exI [of _ "h # xs"] exI [of _ h'] exI [of _ ys] exI [of _ d]) simp
    next
      assume ?R
      then obtain xs h' ys d where x: "h # hs = xs @ h' # ys"
        "\<exists>g \<in> set (hs0 @ xs). has_key (h_program_id h') d g" "has_key (h_program_id h') d h'"
        by blast
      show ?L
      proof (cases xs)
        case Nil
        with x panic Some show ?thesis by auto
      next
        case (Cons a as)
        with x show ?thesis by auto
      qed
    qed
    finally show ?thesis .
  qed
qed simp

text \<open>Registering a list of handlers panics exactly when two of them declare the same eight-byte
  discriminator for the same program.\<close>

lemma registry_panics_iff_duplicate:
  "register_all hs registry_new = None \<longleftrightarrow>
     (\<exists>xs g ys h zs p d. hs = xs @ g # ys @ h # zs \<and> has_key p d g \<and> has_key p d h)"
  (is "?N \<longleftrightarrow> ?R")
proof -
  have "?N \<longleftrightarrow> (\<exists>xs h ys d. hs = xs @ h # ys \<and> (\<exists>g \<in> set xs. has_key (h_program_id h) d g) \<and>
         has_key (h_program_id h) d h)" (is "_ \<longleftrightarrow> ?L")
    using register_all_None [OF represents_new, of hs] by simp
  also have "?L \<longleftrightarrow> ?R"
  proof
    assume ?L
    then obtain xs h ys d g where "hs = xs @ h # ys" "g \<in> set xs" "has_key (h_program_id h) d g"
      "has_key (h_program_id h) d h" by blast
    moreover from \<open>g \<in> set xs\<close> obtain as bs where "xs = as @ g # bs" by (meson split_list)
    ultimately show ?R by (metis append.assoc append_Cons)
  next
    assume ?R
    then obtain xs g ys h zs p d where "hs = (xs @ g # ys) @ h # zs" "has_key p d g" "has_key p d h"
      by auto
    then show ?L
      by (intro exI [of _ "xs @ g # ys"] exI [of _ h] exI [of _ zs] exI [of _ d])
        (auto simp: has_key_def)
  qed
  finally show ?thesis .
qed

text \<open>The programs a registry offers for wholesale subscription are exactly those with a handler
  that asks for it.\<close>

lemma registry_subscribable:
  assumes "register_all hs registry_new = Some r"
  shows "p \<in> r_subscribable r \<longleftrightarrow> (\<exists>h \<in> set hs. h_program_id h = p \<and> h_subscribe h)"
  using represents_all [OF represents_new assms] by (auto simp: represents_def)

end
