(* ===== verification/Pumpswap.thy ===== *)
theory Pumpswap
  imports Pumpfun Tokens Handlers
begin

text \<open>
  PumpSwap (\<open>solana/protocols/src/protocols/pumpswap/\<close>): the pool account and its pairing with
  the vault balances (\<open>state.rs\<close>), the constant-product math with fees on the output
  (\<open>math.rs\<close>), the fee configuration (\<open>fee_config.rs\<close>) and the quote bundle with its
  dependencies and tier selection (\<open>quote.rs\<close>).
\<close>

section \<open>Pool account\<close>

record pumpswap_pool =
  pp_pool_bump :: u8
  pp_index :: u16
  pp_creator :: pubkey
  pp_base_mint :: pubkey
  pp_quote_mint :: pubkey
  pp_lp_mint :: pubkey
  pp_pool_base_token_account :: pubkey
  pp_pool_quote_token_account :: pubkey
  pp_lp_supply :: u64
  pp_coin_creator :: pubkey
  pp_is_mayhem_mode :: bool

definition read_pumpswap_pool :: "borsh \<Rightarrow> pumpswap_pool reader" where
  "read_pumpswap_pool B =
     rbind (rd_u8 B) (\<lambda>bump. rbind (rd_u16 B) (\<lambda>ix. rbind (rd_pubkey B) (\<lambda>cr.
     rbind (rd_pubkey B) (\<lambda>bm. rbind (rd_pubkey B) (\<lambda>qm. rbind (rd_pubkey B) (\<lambda>lm.
     rbind (rd_pubkey B) (\<lambda>bv. rbind (rd_pubkey B) (\<lambda>qv. rbind (rd_u64 B) (\<lambda>ls.
     rbind (rd_pubkey B) (\<lambda>cc. rbind (rd_bool B) (\<lambda>mm.
     rret \<lparr> pp_pool_bump = bump, pp_index = ix, pp_creator = cr, pp_base_mint = bm,
            pp_quote_mint = qm, pp_lp_mint = lm, pp_pool_base_token_account = bv,
            pp_pool_quote_token_account = qv, pp_lp_supply = ls, pp_coin_creator = cc,
            pp_is_mayhem_mode = mm \<rparr>)))))))))))"

text \<open>No field is version-added, so that there is no group to check.\<close>

definition pumpswap_pool_from_account_data ::
  "borsh \<Rightarrow> bytes \<Rightarrow> bytes \<Rightarrow> error + pumpswap_pool" where
  "pumpswap_pool_from_account_data B disc data =
     map_err (\<lambda>e. parse_error (''PumpSwap pool: '' @ parse_error_text e))
       (onchain_from_account_data (Some disc) (read_pumpswap_pool B) (\<lambda>_. []) data)"

definition pumpswap_pair :: "pumpswap_pool \<Rightarrow> pubkey \<times> pubkey" where
  "pumpswap_pair p = (pp_base_mint p, pp_quote_mint p)"

definition pubkey_default :: pubkey where
  "pubkey_default = replicate 32 0"

definition has_creator :: "pumpswap_pool \<Rightarrow> bool" where
  "has_creator p \<longleftrightarrow> pp_coin_creator p \<noteq> pubkey_default"

record pool_with_reserves =
  pr_pool :: pumpswap_pool
  pr_base_reserves :: u64
  pr_quote_reserves :: u64

definition pool_with_reserves_new :: "pumpswap_pool \<Rightarrow> u64 \<Rightarrow> u64 \<Rightarrow> pool_with_reserves" where
  "pool_with_reserves_new p b q = \<lparr> pr_pool = p, pr_base_reserves = b, pr_quote_reserves = q \<rparr>"

definition pool_is_active :: "pool_with_reserves \<Rightarrow> bool" where
  "pool_is_active w \<longleftrightarrow> pr_base_reserves w > 0 \<and> pr_quote_reserves w > 0"

definition pool_spot_price :: "pool_with_reserves \<Rightarrow> f64" where
  "pool_spot_price w =
     (if pr_base_reserves w = 0 \<or> pr_quote_reserves w = 0 then f_0
      else f_div (f_div (f_of_nat (unat (pr_quote_reserves w))) (f_of_nat 1000000000))
                 (f_div (f_of_nat (unat (pr_base_reserves w))) (f_of_nat 1000000)))"

section \<open>Fees\<close>

record fee_rates =
  fs_creator_bps :: u64
  fs_protocol_bps :: u64
  fs_lp_bps :: u64

definition fee_rates_total_bps :: "bool \<Rightarrow> fee_rates \<Rightarrow> nat option" where
  "fee_rates_total_bps oc f = do {
     a \<leftarrow> u_add oc 64 (unat (fs_creator_bps f)) (unat (fs_protocol_bps f));
     u_add oc 64 a (unat (fs_lp_bps f))
   }"

text \<open>The local \<open>ceil_div\<close> answers 0 for a zero divisor.\<close>

definition ceil_div_0 :: "nat \<Rightarrow> nat \<Rightarrow> nat" where
  "ceil_div_0 a b = (if b = 0 then 0 else ceil_div a b)"

definition calculate_fees :: "bool \<Rightarrow> fee_rates \<Rightarrow> nat \<Rightarrow> (u64 \<times> u64 \<times> u64) option" where
  "calculate_fees oc f a = do {
     c \<leftarrow> u_mul oc 128 a (unat (fs_creator_bps f));
     p \<leftarrow> u_mul oc 128 a (unat (fs_protocol_bps f));
     l \<leftarrow> u_mul oc 128 a (unat (fs_lp_bps f));
     Some (as_u64 (ceil_div_0 c 10000), as_u64 (ceil_div_0 p 10000), as_u64 (ceil_div_0 l 10000))
   }"

text \<open>The ladder of creator rates, by whole SOL.\<close>

definition creator_ladder :: "nat \<Rightarrow> u64" where
  "creator_ladder n =
     (if n \<le> 420 then 30 else if n \<le> 1470 then 95 else if n \<le> 2460 then 90
      else if n \<le> 3440 then 85 else if n \<le> 4420 then 80 else if n \<le> 9820 then 75
      else if n \<le> 14740 then 70 else if n \<le> 19650 then 65 else if n \<le> 24560 then 60
      else if n \<le> 29470 then 55 else if n \<le> 34380 then 50 else if n \<le> 39300 then 45
      else if n \<le> 44210 then 40 else if n \<le> 49120 then 35 else if n \<le> 54030 then 30
      else if n \<le> 58940 then 27 else if n \<le> 63860 then 25 else if n \<le> 68770 then 22
      else if n \<le> 73681 then 20 else if n \<le> 78590 then 17 else if n \<le> 83500 then 15
      else if n \<le> 88400 then 12 else if n \<le> 93330 then 10 else if n \<le> 98240 then 7
      else 5)"

definition fee_structure :: "f64 \<Rightarrow> bool \<Rightarrow> fee_rates" where
  "fee_structure sol creator =
     (if \<not> creator then \<lparr> fs_creator_bps = 0, fs_protocol_bps = 5, fs_lp_bps = 25 \<rparr>
      else \<lparr> fs_creator_bps = creator_ladder (f_to_uint 64 sol),
             fs_protocol_bps = (if f_le sol (f_of_nat 420) then 93 else 5),
             fs_lp_bps = (if f_le sol (f_of_nat 420) then 2 else 20) \<rparr>)"

section \<open>Swaps\<close>

definition amm_effective_price :: "nat \<Rightarrow> nat \<Rightarrow> f64" where
  "amm_effective_price aout ain = (if ain > 0 then f_div (f_of_nat aout) (f_of_nat ain) else f_0)"

definition amm_price_impact :: "f64 \<Rightarrow> f64 \<Rightarrow> u16" where
  "amm_price_impact spot eff =
     (if f_gt spot f_0
      then f_as_u16 (f_mul (f_sub (f_of_nat 1) (f_div eff spot)) (f_of_nat 10000))
      else 0)"

definition calculate_swap_exact_in ::
  "bool \<Rightarrow> u64 \<Rightarrow> u64 \<Rightarrow> u64 \<Rightarrow> fee_rates \<Rightarrow> (error, u64 \<times> swap_output) outcome" where
  "calculate_swap_exact_in oc amount_in reserve_in reserve_out fees = do {
     num \<leftarrow> u_mul oc 128 (unat reserve_out) (unat amount_in);
     den \<leftarrow> u_add oc 128 (unat reserve_in) (unat amount_in);
     before \<leftarrow> u_div num den;
     (creator_fee, protocol_fee, lp_fee) \<leftarrow> calculate_fees oc fees (unat (as_u64 before));
     s \<leftarrow> u_add oc 64 (unat creator_fee) (unat protocol_fee);
     total_fee \<leftarrow> u_add oc 64 s (unat lp_fee);
     (case checked_sub (unat (as_u64 before)) total_fee of
        None \<Rightarrow> Some (Inl (FeesExceedOutput (as_u64 before) (as_u64 total_fee)))
      | Some amount_out \<Rightarrow> do {
          new_in \<leftarrow> u_add oc 128 (unat reserve_in) (unat amount_in);
          new_out \<leftarrow> u_sub oc 128 (unat reserve_out) before;
          group \<leftarrow> u_add oc 64 (unat creator_fee) (unat lp_fee);
          Some (Inr (as_u64 amount_out,
            \<lparr> so_amount_in = amount_in, so_amount_out = as_u64 amount_out,
              so_fee = as_u64 total_fee, so_protocol_fee = protocol_fee, so_lp_fee = as_u64 group,
              so_price_impact_bps =
                amm_price_impact (f_div (f_of_nat (unat reserve_out)) (f_of_nat (unat reserve_in)))
                  (amm_effective_price amount_out (unat amount_in)),
              so_effective_price = amm_effective_price amount_out (unat amount_in),
              so_post_swap_price = amm_effective_price new_out new_in,
              so_accounts_used = [] \<rparr>))
        })
   }"

definition calculate_swap_exact_out ::
  "bool \<Rightarrow> u64 \<Rightarrow> u64 \<Rightarrow> u64 \<Rightarrow> fee_rates \<Rightarrow> swap_output option" where
  "calculate_swap_exact_out oc desired reserve_in reserve_out fees = do {
     total_bps \<leftarrow> fee_rates_total_bps oc fees;
     gross \<leftarrow> u_mul oc 128 (unat desired) 10000;
     rate \<leftarrow> u_sub oc 128 10000 total_bps;
     (if ceil_div_0 gross rate \<ge> unat reserve_out then Some swap_output_default
      else do {
        num \<leftarrow> u_mul oc 128 (unat reserve_in) (ceil_div_0 gross rate);
        den \<leftarrow> u_sub oc 128 (unat reserve_out) (ceil_div_0 gross rate);
        (creator_fee, protocol_fee, lp_fee) \<leftarrow>
          calculate_fees oc fees (unat (as_u64 (ceil_div_0 gross rate)));
        s \<leftarrow> u_add oc 64 (unat creator_fee) (unat protocol_fee);
        total_fee \<leftarrow> u_add oc 64 s (unat lp_fee);
        group \<leftarrow> u_add oc 64 (unat creator_fee) (unat lp_fee);
        Some \<lparr> so_amount_in = as_u64 (ceil_div_0 num den), so_amount_out = desired,
               so_fee = as_u64 total_fee, so_protocol_fee = protocol_fee, so_lp_fee = as_u64 group,
               so_price_impact_bps = 0,
               so_effective_price = amm_effective_price (unat desired) (ceil_div_0 num den),
               so_post_swap_price = f_0, so_accounts_used = [] \<rparr>
      })
   }"

definition amm_swap ::
  "bool \<Rightarrow> swap_params \<Rightarrow> u64 \<Rightarrow> u64 \<Rightarrow> fee_rates \<Rightarrow> (error, swap_output) outcome" where
  "amm_swap oc p reserve_in reserve_out fees =
     (if amount_is_exact_in (sp_amount p)
      then map_option (map_sum id snd)
             (calculate_swap_exact_in oc (amount (sp_amount p)) reserve_in reserve_out fees)
      else map_option Inr
             (calculate_swap_exact_out oc (amount (sp_amount p)) reserve_in reserve_out fees))"

text \<open>Buy spends the quote side, Sell the base side.\<close>

definition pool_calculate_swap ::
  "bool \<Rightarrow> pool_with_reserves \<Rightarrow> swap_params \<Rightarrow> (error, swap_output) outcome" where
  "pool_calculate_swap oc w p =
     (if \<not> pool_is_active w then Some (Inl (swap_error ''PumpSwap pool has no reserves''))
      else
        (case sp_direction p of
           Buy \<Rightarrow> amm_swap oc p (pr_quote_reserves w) (pr_base_reserves w)
                    (fee_structure (f_div (f_of_nat (unat (pr_quote_reserves w))) (f_of_nat 1000000000))
                       (has_creator (pr_pool w)))
         | Sell \<Rightarrow> amm_swap oc p (pr_base_reserves w) (pr_quote_reserves w)
                    (fee_structure (f_div (f_of_nat (unat (pr_quote_reserves w))) (f_of_nat 1000000000))
                       (has_creator (pr_pool w)))))"

section \<open>The quote bundle\<close>

datatype pumpswap_fee_config = PumpSwapFeeConfig pumpfun_fee_config

fun inner_fee_config :: "pumpswap_fee_config \<Rightarrow> pumpfun_fee_config" where
  "inner_fee_config (PumpSwapFeeConfig c) = c"

definition fees_select :: "pumpswap_fee_config \<Rightarrow> bool \<Rightarrow> u64 \<Rightarrow> pumpfun_fees" where
  "fees_select cfg has_coin_creator quote_reserves =
     (if \<not> has_coin_creator then fc_flat_fees (inner_fee_config cfg)
      else calculate_fee_tier (fc_fee_tiers (inner_fee_config cfg)) (ucast quote_reserves))"

record pumpswap_quote =
  wq_pool :: pumpswap_pool
  wq_base :: token_account
  wq_quote :: token_account
  wq_fee_config :: pumpswap_fee_config
  wq_fees :: pumpfun_fees

definition pumpswap_quote_assemble ::
  "(pubkey \<Rightarrow> u64 \<Rightarrow> pumpswap_pool option) \<Rightarrow> (pubkey \<Rightarrow> u64 \<Rightarrow> token_account option) \<Rightarrow>
   pumpswap_fee_config option \<Rightarrow> pubkey \<Rightarrow> u64 \<Rightarrow> pumpswap_quote option" where
  "pumpswap_quote_assemble get_pool get_token config pool slot = do {
     p \<leftarrow> get_pool pool slot;
     b \<leftarrow> get_token (pp_pool_base_token_account p) slot;
     q \<leftarrow> get_token (pp_pool_quote_token_account p) slot;
     cfg \<leftarrow> config;
     Some \<lparr> wq_pool = p, wq_base = b, wq_quote = q, wq_fee_config = cfg,
            wq_fees = fees_select cfg (has_creator p) (ta_balance q) \<rparr>
   }"

definition pumpswap_dependent_accounts :: "pumpswap_pool \<Rightarrow> dependency list" where
  "pumpswap_dependent_accounts p =
     [dependency_new (pp_pool_base_token_account p) Dynamic,
      dependency_new (pp_pool_quote_token_account p) Dynamic]"

definition pumpswap_quote_is_active :: "pumpswap_quote \<Rightarrow> bool" where
  "pumpswap_quote_is_active q \<longleftrightarrow> ta_balance (wq_base q) > 0 \<and> ta_balance (wq_quote q) > 0"

definition bundle_rates :: "pumpswap_quote \<Rightarrow> fee_rates" where
  "bundle_rates q =
     \<lparr> fs_creator_bps = pf_creator_fee_bps (wq_fees q),
       fs_protocol_bps = pf_protocol_fee_bps (wq_fees q), fs_lp_bps = pf_lp_fee_bps (wq_fees q) \<rparr>"

definition pumpswap_quote_calculate_swap ::
  "bool \<Rightarrow> pumpswap_quote \<Rightarrow> swap_params \<Rightarrow> (error, swap_output) outcome" where
  "pumpswap_quote_calculate_swap oc q p =
     (if \<not> pumpswap_quote_is_active q
      then Some (Inl (swap_error ''PumpSwap pool has no reserves on one or both sides''))
      else
        (case sp_direction p of
           Buy \<Rightarrow> amm_swap oc p (ta_balance (wq_quote q)) (ta_balance (wq_base q)) (bundle_rates q)
         | Sell \<Rightarrow> amm_swap oc p (ta_balance (wq_base q)) (ta_balance (wq_quote q)) (bundle_rates q)))"

definition pumpswap_quote_spot_price :: "pumpswap_quote \<Rightarrow> f64" where
  "pumpswap_quote_spot_price q =
     (if ta_balance (wq_base q) = 0 then f_0
      else f_div (f_of_nat (unat (ta_balance (wq_quote q)))) (f_of_nat (unat (ta_balance (wq_base q)))))"

section \<open>The exact-in quote\<close>

definition rates_total :: "fee_rates \<Rightarrow> nat" where
  "rates_total f = unat (fs_creator_bps f) + unat (fs_protocol_bps f) + unat (fs_lp_bps f)"

definition fees_on :: "fee_rates \<Rightarrow> nat \<Rightarrow> nat" where
  "fees_on f a = fee_of a (fs_creator_bps f) + fee_of a (fs_protocol_bps f) + fee_of a (fs_lp_bps f)"

text \<open>Three fees, each rounded up, take less than three units more than the exact fee.\<close>

lemma fees_on_upper: "fees_on f a * 10000 + 3 \<le> a * rates_total f + 30000"
  using fee_of_upper [of a "fs_creator_bps f"] fee_of_upper [of a "fs_protocol_bps f"]
    fee_of_upper [of a "fs_lp_bps f"]
  by (simp add: fees_on_def rates_total_def algebra_simps)

lemma fees_on_fits:
  assumes "rates_total f < 10000" "a < 2 ^ 64"
  shows "fees_on f a < 2 ^ 64"
proof -
  have "a * rates_total f \<le> a * 9999"
    using assms(1) by (intro mult_le_mono2) simp
  moreover have "a < 18446744073709551616" using assms(2) by simp
  ultimately have "fees_on f a < 18446744073709551616"
    using fees_on_upper [of f a] by linarith
  then show ?thesis by simp
qed

lemma calculate_fees_ok:
  assumes "a < 2 ^ 64"
  shows "calculate_fees oc f a = Some (as_u64 (fee_of a (fs_creator_bps f)),
    as_u64 (fee_of a (fs_protocol_bps f)), as_u64 (fee_of a (fs_lp_bps f)))"
proof -
  have "a * unat b < 2 ^ 128" for b :: u64
    using assms unat_u64_less by (rule mult_u64_fits)
  then show ?thesis
    by (simp add: calculate_fees_def rust_ok ceil_div_0_def fee_of_def)
qed

lemma fees_on_parts:
  assumes "fees_on f a < 2 ^ 64"
  shows "unat (as_u64 (fee_of a (fs_creator_bps f))) = fee_of a (fs_creator_bps f)"
    "unat (as_u64 (fee_of a (fs_protocol_bps f))) = fee_of a (fs_protocol_bps f)"
    "unat (as_u64 (fee_of a (fs_lp_bps f))) = fee_of a (fs_lp_bps f)"
  using assms by (auto simp: fees_on_def intro!: unat_as_u64)

lemma exact_in_classified:
  fixes amount_in reserve_in reserve_out
  defines "gross \<equiv> cp_out (unat reserve_in) (unat reserve_out) (unat amount_in)"
  assumes rin: "0 < unat reserve_in + unat amount_in" and rates: "rates_total f < 10000 \<or> fees_on f gross < 2 ^ 64"
  shows "if fees_on f gross \<le> gross
    then \<exists>q. calculate_swap_exact_in oc amount_in reserve_in reserve_out f =
               Some (Inr (so_amount_out q, q)) \<and> so_amount_in q = amount_in \<and>
             unat (so_amount_out q) = gross - fees_on f gross \<and>
             unat (so_fee q) = fees_on f gross \<and>
             unat (so_protocol_fee q) + unat (so_lp_fee q) = fees_on f gross
    else calculate_swap_exact_in oc amount_in reserve_in reserve_out f =
           Some (Inl (FeesExceedOutput (as_u64 gross) (as_u64 (fees_on f gross))))"
proof -
  let ?c = "fee_of gross (fs_creator_bps f)" and ?p = "fee_of gross (fs_protocol_bps f)"
    and ?l = "fee_of gross (fs_lp_bps f)"
  have a64: "unat amount_in < 2 ^ 64" and i64: "unat reserve_in < 2 ^ 64"
    and o64: "unat reserve_out < 2 ^ 64"
    by (rule unat_u64_less)+
  have g: "gross \<le> unat reserve_out" unfolding gross_def by (rule cp_out_le)
  then have g64: "gross < 2 ^ 64" using o64 by linarith
  have f64: "fees_on f gross < 2 ^ 64" using rates fees_on_fits [OF _ g64] by blast
  note parts = fees_on_parts [OF f64]
  have gw: "unat (as_u64 gross) = gross" using g64 by (rule unat_as_u64)
  have sums: "?c + ?p < 2 ^ 64" "?c + ?p + ?l < 2 ^ 64" "?c + ?l < 2 ^ 64"
    "fees_on f gross = ?c + ?p + ?l"
    using f64 by (simp_all add: fees_on_def)
  have ops: "u_mul oc 128 (unat reserve_out) (unat amount_in) = Some (unat reserve_out * unat amount_in)"
    "u_add oc 128 (unat reserve_in) (unat amount_in) = Some (unat reserve_in + unat amount_in)"
    "u_div (unat reserve_out * unat amount_in) (unat reserve_in + unat amount_in) = Some gross"
    "u_add oc 64 ?c ?p = Some (?c + ?p)" "u_add oc 64 (?c + ?p) ?l = Some (?c + ?p + ?l)"
    "u_add oc 64 ?c ?l = Some (?c + ?l)"
    "u_sub oc 128 (unat reserve_out) gross = Some (unat reserve_out - gross)"
    using mult_u64_fits [OF o64 a64] a64 i64 rin g sums
    by (simp_all add: rust_ok gross_def cp_out_def)
  note step = calculate_swap_exact_in_def ops calculate_fees_ok [OF g64] gw parts
  show ?thesis
  proof (cases "fees_on f gross \<le> gross")
    case True
    have words: "unat (as_u64 (gross - (?c + ?p + ?l))) = gross - (?c + ?p + ?l)"
      "unat (as_u64 (?c + ?p + ?l)) = ?c + ?p + ?l" "unat (as_u64 (?c + ?l)) = ?c + ?l"
      using sums g64 by (auto intro!: unat_as_u64 simp del: of_nat_add of_nat_diff)
    show ?thesis
      using True sums words parts
      by (simp add: step checked_sub_def del: of_nat_add of_nat_diff)
  next
    case False
    then show ?thesis
      using sums by (simp add: step checked_sub_def del: of_nat_add)
  qed
qed

section \<open>The exact-out quote\<close>

definition rates_gross :: "fee_rates \<Rightarrow> nat \<Rightarrow> nat" where
  "rates_gross f net = ceil_div (net * 10000) (10000 - rates_total f)"

lemma rates_gross_covers:
  "rates_total f < 10000 \<Longrightarrow> net * 10000 \<le> rates_gross f net * (10000 - rates_total f)"
  unfolding rates_gross_def by (rule ceil_div_upper) simp

lemma rates_gross_net:
  assumes "rates_total f < 10000"
  shows "net \<le> rates_gross f net - fees_on f (rates_gross f net) + 2"
proof -
  let ?g = "rates_gross f net" and ?t = "rates_total f"
  have "net * 10000 + ?g * ?t \<le> ?g * 10000"
    using rates_gross_covers [OF assms, of net] assms
    by (metis add_le_mono1 add_mult_distrib2 le_add_diff_inverse2 less_imp_le_nat)
  then have "net * 10000 + fees_on f ?g * 10000 + 3 \<le> ?g * 10000 + 30000"
    using fees_on_upper [of f ?g] by linarith
  then show ?thesis by linarith
qed

lemma rates_gross_ge: "rates_total f < 10000 \<Longrightarrow> net \<le> rates_gross f net"
proof -
  assume t: "rates_total f < 10000"
  have "net * 10000 \<le> rates_gross f net * 10000"
    using rates_gross_covers [OF t, of net] by (meson diff_le_self le_trans mult_le_mono2)
  then show ?thesis by simp
qed

lemma fee_rates_total_ok:
  "rates_total f < 2 ^ 64 \<Longrightarrow> fee_rates_total_bps oc f = Some (rates_total f)"
  by (simp add: fee_rates_total_bps_def rates_total_def rust_ok)

lemma exact_out_classified:
  fixes desired reserve_in reserve_out f
  defines "gross \<equiv> rates_gross f (unat desired)"
  assumes rates: "rates_total f < 10000"
  shows "if unat reserve_out \<le> gross
    then calculate_swap_exact_out oc desired reserve_in reserve_out f = Some swap_output_default
    else \<exists>q. calculate_swap_exact_out oc desired reserve_in reserve_out f = Some q \<and>
      so_amount_out q = desired \<and>
      so_amount_in q = as_u64 (cp_in (unat reserve_in) (unat reserve_out) gross) \<and>
      unat (so_fee q) = fees_on f gross \<and>
      unat (so_protocol_fee q) + unat (so_lp_fee q) = fees_on f gross"
proof -
  have d64: "unat desired < 2 ^ 64" and i64: "unat reserve_in < 2 ^ 64"
    and o64: "unat reserve_out < 2 ^ 64"
    by (rule unat_u64_less)+
  have "unat desired * 10000 < 2 ^ 128"
    using d64 by (intro mult_u64_fits) simp_all
  then have pre: "fee_rates_total_bps oc f = Some (rates_total f)"
    "u_mul oc 128 (unat desired) 10000 = Some (unat desired * 10000)"
    "u_sub oc 128 10000 (rates_total f) = Some (10000 - rates_total f)"
    "ceil_div_0 (unat desired * 10000) (10000 - rates_total f) = gross"
    using rates by (simp_all add: fee_rates_total_ok rust_ok ceil_div_0_def gross_def rates_gross_def)
  note step = calculate_swap_exact_out_def pre
  show ?thesis
  proof (cases "unat reserve_out \<le> gross")
    case True
    then show ?thesis by (simp add: step)
  next
    case False
    let ?c = "fee_of gross (fs_creator_bps f)" and ?p = "fee_of gross (fs_protocol_bps f)"
      and ?l = "fee_of gross (fs_lp_bps f)"
    have g64: "gross < 2 ^ 64" using False o64 by linarith
    have f64: "fees_on f gross < 2 ^ 64" using rates g64 by (rule fees_on_fits)
    note parts = fees_on_parts [OF f64]
    have gw: "unat (as_u64 gross) = gross" using g64 by (rule unat_as_u64)
    have sums: "?c + ?p < 2 ^ 64" "?c + ?p + ?l < 2 ^ 64" "?c + ?l < 2 ^ 64"
      "fees_on f gross = ?c + ?p + ?l"
      using f64 by (simp_all add: fees_on_def)
    have words: "unat (as_u64 (?c + ?p + ?l)) = ?c + ?p + ?l" "unat (as_u64 (?c + ?l)) = ?c + ?l"
      using sums by (auto intro!: unat_as_u64 simp del: of_nat_add)
    have ops: "u_mul oc 128 (unat reserve_in) gross = Some (unat reserve_in * gross)"
      "u_sub oc 128 (unat reserve_out) gross = Some (unat reserve_out - gross)"
      "u_add oc 64 ?c ?p = Some (?c + ?p)" "u_add oc 64 (?c + ?p) ?l = Some (?c + ?p + ?l)"
      "u_add oc 64 ?c ?l = Some (?c + ?l)"
      "ceil_div_0 (unat reserve_in * gross) (unat reserve_out - gross) =
         cp_in (unat reserve_in) (unat reserve_out) gross"
      using mult_u64_fits [OF i64 g64] False sums
      by (simp_all add: rust_ok ceil_div_0_def cp_in_def)
    show ?thesis
      using False words parts sums
      by (simp add: step ops calculate_fees_ok [OF g64] gw parts del: of_nat_add)
  qed
qed

section \<open>The pool implements the contract of \<open>SwapMath\<close>\<close>

lemma creator_ladder_le: "unat (creator_ladder n) \<le> 95"
  by (simp add: creator_ladder_def)

lemma fee_structure_total: "rates_total (fee_structure sol creator) < 10000"
  using creator_ladder_le [of "f_to_uint 64 sol"]
  by (simp add: fee_structure_def rates_total_def)

lemma exact_in_quote:
  assumes "calculate_swap_exact_in True a i r f = Some (Inr (x, q))" "0 < unat i" "rates_total f < 10000"
  shows "so_amount_in q = a" "unat (so_amount_out q) \<le> unat r"
    "unat (so_fee q) = unat (so_protocol_fee q) + unat (so_lp_fee q)"
  using exact_in_classified [of i a f r True] assms cp_out_le [of "unat i" "unat r" "unat a"]
  by (auto split: if_splits)

lemma exact_out_quote:
  assumes "calculate_swap_exact_out True d i r f = Some q" "rates_total f < 10000"
  shows "unat (so_amount_out q) \<le> unat r"
    "unat (so_fee q) = unat (so_protocol_fee q) + unat (so_lp_fee q)"
  using exact_out_classified [OF assms(2), of r d True i] assms(1) rates_gross_ge [OF assms(2), of "unat d"]
  by (auto simp: swap_output_default_def split: if_splits)

lemma amm_swap_quote:
  assumes "amm_swap True p i r f = Some (Inr q)" "0 < unat i" "rates_total f < 10000"
  shows "is_exact_in p \<Longrightarrow> so_amount_in q = amount_value p"
    and "unat (so_amount_out q) \<le> unat r"
    and "unat (so_fee q) = unat (so_protocol_fee q) + unat (so_lp_fee q)"
proof -
  consider x where "amount_is_exact_in (sp_amount p)"
      "calculate_swap_exact_in True (amount (sp_amount p)) i r f = Some (Inr (x, q))"
    | "\<not> amount_is_exact_in (sp_amount p)"
      "calculate_swap_exact_out True (amount (sp_amount p)) i r f = Some q"
  proof (cases "amount_is_exact_in (sp_amount p)")
    case True
    then obtain y where y: "calculate_swap_exact_in True (amount (sp_amount p)) i r f = Some y"
      "map_sum id snd y = Inr q"
      using assms(1) by (auto simp: amm_swap_def)
    then obtain x where "y = Inr (x, q)" by (cases y) auto
    with True y that(1) show thesis by simp
  next
    case False
    with assms(1) that(2) show thesis by (auto simp: amm_swap_def)
  qed
  note split = this
  show "is_exact_in p \<Longrightarrow> so_amount_in q = amount_value p"
    using split by cases (auto simp: is_exact_in_def amount_value_def exact_in_quote assms(2,3))
  show "unat (so_amount_out q) \<le> unat r"
    using split by cases (auto simp: exact_in_quote exact_out_quote assms(2,3))
  show "unat (so_fee q) = unat (so_protocol_fee q) + unat (so_lp_fee q)"
    using split by cases (auto simp: exact_in_quote exact_out_quote assms(2,3))
qed

definition pool_avail :: "pool_with_reserves \<Rightarrow> swap_direction \<Rightarrow> nat" where
  "pool_avail w d = (case d of Buy \<Rightarrow> unat (pr_base_reserves w) | Sell \<Rightarrow> unat (pr_quote_reserves w))"

lemma pool_swap_quote:
  assumes "pool_calculate_swap True w p = Some (Inr q)"
  shows "is_exact_in p \<Longrightarrow> so_amount_in q = amount_value p"
    and "unat (so_amount_out q) \<le> pool_avail w (sp_direction p)"
    and "unat (so_fee q) = unat (so_protocol_fee q) + unat (so_lp_fee q)"
proof -
  obtain i r sol creator where q: "amm_swap True p i r (fee_structure sol creator) = Some (Inr q)"
    and r: "unat r = pool_avail w (sp_direction p)" and i: "0 < unat i"
    using assms by (cases "sp_direction p")
      (auto simp: pool_calculate_swap_def pool_avail_def pool_is_active_def word_less_nat_alt
        split: if_splits)
  note amm_swap_quote [OF q i fee_structure_total]
  then show "is_exact_in p \<Longrightarrow> so_amount_in q = amount_value p"
    "unat (so_amount_out q) \<le> pool_avail w (sp_direction p)"
    "unat (so_fee q) = unat (so_protocol_fee q) + unat (so_lp_fee q)"
    by (simp_all add: r)
qed

interpretation pumpswap_pool: swap_math "pool_calculate_swap True" pool_avail
  by unfold_locales (simp_all add: pool_swap_quote)

section \<open>Properties\<close>

text \<open>C13: In both build profiles, an exact-in quote whose three fees, each rounded up, add up to less
  than \<open>2 ^ 64\<close>, as they do at rates below 100 percent in total, panics in one case only: a zero amount
  against an empty input reserve, which is a division by zero. Otherwise it pays the
  constant-product output less the three fees, and when that output does not cover them it is
  refused with \<open>FeesExceedOutput\<close> naming both amounts. Rates read from a fee configuration are not
  bounded by the code; fees that do not fit are outside this statement.\<close>

theorem pumpswap_exact_in_total:
  fixes amount_in reserve_in reserve_out f
  defines "gross \<equiv> cp_out (unat reserve_in) (unat reserve_out) (unat amount_in)"
  assumes "rates_total f < 10000 \<or> fees_on f gross < 2 ^ 64"
  shows "if unat reserve_in + unat amount_in = 0
    then calculate_swap_exact_in oc amount_in reserve_in reserve_out f = None
    else if fees_on f gross \<le> gross
    then \<exists>q. calculate_swap_exact_in oc amount_in reserve_in reserve_out f =
               Some (Inr (so_amount_out q, q)) \<and> so_amount_in q = amount_in \<and>
             unat (so_amount_out q) + fees_on f gross = gross \<and>
             unat (so_fee q) = fees_on f gross \<and>
             unat (so_protocol_fee q) + unat (so_lp_fee q) = fees_on f gross
    else calculate_swap_exact_in oc amount_in reserve_in reserve_out f =
           Some (Inl (FeesExceedOutput (as_u64 gross) (as_u64 (fees_on f gross))))"
proof (cases "unat reserve_in + unat amount_in = 0")
  case True
  then show ?thesis
    by (simp add: calculate_swap_exact_in_def rust_ok u_div_def)
next
  case False
  then show ?thesis
    using exact_in_classified [of reserve_in amount_in f reserve_out oc] assms(2)
    unfolding gross_def by (auto split: if_splits)
qed

lemmas rates_example = fees_on_def fee_of_def rates_total_def rates_gross_def ceil_div_def cp_out_def
  cp_in_def

lemma pumpswap_exact_in_total_witness:
  "calculate_swap_exact_in True 2 85000000000 85000000000
     \<lparr> fs_creator_bps = 95, fs_protocol_bps = 5, fs_lp_bps = 20 \<rparr> =
   Some (Inl (FeesExceedOutput 1 3))"
  using pumpswap_exact_in_total [of "\<lparr> fs_creator_bps = 95, fs_protocol_bps = 5, fs_lp_bps = 20 \<rparr>"
      85000000000 85000000000 2 True]
  by (simp add: rates_example)

text \<open>C24: At rates below 100 percent in total and a non-empty input reserve, an exact-out quote never
  panics in either build profile. It is the all-zero output exactly when the grossed-up amount is
  not below the output reserve. Otherwise it asks for \<open>need mod 2 ^ 64\<close>, where \<open>need\<close> is the least
  input whose gross output covers the grossed-up amount, and the fees, rounded up separately, then
  leave at least the desired amount less two units. The quoted input pays for the amount exactly
  when \<open>need\<close> fits in 64 bits: near the whole reserve it may not, and the code truncates it.\<close>

theorem pumpswap_exact_out:
  fixes desired reserve_in reserve_out f
  defines "gross \<equiv> rates_gross f (unat desired)"
    and "need \<equiv> cp_in (unat reserve_in) (unat reserve_out) (rates_gross f (unat desired))"
  assumes "rates_total f < 10000" "0 < unat reserve_in"
  shows "if unat reserve_out \<le> gross
    then calculate_swap_exact_out oc desired reserve_in reserve_out f = Some swap_output_default
    else \<exists>q. calculate_swap_exact_out oc desired reserve_in reserve_out f = Some q \<and>
      so_amount_out q = desired \<and> so_amount_in q = as_u64 need \<and>
      gross \<le> cp_out (unat reserve_in) (unat reserve_out) need \<and>
      (\<forall>x < need. cp_out (unat reserve_in) (unat reserve_out) x < gross) \<and>
      unat desired \<le> gross - unat (so_fee q) + 2 \<and>
      (need < 2 ^ 64 \<longleftrightarrow>
        gross \<le> cp_out (unat reserve_in) (unat reserve_out) (unat (so_amount_in q)))"
proof (cases "unat reserve_out \<le> gross")
  case True
  then show ?thesis
    using exact_out_classified [OF assms(3), of reserve_out desired oc reserve_in]
    by (simp add: gross_def)
next
  case False
  then obtain q where q: "calculate_swap_exact_out oc desired reserve_in reserve_out f = Some q"
    "so_amount_out q = desired" "so_amount_in q = as_u64 need" "unat (so_fee q) = fees_on f gross"
    using exact_out_classified [OF assms(3), of reserve_out desired oc reserve_in]
    by (auto simp: gross_def need_def)
  have covers: "gross \<le> cp_out (unat reserve_in) (unat reserve_out) need"
    unfolding need_def gross_def [symmetric] using False assms(4) by (intro cp_in_sufficient) simp_all
  have least: "cp_out (unat reserve_in) (unat reserve_out) x < gross" if "x < need" for x
    using that False assms(4) unfolding need_def gross_def [symmetric] by (intro cp_in_least) simp_all
  have "unat desired \<le> gross - fees_on f gross + 2"
    unfolding gross_def using assms(3) by (rule rates_gross_net)
  moreover have "need < 2 ^ 64 \<longleftrightarrow>
      gross \<le> cp_out (unat reserve_in) (unat reserve_out) (unat (so_amount_in q))"
  proof
    assume "need < 2 ^ 64"
    then have "unat (so_amount_in q) = need"
      unfolding q(3) by (rule unat_as_u64)
    then show "gross \<le> cp_out (unat reserve_in) (unat reserve_out) (unat (so_amount_in q))"
      using covers by simp
  next
    assume "gross \<le> cp_out (unat reserve_in) (unat reserve_out) (unat (so_amount_in q))"
    then have "need \<le> unat (so_amount_in q)"
      using least [of "unat (so_amount_in q)"] by (cases "unat (so_amount_in q) < need") simp_all
    then show "need < 2 ^ 64"
      using unat_u64_less by (rule le_less_trans)
  qed
  ultimately show ?thesis
    using q False covers least by auto
qed

lemma pumpswap_exact_out_witness:
  "\<exists>q. calculate_swap_exact_out True 1000000 85000000000 1000000000000
     \<lparr> fs_creator_bps = 95, fs_protocol_bps = 5, fs_lp_bps = 20 \<rparr> = Some q \<and>
     so_amount_out q = 1000000 \<and> unat (so_amount_in q) = 86033"
  using pumpswap_exact_out [of "\<lparr> fs_creator_bps = 95, fs_protocol_bps = 5, fs_lp_bps = 20 \<rparr>"
      85000000000 1000000000000 1000000 True]
  by (auto simp: rates_example)

text \<open>At rates that sum to exactly 100 percent the zero divisor of the gross-up is answered with
  zero: the exact-out quote then offers any desired amount for an input of nothing.\<close>

lemma pumpswap_exact_out_free_at_full_fee:
  assumes "rates_total f = 10000" "0 < unat reserve_out"
  shows "\<exists>q. calculate_swap_exact_out oc desired reserve_in reserve_out f = Some q \<and>
     so_amount_out q = desired \<and> so_amount_in q = 0 \<and> so_fee q = 0"
proof -
  have "unat desired * 10000 < 2 ^ 128"
    using unat_u64_less by (intro mult_u64_fits) simp_all
  moreover have "fee_rates_total_bps oc f = Some 10000"
    using assms(1) fee_rates_total_ok [of f oc] by simp
  ultimately show ?thesis
    using assms(2)
    by (simp add: calculate_swap_exact_out_def u_mul_ok u_sub_ok u_add_ok ceil_div_0_def
        calculate_fees_def)
qed

text \<open>Between 420 and 421 SOL of quote reserves the hard-coded schedule pairs the creator rate of
  the launch phase with the protocol and LP rates of the standard phase: 55 basis points in all,
  against 125 at 420 SOL and 120 at 421.\<close>

lemma pumpswap_fee_gap:
  "rates_total (fee_structure (f_div (f_of_nat 420500000000) (f_of_nat 1000000000)) True) = 55 \<and>
   rates_total (fee_structure (f_div (f_of_nat 420000000000) (f_of_nat 1000000000)) True) = 125 \<and>
   rates_total (fee_structure (f_div (f_of_nat 421000000000) (f_of_nat 1000000000)) True) = 120"
  by (simp add: fee_structure_def rates_total_def creator_ladder_def f64_eval)

text \<open>A quote assembled from a cache reads nothing but the pool at the given key, the accounts it
  declares as dependencies of that pool and the fee singleton: two caches that agree on those give
  the same result.\<close>

lemma pumpswap_assemble_reads_declared:
  assumes "get_pool pool slot = get_pool' pool slot"
    and "\<forall>p d. get_pool pool slot = Some p \<longrightarrow> d \<in> set (pumpswap_dependent_accounts p) \<longrightarrow>
           get_token (d_pubkey d) slot = get_token' (d_pubkey d) slot"
  shows "pumpswap_quote_assemble get_pool get_token config pool slot =
         pumpswap_quote_assemble get_pool' get_token' config pool slot"
proof (cases "get_pool pool slot")
  case (Some p)
  have "get_token (pp_pool_base_token_account p) slot = get_token' (pp_pool_base_token_account p) slot"
    "get_token (pp_pool_quote_token_account p) slot = get_token' (pp_pool_quote_token_account p) slot"
    using assms(2) Some by (auto simp: pumpswap_dependent_accounts_def dependency_new_def)
  with Some assms(1) show ?thesis
    by (auto simp: pumpswap_quote_assemble_def)
qed (use assms(1) in \<open>simp add: pumpswap_quote_assemble_def\<close>)

text \<open>The layout table of the module's documentation: the fields behind the discriminator.\<close>

definition pumpswap_layout :: "bytes \<Rightarrow> pumpswap_pool \<Rightarrow> bytes" where
  "pumpswap_layout disc p =
     disc @ [pp_pool_bump p] @ le_bytes 2 (unat (pp_index p)) @ pp_creator p @ pp_base_mint p
       @ pp_quote_mint p @ pp_lp_mint p @ pp_pool_base_token_account p
       @ pp_pool_quote_token_account p @ le_bytes 8 (unat (pp_lp_supply p)) @ pp_coin_creator p
       @ [bool_byte (pp_is_mayhem_mode p)]"

definition pool_keys_ok :: "pumpswap_pool \<Rightarrow> bool" where
  "pool_keys_ok p \<longleftrightarrow> list_all (\<lambda>k. length k = 32)
     [pp_creator p, pp_base_mint p, pp_quote_mint p, pp_lp_mint p, pp_pool_base_token_account p,
      pp_pool_quote_token_account p, pp_coin_creator p]"

lemma pumpswap_layout_decode:
  assumes "borsh_ok B" "length disc = 8" "pool_keys_ok p"
  shows "pumpswap_pool_from_account_data B disc (pumpswap_layout disc p @ pad) = Inr p"
  using assms
  by (cases p) (simp add: pumpswap_pool_from_account_data_def pumpswap_layout_def pool_keys_ok_def
      onchain_with_disc decode_checked_def borsh_fields_def read_pumpswap_pool_def)

text \<open>A pool account laid out as documented decodes to its pool whatever padding follows, and its
  fields span 244 bytes, so that every observed account size decodes.\<close>

lemma pumpswap_pool_roundtrip:
  assumes "borsh_ok B" "length disc = 8" "pool_keys_ok p"
  shows "pumpswap_pool_from_account_data B disc (pumpswap_layout disc p @ pad) = Inr p \<and>
         length (pumpswap_layout disc p) = 244"
  using assms pumpswap_layout_decode [OF assms]
  by (simp add: pumpswap_layout_def pool_keys_ok_def)

definition example_pool :: pumpswap_pool where
  "example_pool =
     \<lparr> pp_pool_bump = 255, pp_index = 42, pp_creator = pubkey_default,
       pp_base_mint = replicate 32 1, pp_quote_mint = replicate 32 2, pp_lp_mint = pubkey_default,
       pp_pool_base_token_account = replicate 32 3, pp_pool_quote_token_account = replicate 32 4,
       pp_lp_supply = 1000, pp_coin_creator = replicate 32 5, pp_is_mayhem_mode = False \<rparr>"

end
