(* ===== verification/Cache.thy ===== *)
theory Cache
  imports VersionedMap Persist Pumpswap
begin

text \<open>
  The composed cache (\<open>storage/cache/src/cache.rs\<close>): its fields, the trait wiring of
  \<open>impl_cache_access!\<close>, the observed slot, and the life cycle of a \<open>LocalCache\<close> - construction,
  load, save, clones and the snapshot that the last handle writes when it is dropped.

  The account types of the DLMM SDK (\<open>LbPair\<close>, \<open>BinArray\<close>, \<open>BinArrayBitmapExtension\<close>,
  \<open>PositionV2Full\<close>) are the type variables \<open>'lb\<close>, \<open>'ba\<close>, \<open>'bx\<close> and \<open>'ps\<close>. The handles of one
  cache share \<open>CacheData\<close> and \<open>CacheMeta\<close> behind an \<open>Arc\<close>: they are one state with a count of
  handles.
\<close>

section \<open>Configuration\<close>

record field_depths =
  fd_blockhashes :: nat
  fd_bonding_curves :: nat
  fd_pumpswap_pools :: nat
  fd_dlmm_lb_pairs :: nat
  fd_dlmm_bin_arrays :: nat
  fd_dlmm_bin_array_bitmap_extensions :: nat
  fd_dlmm_positions :: nat
  fd_mint_token_programs :: nat
  fd_token_accounts :: nat

definition field_depths_default :: field_depths where
  "field_depths_default =
     \<lparr> fd_blockhashes = 8, fd_bonding_curves = 8, fd_pumpswap_pools = 8, fd_dlmm_lb_pairs = 8,
       fd_dlmm_bin_arrays = 4, fd_dlmm_bin_array_bitmap_extensions = 4, fd_dlmm_positions = 8,
       fd_mint_token_programs = 1, fd_token_accounts = 8 \<rparr>"

text \<open>A shared slot counter is represented by its value when the cache is built.\<close>

record cache_config =
  cf_depths :: field_depths
  cf_persist_on_drop :: "path option"
  cf_current_slot :: "u64 option"

definition cache_config_default :: cache_config where
  "cache_config_default =
     \<lparr> cf_depths = field_depths_default, cf_persist_on_drop = None, cf_current_slot = None \<rparr>"

section \<open>Data\<close>

record ('lb, 'ba, 'bx, 'ps) cache_data =
  cd_blockhashes :: "(pubkey, bytes) versioned_map"
  cd_bonding_curves :: "(pubkey, bonding_curve) versioned_map"
  cd_pumpswap_pools :: "(pubkey, pumpswap_pool) versioned_map"
  cd_dlmm_lb_pairs :: "(pubkey, 'lb) versioned_map"
  cd_dlmm_bin_arrays :: "(pubkey, 'ba) versioned_map"
  cd_dlmm_bin_array_bitmap_extensions :: "(pubkey, 'bx) versioned_map"
  cd_dlmm_positions :: "(pubkey, 'ps) versioned_map"
  cd_mint_token_programs :: "(pubkey, token_program) versioned_map"
  cd_token_accounts :: "(pubkey, token_account) versioned_map"
  cd_pumpfun_fee_recipients :: "pumpfun_fee_recipients option"
  cd_pumpfun_fee_config :: "pumpfun_fee_config option"
  cd_pumpswap_fee_config :: "pumpswap_fee_config option"

definition with_depths :: "field_depths \<Rightarrow> ('lb, 'ba, 'bx, 'ps) cache_data" where
  "with_depths d =
     \<lparr> cd_blockhashes = vm_with_depth (fd_blockhashes d),
       cd_bonding_curves = vm_with_depth (fd_bonding_curves d),
       cd_pumpswap_pools = vm_with_depth (fd_pumpswap_pools d),
       cd_dlmm_lb_pairs = vm_with_depth (fd_dlmm_lb_pairs d),
       cd_dlmm_bin_arrays = vm_with_depth (fd_dlmm_bin_arrays d),
       cd_dlmm_bin_array_bitmap_extensions =
         vm_with_depth (fd_dlmm_bin_array_bitmap_extensions d),
       cd_dlmm_positions = vm_with_depth (fd_dlmm_positions d),
       cd_mint_token_programs = vm_with_depth (fd_mint_token_programs d),
       cd_token_accounts = vm_with_depth (fd_token_accounts d),
       cd_pumpfun_fee_recipients = None, cd_pumpfun_fee_config = None,
       cd_pumpswap_fee_config = None \<rparr>"

text \<open>The PumpSwap fee singleton is not reset; it is not persisted either.\<close>

definition reset_runtime_fields ::
  "field_depths \<Rightarrow> ('lb, 'ba, 'bx, 'ps) cache_data \<Rightarrow> ('lb, 'ba, 'bx, 'ps) cache_data" where
  "reset_runtime_fields d c =
     c \<lparr> cd_bonding_curves := vm_with_depth (fd_bonding_curves d),
         cd_pumpswap_pools := vm_with_depth (fd_pumpswap_pools d),
         cd_dlmm_lb_pairs := vm_with_depth (fd_dlmm_lb_pairs d),
         cd_dlmm_bin_arrays := vm_with_depth (fd_dlmm_bin_arrays d),
         cd_dlmm_bin_array_bitmap_extensions :=
           vm_with_depth (fd_dlmm_bin_array_bitmap_extensions d),
         cd_dlmm_positions := vm_with_depth (fd_dlmm_positions d),
         cd_mint_token_programs := vm_with_depth (fd_mint_token_programs d),
         cd_token_accounts := vm_with_depth (fd_token_accounts d),
         cd_pumpfun_fee_recipients := None, cd_pumpfun_fee_config := None \<rparr>"

text \<open>
  What serde writes and reads: only \<open>blockhashes\<close>; a skipped field comes back as its declared
  default, a map of depth 0 or an empty singleton.
\<close>

definition to_disk :: "('lb, 'ba, 'bx, 'ps) cache_data \<Rightarrow> (pubkey, bytes) versioned_map" where
  "to_disk c = cd_blockhashes c"

definition from_disk :: "(pubkey, bytes) versioned_map \<Rightarrow> ('lb, 'ba, 'bx, 'ps) cache_data" where
  "from_disk b =
     \<lparr> cd_blockhashes = b, cd_bonding_curves = vm_with_depth 0, cd_pumpswap_pools = vm_with_depth 0,
       cd_dlmm_lb_pairs = vm_with_depth 0, cd_dlmm_bin_arrays = vm_with_depth 0,
       cd_dlmm_bin_array_bitmap_extensions = vm_with_depth 0, cd_dlmm_positions = vm_with_depth 0,
       cd_mint_token_programs = vm_with_depth 0, cd_token_accounts = vm_with_depth 0,
       cd_pumpfun_fee_recipients = None, cd_pumpfun_fee_config = None,
       cd_pumpswap_fee_config = None \<rparr>"

section \<open>Trait wiring\<close>

text \<open>\<open>impl_cache_access!\<close>: the methods of one field, given how to read and update it.\<close>

definition field_insert ::
  "('d \<Rightarrow> ('k, 'v) versioned_map) \<Rightarrow>
   ((('k, 'v) versioned_map \<Rightarrow> ('k, 'v) versioned_map) \<Rightarrow> 'd \<Rightarrow> 'd) \<Rightarrow>
   'k \<Rightarrow> 'v \<Rightarrow> u64 \<Rightarrow> 'd \<Rightarrow> insert_outcome \<times> 'd" where
  "field_insert sel upd k v s d =
     (fst (vm_insert k v s (sel d)), upd (\<lambda>_. snd (vm_insert k v s (sel d))) d)"

locale cache_field =
  fixes sel :: "'d \<Rightarrow> ('k, 'v) versioned_map"
    and upd :: "(('k, 'v) versioned_map \<Rightarrow> ('k, 'v) versioned_map) \<Rightarrow> 'd \<Rightarrow> 'd"
  assumes sel_upd: "sel (upd f d) = f (sel d)"

sublocale cache_field \<subseteq> field: slot_store "field_insert sel upd" "\<lambda>k d. vm_get_with_slot k (sel d)"
  "\<lambda>k r d. vm_get_at_slot_with_slot k r (sel d)" "\<lambda>d. vm_wf (sel d)"
  by unfold_locales
    (auto simp: field_insert_def sel_upd vmap.inv_ins vmap.ins_outcome vmap.cur_ins_same
      vmap.cur_ins_other vmap.at_ins_other
      intro: vmap.at_slot_cur vmap.at_slot_bound vmap.at_slot_old vmap.at_slot_none)

interpretation blockhashes: cache_field cd_blockhashes cd_blockhashes_update
  by unfold_locales simp

interpretation bonding_curves: cache_field cd_bonding_curves cd_bonding_curves_update
  by unfold_locales simp

interpretation pumpswap_pools: cache_field cd_pumpswap_pools cd_pumpswap_pools_update
  by unfold_locales simp

interpretation dlmm_lb_pairs: cache_field cd_dlmm_lb_pairs cd_dlmm_lb_pairs_update
  by unfold_locales simp

interpretation dlmm_bin_arrays: cache_field cd_dlmm_bin_arrays cd_dlmm_bin_arrays_update
  by unfold_locales simp

interpretation dlmm_bitmaps: cache_field cd_dlmm_bin_array_bitmap_extensions
    cd_dlmm_bin_array_bitmap_extensions_update
  by unfold_locales simp

interpretation dlmm_positions: cache_field cd_dlmm_positions cd_dlmm_positions_update
  by unfold_locales simp

interpretation mint_token_programs: cache_field cd_mint_token_programs cd_mint_token_programs_update
  by unfold_locales simp

interpretation token_accounts: cache_field cd_token_accounts cd_token_accounts_update
  by unfold_locales simp

section \<open>The cache and its handles\<close>

record ('lb, 'ba, 'bx, 'ps) local_cache =
  lc_data :: "('lb, 'ba, 'bx, 'ps) cache_data"
  lc_persist_on_drop :: "path option"
  lc_persisted :: bool
  lc_current_slot :: u64
  lc_handles :: nat

definition cache_of :: "('lb, 'ba, 'bx, 'ps) cache_data \<Rightarrow> cache_config \<Rightarrow> ('lb, 'ba, 'bx, 'ps) local_cache" where
  "cache_of d cfg =
     \<lparr> lc_data = d, lc_persist_on_drop = cf_persist_on_drop cfg, lc_persisted = False,
       lc_current_slot = (case cf_current_slot cfg of None \<Rightarrow> 0 | Some s \<Rightarrow> s), lc_handles = 1 \<rparr>"

definition cache_new :: "cache_config \<Rightarrow> ('lb, 'ba, 'bx, 'ps) local_cache" where
  "cache_new cfg = cache_of (with_depths (cf_depths cfg)) cfg"

type_synonym blockhash_map = "(pubkey, bytes) versioned_map"

definition load_from ::
  "blockhash_map codec \<Rightarrow> path \<Rightarrow> cache_config \<Rightarrow> fs \<Rightarrow> cache_error + ('lb, 'ba, 'bx, 'ps) local_cache" where
  "load_from C path cfg fs =
     (case read_payload C path fs of
        Inl e \<Rightarrow> Inl e
      | Inr b \<Rightarrow> Inr (cache_of (reset_runtime_fields (cf_depths cfg) (from_disk b)) cfg))"

definition load_or_new ::
  "blockhash_map codec \<Rightarrow> cache_config \<Rightarrow> fs \<Rightarrow> cache_error + ('lb, 'ba, 'bx, 'ps) local_cache" where
  "load_or_new C cfg fs =
     (case cf_persist_on_drop cfg of
        None \<Rightarrow> Inr (cache_new cfg)
      | Some p \<Rightarrow> if fs p \<noteq> None then load_from C p cfg fs else Inr (cache_new cfg))"

definition current_slot :: "('lb, 'ba, 'bx, 'ps) local_cache \<Rightarrow> u64" where
  "current_slot c = lc_current_slot c"

definition advance_slot :: "u64 \<Rightarrow> ('lb, 'ba, 'bx, 'ps) local_cache \<Rightarrow> ('lb, 'ba, 'bx, 'ps) local_cache" where
  "advance_slot s c = c \<lparr> lc_current_slot := max (lc_current_slot c) s \<rparr>"

definition save_to ::
  "blockhash_map codec \<Rightarrow> write_fault \<Rightarrow> bytes \<Rightarrow> path \<Rightarrow> ('lb, 'ba, 'bx, 'ps) local_cache \<Rightarrow> fs \<Rightarrow>
   (cache_error + unit) \<times> fs list" where
  "save_to C fault junk p c fs = write_payload C fault junk p (to_disk (lc_data c)) fs"

definition save ::
  "blockhash_map codec \<Rightarrow> write_fault \<Rightarrow> bytes \<Rightarrow> ('lb, 'ba, 'bx, 'ps) local_cache \<Rightarrow> fs \<Rightarrow>
   (cache_error + unit) \<times> fs list" where
  "save C fault junk c fs =
     (case lc_persist_on_drop c of
        None \<Rightarrow> (Inl NoPersistPath, [fs])
      | Some p \<Rightarrow> save_to C fault junk p c fs)"

definition is_last_handle :: "('lb, 'ba, 'bx, 'ps) local_cache \<Rightarrow> bool" where
  "is_last_handle c \<longleftrightarrow> lc_handles c = 1"

definition clone_handle :: "('lb, 'ba, 'bx, 'ps) local_cache \<Rightarrow> ('lb, 'ba, 'bx, 'ps) local_cache" where
  "clone_handle c = c \<lparr> lc_handles := lc_handles c + 1 \<rparr>"

text \<open>
  A drop is two steps that another thread's may come between: \<open>Drop::drop\<close> runs while the handle
  still counts (\<open>drop_begin\<close>), then the \<open>Arc\<close> is released (\<open>drop_end\<close>). A failed save is
  only logged.
\<close>

definition drop_begin ::
  "blockhash_map codec \<Rightarrow> write_fault \<Rightarrow> bytes \<Rightarrow> ('lb, 'ba, 'bx, 'ps) local_cache \<times> fs \<Rightarrow>
   ('lb, 'ba, 'bx, 'ps) local_cache \<times> fs" where
  "drop_begin C fault junk = (\<lambda>(c, fs).
     if \<not> is_last_handle c then (c, fs)
     else (case lc_persist_on_drop c of
             None \<Rightarrow> (c, fs)
           | Some p \<Rightarrow>
               if lc_persisted c then (c, fs)
               else (c \<lparr> lc_persisted := True \<rparr>, last (snd (save_to C fault junk p c fs)))))"

definition drop_end ::
  "('lb, 'ba, 'bx, 'ps) local_cache \<times> fs \<Rightarrow> ('lb, 'ba, 'bx, 'ps) local_cache \<times> fs" where
  "drop_end = (\<lambda>(c, fs). (c \<lparr> lc_handles := lc_handles c - 1 \<rparr>, fs))"

definition drop_handle ::
  "blockhash_map codec \<Rightarrow> ('lb, 'ba, 'bx, 'ps) local_cache \<times> fs \<Rightarrow>
   ('lb, 'ba, 'bx, 'ps) local_cache \<times> fs" where
  "drop_handle C x = drop_end (drop_begin C No_fault [] x)"

section \<open>Properties\<close>

lemma reset_from_disk:
  "reset_runtime_fields d (from_disk b) = (with_depths d) \<lparr> cd_blockhashes := b \<rparr>"
  by (simp add: reset_runtime_fields_def from_disk_def with_depths_def)

text \<open>A codec for the examples; it encodes empty maps of a depth below 256.\<close>

definition empty_codec :: "blockhash_map codec" where
  "empty_codec = \<lparr> encode = (\<lambda>m. if dom (vm_inner m) = {} \<and> vm_depth m < 256 then Some [word_of_nat (vm_depth m)] else None),
     decode = (\<lambda>bs. case bs of [d] \<Rightarrow> Some (vm_with_depth (unat d)) | _ \<Rightarrow> None) \<rparr>"

lemma empty_codec_ok: "codec_ok empty_codec"
proof -
  have "m = vm_with_depth d" if "dom (vm_inner m) = {}" "vm_depth m = d" for m :: blockhash_map and d
    using that by (cases m) (simp add: vm_with_depth_def)
  then show ?thesis
    by (auto simp: codec_ok_def empty_codec_def unat_of_nat)
qed

text \<open>A cache loaded from a snapshot that another cache saved carries that cache's blockhashes,
  with their stored history, and is otherwise an empty cache of the loading configuration: nothing
  that was live when the snapshot was taken is taken for current.\<close>

lemma cache_reload:
  assumes "codec_ok C" "save_to C fault junk p c fs = (Inr (), trace)"
  shows "load_from C p cfg (last trace) =
    Inr (cache_of ((with_depths (cf_depths cfg)) \<lparr> cd_blockhashes := cd_blockhashes (lc_data c) \<rparr>) cfg)"
proof -
  have "read_payload C p (last trace) = Inr (to_disk (lc_data c))"
    using assms(1) read_back [OF assms(1)] assms(2) by (simp add: save_to_def)
  then show ?thesis
    by (simp add: load_from_def reset_from_disk to_disk_def)
qed

definition old_cache :: "(unit, unit, unit, unit) local_cache" where
  "old_cache = cache_new cache_config_default"

lemma old_cache_simps:
  "lc_handles old_cache = 1" "\<not> lc_persisted old_cache" "lc_current_slot old_cache = 0"
  "to_disk (lc_data old_cache) = vm_with_depth 8"
  "encode empty_codec (vm_with_depth 8) = Some [8]"
  by (simp_all add: old_cache_def cache_new_def cache_of_def cache_config_default_def to_disk_def
    with_depths_def field_depths_default_def empty_codec_def vm_with_depth_def)

section \<open>Handles in several threads\<close>

text \<open>
  A state is the cache, the number of handles whose drop has begun and not ended, and the file
  system. A handle in its drop is no longer usable: cloning, writing through a handle and
  beginning a drop need one more handle than those.
\<close>

inductive handle_step ::
  "blockhash_map codec \<Rightarrow> ('lb, 'ba, 'bx, 'ps) local_cache \<times> nat \<times> fs \<Rightarrow>
   ('lb, 'ba, 'bx, 'ps) local_cache \<times> nat \<times> fs \<Rightarrow> bool" for C where
  hs_clone: "n < lc_handles c \<Longrightarrow> handle_step C (c, n, fs) (clone_handle c, n, fs)"
| hs_write: "n < lc_handles c \<Longrightarrow> handle_step C (c, n, fs) (c \<lparr> lc_data := d \<rparr>, n, fs)"
| hs_slot: "n < lc_handles c \<Longrightarrow> handle_step C (c, n, fs) (advance_slot s c, n, fs)"
| hs_begin: "n < lc_handles c \<Longrightarrow> drop_begin C fault junk (c, fs) = (c', fs') \<Longrightarrow>
    handle_step C (c, n, fs) (c', Suc n, fs')"
| hs_end: "drop_end (c, fs) = (c', fs') \<Longrightarrow> handle_step C (c, Suc n, fs) (c', n, fs')"

inductive handle_run ::
  "blockhash_map codec \<Rightarrow> ('lb, 'ba, 'bx, 'ps) local_cache \<times> nat \<times> fs \<Rightarrow>
   ('lb, 'ba, 'bx, 'ps) local_cache \<times> nat \<times> fs \<Rightarrow> bool" for C x where
  hr_start: "handle_run C x x"
| hr_step: "handle_run C x y \<Longrightarrow> handle_step C y z \<Longrightarrow> handle_run C x z"

text \<open>What holds of the snapshot path in every state: untouched until the last drop saves, and then
  no usable handle is left.\<close>

definition handle_inv ::
  "blockhash_map codec \<Rightarrow> path option \<Rightarrow> fs \<Rightarrow> ('lb, 'ba, 'bx, 'ps) local_cache \<times> nat \<times> fs \<Rightarrow> bool" where
  "handle_inv C po fs0 = (\<lambda>(c, n, fs). n \<le> lc_handles c \<and> lc_persist_on_drop c = po \<and>
     (if lc_persisted c
      then lc_handles c = n \<and> n \<le> 1 \<and>
        (\<exists>fault junk p. po = Some p \<and> fs = last (snd (save_to C fault junk p c fs0)))
      else fs = fs0))"

lemma save_to_handles [simp]:
  "save_to C fault junk p (c \<lparr> lc_handles := h \<rparr>) fs = save_to C fault junk p c fs"
  "save_to C fault junk p (c \<lparr> lc_persisted := b \<rparr>) fs = save_to C fault junk p c fs"
  by (simp_all add: save_to_def)

lemma handle_inv_step:
  assumes "handle_step C x y" "handle_inv C po fs0 x"
  shows "handle_inv C po fs0 y"
  using assms
proof (induction rule: handle_step.induct)
  case (hs_begin n c fault junk fs c' fs')
  then show ?case
    by (fastforce simp: handle_inv_def drop_begin_def is_last_handle_def split: if_splits option.splits)
next
  case (hs_end c fs c' fs' n)
  then show ?case
    by (auto simp: handle_inv_def drop_end_def split: if_splits; blast)
qed (auto simp: handle_inv_def clone_handle_def advance_slot_def split: if_splits)

lemma handle_inv_run:
  "handle_run C x y \<Longrightarrow> handle_inv C po fs0 x \<Longrightarrow> handle_inv C po fs0 y"
  by (induction rule: handle_run.induct) (auto intro: handle_inv_step)

lemma handle_inv_cache_of:
  "handle_inv C (cf_persist_on_drop cfg) fs0 (cache_of d cfg, 0, fs0)"
  by (simp add: handle_inv_def cache_of_def)

text \<open>C17: In every interleaving of clones, writes, slot updates and drops of a cache's handles, with a save
  that may fail at any call, the snapshot path holds what it held when the cache was built, or
  the complete snapshot of the cache's final data: once it is written no handle is left that
  could change the data.\<close>

theorem drop_snapshot_is_final:
  assumes "handle_run C (cache_of d cfg, 0, fs0) (c, n, fs)" "cf_persist_on_drop cfg = Some p"
  shows "fs p = fs0 p \<or>
    (lc_handles c = n \<and> (\<exists>body. encode C (to_disk (lc_data c)) = Some body \<and> fs p = Some (snapshot body)))"
proof (cases "lc_persisted c")
  case False
  then show ?thesis
    using handle_inv_run [OF assms(1) handle_inv_cache_of] by (simp add: handle_inv_def)
next
  case True
  then obtain fault junk where h: "lc_handles c = n"
    and l: "fs = last (snd (save_to C fault junk p c fs0))"
    using handle_inv_run [OF assms(1) handle_inv_cache_of] assms(2) by (auto simp: handle_inv_def)
  have "fs p = fs0 p \<or> (\<exists>body. encode C (to_disk (lc_data c)) = Some body \<and> fs p = Some (snapshot body))"
    using l by (auto simp: save_to_def write_payload_def split: if_splits option.splits)
  with h show ?thesis by simp
qed

lemma drop_snapshot_is_final_witness:
  "snd (drop_begin empty_codec Fault_rename [3] (cache_of (lc_data old_cache)
      (cache_config_default \<lparr> cf_persist_on_drop := Some ''c'' \<rparr>), old_fs)) ''c'' = Some [1]"
proof -
  let ?cfg = "cache_config_default \<lparr> cf_persist_on_drop := Some ''c'' \<rparr>"
  let ?c = "cache_of (lc_data old_cache) ?cfg"
  let ?r = "drop_begin empty_codec Fault_rename [3] (?c, old_fs)"
  have "handle_step empty_codec (?c, 0, old_fs) (fst ?r, Suc 0, snd ?r)"
    by (rule hs_begin) (simp_all add: cache_of_def)
  then have run: "handle_run empty_codec (?c, 0, old_fs) (fst ?r, Suc 0, snd ?r)"
    by (blast intro: hr_step hr_start)
  have "snd ?r ''c'' \<noteq> Some (snapshot b)" for b
    by (simp add: drop_begin_def is_last_handle_def cache_of_def save_to_def write_payload_def
      old_cache_simps old_fs_def snapshot_def magic_def)
  then show ?thesis
    using drop_snapshot_is_final [OF run, of "''c''"] by (auto simp: old_fs_def)
qed

text \<open>When the drops of all the handles of an unsaved cache run one after the other, the file system
  is untouched until the last one, which leaves the complete snapshot at the configured path.\<close>

lemma sequential_drops_save:
  assumes "\<not> lc_persisted c" "lc_persist_on_drop c = Some p" "lc_handles c = Suc n"
    "encode C (to_disk (lc_data c)) = Some body"
  shows "(\<forall>k\<le>n. snd ((drop_handle C ^^ k) (c, fs)) = fs) \<and>
    snd ((drop_handle C ^^ Suc n) (c, fs)) p = Some (snapshot body)"
proof -
  have early: "(drop_handle C ^^ k) (c, fs) = (c \<lparr> lc_handles := Suc n - k \<rparr>, fs)" if "k \<le> n" for k
    using that
  proof (induction k)
    case 0
    then show ?case using assms(3) by simp
  next
    case (Suc k)
    moreover from Suc.prems have "Suc n - k \<noteq> 1" by simp
    ultimately show ?case
      by (simp add: drop_handle_def drop_begin_def drop_end_def is_last_handle_def)
  qed
  have "snd ((drop_handle C ^^ Suc n) (c, fs)) p = Some (snapshot body)"
    using assms early [of n]
    by (simp add: drop_handle_def drop_begin_def drop_end_def is_last_handle_def save_to_def write_payload_def)
  then show ?thesis
    by (simp add: early)
qed

lemma overlapping_begins:
  "1 < lc_handles c \<Longrightarrow> (drop_begin C fault junk ^^ k) (c, fs) = (c, fs)"
  by (induction k) (simp_all add: drop_begin_def is_last_handle_def)

text \<open>When all the handles of a cache, two or more, begin their drops before one of them ends, no
  snapshot is written: the file system is untouched and no handle is left to write it.\<close>

lemma overlapping_drops_lose_snapshot:
  assumes "1 < lc_handles c"
  shows "(drop_end ^^ lc_handles c) ((drop_begin C fault junk ^^ lc_handles c) (c, fs)) =
    (c \<lparr> lc_handles := 0 \<rparr>, fs)"
proof -
  have "(drop_end ^^ k) (c, fs) = (c \<lparr> lc_handles := lc_handles c - k \<rparr>, fs)" for k
    by (induction k) (simp_all add: drop_end_def)
  then show ?thesis
    by (simp add: overlapping_begins [OF assms])
qed

text \<open>The observed slot is the greatest slot published, in whatever order the slots arrive: a late
  slot never moves it back.\<close>

lemma advance_slot_max:
  "current_slot (fold advance_slot ss c) = Max (insert (current_slot c) (set ss))"
proof (induction ss arbitrary: c)
  case Nil
  then show ?case by simp
next
  case (Cons s ss)
  have "Max (insert (max (current_slot c) s) (set ss)) = Max (insert (current_slot c) (insert s (set ss)))"
    by (cases "set ss = {}") (auto simp: max.assoc)
  with Cons show ?case
    by (simp add: current_slot_def advance_slot_def)
qed

end
