(* ===== verification/PumpHandlers.thy ===== *)
theory PumpHandlers
  imports Cache
begin

text \<open>
  The handlers that keep the cache live: bonding curves, the Pump.fun \<open>Global\<close> and \<open>FeeConfig\<close>
  accounts (\<open>protocols/pumpfun/handler.rs\<close>), PumpSwap pools (\<open>protocols/pumpswap/handler.rs\<close>)
  and token accounts (\<open>token_handler.rs\<close>), with the decoders of the two configuration accounts
  (\<open>fee_config.rs\<close>, \<open>global.rs\<close>). \<open>#[derive(OnchainAccount)]\<close> writes the parsing half of each.

  The program ids, PDAs and discriminators that macros of other crates compute from literals are
  the fields of \<open>pump_ids\<close>; \<open>ids_ok\<close> says that they are the different values the constants name.
  borsh's readers of \<open>[Pubkey; 7]\<close> and \<open>Vec<PumpfunFeeTier>\<close> are arguments of the decoders.
\<close>

section \<open>Identities\<close>

record pump_ids =
  id_pumpfun :: pubkey
  id_pump_fees :: pubkey
  id_pumpswap :: pubkey
  id_fee_config_pda :: pubkey
  id_pumpswap_fee_config :: pubkey
  disc_bonding_curve :: bytes
  disc_global :: bytes
  disc_fee_config :: bytes
  disc_pool :: bytes

definition ids_ok :: "pump_ids \<Rightarrow> token_env \<Rightarrow> bool" where
  "ids_ok I E \<longleftrightarrow>
     distinct [id_pumpfun I, id_pump_fees I, id_pumpswap I, te_spl_token_id E, te_spl_token_2022_id E] \<and>
     id_fee_config_pda I \<noteq> id_pumpswap_fee_config I \<and>
     disc_bonding_curve I \<noteq> disc_global I \<and>
     length (disc_bonding_curve I) = 8 \<and> length (disc_global I) = 8 \<and>
     length (disc_fee_config I) = 8 \<and> length (disc_pool I) = 8"

section \<open>Decoders of the configuration accounts\<close>

definition read_pumpfun_fees :: "borsh \<Rightarrow> pumpfun_fees reader" where
  "read_pumpfun_fees B =
     rbind (rd_u64 B) (\<lambda>l. rbind (rd_u64 B) (\<lambda>p. rbind (rd_u64 B) (\<lambda>c.
     rret \<lparr> pf_lp_fee_bps = l, pf_protocol_fee_bps = p, pf_creator_fee_bps = c \<rparr>)))"

definition read_fee_tier :: "borsh \<Rightarrow> pumpfun_fee_tier reader" where
  "read_fee_tier B =
     rbind (rd_u128 B) (\<lambda>t. rbind (read_pumpfun_fees B) (\<lambda>f.
     rret \<lparr> ft_market_cap_lamports_threshold = t, ft_fees = f \<rparr>))"

type_synonym tiers_reader = "pumpfun_fee_tier reader \<Rightarrow> pumpfun_fee_tier list reader"

definition read_fee_config :: "borsh \<Rightarrow> tiers_reader \<Rightarrow> pumpfun_fee_config reader" where
  "read_fee_config B rd_vec =
     rbind (rd_u8 B) (\<lambda>bump. rbind (rd_pubkey B) (\<lambda>admin. rbind (read_pumpfun_fees B) (\<lambda>flat.
     rbind (rd_vec (read_fee_tier B)) (\<lambda>tiers.
     rret \<lparr> fc_bump = bump, fc_admin = admin, fc_flat_fees = flat, fc_fee_tiers = tiers \<rparr>))))"

definition fee_config_from_account_data ::
  "borsh \<Rightarrow> tiers_reader \<Rightarrow> bytes \<Rightarrow> bytes \<Rightarrow> account_parse_error + pumpfun_fee_config" where
  "fee_config_from_account_data B rd_vec disc data =
     onchain_from_account_data (Some disc) (read_fee_config B rd_vec) (\<lambda>_. []) data"

definition read_pumpfun_global :: "borsh \<Rightarrow> pubkey list reader \<Rightarrow> pumpfun_global reader" where
  "read_pumpfun_global B rd_keys7 =
     rbind (rd_bool B) (\<lambda>ini. rbind (rd_pubkey B) (\<lambda>au. rbind (rd_pubkey B) (\<lambda>fr.
     rbind (rd_u64 B) (\<lambda>ivt. rbind (rd_u64 B) (\<lambda>ivs. rbind (rd_u64 B) (\<lambda>irt.
     rbind (rd_u64 B) (\<lambda>sup. rbind (rd_u64 B) (\<lambda>fb. rbind (rd_pubkey B) (\<lambda>wa.
     rbind (rd_bool B) (\<lambda>em. rbind (rd_u64 B) (\<lambda>pm. rbind (rd_u64 B) (\<lambda>cf.
     rbind rd_keys7 (\<lambda>frs. rbind (rd_pubkey B) (\<lambda>sca. rbind (rd_pubkey B) (\<lambda>asca.
     rbind (rd_bool B) (\<lambda>v2. rbind (rd_pubkey B) (\<lambda>wl. rbind (rd_pubkey B) (\<lambda>rfr.
     rbind (rd_bool B) (\<lambda>mm. rbind rd_keys7 (\<lambda>rfrs. rbind (rd_bool B) (\<lambda>cb.
     rret \<lparr> pg_initialized = ini, pg_authority = au, pg_fee_recipient = fr,
            pg_initial_virtual_token_reserves = ivt, pg_initial_virtual_sol_reserves = ivs,
            pg_initial_real_token_reserves = irt, pg_token_total_supply = sup,
            pg_fee_basis_points = fb, pg_withdraw_authority = wa, pg_enable_migrate = em,
            pg_pool_migration_fee = pm, pg_creator_fee_basis_points = cf,
            pg_fee_recipients = frs, pg_set_creator_authority = sca,
            pg_admin_set_creator_authority = asca, pg_create_v2_enabled = v2,
            pg_whitelist_pda = wl, pg_reserved_fee_recipient = rfr,
            pg_mayhem_mode_enabled = mm, pg_reserved_fee_recipients = rfrs,
            pg_is_cashback_enabled = cb \<rparr>)))))))))))))))))))))"

definition global_from_account_data ::
  "borsh \<Rightarrow> pubkey list reader \<Rightarrow> bytes \<Rightarrow> bytes \<Rightarrow> account_parse_error + pumpfun_global" where
  "global_from_account_data B rd_keys7 disc data =
     onchain_from_account_data (Some disc) (read_pumpfun_global B rd_keys7) (\<lambda>_. []) data"

definition recipients_from_account_data ::
  "borsh \<Rightarrow> pubkey list reader \<Rightarrow> bytes \<Rightarrow> bytes \<Rightarrow> account_parse_error + pumpfun_fee_recipients" where
  "recipients_from_account_data B rd_keys7 disc data =
     (case global_from_account_data B rd_keys7 disc data of
        Inl e \<Rightarrow> Inl e | Inr g \<Rightarrow> Inr (from_global g))"

section \<open>Handlers\<close>

definition handle_result_default :: handle_result where
  "handle_result_default =
     \<lparr> hr_accounts_to_fetch = [], hr_accounts_pending_grpc = [], hr_accounts_to_subscribe = [],
       hr_spot_price = None \<rparr>"

text \<open>The generated \<open>deserialize\<close>: a decode error becomes its text and the data's length.\<close>

definition derived_deserialize :: "('e \<Rightarrow> string) \<Rightarrow> (bytes \<Rightarrow> 'e + 's) \<Rightarrow> bytes \<Rightarrow> handler_error + 's" where
  "derived_deserialize text decode_fn data =
     map_err (\<lambda>e. Deserialize (length data) (text e)) (decode_fn data)"

text \<open>A handler of an Anchor account: exactly eight discriminator bytes, the trait's defaults for
  the rest.\<close>

definition derived_handler ::
  "pubkey \<Rightarrow> bytes \<Rightarrow> (bytes \<Rightarrow> handler_error + 's) \<Rightarrow>
   ('c \<Rightarrow> pubkey \<Rightarrow> 's \<Rightarrow> u64 \<Rightarrow> (handler_error + handle_result) \<times> 'c) \<Rightarrow> 'c handler" where
  "derived_handler program disc deser app =
     \<lparr> h_program_id = program, h_discriminator = Some disc, h_matches_account = (\<lambda>_. True),
       h_subscribe = True, h_handle = erased_handle deser app \<rparr>"

type_synonym ('lb, 'ba, 'bx, 'ps) applier =
  "('lb, 'ba, 'bx, 'ps) local_cache \<Rightarrow> (handler_error + handle_result) \<times> ('lb, 'ba, 'bx, 'ps) local_cache"

definition on_data ::
  "(('lb, 'ba, 'bx, 'ps) cache_data \<Rightarrow> ('lb, 'ba, 'bx, 'ps) cache_data) \<Rightarrow>
   ('lb, 'ba, 'bx, 'ps) local_cache \<Rightarrow> ('lb, 'ba, 'bx, 'ps) local_cache" where
  "on_data f c = c \<lparr> lc_data := f (lc_data c) \<rparr>"

definition bonding_curve_apply ::
  "('lb, 'ba, 'bx, 'ps) local_cache \<Rightarrow> pubkey \<Rightarrow> bonding_curve \<Rightarrow> u64 \<Rightarrow>
   (handler_error + handle_result) \<times> ('lb, 'ba, 'bx, 'ps) local_cache" where
  "bonding_curve_apply c k st slot =
     (Inr (handle_result_default \<lparr> hr_spot_price := Some (curve_spot_price st) \<rparr>),
      on_data (\<lambda>d. snd (field_insert cd_bonding_curves cd_bonding_curves_update k st slot d)) c)"

definition global_apply ::
  "('lb, 'ba, 'bx, 'ps) local_cache \<Rightarrow> pubkey \<Rightarrow> pumpfun_fee_recipients \<Rightarrow> u64 \<Rightarrow>
   (handler_error + handle_result) \<times> ('lb, 'ba, 'bx, 'ps) local_cache" where
  "global_apply c k st slot =
     (Inr handle_result_default, on_data (\<lambda>d. d \<lparr> cd_pumpfun_fee_recipients := Some st \<rparr>) c)"

definition fee_config_apply ::
  "pump_ids \<Rightarrow> ('lb, 'ba, 'bx, 'ps) local_cache \<Rightarrow> pubkey \<Rightarrow> pumpfun_fee_config \<Rightarrow> u64 \<Rightarrow>
   (handler_error + handle_result) \<times> ('lb, 'ba, 'bx, 'ps) local_cache" where
  "fee_config_apply I c k st slot =
     (Inr handle_result_default,
      (if k = id_fee_config_pda I
       then on_data (\<lambda>d. d \<lparr> cd_pumpfun_fee_config := Some st \<rparr>) c
       else if k = id_pumpswap_fee_config I
       then on_data (\<lambda>d. d \<lparr> cd_pumpswap_fee_config := Some (PumpSwapFeeConfig st) \<rparr>) c
       else c))"

text \<open>\<open>None\<close> watches the vaults of every pool.\<close>

definition pumpswap_apply ::
  "pubkey set option \<Rightarrow> ('lb, 'ba, 'bx, 'ps) local_cache \<Rightarrow> pubkey \<Rightarrow> pumpswap_pool \<Rightarrow> u64 \<Rightarrow>
   (handler_error + handle_result) \<times> ('lb, 'ba, 'bx, 'ps) local_cache" where
  "pumpswap_apply watchlist c k st slot =
     (Inr (if (case watchlist of None \<Rightarrow> True | Some w \<Rightarrow> k \<in> w)
           then handle_result_default \<lparr> hr_accounts_to_subscribe := pumpswap_dependent_accounts st \<rparr>
           else handle_result_default),
      on_data (\<lambda>d. snd (field_insert cd_pumpswap_pools cd_pumpswap_pools_update k st slot d)) c)"

definition token_apply ::
  "('lb, 'ba, 'bx, 'ps) local_cache \<Rightarrow> pubkey \<Rightarrow> token_account \<Rightarrow> u64 \<Rightarrow>
   (handler_error + handle_result) \<times> ('lb, 'ba, 'bx, 'ps) local_cache" where
  "token_apply c k st slot =
     (Inr handle_result_default,
      on_data (\<lambda>d. snd (field_insert cd_token_accounts cd_token_accounts_update k st slot d)) c)"

section \<open>The handlers, registered\<close>

record decode_env =
  de_borsh :: borsh
  de_keys7 :: "pubkey list reader"
  de_tiers :: tiers_reader
  de_show_key :: "pubkey \<Rightarrow> string"

definition bonding_curve_deserialize ::
  "decode_env \<Rightarrow> pump_ids \<Rightarrow> bytes \<Rightarrow> handler_error + bonding_curve" where
  "bonding_curve_deserialize D I =
     derived_deserialize (error_text (de_show_key D))
       (bonding_curve_from_account_data (de_borsh D) (disc_bonding_curve I))"

definition global_deserialize ::
  "decode_env \<Rightarrow> pump_ids \<Rightarrow> bytes \<Rightarrow> handler_error + pumpfun_fee_recipients" where
  "global_deserialize D I =
     derived_deserialize parse_error_text
       (recipients_from_account_data (de_borsh D) (de_keys7 D) (disc_global I))"

definition fee_config_deserialize ::
  "decode_env \<Rightarrow> pump_ids \<Rightarrow> bytes \<Rightarrow> handler_error + pumpfun_fee_config" where
  "fee_config_deserialize D I =
     derived_deserialize parse_error_text
       (fee_config_from_account_data (de_borsh D) (de_tiers D) (disc_fee_config I))"

definition pumpswap_deserialize ::
  "decode_env \<Rightarrow> pump_ids \<Rightarrow> bytes \<Rightarrow> handler_error + pumpswap_pool" where
  "pumpswap_deserialize D I =
     derived_deserialize (error_text (de_show_key D))
       (pumpswap_pool_from_account_data (de_borsh D) (disc_pool I))"

definition token_deserialize ::
  "decode_env \<Rightarrow> token_program \<Rightarrow> bytes \<Rightarrow> handler_error + token_account" where
  "token_deserialize D p =
     derived_deserialize (error_text (de_show_key D)) (\<lambda>data. token_account_from_account_data data p)"

definition bonding_curve_handler ::
  "decode_env \<Rightarrow> pump_ids \<Rightarrow> ('lb, 'ba, 'bx, 'ps) local_cache handler" where
  "bonding_curve_handler D I =
     derived_handler (id_pumpfun I) (disc_bonding_curve I) (bonding_curve_deserialize D I) bonding_curve_apply"

definition global_handler ::
  "decode_env \<Rightarrow> pump_ids \<Rightarrow> ('lb, 'ba, 'bx, 'ps) local_cache handler" where
  "global_handler D I =
     derived_handler (id_pumpfun I) (disc_global I) (global_deserialize D I) global_apply"

definition fee_config_handler ::
  "decode_env \<Rightarrow> pump_ids \<Rightarrow> ('lb, 'ba, 'bx, 'ps) local_cache handler" where
  "fee_config_handler D I =
     derived_handler (id_pump_fees I) (disc_fee_config I) (fee_config_deserialize D I) (fee_config_apply I)"

definition pumpswap_handler ::
  "decode_env \<Rightarrow> pump_ids \<Rightarrow> pubkey set option \<Rightarrow> ('lb, 'ba, 'bx, 'ps) local_cache handler" where
  "pumpswap_handler D I watchlist =
     derived_handler (id_pumpswap I) (disc_pool I) (pumpswap_deserialize D I) (pumpswap_apply watchlist)"

text \<open>No discriminator: the size predicate is the whole test, and the program is never subscribed.\<close>

definition token_handler ::
  "decode_env \<Rightarrow> token_env \<Rightarrow> token_program \<Rightarrow> ('lb, 'ba, 'bx, 'ps) local_cache handler" where
  "token_handler D E p =
     \<lparr> h_program_id = token_program_id E p, h_discriminator = None,
       h_matches_account = (\<lambda>data. token_account_base_len \<le> length data), h_subscribe = False,
       h_handle = erased_handle (token_deserialize D p) token_apply \<rparr>"

text \<open>Every handler of this theory, in one registry.\<close>

definition pump_handlers ::
  "decode_env \<Rightarrow> pump_ids \<Rightarrow> token_env \<Rightarrow> pubkey set option \<Rightarrow>
   ('lb, 'ba, 'bx, 'ps) local_cache handler list" where
  "pump_handlers D I E watchlist =
     [bonding_curve_handler D I, global_handler D I, fee_config_handler D I,
      pumpswap_handler D I watchlist, token_handler D E SplToken, token_handler D E SplToken2022]"

section \<open>What the registry makes of an account\<close>

text \<open>An account update as an observation: what it decodes to, if anything.\<close>

datatype observed =
    Saw_curve bonding_curve
  | Saw_recipients pumpfun_fee_recipients
  | Saw_fee_config pumpfun_fee_config
  | Saw_pool pumpswap_pool
  | Saw_token token_account

definition classify ::
  "decode_env \<Rightarrow> pump_ids \<Rightarrow> token_env \<Rightarrow> pubkey \<Rightarrow> bytes \<Rightarrow> handler_error + observed" where
  "classify D I E owner data =
     (if owner = id_pumpfun I \<and> 8 \<le> length data \<and> take 8 data = disc_bonding_curve I
      then map_sum id Saw_curve (bonding_curve_deserialize D I data)
      else if owner = id_pumpfun I \<and> 8 \<le> length data \<and> take 8 data = disc_global I
      then map_sum id Saw_recipients (global_deserialize D I data)
      else if owner = id_pump_fees I \<and> 8 \<le> length data \<and> take 8 data = disc_fee_config I
      then map_sum id Saw_fee_config (fee_config_deserialize D I data)
      else if owner = id_pumpswap I \<and> 8 \<le> length data \<and> take 8 data = disc_pool I
      then map_sum id Saw_pool (pumpswap_deserialize D I data)
      else if owner = te_spl_token_id E \<and> token_account_base_len \<le> length data
      then map_sum id Saw_token (token_deserialize D SplToken data)
      else if owner = te_spl_token_2022_id E \<and> token_account_base_len \<le> length data
      then map_sum id Saw_token (token_deserialize D SplToken2022 data)
      else Inl (NoHandler owner (first_eight data)))"

fun absorb ::
  "pump_ids \<Rightarrow> pubkey set option \<Rightarrow> pubkey \<Rightarrow> observed \<Rightarrow> u64 \<Rightarrow> ('lb, 'ba, 'bx, 'ps) local_cache \<Rightarrow>
   (handler_error + handle_result) \<times> ('lb, 'ba, 'bx, 'ps) local_cache" where
  "absorb I w k (Saw_curve st) slot c = bonding_curve_apply c k st slot"
| "absorb I w k (Saw_recipients st) slot c = global_apply c k st slot"
| "absorb I w k (Saw_fee_config st) slot c = fee_config_apply I c k st slot"
| "absorb I w k (Saw_pool st) slot c = pumpswap_apply w c k st slot"
| "absorb I w k (Saw_token st) slot c = token_apply c k st slot"

text \<open>The differences, in both directions, for the simplifier.\<close>

lemma ids_neq:
  assumes "ids_ok I E"
  shows "id_pumpfun I \<noteq> id_pump_fees I" "id_pumpfun I \<noteq> id_pumpswap I"
    "id_pumpfun I \<noteq> te_spl_token_id E" "id_pumpfun I \<noteq> te_spl_token_2022_id E"
    "id_pump_fees I \<noteq> id_pumpswap I" "id_pump_fees I \<noteq> te_spl_token_id E"
    "id_pump_fees I \<noteq> te_spl_token_2022_id E" "id_pumpswap I \<noteq> te_spl_token_id E"
    "id_pumpswap I \<noteq> te_spl_token_2022_id E" "te_spl_token_id E \<noteq> te_spl_token_2022_id E"
    "disc_bonding_curve I \<noteq> disc_global I" "id_fee_config_pda I \<noteq> id_pumpswap_fee_config I"
    "length (disc_bonding_curve I) = 8" "length (disc_global I) = 8"
    "length (disc_fee_config I) = 8" "length (disc_pool I) = 8"
  using assms by (simp_all add: ids_ok_def)

lemmas ids_facts = ids_neq ids_neq [symmetric]

lemmas handler_defs = bonding_curve_handler_def global_handler_def fee_config_handler_def
  pumpswap_handler_def token_handler_def derived_handler_def

lemma pump_handlers_register:
  assumes "ids_ok I E"
  shows "\<exists>r. register_all (pump_handlers D I E w) registry_new = Some r"
  by (simp add: pump_handlers_def register_def registry_new_def note_program_def push_fallback_def
      handler_defs ids_neq [OF assms] ids_neq(1-12) [OF assms, symmetric])

lemma case_option_if:
  "(case (if b then Some x else l) of Some x \<Rightarrow> f x | None \<Rightarrow> g) =
   (if b then f x else (case l of Some x \<Rightarrow> f x | None \<Rightarrow> g))"
  by simp

lemma case_sum_if:
  "(case (if b then x else y) of Inl e \<Rightarrow> f e | Inr v \<Rightarrow> g v) =
   (if b then (case x of Inl e \<Rightarrow> f e | Inr v \<Rightarrow> g v) else (case y of Inl e \<Rightarrow> f e | Inr v \<Rightarrow> g v))"
  by simp

lemma has_key_pump:
  "has_key owner t (bonding_curve_handler D I) \<longleftrightarrow> owner = id_pumpfun I \<and> length t = 8 \<and> t = disc_bonding_curve I"
  "has_key owner t (global_handler D I) \<longleftrightarrow> owner = id_pumpfun I \<and> length t = 8 \<and> t = disc_global I"
  "has_key owner t (fee_config_handler D I) \<longleftrightarrow> owner = id_pump_fees I \<and> length t = 8 \<and> t = disc_fee_config I"
  "has_key owner t (pumpswap_handler D I w) \<longleftrightarrow> owner = id_pumpswap I \<and> length t = 8 \<and> t = disc_pool I"
  "\<not> has_key owner t (token_handler D E p)"
  by (auto simp: has_key_def handler_defs)

lemma keyed_pump:
  assumes "ids_ok I E"
  shows "keyed (bonding_curve_handler D I)" "keyed (global_handler D I)" "keyed (fee_config_handler D I)"
    "keyed (pumpswap_handler D I w)" "\<not> keyed (token_handler D E p)"
  using ids_neq [OF assms] by (simp_all add: keyed_def handler_defs)

lemma fallback_token:
  "h_program_id (token_handler D E SplToken) = owner \<and> fallback_claims data (token_handler D E SplToken)
     \<longleftrightarrow> owner = te_spl_token_id E \<and> token_account_base_len \<le> length data"
  "h_program_id (token_handler D E SplToken2022) = owner \<and> fallback_claims data (token_handler D E SplToken2022)
     \<longleftrightarrow> owner = te_spl_token_2022_id E \<and> token_account_base_len \<le> length data"
  by (auto simp: token_handler_def fallback_claims_def)

lemma pump_lookup:
  assumes "ids_ok I E"
  shows "lookup_spec (pump_handlers D I E w) owner data =
     (if owner = id_pumpfun I \<and> 8 \<le> length data \<and> take 8 data = disc_bonding_curve I
      then Some (bonding_curve_handler D I)
      else if owner = id_pumpfun I \<and> 8 \<le> length data \<and> take 8 data = disc_global I
      then Some (global_handler D I)
      else if owner = id_pump_fees I \<and> 8 \<le> length data \<and> take 8 data = disc_fee_config I
      then Some (fee_config_handler D I)
      else if owner = id_pumpswap I \<and> 8 \<le> length data \<and> take 8 data = disc_pool I
      then Some (pumpswap_handler D I w)
      else if owner = te_spl_token_id E \<and> token_account_base_len \<le> length data
      then Some (token_handler D E SplToken)
      else if owner = te_spl_token_2022_id E \<and> token_account_base_len \<le> length data
      then Some (token_handler D E SplToken2022)
      else None)"
proof -
  have keyed_h: "find (\<lambda>h. 8 \<le> length data \<and> has_key owner (take 8 data) h) (pump_handlers D I E w) =
     (if owner = id_pumpfun I \<and> 8 \<le> length data \<and> take 8 data = disc_bonding_curve I
      then Some (bonding_curve_handler D I)
      else if owner = id_pumpfun I \<and> 8 \<le> length data \<and> take 8 data = disc_global I
      then Some (global_handler D I)
      else if owner = id_pump_fees I \<and> 8 \<le> length data \<and> take 8 data = disc_fee_config I
      then Some (fee_config_handler D I)
      else if owner = id_pumpswap I \<and> 8 \<le> length data \<and> take 8 data = disc_pool I
      then Some (pumpswap_handler D I w) else None)"
    by (cases "8 \<le> length data")
      (simp_all add: pump_handlers_def has_key_pump cong: if_cong split del: if_split)
  have fallback_h: "find (\<lambda>h. h_program_id h = owner \<and> \<not> keyed h \<and> fallback_claims data h)
       (pump_handlers D I E w) =
     (if owner = te_spl_token_id E \<and> token_account_base_len \<le> length data
      then Some (token_handler D E SplToken)
      else if owner = te_spl_token_2022_id E \<and> token_account_base_len \<le> length data
      then Some (token_handler D E SplToken2022) else None)"
    by (simp add: pump_handlers_def keyed_pump [OF assms] fallback_token cong: if_cong split del: if_split)
  show ?thesis
    unfolding lookup_spec_def keyed_h fallback_h
    by (simp only: case_option_if option.case cong: if_cong split del: if_split)
qed

lemma h_handle_simps:
  "h_handle (bonding_curve_handler D I) = erased_handle (bonding_curve_deserialize D I) bonding_curve_apply"
  "h_handle (global_handler D I) = erased_handle (global_deserialize D I) global_apply"
  "h_handle (fee_config_handler D I) = erased_handle (fee_config_deserialize D I) (fee_config_apply I)"
  "h_handle (pumpswap_handler D I w) = erased_handle (pumpswap_deserialize D I) (pumpswap_apply w)"
  "h_handle (token_handler D E p) = erased_handle (token_deserialize D p) token_apply"
  by (simp_all add: handler_defs)

lemma handler_simps:
  "h_program_id (bonding_curve_handler D I) = id_pumpfun I" "h_subscribe (bonding_curve_handler D I)"
  "h_program_id (global_handler D I) = id_pumpfun I" "h_subscribe (global_handler D I)"
  "h_program_id (fee_config_handler D I) = id_pump_fees I" "h_subscribe (fee_config_handler D I)"
  "h_program_id (pumpswap_handler D I w) = id_pumpswap I" "h_subscribe (pumpswap_handler D I w)"
  "h_program_id (token_handler D E p) = token_program_id E p" "\<not> h_subscribe (token_handler D E p)"
  by (simp_all add: handler_defs)

lemma absorb_decoded:
  "erased_handle deser app c k data slot =
     (case map_sum id wrap (deser data) of Inl e \<Rightarrow> (Inl e, c) | Inr st \<Rightarrow> absorb I w k st slot c)"
  if "\<And>st. absorb I w k (wrap st) slot c = app c k st slot"
  using that by (simp add: erased_handle_def split: sum.split)

lemma pump_dispatch:
  assumes "ids_ok I E" "register_all (pump_handlers D I E w) registry_new = Some r"
  shows "dispatch r c owner k data slot =
    (case classify D I E owner data of Inl e \<Rightarrow> (Inl e, c) | Inr st \<Rightarrow> absorb I w k st slot c)"
proof -
  have "represents (pump_handlers D I E w) r"
    using represents_all [OF represents_new assms(2)] by simp
  then have "dispatch r c owner k data slot =
      (case lookup_spec (pump_handlers D I E w) owner data of
         Some h \<Rightarrow> h_handle h c k data slot
       | None \<Rightarrow> (Inl (NoHandler owner (first_eight data)), c))"
    by (simp add: dispatch_def lookup_represents)
  also have "\<dots> = (case classify D I E owner data of Inl e \<Rightarrow> (Inl e, c) | Inr st \<Rightarrow> absorb I w k st slot c)"
    unfolding pump_lookup [OF assms(1)] classify_def case_option_if case_sum_if option.case sum.case
      h_handle_simps
      absorb_decoded [where I = I and w = w and wrap = Saw_curve, OF absorb.simps(1)]
      absorb_decoded [where I = I and w = w and wrap = Saw_recipients, OF absorb.simps(2)]
      absorb_decoded [where I = I and w = w and wrap = Saw_fee_config, OF absorb.simps(3)]
      absorb_decoded [where I = I and w = w and wrap = Saw_pool, OF absorb.simps(4)]
      absorb_decoded [where I = I and w = w and wrap = Saw_token, OF absorb.simps(5)]
    by (rule refl)
  finally show ?thesis .
qed

section \<open>The identities of the deployed programs\<close>

definition mainnet_ids :: pump_ids where
  "mainnet_ids =
     \<lparr> id_pumpfun = [1, 86, 224, 246, 147, 102, 90, 207, 68, 219, 21, 104, 191, 23, 91, 170, 81, 137,
         203, 151, 245, 210, 255, 59, 101, 93, 43, 182, 253, 109, 24, 176],
       id_pump_fees = [12, 53, 255, 169, 5, 90, 142, 86, 141, 168, 247, 188, 7, 86, 21, 39, 76, 241,
         201, 44, 164, 31, 64, 0, 156, 81, 106, 164, 20, 194, 124, 112],
       id_pumpswap = [12, 20, 222, 252, 130, 94, 198, 118, 148, 37, 8, 24, 187, 101, 64, 101, 244, 41,
         141, 49, 86, 213, 113, 180, 212, 248, 9, 12, 24, 233, 168, 99],
       id_fee_config_pda = [111, 154, 180, 164, 241, 149, 141, 192, 169, 201, 76, 63, 183, 44, 7, 153,
         88, 67, 237, 164, 133, 227, 162, 79, 16, 198, 147, 153, 248, 25, 148, 15],
       id_pumpswap_fee_config = [65, 36, 110, 204, 125, 120, 254, 129, 228, 23, 115, 164, 105, 101, 65,
         153, 55, 146, 58, 7, 100, 71, 151, 223, 111, 62, 181, 20, 66, 96, 16, 203],
       disc_bonding_curve = [23, 183, 248, 55, 96, 216, 172, 96],
       disc_global = [167, 232, 232, 177, 200, 108, 114, 127],
       disc_fee_config = [143, 52, 146, 187, 219, 123, 76, 155],
       disc_pool = [241, 154, 109, 4, 17, 177, 109, 188] \<rparr>"

text \<open>The ids of the two token programs; the mints and the address derivation are placeholders.\<close>

definition mainnet_tokens :: token_env where
  "mainnet_tokens =
     \<lparr> te_wsol = [], te_usdc = [], te_usdt = [],
       te_spl_token_id = [6, 221, 246, 225, 215, 101, 161, 147, 217, 203, 225, 70, 206, 235, 121, 172,
         28, 180, 133, 237, 95, 91, 55, 145, 58, 140, 245, 133, 126, 255, 0, 169],
       te_spl_token_2022_id = [6, 221, 246, 225, 238, 117, 143, 222, 24, 66, 93, 188, 228, 108, 205,
         218, 182, 26, 252, 77, 131, 185, 13, 39, 254, 189, 249, 40, 216, 161, 139, 252],
       te_ata = (\<lambda>_ _ _. []) \<rparr>"

lemma mainnet_ids_ok: "ids_ok mainnet_ids mainnet_tokens"
  by (simp add: ids_ok_def mainnet_ids_def mainnet_tokens_def)

text \<open>Readers of the two containers, for the examples: seven keys, and a \<open>u32\<close> count of tiers.\<close>

fun read_many :: "nat \<Rightarrow> 'a reader \<Rightarrow> 'a list reader" where
  "read_many 0 r = rret []"
| "read_many (Suc n) r = rbind r (\<lambda>x. rbind (read_many n r) (\<lambda>xs. rret (x # xs)))"

definition tiers_std :: tiers_reader where
  "tiers_std r = rbind (fixed_reader 4 le_val) (\<lambda>n. read_many n r)"

definition decode_std :: decode_env where
  "decode_std =
     \<lparr> de_borsh = borsh_std, de_keys7 = read_many 7 (rd_pubkey borsh_std), de_tiers = tiers_std,
       de_show_key = (\<lambda>_. []) \<rparr>"

section \<open>Properties\<close>

text \<open>Registering all the handlers of this theory never panics on a duplicate key, the token programs
  are not subscribed wholesale, and the registry dispatches every account to the one handler of
  its owner and discriminator: the account is decoded and absorbed by that handler, and an account
  that no handler owns or that does not decode leaves the cache as it is.\<close>

lemma pump_registry_dispatch:
  assumes "ids_ok I E"
  shows "\<exists>r. register_all (pump_handlers D I E w) registry_new = Some r \<and>
     r_subscribable r = {id_pumpfun I, id_pump_fees I, id_pumpswap I} \<and>
     (\<forall>(c :: ('lb, 'ba, 'bx, 'ps) local_cache) owner k data slot. dispatch r c owner k data slot =
        (case classify D I E owner data of Inl e \<Rightarrow> (Inl e, c) | Inr st \<Rightarrow> absorb I w k st slot c))"
proof -
  let ?hs = "pump_handlers D I E w :: ('lb, 'ba, 'bx, 'ps) local_cache handler list"
  obtain r where r: "register_all ?hs registry_new = Some r"
    using pump_handlers_register [OF assms] by blast
  then have "represents ?hs r"
    using represents_all [OF represents_new r] by simp
  then have "r_subscribable r = h_program_id ` {h \<in> set ?hs. h_subscribe h}"
    by (simp add: represents_def)
  also have "\<dots> = h_program_id ` set (filter h_subscribe ?hs)"
    by (simp only: set_filter)
  also have "\<dots> = {id_pumpfun I, id_pump_fees I, id_pumpswap I}"
    by (simp add: pump_handlers_def handler_simps insert_commute
        del: set_filter)
  finally have "r_subscribable r = {id_pumpfun I, id_pump_fees I, id_pumpswap I}" .
  with r pump_dispatch [OF assms r] show ?thesis
    by blast
qed

text \<open>One handler decodes the fee configurations of Pump.fun and PumpSwap, which share their owner and
  discriminator; whatever account arrives, Pump.fun's configuration changes only with the account
  at Pump.fun's address and PumpSwap's only with the account at PumpSwap's, and both must belong
  to the fee program.\<close>

lemma fee_config_isolated:
  assumes "ids_ok I E" "register_all (pump_handlers D I E w) registry_new = Some r"
    and "c' = snd (dispatch r c owner k data slot)"
  shows "(cd_pumpfun_fee_config (lc_data c') = cd_pumpfun_fee_config (lc_data c) \<or>
          (owner = id_pump_fees I \<and> k = id_fee_config_pda I)) \<and>
         (cd_pumpswap_fee_config (lc_data c') = cd_pumpswap_fee_config (lc_data c) \<or>
          (owner = id_pump_fees I \<and> k = id_pumpswap_fee_config I))"
proof (cases "classify D I E owner data")
  case (Inl e)
  then show ?thesis using assms by (simp add: pump_dispatch [OF assms(1,2)])
next
  case (Inr st)
  have "case st of Saw_fee_config _ \<Rightarrow> owner = id_pump_fees I | _ \<Rightarrow> True"
    using Inr by (auto simp: classify_def map_sum_def split: if_splits sum.splits)
  with Inr assms(3) show ?thesis
    using ids_neq(12) [OF assms(1)]
    by (cases st) (auto simp: pump_dispatch [OF assms(1,2)] bonding_curve_apply_def global_apply_def
      fee_config_apply_def pumpswap_apply_def token_apply_def on_data_def field_insert_def)
qed

text \<open>The layout of a fee configuration, and what borsh says of a \<open>Vec\<close>.\<close>

definition fees_bytes :: "pumpfun_fees \<Rightarrow> bytes" where
  "fees_bytes f = le_bytes 8 (unat (pf_lp_fee_bps f)) @ le_bytes 8 (unat (pf_protocol_fee_bps f)) @
     le_bytes 8 (unat (pf_creator_fee_bps f))"

definition tier_bytes :: "pumpfun_fee_tier \<Rightarrow> bytes" where
  "tier_bytes t = le_bytes 16 (unat (ft_market_cap_lamports_threshold t)) @ fees_bytes (ft_fees t)"

definition fee_config_bytes :: "bytes \<Rightarrow> pumpfun_fee_config \<Rightarrow> bytes" where
  "fee_config_bytes disc c = disc @ [fc_bump c] @ fc_admin c @ fees_bytes (fc_flat_fees c) @
     le_bytes 4 (length (fc_fee_tiers c)) @ concat (map tier_bytes (fc_fee_tiers c))"

definition vec_ok :: "tiers_reader \<Rightarrow> bool" where
  "vec_ok rd_vec \<longleftrightarrow> (\<forall>r enc. (\<forall>t rest. r (enc t @ rest) = Inr (t, rest)) \<longrightarrow>
     (\<forall>ts rest. length ts < 2 ^ 32 \<longrightarrow>
        rd_vec r (le_bytes 4 (length ts) @ concat (map enc ts) @ rest) = Inr (ts, rest)))"

lemma tiers_std_ok: "vec_ok tiers_std"
proof -
  have many: "read_many (length ts) r (concat (map enc ts) @ rest) = Inr (ts, rest)"
    if "\<forall>t rest. r (enc t @ rest) = Inr (t, rest)"
    for r :: "pumpfun_fee_tier reader" and enc ts rest
    using that by (induction ts) (simp_all add: rbind_def)
  then show ?thesis
    using le_val_le_bytes [of _ 4]
    by (simp add: vec_ok_def tiers_std_def rbind_def fixed_reader_def)
qed

lemma read_fees_bytes:
  "borsh_ok B \<Longrightarrow> rbind (read_pumpfun_fees B) f (fees_bytes v @ rest) = f v rest"
  by (cases v) (simp add: fees_bytes_def read_pumpfun_fees_def rbind_Inr)

lemma read_tier_bytes:
  "borsh_ok B \<Longrightarrow> read_fee_tier B (tier_bytes t @ rest) = Inr (t, rest)"
  by (cases t) (simp add: tier_bytes_def read_fee_tier_def read_fees_bytes)

text \<open>A fee configuration written in its layout, with any number of tiers and any padding behind
  it, decodes to itself; an account without the discriminator is refused.\<close>

lemma fee_config_roundtrip:
  assumes "borsh_ok B" "vec_ok rd_vec" "length disc = 8" "length (fc_admin c) = 32"
    and "length (fc_fee_tiers c) < 2 ^ 32"
  shows "fee_config_from_account_data B rd_vec disc (fee_config_bytes disc c @ pad) = Inr c \<and>
    (disc' \<noteq> disc \<longrightarrow> length disc' = 8 \<longrightarrow>
       fee_config_from_account_data B rd_vec disc (fee_config_bytes disc' c) = Inl Discriminator)"
proof -
  have "rd_vec (read_fee_tier B) (le_bytes 4 (length (fc_fee_tiers c)) @
      concat (map tier_bytes (fc_fee_tiers c)) @ pad) = Inr (fc_fee_tiers c, pad)"
    using assms(2,5) read_tier_bytes [OF assms(1)] unfolding vec_ok_def by blast
  then show ?thesis
    using assms
    by (cases c) (simp add: fee_config_from_account_data_def fee_config_bytes_def onchain_with_disc
        onchain_from_account_data_def decode_checked_def borsh_fields_def read_fee_config_def
        read_fees_bytes rbind_Inr)
qed

definition example_fee_config :: pumpfun_fee_config where
  "example_fee_config = \<lparr> fc_bump = 1, fc_admin = replicate 32 4, fc_flat_fees = zero_fees,
     fc_fee_tiers = [\<lparr> ft_market_cap_lamports_threshold = 5, ft_fees = compiled_in_fees \<rparr>] \<rparr>"

end
