(* ===== verification/Ingest.thy ===== *)
theory Ingest
  imports Handlers
begin

text \<open>
  Ingestion (\<open>storage/ingest/src/\<close>): the synchronous dispatch of an account update
  (\<open>Ingest::apply\<close>), the bounded queue of dependencies to fetch, and the resolver that fetches
  them on its own task (\<open>DepResolver\<close>).

  The resolver and the stream run concurrently. \<open>ingest_step\<close> is the interleaving: an update is
  applied at any time; the resolver takes a key from the queue, waits for its fetch, whose answer
  is arbitrary, and applies the fetched updates one by one. Its labels record what happened, so
  that the properties speak of whole histories. \<open>drain\<close> is the resolver alone, with the
  fetcher as a function and fuel for its loop.
\<close>

section \<open>Updates and fetching\<close>

record account_update =
  au_pubkey :: pubkey
  au_owner :: pubkey
  au_data :: bytes
  au_slot :: u64

definition account_update_new :: "pubkey \<Rightarrow> pubkey \<Rightarrow> bytes \<Rightarrow> u64 \<Rightarrow> account_update" where
  "account_update_new k owner data slot =
     \<lparr> au_pubkey = k, au_owner = owner, au_data = data, au_slot = slot \<rparr>"

datatype fetch_error = Backend string | Timeout u64

text \<open>\<open>AccountFetcher::fetch\<close> on one key; it answers with a list of optional updates.\<close>

type_synonym fetch_answer = "fetch_error + account_update option list"

text \<open>The RPC fetcher, over the client's call \<open>rpc\<close> (an error text, or a slot and the accounts).\<close>

record rpc_account =
  ra_owner :: pubkey
  ra_data :: bytes

definition rpc_fetch ::
  "(pubkey list \<Rightarrow> string + u64 \<times> rpc_account option list) \<Rightarrow> (nat \<Rightarrow> nat \<Rightarrow> string) \<Rightarrow>
   pubkey list \<Rightarrow> fetch_answer" where
  "rpc_fetch rpc mismatch ks =
     (if ks = [] then Inr []
      else (case rpc ks of
              Inl e \<Rightarrow> Inl (Backend e)
            | Inr (slot, accounts) \<Rightarrow>
                if length accounts \<noteq> length ks
                then Inl (Backend (mismatch (length accounts) (length ks)))
                else Inr (map (\<lambda>(k, a). map_option (\<lambda>a. account_update_new k (ra_owner a) (ra_data a) slot) a)
                            (zip ks accounts))))"

section \<open>State\<close>

definition dep_queue_capacity :: nat where "dep_queue_capacity = 1024"

datatype ingest_error = PrimaryHandler handler_error

fun ingest_error_reason :: "ingest_error \<Rightarrow> string" where
  "ingest_error_reason (PrimaryHandler e) = handler_error_reason e"

datatype resolver = Idle | Fetching pubkey | Applying "account_update list"

record 'c ingest =
  in_registry :: "'c registry"
  in_cache :: 'c
  in_queue :: "pubkey list"
  in_deps_dropped :: u64
  in_seen :: "pubkey set"
  in_resolver :: resolver

definition ingest_new :: "'c registry \<Rightarrow> 'c \<Rightarrow> 'c ingest" where
  "ingest_new r c = \<lparr> in_registry = r, in_cache = c, in_queue = [], in_deps_dropped = 0,
                       in_seen = {}, in_resolver = Idle \<rparr>"

section \<open>Dispatch\<close>

text \<open>Only \<open>Infrequent\<close> dependencies are fetched, whichever list reports them.\<close>

definition fetch_targets :: "handle_result \<Rightarrow> pubkey list" where
  "fetch_targets r =
     map d_pubkey (filter (\<lambda>d. d_expectation d = Infrequent)
       (hr_accounts_to_fetch r @ hr_accounts_to_subscribe r))"

text \<open>\<open>try_send\<close> fails on a full queue, and the failure is counted.\<close>

definition try_send :: "pubkey \<Rightarrow> 'c ingest \<Rightarrow> 'c ingest" where
  "try_send k s =
     (if length (in_queue s) < dep_queue_capacity then s \<lparr> in_queue := in_queue s @ [k] \<rparr>
      else s \<lparr> in_deps_dropped := in_deps_dropped s + 1 \<rparr>)"

definition apply_update ::
  "account_update \<Rightarrow> 'c ingest \<Rightarrow> (ingest_error + handle_result) \<times> 'c ingest" where
  "apply_update u s =
     (case dispatch (in_registry s) (in_cache s) (au_owner u) (au_pubkey u) (au_data u) (au_slot u) of
        (Inl e, c) \<Rightarrow> (Inl (PrimaryHandler e), s \<lparr> in_cache := c \<rparr>)
      | (Inr r, c) \<Rightarrow> (Inr r, fold try_send (fetch_targets r) (s \<lparr> in_cache := c \<rparr>)))"

section \<open>The interleaving\<close>

datatype label =
    Applied "ingest_error + handle_result"
  | Skipped pubkey
  | FetchStarted pubkey
  | FetchFailed pubkey
  | FetchDone
  | Rested

inductive ingest_step :: "'c ingest \<Rightarrow> label \<Rightarrow> 'c ingest \<Rightarrow> bool" where
  step_stream: "apply_update u s = (r, s') \<Longrightarrow> ingest_step s (Applied r) s'"
| step_skip: "in_resolver s = Idle \<Longrightarrow> in_queue s = k # q \<Longrightarrow> k \<in> in_seen s \<Longrightarrow>
    ingest_step s (Skipped k) (s \<lparr> in_queue := q \<rparr>)"
| step_take: "in_resolver s = Idle \<Longrightarrow> in_queue s = k # q \<Longrightarrow> k \<notin> in_seen s \<Longrightarrow>
    ingest_step s (FetchStarted k)
      (s \<lparr> in_queue := q, in_seen := insert k (in_seen s), in_resolver := Fetching k \<rparr>)"
| step_fetched: "in_resolver s = Fetching k \<Longrightarrow>
    ingest_step s FetchDone
      (s \<lparr> in_resolver := Applying (map the (filter (\<lambda>u. u \<noteq> None) updates)) \<rparr>)"
| step_failed: "in_resolver s = Fetching k \<Longrightarrow>
    ingest_step s (FetchFailed k) (s \<lparr> in_seen := in_seen s - {k}, in_resolver := Idle \<rparr>)"
| step_apply: "in_resolver s = Applying (u # us) \<Longrightarrow> apply_update u s = (r, s') \<Longrightarrow>
    ingest_step s (Applied r) (s' \<lparr> in_resolver := Applying us \<rparr>)"
| step_rest: "in_resolver s = Applying [] \<Longrightarrow> ingest_step s Rested (s \<lparr> in_resolver := Idle \<rparr>)"

inductive ingest_run :: "'c ingest \<Rightarrow> label list \<Rightarrow> 'c ingest \<Rightarrow> bool" where
  run_refl: "ingest_run s [] s"
| run_step: "ingest_run s ls s1 \<Longrightarrow> ingest_step s1 l s2 \<Longrightarrow> ingest_run s (ls @ [l]) s2"

inductive_cases ingest_stepE: "ingest_step s l s'"

section \<open>The resolver alone\<close>

definition apply_fetched :: "account_update option list \<Rightarrow> 'c ingest \<Rightarrow> 'c ingest" where
  "apply_fetched us s = fold (\<lambda>u s. snd (apply_update u s)) (map the (filter (\<lambda>u. u \<noteq> None) us)) s"

definition resolve :: "(pubkey \<Rightarrow> fetch_answer) \<Rightarrow> pubkey \<Rightarrow> 'c ingest \<Rightarrow> 'c ingest" where
  "resolve fetch k s =
     (if k \<in> in_seen s then s
      else (case fetch k of
              Inr us \<Rightarrow> apply_fetched us (s \<lparr> in_seen := insert k (in_seen s) \<rparr>)
            | Inl e \<Rightarrow> s \<lparr> in_seen := insert k (in_seen s) - {k} \<rparr>))"

fun drain :: "nat \<Rightarrow> (pubkey \<Rightarrow> fetch_answer) \<Rightarrow> 'c ingest \<Rightarrow> 'c ingest option" where
  "drain fuel fetch s =
     (case in_queue s of
        [] \<Rightarrow> Some s
      | k # q \<Rightarrow>
          (case fuel of
             0 \<Rightarrow> None
           | Suc n \<Rightarrow> drain n fetch (resolve fetch k (s \<lparr> in_queue := q \<rparr>))))"

declare drain.simps [simp del]

section \<open>The queue\<close>

lemma try_send_fields [simp]:
  "in_registry (try_send k s) = in_registry s" "in_cache (try_send k s) = in_cache s"
  "in_seen (try_send k s) = in_seen s" "in_resolver (try_send k s) = in_resolver s"
  by (simp_all add: try_send_def)

lemma fold_try_send_fields [simp]:
  "in_registry (fold try_send ks s) = in_registry s"
  "in_seen (fold try_send ks s) = in_seen s"
  "in_resolver (fold try_send ks s) = in_resolver s"
  by (induction ks arbitrary: s) simp_all

lemma fold_try_send_queue:
  "length (in_queue s) \<le> dep_queue_capacity \<Longrightarrow>
   length (in_queue (fold try_send ks s)) \<le> dep_queue_capacity \<and>
   set (in_queue (fold try_send ks s)) \<subseteq> set (in_queue s) \<union> set ks \<and>
   in_deps_dropped (fold try_send ks s) + of_nat (length (in_queue (fold try_send ks s))) =
     in_deps_dropped s + of_nat (length (in_queue s)) + of_nat (length ks)"
proof (induction ks arbitrary: s)
  case (Cons k ks)
  have "length (in_queue (try_send k s)) \<le> dep_queue_capacity"
    using Cons.prems by (simp add: try_send_def)
  from Cons.IH [OF this] show ?case
    by (auto simp: try_send_def split: if_splits)
qed simp

definition targets_of :: "ingest_error + handle_result \<Rightarrow> pubkey list" where
  "targets_of r = (case r of Inl _ \<Rightarrow> [] | Inr h \<Rightarrow> fetch_targets h)"

lemma apply_update_fields:
  assumes "apply_update u s = (r, s')"
  shows "in_registry s' = in_registry s" "in_seen s' = in_seen s" "in_resolver s' = in_resolver s"
    "length (in_queue s) \<le> dep_queue_capacity \<Longrightarrow> length (in_queue s') \<le> dep_queue_capacity \<and>
       set (in_queue s') \<subseteq> set (in_queue s) \<union> set (targets_of r) \<and>
       in_deps_dropped s' + of_nat (length (in_queue s')) =
         in_deps_dropped s + of_nat (length (in_queue s)) + of_nat (length (targets_of r))"
proof -
  obtain d c where d: "dispatch (in_registry s) (in_cache s) (au_owner u) (au_pubkey u) (au_data u)
      (au_slot u) = (d, c)"
    by fastforce
  note q = fold_try_send_queue [of "s \<lparr> in_cache := c \<rparr>" "targets_of r"]
  show "in_registry s' = in_registry s" "in_seen s' = in_seen s" "in_resolver s' = in_resolver s"
    using assms d by (auto simp: apply_update_def split: sum.splits)
  show "length (in_queue s) \<le> dep_queue_capacity \<Longrightarrow> length (in_queue s') \<le> dep_queue_capacity \<and>
       set (in_queue s') \<subseteq> set (in_queue s) \<union> set (targets_of r) \<and>
       in_deps_dropped s' + of_nat (length (in_queue s')) =
         in_deps_dropped s + of_nat (length (in_queue s)) + of_nat (length (targets_of r))"
    using assms d q by (cases d) (auto simp: apply_update_def targets_of_def)
qed

section \<open>Histories\<close>

definition started :: "pubkey \<Rightarrow> label list \<Rightarrow> nat" where
  "started k ls = count_list ls (FetchStarted k)"

definition failed :: "pubkey \<Rightarrow> label list \<Rightarrow> nat" where
  "failed k ls = count_list ls (FetchFailed k)"

definition reported :: "label list \<Rightarrow> pubkey list" where
  "reported ls = concat (map (\<lambda>l. case l of Applied r \<Rightarrow> targets_of r | _ \<Rightarrow> []) ls)"

definition taken :: "label list \<Rightarrow> pubkey list" where
  "taken ls = concat (map (\<lambda>l. case l of FetchStarted k \<Rightarrow> [k] | Skipped k \<Rightarrow> [k] | _ \<Rightarrow> []) ls)"

lemma history_simps [simp]:
  "started k [] = 0" "failed k [] = 0" "reported [] = []" "taken [] = []"
  "started k (ls @ [l]) = started k ls + (if l = FetchStarted k then 1 else 0)"
  "failed k (ls @ [l]) = failed k ls + (if l = FetchFailed k then 1 else 0)"
  "reported (ls @ [l]) = reported ls @ (case l of Applied r \<Rightarrow> targets_of r | _ \<Rightarrow> [])"
  "taken (ls @ [l]) = taken ls @ (case l of FetchStarted k \<Rightarrow> [k] | Skipped k \<Rightarrow> [k] | _ \<Rightarrow> [])"
  by (simp_all add: started_def failed_def reported_def taken_def)

definition ingest_inv :: "label list \<Rightarrow> 'c ingest \<Rightarrow> bool" where
  "ingest_inv ls s \<longleftrightarrow>
     length (in_queue s) \<le> dep_queue_capacity \<and>
     set (in_queue s) \<union> set (taken ls) \<subseteq> set (reported ls) \<and>
     (\<forall>k. started k ls = failed k ls + (if k \<in> in_seen s then 1 else 0)) \<and>
     (\<forall>k. in_resolver s = Fetching k \<longrightarrow> k \<in> in_seen s) \<and>
     in_deps_dropped s + of_nat (length (in_queue s)) + of_nat (length (taken ls)) =
       of_nat (length (reported ls))"

lemma ingest_inv_init: "ingest_inv [] (ingest_new r c)"
  by (simp add: ingest_inv_def ingest_new_def)

lemma ingest_inv_applied:
  assumes "ingest_inv ls s" "apply_update u s = (r, s')"
  shows "ingest_inv (ls @ [Applied r]) s'"
proof -
  have q: "length (in_queue s') \<le> dep_queue_capacity"
    "set (in_queue s') \<subseteq> set (in_queue s) \<union> set (targets_of r)"
    "in_deps_dropped s' + of_nat (length (in_queue s')) =
       in_deps_dropped s + of_nat (length (in_queue s)) + of_nat (length (targets_of r))"
    using apply_update_fields(4) [OF assms(2)] assms(1) by (auto simp: ingest_inv_def)
  moreover have "in_deps_dropped s' + of_nat (length (in_queue s')) + of_nat (length (taken ls)) =
      of_nat (length (reported ls)) + (of_nat (length (targets_of r)) :: u64)"
    unfolding q(3) using assms(1) by (simp add: ingest_inv_def algebra_simps)
  ultimately show ?thesis
    using assms(1) apply_update_fields(1-3) [OF assms(2)]
    by (auto simp: ingest_inv_def)
qed

lemma ingest_inv_step: "ingest_step s l s' \<Longrightarrow> ingest_inv ls s \<Longrightarrow> ingest_inv (ls @ [l]) s'"
proof (induction rule: ingest_step.induct)
  case (step_stream u s r s')
  then show ?case by (simp add: ingest_inv_applied)
next
  case (step_apply s u us r s')
  then have "ingest_inv (ls @ [Applied r]) s'"
    by (simp add: ingest_inv_applied)
  then show ?case by (simp add: ingest_inv_def)
next
  case (step_skip s k q)
  then show ?case by (auto simp: ingest_inv_def algebra_simps)
next
  case (step_take s k q)
  then show ?case by (auto simp: ingest_inv_def algebra_simps)
qed (auto simp: ingest_inv_def)

lemma ingest_inv_run: "ingest_run s0 ls s \<Longrightarrow> ingest_inv [] s0 \<Longrightarrow> ingest_inv ls s"
  by (induction rule: ingest_run.induct) (auto intro: ingest_inv_step)

lemma taken_started: "0 < started k ls \<Longrightarrow> k \<in> set (taken ls)"
  by (induction ls rule: rev_induct) (auto split: if_splits)

lemma run_prefix: "ingest_run s0 ls s \<Longrightarrow> ls = xs @ ys \<Longrightarrow> \<exists>s1. ingest_run s0 xs s1"
proof (induction arbitrary: ys rule: ingest_run.induct)
  case (run_step s ls s1 l s2)
  show ?case
  proof (cases ys rule: rev_cases)
    case Nil
    then show ?thesis
      using run_step ingest_run.run_step by (metis append_Nil2)
  next
    case (snoc zs z)
    with run_step.prems run_step.IH [of zs] show ?thesis by simp
  qed
qed (auto intro: run_refl)

lemma run_snoc_step: "ingest_run s0 (ls @ [l]) s \<Longrightarrow> \<exists>s1. ingest_run s0 ls s1 \<and> ingest_step s1 l s"
  by (erule ingest_run.cases) auto

lemma reported_infrequent:
  "k \<in> set (reported ls) \<Longrightarrow> \<exists>h d. Applied (Inr h) \<in> set ls \<and>
     d \<in> set (hr_accounts_to_fetch h @ hr_accounts_to_subscribe h) \<and>
     d_expectation d = Infrequent \<and> d_pubkey d = k"
proof (induction ls rule: rev_induct)
  case (snoc l ls)
  then show ?case
    by (cases l; fastforce simp: targets_of_def fetch_targets_def split: sum.splits)
qed simp

text \<open>A measure of what the resolver may still do when every key it can meet is in \<open>K\<close>.\<close>

definition drain_measure :: "pubkey set \<Rightarrow> 'c ingest \<Rightarrow> nat" where
  "drain_measure K s = card (K - in_seen s) * (dep_queue_capacity + 1) + length (in_queue s)"

text \<open>\<open>K\<close> is closed: no update makes a handler of \<open>reg\<close> report an \<open>Infrequent\<close> key outside it.\<close>

definition closed_keys :: "'c registry \<Rightarrow> pubkey set \<Rightarrow> bool" where
  "closed_keys reg K \<longleftrightarrow>
     (\<forall>c owner k data slot h c'. dispatch reg c owner k data slot = (Inr h, c') \<longrightarrow>
        set (fetch_targets h) \<subseteq> K)"

definition drain_inv :: "pubkey set \<Rightarrow> 'c ingest \<Rightarrow> bool" where
  "drain_inv K s \<longleftrightarrow> finite K \<and> closed_keys (in_registry s) K \<and>
     length (in_queue s) \<le> dep_queue_capacity \<and> set (in_queue s) \<subseteq> K"

lemma drain_inv_apply:
  assumes "drain_inv K s" "apply_update u s = (r, s')"
  shows "drain_inv K s'"
proof -
  have "set (targets_of r) \<subseteq> K"
    using assms by (auto simp: apply_update_def drain_inv_def closed_keys_def targets_of_def
        split: prod.splits sum.splits) blast+
  then show ?thesis
    using assms(1) apply_update_fields [OF assms(2)] by (auto simp: drain_inv_def)
qed

lemma drain_inv_fetched:
  "drain_inv K s \<Longrightarrow> drain_inv K (apply_fetched us s) \<and> in_seen (apply_fetched us s) = in_seen s"
proof -
  have "drain_inv K s \<Longrightarrow> drain_inv K (fold (\<lambda>u s. snd (apply_update u s)) xs s) \<and>
      in_seen (fold (\<lambda>u s. snd (apply_update u s)) xs s) = in_seen s" for xs
  proof (induction xs arbitrary: s)
    case (Cons x xs)
    have "drain_inv K (snd (apply_update x s))" "in_seen (snd (apply_update x s)) = in_seen s"
      using drain_inv_apply [OF Cons.prems] apply_update_fields(2) [of x s]
      by (metis prod.collapse)+
    with Cons.IH show ?case by simp
  qed simp
  then show "drain_inv K s \<Longrightarrow> ?thesis"
    by (simp add: apply_fetched_def)
qed

text \<open>Each turn of the loop keeps the invariant and decreases the measure.\<close>

lemma resolve_decreases:
  assumes "drain_inv K s" "in_queue s = k # q"
  shows "drain_inv K (resolve fetch k (s \<lparr> in_queue := q \<rparr>)) \<and>
         drain_measure K (resolve fetch k (s \<lparr> in_queue := q \<rparr>)) < drain_measure K s"
proof -
  have K: "finite K" "k \<in> K" and len: "Suc (length q) \<le> dep_queue_capacity"
    using assms by (auto simp: drain_inv_def)
  have popped: "drain_inv K (s \<lparr> in_queue := q, in_seen := S \<rparr>)" for S
    using assms by (auto simp: drain_inv_def)
  have popped0: "drain_inv K (s \<lparr> in_queue := q \<rparr>)"
    using assms by (auto simp: drain_inv_def)
  show ?thesis
  proof (cases "k \<in> in_seen s")
    case True
    then show ?thesis
      using popped0 assms(2) by (simp add: resolve_def drain_measure_def)
  next
    case False
    show ?thesis
    proof (cases "fetch k")
      case (Inl e)
      have "insert k (in_seen s) - {k} = in_seen s" using False by auto
      then show ?thesis
        using False Inl popped [of "in_seen s"] assms(2) by (simp add: resolve_def drain_measure_def)
    next
      case (Inr us)
      let ?s = "apply_fetched us (s \<lparr> in_queue := q, in_seen := insert k (in_seen s) \<rparr>)"
      have inv: "drain_inv K ?s" "in_seen ?s = insert k (in_seen s)"
        using drain_inv_fetched [OF popped [of "insert k (in_seen s)"], of us] by simp_all
      have "card (K - insert k (in_seen s)) < card (K - in_seen s)"
        using K False by (intro psubset_card_mono) auto
      then have "card (K - insert k (in_seen s)) * (dep_queue_capacity + 1) + (dep_queue_capacity + 1)
          \<le> card (K - in_seen s) * (dep_queue_capacity + 1)"
        by (metis Suc_leI add.commute mult_Suc mult_le_mono1)
      moreover have "length (in_queue ?s) \<le> dep_queue_capacity"
        using inv(1) by (simp add: drain_inv_def)
      ultimately have "drain_measure K ?s < drain_measure K s"
        unfolding drain_measure_def inv(2) by linarith
      then show ?thesis
        using False Inr inv(1) by (simp add: resolve_def)
    qed
  qed
qed

lemma drain_enough_fuel:
  "drain_inv K s \<Longrightarrow> drain_measure K s \<le> fuel \<Longrightarrow> \<exists>s'. drain fuel fetch s = Some s' \<and> in_queue s' = []"
proof (induction fuel arbitrary: s)
  case 0
  then have "in_queue s = []" by (simp add: drain_measure_def)
  then show ?case by (simp add: drain.simps [of 0])
next
  case (Suc n)
  show ?case
  proof (cases "in_queue s")
    case Nil
    then show ?thesis by (simp add: drain.simps [of "Suc n"])
  next
    case (Cons k q)
    have step: "drain_inv K (resolve fetch k (s \<lparr> in_queue := q \<rparr>))"
      "drain_measure K (resolve fetch k (s \<lparr> in_queue := q \<rparr>)) < drain_measure K s"
      using resolve_decreases [OF Suc.prems(1) Cons, of fetch] by simp_all
    have "drain_measure K (resolve fetch k (s \<lparr> in_queue := q \<rparr>)) \<le> n"
      using step(2) Suc.prems(2) by linarith
    with Suc.IH [OF step(1)] Cons show ?thesis
      by (simp add: drain.simps [of "Suc n"])
  qed
qed

section \<open>Properties\<close>

text \<open>C12: In every interleaving of the stream and the resolver, a fetch of a key starts only after a
  handler reported it as an \<open>Infrequent\<close> dependency, and only if every earlier fetch of it failed:
  a \<open>Frequent\<close> or \<open>Dynamic\<close> dependency is never fetched, and a successful fetch is never
  repeated.\<close>

theorem ingest_fetch_discipline:
  assumes "ingest_run (ingest_new reg c) (xs @ FetchStarted k # ys) s"
  shows "started k xs = failed k xs \<and>
    (\<exists>h d. Applied (Inr h) \<in> set xs \<and>
       d \<in> set (hr_accounts_to_fetch h @ hr_accounts_to_subscribe h) \<and>
       d_expectation d = Infrequent \<and> d_pubkey d = k)"
proof -
  obtain s2 where "ingest_run (ingest_new reg c) (xs @ [FetchStarted k]) s2"
    using run_prefix [OF assms, of "xs @ [FetchStarted k]" ys] by auto
  then obtain s1 where s1: "ingest_run (ingest_new reg c) xs s1" "ingest_step s1 (FetchStarted k) s2"
    using run_snoc_step by blast
  have inv: "ingest_inv xs s1"
    using ingest_inv_run [OF s1(1) ingest_inv_init] .
  from s1(2) have "k \<in> set (in_queue s1)" "k \<notin> in_seen s1"
    by (auto elim: ingest_stepE)
  then have "k \<in> set (reported xs)" "started k xs = failed k xs"
    using inv by (auto simp: ingest_inv_def)
  with reported_infrequent show ?thesis by blast
qed

definition config_handler :: "pubkey \<Rightarrow> unit handler" where
  "config_handler cfg =
     \<lparr> h_program_id = [1], h_discriminator = None, h_matches_account = (\<lambda>_. True), h_subscribe = True,
       h_handle = (\<lambda>c k data slot. (Inr \<lparr> hr_accounts_to_fetch = [dependency_new cfg Infrequent],
          hr_accounts_pending_grpc = [], hr_accounts_to_subscribe = [dependency_new [3] Dynamic],
          hr_spot_price = None \<rparr>, c)) \<rparr>"

definition config_registry :: "unit registry" where
  "config_registry = push_fallback (config_handler [2]) (note_program (config_handler [2]) registry_new)"

definition config_update :: account_update where
  "config_update = account_update_new [9] [1] [] 5"

lemma config_dispatch:
  "dispatch config_registry () [1] k data slot = (Inr \<lparr> hr_accounts_to_fetch = [dependency_new [2] Infrequent],
     hr_accounts_pending_grpc = [], hr_accounts_to_subscribe = [dependency_new [3] Dynamic],
     hr_spot_price = None \<rparr>, ())"
  by (simp add: dispatch_def lookup_def config_registry_def push_fallback_def note_program_def
      registry_new_def config_handler_def first_eight_def fallback_claims_def)

lemma ingest_fetch_discipline_witness:
  "\<exists>xs s. ingest_run (ingest_new config_registry ()) (xs @ FetchStarted [2] # []) s \<and>
     started [2] xs = failed [2] xs"
proof -
  let ?s0 = "ingest_new config_registry ()"
  obtain r s1 where s1: "apply_update config_update ?s0 = (r, s1)"
    by fastforce
  have q: "in_queue s1 = [[2]]" "in_resolver s1 = Idle" "in_seen s1 = {}"
    using s1 by (auto simp: apply_update_def config_update_def account_update_new_def ingest_new_def
        config_dispatch fetch_targets_def dependency_new_def try_send_def dep_queue_capacity_def)
  have "ingest_run ?s0 ([] @ [Applied r]) s1"
    using s1 by (intro run_step [OF run_refl] step_stream)
  moreover have "ingest_step s1 (FetchStarted [2])
      (s1 \<lparr> in_queue := [], in_seen := insert [2] (in_seen s1), in_resolver := Fetching [2] \<rparr>)"
    using q by (intro step_take) simp_all
  ultimately have run: "ingest_run ?s0 ([Applied r] @ FetchStarted [2] # [])
      (s1 \<lparr> in_queue := [], in_seen := insert [2] (in_seen s1), in_resolver := Fetching [2] \<rparr>)"
    using run_step by fastforce
  show ?thesis
    using run ingest_fetch_discipline [OF run] by blast
qed

text \<open>C25: The queue never holds more than 1024 keys, and no reported dependency is lost uncounted: the
  drop counter plus the queued and the taken keys is the number of \<open>Infrequent\<close> dependencies
  reported, modulo the width of the counter.\<close>

theorem ingest_conservation:
  assumes "ingest_run (ingest_new reg c) ls s"
  shows "length (in_queue s) \<le> 1024 \<and>
    in_deps_dropped s + of_nat (length (in_queue s)) + of_nat (length (taken ls)) =
      of_nat (length (reported ls))"
  using ingest_inv_run [OF assms ingest_inv_init] by (simp add: ingest_inv_def dep_queue_capacity_def)

lemma ingest_conservation_witness:
  "\<exists>r s. ingest_run (ingest_new config_registry ()) [Applied r] s \<and>
     in_deps_dropped s + of_nat (length (in_queue s)) + of_nat (length (taken [Applied r])) =
       of_nat (length (reported [Applied r]))"
proof -
  obtain r s where "apply_update config_update (ingest_new config_registry ()) = (r, s)"
    by fastforce
  then have "ingest_run (ingest_new config_registry ()) ([] @ [Applied r]) s"
    by (intro run_step [OF run_refl] step_stream)
  then have run: "ingest_run (ingest_new config_registry ()) [Applied r] s" by simp
  show ?thesis
    using run ingest_conservation [OF run] by blast
qed

text \<open>C27: Draining the queue ends, whatever the fetcher answers, when the handlers report \<open>Infrequent\<close>
  keys from a finite set only: the loop turns at most once for each queued key and 1025 times for
  each key of the set that was not yet fetched.\<close>

theorem ingest_drain_terminates:
  assumes "finite K" "closed_keys (in_registry s) K" "length (in_queue s) \<le> 1024"
    and "set (in_queue s) \<subseteq> K" "card (K - in_seen s) * 1025 + length (in_queue s) \<le> fuel"
  shows "\<exists>s'. drain fuel fetch s = Some s' \<and> in_queue s' = []"
  using assms
  by (intro drain_enough_fuel [of K])
    (auto simp: drain_inv_def drain_measure_def dep_queue_capacity_def)

lemma ingest_drain_terminates_witness:
  "\<exists>s'. drain 1026 (\<lambda>k. Inr [Some config_update])
     (ingest_new config_registry () \<lparr> in_queue := [[2]] \<rparr>) = Some s' \<and> in_queue s' = []"
proof (rule ingest_drain_terminates [of "{[2]}"])
  show "closed_keys (in_registry (ingest_new config_registry () \<lparr> in_queue := [[2]] \<rparr>)) {[2]}"
    unfolding closed_keys_def
  proof (intro allI impI)
    fix c :: unit and owner k data slot h c'
    assume "dispatch (in_registry (ingest_new config_registry () \<lparr> in_queue := [[2]] \<rparr>)) c owner k data slot
      = (Inr h, c')"
    then show "set (fetch_targets h) \<subseteq> {[2]}"
      using config_dispatch [of k data slot]
      by (cases "owner = [1]")
        (auto simp: ingest_new_def fetch_targets_def dependency_new_def dispatch_def lookup_def
          config_registry_def push_fallback_def note_program_def registry_new_def first_eight_def
          config_handler_def split: option.splits)
  qed
qed (simp_all add: ingest_new_def)

end
