(* ===== verification/Quote.thy ===== *)
theory Quote
  imports PumpHandlers Ingest
begin

text \<open>
  \<open>QuoteState\<close> (\<open>solana/protocols/src/quote.rs\<close>): one type over the quote bundles of the ported
  protocols, assembled from the cache, with the refusals of the others. The macro's table is
  written out: Pump.fun and PumpSwap are ported.

  The properties follow account updates from the registry through the cache to the bundle.
\<close>

section \<open>Protocols and refusals\<close>

datatype protocol =
    Pumpfun | PumpSwap | RaydiumV4 | RaydiumClmm | RaydiumCpmm | RaydiumLaunchpad
  | MeteoraDlmm | MeteoraDbC | MeteoraDammV2

datatype not_quotable = NotPorted protocol | Incomplete protocol

datatype quote_state = QPumpfun pumpfun_quote | QPumpSwap pumpswap_quote

section \<open>Assembly\<close>

text \<open>\<open>CacheGet::get_at_slot\<close> and \<open>CacheSingleton::get\<close> of the local cache; the outer option of
  the result is a panic.\<close>

definition quote_assemble ::
  "bool \<Rightarrow> protocol \<Rightarrow> ('lb, 'ba, 'bx, 'ps) local_cache \<Rightarrow> pubkey \<Rightarrow> u64 \<Rightarrow>
   (not_quotable, quote_state) outcome" where
  "quote_assemble oc proto c pool slot =
     (case proto of
        Pumpfun \<Rightarrow>
          (case pumpfun_quote_assemble oc (\<lambda>k s. vm_get_at_slot k s (cd_bonding_curves (lc_data c)))
                  (cd_pumpfun_fee_config (lc_data c)) pool slot of
             None \<Rightarrow> None
           | Some None \<Rightarrow> Some (Inl (Incomplete proto))
           | Some (Some q) \<Rightarrow> Some (Inr (QPumpfun q)))
      | PumpSwap \<Rightarrow>
          (case pumpswap_quote_assemble (\<lambda>k s. vm_get_at_slot k s (cd_pumpswap_pools (lc_data c)))
                  (\<lambda>k s. vm_get_at_slot k s (cd_token_accounts (lc_data c)))
                  (cd_pumpswap_fee_config (lc_data c)) pool slot of
             None \<Rightarrow> Some (Inl (Incomplete proto))
           | Some q \<Rightarrow> Some (Inr (QPumpSwap q)))
      | RaydiumV4 \<Rightarrow> Some (Inl (NotPorted proto))
      | RaydiumClmm \<Rightarrow> Some (Inl (NotPorted proto))
      | RaydiumCpmm \<Rightarrow> Some (Inl (NotPorted proto))
      | RaydiumLaunchpad \<Rightarrow> Some (Inl (NotPorted proto))
      | MeteoraDlmm \<Rightarrow> Some (Inl (NotPorted proto))
      | MeteoraDbC \<Rightarrow> Some (Inl (NotPorted proto))
      | MeteoraDammV2 \<Rightarrow> Some (Inl (NotPorted proto)))"

fun quote_protocol :: "quote_state \<Rightarrow> protocol" where
  "quote_protocol (QPumpfun _) = Pumpfun"
| "quote_protocol (QPumpSwap _) = PumpSwap"

fun quote_calculate_swap :: "bool \<Rightarrow> quote_state \<Rightarrow> swap_params \<Rightarrow> (error, swap_output) outcome" where
  "quote_calculate_swap oc (QPumpfun q) p = pumpfun_quote_calculate_swap oc q p"
| "quote_calculate_swap oc (QPumpSwap q) p = pumpswap_quote_calculate_swap oc q p"

fun quote_spot_price :: "quote_state \<Rightarrow> f64" where
  "quote_spot_price (QPumpfun q) = curve_spot_price (pq_curve q)"
| "quote_spot_price (QPumpSwap q) = pumpswap_quote_spot_price q"

fun quote_is_active :: "quote_state \<Rightarrow> bool" where
  "quote_is_active (QPumpfun q) = curve_is_active (pq_curve q)"
| "quote_is_active (QPumpSwap q) = pumpswap_quote_is_active q"

section \<open>A stream of updates\<close>

definition feed ::
  "('lb, 'ba, 'bx, 'ps) local_cache registry \<Rightarrow> account_update list \<Rightarrow>
   ('lb, 'ba, 'bx, 'ps) local_cache \<Rightarrow> ('lb, 'ba, 'bx, 'ps) local_cache" where
  "feed r us c =
     fold (\<lambda>u c. snd (dispatch r c (au_owner u) (au_pubkey u) (au_data u) (au_slot u))) us c"

lemma feed_simps [simp]:
  "feed r [] c = c"
  "feed r (u # us) c = feed r us (snd (dispatch r c (au_owner u) (au_pubkey u) (au_data u) (au_slot u)))"
  by (simp_all add: feed_def)

text \<open>The observations of a stream that land in each keyed field.\<close>

definition seen :: "(observed \<Rightarrow> 'v option) \<Rightarrow> decode_env \<Rightarrow> pump_ids \<Rightarrow> token_env \<Rightarrow>
    account_update list \<Rightarrow> (pubkey, 'v) observation list" where
  "seen pick D I E us = List.map_filter (\<lambda>u.
     case classify D I E (au_owner u) (au_data u) of
       Inl _ \<Rightarrow> None
     | Inr st \<Rightarrow> map_option (\<lambda>v. (au_pubkey u, v, au_slot u)) (pick st)) us"

fun pick_curve where "pick_curve (Saw_curve v) = Some v" | "pick_curve _ = None"
fun pick_pool where "pick_pool (Saw_pool v) = Some v" | "pick_pool _ = None"
fun pick_token where "pick_token (Saw_token v) = Some v" | "pick_token _ = None"

lemma seen_simps [simp]:
  "seen pick D I E [] = []"
  "seen pick D I E (u # us) =
     (case classify D I E (au_owner u) (au_data u) of
        Inl _ \<Rightarrow> seen pick D I E us
      | Inr st \<Rightarrow> (case pick st of None \<Rightarrow> seen pick D I E us
                   | Some v \<Rightarrow> (au_pubkey u, v, au_slot u) # seen pick D I E us))"
  by (simp_all add: seen_def List.map_filter_def split: sum.split option.split)

lemmas apply_defs = bonding_curve_apply_def global_apply_def fee_config_apply_def pumpswap_apply_def
  token_apply_def on_data_def field_insert_def vmap.observe_def

lemma feed_fields:
  assumes "ids_ok I E" "register_all (pump_handlers D I E w) registry_new = Some r"
  shows "cd_bonding_curves (lc_data (feed r us c)) =
           vmap.observe_all (seen pick_curve D I E us) (cd_bonding_curves (lc_data c)) \<and>
         cd_pumpswap_pools (lc_data (feed r us c)) =
           vmap.observe_all (seen pick_pool D I E us) (cd_pumpswap_pools (lc_data c)) \<and>
         cd_token_accounts (lc_data (feed r us c)) =
           vmap.observe_all (seen pick_token D I E us) (cd_token_accounts (lc_data c))"
proof (induction us arbitrary: c)
  case (Cons u us)
  show ?case
  proof (cases "classify D I E (au_owner u) (au_data u)")
    case (Inr st)
    then show ?thesis
      by (cases st) (simp_all add: Cons.IH pump_dispatch [OF assms] apply_defs)
  qed (simp add: Cons.IH pump_dispatch [OF assms])
qed simp

lemma set_seen:
  "set (seen pick D I E us) =
     {(au_pubkey u, v, au_slot u) | u v st. u \<in> set us \<and>
        classify D I E (au_owner u) (au_data u) = Inr st \<and> pick st = Some v}"
  by (induction us) (auto split: sum.split option.split)

lemma seen_read_order_independent:
  assumes "set us' = set us"
    and "\<forall>u \<in> set us. \<forall>u' \<in> set us. au_pubkey u = au_pubkey u' \<and> au_slot u = au_slot u' \<longrightarrow> u = u'"
    and "\<forall>u \<in> set us. au_slot u \<le> r"
    and "vm_inner m = Map.empty"
  shows "vm_get_at_slot k r (vmap.observe_all (seen pick D I E us) m) =
         vm_get_at_slot k r (vmap.observe_all (seen pick D I E us') m)"
proof -
  have "vm_get_at_slot_with_slot k r (vmap.observe_all (seen pick D I E us) m) =
      vm_get_at_slot_with_slot k r (vmap.observe_all (seen pick D I E us') m)"
  proof (rule vmap.observe_all_read_order_independent)
    show "vm_get_with_slot k m = None"
      using assms(4) by (simp add: vm_get_with_slot_def)
    show "set (seen pick D I E us') = set (seen pick D I E us)"
      by (simp only: set_seen assms(1))
    show "v = v'" if "(k, v, s) \<in> set (seen pick D I E us)" "(k, v', s) \<in> set (seen pick D I E us)" for v v' s
    proof -
      from that obtain u st u' st' where u: "u \<in> set us" "au_pubkey u = k" "au_slot u = s"
          "classify D I E (au_owner u) (au_data u) = Inr st" "pick st = Some v"
        and u': "u' \<in> set us" "au_pubkey u' = k" "au_slot u' = s"
          "classify D I E (au_owner u') (au_data u') = Inr st'" "pick st' = Some v'"
        unfolding set_seen by force
      from u u' assms(2) have "u' = u" by metis
      with u u' show ?thesis by simp
    qed
    show "s \<le> r" if "(k, v, s) \<in> set (seen pick D I E us)" for v s
      using that assms(3) unfolding set_seen by auto
  qed
  then show ?thesis
    by (simp add: vm_get_at_slot_def)
qed

text \<open>The fee configurations are singletons: an update of one replaces it, whatever its slot.
  \<open>fee_updates\<close> are the configurations that a stream brings for a key, \<open>latest\<close> is what stands
  afterwards, and \<open>versioned_updates\<close> is the rest of the stream, which alone reaches the versioned fields.\<close>

definition fee_updates :: "decode_env \<Rightarrow> pump_ids \<Rightarrow> token_env \<Rightarrow> pubkey \<Rightarrow>
    account_update list \<Rightarrow> pumpfun_fee_config list" where
  "fee_updates D I E k us = List.map_filter (\<lambda>u.
     if au_pubkey u = k
     then (case classify D I E (au_owner u) (au_data u) of Inr (Saw_fee_config f) \<Rightarrow> Some f | _ \<Rightarrow> None)
     else None) us"

definition latest :: "'a list \<Rightarrow> 'a option \<Rightarrow> 'a option" where
  "latest xs before = (if xs = [] then before else Some (last xs))"

definition versioned_updates :: "pump_ids \<Rightarrow> account_update list \<Rightarrow> account_update list" where
  "versioned_updates I us = filter (\<lambda>u. au_owner u \<noteq> id_pump_fees I) us"

lemma latest_simps [simp]:
  "latest [] b = b"
  "latest (x # xs) b = latest xs (Some x)"
  by (simp_all add: latest_def)

lemma fee_updates_simps [simp]:
  "fee_updates D I E k [] = []"
  "fee_updates D I E k (u # us) =
     (if au_pubkey u = k
      then (case classify D I E (au_owner u) (au_data u) of
              Inr (Saw_fee_config f) \<Rightarrow> f # fee_updates D I E k us | _ \<Rightarrow> fee_updates D I E k us)
      else fee_updates D I E k us)"
  by (simp_all add: fee_updates_def List.map_filter_def split: sum.split observed.split)

lemma fee_config_owner:
  "classify D I E owner data = Inr (Saw_fee_config f) \<Longrightarrow> owner = id_pump_fees I"
  by (auto simp: classify_def map_sum_def split: if_splits sum.splits)

lemma feed_fee_configs:
  assumes "ids_ok I E" "register_all (pump_handlers D I E w) registry_new = Some r"
  shows "cd_pumpfun_fee_config (lc_data (feed r us c)) =
           latest (fee_updates D I E (id_fee_config_pda I) us) (cd_pumpfun_fee_config (lc_data c)) \<and>
         cd_pumpswap_fee_config (lc_data (feed r us c)) =
           latest (map PumpSwapFeeConfig (fee_updates D I E (id_pumpswap_fee_config I) us))
             (cd_pumpswap_fee_config (lc_data c))"
proof (induction us arbitrary: c)
  case (Cons u us)
  have "id_fee_config_pda I \<noteq> id_pumpswap_fee_config I"
    using assms(1) by (simp add: ids_ok_def)
  show ?case
  proof (cases "classify D I E (au_owner u) (au_data u)")
    case (Inr st)
    then show ?thesis
      using \<open>id_fee_config_pda I \<noteq> _\<close>
      by (cases st) (simp_all add: Cons.IH pump_dispatch [OF assms] apply_defs)
  qed (simp add: Cons.IH pump_dispatch [OF assms])
qed simp

lemma fee_owner_classify:
  assumes "ids_ok I E" "classify D I E (id_pump_fees I) data = Inr st"
  shows "\<exists>f. st = Saw_fee_config f"
  using assms(2) ids_neq [OF assms(1)] by (auto simp: classify_def map_sum_def split: if_splits sum.splits)

lemma seen_versioned:
  assumes "ids_ok I E" "\<And>f. pick (Saw_fee_config f) = None"
  shows "seen pick D I E (versioned_updates I us) = seen pick D I E us"
  using assms(2)
  by (induction us) (auto simp: versioned_updates_def dest: fee_owner_classify [OF assms(1)]
      split: sum.split option.split)

lemma fee_updates_cong:
  assumes "filter (\<lambda>u. au_owner u = id_pump_fees I) us' = filter (\<lambda>u. au_owner u = id_pump_fees I) us"
  shows "fee_updates D I E k us' = fee_updates D I E k us"
proof -
  have only: "fee_updates D I E k (filter (\<lambda>u. au_owner u = id_pump_fees I) us) = fee_updates D I E k us" for us
    by (induction us) (auto dest: fee_config_owner split: sum.split observed.split)
  show ?thesis
    using only [of us] only [of us'] assms by simp
qed

lemma picks_versioned:
  assumes "ids_ok I E"
  shows "seen pick_curve D I E (versioned_updates I us) = seen pick_curve D I E us"
    "seen pick_pool D I E (versioned_updates I us) = seen pick_pool D I E us"
    "seen pick_token D I E (versioned_updates I us) = seen pick_token D I E us"
  by (rule seen_versioned [OF assms], simp)+

lemma latest_cong:
  "latest xs None = latest ys None \<Longrightarrow> latest xs b = latest ys b"
  "latest xs None = latest ys None \<Longrightarrow> latest (map f xs) b' = latest (map f ys) b'"
  by (auto simp: latest_def last_map split: if_splits)

text \<open>A stream in slot order, per account, is one in slot order for every field.\<close>

definition in_order :: "account_update list \<Rightarrow> bool" where
  "in_order us \<longleftrightarrow> (\<forall>k. sorted (map au_slot (filter (\<lambda>u. au_pubkey u = k) us)))"

definition newer_slots :: "u64 \<Rightarrow> pubkey \<Rightarrow> account_update list \<Rightarrow> u64 set" where
  "newer_slots slot k us = {s. slot < s \<and> (\<exists>u \<in> set us. au_pubkey u = k \<and> au_slot u = s)}"

lemma in_order_Cons:
  "in_order (u # us) \<longleftrightarrow>
     in_order us \<and> (\<forall>u' \<in> set us. au_pubkey u' = au_pubkey u \<longrightarrow> au_slot u \<le> au_slot u')"
  by (auto simp: in_order_def)

lemma seen_in_slot_order:
  assumes "in_order us"
  shows "in_slot_order k (seen pick D I E us)"
  using assms
proof (induction us)
  case (Cons u us)
  have "au_slot u \<le> s" if "au_pubkey u = k" "(k, v, s) \<in> set (seen pick D I E us)" for v s
    using that Cons.prems unfolding set_seen in_order_Cons by auto
  with Cons show ?case
    by (auto simp: in_order_Cons in_slot_order_def split: sum.split option.split)
qed (simp add: in_slot_order_def)

lemma seen_filter:
  "seen pick D I E (filter (\<lambda>u. au_slot u \<le> slot) us) =
   filter (\<lambda>(_, _, s). s \<le> slot) (seen pick D I E us)"
  by (induction us) (auto split: sum.split option.split)

lemma seen_read_past:
  assumes "in_order us" "card (newer_slots slot k us) \<le> d" "d \<le> vm_depth m" "vm_inner m = Map.empty"
  shows "vm_get_at_slot k slot (vmap.observe_all (seen pick D I E us) m) =
    vm_get_at_slot k slot (vmap.observe_all (seen pick D I E (filter (\<lambda>u. au_slot u \<le> slot) us)) m)"
proof -
  have m: "m = vm_with_depth (vm_depth m)"
    using assms(4) by (cases m) (simp add: vm_with_depth_def)
  have "{s. slot < s \<and> (\<exists>v. (k, v, s) \<in> set (seen pick D I E us))} \<subseteq> newer_slots slot k us"
    unfolding set_seen newer_slots_def by auto
  then have "card {s. slot < s \<and> (\<exists>v. (k, v, s) \<in> set (seen pick D I E us))} \<le> vm_depth m"
    using card_mono [OF finite, of _ "newer_slots slot k us"] assms(2,3) by (meson order_trans)
  from vm_read_past [OF seen_in_slot_order [OF assms(1)] this] show ?thesis
    unfolding vm_get_at_slot_def seen_filter using m by (simp add: vm_run_observe_all)
qed

lemma seen_read_origin:
  assumes "vm_get_at_slot k slot (vmap.observe_all (seen pick D I E us) m) = Some v"
    and "vm_inner m = Map.empty"
  shows "\<exists>u \<in> set us. \<exists>st. au_pubkey u = k \<and> au_slot u \<le> slot \<and>
     classify D I E (au_owner u) (au_data u) = Inr st \<and> pick st = Some v"
proof -
  let ?obs = "seen pick D I E us"
  have m: "m = vm_with_depth (vm_depth m)"
    using assms(2) by (cases m) (simp add: vm_with_depth_def)
  obtain s where "vm_get_at_slot_with_slot k slot (vm_run ?obs (vm_with_depth (vm_depth m))) = Some (v, s)"
    using assms(1) m by (auto simp: vm_get_at_slot_def vm_run_observe_all)
  then obtain x where "find (\<lambda>x. st_slot x \<le> slot) (take (Suc (vm_depth m)) (observation_log k ?obs)) = Some x"
    "v = st_state x" "s = st_slot x"
    by (auto simp: vm_run_lookup log_lookup_def)
  then have "x \<in> set (observation_log k ?obs)" "st_slot x \<le> slot"
    by (auto simp: find_Some_iff intro: in_set_takeD [OF nth_mem])
  with observation_log_set [of x k ?obs] \<open>v = st_state x\<close> show ?thesis
    unfolding set_seen by force
qed

section \<open>A stream for the examples\<close>

definition vault_data :: "u64 \<Rightarrow> bytes" where
  "vault_data b = replicate 32 1 @ replicate 32 9 @ le_bytes 8 (unat b) @ replicate 93 0"

definition example_updates :: "account_update list" where
  "example_updates =
     [account_update_new (replicate 32 7) (id_pumpswap mainnet_ids)
        (pumpswap_layout (disc_pool mainnet_ids) example_pool @ replicate 56 0) 1,
      account_update_new (replicate 32 3) (te_spl_token_id mainnet_tokens) (vault_data 500) 2,
      account_update_new (replicate 32 4) (te_spl_token_id mainnet_tokens) (vault_data 600) 3]"

definition example_cache :: "(unit, unit, unit, unit) local_cache" where
  "example_cache = on_data (\<lambda>d. d \<lparr> cd_pumpswap_fee_config := Some (PumpSwapFeeConfig example_fee_config) \<rparr>)
     (cache_new cache_config_default)"

definition vault_account :: "u64 \<Rightarrow> token_account" where
  "vault_account b = token_account_new \<lparr> tk_mint = replicate 32 1, tk_program = SplToken \<rparr> (replicate 32 9) b"

lemma classify_vault:
  "ids_ok I E \<Longrightarrow> classify D I E (te_spl_token_id E) (vault_data b) = Inr (Saw_token (vault_account b))"
  using ids_neq [of I E]
  by (simp add: classify_def vault_data_def vault_account_def token_account_base_len_def token_deserialize_def
      derived_deserialize_def token_account_from_account_data_def token_account_new_def eq_commute [of "te_spl_token_id E"])

lemma classify_pool:
  assumes "ids_ok I E" "borsh_ok (de_borsh D)" "pool_keys_ok p"
  shows "classify D I E (id_pumpswap I) (pumpswap_layout (disc_pool I) p @ pad) = Inr (Saw_pool p)"
proof -
  have "pumpswap_pool_from_account_data (de_borsh D) (disc_pool I) (pumpswap_layout (disc_pool I) p @ pad) = Inr p"
    using pumpswap_layout_decode [OF assms(2) ids_neq(16) [OF assms(1)] assms(3)] .
  moreover have "take 8 (pumpswap_layout (disc_pool I) p @ pad) = disc_pool I"
    "8 \<le> length (pumpswap_layout (disc_pool I) p @ pad)"
    using ids_neq(16) [OF assms(1)] by (simp_all add: pumpswap_layout_def)
  ultimately show ?thesis
    using ids_neq(2,5) [OF assms(1)]
    by (simp add: classify_def pumpswap_deserialize_def derived_deserialize_def eq_commute [of "id_pumpswap I"])
qed

lemma example_seen:
  "seen pick_pool decode_std mainnet_ids mainnet_tokens example_updates = [(replicate 32 7, example_pool, 1)]"
  "seen pick_token decode_std mainnet_ids mainnet_tokens example_updates =
     [(replicate 32 3, vault_account 500, 2), (replicate 32 4, vault_account 600, 3)]"
proof -
  have "pool_keys_ok example_pool" "borsh_ok (de_borsh decode_std)"
    by (simp_all add: pool_keys_ok_def example_pool_def pubkey_default_def decode_std_def borsh_std_ok)
  then show
    "seen pick_pool decode_std mainnet_ids mainnet_tokens example_updates = [(replicate 32 7, example_pool, 1)]"
    "seen pick_token decode_std mainnet_ids mainnet_tokens example_updates =
       [(replicate 32 3, vault_account 500, 2), (replicate 32 4, vault_account 600, 3)]"
    using mainnet_ids_ok
    by (simp_all add: example_updates_def account_update_new_def classify_vault classify_pool)
qed

lemma example_cache_simps:
  "cd_pumpswap_pools (lc_data example_cache) = vm_with_depth 8"
  "cd_bonding_curves (lc_data example_cache) = vm_with_depth 8"
  "cd_token_accounts (lc_data example_cache) = vm_with_depth 8"
  "cd_pumpswap_fee_config (lc_data example_cache) = Some (PumpSwapFeeConfig example_fee_config)"
  by (simp_all add: example_cache_def on_data_def cache_new_def cache_of_def cache_config_default_def
      with_depths_def field_depths_default_def)

lemma example_versioned:
  "versioned_updates mainnet_ids example_updates = example_updates"
  "filter (\<lambda>u. au_owner u = id_pump_fees mainnet_ids) example_updates = []"
  by (simp_all add: versioned_updates_def example_updates_def account_update_new_def mainnet_ids_def
      mainnet_tokens_def)

lemma example_no_fees:
  assumes "set us \<subseteq> set example_updates"
  shows "versioned_updates mainnet_ids us = us" "fee_updates D mainnet_ids E k us = []"
proof -
  have owner: "\<forall>u \<in> set us. au_owner u \<noteq> id_pump_fees mainnet_ids"
    using assms example_versioned(2) by (auto simp: filter_empty_conv)
  then show "versioned_updates mainnet_ids us = us"
    by (simp add: versioned_updates_def)
  have "filter (\<lambda>u. au_owner u = id_pump_fees mainnet_ids) us = []"
    using owner by (simp add: filter_empty_conv)
  then show "fee_updates D mainnet_ids E k us = []"
    using fee_updates_cong [of mainnet_ids us "[]"] by simp
qed

lemma example_registry:
  obtains r :: "(unit, unit, unit, unit) local_cache registry"
  where "register_all (pump_handlers decode_std mainnet_ids mainnet_tokens None) registry_new = Some r"
  using pump_handlers_register [OF mainnet_ids_ok] by blast

section \<open>Properties\<close>

lemma quote_reads_cong:
  assumes "\<And>k. vm_get_at_slot k slot (cd_bonding_curves (lc_data c)) = vm_get_at_slot k slot (cd_bonding_curves (lc_data c'))"
    and "\<And>k. vm_get_at_slot k slot (cd_pumpswap_pools (lc_data c)) = vm_get_at_slot k slot (cd_pumpswap_pools (lc_data c'))"
    and "\<And>k. vm_get_at_slot k slot (cd_token_accounts (lc_data c)) = vm_get_at_slot k slot (cd_token_accounts (lc_data c'))"
    and "cd_pumpfun_fee_config (lc_data c) = cd_pumpfun_fee_config (lc_data c')"
    and "cd_pumpswap_fee_config (lc_data c) = cd_pumpswap_fee_config (lc_data c')"
  shows "quote_assemble oc proto c pool slot = quote_assemble oc proto c' pool slot"
  by (cases proto) (simp_all add: quote_assemble_def pumpfun_quote_assemble_def pumpswap_quote_assemble_def assms)

text \<open>C1: A quote does not depend on the order in which the updates of keyed accounts arrive, nor on
  how often each is delivered. Two streams of the same updates of curves, pools and vaults, fed to a
  cache whose versioned fields are empty, leave caches that assemble the same bundle for every pool
  at every slot that is not before those updates, on three conditions: an account has at most one
  update per slot (within a slot the last one to arrive wins), the slot is not before any of them, and
  the two streams leave the same value of each fee configuration, which is a singleton without a slot
  where the last one to arrive wins. Each update passes through the registry's dispatch, the handler's
  decoding and the slot-aware insertion into the cache's field.\<close>

theorem quote_order_independent:
  assumes "ids_ok I E" "register_all (pump_handlers D I E w) registry_new = Some r"
    and same: "set (versioned_updates I us') = set (versioned_updates I us)"
    and one: "\<forall>u \<in> set (versioned_updates I us). \<forall>u' \<in> set (versioned_updates I us).
      au_pubkey u = au_pubkey u' \<and> au_slot u = au_slot u' \<longrightarrow> u = u'"
    and past: "\<forall>u \<in> set (versioned_updates I us). au_slot u \<le> slot"
    and fees: "\<forall>k. latest (fee_updates D I E k us') None = latest (fee_updates D I E k us) None"
    and fresh: "vm_inner (cd_bonding_curves (lc_data c)) = Map.empty"
      "vm_inner (cd_pumpswap_pools (lc_data c)) = Map.empty"
      "vm_inner (cd_token_accounts (lc_data c)) = Map.empty"
  shows "quote_assemble oc proto (feed r us c) pool slot = quote_assemble oc proto (feed r us' c) pool slot"
proof -
  note reads = seen_read_order_independent [OF same one past]
  show ?thesis
    using reads [OF fresh(1), of _ pick_curve D I E] reads [OF fresh(2), of _ pick_pool D I E]
      reads [OF fresh(3), of _ pick_token D I E]
    by (intro quote_reads_cong)
      (simp_all add: feed_fields [OF assms(1,2)] feed_fee_configs [OF assms(1,2)] picks_versioned [OF assms(1)]
        latest_cong [OF fees [rule_format, symmetric]])
qed

lemma quote_order_independent_witness:
  "\<exists>r :: (unit, unit, unit, unit) local_cache registry.
     quote_assemble True PumpSwap (feed r example_updates example_cache) (replicate 32 7) 5 =
     quote_assemble True PumpSwap (feed r (rev example_updates @ example_updates) example_cache) (replicate 32 7) 5"
proof -
  obtain r :: "(unit, unit, unit, unit) local_cache registry"
    where r: "register_all (pump_handlers decode_std mainnet_ids mainnet_tokens None) registry_new = Some r"
    by (rule example_registry)
  have "quote_assemble True PumpSwap (feed r example_updates example_cache) (replicate 32 7) 5 =
     quote_assemble True PumpSwap (feed r (rev example_updates @ example_updates) example_cache) (replicate 32 7) 5"
  proof (rule quote_order_independent [OF mainnet_ids_ok r])
    have "set (rev example_updates @ example_updates) \<subseteq> set example_updates"
      by simp
    note none = example_no_fees [OF this]
    show "set (versioned_updates mainnet_ids (rev example_updates @ example_updates)) =
        set (versioned_updates mainnet_ids example_updates)"
      unfolding none example_versioned by simp
    show "\<forall>k. latest (fee_updates decode_std mainnet_ids mainnet_tokens k (rev example_updates @ example_updates)) None =
        latest (fee_updates decode_std mainnet_ids mainnet_tokens k example_updates) None"
      unfolding none example_no_fees [OF order_refl] by simp
  qed (unfold example_versioned, auto simp: example_updates_def account_update_new_def example_cache_simps
      vm_with_depth_def)
  then show ?thesis by blast
qed

text \<open>C7: What a quote as of a past slot is: when the updates of every curve, pool and vault arrive
  in slot order, at most \<open>d\<close> of an account's slots are newer than the reference slot, \<open>d\<close> is a depth that
  all the versioned fields keep, and these fields start empty, the bundle assembled at the reference
  slot is the one that a cache assembles which was fed the updates up to that slot and every fee
  configuration, the later ones too: a fee configuration is a singleton read at its current value. When no
  fee configuration is newer than the slot, it is the bundle of a cache fed the updates up to the slot.\<close>

theorem quote_as_of_slot:
  assumes "ids_ok I E" "register_all (pump_handlers D I E w) registry_new = Some r"
    and order: "in_order (versioned_updates I us)" and newer: "\<forall>k. card (newer_slots slot k (versioned_updates I us)) \<le> d"
    and fresh: "vm_inner (cd_bonding_curves (lc_data c)) = Map.empty"
      "vm_inner (cd_pumpswap_pools (lc_data c)) = Map.empty"
      "vm_inner (cd_token_accounts (lc_data c)) = Map.empty"
    and depth: "d \<le> vm_depth (cd_bonding_curves (lc_data c))"
      "d \<le> vm_depth (cd_pumpswap_pools (lc_data c))" "d \<le> vm_depth (cd_token_accounts (lc_data c))"
  shows "quote_assemble oc proto (feed r us c) pool slot =
      quote_assemble oc proto
        (feed r (filter (\<lambda>u. au_slot u \<le> slot \<or> au_owner u = id_pump_fees I) us) c) pool slot \<and>
    ((\<forall>u \<in> set us. au_owner u = id_pump_fees I \<longrightarrow> au_slot u \<le> slot) \<longrightarrow>
      quote_assemble oc proto (feed r us c) pool slot =
      quote_assemble oc proto (feed r (filter (\<lambda>u. au_slot u \<le> slot) us) c) pool slot)"
proof -
  let ?old = "filter (\<lambda>u. au_slot u \<le> slot \<or> au_owner u = id_pump_fees I) us"
  note reads = seen_read_past [OF order newer [rule_format]]
  have versioned_old: "versioned_updates I ?old = filter (\<lambda>u. au_slot u \<le> slot) (versioned_updates I us)"
    by (simp add: versioned_updates_def conj_commute cong: conj_cong)
  have fees: "fee_updates D I E k ?old = fee_updates D I E k us" for k
    by (rule fee_updates_cong) (simp add: conj_disj_distribR conj_commute cong: conj_cong)
  have past: "quote_assemble oc proto (feed r us c) pool slot = quote_assemble oc proto (feed r ?old c) pool slot"
    using reads [OF depth(1) fresh(1), of _ pick_curve D I E] reads [OF depth(2) fresh(2), of _ pick_pool D I E]
      reads [OF depth(3) fresh(3), of _ pick_token D I E] picks_versioned [OF assms(1), of D us] picks_versioned [OF assms(1), of D ?old]
    by (intro quote_reads_cong)
      (simp_all add: feed_fields [OF assms(1,2)] feed_fee_configs [OF assms(1,2)] fees versioned_old)
  moreover have "?old = filter (\<lambda>u. au_slot u \<le> slot) us"
    if "\<forall>u \<in> set us. au_owner u = id_pump_fees I \<longrightarrow> au_slot u \<le> slot"
    using that by (intro filter_cong) auto
  ultimately show ?thesis
    by auto
qed

lemma quote_as_of_slot_witness:
  "\<exists>r :: (unit, unit, unit, unit) local_cache registry.
     quote_assemble True PumpSwap (feed r example_updates example_cache) (replicate 32 7) 2 =
     quote_assemble True PumpSwap (feed r (filter (\<lambda>u. au_slot u \<le> 2) example_updates) example_cache) (replicate 32 7) 2"
proof -
  obtain r :: "(unit, unit, unit, unit) local_cache registry"
    where r: "register_all (pump_handlers decode_std mainnet_ids mainnet_tokens None) registry_new = Some r"
    by (rule example_registry)
  have "newer_slots 2 k example_updates \<subseteq> {3}" for k
    by (auto simp: newer_slots_def example_updates_def account_update_new_def)
  then have newer: "\<forall>k. card (newer_slots 2 k (versioned_updates mainnet_ids example_updates)) \<le> 1"
    using card_mono [of "{3::u64}"] unfolding example_versioned by fastforce
  have order: "in_order (versioned_updates mainnet_ids example_updates)"
    unfolding example_versioned by (simp add: in_order_def example_updates_def account_update_new_def)
  have "quote_assemble True PumpSwap (feed r example_updates example_cache) (replicate 32 7) 2 =
     quote_assemble True PumpSwap (feed r (filter (\<lambda>u. au_slot u \<le> 2) example_updates) example_cache) (replicate 32 7) 2"
    by (rule quote_as_of_slot [OF mainnet_ids_ok r order newer, THEN conjunct2, rule_format])
      (simp_all add: example_cache_simps, simp_all add: example_updates_def account_update_new_def
        vm_with_depth_def mainnet_ids_def mainnet_tokens_def, auto)
  then show ?thesis by blast
qed

text \<open>C23: Where the accounts of a PumpSwap bundle come from, when the versioned fields of the cache
  started empty: the pool from an update of the pool's key, the two reserves from updates of the vaults
  that the pool names, none of them later than the reference slot, each decoded by the handler of its
  owner. The fee configuration has no slot: it is the last that an update of its key brought, however
  late, or the one the cache held before.\<close>

theorem quote_provenance:
  assumes "ids_ok I E" "register_all (pump_handlers D I E w) registry_new = Some r"
    and "quote_assemble oc PumpSwap (feed r us c) pool slot = Some (Inr (QPumpSwap q))"
    and "vm_inner (cd_pumpswap_pools (lc_data c)) = Map.empty"
      "vm_inner (cd_token_accounts (lc_data c)) = Map.empty"
  shows "(\<exists>u \<in> set us. au_pubkey u = pool \<and> au_slot u \<le> slot \<and>
            classify D I E (au_owner u) (au_data u) = Inr (Saw_pool (wq_pool q))) \<and>
         (\<exists>u \<in> set us. au_pubkey u = pp_pool_base_token_account (wq_pool q) \<and> au_slot u \<le> slot \<and>
            classify D I E (au_owner u) (au_data u) = Inr (Saw_token (wq_base q))) \<and>
         (\<exists>u \<in> set us. au_pubkey u = pp_pool_quote_token_account (wq_pool q) \<and> au_slot u \<le> slot \<and>
            classify D I E (au_owner u) (au_data u) = Inr (Saw_token (wq_quote q))) \<and>
         Some (wq_fee_config q) =
           latest (map PumpSwapFeeConfig (fee_updates D I E (id_pumpswap_fee_config I) us))
             (cd_pumpswap_fee_config (lc_data c))"
proof -
  note fields = feed_fields [OF assms(1,2), of us c]
  have pool: "pick_pool st = Some v \<longleftrightarrow> st = Saw_pool v" for st v
    by (cases st) auto
  have token: "pick_token st = Some v \<longleftrightarrow> st = Saw_token v" for st v
    by (cases st) auto
  have "vm_get_at_slot pool slot (cd_pumpswap_pools (lc_data (feed r us c))) = Some (wq_pool q)"
    "vm_get_at_slot (pp_pool_base_token_account (wq_pool q)) slot (cd_token_accounts (lc_data (feed r us c))) = Some (wq_base q)"
    "vm_get_at_slot (pp_pool_quote_token_account (wq_pool q)) slot (cd_token_accounts (lc_data (feed r us c))) = Some (wq_quote q)"
    "cd_pumpswap_fee_config (lc_data (feed r us c)) = Some (wq_fee_config q)"
    using assms(3) by (auto simp: quote_assemble_def pumpswap_quote_assemble_def split: option.splits bind_splits)
  then show ?thesis
    using seen_read_origin [of pool slot pick_pool D I E us, OF _ assms(4)]
      seen_read_origin [of _ slot pick_token D I E us, OF _ assms(5)] fields
      feed_fee_configs [OF assms(1,2), of us c]
    by (simp add: pool token)
qed

lemma quote_provenance_witness:
  "\<exists>(r :: (unit, unit, unit, unit) local_cache registry) q.
     quote_assemble True PumpSwap (feed r example_updates example_cache) (replicate 32 7) 5 =
       Some (Inr (QPumpSwap q)) \<and>
     (\<exists>u \<in> set example_updates. au_pubkey u = pp_pool_quote_token_account (wq_pool q) \<and> au_slot u \<le> 5 \<and>
        classify decode_std mainnet_ids mainnet_tokens (au_owner u) (au_data u) = Inr (Saw_token (wq_quote q)))"
proof -
  obtain r :: "(unit, unit, unit, unit) local_cache registry"
    where r: "register_all (pump_handlers decode_std mainnet_ids mainnet_tokens None) registry_new = Some r"
    by (rule example_registry)
  have "cd_pumpswap_fee_config (lc_data (feed r example_updates example_cache)) =
      Some (PumpSwapFeeConfig example_fee_config)"
    using feed_fee_configs [OF mainnet_ids_ok r, of example_updates example_cache]
    by (simp only: example_no_fees [OF order_refl] example_cache_simps latest_simps list.map)
  then have "\<exists>q. quote_assemble True PumpSwap (feed r example_updates example_cache) (replicate 32 7) 5 =
      Some (Inr (QPumpSwap q))"
    using feed_fields [OF mainnet_ids_ok r, of example_updates example_cache]
    by (simp add: quote_assemble_def pumpswap_quote_assemble_def example_seen example_cache_simps
        vmap.observe_def vm_insert_def vm_with_depth_def vs_new_def st_new_def vm_get_at_slot_def
        vm_get_at_slot_with_slot_def example_pool_def)
  then obtain q where q: "quote_assemble True PumpSwap (feed r example_updates example_cache) (replicate 32 7) 5 =
      Some (Inr (QPumpSwap q))" by blast
  show ?thesis
    using q quote_provenance [OF mainnet_ids_ok r q] by (auto simp: example_cache_simps vm_with_depth_def)
qed

text \<open>Assembling a quote never panics. It refuses a protocol without a bundle as not ported, whatever
  the cache holds, and a ported one as incomplete exactly when an account it reads is missing at
  the slot: for Pump.fun the curve or the fee configuration, for PumpSwap the pool, one of the
  accounts it declares as dependencies, or the fee configuration.\<close>

lemma quote_refusals:
  "quote_assemble oc proto c pool slot \<noteq> None \<and>
   (quote_assemble oc proto c pool slot = Some (Inl (NotPorted proto)) \<longleftrightarrow> proto \<notin> {Pumpfun, PumpSwap}) \<and>
   (quote_assemble oc Pumpfun c pool slot = Some (Inl (Incomplete Pumpfun)) \<longleftrightarrow>
      vm_get_at_slot pool slot (cd_bonding_curves (lc_data c)) = None \<or>
      cd_pumpfun_fee_config (lc_data c) = None) \<and>
   (quote_assemble oc PumpSwap c pool slot = Some (Inl (Incomplete PumpSwap)) \<longleftrightarrow>
      cd_pumpswap_fee_config (lc_data c) = None \<or>
      (case vm_get_at_slot pool slot (cd_pumpswap_pools (lc_data c)) of
         None \<Rightarrow> True
       | Some p \<Rightarrow> \<exists>d \<in> set (pumpswap_dependent_accounts p).
           vm_get_at_slot (d_pubkey d) slot (cd_token_accounts (lc_data c)) = None))"
proof -
  have cap: "bonding_curve_market_cap oc a b t \<noteq> None" for a b t
  proof -
    have "unat a * unat t < 2 ^ 128"
      by (rule mult_u64_fits [OF unat_u64_less unat_u64_less])
    then show ?thesis
      by (simp add: bonding_curve_market_cap_def u_mul_def u_div_def unat_eq_zero)
  qed
  have never: "quote_assemble oc p c pool slot \<noteq> None" for p
    by (cases p) (auto simp: quote_assemble_def pumpfun_quote_assemble_def cap split: option.splits bind_splits)
  have ported: "quote_assemble oc proto c pool slot = Some (Inl (NotPorted proto)) \<longleftrightarrow> proto \<notin> {Pumpfun, PumpSwap}"
    by (cases proto) (auto simp: quote_assemble_def split: option.splits)
  have curve: "quote_assemble oc Pumpfun c pool slot = Some (Inl (Incomplete Pumpfun)) \<longleftrightarrow>
      vm_get_at_slot pool slot (cd_bonding_curves (lc_data c)) = None \<or> cd_pumpfun_fee_config (lc_data c) = None"
    using cap by (auto simp: quote_assemble_def pumpfun_quote_assemble_def split: option.splits bind_splits)
  have swap: "quote_assemble oc PumpSwap c pool slot = Some (Inl (Incomplete PumpSwap)) \<longleftrightarrow>
      cd_pumpswap_fee_config (lc_data c) = None \<or>
      (case vm_get_at_slot pool slot (cd_pumpswap_pools (lc_data c)) of
         None \<Rightarrow> True
       | Some p \<Rightarrow> \<exists>d \<in> set (pumpswap_dependent_accounts p).
           vm_get_at_slot (d_pubkey d) slot (cd_token_accounts (lc_data c)) = None)"
    by (auto simp: quote_assemble_def pumpswap_quote_assemble_def pumpswap_dependent_accounts_def
        dependency_new_def split: option.splits bind_splits)
  show ?thesis
    using never ported curve swap by blast
qed

end
