(* ===== verification/InputFee.thy ===== *)
theory InputFee
  imports ConstantProduct AccountState
begin

text \<open>
  What the pools with a fee on the input share (Raydium V4, CPMM and Launchpad, Meteora DBC): a
  fee that is a floor of a rate on the amount, the rest traded at constant product, prices scaled
  by decimals. Their contracts are two locales: \<open>input_fee_math\<close>, which all four satisfy, and
  \<open>input_fee_pool\<close>, whose fee is in addition the sum of its two parts and which therefore gives
  the contract of \<open>SwapMath\<close>. The amount of an exact-out request is taken as an input by all of
  them; the law \<open>amount_only\<close> says so.
\<close>

section \<open>Fees and prices\<close>

text \<open>The fee of a rate \<open>n / d\<close>; a zero denominator charges nothing (\<open>div\<close> by zero is zero).\<close>

definition floor_fee :: "nat \<Rightarrow> nat \<Rightarrow> nat \<Rightarrow> nat" where
  "floor_fee n d a = a * n div d"

text \<open>A raw amount in units of the token: \<open>n as f64 / 10f64.powi(k)\<close>.\<close>

definition ui_amount :: "nat \<Rightarrow> int \<Rightarrow> f64" where
  "ui_amount n k = f_div (f_of_nat n) (f_powi (f_of_nat 10) k)"

lemma floor_fee_le: "n \<le> d \<Longrightarrow> floor_fee n d a \<le> a"
  unfolding floor_fee_def by (metis div_le_mono div_mult_self_is_m gr0I le0 div_by_0 mult_le_mono2)

text \<open>What is left after the fee grows with the amount, at every rate.\<close>

lemma floor_fee_net_mono:
  assumes "a \<le> b"
  shows "a - floor_fee n d a \<le> b - floor_fee n d b"
proof (cases "d = 0")
  case False
  show ?thesis
  proof (cases "n \<le> d")
    case True
    have "b * n = a * n + (b - a) * n"
      using assms by (simp flip: add_mult_distrib)
    also have "\<dots> \<le> a * n + (b - a) * d"
      using True by simp
    finally have "floor_fee n d b \<le> (a * n + (b - a) * d) div d"
      unfolding floor_fee_def by (rule div_le_mono)
    then have "floor_fee n d b \<le> floor_fee n d a + (b - a)"
      using False by (simp add: floor_fee_def)
    then show ?thesis
      using assms floor_fee_le [OF True, of a] by linarith
  next
    case n: False
    have "a * d \<le> a * n" using n by simp
    then have "a \<le> floor_fee n d a"
      using False unfolding floor_fee_def by (metis div_le_mono div_mult_self_is_m gr0I)
    then show ?thesis by simp
  qed
qed (use assms in \<open>simp add: floor_fee_def\<close>)

text \<open>The operators of a constant-product step on reserves and amounts that are \<open>u64\<close> values.\<close>

lemma cp_operators:
  assumes "rin < 2 ^ 64" "rout < 2 ^ 64" "a < 2 ^ 64" "net \<le> a"
  shows "u_mul oc 128 rout net = Some (rout * net)"
    and "u_add oc 128 rin net = Some (rin + net)"
    and "rin + net \<noteq> 0 \<Longrightarrow> u_div (rout * net) (rin + net) = Some (cp_out rin rout net)"
    and "u_add oc 128 rin a = Some (rin + a)"
    and "u_sub oc 128 rout (cp_out rin rout net) = Some (rout - cp_out rin rout net)"
    and "unat (as_u64 (cp_out rin rout net)) = cp_out rin rout net"
proof -
  have "net < 2 ^ 64" using assms by linarith
  then have "rout * net < 2 ^ 128" using assms(2) by (intro mult_u64_fits)
  then show "u_mul oc 128 rout net = Some (rout * net)" by (rule u_mul_ok)
  show "u_add oc 128 rin net = Some (rin + net)" "u_add oc 128 rin a = Some (rin + a)"
    using assms by (simp_all add: u_add_ok)
  show "rin + net \<noteq> 0 \<Longrightarrow> u_div (rout * net) (rin + net) = Some (cp_out rin rout net)"
    by (simp add: u_div_ok cp_out_def)
  show "u_sub oc 128 rout (cp_out rin rout net) = Some (rout - cp_out rin rout net)"
    by (rule u_sub_ok) (rule cp_out_le)
  show "unat (as_u64 (cp_out rin rout net)) = cp_out rin rout net"
    using cp_out_le [of rin rout net] assms(2) by (intro unat_as_u64) linarith
qed

lemma opposite_opposite [simp]: "opposite (opposite d) = d"
  by (cases d) simp_all

section \<open>The contract\<close>

text \<open>
  \<open>rin\<close> and \<open>rout\<close> are the reserves a direction trades between, \<open>fee\<close> the fee on an amount and
  \<open>in_range\<close> the requests whose reserves and amount the code's arithmetic does not saturate.
\<close>

locale input_fee_math =
  fixes calc :: "'s \<Rightarrow> swap_params \<Rightarrow> (error, swap_output) outcome"
    and rin rout :: "'s \<Rightarrow> swap_direction \<Rightarrow> nat"
    and fee :: "'s \<Rightarrow> nat \<Rightarrow> nat"
    and in_range :: "'s \<Rightarrow> swap_params \<Rightarrow> bool"
  assumes quoted_in: "calc s p = Some (Inr q) \<Longrightarrow> so_amount_in q = amount_value p"
    and quoted_out: "calc s p = Some (Inr q) \<Longrightarrow> in_range s p \<Longrightarrow> unat (so_amount_out q) =
          cp_out (rin s (sp_direction p)) (rout s (sp_direction p))
            (unat (amount_value p) - fee s (unat (amount_value p)))"
    and net_mono: "a \<le> b \<Longrightarrow> a - fee s a \<le> b - fee s b"
    and two_sided: "rin s d = rout s (opposite d)"
    and amount_only: "sp_direction p = sp_direction p' \<Longrightarrow> amount_value p = amount_value p' \<Longrightarrow>
          calc s p = calc s p'"
begin

lemma out_le: "calc s p = Some (Inr q) \<Longrightarrow> in_range s p \<Longrightarrow> unat (so_amount_out q) \<le> rout s (sp_direction p)"
  by (simp add: quoted_out cp_out_le)

text \<open>The whole input stays in the pool: its product never falls.\<close>

lemma product_kept:
  assumes "calc s p = Some (Inr q)" "in_range s p"
  shows "rin s (sp_direction p) * rout s (sp_direction p) \<le>
    (rin s (sp_direction p) + unat (so_amount_in q)) *
    (rout s (sp_direction p) - unat (so_amount_out q))"
proof -
  let ?d = "sp_direction p" and ?a = "unat (amount_value p)"
  have "rin s ?d * rout s ?d \<le> (rin s ?d + (?a - fee s ?a)) * (rout s ?d - unat (so_amount_out q))"
    unfolding quoted_out [OF assms] by (rule cp_product)
  also have "\<dots> \<le> (rin s ?d + ?a) * (rout s ?d - unat (so_amount_out q))"
    by (intro mult_le_mono1) simp
  finally show ?thesis
    by (simp add: quoted_in [OF assms(1)])
qed

lemma out_mono:
  assumes "calc s p = Some (Inr q)" "calc s p' = Some (Inr q')" "sp_direction p = sp_direction p'"
    "amount_value p \<le> amount_value p'" "in_range s p" "in_range s p'"
  shows "so_amount_out q \<le> so_amount_out q'"
  using assms(3) cp_out_mono [OF net_mono] assms(4)
  by (simp add: word_le_nat_alt quoted_out [OF assms(1,5)] quoted_out [OF assms(2,6)])

text \<open>Trading back at the reserves the first trade left behind returns at most what it cost.\<close>

lemma no_round_trip_gain:
  assumes "calc s p = Some (Inr q)" "calc s' p' = Some (Inr q')"
    and "sp_direction p' = opposite (sp_direction p)" "amount_value p' \<le> so_amount_out q"
    and "rin s' (sp_direction p) = rin s (sp_direction p) + unat (so_amount_in q)"
    and "rout s' (sp_direction p) = rout s (sp_direction p) - unat (so_amount_out q)"
    and "in_range s p" "in_range s' p'"
  shows "so_amount_out q' \<le> so_amount_in q"
proof -
  let ?d = "sp_direction p" and ?a = "unat (amount_value p)" and ?b = "unat (amount_value p')"
  have "rin s' (sp_direction p') = rout s' ?d" "rout s' (sp_direction p') = rin s' ?d"
    using assms(3) two_sided [of s' "opposite ?d"] two_sided [of s' ?d]
    by (cases ?d; simp)+
  then have "unat (so_amount_out q') = cp_out (rout s ?d - unat (so_amount_out q)) (rin s ?d + ?a)
      (?b - fee s' ?b)"
    using assms(5,6) by (simp add: quoted_out [OF assms(2,8)] quoted_in [OF assms(1)])
  also have "\<dots> \<le> ?a"
    using assms(4) unfolding quoted_out [OF assms(1,7)]
    by (intro cp_round_trip) (simp_all add: word_le_nat_alt quoted_out [OF assms(1,7)])
  finally show ?thesis
    by (simp add: word_le_nat_alt quoted_in [OF assms(1)])
qed

lemma exact_out_is_exact_in: "calc s (buy_exact_out a) = calc s (buy a)"
  "calc s (sell_exact_out a) = calc s (sell a)"
  by (rule amount_only; simp add: buy_exact_out_def buy_def sell_exact_out_def sell_def amount_value_def)+

end

text \<open>
  The reference quote: what a pool of this kind answers, as a function of the two reserves, the
  fee and the amount alone.
\<close>

definition input_fee_quote :: "nat \<Rightarrow> nat \<Rightarrow> nat \<Rightarrow> u64 \<Rightarrow> error + u64 \<times> u64 \<times> u64" where
  "input_fee_quote ri ro f a =
     (if ri + (unat a - f) = 0 then Inl (InsufficientReserves a 0)
      else Inr (a, as_u64 (cp_out ri ro (unat a - f)), as_u64 f))"

definition quote_amounts :: "swap_output \<Rightarrow> u64 \<times> u64 \<times> u64" where
  "quote_amounts q = (so_amount_in q, so_amount_out q, so_fee q)"

definition amounts_of :: "(error, swap_output) outcome \<Rightarrow> (error, u64 \<times> u64 \<times> u64) outcome" where
  "amounts_of r = map_option (map_sum id quote_amounts) r"

text \<open>
  A pool whose quotes are the reference ones whenever the fee does not exceed the amount, in both
  build profiles, and which panics in a build with overflow checks when it does.
\<close>

locale input_fee_pool =
  fixes calc :: "bool \<Rightarrow> 's \<Rightarrow> swap_params \<Rightarrow> (error, swap_output) outcome"
    and rin rout :: "'s \<Rightarrow> swap_direction \<Rightarrow> nat"
    and fee :: "'s \<Rightarrow> nat \<Rightarrow> nat"
  assumes reference: "fee s (unat (amount_value p)) \<le> unat (amount_value p) \<Longrightarrow>
        amounts_of (calc oc s p) = Some (input_fee_quote (rin s (sp_direction p)) (rout s (sp_direction p))
          (fee s (unat (amount_value p))) (amount_value p))"
    and uncovered: "unat (amount_value p) < fee s (unat (amount_value p)) \<Longrightarrow> calc True s p = None"
    and unsplit: "calc oc s p = Some (Inr q) \<Longrightarrow> so_protocol_fee q = so_fee q \<and> so_lp_fee q = 0"
    and reserve_bound: "rin s d < 2 ^ 64"
    and net_mono: "a \<le> b \<Longrightarrow> a - fee s a \<le> b - fee s b"
    and two_sided: "rin s d = rout s (opposite d)"
    and amount_only: "sp_direction p = sp_direction p' \<Longrightarrow> amount_value p = amount_value p' \<Longrightarrow>
          calc oc s p = calc oc s p'"
begin

lemma quoted:
  assumes "calc True s p = Some (Inr q)"
  shows "so_amount_in q = amount_value p"
    and "unat (so_amount_out q) = cp_out (rin s (sp_direction p)) (rout s (sp_direction p))
          (unat (amount_value p) - fee s (unat (amount_value p)))"
    and "unat (so_fee q) = fee s (unat (amount_value p))"
proof -
  let ?a = "unat (amount_value p)" and ?d = "sp_direction p"
  have le: "fee s ?a \<le> ?a"
    using assms uncovered [of p s] by (cases "fee s ?a \<le> ?a") simp_all
  have ro: "rout s ?d < 2 ^ 64"
    using two_sided [of s "opposite ?d"] reserve_bound [of s "opposite ?d"] by simp
  have "so_amount_in q = amount_value p \<and>
      so_amount_out q = as_u64 (cp_out (rin s ?d) (rout s ?d) (?a - fee s ?a)) \<and>
      so_fee q = as_u64 (fee s ?a)"
    using reference [OF le, of True] assms
    by (simp add: amounts_of_def input_fee_quote_def quote_amounts_def split: if_splits)
  moreover have "cp_out (rin s ?d) (rout s ?d) (?a - fee s ?a) < 2 ^ 64"
    by (rule order_le_less_trans [OF cp_out_le ro])
  moreover have "fee s ?a < 2 ^ 64"
    by (rule order_le_less_trans [OF le unat_u64_less])
  ultimately show "so_amount_in q = amount_value p" "unat (so_fee q) = fee s ?a"
    "unat (so_amount_out q) = cp_out (rin s ?d) (rout s ?d) (?a - fee s ?a)"
    by simp_all
qed

lemma total:
  fixes s p
  defines "a \<equiv> unat (amount_value p)" and "f \<equiv> fee s (unat (amount_value p))"
    and "ri \<equiv> rin s (sp_direction p)" and "ro \<equiv> rout s (sp_direction p)"
  assumes "f \<le> a"
  shows "if ri + (a - f) = 0 then calc oc s p = Some (Inl (InsufficientReserves (amount_value p) 0))
    else \<exists>q. calc oc s p = Some (Inr q) \<and> so_amount_in q = amount_value p \<and>
           unat (so_amount_out q) = cp_out ri ro (a - f) \<and> unat (so_amount_out q) \<le> ro \<and>
           unat (so_fee q) = f \<and> so_protocol_fee q = so_fee q \<and> so_lp_fee q = 0"
proof -
  have ref: "amounts_of (calc oc s p) = Some (input_fee_quote ri ro f (amount_value p))"
    using reference assms(5) by (simp add: a_def f_def ri_def ro_def)
  then obtain r where r: "calc oc s p = Some r"
    by (auto simp: amounts_of_def)
  have "ro < 2 ^ 64" "f < 2 ^ 64"
    using two_sided [of s "opposite (sp_direction p)"] reserve_bound [of s "opposite (sp_direction p)"]
      order_le_less_trans [OF assms(5)] unat_u64_less [of "amount_value p"]
    by (simp_all add: ro_def a_def)
  then have words: "unat (as_u64 (cp_out ri ro (a - f))) = cp_out ri ro (a - f)" "unat (as_u64 f) = f"
    using order_le_less_trans [OF cp_out_le] by simp_all
  show ?thesis
  proof (cases "ri + (a - f) = 0")
    case True
    then show ?thesis
      using ref r by (cases r) (auto simp: amounts_of_def input_fee_quote_def a_def)
  next
    case False
    then obtain q where q: "r = Inr q" "so_amount_in q = amount_value p"
      "so_amount_out q = as_u64 (cp_out ri ro (a - f))" "so_fee q = as_u64 f"
      using ref r by (cases r) (auto simp: amounts_of_def input_fee_quote_def quote_amounts_def a_def)
    then show ?thesis
      using False unsplit [of oc s p q] r words by (simp add: cp_out_le)
  qed
qed

text \<open>A build without overflow checks answers what the other one answers, when the fee is covered.\<close>

lemma checked_quote:
  assumes "calc oc s p = Some (Inr q)"
    and "oc \<or> fee s (unat (amount_value p)) \<le> unat (amount_value p)"
  shows "\<exists>q'. calc True s p = Some (Inr q') \<and> so_amount_in q' = so_amount_in q \<and>
    so_amount_out q' = so_amount_out q"
proof (cases oc)
  case False
  then have "fee s (unat (amount_value p)) \<le> unat (amount_value p)"
    using assms(2) by simp
  from total [OF this, of oc] total [OF this, of True] show ?thesis
    using assms(1) by (auto simp: word_unat_eq_iff split: if_splits)
qed (use assms(1) in auto)

end

sublocale input_fee_pool \<subseteq> math: input_fee_math "calc True" rin rout fee "\<lambda>_ _. True"
  by unfold_locales (erule (1) amount_only | simp add: quoted net_mono two_sided)+

sublocale input_fee_pool \<subseteq> swap_math "calc True" rout
proof unfold_locales
  show "so_amount_in q = amount_value p" if "calc True s p = Some (Inr q)" "is_exact_in p" for s p q
    using that(1) by (rule quoted)
  show "unat (so_amount_out q) \<le> rout s (sp_direction p)" if "calc True s p = Some (Inr q)" for s p q
    using math.out_le [OF that] by simp
  show "unat (so_fee q) = unat (so_protocol_fee q) + unat (so_lp_fee q)"
    if "calc True s p = Some (Inr q)" for s p q
    using unsplit [OF that] by simp
qed

end
