(* ===== verification/RaydiumV4.thy ===== *)
theory RaydiumV4
  imports InputFee
begin

text \<open>
  Raydium V4 (\<open>solana/protocols/src/protocols/raydium_v4/\<close>): the pool record and its stub decoder
  (\<open>state.rs\<close>) and the constant-product quote over the vault balances (\<open>math.rs\<close>), whose fee is a
  fraction stored in the pool.
\<close>

section \<open>Pool account\<close>

record liquidity_pool =
  v4_status :: u64
  v4_nonce :: u64
  v4_max_order :: u64
  v4_depth :: u64
  v4_base_decimal :: u64
  v4_quote_decimal :: u64
  v4_state :: u64
  v4_reset_flag :: u64
  v4_min_size :: u64
  v4_vol_max_cut_ratio :: u64
  v4_amount_wave_ratio :: u64
  v4_base_lot_size :: u64
  v4_quote_lot_size :: u64
  v4_min_price_multiplier :: u64
  v4_max_price_multiplier :: u64
  v4_system_decimal_value :: u64
  v4_min_separate_numerator :: u64
  v4_min_separate_denominator :: u64
  v4_trade_fee_numerator :: u64
  v4_trade_fee_denominator :: u64
  v4_pnl_numerator :: u64
  v4_pnl_denominator :: u64
  v4_swap_fee_numerator :: u64
  v4_swap_fee_denominator :: u64
  v4_base_need_take_pnl :: u64
  v4_quote_need_take_pnl :: u64
  v4_quote_total_pnl :: u64
  v4_base_total_pnl :: u64
  v4_quote_total_deposited :: u128
  v4_base_total_deposited :: u128
  v4_swap_base_in_amount :: u128
  v4_swap_quote_out_amount :: u128
  v4_swap_base2_quote_fee :: u64
  v4_swap_quote_in_amount :: u128
  v4_swap_base_out_amount :: u128
  v4_swap_quote2_base_fee :: u64
  v4_base_vault :: pubkey
  v4_quote_vault :: pubkey
  v4_base_mint :: pubkey
  v4_quote_mint :: pubkey
  v4_lp_mint :: pubkey
  v4_open_orders :: pubkey
  v4_market_id :: pubkey
  v4_market_program_id :: pubkey
  v4_target_orders :: pubkey
  v4_withdraw_queue :: pubkey
  v4_lp_vault :: pubkey
  v4_owner :: pubkey
  v4_pnl_owner :: pubkey

definition v4_from_account_data :: "bytes \<Rightarrow> error + liquidity_pool" where
  "v4_from_account_data data =
     Inl (protocol_error ''RaydiumV4'' ''LiquidityPool::from_account_data is not yet implemented'')"

definition v4_base_ui :: "liquidity_pool \<Rightarrow> nat \<Rightarrow> f64" where
  "v4_base_ui pool n = ui_amount n (as_i32 (unat (v4_base_decimal pool)))"

definition v4_quote_ui :: "liquidity_pool \<Rightarrow> nat \<Rightarrow> f64" where
  "v4_quote_ui pool n = ui_amount n (as_i32 (unat (v4_quote_decimal pool)))"

definition v4_spot_price :: "liquidity_pool \<Rightarrow> u64 \<Rightarrow> u64 \<Rightarrow> f64" where
  "v4_spot_price pool base quote =
     (if base = 0 then f_0
      else f_div (v4_quote_ui pool (unat quote)) (v4_base_ui pool (unat base)))"

definition v4_is_active :: "liquidity_pool \<Rightarrow> bool" where
  "v4_is_active pool \<longleftrightarrow> v4_status pool = 3"

section \<open>Swaps\<close>

record v4_pool_with_reserves =
  v4r_pool :: liquidity_pool
  v4r_base_reserve :: u64
  v4r_quote_reserve :: u64

definition v4_pool_with_reserves_new :: "liquidity_pool \<Rightarrow> u64 \<Rightarrow> u64 \<Rightarrow> v4_pool_with_reserves" where
  "v4_pool_with_reserves_new p b q =
     \<lparr> v4r_pool = p, v4r_base_reserve = b, v4r_quote_reserve = q \<rparr>"

definition v4_price_impact_bps ::
  "u64 \<Rightarrow> u64 \<Rightarrow> u64 \<Rightarrow> swap_direction \<Rightarrow> liquidity_pool \<Rightarrow> u16" where
  "v4_price_impact_bps base quote out d pool =
     (if base = 0 \<or> quote = 0 \<or> out = 0 then 0
      else
        let initial_price =
              f_div (v4_quote_ui pool (unat quote)) (v4_base_ui pool (unat base));
            (new_base, new_quote) =
              (case d of
                 Buy \<Rightarrow> (saturating_sub (unat base) (unat out), unat quote)
               | Sell \<Rightarrow> (unat base, saturating_sub (unat quote) (unat out)))
        in if new_base = 0 then 10000
           else
             let new_price = f_div (v4_quote_ui pool new_quote) (v4_base_ui pool new_base);
                 impact = f_abs (f_div (f_sub new_price initial_price) initial_price)
             in f_as_u16 (f_min (f_mul impact (f_of_nat 10000)) (f_of_nat 10000)))"

definition v4_effective_price :: "liquidity_pool \<Rightarrow> swap_direction \<Rightarrow> nat \<Rightarrow> nat \<Rightarrow> f64" where
  "v4_effective_price pool d amount_in amount_out =
     (if amount_in > 0
      then (case d of
              Buy \<Rightarrow> f_div (v4_quote_ui pool amount_in) (v4_base_ui pool amount_out)
            | Sell \<Rightarrow> f_div (v4_quote_ui pool amount_out) (v4_base_ui pool amount_in))
      else f_0)"

definition v4_post_swap_price :: "liquidity_pool \<Rightarrow> nat \<Rightarrow> nat \<Rightarrow> f64" where
  "v4_post_swap_price pool new_base new_quote =
     (if new_base > 0 then f_div (v4_quote_ui pool new_quote) (v4_base_ui pool new_base) else f_0)"

definition calculate_swap_output ::
  "bool \<Rightarrow> liquidity_pool \<Rightarrow> u64 \<Rightarrow> u64 \<Rightarrow> swap_params \<Rightarrow> (error, swap_output) outcome" where
  "calculate_swap_output oc pool base_reserve quote_reserve p = do {
     let raw_amount = amount (sp_amount p);
     product \<leftarrow> u_mul oc 128 (unat raw_amount) (unat (v4_trade_fee_numerator pool));
     let fee = (case checked_div product (unat (v4_trade_fee_denominator pool)) of
                  None \<Rightarrow> 0 | Some f \<Rightarrow> f);
     after_fee \<leftarrow> u_sub oc 128 (unat raw_amount) fee;
     let (reserve_in, reserve_out) =
       (case sp_direction p of
          Buy \<Rightarrow> (unat quote_reserve, unat base_reserve)
        | Sell \<Rightarrow> (unat base_reserve, unat quote_reserve));
     numerator \<leftarrow> u_mul oc 128 reserve_out after_fee;
     denominator \<leftarrow> u_add oc 128 reserve_in after_fee;
     (if denominator = 0 then Some (Inl (InsufficientReserves raw_amount 0))
      else do {
        amount_out \<leftarrow> u_div numerator denominator;
        (new_base, new_quote) \<leftarrow>
          (case sp_direction p of
             Buy \<Rightarrow> do {
               new_quote \<leftarrow> u_add oc 128 (unat quote_reserve) (unat raw_amount);
               new_base \<leftarrow> u_sub oc 128 (unat base_reserve) amount_out;
               Some (new_base, new_quote) }
           | Sell \<Rightarrow> do {
               new_base \<leftarrow> u_add oc 128 (unat base_reserve) (unat raw_amount);
               new_quote \<leftarrow> u_sub oc 128 (unat quote_reserve) amount_out;
               Some (new_base, new_quote) });
        Some (Inr
          \<lparr> so_amount_in = raw_amount, so_amount_out = as_u64 amount_out, so_fee = as_u64 fee,
            so_protocol_fee = as_u64 fee, so_lp_fee = 0,
            so_price_impact_bps = v4_price_impact_bps base_reserve quote_reserve (as_u64 amount_out)
              (sp_direction p) pool,
            so_effective_price =
              v4_effective_price pool (sp_direction p) (unat raw_amount) amount_out,
            so_post_swap_price = v4_post_swap_price pool new_base new_quote,
            so_accounts_used = [] \<rparr>)
      })
   }"

definition v4_calculate_swap ::
  "bool \<Rightarrow> v4_pool_with_reserves \<Rightarrow> swap_params \<Rightarrow> (error, swap_output) outcome" where
  "v4_calculate_swap oc w p =
     calculate_swap_output oc (v4r_pool w) (v4r_base_reserve w) (v4r_quote_reserve w) p"

definition v4_pool_spot_price :: "v4_pool_with_reserves \<Rightarrow> f64" where
  "v4_pool_spot_price w = v4_spot_price (v4r_pool w) (v4r_base_reserve w) (v4r_quote_reserve w)"

definition v4_pool_is_active :: "v4_pool_with_reserves \<Rightarrow> bool" where
  "v4_pool_is_active w = v4_is_active (v4r_pool w)"

section \<open>The quote\<close>

definition v4_fee :: "liquidity_pool \<Rightarrow> nat \<Rightarrow> nat" where
  "v4_fee pool a =
     floor_fee (unat (v4_trade_fee_numerator pool)) (unat (v4_trade_fee_denominator pool)) a"

definition v4_rin :: "v4_pool_with_reserves \<Rightarrow> swap_direction \<Rightarrow> nat" where
  "v4_rin w d = (case d of Buy \<Rightarrow> unat (v4r_quote_reserve w) | Sell \<Rightarrow> unat (v4r_base_reserve w))"

definition v4_rout :: "v4_pool_with_reserves \<Rightarrow> swap_direction \<Rightarrow> nat" where
  "v4_rout w d = v4_rin w (opposite d)"

lemma v4_rin_less: "v4_rin w d < 2 ^ 64"
  using unat_u64_less by (cases d) (simp_all add: v4_rin_def)

lemma v4_fee_step:
  fixes a :: u64
  shows "u_mul oc 128 (unat a) (unat (v4_trade_fee_numerator pool)) =
     Some (unat a * unat (v4_trade_fee_numerator pool))"
  "(case checked_div (unat a * unat (v4_trade_fee_numerator pool))
      (unat (v4_trade_fee_denominator pool)) of None \<Rightarrow> 0 | Some f \<Rightarrow> f) = v4_fee pool (unat a)"
proof -
  show "u_mul oc 128 (unat a) (unat (v4_trade_fee_numerator pool)) =
     Some (unat a * unat (v4_trade_fee_numerator pool))"
    by (rule u_mul_ok) (rule mult_u64_fits [OF unat_u64_less unat_u64_less])
qed (simp add: checked_div_def v4_fee_def floor_fee_def)

text \<open>A quote, classified: the fee exceeds the amount, the reserve and the net amount are both
  empty, or the constant-product output.\<close>

lemma v4_reference:
  fixes w p
  defines "a \<equiv> unat (amount_value p)"
    and "fee \<equiv> v4_fee (v4r_pool w) (unat (amount_value p))"
    and "ri \<equiv> v4_rin w (sp_direction p)" and "ro \<equiv> v4_rout w (sp_direction p)"
  assumes "fee \<le> a"
  shows "amounts_of (v4_calculate_swap oc w p) = Some (input_fee_quote ri ro fee (amount_value p))"
proof -
  have ops: "ri < 2 ^ 64" "ro < 2 ^ 64" "a < 2 ^ 64" "a - fee \<le> a"
    by (simp_all add: ri_def ro_def v4_rout_def v4_rin_less a_def unat_u64_less del: power_numeral)
  note cp = cp_operators [OF ops]
  have net: "u_sub oc 128 a fee = Some (a - fee)"
    using assms(5) by (rule u_sub_ok)
  note fee_eq = v4_fee_step [where a = "amount_value p" and pool = "v4r_pool w",
      folded a_def fee_def, unfolded a_def [symmetric]]
  note unfolds = Let_def v4_calculate_swap_def calculate_swap_output_def
    amount_value_def [symmetric] a_def [symmetric] fee_eq
  show ?thesis
  proof (cases "sp_direction p")
    case Buy
    then have sides: "unat (v4r_quote_reserve w) = ri" "unat (v4r_base_reserve w) = ro"
      by (simp_all add: ri_def ro_def v4_rin_def v4_rout_def)
    show ?thesis
      by (cases "ri + (a - fee) = 0") (simp_all add: unfolds sides Buy net cp u_mul_ok u_add_ok amounts_of_def
          input_fee_quote_def quote_amounts_def)
  next
    case Sell
    then have sides: "unat (v4r_base_reserve w) = ri" "unat (v4r_quote_reserve w) = ro"
      by (simp_all add: ri_def ro_def v4_rin_def v4_rout_def)
    show ?thesis
      by (cases "ri + (a - fee) = 0") (simp_all add: unfolds sides Sell net cp u_mul_ok u_add_ok amounts_of_def
          input_fee_quote_def quote_amounts_def)
  qed
qed

lemma v4_uncovered:
  "unat (amount_value p) < v4_fee (v4r_pool w) (unat (amount_value p)) \<Longrightarrow> v4_calculate_swap True w p = None"
  by (simp add: v4_calculate_swap_def calculate_swap_output_def amount_value_def Let_def
        v4_fee_step u_sub_def)

lemma v4_unsplit:
  "v4_calculate_swap oc w p = Some (Inr q) \<Longrightarrow> so_protocol_fee q = so_fee q \<and> so_lp_fee q = 0"
  by (cases "sp_direction p") (auto simp: v4_calculate_swap_def calculate_swap_output_def
      bind_eq_Some_conv Let_def split: if_splits prod.splits)

lemma v4_amount_only:
  "sp_direction p = sp_direction p' \<Longrightarrow> amount_value p = amount_value p' \<Longrightarrow>
   v4_calculate_swap oc w p = v4_calculate_swap oc w p'"
  by (simp add: v4_calculate_swap_def calculate_swap_output_def amount_value_def cong: if_cong)

interpretation v4: input_fee_pool v4_calculate_swap v4_rin v4_rout "\<lambda>w. v4_fee (v4r_pool w)"
proof unfold_locales
  fix oc w p p'
  show "sp_direction p = sp_direction p' \<Longrightarrow> amount_value p = amount_value p' \<Longrightarrow>
      v4_calculate_swap oc w p = v4_calculate_swap oc w p'"
    by (rule v4_amount_only)
qed (simp_all add: v4_reference v4_uncovered v4_unsplit v4_rin_less v4_fee_def floor_fee_net_mono
    v4_rout_def del: power_numeral)

section \<open>Properties\<close>

text \<open>In both build profiles a Raydium V4 quote whose fee does not exceed the amount never
  panics: it is refused with \<open>InsufficientReserves\<close> exactly when nothing would be traded against an
  empty reserve, and otherwise pays the constant-product output of what the fee leaves, which the
  output reserve covers.\<close>

lemma v4_quote_total:
  fixes w p
  defines "a \<equiv> unat (amount_value p)"
    and "fee \<equiv> v4_fee (v4r_pool w) (unat (amount_value p))"
    and "ri \<equiv> v4_rin w (sp_direction p)" and "ro \<equiv> v4_rout w (sp_direction p)"
  assumes "fee \<le> a"
  shows "if ri + (a - fee) = 0
    then v4_calculate_swap oc w p = Some (Inl (InsufficientReserves (amount_value p) 0))
    else \<exists>q. v4_calculate_swap oc w p = Some (Inr q) \<and> so_amount_in q = amount_value p \<and>
           unat (so_amount_out q) = cp_out ri ro (a - fee) \<and> unat (so_amount_out q) \<le> ro \<and>
           unat (so_fee q) = fee \<and> so_protocol_fee q = so_fee q \<and> so_lp_fee q = 0"
  using v4.total assms by (simp only: a_def fee_def ri_def ro_def)

definition v4_example_state :: liquidity_pool where
  "v4_example_state =
   \<lparr>v4_status = 3, v4_nonce = 0, v4_max_order = 0, v4_depth = 0, v4_base_decimal = 6,
    v4_quote_decimal = 9, v4_state = 0, v4_reset_flag = 0, v4_min_size = 0,
    v4_vol_max_cut_ratio = 0, v4_amount_wave_ratio = 0, v4_base_lot_size = 0,
    v4_quote_lot_size = 0, v4_min_price_multiplier = 0, v4_max_price_multiplier = 0,
    v4_system_decimal_value = 0, v4_min_separate_numerator = 0,
    v4_min_separate_denominator = 0, v4_trade_fee_numerator = 2500,
    v4_trade_fee_denominator = 1000000, v4_pnl_numerator = 0, v4_pnl_denominator = 0,
    v4_swap_fee_numerator = 0, v4_swap_fee_denominator = 0, v4_base_need_take_pnl = 0,
    v4_quote_need_take_pnl = 0, v4_quote_total_pnl = 0, v4_base_total_pnl = 0,
    v4_quote_total_deposited = 0, v4_base_total_deposited = 0, v4_swap_base_in_amount = 0,
    v4_swap_quote_out_amount = 0, v4_swap_base2_quote_fee = 0, v4_swap_quote_in_amount = 0,
    v4_swap_base_out_amount = 0, v4_swap_quote2_base_fee = 0, v4_base_vault = [],
    v4_quote_vault = [], v4_base_mint = [], v4_quote_mint = [], v4_lp_mint = [],
    v4_open_orders = [], v4_market_id = [], v4_market_program_id = [], v4_target_orders = [],
    v4_withdraw_queue = [], v4_lp_vault = [], v4_owner = [], v4_pnl_owner = [] \<rparr>"

definition v4_example :: v4_pool_with_reserves where
  "v4_example = v4_pool_with_reserves_new v4_example_state 1000000 2000000"

end
