(* ===== verification/RaydiumCpmm.thy ===== *)
theory RaydiumCpmm
  imports InputFee
begin

unbundle bit_operations_syntax

text \<open>
  Raydium CPMM (\<open>solana/protocols/src/protocols/raydium_cpmm/\<close>): the pool account with its status
  bits and accumulated fees (\<open>state.rs\<close>) and the constant-product quote over the vault balances net
  of those fees (\<open>math.rs\<close>).
\<close>

section \<open>Pool account\<close>

datatype pool_status_bit = DepositBit | WithdrawBit | SwapBit

definition status_bit_index :: "pool_status_bit \<Rightarrow> nat" where
  "status_bit_index b = (case b of DepositBit \<Rightarrow> 0 | WithdrawBit \<Rightarrow> 1 | SwapBit \<Rightarrow> 2)"

record cpmm_pool_state =
  cs_amm_config :: pubkey
  cs_pool_creator :: pubkey
  cs_token_0_vault :: pubkey
  cs_token_1_vault :: pubkey
  cs_lp_mint :: pubkey
  cs_token_0_mint :: pubkey
  cs_token_1_mint :: pubkey
  cs_token_0_program :: pubkey
  cs_token_1_program :: pubkey
  cs_observation_key :: pubkey
  cs_auth_bump :: u8
  cs_status :: u8
  cs_lp_mint_decimals :: u8
  cs_mint_0_decimals :: u8
  cs_mint_1_decimals :: u8
  cs_lp_supply :: u64
  cs_protocol_fees_token_0 :: u64
  cs_protocol_fees_token_1 :: u64
  cs_fund_fees_token_0 :: u64
  cs_fund_fees_token_1 :: u64
  cs_open_time :: u64
  cs_recent_epoch :: u64
  cs_creator_fee_on :: u8
  cs_enable_creator_fee :: bool
  cs_padding1 :: "u8 list"
  cs_creator_fees_token_0 :: u64
  cs_creator_fees_token_1 :: u64
  cs_padding_reserved :: "u64 list"

definition cpmm_pool_account_min_size :: nat where
  "cpmm_pool_account_min_size = 637"

definition read_cpmm_pool :: "borsh \<Rightarrow> cpmm_pool_state reader" where
  "read_cpmm_pool B =
     rbind (rd_pubkey B) (\<lambda>cfg. rbind (rd_pubkey B) (\<lambda>cr. rbind (rd_pubkey B) (\<lambda>v0.
     rbind (rd_pubkey B) (\<lambda>v1. rbind (rd_pubkey B) (\<lambda>lm. rbind (rd_pubkey B) (\<lambda>m0.
     rbind (rd_pubkey B) (\<lambda>m1. rbind (rd_pubkey B) (\<lambda>p0. rbind (rd_pubkey B) (\<lambda>p1.
     rbind (rd_pubkey B) (\<lambda>ob. rbind (rd_u8 B) (\<lambda>ab. rbind (rd_u8 B) (\<lambda>st.
     rbind (rd_u8 B) (\<lambda>ld. rbind (rd_u8 B) (\<lambda>d0. rbind (rd_u8 B) (\<lambda>d1.
     rbind (rd_u64 B) (\<lambda>ls. rbind (rd_u64 B) (\<lambda>pf0. rbind (rd_u64 B) (\<lambda>pf1.
     rbind (rd_u64 B) (\<lambda>ff0. rbind (rd_u64 B) (\<lambda>ff1. rbind (rd_u64 B) (\<lambda>ot.
     rbind (rd_u64 B) (\<lambda>re. rbind (rd_u8 B) (\<lambda>cfo. rbind (rd_bool B) (\<lambda>ecf.
     rbind (read_array 6 (rd_u8 B)) (\<lambda>pad1. rbind (rd_u64 B) (\<lambda>cf0. rbind (rd_u64 B) (\<lambda>cf1.
     rbind (read_array 28 (rd_u64 B)) (\<lambda>padr.
     rret \<lparr> cs_amm_config = cfg, cs_pool_creator = cr, cs_token_0_vault = v0,
            cs_token_1_vault = v1, cs_lp_mint = lm, cs_token_0_mint = m0, cs_token_1_mint = m1,
            cs_token_0_program = p0, cs_token_1_program = p1, cs_observation_key = ob,
            cs_auth_bump = ab, cs_status = st, cs_lp_mint_decimals = ld, cs_mint_0_decimals = d0,
            cs_mint_1_decimals = d1, cs_lp_supply = ls, cs_protocol_fees_token_0 = pf0,
            cs_protocol_fees_token_1 = pf1, cs_fund_fees_token_0 = ff0, cs_fund_fees_token_1 = ff1,
            cs_open_time = ot, cs_recent_epoch = re, cs_creator_fee_on = cfo,
            cs_enable_creator_fee = ecf, cs_padding1 = pad1, cs_creator_fees_token_0 = cf0,
            cs_creator_fees_token_1 = cf1, cs_padding_reserved = padr \<rparr>))))))))))))))))))))))))))))"

definition cpmm_from_account_data :: "borsh \<Rightarrow> bytes \<Rightarrow> bytes \<Rightarrow> error + cpmm_pool_state" where
  "cpmm_from_account_data B disc data =
     map_err error_of_parse
       (onchain_from_account_data (Some disc) (read_cpmm_pool B) (\<lambda>_. []) data)"

definition is_swap_enabled :: "cpmm_pool_state \<Rightarrow> bool" where
  "is_swap_enabled s \<longleftrightarrow> cs_status s AND push_bit (status_bit_index SwapBit) 1 = 0"

definition cpmm_is_active :: "cpmm_pool_state \<Rightarrow> bool" where
  "cpmm_is_active s = is_swap_enabled s"

definition vault_amount_without_fee :: "cpmm_pool_state \<Rightarrow> u64 \<Rightarrow> u64 \<Rightarrow> error + u64 \<times> u64" where
  "vault_amount_without_fee s vault_0 vault_1 =
     (case Option.bind (checked_add 64 (unat (cs_protocol_fees_token_0 s)) (unat (cs_fund_fees_token_0 s)))
             (\<lambda>v. checked_add 64 v (unat (cs_creator_fees_token_0 s))) of
        None \<Rightarrow> Inl ArithmeticOverflow
      | Some fees_0 \<Rightarrow>
          (case Option.bind (checked_add 64 (unat (cs_protocol_fees_token_1 s)) (unat (cs_fund_fees_token_1 s)))
                  (\<lambda>v. checked_add 64 v (unat (cs_creator_fees_token_1 s))) of
             None \<Rightarrow> Inl ArithmeticOverflow
           | Some fees_1 \<Rightarrow>
               (case checked_sub (unat vault_0) fees_0 of
                  None \<Rightarrow> Inl (parse_error ''vault_0 less than accumulated fees'')
                | Some net_0 \<Rightarrow>
                    (case checked_sub (unat vault_1) fees_1 of
                       None \<Rightarrow> Inl (parse_error ''vault_1 less than accumulated fees'')
                     | Some net_1 \<Rightarrow> Inr (as_u64 net_0, as_u64 net_1)))))"

text \<open>The decimals are bytes; their difference as \<open>i32\<close> does not overflow.\<close>

definition spot_price_with_vaults :: "cpmm_pool_state \<Rightarrow> u64 \<Rightarrow> u64 \<Rightarrow> f64" where
  "spot_price_with_vaults s vault_0 vault_1 =
     (if vault_0 = 0 \<or> vault_1 = 0 then f_0
      else f_mul (f_div (f_of_nat (unat vault_1)) (f_of_nat (unat vault_0)))
             (f_powi (f_of_nat 10)
               (int (unat (cs_mint_0_decimals s)) - int (unat (cs_mint_1_decimals s)))))"

definition cpmm_state_spot_price :: "cpmm_pool_state \<Rightarrow> f64" where
  "cpmm_state_spot_price s = f_0"

section \<open>Swaps\<close>

record cpmm_pool_with_reserves =
  cr_pool :: cpmm_pool_state
  cr_reserve_0 :: u64
  cr_reserve_1 :: u64
  cr_trade_fee_rate :: u64

definition cpmm_new :: "cpmm_pool_state \<Rightarrow> u64 \<Rightarrow> u64 \<Rightarrow> u64 \<Rightarrow> cpmm_pool_with_reserves" where
  "cpmm_new s r0 r1 rate =
     \<lparr> cr_pool = s, cr_reserve_0 = r0, cr_reserve_1 = r1, cr_trade_fee_rate = rate \<rparr>"

definition cpmm_with_default_fee :: "cpmm_pool_state \<Rightarrow> u64 \<Rightarrow> u64 \<Rightarrow> cpmm_pool_with_reserves" where
  "cpmm_with_default_fee s r0 r1 = cpmm_new s r0 r1 2500"

definition from_vault_balances ::
  "cpmm_pool_state \<Rightarrow> u64 \<Rightarrow> u64 \<Rightarrow> u64 \<Rightarrow> error + cpmm_pool_with_reserves" where
  "from_vault_balances s vault_0 vault_1 rate =
     (case vault_amount_without_fee s vault_0 vault_1 of
        Inl e \<Rightarrow> Inl e
      | Inr (net_0, net_1) \<Rightarrow> Inr (cpmm_new s net_0 net_1 rate))"

definition cpmm_fee_rate_denominator :: u64 where
  "cpmm_fee_rate_denominator = 1000000"

definition cpmm_ui_0 :: "cpmm_pool_state \<Rightarrow> nat \<Rightarrow> f64" where
  "cpmm_ui_0 s n = ui_amount n (int (unat (cs_mint_0_decimals s)))"

definition cpmm_ui_1 :: "cpmm_pool_state \<Rightarrow> nat \<Rightarrow> f64" where
  "cpmm_ui_1 s n = ui_amount n (int (unat (cs_mint_1_decimals s)))"

definition cpmm_price_impact_bps ::
  "u64 \<Rightarrow> u64 \<Rightarrow> u64 \<Rightarrow> swap_direction \<Rightarrow> cpmm_pool_state \<Rightarrow> u16" where
  "cpmm_price_impact_bps reserve_0 reserve_1 out d s =
     (if reserve_0 = 0 \<or> reserve_1 = 0 \<or> out = 0 then 0
      else
        let initial_price = f_div (cpmm_ui_1 s (unat reserve_1)) (cpmm_ui_0 s (unat reserve_0));
            (new_0, new_1) =
              (case d of
                 Buy \<Rightarrow> (saturating_sub (unat reserve_0) (unat out), unat reserve_1)
               | Sell \<Rightarrow> (unat reserve_0, saturating_sub (unat reserve_1) (unat out)))
        in if new_0 = 0 then 10000
           else
             let new_price = f_div (cpmm_ui_1 s new_1) (cpmm_ui_0 s new_0);
                 impact = f_abs (f_div (f_sub new_price initial_price) initial_price)
             in f_as_u16 (f_min (f_mul impact (f_of_nat 10000)) (f_of_nat 10000)))"

definition quotient_if_positive :: "f64 \<Rightarrow> f64 \<Rightarrow> f64 \<Rightarrow> f64" where
  "quotient_if_positive guard n d = (if f_gt guard f_0 then f_div n d else f_0)"

definition cpmm_effective_price :: "cpmm_pool_state \<Rightarrow> swap_direction \<Rightarrow> nat \<Rightarrow> nat \<Rightarrow> f64" where
  "cpmm_effective_price s d amount_in amount_out =
     (if amount_in > 0
      then (case d of
              Buy \<Rightarrow> quotient_if_positive (cpmm_ui_0 s amount_out)
                       (cpmm_ui_1 s amount_in) (cpmm_ui_0 s amount_out)
            | Sell \<Rightarrow> quotient_if_positive (cpmm_ui_0 s amount_in)
                       (cpmm_ui_1 s amount_out) (cpmm_ui_0 s amount_in))
      else f_0)"

definition cpmm_post_swap_price :: "cpmm_pool_state \<Rightarrow> nat \<Rightarrow> nat \<Rightarrow> f64" where
  "cpmm_post_swap_price s new_0 new_1 =
     (if new_0 > 0 then f_div (cpmm_ui_1 s new_1) (cpmm_ui_0 s new_0) else f_0)"

definition calculate_cpmm_swap ::
  "bool \<Rightarrow> cpmm_pool_state \<Rightarrow> u64 \<Rightarrow> u64 \<Rightarrow> u64 \<Rightarrow> swap_params \<Rightarrow> (error, swap_output) outcome" where
  "calculate_cpmm_swap oc s reserve_0 reserve_1 rate p = do {
     let raw_amount = amount (sp_amount p);
     product \<leftarrow> u_mul oc 128 (unat raw_amount) (unat rate);
     fee \<leftarrow> u_div product (unat cpmm_fee_rate_denominator);
     after_fee \<leftarrow> u_sub oc 128 (unat raw_amount) fee;
     let (reserve_in, reserve_out) =
       (case sp_direction p of
          Buy \<Rightarrow> (unat reserve_1, unat reserve_0)
        | Sell \<Rightarrow> (unat reserve_0, unat reserve_1));
     denominator \<leftarrow> u_add oc 128 reserve_in after_fee;
     (if denominator = 0 then Some (Inl (InsufficientReserves raw_amount 0))
      else do {
        numerator \<leftarrow> u_mul oc 128 reserve_out after_fee;
        amount_out \<leftarrow> u_div numerator denominator;
        (new_0, new_1) \<leftarrow>
          (case sp_direction p of
             Buy \<Rightarrow> do {
               new_1 \<leftarrow> u_add oc 128 (unat reserve_1) (unat raw_amount);
               new_0 \<leftarrow> u_sub oc 128 (unat reserve_0) amount_out;
               Some (new_0, new_1) }
           | Sell \<Rightarrow> do {
               new_0 \<leftarrow> u_add oc 128 (unat reserve_0) (unat raw_amount);
               new_1 \<leftarrow> u_sub oc 128 (unat reserve_1) amount_out;
               Some (new_0, new_1) });
        Some (Inr
          \<lparr> so_amount_in = raw_amount, so_amount_out = as_u64 amount_out, so_fee = as_u64 fee,
            so_protocol_fee = as_u64 fee, so_lp_fee = 0,
            so_price_impact_bps =
              cpmm_price_impact_bps reserve_0 reserve_1 (as_u64 amount_out) (sp_direction p) s,
            so_effective_price =
              cpmm_effective_price s (sp_direction p) (unat raw_amount) amount_out,
            so_post_swap_price = cpmm_post_swap_price s new_0 new_1,
            so_accounts_used = [] \<rparr>)
      })
   }"

definition cpmm_calculate_swap ::
  "bool \<Rightarrow> cpmm_pool_with_reserves \<Rightarrow> swap_params \<Rightarrow> (error, swap_output) outcome" where
  "cpmm_calculate_swap oc w p =
     calculate_cpmm_swap oc (cr_pool w) (cr_reserve_0 w) (cr_reserve_1 w) (cr_trade_fee_rate w) p"

definition cpmm_spot_price :: "cpmm_pool_with_reserves \<Rightarrow> f64" where
  "cpmm_spot_price w = spot_price_with_vaults (cr_pool w) (cr_reserve_0 w) (cr_reserve_1 w)"

definition cpmm_pool_is_active :: "cpmm_pool_with_reserves \<Rightarrow> bool" where
  "cpmm_pool_is_active w = cpmm_is_active (cr_pool w)"

section \<open>The quote\<close>

definition cpmm_fee :: "u64 \<Rightarrow> nat \<Rightarrow> nat" where
  "cpmm_fee rate a = floor_fee (unat rate) 1000000 a"

definition cpmm_rin :: "cpmm_pool_with_reserves \<Rightarrow> swap_direction \<Rightarrow> nat" where
  "cpmm_rin w d = (case d of Buy \<Rightarrow> unat (cr_reserve_1 w) | Sell \<Rightarrow> unat (cr_reserve_0 w))"

definition cpmm_rout :: "cpmm_pool_with_reserves \<Rightarrow> swap_direction \<Rightarrow> nat" where
  "cpmm_rout w d = cpmm_rin w (opposite d)"

lemma cpmm_rin_less: "cpmm_rin w d < 2 ^ 64"
  using unat_u64_less by (cases d) (simp_all add: cpmm_rin_def)

lemma cpmm_fee_step:
  fixes a rate :: u64
  shows "u_mul oc 128 (unat a) (unat rate) = Some (unat a * unat rate)"
    and "u_div (unat a * unat rate) (unat cpmm_fee_rate_denominator) = Some (cpmm_fee rate (unat a))"
proof -
  show "u_mul oc 128 (unat a) (unat rate) = Some (unat a * unat rate)"
    by (rule u_mul_ok) (rule mult_u64_fits [OF unat_u64_less unat_u64_less])
qed (simp add: u_div_def cpmm_fee_rate_denominator_def cpmm_fee_def floor_fee_def)

lemma cpmm_reference:
  fixes w p
  defines "a \<equiv> unat (amount_value p)"
    and "fee \<equiv> cpmm_fee (cr_trade_fee_rate w) (unat (amount_value p))"
    and "ri \<equiv> cpmm_rin w (sp_direction p)" and "ro \<equiv> cpmm_rout w (sp_direction p)"
  assumes "fee \<le> a"
  shows "amounts_of (cpmm_calculate_swap oc w p) = Some (input_fee_quote ri ro fee (amount_value p))"
proof -
  have ops: "ri < 2 ^ 64" "ro < 2 ^ 64" "a < 2 ^ 64" "a - fee \<le> a"
    by (simp_all add: ri_def ro_def cpmm_rout_def cpmm_rin_less a_def unat_u64_less del: power_numeral)
  note cp = cp_operators [OF ops]
  have net: "u_sub oc 128 a fee = Some (a - fee)"
    using assms(5) by (rule u_sub_ok)
  note fee_eq = cpmm_fee_step [where a = "amount_value p" and rate = "cr_trade_fee_rate w",
      folded a_def fee_def, unfolded a_def [symmetric]]
  note unfolds = Let_def cpmm_calculate_swap_def calculate_cpmm_swap_def
    amount_value_def [symmetric] a_def [symmetric] fee_eq
  show ?thesis
  proof (cases "sp_direction p")
    case Buy
    then have sides: "unat (cr_reserve_1 w) = ri" "unat (cr_reserve_0 w) = ro"
      by (simp_all add: ri_def ro_def cpmm_rin_def cpmm_rout_def)
    show ?thesis
      by (cases "ri + (a - fee) = 0")
        (simp_all add: unfolds sides Buy net cp u_mul_ok u_add_ok amounts_of_def
          input_fee_quote_def quote_amounts_def)
  next
    case Sell
    then have sides: "unat (cr_reserve_0 w) = ri" "unat (cr_reserve_1 w) = ro"
      by (simp_all add: ri_def ro_def cpmm_rin_def cpmm_rout_def)
    show ?thesis
      by (cases "ri + (a - fee) = 0")
        (simp_all add: unfolds sides Sell net cp u_mul_ok u_add_ok amounts_of_def
          input_fee_quote_def quote_amounts_def)
  qed
qed

lemma cpmm_uncovered:
  "unat (amount_value p) < cpmm_fee (cr_trade_fee_rate w) (unat (amount_value p)) \<Longrightarrow> cpmm_calculate_swap True w p = None"
  by (simp add: cpmm_calculate_swap_def calculate_cpmm_swap_def amount_value_def Let_def
        cpmm_fee_step u_sub_def)

lemma cpmm_unsplit:
  "cpmm_calculate_swap oc w p = Some (Inr q) \<Longrightarrow> so_protocol_fee q = so_fee q \<and> so_lp_fee q = 0"
  by (cases "sp_direction p") (auto simp: cpmm_calculate_swap_def calculate_cpmm_swap_def
      bind_eq_Some_conv Let_def split: if_splits prod.splits)

lemma cpmm_amount_only:
  "sp_direction p = sp_direction p' \<Longrightarrow> amount_value p = amount_value p' \<Longrightarrow>
   cpmm_calculate_swap oc w p = cpmm_calculate_swap oc w p'"
  by (simp add: cpmm_calculate_swap_def calculate_cpmm_swap_def amount_value_def cong: if_cong)

interpretation cpmm: input_fee_pool cpmm_calculate_swap cpmm_rin cpmm_rout "\<lambda>w. cpmm_fee (cr_trade_fee_rate w)"
proof unfold_locales
  fix oc w p p'
  show "sp_direction p = sp_direction p' \<Longrightarrow> amount_value p = amount_value p' \<Longrightarrow>
      cpmm_calculate_swap oc w p = cpmm_calculate_swap oc w p'"
    by (rule cpmm_amount_only)
qed (simp_all add: cpmm_reference cpmm_uncovered cpmm_unsplit cpmm_rin_less cpmm_fee_def floor_fee_net_mono
    cpmm_rout_def del: power_numeral)

section \<open>Accumulated fees\<close>

definition cpmm_fees_0 :: "cpmm_pool_state \<Rightarrow> nat" where
  "cpmm_fees_0 s = unat (cs_protocol_fees_token_0 s) + unat (cs_fund_fees_token_0 s)
     + unat (cs_creator_fees_token_0 s)"

definition cpmm_fees_1 :: "cpmm_pool_state \<Rightarrow> nat" where
  "cpmm_fees_1 s = unat (cs_protocol_fees_token_1 s) + unat (cs_fund_fees_token_1 s)
     + unat (cs_creator_fees_token_1 s)"

lemma three_checked_adds:
  "Option.bind (checked_add 64 a b) (\<lambda>v. checked_add 64 v c) =
     (if a + b + c < 2 ^ 64 then Some (a + b + c) else None)"
  by (auto simp: checked_add_def)

lemma vault_amount_classified:
  "vault_amount_without_fee s v0 v1 =
     (if 2 ^ 64 \<le> cpmm_fees_0 s \<or> 2 ^ 64 \<le> cpmm_fees_1 s then Inl ArithmeticOverflow
      else if unat v0 < cpmm_fees_0 s then Inl (parse_error ''vault_0 less than accumulated fees'')
      else if unat v1 < cpmm_fees_1 s then Inl (parse_error ''vault_1 less than accumulated fees'')
      else Inr (as_u64 (unat v0 - cpmm_fees_0 s), as_u64 (unat v1 - cpmm_fees_1 s)))"
  unfolding vault_amount_without_fee_def three_checked_adds cpmm_fees_0_def [symmetric]
    cpmm_fees_1_def [symmetric]
  by (simp add: checked_sub_def not_less del: of_nat_diff power_numeral)

section \<open>Properties\<close>

definition cpmm_vault_of :: "swap_direction \<Rightarrow> u64 \<Rightarrow> u64 \<Rightarrow> nat" where
  "cpmm_vault_of d v0 v1 = (case d of Buy \<Rightarrow> unat v0 | Sell \<Rightarrow> unat v1)"

definition cpmm_fees_of :: "swap_direction \<Rightarrow> cpmm_pool_state \<Rightarrow> nat" where
  "cpmm_fees_of d s = (case d of Buy \<Rightarrow> cpmm_fees_0 s | Sell \<Rightarrow> cpmm_fees_1 s)"

text \<open>What a pool built from vault balances has to pay out.\<close>

lemma from_vault_balances_reserve:
  assumes "from_vault_balances s v0 v1 rate = Inr w"
  shows "cpmm_rout w d + cpmm_fees_of d s = cpmm_vault_of d v0 v1"
proof -
  have fit: "unat v0 - cpmm_fees_0 s < 2 ^ 64" "unat v1 - cpmm_fees_1 s < 2 ^ 64"
    using unat_u64_less [of v0] unat_u64_less [of v1] by linarith+
  have "cpmm_fees_0 s \<le> unat v0" "cpmm_fees_1 s \<le> unat v1"
    "w = cpmm_new s (as_u64 (unat v0 - cpmm_fees_0 s)) (as_u64 (unat v1 - cpmm_fees_1 s)) rate"
    using assms by (auto simp: from_vault_balances_def vault_amount_classified simp del: of_nat_diff
        split: if_splits)
  then show ?thesis
    using fit by (cases d) (simp_all add: cpmm_new_def cpmm_rout_def cpmm_rin_def cpmm_fees_of_def
        cpmm_vault_of_def del: of_nat_diff)
qed

text \<open>C28: A CPMM quote over raw vault balances never sells the fees accumulated in the vault: what it
  pays out and the protocol, fund and creator fees of that side fit together in the vault's balance,
  and the pool of the reserves net of fees keeps its product. This holds at every rate in a build with
  overflow checks, and in one without them at rates up to 100 percent, above which the subtraction of
  the fee wraps there.\<close>

theorem cpmm_fees_never_sold:
  assumes "from_vault_balances s v0 v1 rate = Inr w" "cpmm_calculate_swap oc w p = Some (Inr q)"
    and "oc \<or> unat rate \<le> 1000000"
  shows "unat (so_amount_out q) + cpmm_fees_of (sp_direction p) s \<le> cpmm_vault_of (sp_direction p) v0 v1
    \<and> cpmm_rin w (sp_direction p) * cpmm_rout w (sp_direction p) \<le>
      (cpmm_rin w (sp_direction p) + unat (so_amount_in q)) *
      (cpmm_rout w (sp_direction p) - unat (so_amount_out q))"
proof -
  have "cr_trade_fee_rate w = rate"
    using assms(1) by (auto simp: from_vault_balances_def cpmm_new_def split: sum.splits)
  then have "oc \<or> cpmm_fee (cr_trade_fee_rate w) (unat (amount_value p)) \<le> unat (amount_value p)"
    using assms(3) floor_fee_le [of "unat rate" 1000000] by (auto simp: cpmm_fee_def)
  then obtain q' where q': "cpmm_calculate_swap True w p = Some (Inr q')"
      "so_amount_in q' = so_amount_in q" "so_amount_out q' = so_amount_out q"
    using cpmm.checked_quote [OF assms(2)] by blast
  show ?thesis
    using from_vault_balances_reserve [OF assms(1), of "sp_direction p"] cpmm.math.out_le [OF q'(1) TrueI]
      cpmm.math.product_kept [OF q'(1) TrueI] q'(2,3) by simp
qed

definition cpmm_example_state :: cpmm_pool_state where
  "cpmm_example_state =
     \<lparr> cs_amm_config = replicate 32 1, cs_pool_creator = replicate 32 2,
       cs_token_0_vault = replicate 32 3, cs_token_1_vault = replicate 32 4,
       cs_lp_mint = replicate 32 5, cs_token_0_mint = replicate 32 6,
       cs_token_1_mint = replicate 32 7, cs_token_0_program = replicate 32 8,
       cs_token_1_program = replicate 32 9, cs_observation_key = replicate 32 10,
       cs_auth_bump = 255, cs_status = 0, cs_lp_mint_decimals = 9, cs_mint_0_decimals = 6,
       cs_mint_1_decimals = 9, cs_lp_supply = 1000, cs_protocol_fees_token_0 = 100,
       cs_protocol_fees_token_1 = 200, cs_fund_fees_token_0 = 10, cs_fund_fees_token_1 = 20,
       cs_open_time = 0, cs_recent_epoch = 0, cs_creator_fee_on = 0, cs_enable_creator_fee = True,
       cs_padding1 = replicate 6 0, cs_creator_fees_token_0 = 1, cs_creator_fees_token_1 = 2,
       cs_padding_reserved = replicate 28 0 \<rparr>"

definition cpmm_example_pool :: cpmm_pool_with_reserves where
  "cpmm_example_pool = cpmm_new cpmm_example_state 1000000 2000000 2500"

lemma cpmm_example_built: "from_vault_balances cpmm_example_state 1000111 2000222 2500 = Inr cpmm_example_pool"
  by (simp add: from_vault_balances_def vault_amount_classified cpmm_fees_0_def cpmm_fees_1_def
      cpmm_example_state_def cpmm_example_pool_def)

lemma cpmm_example_quote:
  "\<exists>q. cpmm_calculate_swap True cpmm_example_pool (buy 400000) = Some (Inr q) \<and>
       so_amount_in q = 400000 \<and> unat (so_amount_out q) = 166319"
  using cpmm.total [of cpmm_example_pool "buy 400000" True]
  by (auto simp: cpmm_fee_def floor_fee_def cpmm_example_pool_def cpmm_new_def buy_def
      amount_value_def cpmm_rin_def cpmm_rout_def cp_out_def)

lemma cpmm_fees_never_sold_witness:
  "\<exists>q. cpmm_calculate_swap True cpmm_example_pool (buy 400000) = Some (Inr q) \<and>
     unat (so_amount_out q) + 111 \<le> 1000111"
proof -
  obtain q where q: "cpmm_calculate_swap True cpmm_example_pool (buy 400000) = Some (Inr q)"
    using cpmm_example_quote by blast
  then show ?thesis
    using cpmm_fees_never_sold [OF cpmm_example_built q disjI1 [OF TrueI]]
    by (auto simp: buy_def cpmm_fees_of_def cpmm_vault_of_def cpmm_fees_0_def cpmm_example_state_def)
qed

end
