(* ===== verification/RaydiumLaunchpad.thy ===== *)
theory RaydiumLaunchpad
  imports RaydiumV4 RaydiumCpmm
begin

text \<open>
  Raydium Launchpad (\<open>solana/protocols/src/protocols/raydium_launchpad/\<close>): the pool account with its
  virtual and real reserves (\<open>state.rs\<close>), the bonding-curve quote (\<open>math.rs\<close>), and the agreement of
  the three Raydium quotes at equal reserves and rates.
\<close>

section \<open>Pool account\<close>

definition launchpad_pool_account_min_size :: nat where
  "launchpad_pool_account_min_size = 429"

datatype pool_status = Fund | Live | Ended

definition pool_status_from_u8 :: "u8 \<Rightarrow> pool_status option" where
  "pool_status_from_u8 v =
     (if v = 0 then Some Fund else if v = 1 then Some Live else if v = 2 then Some Ended else None)"

record vesting_schedule =
  vs_total_locked_amount :: u64
  vs_cliff_period :: u64
  vs_unlock_period :: u64
  vs_start_time :: u64
  vs_allocated_share_amount :: u64

definition read_vesting_schedule :: "borsh \<Rightarrow> vesting_schedule reader" where
  "read_vesting_schedule B =
     rbind (rd_u64 B) (\<lambda>tl. rbind (rd_u64 B) (\<lambda>cp. rbind (rd_u64 B) (\<lambda>up.
     rbind (rd_u64 B) (\<lambda>st. rbind (rd_u64 B) (\<lambda>al.
     rret \<lparr> vs_total_locked_amount = tl, vs_cliff_period = cp, vs_unlock_period = up,
            vs_start_time = st, vs_allocated_share_amount = al \<rparr>)))))"

record launchpad_pool_state =
  ls_epoch :: u64
  ls_auth_bump :: u8
  ls_status :: u8
  ls_base_decimals :: u8
  ls_quote_decimals :: u8
  ls_migrate_type :: u8
  ls_supply :: u64
  ls_total_base_sell :: u64
  ls_virtual_base :: u64
  ls_virtual_quote :: u64
  ls_real_base :: u64
  ls_real_quote :: u64
  ls_total_quote_fund_raising :: u64
  ls_quote_protocol_fee :: u64
  ls_platform_fee :: u64
  ls_migrate_fee :: u64
  ls_vesting_schedule :: vesting_schedule
  ls_global_config :: pubkey
  ls_platform_config :: pubkey
  ls_base_mint :: pubkey
  ls_quote_mint :: pubkey
  ls_base_vault :: pubkey
  ls_quote_vault :: pubkey
  ls_creator :: pubkey
  ls_token_program_flag :: u8
  ls_amm_creator_fee_on :: u8

definition read_launchpad_pool :: "borsh \<Rightarrow> launchpad_pool_state reader" where
  "read_launchpad_pool B =
     rbind (rd_u64 B) (\<lambda>ep. rbind (rd_u8 B) (\<lambda>ab. rbind (rd_u8 B) (\<lambda>st. rbind (rd_u8 B) (\<lambda>bd.
     rbind (rd_u8 B) (\<lambda>qd. rbind (rd_u8 B) (\<lambda>mt. rbind (rd_u64 B) (\<lambda>su.
     rbind (rd_u64 B) (\<lambda>tb. rbind (rd_u64 B) (\<lambda>vb. rbind (rd_u64 B) (\<lambda>vq.
     rbind (rd_u64 B) (\<lambda>rb. rbind (rd_u64 B) (\<lambda>rq. rbind (rd_u64 B) (\<lambda>tq.
     rbind (rd_u64 B) (\<lambda>qp. rbind (rd_u64 B) (\<lambda>pf. rbind (rd_u64 B) (\<lambda>mf.
     rbind (read_vesting_schedule B) (\<lambda>vs. rbind (rd_pubkey B) (\<lambda>gc. rbind (rd_pubkey B) (\<lambda>pc.
     rbind (rd_pubkey B) (\<lambda>bm. rbind (rd_pubkey B) (\<lambda>qm. rbind (rd_pubkey B) (\<lambda>bv.
     rbind (rd_pubkey B) (\<lambda>qv. rbind (rd_pubkey B) (\<lambda>cr. rbind (rd_u8 B) (\<lambda>tf.
     rbind (rd_u8 B) (\<lambda>ac.
     rret \<lparr> ls_epoch = ep, ls_auth_bump = ab, ls_status = st, ls_base_decimals = bd,
            ls_quote_decimals = qd, ls_migrate_type = mt, ls_supply = su, ls_total_base_sell = tb,
            ls_virtual_base = vb, ls_virtual_quote = vq, ls_real_base = rb, ls_real_quote = rq,
            ls_total_quote_fund_raising = tq, ls_quote_protocol_fee = qp, ls_platform_fee = pf,
            ls_migrate_fee = mf, ls_vesting_schedule = vs, ls_global_config = gc,
            ls_platform_config = pc, ls_base_mint = bm, ls_quote_mint = qm, ls_base_vault = bv,
            ls_quote_vault = qv, ls_creator = cr, ls_token_program_flag = tf,
            ls_amm_creator_fee_on = ac \<rparr>))))))))))))))))))))))))))"

definition launchpad_from_account_data ::
  "borsh \<Rightarrow> bytes \<Rightarrow> bytes \<Rightarrow> error + launchpad_pool_state" where
  "launchpad_from_account_data B disc data =
     map_err error_of_parse
       (onchain_from_account_data (Some disc) (read_launchpad_pool B) (\<lambda>_. []) data)"

definition launchpad_pool_status :: "launchpad_pool_state \<Rightarrow> pool_status option" where
  "launchpad_pool_status s = pool_status_from_u8 (ls_status s)"

definition launchpad_is_active :: "launchpad_pool_state \<Rightarrow> bool" where
  "launchpad_is_active s \<longleftrightarrow> launchpad_pool_status s = Some Live"

definition launchpad_base_reserve :: "launchpad_pool_state \<Rightarrow> u64" where
  "launchpad_base_reserve s =
     as_u64 (saturating_sub (unat (ls_virtual_base s)) (unat (ls_real_base s)))"

definition launchpad_quote_reserve :: "launchpad_pool_state \<Rightarrow> u64" where
  "launchpad_quote_reserve s =
     as_u64 (saturating_add 64 (unat (ls_virtual_quote s)) (unat (ls_real_quote s)))"

definition launchpad_decimal_adj :: "launchpad_pool_state \<Rightarrow> f64" where
  "launchpad_decimal_adj s =
     f_powi (f_of_nat 10) (int (unat (ls_base_decimals s)) - int (unat (ls_quote_decimals s)))"

definition launchpad_spot_price :: "launchpad_pool_state \<Rightarrow> f64" where
  "launchpad_spot_price s =
     (if launchpad_base_reserve s = 0 \<or> launchpad_quote_reserve s = 0 then f_0
      else f_mul (f_div (f_of_nat (unat (launchpad_quote_reserve s)))
                        (f_of_nat (unat (launchpad_base_reserve s))))
             (launchpad_decimal_adj s))"

definition launchpad_pair :: "launchpad_pool_state \<Rightarrow> pubkey \<times> pubkey" where
  "launchpad_pair s = (ls_base_mint s, ls_quote_mint s)"

section \<open>Swaps\<close>

record launchpad_swap_pool =
  lsp_pool :: launchpad_pool_state
  lsp_trade_fee_rate :: u64

definition launchpad_new :: "launchpad_pool_state \<Rightarrow> u64 \<Rightarrow> launchpad_swap_pool" where
  "launchpad_new s rate = \<lparr> lsp_pool = s, lsp_trade_fee_rate = rate \<rparr>"

definition launchpad_with_default_fee :: "launchpad_pool_state \<Rightarrow> launchpad_swap_pool" where
  "launchpad_with_default_fee s = launchpad_new s 10000"

definition launchpad_fee_rate_denominator :: u64 where
  "launchpad_fee_rate_denominator = 1000000"

definition launchpad_base_ui :: "launchpad_pool_state \<Rightarrow> nat \<Rightarrow> f64" where
  "launchpad_base_ui s n = ui_amount n (int (unat (ls_base_decimals s)))"

definition launchpad_quote_ui :: "launchpad_pool_state \<Rightarrow> nat \<Rightarrow> f64" where
  "launchpad_quote_ui s n = ui_amount n (int (unat (ls_quote_decimals s)))"

definition launchpad_post_swap_price :: "launchpad_pool_state \<Rightarrow> nat \<Rightarrow> nat \<Rightarrow> f64" where
  "launchpad_post_swap_price s new_base new_quote =
     (if new_base > 0
      then f_mul (f_div (f_of_nat new_quote) (f_of_nat new_base)) (launchpad_decimal_adj s)
      else f_0)"

definition launchpad_effective_price ::
  "launchpad_pool_state \<Rightarrow> swap_direction \<Rightarrow> nat \<Rightarrow> nat \<Rightarrow> f64" where
  "launchpad_effective_price s d amount_in amount_out =
     (if amount_in > 0
      then (case d of
              Buy \<Rightarrow> quotient_if_positive (launchpad_base_ui s amount_out)
                       (launchpad_quote_ui s amount_in) (launchpad_base_ui s amount_out)
            | Sell \<Rightarrow> quotient_if_positive (launchpad_base_ui s amount_in)
                       (launchpad_quote_ui s amount_out) (launchpad_base_ui s amount_in))
      else f_0)"

definition launchpad_price_impact_bps :: "f64 \<Rightarrow> f64 \<Rightarrow> u16" where
  "launchpad_price_impact_bps initial_price post_swap_price =
     (if f_gt initial_price f_0 \<and> f_gt post_swap_price f_0
      then f_as_u16 (f_min (f_mul (f_abs (f_div (f_sub post_swap_price initial_price) initial_price))
                                  (f_of_nat 10000)) (f_of_nat 10000))
      else 0)"

definition calculate_launchpad_swap ::
  "bool \<Rightarrow> launchpad_pool_state \<Rightarrow> u64 \<Rightarrow> swap_params \<Rightarrow> (error, swap_output) outcome" where
  "calculate_launchpad_swap oc s rate p = do {
     let raw_amount = amount (sp_amount p);
     product \<leftarrow> u_mul oc 128 (unat raw_amount) (unat rate);
     fee \<leftarrow> u_div product (unat launchpad_fee_rate_denominator);
     after_fee \<leftarrow> u_sub oc 128 (unat raw_amount) fee;
     let base_reserve = unat (launchpad_base_reserve s);
     let quote_reserve = unat (launchpad_quote_reserve s);
     let (reserve_in, reserve_out) =
       (case sp_direction p of
          Buy \<Rightarrow> (quote_reserve, base_reserve)
        | Sell \<Rightarrow> (base_reserve, quote_reserve));
     denominator \<leftarrow> u_add oc 128 reserve_in after_fee;
     (if denominator = 0 then Some (Inl (InsufficientReserves raw_amount 0))
      else do {
        numerator \<leftarrow> u_mul oc 128 reserve_out after_fee;
        amount_out \<leftarrow> u_div numerator denominator;
        (new_base, new_quote) \<leftarrow>
          (case sp_direction p of
             Buy \<Rightarrow> do {
               new_base \<leftarrow> u_sub oc 128 base_reserve amount_out;
               new_quote \<leftarrow> u_add oc 128 quote_reserve (unat raw_amount);
               Some (new_base, new_quote) }
           | Sell \<Rightarrow> do {
               new_base \<leftarrow> u_add oc 128 base_reserve (unat raw_amount);
               new_quote \<leftarrow> u_sub oc 128 quote_reserve amount_out;
               Some (new_base, new_quote) });
        let post_swap_price = launchpad_post_swap_price s new_base new_quote;
        Some (Inr
          \<lparr> so_amount_in = raw_amount, so_amount_out = as_u64 amount_out, so_fee = as_u64 fee,
            so_protocol_fee = as_u64 fee, so_lp_fee = 0,
            so_price_impact_bps =
              launchpad_price_impact_bps (launchpad_spot_price s) post_swap_price,
            so_effective_price =
              launchpad_effective_price s (sp_direction p) (unat raw_amount) amount_out,
            so_post_swap_price = post_swap_price, so_accounts_used = [] \<rparr>)
      })
   }"

definition launchpad_calculate_swap ::
  "bool \<Rightarrow> launchpad_swap_pool \<Rightarrow> swap_params \<Rightarrow> (error, swap_output) outcome" where
  "launchpad_calculate_swap oc w p = calculate_launchpad_swap oc (lsp_pool w) (lsp_trade_fee_rate w) p"

definition launchpad_swap_spot_price :: "launchpad_swap_pool \<Rightarrow> f64" where
  "launchpad_swap_spot_price w = launchpad_spot_price (lsp_pool w)"

definition launchpad_swap_is_active :: "launchpad_swap_pool \<Rightarrow> bool" where
  "launchpad_swap_is_active w = launchpad_is_active (lsp_pool w)"

section \<open>The quote\<close>

definition launchpad_fee :: "u64 \<Rightarrow> nat \<Rightarrow> nat" where
  "launchpad_fee rate a = floor_fee (unat rate) 1000000 a"

definition launchpad_rin :: "launchpad_swap_pool \<Rightarrow> swap_direction \<Rightarrow> nat" where
  "launchpad_rin w d =
     (case d of Buy \<Rightarrow> unat (launchpad_quote_reserve (lsp_pool w))
      | Sell \<Rightarrow> unat (launchpad_base_reserve (lsp_pool w)))"

definition launchpad_rout :: "launchpad_swap_pool \<Rightarrow> swap_direction \<Rightarrow> nat" where
  "launchpad_rout w d = launchpad_rin w (opposite d)"

lemma launchpad_rin_less: "launchpad_rin w d < 2 ^ 64"
  using unat_u64_less by (cases d) (simp_all add: launchpad_rin_def)

lemma launchpad_fee_step:
  fixes a rate :: u64
  shows "u_mul oc 128 (unat a) (unat rate) = Some (unat a * unat rate)"
    and "u_div (unat a * unat rate) (unat launchpad_fee_rate_denominator) =
           Some (launchpad_fee rate (unat a))"
proof -
  show "u_mul oc 128 (unat a) (unat rate) = Some (unat a * unat rate)"
    by (rule u_mul_ok) (rule mult_u64_fits [OF unat_u64_less unat_u64_less])
qed (simp add: u_div_def launchpad_fee_rate_denominator_def launchpad_fee_def floor_fee_def)

lemma launchpad_reference:
  fixes w p
  defines "a \<equiv> unat (amount_value p)"
    and "fee \<equiv> launchpad_fee (lsp_trade_fee_rate w) (unat (amount_value p))"
    and "ri \<equiv> launchpad_rin w (sp_direction p)" and "ro \<equiv> launchpad_rout w (sp_direction p)"
  assumes "fee \<le> a"
  shows "amounts_of (launchpad_calculate_swap oc w p) = Some (input_fee_quote ri ro fee (amount_value p))"
proof -
  have ops: "ri < 2 ^ 64" "ro < 2 ^ 64" "a < 2 ^ 64" "a - fee \<le> a"
    by (simp_all add: ri_def ro_def launchpad_rout_def launchpad_rin_less a_def unat_u64_less
        del: power_numeral)
  note cp = cp_operators [OF ops]
  have net: "u_sub oc 128 a fee = Some (a - fee)"
    using assms(5) by (rule u_sub_ok)
  note fee_eq = launchpad_fee_step [where a = "amount_value p" and rate = "lsp_trade_fee_rate w",
      folded a_def fee_def, unfolded a_def [symmetric]]
  note unfolds = Let_def launchpad_calculate_swap_def calculate_launchpad_swap_def
    amount_value_def [symmetric] a_def [symmetric] fee_eq
  show ?thesis
  proof (cases "sp_direction p")
    case Buy
    then have sides: "unat (launchpad_quote_reserve (lsp_pool w)) = ri"
      "unat (launchpad_base_reserve (lsp_pool w)) = ro"
      by (simp_all add: ri_def ro_def launchpad_rin_def launchpad_rout_def)
    show ?thesis
      by (cases "ri + (a - fee) = 0")
        (simp_all add: unfolds sides Buy net cp u_mul_ok u_add_ok amounts_of_def
          input_fee_quote_def quote_amounts_def)
  next
    case Sell
    then have sides: "unat (launchpad_base_reserve (lsp_pool w)) = ri"
      "unat (launchpad_quote_reserve (lsp_pool w)) = ro"
      by (simp_all add: ri_def ro_def launchpad_rin_def launchpad_rout_def)
    show ?thesis
      by (cases "ri + (a - fee) = 0")
        (simp_all add: unfolds sides Sell net cp u_mul_ok u_add_ok amounts_of_def
          input_fee_quote_def quote_amounts_def)
  qed
qed

lemma launchpad_uncovered:
  "unat (amount_value p) < launchpad_fee (lsp_trade_fee_rate w) (unat (amount_value p)) \<Longrightarrow> launchpad_calculate_swap True w p = None"
  by (simp add: launchpad_calculate_swap_def calculate_launchpad_swap_def amount_value_def Let_def
        launchpad_fee_step u_sub_def)

lemma launchpad_unsplit:
  "launchpad_calculate_swap oc w p = Some (Inr q) \<Longrightarrow> so_protocol_fee q = so_fee q \<and> so_lp_fee q = 0"
  by (cases "sp_direction p") (auto simp: launchpad_calculate_swap_def calculate_launchpad_swap_def
      bind_eq_Some_conv Let_def split: if_splits prod.splits)

lemma launchpad_amount_only:
  "sp_direction p = sp_direction p' \<Longrightarrow> amount_value p = amount_value p' \<Longrightarrow>
   launchpad_calculate_swap oc w p = launchpad_calculate_swap oc w p'"
  by (simp add: launchpad_calculate_swap_def calculate_launchpad_swap_def amount_value_def
      cong: if_cong)

interpretation launchpad: input_fee_pool launchpad_calculate_swap launchpad_rin launchpad_rout "\<lambda>w. launchpad_fee (lsp_trade_fee_rate w)"
proof unfold_locales
  fix oc w p p'
  show "sp_direction p = sp_direction p' \<Longrightarrow> amount_value p = amount_value p' \<Longrightarrow>
      launchpad_calculate_swap oc w p = launchpad_calculate_swap oc w p'"
    by (rule launchpad_amount_only)
qed (simp_all add: launchpad_reference launchpad_uncovered launchpad_unsplit launchpad_rin_less launchpad_fee_def floor_fee_net_mono
    launchpad_rout_def del: power_numeral)

section \<open>The three Raydium quotes agree\<close>

lemma wrapping_operators:
  "\<exists>c. u_add False w a b = Some c"
  "\<exists>c. u_mul False w a b = Some c"
  "\<exists>c. u_sub False w a b = Some c"
  by (simp_all add: u_add_def u_mul_def u_sub_def)

text \<open>Without overflow checks only a division by zero could stop a quote, and none occurs.\<close>

lemma raydium_wrapping_agree:
  assumes "v4r_base_reserve v = cr_reserve_0 c" "v4r_quote_reserve v = cr_reserve_1 c"
    and "launchpad_base_reserve (lsp_pool l) = cr_reserve_0 c"
    and "launchpad_quote_reserve (lsp_pool l) = cr_reserve_1 c"
    and "v4_trade_fee_numerator (v4r_pool v) = cr_trade_fee_rate c"
    and "v4_trade_fee_denominator (v4r_pool v) = 1000000"
    and "lsp_trade_fee_rate l = cr_trade_fee_rate c"
  shows "amounts_of (v4_calculate_swap False v p) = amounts_of (cpmm_calculate_swap False c p)"
    and "amounts_of (launchpad_calculate_swap False l p) = amounts_of (cpmm_calculate_swap False c p)"
proof -
  obtain add mul sub where ops: "\<And>w a b. u_add False w a b = Some (add w a b)"
    "\<And>w a b. u_mul False w a b = Some (mul w a b)" "\<And>w a b. u_sub False w a b = Some (sub w a b)"
    using wrapping_operators by metis
  note unfolds = assms Let_def v4_calculate_swap_def calculate_swap_output_def
    cpmm_calculate_swap_def calculate_cpmm_swap_def launchpad_calculate_swap_def
    calculate_launchpad_swap_def ops u_div_def checked_div_def
    cpmm_fee_rate_denominator_def launchpad_fee_rate_denominator_def amounts_of_def quote_amounts_def
  show "amounts_of (v4_calculate_swap False v p) = amounts_of (cpmm_calculate_swap False c p)"
    by (cases "sp_direction p") (simp_all add: unfolds)
  show "amounts_of (launchpad_calculate_swap False l p) = amounts_of (cpmm_calculate_swap False c p)"
    by (cases "sp_direction p") (simp_all add: unfolds)
qed

section \<open>Properties\<close>

text \<open>C29: The three Raydium quotes are one function: at equal reserves and an equal rate over one million
  the V4, CPMM and Launchpad code give the same amounts or the same error for every request, in a
  build with overflow checks (panics included) and in one without.\<close>

theorem raydium_quotes_agree:
  assumes "v4r_base_reserve v = cr_reserve_0 c" "v4r_quote_reserve v = cr_reserve_1 c"
    and "launchpad_base_reserve (lsp_pool l) = cr_reserve_0 c"
    and "launchpad_quote_reserve (lsp_pool l) = cr_reserve_1 c"
    and "v4_trade_fee_numerator (v4r_pool v) = cr_trade_fee_rate c"
    and "v4_trade_fee_denominator (v4r_pool v) = 1000000"
    and "lsp_trade_fee_rate l = cr_trade_fee_rate c"
  shows "amounts_of (v4_calculate_swap oc v p) = amounts_of (cpmm_calculate_swap oc c p) \<and>
         amounts_of (launchpad_calculate_swap oc l p) = amounts_of (cpmm_calculate_swap oc c p)"
proof (cases oc)
  case False
  then show ?thesis
    using raydium_wrapping_agree [OF assms] by simp
next
  case oc: True
  let ?a = "unat (amount_value p)" and ?d = "sp_direction p"
  have fees: "v4_fee (v4r_pool v) ?a = cpmm_fee (cr_trade_fee_rate c) ?a"
    "launchpad_fee (lsp_trade_fee_rate l) ?a = cpmm_fee (cr_trade_fee_rate c) ?a"
    by (simp_all add: assms v4_fee_def cpmm_fee_def launchpad_fee_def)
  have reserves: "v4_rin v d = cpmm_rin c d" "launchpad_rin l d = cpmm_rin c d" for d
    by (cases d; simp add: assms v4_rin_def cpmm_rin_def launchpad_rin_def)+
  show ?thesis
  proof (cases "cpmm_fee (cr_trade_fee_rate c) ?a \<le> ?a")
    case True
    then show ?thesis
      using v4.reference [of v p oc] cpmm.reference [of c p oc] launchpad.reference [of l p oc]
      by (simp add: fees reserves v4_rout_def cpmm_rout_def launchpad_rout_def)
  next
    case False
    then show ?thesis
      using v4.uncovered [of p v] cpmm.uncovered [of p c] launchpad.uncovered [of p l]
      by (simp add: fees oc not_le)
  qed
qed

definition launchpad_example_state :: launchpad_pool_state where
  "launchpad_example_state =
     \<lparr> ls_epoch = 0, ls_auth_bump = 255, ls_status = 1, ls_base_decimals = 6, ls_quote_decimals = 9,
       ls_migrate_type = 1, ls_supply = 5000000, ls_total_base_sell = 4000000,
       ls_virtual_base = 1300000, ls_virtual_quote = 1500000, ls_real_base = 300000,
       ls_real_quote = 500000, ls_total_quote_fund_raising = 85000000000, ls_quote_protocol_fee = 0,
       ls_platform_fee = 0, ls_migrate_fee = 0,
       ls_vesting_schedule = \<lparr> vs_total_locked_amount = 0, vs_cliff_period = 0, vs_unlock_period = 0,
         vs_start_time = 0, vs_allocated_share_amount = 0 \<rparr>,
       ls_global_config = replicate 32 1, ls_platform_config = replicate 32 2,
       ls_base_mint = replicate 32 3, ls_quote_mint = replicate 32 4, ls_base_vault = replicate 32 5,
       ls_quote_vault = replicate 32 6, ls_creator = replicate 32 7, ls_token_program_flag = 0,
       ls_amm_creator_fee_on = 0 \<rparr>"

definition launchpad_example :: launchpad_swap_pool where
  "launchpad_example = launchpad_new launchpad_example_state 2500"

lemma raydium_quotes_agree_witness:
  "amounts_of (v4_calculate_swap True v4_example (sell 7)) =
     amounts_of (cpmm_calculate_swap True cpmm_example_pool (sell 7)) \<and>
   amounts_of (launchpad_calculate_swap True launchpad_example (sell 7)) =
     amounts_of (cpmm_calculate_swap True cpmm_example_pool (sell 7))"
  by (rule raydium_quotes_agree)
    (simp_all add: v4_example_def v4_example_state_def v4_pool_with_reserves_new_def
      cpmm_example_pool_def cpmm_new_def launchpad_example_def launchpad_new_def
      launchpad_example_state_def launchpad_base_reserve_def launchpad_quote_reserve_def
      saturating_add_def)

text \<open>Buying and selling back never gains: a CPMM pool left with the reserves of a first quote (its
  whole input in, its output out) pays for at most that output at most what the first quote cost,
  whatever the fee rate and the direction.\<close>

lemma cpmm_no_round_trip_gain:
  assumes "cpmm_calculate_swap True w p = Some (Inr q)" "cpmm_calculate_swap True w' p' = Some (Inr q')"
    and "sp_direction p' = opposite (sp_direction p)" "amount_value p' \<le> so_amount_out q"
    and "cpmm_rin w' (sp_direction p) = cpmm_rin w (sp_direction p) + unat (so_amount_in q)"
    and "cpmm_rout w' (sp_direction p) = cpmm_rout w (sp_direction p) - unat (so_amount_out q)"
  shows "so_amount_out q' \<le> so_amount_in q"
  by (rule cpmm.math.no_round_trip_gain [OF assms TrueI TrueI])

definition cpmm_example_after :: cpmm_pool_with_reserves where
  "cpmm_example_after = cpmm_new cpmm_example_state 833681 2400000 2500"

text \<open>An exact-out request is priced as an exact-in request by all three Raydium pools: the
  desired output is spent as the input, so that the quote may pay out another amount than the one
  asked for.\<close>

lemma raydium_exact_out_ignored:
  "v4_calculate_swap oc v (buy_exact_out a) = v4_calculate_swap oc v (buy a) \<and>
   cpmm_calculate_swap oc c (buy_exact_out a) = cpmm_calculate_swap oc c (buy a) \<and>
   launchpad_calculate_swap oc l (buy_exact_out a) = launchpad_calculate_swap oc l (buy a) \<and>
   (\<exists>q. cpmm_calculate_swap True cpmm_example_pool (buy_exact_out 400000) = Some (Inr q) \<and>
        so_amount_in q = 400000 \<and> unat (so_amount_out q) = 166319)"
proof -
  have same: "sp_direction (buy_exact_out a) = sp_direction (buy a)"
    "amount_value (buy_exact_out a) = amount_value (buy a)" for a
    by (simp_all add: buy_exact_out_def buy_def amount_value_def)
  have cpmm: "cpmm_calculate_swap oc c (buy_exact_out a) = cpmm_calculate_swap oc c (buy a)" for oc c a
    by (rule cpmm_amount_only) (rule same)+
  have "v4_calculate_swap oc v (buy_exact_out a) = v4_calculate_swap oc v (buy a)"
    by (rule v4_amount_only) (rule same)+
  moreover have "launchpad_calculate_swap oc l (buy_exact_out a) = launchpad_calculate_swap oc l (buy a)"
    by (rule launchpad_amount_only) (rule same)+
  ultimately show ?thesis
    using cpmm cpmm_example_quote by metis
qed

end
