(* ===== verification/MeteoraDbc.thy ===== *)
theory MeteoraDbc
  imports InputFee
begin

text \<open>
  Meteora's dynamic bonding curve (\<open>solana/protocols/src/protocols/meteora_dbc/\<close>): the virtual pool
  account with its nested structs (\<open>state.rs\<close>) and the constant-product quote over the inline
  reserves (\<open>math.rs\<close>), all of whose arithmetic is checked or saturating: it has no panic, so that a
  quote is a plain \<open>Result\<close>.
\<close>

section \<open>Pool account\<close>

definition dbc_virtual_pool_account_size :: nat where
  "dbc_virtual_pool_account_size = 424"

record volatility_tracker =
  vt_last_update_timestamp :: u64
  vt_padding :: "u8 list"
  vt_sqrt_price_reference :: u128
  vt_volatility_accumulator :: u128
  vt_volatility_reference :: u128

definition read_volatility_tracker :: "borsh \<Rightarrow> volatility_tracker reader" where
  "read_volatility_tracker B =
     rbind (rd_u64 B) (\<lambda>ts. rbind (read_array 8 (rd_u8 B)) (\<lambda>pad. rbind (rd_u128 B) (\<lambda>sr.
     rbind (rd_u128 B) (\<lambda>va. rbind (rd_u128 B) (\<lambda>vr.
     rret \<lparr> vt_last_update_timestamp = ts, vt_padding = pad, vt_sqrt_price_reference = sr,
            vt_volatility_accumulator = va, vt_volatility_reference = vr \<rparr>)))))"

record pool_metrics =
  pm_total_protocol_base_fee :: u64
  pm_total_protocol_quote_fee :: u64
  pm_total_trading_base_fee :: u64
  pm_total_trading_quote_fee :: u64

definition read_pool_metrics :: "borsh \<Rightarrow> pool_metrics reader" where
  "read_pool_metrics B =
     rbind (rd_u64 B) (\<lambda>pb. rbind (rd_u64 B) (\<lambda>pq. rbind (rd_u64 B) (\<lambda>tb. rbind (rd_u64 B) (\<lambda>tq.
     rret \<lparr> pm_total_protocol_base_fee = pb, pm_total_protocol_quote_fee = pq,
            pm_total_trading_base_fee = tb, pm_total_trading_quote_fee = tq \<rparr>))))"

datatype migration_progress = PreBondingCurve | PostBondingCurve | LockedVesting | CreatedPool

definition migration_progress_from_u8 :: "u8 \<Rightarrow> migration_progress option" where
  "migration_progress_from_u8 v =
     (if v = 0 then Some PreBondingCurve else if v = 1 then Some PostBondingCurve
      else if v = 2 then Some LockedVesting else if v = 3 then Some CreatedPool else None)"

record virtual_pool =
  vp_volatility_tracker :: volatility_tracker
  vp_config :: pubkey
  vp_creator :: pubkey
  vp_base_mint :: pubkey
  vp_base_vault :: pubkey
  vp_quote_vault :: pubkey
  vp_base_reserve :: u64
  vp_quote_reserve :: u64
  vp_protocol_base_fee :: u64
  vp_protocol_quote_fee :: u64
  vp_partner_base_fee :: u64
  vp_partner_quote_fee :: u64
  vp_sqrt_price :: u128
  vp_activation_point :: u64
  vp_pool_type :: u8
  vp_is_migrated :: u8
  vp_is_partner_withdraw_surplus :: u8
  vp_is_protocol_withdraw_surplus :: u8
  vp_migration_progress :: u8
  vp_is_withdraw_leftover :: u8
  vp_is_creator_withdraw_surplus :: u8
  vp_migration_fee_withdraw_status :: u8
  vp_metrics :: pool_metrics
  vp_finish_curve_timestamp :: u64
  vp_creator_base_fee :: u64
  vp_creator_quote_fee :: u64
  vp_legacy_creation_fee_bits :: u8
  vp_creation_fee_bits :: u8
  vp_padding_0 :: "u8 list"
  vp_padding_1 :: "u64 list"

definition read_virtual_pool :: "borsh \<Rightarrow> virtual_pool reader" where
  "read_virtual_pool B =
     rbind (read_volatility_tracker B) (\<lambda>vt. rbind (rd_pubkey B) (\<lambda>cf. rbind (rd_pubkey B) (\<lambda>cr.
     rbind (rd_pubkey B) (\<lambda>bm. rbind (rd_pubkey B) (\<lambda>bv. rbind (rd_pubkey B) (\<lambda>qv.
     rbind (rd_u64 B) (\<lambda>br. rbind (rd_u64 B) (\<lambda>qr. rbind (rd_u64 B) (\<lambda>pbf.
     rbind (rd_u64 B) (\<lambda>pqf. rbind (rd_u64 B) (\<lambda>abf. rbind (rd_u64 B) (\<lambda>aqf.
     rbind (rd_u128 B) (\<lambda>sp. rbind (rd_u64 B) (\<lambda>ap. rbind (rd_u8 B) (\<lambda>pt. rbind (rd_u8 B) (\<lambda>im.
     rbind (rd_u8 B) (\<lambda>pw. rbind (rd_u8 B) (\<lambda>qw. rbind (rd_u8 B) (\<lambda>mp. rbind (rd_u8 B) (\<lambda>wl.
     rbind (rd_u8 B) (\<lambda>cw. rbind (rd_u8 B) (\<lambda>mw. rbind (read_pool_metrics B) (\<lambda>pm.
     rbind (rd_u64 B) (\<lambda>fc. rbind (rd_u64 B) (\<lambda>cbf. rbind (rd_u64 B) (\<lambda>cqf. rbind (rd_u8 B) (\<lambda>lb.
     rbind (rd_u8 B) (\<lambda>cb. rbind (read_array 6 (rd_u8 B)) (\<lambda>p0.
     rbind (read_array 6 (rd_u64 B)) (\<lambda>p1.
     rret \<lparr> vp_volatility_tracker = vt, vp_config = cf, vp_creator = cr, vp_base_mint = bm,
            vp_base_vault = bv, vp_quote_vault = qv, vp_base_reserve = br, vp_quote_reserve = qr,
            vp_protocol_base_fee = pbf, vp_protocol_quote_fee = pqf, vp_partner_base_fee = abf,
            vp_partner_quote_fee = aqf, vp_sqrt_price = sp, vp_activation_point = ap,
            vp_pool_type = pt, vp_is_migrated = im, vp_is_partner_withdraw_surplus = pw,
            vp_is_protocol_withdraw_surplus = qw, vp_migration_progress = mp,
            vp_is_withdraw_leftover = wl, vp_is_creator_withdraw_surplus = cw,
            vp_migration_fee_withdraw_status = mw, vp_metrics = pm, vp_finish_curve_timestamp = fc,
            vp_creator_base_fee = cbf, vp_creator_quote_fee = cqf,
            vp_legacy_creation_fee_bits = lb, vp_creation_fee_bits = cb, vp_padding_0 = p0,
            vp_padding_1 = p1 \<rparr>))))))))))))))))))))))))))))))"

definition dbc_from_account_data :: "borsh \<Rightarrow> bytes \<Rightarrow> bytes \<Rightarrow> error + virtual_pool" where
  "dbc_from_account_data B disc data =
     map_err error_of_parse
       (onchain_from_account_data (Some disc) (read_virtual_pool B) (\<lambda>_. []) data)"

definition dbc_is_active :: "virtual_pool \<Rightarrow> bool" where
  "dbc_is_active v \<longleftrightarrow> vp_is_migrated v = 0"

definition migration_state :: "virtual_pool \<Rightarrow> migration_progress option" where
  "migration_state v = migration_progress_from_u8 (vp_migration_progress v)"

definition q64_f64 :: f64 where
  "q64_f64 = f_of_nat (2 ^ 64)"

definition dbc_spot_price :: "virtual_pool \<Rightarrow> f64" where
  "dbc_spot_price v =
     (if vp_sqrt_price v = 0 then f_0
      else let sqrt = f_div (f_of_nat (unat (vp_sqrt_price v))) q64_f64 in f_mul sqrt sqrt)"

section \<open>Swaps\<close>

record dbc_swap_pool =
  dsp_pool :: virtual_pool
  dsp_trade_fee_rate :: u64

definition dbc_default_fee_rate :: u64 where
  "dbc_default_fee_rate = 10000000"

definition dbc_new :: "virtual_pool \<Rightarrow> u64 \<Rightarrow> dbc_swap_pool" where
  "dbc_new v rate = \<lparr> dsp_pool = v, dsp_trade_fee_rate = rate \<rparr>"

definition dbc_with_default_fee :: "virtual_pool \<Rightarrow> dbc_swap_pool" where
  "dbc_with_default_fee v = dbc_new v dbc_default_fee_rate"

definition dbc_fee_denominator :: u64 where
  "dbc_fee_denominator = 1000000000"

definition dbc_price_impact_bps :: "u64 \<Rightarrow> u64 \<Rightarrow> u16" where
  "dbc_price_impact_bps out reserve_out =
     (if reserve_out > 0
      then f_as_u16 (f_min (f_mul (f_div (f_of_nat (unat out)) (f_of_nat (unat reserve_out)))
                                  (f_of_nat 10000)) (f_of_nat 10000))
      else 10000)"

definition dbc_effective_price :: "u64 \<Rightarrow> u64 \<Rightarrow> f64" where
  "dbc_effective_price raw out =
     (if raw > 0 \<and> out > 0 then f_div (f_of_nat (unat out)) (f_of_nat (unat raw)) else f_0)"

definition calculate_dbc_swap :: "virtual_pool \<Rightarrow> u64 \<Rightarrow> swap_params \<Rightarrow> error + swap_output" where
  "calculate_dbc_swap v rate p =
     (if \<not> dbc_is_active v then Inl (protocol_error ''MeteoraDbC'' ''pool is migrated/inactive'')
      else
        let raw_amount = amount (sp_amount p);
            fee = (case Option.bind (checked_mul 64 (unat raw_amount) (unat rate))
                          (\<lambda>x. checked_div x (unat dbc_fee_denominator)) of
                     None \<Rightarrow> 0 | Some f \<Rightarrow> f);
            after_fee = saturating_sub (unat raw_amount) fee;
            (reserve_in, reserve_out) =
              (case sp_direction p of
                 Buy \<Rightarrow> (vp_quote_reserve v, vp_base_reserve v)
               | Sell \<Rightarrow> (vp_base_reserve v, vp_quote_reserve v));
            denominator = saturating_add 64 (unat reserve_in) after_fee
        in if denominator = 0
           then Inr \<lparr> so_amount_in = raw_amount, so_amount_out = 0, so_fee = as_u64 fee,
                      so_protocol_fee = as_u64 (fee div 2), so_lp_fee = as_u64 (fee div 2),
                      so_price_impact_bps = 0, so_effective_price = f_0,
                      so_post_swap_price = dbc_spot_price v, so_accounts_used = [] \<rparr>
           else
             let amount_out =
                   as_u64 (case Option.bind (checked_mul 128 (unat reserve_out) after_fee)
                                  (\<lambda>x. checked_div x denominator) of
                             None \<Rightarrow> 0 | Some x \<Rightarrow> x)
             in if amount_out > reserve_out then Inl (InsufficientReserves amount_out reserve_out)
                else
                  let new_reserve_in = saturating_add 64 (unat reserve_in) after_fee;
                      new_reserve_out = saturating_sub (unat reserve_out) (unat amount_out)
                  in Inr \<lparr> so_amount_in = raw_amount, so_amount_out = amount_out,
                           so_fee = as_u64 fee, so_protocol_fee = as_u64 (fee div 2),
                           so_lp_fee = as_u64 (fee div 2),
                           so_price_impact_bps = dbc_price_impact_bps amount_out reserve_out,
                           so_effective_price = dbc_effective_price raw_amount amount_out,
                           so_post_swap_price =
                             (if new_reserve_out > 0
                              then f_div (f_of_nat new_reserve_in) (f_of_nat new_reserve_out)
                              else f_0),
                           so_accounts_used = [] \<rparr>)"

definition dbc_calculate_swap :: "dbc_swap_pool \<Rightarrow> swap_params \<Rightarrow> error + swap_output" where
  "dbc_calculate_swap w p = calculate_dbc_swap (dsp_pool w) (dsp_trade_fee_rate w) p"

definition dbc_swap_spot_price :: "dbc_swap_pool \<Rightarrow> f64" where
  "dbc_swap_spot_price w = dbc_spot_price (dsp_pool w)"

definition dbc_swap_is_active :: "dbc_swap_pool \<Rightarrow> bool" where
  "dbc_swap_is_active w = dbc_is_active (dsp_pool w)"

section \<open>The quote\<close>

text \<open>The fee is nothing when the product of amount and rate leaves 64 bits.\<close>

definition dbc_fee :: "u64 \<Rightarrow> nat \<Rightarrow> nat" where
  "dbc_fee rate a = (if a * unat rate < 2 ^ 64 then floor_fee (unat rate) 1000000000 a else 0)"

definition dbc_rin :: "dbc_swap_pool \<Rightarrow> swap_direction \<Rightarrow> nat" where
  "dbc_rin w d =
     (case d of Buy \<Rightarrow> unat (vp_quote_reserve (dsp_pool w)) | Sell \<Rightarrow> unat (vp_base_reserve (dsp_pool w)))"

definition dbc_rout :: "dbc_swap_pool \<Rightarrow> swap_direction \<Rightarrow> nat" where
  "dbc_rout w d = dbc_rin w (opposite d)"

definition dbc_in_range :: "dbc_swap_pool \<Rightarrow> swap_params \<Rightarrow> bool" where
  "dbc_in_range w p \<longleftrightarrow> dbc_rin w (sp_direction p) + unat (amount_value p) < 2 ^ 64"

lemma dbc_rin_less: "dbc_rin w d < 2 ^ 64"
  using unat_u64_less by (cases d) (simp_all add: dbc_rin_def)

lemma dbc_fee_step:
  "(case Option.bind (checked_mul 64 (unat a) (unat rate))
      (\<lambda>x. checked_div x (unat dbc_fee_denominator)) of None \<Rightarrow> 0 | Some f \<Rightarrow> f) = dbc_fee rate (unat a)"
  for a rate :: u64
  by (simp add: checked_mul_def checked_div_def dbc_fee_denominator_def dbc_fee_def floor_fee_def)

lemma dbc_fee_net_mono: "a \<le> b \<Longrightarrow> a - dbc_fee rate a \<le> b - dbc_fee rate b"
proof -
  assume le: "a \<le> b"
  show ?thesis
  proof (cases "b * unat rate < 2 ^ 64")
    case True
    moreover have "a * unat rate < 2 ^ 64"
      using le by (intro order_le_less_trans [OF mult_le_mono1 True])
    ultimately show ?thesis
      using floor_fee_net_mono [OF le] by (simp add: dbc_fee_def del: power_numeral)
  qed (use le in \<open>simp add: dbc_fee_def\<close>)
qed

lemma dbc_fee_less:
  fixes a :: u64
  shows "dbc_fee rate (unat a) < 2 ^ 64"
proof -
  have "x div 1000000000 \<le> x" for x :: nat by (rule div_le_dividend)
  then show ?thesis
    by (auto simp: dbc_fee_def floor_fee_def intro: order_le_less_trans)
qed

text \<open>
  The output over a denominator that saturates at \<open>2 ^ 64 - 1\<close>: never more than the reserve, and
  the constant-product output in range.
\<close>

definition dbc_out :: "nat \<Rightarrow> nat \<Rightarrow> nat \<Rightarrow> nat" where
  "dbc_out ri ro net = ro * net div min (ri + net) (2 ^ 64 - 1)"

lemma dbc_out_le: "net < 2 ^ 64 \<Longrightarrow> dbc_out ri ro net \<le> ro"
proof -
  assume "net < 2 ^ 64"
  then have "ro * net \<le> ro * min (ri + net) (2 ^ 64 - 1)"
    by (intro mult_le_mono2) simp
  then show ?thesis
    unfolding dbc_out_def by (metis div_le_mono div_mult_self_is_m gr0I le0 div_by_0)
qed

lemma dbc_out_in_range: "ri + net < 2 ^ 64 \<Longrightarrow> dbc_out ri ro net = cp_out ri ro net"
  by (simp add: dbc_out_def cp_out_def min_def)

lemma dbc_out_step:
  fixes ro :: u64
  assumes "net < 2 ^ 64"
  shows "(case Option.bind (checked_mul 128 (unat ro) net)
       (\<lambda>x. checked_div x (saturating_add 64 ri net)) of None \<Rightarrow> 0 | Some x \<Rightarrow> x) = dbc_out ri (unat ro) net"
  using mult_u64_fits [OF unat_u64_less assms, of ro]
  by (simp add: checked_mul_def checked_div_def dbc_out_def saturating_add_def)

lemma dbc_classified:
  fixes w p
  defines "a \<equiv> unat (amount_value p)"
    and "fee \<equiv> dbc_fee (dsp_trade_fee_rate w) (unat (amount_value p))"
    and "ri \<equiv> dbc_rin w (sp_direction p)" and "ro \<equiv> dbc_rout w (sp_direction p)"
  assumes "dbc_is_active (dsp_pool w)"
  shows "\<exists>q. dbc_calculate_swap w p = Inr q \<and> so_amount_in q = amount_value p \<and>
    unat (so_amount_out q) = dbc_out ri ro (a - fee) \<and> unat (so_fee q) = fee \<and>
    unat (so_protocol_fee q) = fee div 2 \<and> unat (so_lp_fee q) = fee div 2"
proof -
  have net: "a - fee < 2 ^ 64"
    unfolding a_def by (rule order_le_less_trans [OF diff_le_self unat_u64_less])
  have fee64: "fee < 2 ^ 64"
    unfolding fee_def by (rule dbc_fee_less)
  then have fees: "unat (as_u64 fee) = fee" "unat (as_u64 (fee div 2)) = fee div 2"
    using order_le_less_trans [OF div_le_dividend fee64, of 2] by simp_all
  have ro64: "ro < 2 ^ 64" by (simp add: ro_def dbc_rout_def dbc_rin_less del: power_numeral)
  have out: "unat (as_u64 (dbc_out ri ro (a - fee))) = dbc_out ri ro (a - fee)"
    by (rule unat_as_u64) (rule order_le_less_trans [OF dbc_out_le [OF net] ro64])
  have le: "dbc_out ri ro (a - fee) \<le> ro" by (rule dbc_out_le [OF net])
  note fee_eq = dbc_fee_step [where a = "amount_value p" and rate = "dsp_trade_fee_rate w",
      folded a_def fee_def, unfolded a_def [symmetric]]
  note unfolds = Let_def dbc_calculate_swap_def calculate_dbc_swap_def assms(5)
    amount_value_def [symmetric] a_def [symmetric] fee_eq
  have zero: "saturating_add 64 ri (a - fee) = 0 \<Longrightarrow> dbc_out ri ro (a - fee) = 0"
    by (simp add: saturating_add_def dbc_out_def min_def split: if_splits)
  show ?thesis
  proof (cases "sp_direction p")
    case Buy
    then have sides: "unat (vp_quote_reserve (dsp_pool w)) = ri" "unat (vp_base_reserve (dsp_pool w)) = ro"
      by (simp_all add: ri_def ro_def dbc_rin_def dbc_rout_def)
    note step = dbc_out_step [OF net, of "vp_base_reserve (dsp_pool w)" ri, unfolded sides]
    show ?thesis
      using le zero by (simp add: unfolds sides Buy step fees out word_less_nat_alt)
  next
    case Sell
    then have sides: "unat (vp_base_reserve (dsp_pool w)) = ri" "unat (vp_quote_reserve (dsp_pool w)) = ro"
      by (simp_all add: ri_def ro_def dbc_rin_def dbc_rout_def)
    note step = dbc_out_step [OF net, of "vp_quote_reserve (dsp_pool w)" ri, unfolded sides]
    show ?thesis
      using le zero by (simp add: unfolds sides Sell step fees out word_less_nat_alt)
  qed
qed

lemma dbc_quoted:
  assumes "dbc_calculate_swap w p = Inr q"
  shows "so_amount_in q = amount_value p"
    and "unat (so_amount_out q) = dbc_out (dbc_rin w (sp_direction p)) (dbc_rout w (sp_direction p))
          (unat (amount_value p) - dbc_fee (dsp_trade_fee_rate w) (unat (amount_value p)))"
proof -
  have "dbc_is_active (dsp_pool w)"
    using assms by (cases "dbc_is_active (dsp_pool w)")
      (simp_all add: dbc_calculate_swap_def calculate_dbc_swap_def)
  then show "so_amount_in q = amount_value p"
    "unat (so_amount_out q) = dbc_out (dbc_rin w (sp_direction p)) (dbc_rout w (sp_direction p))
          (unat (amount_value p) - dbc_fee (dsp_trade_fee_rate w) (unat (amount_value p)))"
    using dbc_classified [of w p] assms by auto
qed

lemma dbc_amount_only:
  "sp_direction p = sp_direction p' \<Longrightarrow> amount_value p = amount_value p' \<Longrightarrow>
   dbc_calculate_swap w p = dbc_calculate_swap w p'"
  by (simp add: dbc_calculate_swap_def calculate_dbc_swap_def amount_value_def cong: if_cong)

text \<open>In range the curve is a constant-product pool with a fee on the input.\<close>

interpretation dbc: input_fee_math "\<lambda>w p. Some (dbc_calculate_swap w p)" dbc_rin dbc_rout
    "\<lambda>w. dbc_fee (dsp_trade_fee_rate w)" dbc_in_range
proof unfold_locales
  fix w p p' q and a b :: nat and d
  show "so_amount_in q = amount_value p" if "Some (dbc_calculate_swap w p) = Some (Inr q)"
    using that by (simp add: dbc_quoted)
  show "unat (so_amount_out q) = cp_out (dbc_rin w (sp_direction p)) (dbc_rout w (sp_direction p))
      (unat (amount_value p) - dbc_fee (dsp_trade_fee_rate w) (unat (amount_value p)))"
    if "Some (dbc_calculate_swap w p) = Some (Inr q)" "dbc_in_range w p"
    using that by (simp add: dbc_quoted dbc_in_range_def dbc_out_in_range)
  show "a - dbc_fee (dsp_trade_fee_rate w) a \<le> b - dbc_fee (dsp_trade_fee_rate w) b" if "a \<le> b"
    using that by (rule dbc_fee_net_mono)
  show "dbc_rin w d = dbc_rout w (opposite d)"
    by (simp add: dbc_rout_def)
  show "Some (dbc_calculate_swap w p) = Some (dbc_calculate_swap w p')"
    if "sp_direction p = sp_direction p'" "amount_value p = amount_value p'"
    using dbc_amount_only [OF that] by simp
qed

section \<open>Properties\<close>

text \<open>C30: Whatever its fields and the request, a pool that has not migrated answers with a quote: it
  spends the requested amount, never pays out more than the output reserve (the code's own check of
  this is never taken), keeps the product of the reserves when they and the amount fit 64 bits
  together, and reports a fee whose two reported halves lose the odd unit.\<close>

theorem dbc_quote_bounds:
  assumes "dbc_is_active (dsp_pool w)"
  shows "\<exists>q. dbc_calculate_swap w p = Inr q \<and> so_amount_in q = amount_value p \<and>
    unat (so_amount_out q) \<le> dbc_rout w (sp_direction p) \<and>
    (dbc_rin w (sp_direction p) + unat (amount_value p) < 2 ^ 64 \<longrightarrow>
       dbc_rin w (sp_direction p) * dbc_rout w (sp_direction p) \<le>
       (dbc_rin w (sp_direction p) + unat (amount_value p)) *
       (dbc_rout w (sp_direction p) - unat (so_amount_out q))) \<and>
    unat (so_protocol_fee q) + unat (so_lp_fee q) + unat (so_fee q) mod 2 = unat (so_fee q)"
proof -
  let ?a = "unat (amount_value p)"
  obtain q where q: "dbc_calculate_swap w p = Inr q" "so_amount_in q = amount_value p"
    "unat (so_amount_out q) = dbc_out (dbc_rin w (sp_direction p)) (dbc_rout w (sp_direction p))
       (?a - dbc_fee (dsp_trade_fee_rate w) ?a)"
    "unat (so_protocol_fee q) = unat (so_fee q) div 2" "unat (so_lp_fee q) = unat (so_fee q) div 2"
    using dbc_classified [OF assms, of p] by auto
  have "?a - dbc_fee (dsp_trade_fee_rate w) ?a < 2 ^ 64"
    by (rule order_le_less_trans [OF diff_le_self unat_u64_less])
  then have "unat (so_amount_out q) \<le> dbc_rout w (sp_direction p)"
    unfolding q(3) by (rule dbc_out_le)
  moreover have "dbc_rin w (sp_direction p) * dbc_rout w (sp_direction p) \<le>
      (dbc_rin w (sp_direction p) + ?a) * (dbc_rout w (sp_direction p) - unat (so_amount_out q))"
    if "dbc_rin w (sp_direction p) + ?a < 2 ^ 64"
    using dbc.product_kept [of w p q] that q(1,2) by (simp add: dbc_in_range_def del: power_numeral)
  moreover have "unat (so_protocol_fee q) + unat (so_lp_fee q) + unat (so_fee q) mod 2 = unat (so_fee q)"
    unfolding q(4,5) by presburger
  ultimately show ?thesis
    using q(1,2) by blast
qed

definition dbc_example_state :: virtual_pool where
  "dbc_example_state =
     \<lparr> vp_volatility_tracker = \<lparr> vt_last_update_timestamp = 0, vt_padding = replicate 8 0,
         vt_sqrt_price_reference = 0, vt_volatility_accumulator = 0, vt_volatility_reference = 0 \<rparr>,
       vp_config = replicate 32 1, vp_creator = replicate 32 2, vp_base_mint = replicate 32 3,
       vp_base_vault = replicate 32 4, vp_quote_vault = replicate 32 5,
       vp_base_reserve = 1000000000000000, vp_quote_reserve = 50000000000,
       vp_protocol_base_fee = 0, vp_protocol_quote_fee = 0, vp_partner_base_fee = 0,
       vp_partner_quote_fee = 0, vp_sqrt_price = 130440000000000000, vp_activation_point = 0,
       vp_pool_type = 0, vp_is_migrated = 0, vp_is_partner_withdraw_surplus = 0,
       vp_is_protocol_withdraw_surplus = 0, vp_migration_progress = 0, vp_is_withdraw_leftover = 0,
       vp_is_creator_withdraw_surplus = 0, vp_migration_fee_withdraw_status = 0,
       vp_metrics = \<lparr> pm_total_protocol_base_fee = 0, pm_total_protocol_quote_fee = 0,
         pm_total_trading_base_fee = 0, pm_total_trading_quote_fee = 0 \<rparr>,
       vp_finish_curve_timestamp = 0, vp_creator_base_fee = 0, vp_creator_quote_fee = 0,
       vp_legacy_creation_fee_bits = 0, vp_creation_fee_bits = 0, vp_padding_0 = replicate 6 0,
       vp_padding_1 = replicate 6 0 \<rparr>"

lemma dbc_quote_bounds_witness:
  "\<exists>q. dbc_calculate_swap (dbc_with_default_fee dbc_example_state) (buy 1100) = Inr q \<and>
       unat (so_amount_out q) \<le> 1000000000000000"
  using dbc_quote_bounds [of "dbc_with_default_fee dbc_example_state" "buy 1100"]
  by (auto simp: dbc_with_default_fee_def dbc_new_def dbc_is_active_def dbc_example_state_def
      buy_def dbc_rout_def dbc_rin_def)

text \<open>The fee is computed as a checked product in 64 bits whose overflow is answered with zero: from
  the amount on at which amount times rate reaches \<open>2 ^ 64\<close> (1845 tokens of nine decimals at the
  default rate) the quote charges no fee at all and prices the whole amount.\<close>

lemma dbc_fee_lost_to_overflow:
  assumes "dbc_is_active (dsp_pool w)"
    and "2 ^ 64 \<le> unat (amount_value p) * unat (dsp_trade_fee_rate w)"
  shows "\<exists>q. dbc_calculate_swap w p = Inr q \<and> so_fee q = 0 \<and> so_protocol_fee q = 0 \<and>
    so_lp_fee q = 0 \<and> unat (so_amount_out q) =
      dbc_out (dbc_rin w (sp_direction p)) (dbc_rout w (sp_direction p)) (unat (amount_value p))"
proof -
  have "dbc_fee (dsp_trade_fee_rate w) (unat (amount_value p)) = 0"
    using assms(2) by (simp add: dbc_fee_def)
  then show ?thesis
    using dbc_classified [OF assms(1), of p] by (auto simp: unat_eq_0)
qed

end
