(* ===== verification/RaydiumClmm.thy ===== *)
theory RaydiumClmm
  imports AccountState
begin

text \<open>
  Raydium's concentrated-liquidity pools (\<open>solana/protocols/src/protocols/raydium_clmm/\<close>): the pool
  account and the tick arrays (\<open>state.rs\<close>), the swap computer that walks the initialized ticks and
  the single-range estimate (\<open>math.rs\<close>), and the tick-array addresses (\<open>accounts.rs\<close>).

  Prices are Q64.64 integers; \<open>powf\<close> and \<open>ln\<close> are the fields of a \<open>libm\<close> parameter and the
  derivation of program addresses is a parameter \<open>pda\<close>.
\<close>

section \<open>Accounts\<close>

definition min_tick :: int where
  "min_tick = -443636"

definition max_tick :: int where
  "max_tick = 443636"

definition tick_array_size :: int where
  "tick_array_size = 60"

definition clmm_fee_rate_denominator :: u64 where
  "clmm_fee_rate_denominator = 1000000"

record reward_info =
  ri_reward_state :: u8
  ri_open_time :: u64
  ri_end_time :: u64
  ri_last_update_time :: u64
  ri_emissions_per_second_x64 :: u128
  ri_reward_total_emissioned :: u64
  ri_reward_claimed :: u64
  ri_token_mint :: pubkey
  ri_token_vault :: pubkey
  ri_authority :: pubkey
  ri_reward_growth_global_x64 :: u128

definition read_reward_info :: "borsh \<Rightarrow> reward_info reader" where
  "read_reward_info B =
     rbind (rd_u8 B) (\<lambda>st. rbind (rd_u64 B) (\<lambda>ot. rbind (rd_u64 B) (\<lambda>et. rbind (rd_u64 B) (\<lambda>lu.
     rbind (rd_u128 B) (\<lambda>em. rbind (rd_u64 B) (\<lambda>te. rbind (rd_u64 B) (\<lambda>rc.
     rbind (rd_pubkey B) (\<lambda>tm. rbind (rd_pubkey B) (\<lambda>tv. rbind (rd_pubkey B) (\<lambda>au.
     rbind (rd_u128 B) (\<lambda>rg.
     rret \<lparr> ri_reward_state = st, ri_open_time = ot, ri_end_time = et, ri_last_update_time = lu,
            ri_emissions_per_second_x64 = em, ri_reward_total_emissioned = te, ri_reward_claimed = rc,
            ri_token_mint = tm, ri_token_vault = tv, ri_authority = au,
            ri_reward_growth_global_x64 = rg \<rparr>)))))))))))"

text \<open>\<open>i32\<close> is read as the four bytes of a \<open>u32\<close>.\<close>

record clmm_pool_state =
  cl_bump :: "u8 list"
  cl_amm_config :: pubkey
  cl_owner :: pubkey
  cl_token_mint_0 :: pubkey
  cl_token_mint_1 :: pubkey
  cl_token_vault_0 :: pubkey
  cl_token_vault_1 :: pubkey
  cl_observation_key :: pubkey
  cl_mint_decimals_0 :: u8
  cl_mint_decimals_1 :: u8
  cl_tick_spacing :: u16
  cl_liquidity :: u128
  cl_sqrt_price_x64 :: u128
  cl_tick_current :: i32
  cl_padding3 :: u16
  cl_padding4 :: u16
  cl_fee_growth_global_0_x64 :: u128
  cl_fee_growth_global_1_x64 :: u128
  cl_protocol_fees_token_0 :: u64
  cl_protocol_fees_token_1 :: u64
  cl_swap_in_amount_token_0 :: u128
  cl_swap_out_amount_token_1 :: u128
  cl_swap_in_amount_token_1 :: u128
  cl_swap_out_amount_token_0 :: u128
  cl_status :: u8
  cl_padding :: "u8 list"
  cl_reward_infos :: "reward_info list"
  cl_tick_array_bitmap :: "u64 list"
  cl_total_fees_token_0 :: u64
  cl_total_fees_claimed_token_0 :: u64
  cl_total_fees_token_1 :: u64
  cl_total_fees_claimed_token_1 :: u64
  cl_fund_fees_token_0 :: u64
  cl_fund_fees_token_1 :: u64
  cl_open_time :: u64
  cl_recent_epoch :: u64
  cl_padding1 :: "u64 list"
  cl_padding2 :: "u64 list"

definition read_clmm_pool :: "borsh \<Rightarrow> clmm_pool_state reader" where
  "read_clmm_pool B =
     rbind (read_array 1 (rd_u8 B)) (\<lambda>bu. rbind (rd_pubkey B) (\<lambda>ac. rbind (rd_pubkey B) (\<lambda>ow.
     rbind (rd_pubkey B) (\<lambda>m0. rbind (rd_pubkey B) (\<lambda>m1. rbind (rd_pubkey B) (\<lambda>v0.
     rbind (rd_pubkey B) (\<lambda>v1. rbind (rd_pubkey B) (\<lambda>ok. rbind (rd_u8 B) (\<lambda>d0.
     rbind (rd_u8 B) (\<lambda>d1. rbind (rd_u16 B) (\<lambda>ts. rbind (rd_u128 B) (\<lambda>li.
     rbind (rd_u128 B) (\<lambda>sp. rbind (rd_u32 B) (\<lambda>tc. rbind (rd_u16 B) (\<lambda>p3. rbind (rd_u16 B) (\<lambda>p4.
     rbind (rd_u128 B) (\<lambda>g0. rbind (rd_u128 B) (\<lambda>g1. rbind (rd_u64 B) (\<lambda>f0. rbind (rd_u64 B) (\<lambda>f1.
     rbind (rd_u128 B) (\<lambda>si0. rbind (rd_u128 B) (\<lambda>so1. rbind (rd_u128 B) (\<lambda>si1.
     rbind (rd_u128 B) (\<lambda>so0. rbind (rd_u8 B) (\<lambda>st. rbind (read_array 7 (rd_u8 B)) (\<lambda>pa.
     rbind (read_array 3 (read_reward_info B)) (\<lambda>rs. rbind (read_array 16 (rd_u64 B)) (\<lambda>bm.
     rbind (rd_u64 B) (\<lambda>tf0. rbind (rd_u64 B) (\<lambda>tc0. rbind (rd_u64 B) (\<lambda>tf1.
     rbind (rd_u64 B) (\<lambda>tc1. rbind (rd_u64 B) (\<lambda>ff0. rbind (rd_u64 B) (\<lambda>ff1.
     rbind (rd_u64 B) (\<lambda>ot. rbind (rd_u64 B) (\<lambda>re. rbind (read_array 24 (rd_u64 B)) (\<lambda>p1.
     rbind (read_array 32 (rd_u64 B)) (\<lambda>p2.
     rret \<lparr> cl_bump = bu, cl_amm_config = ac, cl_owner = ow, cl_token_mint_0 = m0,
            cl_token_mint_1 = m1, cl_token_vault_0 = v0, cl_token_vault_1 = v1,
            cl_observation_key = ok, cl_mint_decimals_0 = d0, cl_mint_decimals_1 = d1,
            cl_tick_spacing = ts, cl_liquidity = li, cl_sqrt_price_x64 = sp, cl_tick_current = tc,
            cl_padding3 = p3, cl_padding4 = p4, cl_fee_growth_global_0_x64 = g0,
            cl_fee_growth_global_1_x64 = g1, cl_protocol_fees_token_0 = f0,
            cl_protocol_fees_token_1 = f1, cl_swap_in_amount_token_0 = si0,
            cl_swap_out_amount_token_1 = so1, cl_swap_in_amount_token_1 = si1,
            cl_swap_out_amount_token_0 = so0, cl_status = st, cl_padding = pa,
            cl_reward_infos = rs, cl_tick_array_bitmap = bm, cl_total_fees_token_0 = tf0,
            cl_total_fees_claimed_token_0 = tc0, cl_total_fees_token_1 = tf1,
            cl_total_fees_claimed_token_1 = tc1, cl_fund_fees_token_0 = ff0,
            cl_fund_fees_token_1 = ff1, cl_open_time = ot, cl_recent_epoch = re, cl_padding1 = p1,
            cl_padding2 = p2 \<rparr>))))))))))))))))))))))))))))))))))))))"

record tick_state =
  ts_tick :: i32
  ts_liquidity_net :: i128
  ts_liquidity_gross :: u128
  ts_fee_growth_outside_0_x64 :: u128
  ts_fee_growth_outside_1_x64 :: u128
  ts_reward_growths_outside_x64 :: "u128 list"
  ts_padding :: "u32 list"

record tick_array_state =
  ta_pool_id :: pubkey
  ta_start_tick_index :: i32
  ta_ticks :: "tick_state list"
  ta_initialized_tick_count :: u8
  ta_recent_epoch :: u64

definition clmm_from_account_data :: "borsh \<Rightarrow> bytes \<Rightarrow> bytes \<Rightarrow> string + clmm_pool_state" where
  "clmm_from_account_data B disc data =
     map_err parse_error_text
       (onchain_from_account_data (Some disc) (read_clmm_pool B) (\<lambda>_. []) data)"

definition clmm_is_active :: "clmm_pool_state \<Rightarrow> bool" where
  "clmm_is_active s \<longleftrightarrow> cl_status s = 0"

definition clmm_current_price :: "clmm_pool_state \<Rightarrow> f64" where
  "clmm_current_price s =
     (let sqrt_price = f_div (f_of_nat (unat (cl_sqrt_price_x64 s))) (f_of_nat (2 ^ 64));
          price = f_mul sqrt_price sqrt_price
      in f_mul price (f_powi (f_of_nat 10)
           (int (unat (cl_mint_decimals_0 s)) - int (unat (cl_mint_decimals_1 s)))))"

definition clmm_pair :: "clmm_pool_state \<Rightarrow> pubkey \<times> pubkey" where
  "clmm_pair s = (cl_token_mint_0 s, cl_token_mint_1 s)"

section \<open>Ticks and prices\<close>

definition q64 :: nat where
  "q64 = 2 ^ 64"

definition f_1_0001 :: f64 where
  "f_1_0001 = f_div (f_of_nat 10001) (f_of_nat 10000)"

definition tick_to_sqrt_price_x64 :: "libm \<Rightarrow> int \<Rightarrow> nat" where
  "tick_to_sqrt_price_x64 M tick =
     (if tick = 0 then q64
      else f_to_uint 128
             (f_mul (lm_powf M f_1_0001 (f_div (f_of_int tick) (f_of_nat 2))) (f_of_nat q64)))"

definition tick_from_sqrt_price_x64 :: "libm \<Rightarrow> nat \<Rightarrow> int" where
  "tick_from_sqrt_price_x64 M sqrt_price_x64 =
     (if sqrt_price_x64 = 0 then min_tick
      else
        let sqrt_price = f_div (f_of_nat sqrt_price_x64) (f_of_nat q64);
            price = f_mul sqrt_price sqrt_price;
            tick = f_as_i32 (f_floor (f_div (lm_ln M price) (lm_ln M f_1_0001)))
        in max min_tick (min max_tick tick))"

definition get_delta_amount_0 :: "nat \<Rightarrow> nat \<Rightarrow> nat \<Rightarrow> nat" where
  "get_delta_amount_0 lower upper liquidity =
     (if lower = 0 \<or> upper = 0 \<or> liquidity = 0 then 0
      else
        let diff = saturating_sub upper lower;
            result = f_div (f_mul (f_mul (f_of_nat liquidity) (f_of_nat diff)) (f_of_nat q64))
                       (f_mul (f_of_nat lower) (f_of_nat upper))
        in if f_lt result f_0 \<or> f_gt result (f_of_nat (2 ^ 64 - 1)) then 2 ^ 64 - 1
           else f_to_uint 128 result)"

definition get_delta_amount_1 :: "nat \<Rightarrow> nat \<Rightarrow> nat \<Rightarrow> nat" where
  "get_delta_amount_1 lower upper liquidity =
     (let diff = saturating_sub upper lower in
      case checked_mul 128 liquidity diff of
        Some v \<Rightarrow> v div q64
      | None \<Rightarrow> f_to_uint 128
          (f_div (f_mul (f_of_nat liquidity) (f_of_nat diff)) (f_of_nat q64)))"

section \<open>Swaps\<close>

definition compute_partial_swap_base_input :: "nat \<Rightarrow> nat \<Rightarrow> nat \<Rightarrow> nat \<times> nat \<times> nat" where
  "compute_partial_swap_base_input sqrt_price liquidity amount_in =
     (if liquidity = 0 \<or> sqrt_price = 0 then (0, 0, sqrt_price)
      else
        let l = f_of_nat liquidity; sqrt_p = f_of_nat sqrt_price; amt = f_of_nat amount_in;
            new_sqrt_p =
              f_div (f_mul l sqrt_p) (f_add l (f_div (f_mul amt sqrt_p) (f_of_nat q64)));
            new_sqrt_price = f_to_uint 128 new_sqrt_p
        in (amount_in, get_delta_amount_1 new_sqrt_price sqrt_price liquidity, new_sqrt_price))"

definition compute_partial_swap_quote_input :: "nat \<Rightarrow> nat \<Rightarrow> nat \<Rightarrow> nat \<times> nat \<times> nat" where
  "compute_partial_swap_quote_input sqrt_price liquidity amount_in =
     (if liquidity = 0 then (0, 0, sqrt_price)
      else
        let delta = f_to_uint 128
              (f_div (f_mul (f_of_nat amount_in) (f_of_nat q64)) (f_of_nat liquidity));
            new_sqrt_price = saturating_add 128 sqrt_price delta
        in (amount_in, get_delta_amount_0 sqrt_price new_sqrt_price liquidity, new_sqrt_price))"

text \<open>
  One range: what is consumed and produced, the fee, the price afterwards and whether the target
  tick was reached. \<open>fill_range\<close> is the second half, once the range's capacity is known.
\<close>

definition fill_range ::
  "bool \<Rightarrow> nat \<Rightarrow> nat \<Rightarrow> nat \<Rightarrow> nat \<Rightarrow> nat \<Rightarrow> bool \<Rightarrow> u64 \<Rightarrow> nat \<Rightarrow> nat \<Rightarrow>
   (nat \<times> nat \<times> nat \<times> nat \<times> bool) option" where
  "fill_range oc sqrt_price target liquidity remaining after_fee base rate max_in max_out =
     (if after_fee \<ge> max_in then do {
        product \<leftarrow> u_mul oc 128 max_in (unat rate);
        keep \<leftarrow> u_sub oc 64 (unat clmm_fee_rate_denominator) (unat rate);
        fee \<leftarrow> u_div product keep;
        Some (max_in, max_out, fee, target, True)
      } else do {
        let (consumed, produced, new_sqrt) =
          (if base then compute_partial_swap_base_input sqrt_price liquidity after_fee
           else compute_partial_swap_quote_input sqrt_price liquidity after_fee);
        fee \<leftarrow> u_sub oc 128 remaining after_fee;
        Some (consumed, produced, fee, new_sqrt, False)
      })"

definition swap_within_tick_range ::
  "bool \<Rightarrow> nat \<Rightarrow> nat \<Rightarrow> nat \<Rightarrow> nat \<Rightarrow> bool \<Rightarrow> u64 \<Rightarrow> (nat \<times> nat \<times> nat \<times> nat \<times> bool) option" where
  "swap_within_tick_range oc sqrt_price target liquidity remaining base rate =
     (if liquidity = 0 then Some (0, 0, 0, sqrt_price, False)
      else do {
        keep \<leftarrow> u_sub oc 64 (unat clmm_fee_rate_denominator) (unat rate);
        product \<leftarrow> u_mul oc 128 remaining keep;
        after_fee \<leftarrow> u_div product (unat clmm_fee_rate_denominator);
        (if base
         then
           (if target \<ge> sqrt_price then Some (0, 0, 0, sqrt_price, False)
            else fill_range oc sqrt_price target liquidity remaining after_fee base rate
                   (get_delta_amount_0 target sqrt_price liquidity)
                   (get_delta_amount_1 target sqrt_price liquidity))
         else
           (if target \<le> sqrt_price then Some (0, 0, 0, sqrt_price, False)
            else fill_range oc sqrt_price target liquidity remaining after_fee base rate
                   (get_delta_amount_1 sqrt_price target liquidity)
                   (get_delta_amount_0 sqrt_price target liquidity)))
      })"

record pool_with_tick_arrays =
  pt_pool :: clmm_pool_state
  pt_tick_arrays :: "tick_array_state list"

definition pool_with_tick_arrays_new ::
  "clmm_pool_state \<Rightarrow> tick_array_state list \<Rightarrow> pool_with_tick_arrays" where
  "pool_with_tick_arrays_new s tas = \<lparr> pt_pool = s, pt_tick_arrays = tas \<rparr>"

definition pt_spot_price :: "pool_with_tick_arrays \<Rightarrow> f64" where
  "pt_spot_price w = clmm_current_price (pt_pool w)"

definition pt_is_active :: "pool_with_tick_arrays \<Rightarrow> bool" where
  "pt_is_active w = clmm_is_active (pt_pool w)"

record clmm_swap_result =
  cw_amount_in :: u64
  cw_amount_out :: u64
  cw_fee_amount :: u64
  cw_sqrt_price_after :: u128
  cw_tick_after :: i32
  cw_tick_crossings :: u32

text \<open>The local variables of \<open>compute_swap\<close>; \<open>wk_ticks\<close> is what the peekable iterator still holds.\<close>

record walk =
  wk_remaining :: nat
  wk_out :: nat
  wk_fee :: nat
  wk_sqrt_price :: nat
  wk_liquidity :: u128
  wk_tick :: int
  wk_crossings :: nat
  wk_ticks :: "tick_state list"

definition initialized_ticks :: "tick_array_state list \<Rightarrow> tick_state list" where
  "initialized_ticks tas = filter (\<lambda>t. ts_liquidity_gross t > 0) (concat (map ta_ticks tas))"

text \<open>\<open>sort_by_key\<close> is stable, as \<open>sort_key\<close> is.\<close>

definition walk_ticks :: "pool_with_tick_arrays \<Rightarrow> bool \<Rightarrow> tick_state list" where
  "walk_ticks w base =
     (if base
      then filter (\<lambda>t. sint (ts_tick t) \<le> sint (cl_tick_current (pt_pool w)))
             (sort_key (\<lambda>t. - sint (ts_tick t)) (initialized_ticks (pt_tick_arrays w)))
      else filter (\<lambda>t. sint (ts_tick t) > sint (cl_tick_current (pt_pool w)))
             (sort_key (\<lambda>t. sint (ts_tick t)) (initialized_ticks (pt_tick_arrays w))))"

definition walk_start :: "pool_with_tick_arrays \<Rightarrow> u64 \<Rightarrow> bool \<Rightarrow> walk" where
  "walk_start w amount_in base =
     \<lparr> wk_remaining = unat amount_in, wk_out = 0, wk_fee = 0,
       wk_sqrt_price = unat (cl_sqrt_price_x64 (pt_pool w)),
       wk_liquidity = cl_liquidity (pt_pool w), wk_tick = sint (cl_tick_current (pt_pool w)),
       wk_crossings = 0, wk_ticks = walk_ticks w base \<rparr>"

definition walk_next_tick :: "bool \<Rightarrow> tick_state list \<Rightarrow> int" where
  "walk_next_tick base ts =
     (case ts of t # _ \<Rightarrow> sint (ts_tick t) | [] \<Rightarrow> if base then min_tick else max_tick)"

definition walk_cross :: "bool \<Rightarrow> walk \<Rightarrow> walk" where
  "walk_cross base s =
     (case wk_ticks s of
        [] \<Rightarrow> s
      | t # ts \<Rightarrow> s \<lparr> wk_tick := sint (ts_tick t), wk_ticks := ts,
          wk_liquidity := (if base then wk_liquidity s - ts_liquidity_net t
                           else wk_liquidity s + ts_liquidity_net t),
          wk_crossings := wk_crossings s + 1 \<rparr>)"

text \<open>One round of the loop: \<open>Inl\<close> leaves it (its condition, or a \<open>break\<close>), \<open>Inr\<close> goes on.\<close>

definition walk_step :: "libm \<Rightarrow> bool \<Rightarrow> bool \<Rightarrow> u64 \<Rightarrow> walk \<Rightarrow> (walk + walk) option" where
  "walk_step M oc base rate s =
     (if wk_remaining s = 0 then Some (Inl s)
      else do {
        (consumed, produced, fee, new_sqrt_price, reached) \<leftarrow>
          swap_within_tick_range oc (wk_sqrt_price s)
            (tick_to_sqrt_price_x64 M (walk_next_tick base (wk_ticks s))) (unat (wk_liquidity s))
            (wk_remaining s) base rate;
        used \<leftarrow> u_add oc 128 consumed fee;
        total_out \<leftarrow> u_add oc 128 (wk_out s) produced;
        total_fee \<leftarrow> u_add oc 128 (wk_fee s) fee;
        let s' = s \<lparr> wk_remaining := saturating_sub (wk_remaining s) used, wk_out := total_out,
                     wk_fee := total_fee, wk_sqrt_price := new_sqrt_price \<rparr>;
        Some (if reached
              then (if wk_crossings (walk_cross base s') > 100 then Inl (walk_cross base s')
                    else Inr (walk_cross base s'))
              else Inl (s' \<lparr> wk_tick := tick_from_sqrt_price_x64 M new_sqrt_price \<rparr>))
      })"

text \<open>Each further round takes a tick off the list, or has moved the price to the last bound.\<close>

definition walk_measure :: "libm \<Rightarrow> bool \<Rightarrow> walk \<Rightarrow> nat" where
  "walk_measure M base s = 2 * length (wk_ticks s) +
     (if wk_sqrt_price s = tick_to_sqrt_price_x64 M (walk_next_tick base []) then 0 else 1)"

lemma reached_moves:
  assumes "swap_within_tick_range oc sp target l rem base rate = Some (c, p, f, sp', True)"
  shows "sp \<noteq> target" "sp' = target"
  using assms by (auto simp: swap_within_tick_range_def fill_range_def steps Let_def bind_eq_Some_conv
      split: if_splits prod.splits)

lemma walk_step_decreases:
  assumes "walk_step M oc base rate s = Some (Inr s')"
  shows "walk_measure M base s' < walk_measure M base s"
proof -
  let ?target = "tick_to_sqrt_price_x64 M (walk_next_tick base (wk_ticks s))"
  obtain c p f sp' used total_out total_fee where
    step: "swap_within_tick_range oc (wk_sqrt_price s) ?target (unat (wk_liquidity s))
        (wk_remaining s) base rate = Some (c, p, f, sp', True)"
    and s': "s' = walk_cross base (s \<lparr> wk_remaining := wk_remaining s - used, wk_out := total_out,
        wk_fee := total_fee, wk_sqrt_price := sp' \<rparr>)"
    using assms by (auto simp: walk_step_def bind_eq_Some_conv Let_def split: if_splits)
  note moved = reached_moves [OF step]
  show ?thesis
  proof (cases "wk_ticks s")
    case Nil
    then show ?thesis
      using moved by (simp add: s' walk_cross_def walk_measure_def)
  next
    case (Cons t ts)
    then show ?thesis
      by (simp add: s' walk_cross_def walk_measure_def)
  qed
qed

function walk_loop :: "libm \<Rightarrow> bool \<Rightarrow> bool \<Rightarrow> u64 \<Rightarrow> walk \<Rightarrow> walk option" where
  "walk_loop M oc base rate s =
     (case walk_step M oc base rate s of
        None \<Rightarrow> None
      | Some (Inl s') \<Rightarrow> Some s'
      | Some (Inr s') \<Rightarrow> walk_loop M oc base rate s')"
  by pat_completeness auto
termination
  by (relation "measure (\<lambda>(M, oc, base, rate, s). walk_measure M base s)")
    (simp_all add: walk_step_decreases)

declare walk_loop.simps [simp del]

definition compute_swap ::
  "libm \<Rightarrow> bool \<Rightarrow> pool_with_tick_arrays \<Rightarrow> u64 \<Rightarrow> bool \<Rightarrow> u64 \<Rightarrow> clmm_swap_result option" where
  "compute_swap M oc w amount_in base rate = do {
     s \<leftarrow> walk_loop M oc base rate (walk_start w amount_in base);
     used \<leftarrow> u_sub oc 128 (unat amount_in) (wk_remaining s);
     Some \<lparr> cw_amount_in = as_u64 used, cw_amount_out = as_u64 (wk_out s),
            cw_fee_amount = as_u64 (wk_fee s), cw_sqrt_price_after = as_u128 (wk_sqrt_price s),
            cw_tick_after = word_of_int (wk_tick s),
            cw_tick_crossings = word_of_nat (wk_crossings s) \<rparr>
   }"

text \<open>The estimate without tick arrays: the output and the fee.\<close>

definition clmm_estimate_output ::
  "bool \<Rightarrow> u128 \<Rightarrow> u128 \<Rightarrow> u64 \<Rightarrow> bool \<Rightarrow> u64 \<Rightarrow> (u64 \<times> u64) option" where
  "clmm_estimate_output oc sqrt_price_x64 liquidity amount_in base rate = do {
     keep \<leftarrow> u_sub oc 64 (unat clmm_fee_rate_denominator) (unat rate);
     product \<leftarrow> u_mul oc 128 (unat amount_in) keep;
     after_fee \<leftarrow> u_div product (unat clmm_fee_rate_denominator);
     fee \<leftarrow> u_sub oc 128 (unat amount_in) after_fee;
     (if liquidity = 0 \<or> sqrt_price_x64 = 0 then Some (0, as_u64 fee)
      else
        let l = f_of_nat (unat liquidity);
            sqrt_p = f_div (f_of_nat (unat sqrt_price_x64)) (f_of_nat q64);
            amt = f_of_nat after_fee;
            one = f_of_nat 1;
            output =
              (if base
               then f_mul l (f_sub sqrt_p (f_div (f_mul l sqrt_p) (f_add l (f_mul amt sqrt_p))))
               else f_mul l (f_sub (f_div one sqrt_p) (f_div one (f_add sqrt_p (f_div amt l)))));
            clipped = (if f_lt output f_0 then f_0 else output)
        in Some (as_u64 (f_to_uint 64 clipped), as_u64 fee))
   }"

section \<open>Tick arrays\<close>

text \<open>\<open>i32::from(tick_spacing) * TICK_ARRAY_SIZE\<close> always fits; the function is written twice.\<close>

definition tick_array_start_index :: "bool \<Rightarrow> int \<Rightarrow> u16 \<Rightarrow> int option" where
  "tick_array_start_index oc tick spacing = do {
     n \<leftarrow> i_fit oc 32 (int (unat spacing) * tick_array_size);
     q \<leftarrow> i_div 32 tick n;
     start \<leftarrow> i_fit oc 32 (q * n);
     (if tick < 0
      then do {
        r \<leftarrow> i_rem 32 tick n;
        (if r \<noteq> 0 then i_fit oc 32 (start - n) else Some start)
      }
      else Some start)
   }"

definition tick_array_start_for_tick :: "bool \<Rightarrow> int \<Rightarrow> u16 \<Rightarrow> int option" where
  "tick_array_start_for_tick oc tick spacing = do {
     n \<leftarrow> i_fit oc 32 (int (unat spacing) * tick_array_size);
     q \<leftarrow> i_div 32 tick n;
     start \<leftarrow> i_fit oc 32 (q * n);
     (if tick < 0
      then do {
        r \<leftarrow> i_rem 32 tick n;
        (if r \<noteq> 0 then i_fit oc 32 (start - n) else Some start)
      }
      else Some start)
   }"

definition derive_tick_array_address ::
  "(bytes list \<Rightarrow> pubkey \<Rightarrow> pubkey) \<Rightarrow> pubkey \<Rightarrow> pubkey \<Rightarrow> int \<Rightarrow> pubkey" where
  "derive_tick_array_address pda program pool_id start =
     pda [map (\<lambda>c. of_nat (of_char c)) ''tick_array'', pool_id,
          le_bytes 4 (unat (word_of_int start :: u32))] program"

record raydium_clmm_keys =
  ck_pool_id :: pubkey
  ck_amm_config :: pubkey
  ck_token_mint_0 :: pubkey
  ck_token_mint_1 :: pubkey
  ck_token_vault_0 :: pubkey
  ck_token_vault_1 :: pubkey
  ck_observation_key :: pubkey
  ck_tick_spacing :: u16

definition clmm_keys_from_pool_state :: "pubkey \<Rightarrow> clmm_pool_state \<Rightarrow> raydium_clmm_keys" where
  "clmm_keys_from_pool_state pool_address s =
     \<lparr> ck_pool_id = pool_address, ck_amm_config = cl_amm_config s,
       ck_token_mint_0 = cl_token_mint_0 s, ck_token_mint_1 = cl_token_mint_1 s,
       ck_token_vault_0 = cl_token_vault_0 s, ck_token_vault_1 = cl_token_vault_1 s,
       ck_observation_key = cl_observation_key s, ck_tick_spacing = cl_tick_spacing s \<rparr>"

text \<open>The start index of the \<open>i\<close>-th array in the direction of the swap, and the addresses.\<close>

definition tick_array_offset :: "bool \<Rightarrow> int \<Rightarrow> int \<Rightarrow> bool \<Rightarrow> nat \<Rightarrow> int option" where
  "tick_array_offset oc start step buying i = do {
     d \<leftarrow> i_fit oc 32 (step * as_i32 i);
     (if buying then i_fit oc 32 (start + d) else i_fit oc 32 (start - d))
   }"

fun collect_offsets :: "(nat \<Rightarrow> int option) \<Rightarrow> nat list \<Rightarrow> int list option" where
  "collect_offsets f [] = Some []"
| "collect_offsets f (i # is) = do {
     x \<leftarrow> f i;
     xs \<leftarrow> collect_offsets f is;
     Some (x # xs)
   }"

definition tick_arrays_for_swap ::
  "bool \<Rightarrow> (bytes list \<Rightarrow> pubkey \<Rightarrow> pubkey) \<Rightarrow> pubkey \<Rightarrow> raydium_clmm_keys \<Rightarrow> int \<Rightarrow> bool \<Rightarrow> nat \<Rightarrow>
   pubkey list option" where
  "tick_arrays_for_swap oc pda program k current_tick buying count = do {
     step \<leftarrow> i_fit oc 32 (int (unat (ck_tick_spacing k)) * tick_array_size);
     start \<leftarrow> tick_array_start_index oc current_tick (ck_tick_spacing k);
     offsets \<leftarrow> collect_offsets (tick_array_offset oc start step buying) [0..<count];
     Some (map (derive_tick_array_address pda program (ck_pool_id k)) offsets)
   }"

section \<open>Accounting of a walk\<close>

text \<open>One range, at a rate below the denominator \<open>D\<close>: it never uses more than what remains, and
  the fee is at most the rate's share of what it uses, up to one unit when it ends the swap.\<close>

lemma u_div_Some_le: "u_div a b = Some q \<Longrightarrow> q * b \<le> a"
  by (auto simp: u_div_def split: if_splits)

lemma fill_range_accounting:
  assumes fill: "fill_range oc sp target l rem after base rate max_in max_out = Some (c, p, f, sp', reached)"
    and rate: "unat rate < 1000000" and rem: "rem < 2 ^ 64" and l: "l \<noteq> 0" and sp: "base \<Longrightarrow> sp \<noteq> 0"
    and after: "after = rem * (1000000 - unat rate) div 1000000"
  shows "c + f \<le> rem \<and> f * 1000000 < (c + f) * unat rate + (if reached then 1 else 1000000)"
proof -
  let ?r = "unat rate" and ?k = "1000000 - unat rate"
  have after_le: "after * 1000000 \<le> rem * ?k"
    unfolding after by (rule div_times_less_eq_dividend)
  then have "after * 1000000 \<le> rem * 1000000"
    using mult_le_mono2 [of ?k 1000000 rem] by linarith
  then have after_rem: "after \<le> rem" by simp
  have after_gt: "rem * ?k < after * 1000000 + 1000000"
    unfolding after using dividend_less_div_times [of 1000000 "rem * ?k"] by simp
  have split: "rem * 1000000 = rem * ?k + rem * ?r"
    using rate by (simp flip: add_mult_distrib2)
  show ?thesis
  proof (cases "max_in \<le> after")
    case True
    have fits: "max_in * ?r < 2 ^ 128"
      using True after_rem rem by (intro mult_u64_fits [OF _ unat_u64_less]) linarith
    have out: "c = max_in" "reached" "u_div (max_in * ?r) ?k = Some f"
      using fill True fits rate
      by (auto simp: fill_range_def u_mul_ok u_sub_ok clmm_fee_rate_denominator_def bind_eq_Some_conv)
    have "f * ?k \<le> max_in * ?r"
      using out(3) by (rule u_div_Some_le)
    moreover have "f * 1000000 = f * ?k + f * ?r" "max_in * 1000000 = max_in * ?k + max_in * ?r"
      using rate by (simp_all flip: add_mult_distrib2)
    moreover have "max_in * 1000000 \<le> after * 1000000"
      using True by simp
    ultimately have fee: "f * 1000000 \<le> (max_in + f) * ?r" and "(max_in + f) * ?k \<le> rem * ?k"
      using after_le by (simp_all add: add_mult_distrib)
    then have "max_in + f \<le> rem"
      using rate by simp
    with fee show ?thesis by (simp add: out)
  next
    case False
    have "u_sub oc 128 rem after = Some (rem - after)"
      using after_rem by (rule u_sub_ok)
    then have out: "c = after" "f = rem - after" "\<not> reached"
      using fill False l sp
      by (auto simp: fill_range_def Let_def compute_partial_swap_base_input_def
          compute_partial_swap_quote_input_def split: if_splits)
    have "(rem - after) * 1000000 + after * 1000000 = rem * 1000000"
      using after_rem by (simp flip: add_mult_distrib)
    then have "(rem - after) * 1000000 < rem * ?r + 1000000"
      using after_gt split by linarith
    then show ?thesis
      using after_rem by (simp add: out)
  qed
qed

lemma range_accounting:
  assumes step: "swap_within_tick_range oc sp target l rem base rate = Some (c, p, f, sp', reached)"
    and rate: "unat rate < 1000000" and rem: "rem < 2 ^ 64"
  shows "c + f \<le> rem \<and> f * 1000000 < (c + f) * unat rate + (if reached then 1 else 1000000)"
proof (cases "c = 0 \<and> f = 0 \<and> \<not> reached")
  case False
  have "u_mul oc 128 rem (1000000 - unat rate) = Some (rem * (1000000 - unat rate))"
    using mult_u64_fits [OF rem, of "1000000 - unat rate"] by (intro u_mul_ok) simp
  then have ops: "u_sub oc 64 (unat clmm_fee_rate_denominator) (unat rate) = Some (1000000 - unat rate)"
    "u_mul oc 128 rem (1000000 - unat rate) = Some (rem * (1000000 - unat rate))"
    "u_div (rem * (1000000 - unat rate)) (unat clmm_fee_rate_denominator) =
       Some (rem * (1000000 - unat rate) div 1000000)"
    using rate by (simp_all add: u_sub_ok u_div_def clmm_fee_rate_denominator_def)
  obtain max_in max_out where "l \<noteq> 0" "base \<Longrightarrow> sp \<noteq> 0"
    "fill_range oc sp target l rem (rem * (1000000 - unat rate) div 1000000) base rate max_in max_out =
       Some (c, p, f, sp', reached)"
    using step False by (auto simp: swap_within_tick_range_def ops split: if_splits)
  then show ?thesis
    using fill_range_accounting rate rem by blast
qed simp

definition walk_ok :: "nat \<Rightarrow> u64 \<Rightarrow> nat \<Rightarrow> nat \<Rightarrow> walk \<Rightarrow> bool" where
  "walk_ok a rate slack crossed s \<longleftrightarrow>
     wk_remaining s \<le> a \<and> wk_fee s \<le> a - wk_remaining s \<and>
     wk_fee s * 1000000 < (a - wk_remaining s) * unat rate + slack \<and> wk_crossings s \<le> crossed"

lemma walk_step_ok:
  assumes ok: "walk_ok a rate 1 100 s" and a: "a < 2 ^ 64" and rate: "unat rate < 1000000"
    and step: "walk_step M oc base rate s = Some r"
  shows "(\<forall>s'. r = Inl s' \<longrightarrow> walk_ok a rate 1000000 101 s') \<and> (\<forall>s'. r = Inr s' \<longrightarrow> walk_ok a rate 1 100 s')"
proof (cases "wk_remaining s = 0")
  case True
  then show ?thesis
    using ok step by (auto simp: walk_step_def walk_ok_def)
next
  case False
  then obtain c p f sp' reached used total_out total_fee where
    range: "swap_within_tick_range oc (wk_sqrt_price s)
        (tick_to_sqrt_price_x64 M (walk_next_tick base (wk_ticks s))) (unat (wk_liquidity s))
        (wk_remaining s) base rate = Some (c, p, f, sp', reached)"
    and used: "u_add oc 128 c f = Some used" and fee: "u_add oc 128 (wk_fee s) f = Some total_fee"
    and r: "r = (let s' = s \<lparr> wk_remaining := wk_remaining s - used, wk_out := total_out,
                     wk_fee := total_fee, wk_sqrt_price := sp' \<rparr>
       in if reached
          then (if wk_crossings (walk_cross base s') > 100 then Inl (walk_cross base s')
                else Inr (walk_cross base s'))
          else Inl (s' \<lparr> wk_tick := tick_from_sqrt_price_x64 M sp' \<rparr>))"
    using step by (auto simp: walk_step_def bind_eq_Some_conv Let_def)
  have rem: "wk_remaining s < 2 ^ 64" "wk_remaining s \<le> a" "wk_fee s \<le> a - wk_remaining s"
    "wk_fee s * 1000000 < (a - wk_remaining s) * unat rate + 1" "wk_crossings s \<le> 100"
    using ok a by (auto simp: walk_ok_def)
  note acc = range_accounting [OF range rate rem(1)]
  have sums: "used = c + f" "total_fee = wk_fee s + f"
    using used fee acc rem a by (auto simp: u_add_def split: if_splits)
  have left: "a - (wk_remaining s - used) = (a - wk_remaining s) + used"
    using acc rem sums by linarith
  have fees: "total_fee \<le> a - (wk_remaining s - used)"
    "total_fee * 1000000 < (a - (wk_remaining s - used)) * unat rate + (if reached then 1 else 1000000)"
  proof -
    show "total_fee \<le> a - (wk_remaining s - used)"
      unfolding left using acc rem sums by linarith
    have "(a - wk_remaining s + used) * unat rate = (a - wk_remaining s) * unat rate + (c + f) * unat rate"
      unfolding sums by (rule add_mult_distrib)
    then show "total_fee * 1000000 <
        (a - (wk_remaining s - used)) * unat rate + (if reached then 1 else 1000000)"
      unfolding left using acc rem sums by (auto split: if_splits)
  qed
  show ?thesis
    using rem fees
    by (cases "wk_ticks s") (auto simp: r Let_def walk_ok_def walk_cross_def split: if_splits)
qed

lemma walk_ok_weaken: "walk_ok a rate 1 100 s \<Longrightarrow> walk_ok a rate 1000000 101 s"
  by (auto simp: walk_ok_def)

lemma walk_loop_ok:
  assumes "walk_ok a rate 1 100 s" "a < 2 ^ 64" "unat rate < 1000000"
    and "walk_loop M oc base rate s = Some s'"
  shows "walk_ok a rate 1000000 101 s'"
  using assms
proof (induction M oc base rate s rule: walk_loop.induct)
  case (1 M oc base rate s)
  obtain r where r: "walk_step M oc base rate s = Some r"
    using "1.prems"(4) by (cases "walk_step M oc base rate s") (simp_all add: walk_loop.simps [of M oc base rate s])
  note ok = walk_step_ok [OF "1.prems"(1-3) r]
  show ?case
  proof (cases r)
    case (Inl s1)
    then show ?thesis
      using r ok "1.prems"(4) by (simp add: walk_loop.simps [of M oc base rate s])
  next
    case (Inr s1)
    then show ?thesis
      using r ok "1.IH" [OF r Inr] "1.prems" by (simp add: walk_loop.simps [of M oc base rate s])
  qed
qed

text \<open>Without overflow checks only a zero divisor could stop the walk, and the rate excludes it.\<close>

lemma u_False_Some: "\<exists>c. u_add False w a b = Some c" "\<exists>c. u_sub False w a b = Some c"
  "\<exists>c. u_mul False w a b = Some c"
  by (simp_all add: u_add_def u_sub_def u_mul_def)

lemma keep_rate: "unat rate < 1000000 \<Longrightarrow> u_sub False 64 1000000 (unat rate) = Some (1000000 - unat rate)"
  by (rule u_sub_ok) simp

lemma fill_range_returns:
  assumes "unat rate < 1000000"
  shows "fill_range False sp target l rem after base rate max_in max_out \<noteq> None"
proof -
  obtain sub mul where ops: "\<And>w a b. u_sub False w a b = Some (sub w a b)"
    "\<And>w a b. u_mul False w a b = Some (mul w a b)"
    using u_False_Some by metis
  then have "sub 64 1000000 (unat rate) = 1000000 - unat rate"
    using keep_rate [OF assms] by simp
  then show ?thesis
    using assms by (auto simp: fill_range_def ops u_div_def clmm_fee_rate_denominator_def Let_def
        split: prod.splits)
qed

lemma range_returns:
  assumes "unat rate < 1000000"
  shows "swap_within_tick_range False sp target l rem base rate \<noteq> None"
proof -
  obtain sub mul where ops: "\<And>w a b. u_sub False w a b = Some (sub w a b)"
    "\<And>w a b. u_mul False w a b = Some (mul w a b)"
    using u_False_Some by metis
  show ?thesis
    using fill_range_returns [OF assms]
    by (simp add: swap_within_tick_range_def ops u_div_def clmm_fee_rate_denominator_def
        del: not_None_eq)
qed

lemma walk_step_returns:
  assumes "unat rate < 1000000"
  shows "walk_step M False base rate s \<noteq> None"
proof -
  obtain add where add: "\<And>w a b. u_add False w a b = Some (add w a b)"
    using u_False_Some by metis
  obtain c p f sp' reached where "swap_within_tick_range False (wk_sqrt_price s)
      (tick_to_sqrt_price_x64 M (walk_next_tick base (wk_ticks s))) (unat (wk_liquidity s))
      (wk_remaining s) base rate = Some (c, p, f, sp', reached)"
    using range_returns [OF assms] by (metis not_None_eq prod_cases5)
  then show ?thesis
    by (simp add: walk_step_def add Let_def)
qed

lemma walk_loop_returns:
  assumes "unat rate < 1000000" "\<not> oc"
  shows "\<exists>s'. walk_loop M oc base rate s = Some s'"
  using assms
proof (induction M oc base rate s rule: walk_loop.induct)
  case (1 M oc base rate s)
  obtain r where r: "walk_step M oc base rate s = Some r"
    using walk_step_returns [OF "1.prems"(1), of M base s] "1.prems"(2) by (cases oc) auto
  show ?case
  proof (cases r)
    case (Inl s1)
    then show ?thesis using r by (simp add: walk_loop.simps [of M oc base rate s])
  next
    case (Inr s1)
    then show ?thesis
      using r "1.IH" [OF r Inr "1.prems"] by (simp add: walk_loop.simps [of M oc base rate s])
  qed
qed

lemma compute_swap_accounting:
  assumes "unat rate < 1000000" "compute_swap M oc w a base rate = Some r"
  shows "unat (cw_amount_in r) \<le> unat a \<and> unat (cw_fee_amount r) \<le> unat (cw_amount_in r) \<and>
    unat (cw_fee_amount r) * 1000000 < unat (cw_amount_in r) * unat rate + 1000000 \<and>
    unat (cw_tick_crossings r) \<le> 101"
proof -
  obtain s used where s: "walk_loop M oc base rate (walk_start w a base) = Some s"
    and used: "u_sub oc 128 (unat a) (wk_remaining s) = Some used"
    and r: "cw_amount_in r = as_u64 used" "cw_fee_amount r = as_u64 (wk_fee s)"
      "cw_tick_crossings r = word_of_nat (wk_crossings s)"
    using assms(2) by (auto simp: compute_swap_def bind_eq_Some_conv)
  have "walk_ok (unat a) rate 1 100 (walk_start w a base)"
    by (simp add: walk_ok_def walk_start_def)
  then have ok: "walk_ok (unat a) rate 1000000 101 s"
    by (rule walk_loop_ok [OF _ unat_u64_less assms(1) s])
  then have used_eq: "used = unat a - wk_remaining s"
    using used by (auto simp: walk_ok_def u_sub_def split: if_splits)
  then have sizes: "used \<le> unat a" "wk_fee s \<le> used"
    "wk_fee s * 1000000 < used * unat rate + 1000000" "wk_crossings s \<le> 101"
    using ok by (simp_all add: walk_ok_def)
  then have "used < 2 ^ 64" "wk_fee s < 2 ^ 64"
    using unat_u64_less [of a] by linarith+
  then have "unat (as_u64 used) = used" "unat (as_u64 (wk_fee s)) = wk_fee s"
    by (simp_all del: of_nat_diff)
  moreover have "unat (word_of_nat (wk_crossings s) :: u32) = wk_crossings s"
    using ok by (simp add: walk_ok_def unsigned_of_nat take_bit_nat_eq_self)
  ultimately show ?thesis
    using sizes by (simp add: r del: of_nat_diff)
qed

section \<open>Tick arrays, floored\<close>

lemma quot_trunc_floor:
  assumes "0 < n"
  shows "quot_trunc t n * n = (if t < 0 \<and> t mod n \<noteq> 0 then t div n * n + n else t div n * n)"
proof (cases "t < 0")
  case True
  have "t div n = (if (- t) mod n = 0 then - (- t div n) else - (- t div n) - 1)"
    using assms zdiv_zminus1_eq_if [of n "- t"] by simp
  moreover have "(- t) mod n = 0 \<longleftrightarrow> t mod n = 0"
    by (metis dvd_eq_mod_eq_0 dvd_minus_iff)
  ultimately show ?thesis
    using True assms by (simp add: quot_trunc_def left_diff_distrib)
qed (use assms in \<open>auto simp: quot_trunc_def sgn_if\<close>)

lemma quot_trunc_bound:
  assumes "0 < n"
  shows "- \<bar>t\<bar> \<le> quot_trunc t n \<and> quot_trunc t n \<le> \<bar>t\<bar>"
proof -
  have "0 \<le> \<bar>t\<bar> div n" "\<bar>t\<bar> div n \<le> \<bar>t\<bar>"
    using assms zdiv_mono2 [of "\<bar>t\<bar>" 1 n] by (simp_all add: pos_imp_zdiv_nonneg_iff)
  moreover have "quot_trunc t n = sgn t * (\<bar>t\<bar> div n)"
    using assms by (simp add: quot_trunc_def)
  ultimately show ?thesis
    by (cases "0 < t"; cases "t = 0") simp_all
qed

lemma tick_array_start_floor:
  fixes spacing :: u16
  defines "n \<equiv> int (unat spacing) * 60"
  assumes "min_tick \<le> tick" "tick \<le> max_tick" "0 < spacing"
  shows "tick_array_start_index oc tick spacing = Some (tick div n * n)"
proof -
  have n: "0 < n" "n \<le> 3932100"
  proof -
    have "0 < unat spacing" "unat spacing < 65536"
      using assms(4) unat_u16_less [of spacing] by (simp_all add: word_less_nat_alt)
    then show "0 < n" "n \<le> 3932100"
      unfolding n_def by linarith+
  qed
  have t: "\<bar>tick\<bar> \<le> 443636"
    using assms(2,3) by (simp add: min_tick_def max_tick_def)
  have width: "uint spacing * 60 = n"
    by (simp add: n_def)
  have floor: "tick div n * n = tick - tick mod n" "0 \<le> tick mod n" "tick mod n < n"
    using n(1) by (simp_all add: minus_mod_eq_div_mult [symmetric])
  have q: "in_signed 32 (quot_trunc tick n)"
    using quot_trunc_bound [OF n(1), of tick] t unfolding in_signed_def by simp
  have rem: "tick - n * quot_trunc tick n = 0 \<longleftrightarrow> tick mod n = 0"
    using quot_trunc_floor [OF n(1), of tick] floor by (auto simp: mult.commute)
  have fits: "i_fit oc 32 n = Some n"
    "i_fit oc 32 (quot_trunc tick n * n) = Some (quot_trunc tick n * n)"
    "i_fit oc 32 (tick div n * n) = Some (tick div n * n)"
    using n t floor quot_trunc_floor [OF n(1), of tick] by (auto simp: in_signed_def intro!: i_fit_ok)
  show ?thesis
    using n(1) q rem quot_trunc_floor [OF n(1), of tick] fits
    by (simp add: tick_array_start_index_def tick_array_size_def width i_div_def i_rem_def)
qed

text \<open>A walk that starts without liquidity, or on the next tick itself, ends in its first round.\<close>

lemma blocked_walk:
  assumes "unat rate \<le> 1000000" "wk_remaining s \<noteq> 0" "wk_remaining s < 2 ^ 64"
    and "wk_out s = 0" "wk_fee s = 0"
    and "wk_liquidity s = 0 \<or> (base \<and> wk_sqrt_price s \<le>
      tick_to_sqrt_price_x64 M (walk_next_tick base (wk_ticks s)))"
  shows "\<exists>t. walk_loop M oc base rate s = Some (s \<lparr> wk_tick := t \<rparr>)"
proof -
  have "u_sub oc 64 1000000 (unat rate) = Some (1000000 - unat rate)"
    using assms(1) by (intro u_sub_ok) simp
  moreover have "u_mul oc 128 (wk_remaining s) (1000000 - unat rate) =
      Some (wk_remaining s * (1000000 - unat rate))"
    using mult_u64_fits [OF assms(3), of "1000000 - unat rate"] by (intro u_mul_ok) simp
  ultimately have "swap_within_tick_range oc (wk_sqrt_price s)
      (tick_to_sqrt_price_x64 M (walk_next_tick base (wk_ticks s))) (unat (wk_liquidity s))
      (wk_remaining s) base rate = Some (0, 0, 0, wk_sqrt_price s, False)"
    using assms(6) by (auto simp: swap_within_tick_range_def u_div_def clmm_fee_rate_denominator_def)
  then have "walk_step M oc base rate s =
      Some (Inl (s \<lparr> wk_tick := tick_from_sqrt_price_x64 M (wk_sqrt_price s) \<rparr>))"
    using assms(2,4,5) by (simp add: walk_step_def u_add_def)
  then show ?thesis
    by (auto simp: walk_loop.simps [of M oc base rate s])
qed

section \<open>Properties\<close>

text \<open>C31: In the release build a CLMM swap at a fee rate below 100 percent returns, whatever the ticks and
  the prices; and in either build what it returns is accounted for: it uses at most the input, the fee
  is part of what it uses and exceeds the rate's share of that by less than one unit in all, although
  every crossed range rounds its own fee, and it crosses at most 101 ticks.\<close>

theorem clmm_swap_accounting:
  assumes "unat rate < 1000000"
  shows "(\<exists>r. compute_swap M False w a base rate = Some r) \<and>
    (\<forall>oc r. compute_swap M oc w a base rate = Some r \<longrightarrow>
       unat (cw_amount_in r) \<le> unat a \<and> unat (cw_fee_amount r) \<le> unat (cw_amount_in r) \<and>
       unat (cw_fee_amount r) * 1000000 < unat (cw_amount_in r) * unat rate + 1000000 \<and>
       unat (cw_tick_crossings r) \<le> 101)"
proof -
  obtain s where "walk_loop M False base rate (walk_start w a base) = Some s"
    using walk_loop_returns [OF assms, of False M base "walk_start w a base"] by auto
  then have "\<exists>r. compute_swap M False w a base rate = Some r"
    by (simp add: compute_swap_def u_sub_def)
  then show ?thesis
    using compute_swap_accounting [OF assms] by blast
qed

definition clmm_example_state :: clmm_pool_state where
  "clmm_example_state =
     \<lparr> cl_bump = [254], cl_amm_config = replicate 32 1, cl_owner = replicate 32 2,
       cl_token_mint_0 = replicate 32 3, cl_token_mint_1 = replicate 32 4,
       cl_token_vault_0 = replicate 32 5, cl_token_vault_1 = replicate 32 6,
       cl_observation_key = replicate 32 7, cl_mint_decimals_0 = 9, cl_mint_decimals_1 = 6,
       cl_tick_spacing = 60, cl_liquidity = 1000000000000, cl_sqrt_price_x64 = 18446744073709551616,
       cl_tick_current = 0, cl_padding3 = 0, cl_padding4 = 0, cl_fee_growth_global_0_x64 = 0,
       cl_fee_growth_global_1_x64 = 0, cl_protocol_fees_token_0 = 0, cl_protocol_fees_token_1 = 0,
       cl_swap_in_amount_token_0 = 0, cl_swap_out_amount_token_1 = 0, cl_swap_in_amount_token_1 = 0,
       cl_swap_out_amount_token_0 = 0, cl_status = 0, cl_padding = replicate 7 0,
       cl_reward_infos = [], cl_tick_array_bitmap = replicate 16 0, cl_total_fees_token_0 = 0,
       cl_total_fees_claimed_token_0 = 0, cl_total_fees_token_1 = 0,
       cl_total_fees_claimed_token_1 = 0, cl_fund_fees_token_0 = 0, cl_fund_fees_token_1 = 0,
       cl_open_time = 0, cl_recent_epoch = 0, cl_padding1 = replicate 24 0, cl_padding2 = replicate 32 0 \<rparr>"

definition example_tick :: "i32 \<Rightarrow> i128 \<Rightarrow> tick_state" where
  "example_tick t net =
     \<lparr> ts_tick = t, ts_liquidity_net = net, ts_liquidity_gross = 1000000000000,
       ts_fee_growth_outside_0_x64 = 0, ts_fee_growth_outside_1_x64 = 0,
       ts_reward_growths_outside_x64 = [0, 0, 0], ts_padding = replicate 13 0 \<rparr>"

definition clmm_example :: pool_with_tick_arrays where
  "clmm_example = pool_with_tick_arrays_new clmm_example_state
     [\<lparr> ta_pool_id = replicate 32 9, ta_start_tick_index = - 3600,
        ta_ticks = [example_tick (- 60) 1000000000000], ta_initialized_tick_count = 1,
        ta_recent_epoch = 0 \<rparr>,
      \<lparr> ta_pool_id = replicate 32 9, ta_start_tick_index = 0,
        ta_ticks = [example_tick 0 0, example_tick 60 (- 1000000000000)],
        ta_initialized_tick_count = 2, ta_recent_epoch = 0 \<rparr>]"

definition example_libm :: libm where
  "example_libm = \<lparr> lm_powf = (\<lambda>_ _. f_of_nat 1), lm_ln = (\<lambda>_. f_of_nat 0) \<rparr>"

lemma clmm_swap_accounting_witness:
  "\<exists>r. compute_swap example_libm False clmm_example 5000 True 2500 = Some r \<and>
     unat (cw_amount_in r) \<le> 5000"
  using clmm_swap_accounting [of 2500 example_libm clmm_example 5000 True] by auto

text \<open>A sell that starts with the pool's price on (or below) the first initialized tick at or below the
  current one, and any swap that starts without liquidity in range, is quoted as trading nothing: no
  input is used, no output paid and no tick crossed, although the ticks further on may hold liquidity.\<close>

lemma clmm_stops_on_tick:
  assumes "unat rate \<le> 1000000" "a \<noteq> 0"
    and "cl_liquidity (pt_pool w) = 0 \<or>
      (base \<and> walk_ticks w True = t # ts \<and>
       unat (cl_sqrt_price_x64 (pt_pool w)) \<le> tick_to_sqrt_price_x64 M (sint (ts_tick t)))"
  shows "\<exists>r. compute_swap M oc w a base rate = Some r \<and> cw_amount_in r = 0 \<and> cw_amount_out r = 0 \<and>
    cw_fee_amount r = 0 \<and> cw_tick_crossings r = 0 \<and>
    cw_sqrt_price_after r = cl_sqrt_price_x64 (pt_pool w)"
proof -
  let ?s = "walk_start w a base"
  have "\<exists>t. walk_loop M oc base rate ?s = Some (?s \<lparr> wk_tick := t \<rparr>)"
    using assms unat_u64_less [of a]
    by (intro blocked_walk) (auto simp: walk_start_def walk_next_tick_def unat_eq_0)
  then show ?thesis
    by (auto simp: compute_swap_def walk_start_def u_sub_def)
qed

text \<open>At price 1 on the initialized tick 0, with liquidity down to tick -60, a sell of 5000 buys nothing.\<close>

text \<open>The two copies of the tick-array start computation agree and are the floor to a multiple of the
  array's span, so that the array found contains the tick, for negative ticks too.\<close>

lemma clmm_tick_array_contains:
  fixes spacing :: u16
  defines "n \<equiv> int (unat spacing) * 60"
  assumes "min_tick \<le> tick" "tick \<le> max_tick" "0 < spacing"
  shows "tick_array_start_for_tick oc tick spacing = tick_array_start_index oc tick spacing \<and>
    (\<exists>start. tick_array_start_index oc tick spacing = Some start \<and> start \<le> tick \<and> tick < start + n \<and>
       start mod n = 0)"
proof -
  have "0 < n"
    using assms(4) unfolding n_def word_less_nat_alt by linarith
  then have "tick div n * n = tick - tick mod n" "0 \<le> tick mod n" "tick mod n < n"
    by (simp_all add: minus_mod_eq_div_mult [symmetric])
  then have "tick div n * n \<le> tick" "tick < tick div n * n + n"
    by linarith+
  moreover have "tick div n * n mod n = 0"
    by simp
  moreover have "tick_array_start_for_tick oc tick spacing = tick_array_start_index oc tick spacing"
    by (simp only: tick_array_start_for_tick_def tick_array_start_index_def)
  moreover have "tick_array_start_index oc tick spacing = Some (tick div n * n)"
    unfolding n_def by (rule tick_array_start_floor) (rule assms)+
  ultimately show ?thesis by simp
qed

end
