(* ===== verification/DlmmMath.thy ===== *)
theory DlmmMath
  imports Prelude
begin

text \<open>
  The fixed-point layer of the Meteora DLMM math (protocols/meteora_dlmm/math): the checked
  operators of safe_math.rs, the multiply-then-divide helpers of u128x128.rs and util.rs, the
  Q64.64 power of u64x64.rs, the bin price of price.rs and the bin/array index arithmetic of
  bin_array.rs.

  Every function of this layer answers a Rust \<open>Result\<close> whose error is a static string, the type
  \<open>lb\<close> here. Unsigned values are naturals below their width, signed ones integers in their range;
  the 256-bit intermediate products of the third-party \<open>ruint\<close> are the mathematical ones, since
  a product of two 128-bit values fits in 256 bits.
\<close>

section \<open>Results with a static error string\<close>

type_synonym 'a lb = "string + 'a"

definition math_overflow :: string where
  "math_overflow = ''LBError::MathOverflow''"

definition type_cast_failed :: string where
  "type_cast_failed = ''LBError::TypeCastFailed''"

definition ok_or :: "'a option \<Rightarrow> string \<Rightarrow> 'a lb" where
  "ok_or x e = (case x of None \<Rightarrow> Inl e | Some y \<Rightarrow> Inr y)"

text \<open>The question mark operator.\<close>

primrec and_then :: "'a lb \<Rightarrow> ('a \<Rightarrow> 'b lb) \<Rightarrow> 'b lb" where
  "and_then (Inl e) f = Inl e"
| "and_then (Inr x) f = f x"

lemma and_then_Inr [simp]: "and_then r f = Inr y \<longleftrightarrow> (\<exists>x. r = Inr x \<and> f x = Inr y)"
  by (cases r) auto

lemma ok_or_Inr [simp]: "ok_or x e = Inr y \<longleftrightarrow> x = Some y"
  by (simp add: ok_or_def split: option.splits)

lemma ok_or_Some [simp]: "ok_or (Some y) e = Inr y"
  by (simp add: ok_or_def)

lemma ok_or_None [simp]: "ok_or None e = Inl e"
  by (simp add: ok_or_def)

section \<open>safe_math.rs\<close>

definition safe_add :: "nat \<Rightarrow> nat \<Rightarrow> nat \<Rightarrow> nat lb" where
  "safe_add w a b = ok_or (checked_add w a b) math_overflow"

definition safe_sub :: "nat \<Rightarrow> nat \<Rightarrow> nat lb" where
  "safe_sub a b = ok_or (checked_sub a b) math_overflow"

definition safe_mul :: "nat \<Rightarrow> nat \<Rightarrow> nat \<Rightarrow> nat lb" where
  "safe_mul w a b = ok_or (checked_mul w a b) math_overflow"

definition safe_div :: "nat \<Rightarrow> nat \<Rightarrow> nat lb" where
  "safe_div a b = ok_or (checked_div a b) math_overflow"

text \<open>\<open>checked_shl\<close> refuses only a shift by the width or more; bits shifted out are lost.\<close>

definition safe_shl :: "nat \<Rightarrow> nat \<Rightarrow> nat \<Rightarrow> nat lb" where
  "safe_shl w a n = (if n < w then Inr ((a * 2 ^ n) mod 2 ^ w) else Inl math_overflow)"

text \<open>The signed instances.\<close>

definition checked_signed :: "nat \<Rightarrow> int \<Rightarrow> int option" where
  "checked_signed w i = (if in_signed w i then Some i else None)"

definition safe_iadd :: "nat \<Rightarrow> int \<Rightarrow> int \<Rightarrow> int lb" where
  "safe_iadd w a b = ok_or (checked_signed w (a + b)) math_overflow"

definition safe_isub :: "nat \<Rightarrow> int \<Rightarrow> int \<Rightarrow> int lb" where
  "safe_isub w a b = ok_or (checked_signed w (a - b)) math_overflow"

definition safe_imul :: "nat \<Rightarrow> int \<Rightarrow> int \<Rightarrow> int lb" where
  "safe_imul w a b = ok_or (checked_signed w (a * b)) math_overflow"

definition safe_irem :: "nat \<Rightarrow> int \<Rightarrow> int \<Rightarrow> int lb" where
  "safe_irem w a b = ok_or (i_rem w a b) math_overflow"

lemma checked_signed_Some [simp]: "checked_signed w i = Some j \<longleftrightarrow> in_signed w i \<and> j = i"
  by (auto simp: checked_signed_def)

lemma safe_ops_Inr [simp]:
  "safe_add w a b = Inr c \<longleftrightarrow> a + b < 2 ^ w \<and> c = a + b"
  "safe_sub a b = Inr c \<longleftrightarrow> b \<le> a \<and> c = a - b"
  "safe_mul w a b = Inr c \<longleftrightarrow> a * b < 2 ^ w \<and> c = a * b"
  "safe_div a b = Inr c \<longleftrightarrow> b \<noteq> 0 \<and> c = a div b"
  by (simp_all add: safe_add_def safe_sub_def safe_mul_def safe_div_def)

lemma safe_iops_Inr [simp]:
  "safe_iadd w i j = Inr k \<longleftrightarrow> in_signed w (i + j) \<and> k = i + j"
  "safe_isub w i j = Inr k \<longleftrightarrow> in_signed w (i - j) \<and> k = i - j"
  "safe_imul w i j = Inr k \<longleftrightarrow> in_signed w (i * j) \<and> k = i * j"
  by (simp_all add: safe_iadd_def safe_isub_def safe_imul_def)

text \<open>The other direction: an operator whose result fits answers it.\<close>

named_theorems lb_ok \<open>checked operators whose result fits\<close>

lemma safe_add_ok [lb_ok]: "a + b < 2 ^ w \<Longrightarrow> safe_add w a b = Inr (a + b)"
  by simp

lemma safe_sub_ok [lb_ok]: "b \<le> a \<Longrightarrow> safe_sub a b = Inr (a - b)"
  by simp

lemma safe_mul_ok [lb_ok]: "a * b < 2 ^ w \<Longrightarrow> safe_mul w a b = Inr (a * b)"
  by simp

lemma safe_div_ok [lb_ok]: "b \<noteq> 0 \<Longrightarrow> safe_div a b = Inr (a div b)"
  by simp

lemma safe_iadd_ok [lb_ok]: "in_signed w (i + j) \<Longrightarrow> safe_iadd w i j = Inr (i + j)"
  by simp

lemma safe_isub_ok [lb_ok]: "in_signed w (i - j) \<Longrightarrow> safe_isub w i j = Inr (i - j)"
  by simp

lemma safe_imul_ok [lb_ok]: "in_signed w (i * j) \<Longrightarrow> safe_imul w i j = Inr (i * j)"
  by simp

section \<open>u128x128.rs and util.rs\<close>

datatype rounding = Up | Down

definition mul_div :: "nat \<Rightarrow> nat \<Rightarrow> nat \<Rightarrow> rounding \<Rightarrow> nat option" where
  "mul_div x y denominator r =
     (if denominator = 0 then None
      else let q = (case r of Up \<Rightarrow> ceil_div (x * y) denominator | Down \<Rightarrow> x * y div denominator)
           in if q < 2 ^ 128 then Some q else None)"

text \<open>\<open>1u128.checked_shl(offset)\<close>: the only offset used is 64.\<close>

definition one_shl :: "nat \<Rightarrow> nat option" where
  "one_shl offset = (if offset < 128 then Some (2 ^ offset) else None)"

definition mul_shr :: "nat \<Rightarrow> nat \<Rightarrow> nat \<Rightarrow> rounding \<Rightarrow> nat option" where
  "mul_shr x y offset r = do { denominator \<leftarrow> one_shl offset; mul_div x y denominator r }"

definition shl_div :: "nat \<Rightarrow> nat \<Rightarrow> nat \<Rightarrow> rounding \<Rightarrow> nat option" where
  "shl_div x y offset r = do { scale \<leftarrow> one_shl offset; mul_div x scale y r }"

text \<open>\<open>T::from_u128\<close> at \<open>T = u64\<close>, the only instance the bin math uses.\<close>

definition u64_from_u128 :: "nat \<Rightarrow> nat option" where
  "u64_from_u128 x = (if x < 2 ^ 64 then Some x else None)"

definition safe_mul_shr_cast :: "nat \<Rightarrow> nat \<Rightarrow> nat \<Rightarrow> rounding \<Rightarrow> nat lb" where
  "safe_mul_shr_cast x y offset r =
     and_then (ok_or (mul_shr x y offset r) math_overflow)
       (\<lambda>q. ok_or (u64_from_u128 q) type_cast_failed)"

definition safe_shl_div_cast :: "nat \<Rightarrow> nat \<Rightarrow> nat \<Rightarrow> rounding \<Rightarrow> nat lb" where
  "safe_shl_div_cast x y offset r =
     and_then (ok_or (shl_div x y offset r) math_overflow)
       (\<lambda>q. ok_or (u64_from_u128 q) type_cast_failed)"

definition safe_mul_div_cast :: "nat \<Rightarrow> nat \<Rightarrow> nat \<Rightarrow> rounding \<Rightarrow> nat lb" where
  "safe_mul_div_cast x y denominator r =
     and_then (ok_or (mul_div x y denominator r) math_overflow)
       (\<lambda>q. ok_or (u64_from_u128 q) type_cast_failed)"

definition safe_mul_div_cast_from_u64_to_u64 :: "nat \<Rightarrow> nat \<Rightarrow> nat \<Rightarrow> nat lb" where
  "safe_mul_div_cast_from_u64_to_u64 x y denominator =
     and_then (safe_mul 128 x y) (\<lambda>p.
     and_then (safe_div p denominator) (\<lambda>q.
       ok_or (u64_from_u128 q) type_cast_failed))"

definition safe_mul_div_cast_from_u256_to_u64 :: "nat \<Rightarrow> nat \<Rightarrow> nat \<Rightarrow> nat lb" where
  "safe_mul_div_cast_from_u256_to_u64 x y denominator =
     and_then (safe_mul 256 x y) (\<lambda>p.
     and_then (safe_div p denominator) (\<lambda>q.
       ok_or (u64_from_u128 q) type_cast_failed))"

lemma u64_from_u128_Some [simp]: "u64_from_u128 x = Some y \<longleftrightarrow> x < 2 ^ 64 \<and> y = x"
  by (auto simp: u64_from_u128_def)

lemma one_shl_64 [simp]: "one_shl 64 = Some (2 ^ 64)"
  by (simp add: one_shl_def)

lemma mul_div_Some:
  "mul_div x y d r = Some q \<longleftrightarrow>
     d \<noteq> 0 \<and> q < 2 ^ 128 \<and> q = (case r of Up \<Rightarrow> ceil_div (x * y) d | Down \<Rightarrow> x * y div d)"
  by (auto simp: mul_div_def Let_def)

text \<open>A cast result that exists is the rounded quotient.\<close>

lemma safe_mul_shr_cast_Inr:
  "safe_mul_shr_cast x y 64 r = Inr q \<longleftrightarrow>
     q < 2 ^ 64 \<and> q = (case r of Up \<Rightarrow> ceil_div (x * y) (2 ^ 64) | Down \<Rightarrow> x * y div 2 ^ 64)"
  by (cases r) (auto simp: safe_mul_shr_cast_def mul_shr_def mul_div_Some)

lemma safe_shl_div_cast_Inr:
  "safe_shl_div_cast x y 64 r = Inr q \<longleftrightarrow>
     y \<noteq> 0 \<and> q < 2 ^ 64 \<and>
     q = (case r of Up \<Rightarrow> ceil_div (x * 2 ^ 64) y | Down \<Rightarrow> x * 2 ^ 64 div y)"
  by (cases r) (auto simp: safe_shl_div_cast_def shl_div_def mul_div_Some)

section \<open>u64x64.rs: powers in Q64.64\<close>

definition pow_precision :: nat where
  "pow_precision = 10 ^ 12"

definition scale_offset :: nat where
  "scale_offset = 64"

text \<open>1.0 in Q64.64.\<close>

definition one_q64 :: nat where
  "one_q64 = 2 ^ scale_offset"

definition max_exponential :: nat where
  "max_exponential = 0x80000"

definition u128_max :: nat where
  "u128_max = 2 ^ 128 - 1"

text \<open>One \<open>checked_mul(..)? >> SCALE_OFFSET\<close>.\<close>

definition mul_q64 :: "nat \<Rightarrow> nat \<Rightarrow> nat option" where
  "mul_q64 a b = do { p \<leftarrow> checked_mul 128 a b; Some (p div 2 ^ scale_offset) }"

text \<open>
  The unrolled steps, from bit \<open>18 - n\<close> to bit 18 of the exponent: multiply the result by the
  current square when the bit is set, then square unless the bit was the last.
\<close>

primrec pow_steps :: "nat \<Rightarrow> nat \<Rightarrow> nat \<Rightarrow> nat \<Rightarrow> nat option" where
  "pow_steps 0 e squared_base result =
     (if odd e then mul_q64 result squared_base else Some result)"
| "pow_steps (Suc n) e squared_base result =
     do { result \<leftarrow> (if odd e then mul_q64 result squared_base else Some result);
          squared_base \<leftarrow> mul_q64 squared_base squared_base;
          pow_steps n (e div 2) squared_base result }"

lemma mul_q64_eval:
  "mul_q64 a b = (if a * b < 340282366920938463463374607431768211456
     then Some (a * b div 18446744073709551616) else None)"
  by (simp add: mul_q64_def checked_mul_def scale_offset_def)

lemma pow_steps_numeral:
  "pow_steps (numeral k) e squared_base result =
     do { result \<leftarrow> (if odd e then mul_q64 result squared_base else Some result);
          squared_base \<leftarrow> mul_q64 squared_base squared_base;
          pow_steps (pred_numeral k) (e div 2) squared_base result }"
  by (simp add: numeral_eq_Suc)

definition pow :: "nat \<Rightarrow> int \<Rightarrow> nat option" where
  "pow base e =
     (if e = 0 then Some one_q64
      else if nat \<bar>e\<bar> \<ge> max_exponential then None
      else do {
        (squared_base, invert) \<leftarrow>
          (if base \<ge> one_q64
           then do { b \<leftarrow> checked_div u128_max base; Some (b, \<not> e < 0) }
           else Some (base, e < 0));
        result \<leftarrow> pow_steps 18 (nat \<bar>e\<bar>) squared_base one_q64;
        if result = 0 then None
        else if invert then checked_div u128_max result
        else Some result })"

definition to_decimal :: "nat \<Rightarrow> nat option" where
  "to_decimal v =
     do { scaled \<leftarrow> checked_mul 256 v pow_precision;
          let d = scaled div 2 ^ scale_offset;
          if d < 2 ^ 128 then Some d else None }"

definition from_decimal :: "nat \<Rightarrow> nat option" where
  "from_decimal v =
     do { fp \<leftarrow> checked_div ((v * 2 ^ scale_offset) mod 2 ^ 256) pow_precision;
          if fp < 2 ^ 128 then Some fp else None }"

definition basis_point_max :: nat where
  "basis_point_max = 10000"

definition get_base :: "nat \<Rightarrow> nat option" where
  "get_base bin_step =
     do { fraction \<leftarrow> checked_div ((bin_step * 2 ^ scale_offset) mod 2 ^ 128) basis_point_max;
          checked_add 128 one_q64 fraction }"

section \<open>price.rs\<close>

definition get_price_from_id :: "int \<Rightarrow> u16 \<Rightarrow> nat lb" where
  "get_price_from_id active_id bin_step =
     and_then (safe_shl 128 (unat bin_step) scale_offset) (\<lambda>s.
     and_then (safe_div s basis_point_max) (\<lambda>bps.
     and_then (safe_add 128 one_q64 bps) (\<lambda>base.
       ok_or (pow base active_id) math_overflow)))"

section \<open>bin_array.rs: bins and arrays\<close>

definition max_bin_per_array :: int where
  "max_bin_per_array = 70"

definition min_bin_id :: int where
  "min_bin_id = - 443636"

definition max_bin_id :: int where
  "max_bin_id = 443636"

definition bin_id_to_bin_array_index :: "int \<Rightarrow> int lb" where
  "bin_id_to_bin_array_index bin_id =
     (let idx = quot_trunc bin_id max_bin_per_array; rem = bin_id - max_bin_per_array * idx
      in if bin_id < 0 \<and> rem \<noteq> 0 then safe_isub 32 idx 1 else Inr idx)"

definition bin_array_lower_upper_bin_id :: "int \<Rightarrow> (int \<times> int) lb" where
  "bin_array_lower_upper_bin_id index =
     and_then (safe_imul 32 index max_bin_per_array) (\<lambda>lower.
     and_then (safe_iadd 32 lower max_bin_per_array) (\<lambda>u.
     and_then (safe_isub 32 u 1) (\<lambda>upper.
       Inr (lower, upper))))"

definition check_valid_index :: "int \<Rightarrow> unit lb" where
  "check_valid_index index =
     and_then (bin_array_lower_upper_bin_id index) (\<lambda>(lower, upper).
       if min_bin_id \<le> lower \<and> upper \<le> max_bin_id then Inr ()
       else Inl ''LBError::InvalidStartBinIndex'')"

text \<open>\<open>i32::try_from\<close> of the array's 64-bit index.\<close>

definition i32_try_from :: "i64 \<Rightarrow> int option" where
  "i32_try_from i = (if in_signed 32 (sint i) then Some (sint i) else None)"

text \<open>The position of a bin in the array of index \<open>index\<close>.\<close>

definition bin_index_in_array :: "i64 \<Rightarrow> int \<Rightarrow> nat lb" where
  "bin_index_in_array index bin_id =
     and_then (ok_or (i32_try_from index) type_cast_failed) (\<lambda>i.
     and_then (bin_array_lower_upper_bin_id i) (\<lambda>(lower, upper).
       if bin_id < lower \<or> upper < bin_id then Inl ''LBError::InvalidBinId''
       else
         and_then
           (if 0 < bin_id then safe_isub 32 bin_id lower
            else and_then (safe_isub 32 upper bin_id) (\<lambda>d.
                 and_then (safe_isub 32 max_bin_per_array d) (\<lambda>k. safe_isub 32 k 1)))
           (\<lambda>idx. if 0 \<le> idx \<and> idx < max_bin_per_array then Inr (nat idx)
                  else Inl ''LBError::InvalidBinId'')))"

definition is_bin_id_within_range :: "i64 \<Rightarrow> int \<Rightarrow> bool" where
  "is_bin_id_within_range index bin_id =
     (case i32_try_from index of
        None \<Rightarrow> False
      | Some i \<Rightarrow>
          (case bin_array_lower_upper_bin_id i of
             Inl e \<Rightarrow> False
           | Inr (lower, upper) \<Rightarrow> lower \<le> bin_id \<and> bin_id \<le> upper))"

section \<open>Powers stay in range\<close>

lemma mul_q64_below:
  assumes "a \<le> 2 ^ 64" and "b < 2 ^ 64"
  shows "\<exists>c. mul_q64 a b = Some c \<and> c \<le> a \<and> (0 < a \<longrightarrow> c < a)"
proof -
  have "a * b \<le> a * 2 ^ 64"
    using assms(2) by (intro mult_left_mono) auto
  then have le: "a * b div 2 ^ 64 \<le> a"
    by (metis div_le_mono div_mult_self_is_m zero_less_numeral zero_less_power)
  have "a * b < 2 ^ 64 * 2 ^ 64"
  proof (cases "a = 0")
    case False
    then have "a * b < a * 2 ^ 64"
      using assms(2) by simp
    also have "\<dots> \<le> 2 ^ 64 * 2 ^ 64"
      using assms(1) by (intro mult_right_mono) auto
    finally show ?thesis .
  qed simp
  then have fits: "a * b < 2 ^ 128"
    by (simp only: power_add [symmetric]) simp
  have "a * b div 2 ^ 64 < a" if "0 < a"
    using that assms(2) by (intro div_less_iff_less_mult [THEN iffD2]) auto
  with fits le show ?thesis
    by (simp add: mul_q64_def scale_offset_def checked_mul_def)
qed

lemma pow_steps_below:
  assumes "sq < 2 ^ 64" and "res \<le> 2 ^ 64" and "e < 2 ^ (n + 1)"
  shows "\<exists>r. pow_steps n e sq res = Some r \<and> r \<le> res \<and> (0 < e \<longrightarrow> 0 < res \<longrightarrow> r < res)"
  using assms
proof (induction n arbitrary: e sq res)
  case 0
  then show ?case
    using mul_q64_below [of res sq] by (cases "odd e") (auto elim: oddE)
next
  case (Suc n)
  obtain res' where res': "(if odd e then mul_q64 res sq else Some res) = Some res'"
    "res' \<le> res" "odd e \<longrightarrow> 0 < res \<longrightarrow> res' < res"
    using mul_q64_below [of res sq] Suc.prems by (cases "odd e") auto
  obtain sq' where sq': "mul_q64 sq sq = Some sq'" "sq' \<le> sq"
    using mul_q64_below [of sq sq] Suc.prems by auto
  have bounds: "sq' < 2 ^ 64" "res' \<le> 2 ^ 64" "e div 2 < 2 ^ (n + 1)"
    using Suc.prems sq' res' by (auto simp: div_less_iff_less_mult)
  obtain r where r: "pow_steps n (e div 2) sq' res' = Some r" "r \<le> res'"
    "0 < e div 2 \<longrightarrow> 0 < res' \<longrightarrow> r < res'"
    using Suc.IH [OF bounds] by auto
  have "r < res" if "0 < e" "0 < res"
  proof (cases "odd e")
    case True
    with that res' r show ?thesis by simp
  next
    case False
    with that have "0 < e div 2" by (auto elim!: evenE)
    moreover have "res' = res" using False res'(1) by simp
    ultimately show ?thesis using r that by simp
  qed
  with res' sq' r show ?case
    by (simp split: if_splits)
qed

text \<open>
  The power of a base of at least one: what the negative exponent gives is below one, and the
  positive exponent is its reciprocal.
\<close>

lemma pow_neg:
  assumes base: "one_q64 \<le> base" and e: "0 < e" "e < int max_exponential"
  obtains r where "r < one_q64"
    and "pow base (- e) = (if r = 0 then None else Some r)"
    and "pow base e = (if r = 0 then None else Some (u128_max div r))"
proof -
  have pos: "base \<noteq> 0"
    using base by (simp add: one_q64_def scale_offset_def)
  have sq: "u128_max div base < 2 ^ 64"
  proof -
    have "u128_max < 2 ^ 64 * 2 ^ 64"
      by (simp add: u128_max_def)
    also have "\<dots> \<le> 2 ^ 64 * base"
      using base by (intro mult_left_mono) (simp_all add: one_q64_def scale_offset_def)
    finally show ?thesis
      using pos by (simp add: div_less_iff_less_mult)
  qed
  have "nat e < 2 ^ (18 + 1)"
    using e by (simp add: max_exponential_def)
  then obtain r where r: "pow_steps 18 (nat e) (u128_max div base) one_q64 = Some r" "r < one_q64"
    using pow_steps_below [OF sq, of one_q64 "nat e" 18] e
    by (auto simp: one_q64_def scale_offset_def)
  have small: "\<not> max_exponential \<le> nat e"
    using e by simp
  have neg: "pow base (- e) = (if r = 0 then None else Some r)"
    using e r base pos small by (simp add: pow_def checked_div_def)
  have "pow base e = (if r = 0 then None else Some (u128_max div r))"
    using e r base pos small by (simp add: pow_def checked_div_def)
  from that [OF r(2) neg this] show thesis .
qed

section \<open>The price of a bin\<close>

definition price_base :: "u16 \<Rightarrow> nat" where
  "price_base bin_step = one_q64 + unat bin_step * 2 ^ 64 div 10000"

lemma get_price_pow:
  "get_price_from_id i bin_step = ok_or (pow (price_base bin_step) i) math_overflow"
proof -
  have step: "unat bin_step * 2 ^ 64 < 2 ^ 128"
  proof -
    have "unat bin_step < 2 ^ 16"
      using unsigned_less [of bin_step] by simp
    then have "unat bin_step * 2 ^ 64 < 2 ^ 16 * 2 ^ 64"
      by simp
    also have "\<dots> < 2 ^ 128"
      by simp
    finally show ?thesis .
  qed
  have "one_q64 + unat bin_step * 2 ^ 64 div 10000 < 2 ^ 128"
  proof -
    have "unat bin_step < 2 ^ 16"
      using unsigned_less [of bin_step] by simp
    then have "unat bin_step * 2 ^ 64 div 10000 \<le> 2 ^ 16 * 2 ^ 64 div 10000"
      by (intro div_le_mono mult_right_mono) auto
    then show ?thesis
      by (simp add: one_q64_def scale_offset_def)
  qed
  with step show ?thesis
    by (simp add: get_price_from_id_def price_base_def safe_shl_def lb_ok scale_offset_def
        basis_point_max_def)
qed

lemma price_base_ge: "one_q64 \<le> price_base bin_step"
  by (simp add: price_base_def)

text \<open>Bin prices lie on the right side of one. The price of bin 0 is 1.0 in Q64.64. Within
  the exponent range the price of bin \<open>- n\<close> is below one, the price of bin \<open>n\<close> is above one and
  is the reciprocal of it (the quotient of \<open>u128::MAX\<close>), and the two fail together, by
  underflow; no multiplication of the power overflows. Beyond the exponent range both fail.\<close>

lemma dlmm_price_sides:
  assumes n: "0 < n"
  shows "get_price_from_id 0 bin_step = Inr one_q64 \<and>
    (n < int max_exponential \<longrightarrow>
      (get_price_from_id (- n) bin_step = Inl math_overflow \<and>
       get_price_from_id n bin_step = Inl math_overflow) \<or>
      (\<exists>p. 0 < p \<and> p < one_q64 \<and> get_price_from_id (- n) bin_step = Inr p \<and>
           get_price_from_id n bin_step = Inr (u128_max div p) \<and> one_q64 < u128_max div p)) \<and>
    (int max_exponential \<le> n \<longrightarrow>
      get_price_from_id (- n) bin_step = Inl math_overflow \<and>
      get_price_from_id n bin_step = Inl math_overflow)"
proof (intro conjI impI)
  show "get_price_from_id 0 bin_step = Inr one_q64"
    by (simp add: get_price_pow pow_def)
next
  assume "n < int max_exponential"
  then obtain r where r: "r < one_q64"
    "pow (price_base bin_step) (- n) = (if r = 0 then None else Some r)"
    "pow (price_base bin_step) n = (if r = 0 then None else Some (u128_max div r))"
    using pow_neg [OF price_base_ge n] by metis
  have above: "one_q64 < u128_max div r" if "r \<noteq> 0"
  proof -
    have "u128_max div (one_q64 - 1) \<le> u128_max div r"
      using r(1) that by (intro div_le_mono2) auto
    moreover have "one_q64 < u128_max div (one_q64 - 1)"
      by (simp add: u128_max_def one_q64_def scale_offset_def)
    ultimately show ?thesis by simp
  qed
  then show "(get_price_from_id (- n) bin_step = Inl math_overflow \<and>
       get_price_from_id n bin_step = Inl math_overflow) \<or>
      (\<exists>p. 0 < p \<and> p < one_q64 \<and> get_price_from_id (- n) bin_step = Inr p \<and>
           get_price_from_id n bin_step = Inr (u128_max div p) \<and> one_q64 < u128_max div p)"
    using r by (cases "r = 0") (auto simp: get_price_pow)
next
  assume "int max_exponential \<le> n"
  with n have "max_exponential \<le> nat n" by simp
  with n show "get_price_from_id (- n) bin_step = Inl math_overflow"
    and "get_price_from_id n bin_step = Inl math_overflow"
    by (simp_all add: get_price_pow pow_def)
qed

section \<open>Bins and arrays\<close>

lemma floor_of_trunc:
  "quot_trunc b 70 - (if b < 0 \<and> b - 70 * quot_trunc b 70 \<noteq> 0 then 1 else 0) = b div 70"
proof (cases "b < 0")
  case False
  then show ?thesis by (cases "b = 0") (simp_all add: quot_trunc_def)
next
  case True
  then have q: "quot_trunc b 70 = - ((- b) div 70)"
    by (simp add: quot_trunc_def)
  show ?thesis
    unfolding q using True by (auto simp: not_less)
qed

text \<open>The array of a bin is the floor of the bin's id by the array size.\<close>

lemma bin_id_to_bin_array_index_floor:
  assumes "in_signed 32 b"
  shows "bin_id_to_bin_array_index b = Inr (b div 70)"
proof -
  have range: "in_signed 32 (b div 70)"
    using assms by (auto simp: in_signed_def)
  show ?thesis
    using floor_of_trunc [of b] range
    by (auto simp: bin_id_to_bin_array_index_def max_bin_per_array_def Let_def split: if_splits)
qed

lemma lower_upper_floor:
  assumes "in_signed 32 (70 * i)" and "in_signed 32 (70 * i + 70)"
  shows "bin_array_lower_upper_bin_id i = Inr (70 * i, 70 * i + 69)"
  using assms
  by (auto simp: bin_array_lower_upper_bin_id_def max_bin_per_array_def lb_ok mult.commute
      in_signed_def)

definition bin_id_in_range :: "int \<Rightarrow> bool" where
  "bin_id_in_range b \<longleftrightarrow> min_bin_id \<le> b \<and> b \<le> max_bin_id"

lemma bin_id_in_range_signed: "bin_id_in_range b \<Longrightarrow> in_signed 32 b"
  by (simp add: bin_id_in_range_def in_signed_def min_bin_id_def max_bin_id_def)

lemma floor_of_range:
  assumes "bin_id_in_range b"
  shows "- 6338 \<le> b div 70" and "b div 70 \<le> 6337"
  using zdiv_mono1 [of "- 443636" b 70] zdiv_mono1 [of b 443636 70] assms
  by (simp_all add: bin_id_in_range_def min_bin_id_def max_bin_id_def)

text \<open>A bin of the legal range lies in the array of exactly its floor.\<close>

lemma lower_upper_cases:
  assumes "bin_array_lower_upper_bin_id i = Inr (l, u)"
  shows "l = 70 * i \<and> u = 70 * i + 69"
  using assms by (auto simp: bin_array_lower_upper_bin_id_def max_bin_per_array_def)

lemma i32_try_from_floor:
  assumes "bin_id_in_range b" and "sint index = b div 70"
  shows "i32_try_from index = Some (b div 70)"
    and "bin_array_lower_upper_bin_id (b div 70) = Inr (70 * (b div 70), 70 * (b div 70) + 69)"
proof -
  note fl = floor_of_range [OF assms(1)]
  then have "in_signed 32 (b div 70)" "in_signed 32 (70 * (b div 70))"
    "in_signed 32 (70 * (b div 70) + 70)"
    by (simp_all add: in_signed_def)
  then show "i32_try_from index = Some (b div 70)"
    and "bin_array_lower_upper_bin_id (b div 70) = Inr (70 * (b div 70), 70 * (b div 70) + 69)"
    using assms(2) by (simp_all add: i32_try_from_def lower_upper_floor)
qed

lemma in_array_iff: "70 * i \<le> b \<and> b \<le> 70 * i + 69 \<longleftrightarrow> i = b div (70::int)"
proof
  assume "70 * i \<le> b \<and> b \<le> 70 * i + 69"
  then show "i = b div 70"
    using int_div_pos_eq [of b 70 i "b - 70 * i"] by simp
next
  assume "i = b div 70"
  then show "70 * i \<le> b \<and> b \<le> 70 * i + 69"
    using pos_mod_bound [of 70 b] pos_mod_sign [of 70 b] minus_mult_div_eq_mod [of b 70] by linarith
qed

lemma is_bin_id_within_range_iff:
  assumes "bin_id_in_range b"
  shows "is_bin_id_within_range index b \<longleftrightarrow> sint index = b div 70"
proof
  assume "is_bin_id_within_range index b"
  then obtain i l u where i: "i32_try_from index = Some i"
    and lu: "bin_array_lower_upper_bin_id i = Inr (l, u)" and b: "l \<le> b" "b \<le> u"
    by (auto simp: is_bin_id_within_range_def split: option.splits sum.splits prod.splits)
  have "i = b div 70"
    using b lower_upper_cases [OF lu] in_array_iff [of i b] by simp
  with i show "sint index = b div 70"
    by (auto simp: i32_try_from_def split: if_splits)
next
  assume "sint index = b div 70"
  note fl = i32_try_from_floor [OF assms this]
  show "is_bin_id_within_range index b"
    using in_array_iff [of "b div 70" b] by (simp add: is_bin_id_within_range_def fl)
qed

lemma bin_index_in_array_pos:
  assumes "bin_id_in_range b" and "sint index = b div 70"
  shows "bin_index_in_array index b = Inr (nat (b mod 70))"
proof -
  note fl = i32_try_from_floor [OF assms]
  have mod: "b - 70 * (b div 70) = b mod 70"
    by (simp add: minus_mult_div_eq_mod)
  have ranges: "in_signed 32 (b mod 70)" "in_signed 32 (69 - b mod 70)" "in_signed 32 (1 + b mod 70)"
    "0 \<le> b mod 70" "b mod 70 < 70"
    by (simp_all add: in_signed_def) (use pos_mod_bound [of 70 b] pos_mod_sign [of 70 b] in linarith)+
  have down: "70 * (b div 70) + 69 - b = 69 - b mod 70"
    using mod by linarith
  have between: "\<not> b < 70 * (b div 70)" "\<not> 70 * (b div 70) + 69 < b"
    using in_array_iff [of "b div 70" b] by auto
  show ?thesis
    using between ranges
    by (simp add: bin_index_in_array_def fl max_bin_per_array_def lb_ok mod down)
qed

lemma bin_index_in_array_only:
  assumes "bin_id_in_range b" and "bin_index_in_array index b = Inr k"
  shows "sint index = b div 70 \<and> k = nat (b mod 70) \<and> k < 70"
proof -
  obtain i l u where i: "i32_try_from index = Some i"
    and lu: "bin_array_lower_upper_bin_id i = Inr (l, u)" and b: "l \<le> b" "b \<le> u"
    using assms(2) by (auto simp: bin_index_in_array_def split: if_splits)
  have "i = b div 70"
    using b lower_upper_cases [OF lu] in_array_iff [of i b] by simp
  with i have idx: "sint index = b div 70"
    by (auto simp: i32_try_from_def split: if_splits)
  have "nat (b mod 70) < 70"
    using pos_mod_bound [of 70 b] by (simp add: nat_less_iff)
  with bin_index_in_array_pos [OF assms(1) idx] assms(2) idx show ?thesis
    by simp
qed

end
