(* ===== verification/DlmmBins.thy ===== *)
theory DlmmBins
  imports DlmmMath
begin

text \<open>
  The per-pair and per-bin math of Meteora DLMM: the accounts of the SDK with the fields the
  code reads, the fee rates and the volatility state of math/lb_pair.rs, the swap into one bin
  of math/bin.rs, and the account predicates of state.rs.

  A function that mutates its argument answers the new value; one that fails is abandoned by
  every caller with the whole quote, so its partial writes are not observable.
\<close>

section \<open>Accounts\<close>

record static_parameters =
  sp_base_factor :: u16
  sp_filter_period :: u16
  sp_decay_period :: u16
  sp_reduction_factor :: u16
  sp_variable_fee_control :: u32
  sp_max_volatility_accumulator :: u32
  sp_protocol_share :: u16
  sp_base_fee_power_factor :: u8

record variable_parameters =
  vp_volatility_accumulator :: u32
  vp_volatility_reference :: u32
  vp_index_reference :: i32
  vp_last_update_timestamp :: i64

record lb_pair =
  lp_parameters :: static_parameters
  lp_v_parameters :: variable_parameters
  lp_pair_type :: u8
  lp_active_id :: i32
  lp_bin_step :: u16
  lp_status :: u8
  lp_activation_type :: u8
  lp_token_x_mint :: pubkey
  lp_token_y_mint :: pubkey
  lp_reserve_x :: pubkey
  lp_reserve_y :: pubkey
  lp_oracle :: pubkey
  lp_bin_array_bitmap :: "u64 list"
  lp_activation_point :: u64

record bin =
  bn_amount_x :: u64
  bn_amount_y :: u64
  bn_price :: u128
  bn_liquidity_supply :: u128
  bn_fee_amount_x_per_token_stored :: u128
  bn_fee_amount_y_per_token_stored :: u128

record bin_array =
  ba_index :: i64
  ba_bins :: "bin list"

record bitmap_extension =
  be_positive_bin_array_bitmap :: "u64 list list"
  be_negative_bin_array_bitmap :: "u64 list list"

abbreviation (input) lp_volatility :: "lb_pair \<Rightarrow> u32" where
  "lp_volatility p \<equiv> vp_volatility_accumulator (lp_v_parameters p)"

section \<open>state.rs: status and type\<close>

datatype pair_status = Enabled | Disabled

definition pair_status_from_u8 :: "u8 \<Rightarrow> pair_status option" where
  "pair_status_from_u8 b = (if b = 0 then Some Enabled else if b = 1 then Some Disabled else None)"

datatype pair_type = Permissionless | Permission | CustomizablePermissionless | PermissionV2

definition pair_type_from_u8 :: "u8 \<Rightarrow> pair_type option" where
  "pair_type_from_u8 b =
     (if b = 0 then Some Permissionless else if b = 1 then Some Permission
      else if b = 2 then Some CustomizablePermissionless else if b = 3 then Some PermissionV2
      else None)"

definition lp_pair_status :: "lb_pair \<Rightarrow> pair_status option" where
  "lp_pair_status p = pair_status_from_u8 (lp_status p)"

definition lb_pair_is_active :: "lb_pair \<Rightarrow> bool" where
  "lb_pair_is_active p \<longleftrightarrow> lp_pair_status p = Some Enabled"

definition pair_type_typed :: "lb_pair \<Rightarrow> pair_type option" where
  "pair_type_typed p = pair_type_from_u8 (lp_pair_type p)"

definition lb_pair_pair :: "lb_pair \<Rightarrow> pubkey \<times> pubkey" where
  "lb_pair_pair p = (lp_token_x_mint p, lp_token_y_mint p)"

section \<open>Fee constants\<close>

definition fee_precision :: nat where
  "fee_precision = 1000000000"

definition max_fee_rate :: nat where
  "max_fee_rate = 100000000"

section \<open>state.rs: the approximate fee helpers\<close>

definition approx_base_fee :: "lb_pair \<Rightarrow> nat" where
  "approx_base_fee p =
     saturating_mul 128
       (saturating_mul 128 (unat (sp_base_factor (lp_parameters p))) (unat (lp_bin_step p))) 10"

definition approx_variable_fee :: "lb_pair \<Rightarrow> nat" where
  "approx_variable_fee p =
     (let vfc = unat (sp_variable_fee_control (lp_parameters p))
      in if vfc = 0 then 0
         else
           let va = unat (lp_volatility p);
               m = saturating_mul 128 va (unat (lp_bin_step p));
               square = min (m ^ 2) (2 ^ 128 - 1);
               raw = saturating_mul 128 vfc square
           in saturating_add 128 raw 99999999999 div 100000000000)"

definition total_fee_rate :: "lb_pair \<Rightarrow> nat" where
  "total_fee_rate p =
     min (saturating_add 128 (approx_base_fee p) (approx_variable_fee p)) max_fee_rate"

definition compute_fee_on_input :: "lb_pair \<Rightarrow> u64 \<Rightarrow> u64" where
  "compute_fee_on_input p amount_in =
     (let rate = total_fee_rate p; denom = saturating_sub fee_precision rate
      in if denom = 0 then amount_in
         else
           let num = saturating_mul 128 (unat amount_in) rate
           in as_u64 (min (saturating_add 128 num (denom - 1) div denom) (2 ^ 64 - 1)))"

section \<open>lb_pair.rs: fee rates\<close>

definition checked_pow :: "nat \<Rightarrow> nat \<Rightarrow> nat \<Rightarrow> nat option" where
  "checked_pow w b e = (if b ^ e < 2 ^ w then Some (b ^ e) else None)"

definition get_base_fee :: "lb_pair \<Rightarrow> nat lb" where
  "get_base_fee p =
     and_then (safe_mul 128 (unat (sp_base_factor (lp_parameters p))) (unat (lp_bin_step p))) (\<lambda>b.
     and_then (safe_mul 128 b 10) (\<lambda>base.
       let power = unat (sp_base_fee_power_factor (lp_parameters p))
       in if power = 0 then Inr base
          else and_then (ok_or (checked_pow 128 10 power) math_overflow)
                 (\<lambda>scale. safe_mul 128 base scale)))"

definition compute_variable_fee :: "lb_pair \<Rightarrow> u32 \<Rightarrow> nat lb" where
  "compute_variable_fee p volatility_accumulator =
     (let vfc = unat (sp_variable_fee_control (lp_parameters p))
      in if vfc = 0 then Inr 0
         else
           and_then (safe_mul 128 (unat volatility_accumulator) (unat (lp_bin_step p))) (\<lambda>m.
           and_then (ok_or (checked_pow 128 m 2) math_overflow) (\<lambda>square_vfa_bin.
           and_then (safe_mul 128 vfc square_vfa_bin) (\<lambda>v_fee.
           and_then (safe_add 128 v_fee 99999999999) (\<lambda>s.
             safe_div s 100000000000)))))"

definition get_variable_fee :: "lb_pair \<Rightarrow> nat lb" where
  "get_variable_fee p = compute_variable_fee p (lp_volatility p)"

definition get_total_fee :: "lb_pair \<Rightarrow> nat lb" where
  "get_total_fee p =
     and_then (get_base_fee p) (\<lambda>b.
     and_then (get_variable_fee p) (\<lambda>v.
     and_then (safe_add 128 b v) (\<lambda>total.
       Inr (min total max_fee_rate))))"

definition to_u64 :: "nat \<Rightarrow> u64 lb" where
  "to_u64 n = (if n < 2 ^ 64 then Inr (as_u64 n) else Inl type_cast_failed)"

definition compute_fee :: "lb_pair \<Rightarrow> u64 \<Rightarrow> u64 lb" where
  "compute_fee p amount =
     and_then (get_total_fee p) (\<lambda>total_fee_rate.
     and_then (safe_sub fee_precision total_fee_rate) (\<lambda>denominator.
     and_then (safe_mul 128 (unat amount) total_fee_rate) (\<lambda>m.
     and_then (safe_add 128 m denominator) (\<lambda>a.
     and_then (safe_sub a 1) (\<lambda>fee.
     and_then (safe_div fee denominator) (\<lambda>scaled_down_fee.
       to_u64 scaled_down_fee))))))"

definition compute_fee_from_amount :: "lb_pair \<Rightarrow> u64 \<Rightarrow> u64 lb" where
  "compute_fee_from_amount p amount_with_fees =
     and_then (get_total_fee p) (\<lambda>total_fee_rate.
     and_then (safe_mul 128 (unat amount_with_fees) total_fee_rate) (\<lambda>m.
     and_then (safe_add 128 m (fee_precision - 1)) (\<lambda>fee_amount.
     and_then (safe_div fee_amount fee_precision) (\<lambda>scaled_down_fee.
       to_u64 scaled_down_fee))))"

definition compute_protocol_fee :: "lb_pair \<Rightarrow> u64 \<Rightarrow> u64 lb" where
  "compute_protocol_fee p fee_amount =
     and_then (safe_mul 128 (unat fee_amount) (unat (sp_protocol_share (lp_parameters p)))) (\<lambda>m.
     and_then (safe_div m basis_point_max) (\<lambda>protocol_fee. to_u64 protocol_fee))"

section \<open>lb_pair.rs: volatility and the active bin\<close>

definition update_references :: "lb_pair \<Rightarrow> i64 \<Rightarrow> lb_pair lb" where
  "update_references p current_timestamp =
     (let v = lp_v_parameters p; q = lp_parameters p
      in and_then (safe_isub 64 (sint current_timestamp) (sint (vp_last_update_timestamp v)))
       (\<lambda>elapsed.
         if elapsed \<ge> int (unat (sp_filter_period q)) then
           (let v = v \<lparr> vp_index_reference := lp_active_id p \<rparr>
            in if elapsed < int (unat (sp_decay_period q)) then
                 and_then (safe_mul 32 (unat (vp_volatility_accumulator v))
                            (unat (sp_reduction_factor q))) (\<lambda>m.
                 and_then (safe_div m basis_point_max) (\<lambda>r.
                   Inr (p \<lparr> lp_v_parameters :=
                     v \<lparr> vp_volatility_reference := word_of_nat r \<rparr> \<rparr>)))
               else
                 Inr (p \<lparr> lp_v_parameters := v \<lparr> vp_volatility_reference := 0 \<rparr> \<rparr>))
         else Inr p))"

definition update_volatility_accumulator :: "lb_pair \<Rightarrow> lb_pair lb" where
  "update_volatility_accumulator p =
     (let v = lp_v_parameters p
      in and_then (safe_isub 64 (sint (vp_index_reference v)) (sint (lp_active_id p))) (\<lambda>d.
         and_then (safe_mul 64 (nat \<bar>d\<bar>) basis_point_max) (\<lambda>m.
         and_then (safe_add 64 (unat (vp_volatility_reference v)) m) (\<lambda>va.
           let va' = min va (unat (sp_max_volatility_accumulator (lp_parameters p)))
           in if va' < 2 ^ 32
              then Inr (p \<lparr> lp_v_parameters :=
                     v \<lparr> vp_volatility_accumulator := word_of_nat va' \<rparr> \<rparr>)
              else Inl type_cast_failed))))"

definition advance_active_bin :: "lb_pair \<Rightarrow> bool \<Rightarrow> lb_pair lb" where
  "advance_active_bin p swap_for_y =
     and_then (if swap_for_y then safe_isub 32 (sint (lp_active_id p)) 1
               else safe_iadd 32 (sint (lp_active_id p)) 1) (\<lambda>nxt.
       if \<not> (min_bin_id \<le> nxt \<and> nxt \<le> max_bin_id) then Inl ''LBError::BinIdOutOfRange''
       else Inr (p \<lparr> lp_active_id := word_of_int nxt \<rparr>))"

section \<open>bin.rs: one bin\<close>

record bin_swap_result =
  bs_amount_in_with_fees :: u64
  bs_amount_out :: u64
  bs_fee :: u64
  bs_protocol_fee_after_host_fee :: u64
  bs_host_fee :: u64
  bs_is_exact_out_amount :: bool

definition max_amount_out :: "bin \<Rightarrow> bool \<Rightarrow> u64" where
  "max_amount_out b swap_for_y = (if swap_for_y then bn_amount_y b else bn_amount_x b)"

definition cast_u64 :: "nat lb \<Rightarrow> u64 lb" where
  "cast_u64 r = and_then r (\<lambda>n. Inr (as_u64 n))"

definition max_amount_in :: "bin \<Rightarrow> u128 \<Rightarrow> bool \<Rightarrow> u64 lb" where
  "max_amount_in b price swap_for_y =
     cast_u64
       (if swap_for_y
        then safe_shl_div_cast (unat (bn_amount_y b)) (unat price) scale_offset Up
        else safe_mul_shr_cast (unat (bn_amount_x b)) (unat price) scale_offset Up)"

definition get_amount_out :: "u64 \<Rightarrow> u128 \<Rightarrow> bool \<Rightarrow> u64 lb" where
  "get_amount_out amount_in price swap_for_y =
     cast_u64
       (if swap_for_y
        then safe_mul_shr_cast (unat price) (unat amount_in) scale_offset Down
        else safe_shl_div_cast (unat amount_in) (unat price) scale_offset Down)"

definition get_amount_in :: "u64 \<Rightarrow> u128 \<Rightarrow> bool \<Rightarrow> u64 lb" where
  "get_amount_in amount_out price swap_for_y =
     cast_u64
       (if swap_for_y
        then safe_shl_div_cast (unat amount_out) (unat price) scale_offset Up
        else safe_mul_shr_cast (unat amount_out) (unat price) scale_offset Up)"

definition bin_is_empty :: "bin \<Rightarrow> bool \<Rightarrow> bool" where
  "bin_is_empty b side_in = (if side_in then bn_amount_x b = 0 else bn_amount_y b = 0)"

definition get_or_store_bin_price :: "bin \<Rightarrow> int \<Rightarrow> u16 \<Rightarrow> (u128 \<times> bin) lb" where
  "get_or_store_bin_price b i bin_step =
     and_then
       (if bn_price b = 0
        then and_then (get_price_from_id i bin_step) (\<lambda>p. Inr (b \<lparr> bn_price := as_u128 p \<rparr>))
        else Inr b)
       (\<lambda>b. Inr (bn_price b, b))"

text \<open>The 64-bit operators of the step, on words.\<close>

definition add_u64 :: "u64 \<Rightarrow> u64 \<Rightarrow> u64 lb" where
  "add_u64 a b = cast_u64 (safe_add 64 (unat a) (unat b))"

definition sub_u64 :: "u64 \<Rightarrow> u64 \<Rightarrow> u64 lb" where
  "sub_u64 a b = cast_u64 (safe_sub (unat a) (unat b))"

definition host_fee_of :: "u64 \<Rightarrow> u16 option \<Rightarrow> u64 lb" where
  "host_fee_of protocol_fee host_fee_bps =
     (case host_fee_bps of
        Some bps \<Rightarrow>
          cast_u64 (and_then (safe_mul 64 (unat protocol_fee) (unat bps)) (\<lambda>m.
            safe_div m basis_point_max))
      | None \<Rightarrow> Inr 0)"

text \<open>The three amounts of the step: what is taken, what is paid and the fee inside it.\<close>

definition bin_swap_amounts ::
  "bin \<Rightarrow> u64 \<Rightarrow> u128 \<Rightarrow> bool \<Rightarrow> lb_pair \<Rightarrow> (u64 \<times> u64 \<times> u64 \<times> u64) lb" where
  "bin_swap_amounts b amount_in price swap_for_y p =
     and_then (max_amount_in b price swap_for_y) (\<lambda>max_in.
     and_then (compute_fee p max_in) (\<lambda>max_fee.
     and_then (add_u64 max_in max_fee) (\<lambda>bin_max_amount_in.
       if bin_max_amount_in < amount_in then
         and_then (compute_protocol_fee p max_fee) (\<lambda>protocol_fee.
           Inr (bin_max_amount_in, max_amount_out b swap_for_y, max_fee, protocol_fee))
       else
         and_then (compute_fee_from_amount p amount_in) (\<lambda>fee.
         and_then (sub_u64 amount_in fee) (\<lambda>amount_in_after_fee.
         and_then (get_amount_out amount_in_after_fee price swap_for_y) (\<lambda>amount_out.
         and_then (compute_protocol_fee p fee) (\<lambda>protocol_fee.
           Inr (amount_in, min amount_out (max_amount_out b swap_for_y), fee, protocol_fee))))))))"

definition bin_settle :: "bin \<Rightarrow> bool \<Rightarrow> u64 \<Rightarrow> u64 \<Rightarrow> bin lb" where
  "bin_settle b swap_for_y into_bin out_of_bin =
     (if swap_for_y then
        and_then (add_u64 (bn_amount_x b) into_bin) (\<lambda>x.
        and_then (sub_u64 (bn_amount_y b) out_of_bin) (\<lambda>y.
          Inr (b \<lparr> bn_amount_x := x, bn_amount_y := y \<rparr>)))
      else
        and_then (add_u64 (bn_amount_y b) into_bin) (\<lambda>y.
        and_then (sub_u64 (bn_amount_x b) out_of_bin) (\<lambda>x.
          Inr (b \<lparr> bn_amount_x := x, bn_amount_y := y \<rparr>))))"

definition bin_swap ::
  "bin \<Rightarrow> u64 \<Rightarrow> u128 \<Rightarrow> bool \<Rightarrow> lb_pair \<Rightarrow> u16 option \<Rightarrow> (bin_swap_result \<times> bin) lb" where
  "bin_swap b amount_in price swap_for_y p host_fee_bps =
     and_then (bin_swap_amounts b amount_in price swap_for_y p)
       (\<lambda>(amount_in_with_fees, amount_out, fee, protocol_fee).
     and_then (host_fee_of protocol_fee host_fee_bps) (\<lambda>host_fee.
     and_then (sub_u64 protocol_fee host_fee) (\<lambda>protocol_fee_after_host_fee.
     and_then (sub_u64 amount_in_with_fees fee) (\<lambda>amount_into_bin.
     and_then (bin_settle b swap_for_y amount_into_bin amount_out) (\<lambda>b'.
       Inr (\<lparr> bs_amount_in_with_fees = amount_in_with_fees, bs_amount_out = amount_out,
              bs_fee = fee, bs_protocol_fee_after_host_fee = protocol_fee_after_host_fee,
              bs_host_fee = host_fee, bs_is_exact_out_amount = False \<rparr>, b'))))))"

definition bin_swap_exact_out ::
  "bin \<Rightarrow> u64 \<Rightarrow> u128 \<Rightarrow> bool \<Rightarrow> lb_pair \<Rightarrow> u16 option \<Rightarrow> u64 \<Rightarrow> (bin_swap_result \<times> bin) lb" where
  "bin_swap_exact_out b amount_in price swap_for_y p host_fee_bps exact_out_amount =
     (let bin_max_amount_out = max_amount_out b swap_for_y
      in if bin_max_amount_out \<le> exact_out_amount then
           and_then (bin_swap b amount_in price swap_for_y p host_fee_bps) (\<lambda>(r, b').
             Inr (if exact_out_amount = bin_max_amount_out
                  then r \<lparr> bs_is_exact_out_amount := True \<rparr> else r, b'))
         else
           and_then (get_amount_in exact_out_amount price swap_for_y) (\<lambda>exact_amount_in.
           and_then (compute_fee p exact_amount_in) (\<lambda>fee.
           and_then (add_u64 exact_amount_in fee) (\<lambda>amount_in_with_fees.
           and_then (bin_swap b amount_in_with_fees price swap_for_y p host_fee_bps) (\<lambda>(r, b').
             Inr (r \<lparr> bs_is_exact_out_amount := True \<rparr>, b'))))))"

section \<open>The fee rate\<close>

lemma get_total_fee_le: "get_total_fee p = Inr r \<Longrightarrow> r \<le> max_fee_rate"
  by (auto simp: get_total_fee_def)

lemma get_total_fee_below: "get_total_fee p = Inr r \<Longrightarrow> r < fee_precision"
  using get_total_fee_le by (force simp: max_fee_rate_def fee_precision_def)

text \<open>What the two fee functions answer, given the rate.\<close>

definition fee_on_top :: "nat \<Rightarrow> nat \<Rightarrow> nat" where
  "fee_on_top r a = ceil_div (a * r) (fee_precision - r)"

definition fee_within :: "nat \<Rightarrow> nat \<Rightarrow> nat" where
  "fee_within r a = ceil_div (a * r) fee_precision"

lemma fee_on_top_le: "r \<le> max_fee_rate \<Longrightarrow> fee_on_top r a \<le> a"
proof -
  assume r: "r \<le> max_fee_rate"
  then have "r \<le> fee_precision - r" "0 < fee_precision - r"
    by (simp_all add: max_fee_rate_def fee_precision_def)
  then show ?thesis
    by (simp add: fee_on_top_def ceil_div_le_iff)
qed

lemma fee_within_le: "r \<le> max_fee_rate \<Longrightarrow> fee_within r a \<le> a"
  by (simp add: fee_within_def ceil_div_le_iff max_fee_rate_def fee_precision_def)

lemma fee_on_top_mono: "a \<le> b \<Longrightarrow> fee_on_top r a \<le> fee_on_top r b"
  by (simp add: fee_on_top_def ceil_div_mono)

text \<open>The fee that \<open>compute_fee\<close> puts on top is the one that \<open>compute_fee_from_amount\<close> finds.\<close>

lemma fee_within_gross:
  assumes r: "r < fee_precision"
  shows "fee_within r (a + fee_on_top r a) = fee_on_top r a"
proof (cases "a * r = 0")
  case True
  then show ?thesis
    by (auto simp: fee_on_top_def fee_within_def)
next
  case False
  define f where "f = fee_on_top r a"
  define P where "P = fee_precision"
  have P: "0 < P" and d: "0 < P - r" and rP: "r < P"
    using r by (simp_all add: P_def)
  have up: "a * r \<le> f * (P - r)"
    using ceil_div_upper [OF d] by (simp add: f_def fee_on_top_def P_def)
  have low: "(f - 1) * (P - r) < a * r"
    using ceil_div_lower [OF d] False by (simp add: f_def fee_on_top_def P_def)
  have f: "0 < f"
    using up False by (cases f) auto
  have split: "f * P = f * (P - r) + f * r"
    using rP by (simp add: distrib_left [symmetric])
  have "(a + f) * r \<le> f * P"
    using up split by (simp add: distrib_right)
  then have "ceil_div ((a + f) * r) P \<le> f"
    using P by (simp add: ceil_div_le_iff)
  moreover have "\<not> ceil_div ((a + f) * r) P \<le> f - 1"
  proof -
    have "(f - 1) * P = (f - 1) * (P - r) + (f - 1) * r"
      using rP by (simp add: distrib_left [symmetric])
    also have "\<dots> < a * r + (f - 1) * r"
      using low by simp
    also have "\<dots> \<le> (a + f) * r"
      by (simp add: distrib_right)
    finally show ?thesis
      using P by (simp add: ceil_div_le_iff not_le)
  qed
  ultimately have "ceil_div ((a + f) * r) P = f"
    using f by linarith
  then show ?thesis
    by (simp add: fee_within_def f_def P_def)
qed

lemma to_u64_ok: "n < 2 ^ 64 \<Longrightarrow> to_u64 n = Inr (as_u64 n)"
  by (simp add: to_u64_def)

lemma amount_rate_fits:
  assumes "r \<le> max_fee_rate"
  shows "unat (a :: u64) * r < 2 ^ 96"
proof -
  have "unat a * r \<le> unat a * max_fee_rate"
    using assms by simp
  also have "\<dots> < 2 ^ 64 * max_fee_rate"
    using unat_u64_less [of a] by (simp add: max_fee_rate_def)
  also have "\<dots> \<le> 2 ^ 96"
    by (simp add: max_fee_rate_def)
  finally show ?thesis .
qed

lemma compute_fee_rate:
  assumes r: "get_total_fee p = Inr r"
  shows "compute_fee p a = Inr (as_u64 (fee_on_top r (unat a)))"
proof -
  note le = get_total_fee_le [OF r]
  have d: "r \<le> fee_precision" "fee_precision - r \<noteq> 0"
    using get_total_fee_below [OF r] by simp_all
  have fits: "unat a * r < 2 ^ 128" "unat a * r + (fee_precision - r) < 2 ^ 128"
    using amount_rate_fits [OF le, of a] by (simp_all add: fee_precision_def)
  have "fee_on_top r (unat a) < 2 ^ 64"
    using fee_on_top_le [OF le] unat_u64_less [of a] by (rule le_less_trans)
  then show ?thesis
    using d fits
    by (simp add: compute_fee_def r lb_ok to_u64_ok fee_on_top_def ceil_div_def)
qed

lemma compute_fee_from_amount_rate:
  assumes r: "get_total_fee p = Inr r"
  shows "compute_fee_from_amount p a = Inr (as_u64 (fee_within r (unat a)))"
proof -
  note le = get_total_fee_le [OF r]
  have fits: "unat a * r < 2 ^ 128" "unat a * r + (fee_precision - 1) < 2 ^ 128"
    using amount_rate_fits [OF le, of a] by (simp_all add: fee_precision_def)
  have pos: "fee_precision \<noteq> 0" "1 \<le> fee_precision"
    by (simp_all add: fee_precision_def)
  have "fee_within r (unat a) < 2 ^ 64"
    using fee_within_le [OF le] unat_u64_less [of a] by (rule le_less_trans)
  then show ?thesis
    using pos fits
    by (simp add: compute_fee_from_amount_def r lb_ok to_u64_ok fee_within_def ceil_div_def)
qed

lemma compute_fee_Inr:
  "compute_fee p a = Inr f \<Longrightarrow>
     \<exists>r. get_total_fee p = Inr r \<and> unat f = fee_on_top r (unat a) \<and> unat f \<le> unat a"
proof -
  assume f: "compute_fee p a = Inr f"
  then obtain r where r: "get_total_fee p = Inr r"
    by (auto simp: compute_fee_def)
  note le = fee_on_top_le [OF get_total_fee_le [OF r], of "unat a"]
  with f show ?thesis
    using unat_u64_less [of a] by (auto simp: compute_fee_rate [OF r] r)
qed

lemma compute_fee_from_amount_Inr:
  "compute_fee_from_amount p a = Inr f \<Longrightarrow>
     \<exists>r. get_total_fee p = Inr r \<and> unat f = fee_within r (unat a) \<and> unat f \<le> unat a"
proof -
  assume f: "compute_fee_from_amount p a = Inr f"
  then obtain r where r: "get_total_fee p = Inr r"
    by (auto simp: compute_fee_from_amount_def)
  note le = fee_within_le [OF get_total_fee_le [OF r], of "unat a"]
  with f show ?thesis
    using unat_u64_less [of a] by (auto simp: compute_fee_from_amount_rate [OF r] r)
qed

text \<open>The rate fails only through the power factor.\<close>

definition plain_base_fee :: "lb_pair \<Rightarrow> nat" where
  "plain_base_fee p = unat (sp_base_factor (lp_parameters p)) * unat (lp_bin_step p) * 10"

definition plain_variable_fee :: "lb_pair \<Rightarrow> nat" where
  "plain_variable_fee p =
     (unat (sp_variable_fee_control (lp_parameters p)) *
       (unat (lp_volatility p) * unat (lp_bin_step p)) ^ 2 + 99999999999) div 100000000000"

lemma nat_mult_bound: "a \<le> x \<Longrightarrow> b \<le> y \<Longrightarrow> a * b \<le> x * (y :: nat)"
  by (rule mult_le_mono)

lemma unat_16_le: "unat (x :: u16) \<le> 65535"
  using unsigned_less [of x, where ?'a = nat] by simp

lemma unat_32_le: "unat (x :: u32) \<le> 4294967295"
  using unsigned_less [of x, where ?'a = nat] by simp

lemma plain_base_bound: "unat (b :: u16) * unat (s :: u16) \<le> 4294836225 \<and>
    unat b * unat s * 10 \<le> 42948362250"
  using nat_mult_bound [OF unat_16_le [of b] unat_16_le [of s]] by simp

lemma volatility_bound: "unat (va :: u32) * unat (s :: u16) \<le> 4294967295 * 65535"
  by (rule nat_mult_bound [OF unat_32_le unat_16_le])

lemma volatility_square_bound:
  "(unat (va :: u32) * unat (s :: u16)) ^ 2 \<le> (4294967295 * 65535) ^ 2"
  by (rule power_mono [OF volatility_bound]) simp

lemma variable_bound:
  "unat (c :: u32) * (unat (va :: u32) * unat (s :: u16)) ^ 2
     \<le> 4294967295 * (4294967295 * 65535) ^ 2"
  by (rule nat_mult_bound [OF unat_32_le volatility_square_bound])

lemma get_base_fee_plain:
  assumes "sp_base_fee_power_factor (lp_parameters p) = 0"
  shows "get_base_fee p = Inr (plain_base_fee p)"
proof -
  note b = plain_base_bound [of "sp_base_factor (lp_parameters p)" "lp_bin_step p"]
  then have "unat (sp_base_factor (lp_parameters p)) * unat (lp_bin_step p) < 2 ^ 128"
    "unat (sp_base_factor (lp_parameters p)) * unat (lp_bin_step p) * 10 < 2 ^ 128"
    by (auto elim: le_less_trans)
  with assms show ?thesis
    by (simp add: get_base_fee_def lb_ok plain_base_fee_def)
qed

lemma get_variable_fee_plain: "get_variable_fee p = Inr (plain_variable_fee p)"
proof (cases "unat (sp_variable_fee_control (lp_parameters p)) = 0")
  case True
  then show ?thesis
    by (simp add: get_variable_fee_def compute_variable_fee_def plain_variable_fee_def)
next
  case False
  let ?m = "unat (lp_volatility p) * unat (lp_bin_step p)"
  let ?c = "unat (sp_variable_fee_control (lp_parameters p))"
  have "?m < 2 ^ 128"
    using volatility_bound [of "lp_volatility p" "lp_bin_step p"] by simp
  moreover have "?m ^ 2 < 2 ^ 128"
    using volatility_square_bound [of "lp_volatility p" "lp_bin_step p"] by simp
  moreover have "?c * ?m ^ 2 < 2 ^ 128" "?c * ?m ^ 2 + 99999999999 < 2 ^ 128"
    using variable_bound [of "sp_variable_fee_control (lp_parameters p)" "lp_volatility p"
        "lp_bin_step p"] by simp_all
  ultimately show ?thesis
    using False
    by (simp add: get_variable_fee_def compute_variable_fee_def Let_def lb_ok checked_pow_def
        plain_variable_fee_def)
qed

lemma plain_fee_bounds: "plain_base_fee p \<le> 42948362250" "plain_variable_fee p \<le> 2 ^ 127"
proof -
  show "plain_base_fee p \<le> 42948362250"
    unfolding plain_base_fee_def using plain_base_bound by blast
  have "plain_variable_fee p \<le>
      (4294967295 * (4294967295 * 65535) ^ 2 + 99999999999) div 100000000000"
    unfolding plain_variable_fee_def by (intro div_le_mono add_mono variable_bound order_refl)
  then show "plain_variable_fee p \<le> 2 ^ 127"
    by simp
qed

lemma get_total_fee_plain:
  assumes "sp_base_fee_power_factor (lp_parameters p) = 0"
  shows "get_total_fee p = Inr (min (plain_base_fee p + plain_variable_fee p) max_fee_rate)"
proof -
  have "plain_base_fee p + plain_variable_fee p < 2 ^ 128"
    using plain_fee_bounds [of p] by simp
  then show ?thesis
    by (simp add: get_total_fee_def get_base_fee_plain [OF assms] get_variable_fee_plain lb_ok)
qed

lemma saturating_small: "a * b < 2 ^ w \<Longrightarrow> saturating_mul w a b = a * b"
  "a + b < 2 ^ w \<Longrightarrow> saturating_add w a b = a + b"
  by (simp_all add: saturating_mul_def saturating_add_def)

lemma approx_fees_plain:
  "approx_base_fee p = plain_base_fee p" "approx_variable_fee p = plain_variable_fee p"
proof -
  let ?m = "unat (lp_volatility p) * unat (lp_bin_step p)"
  let ?c = "unat (sp_variable_fee_control (lp_parameters p))"
  show "approx_base_fee p = plain_base_fee p"
  proof -
    have "unat (sp_base_factor (lp_parameters p)) * unat (lp_bin_step p) < 2 ^ 128"
      "unat (sp_base_factor (lp_parameters p)) * unat (lp_bin_step p) * 10 < 2 ^ 128"
      using plain_base_bound [of "sp_base_factor (lp_parameters p)" "lp_bin_step p"]
      by (auto elim: le_less_trans)
    then show ?thesis
      by (simp add: approx_base_fee_def plain_base_fee_def saturating_small)
  qed
  have "?m < 2 ^ 128"
    using volatility_bound [of "lp_volatility p" "lp_bin_step p"] by simp
  moreover have "min (?m ^ 2) (2 ^ 128 - 1) = ?m ^ 2"
    using volatility_square_bound [of "lp_volatility p" "lp_bin_step p"] by simp
  moreover have "?c * ?m ^ 2 < 2 ^ 128" "?c * ?m ^ 2 + 99999999999 < 2 ^ 128"
    using variable_bound [of "sp_variable_fee_control (lp_parameters p)" "lp_volatility p"
        "lp_bin_step p"] by simp_all
  ultimately show "approx_variable_fee p = plain_variable_fee p"
    by (simp add: approx_variable_fee_def plain_variable_fee_def Let_def saturating_small)
qed

lemma total_fee_rate_plain:
  "total_fee_rate p = min (plain_base_fee p + plain_variable_fee p) max_fee_rate"
proof -
  have "plain_base_fee p + plain_variable_fee p < 2 ^ 128"
    using plain_fee_bounds [of p] by simp
  then show ?thesis
    by (simp add: total_fee_rate_def approx_fees_plain saturating_small)
qed

lemma compute_fee_on_input_rate: "compute_fee_on_input p a = as_u64 (fee_on_top (total_fee_rate p) (unat a))"
proof -
  define r where "r = total_fee_rate p"
  have le: "r \<le> max_fee_rate"
    by (simp add: r_def total_fee_rate_plain)
  have d: "fee_precision - r \<noteq> 0" "Suc 0 \<le> fee_precision - r"
    using le by (simp_all add: max_fee_rate_def fee_precision_def)
  have fits: "unat a * r < 2 ^ 128" "unat a * r + (fee_precision - r - 1) < 2 ^ 128"
    using amount_rate_fits [OF le, of a] by (simp_all add: fee_precision_def)
  have "fee_on_top r (unat a) < 2 ^ 64"
    using fee_on_top_le [OF le] unat_u64_less [of a] by (rule le_less_trans)
  then show ?thesis
    using d fits
    by (simp add: compute_fee_on_input_def Let_def r_def [symmetric] saturating_small
        fee_on_top_def ceil_div_def)
qed

section \<open>Swapping into a bin\<close>

lemma cast_u64_Inr: "cast_u64 r = Inr w \<longleftrightarrow> (\<exists>n. r = Inr n \<and> w = as_u64 n)"
  by (cases r) (auto simp: cast_u64_def)

lemma as_u64_eq_iff: "n < 2 ^ 64 \<Longrightarrow> c = as_u64 n \<longleftrightarrow> unat c = n"
  using unat_as_u64 word_nat_cases by (metis of_nat_unat ucast_id)

lemma add_u64_Inr: "add_u64 a b = Inr c \<longleftrightarrow> unat c = unat a + unat b"
proof -
  have "add_u64 a b = Inr c \<longleftrightarrow> unat a + unat b < 2 ^ 64 \<and> c = as_u64 (unat a + unat b)"
    by (auto simp: add_u64_def cast_u64_Inr simp del: of_nat_add)
  also have "\<dots> \<longleftrightarrow> unat c = unat a + unat b"
    using as_u64_eq_iff unat_u64_less [of c] by metis
  finally show ?thesis .
qed

lemma sub_u64_Inr: "sub_u64 a b = Inr c \<longleftrightarrow> unat b \<le> unat a \<and> unat c = unat a - unat b"
proof -
  have "unat a - unat b < 2 ^ 64"
    using unat_u64_less [of a] by simp
  then show ?thesis
    by (auto simp: sub_u64_def cast_u64_Inr as_u64_eq_iff simp del: of_nat_diff)
qed

text \<open>The amounts of the bin prices, in Q64.64.\<close>

definition worth :: "bool \<Rightarrow> u128 \<Rightarrow> nat \<Rightarrow> nat" where
  "worth swap_for_y price n = (if swap_for_y then n * unat price else n * 2 ^ 64)"

abbreviation (input) worth_out :: "bool \<Rightarrow> u128 \<Rightarrow> nat \<Rightarrow> nat" where
  "worth_out swap_for_y \<equiv> worth (\<not> swap_for_y)"

lemma worth_mono: "n \<le> m \<Longrightarrow> worth s price n \<le> worth s price m"
  by (simp add: worth_def)

lemma max_amount_in_Inr:
  assumes "max_amount_in b price s = Inr m"
  shows "unat m = ceil_div (worth (\<not> s) price (unat (max_amount_out b s)))
                    (if s then unat price else 2 ^ 64)"
    and "0 < (if s then unat price else (2::nat) ^ 64)"
  using assms
  by (auto simp: max_amount_in_def cast_u64_Inr scale_offset_def safe_shl_div_cast_Inr
      safe_mul_shr_cast_Inr max_amount_out_def worth_def split: if_splits)

lemma get_amount_in_Inr:
  assumes "get_amount_in out price s = Inr m"
  shows "unat m = ceil_div (worth (\<not> s) price (unat out)) (if s then unat price else 2 ^ 64)"
    and "0 < (if s then unat price else (2::nat) ^ 64)"
  using assms
  by (auto simp: get_amount_in_def cast_u64_Inr scale_offset_def safe_shl_div_cast_Inr
      safe_mul_shr_cast_Inr worth_def split: if_splits)

lemma get_amount_out_Inr:
  assumes "get_amount_out amount price s = Inr m"
  shows "unat m = worth s price (unat amount) div (if s then 2 ^ 64 else unat price)"
    and "0 < (if s then (2::nat) ^ 64 else unat price)"
  using assms
  by (auto simp: get_amount_out_def cast_u64_Inr scale_offset_def safe_shl_div_cast_Inr
      safe_mul_shr_cast_Inr worth_def mult.commute split: if_splits)

text \<open>What goes in is worth what comes out.\<close>

lemma max_amount_in_covers:
  assumes "max_amount_in b price s = Inr m"
  shows "worth (\<not> s) price (unat (max_amount_out b s)) \<le> worth s price (unat m)"
  using max_amount_in_Inr [OF assms] ceil_div_upper
  by (cases s) (auto simp: worth_def)

lemma get_amount_in_covers:
  assumes "get_amount_in out price s = Inr m"
  shows "worth (\<not> s) price (unat out) \<le> worth s price (unat m)"
  using get_amount_in_Inr [OF assms] ceil_div_upper
  by (cases s) (auto simp: worth_def)

lemma get_amount_out_covered:
  assumes "get_amount_out amount price s = Inr m"
  shows "worth (\<not> s) price (unat m) \<le> worth s price (unat amount)"
  using get_amount_out_Inr [OF assms]
  by (cases s) (auto simp: worth_def)

text \<open>The step, with the amounts it settles.\<close>

lemma bin_swap_amounts_Inr:
  assumes "bin_swap_amounts b a price s p = Inr (taken, out, fee, pf)"
  shows "unat fee \<le> unat taken" and "unat taken \<le> unat a"
    and "unat out \<le> unat (max_amount_out b s)"
    and "unat taken < unat a \<longrightarrow> out = max_amount_out b s"
    and "worth (\<not> s) price (unat out) \<le> worth s price (unat taken - unat fee)"
    and "compute_protocol_fee p fee = Inr pf"
proof -
  from assms obtain max_in max_fee top where m: "max_amount_in b price s = Inr max_in"
    and mf: "compute_fee p max_in = Inr max_fee" and top: "add_u64 max_in max_fee = Inr top"
    and rest: "(if top < a then
         and_then (compute_protocol_fee p max_fee) (\<lambda>protocol_fee.
           Inr (top, max_amount_out b s, max_fee, protocol_fee))
       else
         and_then (compute_fee_from_amount p a) (\<lambda>fee.
         and_then (sub_u64 a fee) (\<lambda>amount_in_after_fee.
         and_then (get_amount_out amount_in_after_fee price s) (\<lambda>amount_out.
         and_then (compute_protocol_fee p fee) (\<lambda>protocol_fee.
           Inr (a, min amount_out (max_amount_out b s), fee, protocol_fee))))))
       = Inr (taken, out, fee, pf)"
    unfolding bin_swap_amounts_def and_then_Inr by blast
  have "unat fee \<le> unat taken \<and> unat taken \<le> unat a \<and> unat out \<le> unat (max_amount_out b s) \<and>
    (unat taken < unat a \<longrightarrow> out = max_amount_out b s) \<and>
    worth (\<not> s) price (unat out) \<le> worth s price (unat taken - unat fee) \<and>
    compute_protocol_fee p fee = Inr pf"
  proof (cases "top < a")
    case True
    with rest have eq: "taken = top" "out = max_amount_out b s" "fee = max_fee"
      "compute_protocol_fee p max_fee = Inr pf"
      by auto
    have "unat top = unat max_in + unat max_fee"
      using top by (simp add: add_u64_Inr)
    with True eq max_amount_in_covers [OF m] show ?thesis
      by (auto simp: word_less_nat_alt)
  next
    case False
    with rest obtain net gross where n: "compute_fee_from_amount p a = Inr fee"
      "sub_u64 a fee = Inr net" "get_amount_out net price s = Inr gross"
      "compute_protocol_fee p fee = Inr pf" "taken = a" "out = min gross (max_amount_out b s)"
      by auto
    have net: "unat net = unat a - unat fee"
      using n(2) by (auto simp: sub_u64_Inr)
    have le: "unat out \<le> unat gross" "unat out \<le> unat (max_amount_out b s)"
      by (simp_all add: n(6) word_le_nat_alt [symmetric])
    have "worth (\<not> s) price (unat out) \<le> worth s price (unat net)"
      using worth_mono [OF le(1)] get_amount_out_covered [OF n(3)] by (rule order_trans)
    with net n le show ?thesis
      by (auto simp: sub_u64_Inr)
  qed
  then show "unat fee \<le> unat taken" and "unat taken \<le> unat a"
    and "unat out \<le> unat (max_amount_out b s)"
    and "unat taken < unat a \<longrightarrow> out = max_amount_out b s"
    and "worth (\<not> s) price (unat out) \<le> worth s price (unat taken - unat fee)"
    and "compute_protocol_fee p fee = Inr pf"
    by blast+
qed

text \<open>The value of a bin at its price: its Y plus its X at the price, in Q64.64.\<close>

definition bin_value :: "u128 \<Rightarrow> bin \<Rightarrow> nat" where
  "bin_value price b = unat price * unat (bn_amount_x b) + 2 ^ 64 * unat (bn_amount_y b)"

lemma bin_settle_value:
  assumes settle: "bin_settle b s into out = Inr b'"
    and covered: "worth (\<not> s) price (unat out) \<le> worth s price (unat into)"
  shows "bin_value price b \<le> bin_value price b'" and "bn_price b' = bn_price b"
proof -
  show "bn_price b' = bn_price b"
    using settle by (auto simp: bin_settle_def split: if_splits)
  show "bin_value price b \<le> bin_value price b'"
  proof (cases s)
    case True
    with settle have upd: "unat (bn_amount_x b') = unat (bn_amount_x b) + unat into"
      "unat (bn_amount_y b') = unat (bn_amount_y b) - unat out" "unat out \<le> unat (bn_amount_y b)"
      by (auto simp: bin_settle_def add_u64_Inr sub_u64_Inr)
    have "2 ^ 64 * unat out \<le> unat price * unat into"
      using covered True by (simp add: worth_def mult.commute)
    with upd(3) show ?thesis
      unfolding bin_value_def upd(1,2) diff_mult_distrib2 distrib_left
      using mult_le_mono2 [OF upd(3), of "2 ^ 64"] by linarith
  next
    case False
    with settle have upd: "unat (bn_amount_y b') = unat (bn_amount_y b) + unat into"
      "unat (bn_amount_x b') = unat (bn_amount_x b) - unat out" "unat out \<le> unat (bn_amount_x b)"
      by (auto simp: bin_settle_def add_u64_Inr sub_u64_Inr)
    have "unat price * unat out \<le> 2 ^ 64 * unat into"
      using covered False by (simp add: worth_def mult.commute)
    with upd(3) show ?thesis
      unfolding bin_value_def upd(1,2) diff_mult_distrib2 distrib_left
      using mult_le_mono2 [OF upd(3), of "unat price"] by linarith
  qed
qed

lemma host_fee_of_le:
  assumes "sub_u64 pf host = Inr rest"
  shows "unat rest + unat host = unat pf"
  using assms by (auto simp: sub_u64_Inr)

lemma bin_swap_Inr:
  assumes "bin_swap b a price s p host = Inr (r, b')"
  obtains taken out fee pf into where
    "bin_swap_amounts b a price s p = Inr (taken, out, fee, pf)"
    "bs_amount_in_with_fees r = taken" "bs_amount_out r = out" "bs_fee r = fee"
    "unat (bs_protocol_fee_after_host_fee r) + unat (bs_host_fee r) = unat pf"
    "bin_settle b s into out = Inr b'" "unat into = unat taken - unat fee"
    "\<not> bs_is_exact_out_amount r"
proof -
  from assms obtain taken out fee pf host_fee rest into where
    st: "bin_swap_amounts b a price s p = Inr (taken, out, fee, pf)"
      "host_fee_of pf host = Inr host_fee" "sub_u64 pf host_fee = Inr rest"
      "sub_u64 taken fee = Inr into" "bin_settle b s into out = Inr b'"
    and r: "r = \<lparr> bs_amount_in_with_fees = taken, bs_amount_out = out, bs_fee = fee,
      bs_protocol_fee_after_host_fee = rest, bs_host_fee = host_fee,
      bs_is_exact_out_amount = False \<rparr>"
    by (auto simp: bin_swap_def)
  from that [OF st(1) _ _ _ _ st(5)] show thesis
    using r host_fee_of_le [OF st(3)] st(4) by (simp add: sub_u64_Inr)
qed

section \<open>The properties of a bin\<close>

definition dlmm_example_pair :: lb_pair where
  "dlmm_example_pair =
     \<lparr> lp_parameters = \<lparr> sp_base_factor = 10000, sp_filter_period = 30, sp_decay_period = 600,
         sp_reduction_factor = 5000, sp_variable_fee_control = 0,
         sp_max_volatility_accumulator = 350000, sp_protocol_share = 1000,
         sp_base_fee_power_factor = 0 \<rparr>,
       lp_v_parameters = \<lparr> vp_volatility_accumulator = 0, vp_volatility_reference = 0,
         vp_index_reference = 0, vp_last_update_timestamp = 0 \<rparr>,
       lp_pair_type = 0, lp_active_id = 0, lp_bin_step = 10, lp_status = 0,
       lp_activation_type = 0, lp_token_x_mint = [], lp_token_y_mint = [], lp_reserve_x = [],
       lp_reserve_y = [], lp_oracle = [],
       lp_bin_array_bitmap = replicate 8 0 @ 1 # replicate 7 0, lp_activation_point = 0 \<rparr>"

definition dlmm_example_bin :: bin where
  "dlmm_example_bin = \<lparr> bn_amount_x = 0, bn_amount_y = 5000, bn_price = 2 ^ 64,
     bn_liquidity_supply = 0, bn_fee_amount_x_per_token_stored = 0,
     bn_fee_amount_y_per_token_stored = 0 \<rparr>"

text \<open>The two fee functions are inverse, and the approximate fee helper is exact where its
  comment says it is. The rate never exceeds ten percent. On a pool without a power factor the
  fee put on top of an amount is the one of the approximate helper and at most a ninth of the
  amount, rounded up; the fee found inside the gross amount is that fee again.\<close>

lemma dlmm_fee_inverse:
  assumes "sp_base_fee_power_factor (lp_parameters p) = 0"
  shows "\<exists>f. compute_fee p a = Inr f \<and> f = compute_fee_on_input p a \<and>
    unat f \<le> ceil_div (unat a) 9 \<and>
    (unat a + unat f < 2 ^ 64 \<longrightarrow> compute_fee_from_amount p (as_u64 (unat a + unat f)) = Inr f)"
proof -
  define r where "r = total_fee_rate p"
  have r: "get_total_fee p = Inr r"
    by (simp add: get_total_fee_plain [OF assms] total_fee_rate_plain r_def)
  note le = get_total_fee_le [OF r] and below = get_total_fee_below [OF r]
  define f where "f = as_u64 (fee_on_top r (unat a))"
  have f: "unat f = fee_on_top r (unat a)"
    using fee_on_top_le [OF le, of "unat a"] unat_u64_less [of a] by (simp add: f_def)
  have "unat a * r \<le> ceil_div (unat a) 9 * (fee_precision - r)"
  proof -
    have "r * 9 \<le> fee_precision - r"
      using le by (simp add: max_fee_rate_def fee_precision_def)
    then have "ceil_div (unat a) 9 * 9 * r \<le> ceil_div (unat a) 9 * (fee_precision - r)"
      by (metis mult.assoc mult.commute mult_le_mono2)
    moreover have "unat a * r \<le> ceil_div (unat a) 9 * 9 * r"
      using ceil_div_upper [of 9 "unat a"] by (intro mult_right_mono) auto
    ultimately show ?thesis by linarith
  qed
  then have cap: "unat f \<le> ceil_div (unat a) 9"
    using below by (simp add: f fee_on_top_def ceil_div_le_iff)
  have inv: "compute_fee_from_amount p (as_u64 (unat a + unat f)) = Inr f" if "unat a + unat f < 2 ^ 64"
  proof -
    have "unat (as_u64 (unat a + unat f)) = unat a + fee_on_top r (unat a)"
      using that by (simp add: f del: of_nat_add)
    then show ?thesis
      by (simp add: compute_fee_from_amount_rate [OF r] fee_within_gross [OF below] f_def
          del: of_nat_add)
  qed
  show ?thesis
    using cap inv
    by (intro exI [of _ f]) (simp add: compute_fee_rate [OF r] compute_fee_on_input_rate
        f_def r_def [symmetric])
qed

text \<open>C32: A swap into a bin is paid for. It takes at most the offered amount, and less only when
  it drains the bin; the fee is part of what it takes and its protocol part is split with the
  host without loss; it pays at most the reserve; and the value of the bin at its price, its Y
  plus its X at the price, does not fall.\<close>

theorem dlmm_bin_keeps_value:
  assumes "bin_swap b a price swap_for_y p host = Inr (r, b')"
  shows "unat (bs_fee r) \<le> unat (bs_amount_in_with_fees r) \<and>
    unat (bs_amount_in_with_fees r) \<le> unat a \<and>
    unat (bs_amount_out r) \<le> unat (max_amount_out b swap_for_y) \<and>
    (unat (bs_amount_in_with_fees r) < unat a \<longrightarrow>
       bs_amount_out r = max_amount_out b swap_for_y \<and> max_amount_out b' swap_for_y = 0) \<and>
    Inr (as_u64 (unat (bs_protocol_fee_after_host_fee r) + unat (bs_host_fee r))) =
      compute_protocol_fee p (bs_fee r) \<and>
    bin_value price b \<le> bin_value price b'"
proof -
  obtain taken out fee pf into where
    amounts: "bin_swap_amounts b a price swap_for_y p = Inr (taken, out, fee, pf)"
    and r: "bs_amount_in_with_fees r = taken" "bs_amount_out r = out" "bs_fee r = fee"
      "unat (bs_protocol_fee_after_host_fee r) + unat (bs_host_fee r) = unat pf"
    and settle: "bin_settle b swap_for_y into out = Inr b'"
    and into: "unat into = unat taken - unat fee"
    by (rule bin_swap_Inr [OF assms])
  note am = bin_swap_amounts_Inr [OF amounts]
  have kept: "bin_value price b \<le> bin_value price b'"
    using bin_settle_value(1) [OF settle] am(5) into by simp
  have drained: "max_amount_out b' swap_for_y = 0" if "out = max_amount_out b swap_for_y"
    using settle that
    by (auto simp: bin_settle_def max_amount_out_def sub_u64_Inr unat_eq_0 split: if_splits)
  show ?thesis
    unfolding r using am(1,2,3,4,6) kept drained by simp
qed

lemmas bin_evaluation =
  bin_swap_def bin_swap_amounts_def max_amount_in_def max_amount_out_def get_amount_out_def
  get_amount_in_def safe_shl_div_cast_def safe_mul_shr_cast_def shl_div_def mul_shr_def mul_div_def
  scale_offset_def u64_from_u128_def ceil_div_def cast_u64_def add_u64_def sub_u64_def
  safe_add_def safe_sub_def safe_mul_def safe_div_def checked_add_def checked_sub_def
  checked_mul_def checked_div_def compute_protocol_fee_def to_u64_def bin_settle_def
  host_fee_of_def basis_point_max_def fee_on_top_def fee_within_def fee_precision_def

lemma example_rate: "get_total_fee dlmm_example_pair = Inr 1000000"
proof -
  have "sp_base_fee_power_factor (lp_parameters dlmm_example_pair) = 0"
    by (simp add: dlmm_example_pair_def)
  then show ?thesis
    by (simp add: get_total_fee_plain plain_base_fee_def plain_variable_fee_def max_fee_rate_def
        dlmm_example_pair_def)
qed

lemmas example_fees = compute_fee_rate [OF example_rate] compute_fee_from_amount_rate [OF example_rate]

lemma example_swap:
  "bin_swap dlmm_example_bin 2000 18446744073709551616 True dlmm_example_pair None =
     Inr (\<lparr> bs_amount_in_with_fees = 2000, bs_amount_out = 1998, bs_fee = 2,
            bs_protocol_fee_after_host_fee = 0, bs_host_fee = 0, bs_is_exact_out_amount = False \<rparr>,
          dlmm_example_bin \<lparr> bn_amount_x := 1998, bn_amount_y := 3002 \<rparr>)"
  by (simp add: bin_evaluation example_fees dlmm_example_bin_def)
    (simp add: dlmm_example_pair_def)

theorem dlmm_bin_keeps_value_witness:
  "\<exists>r b'. bin_swap dlmm_example_bin 2000 18446744073709551616 True dlmm_example_pair None = Inr (r, b') \<and>
     bin_value 18446744073709551616 dlmm_example_bin \<le> bin_value 18446744073709551616 b' \<and> bs_amount_out r = 1998"
  using dlmm_bin_keeps_value [OF example_swap] by (auto simp: example_swap)

text \<open>An exact-out step inside a bin delivers at least the requested amount and takes
  exactly the least covering input plus its fee, the figure the quoter adds up.\<close>

lemma dlmm_exact_out_covers:
  assumes "bin_swap_exact_out b a price swap_for_y p host out = Inr (r, b')"
    and "unat out < unat (max_amount_out b swap_for_y)"
  shows "\<exists>amount_in fee. get_amount_in out price swap_for_y = Inr amount_in \<and>
    compute_fee p amount_in = Inr fee \<and>
    unat (bs_amount_in_with_fees r) = unat amount_in + unat fee \<and> bs_fee r = fee \<and>
    unat out \<le> unat (bs_amount_out r) \<and> bs_is_exact_out_amount r"
proof -
  let ?d = "if swap_for_y then unat price else (2::nat) ^ 64"
  from assms obtain needed fee gross r0 where
    n: "get_amount_in out price swap_for_y = Inr needed" and f: "compute_fee p needed = Inr fee"
    and g: "add_u64 needed fee = Inr gross"
    and sw: "bin_swap b gross price swap_for_y p host = Inr (r0, b')"
    and r: "r = r0 \<lparr> bs_is_exact_out_amount := True \<rparr>"
    by (auto simp: bin_swap_exact_out_def word_le_nat_alt)
  obtain taken paid fee' pf into where
    am: "bin_swap_amounts b gross price swap_for_y p = Inr (taken, paid, fee', pf)"
    and r0: "bs_amount_in_with_fees r0 = taken" "bs_amount_out r0 = paid" "bs_fee r0 = fee'"
    by (rule bin_swap_Inr [OF sw])
  from am obtain max_in max_fee top where m: "max_amount_in b price swap_for_y = Inr max_in"
    and mf: "compute_fee p max_in = Inr max_fee" and top: "add_u64 max_in max_fee = Inr top"
    unfolding bin_swap_amounts_def and_then_Inr by blast
  obtain rate where rate: "get_total_fee p = Inr rate" "unat fee = fee_on_top rate (unat needed)"
    using compute_fee_Inr [OF f] by blast
  have max_fee: "unat max_fee = fee_on_top rate (unat max_in)"
    using compute_fee_Inr [OF mf] rate by auto
  have le: "unat needed \<le> unat max_in"
    unfolding get_amount_in_Inr(1) [OF n] max_amount_in_Inr(1) [OF m]
    using assms(2) by (intro ceil_div_mono worth_mono) simp
  have gross: "unat gross = unat needed + unat fee"
    using g by (simp add: add_u64_Inr)
  have "unat gross \<le> unat top"
    using le fee_on_top_mono [OF le, of rate] top gross rate max_fee by (simp add: add_u64_Inr)
  then have small: "\<not> top < gross"
    by (simp add: word_less_nat_alt)
  have found: "compute_fee_from_amount p gross = Inr fee"
    unfolding compute_fee_from_amount_rate [OF rate(1)] gross rate(2)
    using fee_within_gross [OF get_total_fee_below [OF rate(1)]] rate(2)
    by (metis of_nat_unat ucast_id)
  have net: "sub_u64 gross fee = Inr needed"
    using gross by (simp add: sub_u64_Inr)
  from am obtain got where got: "get_amount_out needed price swap_for_y = Inr got"
    and eq: "taken = gross" "fee' = fee" "paid = min got (max_amount_out b swap_for_y)"
    unfolding bin_swap_amounts_def m mf top and_then.simps if_not_P [OF small] found net
    by auto
  have d: "0 < ?d" "0 < (if swap_for_y then (2::nat) ^ 64 else unat price)"
    using get_amount_in_Inr(2) [OF n] get_amount_out_Inr(2) [OF got] by auto
  have "unat out \<le> unat got"
  proof -
    have "worth (\<not> swap_for_y) price (unat out) \<le> worth swap_for_y price (unat needed)"
      by (rule get_amount_in_covers [OF n])
    then have "unat out * (if swap_for_y then 2 ^ 64 else unat price)
        \<le> worth swap_for_y price (unat needed)"
      by (cases swap_for_y) (simp_all add: worth_def)
    then show ?thesis
      using d(2) by (simp add: get_amount_out_Inr(1) [OF got] less_eq_div_iff_mult_less_eq)
  qed
  then have "unat out \<le> unat paid"
    using assms(2) by (simp add: eq min_def)
  then show ?thesis
    using n f gross r r0 eq by simp
qed

lemma example_exact_out:
  "bin_swap_exact_out dlmm_example_bin 0 18446744073709551616 True dlmm_example_pair None 1998 =
     Inr (\<lparr> bs_amount_in_with_fees = 2000, bs_amount_out = 1998, bs_fee = 2,
            bs_protocol_fee_after_host_fee = 0, bs_host_fee = 0, bs_is_exact_out_amount = True \<rparr>,
          dlmm_example_bin \<lparr> bn_amount_x := 1998, bn_amount_y := 3002 \<rparr>)"
proof -
  have "max_amount_out dlmm_example_bin True = 5000"
    by (simp add: max_amount_out_def dlmm_example_bin_def)
  moreover have "get_amount_in 1998 18446744073709551616 True = Inr 1998"
    by (simp add: bin_evaluation del: and_then_Inr)
  moreover have "compute_fee dlmm_example_pair 1998 = Inr 2"
    by (simp add: example_fees bin_evaluation)
  moreover have "add_u64 1998 2 = Inr 2000"
    by (simp add: bin_evaluation)
  ultimately show ?thesis
    unfolding bin_swap_exact_out_def
    by (simp add: example_swap del: and_then_Inr)
qed

end
