(* ===== verification/DlmmBitmap.thy ===== *)
theory DlmmBitmap
  imports DlmmBins
begin

text \<open>
  The search for the next bin array with liquidity (math/bitmap.rs): the inline bitmap of the
  pair, 1024 bits for the array indices -512 to 511, and the extension account, twelve pages of
  512 bits on each side. The wide integers of the third-party \<open>ruint\<close> are words of their width;
  their shifts lose what leaves the width, as the shifts of words do.

  Results are of type \<open>outcome\<close>: a page index outside the account panics. The arithmetic on
  array indices is Rust's plain arithmetic, with the overflow behaviour of the build.
\<close>

unbundle bit_operations_syntax

section \<open>Wide integers\<close>

primrec from_limbs :: "u64 list \<Rightarrow> 'a::len word" where
  "from_limbs [] = 0"
| "from_limbs (l # ls) = ucast l OR push_bit 64 (from_limbs ls)"

definition trailing_zeros :: "'a::len word \<Rightarrow> nat" where
  "trailing_zeros w = length (takeWhile (\<lambda>i. \<not> bit w i) [0..<LENGTH('a)])"

definition leading_zeros :: "'a::len word \<Rightarrow> nat" where
  "leading_zeros w = length (takeWhile (\<lambda>i. \<not> bit w i) (rev [0..<LENGTH('a)]))"

text \<open>\<open>as usize\<close> of a signed value: negative values wrap to the top of the 64-bit range.\<close>

definition as_usize :: "int \<Rightarrow> nat" where
  "as_usize i = nat (i mod 2 ^ 64)"

section \<open>The inline bitmap\<close>

definition bin_array_bitmap_size :: int where
  "bin_array_bitmap_size = 512"

definition extension_bin_array_bitmap_size :: nat where
  "extension_bin_array_bitmap_size = 12"

definition lb_pair_bitmap_range :: "int \<times> int" where
  "lb_pair_bitmap_range = (- bin_array_bitmap_size, bin_array_bitmap_size - 1)"

definition is_overflow_default_bin_array_bitmap :: "int \<Rightarrow> bool" where
  "is_overflow_default_bin_array_bitmap i =
     (case lb_pair_bitmap_range of (lo, hi) \<Rightarrow> hi < i \<or> i < lo)"

definition lb_pair_offset :: "bool \<Rightarrow> int \<Rightarrow> nat option" where
  "lb_pair_offset oc i =
     do { s \<leftarrow> i_fit oc 32 (i + bin_array_bitmap_size); Some (as_usize s) }"

definition usize_try_from :: "int \<Rightarrow> nat lb" where
  "usize_try_from i = (if 0 \<le> i then Inr (nat i) else Inl type_cast_failed)"

definition next_bin_array_index_with_liquidity_internal ::
  "bool \<Rightarrow> lb_pair \<Rightarrow> bool \<Rightarrow> int \<Rightarrow> (string, int \<times> bool) outcome" where
  "next_bin_array_index_with_liquidity_internal oc p swap_for_y start_array_index =
     (let bitmap = from_limbs (lp_bin_array_bitmap p) :: 1024 word
      in do {
        array_offset \<leftarrow> lb_pair_offset oc start_array_index;
        let (min_bitmap_id, max_bitmap_id) = lb_pair_bitmap_range;
        Some
          (if swap_for_y then
             and_then (safe_isub 32 max_bitmap_id min_bitmap_id) (\<lambda>d.
             and_then (usize_try_from d) (\<lambda>bin_map_range.
             and_then (safe_sub bin_map_range array_offset) (\<lambda>n.
               let offset_bit_map = push_bit n bitmap
               in if offset_bit_map = 0
                  then and_then (safe_isub 32 min_bitmap_id 1) (\<lambda>i. Inr (i, False))
                  else and_then (safe_isub 32 start_array_index (as_i32 (leading_zeros offset_bit_map)))
                         (\<lambda>i. Inr (i, True)))))
           else
             let offset_bit_map = drop_bit array_offset bitmap
             in if offset_bit_map = 0
                then and_then (safe_iadd 32 max_bitmap_id 1) (\<lambda>i. Inr (i, False))
                else and_then (safe_iadd 32 start_array_index (as_i32 (trailing_zeros offset_bit_map)))
                       (\<lambda>i. Inr (i, True)))
      })"

section \<open>The extension\<close>

definition ext_bitmap_offset :: "bool \<Rightarrow> int \<Rightarrow> nat option" where
  "ext_bitmap_offset oc i =
     do { o' \<leftarrow> (if 0 < i
                 then do { q \<leftarrow> i_div 32 i bin_array_bitmap_size; i_fit oc 32 (q - 1) }
                 else do { a \<leftarrow> i_fit oc 32 (i + 1); b \<leftarrow> i_fit oc 32 (- a);
                           q \<leftarrow> i_div 32 b bin_array_bitmap_size; i_fit oc 32 (q - 1) });
          Some (as_usize o') }"

definition ext_bin_array_offset_in_bitmap :: "bool \<Rightarrow> int \<Rightarrow> (string, nat) outcome" where
  "ext_bin_array_offset_in_bitmap oc i =
     (if 0 < i then
        Some (and_then (safe_irem 32 i bin_array_bitmap_size) (\<lambda>r. Inr (as_usize r)))
      else do {
        a \<leftarrow> i_fit oc 32 (i + 1);
        b \<leftarrow> i_fit oc 32 (- a);
        Some (and_then (safe_irem 32 b bin_array_bitmap_size) (\<lambda>r. Inr (as_usize r))) })"

definition ext_to_bin_array_index :: "bool \<Rightarrow> nat \<Rightarrow> nat \<Rightarrow> bool \<Rightarrow> int option" where
  "ext_to_bin_array_index oc offset bin_array_offset is_positive =
     do { a \<leftarrow> i_fit oc 32 (as_i32 offset + 1);
          b \<leftarrow> i_fit oc 32 (a * bin_array_bitmap_size);
          c \<leftarrow> i_fit oc 32 (b + as_i32 bin_array_offset);
          if is_positive then Some c
          else do { d \<leftarrow> i_fit oc 32 (- c); i_fit oc 32 (d - 1) } }"

definition ext_bitmap_range :: "int \<times> int" where
  "ext_bitmap_range =
     (- bin_array_bitmap_size * (int extension_bin_array_bitmap_size + 1),
      bin_array_bitmap_size * (int extension_bin_array_bitmap_size + 1) - 1)"

text \<open>Indexing the pages panics outside them.\<close>

definition page_at :: "u64 list list \<Rightarrow> nat \<Rightarrow> 512 word option" where
  "page_at pages i = (if i < length pages then Some (from_limbs (pages ! i)) else None)"

text \<open>The loops that run from page \<open>offset\<close> down to page 0, highest bit first.\<close>

fun walk_pages_down ::
  "bool \<Rightarrow> u64 list list \<Rightarrow> bool \<Rightarrow> nat \<Rightarrow> nat \<Rightarrow> nat \<Rightarrow> (string, int option) outcome" where
  "walk_pages_down oc pages is_positive offset bin_array_offset i =
     do {
       page \<leftarrow> page_at pages i;
       bm \<leftarrow> (if i = offset
              then do { a \<leftarrow> u_sub oc 64 (nat bin_array_bitmap_size) bin_array_offset;
                        s \<leftarrow> u_sub oc 64 a 1; Some (push_bit s page) }
              else Some page);
       if bm = 0 then
         (if i = 0 then Some (Inr None)
          else walk_pages_down oc pages is_positive offset bin_array_offset (i - 1))
       else do {
         off \<leftarrow> (if i = offset then u_sub oc 64 bin_array_offset (leading_zeros bm)
                 else do { a \<leftarrow> u_sub oc 64 (nat bin_array_bitmap_size) (leading_zeros bm);
                           u_sub oc 64 a 1 });
         j \<leftarrow> ext_to_bin_array_index oc i off is_positive;
         Some (Inr (Some j)) } }"

declare walk_pages_down.simps [simp del]

text \<open>The loops that run from page \<open>offset\<close> up to the last, lowest bit first.\<close>

function walk_pages_up ::
  "bool \<Rightarrow> u64 list list \<Rightarrow> bool \<Rightarrow> nat \<Rightarrow> nat \<Rightarrow> nat \<Rightarrow> (string, int option) outcome" where
  "walk_pages_up oc pages is_positive offset bin_array_offset i =
     (if extension_bin_array_bitmap_size \<le> i then Some (Inr None)
      else do {
        page \<leftarrow> page_at pages i;
        let bm = (if i = offset then drop_bit bin_array_offset page else page);
        if bm = 0 then walk_pages_up oc pages is_positive offset bin_array_offset (i + 1)
        else do {
          off \<leftarrow> (if i = offset then u_add oc 64 bin_array_offset (trailing_zeros bm)
                  else Some (trailing_zeros bm));
          j \<leftarrow> ext_to_bin_array_index oc i off is_positive;
          Some (Inr (Some j)) } })"
  by pat_completeness auto
termination
  by (relation "measure (\<lambda>(_, _, _, _, _, i). extension_bin_array_bitmap_size - i)") auto

declare walk_pages_up.simps [simp del]

definition ext_iter_bitmap ::
  "bool \<Rightarrow> bitmap_extension \<Rightarrow> int \<Rightarrow> int \<Rightarrow> (string, int option) outcome" where
  "ext_iter_bitmap oc ext start_index end_index =
     do {
       offset \<leftarrow> ext_bitmap_offset oc start_index;
       r \<leftarrow> ext_bin_array_offset_in_bitmap oc start_index;
       case r of
         Inl e \<Rightarrow> Some (Inl e)
       | Inr bin_array_offset \<Rightarrow>
           if start_index < 0 then
             (if start_index \<le> end_index
              then walk_pages_down oc (be_negative_bin_array_bitmap ext) False offset
                     bin_array_offset offset
              else walk_pages_up oc (be_negative_bin_array_bitmap ext) False offset
                     bin_array_offset offset)
           else if start_index \<le> end_index
             then walk_pages_up oc (be_positive_bin_array_bitmap ext) True offset
                    bin_array_offset offset
             else walk_pages_down oc (be_positive_bin_array_bitmap ext) True offset
                    bin_array_offset offset
     }"

definition no_liquid_array :: string where
  "no_liquid_array = ''LBError::CannotFindNonZeroLiquidityBinArrayId''"

definition next_bin_array_index_with_liquidity_extension ::
  "bool \<Rightarrow> bitmap_extension \<Rightarrow> bool \<Rightarrow> int \<Rightarrow> (string, int \<times> bool) outcome" where
  "next_bin_array_index_with_liquidity_extension oc ext swap_for_y start_index =
     (let (min_bitmap_id, max_bit_map_id) = ext_bitmap_range;
          found_or = (\<lambda>end_index none. do {
            r \<leftarrow> ext_iter_bitmap oc ext start_index end_index;
            Some (and_then r (\<lambda>v. case v of Some i \<Rightarrow> Inr (i, True) | None \<Rightarrow> none)) })
      in if 0 < start_index then
           (if swap_for_y
            then found_or bin_array_bitmap_size (Inr (bin_array_bitmap_size - 1, False))
            else found_or max_bit_map_id (Inl no_liquid_array))
         else
           (if swap_for_y
            then found_or min_bitmap_id (Inl no_liquid_array)
            else found_or (- bin_array_bitmap_size - 1) (Inr (- bin_array_bitmap_size, False))))"

section \<open>Moving the active bin to a found array\<close>

definition shift_active_bin :: "lb_pair \<Rightarrow> bool \<Rightarrow> int \<Rightarrow> lb_pair lb" where
  "shift_active_bin p swap_for_y bin_array_index =
     and_then (bin_array_lower_upper_bin_id bin_array_index) (\<lambda>(lower, upper).
       Inr (p \<lparr> lp_active_id := word_of_int (if swap_for_y then upper else lower) \<rparr>))"

definition shift_unless_same :: "lb_pair \<Rightarrow> bool \<Rightarrow> int \<Rightarrow> int \<Rightarrow> lb_pair lb" where
  "shift_unless_same p swap_for_y current i =
     (if current \<noteq> i then shift_active_bin p swap_for_y i else Inr p)"

definition extension_not_provided :: string where
  "extension_not_provided = ''LBError::BitmapExtensionAccountIsNotProvided''"

definition advance_internal_to_extension ::
  "bool \<Rightarrow> lb_pair \<Rightarrow> bool \<Rightarrow> int \<Rightarrow> int \<Rightarrow> bitmap_extension option \<Rightarrow> (string, lb_pair) outcome" where
  "advance_internal_to_extension oc p swap_for_y current_array_index start_array_index ext =
     do {
       r \<leftarrow> next_bin_array_index_with_liquidity_internal oc p swap_for_y start_array_index;
       case r of
         Inl e \<Rightarrow> Some (Inl e)
       | Inr (idx, found) \<Rightarrow>
           if found then Some (shift_unless_same p swap_for_y current_array_index idx)
           else
             (case ext of
                None \<Rightarrow> Some (Inl extension_not_provided)
              | Some x \<Rightarrow> do {
                  s \<leftarrow> next_bin_array_index_with_liquidity_extension oc x swap_for_y idx;
                  Some (and_then s (\<lambda>(idx, _).
                    shift_unless_same p swap_for_y current_array_index idx)) }) }"

definition advance_to_next_liquid_bin_array ::
  "bool \<Rightarrow> lb_pair \<Rightarrow> bool \<Rightarrow> bitmap_extension option \<Rightarrow> (string, lb_pair) outcome" where
  "advance_to_next_liquid_bin_array oc p swap_for_y ext =
     (case bin_id_to_bin_array_index (sint (lp_active_id p)) of
        Inl e \<Rightarrow> Some (Inl e)
      | Inr start_array_index \<Rightarrow>
          if is_overflow_default_bin_array_bitmap start_array_index then
            (case ext of
               None \<Rightarrow> Some (Inl extension_not_provided)
             | Some x \<Rightarrow> do {
                 r \<leftarrow> next_bin_array_index_with_liquidity_extension oc x swap_for_y start_array_index;
                 case r of
                   Inl e \<Rightarrow> Some (Inl e)
                 | Inr (idx, found) \<Rightarrow>
                     if found then Some (shift_unless_same p swap_for_y start_array_index idx)
                     else advance_internal_to_extension oc p swap_for_y start_array_index idx ext })
          else
            advance_internal_to_extension oc p swap_for_y start_array_index start_array_index ext)"

section \<open>Bits of the wide integers\<close>

lemma bit_from_limbs:
  "bit (from_limbs ls :: 'a::len word) n \<longleftrightarrow>
     n < LENGTH('a) \<and> n div 64 < length ls \<and> bit (ls ! (n div 64)) (n mod 64)"
proof (induction ls arbitrary: n)
  case Nil
  then show ?case by simp
next
  case (Cons l ls)
  show ?case
  proof (cases "n < 64")
    case True
    then show ?thesis
      by (auto simp: bit_simps)
  next
    case False
    then have "n div 64 = Suc ((n - 64) div 64)" "n mod 64 = (n - 64) mod 64"
      by (simp_all add: le_div_geq le_mod_geq not_less)
    with False show ?thesis
      by (auto simp: bit_simps Cons.IH dest: bit_imp_le_length)
  qed
qed

lemma takeWhile_upt_spec:
  assumes "\<exists>i < n. P i"
  shows "length (takeWhile (\<lambda>i. \<not> P i) [0..<n]) < n"
    and "P (length (takeWhile (\<lambda>i. \<not> P i) [0..<n]))"
    and "i < length (takeWhile (\<lambda>i. \<not> P i) [0..<n]) \<Longrightarrow> \<not> P i"
proof -
  let ?t = "takeWhile (\<lambda>i. \<not> P i) [0..<n]"
  have len: "length ?t < n"
  proof (rule ccontr)
    assume "\<not> length ?t < n"
    then have "length ?t = length [0..<n]"
      using length_takeWhile_le [of "\<lambda>i. \<not> P i" "[0..<n]"] by simp
    then have "?t = [0..<n]"
      by (metis takeWhile_eq_take take_all order_refl)
    then have "\<forall>i \<in> set [0..<n]. \<not> P i"
      by (simp only: takeWhile_eq_all_conv)
    with assms show False by auto
  qed
  then show "length ?t < n" .
  show "P (length ?t)"
    using nth_length_takeWhile [of "\<lambda>i. \<not> P i" "[0..<n]"] len by simp
  show "\<not> P i" if "i < length ?t"
  proof -
    have "?t ! i = i"
      using that len by (simp add: takeWhile_nth)
    then show ?thesis
      using that by (metis nth_mem set_takeWhileD)
  qed
qed

lemma nonzero_bit: "w \<noteq> 0 \<longleftrightarrow> (\<exists>i < LENGTH('a). bit (w :: 'a::len word) i)"
  by (metis bit_0_eq bit_imp_le_length bit_eq_iff bot_apply bot_bool_def)

lemma trailing_zeros_spec:
  fixes w :: "'a::len word"
  assumes "w \<noteq> 0"
  shows "trailing_zeros w < LENGTH('a)" and "bit w (trailing_zeros w)"
    and "i < trailing_zeros w \<Longrightarrow> \<not> bit w i"
  using takeWhile_upt_spec [of "LENGTH('a)" "bit w"] assms
  unfolding trailing_zeros_def nonzero_bit by blast+

lemma rev_upt_map: "rev [0..<n] = map (\<lambda>i. n - 1 - i) [0..<n]"
  by (rule nth_equalityI) (auto simp: rev_nth)

lemma leading_zeros_spec:
  fixes w :: "'a::len word"
  assumes "w \<noteq> 0"
  shows "leading_zeros w < LENGTH('a)" and "bit w (LENGTH('a) - 1 - leading_zeros w)"
    and "LENGTH('a) - 1 - leading_zeros w < i \<Longrightarrow> \<not> bit w i"
proof -
  let ?n = "LENGTH('a)"
  have lz: "leading_zeros w = length (takeWhile (\<lambda>i. \<not> bit w (?n - 1 - i)) [0..<?n])"
    by (simp add: leading_zeros_def rev_upt_map takeWhile_map comp_def)
  obtain j where j: "j < ?n" "bit w j"
    using assms unfolding nonzero_bit by blast
  then have "?n - 1 - j < ?n" "bit w (?n - 1 - (?n - 1 - j))"
    by simp_all
  then have ex: "\<exists>i < ?n. bit w (?n - 1 - i)"
    by blast
  note sp = takeWhile_upt_spec [OF ex]
  show "leading_zeros w < ?n" and "bit w (?n - 1 - leading_zeros w)"
    unfolding lz using sp by blast+
  show "\<not> bit w i" if "?n - 1 - leading_zeros w < i"
  proof (cases "i < ?n")
    case True
    then have "?n - 1 - i < leading_zeros w"
      using that by simp
    with True sp(3) [of "?n - 1 - i"] show ?thesis
      by (simp add: lz)
  next
    case False
    then show ?thesis by (simp add: bit_word.rep_eq)
  qed
qed

text \<open>Searching downwards from bit \<open>k\<close> and upwards from bit \<open>k\<close>.\<close>

lemma search_down_none:
  fixes w :: "'a::len word"
  assumes "k < LENGTH('a)"
  shows "push_bit (LENGTH('a) - 1 - k) w = 0 \<longleftrightarrow> (\<forall>j \<le> k. \<not> bit w j)"
proof -
  let ?s = "LENGTH('a) - 1 - k"
  have "push_bit ?s w \<noteq> 0 \<longleftrightarrow> (\<exists>j \<le> k. bit w j)"
  proof
    assume "push_bit ?s w \<noteq> 0"
    then obtain i where "i < LENGTH('a)" "?s \<le> i" "bit w (i - ?s)"
      unfolding nonzero_bit by (auto simp: bit_simps)
    then show "\<exists>j \<le> k. bit w j"
      by (intro exI [of _ "i - ?s"]) simp
  next
    assume "\<exists>j \<le> k. bit w j"
    then obtain j where "j \<le> k" "bit w j" by blast
    then have "j + ?s < LENGTH('a)" "bit (push_bit ?s w) (j + ?s)"
      using assms by (auto simp: bit_simps)
    then show "push_bit ?s w \<noteq> 0"
      unfolding nonzero_bit by blast
  qed
  then show ?thesis by blast
qed

lemma search_down_some:
  fixes w :: "'a::len word"
  assumes k: "k < LENGTH('a)" and some: "push_bit (LENGTH('a) - 1 - k) w \<noteq> 0"
  defines "l \<equiv> leading_zeros (push_bit (LENGTH('a) - 1 - k) w)"
  shows "l \<le> k" and "bit w (k - l)" and "k - l < j \<Longrightarrow> j \<le> k \<Longrightarrow> \<not> bit w j"
proof -
  let ?s = "LENGTH('a) - 1 - k"
  note sp = leading_zeros_spec [OF some, folded l_def]
  have top: "?s \<le> LENGTH('a) - 1 - l" "bit w (LENGTH('a) - 1 - l - ?s)"
    using sp(2) by (auto simp: bit_simps)
  then show "l \<le> k"
    using sp(1) k by simp
  have "LENGTH('a) - 1 - l - ?s = k - l"
    using sp(1) k by simp
  with top(2) show "bit w (k - l)"
    by simp
  show "\<not> bit w j" if "k - l < j" "j \<le> k"
  proof
    assume "bit w j"
    then have "bit (push_bit ?s w) (j + ?s)"
      using that k by (auto simp: bit_simps)
    moreover have "LENGTH('a) - 1 - l < j + ?s"
      using that k sp(1) by simp
    ultimately show False
      using sp(3) by blast
  qed
qed

lemma search_up_none:
  "drop_bit k (w :: 'a::len word) = 0 \<longleftrightarrow> (\<forall>j \<ge> k. \<not> bit w j)"
proof -
  have "drop_bit k w = 0 \<longleftrightarrow> (\<forall>i. \<not> bit w (k + i))"
    by (auto simp: bit_eq_iff bit_drop_bit_eq) (meson bit_imp_le_length le_add2 not_less order_le_less_trans)
  then show ?thesis
    by (metis le_Suc_ex le_add1)
qed

lemma search_up_some:
  fixes w :: "'a::len word"
  assumes some: "drop_bit k w \<noteq> 0"
  defines "t \<equiv> trailing_zeros (drop_bit k w)"
  shows "bit w (k + t)" and "k \<le> j \<Longrightarrow> j < k + t \<Longrightarrow> \<not> bit w j" and "t < LENGTH('a)"
    and "k + t < LENGTH('a)"
proof -
  note sp = trailing_zeros_spec [OF some, folded t_def]
  show b: "bit w (k + t)"
    using sp(2) by (simp add: bit_simps)
  show "t < LENGTH('a)"
    by (rule sp(1))
  show "k + t < LENGTH('a)"
    using b by (simp add: bit_word.rep_eq)
  show "\<not> bit w j" if "k \<le> j" "j < k + t"
    using sp(3) [of "j - k"] that by (auto simp: bit_simps)
qed

lemma as_i32_small: "n < 2 ^ 31 \<Longrightarrow> as_i32 n = int n"
  by (simp add: as_i32_def sint_uint uint_nat unsigned_of_nat take_bit_nat_eq_self
      signed_take_bit_int_eq_self)

lemma as_usize_nonneg: "0 \<le> i \<Longrightarrow> i < 2 ^ 64 \<Longrightarrow> as_usize i = nat i"
  by (simp add: as_usize_def)

section \<open>The inline search\<close>

definition array_flagged :: "lb_pair \<Rightarrow> int \<Rightarrow> bool" where
  "array_flagged p i \<longleftrightarrow>
     - 512 \<le> i \<and> i \<le> 511 \<and> bit (from_limbs (lp_bin_array_bitmap p) :: 1024 word) (nat (i + 512))"

text \<open>The nearest flagged index in the direction of the swap, the start included.\<close>

definition nearest :: "(int \<Rightarrow> bool) \<Rightarrow> bool \<Rightarrow> int \<Rightarrow> int \<Rightarrow> bool" where
  "nearest F swap_for_y start j \<longleftrightarrow> F j \<and>
     (if swap_for_y then j \<le> start \<and> (\<forall>k. j < k \<longrightarrow> k \<le> start \<longrightarrow> \<not> F k)
      else start \<le> j \<and> (\<forall>k. start \<le> k \<longrightarrow> k < j \<longrightarrow> \<not> F k))"

definition none_ahead :: "(int \<Rightarrow> bool) \<Rightarrow> bool \<Rightarrow> int \<Rightarrow> bool" where
  "none_ahead F swap_for_y start \<longleftrightarrow>
     (\<forall>k. (if swap_for_y then k \<le> start else start \<le> k) \<longrightarrow> \<not> F k)"

lemma not_overflow_iff:
  "\<not> is_overflow_default_bin_array_bitmap i \<longleftrightarrow> - 512 \<le> i \<and> i \<le> 511"
  by (auto simp: is_overflow_default_bin_array_bitmap_def lb_pair_bitmap_range_def
      bin_array_bitmap_size_def)

lemma lb_pair_offset_inline:
  "- 512 \<le> i \<Longrightarrow> i \<le> 511 \<Longrightarrow> lb_pair_offset oc i = Some (nat (i + 512))"
  by (simp add: lb_pair_offset_def bin_array_bitmap_size_def i_fit_ok in_signed_def as_usize_nonneg)

lemma inline_down:
  fixes p :: lb_pair
  assumes start: "- 512 \<le> start" "start \<le> 511"
  defines "w \<equiv> from_limbs (lp_bin_array_bitmap p) :: 1024 word"
  defines "k \<equiv> nat (start + 512)"
  shows "next_bin_array_index_with_liquidity_internal oc p True start = Some (Inr
    (if push_bit (1023 - k) w = 0 then (- 513, False)
     else (start - int (leading_zeros (push_bit (1023 - k) w)), True)))"
proof -
  have k: "k \<le> 1023"
    using start by (simp add: k_def)
  have off: "lb_pair_offset oc start = Some k"
    using start by (simp add: lb_pair_offset_inline k_def)
  have L: "leading_zeros (push_bit (1023 - k) w) \<le> k" if "push_bit (1023 - k) w \<noteq> 0"
    using search_down_some(1) [of k w] k that by simp
  then have "as_i32 (leading_zeros (push_bit (1023 - k) w))
      = int (leading_zeros (push_bit (1023 - k) w))
    \<and> in_signed 32 (start - int (leading_zeros (push_bit (1023 - k) w)))"
    if "push_bit (1023 - k) w \<noteq> 0"
    using that L [OF that] k start by (simp add: as_i32_small in_signed_def k_def)
  then show ?thesis
    using k
    by (simp add: next_bin_array_index_with_liquidity_internal_def w_def [symmetric] off
        lb_pair_bitmap_range_def bin_array_bitmap_size_def in_signed_def usize_try_from_def lb_ok)
qed

lemma inline_up:
  fixes p :: lb_pair
  assumes start: "- 512 \<le> start" "start \<le> 511"
  defines "w \<equiv> from_limbs (lp_bin_array_bitmap p) :: 1024 word"
  defines "k \<equiv> nat (start + 512)"
  shows "next_bin_array_index_with_liquidity_internal oc p False start = Some (Inr
    (if drop_bit k w = 0 then (512, False)
     else (start + int (trailing_zeros (drop_bit k w)), True)))"
proof -
  have off: "lb_pair_offset oc start = Some k"
    using start by (simp add: lb_pair_offset_inline k_def)
  have T: "k + trailing_zeros (drop_bit k w) < 1024" if "drop_bit k w \<noteq> 0"
    using search_up_some(4) [OF that] by simp
  have "as_i32 (trailing_zeros (drop_bit k w)) = int (trailing_zeros (drop_bit k w))
    \<and> in_signed 32 (start + int (trailing_zeros (drop_bit k w)))"
    if "drop_bit k w \<noteq> 0"
    using T [OF that] start by (simp add: as_i32_small in_signed_def k_def)
  then show ?thesis
    by (simp add: next_bin_array_index_with_liquidity_internal_def w_def [symmetric] off
        lb_pair_bitmap_range_def bin_array_bitmap_size_def in_signed_def lb_ok)
qed

lemma dlmm_inline_search_found:
  assumes "\<not> is_overflow_default_bin_array_bitmap start"
  shows "\<exists>j found. next_bin_array_index_with_liquidity_internal oc p swap_for_y start
      = Some (Inr (j, found)) \<and>
    (found \<longrightarrow> nearest (array_flagged p) swap_for_y start j) \<and>
    (\<not> found \<longrightarrow> j = (if swap_for_y then - 513 else 512) \<and>
                none_ahead (array_flagged p) swap_for_y start)"
proof -
  have start: "- 512 \<le> start" "start \<le> 511"
    using assms by (simp_all add: not_overflow_iff)
  define w where "w = (from_limbs (lp_bin_array_bitmap p) :: 1024 word)"
  define k where "k = nat (start + 512)"
  have k: "k \<le> 1023" "int k = start + 512"
    using start by (simp_all add: k_def)
  have flag: "array_flagged p i \<longleftrightarrow> - 512 \<le> i \<and> i \<le> 511 \<and> bit w (nat (i + 512))" for i
    by (simp add: array_flagged_def w_def)
  show ?thesis
  proof (cases swap_for_y)
    case True
    note res = inline_down [OF start, of oc p, folded w_def k_def]
    show ?thesis
    proof (cases "push_bit (1023 - k) w = 0")
      case none: True
      then have "\<not> bit w j" if "j \<le> k" for j
        using search_down_none [of k w] k that by simp
      then have "none_ahead (array_flagged p) True start"
        using start k by (auto simp: none_ahead_def flag nat_le_iff)
      with res none True show ?thesis by (intro exI [of _ "- 513"] exI [of _ False]) simp
    next
      case some: False
      define l where "l = leading_zeros (push_bit (1023 - k) w)"
      have sp: "l \<le> k" "bit w (k - l)" "\<And>j. k - l < j \<Longrightarrow> j \<le> k \<Longrightarrow> \<not> bit w j"
        using search_down_some [of k w] k some by (simp_all add: l_def)
      have idx: "nat (start - int l + 512) = k - l"
        using k sp(1) by linarith
      have "nearest (array_flagged p) True start (start - int l)"
        unfolding nearest_def flag idx
        using sp(1,2) start k sp(3) by (auto simp: nat_le_iff intro!: sp(3))
      with res some True show ?thesis
        by (intro exI [of _ "start - int l"] exI [of _ True]) (simp add: l_def)
    qed
  next
    case False
    note res = inline_up [OF start, of oc p, folded w_def k_def]
    show ?thesis
    proof (cases "drop_bit k w = 0")
      case none: True
      then have "\<not> bit w j" if "k \<le> j" for j
        using search_up_none [of k w] that by simp
      then have "none_ahead (array_flagged p) False start"
        using start k by (auto simp: none_ahead_def flag le_nat_iff)
      with res none False show ?thesis by (intro exI [of _ 512] exI [of _ False]) simp
    next
      case some: False
      define t where "t = trailing_zeros (drop_bit k w)"
      have sp: "bit w (k + t)" "\<And>j. k \<le> j \<Longrightarrow> j < k + t \<Longrightarrow> \<not> bit w j" "k + t < 1024"
        using search_up_some [OF some] by (simp_all add: t_def)
      have idx: "nat (start + int t + 512) = k + t"
        using k by linarith
      have between: "\<not> bit w (nat (i + 512))" if "start \<le> i" "i < start + int t" for i
        using that k by (intro sp(2)) linarith+
      have "nearest (array_flagged p) False start (start + int t)"
        unfolding nearest_def flag idx
        using sp(1,3) start k between by auto
      with res some False show ?thesis
        by (intro exI [of _ "start + int t"] exI [of _ True]) (simp add: t_def)
    qed
  qed
qed

section \<open>The extension search\<close>

text \<open>Bit \<open>n\<close> of the twelve pages, and the array index it stands for on either side.\<close>

definition page_flag :: "u64 list list \<Rightarrow> nat \<Rightarrow> bool" where
  "page_flag pages n \<longleftrightarrow> bit (from_limbs (pages ! (n div 512)) :: 512 word) (n mod 512)"

definition ext_index :: "bool \<Rightarrow> nat \<Rightarrow> int" where
  "ext_index is_positive n = (if is_positive then int n + 512 else - (int n + 512) - 1)"

lemma ext_to_bin_array_index_ok:
  assumes "i < 12" and "off < 512"
  shows "ext_to_bin_array_index oc i off pos = Some (ext_index pos (i * 512 + off))"
proof -
  have "as_i32 i = int i" "as_i32 off = int off"
    using assms by (simp_all add: as_i32_small)
  then show ?thesis
    using assms
    by (auto simp: ext_to_bin_array_index_def bin_array_bitmap_size_def i_fit_ok in_signed_def
        ext_index_def)
qed

lemma page_flag_at:
  assumes "j < 512"
  shows "page_flag pages (i * 512 + j) \<longleftrightarrow> bit (from_limbs (pages ! i) :: 512 word) j"
  using assms by (simp add: page_flag_def)

lemma within_page:
  fixes n :: nat
  assumes "i * 512 \<le> n" and "n \<le> i * 512 + k" and "k < 512"
  obtains j where "n = i * 512 + j" and "j \<le> k"
  using assms that [of "n - i * 512"] by auto

text \<open>One page of the walk down: its bits up to \<open>k\<close>.\<close>

lemma walk_down_step:
  assumes pages: "length pages = 12" and i: "i \<le> offset" "offset < 12" and bo: "bo < 512"
    and k_def: "k = (if i = offset then bo else 511)"
    and w_def: "w = (from_limbs (pages ! i) :: 512 word)"
  shows "walk_pages_down oc pages pos offset bo i =
    (if push_bit (511 - k) w = 0
     then if i = 0 then Some (Inr None) else walk_pages_down oc pages pos offset bo (i - 1)
     else Some (Inr (Some (ext_index pos (i * 512 + (k - leading_zeros (push_bit (511 - k) w)))))))"
proof -
  have k: "k < 512" using bo by (simp add: k_def)
  define bm where "bm = push_bit (511 - k) w"
  have lz: "leading_zeros bm \<le> k" if "bm \<noteq> 0"
    using search_down_some(1) [of k w] k that by (simp add: bm_def)
  have page: "page_at pages i = Some w"
    using pages i by (simp add: page_at_def w_def)
  have shifted: "(if i = offset
      then do { a \<leftarrow> u_sub oc 64 (nat bin_array_bitmap_size) bo;
                s \<leftarrow> u_sub oc 64 a 1; Some (push_bit s w) }
      else Some w) = Some bm"
    using bo by (simp add: bm_def k_def u_sub_ok bin_array_bitmap_size_def)
  have found: "do { off \<leftarrow> (if i = offset then u_sub oc 64 bo (leading_zeros bm)
                 else do { a \<leftarrow> u_sub oc 64 (nat bin_array_bitmap_size) (leading_zeros bm);
                           u_sub oc 64 a 1 });
         j \<leftarrow> ext_to_bin_array_index oc i off pos;
         Some (Inr (Some j)) } = Some (Inr (Some (ext_index pos (i * 512 + (k - leading_zeros bm)))))"
    if "bm \<noteq> 0"
    using lz [OF that] k i
    by (auto simp: u_sub_ok bin_array_bitmap_size_def ext_to_bin_array_index_ok k_def
        split: if_splits)
  show ?thesis
  proof (cases "bm = 0")
    case True
    then show ?thesis
      by (subst walk_pages_down.simps)
        (simp only: page Option.bind.bind_lunit shifted bm_def [symmetric] if_True simp_thms)
  next
    case False
    show ?thesis
      by (subst walk_pages_down.simps)
        (simp only: page Option.bind.bind_lunit shifted found [OF False] bm_def [symmetric]
          if_not_P [OF False])
  qed
qed

lemma page_down:
  fixes pages :: "u64 list list" and i :: nat
  assumes "k < 512"
  defines "s \<equiv> push_bit (511 - k) (from_limbs (pages ! i) :: 512 word)"
  shows "s = 0 \<Longrightarrow> i * 512 \<le> n \<Longrightarrow> n \<le> i * 512 + k \<Longrightarrow> \<not> page_flag pages n"
    and "s \<noteq> 0 \<Longrightarrow> leading_zeros s \<le> k \<and> page_flag pages (i * 512 + (k - leading_zeros s))"
    and "s \<noteq> 0 \<Longrightarrow> i * 512 + (k - leading_zeros s) < n \<Longrightarrow> n \<le> i * 512 + k \<Longrightarrow>
      \<not> page_flag pages n"
proof -
  let ?w = "from_limbs (pages ! i) :: 512 word"
  show "\<not> page_flag pages n" if z: "s = 0" and n: "i * 512 \<le> n" "n \<le> i * 512 + k"
  proof -
    obtain j where j: "n = i * 512 + j" "j \<le> k"
      using within_page [OF n assms(1)] .
    have "\<not> bit ?w j"
      using search_down_none [of k ?w] z j assms(1) by (simp add: s_def)
    then show ?thesis
      using j assms(1) by (simp add: page_flag_at)
  qed
  assume some: "s \<noteq> 0"
  note sp = search_down_some [of k ?w, simplified, folded s_def, OF assms(1) some]
  show "leading_zeros s \<le> k \<and> page_flag pages (i * 512 + (k - leading_zeros s))"
    using sp(1,2) assms(1) page_flag_at [of "k - leading_zeros s" pages i] by simp
  show "\<not> page_flag pages n" if n: "i * 512 + (k - leading_zeros s) < n" "n \<le> i * 512 + k"
  proof -
    obtain j where j: "n = i * 512 + j" "j \<le> k"
      using within_page [of i n k] n assms(1) by auto
    have "\<not> bit ?w j"
      using sp(3) [of j] j n by simp
    then show ?thesis
      using j assms(1) by (simp add: page_flag_at)
  qed
qed

lemma page_up:
  fixes pages :: "u64 list list" and i :: nat
  assumes "k < 512"
  defines "s \<equiv> drop_bit k (from_limbs (pages ! i) :: 512 word)"
  shows "s = 0 \<Longrightarrow> i * 512 + k \<le> n \<Longrightarrow> n \<le> i * 512 + 511 \<Longrightarrow> \<not> page_flag pages n"
    and "s \<noteq> 0 \<Longrightarrow> k + trailing_zeros s < 512 \<and> page_flag pages (i * 512 + (k + trailing_zeros s))"
    and "s \<noteq> 0 \<Longrightarrow> i * 512 + k \<le> n \<Longrightarrow> n < i * 512 + (k + trailing_zeros s) \<Longrightarrow>
      \<not> page_flag pages n"
proof -
  let ?w = "from_limbs (pages ! i) :: 512 word"
  show "\<not> page_flag pages n" if z: "s = 0" and n: "i * 512 + k \<le> n" "n \<le> i * 512 + 511"
  proof -
    obtain j where j: "n = i * 512 + j" "j \<le> 511"
      using within_page [of i n 511] n by auto
    have "\<not> bit ?w j"
      using search_up_none [of k ?w] z j n by (simp add: s_def)
    then show ?thesis
      using j by (simp add: page_flag_at)
  qed
  assume some: "s \<noteq> 0"
  note sp = search_up_some [of k ?w, folded s_def, OF some]
  show hit: "k + trailing_zeros s < 512 \<and> page_flag pages (i * 512 + (k + trailing_zeros s))"
    using sp(1,4) by (simp add: page_flag_at)
  show "\<not> page_flag pages n" if n: "i * 512 + k \<le> n" "n < i * 512 + (k + trailing_zeros s)"
  proof -
    obtain j where j: "n = i * 512 + j" "j \<le> 511"
      using within_page [of i n 511] n hit by auto
    have "\<not> bit ?w j"
      using sp(2) [of j] j n by simp
    then show ?thesis
      using j by (simp add: page_flag_at)
  qed
qed

text \<open>What a walk finds: the nearest flagged bit at or below \<open>t\<close>, at or above \<open>t\<close>.\<close>

definition down_hit :: "u64 list list \<Rightarrow> nat \<Rightarrow> nat option \<Rightarrow> bool" where
  "down_hit pages t r \<longleftrightarrow>
     (case r of None \<Rightarrow> \<forall>n \<le> t. \<not> page_flag pages n
      | Some n \<Rightarrow> n \<le> t \<and> page_flag pages n \<and> (\<forall>m. n < m \<longrightarrow> m \<le> t \<longrightarrow> \<not> page_flag pages m))"

definition up_hit :: "u64 list list \<Rightarrow> nat \<Rightarrow> nat option \<Rightarrow> bool" where
  "up_hit pages t r \<longleftrightarrow>
     (case r of None \<Rightarrow> \<forall>n. t \<le> n \<longrightarrow> n < 6144 \<longrightarrow> \<not> page_flag pages n
      | Some n \<Rightarrow> t \<le> n \<and> n < 6144 \<and> page_flag pages n \<and>
                  (\<forall>m. t \<le> m \<longrightarrow> m < n \<longrightarrow> \<not> page_flag pages m))"

lemma walk_down_spec:
  assumes pages: "length pages = 12" and i: "i \<le> offset" "offset < 12" and bo: "bo < 512"
    and k: "k = (if i = offset then bo else 511)"
  shows "\<exists>r. walk_pages_down oc pages pos offset bo i = Some (Inr (map_option (ext_index pos) r)) \<and>
    down_hit pages (i * 512 + k) r"
  using i k
proof (induction i arbitrary: k)
  case (0 k)
  have k: "k < 512" using bo 0 by simp
  note step = walk_down_step [OF pages 0(1,2) bo 0(3) refl, of oc pos]
  note page = page_down [OF k, of pages 0]
  show ?case
  proof (cases "push_bit (511 - k) (from_limbs (pages ! 0) :: 512 word) = 0")
    case True
    with step page(1) [OF True] show ?thesis
      by (intro exI [of _ None]) (simp add: down_hit_def)
  next
    case False
    with step page(2,3) [OF False] show ?thesis
      by (intro exI [of _ "Some (k - leading_zeros (push_bit (511 - k)
        (from_limbs (pages ! 0) :: 512 word)))"]) (simp add: down_hit_def)
  qed
next
  case (Suc i k)
  have k: "k < 512" using bo Suc.prems(3) by simp
  note step = walk_down_step [OF pages Suc.prems(1,2) bo Suc.prems(3) refl, of oc pos]
  note page = page_down [OF k, of pages "Suc i"]
  have lower: "i \<le> offset" "511 = (if i = offset then bo else 511)"
    using Suc.prems(1) by simp_all
  obtain r where r: "walk_pages_down oc pages pos offset bo i = Some (Inr (map_option (ext_index pos) r))"
    "down_hit pages (i * 512 + 511) r"
    using Suc.IH [OF lower(1) Suc.prems(2) lower(2)] by blast
  show ?case
  proof (cases "push_bit (511 - k) (from_limbs (pages ! Suc i) :: 512 word) = 0")
    case True
    have above: "\<not> page_flag pages n" if "\<not> n \<le> i * 512 + 511" "n \<le> Suc i * 512 + k" for n
      using page(1) [OF True, of n] that by simp
    have "down_hit pages (Suc i * 512 + k) r"
      using r(2) above by (fastforce simp: down_hit_def split: option.splits)
    with step True r(1) show ?thesis
      by (intro exI [of _ r]) simp
  next
    case False
    define n where "n = Suc i * 512 + (k - leading_zeros (push_bit (511 - k)
      (from_limbs (pages ! Suc i) :: 512 word)))"
    have hit: "page_flag pages n" "n \<le> Suc i * 512 + k"
      "\<And>m. n < m \<Longrightarrow> m \<le> Suc i * 512 + k \<Longrightarrow> \<not> page_flag pages m"
      unfolding n_def using page(2) [OF False] page(3) [OF False] by (blast, linarith, blast)
    have "walk_pages_down oc pages pos offset bo (Suc i) = Some (Inr (Some (ext_index pos n)))"
      using step False by (simp only: n_def if_False)
    with hit show ?thesis
      by (intro exI [of _ "Some n"]) (simp add: down_hit_def)
  qed
qed

lemma walk_up_step:
  assumes pages: "length pages = 12" and i: "offset \<le> i" "i < 12" and bo: "bo < 512"
    and k_def: "k = (if i = offset then bo else 0)"
    and w_def: "w = (from_limbs (pages ! i) :: 512 word)"
  shows "walk_pages_up oc pages pos offset bo i =
    (if drop_bit k w = 0 then walk_pages_up oc pages pos offset bo (Suc i)
     else Some (Inr (Some (ext_index pos (i * 512 + (k + trailing_zeros (drop_bit k w)))))))"
proof -
  have k: "k < 512" using bo by (simp add: k_def)
  define bm where "bm = drop_bit k w"
  have tz: "k + trailing_zeros bm < 512" if "bm \<noteq> 0"
    using search_up_some(4) [of k w] that by (simp add: bm_def)
  have page: "page_at pages i = Some w"
    using pages i by (simp add: page_at_def w_def)
  have shifted: "(if i = offset then drop_bit bo w else w) = bm"
    by (simp add: bm_def k_def)
  have found: "do { off \<leftarrow> (if i = offset then u_add oc 64 bo (trailing_zeros bm)
                 else Some (trailing_zeros bm));
         j \<leftarrow> ext_to_bin_array_index oc i off pos;
         Some (Inr (Some j)) } = Some (Inr (Some (ext_index pos (i * 512 + (k + trailing_zeros bm)))))"
    if "bm \<noteq> 0"
    using tz [OF that] k i
    by (auto simp: u_add_ok ext_to_bin_array_index_ok k_def split: if_splits)
  have below: "\<not> extension_bin_array_bitmap_size \<le> i"
    using i by (simp add: extension_bin_array_bitmap_size_def)
  show ?thesis
  proof (cases "bm = 0")
    case True
    then show ?thesis
      by (subst walk_pages_up.simps)
        (simp only: page Option.bind.bind_lunit Let_def shifted bm_def [symmetric] if_True
          if_not_P [OF below] simp_thms Suc_eq_plus1)
  next
    case False
    show ?thesis
      by (subst walk_pages_up.simps)
        (simp only: page Option.bind.bind_lunit Let_def shifted found [OF False]
          bm_def [symmetric] if_not_P [OF False] if_not_P [OF below])
  qed
qed

lemma walk_up_spec:
  assumes pages: "length pages = 12" and bo: "bo < 512"
    and i: "offset \<le> i" "i \<le> 12" and k: "k = (if i = offset then bo else 0)"
  shows "\<exists>r. walk_pages_up oc pages pos offset bo i = Some (Inr (map_option (ext_index pos) r)) \<and>
    up_hit pages (i * 512 + k) r"
  using i k
proof (induction "12 - i" arbitrary: i k)
  case 0
  then have "i = 12" by simp
  then have "walk_pages_up oc pages pos offset bo i = Some (Inr None)"
    by (subst walk_pages_up.simps) (simp add: extension_bin_array_bitmap_size_def)
  with \<open>i = 12\<close> show ?case
    by (intro exI [of _ None]) (simp add: up_hit_def)
next
  case (Suc d)
  then have i: "offset \<le> i" "i < 12" and k: "k < 512"
    using bo by auto
  note step = walk_up_step [OF pages i bo Suc.prems(3) refl, of oc pos]
  note page = page_up [OF k, of pages i]
  show ?case
  proof (cases "drop_bit k (from_limbs (pages ! i) :: 512 word) = 0")
    case True
    have nxt: "d = 12 - Suc i" "offset \<le> Suc i" "Suc i \<le> 12" "0 = (if Suc i = offset then bo else 0)"
      using Suc.hyps(2) i by auto
    obtain r where r: "walk_pages_up oc pages pos offset bo (Suc i) =
        Some (Inr (map_option (ext_index pos) r))" "up_hit pages (Suc i * 512 + 0) r"
      using Suc.hyps(1) [OF nxt] by blast
    have below: "\<not> page_flag pages n" if "i * 512 + k \<le> n" "\<not> Suc i * 512 + 0 \<le> n" for n
      using page(1) [OF True, of n] that by simp
    have "up_hit pages (i * 512 + k) r"
      using r(2) below k by (fastforce simp: up_hit_def split: option.splits)
    with step True r(1) show ?thesis
      by (intro exI [of _ r]) simp
  next
    case False
    define n where "n = i * 512 + (k + trailing_zeros (drop_bit k (from_limbs (pages ! i) :: 512 word)))"
    have hit: "page_flag pages n" "i * 512 + k \<le> n" "n < 6144"
      "\<And>m. i * 512 + k \<le> m \<Longrightarrow> m < n \<Longrightarrow> \<not> page_flag pages m"
      using page(2) [OF False] page(3) [OF False] i by (simp_all add: n_def)
    have "walk_pages_up oc pages pos offset bo i = Some (Inr (Some (ext_index pos n)))"
      using step False by (simp only: n_def if_False)
    with hit show ?thesis
      by (intro exI [of _ "Some n"]) (simp add: up_hit_def)
  qed
qed

text \<open>Array indices of the extension, and the bit of the pages an index stands for.\<close>

definition in_extension :: "int \<Rightarrow> bool" where
  "in_extension i \<longleftrightarrow> (512 \<le> i \<and> i \<le> 6655) \<or> (- 6656 \<le> i \<and> i \<le> - 513)"

definition ext_pos :: "int \<Rightarrow> nat" where
  "ext_pos i = (if 0 < i then nat (i - 512) else nat (- i - 513))"

definition ext_pages :: "bitmap_extension \<Rightarrow> bool \<Rightarrow> u64 list list" where
  "ext_pages ext is_positive =
     (if is_positive then be_positive_bin_array_bitmap ext else be_negative_bin_array_bitmap ext)"

definition ext_flagged :: "bitmap_extension \<Rightarrow> bool \<Rightarrow> int \<Rightarrow> bool" where
  "ext_flagged ext is_positive i \<longleftrightarrow>
     in_extension i \<and> (0 < i \<longleftrightarrow> is_positive) \<and> page_flag (ext_pages ext is_positive) (ext_pos i)"

definition ext_wf :: "bitmap_extension \<Rightarrow> bool" where
  "ext_wf ext \<longleftrightarrow> length (be_positive_bin_array_bitmap ext) = 12 \<and>
                  length (be_negative_bin_array_bitmap ext) = 12"

lemma ext_offsets_pos:
  assumes "512 \<le> start" and "start \<le> 6655"
  shows "ext_bitmap_offset oc start = Some (ext_pos start div 512)"
    and "ext_bin_array_offset_in_bitmap oc start = Some (Inr (ext_pos start mod 512))"
proof -
  define n where "n = nat (start - 512)"
  have start: "start = int (n + 512)" "n \<le> 6143"
    using assms by (auto simp: n_def)
  have q: "quot_trunc start 512 = int ((n + 512) div 512)" "start mod 512 = int ((n + 512) mod 512)"
    using start(2) unfolding start(1) by (simp_all add: quot_trunc_def zdiv_int zmod_int)
  have rem: "start - 512 * quot_trunc start 512 = int ((n + 512) mod 512)"
    using minus_mult_div_eq_mod [of start 512] assms q(2) by (simp add: quot_trunc_def)
  have d: "(n + 512) div 512 = n div 512 + 1" "(n + 512) mod 512 = n mod 512" "n div 512 \<le> 11"
    using start(2) by auto
  have pos: "ext_pos start = n"
    using assms by (simp add: ext_pos_def n_def)
  have fits: "in_signed 32 (quot_trunc start 512)" "in_signed 32 (quot_trunc start 512 - 1)"
    "quot_trunc start 512 - 1 = int (n div 512)"
    unfolding q(1) d(1) using d(3) by (simp_all add: in_signed_def)
  have "i_fit oc 32 (int (n div 512)) = Some (int (n div 512))"
    using d(3) by (intro i_fit_ok) (simp add: in_signed_def)
  then show "ext_bitmap_offset oc start = Some (ext_pos start div 512)"
    using assms fits d(3)
    by (simp add: ext_bitmap_offset_def bin_array_bitmap_size_def i_div_def as_usize_nonneg pos)
  show "ext_bin_array_offset_in_bitmap oc start = Some (Inr (ext_pos start mod 512))"
    using assms fits d(2) rem
    by (simp add: ext_bin_array_offset_in_bitmap_def bin_array_bitmap_size_def safe_irem_def
        i_rem_def as_usize_nonneg pos)
qed

lemma ext_offsets_neg:
  assumes "- 6656 \<le> start" and "start \<le> - 513"
  shows "ext_bitmap_offset oc start = Some (ext_pos start div 512)"
    and "ext_bin_array_offset_in_bitmap oc start = Some (Inr (ext_pos start mod 512))"
proof -
  define m where "m = - (start + 1)"
  have m: "512 \<le> m" "m \<le> 6655"
    using assms by (simp_all add: m_def)
  have pos: "ext_pos start = ext_pos m"
    using assms by (simp add: ext_pos_def m_def)
  have neg: "\<not> 0 < start" "0 < m"
    using assms m by simp_all
  have fits: "i_fit oc 32 (start + 1) = Some (start + 1)" "i_fit oc 32 (- (start + 1)) = Some m"
    using assms by (simp_all add: i_fit_ok in_signed_def m_def)
  show "ext_bitmap_offset oc start = Some (ext_pos start div 512)"
    using ext_offsets_pos(1) [OF m, of oc] neg fits
    by (simp add: ext_bitmap_offset_def pos)
  show "ext_bin_array_offset_in_bitmap oc start = Some (Inr (ext_pos start mod 512))"
    using ext_offsets_pos(2) [OF m, of oc] neg fits
    by (simp add: ext_bin_array_offset_in_bitmap_def pos)
qed

lemma ext_offsets:
  assumes "in_extension start"
  shows "ext_bitmap_offset oc start = Some (ext_pos start div 512)"
    and "ext_bin_array_offset_in_bitmap oc start = Some (Inr (ext_pos start mod 512))"
    and "ext_pos start < 6144"
  using assms ext_offsets_pos [of start oc] ext_offsets_neg [of start oc]
  by (auto simp: in_extension_def ext_pos_def)

lemma ext_iter_spec:
  assumes wf: "ext_wf ext" and start: "in_extension start"
  shows "\<exists>r. ext_iter_bitmap oc ext start end_index =
      Some (Inr (map_option (ext_index (0 < start)) r)) \<and>
    (if (start \<le> end_index) = (0 < start) then up_hit (ext_pages ext (0 < start)) (ext_pos start) r
     else down_hit (ext_pages ext (0 < start)) (ext_pos start) r)"
proof -
  let ?n = "ext_pos start"
  let ?pages = "ext_pages ext (0 < start)"
  have len: "length ?pages = 12"
    using wf by (simp add: ext_wf_def ext_pages_def)
  have o: "?n div 512 < 12" "?n mod 512 < 512"
    using ext_offsets(3) [OF start] by (simp_all add: div_less_iff_less_mult)
  obtain u where u: "walk_pages_up oc ?pages (0 < start) (?n div 512) (?n mod 512) (?n div 512) =
      Some (Inr (map_option (ext_index (0 < start)) u))" "up_hit ?pages ?n u"
    using walk_up_spec [OF len o(2) order_refl _ refl, of "?n div 512" oc "0 < start"] o(1) by auto
  obtain d where d: "walk_pages_down oc ?pages (0 < start) (?n div 512) (?n mod 512) (?n div 512) =
      Some (Inr (map_option (ext_index (0 < start)) d))" "down_hit ?pages ?n d"
    using walk_down_spec [OF len order_refl o refl, of oc "0 < start"] by auto
  have iter: "ext_iter_bitmap oc ext start end_index =
      (if (start \<le> end_index) = (0 < start)
       then walk_pages_up oc ?pages (0 < start) (?n div 512) (?n mod 512) (?n div 512)
       else walk_pages_down oc ?pages (0 < start) (?n div 512) (?n mod 512) (?n div 512))"
  proof -
    consider "0 < start" "\<not> start < 0" | "\<not> 0 < start" "start < 0"
      using start by (force simp: in_extension_def)
    then show ?thesis
      by cases (simp_all add: ext_iter_bitmap_def ext_offsets(1,2) [OF start] ext_pages_def)
  qed
  show ?thesis
    using u d unfolding iter by (cases "(start \<le> end_index) = (0 < start)") auto
qed

text \<open>Up the pages is away from zero, down the pages towards it.\<close>

lemma ext_index_pos:
  "n < 6144 \<Longrightarrow> ext_pos (ext_index pos n) = n \<and> in_extension (ext_index pos n) \<and>
     (0 < ext_index pos n \<longleftrightarrow> pos)"
  by (auto simp: ext_index_def ext_pos_def in_extension_def)

lemma ext_order:
  assumes "in_extension i" and "in_extension j" and "0 < i \<longleftrightarrow> 0 < j"
  shows "ext_pos i \<le> ext_pos j \<longleftrightarrow> (if 0 < i then i \<le> j else j \<le> i)"
    and "ext_pos i < ext_pos j \<longleftrightarrow> (if 0 < i then i < j else j < i)"
  using assms by (auto simp: in_extension_def ext_pos_def)

lemma up_hit_nearest:
  assumes start: "in_extension start" and pos: "pos = (0 < start)"
    and hit: "up_hit (ext_pages ext pos) (ext_pos start) r"
  shows "case r of None \<Rightarrow> none_ahead (ext_flagged ext pos) (\<not> pos) start
         | Some n \<Rightarrow> nearest (ext_flagged ext pos) (\<not> pos) start (ext_index pos n)"
proof (cases r)
  case None
  have "\<not> ext_flagged ext pos k" if "if \<not> pos then k \<le> start else start \<le> k" for k
  proof
    assume "ext_flagged ext pos k"
    then have k: "in_extension k" "0 < k \<longleftrightarrow> pos" "page_flag (ext_pages ext pos) (ext_pos k)"
      by (simp_all add: ext_flagged_def)
    have "ext_pos start \<le> ext_pos k"
      using ext_order(1) [OF start k(1)] k(2) that by (cases pos) (simp_all add: pos [symmetric])
    then show False
      using hit None k(3) ext_offsets(3) [OF k(1)] by (simp add: up_hit_def)
  qed
  with None show ?thesis
    by (simp add: none_ahead_def)
next
  case (Some n)
  then have n: "ext_pos start \<le> n" "n < 6144" "page_flag (ext_pages ext pos) n"
    "\<And>m. ext_pos start \<le> m \<Longrightarrow> m < n \<Longrightarrow> \<not> page_flag (ext_pages ext pos) m"
    using hit by (auto simp: up_hit_def)
  note idx = ext_index_pos [OF n(2), of pos]
  have "ext_flagged ext pos (ext_index pos n)"
    using idx n(3) by (simp add: ext_flagged_def)
  moreover have "if pos then start \<le> ext_index pos n else ext_index pos n \<le> start"
    using ext_order(1) [OF start, of "ext_index pos n"] idx n(1)
    by (cases pos) (simp_all add: pos [symmetric])
  moreover have "\<not> ext_flagged ext pos k"
    if "if pos then start \<le> k \<and> k < ext_index pos n else ext_index pos n < k \<and> k \<le> start" for k
  proof
    assume f: "ext_flagged ext pos k"
    then have k: "in_extension k" "0 < k \<longleftrightarrow> pos" "page_flag (ext_pages ext pos) (ext_pos k)"
      by (simp_all add: ext_flagged_def)
    have "ext_pos start \<le> ext_pos k" "ext_pos k < n"
      using ext_order(1) [OF start k(1)] ext_order(2) [OF k(1), of "ext_index pos n"] idx k(2) that
      by (cases pos; simp add: pos [symmetric])+
    with n(4) k(3) show False by blast
  qed
  ultimately show ?thesis
    using Some by (auto simp: nearest_def)
qed

lemma down_hit_nearest:
  assumes start: "in_extension start" and pos: "pos = (0 < start)"
    and hit: "down_hit (ext_pages ext pos) (ext_pos start) r"
  shows "case r of None \<Rightarrow> none_ahead (ext_flagged ext pos) pos start
         | Some n \<Rightarrow> nearest (ext_flagged ext pos) pos start (ext_index pos n)"
proof (cases r)
  case None
  have "\<not> ext_flagged ext pos k" if "if pos then k \<le> start else start \<le> k" for k
  proof
    assume "ext_flagged ext pos k"
    then have k: "in_extension k" "0 < k \<longleftrightarrow> pos" "page_flag (ext_pages ext pos) (ext_pos k)"
      by (simp_all add: ext_flagged_def)
    have "ext_pos k \<le> ext_pos start"
      using ext_order(1) [OF k(1) start] k(2) that by (cases pos) (simp_all add: pos [symmetric])
    then show False
      using hit None k(3) by (simp add: down_hit_def)
  qed
  with None show ?thesis
    by (simp add: none_ahead_def)
next
  case (Some n)
  then have n: "n \<le> ext_pos start" "page_flag (ext_pages ext pos) n"
    "\<And>m. n < m \<Longrightarrow> m \<le> ext_pos start \<Longrightarrow> \<not> page_flag (ext_pages ext pos) m"
    using hit by (auto simp: down_hit_def)
  then have "n < 6144"
    using ext_offsets(3) [OF start] by simp
  note idx = ext_index_pos [OF this, of pos]
  have "ext_flagged ext pos (ext_index pos n)"
    using idx n(2) by (simp add: ext_flagged_def)
  moreover have "if pos then ext_index pos n \<le> start else start \<le> ext_index pos n"
    using ext_order(1) [OF _ start, of "ext_index pos n"] idx n(1)
    by (cases pos) (simp_all add: pos [symmetric])
  moreover have "\<not> ext_flagged ext pos k"
    if "if pos then ext_index pos n < k \<and> k \<le> start else start \<le> k \<and> k < ext_index pos n" for k
  proof
    assume f: "ext_flagged ext pos k"
    then have k: "in_extension k" "0 < k \<longleftrightarrow> pos" "page_flag (ext_pages ext pos) (ext_pos k)"
      by (simp_all add: ext_flagged_def)
    have "n < ext_pos k" "ext_pos k \<le> ext_pos start"
      using ext_order(1) [OF k(1) start] ext_order(2) [OF _ k(1), of "ext_index pos n"] idx k(2) that
      by (cases pos; simp add: pos [symmetric])+
    with n(3) k(3) show False by blast
  qed
  ultimately show ?thesis
    using Some by (auto simp: nearest_def)
qed

text \<open>The answer of the extension search: its side and direction, and what an empty search is.\<close>

definition ext_answer :: "bitmap_extension \<Rightarrow> bool \<Rightarrow> int \<Rightarrow> (int \<times> bool) lb \<Rightarrow> bool" where
  "ext_answer ext swap_for_y start res \<longleftrightarrow>
    (let F = ext_flagged ext (0 < start); downwards = (swap_for_y \<and> start \<noteq> 512)
     in case res of
          Inl e \<Rightarrow> e = no_liquid_array \<and> none_ahead F downwards start \<and> (swap_for_y \<longleftrightarrow> start < 0)
        | Inr (j, found) \<Rightarrow>
            (if found then nearest F downwards start j
             else none_ahead F downwards start \<and> j = (if swap_for_y then 511 else - 512) \<and>
                  (swap_for_y \<longleftrightarrow> 0 < start)))"

text \<open>The extension search, in both builds and without a panic, finds the nearest flagged
  array of its side in the direction of the swap, the start included. Towards the inline range an
  empty search answers the index just inside that range, away from it it is an error. The one
  exception is a swap for Y that starts in array 512, the first of the positive side: it searches
  upwards, and answers an array above the start.\<close>

lemma dlmm_extension_search:
  assumes wf: "ext_wf ext" and start: "in_extension start" and bottom: "start \<noteq> - 6656"
  shows "\<exists>res. next_bin_array_index_with_liquidity_extension oc ext swap_for_y start = Some res \<and>
    ext_answer ext swap_for_y start res"
proof -
  let ?pos = "0 < start"
  define end_index :: int where "end_index =
    (if ?pos then if swap_for_y then 512 else 6655 else if swap_for_y then - 6656 else - 513)"
  obtain r where r: "ext_iter_bitmap oc ext start end_index =
      Some (Inr (map_option (ext_index ?pos) r))"
    and hit: "if (start \<le> end_index) = ?pos then up_hit (ext_pages ext ?pos) (ext_pos start) r
      else down_hit (ext_pages ext ?pos) (ext_pos start) r"
    using ext_iter_spec [OF wf start, of oc end_index] by blast
  have dir: "(swap_for_y \<and> start \<noteq> 512) =
      (if (start \<le> end_index) = ?pos then \<not> ?pos else ?pos)"
    using start bottom by (auto simp: end_index_def in_extension_def)
  define d where "d = (swap_for_y \<and> start \<noteq> 512)"
  have found: "case r of None \<Rightarrow> none_ahead (ext_flagged ext ?pos) d start
      | Some n \<Rightarrow> nearest (ext_flagged ext ?pos) d start (ext_index ?pos n)"
  proof (cases "(start \<le> end_index) = ?pos")
    case True
    then have "d = (\<not> ?pos)" "up_hit (ext_pages ext ?pos) (ext_pos start) r"
      using hit dir by (simp_all add: d_def)
    then show ?thesis
      using up_hit_nearest [OF start refl, of ext r] by (simp only:)
  next
    case False
    then have "d = ?pos" "down_hit (ext_pages ext ?pos) (ext_pos start) r"
      using hit dir by (simp_all add: d_def)
    then show ?thesis
      using down_hit_nearest [OF start refl, of ext r] by (simp only:)
  qed
  define none where "none = (if swap_for_y = ?pos
    then Inr (if swap_for_y then 511 else - 512, False) else Inl no_liquid_array :: (int \<times> bool) lb)"
  have res: "next_bin_array_index_with_liquidity_extension oc ext swap_for_y start =
      Some (case r of None \<Rightarrow> none | Some n \<Rightarrow> Inr (ext_index ?pos n, True))"
    using r
    by (cases r; cases swap_for_y; cases ?pos)
      (simp_all add: next_bin_array_index_with_liquidity_extension_def ext_bitmap_range_def
        end_index_def none_def bin_array_bitmap_size_def extension_bin_array_bitmap_size_def)
  have side: "?pos \<longleftrightarrow> \<not> start < 0"
    using start by (auto simp: in_extension_def)
  show ?thesis
    unfolding res ext_answer_def Let_def d_def [symmetric]
    using found by (cases r) (auto simp: none_def side)
qed

definition dlmm_example_extension :: bitmap_extension where
  "dlmm_example_extension =
     \<lparr> be_positive_bin_array_bitmap = [2, 0, 0, 0, 0, 0, 0, 0] # replicate 11 (replicate 8 0),
       be_negative_bin_array_bitmap = replicate 12 (replicate 8 0) \<rparr>"

end
