(* ===== verification/DlmmQuote.thy ===== *)
theory DlmmQuote
  imports DlmmBitmap AccountState
begin

text \<open>
  The DLMM quoter (math/quote.rs): the activation check, the search for the bin arrays of a
  swap, and the two bin walks.

  Both walks are loops the source does not bound: the outer one asks the bitmaps for the array
  to use and the inner one crosses the bins of that array. They run on fuel, one unit per round
  of either loop; \<open>None\<close> is the exhausted fuel, and below it \<open>outcome\<close> is the panic and the
  \<open>Result\<close> of the code. \<open>quote_diverges\<close> states that no fuel is enough.

  The program-derived address of a bin array is a parameter.
\<close>

section \<open>Activation\<close>

definition validate_swap_activation :: "lb_pair \<Rightarrow> u64 \<Rightarrow> u64 \<Rightarrow> unit lb" where
  "validate_swap_activation p current_timestamp current_slot =
     (if \<not> lb_pair_is_active p then Inl ''Pool is disabled''
      else if lp_pair_type p = 1 then
        (let current_point =
           (if lp_activation_type p = 0 then Some current_slot
            else if lp_activation_type p = 1 then Some current_timestamp else None)
         in case current_point of
              None \<Rightarrow> Inr ()
            | Some c \<Rightarrow> if c < lp_activation_point p then Inl ''Pool not yet activated'' else Inr ())
      else Inr ())"

section \<open>accounts.rs: the address of a bin array\<close>

definition bin_array_index_seed :: "int \<Rightarrow> bytes" where
  "bin_array_index_seed index = le_bytes 8 (unat (word_of_int index :: u64))"

definition derive_bin_array_address ::
  "(bytes list \<Rightarrow> pubkey \<Rightarrow> pubkey) \<Rightarrow> pubkey \<Rightarrow> pubkey \<Rightarrow> int \<Rightarrow> pubkey" where
  "derive_bin_array_address pda program lb_pair index =
     pda [map (\<lambda>c. of_nat (of_char c)) ''bin_array'', lb_pair, bin_array_index_seed index] program"

section \<open>The arrays of a swap\<close>

text \<open>
  The search loop for \<open>take_count\<close> indices. Each round pushes an index and moves one array on, or
  moves to the index just past the layer; the third round in a row without a push has left both
  layers, so \<open>3 * take_count + 3\<close> rounds are enough.
\<close>

definition next_liquid_array ::
  "bool \<Rightarrow> lb_pair \<Rightarrow> bitmap_extension option \<Rightarrow> bool \<Rightarrow> int \<Rightarrow> (int \<times> bool) option option" where
  "next_liquid_array oc p ext swap_for_y i =
     (if is_overflow_default_bin_array_bitmap i then
        (case ext of
           None \<Rightarrow> Some None
         | Some x \<Rightarrow>
             do { r \<leftarrow> next_bin_array_index_with_liquidity_extension oc x swap_for_y i;
                  Some (case r of Inl e \<Rightarrow> None | Inr v \<Rightarrow> Some v) })
      else do { r \<leftarrow> next_bin_array_index_with_liquidity_internal oc p swap_for_y i;
                Some (case r of Inl e \<Rightarrow> None | Inr v \<Rightarrow> Some v) })"

fun collect_arrays ::
  "nat \<Rightarrow> bool \<Rightarrow> lb_pair \<Rightarrow> bitmap_extension option \<Rightarrow> bool \<Rightarrow> nat \<Rightarrow> int \<Rightarrow> int list \<Rightarrow>
   int list option option" where
  "collect_arrays fuel oc p ext swap_for_y take_count i indices =
     (if length indices = take_count then Some (Some indices)
      else case fuel of
        0 \<Rightarrow> None
      | Suc fuel \<Rightarrow>
          (case next_liquid_array oc p ext swap_for_y i of
             None \<Rightarrow> Some None
           | Some None \<Rightarrow> Some (Some indices)
           | Some (Some (nxt, has_liq)) \<Rightarrow>
               if has_liq then
                 (case i_fit oc 32 (nxt + (if swap_for_y then - 1 else 1)) of
                    None \<Rightarrow> Some None
                  | Some j \<Rightarrow> collect_arrays fuel oc p ext swap_for_y take_count j (indices @ [nxt]))
               else collect_arrays fuel oc p ext swap_for_y take_count nxt indices))"

declare collect_arrays.simps [simp del]

definition get_bin_array_pubkeys_for_swap ::
  "nat \<Rightarrow> bool \<Rightarrow> (int \<Rightarrow> pubkey) \<Rightarrow> lb_pair \<Rightarrow> bitmap_extension option \<Rightarrow> bool \<Rightarrow> nat \<Rightarrow>
   (string, pubkey list) outcome option" where
  "get_bin_array_pubkeys_for_swap fuel oc array_key p ext swap_for_y take_count =
     (case bin_id_to_bin_array_index (sint (lp_active_id p)) of
        Inl e \<Rightarrow> Some (Some (Inl e))
      | Inr start \<Rightarrow>
          do { r \<leftarrow> collect_arrays fuel oc p ext swap_for_y take_count start [];
               Some (do { indices \<leftarrow> r; Some (Inr (map array_key indices)) }) })"

section \<open>The walks\<close>

record exact_in_quote =
  ei_amount_out :: u64
  ei_fee :: u64

record exact_out_quote =
  eo_amount_in :: u64
  eo_fee :: u64

text \<open>What a round reads and writes: the pair, the amount left and the two totals.\<close>

record walk_state =
  qs_pair :: lb_pair
  qs_left :: u64
  qs_total :: u64
  qs_fee :: u64

definition checked_add_u64 :: "u64 \<Rightarrow> u64 \<Rightarrow> u64 lb" where
  "checked_add_u64 a b = cast_u64 (ok_or (checked_add 64 (unat a) (unat b)) ''MathOverflow'')"

definition checked_sub_u64 :: "u64 \<Rightarrow> u64 \<Rightarrow> u64 lb" where
  "checked_sub_u64 a b = cast_u64 (ok_or (checked_sub (unat a) (unat b)) ''MathOverflow'')"

text \<open>\<open>get_bin_mut\<close>: reading a bin of the array and writing it back.\<close>

definition get_bin :: "bin_array \<Rightarrow> int \<Rightarrow> (nat \<times> bin) lb" where
  "get_bin a bin_id = and_then (bin_index_in_array (ba_index a) bin_id) (\<lambda>k. Inr (k, ba_bins a ! k))"

definition put_bin :: "bin_array \<Rightarrow> nat \<Rightarrow> bin \<Rightarrow> bin_array" where
  "put_bin a k b = a \<lparr> ba_bins := (ba_bins a)[k := b] \<rparr>"

text \<open>One bin of the exact-in walk.\<close>

definition take_exact_in ::
  "bin \<Rightarrow> u128 \<Rightarrow> bool \<Rightarrow> walk_state \<Rightarrow> (bin \<times> walk_state) lb" where
  "take_exact_in b price swap_for_y s =
     (if bin_is_empty b (\<not> swap_for_y) then Inr (b, s)
      else
        and_then (bin_swap b (qs_left s) price swap_for_y (qs_pair s) None) (\<lambda>(r, b').
        and_then (checked_sub_u64 (qs_left s) (bs_amount_in_with_fees r)) (\<lambda>left.
        and_then (checked_add_u64 (qs_total s) (bs_amount_out r)) (\<lambda>total.
        and_then (checked_add_u64 (qs_fee s) (bs_fee r)) (\<lambda>fee.
          Inr (b', s \<lparr> qs_left := left, qs_total := total, qs_fee := fee \<rparr>))))))"

text \<open>One bin of the exact-out walk.\<close>

definition take_exact_out ::
  "bin \<Rightarrow> u128 \<Rightarrow> bool \<Rightarrow> walk_state \<Rightarrow> (bin \<times> walk_state) lb" where
  "take_exact_out b price swap_for_y s =
     (if bin_is_empty b (\<not> swap_for_y) then Inr (b, s)
      else
        (let bin_max_out = max_amount_out b swap_for_y
         in if bin_max_out \<le> qs_left s then
              and_then (max_amount_in b price swap_for_y) (\<lambda>max_in.
              and_then (compute_fee (qs_pair s) max_in) (\<lambda>max_fee.
              and_then (checked_add_u64 (qs_total s) max_in) (\<lambda>total.
              and_then (checked_add_u64 (qs_fee s) max_fee) (\<lambda>fee.
              and_then (checked_sub_u64 (qs_left s) bin_max_out) (\<lambda>left.
                Inr (b, s \<lparr> qs_left := left, qs_total := total, qs_fee := fee \<rparr>))))))
            else
              and_then (get_amount_in (qs_left s) price swap_for_y) (\<lambda>single_in.
              and_then (compute_fee (qs_pair s) single_in) (\<lambda>fee.
              and_then (checked_add_u64 (qs_total s) single_in) (\<lambda>total.
              and_then (checked_add_u64 (qs_fee s) fee) (\<lambda>total_fee.
              and_then (checked_add_u64 single_in fee) (\<lambda>gross.
              and_then (bin_swap_exact_out b gross price swap_for_y (qs_pair s) None (qs_left s))
                (\<lambda>(_, b').
                Inr (b', s \<lparr> qs_left := 0, qs_total := total, qs_fee := total_fee \<rparr>)))))))))"

type_synonym bin_take = "bin \<Rightarrow> u128 \<Rightarrow> bool \<Rightarrow> walk_state \<Rightarrow> (bin \<times> walk_state) lb"

text \<open>One round of the inner loop: the volatility update, the bin, the advance.\<close>

definition quote_bin ::
  "bin_take \<Rightarrow> bool \<Rightarrow> bin_array \<Rightarrow> walk_state \<Rightarrow> (bin_array \<times> walk_state) lb" where
  "quote_bin take_bin swap_for_y a s =
     and_then (update_volatility_accumulator (qs_pair s)) (\<lambda>p.
       let active_id = sint (lp_active_id p) in
       and_then (get_bin a active_id) (\<lambda>(k, b).
       and_then (get_or_store_bin_price b active_id (lp_bin_step p)) (\<lambda>(price, b).
       and_then (take_bin b price swap_for_y (s \<lparr> qs_pair := p \<rparr>)) (\<lambda>(b, s).
       and_then (if 0 < qs_left s then advance_active_bin (qs_pair s) swap_for_y
                 else Inr (qs_pair s)) (\<lambda>p.
         Inr (put_bin a k b, s \<lparr> qs_pair := p \<rparr>))))))"

text \<open>The inner loop.\<close>

fun quote_array ::
  "nat \<Rightarrow> bin_take \<Rightarrow> bool \<Rightarrow> bin_array \<Rightarrow> walk_state \<Rightarrow> walk_state lb option" where
  "quote_array fuel take_bin swap_for_y a s =
     (if \<not> is_bin_id_within_range (ba_index a) (sint (lp_active_id (qs_pair s))) \<or> qs_left s = 0
      then Some (Inr s)
      else case fuel of
        0 \<Rightarrow> None
      | Suc fuel \<Rightarrow>
          (case quote_bin take_bin swap_for_y a s of
             Inl e \<Rightarrow> Some (Inl e)
           | Inr (a, s) \<Rightarrow> quote_array fuel take_bin swap_for_y a s))"

declare quote_array.simps [simp del]

text \<open>The outer loop. The array of each round is read from the caller's map again.\<close>

fun quote_walk ::
  "nat \<Rightarrow> bool \<Rightarrow> (int \<Rightarrow> pubkey) \<Rightarrow> (pubkey \<rightharpoonup> bin_array) \<Rightarrow> bitmap_extension option \<Rightarrow> bin_take \<Rightarrow>
   bool \<Rightarrow> walk_state \<Rightarrow> (string, walk_state) outcome option" where
  "quote_walk fuel oc array_key arrays ext take_bin swap_for_y s =
     (if qs_left s = 0 then Some (Some (Inr s))
      else case fuel of
        0 \<Rightarrow> None
      | Suc fuel \<Rightarrow>
          (case get_bin_array_pubkeys_for_swap (Suc fuel) oc array_key (qs_pair s) ext swap_for_y 1 of
             None \<Rightarrow> None
           | Some None \<Rightarrow> Some None
           | Some (Some (Inl e)) \<Rightarrow> Some (Some (Inl e))
           | Some (Some (Inr keys)) \<Rightarrow>
               if keys = [] then Some (Some (Inl ''Pool out of liquidity''))
               else
                 (case arrays (last keys) of
                    None \<Rightarrow> Some (Some (Inl ''Active bin array not found in cache''))
                  | Some a \<Rightarrow>
                      (case quote_array fuel take_bin swap_for_y a s of
                         None \<Rightarrow> None
                       | Some (Inl e) \<Rightarrow> Some (Some (Inl e))
                       | Some (Inr s) \<Rightarrow>
                           quote_walk fuel oc array_key arrays ext take_bin swap_for_y s))))"

declare quote_walk.simps [simp del]

section \<open>The quotes\<close>

definition quote_start :: "lb_pair \<Rightarrow> u64 \<Rightarrow> u64 \<Rightarrow> u64 \<Rightarrow> walk_state lb" where
  "quote_start p wanted current_timestamp current_slot =
     and_then (validate_swap_activation p current_timestamp current_slot) (\<lambda>_.
     and_then (update_references p current_timestamp) (\<lambda>p.
       Inr \<lparr> qs_pair = p, qs_left = wanted, qs_total = 0, qs_fee = 0 \<rparr>))"

definition quote_exact_in ::
  "nat \<Rightarrow> bool \<Rightarrow> (int \<Rightarrow> pubkey) \<Rightarrow> lb_pair \<Rightarrow> u64 \<Rightarrow> bool \<Rightarrow> (pubkey \<rightharpoonup> bin_array) \<Rightarrow>
   bitmap_extension option \<Rightarrow> u64 \<Rightarrow> u64 \<Rightarrow> (string, exact_in_quote) outcome option" where
  "quote_exact_in fuel oc array_key p amount_in swap_for_y arrays ext current_timestamp current_slot =
     (case quote_start p amount_in current_timestamp current_slot of
        Inl e \<Rightarrow> Some (Some (Inl e))
      | Inr s \<Rightarrow>
          do { r \<leftarrow> quote_walk fuel oc array_key arrays ext take_exact_in swap_for_y s;
               Some (do { q \<leftarrow> r; Some (and_then q (\<lambda>s.
                 Inr \<lparr> ei_amount_out = qs_total s, ei_fee = qs_fee s \<rparr>)) }) })"

definition quote_exact_out ::
  "nat \<Rightarrow> bool \<Rightarrow> (int \<Rightarrow> pubkey) \<Rightarrow> lb_pair \<Rightarrow> u64 \<Rightarrow> bool \<Rightarrow> (pubkey \<rightharpoonup> bin_array) \<Rightarrow>
   bitmap_extension option \<Rightarrow> u64 \<Rightarrow> u64 \<Rightarrow> (string, exact_out_quote) outcome option" where
  "quote_exact_out fuel oc array_key p amount_out swap_for_y arrays ext current_timestamp current_slot =
     (case quote_start p amount_out current_timestamp current_slot of
        Inl e \<Rightarrow> Some (Some (Inl e))
      | Inr s \<Rightarrow>
          do { r \<leftarrow> quote_walk fuel oc array_key arrays ext take_exact_out swap_for_y s;
               Some (do { q \<leftarrow> r; Some (and_then q (\<lambda>s.
                 and_then (checked_add_u64 (qs_total s) (qs_fee s)) (\<lambda>gross.
                   Inr \<lparr> eo_amount_in = gross, eo_fee = qs_fee s \<rparr>))) }) })"

section \<open>More fuel does not change an answer\<close>

lemma collect_arrays_mono:
  "collect_arrays f oc p ext s c i xs = Some r \<Longrightarrow> f \<le> g \<Longrightarrow>
     collect_arrays g oc p ext s c i xs = Some r"
proof (induction f arbitrary: g i xs)
  case 0
  then show ?case
    by (auto simp: collect_arrays.simps [of 0] collect_arrays.simps [of g] split: if_splits)
next
  case (Suc f)
  then obtain h where g: "g = Suc h" "f \<le> h"
    by (cases g) auto
  show ?case
    using Suc.prems(1) Suc.IH [OF _ g(2)]
    unfolding g(1) collect_arrays.simps [of "Suc f"] collect_arrays.simps [of "Suc h"]
    by (auto split: if_splits option.splits prod.splits)
qed

lemma array_keys_mono:
  "get_bin_array_pubkeys_for_swap f oc k p ext s c = Some r \<Longrightarrow> f \<le> g \<Longrightarrow>
     get_bin_array_pubkeys_for_swap g oc k p ext s c = Some r"
  by (auto simp: get_bin_array_pubkeys_for_swap_def bind_eq_Some_conv dest: collect_arrays_mono
      split: sum.splits)

lemma quote_array_mono:
  "quote_array f t s a q = Some r \<Longrightarrow> f \<le> g \<Longrightarrow> quote_array g t s a q = Some r"
proof (induction f arbitrary: g a q)
  case 0
  then show ?case
    by (auto simp: quote_array.simps [of 0] quote_array.simps [of g] split: if_splits)
next
  case (Suc f)
  then obtain h where g: "g = Suc h" "f \<le> h"
    by (cases g) auto
  show ?case
    using Suc.prems(1) Suc.IH [OF _ g(2)]
    unfolding g(1) quote_array.simps [of "Suc f"] quote_array.simps [of "Suc h"]
    by (auto split: if_splits sum.splits prod.splits)
qed

text \<open>Answers at two fuels agree.\<close>

lemma array_keys_agree:
  assumes "get_bin_array_pubkeys_for_swap f oc k p ext s c = Some r"
    and "get_bin_array_pubkeys_for_swap g oc k p ext s c = Some r'"
  shows "r' = r"
  using array_keys_mono [OF assms(1), of "max f g"] array_keys_mono [OF assms(2), of "max f g"]
  by simp

lemma quote_array_agree:
  assumes "quote_array f t s a q = Some r" and "quote_array g t s a q = Some r'"
  shows "r' = r"
  using quote_array_mono [OF assms(1), of "max f g"] quote_array_mono [OF assms(2), of "max f g"]
  by simp

section \<open>The rounds of the outer loop\<close>

inductive quote_round ::
  "bool \<Rightarrow> (int \<Rightarrow> pubkey) \<Rightarrow> (pubkey \<rightharpoonup> bin_array) \<Rightarrow> bitmap_extension option \<Rightarrow> bin_take \<Rightarrow> bool \<Rightarrow>
   walk_state \<Rightarrow> walk_state \<Rightarrow> bool"
  for oc array_key arrays ext take_bin swap_for_y where
  "qs_left s \<noteq> 0 \<Longrightarrow>
   get_bin_array_pubkeys_for_swap f oc array_key (qs_pair s) ext swap_for_y 1 = Some (Some (Inr keys)) \<Longrightarrow>
   keys \<noteq> [] \<Longrightarrow> arrays (last keys) = Some a \<Longrightarrow>
   quote_array g take_bin swap_for_y a s = Some (Inr s') \<Longrightarrow>
   quote_round oc array_key arrays ext take_bin swap_for_y s s'"

text \<open>A gap: the array the bitmaps name does not hold the active bin.\<close>

definition quote_gap ::
  "bool \<Rightarrow> (int \<Rightarrow> pubkey) \<Rightarrow> (pubkey \<rightharpoonup> bin_array) \<Rightarrow> bitmap_extension option \<Rightarrow> bool \<Rightarrow>
   walk_state \<Rightarrow> bool" where
  "quote_gap oc array_key arrays ext swap_for_y s \<longleftrightarrow> qs_left s \<noteq> 0 \<and>
     (\<exists>f keys a. get_bin_array_pubkeys_for_swap f oc array_key (qs_pair s) ext swap_for_y 1 =
         Some (Some (Inr keys)) \<and> keys \<noteq> [] \<and> arrays (last keys) = Some a \<and>
       \<not> is_bin_id_within_range (ba_index a) (sint (lp_active_id (qs_pair s))))"

text \<open>One unfolding of the outer loop along a round.\<close>

lemma quote_walk_round:
  assumes "quote_round oc k arrays ext t sw s s'"
  shows "quote_walk 0 oc k arrays ext t sw s = None"
    and "quote_walk (Suc f) oc k arrays ext t sw s = None \<or>
      quote_walk (Suc f) oc k arrays ext t sw s = quote_walk f oc k arrays ext t sw s'"
proof -
  from assms obtain g h keys a where left: "qs_left s \<noteq> 0"
    and keys: "get_bin_array_pubkeys_for_swap g oc k (qs_pair s) ext sw 1 = Some (Some (Inr keys))"
      "keys \<noteq> []"
    and a: "arrays (last keys) = Some a" and arr: "quote_array h t sw a s = Some (Inr s')"
    by (auto elim: quote_round.cases)
  show "quote_walk 0 oc k arrays ext t sw s = None"
    using left by (simp add: quote_walk.simps [of 0])
  show "quote_walk (Suc f) oc k arrays ext t sw s = None \<or>
      quote_walk (Suc f) oc k arrays ext t sw s = quote_walk f oc k arrays ext t sw s'"
  proof (cases "get_bin_array_pubkeys_for_swap (Suc f) oc k (qs_pair s) ext sw 1")
    case None
    then show ?thesis
      using left by (simp add: quote_walk.simps [of "Suc f"])
  next
    case (Some r)
    then have r: "r = Some (Inr keys)"
      using array_keys_agree [OF keys(1)] by blast
    show ?thesis
    proof (cases "quote_array f t sw a s")
      case None
      then show ?thesis
        using left keys a Some r by (simp add: quote_walk.simps [of "Suc f"])
    next
      case (Some q)
      then have "q = Inr s'"
        using quote_array_agree [OF arr] by blast
      then show ?thesis
        using left keys a Some \<open>get_bin_array_pubkeys_for_swap (Suc f) oc k (qs_pair s) ext sw 1 = Some r\<close> r
        by (simp add: quote_walk.simps [of "Suc f"])
    qed
  qed
qed

lemma quote_gap_round:
  assumes "quote_gap oc k arrays ext sw s"
  shows "quote_round oc k arrays ext t sw s s"
proof -
  from assms obtain f keys a where gap: "qs_left s \<noteq> 0"
    "get_bin_array_pubkeys_for_swap f oc k (qs_pair s) ext sw 1 = Some (Some (Inr keys))"
    "keys \<noteq> []" "arrays (last keys) = Some a"
    and out: "\<not> is_bin_id_within_range (ba_index a) (sint (lp_active_id (qs_pair s)))"
    unfolding quote_gap_def by blast
  from out have "quote_array 0 t sw a s = Some (Inr s)"
    by (simp add: quote_array.simps [of 0])
  with gap show ?thesis
    by (rule quote_round.intros)
qed

lemma quote_gap_diverges:
  assumes "quote_gap oc k arrays ext sw s"
  shows "quote_walk f oc k arrays ext t sw s = None"
proof (induction f)
  case 0
  show ?case
    by (rule quote_walk_round(1) [OF quote_gap_round [OF assms]])
next
  case (Suc f)
  then show ?case
    using quote_walk_round(2) [OF quote_gap_round [OF assms], where f = f and t = t] by auto
qed

lemma quote_reaches_gap_diverges:
  assumes "(quote_round oc k arrays ext t sw)\<^sup>*\<^sup>* s s'" and "quote_gap oc k arrays ext sw s'"
  shows "quote_walk f oc k arrays ext t sw s = None"
  using assms
proof (induction arbitrary: f rule: converse_rtranclp_induct)
  case base
  then show ?case by (rule quote_gap_diverges)
next
  case (step s s1)
  have "quote_walk f oc k arrays ext t sw s1 = None" for f
    using step.IH step.prems by blast
  then show ?case
    using quote_walk_round [OF step.hyps(1)] by (cases f) auto
qed

section \<open>Progress of a walk\<close>

text \<open>The bins ahead of the active one.\<close>

definition bins_ahead :: "bool \<Rightarrow> walk_state \<Rightarrow> nat" where
  "bins_ahead swap_for_y s =
     (let i = sint (lp_active_id (qs_pair s))
      in nat (if swap_for_y then i - min_bin_id else max_bin_id - i))"

definition active_in_range :: "walk_state \<Rightarrow> bool" where
  "active_in_range s \<longleftrightarrow> bin_id_in_range (sint (lp_active_id (qs_pair s)))"

text \<open>A step on a bin does not touch the pair.\<close>

definition keeps_pair :: "bin_take \<Rightarrow> bool" where
  "keeps_pair t \<longleftrightarrow> (\<forall>b price sw s b' s'. t b price sw s = Inr (b', s') \<longrightarrow> qs_pair s' = qs_pair s)"

lemma take_exact_in_keeps: "keeps_pair take_exact_in"
  by (auto simp: keeps_pair_def take_exact_in_def split: if_splits)

lemma take_exact_out_keeps: "keeps_pair take_exact_out"
  by (auto simp: keeps_pair_def take_exact_out_def Let_def split: if_splits)

lemma update_volatility_active:
  "update_volatility_accumulator p = Inr p' \<Longrightarrow> lp_active_id p' = lp_active_id p"
  by (auto simp: update_volatility_accumulator_def Let_def split: if_splits)

lemma sint_range_word: "bin_id_in_range i \<Longrightarrow> sint (word_of_int i :: i32) = i"
  by (simp add: signed_of_int signed_take_bit_int_eq_self bin_id_in_range_def min_bin_id_def
      max_bin_id_def)

lemma advance_active:
  assumes "advance_active_bin p sw = Inr p'"
  shows "sint (lp_active_id p') = sint (lp_active_id p) + (if sw then - 1 else 1)"
    and "bin_id_in_range (sint (lp_active_id p'))"
proof -
  from assms have p': "p' = p \<lparr> lp_active_id := word_of_int (sint (lp_active_id p) + (if sw then - 1 else 1)) \<rparr>"
    and range: "bin_id_in_range (sint (lp_active_id p) + (if sw then - 1 else 1))"
    by (auto simp: advance_active_bin_def bin_id_in_range_def split: if_splits)
  show "sint (lp_active_id p') = sint (lp_active_id p) + (if sw then - 1 else 1)"
    and "bin_id_in_range (sint (lp_active_id p'))"
    using sint_range_word [OF range] range by (simp_all add: p')
qed

text \<open>A round of the inner loop either finishes the amount or crosses a bin.\<close>

lemma quote_bin_progress:
  assumes t: "keeps_pair t" and range: "active_in_range s" and q: "quote_bin t sw a s = Inr (a', s')"
  shows "active_in_range s' \<and> (qs_left s' = 0 \<or> bins_ahead sw s' < bins_ahead sw s)"
proof -
  from q obtain p k b price b2 b3 s1 p2 where
    p: "update_volatility_accumulator (qs_pair s) = Inr p"
    and tk: "t b2 price sw (s \<lparr> qs_pair := p \<rparr>) = Inr (b3, s1)"
    and adv: "(if 0 < qs_left s1 then advance_active_bin (qs_pair s1) sw else Inr (qs_pair s1)) = Inr p2"
    and s': "s' = s1 \<lparr> qs_pair := p2 \<rparr>"
    by (auto simp: quote_bin_def Let_def)
  have pair: "qs_pair s1 = p"
    using t tk by (auto simp: keeps_pair_def)
  have active: "lp_active_id p = lp_active_id (qs_pair s)"
    using update_volatility_active [OF p] .
  show ?thesis
  proof (cases "qs_left s1 = 0")
    case True
    with adv have "p2 = p"
      by (simp add: pair)
    with True s' active range show ?thesis
      by (simp add: active_in_range_def)
  next
    case False
    then have "advance_active_bin p sw = Inr p2"
      using adv by (simp add: pair word_neq_0_conv)
    note adv = advance_active [OF this]
    have "bins_ahead sw s' < bins_ahead sw s"
      using adv range active
      by (auto simp: bins_ahead_def s' active_in_range_def bin_id_in_range_def Let_def)
    with adv(2) show ?thesis
      by (simp add: s' active_in_range_def)
  qed
qed

lemma quote_array_progress:
  assumes t: "keeps_pair t" and "active_in_range s" and "bins_ahead sw s < f"
  shows "\<exists>r. quote_array f t sw a s = Some r \<and>
    (\<forall>s'. r = Inr s' \<longrightarrow> active_in_range s' \<and>
       (if is_bin_id_within_range (ba_index a) (sint (lp_active_id (qs_pair s))) \<and> qs_left s \<noteq> 0
        then qs_left s' = 0 \<or> bins_ahead sw s' < bins_ahead sw s else s' = s))"
  using assms(2,3)
proof (induction f arbitrary: a s)
  case 0
  then show ?case by simp
next
  case (Suc f)
  show ?case
  proof (cases "is_bin_id_within_range (ba_index a) (sint (lp_active_id (qs_pair s))) \<and> qs_left s \<noteq> 0")
    case False
    then show ?thesis
      using Suc.prems(1) by (auto simp: quote_array.simps [of "Suc f"])
  next
    case act: True
    show ?thesis
    proof (cases "quote_bin t sw a s")
      case (Inl e)
      with act show ?thesis
        by (simp add: quote_array.simps [of "Suc f"])
    next
      case (Inr x)
      obtain a1 s1 where x: "x = (a1, s1)" by (cases x)
      have step: "active_in_range s1" "qs_left s1 = 0 \<or> bins_ahead sw s1 < bins_ahead sw s"
        using quote_bin_progress [OF t Suc.prems(1)] Inr x by blast+
      have eq: "quote_array (Suc f) t sw a s = quote_array f t sw a1 s1"
        using act Inr x by (simp add: quote_array.simps [of "Suc f"])
      show ?thesis
      proof (cases "qs_left s1 = 0")
        case True
        then have "quote_array f t sw a1 s1 = Some (Inr s1)"
          by (subst quote_array.simps) simp
        with eq True step(1) act show ?thesis
          by simp
      next
        case False
        then have less: "bins_ahead sw s1 < bins_ahead sw s"
          using step(2) by blast
        then have "bins_ahead sw s1 < f"
          using Suc.prems(2) by simp
        from Suc.IH [OF step(1) this, of a1] obtain r where r: "quote_array f t sw a1 s1 = Some r"
          and ok: "\<forall>s'. r = Inr s' \<longrightarrow> active_in_range s' \<and>
            (if is_bin_id_within_range (ba_index a1) (sint (lp_active_id (qs_pair s1))) \<and> qs_left s1 \<noteq> 0
             then qs_left s' = 0 \<or> bins_ahead sw s' < bins_ahead sw s1 else s' = s1)"
          by blast
        have "active_in_range s' \<and> (qs_left s' = 0 \<or> bins_ahead sw s' < bins_ahead sw s)"
          if "r = Inr s'" for s'
          using ok that less step by (auto split: if_splits)
        with r eq act show ?thesis
          by simp
      qed
    qed
  qed
qed

section \<open>The search for one array returns\<close>

lemma internal_not_found:
  "next_bin_array_index_with_liquidity_internal oc p sw i = Some (Inr (j, False)) \<Longrightarrow>
     j = (if sw then - 513 else 512)"
  by (auto simp: next_bin_array_index_with_liquidity_internal_def Let_def lb_pair_bitmap_range_def
      bin_array_bitmap_size_def bind_eq_Some_conv split: if_splits)

lemma extension_not_found:
  "next_bin_array_index_with_liquidity_extension oc x sw i = Some (Inr (j, False)) \<Longrightarrow>
     (0 < i \<and> sw \<and> j = 511) \<or> (\<not> 0 < i \<and> \<not> sw \<and> j = - 512)"
  by (auto simp: next_bin_array_index_with_liquidity_extension_def Let_def ext_bitmap_range_def
      bin_array_bitmap_size_def bind_eq_Some_conv no_liquid_array_def
      split: if_splits option.splits)

lemma ok_Some: "(case r of Inl e \<Rightarrow> None | Inr v \<Rightarrow> Some v) = Some v' \<longleftrightarrow> r = Inr v'"
  by (cases r) auto

lemma next_array_not_found:
  assumes "next_liquid_array oc p ext sw i = Some (Some (j, False))"
  shows "(\<not> is_overflow_default_bin_array_bitmap i \<and> j = (if sw then - 513 else 512)) \<or>
    (is_overflow_default_bin_array_bitmap i \<and> (0 < i \<longleftrightarrow> sw) \<and> j = (if sw then 511 else - 512))"
proof (cases "is_overflow_default_bin_array_bitmap i")
  case True
  then obtain x where x: "next_bin_array_index_with_liquidity_extension oc x sw i = Some (Inr (j, False))"
    using assms
    by (auto simp: next_liquid_array_def bind_eq_Some_conv ok_Some split: option.splits)
  with True show ?thesis
    using extension_not_found [OF x] by auto
next
  case False
  then have "next_bin_array_index_with_liquidity_internal oc p sw i = Some (Inr (j, False))"
    using assms by (auto simp: next_liquid_array_def bind_eq_Some_conv ok_Some)
  with False show ?thesis
    using internal_not_found by blast
qed

lemma collect_one_round:
  assumes "\<And>j. next_liquid_array oc p ext sw i = Some (Some (j, False)) \<Longrightarrow>
     collect_arrays f oc p ext sw 1 j [] \<noteq> None"
  shows "collect_arrays (Suc f) oc p ext sw 1 i [] \<noteq> None"
proof (cases "next_liquid_array oc p ext sw i")
  case None
  then show ?thesis by (simp add: collect_arrays.simps [of "Suc f"])
next
  case (Some r)
  show ?thesis
  proof (cases r)
    case None
    with Some show ?thesis by (simp add: collect_arrays.simps [of "Suc f"])
  next
    case (Some x)
    obtain j found where x: "x = (j, found)" by (cases x)
    have pushed: "collect_arrays f oc p ext sw 1 k [j] = Some (Some [j])" for k
      by (subst collect_arrays.simps) simp
    show ?thesis
      using assms [of j] pushed Some x \<open>next_liquid_array oc p ext sw i = Some r\<close>
      by (cases found) (auto simp: collect_arrays.simps [of "Suc f"] split: option.splits)
  qed
qed

lemma collect_one: "collect_arrays (Suc (Suc (Suc f))) oc p ext sw 1 i [] \<noteq> None"
proof -
  text \<open>The layers a search in one direction passes: extension, inline, extension.\<close>
  have last_layer: "collect_arrays (Suc f) oc p ext sw 1 (if sw then - 513 else 512) [] \<noteq> None" for f
  proof (rule collect_one_round)
    fix j
    assume "next_liquid_array oc p ext sw (if sw then - 513 else 512) = Some (Some (j, False))"
    from next_array_not_found [OF this]
    have False
      by (auto simp: not_overflow_iff split: if_splits)
    then show "collect_arrays f oc p ext sw 1 j [] \<noteq> None" ..
  qed
  have inline: "collect_arrays (Suc (Suc f)) oc p ext sw 1 i [] \<noteq> None"
    if "\<not> is_overflow_default_bin_array_bitmap i" for f i
  proof (rule collect_one_round)
    fix j
    assume "next_liquid_array oc p ext sw i = Some (Some (j, False))"
    from next_array_not_found [OF this] that have "j = (if sw then - 513 else 512)"
      by blast
    then show "collect_arrays (Suc f) oc p ext sw 1 j [] \<noteq> None"
      using last_layer by blast
  qed
  show ?thesis
  proof (rule collect_one_round)
    fix j
    assume "next_liquid_array oc p ext sw i = Some (Some (j, False))"
    from next_array_not_found [OF this]
    have "j = (if sw then - 513 else 512) \<or> \<not> is_overflow_default_bin_array_bitmap j"
      by (auto simp: not_overflow_iff)
    then show "collect_arrays (Suc (Suc f)) oc p ext sw 1 j [] \<noteq> None"
      using last_layer inline by blast
  qed
qed

lemma array_keys_return:
  "get_bin_array_pubkeys_for_swap (Suc (Suc (Suc f))) oc k p ext sw 1 \<noteq> None"
proof (cases "bin_id_to_bin_array_index (sint (lp_active_id p))")
  case (Inl e)
  then show ?thesis by (simp add: get_bin_array_pubkeys_for_swap_def)
next
  case (Inr i)
  then show ?thesis
    using collect_one [of f oc p ext sw i]
    by (auto simp: get_bin_array_pubkeys_for_swap_def bind_eq_None_conv)
qed

section \<open>Returning or meeting a gap\<close>

lemma quote_walk_returns_or_gap:
  assumes t: "keeps_pair t" and "active_in_range s" and "bins_ahead sw s + 4 \<le> f"
  shows "quote_walk f oc k arrays ext t sw s \<noteq> None \<or>
    (\<exists>s'. (quote_round oc k arrays ext t sw)\<^sup>*\<^sup>* s s' \<and> quote_gap oc k arrays ext sw s')"
  using assms(2,3)
proof (induction f arbitrary: s)
  case 0
  then show ?case by simp
next
  case (Suc f)
  obtain f' where f': "Suc f = Suc (Suc (Suc f'))"
    using Suc.prems(2) by (cases f; cases "f - 1") auto
  have left0: "quote_walk g oc k arrays ext t sw s' \<noteq> None" if "qs_left s' = 0" for g s'
    using that by (subst quote_walk.simps) simp
  show ?case
  proof (cases "qs_left s = 0")
    case True
    then show ?thesis using left0 by blast
  next
    case left: False
    obtain r where r: "get_bin_array_pubkeys_for_swap (Suc f) oc k (qs_pair s) ext sw 1 = Some r"
      using array_keys_return [of f' oc k "qs_pair s" ext sw] f' by auto
    show ?thesis
    proof (cases "\<exists>keys a. r = Some (Inr keys) \<and> keys \<noteq> [] \<and> arrays (last keys) = Some a")
      case False
      have "quote_walk (Suc f) oc k arrays ext t sw s \<noteq> None"
      proof (cases r)
        case None
        with left r show ?thesis by (simp add: quote_walk.simps [of "Suc f"])
      next
        case (Some x)
        with left r False show ?thesis
          by (cases x) (auto simp: quote_walk.simps [of "Suc f"] split: option.splits)
      qed
      then show ?thesis ..
    next
      case True
      then obtain keys a where keys: "r = Some (Inr keys)" "keys \<noteq> []" "arrays (last keys) = Some a"
        by blast
      show ?thesis
      proof (cases "is_bin_id_within_range (ba_index a) (sint (lp_active_id (qs_pair s)))")
        case False
        then have "quote_gap oc k arrays ext sw s"
          using left r keys unfolding quote_gap_def by blast
        then show ?thesis by blast
      next
        case within: True
        have "bins_ahead sw s < f"
          using Suc.prems(2) by simp
        from quote_array_progress [OF t Suc.prems(1) this, of a]
        obtain q where q: "quote_array f t sw a s = Some q"
          and ok: "\<forall>s'. q = Inr s' \<longrightarrow> active_in_range s' \<and>
            (qs_left s' = 0 \<or> bins_ahead sw s' < bins_ahead sw s)"
          using within left by auto
        show ?thesis
        proof (cases q)
          case (Inl e)
          with left r keys q show ?thesis
            by (simp add: quote_walk.simps [of "Suc f"])
        next
          case (Inr s1)
          have eq: "quote_walk (Suc f) oc k arrays ext t sw s = quote_walk f oc k arrays ext t sw s1"
            using left r keys q Inr by (simp add: quote_walk.simps [of "Suc f"])
          have round: "quote_round oc k arrays ext t sw s s1"
            using left r keys q Inr by (auto intro: quote_round.intros)
          show ?thesis
          proof (cases "qs_left s1 = 0")
            case True
            then show ?thesis using left0 eq by simp
          next
            case False
            then have "active_in_range s1" "bins_ahead sw s1 + 4 \<le> f"
              using ok Inr Suc.prems(2) by auto
            from Suc.IH [OF this] show ?thesis
              using round eq by (metis converse_rtranclp_into_rtranclp)
          qed
        qed
      qed
    qed
  qed
qed

definition enough_fuel :: nat where
  "enough_fuel = 887276"

lemma bins_ahead_le: "active_in_range s \<Longrightarrow> bins_ahead sw s + 4 \<le> enough_fuel"
  by (auto simp: bins_ahead_def active_in_range_def bin_id_in_range_def enough_fuel_def
      min_bin_id_def max_bin_id_def Let_def)

text \<open>The start of a quote keeps the active bin.\<close>

lemma quote_start_active:
  assumes "quote_start p n ts slot = Inr s"
  shows "lp_active_id (qs_pair s) = lp_active_id p" and "qs_left s = n"
  using assms
  by (auto simp: quote_start_def update_references_def Let_def split: if_splits)

text \<open>C33: A DLMM quote returns or runs forever, and which of the two is decided by a gap. From an
  active bin in the legal range, either fuel for one round per bin of the id space is enough for
  the exact-in quote to return (a result, an error or a panic), or the walk reaches a state with
  input left whose active bin lies outside the array the bitmaps name, and no fuel is enough.\<close>

theorem dlmm_quote_returns_or_gap:
  assumes "bin_id_in_range (sint (lp_active_id p))"
  shows "(\<forall>fuel \<ge> enough_fuel. quote_exact_in fuel oc array_key p amount_in swap_for_y arrays ext
            current_timestamp current_slot \<noteq> None) \<or>
    (\<exists>s s'. quote_start p amount_in current_timestamp current_slot = Inr s \<and>
       (quote_round oc array_key arrays ext take_exact_in swap_for_y)\<^sup>*\<^sup>* s s' \<and>
       quote_gap oc array_key arrays ext swap_for_y s' \<and>
       (\<forall>fuel. quote_exact_in fuel oc array_key p amount_in swap_for_y arrays ext
            current_timestamp current_slot = None))"
proof (cases "quote_start p amount_in current_timestamp current_slot")
  case (Inl e)
  then show ?thesis by (simp add: quote_exact_in_def)
next
  case (Inr s)
  let ?walk = "\<lambda>f. quote_walk f oc array_key arrays ext take_exact_in swap_for_y s"
  have eq: "quote_exact_in f oc array_key p amount_in swap_for_y arrays ext current_timestamp
      current_slot = None \<longleftrightarrow> ?walk f = None" for f
    using Inr by (simp add: quote_exact_in_def bind_eq_None_conv)
  have range: "active_in_range s"
    using assms quote_start_active(1) [OF Inr] by (simp add: active_in_range_def)
  show ?thesis
  proof (cases "\<exists>s'. (quote_round oc array_key arrays ext take_exact_in swap_for_y)\<^sup>*\<^sup>* s s' \<and>
      quote_gap oc array_key arrays ext swap_for_y s'")
    case True
    then show ?thesis
      using Inr quote_reaches_gap_diverges [of oc array_key arrays ext take_exact_in swap_for_y s]
      by (simp only: eq) blast
  next
    case False
    then show ?thesis
      using quote_walk_returns_or_gap [OF take_exact_in_keeps range] bins_ahead_le [OF range]
      by (simp only: eq) (meson order_trans)
  qed
qed

theorem dlmm_quote_returns_or_gap_witness:
  "(\<forall>fuel \<ge> enough_fuel. quote_exact_in fuel False (\<lambda>_. []) dlmm_example_pair 1000 True Map.empty None 0 0 \<noteq> None) \<or>
   (\<forall>fuel. quote_exact_in fuel False (\<lambda>_. []) dlmm_example_pair 1000 True Map.empty None 0 0 = None)"
proof -
  have "bin_id_in_range (sint (lp_active_id dlmm_example_pair))"
    by (simp add: dlmm_example_pair_def bin_id_in_range_def min_bin_id_def max_bin_id_def)
  from dlmm_quote_returns_or_gap [OF this, of False "\<lambda>_. []" 1000 True Map.empty None 0 0] show ?thesis by blast
qed

text \<open>C34: A quote that starts in an array without a flag never returns. When the nearest flagged
  array in the direction of the swap is another one than the active bin's and the caller supplies
  it, neither quote returns for any fuel: the walk asks for the array again and again without
  moving the active bin to it.\<close>

theorem dlmm_quote_hangs_on_gap:
  assumes active: "bin_id_in_range (sint (lp_active_id p))"
    and inline: "\<not> is_overflow_default_bin_array_bitmap (sint (lp_active_id p) div 70)"
    and unflagged: "\<not> array_flagged p (sint (lp_active_id p) div 70)"
    and flagged: "nearest (array_flagged p) swap_for_y (sint (lp_active_id p) div 70) j"
    and supplied: "arrays (array_key j) = Some a" "sint (ba_index a) = j"
    and started: "quote_start p wanted current_timestamp current_slot = Inr s" and some: "wanted \<noteq> 0"
  shows "quote_exact_in fuel oc array_key p wanted swap_for_y arrays ext current_timestamp current_slot = None
    \<and> quote_exact_out fuel oc array_key p wanted swap_for_y arrays ext current_timestamp current_slot = None"
proof -
  let ?i = "sint (lp_active_id p) div 70"
  note st = quote_start_active [OF started]
  have flags: "array_flagged (qs_pair s) = array_flagged p"
    using started
    by (auto simp: quote_start_def update_references_def array_flagged_def Let_def fun_eq_iff
        split: if_splits)
  obtain j' found where search:
    "next_bin_array_index_with_liquidity_internal oc (qs_pair s) swap_for_y ?i = Some (Inr (j', found))"
    "found \<longrightarrow> nearest (array_flagged p) swap_for_y ?i j'"
    "\<not> found \<longrightarrow> none_ahead (array_flagged p) swap_for_y ?i"
    using dlmm_inline_search_found [OF inline, of oc "qs_pair s" swap_for_y] flags by auto
  have found: found
    using search(3) flagged by (auto simp: none_ahead_def nearest_def split: if_splits)
  have j': "j' = j"
    using search(2) found flagged by (auto simp: nearest_def split: if_splits) (metis linorder_less_linear)+
  have "j \<noteq> ?i"
    using unflagged flagged by (auto simp: nearest_def)
  have idx: "bin_id_to_bin_array_index (sint (lp_active_id (qs_pair s))) = Inr ?i"
    using bin_id_to_bin_array_index_floor bin_id_in_range_signed [OF active] st(1) by simp
  have "- 512 \<le> j" "j \<le> 511"
    using flagged by (auto simp: nearest_def array_flagged_def)
  then obtain nxt where nxt: "i_fit oc 32 (j + (if swap_for_y then - 1 else 1)) = Some nxt"
    by (cases swap_for_y) (auto simp: i_fit_ok in_signed_def)
  have "collect_arrays (Suc 0) oc (qs_pair s) ext swap_for_y 1 ?i [] = Some (Some [j])"
    using search(1) found inline nxt
    by (simp add: collect_arrays.simps [of "Suc 0"] collect_arrays.simps [of 0] next_liquid_array_def j')
  then have "get_bin_array_pubkeys_for_swap (Suc 0) oc array_key (qs_pair s) ext swap_for_y 1 =
      Some (Some (Inr [array_key j]))"
    by (simp add: get_bin_array_pubkeys_for_swap_def idx)
  moreover have "\<not> is_bin_id_within_range (ba_index a) (sint (lp_active_id (qs_pair s)))"
    using is_bin_id_within_range_iff [OF active] supplied(2) \<open>j \<noteq> ?i\<close> st(1) by simp
  ultimately have "quote_gap oc array_key arrays ext swap_for_y s"
    using supplied(1) st(2) some unfolding quote_gap_def by fastforce
  from quote_gap_diverges [OF this] started show ?thesis
    by (simp add: quote_exact_in_def quote_exact_out_def)
qed

text \<open>A pair whose active bin 350 lies in array 5, with only array 0 flagged.\<close>

definition dlmm_gap_pair :: lb_pair where
  "dlmm_gap_pair = dlmm_example_pair \<lparr> lp_active_id := 350 \<rparr>"

definition dlmm_gap_key :: "int \<Rightarrow> pubkey" where
  "dlmm_gap_key = derive_bin_array_address (\<lambda>seeds program. concat seeds) [] []"

definition dlmm_gap_arrays :: "pubkey \<rightharpoonup> bin_array" where
  "dlmm_gap_arrays =
     [dlmm_gap_key 0 \<mapsto> \<lparr> ba_index = 0, ba_bins = replicate 70 dlmm_example_bin \<rparr>]"

theorem dlmm_quote_hangs_on_gap_witness:
  "\<forall>fuel. quote_exact_in fuel False dlmm_gap_key dlmm_gap_pair 1000 True dlmm_gap_arrays None 0 0 = None"
proof
  fix fuel
  have flag: "array_flagged dlmm_gap_pair i \<longleftrightarrow> i = 0" if "0 \<le> i" "i \<le> 5" for i
  proof -
    have "i = 0 \<or> i = 1 \<or> i = 2 \<or> i = 3 \<or> i = 4 \<or> i = 5"
      using that by arith
    then show ?thesis
      by (auto simp: array_flagged_def dlmm_gap_pair_def dlmm_example_pair_def bit_from_limbs
          nth_append)
  qed
  have active: "sint (lp_active_id dlmm_gap_pair) = 350"
    by (simp add: dlmm_gap_pair_def)
  have range: "bin_id_in_range (sint (lp_active_id dlmm_gap_pair))"
    by (simp add: active bin_id_in_range_def min_bin_id_def max_bin_id_def)
  have near: "nearest (array_flagged dlmm_gap_pair) True (sint (lp_active_id dlmm_gap_pair) div 70) 0"
    using flag by (auto simp: nearest_def active)
  have start: "quote_start dlmm_gap_pair 1000 0 0 =
      Inr \<lparr> qs_pair = dlmm_gap_pair, qs_left = 1000, qs_total = 0, qs_fee = 0 \<rparr>"
    by (simp add: quote_start_def validate_swap_activation_def lb_pair_is_active_def lp_pair_status_def
        pair_status_from_u8_def update_references_def dlmm_gap_pair_def dlmm_example_pair_def
        lb_ok in_signed_def)
  have supplied: "dlmm_gap_arrays (dlmm_gap_key 0) =
      Some \<lparr> ba_index = 0, ba_bins = replicate 70 dlmm_example_bin \<rparr>"
    by (simp add: dlmm_gap_arrays_def)
  have inline: "\<not> is_overflow_default_bin_array_bitmap (sint (lp_active_id dlmm_gap_pair) div 70)"
    by (simp add: active not_overflow_iff)
  have unflagged: "\<not> array_flagged dlmm_gap_pair (sint (lp_active_id dlmm_gap_pair) div 70)"
    using flag [of 5] by (simp add: active)
  show "quote_exact_in fuel False dlmm_gap_key dlmm_gap_pair 1000 True dlmm_gap_arrays None 0 0 = None"
    using dlmm_quote_hangs_on_gap [where arrays = dlmm_gap_arrays and array_key = dlmm_gap_key,
        OF range inline unflagged near supplied _ start]
    by simp
qed

end
