(* ===== verification/DlmmPositions.thy ===== *)
theory DlmmPositions
  imports DlmmQuote F64
begin

text \<open>
  DLMM accounts and positions (state.rs, accounts.rs, positions/*.rs): the guarded decoders of
  the SDK accounts, the position with its appended bins, the bin arrays a position covers, the
  value and the uncollected fees of a position, and the liquidity distributions of a deposit.

  The borsh layouts of the SDK accounts are not part of the repository: a decoder is a parameter
  that answers the account or the text of its error.
\<close>

section \<open>state.rs: guarded decoding\<close>

fun join_comma :: "string list \<Rightarrow> string" where
  "join_comma [] = []"
| "join_comma [x] = x"
| "join_comma (x # y # xs) = x @ '', '' @ join_comma (y # xs)"

text \<open>The debug form of a byte array.\<close>

definition debug_bytes :: "bytes \<Rightarrow> string" where
  "debug_bytes bs = ''['' @ join_comma (map (\<lambda>b. show_nat (unat b)) bs) @ '']''"

definition disc_mismatch_text :: "string \<Rightarrow> bytes \<Rightarrow> bytes \<Rightarrow> string" where
  "disc_mismatch_text label expected data =
     label @ '': discriminator mismatch (expected '' @ debug_bytes expected @ '', got '' @
     debug_bytes (take 8 data) @ '')''"

definition decode_with_discriminator ::
  "(bytes \<Rightarrow> string + 'a) \<Rightarrow> bytes \<Rightarrow> bytes \<Rightarrow> string \<Rightarrow> error + 'a" where
  "decode_with_discriminator try_from_slice data expected label =
     (if length data < 8 then Inl (AccountDataTooShort 8 (length data))
      else if take 8 data \<noteq> expected
        then Inl (parse_error (disc_mismatch_text label expected data))
      else (case try_from_slice data of
              Inl e \<Rightarrow> Inl (parse_error (label @ '': borsh decode failed: '' @ e))
            | Inr a \<Rightarrow> Inr a))"

definition decode_lb_pair :: "(bytes \<Rightarrow> string + lb_pair) \<Rightarrow> bytes \<Rightarrow> bytes \<Rightarrow> error + lb_pair" where
  "decode_lb_pair sdk disc data = decode_with_discriminator sdk data disc ''LbPair''"

definition decode_bin_array :: "(bytes \<Rightarrow> string + bin_array) \<Rightarrow> bytes \<Rightarrow> bytes \<Rightarrow> error + bin_array" where
  "decode_bin_array sdk disc data = decode_with_discriminator sdk data disc ''BinArray''"

definition decode_bin_array_bitmap_extension ::
  "(bytes \<Rightarrow> string + bitmap_extension) \<Rightarrow> bytes \<Rightarrow> bytes \<Rightarrow> error + bitmap_extension" where
  "decode_bin_array_bitmap_extension sdk disc data =
     decode_with_discriminator sdk data disc ''BinArrayBitmapExtension''"

section \<open>state.rs: positions\<close>

record fee_info =
  fi_fee_x_per_token_complete :: u128
  fi_fee_y_per_token_complete :: u128
  fi_fee_x_pending :: u64
  fi_fee_y_pending :: u64

record position_v2 =
  pv_lower_bin_id :: i32
  pv_upper_bin_id :: i32
  pv_liquidity_shares :: "u128 list"
  pv_fee_infos :: "fee_info list"

text \<open>The record of an appended bin; its reward part is the SDK's.\<close>

record 'r position_bin_data =
  pb_liquidity_share :: u128
  pb_reward_info :: 'r
  pb_fee_info :: fee_info

record 'r position_v2_full =
  pf_base :: position_v2
  pf_extended_bins :: "'r position_bin_data list"

definition decode_position_v2 ::
  "(bytes \<Rightarrow> string + position_v2) \<Rightarrow> bytes \<Rightarrow> bytes \<Rightarrow> error + position_v2" where
  "decode_position_v2 sdk disc data =
     (if length data < 8 then Inl (AccountDataTooShort 8 (length data))
      else if take 8 data \<noteq> disc
        then Inl (parse_error (disc_mismatch_text ''PositionV2'' disc data))
      else (case sdk data of
              Inl e \<Rightarrow> Inl (parse_error (''PositionV2: borsh decode failed: '' @ e))
            | Inr a \<Rightarrow> Inr a))"

text \<open>\<open>(upper - lower + 1).max(0) as usize\<close>.\<close>

definition range_bins :: "bool \<Rightarrow> i32 \<Rightarrow> i32 \<Rightarrow> nat option" where
  "range_bins oc lower upper =
     do { d \<leftarrow> i_fit oc 32 (sint upper - sint lower);
          w \<leftarrow> i_fit oc 32 (d + 1);
          Some (nat w) }"

definition bin_count :: "bool \<Rightarrow> 'r position_v2_full \<Rightarrow> nat option" where
  "bin_count oc p = range_bins oc (pv_lower_bin_id (pf_base p)) (pv_upper_bin_id (pf_base p))"

definition list_get :: "'a list \<Rightarrow> nat \<Rightarrow> 'a option" where
  "list_get xs i = (if i < length xs then Some (xs ! i) else None)"

definition pf_liquidity_share :: "bool \<Rightarrow> 'r position_v2_full \<Rightarrow> nat \<Rightarrow> u128 option option" where
  "pf_liquidity_share oc p offset =
     do { n \<leftarrow> bin_count oc p;
          let shares = pv_liquidity_shares (pf_base p);
          Some (if n \<le> offset then None
                else if offset < length shares then list_get shares offset
                else map_option pb_liquidity_share
                       (list_get (pf_extended_bins p) (offset - length shares))) }"

definition pf_fee_info :: "bool \<Rightarrow> 'r position_v2_full \<Rightarrow> nat \<Rightarrow> fee_info option option" where
  "pf_fee_info oc p offset =
     do { n \<leftarrow> bin_count oc p;
          let infos = pv_fee_infos (pf_base p);
          Some (if n \<le> offset then None
                else if offset < length infos then list_get infos offset
                else map_option pb_fee_info
                       (list_get (pf_extended_bins p) (offset - length infos))) }"

text \<open>The appended records, read one after the other; the borsh reader of one is a parameter.\<close>

definition append_error :: "nat \<Rightarrow> nat \<Rightarrow> string \<Rightarrow> error" where
  "append_error i n_all e = parse_error (''PositionV2: appended bin '' @ show_nat i @ ''/'' @
     show_nat n_all @ '' decode failed: '' @ e)"

primrec read_appended ::
  "(bytes \<Rightarrow> string + ('r position_bin_data \<times> bytes)) \<Rightarrow> nat \<Rightarrow> nat \<Rightarrow> bytes \<Rightarrow>
   error + 'r position_bin_data list" where
  "read_appended sdk_bin n_all 0 cur = Inr []"
| "read_appended sdk_bin n_all (Suc n) cur =
     (case sdk_bin cur of
        Inl e \<Rightarrow> Inl (append_error (n_all - Suc n) n_all e)
      | Inr (b, cur) \<Rightarrow>
          (case read_appended sdk_bin n_all n cur of
             Inl e \<Rightarrow> Inl e
           | Inr bs \<Rightarrow> Inr (b # bs)))"

text \<open>\<open>len\<close> is the size of the fixed account in the SDK.\<close>

definition decode_position_v2_full ::
  "bool \<Rightarrow> (bytes \<Rightarrow> string + position_v2) \<Rightarrow> (bytes \<Rightarrow> string + ('r position_bin_data \<times> bytes)) \<Rightarrow>
   nat \<Rightarrow> bytes \<Rightarrow> bytes \<Rightarrow> (error, 'r position_v2_full) outcome" where
  "decode_position_v2_full oc sdk sdk_bin len disc data =
     (case decode_position_v2 sdk disc data of
        Inl e \<Rightarrow> Some (Inl e)
      | Inr base \<Rightarrow> do {
          width \<leftarrow> range_bins oc (pv_lower_bin_id base) (pv_upper_bin_id base);
          let extended_count = saturating_sub width (length (pv_liquidity_shares base));
          Some
            (if extended_count = 0 then Inr \<lparr> pf_base = base, pf_extended_bins = [] \<rparr>
             else if length data < len then Inl (AccountDataTooShort len (length data))
             else (case read_appended sdk_bin extended_count extended_count (drop len data) of
                     Inl e \<Rightarrow> Inl e
                   | Inr bs \<Rightarrow> Inr \<lparr> pf_base = base, pf_extended_bins = bs \<rparr>)) })"

section \<open>positions/coverage.rs\<close>

definition bin_array_keys_for_range ::
  "(int \<Rightarrow> pubkey) \<Rightarrow> i32 \<Rightarrow> i32 \<Rightarrow> pubkey list lb" where
  "bin_array_keys_for_range array_key lower upper =
     (if sint upper < sint lower then Inl ''LBError::InvalidBinId''
      else
        and_then (bin_id_to_bin_array_index (sint lower)) (\<lambda>lower_idx.
        and_then (bin_id_to_bin_array_index (sint upper)) (\<lambda>upper_idx.
          Inr (map array_key [lower_idx..upper_idx]))))"

definition bin_array_keys_for_position :: "(int \<Rightarrow> pubkey) \<Rightarrow> position_v2 \<Rightarrow> pubkey list lb" where
  "bin_array_keys_for_position array_key p =
     bin_array_keys_for_range array_key (pv_lower_bin_id p) (pv_upper_bin_id p)"

section \<open>positions/view.rs\<close>

datatype position_range_status = InRange | BelowRange | AboveRange

record position_metrics =
  pm_current_value_x :: u64
  pm_current_value_y :: u64
  pm_uncollected_fee_x :: u64
  pm_uncollected_fee_y :: u64
  pm_range_status :: position_range_status
  pm_range_width_bins :: u32

definition pick_array_for_bin :: "bin_array list \<Rightarrow> int \<Rightarrow> bin_array lb" where
  "pick_array_for_bin arrays bin_id =
     ok_or (find (\<lambda>a. is_bin_id_within_range (ba_index a) bin_id) arrays)
       ''position bin id not covered by any cached bin array''"

definition bin_share_to_amounts :: "bin \<Rightarrow> u128 \<Rightarrow> (u64 \<times> u64) lb" where
  "bin_share_to_amounts b share =
     (if bn_liquidity_supply b = 0 then Inr (0, 0)
      else
        and_then (ok_or (mul_div (unat share) (unat (bn_amount_x b)) (unat (bn_liquidity_supply b)) Down)
                   math_overflow) (\<lambda>x_amt.
        and_then (ok_or (mul_div (unat share) (unat (bn_amount_y b)) (unat (bn_liquidity_supply b)) Down)
                   math_overflow) (\<lambda>y_amt.
        and_then (to_u64 x_amt) (\<lambda>x.
        and_then (to_u64 y_amt) (\<lambda>y. Inr (x, y))))))"

definition uncollected_fee :: "u128 \<Rightarrow> u128 \<Rightarrow> u128 \<Rightarrow> u64 \<Rightarrow> u64 lb" where
  "uncollected_fee stored complete share pending =
     and_then
       (if stored \<le> complete then Inr 0
        else
          and_then (ok_or (checked_mul 128 (unat stored - unat complete) (unat share)) math_overflow)
            (\<lambda>raw. to_u64 (raw div 2 ^ scale_offset)))
       (\<lambda>newly_accrued. add_u64 pending newly_accrued)"

text \<open>The four running sums of the walk over the bins.\<close>

type_synonym sums = "u64 \<times> u64 \<times> u64 \<times> u64"

definition metrics_of_bin ::
  "bin_array list \<Rightarrow> int \<Rightarrow> u128 \<Rightarrow> fee_info option \<Rightarrow> sums \<Rightarrow> sums lb" where
  "metrics_of_bin arrays bin_id share info = (\<lambda>(vx, vy, fx, fy).
     and_then (pick_array_for_bin arrays bin_id) (\<lambda>a.
     and_then (get_bin a bin_id) (\<lambda>(_, b).
     and_then (bin_share_to_amounts b share) (\<lambda>(x, y).
     and_then (add_u64 vx x) (\<lambda>vx.
     and_then (add_u64 vy y) (\<lambda>vy.
     and_then (ok_or info ''position offset past decoded bins'') (\<lambda>i.
     and_then (uncollected_fee (bn_fee_amount_x_per_token_stored b)
                (fi_fee_x_per_token_complete i) share (fi_fee_x_pending i)) (\<lambda>ux.
     and_then (add_u64 fx ux) (\<lambda>fx.
     and_then (uncollected_fee (bn_fee_amount_y_per_token_stored b)
                (fi_fee_y_per_token_complete i) share (fi_fee_y_pending i)) (\<lambda>uy.
     and_then (add_u64 fy uy) (\<lambda>fy. Inr (vx, vy, fx, fy))))))))))))"

text \<open>The walk; \<open>ids\<close> are the bins from offset \<open>offset\<close> on.\<close>

primrec sum_bins ::
  "bool \<Rightarrow> 'r position_v2_full \<Rightarrow> bin_array list \<Rightarrow> int list \<Rightarrow> nat \<Rightarrow> sums \<Rightarrow> (string, sums) outcome" where
  "sum_bins oc p arrays [] offset acc = Some (Inr acc)"
| "sum_bins oc p arrays (bin_id # ids) offset acc = do {
     s \<leftarrow> pf_liquidity_share oc p offset;
     info \<leftarrow> pf_fee_info oc p offset;
     case s of
       None \<Rightarrow> Some (Inl ''position offset past decoded bins'')
     | Some share \<Rightarrow>
         if share = 0 then sum_bins oc p arrays ids (Suc offset) acc
         else
           (case metrics_of_bin arrays bin_id share info acc of
              Inl e \<Rightarrow> Some (Inl e)
            | Inr acc \<Rightarrow> sum_bins oc p arrays ids (Suc offset) acc) }"

primrec lookup_arrays :: "(pubkey \<rightharpoonup> bin_array) \<Rightarrow> pubkey list \<Rightarrow> bin_array list lb" where
  "lookup_arrays m [] = Inr []"
| "lookup_arrays m (k # ks) =
     and_then (ok_or (m k) ''position bin array missing from cache snapshot'') (\<lambda>a.
     and_then (lookup_arrays m ks) (\<lambda>as. Inr (a # as)))"

definition range_status :: "lb_pair \<Rightarrow> position_v2 \<Rightarrow> position_range_status" where
  "range_status p b =
     (if sint (lp_active_id p) < sint (pv_lower_bin_id b) then BelowRange
      else if sint (pv_upper_bin_id b) < sint (lp_active_id p) then AboveRange else InRange)"

definition compute_metrics ::
  "bool \<Rightarrow> (int \<Rightarrow> pubkey) \<Rightarrow> 'r position_v2_full \<Rightarrow> lb_pair \<Rightarrow> (pubkey \<rightharpoonup> bin_array) \<Rightarrow>
   (string, position_metrics) outcome" where
  "compute_metrics oc array_key p pair bin_arrays =
     (let base = pf_base p in
      case and_then (bin_array_keys_for_position array_key base) (lookup_arrays bin_arrays) of
        Inl e \<Rightarrow> Some (Inl e)
      | Inr arrays \<Rightarrow> do {
          r \<leftarrow> sum_bins oc p arrays [sint (pv_lower_bin_id base)..sint (pv_upper_bin_id base)] 0 (0, 0, 0, 0);
          case r of
            Inl e \<Rightarrow> Some (Inl e)
          | Inr (vx, vy, fx, fy) \<Rightarrow> do {
              d \<leftarrow> i_fit oc 32 (sint (pv_upper_bin_id base) - sint (pv_lower_bin_id base));
              w \<leftarrow> i_fit oc 32 (d + 1);
              Some (Inr \<lparr> pm_current_value_x = vx, pm_current_value_y = vy,
                pm_uncollected_fee_x = fx, pm_uncollected_fee_y = fy,
                pm_range_status = range_status pair base,
                pm_range_width_bins = word_of_int w \<rparr>) } })"

section \<open>positions/range.rs\<close>

datatype strategy_side = XOnly | YOnly | BothSides

datatype balanced_shape = OneSide strategy_side | Balanced | Imbalanced

datatype range_strategy = Spot balanced_shape | Curve balanced_shape | BidAsk balanced_shape

text \<open>The SDK's enum, by the variants the code names.\<close>

datatype strategy_type =
    SpotOneSide | SpotBalanced | SpotImBalanced
  | CurveOneSide | CurveBalanced | CurveImBalanced
  | BidAskOneSide | BidAskBalanced | BidAskImBalanced

fun to_sdk :: "range_strategy \<Rightarrow> strategy_type" where
  "to_sdk (Spot (OneSide _)) = SpotOneSide"
| "to_sdk (Spot Balanced) = SpotBalanced"
| "to_sdk (Spot Imbalanced) = SpotImBalanced"
| "to_sdk (Curve (OneSide _)) = CurveOneSide"
| "to_sdk (Curve Balanced) = CurveBalanced"
| "to_sdk (Curve Imbalanced) = CurveImBalanced"
| "to_sdk (BidAsk (OneSide _)) = BidAskOneSide"
| "to_sdk (BidAsk Balanced) = BidAskBalanced"
| "to_sdk (BidAsk Imbalanced) = BidAskImBalanced"

record strategy_payload =
  sy_amount_x :: u64
  sy_amount_y :: u64
  sy_active_id :: i32
  sy_max_active_bin_slippage :: i32
  sy_min_bin_id :: i32
  sy_max_bin_id :: i32
  sy_strategy_type :: strategy_type
  sy_parameteres :: bytes

text \<open>\<open>(max - min + 1) as usize\<close>.\<close>

definition width_usize :: "bool \<Rightarrow> i32 \<Rightarrow> i32 \<Rightarrow> nat option" where
  "width_usize oc lower upper =
     do { d \<leftarrow> i_fit oc 32 (sint upper - sint lower);
          w \<leftarrow> i_fit oc 32 (d + 1);
          Some (as_usize w) }"

definition strategy_payload_of ::
  "bool \<Rightarrow> u64 \<Rightarrow> u64 \<Rightarrow> i32 \<Rightarrow> i32 \<Rightarrow> i32 \<Rightarrow> range_strategy \<Rightarrow> i32 \<Rightarrow> (string, strategy_payload) outcome" where
  "strategy_payload_of oc amount_x amount_y active_id min_id max_id strategy slippage =
     (if sint max_id < sint min_id then Some (Inl ''LBError::InvalidBinId'')
      else do {
        width \<leftarrow> width_usize oc min_id max_id;
        Some
          (if nat max_bin_per_array < width
           then Inl ''range exceeds 70 bins (positions cap at 70 liquidity slots)''
           else Inr \<lparr> sy_amount_x = amount_x, sy_amount_y = amount_y, sy_active_id = active_id,
                  sy_max_active_bin_slippage = slippage, sy_min_bin_id = min_id,
                  sy_max_bin_id = max_id, sy_strategy_type = to_sdk strategy,
                  sy_parameteres = replicate 64 0 \<rparr>) })"

record bin_distribution =
  bd_bin_id :: int
  bd_distribution_x :: u16
  bd_distribution_y :: u16

record liquidity_parameter =
  lq_amount_x :: u64
  lq_amount_y :: u64
  lq_bin_liquidity_dist :: "bin_distribution list"

datatype uniform_side = Side_X | Side_Y

datatype one_side_shape = XAboveActive | YBelowActive

primrec side_to_uniform :: "one_side_shape \<Rightarrow> uniform_side" where
  "side_to_uniform XAboveActive = Side_X"
| "side_to_uniform YBelowActive = Side_Y"

text \<open>The share of a bin: \<open>min(per_bin as i32, remainder).max(0) as u16\<close>.\<close>

definition chunk_of :: "u16 \<Rightarrow> int \<Rightarrow> u16" where
  "chunk_of per_bin remainder = word_of_int (max (min (int (unat per_bin)) remainder) 0)"

definition sat_add_u16 :: "u16 \<Rightarrow> u16 \<Rightarrow> u16" where
  "sat_add_u16 a b = word_of_nat (saturating_add 16 (unat a) (unat b))"

definition per_bin_of :: "nat \<Rightarrow> u16" where
  "per_bin_of width = word_of_nat (basis_point_max div (unat (word_of_nat width :: u32)))"

text \<open>The loop of the one-sided distribution.\<close>

fun uniform_bins :: "uniform_side \<Rightarrow> u16 \<Rightarrow> int \<Rightarrow> int list \<Rightarrow> bin_distribution list \<times> int" where
  "uniform_bins side per_bin remainder [] = ([], remainder)"
| "uniform_bins side per_bin remainder (i # ids) =
     (let chunk = chunk_of per_bin remainder;
          (bs, r) = uniform_bins side per_bin (remainder - int (unat chunk)) ids
      in (\<lparr> bd_bin_id = i,
            bd_distribution_x = (case side of Side_X \<Rightarrow> chunk | Side_Y \<Rightarrow> 0),
            bd_distribution_y = (case side of Side_X \<Rightarrow> 0 | Side_Y \<Rightarrow> chunk) \<rparr> # bs, r))"

definition add_to_side :: "uniform_side \<Rightarrow> u16 \<Rightarrow> bin_distribution \<Rightarrow> bin_distribution" where
  "add_to_side side n b =
     (case side of
        Side_X \<Rightarrow> b \<lparr> bd_distribution_x := sat_add_u16 (bd_distribution_x b) n \<rparr>
      | Side_Y \<Rightarrow> b \<lparr> bd_distribution_y := sat_add_u16 (bd_distribution_y b) n \<rparr>)"

definition build_uniform_dist ::
  "bool \<Rightarrow> i32 \<Rightarrow> i32 \<Rightarrow> uniform_side \<Rightarrow> (string, bin_distribution list) outcome" where
  "build_uniform_dist oc lower upper side =
     (if sint upper < sint lower then Some (Inl ''LBError::InvalidBinId'')
      else do {
        width \<leftarrow> width_usize oc lower upper;
        Some
          (if width = 0 \<or> nat max_bin_per_array < width
           then Inl ''range invalid (must be 1..=70 bins)''
           else
             let (out, remainder) =
               uniform_bins side (per_bin_of width) (int basis_point_max) [sint lower..sint upper]
             in Inr (if 0 < remainder \<and> out \<noteq> []
                     then butlast out @ [add_to_side side (word_of_int remainder) (last out)]
                     else out)) })"

definition spot_one_side ::
  "bool \<Rightarrow> u64 \<Rightarrow> u64 \<Rightarrow> i32 \<Rightarrow> i32 \<Rightarrow> one_side_shape \<Rightarrow> (string, liquidity_parameter) outcome" where
  "spot_one_side oc amount_x amount_y lower upper side = do {
     r \<leftarrow> build_uniform_dist oc lower upper (side_to_uniform side);
     Some (and_then r (\<lambda>bins. Inr \<lparr> lq_amount_x = amount_x, lq_amount_y = amount_y,
       lq_bin_liquidity_dist = bins \<rparr>)) }"

text \<open>The loop of the balanced distribution, with both remainders.\<close>

fun balanced_bins ::
  "u16 \<Rightarrow> int \<Rightarrow> int \<Rightarrow> int \<Rightarrow> int list \<Rightarrow> bin_distribution list \<times> int \<times> int" where
  "balanced_bins per_bin active rx ry [] = ([], rx, ry)"
| "balanced_bins per_bin active rx ry (i # ids) =
     (let dx = (if active \<le> i then chunk_of per_bin rx else 0);
          dy = (if i \<le> active then chunk_of per_bin ry else 0);
          (bs, rx', ry') =
            balanced_bins per_bin active (rx - int (unat dx)) (ry - int (unat dy)) ids
      in (\<lparr> bd_bin_id = i, bd_distribution_x = dx, bd_distribution_y = dy \<rparr> # bs, rx', ry'))"

text \<open>\<open>iter_mut().find(..)\<close> with an update of what is found.\<close>

fun update_first :: "('a \<Rightarrow> bool) \<Rightarrow> ('a \<Rightarrow> 'a) \<Rightarrow> 'a list \<Rightarrow> 'a list" where
  "update_first P f [] = []"
| "update_first P f (x # xs) = (if P x then f x # xs else x # update_first P f xs)"

definition spot_balanced ::
  "bool \<Rightarrow> u64 \<Rightarrow> u64 \<Rightarrow> i32 \<Rightarrow> i32 \<Rightarrow> i32 \<Rightarrow> (string, liquidity_parameter) outcome" where
  "spot_balanced oc amount_x amount_y active_id lower upper =
     (if sint active_id < sint lower \<or> sint upper < sint active_id
      then Some (Inl ''active_id outside range -- use spot_one_side'')
      else do {
        width \<leftarrow> width_usize oc lower upper;
        Some
          (if width = 0 \<or> nat max_bin_per_array < width
           then Inl ''range invalid (must be 1..=70 bins)''
           else
             let active = sint active_id;
                 (bins, rx, ry) = balanced_bins (per_bin_of width) active (int basis_point_max)
                   (int basis_point_max) [sint lower..sint upper];
                 bins = (if 0 < rx
                   then rev (update_first (\<lambda>b. active \<le> bd_bin_id b)
                          (add_to_side Side_X (word_of_int rx)) (rev bins))
                   else bins);
                 bins = (if 0 < ry
                   then update_first (\<lambda>b. bd_bin_id b \<le> active)
                          (add_to_side Side_Y (word_of_int ry)) bins
                   else bins)
             in Inr \<lparr> lq_amount_x = amount_x, lq_amount_y = amount_y, lq_bin_liquidity_dist = bins \<rparr>) })"

section \<open>accounts.rs\<close>

record dlmm_keys =
  dk_lb_pair :: pubkey
  dk_bin_array_bitmap_extension :: pubkey
  dk_token_x_mint :: pubkey
  dk_token_y_mint :: pubkey
  dk_reserve_x :: pubkey
  dk_reserve_y :: pubkey
  dk_token_x_program :: pubkey
  dk_token_y_program :: pubkey
  dk_oracle :: pubkey

abbreviation (input) seed :: "string \<Rightarrow> bytes" where
  "seed s \<equiv> map (\<lambda>c. of_nat (of_char c)) s"

definition derive_bin_array_bitmap_extension ::
  "(bytes list \<Rightarrow> pubkey \<Rightarrow> pubkey) \<Rightarrow> pubkey \<Rightarrow> pubkey \<Rightarrow> pubkey" where
  "derive_bin_array_bitmap_extension pda program lb_pair = pda [seed ''bitmap'', lb_pair] program"

definition derive_oracle_address ::
  "(bytes list \<Rightarrow> pubkey \<Rightarrow> pubkey) \<Rightarrow> pubkey \<Rightarrow> pubkey \<Rightarrow> pubkey" where
  "derive_oracle_address pda program lb_pair = pda [seed ''oracle'', lb_pair] program"

definition derive_position_pda ::
  "(bytes list \<Rightarrow> pubkey \<Rightarrow> pubkey) \<Rightarrow> pubkey \<Rightarrow> pubkey \<Rightarrow> i32 \<Rightarrow> i32 \<Rightarrow> pubkey" where
  "derive_position_pda pda program lb_pair lower_bin_id width =
     pda [seed ''position'', lb_pair, le_bytes 4 (unat lower_bin_id), le_bytes 4 (unat width)] program"

definition dlmm_keys_from_pool_state ::
  "pubkey \<Rightarrow> lb_pair \<Rightarrow> pubkey \<Rightarrow> pubkey \<Rightarrow> pubkey \<Rightarrow> dlmm_keys" where
  "dlmm_keys_from_pool_state lb_pair pool extension token_x_program token_y_program =
     \<lparr> dk_lb_pair = lb_pair, dk_bin_array_bitmap_extension = extension,
       dk_token_x_mint = lp_token_x_mint pool, dk_token_y_mint = lp_token_y_mint pool,
       dk_reserve_x = lp_reserve_x pool, dk_reserve_y = lp_reserve_y pool,
       dk_token_x_program = token_x_program, dk_token_y_program = token_y_program,
       dk_oracle = lp_oracle pool \<rparr>"

text \<open>The associated token account of an owner, a mint and a token program is a parameter.\<close>

definition dk_user_token_x_ata ::
  "(pubkey \<Rightarrow> pubkey \<Rightarrow> pubkey \<Rightarrow> pubkey) \<Rightarrow> dlmm_keys \<Rightarrow> pubkey \<Rightarrow> pubkey" where
  "dk_user_token_x_ata ata k user = ata user (dk_token_x_mint k) (dk_token_x_program k)"

definition dk_user_token_y_ata ::
  "(pubkey \<Rightarrow> pubkey \<Rightarrow> pubkey \<Rightarrow> pubkey) \<Rightarrow> dlmm_keys \<Rightarrow> pubkey \<Rightarrow> pubkey" where
  "dk_user_token_y_ata ata k user = ata user (dk_token_y_mint k) (dk_token_y_program k)"

definition dk_derive_bin_array ::
  "(bytes list \<Rightarrow> pubkey \<Rightarrow> pubkey) \<Rightarrow> pubkey \<Rightarrow> dlmm_keys \<Rightarrow> int \<Rightarrow> pubkey" where
  "dk_derive_bin_array pda program k i = derive_bin_array_address pda program (dk_lb_pair k) i"

section \<open>state.rs: the spot price of a pair\<close>

definition lb_pair_spot_price :: "lb_pair \<Rightarrow> f64" where
  "lb_pair_spot_price p =
     f_powi (f_add (f_of_nat 1) (f_div (f_of_nat (unat (lp_bin_step p))) (f_of_nat 10000)))
       (sint (lp_active_id p))"

section \<open>What a balanced deposit distributes\<close>

lemma update_first_head:
  "P (g x) \<Longrightarrow> x \<notin> set xs \<Longrightarrow>
     update_first P f (map g (x # xs)) = map (\<lambda>i. if i = x then f (g i) else g i) (x # xs)"
  by auto

lemma update_last:
  assumes "l \<le> (u :: int)" and "P (g u)"
  shows "rev (update_first P f (rev (map g [l..u]))) = map (\<lambda>i. if i = u then f (g i) else g i) [l..u]"
proof -
  have "rev (map g [l..u]) = map g (u # rev [l..u - 1])"
    using assms(1) by (simp add: upto_rec2 rev_map)
  moreover have "u \<notin> set (rev [l..u - 1])"
    by simp
  ultimately have "update_first P f (rev (map g [l..u])) =
      map (\<lambda>i. if i = u then f (g i) else g i) (u # rev [l..u - 1])"
    using update_first_head [of P g u "rev [l..u - 1]" f] assms(2) by (simp del: update_first.simps list.map)
  then show ?thesis
    using assms(1) by (simp add: upto_rec2 rev_map [symmetric])
qed

lemma chunk_of_full: "int (unat per) \<le> r \<Longrightarrow> chunk_of per r = per"
  by (simp add: chunk_of_def)

definition plain_bin :: "u16 \<Rightarrow> int \<Rightarrow> int \<Rightarrow> bin_distribution" where
  "plain_bin per active i =
     \<lparr> bd_bin_id = i, bd_distribution_x = (if active \<le> i then per else 0),
       bd_distribution_y = (if i \<le> active then per else 0) \<rparr>"

lemma balanced_bins_plain:
  assumes "int (unat per) * int (length ids) \<le> rx" and "int (unat per) * int (length ids) \<le> ry"
  shows "balanced_bins per active rx ry ids =
    (map (plain_bin per active) ids,
     rx - int (unat per) * int (length (filter (\<lambda>i. active \<le> i) ids)),
     ry - int (unat per) * int (length (filter (\<lambda>i. i \<le> active) ids)))"
  using assms
proof (induction ids arbitrary: rx ry)
  case (Cons i ids)
  have eq: "int (unat per) * int (length (i # ids)) = int (unat per) + int (unat per) * int (length ids)"
    by (simp add: algebra_simps)
  have nonneg: "0 \<le> int (unat per) * int (length ids)"
    by (simp only: of_nat_mult [symmetric] of_nat_0_le_iff)
  have part: "int (unat (if c then per else 0)) \<le> int (unat per)" for c
    by simp
  have le: "int (unat per) \<le> rx" "int (unat per) \<le> ry"
    using Cons.prems eq nonneg by linarith+
  have rest: "int (unat per) * int (length ids) \<le> rx - int (unat (if active \<le> i then per else 0))"
    "int (unat per) * int (length ids) \<le> ry - int (unat (if i \<le> active then per else 0))"
    using Cons.prems eq part [of "active \<le> i"] part [of "i \<le> active"] by linarith+
  show ?case
    using Cons.IH [OF rest] le
    by (auto simp: chunk_of_full plain_bin_def Let_def algebra_simps)
qed simp

lemma count_above: "l \<le> a \<Longrightarrow> a \<le> u \<Longrightarrow> length (filter (\<lambda>i. a \<le> i) [l..u]) = nat (u - a + 1)"
proof -
  assume "l \<le> a" "a \<le> u"
  then have "set (filter (\<lambda>i. a \<le> i) [l..u]) = {a..u}"
    by auto
  then show ?thesis
    using distinct_card [of "filter (\<lambda>i. a \<le> i) [l..u]"] by simp
qed

lemma count_below: "l \<le> a \<Longrightarrow> a \<le> u \<Longrightarrow> length (filter (\<lambda>i. i \<le> a) [l..u]) = nat (a - l + 1)"
proof -
  assume "l \<le> a" "a \<le> u"
  then have "set (filter (\<lambda>i. i \<le> a) [l..u]) = {l..a}"
    by auto
  then show ?thesis
    using distinct_card [of "filter (\<lambda>i. i \<le> a) [l..u]"] by simp
qed

text \<open>The shares of a bin: the uniform one, and on the outermost bin all that is left.\<close>

definition share_x :: "nat \<Rightarrow> int \<Rightarrow> int \<Rightarrow> int \<Rightarrow> nat" where
  "share_x per active upper i =
     (if i = upper then 10000 - per * nat (upper - active) else if active \<le> i then per else 0)"

definition share_y :: "nat \<Rightarrow> int \<Rightarrow> int \<Rightarrow> int \<Rightarrow> nat" where
  "share_y per active lower i =
     (if i = lower then 10000 - per * nat (active - lower) else if i \<le> active then per else 0)"

lemma sum_share_x:
  assumes "l \<le> a" and "a \<le> u" and "per * nat (u - a) \<le> 10000"
  shows "sum_list (map (share_x per a u) [l..u]) = 10000"
proof -
  have "sum_list (map (share_x per a u) [l..u]) = sum (share_x per a u) {l..u}"
    by (simp add: interv_sum_list_conv_sum_set_int)
  also have "{l..u} = {l..<a} \<union> {a..<u} \<union> {u}"
    using assms by auto
  also have "sum (share_x per a u) \<dots> = sum (share_x per a u) {l..<a} + sum (share_x per a u) {a..<u}
      + share_x per a u u"
    using assms by (subst sum.union_disjoint; (subst sum.union_disjoint)?) auto
  also have "sum (share_x per a u) {l..<a} = 0"
    using assms by (auto simp: share_x_def)
  also have "sum (share_x per a u) {a..<u} = sum (\<lambda>_. per) {a..<u}"
    by (rule sum.cong) (auto simp: share_x_def)
  finally show ?thesis
    using assms by (simp add: share_x_def [of per a u u] mult.commute)
qed

lemma sum_share_y:
  assumes "l \<le> a" and "a \<le> u" and "per * nat (a - l) \<le> 10000"
  shows "sum_list (map (share_y per a l) [l..u]) = 10000"
proof -
  have "sum_list (map (share_y per a l) [l..u]) = sum (share_y per a l) {l..u}"
    by (simp add: interv_sum_list_conv_sum_set_int)
  also have "{l..u} = {l} \<union> {l<..a} \<union> {a<..u}"
    using assms by auto
  also have "sum (share_y per a l) \<dots> = share_y per a l l + sum (share_y per a l) {l<..a}
      + sum (share_y per a l) {a<..u}"
    using assms by (subst sum.union_disjoint; (subst sum.union_disjoint)?) auto
  also have "sum (share_y per a l) {a<..u} = 0"
    using assms by (auto simp: share_y_def)
  also have "sum (share_y per a l) {l<..a} = sum (\<lambda>_. per) {l<..a}"
    by (rule sum.cong) (auto simp: share_y_def)
  finally show ?thesis
    using assms by (simp add: share_y_def [of per a l l] mult.commute)
qed

lemma sat_add_rest:
  assumes "n \<le> 10000" and "unat per \<le> n"
  shows "unat (sat_add_u16 per (word_of_int (int n - int (unat per)))) = n"
proof -
  have "word_of_int (int n - int (unat per)) = (word_of_nat (n - unat per) :: u16)"
    using assms(2) by (simp add: of_nat_diff)
  moreover have "unat (word_of_nat (n - unat per) :: u16) = n - unat per"
    using assms by (simp add: unsigned_of_nat take_bit_nat_eq_self del: of_nat_diff)
  ultimately show ?thesis
    using assms by (simp add: sat_add_u16_def saturating_add_def unsigned_of_nat take_bit_nat_eq_self
        del: of_nat_diff)
qed

text \<open>Both updates, bin by bin.\<close>

definition final_bin :: "u16 \<Rightarrow> int \<Rightarrow> int \<Rightarrow> int \<Rightarrow> int \<Rightarrow> int \<Rightarrow> int \<Rightarrow> bin_distribution" where
  "final_bin per active lower upper rx ry i =
     (let b = plain_bin per active i;
          b = (if 0 < rx \<and> i = upper then add_to_side Side_X (word_of_int rx) b else b)
      in if 0 < ry \<and> i = lower then add_to_side Side_Y (word_of_int ry) b else b)"

lemma updates_final:
  fixes per :: u16 and rx ry :: int
  assumes "l \<le> a" and "a \<le> u"
  defines "bins \<equiv> map (plain_bin per a) [l..u]"
  defines "bins1 \<equiv> (if 0 < rx
     then rev (update_first (\<lambda>b. a \<le> bd_bin_id b) (add_to_side Side_X (word_of_int rx)) (rev bins))
     else bins)"
  shows "(if 0 < ry
     then update_first (\<lambda>b. bd_bin_id b \<le> a) (add_to_side Side_Y (word_of_int ry)) bins1
     else bins1) = map (final_bin per a l u rx ry) [l..u]"
proof -
  let ?g = "\<lambda>i. if 0 < rx \<and> i = u then add_to_side Side_X (word_of_int rx) (plain_bin per a i)
    else plain_bin per a i"
  have lu: "l \<le> u" using assms by simp
  have one: "bins1 = map ?g [l..u]"
    using update_last [of l u "\<lambda>b. a \<le> bd_bin_id b" "plain_bin per a" "add_to_side Side_X (word_of_int rx)"]
      assms lu by (auto simp: plain_bin_def cong: map_cong)
  have "bd_bin_id (?g l) \<le> a"
    using assms(1) by (simp add: plain_bin_def add_to_side_def)
  then have "update_first (\<lambda>b. bd_bin_id b \<le> a) (add_to_side Side_Y (word_of_int ry)) (map ?g [l..u])
      = map (\<lambda>i. if i = l then add_to_side Side_Y (word_of_int ry) (?g i) else ?g i) [l..u]"
    using update_first_head [of "\<lambda>b. bd_bin_id b \<le> a" ?g l "[l + 1..u]"] lu
    by (simp add: upto_rec1 [of l u] del: update_first.simps list.map)
  then show ?thesis
    unfolding one by (auto simp: final_bin_def Let_def)
qed

lemma final_bin_shares:
  assumes rx: "rx = 10000 - int (unat per) * (u - a + 1)" and ry: "ry = 10000 - int (unat per) * (a - l + 1)"
    and "0 \<le> rx" "0 \<le> ry" and i: "l \<le> i" "i \<le> u" and a: "l \<le> a" "a \<le> u"
  shows "bd_bin_id (final_bin per a l u rx ry i) = i"
    and "unat (bd_distribution_x (final_bin per a l u rx ry i)) = share_x (unat per) a u i"
    and "unat (bd_distribution_y (final_bin per a l u rx ry i)) = share_y (unat per) a l i"
proof -
  define nx where "nx = 10000 - unat per * nat (u - a)"
  define ny where "ny = 10000 - unat per * nat (a - l)"
  have "int (unat per) * (u - a + 1) = int (unat per * nat (u - a)) + int (unat per)"
    "int (unat per) * (a - l + 1) = int (unat per * nat (a - l)) + int (unat per)"
    using a by (simp_all add: algebra_simps)
  then have n: "rx = int nx - int (unat per)" "ry = int ny - int (unat per)"
    "nx \<le> 10000" "unat per \<le> nx" "ny \<le> 10000" "unat per \<le> ny"
    using assms(3,4) unfolding rx ry nx_def ny_def by linarith+
  note fill = sat_add_rest [OF n(3,4)] sat_add_rest [OF n(5,6)]
  show "bd_bin_id (final_bin per a l u rx ry i) = i"
    by (simp add: final_bin_def plain_bin_def add_to_side_def Let_def)
  have x0: "unat per = nx" if "\<not> 0 < rx"
    using that n by linarith
  have y0: "unat per = ny" if "\<not> 0 < ry"
    using that n by linarith
  show "unat (bd_distribution_x (final_bin per a l u rx ry i)) = share_x (unat per) a u i"
    using x0 fill(1) i a
    by (auto simp: final_bin_def plain_bin_def add_to_side_def Let_def share_x_def nx_def [symmetric] n(1))
  show "unat (bd_distribution_y (final_bin per a l u rx ry i)) = share_y (unat per) a l i"
    using y0 fill(2) i a
    by (auto simp: final_bin_def plain_bin_def add_to_side_def Let_def share_y_def ny_def [symmetric] n(2))
qed

text \<open>A balanced spot deposit of at most 70 bins hands out exactly all of both amounts, 10000
  basis points each, to the bins of the range in order, X from the active bin up and Y from it
  down. It is uniform only up to the outermost bins: the last bin receives every basis point of X
  that the bins before it, at \<open>10000 div width\<close> each, leave, and the first bin likewise of Y.\<close>

lemma dlmm_spot_balanced:
  assumes a: "sint lower \<le> sint active" "sint active \<le> sint upper"
    and width: "sint upper - sint lower < 70"
  shows "\<exists>bins. spot_balanced oc amount_x amount_y active lower upper =
      Some (Inr \<lparr> lq_amount_x = amount_x, lq_amount_y = amount_y, lq_bin_liquidity_dist = bins \<rparr>) \<and>
    map bd_bin_id bins = [sint lower..sint upper] \<and>
    (let per = 10000 div nat (sint upper - sint lower + 1) in
      map (\<lambda>b. unat (bd_distribution_x b)) bins =
        map (share_x per (sint active) (sint upper)) [sint lower..sint upper] \<and>
      map (\<lambda>b. unat (bd_distribution_y b)) bins =
        map (share_y per (sint active) (sint lower)) [sint lower..sint upper]) \<and>
    sum_list (map (\<lambda>b. unat (bd_distribution_x b)) bins) = 10000 \<and>
    sum_list (map (\<lambda>b. unat (bd_distribution_y b)) bins) = 10000"
proof -
  let ?l = "sint lower" and ?a = "sint active" and ?u = "sint upper"
  define W where "W = nat (?u - ?l + 1)"
  have W: "1 \<le> W" "W \<le> 70" "int W = ?u - ?l + 1"
    using a width by (simp_all add: W_def)
  define per where "per = per_bin_of W"
  have "10000 div W \<le> 10000"
    by simp
  then have small: "take_bit 16 (10000 div W) = 10000 div W"
    by (rule take_bit_nat_eq_self [OF le_less_trans]) simp
  have per: "unat per = 10000 div W"
    using W small
    by (simp add: per_def per_bin_of_def basis_point_max_def unsigned_of_nat take_bit_nat_eq_self)
  have total: "unat per * W \<le> 10000"
    unfolding per by (simp add: div_times_less_eq_dividend)
  have width_ok: "width_usize oc lower upper = Some W"
  proof -
    have "?u - ?l + 1 = int W" "?u - ?l = int W - 1"
      using W by simp_all
    then show ?thesis
      using W(1,2) by (simp add: width_usize_def i_fit_ok in_signed_def as_usize_nonneg)
  qed
  have len: "length [?l..?u] = W"
    by (simp add: W_def)
  have fits: "int (unat per) * int (length [?l..?u]) \<le> 10000"
    unfolding len using total by (simp only: of_nat_mult [symmetric])
  define rx where "rx = 10000 - int (unat per) * (?u - ?a + 1)"
  define ry where "ry = 10000 - int (unat per) * (?a - ?l + 1)"
  have up: "int (unat per) * (?u - ?a + 1) \<le> int (unat per) * int W"
    "int (unat per) * (?a - ?l + 1) \<le> int (unat per) * int W"
    using a W(3) by (intro mult_left_mono; simp)+
  have nonneg: "0 \<le> rx" "0 \<le> ry"
    using up fits unfolding rx_def ry_def len by linarith+
  have walk: "balanced_bins per ?a 10000 10000 [?l..?u] = (map (plain_bin per ?a) [?l..?u], rx, ry)"
    using balanced_bins_plain [OF fits fits, of ?a] a
    by (simp add: count_above count_below rx_def ry_def)
  define bins where "bins = map (final_bin per ?a ?l ?u rx ry) [?l..?u]"
  have res: "spot_balanced oc amount_x amount_y active lower upper =
      Some (Inr \<lparr> lq_amount_x = amount_x, lq_amount_y = amount_y, lq_bin_liquidity_dist = bins \<rparr>)"
    using a W(1,2) walk updates_final [OF a, where per = per and rx = rx and ry = ry]
    by (simp add: spot_balanced_def width_ok max_bin_per_array_def basis_point_max_def Let_def
        per_def [symmetric] bins_def)
  note shares = final_bin_shares [OF rx_def ry_def nonneg _ _ a]
  have ids: "map bd_bin_id bins = [?l..?u]"
    unfolding bins_def by (auto simp: shares(1) intro: map_idI)
  have x: "map (\<lambda>b. unat (bd_distribution_x b)) bins = map (share_x (unat per) ?a ?u) [?l..?u]"
    unfolding bins_def by (simp add: shares(2))
  have y: "map (\<lambda>b. unat (bd_distribution_y b)) bins = map (share_y (unat per) ?a ?l) [?l..?u]"
    unfolding bins_def by (simp add: shares(3))
  have parts: "unat per * nat (?u - ?a) \<le> unat per * W" "unat per * nat (?a - ?l) \<le> unat per * W"
    using a W(3) by (intro mult_le_mono2; simp)+
  have sums: "sum_list (map (share_x (unat per) ?a ?u) [?l..?u]) = 10000"
    "sum_list (map (share_y (unat per) ?a ?l) [?l..?u]) = 10000"
    using sum_share_x [OF a order_trans [OF parts(1) total]]
      sum_share_y [OF a order_trans [OF parts(2) total]] by blast+
  show ?thesis
    using res ids x y sums by (intro exI [of _ bins]) (simp add: per W_def)
qed

end
