(* ===== verification/DlmmHandlers.thy ===== *)
theory DlmmHandlers
  imports DlmmPositions PumpHandlers
begin

text \<open>
  The handlers that keep the DLMM accounts of the cache live (protocols/meteora_dlmm/handler.rs):
  pairs, bin arrays, bitmap extensions and positions, all of one program and told apart by their
  discriminators. Here the DLMM account types of the cache are the records of the DLMM theories.

  The position decoder's arithmetic panics only with overflow checks; the handlers are those of
  the build without them.
\<close>

type_synonym 'r dlmm_cache = "(lb_pair, bin_array, bitmap_extension, 'r position_v2_full) local_cache"

section \<open>Identities and decoders\<close>

record dlmm_ids =
  id_dlmm :: pubkey
  disc_lb_pair :: bytes
  disc_bin_array :: bytes
  disc_bitmap_extension :: bytes
  disc_position_v2 :: bytes

definition dlmm_discs :: "dlmm_ids \<Rightarrow> bytes list" where
  "dlmm_discs I = [disc_lb_pair I, disc_bin_array I, disc_bitmap_extension I, disc_position_v2 I]"

definition dlmm_ids_ok :: "dlmm_ids \<Rightarrow> bool" where
  "dlmm_ids_ok I \<longleftrightarrow> distinct (dlmm_discs I) \<and> (\<forall>d \<in> set (dlmm_discs I). length d = 8)"

text \<open>The borsh decoders of the SDK accounts.\<close>

record 'r dlmm_sdk =
  sdk_lb_pair :: "bytes \<Rightarrow> string + lb_pair"
  sdk_bin_array :: "bytes \<Rightarrow> string + bin_array"
  sdk_bitmap_extension :: "bytes \<Rightarrow> string + bitmap_extension"
  sdk_position_v2 :: "bytes \<Rightarrow> string + position_v2"
  sdk_position_bin :: "bytes \<Rightarrow> string + ('r position_bin_data \<times> bytes)"
  sdk_position_len :: nat
  sdk_show_key :: "pubkey \<Rightarrow> string"

text \<open>Without overflow checks the full position decoder never panics, so the last branch is dead.\<close>

definition position_decode :: "'r dlmm_sdk \<Rightarrow> dlmm_ids \<Rightarrow> bytes \<Rightarrow> error + 'r position_v2_full" where
  "position_decode S I data =
     (case decode_position_v2_full False (sdk_position_v2 S) (sdk_position_bin S) (sdk_position_len S)
             (disc_position_v2 I) data of
        Some r \<Rightarrow> r
      | None \<Rightarrow> Inl (parse_error ''''))"

lemma position_decode_total:
  "decode_position_v2_full False sdk sdk_bin len disc data \<noteq> None"
  by (auto simp: decode_position_v2_full_def range_bins_def i_fit_def Let_def split: sum.splits)

section \<open>Handlers\<close>

definition lb_pair_apply ::
  "'r dlmm_cache \<Rightarrow> pubkey \<Rightarrow> lb_pair \<Rightarrow> u64 \<Rightarrow> (handler_error + handle_result) \<times> 'r dlmm_cache" where
  "lb_pair_apply c k st slot =
     (Inr (handle_result_default \<lparr> hr_spot_price := Some (lb_pair_spot_price st) \<rparr>),
      on_data (\<lambda>d. snd (field_insert cd_dlmm_lb_pairs cd_dlmm_lb_pairs_update k st slot d)) c)"

definition bin_array_apply ::
  "'r dlmm_cache \<Rightarrow> pubkey \<Rightarrow> bin_array \<Rightarrow> u64 \<Rightarrow> (handler_error + handle_result) \<times> 'r dlmm_cache" where
  "bin_array_apply c k st slot =
     (Inr handle_result_default,
      on_data (\<lambda>d. snd (field_insert cd_dlmm_bin_arrays cd_dlmm_bin_arrays_update k st slot d)) c)"

definition bitmap_extension_apply ::
  "'r dlmm_cache \<Rightarrow> pubkey \<Rightarrow> bitmap_extension \<Rightarrow> u64 \<Rightarrow>
   (handler_error + handle_result) \<times> 'r dlmm_cache" where
  "bitmap_extension_apply c k st slot =
     (Inr handle_result_default,
      on_data (\<lambda>d. snd (field_insert cd_dlmm_bin_array_bitmap_extensions
        cd_dlmm_bin_array_bitmap_extensions_update k st slot d)) c)"

definition position_apply ::
  "'r dlmm_cache \<Rightarrow> pubkey \<Rightarrow> 'r position_v2_full \<Rightarrow> u64 \<Rightarrow>
   (handler_error + handle_result) \<times> 'r dlmm_cache" where
  "position_apply c k st slot =
     (Inr handle_result_default,
      on_data (\<lambda>d. snd (field_insert cd_dlmm_positions cd_dlmm_positions_update k st slot d)) c)"

definition dlmm_deserialize :: "'r dlmm_sdk \<Rightarrow> (bytes \<Rightarrow> error + 'a) \<Rightarrow> bytes \<Rightarrow> handler_error + 'a" where
  "dlmm_deserialize S = derived_deserialize (error_text (sdk_show_key S))"

definition lb_pair_handler :: "'r dlmm_sdk \<Rightarrow> dlmm_ids \<Rightarrow> 'r dlmm_cache handler" where
  "lb_pair_handler S I =
     derived_handler (id_dlmm I) (disc_lb_pair I)
       (dlmm_deserialize S (decode_lb_pair (sdk_lb_pair S) (disc_lb_pair I))) lb_pair_apply"

definition bin_array_handler :: "'r dlmm_sdk \<Rightarrow> dlmm_ids \<Rightarrow> 'r dlmm_cache handler" where
  "bin_array_handler S I =
     derived_handler (id_dlmm I) (disc_bin_array I)
       (dlmm_deserialize S (decode_bin_array (sdk_bin_array S) (disc_bin_array I))) bin_array_apply"

definition bitmap_extension_handler :: "'r dlmm_sdk \<Rightarrow> dlmm_ids \<Rightarrow> 'r dlmm_cache handler" where
  "bitmap_extension_handler S I =
     derived_handler (id_dlmm I) (disc_bitmap_extension I)
       (dlmm_deserialize S
         (decode_bin_array_bitmap_extension (sdk_bitmap_extension S) (disc_bitmap_extension I)))
       bitmap_extension_apply"

definition position_v2_handler :: "'r dlmm_sdk \<Rightarrow> dlmm_ids \<Rightarrow> 'r dlmm_cache handler" where
  "position_v2_handler S I =
     derived_handler (id_dlmm I) (disc_position_v2 I)
       (dlmm_deserialize S (position_decode S I)) position_apply"

definition dlmm_handlers :: "'r dlmm_sdk \<Rightarrow> dlmm_ids \<Rightarrow> 'r dlmm_cache handler list" where
  "dlmm_handlers S I =
     [lb_pair_handler S I, bin_array_handler S I, bitmap_extension_handler S I, position_v2_handler S I]"

lemmas dlmm_handler_defs = lb_pair_handler_def bin_array_handler_def bitmap_extension_handler_def
  position_v2_handler_def derived_handler_def

lemma dlmm_ids_neq:
  assumes "dlmm_ids_ok I"
  shows "disc_lb_pair I \<noteq> disc_bin_array I" "disc_lb_pair I \<noteq> disc_bitmap_extension I"
    "disc_lb_pair I \<noteq> disc_position_v2 I" "disc_bin_array I \<noteq> disc_bitmap_extension I"
    "disc_bin_array I \<noteq> disc_position_v2 I" "disc_bitmap_extension I \<noteq> disc_position_v2 I"
    "length (disc_lb_pair I) = 8" "length (disc_bin_array I) = 8"
    "length (disc_bitmap_extension I) = 8" "length (disc_position_v2 I) = 8"
  using assms by (simp_all add: dlmm_ids_ok_def dlmm_discs_def)

lemma dlmm_handlers_register:
  assumes "dlmm_ids_ok I"
  shows "\<exists>r. register_all (dlmm_handlers S I) registry_new = Some r"
  by (simp add: dlmm_handlers_def register_def registry_new_def note_program_def
      dlmm_handler_defs dlmm_ids_neq [OF assms] dlmm_ids_neq(1-6) [OF assms, symmetric])

text \<open>The handler that answers for an account, if any.\<close>

definition dlmm_handler_for ::
  "'r dlmm_sdk \<Rightarrow> dlmm_ids \<Rightarrow> pubkey \<Rightarrow> bytes \<Rightarrow> 'r dlmm_cache handler option" where
  "dlmm_handler_for S I owner data =
     (if owner = id_dlmm I \<and> 8 \<le> length data then
        (if take 8 data = disc_lb_pair I then Some (lb_pair_handler S I)
         else if take 8 data = disc_bin_array I then Some (bin_array_handler S I)
         else if take 8 data = disc_bitmap_extension I then Some (bitmap_extension_handler S I)
         else if take 8 data = disc_position_v2 I then Some (position_v2_handler S I)
         else None)
      else None)"

lemma dlmm_lookup:
  assumes "dlmm_ids_ok I"
  shows "lookup_spec (dlmm_handlers S I) owner data = dlmm_handler_for S I owner data"
  by (auto simp: lookup_spec_def dlmm_handlers_def has_key_def keyed_def dlmm_handler_defs
      dlmm_handler_for_def dlmm_ids_neq [OF assms])

lemma dlmm_dispatch:
  assumes "dlmm_ids_ok I" and "register_all (dlmm_handlers S I) registry_new = Some r"
  shows "dispatch r c owner k data slot =
    (case dlmm_handler_for S I owner data of
       Some h \<Rightarrow> h_handle h c k data slot
     | None \<Rightarrow> (Inl (NoHandler owner (first_eight data)), c))"
proof -
  have "represents (dlmm_handlers S I) r"
    using represents_all [OF represents_new assms(2)] by simp
  then show ?thesis
    by (simp add: dispatch_def lookup_represents dlmm_lookup [OF assms(1)])
qed

text \<open>What a successful dispatch writes: one field, the account decoded as that field's type.\<close>

definition dlmm_write :: "'r dlmm_sdk \<Rightarrow> dlmm_ids \<Rightarrow> pubkey \<Rightarrow> bytes \<Rightarrow> u64 \<Rightarrow>
    (lb_pair, bin_array, bitmap_extension, 'r position_v2_full) cache_data \<Rightarrow>
    (lb_pair, bin_array, bitmap_extension, 'r position_v2_full) cache_data \<Rightarrow> bool" where
  "dlmm_write S I k data slot d d' \<longleftrightarrow>
     (\<exists>st. decode_lb_pair (sdk_lb_pair S) (disc_lb_pair I) data = Inr st \<and>
        d' = d \<lparr> cd_dlmm_lb_pairs := snd (vm_insert k st slot (cd_dlmm_lb_pairs d)) \<rparr>) \<or>
     (\<exists>st. decode_bin_array (sdk_bin_array S) (disc_bin_array I) data = Inr st \<and>
        d' = d \<lparr> cd_dlmm_bin_arrays := snd (vm_insert k st slot (cd_dlmm_bin_arrays d)) \<rparr>) \<or>
     (\<exists>st. decode_bin_array_bitmap_extension (sdk_bitmap_extension S) (disc_bitmap_extension I) data = Inr st \<and>
        d' = d \<lparr> cd_dlmm_bin_array_bitmap_extensions :=
          snd (vm_insert k st slot (cd_dlmm_bin_array_bitmap_extensions d)) \<rparr>) \<or>
     (\<exists>st. position_decode S I data = Inr st \<and>
        d' = d \<lparr> cd_dlmm_positions := snd (vm_insert k st slot (cd_dlmm_positions d)) \<rparr>)"

lemma dlmm_handle:
  assumes "dlmm_handler_for S I owner data = Some h"
  shows "(\<exists>e. h_handle h c k data slot = (Inl e, c)) \<or>
    (\<exists>res c'. h_handle h c k data slot = (Inr res, c') \<and>
       dlmm_write S I k data slot (lc_data c) (lc_data c') \<and> c' = c \<lparr> lc_data := lc_data c' \<rparr>)"
proof -
  have cases: "h = lb_pair_handler S I \<or> h = bin_array_handler S I \<or>
      h = bitmap_extension_handler S I \<or> h = position_v2_handler S I"
    using assms by (auto simp: dlmm_handler_for_def split: if_splits)
  show ?thesis
    using cases
    by (elim disjE)
      (auto simp: dlmm_handler_defs erased_handle_def dlmm_deserialize_def derived_deserialize_def
        map_err_def lb_pair_apply_def bin_array_apply_def bitmap_extension_apply_def
        position_apply_def on_data_def field_insert_def dlmm_write_def split: sum.splits)
qed

text \<open>C35: The DLMM handlers are type safe. They register together, and whatever account arrives, the
  dispatch either answers an error and leaves the cache as it is, or the account belongs to the
  program, its first eight bytes are one of the four discriminators, it decodes as that type, and
  exactly the field of that type is written, at the account's key. An account of another owner or
  another discriminator has no handler.\<close>

theorem dlmm_dispatch_typed:
  assumes "dlmm_ids_ok I"
  shows "\<exists>r. register_all (dlmm_handlers S I) registry_new = Some r \<and>
    (\<forall>(c :: 'r dlmm_cache) owner k data slot.
      (\<exists>e. dispatch r c owner k data slot = (Inl e, c)) \<or>
      (\<exists>res c'. dispatch r c owner k data slot = (Inr res, c') \<and> owner = id_dlmm I \<and>
         take 8 data \<in> set (dlmm_discs I) \<and> dlmm_write S I k data slot (lc_data c) (lc_data c') \<and>
         c' = c \<lparr> lc_data := lc_data c' \<rparr>)) \<and>
    (\<forall>(c :: 'r dlmm_cache) owner k data slot.
      owner \<noteq> id_dlmm I \<or> length data < 8 \<or> take 8 data \<notin> set (dlmm_discs I) \<longrightarrow>
      dispatch r c owner k data slot = (Inl (NoHandler owner (first_eight data)), c))"
proof -
  obtain r where r: "register_all (dlmm_handlers S I) registry_new = Some r"
    using dlmm_handlers_register [OF assms] by blast
  note dispatch = dlmm_dispatch [OF assms r]
  have known: "owner = id_dlmm I \<and> take 8 data \<in> set (dlmm_discs I)"
    if "dlmm_handler_for S I owner data = Some h" for owner data h
    using that by (auto simp: dlmm_handler_for_def dlmm_discs_def split: if_splits)
  have "(\<exists>e. dispatch r c owner k data slot = (Inl e, c)) \<or>
      (\<exists>res c'. dispatch r c owner k data slot = (Inr res, c') \<and> owner = id_dlmm I \<and>
         take 8 data \<in> set (dlmm_discs I) \<and> dlmm_write S I k data slot (lc_data c) (lc_data c') \<and>
         c' = c \<lparr> lc_data := lc_data c' \<rparr>)" for c :: "'r dlmm_cache" and owner k data slot
  proof (cases "dlmm_handler_for S I owner data")
    case None
    then show ?thesis by (simp add: dispatch)
  next
    case (Some h)
    then show ?thesis
      using dlmm_handle [OF Some, of c k slot] known [OF Some] by (auto simp: dispatch)
  qed
  moreover have "dispatch r c owner k data slot = (Inl (NoHandler owner (first_eight data)), c)"
    if "owner \<noteq> id_dlmm I \<or> length data < 8 \<or> take 8 data \<notin> set (dlmm_discs I)"
    for c :: "'r dlmm_cache" and owner k data slot
  proof -
    have "dlmm_handler_for S I owner data = None"
      using that by (auto simp: dlmm_handler_for_def dlmm_discs_def)
    then show ?thesis by (simp add: dispatch)
  qed
  ultimately show ?thesis
    using r by blast
qed

definition dlmm_example_ids :: dlmm_ids where
  "dlmm_example_ids = \<lparr> id_dlmm = replicate 32 1, disc_lb_pair = replicate 8 1,
     disc_bin_array = replicate 8 2, disc_bitmap_extension = replicate 8 3,
     disc_position_v2 = replicate 8 4 \<rparr>"

definition dlmm_example_sdk :: "unit dlmm_sdk" where
  "dlmm_example_sdk = \<lparr> sdk_lb_pair = (\<lambda>_. Inr dlmm_example_pair),
     sdk_bin_array = (\<lambda>_. Inr \<lparr> ba_index = 0, ba_bins = replicate 70 dlmm_example_bin \<rparr>),
     sdk_bitmap_extension = (\<lambda>_. Inr dlmm_example_extension), sdk_position_v2 = (\<lambda>_. Inl ''short''),
     sdk_position_bin = (\<lambda>_. Inl ''short''), sdk_position_len = 0, sdk_show_key = (\<lambda>_. '''') \<rparr>"

theorem dlmm_dispatch_typed_witness:
  "\<exists>r. register_all (dlmm_handlers dlmm_example_sdk dlmm_example_ids) registry_new = Some r \<and>
     dispatch r (cache_new cache_config_default) (replicate 32 2) [] (replicate 8 1) 3 =
       (Inl (NoHandler (replicate 32 2) (Some (replicate 8 1))), cache_new cache_config_default)"
proof -
  have ok: "dlmm_ids_ok dlmm_example_ids"
    by (simp add: dlmm_ids_ok_def dlmm_discs_def dlmm_example_ids_def)
  have "(replicate 32 2 :: pubkey) \<noteq> id_dlmm dlmm_example_ids"
    by (simp add: dlmm_example_ids_def)
  with dlmm_dispatch_typed [OF ok, of dlmm_example_sdk] show ?thesis
    by (auto simp: first_eight_def)
qed

end
