(* ===== verification/AccountLayout.thy ===== *)
theory AccountLayout
  imports AccountState "HOL-Library.Multiset"
begin

text \<open>
  The account list of an instruction (parsing/accounts.rs and the code that
  protocols-macros account_metas.rs generates for every accounts struct). A struct is a layout:
  the declared slots in order, conditional slots behind them, accounts that are found by deriving
  their address, and a list of what remains. The generated reader and writer are functions of the
  layout, so that their properties are proved once.
\<close>

section \<open>Errors\<close>

text \<open>\<open>InstructionParseError\<close> of parsing/registry.rs.\<close>

datatype instruction_parse_error =
    UnknownProgram pubkey
  | UnknownDiscriminator bytes
  | UnknownDiscriminatorVec bytes
  | DataTooShort
  | DataTooShortDetailed nat nat
  | DeserializationFailed string
  | LogNotFound string
  | UnmodelledAccounts nat nat pubkey
  | MissingAccount nat
  | NotEnoughAccounts nat nat
  | InvalidAccount nat string
  | InvalidField string

section \<open>Slots\<close>

datatype conditional = SlotAbsent | SlotPresent pubkey

fun slot_present :: "conditional \<Rightarrow> bool" where
  "slot_present (SlotPresent k) = True"
| "slot_present SlotAbsent = False"

fun slot_key :: "conditional \<Rightarrow> pubkey option" where
  "slot_key (SlotPresent k) = Some k"
| "slot_key SlotAbsent = None"

datatype remaining_sequence = RemainingSequence string string

record account_meta =
  am_pubkey :: pubkey
  am_is_signer :: bool
  am_is_writable :: bool

text \<open>The attributes of a declared field; an optional one is absent when it holds the program's id.\<close>

record slot =
  sl_name :: string
  sl_writable :: bool
  sl_signer :: bool
  sl_optional :: bool

text \<open>The values of the declared slots, by name: the bindings a derivation refers to.\<close>

type_synonym bindings = "string \<Rightarrow> pubkey option"

record layout =
  la_named :: "slot list"
  la_program_id :: pubkey
  la_conditional :: "string list"
  la_resolved :: "(slot \<times> (bindings \<Rightarrow> pubkey)) list"
  la_rest :: "(string \<times> bool) option"

record accounts =
  ac_named :: "pubkey option list"
  ac_conditional :: "conditional list"
  ac_resolved :: "conditional list"
  ac_rest :: "pubkey list"

definition account_count :: "layout \<Rightarrow> nat" where
  "account_count L = length (la_named L)"

definition bindings_of :: "layout \<Rightarrow> pubkey option list \<Rightarrow> bindings" where
  "bindings_of L vs n = Option.bind (map_of (zip (map sl_name (la_named L)) vs) n) id"

text \<open>A named field of a parsed struct.\<close>

definition acc :: "layout \<Rightarrow> accounts \<Rightarrow> string \<Rightarrow> pubkey option" where
  "acc L a n = bindings_of L (ac_named a) n"

text \<open>What the macro refuses to compile: a struct with both kinds of appended account.\<close>

definition layout_ok :: "layout \<Rightarrow> bool" where
  "layout_ok L \<longleftrightarrow> la_conditional L = [] \<or> la_resolved L = []"

section \<open>Reading\<close>

text \<open>One cursor, drained in declaration order; \<open>None\<close> when it runs dry.\<close>

fun take_named :: "pubkey \<Rightarrow> slot list \<Rightarrow> pubkey list \<Rightarrow> (pubkey option list \<times> pubkey list) option" where
  "take_named pid [] cursor = Some ([], cursor)"
| "take_named pid (s # ss) [] = None"
| "take_named pid (s # ss) (k # cursor) =
     (case take_named pid ss cursor of
        None \<Rightarrow> None
      | Some (vs, rest) \<Rightarrow> Some ((if sl_optional s \<and> k = pid then None else Some k) # vs, rest))"

fun take_conditionals :: "string list \<Rightarrow> pubkey list \<Rightarrow> conditional list \<times> pubkey list" where
  "take_conditionals [] cursor = ([], cursor)"
| "take_conditionals (n # ns) [] = (let (cs, rest) = take_conditionals ns [] in (SlotAbsent # cs, rest))"
| "take_conditionals (n # ns) (k # cursor) =
     (let (cs, rest) = take_conditionals ns cursor in (SlotPresent k # cs, rest))"

text \<open>Derive, then find: the first match leaves the tail.\<close>

fun take_resolved :: "pubkey list \<Rightarrow> pubkey list \<Rightarrow> conditional list \<times> pubkey list" where
  "take_resolved [] tail = ([], tail)"
| "take_resolved (want # ws) tail =
     (if want \<in> set tail
      then let (cs, rest) = take_resolved ws (remove1 want tail) in (SlotPresent want # cs, rest)
      else let (cs, rest) = take_resolved ws tail in (SlotAbsent # cs, rest))"

definition wanted :: "layout \<Rightarrow> pubkey option list \<Rightarrow> pubkey list" where
  "wanted L vs = map (\<lambda>(_, derive). derive (bindings_of L vs)) (la_resolved L)"

definition from_pubkeys :: "layout \<Rightarrow> pubkey list \<Rightarrow> instruction_parse_error + accounts" where
  "from_pubkeys L ks =
     (case take_named (la_program_id L) (la_named L) ks of
        None \<Rightarrow> Inl (NotEnoughAccounts (account_count L) (length ks))
      | Some (vs, cursor) \<Rightarrow>
          let (cs, cursor) = take_conditionals (la_conditional L) cursor;
              (rs, tail) = take_resolved (wanted L vs) cursor;
              a = \<lparr> ac_named = vs, ac_conditional = cs, ac_resolved = rs, ac_rest = tail \<rparr>
          in (case (la_rest L, tail) of
                (None, first # _) \<Rightarrow>
                  Inl (UnmodelledAccounts (length ks - length tail) (length ks) first)
              | _ \<Rightarrow> Inr a))"

section \<open>Writing\<close>

definition named_meta :: "pubkey \<Rightarrow> slot \<times> pubkey option \<Rightarrow> account_meta" where
  "named_meta pid sv =
     (case sv of
        (s, Some k) \<Rightarrow> \<lparr> am_pubkey = k, am_is_signer = sl_signer s, am_is_writable = sl_writable s \<rparr>
      | (s, None) \<Rightarrow> \<lparr> am_pubkey = pid, am_is_signer = False, am_is_writable = False \<rparr>)"

text \<open>A conditional account is always written as writable, whatever its attributes say.\<close>

definition conditional_meta :: "conditional \<Rightarrow> account_meta list" where
  "conditional_meta c =
     (case c of
        SlotPresent k \<Rightarrow> [\<lparr> am_pubkey = k, am_is_signer = False, am_is_writable = True \<rparr>]
      | SlotAbsent \<Rightarrow> [])"

definition resolved_meta :: "slot \<times> conditional \<Rightarrow> account_meta list" where
  "resolved_meta sc =
     (case sc of
        (s, SlotPresent k) \<Rightarrow>
          [\<lparr> am_pubkey = k, am_is_signer = sl_signer s, am_is_writable = sl_writable s \<rparr>]
      | (s, SlotAbsent) \<Rightarrow> [])"

definition rest_meta :: "layout \<Rightarrow> pubkey \<Rightarrow> account_meta" where
  "rest_meta L k =
     \<lparr> am_pubkey = k, am_is_signer = False,
       am_is_writable = (case la_rest L of Some (_, w) \<Rightarrow> w | None \<Rightarrow> False) \<rparr>"

definition to_account_metas :: "layout \<Rightarrow> accounts \<Rightarrow> account_meta list" where
  "to_account_metas L a =
     map (named_meta (la_program_id L)) (zip (la_named L) (ac_named a)) @
     concat (map conditional_meta (ac_conditional a)) @
     concat (map resolved_meta (zip (map fst (la_resolved L)) (ac_resolved a))) @
     (if la_rest L = None then [] else map (rest_meta L) (ac_rest a))"

text \<open>The checks in the order of the source: every conditional against each one before it, then
  the rest against the last conditional.\<close>

definition sequence_pairs :: "string list \<Rightarrow> conditional list \<Rightarrow> ((string \<times> conditional) \<times> (string \<times> conditional)) list" where
  "sequence_pairs ns cs =
     (let xs = zip ns cs in concat (map (\<lambda>n. map (\<lambda>e. (xs ! e, xs ! n)) [0..<n]) [0..<length xs]))"

definition sequence_error :: "layout \<Rightarrow> accounts \<Rightarrow> remaining_sequence option" where
  "sequence_error L a =
     (case find (\<lambda>((_, e), (_, t)). slot_present t \<and> \<not> slot_present e)
             (sequence_pairs (la_conditional L) (ac_conditional a)) of
        Some ((en, _), (tn, _)) \<Rightarrow> Some (RemainingSequence en tn)
      | None \<Rightarrow>
          (case la_rest L of
             Some (rest, _) \<Rightarrow>
               if la_conditional L \<noteq> [] \<and> ac_rest a \<noteq> [] \<and> \<not> slot_present (last (ac_conditional a))
               then Some (RemainingSequence (last (la_conditional L)) rest) else None
           | None \<Rightarrow> None))"

definition try_to_account_metas :: "layout \<Rightarrow> accounts \<Rightarrow> remaining_sequence + account_meta list" where
  "try_to_account_metas L a =
     (case sequence_error L a of Some e \<Rightarrow> Inl e | None \<Rightarrow> Inr (to_account_metas L a))"

section \<open>Reference\<close>

text \<open>A value of the struct that the wire can carry: an absent slot is an optional one, and a
  present optional one is not the sentinel.\<close>

definition slot_fits :: "pubkey \<Rightarrow> slot \<Rightarrow> pubkey option \<Rightarrow> bool" where
  "slot_fits pid s v \<longleftrightarrow> (v = None \<longrightarrow> sl_optional s) \<and> (sl_optional s \<longrightarrow> v \<noteq> Some pid)"

definition fits :: "layout \<Rightarrow> accounts \<Rightarrow> bool" where
  "fits L a \<longleftrightarrow>
     list_all2 (slot_fits (la_program_id L)) (la_named L) (ac_named a) \<and>
     length (ac_conditional a) = length (la_conditional L) \<and>
     length (ac_resolved a) = length (la_resolved L) \<and>
     (la_rest L = None \<longrightarrow> ac_rest a = [])"

definition slot_keys :: "conditional list \<Rightarrow> pubkey list" where
  "slot_keys cs = List.map_filter slot_key cs"

text \<open>The appended accounts are the derived ones, and one that is said to be absent does not
  arrive under another name.\<close>

fun resolves :: "pubkey list \<Rightarrow> conditional list \<Rightarrow> pubkey list \<Rightarrow> bool" where
  "resolves [] [] rest = True"
| "resolves (w # ws) (SlotPresent k # cs) rest \<longleftrightarrow> k = w \<and> resolves ws cs rest"
| "resolves (w # ws) (SlotAbsent # cs) rest \<longleftrightarrow> w \<notin> set (slot_keys cs @ rest) \<and> resolves ws cs rest"
| "resolves _ _ _ = False"

section \<open>The readers\<close>

lemma slot_keys_simps [simp]:
  "slot_keys [] = []" "slot_keys (SlotPresent k # cs) = k # slot_keys cs"
  "slot_keys (SlotAbsent # cs) = slot_keys cs" "slot_keys (xs @ ys) = slot_keys xs @ slot_keys ys"
  by (simp_all add: slot_keys_def map_filter_def)

lemma slot_keys_map [simp]: "slot_keys (map SlotPresent ks) = ks"
  by (induction ks) simp_all

lemma slot_keys_replicate [simp]: "slot_keys (replicate n SlotAbsent) = []"
  by (induction n) simp_all

definition read_slot :: "pubkey \<Rightarrow> slot \<Rightarrow> pubkey \<Rightarrow> pubkey option" where
  "read_slot pid s k = (if sl_optional s \<and> k = pid then None else Some k)"

lemma take_named_eq:
  "take_named pid ss ks =
     (if length ks < length ss then None
      else Some (map (\<lambda>(s, k). read_slot pid s k) (zip ss ks), drop (length ss) ks))"
  by (induction pid ss ks rule: take_named.induct) (auto simp: read_slot_def)

lemma take_conditionals_eq:
  "take_conditionals ns ks =
     (map SlotPresent (take (length ns) ks) @ replicate (length ns - length ks) SlotAbsent, drop (length ns) ks)"
  by (induction ns ks rule: take_conditionals.induct) auto

lemma take_resolved_mset:
  "take_resolved ws tail = (cs, rest) \<Longrightarrow> mset (slot_keys cs @ rest) = mset tail"
  by (induction ws arbitrary: tail cs rest) (fastforce split: if_splits prod.splits)+

lemma take_resolved_length: "take_resolved ws tail = (cs, rest) \<Longrightarrow> length cs = length ws"
  by (induction ws arbitrary: tail cs rest) (fastforce split: if_splits prod.splits)+

lemma take_resolved_written:
  "resolves ws cs rest \<Longrightarrow> take_resolved ws (slot_keys cs @ rest) = (cs, rest)"
  by (induction ws cs rest rule: resolves.induct) auto

lemma take_resolved_resolves: "take_resolved ws tail = (cs, rest) \<Longrightarrow> resolves ws cs rest"
proof (induction ws arbitrary: tail cs rest)
  case (Cons w ws)
  show ?case
  proof (cases "w \<in> set tail")
    case True
    then show ?thesis
      using Cons by (auto split: prod.splits)
  next
    case False
    then obtain cs' where "take_resolved ws tail = (cs', rest)" "cs = SlotAbsent # cs'"
      using Cons.prems by (auto split: prod.splits)
    then show ?thesis
      using Cons.IH False mset_eq_setD [OF take_resolved_mset [of ws tail cs' rest]] by simp
  qed
qed simp

section \<open>The sequence check\<close>

definition prefix_shape :: "conditional list \<Rightarrow> bool" where
  "prefix_shape cs \<longleftrightarrow> (\<forall>n < length cs. \<forall>e < n. slot_present (cs ! n) \<longrightarrow> slot_present (cs ! e))"

lemma prefix_shape_read [simp]: "prefix_shape (map SlotPresent ks @ replicate n SlotAbsent)"
  by (auto simp: prefix_shape_def nth_append)

lemma prefix_shape_tail: "prefix_shape (c # cs) \<Longrightarrow> prefix_shape cs"
  unfolding prefix_shape_def by (metis Suc_less_eq length_Cons nth_Cons_Suc)

lemma prefix_shape_second: "\<not> prefix_shape (SlotAbsent # SlotPresent k # cs)"
proof
  assume "prefix_shape (SlotAbsent # SlotPresent k # cs)"
  then have "slot_present ((SlotAbsent # SlotPresent k # cs) ! 1) \<longrightarrow>
      slot_present ((SlotAbsent # SlotPresent k # cs) ! 0)"
    unfolding prefix_shape_def by (metis length_Cons less_Suc0 Suc_less_eq One_nat_def zero_less_Suc)
  then show False by simp
qed

lemma prefix_shape_cases:
  "prefix_shape cs \<Longrightarrow> \<exists>ks n. cs = map SlotPresent ks @ replicate n SlotAbsent"
proof (induction cs)
  case Nil
  then show ?case by (metis append_Nil list.simps(8) replicate_empty)
next
  case (Cons c cs)
  have "prefix_shape cs"
    using Cons.prems by (rule prefix_shape_tail)
  then obtain ks n where cs: "cs = map SlotPresent ks @ replicate n SlotAbsent"
    using Cons.IH by blast
  show ?case
  proof (cases c)
    case SlotAbsent
    have "ks = []"
    proof (rule ccontr)
      assume "ks \<noteq> []"
      then show False
        using Cons.prems SlotAbsent cs prefix_shape_second by (cases ks) auto
    qed
    then have "c # cs = map SlotPresent [] @ replicate (Suc n) SlotAbsent"
      using SlotAbsent cs by simp
    then show ?thesis by blast
  next
    case (SlotPresent k)
    then have "c # cs = map SlotPresent (k # ks) @ replicate n SlotAbsent"
      using cs by simp
    then show ?thesis by blast
  qed
qed

lemma find_None_iff_all: "find P xs = None \<longleftrightarrow> (\<forall>x \<in> set xs. \<not> P x)"
  by (auto simp: find_None_iff)

lemma sequence_error_None_iff:
  assumes "length (ac_conditional a) = length (la_conditional L)"
  shows "sequence_error L a = None \<longleftrightarrow>
    prefix_shape (ac_conditional a) \<and>
    (la_rest L \<noteq> None \<and> ac_rest a \<noteq> [] \<longrightarrow> (\<forall>c \<in> set (ac_conditional a). slot_present c))"
proof -
  let ?cs = "ac_conditional a"
  have prefix: "find (\<lambda>((_, e), (_, t)). slot_present t \<and> \<not> slot_present e)
      (sequence_pairs (la_conditional L) ?cs) = None \<longleftrightarrow> prefix_shape ?cs"
    using assms by (fastforce simp: find_None_iff_all sequence_pairs_def prefix_shape_def Let_def)
  have last: "slot_present (last ?cs) \<longleftrightarrow> (\<forall>c \<in> set ?cs. slot_present c)"
    if p: "prefix_shape ?cs" and ne: "?cs \<noteq> []"
  proof -
    obtain ks n where cs: "?cs = map SlotPresent ks @ replicate n SlotAbsent"
      using prefix_shape_cases [OF p] by auto
    show ?thesis
      using ne unfolding cs by (cases n) (auto simp: last_map)
  qed
  have ne: "la_conditional L \<noteq> [] \<longleftrightarrow> ?cs \<noteq> []"
    using assms by (metis length_0_conv)
  show ?thesis
  proof (cases "?cs = []")
    case True
    then show ?thesis
      using prefix ne by (auto simp: sequence_error_def split: option.splits)
  next
    case False
    then show ?thesis
      using prefix last ne by (auto simp: sequence_error_def split: option.splits)
  qed
qed

section \<open>Reading and writing\<close>

lemma keys_of_metas:
  assumes "fits L a"
  shows "map am_pubkey (to_account_metas L a) =
    map (\<lambda>v. case v of Some k \<Rightarrow> k | None \<Rightarrow> la_program_id L) (ac_named a) @
    slot_keys (ac_conditional a) @ slot_keys (ac_resolved a) @ ac_rest a"
proof -
  have named: "map am_pubkey (map (named_meta (la_program_id L)) (zip ss vs)) =
      map (\<lambda>v. case v of Some k \<Rightarrow> k | None \<Rightarrow> la_program_id L) vs"
    if "length ss = length vs" for ss vs
    using that by (induction ss vs rule: list_induct2) (auto simp: named_meta_def split: option.splits)
  have conditional: "map am_pubkey (concat (map conditional_meta cs)) = slot_keys cs" for cs
    by (induction cs) (auto simp: conditional_meta_def split: conditional.splits)
  have resolved: "map am_pubkey (concat (map resolved_meta (zip ss cs))) = slot_keys cs"
    if "length ss = length cs" for ss cs
    using that by (induction ss cs rule: list_induct2) (auto simp: resolved_meta_def split: conditional.splits)
  have rest: "map am_pubkey (map (rest_meta L) ks) = ks" for ks
    by (induction ks) (auto simp: rest_meta_def)
  have "length (la_named L) = length (ac_named a)"
    using assms by (auto simp: fits_def list_all2_lengthD)
  then show ?thesis
    using assms named conditional resolved rest by (auto simp: to_account_metas_def fits_def)
qed

lemma from_pubkeys_InrD:
  assumes "from_pubkeys L ks = Inr a"
  shows "fits L a"
    and "sequence_error L a = None"
    and "\<exists>tail. ks = map (\<lambda>v. case v of Some k \<Rightarrow> k | None \<Rightarrow> la_program_id L) (ac_named a) @
           slot_keys (ac_conditional a) @ tail \<and>
           take_resolved (wanted L (ac_named a)) tail = (ac_resolved a, ac_rest a)"
proof -
  let ?n = "length (la_named L)" and ?c = "length (la_conditional L)"
  let ?cursor = "drop ?n ks"
  obtain rs tail where taken: "take_resolved (wanted L (ac_named a)) (drop ?c ?cursor) = (rs, tail)"
    by fastforce
  have n: "?n \<le> length ks"
    and named: "ac_named a = map (\<lambda>(s, k). read_slot (la_program_id L) s k) (zip (la_named L) ks)"
    and cs: "ac_conditional a = map SlotPresent (take ?c ?cursor) @ replicate (?c - length ?cursor) SlotAbsent"
    and rs: "ac_resolved a = rs" and tail: "ac_rest a = tail"
    and rest: "la_rest L = None \<longrightarrow> tail = []"
    using assms taken
    by (auto simp: from_pubkeys_def take_named_eq take_conditionals_eq Let_def
        split: if_splits prod.splits option.splits list.splits)
  have fit: "list_all2 (slot_fits (la_program_id L)) ss (map (\<lambda>(s, k). read_slot (la_program_id L) s k) (zip ss ks))"
    if "length ss \<le> length ks" for ss ks
    using that
  proof (induction ss arbitrary: ks)
    case (Cons s ss)
    then show ?case by (cases ks) (auto simp: slot_fits_def read_slot_def)
  qed simp
  show fits: "fits L a"
    using fit [OF n] take_resolved_length [OF taken] rest
    by (auto simp: fits_def named cs rs tail wanted_def)
  have all: "slot_present c" if "tail \<noteq> []" "c \<in> set (ac_conditional a)" for c
  proof -
    have "drop ?c ?cursor \<noteq> []"
      using that(1) take_resolved_mset [OF taken] by auto
    then show ?thesis
      using that(2) by (auto simp: cs)
  qed
  have shape: "prefix_shape (ac_conditional a)"
    by (simp add: cs)
  show "sequence_error L a = None"
    using shape all fits by (subst sequence_error_None_iff) (auto simp: fits_def tail)
  have reread: "map (\<lambda>v. case v of Some k \<Rightarrow> k | None \<Rightarrow> p) (map (\<lambda>(s, k). read_slot p s k) (zip ss ks)) =
      take (length ss) ks" if "length ss \<le> length ks" for p ss ks
    using that
  proof (induction ss arbitrary: ks)
    case (Cons s ss)
    then show ?case by (cases ks) (auto simp: read_slot_def)
  qed simp
  have "ks = take ?n ks @ take ?c ?cursor @ drop ?c ?cursor"
    by (metis append_take_drop_id)
  then show "\<exists>tail. ks = map (\<lambda>v. case v of Some k \<Rightarrow> k | None \<Rightarrow> la_program_id L) (ac_named a) @
      slot_keys (ac_conditional a) @ tail \<and>
      take_resolved (wanted L (ac_named a)) tail = (ac_resolved a, ac_rest a)"
    unfolding named reread [OF n] using taken named rs tail cs
    by (intro exI [of _ "drop ?c ?cursor"]) simp
qed

lemma layout_parse_build:
  assumes "from_pubkeys L ks = Inr a"
  defines "keys \<equiv> map am_pubkey (to_account_metas L a)"
  shows "try_to_account_metas L a = Inr (to_account_metas L a)"
    and "mset keys = mset ks"
    and "take (account_count L + length (slot_keys (ac_conditional a))) keys =
         take (account_count L + length (slot_keys (ac_conditional a))) ks"
    and "la_resolved L = [] \<Longrightarrow> keys = ks"
proof -
  note fits = from_pubkeys_InrD(1) [OF assms(1)]
  obtain tail where ks: "ks = map (\<lambda>v. case v of Some k \<Rightarrow> k | None \<Rightarrow> la_program_id L) (ac_named a) @
      slot_keys (ac_conditional a) @ tail"
    and taken: "take_resolved (wanted L (ac_named a)) tail = (ac_resolved a, ac_rest a)"
    using from_pubkeys_InrD(3) [OF assms(1)] by auto
  have n: "account_count L = length (ac_named a)"
    using fits by (auto simp: fits_def account_count_def list_all2_lengthD)
  show "try_to_account_metas L a = Inr (to_account_metas L a)"
    using from_pubkeys_InrD(2) [OF assms(1)] by (simp add: try_to_account_metas_def)
  show "mset keys = mset ks"
    using take_resolved_mset [OF taken] by (simp add: keys_def keys_of_metas [OF fits] ks)
  show "take (account_count L + length (slot_keys (ac_conditional a))) keys =
      take (account_count L + length (slot_keys (ac_conditional a))) ks"
    by (simp add: keys_def keys_of_metas [OF fits] ks n)
  show "keys = ks" if "la_resolved L = []"
    using taken that by (simp add: keys_def keys_of_metas [OF fits] ks wanted_def)
qed

lemma layout_build_parse:
  assumes ok: "layout_ok L" and fits: "fits L a"
    and written: "try_to_account_metas L a = Inr ms"
    and resolves: "resolves (wanted L (ac_named a)) (ac_resolved a) (ac_rest a)"
  shows "from_pubkeys L (map am_pubkey ms) = Inr a"
proof -
  let ?p = "la_program_id L"
  let ?keys = "map (\<lambda>v. case v of Some k \<Rightarrow> k | None \<Rightarrow> ?p) (ac_named a)"
  let ?tail = "slot_keys (ac_resolved a) @ ac_rest a"
  have none: "sequence_error L a = None" and ms: "ms = to_account_metas L a"
    using written by (auto simp: try_to_account_metas_def split: option.splits)
  have n: "length (ac_named a) = length (la_named L)"
    using fits by (auto simp: fits_def list_all2_lengthD)
  have reread: "map (\<lambda>(s, k). read_slot p s k) (zip ss (map (\<lambda>v. case v of Some k \<Rightarrow> k | None \<Rightarrow> p) vs @ xs)) = vs"
    if "list_all2 (slot_fits p) ss vs" for p ss vs xs
    using that by induction (auto simp: slot_fits_def read_slot_def split: option.splits)
  have named: "take_named ?p (la_named L) (?keys @ slot_keys (ac_conditional a) @ ?tail) =
      Some (ac_named a, slot_keys (ac_conditional a) @ ?tail)"
    using reread [of ?p "la_named L" "ac_named a"] fits n by (auto simp: take_named_eq fits_def)
  have shape: "prefix_shape (ac_conditional a)"
    and full: "la_rest L \<noteq> None \<and> ac_rest a \<noteq> [] \<longrightarrow> (\<forall>c \<in> set (ac_conditional a). slot_present c)"
    using none fits by (auto simp: sequence_error_None_iff fits_def)
  obtain cks m where cs: "ac_conditional a = map SlotPresent cks @ replicate m SlotAbsent"
    using prefix_shape_cases [OF shape] by auto
  have len: "length (la_conditional L) = length cks + m"
    using fits cs by (simp add: fits_def)
  have tail: "?tail = []" if "m > 0"
  proof -
    have "la_resolved L = []"
      using ok len that by (auto simp: layout_ok_def)
    moreover have "ac_rest a = []"
      using full that fits by (auto simp: cs fits_def)
    ultimately show ?thesis
      using fits by (simp add: fits_def)
  qed
  have conditionals: "take_conditionals (la_conditional L) (slot_keys (ac_conditional a) @ ?tail) =
      (ac_conditional a, ?tail)"
    using tail len by (cases "m = 0") (auto simp: take_conditionals_eq cs)
  have "ac_rest a = []" if "la_rest L = None"
    using fits that by (simp add: fits_def)
  then show ?thesis
    using named conditionals take_resolved_written [OF resolves]
    by (auto simp: ms keys_of_metas [OF fits] from_pubkeys_def Let_def split: option.splits list.splits)
qed

section \<open>The contract of a layout\<close>

text \<open>C9: Reading loses nothing. Whatever account list a layout accepts, every account of it is in the
  struct and is written back: the same accounts as often as they arrived, the declared and the
  conditional ones in their place, and the whole list in its order unless appended accounts were
  found by derivation. The struct never has a hole, so that the checked writer accepts it.\<close>

theorem account_list_reads_everything:
  assumes "from_pubkeys L ks = Inr a"
  shows "try_to_account_metas L a = Inr (to_account_metas L a) \<and>
    mset (map am_pubkey (to_account_metas L a)) = mset ks \<and>
    (let n = account_count L + length (slot_keys (ac_conditional a))
     in take n (map am_pubkey (to_account_metas L a)) = take n ks) \<and>
    (la_resolved L = [] \<longrightarrow> map am_pubkey (to_account_metas L a) = ks)"
  using layout_parse_build [OF assms] by (simp add: Let_def)

text \<open>What the checked writer writes is read back. A struct that the wire can carry, whose
  appended accounts are the derived ones, is what the reader makes of its own account list.\<close>

lemma account_list_roundtrip:
  assumes "layout_ok L" and "fits L a" and "try_to_account_metas L a = Inr ms"
    and "resolves (wanted L (ac_named a)) (ac_resolved a) (ac_rest a)"
  shows "from_pubkeys L (map am_pubkey ms) = Inr a"
  by (rule layout_build_parse [OF assms])

text \<open>A layout without derived accounts and without a rest accepts the lengths from the declared
  slots to the last conditional one and nothing else.\<close>

lemma from_pubkeys_closed_layout:
  assumes "la_resolved L = []" and "la_rest L = None"
  defines "n \<equiv> account_count L" and "m \<equiv> account_count L + length (la_conditional L)"
  shows "length ks < n \<Longrightarrow> from_pubkeys L ks = Inl (NotEnoughAccounts n (length ks))"
    and "m < length ks \<Longrightarrow> from_pubkeys L ks = Inl (UnmodelledAccounts m (length ks) (ks ! m))"
    and "n \<le> length ks \<Longrightarrow> length ks \<le> m \<Longrightarrow> \<exists>a. from_pubkeys L ks = Inr a"
proof -
  show "from_pubkeys L ks = Inl (NotEnoughAccounts n (length ks))" if "length ks < n"
    using that by (simp add: from_pubkeys_def take_named_eq n_def account_count_def)
  show "from_pubkeys L ks = Inl (UnmodelledAccounts m (length ks) (ks ! m))" if "m < length ks"
  proof -
    have "drop m ks = ks ! m # drop (Suc m) ks"
      using that by (simp add: Cons_nth_drop_Suc)
    then have "drop (length (la_conditional L)) (drop (length (la_named L)) ks) = ks ! m # drop (Suc m) ks"
      by (simp add: m_def account_count_def add.commute)
    then show ?thesis
      using assms(1,2) that
      by (simp add: from_pubkeys_def take_named_eq take_conditionals_eq m_def account_count_def wanted_def Let_def
          del: drop_drop)
  qed
  show "\<exists>a. from_pubkeys L ks = Inr a" if "n \<le> length ks" "length ks \<le> m"
    using assms(1,2) that
    by (simp add: from_pubkeys_def take_named_eq take_conditionals_eq n_def m_def account_count_def wanted_def Let_def)
qed

text \<open>A hole is refused because it cannot be read back: the later account takes the place of the
  absent one.\<close>

definition hole_layout :: layout where
  "hole_layout = \<lparr> la_named = [], la_program_id = [], la_conditional = [''first'', ''second''],
     la_resolved = [], la_rest = None \<rparr>"

definition hole :: "pubkey \<Rightarrow> accounts" where
  "hole k = \<lparr> ac_named = [], ac_conditional = [SlotAbsent, SlotPresent k], ac_resolved = [], ac_rest = [] \<rparr>"

lemma hole_misread:
  "try_to_account_metas hole_layout (hole k) = Inl (RemainingSequence ''first'' ''second'')"
  "from_pubkeys hole_layout (map am_pubkey (to_account_metas hole_layout (hole k))) =
     Inr ((hole k) \<lparr> ac_conditional := [SlotPresent k, SlotAbsent] \<rparr>)"
  by (simp_all add: hole_layout_def hole_def try_to_account_metas_def sequence_error_def
      sequence_pairs_def to_account_metas_def conditional_meta_def from_pubkeys_def wanted_def Let_def)

text \<open>A small layout of every kind: an optional slot, an account derived from a declared one, and a
  rest. The derived account is found behind a vault.\<close>

definition example_layout :: layout where
  "example_layout =
     \<lparr> la_named = [\<lparr> sl_name = ''user'', sl_writable = True, sl_signer = True, sl_optional = False \<rparr>,
                  \<lparr> sl_name = ''host'', sl_writable = True, sl_signer = False, sl_optional = True \<rparr>],
       la_program_id = [9], la_conditional = [],
       la_resolved = [(\<lparr> sl_name = ''accumulator'', sl_writable = False, sl_signer = False, sl_optional = False \<rparr>,
                      \<lambda>b. case b ''user'' of Some k \<Rightarrow> 7 # k | None \<Rightarrow> [])],
       la_rest = Some (''vaults'', False) \<rparr>"

definition example_accounts :: accounts where
  "example_accounts = \<lparr> ac_named = [Some [1], None], ac_conditional = [],
     ac_resolved = [SlotPresent [7, 1]], ac_rest = [[3], [4]] \<rparr>"

lemmas example_layout_simps =
  example_layout_def example_accounts_def from_pubkeys_def wanted_def bindings_of_def Let_def
  account_count_def to_account_metas_def named_meta_def resolved_meta_def rest_meta_def

theorem account_list_reads_everything_witness:
  "mset (map am_pubkey (to_account_metas example_layout example_accounts)) = mset [[1], [9], [3], [7, 1], [4]]"
proof -
  have "from_pubkeys example_layout [[1], [9], [3], [7, 1], [4]] = Inr example_accounts"
    by (simp add: example_layout_simps)
  then show ?thesis
    using account_list_reads_everything by blast
qed

end
