(* ===== verification/Layouts.thy ===== *)
theory Layouts
  imports AccountLayout PumpHandlers
begin

text \<open>
  The account layouts of the instructions that the crate knows, one per accounts struct under
  protocols/*/instructions (the Meteora DLMM ones are in the theory \<open>DlmmInstructions\<close>), and the
  addresses of pumpfun/accounts.rs and pumpswap/accounts.rs that some of them derive. The slots of
  a layout are the fields of the struct in their order, with their attributes.
\<close>

section \<open>Identities and derived addresses\<close>

text \<open>Constants that the source writes as addresses, the derivation of program addresses, and the
  discriminators of the instructions, a hash of their names that a macro evaluates.\<close>

record key_env =
  ke_pda :: "bytes list \<Rightarrow> pubkey \<Rightarrow> pubkey"
  ke_ids :: pump_ids
  ke_tokens :: token_env
  ke_instruction_disc :: "string \<Rightarrow> bytes"
  ke_system_program :: pubkey
  ke_associated_token_program :: pubkey
  ke_global :: pubkey
  ke_fee_collector :: pubkey
  ke_event_authority :: pubkey
  ke_global_volume_accumulator :: pubkey
  ke_pumpswap_global_config :: pubkey
  ke_protocol_fee_recipient :: pubkey
  ke_protocol_fee_recipient_token_account :: pubkey
  ke_pumpswap_event_authority :: pubkey
  ke_pumpswap_global_volume_accumulator :: pubkey

definition seed_bytes :: "string \<Rightarrow> bytes" where
  "seed_bytes s = map (\<lambda>c. of_nat (of_char c)) s"

text \<open>\<open>get_associated_token_address\<close>: the account under the classic token program.\<close>

definition classic_ata :: "key_env \<Rightarrow> pubkey \<Rightarrow> pubkey \<Rightarrow> pubkey" where
  "classic_ata K owner mint = te_ata (ke_tokens K) owner mint (te_spl_token_id (ke_tokens K))"

definition derive_bonding_curve_pda :: "key_env \<Rightarrow> pubkey \<Rightarrow> pubkey" where
  "derive_bonding_curve_pda K mint = ke_pda K [seed_bytes ''bonding-curve'', mint] (id_pumpfun (ke_ids K))"

definition derive_bonding_curve_v2_pda :: "key_env \<Rightarrow> pubkey \<Rightarrow> pubkey" where
  "derive_bonding_curve_v2_pda K mint = ke_pda K [seed_bytes ''bonding-curve-v2'', mint] (id_pumpfun (ke_ids K))"

definition derive_creator_vault_pda :: "key_env \<Rightarrow> pubkey \<Rightarrow> pubkey" where
  "derive_creator_vault_pda K creator = ke_pda K [seed_bytes ''creator-vault'', creator] (id_pumpfun (ke_ids K))"

definition derive_user_volume_accumulator_pda :: "key_env \<Rightarrow> pubkey \<Rightarrow> pubkey" where
  "derive_user_volume_accumulator_pda K user =
     ke_pda K [seed_bytes ''user_volume_accumulator'', user] (id_pumpfun (ke_ids K))"

definition derive_associated_bonding_curve :: "key_env \<Rightarrow> pubkey \<Rightarrow> pubkey" where
  "derive_associated_bonding_curve K mint = classic_ata K (derive_bonding_curve_pda K mint) mint"

text \<open>PumpSwap's accumulator is derived in two ways: in the layouts and the appended accounts under
  the PumpSwap program, in the keys under the fee program.\<close>

definition pumpswap_volume_accumulator :: "key_env \<Rightarrow> pubkey \<Rightarrow> pubkey" where
  "pumpswap_volume_accumulator K user =
     ke_pda K [seed_bytes ''user_volume_accumulator'', user] (id_pumpswap (ke_ids K))"

definition derive_user_volume_accumulator :: "key_env \<Rightarrow> pubkey \<Rightarrow> pubkey" where
  "derive_user_volume_accumulator K user =
     ke_pda K [seed_bytes ''user_volume_accumulator'', user] (id_pump_fees (ke_ids K))"

definition derive_creator_vault_authority :: "key_env \<Rightarrow> pubkey \<Rightarrow> pubkey" where
  "derive_creator_vault_authority K coin_creator =
     ke_pda K [seed_bytes ''creator_vault'', coin_creator] (id_pumpswap (ke_ids K))"

section \<open>Notation of slots\<close>

definition ro :: "string \<Rightarrow> slot" where
  "ro n = \<lparr> sl_name = n, sl_writable = False, sl_signer = False, sl_optional = False \<rparr>"

definition rw :: "string \<Rightarrow> slot" where
  "rw n = \<lparr> sl_name = n, sl_writable = True, sl_signer = False, sl_optional = False \<rparr>"

definition sg :: "string \<Rightarrow> slot" where
  "sg n = \<lparr> sl_name = n, sl_writable = False, sl_signer = True, sl_optional = False \<rparr>"

definition ws :: "string \<Rightarrow> slot" where
  "ws n = \<lparr> sl_name = n, sl_writable = True, sl_signer = True, sl_optional = False \<rparr>"

lemmas slot_defs = ro_def rw_def sg_def ws_def

definition plain_layout :: "slot list \<Rightarrow> layout" where
  "plain_layout ss =
     \<lparr> la_named = ss, la_program_id = [], la_conditional = [], la_resolved = [], la_rest = None \<rparr>"

text \<open>A required slot, as a derivation refers to it.\<close>

definition bound :: "bindings \<Rightarrow> string \<Rightarrow> pubkey" where
  "bound b n = (case b n of Some k \<Rightarrow> k | None \<Rightarrow> [])"

section \<open>Pump.fun\<close>

definition pumpfun_buy_layout :: "key_env \<Rightarrow> layout" where
  "pumpfun_buy_layout K = (plain_layout
     [ro ''global'', rw ''fee_recipient'', ro ''mint'', rw ''bonding_curve'',
      rw ''associated_bonding_curve'', rw ''associated_user'', ws ''user'', ro ''system_program'',
      ro ''token_program'', rw ''creator_vault'', ro ''event_authority'', ro ''program'',
      ro ''global_volume_accumulator'', rw ''user_volume_accumulator'', ro ''fee_config'',
      ro ''fee_program''])
    \<lparr> la_resolved :=
       [(ro ''appended_user_volume_accumulator'', \<lambda>b. derive_user_volume_accumulator_pda K (bound b ''user'')),
        (ro ''bonding_curve_v2'', \<lambda>b. derive_bonding_curve_v2_pda K (bound b ''mint''))],
      la_rest := Some (''buyback_vaults'', False) \<rparr>"

definition pumpfun_buy_exact_quote_in_v2_layout :: "key_env \<Rightarrow> layout" where
  "pumpfun_buy_exact_quote_in_v2_layout K = (plain_layout
     [ro ''global'', ro ''base_mint'', ro ''quote_mint'', ro ''base_token_program'',
      ro ''quote_token_program'', ro ''associated_token_program'', rw ''fee_recipient'',
      rw ''associated_quote_fee_recipient'', rw ''buyback_fee_recipient'',
      rw ''associated_quote_buyback_fee_recipient'', rw ''bonding_curve'',
      rw ''associated_base_bonding_curve'', rw ''associated_quote_bonding_curve'', ws ''user'',
      rw ''associated_base_user'', rw ''associated_quote_user'', rw ''creator_vault'',
      rw ''associated_creator_vault'', ro ''sharing_config'', ro ''global_volume_accumulator'',
      rw ''user_volume_accumulator'', rw ''associated_user_volume_accumulator'', ro ''fee_config'',
      ro ''fee_program'', ro ''system_program'', ro ''event_authority'', ro ''program''])
    \<lparr> la_resolved :=
       [(ro ''appended_user_volume_accumulator'', \<lambda>b. derive_user_volume_accumulator_pda K (bound b ''user'')),
        (ro ''bonding_curve_v2'', \<lambda>b. derive_bonding_curve_v2_pda K (bound b ''base_mint''))],
      la_rest := Some (''buyback_vaults'', False) \<rparr>"

definition pumpfun_buy_exact_sol_in_layout :: "key_env \<Rightarrow> layout" where
  "pumpfun_buy_exact_sol_in_layout K = (plain_layout
     [ro ''global'', rw ''fee_recipient'', ro ''mint'', rw ''bonding_curve'',
      rw ''associated_bonding_curve'', rw ''associated_user'', ws ''user'', ro ''system_program'',
      ro ''token_program'', rw ''creator_vault'', ro ''event_authority'', ro ''program'',
      ro ''global_volume_accumulator'', rw ''user_volume_accumulator'', ro ''fee_config'',
      ro ''fee_program''])
    \<lparr> la_resolved :=
       [(ro ''appended_user_volume_accumulator'', \<lambda>b. derive_user_volume_accumulator_pda K (bound b ''user'')),
        (ro ''bonding_curve_v2'', \<lambda>b. derive_bonding_curve_v2_pda K (bound b ''mint''))],
      la_rest := Some (''buyback_vaults'', False) \<rparr>"

definition pumpfun_buy_v2_layout :: "key_env \<Rightarrow> layout" where
  "pumpfun_buy_v2_layout K = (plain_layout
     [ro ''global'', ro ''base_mint'', ro ''quote_mint'', ro ''base_token_program'',
      ro ''quote_token_program'', ro ''associated_token_program'', rw ''fee_recipient'',
      rw ''associated_quote_fee_recipient'', rw ''buyback_fee_recipient'',
      rw ''associated_quote_buyback_fee_recipient'', rw ''bonding_curve'',
      rw ''associated_base_bonding_curve'', rw ''associated_quote_bonding_curve'', ws ''user'',
      rw ''associated_base_user'', rw ''associated_quote_user'', rw ''creator_vault'',
      rw ''associated_creator_vault'', ro ''sharing_config'', ro ''global_volume_accumulator'',
      rw ''user_volume_accumulator'', rw ''associated_user_volume_accumulator'', ro ''fee_config'',
      ro ''fee_program'', ro ''system_program'', ro ''event_authority'', ro ''program''])
    \<lparr> la_resolved :=
       [(ro ''appended_user_volume_accumulator'', \<lambda>b. derive_user_volume_accumulator_pda K (bound b ''user'')),
        (ro ''bonding_curve_v2'', \<lambda>b. derive_bonding_curve_v2_pda K (bound b ''base_mint''))],
      la_rest := Some (''buyback_vaults'', False) \<rparr>"

definition pumpfun_collect_creator_fee_layout :: layout where
  "pumpfun_collect_creator_fee_layout = plain_layout
     [rw ''creator'', rw ''creator_vault'', ro ''system_program'', ro ''event_authority'',
      ro ''program'']"

definition pumpfun_collect_creator_fee_v2_layout :: layout where
  "pumpfun_collect_creator_fee_v2_layout = plain_layout
     [rw ''creator'', rw ''creator_token_account'', rw ''creator_vault'',
      rw ''creator_vault_token_account'', ro ''quote_mint'', ro ''quote_token_program'',
      ro ''associated_token_program'', ro ''system_program'', ro ''event_authority'', ro ''program'']"

definition pumpfun_create_layout :: layout where
  "pumpfun_create_layout = plain_layout
     [ws ''mint'', ro ''mint_authority'', rw ''bonding_curve'', rw ''associated_bonding_curve'',
      ro ''global'', ro ''mpl_token_metadata'', rw ''metadata'', ws ''user'', ro ''system_program'',
      ro ''token_program'', ro ''associated_token_program'', ro ''rent'', ro ''event_authority'',
      ro ''program'']"

definition pumpfun_create_v2_layout :: "layout" where
  "pumpfun_create_v2_layout = (plain_layout
     [ws ''mint'', ro ''mint_authority'', rw ''bonding_curve'', rw ''associated_bonding_curve'',
      ro ''global'', ws ''user'', ro ''system_program'', ro ''token_program'',
      ro ''associated_token_program'', rw ''mayhem_program_id'', ro ''global_params'',
      rw ''sol_vault'', rw ''mayhem_state'', rw ''mayhem_token_vault'', ro ''event_authority'',
      ro ''program''])
    \<lparr> la_conditional := [''quote_mint'', ''associated_quote_bonding_curve'', ''quote_token_program''] \<rparr>"

definition pumpfun_distribute_creator_fees_layout :: "layout" where
  "pumpfun_distribute_creator_fees_layout = (plain_layout
     [ro ''mint'', ro ''bonding_curve'', ro ''sharing_config'', rw ''creator_vault'',
      ro ''system_program'', ro ''event_authority'', ro ''program''])
    \<lparr> la_rest := Some (''unidentified'', False) \<rparr>"

definition pumpfun_distribute_creator_fees_v2_layout :: "layout" where
  "pumpfun_distribute_creator_fees_v2_layout = (plain_layout
     [ws ''payer'', ro ''mint'', ro ''bonding_curve'', ro ''sharing_config'', rw ''creator_vault'',
      ro ''system_program'', ro ''event_authority'', ro ''program'',
      rw ''creator_vault_quote_token_account'', ro ''quote_mint'', ro ''quote_token_program'',
      ro ''associated_token_program''])
    \<lparr> la_rest := Some (''unidentified'', False) \<rparr>"

definition pumpfun_migrate_layout :: "layout" where
  "pumpfun_migrate_layout = (plain_layout
     [ro ''global'', rw ''withdraw_authority'', ro ''mint'', rw ''bonding_curve'',
      rw ''associated_bonding_curve'', sg ''user'', ro ''system_program'', ro ''token_program'',
      ro ''pump_amm'', rw ''pool'', rw ''pool_authority'', rw ''pool_authority_mint_account'',
      rw ''pool_authority_wsol_account'', ro ''amm_global_config'', ro ''wsol_mint'', rw ''lp_mint'',
      rw ''user_pool_token_account'', rw ''pool_base_token_account'', rw ''pool_quote_token_account'',
      ro ''token_2022_program'', ro ''associated_token_program'', ro ''pump_amm_event_authority'',
      ro ''event_authority'', ro ''program'', ro ''rent''])
    \<lparr> la_rest := Some (''unidentified'', False) \<rparr>"

definition pumpfun_migrate_v2_layout :: "layout" where
  "pumpfun_migrate_v2_layout = (plain_layout
     [ro ''global'', rw ''withdraw_authority'', ro ''base_mint'', ro ''quote_mint'',
      rw ''bonding_curve'', rw ''associated_base_bonding_curve'',
      rw ''associated_quote_bonding_curve'', sg ''user'', ro ''system_program'', ro ''pump_amm'',
      rw ''pool'', rw ''pool_authority'', rw ''pool_authority_mint_account'',
      rw ''pool_authority_quote_account'', ro ''amm_global_config'', rw ''lp_mint'',
      rw ''user_pool_token_account'', rw ''pool_base_token_account'', rw ''pool_quote_token_account'',
      ro ''base_token_program'', ro ''quote_token_program'', ro ''token_2022_program'',
      ro ''associated_token_program'', ro ''pump_amm_event_authority'', ro ''rent'',
      ro ''event_authority'', ro ''program''])
    \<lparr> la_rest := Some (''unidentified'', False) \<rparr>"

definition pumpfun_sell_layout :: "key_env \<Rightarrow> layout" where
  "pumpfun_sell_layout K = (plain_layout
     [ro ''global'', rw ''fee_recipient'', ro ''mint'', rw ''bonding_curve'',
      rw ''associated_bonding_curve'', rw ''associated_user'', ws ''user'', ro ''system_program'',
      rw ''creator_vault'', ro ''token_program'', ro ''event_authority'', ro ''program'',
      ro ''fee_config'', ro ''fee_program''])
    \<lparr> la_resolved :=
       [(ro ''appended_user_volume_accumulator'', \<lambda>b. derive_user_volume_accumulator_pda K (bound b ''user'')),
        (ro ''bonding_curve_v2'', \<lambda>b. derive_bonding_curve_v2_pda K (bound b ''mint''))],
      la_rest := Some (''buyback_vaults'', False) \<rparr>"

definition pumpfun_sell_v2_layout :: "key_env \<Rightarrow> layout" where
  "pumpfun_sell_v2_layout K = (plain_layout
     [ro ''global'', ro ''base_mint'', ro ''quote_mint'', ro ''base_token_program'',
      ro ''quote_token_program'', ro ''associated_token_program'', rw ''fee_recipient'',
      rw ''associated_quote_fee_recipient'', rw ''buyback_fee_recipient'',
      rw ''associated_quote_buyback_fee_recipient'', rw ''bonding_curve'',
      rw ''associated_base_bonding_curve'', rw ''associated_quote_bonding_curve'', ws ''user'',
      rw ''associated_base_user'', rw ''associated_quote_user'', rw ''creator_vault'',
      rw ''associated_creator_vault'', ro ''sharing_config'', rw ''user_volume_accumulator'',
      rw ''associated_user_volume_accumulator'', ro ''fee_config'', ro ''fee_program'',
      ro ''system_program'', ro ''event_authority'', ro ''program''])
    \<lparr> la_resolved :=
       [(ro ''appended_user_volume_accumulator'', \<lambda>b. derive_user_volume_accumulator_pda K (bound b ''user'')),
        (ro ''bonding_curve_v2'', \<lambda>b. derive_bonding_curve_v2_pda K (bound b ''base_mint''))],
      la_rest := Some (''buyback_vaults'', False) \<rparr>"

section \<open>PumpSwap\<close>

definition pumpswap_buy_layout :: "key_env \<Rightarrow> layout" where
  "pumpswap_buy_layout K = (plain_layout
     [rw ''pool'', ws ''user'', ro ''global_config'', ro ''base_mint'', ro ''quote_mint'',
      rw ''user_base_token_account'', rw ''user_quote_token_account'', rw ''pool_base_token_account'',
      rw ''pool_quote_token_account'', ro ''protocol_fee_recipient'',
      rw ''protocol_fee_recipient_token_account'', ro ''base_token_program'',
      ro ''quote_token_program'', ro ''system_program'', ro ''associated_token_program'',
      ro ''event_authority'', ro ''program'', rw ''coin_creator_vault_ata'',
      ro ''coin_creator_vault_authority'', ro ''global_volume_accumulator'',
      rw ''user_volume_accumulator'', ro ''fee_config'', ro ''fee_program''])
    \<lparr> la_resolved :=
       [(ro ''appended_quote_volume_accumulator'', \<lambda>b. classic_ata K (bound b ''user_volume_accumulator'') (bound b ''quote_mint''))],
      la_rest := Some (''buyback_vaults'', False) \<rparr>"

definition pumpswap_buy_exact_quote_in_layout :: "key_env \<Rightarrow> layout" where
  "pumpswap_buy_exact_quote_in_layout K = (plain_layout
     [rw ''pool'', ws ''user'', ro ''global_config'', ro ''base_mint'', ro ''quote_mint'',
      rw ''user_base_token_account'', rw ''user_quote_token_account'', rw ''pool_base_token_account'',
      rw ''pool_quote_token_account'', ro ''protocol_fee_recipient'',
      rw ''protocol_fee_recipient_token_account'', ro ''base_token_program'',
      ro ''quote_token_program'', ro ''system_program'', ro ''associated_token_program'',
      ro ''event_authority'', ro ''program'', rw ''coin_creator_vault_ata'',
      ro ''coin_creator_vault_authority'', ro ''global_volume_accumulator'',
      rw ''user_volume_accumulator'', ro ''fee_config'', ro ''fee_program''])
    \<lparr> la_resolved :=
       [(ro ''appended_quote_volume_accumulator'', \<lambda>b. classic_ata K (bound b ''user_volume_accumulator'') (bound b ''quote_mint''))],
      la_rest := Some (''buyback_vaults'', False) \<rparr>"

definition pumpswap_collect_coin_creator_fee_layout :: layout where
  "pumpswap_collect_coin_creator_fee_layout = plain_layout
     [ro ''quote_mint'', ro ''quote_token_program'', ro ''coin_creator'',
      ro ''coin_creator_vault_authority'', rw ''coin_creator_vault_ata'',
      rw ''coin_creator_token_account'', ro ''event_authority'', ro ''program'']"

definition pumpswap_create_pool_layout :: layout where
  "pumpswap_create_pool_layout = plain_layout
     [rw ''pool'', ro ''global_config'', ws ''creator'', ro ''base_mint'', ro ''quote_mint'',
      rw ''lp_mint'', rw ''user_base_token_account'', rw ''user_quote_token_account'',
      rw ''user_pool_token_account'', rw ''pool_base_token_account'', rw ''pool_quote_token_account'',
      ro ''system_program'', ro ''token_2022_program'', ro ''base_token_program'',
      ro ''quote_token_program'', ro ''associated_token_program'', ro ''event_authority'',
      ro ''program'']"

definition pumpswap_deposit_layout :: layout where
  "pumpswap_deposit_layout = plain_layout
     [rw ''pool'', ro ''global_config'', sg ''user'', ro ''base_mint'', ro ''quote_mint'',
      rw ''lp_mint'', rw ''user_base_token_account'', rw ''user_quote_token_account'',
      rw ''user_pool_token_account'', rw ''pool_base_token_account'', rw ''pool_quote_token_account'',
      ro ''token_program'', ro ''token_2022_program'', ro ''event_authority'', ro ''program'']"

definition pumpswap_sell_layout :: "key_env \<Rightarrow> layout" where
  "pumpswap_sell_layout K = (plain_layout
     [rw ''pool'', ws ''user'', ro ''global_config'', ro ''base_mint'', ro ''quote_mint'',
      rw ''user_base_token_account'', rw ''user_quote_token_account'', rw ''pool_base_token_account'',
      rw ''pool_quote_token_account'', ro ''protocol_fee_recipient'',
      rw ''protocol_fee_recipient_token_account'', ro ''base_token_program'',
      ro ''quote_token_program'', ro ''system_program'', ro ''associated_token_program'',
      ro ''event_authority'', ro ''program'', rw ''coin_creator_vault_ata'',
      ro ''coin_creator_vault_authority'', ro ''fee_config'', ro ''fee_program''])
    \<lparr> la_resolved :=
       [(ro ''appended_quote_volume_accumulator'', \<lambda>b. classic_ata K (pumpswap_volume_accumulator K (bound b ''user'')) (bound b ''quote_mint'')),
        (ro ''appended_user_volume_accumulator'', \<lambda>b. pumpswap_volume_accumulator K (bound b ''user''))],
      la_rest := Some (''buyback_vaults'', False) \<rparr>"

definition pumpswap_withdraw_layout :: layout where
  "pumpswap_withdraw_layout = plain_layout
     [rw ''pool'', ro ''global_config'', sg ''user'', ro ''base_mint'', ro ''quote_mint'',
      rw ''lp_mint'', rw ''user_base_token_account'', rw ''user_quote_token_account'',
      rw ''user_pool_token_account'', rw ''pool_base_token_account'', rw ''pool_quote_token_account'',
      ro ''token_program'', ro ''token_2022_program'', ro ''event_authority'', ro ''program'']"

section \<open>Raydium V4\<close>

definition v4_deposit_layout :: layout where
  "v4_deposit_layout = plain_layout
     [ro ''token_program'', rw ''amm_id'', ro ''amm_authority'', ro ''amm_open_orders'',
      rw ''target_orders'', rw ''lp_mint'', rw ''coin_vault'', rw ''pc_vault'', ro ''market'',
      rw ''user_coin_token_account'', rw ''user_pc_token_account'', rw ''user_pool_token_account'',
      sg ''user'', ro ''market_event_queue'']"

definition v4_initialize2_layout :: layout where
  "v4_initialize2_layout = plain_layout
     [ro ''token_program'', ro ''associated_token_program'', ro ''system_program'', ro ''rent'',
      rw ''amm_id'', ro ''amm_authority'', rw ''amm_open_orders'', rw ''lp_mint'', ro ''coin_mint'',
      ro ''pc_mint'', rw ''coin_vault'', rw ''pc_vault'', rw ''target_orders'', ro ''amm_config'',
      ro ''create_pool_fee_destination'', ro ''market_program'', rw ''market'', ws ''user'',
      ro ''user_coin_token_account'', ro ''user_pc_token_account'', rw ''user_pool_token_account'']"

definition v4_swap_base_in_layout :: layout where
  "v4_swap_base_in_layout = plain_layout
     [ro ''token_program'', rw ''amm_id'', ro ''amm_authority'', rw ''amm_open_orders'',
      rw ''amm_target_orders'', rw ''pool_coin_token_account'', rw ''pool_pc_token_account'',
      ro ''serum_program_id'', rw ''serum_market'', rw ''serum_bids'', rw ''serum_asks'',
      rw ''serum_event_queue'', rw ''serum_coin_vault_account'', rw ''serum_pc_vault_account'',
      ro ''serum_vault_signer'', rw ''user_source_token_account'',
      rw ''user_destination_token_account'', sg ''user_source_owner'']"

definition v4_swap_base_out_layout :: layout where
  "v4_swap_base_out_layout = plain_layout
     [ro ''token_program'', rw ''amm_id'', ro ''amm_authority'', rw ''amm_open_orders'',
      rw ''amm_target_orders'', rw ''pool_coin_token_account'', rw ''pool_pc_token_account'',
      ro ''serum_program_id'', rw ''serum_market'', rw ''serum_bids'', rw ''serum_asks'',
      rw ''serum_event_queue'', rw ''serum_coin_vault_account'', rw ''serum_pc_vault_account'',
      ro ''serum_vault_signer'', rw ''user_source_token_account'',
      rw ''user_destination_token_account'', sg ''user_source_owner'']"

definition v4_withdraw_layout :: layout where
  "v4_withdraw_layout = plain_layout
     [ro ''token_program'', rw ''amm_id'', ro ''amm_authority'', rw ''amm_open_orders'',
      rw ''target_orders'', rw ''lp_mint'', rw ''coin_vault'', rw ''pc_vault'', ro ''market_program'',
      rw ''market'', rw ''market_coin_vault'', rw ''market_pc_vault'', ro ''vault_signer'',
      rw ''user_pool_token_account'', rw ''user_coin_token_account'', rw ''user_pc_token_account'',
      sg ''user'', rw ''market_event_queue'', rw ''market_bids'', rw ''market_asks'']"

section \<open>Raydium CLMM\<close>

definition clmm_swap_layout :: layout where
  "clmm_swap_layout = plain_layout
     [sg ''payer'', ro ''amm_config'', rw ''pool_state'', rw ''input_token_account'',
      rw ''output_token_account'', rw ''input_vault'', rw ''output_vault'', rw ''observation_state'',
      ro ''token_program'']"

definition clmm_swap_v2_layout :: layout where
  "clmm_swap_v2_layout = plain_layout
     [sg ''payer'', ro ''amm_config'', rw ''pool_state'', rw ''input_token_account'',
      rw ''output_token_account'', rw ''input_vault'', rw ''output_vault'', rw ''observation_state'',
      ro ''token_program'', ro ''token_program_2022'', ro ''memo_program'', ro ''input_vault_mint'',
      ro ''output_vault_mint'']"

section \<open>Raydium CPMM\<close>

definition cpmm_swap_layout :: layout where
  "cpmm_swap_layout = plain_layout
     [ws ''payer'', ro ''authority'', ro ''amm_config'', rw ''pool_state'', rw ''input_token_account'',
      rw ''output_token_account'', rw ''input_vault'', rw ''output_vault'', ro ''input_token_program'',
      ro ''output_token_program'', ro ''input_token_mint'', ro ''output_token_mint'',
      rw ''observation_state'']"

definition cpmm_swap_base_input_layout :: layout where
  "cpmm_swap_base_input_layout = plain_layout
     [ws ''payer'', ro ''authority'', ro ''amm_config'', rw ''pool_state'', rw ''input_token_account'',
      rw ''output_token_account'', rw ''input_vault'', rw ''output_vault'', ro ''input_token_program'',
      ro ''output_token_program'', ro ''input_token_mint'', ro ''output_token_mint'',
      rw ''observation_state'']"

definition cpmm_swap_base_output_layout :: layout where
  "cpmm_swap_base_output_layout = plain_layout
     [ws ''payer'', ro ''authority'', ro ''amm_config'', rw ''pool_state'', rw ''input_token_account'',
      rw ''output_token_account'', rw ''input_vault'', rw ''output_vault'', ro ''input_token_program'',
      ro ''output_token_program'', ro ''input_token_mint'', ro ''output_token_mint'',
      rw ''observation_state'']"

section \<open>Raydium Launchpad\<close>

definition launchpad_swap_layout :: layout where
  "launchpad_swap_layout = plain_layout
     [ws ''payer'', ro ''authority'', ro ''global_config'', ro ''platform_config'', rw ''pool_state'',
      rw ''user_base_token'', rw ''user_quote_token'', rw ''base_vault'', rw ''quote_vault'',
      ro ''base_token_mint'', ro ''quote_token_mint'', ro ''base_token_program'',
      ro ''quote_token_program'', ro ''event_authority'', ro ''program'']"

definition launchpad_buy_exact_in_layout :: layout where
  "launchpad_buy_exact_in_layout = plain_layout
     [ws ''payer'', ro ''authority'', ro ''global_config'', ro ''platform_config'', rw ''pool_state'',
      rw ''user_base_token'', rw ''user_quote_token'', rw ''base_vault'', rw ''quote_vault'',
      ro ''base_token_mint'', ro ''quote_token_mint'', ro ''base_token_program'',
      ro ''quote_token_program'', ro ''event_authority'', ro ''program'']"

definition launchpad_buy_exact_out_layout :: layout where
  "launchpad_buy_exact_out_layout = plain_layout
     [ws ''payer'', ro ''authority'', ro ''global_config'', ro ''platform_config'', rw ''pool_state'',
      rw ''user_base_token'', rw ''user_quote_token'', rw ''base_vault'', rw ''quote_vault'',
      ro ''base_token_mint'', ro ''quote_token_mint'', ro ''base_token_program'',
      ro ''quote_token_program'', ro ''event_authority'', ro ''program'']"

definition launchpad_sell_exact_in_layout :: layout where
  "launchpad_sell_exact_in_layout = plain_layout
     [ws ''payer'', ro ''authority'', ro ''global_config'', ro ''platform_config'', rw ''pool_state'',
      rw ''user_base_token'', rw ''user_quote_token'', rw ''base_vault'', rw ''quote_vault'',
      ro ''base_token_mint'', ro ''quote_token_mint'', ro ''base_token_program'',
      ro ''quote_token_program'', ro ''event_authority'', ro ''program'']"

definition launchpad_sell_exact_out_layout :: layout where
  "launchpad_sell_exact_out_layout = plain_layout
     [ws ''payer'', ro ''authority'', ro ''global_config'', ro ''platform_config'', rw ''pool_state'',
      rw ''user_base_token'', rw ''user_quote_token'', rw ''base_vault'', rw ''quote_vault'',
      ro ''base_token_mint'', ro ''quote_token_mint'', ro ''base_token_program'',
      ro ''quote_token_program'', ro ''event_authority'', ro ''program'']"

section \<open>Meteora DBC\<close>

definition dbc_swap_layout :: layout where
  "dbc_swap_layout = plain_layout
     [ro ''pool_authority'', ro ''config'', rw ''pool'', rw ''input_token_account'',
      rw ''output_token_account'', rw ''base_vault'', rw ''quote_vault'', ro ''base_mint'',
      ro ''quote_mint'', sg ''payer'', ro ''token_base_program'', ro ''token_quote_program'',
      rw ''referral_token_account'', ro ''event_authority'', ro ''program'']"

definition dbc_swap2_layout :: layout where
  "dbc_swap2_layout = plain_layout
     [ro ''pool_authority'', ro ''config'', rw ''pool'', rw ''input_token_account'',
      rw ''output_token_account'', rw ''base_vault'', rw ''quote_vault'', ro ''base_mint'',
      ro ''quote_mint'', sg ''payer'', ro ''token_base_program'', ro ''token_quote_program'',
      rw ''referral_token_account'', ro ''event_authority'', ro ''program'']"

section \<open>Meteora DAMM v2\<close>

definition damm_swap_layout :: layout where
  "damm_swap_layout = plain_layout
     [ro ''pool_authority'', rw ''pool'', rw ''input_token_account'', rw ''output_token_account'',
      rw ''token_a_vault'', rw ''token_b_vault'', ro ''token_a_mint'', ro ''token_b_mint'',
      sg ''payer'', ro ''token_a_program'', ro ''token_b_program'', rw ''referral_token_account'',
      ro ''event_authority'', ro ''program'']"

section \<open>SPL token\<close>

definition spl_transfer_layout :: layout where
  "spl_transfer_layout = plain_layout
     [rw ''source'', rw ''destination'', sg ''authority'']"

definition spl_transfer_checked_layout :: layout where
  "spl_transfer_checked_layout = plain_layout
     [rw ''source'', ro ''mint'', rw ''destination'', sg ''authority'']"

end
