(* ===== verification/InstructionData.thy ===== *)
theory InstructionData
  imports AccountLayout
begin

text \<open>
  The arguments of an instruction: the strict borsh decoder that every parameter struct shares
  (parsing/traits.rs and the code of protocols-macros instruction_data.rs), the table that
  protocol_instruction.rs expands an instruction enum to, and the pump family's trailing flag with
  its many encodings (protocols/option_bool.rs).
\<close>

section \<open>Instructions\<close>

record instruction =
  in_program_id :: pubkey
  in_accounts :: "account_meta list"
  in_data :: bytes

section \<open>Strict decoding\<close>

text \<open>\<open>try_from_slice\<close>: whatever the reader leaves over is an error. The text names the type.\<close>

definition from_instruction_data :: "string \<Rightarrow> 'a reader \<Rightarrow> bytes \<Rightarrow> instruction_parse_error + 'a" where
  "from_instruction_data ty r data =
     (case r data of
        Inl e \<Rightarrow> Inl (DeserializationFailed (ty @ '': '' @ e))
      | Inr (x, []) \<Rightarrow> Inr x
      | Inr (x, _ # _) \<Rightarrow> Inl (DeserializationFailed (ty @ '': Not all bytes read'')))"

datatype no_params = NoParams

definition read_no_params :: "no_params reader" where
  "read_no_params = rret NoParams"

definition no_params_to_data :: "no_params \<Rightarrow> bytes" where
  "no_params_to_data p = []"

section \<open>The table of an instruction enum\<close>

text \<open>A row is a discriminator with the decoder of its variant, tried in the order of the enum.\<close>

definition try_from_slice :: "(bytes \<times> (bytes \<Rightarrow> instruction_parse_error + 'a)) list \<Rightarrow> bytes \<Rightarrow>
    instruction_parse_error + 'a" where
  "try_from_slice rows data =
     (if length data < 8 then Inl DataTooShort
      else
        (case find (\<lambda>(disc, _). take 8 data = disc) rows of
           Some (_, decode) \<Rightarrow> decode (drop 8 data)
         | None \<Rightarrow> Inl (UnknownDiscriminator (take 8 data))))"

lemma find_distinct_row:
  "distinct (map fst rows) \<Longrightarrow> (d, f) \<in> set rows \<Longrightarrow> find (\<lambda>(disc, _). d = disc) rows = Some (d, f)"
  by (induction rows) force+

lemma try_from_slice_row:
  assumes "distinct (map fst rows)" "(d, f) \<in> set rows" "length d = 8"
  shows "try_from_slice rows (d @ args) = f args"
  using find_distinct_row [OF assms(1,2)] assms(3) by (simp add: try_from_slice_def)

section \<open>Strings\<close>

text \<open>A Rust string is its bytes, valid UTF-8.\<close>

definition continues :: "u8 \<Rightarrow> bool" where
  "continues b \<longleftrightarrow> 0x80 \<le> b \<and> b \<le> 0xBF"

fun utf8_valid :: "bytes \<Rightarrow> bool" where
  "utf8_valid [] \<longleftrightarrow> True"
| "utf8_valid (b # bs) \<longleftrightarrow>
     (if b < 0x80 then utf8_valid bs
      else if 0xC2 \<le> b \<and> b \<le> 0xDF then
        (case bs of c # bs' \<Rightarrow> continues c \<and> utf8_valid bs' | _ \<Rightarrow> False)
      else if 0xE0 \<le> b \<and> b \<le> 0xEF then
        (case bs of
           c # d # bs' \<Rightarrow>
             continues c \<and> (b = 0xE0 \<longrightarrow> 0xA0 \<le> c) \<and> (b = 0xED \<longrightarrow> c \<le> 0x9F) \<and> continues d \<and> utf8_valid bs'
         | _ \<Rightarrow> False)
      else if 0xF0 \<le> b \<and> b \<le> 0xF4 then
        (case bs of
           c # d # e # bs' \<Rightarrow>
             continues c \<and> (b = 0xF0 \<longrightarrow> 0x90 \<le> c) \<and> (b = 0xF4 \<longrightarrow> c \<le> 0x8F) \<and> continues d \<and> continues e \<and>
             utf8_valid bs'
         | _ \<Rightarrow> False)
      else False)"

definition read_string :: "borsh \<Rightarrow> bytes reader" where
  "read_string B =
     rbind (rd_u32 B) (\<lambda>n bs.
       if length bs < unat n then Inl short_error
       else if \<not> utf8_valid (take (unat n) bs) then Inl ''invalid utf-8''
       else Inr (take (unat n) bs, drop (unat n) bs))"

definition write_string :: "bytes \<Rightarrow> bytes" where
  "write_string s = le_bytes 4 (length s) @ s"

definition string_ok :: "bytes \<Rightarrow> bool" where
  "string_ok s \<longleftrightarrow> utf8_valid s \<and> length s < 2 ^ 32"

lemma read_string_written [simp]:
  assumes "borsh_ok B" "string_ok s"
  shows "rbind (read_string B) f (write_string s @ rest) = f s rest"
proof -
  have n: "unat (word_of_nat (length s) :: u32) = length s"
    using assms(2) by (simp add: string_ok_def unsigned_of_nat take_bit_nat_eq_self)
  have "rd_u32 B (le_bytes 4 (unat v) @ rest') = Inr (v, rest')" for v rest'
    using assms(1) by (simp add: borsh_ok_def)
  from this [of "word_of_nat (length s)"]
  have "rd_u32 B (le_bytes 4 (length s) @ rest') = Inr (word_of_nat (length s), rest')" for rest'
    by (simp add: n)
  then show ?thesis
    using assms(2) n by (simp add: read_string_def write_string_def rbind_def string_ok_def)
qed

section \<open>The trailing flag\<close>

text \<open>A trailer is 1 to 16 bytes: the bytes that the inline buffer retains.\<close>

definition trailer_max :: nat where
  "trailer_max = 16"

record trailer =
  tr_len :: nat
  tr_bytes :: bytes

definition trailer_new :: "bytes \<Rightarrow> trailer option" where
  "trailer_new bs =
     (if bs = [] \<or> trailer_max < length bs then None
      else Some \<lparr> tr_len = length bs, tr_bytes = bs @ replicate (trailer_max - length bs) 0 \<rparr>)"

definition trailer_slice :: "trailer \<Rightarrow> bytes" where
  "trailer_slice t = take (tr_len t) (tr_bytes t)"

datatype option_bool =
    OB_None
  | SomeFalse
  | SomeTrue
  | SomeTrueExtra
  | SomeFalseExtra
  | SomeFalseExtraInvalid
  | Unattributed trailer

fun ob_to_bytes :: "option_bool \<Rightarrow> bytes" where
  "ob_to_bytes OB_None = []"
| "ob_to_bytes SomeFalse = [0]"
| "ob_to_bytes SomeTrue = [1]"
| "ob_to_bytes SomeTrueExtra = [1, 1]"
| "ob_to_bytes SomeFalseExtra = [1, 0]"
| "ob_to_bytes SomeFalseExtraInvalid = [0, 1]"
| "ob_to_bytes (Unattributed t) = trailer_slice t"

text \<open>\<open>Inl\<close> carries the bytes of an \<open>UnknownOptionBool\<close>.\<close>

definition ob_from_bytes :: "bytes \<Rightarrow> bytes + option_bool" where
  "ob_from_bytes bs =
     (if bs = [] then Inr OB_None
      else if bs = [0] then Inr SomeFalse
      else if bs = [1] then Inr SomeTrue
      else if bs = [1, 1] then Inr SomeTrueExtra
      else if bs = [1, 0] then Inr SomeFalseExtra
      else if bs = [0, 1] then Inr SomeFalseExtraInvalid
      else (case trailer_new bs of Some t \<Rightarrow> Inr (Unattributed t) | None \<Rightarrow> Inl bs))"

fun ob_requested :: "option_bool \<Rightarrow> bool option" where
  "ob_requested SomeFalse = Some False"
| "ob_requested SomeTrue = Some True"
| "ob_requested SomeTrueExtra = Some True"
| "ob_requested OB_None = None"
| "ob_requested SomeFalseExtra = None"
| "ob_requested SomeFalseExtraInvalid = None"
| "ob_requested (Unattributed t) = None"

fun ob_unattributed :: "option_bool \<Rightarrow> bytes option" where
  "ob_unattributed (Unattributed t) = Some (trailer_slice t)"
| "ob_unattributed OB_None = None"
| "ob_unattributed SomeFalse = None"
| "ob_unattributed SomeTrue = None"
| "ob_unattributed SomeTrueExtra = None"
| "ob_unattributed SomeFalseExtra = None"
| "ob_unattributed SomeFalseExtraInvalid = None"

text \<open>The reader takes everything that is left; a refusal names the bytes.\<close>

fun show_list :: "string list \<Rightarrow> string" where
  "show_list [] = []"
| "show_list [s] = s"
| "show_list (s # ss) = s @ '', '' @ show_list ss"

definition unknown_text :: "bytes \<Rightarrow> string" where
  "unknown_text bs =
     ''unrecognised track_volume encoding: ['' @ show_list (map (\<lambda>b. show_nat (unat b)) bs) @ '']''"

definition read_option_bool :: "option_bool reader" where
  "read_option_bool bs =
     (case ob_from_bytes bs of Inl e \<Rightarrow> Inl (unknown_text e) | Inr v \<Rightarrow> Inr (v, []))"

text \<open>The values the decoder produces: a trailer is a value of the constructor and none of the six
  encodings that have a name.\<close>

definition ob_ok :: "option_bool \<Rightarrow> bool" where
  "ob_ok v \<longleftrightarrow>
     (case v of
        Unattributed t \<Rightarrow>
          trailer_new (trailer_slice t) = Some t \<and>
          trailer_slice t \<notin> {[0], [1], [1, 1], [1, 0], [0, 1]}
      | _ \<Rightarrow> True)"

lemma trailer_new_slice: "trailer_new bs = Some t \<Longrightarrow> trailer_slice t = bs"
  by (auto simp: trailer_new_def trailer_slice_def split: if_splits)

lemma ob_from_to: "ob_ok v \<Longrightarrow> ob_from_bytes (ob_to_bytes v) = Inr v"
  by (cases v) (auto simp: ob_ok_def ob_from_bytes_def trailer_new_def split: if_splits)

lemma ob_to_from: "ob_from_bytes bs = Inr v \<Longrightarrow> ob_to_bytes v = bs \<and> ob_ok v"
  using trailer_new_slice [of bs]
  by (auto simp: ob_from_bytes_def ob_ok_def split: if_splits option.splits)

lemma ob_from_bytes_Inl_iff: "(\<exists>e. ob_from_bytes bs = Inl e) \<longleftrightarrow> 16 < length bs"
  by (auto simp: ob_from_bytes_def trailer_new_def trailer_max_def split: if_splits)

lemma read_option_bool_written [simp]:
  "ob_ok v \<Longrightarrow> rbind read_option_bool f (ob_to_bytes v) = f v []"
  by (simp add: rbind_def read_option_bool_def ob_from_to)

text \<open>The flag keeps the bytes it arrived with. Every trailer of up to sixteen bytes is read as a
  form that writes exactly these bytes again, and a longer one is refused; no two forms write the
  same bytes, so that the form says how the sender encoded it.\<close>

lemma option_bool_lossless:
  "(length bs \<le> 16 \<longleftrightarrow> (\<exists>v. ob_from_bytes bs = Inr v)) \<and>
   (\<forall>v. ob_from_bytes bs = Inr v \<longleftrightarrow> ob_ok v \<and> ob_to_bytes v = bs)"
proof -
  have "(\<exists>v. ob_from_bytes bs = Inr v) \<longleftrightarrow> \<not> (\<exists>e. ob_from_bytes bs = Inl e)"
    by (cases "ob_from_bytes bs") auto
  then show ?thesis
    using ob_from_bytes_Inl_iff [of bs] ob_from_to ob_to_from by auto
qed

end
