(* ===== verification/PumpInstructions.thy ===== *)
theory PumpInstructions
  imports Layouts InstructionData
begin

text \<open>
  The instructions of Pump.fun and PumpSwap (pumpfun/instructions, pumpswap/instructions): the
  parameters with their borsh codec, the two instruction enums, their accounts, the key structs
  with the builders, and the classification of parsing/classify.rs. The discriminators are those
  of \<open>key_env\<close>; the account layouts are in the theory \<open>Layouts\<close>.
\<close>

section \<open>Parameters\<close>

record buy_params =
  bp_amount :: u64
  bp_max_sol_cost :: u64
  bp_track_volume :: option_bool

definition read_buy_params :: "borsh \<Rightarrow> buy_params reader" where
  "read_buy_params B =
     rbind (rd_u64 B) (\<lambda>a. rbind (rd_u64 B) (\<lambda>b. rbind read_option_bool (\<lambda>c. 
     rret \<lparr> bp_amount = a, bp_max_sol_cost = b, bp_track_volume = c \<rparr>)))"

definition write_buy_params :: "buy_params \<Rightarrow> bytes" where
  "write_buy_params p =
     le_bytes 8 (unat (bp_amount p)) @ le_bytes 8 (unat (bp_max_sol_cost p)) @ ob_to_bytes (bp_track_volume p)"

record buy_v2_params =
  b2_amount :: u64
  b2_max_sol_cost :: u64

definition read_buy_v2_params :: "borsh \<Rightarrow> buy_v2_params reader" where
  "read_buy_v2_params B =
     rbind (rd_u64 B) (\<lambda>a. rbind (rd_u64 B) (\<lambda>b. 
     rret \<lparr> b2_amount = a, b2_max_sol_cost = b \<rparr>))"

definition write_buy_v2_params :: "buy_v2_params \<Rightarrow> bytes" where
  "write_buy_v2_params p =
     le_bytes 8 (unat (b2_amount p)) @ le_bytes 8 (unat (b2_max_sol_cost p))"

record buy_exact_sol_in_params =
  bs_spendable_sol_in :: u64
  bs_min_tokens_out :: u64
  bs_track_volume :: option_bool

definition read_buy_exact_sol_in_params :: "borsh \<Rightarrow> buy_exact_sol_in_params reader" where
  "read_buy_exact_sol_in_params B =
     rbind (rd_u64 B) (\<lambda>a. rbind (rd_u64 B) (\<lambda>b. rbind read_option_bool (\<lambda>c. 
     rret \<lparr> bs_spendable_sol_in = a, bs_min_tokens_out = b, bs_track_volume = c \<rparr>)))"

definition write_buy_exact_sol_in_params :: "buy_exact_sol_in_params \<Rightarrow> bytes" where
  "write_buy_exact_sol_in_params p =
     le_bytes 8 (unat (bs_spendable_sol_in p)) @ le_bytes 8 (unat (bs_min_tokens_out p)) @ ob_to_bytes (bs_track_volume p)"

record buy_exact_quote_in_v2_params =
  bq_spendable_quote_in :: u64
  bq_min_tokens_out :: u64
  bq_track_volume :: option_bool

definition read_buy_exact_quote_in_v2_params :: "borsh \<Rightarrow> buy_exact_quote_in_v2_params reader" where
  "read_buy_exact_quote_in_v2_params B =
     rbind (rd_u64 B) (\<lambda>a. rbind (rd_u64 B) (\<lambda>b. rbind read_option_bool (\<lambda>c. 
     rret \<lparr> bq_spendable_quote_in = a, bq_min_tokens_out = b, bq_track_volume = c \<rparr>)))"

definition write_buy_exact_quote_in_v2_params :: "buy_exact_quote_in_v2_params \<Rightarrow> bytes" where
  "write_buy_exact_quote_in_v2_params p =
     le_bytes 8 (unat (bq_spendable_quote_in p)) @ le_bytes 8 (unat (bq_min_tokens_out p)) @ ob_to_bytes (bq_track_volume p)"

record sell_params =
  sp_amount :: u64
  sp_min_sol_output :: u64
  sp_track_volume :: option_bool

definition read_sell_params :: "borsh \<Rightarrow> sell_params reader" where
  "read_sell_params B =
     rbind (rd_u64 B) (\<lambda>a. rbind (rd_u64 B) (\<lambda>b. rbind read_option_bool (\<lambda>c. 
     rret \<lparr> sp_amount = a, sp_min_sol_output = b, sp_track_volume = c \<rparr>)))"

definition write_sell_params :: "sell_params \<Rightarrow> bytes" where
  "write_sell_params p =
     le_bytes 8 (unat (sp_amount p)) @ le_bytes 8 (unat (sp_min_sol_output p)) @ ob_to_bytes (sp_track_volume p)"

record sell_v2_params =
  s2_amount :: u64
  s2_min_sol_output :: u64

definition read_sell_v2_params :: "borsh \<Rightarrow> sell_v2_params reader" where
  "read_sell_v2_params B =
     rbind (rd_u64 B) (\<lambda>a. rbind (rd_u64 B) (\<lambda>b. 
     rret \<lparr> s2_amount = a, s2_min_sol_output = b \<rparr>))"

definition write_sell_v2_params :: "sell_v2_params \<Rightarrow> bytes" where
  "write_sell_v2_params p =
     le_bytes 8 (unat (s2_amount p)) @ le_bytes 8 (unat (s2_min_sol_output p))"

record create_params =
  cr_name :: bytes
  cr_symbol :: bytes
  cr_uri :: bytes
  cr_creator :: pubkey

definition read_create_params :: "borsh \<Rightarrow> create_params reader" where
  "read_create_params B =
     rbind (read_string B) (\<lambda>a. rbind (read_string B) (\<lambda>b. rbind (read_string B) (\<lambda>c. rbind (rd_pubkey B) (\<lambda>d. 
     rret \<lparr> cr_name = a, cr_symbol = b, cr_uri = c, cr_creator = d \<rparr>))))"

definition write_create_params :: "create_params \<Rightarrow> bytes" where
  "write_create_params p =
     write_string (cr_name p) @ write_string (cr_symbol p) @ write_string (cr_uri p) @ (cr_creator p)"

record create_v2_params =
  c2_name :: bytes
  c2_symbol :: bytes
  c2_uri :: bytes
  c2_creator :: pubkey
  c2_is_mayhem_mode :: bool
  c2_is_cashback_enabled :: option_bool

definition read_create_v2_params :: "borsh \<Rightarrow> create_v2_params reader" where
  "read_create_v2_params B =
     rbind (read_string B) (\<lambda>a. rbind (read_string B) (\<lambda>b. rbind (read_string B) (\<lambda>c. rbind (rd_pubkey B) (\<lambda>d. rbind (rd_bool B) (\<lambda>e. rbind read_option_bool (\<lambda>f. 
     rret \<lparr> c2_name = a, c2_symbol = b, c2_uri = c, c2_creator = d, c2_is_mayhem_mode = e, c2_is_cashback_enabled = f \<rparr>))))))"

definition write_create_v2_params :: "create_v2_params \<Rightarrow> bytes" where
  "write_create_v2_params p =
     write_string (c2_name p) @ write_string (c2_symbol p) @ write_string (c2_uri p) @ (c2_creator p) @ [bool_byte (c2_is_mayhem_mode p)] @ ob_to_bytes (c2_is_cashback_enabled p)"

record distribute_creator_fees_v2_params =
  d2_initialize_ata :: bool

definition read_distribute_creator_fees_v2_params :: "borsh \<Rightarrow> distribute_creator_fees_v2_params reader" where
  "read_distribute_creator_fees_v2_params B =
     rbind (rd_bool B) (\<lambda>a. 
     rret \<lparr> d2_initialize_ata = a \<rparr>)"

definition write_distribute_creator_fees_v2_params :: "distribute_creator_fees_v2_params \<Rightarrow> bytes" where
  "write_distribute_creator_fees_v2_params p =
     [bool_byte (d2_initialize_ata p)]"

record ps_buy_params =
  pb_base_amount_out :: u64
  pb_max_quote_amount_in :: u64
  pb_track_volume :: option_bool

definition read_ps_buy_params :: "borsh \<Rightarrow> ps_buy_params reader" where
  "read_ps_buy_params B =
     rbind (rd_u64 B) (\<lambda>a. rbind (rd_u64 B) (\<lambda>b. rbind read_option_bool (\<lambda>c. 
     rret \<lparr> pb_base_amount_out = a, pb_max_quote_amount_in = b, pb_track_volume = c \<rparr>)))"

definition write_ps_buy_params :: "ps_buy_params \<Rightarrow> bytes" where
  "write_ps_buy_params p =
     le_bytes 8 (unat (pb_base_amount_out p)) @ le_bytes 8 (unat (pb_max_quote_amount_in p)) @ ob_to_bytes (pb_track_volume p)"

record ps_buy_exact_quote_in_params =
  pq_spendable_quote_in :: u64
  pq_min_base_amount_out :: u64
  pq_track_volume :: option_bool

definition read_ps_buy_exact_quote_in_params :: "borsh \<Rightarrow> ps_buy_exact_quote_in_params reader" where
  "read_ps_buy_exact_quote_in_params B =
     rbind (rd_u64 B) (\<lambda>a. rbind (rd_u64 B) (\<lambda>b. rbind read_option_bool (\<lambda>c. 
     rret \<lparr> pq_spendable_quote_in = a, pq_min_base_amount_out = b, pq_track_volume = c \<rparr>)))"

definition write_ps_buy_exact_quote_in_params :: "ps_buy_exact_quote_in_params \<Rightarrow> bytes" where
  "write_ps_buy_exact_quote_in_params p =
     le_bytes 8 (unat (pq_spendable_quote_in p)) @ le_bytes 8 (unat (pq_min_base_amount_out p)) @ ob_to_bytes (pq_track_volume p)"

record ps_sell_params =
  psl_base_amount_in :: u64
  psl_min_quote_amount_out :: u64
  psl_track_volume :: option_bool

definition read_ps_sell_params :: "borsh \<Rightarrow> ps_sell_params reader" where
  "read_ps_sell_params B =
     rbind (rd_u64 B) (\<lambda>a. rbind (rd_u64 B) (\<lambda>b. rbind read_option_bool (\<lambda>c. 
     rret \<lparr> psl_base_amount_in = a, psl_min_quote_amount_out = b, psl_track_volume = c \<rparr>)))"

definition write_ps_sell_params :: "ps_sell_params \<Rightarrow> bytes" where
  "write_ps_sell_params p =
     le_bytes 8 (unat (psl_base_amount_in p)) @ le_bytes 8 (unat (psl_min_quote_amount_out p)) @ ob_to_bytes (psl_track_volume p)"

record create_pool_params =
  cp_index :: u16
  cp_base_amount_in :: u64
  cp_quote_amount_in :: u64
  cp_coin_creator :: pubkey
  cp_is_mayhem_mode :: bool
  cp_is_cashback_coin :: option_bool

definition read_create_pool_params :: "borsh \<Rightarrow> create_pool_params reader" where
  "read_create_pool_params B =
     rbind (rd_u16 B) (\<lambda>a. rbind (rd_u64 B) (\<lambda>b. rbind (rd_u64 B) (\<lambda>c. rbind (rd_pubkey B) (\<lambda>d. rbind (rd_bool B) (\<lambda>e. rbind read_option_bool (\<lambda>f. 
     rret \<lparr> cp_index = a, cp_base_amount_in = b, cp_quote_amount_in = c, cp_coin_creator = d, cp_is_mayhem_mode = e, cp_is_cashback_coin = f \<rparr>))))))"

definition write_create_pool_params :: "create_pool_params \<Rightarrow> bytes" where
  "write_create_pool_params p =
     le_bytes 2 (unat (cp_index p)) @ le_bytes 8 (unat (cp_base_amount_in p)) @ le_bytes 8 (unat (cp_quote_amount_in p)) @ (cp_coin_creator p) @ [bool_byte (cp_is_mayhem_mode p)] @ ob_to_bytes (cp_is_cashback_coin p)"

record deposit_params =
  dp_lp_token_amount_out :: u64
  dp_max_base_amount_in :: u64
  dp_max_quote_amount_in :: u64

definition read_deposit_params :: "borsh \<Rightarrow> deposit_params reader" where
  "read_deposit_params B =
     rbind (rd_u64 B) (\<lambda>a. rbind (rd_u64 B) (\<lambda>b. rbind (rd_u64 B) (\<lambda>c. 
     rret \<lparr> dp_lp_token_amount_out = a, dp_max_base_amount_in = b, dp_max_quote_amount_in = c \<rparr>)))"

definition write_deposit_params :: "deposit_params \<Rightarrow> bytes" where
  "write_deposit_params p =
     le_bytes 8 (unat (dp_lp_token_amount_out p)) @ le_bytes 8 (unat (dp_max_base_amount_in p)) @ le_bytes 8 (unat (dp_max_quote_amount_in p))"

record withdraw_params =
  wp_lp_token_amount_in :: u64
  wp_min_base_amount_out :: u64
  wp_min_quote_amount_out :: u64

definition read_withdraw_params :: "borsh \<Rightarrow> withdraw_params reader" where
  "read_withdraw_params B =
     rbind (rd_u64 B) (\<lambda>a. rbind (rd_u64 B) (\<lambda>b. rbind (rd_u64 B) (\<lambda>c. 
     rret \<lparr> wp_lp_token_amount_in = a, wp_min_base_amount_out = b, wp_min_quote_amount_out = c \<rparr>)))"

definition write_withdraw_params :: "withdraw_params \<Rightarrow> bytes" where
  "write_withdraw_params p =
     le_bytes 8 (unat (wp_lp_token_amount_in p)) @ le_bytes 8 (unat (wp_min_base_amount_out p)) @ le_bytes 8 (unat (wp_min_quote_amount_out p))"


section \<open>The instruction enums\<close>

definition row :: "key_env \<Rightarrow> string \<Rightarrow> ('p \<Rightarrow> 'a) \<Rightarrow> string \<Rightarrow> 'p reader \<Rightarrow>
    bytes \<times> (bytes \<Rightarrow> instruction_parse_error + 'a)" where
  "row K n variant ty r =
     (ke_instruction_disc K n, \<lambda>args. map_sum id variant (from_instruction_data ty r args))"

datatype pumpfun_instruction =
    PfBuy buy_params
  | PfBuyV2 buy_v2_params
  | PfBuyExactSolIn buy_exact_sol_in_params
  | PfBuyExactQuoteInV2 buy_exact_quote_in_v2_params
  | PfSell sell_params
  | PfSellV2 sell_v2_params
  | PfCreate create_params
  | PfCreateV2 create_v2_params
  | PfMigrate no_params
  | PfMigrateV2 no_params
  | PfCollectCreatorFee no_params
  | PfCollectCreatorFeeV2 no_params
  | PfDistributeCreatorFees no_params
  | PfDistributeCreatorFeesV2 distribute_creator_fees_v2_params

fun pumpfun_instruction_discriminator :: "key_env \<Rightarrow> pumpfun_instruction \<Rightarrow> bytes" where
  "pumpfun_instruction_discriminator K (PfBuy p) = ke_instruction_disc K ''buy''"
| "pumpfun_instruction_discriminator K (PfBuyV2 p) = ke_instruction_disc K ''buy_v2''"
| "pumpfun_instruction_discriminator K (PfBuyExactSolIn p) = ke_instruction_disc K ''buy_exact_sol_in''"
| "pumpfun_instruction_discriminator K (PfBuyExactQuoteInV2 p) = ke_instruction_disc K ''buy_exact_quote_in_v2''"
| "pumpfun_instruction_discriminator K (PfSell p) = ke_instruction_disc K ''sell''"
| "pumpfun_instruction_discriminator K (PfSellV2 p) = ke_instruction_disc K ''sell_v2''"
| "pumpfun_instruction_discriminator K (PfCreate p) = ke_instruction_disc K ''create''"
| "pumpfun_instruction_discriminator K (PfCreateV2 p) = ke_instruction_disc K ''create_v2''"
| "pumpfun_instruction_discriminator K (PfMigrate p) = ke_instruction_disc K ''migrate''"
| "pumpfun_instruction_discriminator K (PfMigrateV2 p) = ke_instruction_disc K ''migrate_v2''"
| "pumpfun_instruction_discriminator K (PfCollectCreatorFee p) = ke_instruction_disc K ''collect_creator_fee''"
| "pumpfun_instruction_discriminator K (PfCollectCreatorFeeV2 p) = ke_instruction_disc K ''collect_creator_fee_v2''"
| "pumpfun_instruction_discriminator K (PfDistributeCreatorFees p) = ke_instruction_disc K ''distribute_creator_fees''"
| "pumpfun_instruction_discriminator K (PfDistributeCreatorFeesV2 p) = ke_instruction_disc K ''distribute_creator_fees_v2''"

fun pumpfun_instruction_args :: "pumpfun_instruction \<Rightarrow> bytes" where
  "pumpfun_instruction_args (PfBuy p) = write_buy_params p"
| "pumpfun_instruction_args (PfBuyV2 p) = write_buy_v2_params p"
| "pumpfun_instruction_args (PfBuyExactSolIn p) = write_buy_exact_sol_in_params p"
| "pumpfun_instruction_args (PfBuyExactQuoteInV2 p) = write_buy_exact_quote_in_v2_params p"
| "pumpfun_instruction_args (PfSell p) = write_sell_params p"
| "pumpfun_instruction_args (PfSellV2 p) = write_sell_v2_params p"
| "pumpfun_instruction_args (PfCreate p) = write_create_params p"
| "pumpfun_instruction_args (PfCreateV2 p) = write_create_v2_params p"
| "pumpfun_instruction_args (PfMigrate p) = no_params_to_data p"
| "pumpfun_instruction_args (PfMigrateV2 p) = no_params_to_data p"
| "pumpfun_instruction_args (PfCollectCreatorFee p) = no_params_to_data p"
| "pumpfun_instruction_args (PfCollectCreatorFeeV2 p) = no_params_to_data p"
| "pumpfun_instruction_args (PfDistributeCreatorFees p) = no_params_to_data p"
| "pumpfun_instruction_args (PfDistributeCreatorFeesV2 p) = write_distribute_creator_fees_v2_params p"

definition pumpfun_instruction_data :: "key_env \<Rightarrow> pumpfun_instruction \<Rightarrow> bytes" where
  "pumpfun_instruction_data K ix = pumpfun_instruction_discriminator K ix @ pumpfun_instruction_args ix"

definition pumpfun_instruction_rows :: "borsh \<Rightarrow> key_env \<Rightarrow> (bytes \<times> (bytes \<Rightarrow> instruction_parse_error + pumpfun_instruction)) list" where
  "pumpfun_instruction_rows B K =
    [row K ''buy'' PfBuy ''solana_protocols::protocols::pumpfun::instructions::buy::BuyParams'' (read_buy_params B),
     row K ''buy_v2'' PfBuyV2 ''solana_protocols::protocols::pumpfun::instructions::buy_v2::BuyV2Params'' (read_buy_v2_params B),
     row K ''buy_exact_sol_in'' PfBuyExactSolIn ''solana_protocols::protocols::pumpfun::instructions::buy_exact_sol_in::BuyExactSolInParams'' (read_buy_exact_sol_in_params B),
     row K ''buy_exact_quote_in_v2'' PfBuyExactQuoteInV2 ''solana_protocols::protocols::pumpfun::instructions::buy_exact_quote_in_v2::BuyExactQuoteInV2Params'' (read_buy_exact_quote_in_v2_params B),
     row K ''sell'' PfSell ''solana_protocols::protocols::pumpfun::instructions::sell::SellParams'' (read_sell_params B),
     row K ''sell_v2'' PfSellV2 ''solana_protocols::protocols::pumpfun::instructions::sell_v2::SellV2Params'' (read_sell_v2_params B),
     row K ''create'' PfCreate ''solana_protocols::protocols::pumpfun::instructions::create::CreateParams'' (read_create_params B),
     row K ''create_v2'' PfCreateV2 ''solana_protocols::protocols::pumpfun::instructions::create_v2::CreateV2Params'' (read_create_v2_params B),
     row K ''migrate'' PfMigrate ''solana_protocols::protocols::pumpfun::instructions::migrate::MigrateParams'' read_no_params,
     row K ''migrate_v2'' PfMigrateV2 ''solana_protocols::protocols::pumpfun::instructions::migrate_v2::MigrateV2Params'' read_no_params,
     row K ''collect_creator_fee'' PfCollectCreatorFee ''solana_protocols::protocols::pumpfun::instructions::collect_creator_fee::CollectCreatorFeeParams'' read_no_params,
     row K ''collect_creator_fee_v2'' PfCollectCreatorFeeV2 ''solana_protocols::protocols::pumpfun::instructions::collect_creator_fee_v2::CollectCreatorFeeV2Params'' read_no_params,
     row K ''distribute_creator_fees'' PfDistributeCreatorFees ''solana_protocols::protocols::pumpfun::instructions::distribute_creator_fees::DistributeCreatorFeesParams'' read_no_params,
     row K ''distribute_creator_fees_v2'' PfDistributeCreatorFeesV2 ''solana_protocols::protocols::pumpfun::instructions::distribute_creator_fees_v2::DistributeCreatorFeesV2Params'' (read_distribute_creator_fees_v2_params B)]"


datatype pumpswap_instruction =
    PsBuy ps_buy_params
  | PsBuyExactQuoteIn ps_buy_exact_quote_in_params
  | PsSell ps_sell_params
  | PsCreatePool create_pool_params
  | PsDeposit deposit_params
  | PsWithdraw withdraw_params
  | PsCollectCoinCreatorFee no_params

fun pumpswap_instruction_discriminator :: "key_env \<Rightarrow> pumpswap_instruction \<Rightarrow> bytes" where
  "pumpswap_instruction_discriminator K (PsBuy p) = ke_instruction_disc K ''buy''"
| "pumpswap_instruction_discriminator K (PsBuyExactQuoteIn p) = ke_instruction_disc K ''buy_exact_quote_in''"
| "pumpswap_instruction_discriminator K (PsSell p) = ke_instruction_disc K ''sell''"
| "pumpswap_instruction_discriminator K (PsCreatePool p) = ke_instruction_disc K ''create_pool''"
| "pumpswap_instruction_discriminator K (PsDeposit p) = ke_instruction_disc K ''deposit''"
| "pumpswap_instruction_discriminator K (PsWithdraw p) = ke_instruction_disc K ''withdraw''"
| "pumpswap_instruction_discriminator K (PsCollectCoinCreatorFee p) = ke_instruction_disc K ''collect_coin_creator_fee''"

fun pumpswap_instruction_args :: "pumpswap_instruction \<Rightarrow> bytes" where
  "pumpswap_instruction_args (PsBuy p) = write_ps_buy_params p"
| "pumpswap_instruction_args (PsBuyExactQuoteIn p) = write_ps_buy_exact_quote_in_params p"
| "pumpswap_instruction_args (PsSell p) = write_ps_sell_params p"
| "pumpswap_instruction_args (PsCreatePool p) = write_create_pool_params p"
| "pumpswap_instruction_args (PsDeposit p) = write_deposit_params p"
| "pumpswap_instruction_args (PsWithdraw p) = write_withdraw_params p"
| "pumpswap_instruction_args (PsCollectCoinCreatorFee p) = no_params_to_data p"

text \<open>Every parameter struct writes its discriminator in front of its arguments, but the shared
  \<open>NoParams\<close>, which knows none and leaves it to the caller.\<close>

definition pumpswap_instruction_data :: "key_env \<Rightarrow> pumpswap_instruction \<Rightarrow> bytes" where
  "pumpswap_instruction_data K ix =
     (case ix of
        PsCollectCoinCreatorFee p \<Rightarrow> no_params_to_data p
      | _ \<Rightarrow> pumpswap_instruction_discriminator K ix @ pumpswap_instruction_args ix)"

definition pumpswap_instruction_rows :: "borsh \<Rightarrow> key_env \<Rightarrow> (bytes \<times> (bytes \<Rightarrow> instruction_parse_error + pumpswap_instruction)) list" where
  "pumpswap_instruction_rows B K =
    [row K ''buy'' PsBuy ''solana_protocols::protocols::pumpswap::instructions::buy::BuyParams'' (read_ps_buy_params B),
     row K ''buy_exact_quote_in'' PsBuyExactQuoteIn ''solana_protocols::protocols::pumpswap::instructions::buy_exact_quote_in::BuyExactQuoteInParams'' (read_ps_buy_exact_quote_in_params B),
     row K ''sell'' PsSell ''solana_protocols::protocols::pumpswap::instructions::sell::SellParams'' (read_ps_sell_params B),
     row K ''create_pool'' PsCreatePool ''solana_protocols::protocols::pumpswap::instructions::create_pool::CreatePoolParams'' (read_create_pool_params B),
     row K ''deposit'' PsDeposit ''solana_protocols::protocols::pumpswap::instructions::deposit::DepositParams'' (read_deposit_params B),
     row K ''withdraw'' PsWithdraw ''solana_protocols::protocols::pumpswap::instructions::withdraw::WithdrawParams'' (read_withdraw_params B),
     row K ''collect_coin_creator_fee'' PsCollectCoinCreatorFee ''solana_protocols::parsing::traits::NoParams'' read_no_params]"


section \<open>Round trip\<close>

text \<open>What the parameters of an instruction that is sent can hold: keys of 32 bytes, strings of the
  wire's size, and a flag as the decoder produces it.\<close>

fun pumpfun_instruction_ok :: "pumpfun_instruction \<Rightarrow> bool" where
  "pumpfun_instruction_ok (PfBuy p) = ob_ok (bp_track_volume p)"
| "pumpfun_instruction_ok (PfBuyV2 p) = True"
| "pumpfun_instruction_ok (PfBuyExactSolIn p) = ob_ok (bs_track_volume p)"
| "pumpfun_instruction_ok (PfBuyExactQuoteInV2 p) = ob_ok (bq_track_volume p)"
| "pumpfun_instruction_ok (PfSell p) = ob_ok (sp_track_volume p)"
| "pumpfun_instruction_ok (PfSellV2 p) = True"
| "pumpfun_instruction_ok (PfCreate p) \<longleftrightarrow>
     string_ok (cr_name p) \<and> string_ok (cr_symbol p) \<and> string_ok (cr_uri p) \<and> length (cr_creator p) = 32"
| "pumpfun_instruction_ok (PfCreateV2 p) \<longleftrightarrow>
     string_ok (c2_name p) \<and> string_ok (c2_symbol p) \<and> string_ok (c2_uri p) \<and> length (c2_creator p) = 32 \<and>
     ob_ok (c2_is_cashback_enabled p)"
| "pumpfun_instruction_ok (PfMigrate p) = True"
| "pumpfun_instruction_ok (PfMigrateV2 p) = True"
| "pumpfun_instruction_ok (PfCollectCreatorFee p) = True"
| "pumpfun_instruction_ok (PfCollectCreatorFeeV2 p) = True"
| "pumpfun_instruction_ok (PfDistributeCreatorFees p) = True"
| "pumpfun_instruction_ok (PfDistributeCreatorFeesV2 p) = True"

fun pumpswap_instruction_ok :: "pumpswap_instruction \<Rightarrow> bool" where
  "pumpswap_instruction_ok (PsBuy p) = ob_ok (pb_track_volume p)"
| "pumpswap_instruction_ok (PsBuyExactQuoteIn p) = ob_ok (pq_track_volume p)"
| "pumpswap_instruction_ok (PsSell p) = ob_ok (psl_track_volume p)"
| "pumpswap_instruction_ok (PsCreatePool p) \<longleftrightarrow> length (cp_coin_creator p) = 32 \<and> ob_ok (cp_is_cashback_coin p)"
| "pumpswap_instruction_ok (PsDeposit p) = True"
| "pumpswap_instruction_ok (PsWithdraw p) = True"
| "pumpswap_instruction_ok (PsCollectCoinCreatorFee p) = True"

lemma borsh_read_last [simp]:
  assumes "borsh_ok B"
  shows "rbind (rd_u64 B) f64 (le_bytes 8 (unat x)) = f64 x []"
  using borsh_read(5) [OF assms, of f64 x "[]"] by simp

lemma borsh_read_key_last:
  assumes "borsh_ok B" "length k = 32"
  shows "rbind (rd_pubkey B) fk k = fk k []"
  using borsh_read(7) [OF assms, of fk "[]"] by simp

lemma row_decodes: "r args = Inr (p, []) \<Longrightarrow> snd (row K n variant ty r) args = Inr (variant p)"
  by (simp add: row_def from_instruction_data_def)

lemma fst_row [simp]: "fst (row K n variant ty r) = ke_instruction_disc K n"
  by (simp add: row_def)

lemmas pump_params_defs =
  read_buy_params_def write_buy_params_def read_buy_v2_params_def write_buy_v2_params_def
  read_buy_exact_sol_in_params_def write_buy_exact_sol_in_params_def
  read_buy_exact_quote_in_v2_params_def write_buy_exact_quote_in_v2_params_def
  read_sell_params_def write_sell_params_def read_sell_v2_params_def write_sell_v2_params_def
  read_create_params_def write_create_params_def read_create_v2_params_def write_create_v2_params_def
  read_distribute_creator_fees_v2_params_def write_distribute_creator_fees_v2_params_def
  read_ps_buy_params_def write_ps_buy_params_def read_ps_buy_exact_quote_in_params_def
  write_ps_buy_exact_quote_in_params_def read_ps_sell_params_def write_ps_sell_params_def
  read_create_pool_params_def write_create_pool_params_def read_deposit_params_def
  write_deposit_params_def read_withdraw_params_def write_withdraw_params_def
  read_no_params_def no_params_to_data_def rret_def

lemma pump_params_read:
  assumes "borsh_ok B"
  shows "ob_ok (bp_track_volume p1) \<Longrightarrow> read_buy_params B (write_buy_params p1) = Inr (p1, [])"
    and "read_buy_v2_params B (write_buy_v2_params p2) = Inr (p2, [])"
    and "ob_ok (bs_track_volume p3) \<Longrightarrow> read_buy_exact_sol_in_params B (write_buy_exact_sol_in_params p3) = Inr (p3, [])"
    and "ob_ok (bq_track_volume p4) \<Longrightarrow>
      read_buy_exact_quote_in_v2_params B (write_buy_exact_quote_in_v2_params p4) = Inr (p4, [])"
    and "ob_ok (sp_track_volume p5) \<Longrightarrow> read_sell_params B (write_sell_params p5) = Inr (p5, [])"
    and "read_sell_v2_params B (write_sell_v2_params p6) = Inr (p6, [])"
    and "pumpfun_instruction_ok (PfCreate p7) \<Longrightarrow> read_create_params B (write_create_params p7) = Inr (p7, [])"
    and "pumpfun_instruction_ok (PfCreateV2 p8) \<Longrightarrow> read_create_v2_params B (write_create_v2_params p8) = Inr (p8, [])"
    and "read_distribute_creator_fees_v2_params B (write_distribute_creator_fees_v2_params p9) = Inr (p9, [])"
    and "ob_ok (pb_track_volume q1) \<Longrightarrow> read_ps_buy_params B (write_ps_buy_params q1) = Inr (q1, [])"
    and "ob_ok (pq_track_volume q2) \<Longrightarrow>
      read_ps_buy_exact_quote_in_params B (write_ps_buy_exact_quote_in_params q2) = Inr (q2, [])"
    and "ob_ok (psl_track_volume q3) \<Longrightarrow> read_ps_sell_params B (write_ps_sell_params q3) = Inr (q3, [])"
    and "pumpswap_instruction_ok (PsCreatePool q4) \<Longrightarrow> read_create_pool_params B (write_create_pool_params q4) = Inr (q4, [])"
    and "read_deposit_params B (write_deposit_params q5) = Inr (q5, [])"
    and "read_withdraw_params B (write_withdraw_params q6) = Inr (q6, [])"
    and "read_no_params (no_params_to_data n) = Inr (n, [])"
  using assms
  by (simp_all add: pump_params_defs borsh_read_key_last) (cases n, simp)

text \<open>What the discriminators have to be: eight bytes each, and different within a program.\<close>

definition pump_names :: "string list" where
  "pump_names = [''buy'', ''buy_v2'', ''buy_exact_sol_in'', ''buy_exact_quote_in_v2'', ''sell'', ''sell_v2'',
     ''create'', ''create_v2'', ''migrate'', ''migrate_v2'', ''collect_creator_fee'', ''collect_creator_fee_v2'',
     ''distribute_creator_fees'', ''distribute_creator_fees_v2'', ''buy_exact_quote_in'', ''create_pool'',
     ''deposit'', ''withdraw'', ''collect_coin_creator_fee'']"

definition discriminators_ok :: "key_env \<Rightarrow> bool" where
  "discriminators_ok K \<longleftrightarrow>
     distinct (map (ke_instruction_disc K) pump_names) \<and> (\<forall>n. length (ke_instruction_disc K n) = 8)"

text \<open>Every instruction is decoded by a row of the table, and no two rows share a discriminator.\<close>

lemma pumpfun_instruction_row:
  assumes "borsh_ok B" "pumpfun_instruction_ok ix"
  shows "\<exists>r \<in> set (pumpfun_instruction_rows B K).
    fst r = pumpfun_instruction_discriminator K ix \<and> snd r (pumpfun_instruction_args ix) = Inr ix"
  using assms(2)
  by (cases ix) (simp_all add: pumpfun_instruction_rows_def row_decodes pump_params_read [OF assms(1)])

lemma pumpswap_instruction_row:
  assumes "borsh_ok B" "pumpswap_instruction_ok ix"
  shows "\<exists>r \<in> set (pumpswap_instruction_rows B K).
    fst r = pumpswap_instruction_discriminator K ix \<and> snd r (pumpswap_instruction_args ix) = Inr ix"
  using assms(2)
  by (cases ix) (simp_all add: pumpswap_instruction_rows_def row_decodes pump_params_read [OF assms(1)])

lemma distinct_discriminators:
  assumes "discriminators_ok K" "distinct ns" "set ns \<subseteq> set pump_names"
  shows "distinct (map (ke_instruction_disc K) ns)"
  using assms unfolding discriminators_ok_def distinct_map by (meson inj_on_subset)

lemma pump_rows_distinct:
  assumes "discriminators_ok K"
  shows "distinct (map fst (pumpfun_instruction_rows B K))"
    and "distinct (map fst (pumpswap_instruction_rows B K))"
proof -
  let ?f = "[''buy'', ''buy_v2'', ''buy_exact_sol_in'', ''buy_exact_quote_in_v2'', ''sell'', ''sell_v2'',
     ''create'', ''create_v2'', ''migrate'', ''migrate_v2'', ''collect_creator_fee'', ''collect_creator_fee_v2'',
     ''distribute_creator_fees'', ''distribute_creator_fees_v2'']"
  let ?s = "[''buy'', ''buy_exact_quote_in'', ''sell'', ''create_pool'', ''deposit'', ''withdraw'',
     ''collect_coin_creator_fee'']"
  have "map fst (pumpfun_instruction_rows B K) = map (ke_instruction_disc K) ?f"
    by (simp add: pumpfun_instruction_rows_def)
  moreover have "distinct (map (ke_instruction_disc K) ?f)"
    by (rule distinct_discriminators [OF assms]) (simp_all add: pump_names_def)
  ultimately show "distinct (map fst (pumpfun_instruction_rows B K))"
    by (simp only:)
  have "map fst (pumpswap_instruction_rows B K) = map (ke_instruction_disc K) ?s"
    by (simp add: pumpswap_instruction_rows_def)
  moreover have "distinct (map (ke_instruction_disc K) ?s)"
    by (rule distinct_discriminators [OF assms]) (simp_all add: pump_names_def)
  ultimately show "distinct (map fst (pumpswap_instruction_rows B K))"
    by (simp only:)
qed

lemma try_from_slice_member:
  assumes "distinct (map fst rows)" "\<exists>r \<in> set rows. fst r = d \<and> snd r args = Inr ix" "length d = 8"
  shows "try_from_slice rows (d @ args) = Inr ix"
  using try_from_slice_row [OF assms(1) _ assms(3), of _ args] assms(2) by (metis prod.collapse)

lemma pump_discriminator_length:
  assumes "discriminators_ok K"
  shows "length (pumpfun_instruction_discriminator K ix) = 8"
    and "length (pumpswap_instruction_discriminator K jx) = 8"
  using assms by (cases ix, simp_all add: discriminators_ok_def) (cases jx, simp_all add: discriminators_ok_def)

lemma pump_data_read:
  assumes "borsh_ok B" "discriminators_ok K"
  shows "pumpfun_instruction_ok ix \<Longrightarrow>
      try_from_slice (pumpfun_instruction_rows B K) (pumpfun_instruction_data K ix) = Inr ix"
    and "pumpswap_instruction_ok jx \<Longrightarrow>
      try_from_slice (pumpswap_instruction_rows B K)
        (pumpswap_instruction_discriminator K jx @ pumpswap_instruction_args jx) = Inr jx"
  unfolding pumpfun_instruction_data_def
  using assms pump_rows_distinct [OF assms(2)] pump_discriminator_length [OF assms(2)]
  by (simp_all add: try_from_slice_member pumpfun_instruction_row pumpswap_instruction_row)

text \<open>C36: What is written as data is read as the same instruction: every variant of both enums, with every
  form of the trailing flag, survives the way through its bytes. The one exception is PumpSwap's fee
  withdrawal, whose \<open>data\<close> has no discriminator and is refused as too short.\<close>

theorem pump_instruction_data_roundtrip:
  assumes "borsh_ok B" and "discriminators_ok K"
    and "pumpfun_instruction_ok ix" and "pumpswap_instruction_ok jx"
  shows "try_from_slice (pumpfun_instruction_rows B K) (pumpfun_instruction_data K ix) = Inr ix \<and>
    try_from_slice (pumpswap_instruction_rows B K) (pumpswap_instruction_data K jx) =
      (case jx of PsCollectCoinCreatorFee p \<Rightarrow> Inl DataTooShort | _ \<Rightarrow> Inr jx)"
  using pump_data_read(1) [OF assms(1,2,3)] pump_data_read(2) [OF assms(1,2,4)]
  by (cases jx) (simp_all add: pumpswap_instruction_data_def no_params_to_data_def try_from_slice_def [of _ "[]"])

section \<open>An environment\<close>

text \<open>The deployed program ids; the discriminators are distinct and of the right length, and the
  derivations are injective placeholders.\<close>

definition position :: "string \<Rightarrow> nat" where
  "position n = length (takeWhile (\<lambda>m. m \<noteq> n) pump_names)"

definition example_keys :: key_env where
  "example_keys =
     \<lparr> ke_pda = (\<lambda>seeds p. concat seeds @ p), ke_ids = mainnet_ids,
       ke_tokens = mainnet_tokens \<lparr> te_wsol := [1], te_ata := (\<lambda>owner mint p. 2 # owner @ 3 # mint @ 4 # p) \<rparr>,
       ke_instruction_disc = (\<lambda>n. of_nat (position n) # replicate 7 0),
       ke_system_program = [10], ke_associated_token_program = [11], ke_global = [12],
       ke_fee_collector = [13], ke_event_authority = [14], ke_global_volume_accumulator = [15],
       ke_pumpswap_global_config = [16], ke_protocol_fee_recipient = [17],
       ke_protocol_fee_recipient_token_account = [18], ke_pumpswap_event_authority = [19],
       ke_pumpswap_global_volume_accumulator = [20] \<rparr>"

lemma example_keys_discriminators: "discriminators_ok example_keys"
proof -
  have "map position pump_names = [0, 1, 2, 3, 4, 5, 6, 7, 8, 9, 10, 11, 12, 13, 14, 15, 16, 17, 18]"
    by code_simp
  then have "map (\<lambda>n. of_nat (position n) # replicate 7 0 :: bytes) pump_names =
      map (\<lambda>i. of_nat i # replicate 7 0) [0, 1, 2, 3, 4, 5, 6, 7, 8, 9, 10, 11, 12, 13, 14, 15, 16, 17, 18]"
    by (metis (no_types, lifting) list.map_comp comp_apply list.map_cong0)
  then show ?thesis
    by (simp add: discriminators_ok_def example_keys_def)
qed

theorem pump_instruction_data_roundtrip_witness:
  "try_from_slice (pumpfun_instruction_rows borsh_std example_keys)
     (pumpfun_instruction_data example_keys
        (PfBuy \<lparr> bp_amount = 5, bp_max_sol_cost = 70000, bp_track_volume = SomeTrueExtra \<rparr>)) =
   Inr (PfBuy \<lparr> bp_amount = 5, bp_max_sol_cost = 70000, bp_track_volume = SomeTrueExtra \<rparr>)"
  using pump_instruction_data_roundtrip
    [OF borsh_std_ok example_keys_discriminators,
      of "PfBuy \<lparr> bp_amount = 5, bp_max_sol_cost = 70000, bp_track_volume = SomeTrueExtra \<rparr>"
         "PsCollectCoinCreatorFee NoParams"]
  by (simp add: ob_ok_def)

end
