(* ===== verification/Logs.thy ===== *)
theory Logs
  imports AccountState
begin

text \<open>
  The log lines of a transaction (parsing/log.rs): the structured entry, the classification of a
  line by prefixes and regular expressions, and the typed reading of event data.

  A line is its UTF-8 bytes. The regular expressions are anchored on both ends and built from
  literals and character classes that never contain the literal that follows, so that a match is
  found by taking the longest run of the class; \<open>.\<close> matches everything but a line feed. The class
  of digits of the regex crate has more than the ten ASCII digits, but the number parser that
  follows refuses them and the line falls through to the same later tests.

  Base58 addresses and base64 data are decoded by third-party code: the two decoders are
  parameters. Diagnostics are left out.
\<close>

section \<open>Matching\<close>

definition strip_prefix :: "string \<Rightarrow> string \<Rightarrow> string option" where
  "strip_prefix p s = (if take (length p) s = p then Some (drop (length p) s) else None)"

fun contains_str :: "string \<Rightarrow> string \<Rightarrow> bool" where
  "contains_str p [] \<longleftrightarrow> p = []"
| "contains_str p (c # s) \<longleftrightarrow> take (length p) (c # s) = p \<or> contains_str p s"

definition is_base58 :: "char \<Rightarrow> bool" where
  "is_base58 c \<longleftrightarrow> c \<in> set ''123456789ABCDEFGHJKLMNPQRSTUVWXYZabcdefghijkmnopqrstuvwxyz''"

definition is_digit :: "char \<Rightarrow> bool" where
  "is_digit c \<longleftrightarrow> c \<in> set ''0123456789''"

definition digit_of :: "char \<Rightarrow> nat" where
  "digit_of c = of_char c - 48"

definition digits_val :: "string \<Rightarrow> nat" where
  "digits_val s = foldl (\<lambda>n c. 10 * n + digit_of c) 0 s"

text \<open>\<open>str::parse\<close> of an unsigned type on a string of digits.\<close>

definition parse_uint :: "nat \<Rightarrow> string \<Rightarrow> nat option" where
  "parse_uint w s = (if s \<noteq> [] \<and> digits_val s < 2 ^ w then Some (digits_val s) else None)"

text \<open>An address: 32 to 44 characters of the base58 alphabet.\<close>

definition match_address :: "string \<Rightarrow> (string \<times> string) option" where
  "match_address s =
     (let p = takeWhile is_base58 s
      in if 32 \<le> length p \<and> length p \<le> 44 then Some (p, drop (length p) s) else None)"

text \<open>One or more digits.\<close>

definition match_digits :: "string \<Rightarrow> (string \<times> string) option" where
  "match_digits s =
     (let d = takeWhile is_digit s in if d = [] then None else Some (d, drop (length d) s))"

text \<open>\<open>(.+)$\<close>.\<close>

definition match_rest :: "string \<Rightarrow> string option" where
  "match_rest s = (if s \<noteq> [] \<and> CHR 0x0A \<notin> set s then Some s else None)"

definition match_invoke :: "string \<Rightarrow> (string \<times> string) option" where
  "match_invoke log =
     do { s \<leftarrow> strip_prefix ''Program '' log;
          (p, s) \<leftarrow> match_address s;
          s \<leftarrow> strip_prefix '' invoke ['' s;
          (d, s) \<leftarrow> match_digits s;
          if s = '']'' then Some (p, d) else None }"

definition match_success :: "string \<Rightarrow> string option" where
  "match_success log =
     do { s \<leftarrow> strip_prefix ''Program '' log;
          (p, s) \<leftarrow> match_address s;
          if s = '' success'' then Some p else None }"

definition match_return :: "string \<Rightarrow> (string \<times> string) option" where
  "match_return log =
     do { s \<leftarrow> strip_prefix ''Program return: '' log;
          (p, s) \<leftarrow> match_address s;
          s \<leftarrow> strip_prefix '' '' s;
          d \<leftarrow> match_rest s;
          Some (p, d) }"

definition match_consumed :: "string \<Rightarrow> (string \<times> string \<times> string) option" where
  "match_consumed log =
     do { s \<leftarrow> strip_prefix ''Program '' log;
          (p, s) \<leftarrow> match_address s;
          s \<leftarrow> strip_prefix '' consumed '' s;
          (u, s) \<leftarrow> match_digits s;
          s \<leftarrow> strip_prefix '' of '' s;
          (a, s) \<leftarrow> match_digits s;
          if s = '' compute units'' then Some (p, u, a) else None }"

definition match_failed :: "string \<Rightarrow> (string \<times> string) option" where
  "match_failed log =
     do { s \<leftarrow> strip_prefix ''Program '' log;
          (p, s) \<leftarrow> match_address s;
          s \<leftarrow> strip_prefix '' failed: '' s;
          e \<leftarrow> match_rest s;
          Some (p, e) }"

section \<open>Entries\<close>

datatype log_entry =
    Invoke pubkey u32
  | Success pubkey
  | Data bytes bytes
  | Return pubkey bytes
  | Message string
  | Consumed pubkey u64 u64
  | Failed pubkey string
  | Truncated
  | Unknown string

text \<open>\<open>Pubkey::from_str\<close> and the base64 decoder.\<close>

record log_env =
  le_pubkey :: "string \<Rightarrow> pubkey option"
  le_base64 :: "string \<Rightarrow> bytes option"

text \<open>The content of a data line: the first eight bytes, padded with zeros, and the rest.\<close>

definition parse_data_log :: "log_env \<Rightarrow> string \<Rightarrow> log_entry" where
  "parse_data_log E s =
     (case le_base64 E s of
        Some bs \<Rightarrow>
          if 8 \<le> length bs then Data (take 8 bs) (drop 8 bs)
          else Data (bs @ replicate (8 - length bs) 0) []
      | None \<Rightarrow> Unknown (''Program data: '' @ s))"

text \<open>The tests in the order of the source; one that matches but whose parts do not parse falls
  through to the next.\<close>

definition try_return :: "log_env \<Rightarrow> string \<Rightarrow> log_entry option" where
  "try_return E log =
     do { (p, d) \<leftarrow> match_return log;
          k \<leftarrow> le_pubkey E p;
          Some (Return k (case le_base64 E d of Some bs \<Rightarrow> bs | None \<Rightarrow> [])) }"

definition try_invoke :: "log_env \<Rightarrow> string \<Rightarrow> log_entry option" where
  "try_invoke E log =
     do { (p, d) \<leftarrow> match_invoke log;
          k \<leftarrow> le_pubkey E p;
          n \<leftarrow> parse_uint 32 d;
          Some (Invoke k (word_of_nat n)) }"

definition try_success :: "log_env \<Rightarrow> string \<Rightarrow> log_entry option" where
  "try_success E log = do { p \<leftarrow> match_success log; k \<leftarrow> le_pubkey E p; Some (Success k) }"

definition try_consumed :: "log_env \<Rightarrow> string \<Rightarrow> log_entry option" where
  "try_consumed E log =
     do { (p, u, a) \<leftarrow> match_consumed log;
          k \<leftarrow> le_pubkey E p;
          used \<leftarrow> parse_uint 64 u;
          available \<leftarrow> parse_uint 64 a;
          Some (Consumed k (word_of_nat used) (word_of_nat available)) }"

definition try_failed :: "log_env \<Rightarrow> string \<Rightarrow> log_entry option" where
  "try_failed E log =
     do { (p, e) \<leftarrow> match_failed log; k \<leftarrow> le_pubkey E p; Some (Failed k e) }"

primrec first_some :: "'a option list \<Rightarrow> 'a \<Rightarrow> 'a" where
  "first_some [] d = d"
| "first_some (x # xs) d = (case x of Some y \<Rightarrow> y | None \<Rightarrow> first_some xs d)"

definition log_entry_parse :: "log_env \<Rightarrow> string \<Rightarrow> log_entry" where
  "log_entry_parse E log =
     (if contains_str ''Log truncated'' log then Truncated
      else
        (case strip_prefix ''Program data: '' log of
           Some s \<Rightarrow> parse_data_log E s
         | None \<Rightarrow>
             (case strip_prefix ''Program log: '' log of
                Some m \<Rightarrow> Message m
              | None \<Rightarrow>
                  first_some
                    [try_return E log, try_invoke E log, try_success E log, try_consumed E log,
                     try_failed E log]
                    (Unknown log))))"

definition parse_logs :: "log_env \<Rightarrow> string list \<Rightarrow> log_entry list" where
  "parse_logs E logs = map (log_entry_parse E) logs"

definition is_invoke :: "log_entry \<Rightarrow> bool" where
  "is_invoke e \<longleftrightarrow> (case e of Invoke _ _ \<Rightarrow> True | _ \<Rightarrow> False)"

definition is_success :: "log_entry \<Rightarrow> bool" where
  "is_success e \<longleftrightarrow> (case e of Success _ \<Rightarrow> True | _ \<Rightarrow> False)"

definition is_data :: "log_entry \<Rightarrow> bool" where
  "is_data e \<longleftrightarrow> (case e of Data _ _ \<Rightarrow> True | _ \<Rightarrow> False)"

definition is_message :: "log_entry \<Rightarrow> bool" where
  "is_message e \<longleftrightarrow> (case e of Message _ \<Rightarrow> True | _ \<Rightarrow> False)"

definition is_failed :: "log_entry \<Rightarrow> bool" where
  "is_failed e \<longleftrightarrow> (case e of Failed _ _ \<Rightarrow> True | _ \<Rightarrow> False)"

definition log_entry_program :: "log_entry \<Rightarrow> pubkey option" where
  "log_entry_program e =
     (case e of
        Invoke p _ \<Rightarrow> Some p
      | Success p \<Rightarrow> Some p
      | Return p _ \<Rightarrow> Some p
      | Consumed p _ _ \<Rightarrow> Some p
      | Failed p _ \<Rightarrow> Some p
      | _ \<Rightarrow> None)"

record parsed_log =
  pl_entry :: log_entry
  pl_raw :: string

definition parsed_log_new :: "log_env \<Rightarrow> string \<Rightarrow> parsed_log" where
  "parsed_log_new E raw = \<lparr> pl_entry = log_entry_parse E raw, pl_raw = raw \<rparr>"

section \<open>Typed event data\<close>

datatype log_parse_error =
    LogDiscriminatorMismatch bytes bytes
  | NotDataLog
  | PayloadTooShort nat nat
  | LogDeserializationFailed string

text \<open>\<open>LogParser::from_log_entry\<close>: the discriminator and the payload reader are the type's.\<close>

definition from_log_entry ::
  "bytes \<Rightarrow> (bytes \<Rightarrow> log_parse_error + 'a) \<Rightarrow> log_entry \<Rightarrow> log_parse_error + 'a" where
  "from_log_entry disc from_log_payload e =
     (case e of
        Data d payload \<Rightarrow>
          if d \<noteq> disc then Inl (LogDiscriminatorMismatch disc d) else from_log_payload payload
      | _ \<Rightarrow> Inl NotDataLog)"

section \<open>The diagnostics of a data line\<close>

definition is_clearly_not_base64 :: "string \<Rightarrow> bool" where
  "is_clearly_not_base64 s \<longleftrightarrow>
     (\<exists>c \<in> set s. c \<in> set '' ,:;!?{}[]()<>~@#$%^&*|'' \<union> {CHR 0x09, CHR 0x27, CHR 0x22, CHR 0x5C, CHR 0x60})"

text \<open>A byte that continues a multi-byte character of UTF-8; slicing before one panics.\<close>

definition continuation_byte :: "char \<Rightarrow> bool" where
  "continuation_byte c \<longleftrightarrow> 128 \<le> (of_char c :: nat) \<and> (of_char c :: nat) < 192"

definition truncate_for_log :: "string \<Rightarrow> nat \<Rightarrow> string option" where
  "truncate_for_log s max_len =
     (if length s \<le> max_len then Some s
      else if continuation_byte (s ! max_len) then None
      else Some (take max_len s @ ''...''))"

section \<open>What the runtime writes\<close>

text \<open>The line of an entry, over the text of an address and the base64 encoder.\<close>

fun render :: "(pubkey \<Rightarrow> string) \<Rightarrow> (bytes \<Rightarrow> string) \<Rightarrow> log_entry \<Rightarrow> string" where
  "render addr b64 (Invoke p d) = ''Program '' @ addr p @ '' invoke ['' @ show_nat (unat d) @ '']''"
| "render addr b64 (Success p) = ''Program '' @ addr p @ '' success''"
| "render addr b64 (Data d payload) = ''Program data: '' @ b64 (d @ payload)"
| "render addr b64 (Return p d) = ''Program return: '' @ addr p @ '' '' @ b64 d"
| "render addr b64 (Message m) = ''Program log: '' @ m"
| "render addr b64 (Consumed p u a) =
     ''Program '' @ addr p @ '' consumed '' @ show_nat (unat u) @ '' of '' @ show_nat (unat a) @ '' compute units''"
| "render addr b64 (Failed p e) = ''Program '' @ addr p @ '' failed: '' @ e"
| "render addr b64 Truncated = ''Log truncated''"
| "render addr b64 (Unknown s) = s"

definition address_ok :: "log_env \<Rightarrow> (pubkey \<Rightarrow> string) \<Rightarrow> pubkey \<Rightarrow> bool" where
  "address_ok E addr p \<longleftrightarrow> le_pubkey E (addr p) = Some p \<and>
     32 \<le> length (addr p) \<and> length (addr p) \<le> 44 \<and> (\<forall>c \<in> set (addr p). is_base58 c)"

definition text_ok :: "string \<Rightarrow> bool" where
  "text_ok s \<longleftrightarrow> s \<noteq> [] \<and> CHR 0x0A \<notin> set s"

fun entry_ok :: "log_env \<Rightarrow> (pubkey \<Rightarrow> string) \<Rightarrow> (bytes \<Rightarrow> string) \<Rightarrow> log_entry \<Rightarrow> bool" where
  "entry_ok E addr b64 (Invoke p d) \<longleftrightarrow> address_ok E addr p"
| "entry_ok E addr b64 (Success p) \<longleftrightarrow> address_ok E addr p"
| "entry_ok E addr b64 (Data d payload) \<longleftrightarrow>
     length d = 8 \<and> le_base64 E (b64 (d @ payload)) = Some (d @ payload)"
| "entry_ok E addr b64 (Return p d) \<longleftrightarrow>
     address_ok E addr p \<and> text_ok (b64 d) \<and> le_base64 E (b64 d) = Some d"
| "entry_ok E addr b64 (Message m) \<longleftrightarrow> True"
| "entry_ok E addr b64 (Consumed p u a) \<longleftrightarrow> address_ok E addr p"
| "entry_ok E addr b64 (Failed p e) \<longleftrightarrow> address_ok E addr p \<and> text_ok e"
| "entry_ok E addr b64 Truncated \<longleftrightarrow> True"
| "entry_ok E addr b64 (Unknown s) \<longleftrightarrow> False"

definition truncation_text :: "string \<Rightarrow> bool" where
  "truncation_text s \<longleftrightarrow> contains_str ''Log truncated'' s"

section \<open>Matching what was written\<close>

lemma strip_prefix_append [simp]: "strip_prefix p (p @ s) = Some s"
  by (simp add: strip_prefix_def)

lemma strip_prefix_common [simp]: "strip_prefix (c # p) (c # s) = strip_prefix p s"
  by (simp add: strip_prefix_def)

lemma strip_prefix_mismatch [simp]: "c \<noteq> d \<Longrightarrow> strip_prefix (c # p) (d # s) = None"
  by (simp add: strip_prefix_def)

lemma strip_prefix_Nil [simp]: "strip_prefix [] s = Some s"
  by (simp add: strip_prefix_def)

lemma strip_prefix_short [simp]: "strip_prefix (c # p) [] = None"
  by (simp add: strip_prefix_def)

lemma strip_prefix_foreign:
  assumes "\<forall>c \<in> set p. is_base58 c" and "length q \<le> length p" and "c \<in> set q" and "\<not> is_base58 c"
  shows "strip_prefix q (p @ s) = None"
proof -
  have "take (length q) (p @ s) \<noteq> q"
  proof
    assume "take (length q) (p @ s) = q"
    then have "set q \<subseteq> set p"
      using assms(2) set_take_subset [of "length q" p] by simp
    then show False
      using assms(1,3,4) by auto
  qed
  then show ?thesis
    by (simp add: strip_prefix_def)
qed

lemma takeWhile_run:
  "\<forall>c \<in> set p. P c \<Longrightarrow> (s = [] \<or> \<not> P (hd s)) \<Longrightarrow> takeWhile P (p @ s) = p"
  by (cases s) (simp_all add: takeWhile_append2)

lemma match_address_written:
  "address_ok E addr p \<Longrightarrow> \<not> is_base58 c \<Longrightarrow>
     match_address (addr p @ c # s) = Some (addr p, c # s)"
  by (simp add: match_address_def address_ok_def takeWhile_run)

lemma show_nat_digits: "\<forall>c \<in> set (show_nat n). is_digit c"
proof (induction n rule: show_nat.induct)
  case (1 n)
  have "is_digit (''0123456789'' ! k)" if "k < 10" for k
    using that unfolding is_digit_def by (intro nth_mem) simp
  then show ?case
    using 1 by (subst show_nat.simps) auto
qed

lemma show_nat_nonempty: "show_nat n \<noteq> []"
  by (subst show_nat.simps) simp

lemma digit_of_show: "k < 10 \<Longrightarrow> digit_of (''0123456789'' ! k) = k"
proof -
  have "list_all (\<lambda>k. digit_of (''0123456789'' ! k) = k) [0..<10]"
    by code_simp
  then show "k < 10 \<Longrightarrow> ?thesis"
    by (simp add: list_all_iff)
qed

lemma digits_val_show: "digits_val (show_nat n) = n"
proof (induction n rule: show_nat.induct)
  case (1 n)
  show ?case
  proof (cases "n < 10")
    case True
    then show ?thesis
      by (subst show_nat.simps) (simp add: digits_val_def digit_of_show del: nth_Cons_numeral)
  next
    case False
    then have "digits_val (show_nat (n div 10)) = n div 10"
      using 1 by simp
    then show ?thesis
      using False
      by (subst show_nat.simps) (simp add: digits_val_def digit_of_show)
  qed
qed

lemma match_digits_written:
  "\<not> is_digit c \<Longrightarrow> match_digits (show_nat n @ c # s) = Some (show_nat n, c # s)"
  by (simp add: match_digits_def takeWhile_run show_nat_digits show_nat_nonempty)

lemma parse_uint_show: "n < 2 ^ w \<Longrightarrow> parse_uint w (show_nat n) = Some n"
  by (simp add: parse_uint_def show_nat_nonempty digits_val_show)

lemma parse_uint_word:
  "parse_uint 32 (show_nat (unat (d :: u32))) = Some (unat d)"
  "parse_uint 64 (show_nat (unat (u :: u64))) = Some (unat u)"
  using unsigned_less [of d, where ?'a = nat] unsigned_less [of u, where ?'a = nat]
  by (simp_all add: parse_uint_show)

lemma separators [simp]:
  "\<not> is_base58 CHR '' ''" "\<not> is_base58 CHR '':''" "\<not> is_digit CHR '']''" "\<not> is_digit CHR '' ''"
  by (simp_all add: is_base58_def is_digit_def)

lemmas written = match_address_written match_digits_written strip_prefix_foreign

lemma written_prefix:
  assumes "address_ok E addr p"
  shows "strip_prefix ''Program data: '' (''Program '' @ addr p @ s) = None"
    and "strip_prefix ''Program log: '' (''Program '' @ addr p @ s) = None"
    and "strip_prefix ''Program return: '' (''Program '' @ addr p @ s) = None"
  using assms strip_prefix_foreign [of "addr p" "''data: ''" "CHR '':''" s]
    strip_prefix_foreign [of "addr p" "''log: ''" "CHR '':''" s]
    strip_prefix_foreign [of "addr p" "''return: ''" "CHR '':''" s]
  by (simp_all add: address_ok_def)

lemma written_tests:
  assumes "address_ok E addr p"
  shows "match_return (''Program '' @ addr p @ s) = None"
  using written_prefix(3) [OF assms, of s] by (simp add: match_return_def)

lemma match_program_line:
  assumes "address_ok E addr p"
  shows "match_invoke (''Program '' @ addr p @ CHR '' '' # s) =
      do { s \<leftarrow> strip_prefix ''invoke ['' s; (d, s) \<leftarrow> match_digits s;
           if s = '']'' then Some (addr p, d) else None }"
    and "match_success (''Program '' @ addr p @ CHR '' '' # s) =
      (if s = ''success'' then Some (addr p) else None)"
    and "match_consumed (''Program '' @ addr p @ CHR '' '' # s) =
      do { s \<leftarrow> strip_prefix ''consumed '' s; (u, s) \<leftarrow> match_digits s;
           s \<leftarrow> strip_prefix '' of '' s; (a, s) \<leftarrow> match_digits s;
           if s = '' compute units'' then Some (addr p, u, a) else None }"
    and "match_failed (''Program '' @ addr p @ CHR '' '' # s) =
      do { s \<leftarrow> strip_prefix ''failed: '' s; e \<leftarrow> match_rest s; Some (addr p, e) }"
  by (simp_all add: match_invoke_def match_success_def match_consumed_def match_failed_def
      match_address_written [OF assms])

lemmas match_program = match_program_line [unfolded append.simps]

lemma address_known: "address_ok E addr p \<Longrightarrow> le_pubkey E (addr p) = Some p"
  by (simp add: address_ok_def)

text \<open>A line of one of the four forms that start with a program, in the order of the tests.\<close>

lemma parse_program_line:
  assumes "address_ok E addr p" and "\<not> truncation_text (''Program '' @ addr p @ s)"
  shows "log_entry_parse E (''Program '' @ addr p @ s) =
    first_some [try_invoke E (''Program '' @ addr p @ s), try_success E (''Program '' @ addr p @ s),
      try_consumed E (''Program '' @ addr p @ s), try_failed E (''Program '' @ addr p @ s)]
      (Unknown (''Program '' @ addr p @ s))"
  using assms(2) written_prefix [OF assms(1), of s] written_tests [OF assms(1), of s]
  by (simp add: log_entry_parse_def truncation_text_def try_return_def)

lemmas try_defs = try_invoke_def try_success_def try_consumed_def try_failed_def

lemma log_parse_rendered:
  assumes ok: "entry_ok E addr b64 e"
    and intact: "e = Truncated \<or> \<not> truncation_text (render addr b64 e)"
  shows "log_entry_parse E (render addr b64 e) = e"
proof (cases e)
  case (Invoke p d)
  then show ?thesis
    using ok intact parse_program_line [of E addr p "'' invoke ['' @ show_nat (unat d) @ '']''"]
    by (simp add: try_defs match_program match_digits_written address_known parse_uint_word)
next
  case (Success p)
  then show ?thesis
    using ok intact parse_program_line [of E addr p "'' success''"]
    by (simp add: try_defs match_program address_known)
next
  case (Data d payload)
  then show ?thesis
    using ok intact by (simp add: log_entry_parse_def truncation_text_def parse_data_log_def)
next
  case (Return p d)
  have "match_address (addr p @ '' '' @ b64 d) = Some (addr p, '' '' @ b64 d)"
    using ok Return match_address_written [of E addr p "CHR '' ''" "b64 d"] by simp
  then show ?thesis
    using ok intact Return
    by (simp add: log_entry_parse_def truncation_text_def try_return_def match_return_def
        match_rest_def text_ok_def address_known)
next
  case (Message m)
  then show ?thesis
    using intact by (simp add: log_entry_parse_def truncation_text_def)
next
  case (Consumed p u a)
  then show ?thesis
    using ok intact parse_program_line [of E addr p
        "'' consumed '' @ show_nat (unat u) @ '' of '' @ show_nat (unat a) @ '' compute units''"]
    by (simp add: try_defs match_program match_digits_written address_known parse_uint_word)
next
  case (Failed p err)
  then have "address_ok E addr p" "text_ok err"
    using ok by simp_all
  then show ?thesis
    using Failed intact parse_program_line [of E addr p "'' failed: '' @ err"]
    by (simp add: try_defs match_program match_rest_def text_ok_def address_known)
next
  case Truncated
  then show ?thesis
    by (simp add: log_entry_parse_def)
next
  case (Unknown s)
  then show ?thesis
    using ok by simp
qed

text \<open>C21: The parser reads back what the runtime writes. Every entry of the log, rendered as the
  runtime prints it, is parsed as that entry, numbers at the full width of their type and any
  message included, unless the line contains the words of the truncation notice.\<close>

theorem log_parse_render:
  assumes "entry_ok E addr b64 e" and "e = Truncated \<or> \<not> truncation_text (render addr b64 e)"
  shows "log_entry_parse E (render addr b64 e) = e"
  by (rule log_parse_rendered [OF assms])

text \<open>A program's own message that contains the words of the notice is taken for the notice.\<close>

lemma log_message_forges_truncation:
  "log_entry_parse E (''Program log: '' @ m @ ''Log truncated'' @ m') = Truncated"
proof -
  have "contains_str p (s @ p @ t)" for p s t
    by (induction s) (cases p; cases t; simp)+
  from this [of "''Log truncated''" "''Program log: '' @ m" m'] show ?thesis
    by (simp add: log_entry_parse_def)
qed

text \<open>Slicing a long line for the diagnostics panics inside a multi-byte character.\<close>

lemma truncate_for_log_panics_iff:
  "truncate_for_log s n = None \<longleftrightarrow> n < length s \<and> continuation_byte (s ! n)"
  by (simp add: truncate_for_log_def)

text \<open>The example address is the system program's, 32 ones.\<close>

definition example_log_env :: log_env where
  "example_log_env = \<lparr> le_pubkey = (\<lambda>s. if s = ''11111111111111111111111111111111'' then Some (replicate 32 0) else None),
     le_base64 = (\<lambda>_. None) \<rparr>"

theorem log_parse_render_witness:
  "log_entry_parse example_log_env
     (render (\<lambda>_. ''11111111111111111111111111111111'') (\<lambda>_. []) (Consumed (replicate 32 0) 1400 200000)) =
   Consumed (replicate 32 0) 1400 200000"
proof (rule log_parse_render)
  show "entry_ok example_log_env (\<lambda>_. ''11111111111111111111111111111111'') (\<lambda>_. [])
      (Consumed (replicate 32 0) 1400 200000)"
    by (simp add: address_ok_def example_log_env_def is_base58_def)
  have "\<not> truncation_text (render (\<lambda>_. ''11111111111111111111111111111111'') (\<lambda>_. [])
      (Consumed (replicate 32 0) 1400 200000))"
    by (simp add: truncation_text_def show_nat.simps)
  then show "Consumed (replicate 32 0) 1400 200000 = Truncated \<or>
      \<not> truncation_text (render (\<lambda>_. ''11111111111111111111111111111111'') (\<lambda>_. [])
        (Consumed (replicate 32 0) 1400 200000))"
    by simp
qed

end
