(* ===== verification/Attribution.thy ===== *)
theory Attribution
  imports Logs F64
begin

text \<open>
  The flat instruction list of a transaction and the attribution of its log to it
  (parsing/instruction.rs). The parent of an instruction is found with a stack of heights; the
  log is cut into slices by a second stack that the invoke lines open and the terminators close.

  The reference is a \<open>run\<close>, the tree of calls the runtime executed, in the form of first inner
  call and next sibling. Its flat instruction list and its log are what the parser is given; the
  theorems say that the parser rebuilds the tree: parents, slices, and, for a log that the runtime
  cut, a mark on exactly the instructions that miss a line.
\<close>

section \<open>Instructions\<close>

record parsed_instruction =
  pi_program_id :: pubkey
  pi_accounts :: "pubkey list"
  pi_data :: bytes
  pi_logs :: "log_entry list"
  pi_stack_height :: u32
  pi_parent_index :: "nat option"
  pi_instruction_index :: nat

definition parsed_instruction_new ::
  "pubkey \<Rightarrow> pubkey list \<Rightarrow> bytes \<Rightarrow> u32 \<Rightarrow> nat \<Rightarrow> parsed_instruction" where
  "parsed_instruction_new program_id accounts data stack_height instruction_index =
     \<lparr> pi_program_id = program_id, pi_accounts = accounts, pi_data = data, pi_logs = [],
       pi_stack_height = stack_height, pi_parent_index = None,
       pi_instruction_index = instruction_index \<rparr>"

definition is_top_level :: "parsed_instruction \<Rightarrow> bool" where
  "is_top_level ix \<longleftrightarrow> pi_stack_height ix = 1"

definition is_inner :: "parsed_instruction \<Rightarrow> bool" where
  "is_inner ix \<longleftrightarrow> 1 < pi_stack_height ix"

definition pi_discriminator :: "parsed_instruction \<Rightarrow> bytes option" where
  "pi_discriminator ix = (if 8 \<le> length (pi_data ix) then Some (take 8 (pi_data ix)) else None)"

definition data_after_discriminator :: "parsed_instruction \<Rightarrow> bytes" where
  "data_after_discriminator ix = (if 8 < length (pi_data ix) then drop 8 (pi_data ix) else [])"

text \<open>\<open>find_map\<close>.\<close>

fun find_map :: "('a \<Rightarrow> 'b option) \<Rightarrow> 'a list \<Rightarrow> 'b option" where
  "find_map f [] = None"
| "find_map f (x # xs) = (case f x of Some y \<Rightarrow> Some y | None \<Rightarrow> find_map f xs)"

definition find_data_log :: "parsed_instruction \<Rightarrow> bytes option" where
  "find_data_log ix = find_map (\<lambda>e. case e of Data _ p \<Rightarrow> Some p | _ \<Rightarrow> None) (pi_logs ix)"

definition find_data_log_with_discriminator :: "parsed_instruction \<Rightarrow> bytes \<Rightarrow> bytes option" where
  "find_data_log_with_discriminator ix expected =
     find_map (\<lambda>e. case e of Data d p \<Rightarrow> if d = expected then Some p else None | _ \<Rightarrow> None) (pi_logs ix)"

definition logs_truncated :: "parsed_instruction \<Rightarrow> bool" where
  "logs_truncated ix \<longleftrightarrow> Truncated \<in> set (pi_logs ix)"

definition pi_account :: "parsed_instruction \<Rightarrow> nat \<Rightarrow> pubkey option" where
  "pi_account ix i = (if i < length (pi_accounts ix) then Some (pi_accounts ix ! i) else None)"

definition num_accounts :: "parsed_instruction \<Rightarrow> nat" where
  "num_accounts ix = length (pi_accounts ix)"

subsection \<open>The builder\<close>

record instruction_builder =
  ib_program_id :: "pubkey option"
  ib_accounts :: "pubkey list"
  ib_data :: bytes
  ib_logs :: "log_entry list"
  ib_stack_height :: u32
  ib_parent_index :: "nat option"
  ib_instruction_index :: nat

definition ib_new :: instruction_builder where
  "ib_new = \<lparr> ib_program_id = None, ib_accounts = [], ib_data = [], ib_logs = [], ib_stack_height = 1,
     ib_parent_index = None, ib_instruction_index = 0 \<rparr>"

definition ib_with_program_id :: "pubkey \<Rightarrow> instruction_builder \<Rightarrow> instruction_builder" where
  "ib_with_program_id p b = b \<lparr> ib_program_id := Some p \<rparr>"

definition ib_with_accounts :: "pubkey list \<Rightarrow> instruction_builder \<Rightarrow> instruction_builder" where
  "ib_with_accounts xs b = b \<lparr> ib_accounts := xs \<rparr>"

definition ib_with_data :: "bytes \<Rightarrow> instruction_builder \<Rightarrow> instruction_builder" where
  "ib_with_data d b = b \<lparr> ib_data := d \<rparr>"

definition ib_with_logs :: "log_entry list \<Rightarrow> instruction_builder \<Rightarrow> instruction_builder" where
  "ib_with_logs xs b = b \<lparr> ib_logs := xs \<rparr>"

definition ib_log :: "log_entry \<Rightarrow> instruction_builder \<Rightarrow> instruction_builder" where
  "ib_log e b = b \<lparr> ib_logs := ib_logs b @ [e] \<rparr>"

definition ib_with_stack_height :: "u32 \<Rightarrow> instruction_builder \<Rightarrow> instruction_builder" where
  "ib_with_stack_height h b = b \<lparr> ib_stack_height := h \<rparr>"

definition ib_with_parent_index :: "nat \<Rightarrow> instruction_builder \<Rightarrow> instruction_builder" where
  "ib_with_parent_index i b = b \<lparr> ib_parent_index := Some i \<rparr>"

definition ib_with_instruction_index :: "nat \<Rightarrow> instruction_builder \<Rightarrow> instruction_builder" where
  "ib_with_instruction_index i b = b \<lparr> ib_instruction_index := i \<rparr>"

text \<open>\<open>None\<close> is the panic on a missing program.\<close>

definition ib_build :: "instruction_builder \<Rightarrow> parsed_instruction option" where
  "ib_build b = map_option (\<lambda>p.
     \<lparr> pi_program_id = p, pi_accounts = ib_accounts b, pi_data = ib_data b, pi_logs = ib_logs b,
       pi_stack_height = ib_stack_height b, pi_parent_index = ib_parent_index b,
       pi_instruction_index = ib_instruction_index b \<rparr>) (ib_program_id b)"

section \<open>Parents\<close>

text \<open>Program index, account indices, data, and the height, which old transactions lack.\<close>

type_synonym raw_instruction = "u8 \<times> u8 list \<times> bytes \<times> u32 option"

definition key_at :: "pubkey list \<Rightarrow> u8 \<Rightarrow> pubkey option" where
  "key_at keys i = (if unat i < length keys then Some (keys ! unat i) else None)"

definition program_at :: "pubkey list \<Rightarrow> u8 \<Rightarrow> pubkey" where
  "program_at keys i = (case key_at keys i of Some k \<Rightarrow> k | None \<Rightarrow> replicate 32 0)"

text \<open>The stack of indices and heights, innermost first.\<close>

definition pop_to :: "u32 \<Rightarrow> (nat \<times> u32) list \<Rightarrow> (nat \<times> u32) list" where
  "pop_to h stack = dropWhile (\<lambda>(_, h'). h \<le> h') stack"

definition stack_top :: "(nat \<times> u32) list \<Rightarrow> nat option" where
  "stack_top stack = (case stack of [] \<Rightarrow> None | (i, _) # _ \<Rightarrow> Some i)"

fun link_instructions ::
  "pubkey list \<Rightarrow> nat \<Rightarrow> (nat \<times> u32) list \<Rightarrow> raw_instruction list \<Rightarrow> parsed_instruction list" where
  "link_instructions keys idx stack [] = []"
| "link_instructions keys idx stack ((program, accounts, data, height) # rs) =
     (let h = (case height of Some h \<Rightarrow> h | None \<Rightarrow> 1);
          stack = pop_to h stack;
          ix = parsed_instruction_new (program_at keys program)
                 (List.map_filter (key_at keys) accounts) data h idx
      in ix \<lparr> pi_parent_index := stack_top stack \<rparr> #
           link_instructions keys (Suc idx) ((idx, h) # stack) rs)"

section \<open>Attribution\<close>

datatype frame_effect = Open pubkey u32 | Close | Cut | Body

fun frame_effect_of :: "log_entry \<Rightarrow> frame_effect" where
  "frame_effect_of (Invoke p d) = Open p d"
| "frame_effect_of (Success p) = Close"
| "frame_effect_of (Failed p e) = Close"
| "frame_effect_of Truncated = Cut"
| "frame_effect_of (Data d p) = Body"
| "frame_effect_of (Return p d) = Body"
| "frame_effect_of (Message m) = Body"
| "frame_effect_of (Consumed p u a) = Body"
| "frame_effect_of (Unknown s) = Body"

text \<open>The four ways the walk ends.\<close>

datatype attribution_exit = Complete | Truncated_Log | Desynced | Overrun

definition push_log :: "nat \<Rightarrow> log_entry \<Rightarrow> parsed_instruction list \<Rightarrow> parsed_instruction list" where
  "push_log i e ixs = ixs[i := (ixs ! i) \<lparr> pi_logs := pi_logs (ixs ! i) @ [e] \<rparr>]"

definition mark_truncated :: "nat list \<Rightarrow> nat \<Rightarrow> parsed_instruction list \<Rightarrow> parsed_instruction list" where
  "mark_truncated frames cursor ixs =
     foldl (\<lambda>xs i. push_log i Truncated xs) ixs (rev frames @ [cursor..<length ixs])"

text \<open>The walk: the open frames innermost first, and the next instruction awaiting its invoke.
  A frame is always an index of the list, so that its access never panics.\<close>

fun attach ::
  "parsed_instruction list \<Rightarrow> nat list \<Rightarrow> nat \<Rightarrow> log_entry list \<Rightarrow>
   parsed_instruction list \<times> nat \<times> attribution_exit" where
  "attach ixs frames cursor [] = (ixs, cursor, Complete)"
| "attach ixs frames cursor (e # es) =
     (case frame_effect_of e of
        Cut \<Rightarrow> (mark_truncated frames cursor ixs, cursor, Truncated_Log)
      | Open p d \<Rightarrow>
          if length ixs \<le> cursor then (ixs, cursor, Overrun)
          else if pi_program_id (ixs ! cursor) \<noteq> p \<or> pi_stack_height (ixs ! cursor) \<noteq> d
            then (ixs, cursor, Desynced)
          else attach (push_log cursor e ixs) (cursor # frames) (Suc cursor) es
      | Close \<Rightarrow>
          (case frames of
             [] \<Rightarrow> attach ixs [] cursor es
           | f # fs \<Rightarrow> attach (push_log f e ixs) fs cursor es)
      | Body \<Rightarrow>
          (case frames of
             [] \<Rightarrow> attach ixs [] cursor es
           | f # fs \<Rightarrow> attach (push_log f e ixs) frames cursor es))"

text \<open>The process-wide counters; atomic additions wrap.\<close>

record attr_counters =
  at_complete :: u64
  at_truncated :: u64
  at_desynced :: u64
  at_overrun :: u64
  at_ix :: u64
  at_ix_opened :: u64

definition attr_counters_start :: attr_counters where
  "attr_counters_start = \<lparr> at_complete = 0, at_truncated = 0, at_desynced = 0, at_overrun = 0,
     at_ix = 0, at_ix_opened = 0 \<rparr>"

definition count_exit :: "attribution_exit \<Rightarrow> attr_counters \<Rightarrow> attr_counters" where
  "count_exit x n =
     (case x of
        Complete \<Rightarrow> n \<lparr> at_complete := at_complete n + 1 \<rparr>
      | Truncated_Log \<Rightarrow> n \<lparr> at_truncated := at_truncated n + 1 \<rparr>
      | Desynced \<Rightarrow> n \<lparr> at_desynced := at_desynced n + 1 \<rparr>
      | Overrun \<Rightarrow> n \<lparr> at_overrun := at_overrun n + 1 \<rparr>)"

definition attach_logs ::
  "parsed_instruction list \<Rightarrow> log_entry list \<Rightarrow> attr_counters \<Rightarrow> parsed_instruction list \<times> attr_counters" where
  "attach_logs ixs es n =
     (let (ixs', cursor, x) = attach ixs [] 0 es;
          n = n \<lparr> at_ix := at_ix n + of_nat (length ixs) \<rparr>;
          n = n \<lparr> at_ix_opened := at_ix_opened n + of_nat cursor \<rparr>
      in (ixs', count_exit x n))"

definition parse_instructions ::
  "log_env \<Rightarrow> raw_instruction list \<Rightarrow> string list \<Rightarrow> pubkey list \<Rightarrow> attr_counters \<Rightarrow>
   parsed_instruction list \<times> attr_counters" where
  "parse_instructions E raws logs keys n =
     attach_logs (link_instructions keys 0 [] raws) (parse_logs E logs) n"

record attribution_stats =
  as_transactions :: u64
  as_complete :: u64
  as_truncated :: u64
  as_desynced :: u64
  as_overrun :: u64
  as_instructions :: u64
  as_instructions_opened :: u64

text \<open>The sum of the exits; \<open>None\<close> is its overflow.\<close>

definition attribution_stats_of :: "bool \<Rightarrow> attr_counters \<Rightarrow> attribution_stats option" where
  "attribution_stats_of oc n =
     do { a \<leftarrow> u_add oc 64 (unat (at_complete n)) (unat (at_truncated n));
          b \<leftarrow> u_add oc 64 a (unat (at_desynced n));
          c \<leftarrow> u_add oc 64 b (unat (at_overrun n));
          Some \<lparr> as_transactions = word_of_nat c, as_complete = at_complete n,
            as_truncated = at_truncated n, as_desynced = at_desynced n, as_overrun = at_overrun n,
            as_instructions = at_ix n, as_instructions_opened = at_ix_opened n \<rparr> }"

definition instruction_coverage :: "attribution_stats \<Rightarrow> f64 option" where
  "instruction_coverage s =
     (if 0 < as_instructions s
      then Some (f_div (f_of_nat (unat (as_instructions_opened s))) (f_of_nat (unat (as_instructions s))))
      else None)"

section \<open>The tree of calls\<close>

text \<open>What is left of a frame: nothing, a line it writes, or a call with the run inside it, the
  line that ends it and what the frame does next.\<close>

datatype run =
    Idle
  | Line log_entry run
  | Cpi "u8 \<times> u8 list \<times> bytes" run log_entry run

text \<open>The instructions of a run in execution order, at depth \<open>d\<close>.\<close>

primrec run_raws :: "nat \<Rightarrow> run \<Rightarrow> raw_instruction list" where
  "run_raws d Idle = []"
| "run_raws d (Line e r) = run_raws d r"
| "run_raws d (Cpi c inner t r) =
     (fst c, fst (snd c), snd (snd c), Some (word_of_nat (Suc d))) # run_raws (Suc d) inner @ run_raws d r"

primrec run_size :: "run \<Rightarrow> nat" where
  "run_size Idle = 0"
| "run_size (Line e r) = run_size r"
| "run_size (Cpi c inner t r) = Suc (run_size inner + run_size r)"

text \<open>Its log, each line with the index of the instruction that wrote it; \<open>c\<close> is the next index
  and \<open>own\<close> the index of the frame.\<close>

primrec run_log :: "pubkey list \<Rightarrow> nat \<Rightarrow> nat \<Rightarrow> nat option \<Rightarrow> run \<Rightarrow> (nat option \<times> log_entry) list" where
  "run_log keys d c own Idle = []"
| "run_log keys d c own (Line e r) = (own, e) # run_log keys d c own r"
| "run_log keys d c own (Cpi i inner t r) =
     (Some c, Invoke (program_at keys (fst i)) (word_of_nat (Suc d))) #
     run_log keys (Suc d) (Suc c) (Some c) inner @ (Some c, t) #
     run_log keys d (Suc (c + run_size inner)) own r"

text \<open>The instructions with the index of the frame as parent and no lines yet.\<close>

primrec run_plan :: "pubkey list \<Rightarrow> nat \<Rightarrow> nat \<Rightarrow> nat option \<Rightarrow> run \<Rightarrow> parsed_instruction list" where
  "run_plan keys d c own Idle = []"
| "run_plan keys d c own (Line e r) = run_plan keys d c own r"
| "run_plan keys d c own (Cpi i inner t r) =
     parsed_instruction_new (program_at keys (fst i)) (List.map_filter (key_at keys) (fst (snd i)))
       (snd (snd i)) (word_of_nat (Suc d)) c \<lparr> pi_parent_index := own \<rparr> #
     run_plan keys (Suc d) (Suc c) (Some c) inner @
     run_plan keys d (Suc (c + run_size inner)) own r"

text \<open>Lines do not open or close frames, calls end with a terminator, and depths fit.\<close>

primrec run_ok :: "nat \<Rightarrow> run \<Rightarrow> bool" where
  "run_ok d Idle \<longleftrightarrow> True"
| "run_ok d (Line e r) \<longleftrightarrow> frame_effect_of e = Body \<and> run_ok d r"
| "run_ok d (Cpi c inner t r) \<longleftrightarrow>
     Suc (Suc d) < 2 ^ 32 \<and> frame_effect_of t = Close \<and> run_ok (Suc d) inner \<and> run_ok d r"

text \<open>The lines of one instruction.\<close>

definition lines_of :: "nat \<Rightarrow> (nat option \<times> log_entry) list \<Rightarrow> log_entry list" where
  "lines_of i log = map snd (filter (\<lambda>(own, _). own = Some i) log)"

lemma lines_of_simps [simp]:
  "lines_of i [] = []"
  "lines_of i ((own, e) # log) = (if own = Some i then e # lines_of i log else lines_of i log)"
  "lines_of i (log @ log') = lines_of i log @ lines_of i log'"
  by (simp_all add: lines_of_def)

lemma length_run_plan [simp]: "length (run_plan keys d c own r) = run_size r"
  by (induction r arbitrary: d c own) simp_all

section \<open>The parents are the tree's\<close>

lemma word_of_nat_le: "a < 2 ^ 32 \<Longrightarrow> b < 2 ^ 32 \<Longrightarrow> (word_of_nat a :: u32) \<le> word_of_nat b \<longleftrightarrow> a \<le> b"
  by (simp add: word_le_nat_alt unsigned_of_nat take_bit_nat_eq_self)

lemma dropWhile_weaker:
  "(\<And>x. P x \<Longrightarrow> Q x) \<Longrightarrow> dropWhile Q (dropWhile P xs) = dropWhile Q xs"
  by (induction xs) auto

lemma pop_to_pop_to:
  "h \<le> h' \<Longrightarrow> pop_to h (pop_to h' stack) = pop_to h stack"
  unfolding pop_to_def by (rule dropWhile_weaker) auto

text \<open>Stacks that agree once everything above a height is popped.\<close>

definition same_below :: "nat \<Rightarrow> (nat \<times> u32) list \<Rightarrow> (nat \<times> u32) list \<Rightarrow> bool" where
  "same_below d s s' \<longleftrightarrow> (\<forall>h \<le> d. pop_to (word_of_nat h) s = pop_to (word_of_nat h) s')"

lemma same_below_refl: "same_below d s s"
  by (simp add: same_below_def)

lemma link_run:
  assumes "run_ok d r" and "Suc d < 2 ^ 32"
  shows "\<exists>stack'. link_instructions keys c stack (run_raws d r @ rs) =
      run_plan keys d c (stack_top (pop_to (word_of_nat (Suc d)) stack)) r @
      link_instructions keys (c + run_size r) stack' rs \<and> same_below (Suc d) stack' stack"
  using assms
proof (induction r arbitrary: d c stack rs)
  case Idle
  then show ?case
    by (auto intro: same_below_refl)
next
  case (Line e r)
  then show ?case
    by simp
next
  case (Cpi i inner t r)
  let ?h = "word_of_nat (Suc d) :: u32"
  let ?s = "pop_to ?h stack"
  let ?s1 = "(c, ?h) # ?s"
  have bound: "Suc (Suc d) < 2 ^ 32"
    using Cpi.prems(1) by simp
  have top: "pop_to (word_of_nat (Suc (Suc d))) ?s1 = ?s1"
    using bound by (simp add: pop_to_def word_of_nat_le del: of_nat_Suc)
  have pops: "pop_to (word_of_nat h) ?s1 = pop_to (word_of_nat h) stack" if "h \<le> Suc d" for h
  proof -
    have "(word_of_nat h :: u32) \<le> ?h"
      using that Cpi.prems(2) by (simp add: word_of_nat_le del: of_nat_Suc)
    then show ?thesis
      using pop_to_pop_to [of "word_of_nat h" ?h stack] by (simp add: pop_to_def)
  qed
  obtain s2 where inner: "link_instructions keys (Suc c) ?s1 (run_raws (Suc d) inner @ run_raws d r @ rs) =
      run_plan keys (Suc d) (Suc c) (Some c) inner @
      link_instructions keys (Suc c + run_size inner) s2 (run_raws d r @ rs)"
    and s2: "same_below (Suc (Suc d)) s2 ?s1"
    using Cpi.IH(1) [of "Suc d" "Suc c" ?s1 "run_raws d r @ rs"] Cpi.prems(1) bound
    by (auto simp: stack_top_def top simp del: of_nat_Suc)
  have s2': "same_below (Suc d) s2 stack"
    using s2 pops by (simp add: same_below_def)
  obtain s3 where
    "link_instructions keys (Suc c + run_size inner) s2 (run_raws d r @ rs) =
      run_plan keys d (Suc c + run_size inner) (stack_top (pop_to ?h s2)) r @
      link_instructions keys (Suc c + run_size inner + run_size r) s3 rs"
    and "same_below (Suc d) s3 s2"
    using Cpi.IH(2) [of d "Suc c + run_size inner" s2 rs] Cpi.prems by (auto simp del: of_nat_Suc)
  with inner s2' show ?case
    by (intro exI [of _ s3])
      (simp add: Let_def same_below_def parsed_instruction_new_def add.assoc del: of_nat_Suc)
qed

section \<open>The slices are the tree's\<close>

text \<open>Attaching a log whose owners are known.\<close>

definition push_owned :: "parsed_instruction list \<Rightarrow> nat option \<times> log_entry \<Rightarrow> parsed_instruction list" where
  "push_owned ixs p = (case fst p of None \<Rightarrow> ixs | Some i \<Rightarrow> push_log i (snd p) ixs)"

abbreviation push_all :: "(nat option \<times> log_entry) list \<Rightarrow> parsed_instruction list \<Rightarrow> parsed_instruction list" where
  "push_all log ixs \<equiv> foldl push_owned ixs log"

lemma push_log_nth:
  "i < length ixs \<Longrightarrow> push_log i e ixs ! j =
     (if i = j then (ixs ! j) \<lparr> pi_logs := pi_logs (ixs ! j) @ [e] \<rparr> else ixs ! j)"
  by (simp add: push_log_def nth_list_update)

lemma length_push_log [simp]: "length (push_log i e ixs) = length ixs"
  by (simp add: push_log_def)

lemma length_push_all [simp]: "length (push_all log ixs) = length ixs"
  by (induction log arbitrary: ixs) (auto simp: push_owned_def split: option.splits)

lemma push_all_nth:
  assumes "i < length ixs"
  shows "push_all log ixs ! i = (ixs ! i) \<lparr> pi_logs := pi_logs (ixs ! i) @ lines_of i log \<rparr>"
  using assms
proof (induction log arbitrary: ixs)
  case (Cons p log)
  obtain own e where p: "p = (own, e)"
    by (cases p)
  have "push_owned ixs p ! i =
      (if own = Some i then (ixs ! i) \<lparr> pi_logs := pi_logs (ixs ! i) @ [e] \<rparr> else ixs ! i)"
    using Cons.prems by (auto simp: p push_owned_def push_log_def nth_list_update split: option.splits)
  moreover have "i < length (push_owned ixs p)"
    using Cons.prems by (auto simp: push_owned_def split: option.splits)
  ultimately show ?case
    using Cons.IH [of "push_owned ixs p"] by (simp add: p)
qed simp

text \<open>What the walk compares: program and height at every index.\<close>

definition heads :: "parsed_instruction list \<Rightarrow> (pubkey \<times> u32) list" where
  "heads ixs = map (\<lambda>ix. (pi_program_id ix, pi_stack_height ix)) ixs"

lemma heads_push_log [simp]: "heads (push_log i e ixs) = heads ixs"
  by (cases "i < length ixs")
    (auto simp: heads_def push_log_def nth_list_update intro!: nth_equalityI)

lemma heads_push_owned [simp]: "heads (push_owned ixs p) = heads ixs"
  by (simp add: push_owned_def split: option.split)

lemma heads_push_all [simp]: "heads (push_all log ixs) = heads ixs"
  by (induction log arbitrary: ixs) auto

lemma heads_nth:
  assumes "drop c (heads ixs) = (p, h) # hs"
  shows "c < length ixs" "pi_program_id (ixs ! c) = p" "pi_stack_height (ixs ! c) = h"
    "drop (Suc c) (heads ixs) = hs"
proof -
  have "c < length (heads ixs)"
    using assms by (metis drop_all leI list.distinct(1))
  then have c: "c < length ixs"
    by (simp add: heads_def)
  moreover have "heads ixs ! c = (p, h)"
    using assms \<open>c < length (heads ixs)\<close> by (metis Cons_nth_drop_Suc list.inject)
  ultimately show "c < length ixs" "pi_program_id (ixs ! c) = p" "pi_stack_height (ixs ! c) = h"
    by (simp_all add: heads_def)
  show "drop (Suc c) (heads ixs) = hs"
    using assms \<open>c < length (heads ixs)\<close> by (metis Cons_nth_drop_Suc list.inject)
qed

definition frame_of :: "nat list \<Rightarrow> nat option" where
  "frame_of frames = (case frames of [] \<Rightarrow> None | i # _ \<Rightarrow> Some i)"

lemma frame_of_simps [simp]: "frame_of [] = None" "frame_of (i # fs) = Some i"
  by (simp_all add: frame_of_def)

lemma attach_body:
  "frame_effect_of e = Body \<Longrightarrow>
     attach ixs frames c (e # es) = attach (push_owned ixs (frame_of frames, e)) frames c es"
  by (cases frames) (simp_all add: push_owned_def)

lemma attach_close:
  "frame_effect_of e = Close \<Longrightarrow>
     attach ixs (f # frames) c (e # es) = attach (push_owned ixs (Some f, e)) frames c es"
  by (simp add: push_owned_def)

lemma attach_open:
  "drop c (heads ixs) = (p, h) # hs \<Longrightarrow>
     attach ixs frames c (Invoke p h # es) =
     attach (push_owned ixs (Some c, Invoke p h)) (c # frames) (Suc c) es"
  using heads_nth [of c ixs p h hs] by (simp add: push_owned_def)

lemma drop_heads:
  assumes "drop c xs = heads (run_plan keys d c' own r) @ ys"
  shows "drop (c + run_size r) xs = ys"
proof -
  have "drop (c + run_size r) xs = drop (run_size r) (drop c xs)"
    by (simp add: add.commute)
  also have "\<dots> = ys"
    unfolding assms by (simp add: heads_def)
  finally show ?thesis .
qed

text \<open>A whole run is attached as the tree says.\<close>

lemma attach_run:
  assumes "run_ok d r" and "drop c (heads ixs) = heads (run_plan keys d c own r) @ hs"
  shows "attach ixs frames c (map snd (run_log keys d c (frame_of frames) r) @ es) =
    attach (push_all (run_log keys d c (frame_of frames) r) ixs) frames (c + run_size r) es"
  using assms
proof (induction r arbitrary: d c own ixs frames hs es)
  case Idle
  then show ?case by simp
next
  case (Line e r)
  then show ?case
    using Line.IH [of d c "push_owned ixs (frame_of frames, e)" own hs frames es]
    by (simp add: attach_body del: attach.simps)
next
  case (Cpi i inner t r)
  let ?p = "program_at keys (fst i)" and ?h = "word_of_nat (Suc d) :: u32"
  let ?ixs1 = "push_owned ixs (Some c, Invoke ?p ?h)"
  let ?in = "run_log keys (Suc d) (Suc c) (Some c) inner"
  let ?ixs2 = "push_owned (push_all ?in ?ixs1) (Some c, t)"
  let ?c = "Suc (c + run_size inner)"
  have first: "drop c (heads ixs) = (?p, ?h) # heads (run_plan keys (Suc d) (Suc c) (Some c) inner) @
      heads (run_plan keys d ?c own r) @ hs"
    using Cpi.prems(2) by (simp add: heads_def parsed_instruction_new_def)
  have inner: "drop (Suc c) (heads ?ixs1) = heads (run_plan keys (Suc d) (Suc c) (Some c) inner) @
      heads (run_plan keys d ?c own r) @ hs"
    using heads_nth(4) [OF first] by simp
  have rest: "drop ?c (heads ?ixs2) = heads (run_plan keys d ?c own r) @ hs"
    using drop_heads [OF inner] by simp
  show ?case
    using Cpi.IH(1) [OF _ inner, of "c # frames" "t # map snd (run_log keys d ?c (frame_of frames) r) @ es"]
      Cpi.IH(2) [OF _ rest, of frames es] Cpi.prems(1) attach_open [OF first]
    by (simp add: attach_close add.assoc del: attach.simps of_nat_Suc)
qed

section \<open>A log that is cut\<close>

primrec run_len :: "run \<Rightarrow> nat" where
  "run_len Idle = 0"
| "run_len (Line e r) = Suc (run_len r)"
| "run_len (Cpi i inner t r) = Suc (Suc (run_len inner + run_len r))"

lemma length_run_log [simp]: "length (run_log keys d c own r) = run_len r"
  by (induction r arbitrary: d c own) simp_all

text \<open>The frames open after \<open>k\<close> lines, innermost first, and the number of calls made by then.\<close>

primrec cut_frames :: "run \<Rightarrow> nat \<Rightarrow> nat \<Rightarrow> nat list" where
  "cut_frames Idle k c = []"
| "cut_frames (Line e r) k c = (if k = 0 then [] else cut_frames r (k - 1) c)"
| "cut_frames (Cpi i inner t r) k c =
     (if k = 0 then []
      else if k - 1 \<le> run_len inner then cut_frames inner (k - 1) (Suc c) @ [c]
      else cut_frames r (k - 2 - run_len inner) (Suc (c + run_size inner)))"

primrec cut_opened :: "run \<Rightarrow> nat \<Rightarrow> nat" where
  "cut_opened Idle k = 0"
| "cut_opened (Line e r) k = (if k = 0 then 0 else cut_opened r (k - 1))"
| "cut_opened (Cpi i inner t r) k =
     (if k = 0 then 0
      else if k - 1 \<le> run_len inner then Suc (cut_opened inner (k - 1))
      else Suc (run_size inner + cut_opened r (k - 2 - run_len inner)))"

lemma cut_opened_le: "cut_opened r k \<le> run_size r"
  by (induction r arbitrary: k) (auto intro: le_SucI trans_le_add1)

lemma cut_frames_range: "i \<in> set (cut_frames r k c) \<Longrightarrow> c \<le> i \<and> i < c + cut_opened r k"
  by (induction r arbitrary: k c) (fastforce split: if_splits)+

lemma cut_frames_distinct: "distinct (cut_frames r k c)"
  by (induction r arbitrary: k c) (auto dest: cut_frames_range)

lemma attach_run_cut:
  assumes "run_ok d r" and "drop c (heads ixs) = heads (run_plan keys d c own r) @ hs"
  shows "attach ixs frames c (map snd (take k (run_log keys d c (frame_of frames) r)) @ Truncated # es) =
    (mark_truncated (cut_frames r k c @ frames) (c + cut_opened r k)
       (push_all (take k (run_log keys d c (frame_of frames) r)) ixs),
     c + cut_opened r k, Truncated_Log)"
  using assms
proof (induction r arbitrary: d c own ixs frames hs es k)
  case Idle
  then show ?case by simp
next
  case (Line e r)
  show ?case
  proof (cases k)
    case (Suc k')
    then show ?thesis
      using Line.prems Line.IH [of d c "push_owned ixs (frame_of frames, e)" own hs frames k' es]
      by (simp add: attach_body del: attach.simps)
  qed simp
next
  case (Cpi i inner t r)
  let ?p = "program_at keys (fst i)" and ?h = "word_of_nat (Suc d) :: u32"
  let ?ixs1 = "push_owned ixs (Some c, Invoke ?p ?h)"
  let ?in = "run_log keys (Suc d) (Suc c) (Some c) inner"
  let ?ixs2 = "push_owned (push_all ?in ?ixs1) (Some c, t)"
  let ?c = "Suc (c + run_size inner)"
  have first: "drop c (heads ixs) = (?p, ?h) # heads (run_plan keys (Suc d) (Suc c) (Some c) inner) @
      heads (run_plan keys d ?c own r) @ hs"
    using Cpi.prems(2) by (simp add: heads_def parsed_instruction_new_def)
  have inner: "drop (Suc c) (heads ?ixs1) = heads (run_plan keys (Suc d) (Suc c) (Some c) inner) @
      heads (run_plan keys d ?c own r) @ hs"
    using heads_nth(4) [OF first] by simp
  have rest: "drop ?c (heads ?ixs2) = heads (run_plan keys d ?c own r) @ hs"
    using drop_heads [OF inner] by simp
  consider "k = 0" | k' where "k = Suc k'" "k' \<le> run_len inner"
    | k' where "k = Suc (Suc (run_len inner + k'))"
  proof (cases k)
    case (Suc k')
    then show ?thesis
      using that by (cases "k' \<le> run_len inner") (auto dest: not_le_imp_less less_imp_Suc_add)
  qed
  then show ?case
  proof cases
    case 1
    then show ?thesis by simp
  next
    case 2
    then show ?thesis
      using Cpi.IH(1) [OF _ inner, of "c # frames" k' es] Cpi.prems(1) attach_open [OF first]
      by (simp del: attach.simps of_nat_Suc)
  next
    case 3
    show ?thesis
      using attach_run [OF _ inner, of "c # frames"
          "t # map snd (take k' (run_log keys d ?c (frame_of frames) r)) @ Truncated # es"]
        Cpi.IH(2) [OF _ rest, of frames k' es] Cpi.prems(1) attach_open [OF first]
      by (simp add: 3 attach_close add.assoc del: attach.simps of_nat_Suc)
  qed
qed

text \<open>Which instructions miss a line.\<close>

lemma run_log_owners:
  "fst ` set (run_log keys d c own r) \<subseteq> insert own (Some ` {c..<c + run_size r})"
proof (induction r arbitrary: d c own)
  case (Cpi i inner t r)
  have "fst ` set (run_log keys (Suc d) (Suc c) (Some c) inner)
      \<subseteq> Some ` {c..<c + run_size (Cpi i inner t r)}"
    using Cpi.IH(1) [of "Suc d" "Suc c" "Some c"] by (rule subset_trans) auto
  moreover have "fst ` set (run_log keys d (Suc (c + run_size inner)) own r)
      \<subseteq> insert own (Some ` {c..<c + run_size (Cpi i inner t r)})"
    using Cpi.IH(2) [of d "Suc (c + run_size inner)" own] by (rule subset_trans) auto
  moreover have "Some c \<in> Some ` {c..<c + run_size (Cpi i inner t r)}"
    by simp
  ultimately show ?case
    by (simp only: run_log.simps list.simps set_append image_insert image_Un fst_conv) blast
qed simp_all

lemma run_log_owner:
  assumes "(own', e) \<in> set (run_log keys d c own r)"
  shows "own' = own \<or> (\<exists>i. own' = Some i \<and> c \<le> i \<and> i < c + run_size r)"
  using subsetD [OF run_log_owners imageI [OF assms, of fst]] by auto

lemma lines_of_foreign:
  assumes "own \<noteq> Some i" and "i < c \<or> c + run_size r \<le> i"
  shows "lines_of i (run_log keys d c own r) = []" and "lines_of i (drop k (run_log keys d c own r)) = []"
proof -
  have "own' \<noteq> Some i" if "(own', e) \<in> set (run_log keys d c own r)" for own' e
    using run_log_owner [OF that] assms by auto
  then show "lines_of i (run_log keys d c own r) = []" "lines_of i (drop k (run_log keys d c own r)) = []"
    by (auto simp: lines_of_def filter_empty_conv dest: in_set_dropD)
qed

lemma lines_of_present:
  "c \<le> i \<Longrightarrow> i < c + run_size r \<Longrightarrow> lines_of i (run_log keys d c own r) \<noteq> []"
proof (induction r arbitrary: d c own)
  case (Cpi j inner t r)
  then show ?case
    by (cases "i = c"; cases "i < Suc (c + run_size inner)") auto
qed simp_all

lemma cut_missing:
  assumes "c \<le> i" and "i < c + run_size r" and "\<And>o'. own = Some o' \<Longrightarrow> o' < c"
  shows "i \<in> set (cut_frames r k c) \<or> c + cut_opened r k \<le> i \<longleftrightarrow>
    lines_of i (drop k (run_log keys d c own r)) \<noteq> []"
  using assms
proof (induction r arbitrary: d c own k)
  case Idle
  then show ?case by simp
next
  case (Line e r)
  then show ?case
    using lines_of_present [of c i r keys d own] by (cases k) auto
next
  case (Cpi j inner t r)
  let ?c = "Suc (c + run_size inner)"
  have own: "own \<noteq> Some i"
    using Cpi.prems by force
  consider "k = 0" | k' where "k = Suc k'" "k' \<le> run_len inner"
    | k' where "k = Suc (Suc (run_len inner + k'))"
  proof (cases k)
    case (Suc k')
    then show ?thesis
      using that by (cases "k' \<le> run_len inner") (auto dest: not_le_imp_less less_imp_Suc_add)
  qed
  then show ?case
  proof cases
    case 1
    then show ?thesis
      using lines_of_present [of c i "Cpi j inner t r" keys d own] Cpi.prems by simp
  next
    case 2
    consider "i = c" | "Suc c \<le> i" "i < ?c" | "?c \<le> i"
      using Cpi.prems by linarith
    then show ?thesis
    proof cases
      case b: 2
      have "lines_of i (run_log keys d ?c own r) = []"
        using b own by (intro lines_of_foreign) auto
      then show ?thesis
        using 2 b Cpi.IH(1) [of "Suc c" "Some c" k' "Suc d"] by simp
    next
      case b: 3
      have "lines_of i (run_log keys d ?c own r) \<noteq> []"
        using b Cpi.prems by (intro lines_of_present) auto
      moreover have "Suc (c + cut_opened inner k') \<le> i"
        using cut_opened_le [of inner k'] b by simp
      ultimately show ?thesis
        using 2 by simp
    qed (simp add: 2)
  next
    case 3
    show ?thesis
    proof (cases "?c \<le> i")
      case True
      then show ?thesis
        using 3 Cpi.IH(2) [of ?c own k' d] Cpi.prems by (force simp: add.assoc)
    next
      case False
      then have "lines_of i (drop k' (run_log keys d ?c own r)) = []"
        using own by (intro lines_of_foreign) auto
      then show ?thesis
        using 3 False by (auto dest: cut_frames_range)
    qed
  qed
qed

lemma foldl_push_nth:
  assumes "i < length ixs" and "distinct is"
  shows "foldl (\<lambda>xs j. push_log j e xs) ixs is ! i =
    (if i \<in> set is then (ixs ! i) \<lparr> pi_logs := pi_logs (ixs ! i) @ [e] \<rparr> else ixs ! i)"
  using assms
proof (induction "is" arbitrary: ixs)
  case (Cons j js)
  have "push_log j e ixs ! i =
      (if i = j then (ixs ! i) \<lparr> pi_logs := pi_logs (ixs ! i) @ [e] \<rparr> else ixs ! i)"
    using Cons.prems(1) by (auto simp: push_log_def nth_list_update)
  then show ?case
    using Cons.prems Cons.IH [of "push_log j e ixs"] by auto
qed simp

lemma length_foldl_push [simp]: "length (foldl (\<lambda>xs j. push_log j e xs) ixs is) = length ixs"
  by (induction "is" arbitrary: ixs) simp_all

lemma length_mark_truncated [simp]: "length (mark_truncated frames cursor ixs) = length ixs"
  by (simp add: mark_truncated_def)

lemma mark_truncated_nth:
  assumes "i < length ixs" and "distinct frames" and "\<And>f. f \<in> set frames \<Longrightarrow> f < cursor"
  shows "mark_truncated frames cursor ixs ! i =
    (if i \<in> set frames \<or> cursor \<le> i
     then (ixs ! i) \<lparr> pi_logs := pi_logs (ixs ! i) @ [Truncated] \<rparr> else ixs ! i)"
proof -
  have "distinct (rev frames @ [cursor..<length ixs])"
    using assms(2,3) by fastforce
  then show ?thesis
    using assms(1) unfolding mark_truncated_def by (subst foldl_push_nth) auto
qed

lemma run_plan_no_logs: "ix \<in> set (run_plan keys d c own r) \<Longrightarrow> pi_logs ix = []"
  by (induction r arbitrary: d c own) (auto simp: parsed_instruction_new_def)

lemma parse_written:
  assumes "\<And>own e. (own, e) \<in> set log \<Longrightarrow> entry_ok E addr b64 e \<and> \<not> truncation_text (render addr b64 e)"
  shows "parse_logs E (map (\<lambda>(own, e). render addr b64 e) log) = map snd log"
  using assms by (auto simp: parse_logs_def log_parse_rendered)

lemma link_whole_run:
  assumes "run_ok 0 r"
  shows "link_instructions keys 0 [] (run_raws 0 r) = run_plan keys 0 0 None r"
  using link_run [OF assms, of keys 0 "[]" "[]"] by (auto simp: pop_to_def stack_top_def)

section \<open>What the parser makes of a transaction\<close>

text \<open>C8: The parser rebuilds the calls. Given the flat instruction list of a tree of calls and the
  log the runtime wrote for it, every instruction has its caller as parent, and its log is exactly
  the lines written by its own frame, in order: its invoke, its own lines without those of the
  calls it makes, and its terminator. Lines outside every frame are dropped, and the walk counts
  the transaction as complete with every instruction opened.\<close>

theorem attribution_rebuilds_calls:
  fixes keys r E addr b64
  defines "log \<equiv> run_log keys 0 0 None r"
  assumes ok: "run_ok 0 r"
    and readable: "\<forall>p \<in> set log. entry_ok E addr b64 (snd p) \<and> \<not> truncation_text (render addr b64 (snd p))"
  shows "parse_instructions E (run_raws 0 r) (map (\<lambda>(own, e). render addr b64 e) log) keys n =
    (map (\<lambda>i. (run_plan keys 0 0 None r ! i) \<lparr> pi_logs := lines_of i log \<rparr>) [0..<run_size r],
     n \<lparr> at_ix := at_ix n + of_nat (run_size r), at_ix_opened := at_ix_opened n + of_nat (run_size r),
         at_complete := at_complete n + 1 \<rparr>)"
proof -
  let ?plan = "run_plan keys 0 0 None r"
  have "attach ?plan [] 0 (map snd log) = (push_all log ?plan, run_size r, Complete)"
    using attach_run [OF ok, of 0 ?plan keys None "[]" "[]" "[]"] by (simp add: log_def)
  moreover have "push_all log ?plan = map (\<lambda>i. (?plan ! i) \<lparr> pi_logs := lines_of i log \<rparr>) [0..<run_size r]"
  proof (rule nth_equalityI)
    fix i assume "i < length (push_all log ?plan)"
    then have "i < run_size r" by simp
    then show "push_all log ?plan ! i = map (\<lambda>i. (?plan ! i) \<lparr> pi_logs := lines_of i log \<rparr>) [0..<run_size r] ! i"
      using run_plan_no_logs [OF nth_mem, of i keys 0 0 None r] by (simp add: push_all_nth)
  qed simp
  moreover have "parse_logs E (map (\<lambda>(own, e). render addr b64 e) log) = map snd log"
    using readable by (intro parse_written) force
  ultimately show ?thesis
    by (simp add: parse_instructions_def attach_logs_def link_whole_run [OF ok] count_exit_def)
qed

text \<open>C20: A cut log is marked where something is missing, and nowhere else. When a line with the
  words of the truncation notice follows the first \<open>k\<close> lines, every instruction keeps its own
  lines among these and is marked as truncated exactly if it would have written more. Whether
  the line is the runtime's notice or a message of a program that contains the words makes no
  difference: whatever comes after it is dropped.\<close>

theorem attribution_marks_cut:
  fixes keys r E addr b64
  defines "log \<equiv> run_log keys 0 0 None r"
  assumes ok: "run_ok 0 r"
    and readable: "\<forall>p \<in> set log. entry_ok E addr b64 (snd p) \<and> \<not> truncation_text (render addr b64 (snd p))"
    and notice: "truncation_text notice"
  shows "fst (parse_instructions E (run_raws 0 r)
      (map (\<lambda>(own, e). render addr b64 e) (take k log) @ notice # lost) keys n) =
    map (\<lambda>i. (run_plan keys 0 0 None r ! i)
      \<lparr> pi_logs := lines_of i (take k log) @ (if lines_of i (drop k log) = [] then [] else [Truncated]) \<rparr>)
      [0..<run_size r]"
proof -
  let ?plan = "run_plan keys 0 0 None r"
  let ?ixs = "push_all (take k log) ?plan"
  let ?marked = "mark_truncated (cut_frames r k 0) (cut_opened r k) ?ixs"
  have "attach ?plan [] 0 (map snd (take k log) @ Truncated # parse_logs E lost) =
      (?marked, cut_opened r k, Truncated_Log)"
    using attach_run_cut [OF ok, of 0 ?plan keys None "[]" "[]" k] by (simp add: log_def)
  moreover have "parse_logs E (map (\<lambda>(own, e). render addr b64 e) (take k log) @ notice # lost) =
      map snd (take k log) @ Truncated # parse_logs E lost"
  proof -
    have "parse_logs E (map (\<lambda>(own, e). render addr b64 e) (take k log)) = map snd (take k log)"
      using readable by (intro parse_written) (force dest: in_set_takeD)
    moreover have "log_entry_parse E notice = Truncated"
      using notice by (simp add: log_entry_parse_def truncation_text_def)
    ultimately show ?thesis
      by (simp only: parse_logs_def map_append list.map)
  qed
  moreover have "?marked = map (\<lambda>i. (?plan ! i)
      \<lparr> pi_logs := lines_of i (take k log) @ (if lines_of i (drop k log) = [] then [] else [Truncated]) \<rparr>)
      [0..<run_size r]" (is "_ = ?spec")
  proof (rule nth_equalityI)
    fix i assume "i < length ?marked"
    then have i: "i < run_size r" by simp
    then have "?ixs ! i = (?plan ! i) \<lparr> pi_logs := lines_of i (take k log) \<rparr>"
      using run_plan_no_logs [OF nth_mem, of i keys 0 0 None r] by (simp add: push_all_nth)
    moreover have "?marked ! i = (if i \<in> set (cut_frames r k 0) \<or> cut_opened r k \<le> i
        then (?ixs ! i) \<lparr> pi_logs := pi_logs (?ixs ! i) @ [Truncated] \<rparr> else ?ixs ! i)"
      using i cut_frames_range [of _ r k 0] cut_frames_distinct [of r k 0]
      by (intro mark_truncated_nth) auto
    moreover have "i \<in> set (cut_frames r k 0) \<or> cut_opened r k \<le> i \<longleftrightarrow> lines_of i (drop k log) \<noteq> []"
      using cut_missing [of 0 i r None k keys 0] i by (simp add: log_def)
    ultimately show "?marked ! i = ?spec ! i"
      using i by simp
  qed simp
  ultimately show ?thesis
    by (simp add: parse_instructions_def attach_logs_def link_whole_run [OF ok])
qed

text \<open>An example: a program that logs a message, calls itself and ends.\<close>

definition example_run :: run where
  "example_run =
     Cpi (0, [], []) (Line (Message ''a'') (Cpi (0, [], []) Idle (Success (replicate 32 0)) Idle))
       (Success (replicate 32 0)) Idle"

abbreviation (input) example_addr :: "pubkey \<Rightarrow> string" where
  "example_addr \<equiv> \<lambda>_. ''11111111111111111111111111111111''"

lemma example_readable:
  "\<forall>p \<in> set (run_log [replicate 32 0] 0 0 None example_run).
     entry_ok example_log_env example_addr (\<lambda>_. []) (snd p) \<and>
     \<not> truncation_text (render example_addr (\<lambda>_. []) (snd p))"
  by (simp add: example_run_def program_at_def key_at_def address_ok_def example_log_env_def
      is_base58_def truncation_text_def show_nat.simps)

lemma example_run_ok: "run_ok 0 example_run"
  by (simp add: example_run_def)

theorem attribution_rebuilds_calls_witness:
  "map pi_logs (fst (parse_instructions example_log_env (run_raws 0 example_run)
     (map (\<lambda>(own, e). render example_addr (\<lambda>_. []) e) (run_log [replicate 32 0] 0 0 None example_run))
     [replicate 32 0] attr_counters_start)) =
   [[Invoke (replicate 32 0) 1, Message ''a'', Success (replicate 32 0)],
    [Invoke (replicate 32 0) 2, Success (replicate 32 0)]]"
  unfolding attribution_rebuilds_calls [OF example_run_ok example_readable]
  by (simp add: example_run_def program_at_def key_at_def upt_rec)

theorem attribution_marks_cut_witness:
  "map pi_logs (fst (parse_instructions example_log_env (run_raws 0 example_run)
     (map (\<lambda>(own, e). render example_addr (\<lambda>_. []) e)
        (take 2 (run_log [replicate 32 0] 0 0 None example_run)) @
      ''Program log: Log truncated'' # [])
     [replicate 32 0] attr_counters_start)) =
   [[Invoke (replicate 32 0) 1, Message ''a'', Truncated], [Truncated]]"
proof -
  have notice: "truncation_text ''Program log: Log truncated''"
    by (simp add: truncation_text_def)
  show ?thesis
    unfolding attribution_marks_cut [OF example_run_ok example_readable notice]
    by (simp add: example_run_def program_at_def key_at_def upt_rec)
qed

end
