(* ===== verification/Classify.thy ===== *)
theory Classify
  imports PumpInstructions Quote Attribution
begin

text \<open>
  What an instruction is: the predicates and the accounts of the two instruction enums
  (pumpfun/instructions/mod.rs, pumpswap/instructions/mod.rs), the classification of
  parsing/classify.rs, and the table of swap instructions that prices and discovery go by
  (swap_instruction.rs). The theorems say that these readings of one instruction agree.
\<close>

section \<open>Predicates\<close>

fun pf_is_buy :: "pumpfun_instruction \<Rightarrow> bool" where
  "pf_is_buy (PfBuy _) = True"
| "pf_is_buy (PfBuyV2 _) = True"
| "pf_is_buy (PfBuyExactSolIn _) = True"
| "pf_is_buy (PfBuyExactQuoteInV2 _) = True"
| "pf_is_buy _ = False"

fun pf_is_sell :: "pumpfun_instruction \<Rightarrow> bool" where
  "pf_is_sell (PfSell _) = True"
| "pf_is_sell (PfSellV2 _) = True"
| "pf_is_sell _ = False"

fun pf_is_create :: "pumpfun_instruction \<Rightarrow> bool" where
  "pf_is_create (PfCreate _) = True"
| "pf_is_create (PfCreateV2 _) = True"
| "pf_is_create _ = False"

definition pf_is_swap :: "pumpfun_instruction \<Rightarrow> bool" where
  "pf_is_swap ix \<longleftrightarrow> pf_is_buy ix \<or> pf_is_sell ix"

text \<open>PumpSwap's \<open>is_buy\<close> names one of the two buys.\<close>

fun ps_is_buy :: "pumpswap_instruction \<Rightarrow> bool" where
  "ps_is_buy (PsBuy _) = True"
| "ps_is_buy _ = False"

fun ps_is_sell :: "pumpswap_instruction \<Rightarrow> bool" where
  "ps_is_sell (PsSell _) = True"
| "ps_is_sell _ = False"

fun ps_is_create_pool :: "pumpswap_instruction \<Rightarrow> bool" where
  "ps_is_create_pool (PsCreatePool _) = True"
| "ps_is_create_pool _ = False"

fun ps_is_deposit :: "pumpswap_instruction \<Rightarrow> bool" where
  "ps_is_deposit (PsDeposit _) = True"
| "ps_is_deposit _ = False"

fun ps_is_withdraw :: "pumpswap_instruction \<Rightarrow> bool" where
  "ps_is_withdraw (PsWithdraw _) = True"
| "ps_is_withdraw _ = False"

section \<open>The accounts of an instruction\<close>

text \<open>The accounts enum has a variant per instruction; it is the instruction's layout with the
  accounts read by it. Each exact-in buy is read with the accounts of its exact-out sibling.\<close>

fun pumpfun_layout :: "key_env \<Rightarrow> pumpfun_instruction \<Rightarrow> layout" where
  "pumpfun_layout K (PfBuy _) = pumpfun_buy_layout K"
| "pumpfun_layout K (PfBuyV2 _) = pumpfun_buy_v2_layout K"
| "pumpfun_layout K (PfBuyExactSolIn _) = pumpfun_buy_layout K"
| "pumpfun_layout K (PfBuyExactQuoteInV2 _) = pumpfun_buy_v2_layout K"
| "pumpfun_layout K (PfSell _) = pumpfun_sell_layout K"
| "pumpfun_layout K (PfSellV2 _) = pumpfun_sell_v2_layout K"
| "pumpfun_layout K (PfCreate _) = pumpfun_create_layout"
| "pumpfun_layout K (PfCreateV2 _) = pumpfun_create_v2_layout"
| "pumpfun_layout K (PfMigrate _) = pumpfun_migrate_layout"
| "pumpfun_layout K (PfMigrateV2 _) = pumpfun_migrate_v2_layout"
| "pumpfun_layout K (PfCollectCreatorFee _) = pumpfun_collect_creator_fee_layout"
| "pumpfun_layout K (PfCollectCreatorFeeV2 _) = pumpfun_collect_creator_fee_v2_layout"
| "pumpfun_layout K (PfDistributeCreatorFees _) = pumpfun_distribute_creator_fees_layout"
| "pumpfun_layout K (PfDistributeCreatorFeesV2 _) = pumpfun_distribute_creator_fees_v2_layout"

fun pumpswap_layout :: "key_env \<Rightarrow> pumpswap_instruction \<Rightarrow> layout" where
  "pumpswap_layout K (PsBuy _) = pumpswap_buy_layout K"
| "pumpswap_layout K (PsBuyExactQuoteIn _) = pumpswap_buy_layout K"
| "pumpswap_layout K (PsSell _) = pumpswap_sell_layout K"
| "pumpswap_layout K (PsCreatePool _) = pumpswap_create_pool_layout"
| "pumpswap_layout K (PsDeposit _) = pumpswap_deposit_layout"
| "pumpswap_layout K (PsWithdraw _) = pumpswap_withdraw_layout"
| "pumpswap_layout K (PsCollectCoinCreatorFee _) = pumpswap_collect_coin_creator_fee_layout"

definition pumpfun_from_accounts ::
    "key_env \<Rightarrow> pumpfun_instruction \<Rightarrow> pubkey list \<Rightarrow> instruction_parse_error + accounts" where
  "pumpfun_from_accounts K ix ks = from_pubkeys (pumpfun_layout K ix) ks"

definition pumpswap_from_accounts ::
    "key_env \<Rightarrow> pumpswap_instruction \<Rightarrow> pubkey list \<Rightarrow> instruction_parse_error + accounts" where
  "pumpswap_from_accounts K ix ks = from_pubkeys (pumpswap_layout K ix) ks"

fun pumpfun_mint :: "key_env \<Rightarrow> pumpfun_instruction \<Rightarrow> accounts \<Rightarrow> pubkey option" where
  "pumpfun_mint K (PfBuy p) a = acc (pumpfun_layout K (PfBuy p)) a ''mint''"
| "pumpfun_mint K (PfBuyExactSolIn p) a = acc (pumpfun_layout K (PfBuyExactSolIn p)) a ''mint''"
| "pumpfun_mint K (PfSell p) a = acc (pumpfun_layout K (PfSell p)) a ''mint''"
| "pumpfun_mint K (PfCreate p) a = acc (pumpfun_layout K (PfCreate p)) a ''mint''"
| "pumpfun_mint K (PfCreateV2 p) a = acc (pumpfun_layout K (PfCreateV2 p)) a ''mint''"
| "pumpfun_mint K (PfBuyV2 p) a = acc (pumpfun_layout K (PfBuyV2 p)) a ''base_mint''"
| "pumpfun_mint K (PfBuyExactQuoteInV2 p) a = acc (pumpfun_layout K (PfBuyExactQuoteInV2 p)) a ''base_mint''"
| "pumpfun_mint K (PfSellV2 p) a = acc (pumpfun_layout K (PfSellV2 p)) a ''base_mint''"
| "pumpfun_mint K (PfDistributeCreatorFees p) a = acc (pumpfun_layout K (PfDistributeCreatorFees p)) a ''mint''"
| "pumpfun_mint K (PfDistributeCreatorFeesV2 p) a = acc (pumpfun_layout K (PfDistributeCreatorFeesV2 p)) a ''mint''"
| "pumpfun_mint K (PfMigrate p) a = acc (pumpfun_layout K (PfMigrate p)) a ''mint''"
| "pumpfun_mint K (PfMigrateV2 p) a = acc (pumpfun_layout K (PfMigrateV2 p)) a ''base_mint''"
| "pumpfun_mint K (PfCollectCreatorFee p) a = None"
| "pumpfun_mint K (PfCollectCreatorFeeV2 p) a = None"

fun pumpfun_bonding_curve :: "key_env \<Rightarrow> pumpfun_instruction \<Rightarrow> accounts \<Rightarrow> pubkey option" where
  "pumpfun_bonding_curve K (PfCollectCreatorFee p) a = None"
| "pumpfun_bonding_curve K (PfCollectCreatorFeeV2 p) a = None"
| "pumpfun_bonding_curve K ix a = acc (pumpfun_layout K ix) a ''bonding_curve''"

fun pumpfun_user :: "key_env \<Rightarrow> pumpfun_instruction \<Rightarrow> accounts \<Rightarrow> pubkey option" where
  "pumpfun_user K (PfCollectCreatorFee p) a = acc (pumpfun_layout K (PfCollectCreatorFee p)) a ''creator''"
| "pumpfun_user K (PfCollectCreatorFeeV2 p) a = acc (pumpfun_layout K (PfCollectCreatorFeeV2 p)) a ''creator''"
| "pumpfun_user K (PfDistributeCreatorFeesV2 p) a = acc (pumpfun_layout K (PfDistributeCreatorFeesV2 p)) a ''payer''"
| "pumpfun_user K (PfDistributeCreatorFees p) a = None"
| "pumpfun_user K ix a = acc (pumpfun_layout K ix) a ''user''"

section \<open>Classification\<close>

datatype classified_amount = Exact u64 | Minimum u64 | Maximum u64 | Unknown

record swap_classification =
  sc_direction :: swap_direction
  sc_amount_in :: classified_amount
  sc_amount_out :: classified_amount
  sc_mint :: "pubkey option"
  sc_pool :: "pubkey option"
  sc_user :: "pubkey option"

definition swap_classification_new ::
    "swap_direction \<Rightarrow> classified_amount \<Rightarrow> classified_amount \<Rightarrow> swap_classification" where
  "swap_classification_new d i out =
     \<lparr> sc_direction = d, sc_amount_in = i, sc_amount_out = out, sc_mint = None, sc_pool = None, sc_user = None \<rparr>"

fun pf_as_swap :: "pumpfun_instruction \<Rightarrow> swap_classification option" where
  "pf_as_swap (PfBuy p) =
     Some (swap_classification_new Buy (Maximum (bp_max_sol_cost p)) (Exact (bp_amount p)))"
| "pf_as_swap (PfBuyV2 p) =
     Some (swap_classification_new Buy (Maximum (b2_max_sol_cost p)) (Exact (b2_amount p)))"
| "pf_as_swap (PfBuyExactSolIn p) =
     Some (swap_classification_new Buy (Exact (bs_spendable_sol_in p)) (Minimum (bs_min_tokens_out p)))"
| "pf_as_swap (PfBuyExactQuoteInV2 p) =
     Some (swap_classification_new Buy (Exact (bq_spendable_quote_in p)) (Minimum (bq_min_tokens_out p)))"
| "pf_as_swap (PfSell p) =
     Some (swap_classification_new Sell (Exact (sp_amount p)) (Minimum (sp_min_sol_output p)))"
| "pf_as_swap (PfSellV2 p) =
     Some (swap_classification_new Sell (Exact (s2_amount p)) (Minimum (s2_min_sol_output p)))"
| "pf_as_swap _ = None"

fun ps_as_swap :: "pumpswap_instruction \<Rightarrow> swap_classification option" where
  "ps_as_swap (PsBuy p) =
     Some (swap_classification_new Buy (Maximum (pb_max_quote_amount_in p)) (Exact (pb_base_amount_out p)))"
| "ps_as_swap (PsBuyExactQuoteIn p) =
     Some (swap_classification_new Buy (Exact (pq_spendable_quote_in p)) (Minimum (pq_min_base_amount_out p)))"
| "ps_as_swap (PsSell p) =
     Some (swap_classification_new Sell (Exact (psl_base_amount_in p)) (Minimum (psl_min_quote_amount_out p)))"
| "ps_as_swap _ = None"

record token_creation_classification =
  tc_mint :: pubkey
  tc_name :: bytes
  tc_symbol :: bytes
  tc_uri :: bytes
  tc_creator :: "pubkey option"
  tc_pool :: "pubkey option"

definition token_creation_new :: "pubkey \<Rightarrow> bytes \<Rightarrow> bytes \<Rightarrow> bytes \<Rightarrow> token_creation_classification" where
  "token_creation_new mint n s u =
     \<lparr> tc_mint = mint, tc_name = n, tc_symbol = s, tc_uri = u, tc_creator = None, tc_pool = None \<rparr>"

fun pf_as_token_creation :: "pumpfun_instruction \<Rightarrow> token_creation_classification option" where
  "pf_as_token_creation (PfCreate p) =
     Some (token_creation_new pubkey_default (cr_name p) (cr_symbol p) (cr_uri p))"
| "pf_as_token_creation (PfCreateV2 p) =
     Some (token_creation_new pubkey_default (c2_name p) (c2_symbol p) (c2_uri p))"
| "pf_as_token_creation _ = None"

text \<open>An event is an instruction with its accounts; the log data takes no part here.\<close>

definition pf_event_as_swap ::
    "key_env \<Rightarrow> pumpfun_instruction \<Rightarrow> accounts \<Rightarrow> swap_classification option" where
  "pf_event_as_swap K ix a =
     map_option (\<lambda>s. s \<lparr> sc_mint := pumpfun_mint K ix a, sc_pool := pumpfun_bonding_curve K ix a,
       sc_user := pumpfun_user K ix a \<rparr>) (pf_as_swap ix)"

definition pf_event_as_token_creation ::
    "key_env \<Rightarrow> pumpfun_instruction \<Rightarrow> accounts \<Rightarrow> token_creation_classification option" where
  "pf_event_as_token_creation K ix a =
     map_option (\<lambda>c. c \<lparr> tc_mint := (case pumpfun_mint K ix a of Some m \<Rightarrow> m | None \<Rightarrow> pubkey_default),
       tc_pool := pumpfun_bonding_curve K ix a, tc_creator := pumpfun_user K ix a \<rparr>) (pf_as_token_creation ix)"

section \<open>The table of swap instructions\<close>

datatype amount_specified = AS_ExactIn | AS_ExactOut

datatype swap_instruction =
    PumpfunBuy | PumpfunBuyV2 | PumpfunBuyExactSolIn | PumpfunBuyExactQuoteInV2 | PumpfunSell | PumpfunSellV2
  | PumpSwapBuy | PumpSwapBuyExactQuoteIn | PumpSwapSell | UnknownSwap bytes

text \<open>The lines of the table: variant, protocol, name, and the side that the user pins.\<close>

definition swap_instructions :: "(swap_instruction \<times> protocol \<times> string \<times> amount_specified) list" where
  "swap_instructions =
     [(PumpfunBuy, Pumpfun, ''buy'', AS_ExactOut),
      (PumpfunBuyV2, Pumpfun, ''buy_v2'', AS_ExactOut),
      (PumpfunBuyExactSolIn, Pumpfun, ''buy_exact_sol_in'', AS_ExactIn),
      (PumpfunBuyExactQuoteInV2, Pumpfun, ''buy_exact_quote_in_v2'', AS_ExactIn),
      (PumpfunSell, Pumpfun, ''sell'', AS_ExactIn),
      (PumpfunSellV2, Pumpfun, ''sell_v2'', AS_ExactIn),
      (PumpSwapBuy, PumpSwap, ''buy'', AS_ExactOut),
      (PumpSwapBuyExactQuoteIn, PumpSwap, ''buy_exact_quote_in'', AS_ExactIn),
      (PumpSwapSell, PumpSwap, ''sell'', AS_ExactIn)]"

definition all_swap_instructions :: "swap_instruction list" where
  "all_swap_instructions = map fst swap_instructions"

definition swap_discriminator :: "key_env \<Rightarrow> swap_instruction \<Rightarrow> bytes option" where
  "swap_discriminator K s = map_option (\<lambda>(_, n, _). ke_instruction_disc K n) (map_of swap_instructions s)"

definition swap_protocol :: "swap_instruction \<Rightarrow> protocol option" where
  "swap_protocol s = map_option fst (map_of swap_instructions s)"

definition swap_amount_specified :: "swap_instruction \<Rightarrow> amount_specified option" where
  "swap_amount_specified s = map_option (snd \<circ> snd) (map_of swap_instructions s)"

definition hex_digit :: "nat \<Rightarrow> char" where
  "hex_digit n = ''0123456789abcdef'' ! n"

definition hex8 :: "bytes \<Rightarrow> string" where
  "hex8 d = concat (map (\<lambda>b. [hex_digit (unat b div 16), hex_digit (unat b mod 16)]) d)"

definition swap_name :: "swap_instruction \<Rightarrow> string" where
  "swap_name s =
     (case (s, map_of swap_instructions s) of
        (_, Some (_, n, _)) \<Rightarrow> n
      | (UnknownSwap d, None) \<Rightarrow> ''unknown:'' @ hex8 d
      | (_, None) \<Rightarrow> [])"

definition swap_from_discriminator :: "key_env \<Rightarrow> protocol \<Rightarrow> bytes \<Rightarrow> swap_instruction" where
  "swap_from_discriminator K p data =
     (if length data < 8 then UnknownSwap (replicate 8 0)
      else (case find (\<lambda>c. swap_protocol c = Some p \<and> swap_discriminator K c = Some (take 8 data))
                   all_swap_instructions of
              Some c \<Rightarrow> c
            | None \<Rightarrow> UnknownSwap (take 8 data)))"

text \<open>The protocols with their program ids; \<open>from_program_id\<close> walks the complete list.\<close>

definition all_protocols :: "protocol list" where
  "all_protocols =
     [Pumpfun, PumpSwap, RaydiumV4, RaydiumClmm, RaydiumCpmm, RaydiumLaunchpad, MeteoraDlmm, MeteoraDbC,
      MeteoraDammV2]"

definition protocol_from_program_id :: "(protocol \<Rightarrow> pubkey) \<Rightarrow> pubkey \<Rightarrow> protocol option" where
  "protocol_from_program_id P k = find (\<lambda>p. P p = k) all_protocols"

definition resolve_swap :: "key_env \<Rightarrow> (protocol \<Rightarrow> pubkey) \<Rightarrow> pubkey \<Rightarrow> bytes \<Rightarrow> swap_instruction" where
  "resolve_swap K P program data =
     (case protocol_from_program_id P program of
        Some p \<Rightarrow> swap_from_discriminator K p data
      | None \<Rightarrow> if length data < 8 then UnknownSwap (replicate 8 0) else UnknownSwap (take 8 data))"

section \<open>The readings agree\<close>

lemma disc_eq_iff:
  assumes "discriminators_ok K" "n \<in> set pump_names" "m \<in> set pump_names"
  shows "ke_instruction_disc K n = ke_instruction_disc K m \<longleftrightarrow> n = m"
  using assms by (auto simp: discriminators_ok_def distinct_map dest: inj_onD)

lemma try_from_slice_InrD:
  assumes "try_from_slice rows data = Inr ix"
  shows "8 \<le> length data \<and> (\<exists>r \<in> set rows. fst r = take 8 data \<and> snd r (drop 8 data) = Inr ix)"
proof (cases "find (\<lambda>(disc, _). take 8 data = disc) rows")
  case None
  then show ?thesis
    using assms by (simp add: try_from_slice_def split: if_splits)
next
  case (Some r)
  then have "r \<in> set rows" "fst r = take 8 data"
    by (auto simp: find_Some_iff) (metis nth_mem)
  then show ?thesis
    using assms Some by (auto simp: try_from_slice_def split: if_splits prod.splits intro!: bexI [of _ r])
qed

lemma row_InrD: "snd (row K n variant ty r) args = Inr ix \<Longrightarrow> \<exists>p. ix = variant p"
  by (auto simp: row_def map_sum_def split: sum.splits)

lemma pumpfun_decoded_discriminator:
  assumes "try_from_slice (pumpfun_instruction_rows B K) data = Inr ix"
  shows "8 \<le> length data" "take 8 data = pumpfun_instruction_discriminator K ix"
proof -
  obtain r where r: "r \<in> set (pumpfun_instruction_rows B K)" "fst r = take 8 data" "snd r (drop 8 data) = Inr ix"
    and n: "8 \<le> length data"
    using try_from_slice_InrD [OF assms] by auto
  show "8 \<le> length data" by (rule n)
  have "fst r = pumpfun_instruction_discriminator K ix"
    using r(1,3) unfolding pumpfun_instruction_rows_def
    by (simp only: list.set insert_iff empty_iff) (elim disjE, auto dest!: row_InrD)
  then show "take 8 data = pumpfun_instruction_discriminator K ix"
    using r(2) by simp
qed

lemma pumpswap_decoded_discriminator:
  assumes "try_from_slice (pumpswap_instruction_rows B K) data = Inr ix"
  shows "8 \<le> length data" "take 8 data = pumpswap_instruction_discriminator K ix"
proof -
  obtain r where r: "r \<in> set (pumpswap_instruction_rows B K)" "fst r = take 8 data" "snd r (drop 8 data) = Inr ix"
    and n: "8 \<le> length data"
    using try_from_slice_InrD [OF assms] by auto
  show "8 \<le> length data" by (rule n)
  have "fst r = pumpswap_instruction_discriminator K ix"
    using r(1,3) unfolding pumpswap_instruction_rows_def
    by (simp only: list.set insert_iff empty_iff) (elim disjE, auto dest!: row_InrD)
  then show "take 8 data = pumpswap_instruction_discriminator K ix"
    using r(2) by simp
qed

text \<open>The entry of the table that an instruction has, if it is a swap.\<close>

fun pf_swap :: "pumpfun_instruction \<Rightarrow> swap_instruction option" where
  "pf_swap (PfBuy _) = Some PumpfunBuy"
| "pf_swap (PfBuyV2 _) = Some PumpfunBuyV2"
| "pf_swap (PfBuyExactSolIn _) = Some PumpfunBuyExactSolIn"
| "pf_swap (PfBuyExactQuoteInV2 _) = Some PumpfunBuyExactQuoteInV2"
| "pf_swap (PfSell _) = Some PumpfunSell"
| "pf_swap (PfSellV2 _) = Some PumpfunSellV2"
| "pf_swap _ = None"

fun ps_swap :: "pumpswap_instruction \<Rightarrow> swap_instruction option" where
  "ps_swap (PsBuy _) = Some PumpSwapBuy"
| "ps_swap (PsBuyExactQuoteIn _) = Some PumpSwapBuyExactQuoteIn"
| "ps_swap (PsSell _) = Some PumpSwapSell"
| "ps_swap _ = None"

definition swap_or_unknown :: "bytes \<Rightarrow> swap_instruction option \<Rightarrow> swap_instruction" where
  "swap_or_unknown d s = (case s of Some x \<Rightarrow> x | None \<Rightarrow> UnknownSwap d)"

lemmas swap_table_defs =
  swap_from_discriminator_def all_swap_instructions_def swap_instructions_def swap_protocol_def
  swap_discriminator_def swap_or_unknown_def

lemma swap_from_discriminator_decoded:
  assumes "discriminators_ok K"
  shows "8 \<le> length data \<Longrightarrow> take 8 data = pumpfun_instruction_discriminator K ix \<Longrightarrow>
      swap_from_discriminator K Pumpfun data = swap_or_unknown (take 8 data) (pf_swap ix)"
    and "8 \<le> length data \<Longrightarrow> take 8 data = pumpswap_instruction_discriminator K jx \<Longrightarrow>
      swap_from_discriminator K PumpSwap data = swap_or_unknown (take 8 data) (ps_swap jx)"
  by (cases ix; simp add: swap_table_defs disc_eq_iff [OF assms] pump_names_def)
    (cases jx; simp add: swap_table_defs disc_eq_iff [OF assms] pump_names_def)

lemma protocol_from_program_id [simp]:
  assumes "inj P"
  shows "protocol_from_program_id P (P p) = Some p"
proof -
  have "P q = P p \<longleftrightarrow> q = p" for q
    using assms by (auto dest: injD)
  then show ?thesis
    by (cases p) (simp_all add: protocol_from_program_id_def all_protocols_def)
qed

lemma resolve_decoded:
  assumes "discriminators_ok K" "inj P"
  shows "try_from_slice (pumpfun_instruction_rows B K) data = Inr ix \<Longrightarrow>
      resolve_swap K P (P Pumpfun) data = swap_or_unknown (take 8 data) (pf_swap ix)"
    and "try_from_slice (pumpswap_instruction_rows B K) data = Inr jx \<Longrightarrow>
      resolve_swap K P (P PumpSwap) data = swap_or_unknown (take 8 data) (ps_swap jx)"
  using swap_from_discriminator_decoded [OF assms(1)] assms(2)
    pumpfun_decoded_discriminator [of B K data ix] pumpswap_decoded_discriminator [of B K data jx]
  by (simp_all add: resolve_swap_def)

text \<open>How the side that a table entry pins shows in a classification.\<close>

fun pins :: "amount_specified option \<Rightarrow> swap_classification option \<Rightarrow> bool" where
  "pins None None = True"
| "pins (Some AS_ExactIn) (Some c) =
     ((\<exists>n. sc_amount_in c = Exact n) \<and> (\<exists>n. sc_amount_out c = Minimum n))"
| "pins (Some AS_ExactOut) (Some c) =
     ((\<exists>n. sc_amount_in c = Maximum n) \<and> (\<exists>n. sc_amount_out c = Exact n))"
| "pins _ _ = False"

text \<open>C19: The three readings of an instruction agree. Whatever the parsers of the two programs decode, the
  table of swap instructions knows it exactly when the classification calls it a swap, and the side
  that the table says is pinned is the side that the classification says is exact, the other one
  bounded the right way. For Pump.fun the predicates agree too: \<open>is_swap\<close> holds of the swaps, \<open>is_buy\<close>
  of the buys and \<open>is_sell\<close> of the sells. For PumpSwap \<open>is_sell\<close> holds of the sells, but \<open>is_buy\<close> of the
  exact-out buys only: an exact-in buy is a buy to the classification and not to the predicate.\<close>

theorem swap_readings_agree:
  assumes "discriminators_ok K" and "inj P"
    and "try_from_slice (pumpfun_instruction_rows B K) data = Inr ix"
    and "try_from_slice (pumpswap_instruction_rows B K) data' = Inr jx"
  shows "pins (swap_amount_specified (resolve_swap K P (P Pumpfun) data)) (pf_as_swap ix) \<and>
    (pf_is_swap ix \<longleftrightarrow> pf_as_swap ix \<noteq> None) \<and>
    (pf_is_buy ix \<longleftrightarrow> map_option sc_direction (pf_as_swap ix) = Some Buy) \<and>
    (pf_is_sell ix \<longleftrightarrow> map_option sc_direction (pf_as_swap ix) = Some Sell) \<and>
    pins (swap_amount_specified (resolve_swap K P (P PumpSwap) data')) (ps_as_swap jx) \<and>
    (ps_is_sell jx \<longleftrightarrow> map_option sc_direction (ps_as_swap jx) = Some Sell) \<and>
    (ps_is_buy jx \<longleftrightarrow> map_option sc_direction (ps_as_swap jx) = Some Buy \<and>
       swap_amount_specified (resolve_swap K P (P PumpSwap) data') = Some AS_ExactOut)"
  using resolve_decoded [OF assms(1,2)] assms(3,4)
  by (cases ix; cases jx) (simp_all add: swap_or_unknown_def swap_amount_specified_def
      swap_instructions_def swap_classification_new_def pf_is_swap_def)

lemma pumpswap_is_buy_omits_exact_in:
  "map_option sc_direction (ps_as_swap jx) = Some Buy \<and> \<not> ps_is_buy jx \<longleftrightarrow> (\<exists>p. jx = PsBuyExactQuoteIn p)"
  by (cases jx) (simp_all add: swap_classification_new_def)

definition example_programs :: "protocol \<Rightarrow> pubkey" where
  "example_programs p = [case p of Pumpfun \<Rightarrow> 0 | PumpSwap \<Rightarrow> 1 | RaydiumV4 \<Rightarrow> 2 | RaydiumClmm \<Rightarrow> 3
     | RaydiumCpmm \<Rightarrow> 4 | RaydiumLaunchpad \<Rightarrow> 5 | MeteoraDlmm \<Rightarrow> 6 | MeteoraDbC \<Rightarrow> 7 | MeteoraDammV2 \<Rightarrow> 8]"

lemma example_programs_inj: "inj example_programs"
  by (rule injI) (auto simp: example_programs_def split: protocol.splits)

theorem swap_readings_agree_witness:
  "\<exists>data. swap_amount_specified (resolve_swap example_keys example_programs (example_programs Pumpfun) data) =
     Some AS_ExactIn"
proof -
  let ?ix = "PfSellV2 \<lparr> s2_amount = 5, s2_min_sol_output = 3 \<rparr>"
  let ?jx = "PsDeposit \<lparr> dp_lp_token_amount_out = 1, dp_max_base_amount_in = 2, dp_max_quote_amount_in = 3 \<rparr>"
  let ?data = "pumpfun_instruction_data example_keys ?ix"
  have read: "try_from_slice (pumpfun_instruction_rows borsh_std example_keys) ?data = Inr ?ix"
    "try_from_slice (pumpswap_instruction_rows borsh_std example_keys)
       (pumpswap_instruction_discriminator example_keys ?jx @ pumpswap_instruction_args ?jx) = Inr ?jx"
    by (rule pump_data_read [OF borsh_std_ok example_keys_discriminators], simp)+
  let ?s = "swap_amount_specified (resolve_swap example_keys example_programs (example_programs Pumpfun) ?data)"
  have "pins ?s (pf_as_swap ?ix)"
    using swap_readings_agree [OF example_keys_discriminators example_programs_inj read] by blast
  then have "?s = Some AS_ExactIn"
    by (cases ?s rule: option.exhaust; cases "the ?s") (simp_all add: swap_classification_new_def)
  then show ?thesis by blast
qed

end
