(* ===== verification/Discovery.thy ===== *)
theory Discovery
  imports Classify
begin

text \<open>
  Pool discovery: the edge that a swap's accounts name (pairs.rs and the \<open>SwapAccounts\<close> of the
  accounts structs, chain/discovery.rs), the graph that remembers edges (chain/graph.rs), and the
  detection of a protocol from account data (discovery.rs).
\<close>

section \<open>Edges\<close>

text \<open>The order of \<open>Pubkey::to_bytes\<close>: lexicographic.\<close>

fun bytes_le :: "bytes \<Rightarrow> bytes \<Rightarrow> bool" where
  "bytes_le [] ys = True"
| "bytes_le (x # xs) [] = False"
| "bytes_le (x # xs) (y # ys) \<longleftrightarrow> x < y \<or> x = y \<and> bytes_le xs ys"

record pool_edge =
  pe_pool :: pubkey
  pe_protocol :: protocol
  pe_token_a :: pubkey
  pe_token_b :: pubkey

definition pool_edge_new :: "pubkey \<Rightarrow> protocol \<Rightarrow> pubkey \<Rightarrow> pubkey \<Rightarrow> pool_edge" where
  "pool_edge_new pool p one other =
     (let (a, b) = if bytes_le one other then (one, other) else (other, one)
      in \<lparr> pe_pool = pool, pe_protocol = p, pe_token_a = a, pe_token_b = b \<rparr>)"

definition same_pair :: "pool_edge \<Rightarrow> pool_edge \<Rightarrow> bool" where
  "same_pair e e' \<longleftrightarrow> pe_token_a e = pe_token_a e' \<and> pe_token_b e = pe_token_b e'"

lemma bytes_le_total: "bytes_le xs ys \<or> bytes_le ys xs"
  by (induction xs ys rule: bytes_le.induct) auto

lemma bytes_le_antisym: "bytes_le xs ys \<Longrightarrow> bytes_le ys xs \<Longrightarrow> xs = ys"
proof (induction xs ys rule: bytes_le.induct)
  case (1 ys)
  then show ?case by (cases ys) auto
qed auto

lemma pool_edge_new_swapped: "pool_edge_new pool p one other = pool_edge_new pool p other one"
  using bytes_le_total [of one other] bytes_le_antisym [of one other] by (auto simp: pool_edge_new_def)

lemma pool_edge_new_fields [simp]:
  "pe_pool (pool_edge_new pool p one other) = pool"
  "pe_protocol (pool_edge_new pool p one other) = p"
  by (simp_all add: pool_edge_new_def)

lemma pool_edge_new_tokens:
  "{pe_token_a (pool_edge_new pool p one other), pe_token_b (pool_edge_new pool p one other)} = {one, other}"
  by (auto simp: pool_edge_new_def)

lemma pool_edge_new_first:
  "one = pe_token_a (pool_edge_new pool p one other) \<or> one = pe_token_b (pool_edge_new pool p one other)"
  by (auto simp: pool_edge_new_def)

lemma pool_edge_new_ordered:
  "bytes_le (pe_token_a (pool_edge_new pool p one other)) (pe_token_b (pool_edge_new pool p one other))"
  using bytes_le_total [of one other] by (auto simp: pool_edge_new_def)

section \<open>The accounts structs of swaps\<close>

text \<open>A struct that names pool and pair: its layout, the field of the pool, and the two sides; a first
  version curve has no field for the quote side, which is wrapped SOL.\<close>

record swap_accounts =
  sa_layout :: layout
  sa_pool :: string
  sa_base :: string
  sa_quote :: "string option"

definition field :: "swap_accounts \<Rightarrow> accounts \<Rightarrow> string \<Rightarrow> pubkey" where
  "field S a n = bound (acc (sa_layout S) a) n"

definition pool_of :: "swap_accounts \<Rightarrow> accounts \<Rightarrow> pubkey" where
  "pool_of S a = field S a (sa_pool S)"

definition pair_of :: "key_env \<Rightarrow> swap_accounts \<Rightarrow> accounts \<Rightarrow> pubkey \<times> pubkey" where
  "pair_of K S a =
     (field S a (sa_base S),
      case sa_quote S of Some q \<Rightarrow> field S a q | None \<Rightarrow> te_wsol (ke_tokens K))"

definition curve_accounts :: "layout \<Rightarrow> swap_accounts" where
  "curve_accounts L = \<lparr> sa_layout = L, sa_pool = ''bonding_curve'', sa_base = ''mint'', sa_quote = None \<rparr>"

definition curve_v2_accounts :: "layout \<Rightarrow> swap_accounts" where
  "curve_v2_accounts L =
     \<lparr> sa_layout = L, sa_pool = ''bonding_curve'', sa_base = ''base_mint'', sa_quote = Some ''quote_mint'' \<rparr>"

definition pool_accounts :: "layout \<Rightarrow> swap_accounts" where
  "pool_accounts L = \<lparr> sa_layout = L, sa_pool = ''pool'', sa_base = ''base_mint'', sa_quote = Some ''quote_mint'' \<rparr>"

text \<open>\<open>SwapAccounts::read\<close>.\<close>

definition read_swap_accounts :: "key_env \<Rightarrow> swap_accounts \<Rightarrow> pubkey list \<Rightarrow> (pubkey \<times> pubkey \<times> pubkey) option" where
  "read_swap_accounts K S ks =
     (case from_pubkeys (sa_layout S) ks of
        Inl _ \<Rightarrow> None
      | Inr a \<Rightarrow> Some (pool_of S a, pair_of K S a))"

section \<open>Discovery\<close>

datatype discovery = Edge pool_edge | Unreadable swap_instruction | NotASwap

definition read_edge :: "key_env \<Rightarrow> swap_accounts \<Rightarrow> swap_instruction \<Rightarrow> pubkey list \<Rightarrow> protocol \<Rightarrow> discovery" where
  "read_edge K S s ks p =
     (case read_swap_accounts K S ks of
        Some (pool, a, b) \<Rightarrow> Edge (pool_edge_new pool p a b)
      | None \<Rightarrow> Unreadable s)"

definition discover :: "key_env \<Rightarrow> (protocol \<Rightarrow> pubkey) \<Rightarrow> parsed_instruction \<Rightarrow> discovery" where
  "discover K P ix =
     (let s = resolve_swap K P (pi_program_id ix) (pi_data ix); ks = pi_accounts ix
      in (case s of
            PumpfunBuy \<Rightarrow> read_edge K (curve_accounts (pumpfun_buy_layout K)) s ks Pumpfun
          | PumpfunSell \<Rightarrow> read_edge K (curve_accounts (pumpfun_sell_layout K)) s ks Pumpfun
          | PumpfunBuyV2 \<Rightarrow> read_edge K (curve_v2_accounts (pumpfun_buy_v2_layout K)) s ks Pumpfun
          | PumpfunSellV2 \<Rightarrow> read_edge K (curve_v2_accounts (pumpfun_sell_v2_layout K)) s ks Pumpfun
          | PumpSwapBuy \<Rightarrow> read_edge K (pool_accounts (pumpswap_buy_layout K)) s ks PumpSwap
          | PumpSwapSell \<Rightarrow> read_edge K (pool_accounts (pumpswap_sell_layout K)) s ks PumpSwap
          | PumpfunBuyExactSolIn \<Rightarrow>
              read_edge K (curve_accounts (pumpfun_buy_exact_sol_in_layout K)) s ks Pumpfun
          | PumpfunBuyExactQuoteInV2 \<Rightarrow>
              read_edge K (curve_v2_accounts (pumpfun_buy_exact_quote_in_v2_layout K)) s ks Pumpfun
          | PumpSwapBuyExactQuoteIn \<Rightarrow>
              read_edge K (pool_accounts (pumpswap_buy_exact_quote_in_layout K)) s ks PumpSwap
          | UnknownSwap _ \<Rightarrow> NotASwap))"

section \<open>The graph\<close>

text \<open>A hash map, kept as the list of its entries: no operation depends on their order but for the
  order in which the entries are walked.\<close>

datatype observed = New | Agreed | Disagreed pool_edge pool_edge

record pool_graph =
  pg_by_pool :: "(pubkey \<times> pool_edge) list"
  pg_disagreements :: u64

definition pool_graph_new :: pool_graph where
  "pool_graph_new = \<lparr> pg_by_pool = [], pg_disagreements = 0 \<rparr>"

definition graph_observe :: "pool_edge \<Rightarrow> pool_graph \<Rightarrow> observed \<times> pool_graph" where
  "graph_observe e g =
     (case map_of (pg_by_pool g) (pe_pool e) of
        None \<Rightarrow> (New, g \<lparr> pg_by_pool := (pe_pool e, e) # pg_by_pool g \<rparr>)
      | Some known \<Rightarrow>
          if same_pair known e then (Agreed, g)
          else (Disagreed known e, g \<lparr> pg_disagreements := pg_disagreements g + 1 \<rparr>))"

definition graph_get :: "pool_graph \<Rightarrow> pubkey \<Rightarrow> pool_edge option" where
  "graph_get g pool = map_of (pg_by_pool g) pool"

definition graph_touching :: "pool_graph \<Rightarrow> pubkey \<Rightarrow> pool_edge list" where
  "graph_touching g token =
     filter (\<lambda>e. pe_token_a e = token \<or> pe_token_b e = token) (map snd (pg_by_pool g))"

definition graph_len :: "pool_graph \<Rightarrow> nat" where
  "graph_len g = length (pg_by_pool g)"

definition graph_is_empty :: "pool_graph \<Rightarrow> bool" where
  "graph_is_empty g \<longleftrightarrow> pg_by_pool g = []"

definition graph_disagreements :: "pool_graph \<Rightarrow> u64" where
  "graph_disagreements g = pg_disagreements g"

fun count_protocols :: "pool_edge list \<Rightarrow> (protocol \<rightharpoonup> nat) \<Rightarrow> protocol \<rightharpoonup> nat" where
  "count_protocols [] out = out"
| "count_protocols (e # es) out =
     count_protocols es
       (out (pe_protocol e \<mapsto> (case out (pe_protocol e) of Some n \<Rightarrow> n | None \<Rightarrow> 0) + 1))"

definition graph_by_protocol :: "pool_graph \<Rightarrow> protocol \<rightharpoonup> nat" where
  "graph_by_protocol g = count_protocols (map snd (pg_by_pool g)) Map.empty"

section \<open>Detection\<close>

definition bonding_curve_account_size :: nat where
  "bonding_curve_account_size = 8 + 8 + 8 + 8 + 8 + 8 + 1 + 32"

definition pool_account_size :: nat where
  "pool_account_size = 301"

definition pool_state_size :: nat where
  "pool_state_size = 752"

definition detect_protocol_from_data :: "pump_ids \<Rightarrow> bytes \<Rightarrow> protocol option" where
  "detect_protocol_from_data I data =
     (if length data < 8 then None
      else if take 8 data = disc_bonding_curve I then Some Pumpfun
      else None)"

fun protocol_discriminator :: "pump_ids \<Rightarrow> protocol \<Rightarrow> bytes" where
  "protocol_discriminator I Pumpfun = disc_bonding_curve I"
| "protocol_discriminator I PumpSwap = disc_pool I"
| "protocol_discriminator I _ = replicate 8 0"

fun protocol_account_size :: "protocol \<Rightarrow> nat" where
  "protocol_account_size Pumpfun = bonding_curve_account_size"
| "protocol_account_size PumpSwap = pool_account_size"
| "protocol_account_size RaydiumV4 = pool_state_size"
| "protocol_account_size _ = 0"

definition is_protocol_account :: "pump_ids \<Rightarrow> protocol \<Rightarrow> bytes \<Rightarrow> bool" where
  "is_protocol_account I p data \<longleftrightarrow>
     protocol_account_size p \<le> length data \<and> 8 \<le> length data \<and> take 8 data = protocol_discriminator I p"

section \<open>What is discovered\<close>

lemma acc_required:
  assumes "from_pubkeys L ks = Inr a" "n \<in> sl_name ` set (la_named L)" "\<forall>s \<in> set (la_named L). \<not> sl_optional s"
  shows "acc L a n = Some (bound (acc L a) n)"
proof -
  have fits: "list_all2 (slot_fits (la_program_id L)) (la_named L) (ac_named a)"
    using from_pubkeys_InrD(1) [OF assms(1)] by (simp add: fits_def)
  then have len: "length (map sl_name (la_named L)) = length (ac_named a)"
    by (simp add: list_all2_lengthD)
  then obtain v where v: "map_of (zip (map sl_name (la_named L)) (ac_named a)) n = Some v"
    using assms(2) map_of_zip_is_Some [OF len] by auto
  have "v \<in> set (ac_named a)"
    using map_of_SomeD [OF v] by (auto dest: set_zip_rightD)
  then obtain i where "i < length (ac_named a)" "v = ac_named a ! i"
    by (auto simp: in_set_conv_nth)
  then have "slot_fits (la_program_id L) (la_named L ! i) v" "la_named L ! i \<in> set (la_named L)"
    using fits len by (auto simp: list_all2_conv_all_nth)
  then have "v \<noteq> None"
    using assms(3) by (auto simp: slot_fits_def)
  then show ?thesis
    using v by (auto simp: acc_def bindings_of_def bound_def)
qed

lemma exact_in_layouts:
  "pumpfun_buy_exact_sol_in_layout K = pumpfun_buy_layout K"
  "pumpfun_buy_exact_quote_in_v2_layout K = pumpfun_buy_v2_layout K"
  "pumpswap_buy_exact_quote_in_layout K = pumpswap_buy_layout K"
  by (simp_all add: pumpfun_buy_exact_sol_in_layout_def pumpfun_buy_layout_def pumpfun_buy_v2_layout_def
      pumpfun_buy_exact_quote_in_v2_layout_def pumpswap_buy_exact_quote_in_layout_def pumpswap_buy_layout_def)

text \<open>The accounts struct that discovery reads an instruction with is the one of its enum.\<close>

fun pf_accounts :: "key_env \<Rightarrow> pumpfun_instruction \<Rightarrow> swap_accounts" where
  "pf_accounts K (PfBuyV2 p) = curve_v2_accounts (pumpfun_buy_v2_layout K)"
| "pf_accounts K (PfBuyExactQuoteInV2 p) = curve_v2_accounts (pumpfun_buy_v2_layout K)"
| "pf_accounts K (PfSellV2 p) = curve_v2_accounts (pumpfun_sell_v2_layout K)"
| "pf_accounts K ix = curve_accounts (pumpfun_layout K ix)"

lemma discover_pumpfun:
  assumes "discriminators_ok K" "inj P" "pi_program_id x = P Pumpfun"
    and "try_from_slice (pumpfun_instruction_rows B K) (pi_data x) = Inr ix"
  shows "discover K P x =
    (case pf_swap ix of
       None \<Rightarrow> NotASwap
     | Some s \<Rightarrow> read_edge K (pf_accounts K ix) s (pi_accounts x) Pumpfun)"
  using resolve_decoded(1) [OF assms(1,2,4)] assms(3)
  by (cases ix) (simp_all add: discover_def swap_or_unknown_def exact_in_layouts Let_def)

lemma discover_pumpswap:
  assumes "discriminators_ok K" "inj P" "pi_program_id x = P PumpSwap"
    and "try_from_slice (pumpswap_instruction_rows B K) (pi_data x) = Inr jx"
  shows "discover K P x =
    (case ps_swap jx of
       None \<Rightarrow> NotASwap
     | Some s \<Rightarrow> read_edge K (pool_accounts (pumpswap_layout K jx)) s (pi_accounts x) PumpSwap)"
  using resolve_decoded(2) [OF assms(1,2,4)] assms(3)
  by (cases jx) (simp_all add: discover_def swap_or_unknown_def exact_in_layouts Let_def)

lemma read_edge_cases:
  "read_edge K S s ks p =
     (case from_pubkeys (sa_layout S) ks of
        Inl _ \<Rightarrow> Unreadable s
      | Inr a \<Rightarrow> Edge (pool_edge_new (pool_of S a) p (fst (pair_of K S a)) (snd (pair_of K S a))))"
  by (simp add: read_edge_def read_swap_accounts_def split_beta split: sum.splits)

lemma pf_accounts_layout: "pf_swap ix \<noteq> None \<Longrightarrow> sa_layout (pf_accounts K ix) = pumpfun_layout K ix"
  by (cases ix) (simp_all add: curve_accounts_def curve_v2_accounts_def)

lemma pf_accounts_named:
  assumes "pf_swap ix \<noteq> None" "pumpfun_from_accounts K ix ks = Inr a"
  shows "pumpfun_bonding_curve K ix a = Some (pool_of (pf_accounts K ix) a)"
    and "pumpfun_mint K ix a = Some (fst (pair_of K (pf_accounts K ix) a))"
proof -
  have read: "from_pubkeys (pumpfun_layout K ix) ks = Inr a"
    using assms(2) by (simp add: pumpfun_from_accounts_def)
  note required = acc_required [OF read]
  show "pumpfun_bonding_curve K ix a = Some (pool_of (pf_accounts K ix) a)"
    using assms(1) required [of "''bonding_curve''"]
    by (cases ix) (simp_all add: pool_of_def field_def curve_accounts_def curve_v2_accounts_def
        pumpfun_buy_layout_def pumpfun_sell_layout_def pumpfun_buy_v2_layout_def pumpfun_sell_v2_layout_def
        plain_layout_def slot_defs)
  show "pumpfun_mint K ix a = Some (fst (pair_of K (pf_accounts K ix) a))"
    using assms(1) required [of "''mint''"] required [of "''base_mint''"]
    by (cases ix) (simp_all add: pair_of_def field_def curve_accounts_def curve_v2_accounts_def
        pumpfun_buy_layout_def pumpfun_sell_layout_def pumpfun_buy_v2_layout_def pumpfun_sell_v2_layout_def
        plain_layout_def slot_defs)
qed

text \<open>Nothing but the program, the first eight bytes and the accounts is looked at.\<close>

lemma discover_ignores_arguments:
  assumes "8 \<le> length (pi_data x)" "8 \<le> length (pi_data y)" "take 8 (pi_data x) = take 8 (pi_data y)"
    and "pi_program_id x = pi_program_id y" "pi_accounts x = pi_accounts y"
  shows "discover K P x = discover K P y"
proof -
  have "resolve_swap K P p (pi_data x) = resolve_swap K P p (pi_data y)" for p
    using assms(1-3) by (simp add: resolve_swap_def swap_from_discriminator_def split: option.splits)
  then show ?thesis
    using assms(4,5) by (simp add: discover_def)
qed

text \<open>C10: For a Pump.fun instruction whose arguments the parser decodes, discovery names the pool that the
  full parser names: one that is no swap gives no edge; one whose accounts the parser refuses is
  counted as unreadable, never skipped; and otherwise the edge has the pool of the classified event,
  its coin as one of the two tokens in canonical order, and the program's protocol. Discovery looks
  at the first eight bytes of the data and at the accounts only, so it gives the same answer for an
  instruction with the same discriminator and accounts whose arguments the parser refuses.\<close>

theorem discovery_agrees_with_parser:
  assumes "discriminators_ok K" and "inj P" and "pi_program_id x = P Pumpfun"
    and "try_from_slice (pumpfun_instruction_rows B K) (pi_data x) = Inr ix"
  shows "(pf_as_swap ix = None \<longleftrightarrow> discover K P x = NotASwap) \<and>
    ((\<exists>s. discover K P x = Unreadable s) \<longleftrightarrow>
       pf_as_swap ix \<noteq> None \<and> (\<exists>e. pumpfun_from_accounts K ix (pi_accounts x) = Inl e)) \<and>
    (\<forall>e. discover K P x = Edge e \<longrightarrow>
       (\<exists>a c. pumpfun_from_accounts K ix (pi_accounts x) = Inr a \<and> pf_event_as_swap K ix a = Some c \<and>
          sc_pool c = Some (pe_pool e) \<and> pe_protocol e = Pumpfun \<and>
          (\<exists>m. sc_mint c = Some m \<and> m \<in> {pe_token_a e, pe_token_b e}) \<and>
          bytes_le (pe_token_a e) (pe_token_b e))) \<and>
    (\<forall>args. discover K P (x\<lparr>pi_data := take 8 (pi_data x) @ args\<rparr>) = discover K P x)"
proof -
  have len: "8 \<le> length (pi_data x)"
    using assms(4) by (rule pumpfun_decoded_discriminator)
  have args: "discover K P (x\<lparr>pi_data := take 8 (pi_data x) @ args\<rparr>) = discover K P x" for args
    by (rule discover_ignores_arguments) (use len in simp_all)
  show ?thesis
  proof (cases "pf_swap ix")
    case None
    then have "pf_as_swap ix = None"
      by (cases ix) simp_all
    then show ?thesis
      using None discover_pumpfun [OF assms] args by simp
  next
    case (Some s)
    then obtain c where c: "pf_as_swap ix = Some c"
      by (cases ix) simp_all
    have swap: "pf_swap ix \<noteq> None"
      using Some by simp
    note layout = pf_accounts_layout [OF swap, of K] and named = pf_accounts_named [OF swap]
    show ?thesis
      unfolding args using Some c discover_pumpfun [OF assms] layout named
      by (auto simp: read_edge_cases pumpfun_from_accounts_def pf_event_as_swap_def
          pool_edge_new_ordered split: sum.splits intro: pool_edge_new_first [THEN disjE])
  qed
qed

section \<open>What the graph remembers\<close>

definition observe_all :: "pool_edge list \<Rightarrow> pool_graph" where
  "observe_all es = fold (\<lambda>e g. snd (graph_observe e g)) es pool_graph_new"

lemma observe_all_snoc: "observe_all (es @ [e]) = snd (graph_observe e (observe_all es))"
  by (simp add: observe_all_def)

definition first_edge :: "pool_edge list \<Rightarrow> pubkey \<Rightarrow> pool_edge option" where
  "first_edge es k = find (\<lambda>e. pe_pool e = k) es"

lemma first_edge_snoc:
  "first_edge (es @ [e]) k =
     (case first_edge es k of Some f \<Rightarrow> Some f | None \<Rightarrow> if pe_pool e = k then Some e else None)"
  by (induction es) (simp_all add: first_edge_def)

lemma first_edge_None_iff: "first_edge es k = None \<longleftrightarrow> k \<notin> pe_pool ` set es"
  by (auto simp: first_edge_def find_None_iff)

lemma first_edge_SomeD: "first_edge es k = Some f \<Longrightarrow> f \<in> set es \<and> pe_pool f = k"
  by (induction es) (auto simp: first_edge_def split: if_splits)

text \<open>The observations that contradict the first one of their pool.\<close>

definition contradictions :: "pool_edge list \<Rightarrow> pool_edge list" where
  "contradictions es =
     filter (\<lambda>e. case first_edge es (pe_pool e) of Some f \<Rightarrow> \<not> same_pair f e | None \<Rightarrow> False) es"

lemma same_pair_refl [simp]: "same_pair e e"
  by (simp add: same_pair_def)

lemma contradictions_snoc:
  "contradictions (es @ [e]) =
     contradictions es @
     (case first_edge es (pe_pool e) of Some f \<Rightarrow> if same_pair f e then [] else [e] | None \<Rightarrow> [])"
proof -
  have "filter (\<lambda>e'. case first_edge (es @ [e]) (pe_pool e') of Some f \<Rightarrow> \<not> same_pair f e' | None \<Rightarrow> False) es =
      contradictions es"
    unfolding contradictions_def
  proof (rule filter_cong [OF refl])
    fix e' assume "e' \<in> set es"
    then have "first_edge es (pe_pool e') \<noteq> None"
      by (simp add: first_edge_None_iff)
    then show "(case first_edge (es @ [e]) (pe_pool e') of Some f \<Rightarrow> \<not> same_pair f e' | None \<Rightarrow> False) =
        (case first_edge es (pe_pool e') of Some f \<Rightarrow> \<not> same_pair f e' | None \<Rightarrow> False)"
      by (auto simp: first_edge_snoc)
  qed
  moreover have "(case first_edge (es @ [e]) (pe_pool e) of Some f \<Rightarrow> \<not> same_pair f e | None \<Rightarrow> False) =
      (case first_edge es (pe_pool e) of Some f \<Rightarrow> \<not> same_pair f e | None \<Rightarrow> False)"
    by (auto simp: first_edge_snoc split: option.splits)
  ultimately show ?thesis
    by (auto simp: contradictions_def split: option.splits)
qed

lemma contradictions_empty_iff:
  "contradictions es = [] \<longleftrightarrow> (\<forall>e \<in> set es. \<forall>e' \<in> set es. pe_pool e = pe_pool e' \<longrightarrow> same_pair e e')"
proof
  assume none: "contradictions es = []"
  have "same_pair f e" if "e \<in> set es" "first_edge es (pe_pool e) = Some f" for e f
    using none that by (auto simp: contradictions_def filter_empty_conv split: option.splits)
  then show "\<forall>e \<in> set es. \<forall>e' \<in> set es. pe_pool e = pe_pool e' \<longrightarrow> same_pair e e'"
    by (metis first_edge_None_iff image_eqI not_Some_eq same_pair_def)
next
  assume "\<forall>e \<in> set es. \<forall>e' \<in> set es. pe_pool e = pe_pool e' \<longrightarrow> same_pair e e'"
  then show "contradictions es = []"
    by (auto simp: contradictions_def filter_empty_conv split: option.splits dest: first_edge_SomeD)
qed

lemma graph_after:
  "graph_get (observe_all es) = first_edge es \<and>
   distinct (map fst (pg_by_pool (observe_all es))) \<and>
   fst ` set (pg_by_pool (observe_all es)) = pe_pool ` set es \<and>
   pg_disagreements (observe_all es) = of_nat (length (contradictions es))"
proof (induction es rule: rev_induct)
  case Nil
  show ?case
    by (simp add: observe_all_def pool_graph_new_def graph_get_def first_edge_def contradictions_def fun_eq_iff)
next
  case (snoc e es)
  let ?g = "observe_all es"
  have get: "map_of (pg_by_pool ?g) k = first_edge es k" for k
    using snoc by (auto simp: graph_get_def fun_eq_iff)
  have keys: "fst ` set (pg_by_pool ?g) = pe_pool ` set es"
    and distinct: "distinct (map fst (pg_by_pool ?g))"
    and count: "pg_disagreements ?g = of_nat (length (contradictions es))"
    using snoc by auto
  show ?case
  proof (cases "first_edge es (pe_pool e)")
    case None
    then show ?thesis
      using keys distinct count first_edge_None_iff [of es "pe_pool e"]
      by (auto simp: observe_all_snoc graph_observe_def get graph_get_def fun_eq_iff first_edge_snoc
          contradictions_snoc split: option.splits)
  next
    case (Some f)
    then have "pe_pool e \<in> pe_pool ` set es"
      using first_edge_None_iff [of es "pe_pool e"] by auto
    then show ?thesis
      using Some keys distinct count
      by (auto simp: observe_all_snoc graph_observe_def get graph_get_def fun_eq_iff first_edge_snoc
          contradictions_snoc split: option.splits)
  qed
qed

lemma contradictions_length: "length (contradictions es) \<le> length es"
  by (simp add: contradictions_def)

text \<open>C16: The graph keeps the first edge that was seen of every pool, and only its count of disagreements
  depends on the others. After any sequence of observations each pool has the edge that named it
  first and the graph has as many pools as were named; and the count is zero exactly if no two
  observations gave different pairs to one pool, whatever their order.\<close>

theorem graph_keeps_first_edge:
  assumes "length es < 2 ^ 64"
  shows "(\<forall>k. graph_get (observe_all es) k = first_edge es k) \<and>
    graph_len (observe_all es) = card (pe_pool ` set es) \<and>
    graph_disagreements (observe_all es) = of_nat (length (contradictions es)) \<and>
    (graph_disagreements (observe_all es) = 0 \<longleftrightarrow>
       (\<forall>e \<in> set es. \<forall>e' \<in> set es. pe_pool e = pe_pool e' \<longrightarrow> same_pair e e'))"
proof -
  let ?n = "length (contradictions es)"
  have "graph_len (observe_all es) = card (fst ` set (pg_by_pool (observe_all es)))"
    using graph_after [of es] by (metis graph_len_def distinct_card length_map set_map)
  moreover have "(of_nat ?n :: u64) = 0 \<longleftrightarrow> ?n = 0"
    using assms contradictions_length [of es] by (auto simp: word_of_nat_eq_0_iff dest: dvd_imp_le)
  ultimately show ?thesis
    using graph_after [of es] contradictions_empty_iff [of es] by (simp add: graph_disagreements_def)
qed

text \<open>A buy and a sell of one pool name one edge; a decoder that reads another account disagrees.\<close>

theorem graph_keeps_first_edge_witness:
  "graph_disagreements (observe_all
     [pool_edge_new [1] Pumpfun [2] [3], pool_edge_new [1] Pumpfun [3] [2], pool_edge_new [1] Pumpfun [2] [4]]) = 1"
proof -
  let ?es = "[pool_edge_new [1] Pumpfun [2] [3], pool_edge_new [1] Pumpfun [3] [2], pool_edge_new [1] Pumpfun [2] [4]]"
  have "length (contradictions ?es) = 1"
    by (simp add: contradictions_def first_edge_def pool_edge_new_def same_pair_def)
  then show ?thesis
    using graph_keeps_first_edge [of ?es] by simp
qed

definition example_sell :: parsed_instruction where
  "example_sell =
     \<lparr> pi_program_id = example_programs Pumpfun, pi_accounts = [],
       pi_data = pumpfun_instruction_data example_keys (PfSellV2 \<lparr> s2_amount = 5, s2_min_sol_output = 3 \<rparr>),
       pi_logs = [], pi_stack_height = 1, pi_parent_index = None, pi_instruction_index = 0 \<rparr>"

theorem discovery_agrees_with_parser_witness:
  "\<exists>s. discover example_keys example_programs example_sell = Unreadable s"
proof -
  let ?ix = "PfSellV2 \<lparr> s2_amount = 5, s2_min_sol_output = 3 \<rparr>"
  have "try_from_slice (pumpfun_instruction_rows borsh_std example_keys) (pi_data example_sell) = Inr ?ix"
    using pump_data_read(1) [OF borsh_std_ok example_keys_discriminators, of ?ix]
    by (simp add: example_sell_def)
  moreover have "\<exists>e. pumpfun_from_accounts example_keys ?ix (pi_accounts example_sell) = Inl e"
    by (simp add: pumpfun_from_accounts_def example_sell_def from_pubkeys_def take_named_eq
        pumpfun_sell_v2_layout_def plain_layout_def)
  moreover have "pi_program_id example_sell = example_programs Pumpfun"
    by (simp add: example_sell_def)
  ultimately show ?thesis
    using discovery_agrees_with_parser [OF example_keys_discriminators example_programs_inj, of example_sell]
    by simp
qed

text \<open>The detection by data cannot recognise Raydium V4: the zeros that stand for its missing
  discriminator are compared with the field that comes first in the account, the status.\<close>

lemma v4_account_needs_zero_status:
  "is_protocol_account I RaydiumV4 data \<Longrightarrow> take 8 data = replicate 8 0"
  by (simp add: is_protocol_account_def)

end
