(* ===== verification/PumpBuild.thy ===== *)
theory PumpBuild
  imports Discovery
begin

text \<open>
  The instructions that the crate sends to Pump.fun and PumpSwap: the keys of a coin or a pool
  (pumpfun/accounts.rs, pumpswap/accounts.rs), the parameters from a quote with slippage, and the
  builders (pumpfun/instructions/buy.rs, sell.rs with the derivations that protocols-macros
  build_accounts.rs generates, pumpswap/instructions/buy.rs, sell.rs). The theorems read what was
  built with the crate's own parser.
\<close>

section \<open>Keys\<close>

record pumpfun_keys =
  fk_mint :: pubkey
  fk_creator :: pubkey
  fk_bonding_curve :: pubkey
  fk_associated_bonding_curve :: pubkey
  fk_creator_vault :: pubkey

definition pumpfun_keys_new :: "key_env \<Rightarrow> pubkey \<Rightarrow> pubkey \<Rightarrow> pumpfun_keys" where
  "pumpfun_keys_new K mint creator =
     (let bonding_curve = derive_bonding_curve_pda K mint
      in \<lparr> fk_mint = mint, fk_creator = creator, fk_bonding_curve = bonding_curve,
           fk_associated_bonding_curve = classic_ata K bonding_curve mint,
           fk_creator_vault = derive_creator_vault_pda K creator \<rparr>)"

definition fk_user_ata :: "key_env \<Rightarrow> pumpfun_keys \<Rightarrow> pubkey \<Rightarrow> pubkey" where
  "fk_user_ata K k user = classic_ata K user (fk_mint k)"

definition fk_user_volume_accumulator :: "key_env \<Rightarrow> pubkey \<Rightarrow> pubkey" where
  "fk_user_volume_accumulator K user = derive_user_volume_accumulator_pda K user"

record pumpswap_keys =
  sk_pool :: pubkey
  sk_base_mint :: pubkey
  sk_quote_mint :: pubkey
  sk_pool_base_token_account :: pubkey
  sk_pool_quote_token_account :: pubkey
  sk_coin_creator :: pubkey
  sk_creator_vault_authority :: pubkey
  sk_creator_vault_ata :: pubkey

definition pumpswap_keys_new ::
    "key_env \<Rightarrow> pubkey \<Rightarrow> pubkey \<Rightarrow> pubkey \<Rightarrow> pubkey \<Rightarrow> pubkey \<Rightarrow> pubkey \<Rightarrow> pumpswap_keys" where
  "pumpswap_keys_new K pool base quote base_vault quote_vault coin_creator =
     (let authority = derive_creator_vault_authority K coin_creator
      in \<lparr> sk_pool = pool, sk_base_mint = base, sk_quote_mint = quote,
           sk_pool_base_token_account = base_vault, sk_pool_quote_token_account = quote_vault,
           sk_coin_creator = coin_creator, sk_creator_vault_authority = authority,
           sk_creator_vault_ata = classic_ata K authority quote \<rparr>)"

definition pumpswap_keys_from_pool_state :: "key_env \<Rightarrow> pubkey \<Rightarrow> pumpswap_pool \<Rightarrow> pumpswap_keys" where
  "pumpswap_keys_from_pool_state K address pool =
     pumpswap_keys_new K address (pp_base_mint pool) (pp_quote_mint pool) (pp_pool_base_token_account pool)
       (pp_pool_quote_token_account pool) (pp_coin_creator pool)"

definition sk_user_base_ata :: "key_env \<Rightarrow> pumpswap_keys \<Rightarrow> pubkey \<Rightarrow> pubkey" where
  "sk_user_base_ata K k user = classic_ata K user (sk_base_mint k)"

definition sk_user_quote_ata :: "key_env \<Rightarrow> pumpswap_keys \<Rightarrow> pubkey \<Rightarrow> pubkey" where
  "sk_user_quote_ata K k user = classic_ata K user (sk_quote_mint k)"

definition sk_user_volume_accumulator :: "key_env \<Rightarrow> pubkey \<Rightarrow> pubkey" where
  "sk_user_volume_accumulator K user = derive_user_volume_accumulator K user"

section \<open>Parameters\<close>

text \<open>The two bounds around a quote, in \<open>u128\<close> with a truncating cast at the end.\<close>

definition slippage_floor :: "bool \<Rightarrow> u64 \<Rightarrow> u16 \<Rightarrow> u64 option" where
  "slippage_floor oc n bps =
     do { d \<leftarrow> u_sub oc 128 10000 (unat bps); m \<leftarrow> u_mul oc 128 (unat n) d; Some (as_u64 (m div 10000)) }"

definition slippage_ceiling :: "bool \<Rightarrow> u64 \<Rightarrow> u16 \<Rightarrow> u64 option" where
  "slippage_ceiling oc n bps =
     do { d \<leftarrow> u_add oc 128 10000 (unat bps); m \<leftarrow> u_mul oc 128 (unat n) d; Some (as_u64 (m div 10000)) }"

definition buy_params_new :: "u64 \<Rightarrow> u64 \<Rightarrow> buy_params" where
  "buy_params_new n max_sol_cost =
     \<lparr> bp_amount = n, bp_max_sol_cost = max_sol_cost, bp_track_volume = OB_None \<rparr>"

definition buy_params_with_track_volume :: "option_bool \<Rightarrow> buy_params \<Rightarrow> buy_params" where
  "buy_params_with_track_volume v p = p \<lparr> bp_track_volume := v \<rparr>"

definition buy_params_from_swap_output :: "bool \<Rightarrow> u64 \<Rightarrow> u64 \<Rightarrow> u16 \<Rightarrow> buy_params option" where
  "buy_params_from_swap_output oc tokens_out sol_in bps =
     do { min_tokens \<leftarrow> slippage_floor oc tokens_out bps; max_sol \<leftarrow> slippage_ceiling oc sol_in bps;
          Some (buy_params_new min_tokens max_sol) }"

definition sell_params_new :: "u64 \<Rightarrow> u64 \<Rightarrow> sell_params" where
  "sell_params_new n min_sol_output =
     \<lparr> sp_amount = n, sp_min_sol_output = min_sol_output, sp_track_volume = OB_None \<rparr>"

definition sell_params_from_swap_output :: "bool \<Rightarrow> u64 \<Rightarrow> u64 \<Rightarrow> u16 \<Rightarrow> sell_params option" where
  "sell_params_from_swap_output oc tokens_in sol_out bps =
     do { min_sol \<leftarrow> slippage_floor oc sol_out bps; Some (sell_params_new tokens_in min_sol) }"

definition ps_buy_params_new :: "u64 \<Rightarrow> u64 \<Rightarrow> ps_buy_params" where
  "ps_buy_params_new base_amount_out max_quote_amount_in =
     \<lparr> pb_base_amount_out = base_amount_out, pb_max_quote_amount_in = max_quote_amount_in,
       pb_track_volume = OB_None \<rparr>"

definition ps_buy_params_with_track_volume :: "option_bool \<Rightarrow> ps_buy_params \<Rightarrow> ps_buy_params" where
  "ps_buy_params_with_track_volume v p = p \<lparr> pb_track_volume := v \<rparr>"

definition ps_buy_params_from_swap_output :: "bool \<Rightarrow> u64 \<Rightarrow> u64 \<Rightarrow> u16 \<Rightarrow> ps_buy_params option" where
  "ps_buy_params_from_swap_output oc tokens_out sol_in bps =
     do { min_tokens \<leftarrow> slippage_floor oc tokens_out bps; max_sol \<leftarrow> slippage_ceiling oc sol_in bps;
          Some (ps_buy_params_new min_tokens max_sol) }"

definition ps_sell_params_new :: "u64 \<Rightarrow> u64 \<Rightarrow> ps_sell_params" where
  "ps_sell_params_new base_amount_in min_quote_amount_out =
     \<lparr> psl_base_amount_in = base_amount_in, psl_min_quote_amount_out = min_quote_amount_out,
       psl_track_volume = OB_None \<rparr>"

definition ps_sell_params_from_swap_output :: "bool \<Rightarrow> u64 \<Rightarrow> u64 \<Rightarrow> u16 \<Rightarrow> ps_sell_params option" where
  "ps_sell_params_from_swap_output oc tokens_in sol_out bps =
     do { min_sol \<leftarrow> slippage_floor oc sol_out bps; Some (ps_sell_params_new tokens_in min_sol) }"

section \<open>Accounts\<close>

text \<open>\<open>derive\<close>: the inputs, the constants and the derived addresses, in the order of the fields. An
  optional appended account is not appended; the second curve account is.\<close>

definition buy_accounts_derive ::
    "key_env \<Rightarrow> pubkey \<Rightarrow> pubkey \<Rightarrow> pubkey \<Rightarrow> pubkey \<Rightarrow> pubkey \<Rightarrow> accounts" where
  "buy_accounts_derive K fee_recipient mint user token_program creator_vault =
     (let bonding_curve = derive_bonding_curve_pda K mint;
          associated_bonding_curve = te_ata (ke_tokens K) bonding_curve mint token_program;
          associated_user = te_ata (ke_tokens K) user mint token_program;
          user_volume_accumulator = derive_user_volume_accumulator_pda K user
      in \<lparr> ac_named = map Some
             [ke_global K, fee_recipient, mint, bonding_curve, associated_bonding_curve, associated_user, user,
              ke_system_program K, token_program, creator_vault, ke_event_authority K, id_pumpfun (ke_ids K),
              ke_global_volume_accumulator K, user_volume_accumulator, id_fee_config_pda (ke_ids K),
              id_pump_fees (ke_ids K)],
           ac_conditional = [],
           ac_resolved = [SlotAbsent, SlotPresent (derive_bonding_curve_v2_pda K mint)],
           ac_rest = [] \<rparr>)"

definition sell_accounts_derive ::
    "key_env \<Rightarrow> pubkey \<Rightarrow> pubkey \<Rightarrow> pubkey \<Rightarrow> pubkey \<Rightarrow> pubkey \<Rightarrow> accounts" where
  "sell_accounts_derive K fee_recipient mint user creator_vault token_program =
     (let bonding_curve = derive_bonding_curve_pda K mint;
          associated_bonding_curve = te_ata (ke_tokens K) bonding_curve mint token_program;
          associated_user = te_ata (ke_tokens K) user mint token_program
      in \<lparr> ac_named = map Some
             [ke_global K, fee_recipient, mint, bonding_curve, associated_bonding_curve, associated_user, user,
              ke_system_program K, creator_vault, token_program, ke_event_authority K, id_pumpfun (ke_ids K),
              id_fee_config_pda (ke_ids K), id_pump_fees (ke_ids K)],
           ac_conditional = [],
           ac_resolved = [SlotAbsent, SlotPresent (derive_bonding_curve_v2_pda K mint)],
           ac_rest = [] \<rparr>)"

definition buy_accounts_new :: "key_env \<Rightarrow> pumpfun_keys \<Rightarrow> pubkey \<Rightarrow> accounts" where
  "buy_accounts_new K k user =
     buy_accounts_derive K (ke_fee_collector K) (fk_mint k) user (te_spl_token_id (ke_tokens K)) (fk_creator_vault k)"

definition sell_accounts_new :: "key_env \<Rightarrow> pumpfun_keys \<Rightarrow> pubkey \<Rightarrow> accounts" where
  "sell_accounts_new K k user =
     sell_accounts_derive K (ke_fee_collector K) (fk_mint k) user (fk_creator_vault k) (te_spl_token_id (ke_tokens K))"

definition ps_buy_accounts_from_keys :: "key_env \<Rightarrow> pumpswap_keys \<Rightarrow> pubkey \<Rightarrow> accounts" where
  "ps_buy_accounts_from_keys K k user =
     (let uva = pumpswap_volume_accumulator K user; spl_token = te_spl_token_id (ke_tokens K)
      in \<lparr> ac_named = map Some
             [sk_pool k, user, ke_pumpswap_global_config K, sk_base_mint k, sk_quote_mint k,
              sk_user_base_ata K k user, sk_user_quote_ata K k user, sk_pool_base_token_account k,
              sk_pool_quote_token_account k, ke_protocol_fee_recipient K,
              ke_protocol_fee_recipient_token_account K, spl_token, spl_token, ke_system_program K,
              ke_associated_token_program K, ke_pumpswap_event_authority K, id_pumpswap (ke_ids K),
              sk_creator_vault_ata k, sk_creator_vault_authority k, ke_pumpswap_global_volume_accumulator K,
              sk_user_volume_accumulator K user, id_pumpswap_fee_config (ke_ids K), id_pump_fees (ke_ids K)],
           ac_conditional = [],
           ac_resolved = [SlotPresent (classic_ata K uva (sk_quote_mint k))],
           ac_rest = [] \<rparr>)"

definition ps_sell_accounts_from_keys :: "key_env \<Rightarrow> pumpswap_keys \<Rightarrow> pubkey \<Rightarrow> accounts" where
  "ps_sell_accounts_from_keys K k user =
     (let uva = pumpswap_volume_accumulator K user; spl_token = te_spl_token_id (ke_tokens K)
      in \<lparr> ac_named = map Some
             [sk_pool k, user, ke_pumpswap_global_config K, sk_base_mint k, sk_quote_mint k,
              sk_user_base_ata K k user, sk_user_quote_ata K k user, sk_pool_base_token_account k,
              sk_pool_quote_token_account k, ke_protocol_fee_recipient K,
              ke_protocol_fee_recipient_token_account K, spl_token, spl_token, ke_system_program K,
              ke_associated_token_program K, ke_pumpswap_event_authority K, id_pumpswap (ke_ids K),
              sk_creator_vault_ata k, sk_creator_vault_authority k, id_pumpswap_fee_config (ke_ids K),
              id_pump_fees (ke_ids K)],
           ac_conditional = [],
           ac_resolved = [SlotPresent (classic_ata K uva (sk_quote_mint k)), SlotPresent uva],
           ac_rest = [] \<rparr>)"

section \<open>Builders\<close>

definition pumpfun_buy_build :: "key_env \<Rightarrow> pumpfun_keys \<Rightarrow> pubkey \<Rightarrow> buy_params \<Rightarrow> instruction" where
  "pumpfun_buy_build K k user p =
     \<lparr> in_program_id = id_pumpfun (ke_ids K),
       in_accounts = to_account_metas (pumpfun_buy_layout K) (buy_accounts_new K k user),
       in_data = pumpfun_instruction_data K (PfBuy p) \<rparr>"

text \<open>The instruction that creates a token account is the associated-token crate's.\<close>

definition pumpfun_buy_with_setup ::
    "key_env \<Rightarrow> (pubkey \<Rightarrow> pubkey \<Rightarrow> pubkey \<Rightarrow> pubkey \<Rightarrow> instruction) \<Rightarrow> pumpfun_keys \<Rightarrow> pubkey \<Rightarrow> buy_params \<Rightarrow> bool \<Rightarrow>
     instruction list" where
  "pumpfun_buy_with_setup K create_ata k user p create =
     (if create then [create_ata user user (fk_mint k) (te_spl_token_id (ke_tokens K))] else []) @
     [pumpfun_buy_build K k user p]"

definition pumpfun_buy_build_with ::
    "key_env \<Rightarrow> pumpfun_keys \<Rightarrow> pubkey \<Rightarrow> token_program \<Rightarrow> pubkey \<Rightarrow> u64 \<Rightarrow> u64 \<Rightarrow> instruction" where
  "pumpfun_buy_build_with K k user tp fee_recipient n max_sol_cost =
     \<lparr> in_program_id = id_pumpfun (ke_ids K),
       in_accounts = to_account_metas (pumpfun_buy_layout K)
         (buy_accounts_derive K fee_recipient (fk_mint k) user (token_program_id (ke_tokens K) tp) (fk_creator_vault k)),
       in_data = pumpfun_instruction_data K (PfBuy (buy_params_new n max_sol_cost)) \<rparr>"

definition pumpfun_sell_build :: "key_env \<Rightarrow> pumpfun_keys \<Rightarrow> pubkey \<Rightarrow> sell_params \<Rightarrow> instruction" where
  "pumpfun_sell_build K k user p =
     \<lparr> in_program_id = id_pumpfun (ke_ids K),
       in_accounts = to_account_metas (pumpfun_sell_layout K) (sell_accounts_new K k user),
       in_data = pumpfun_instruction_data K (PfSell p) \<rparr>"

definition pumpfun_sell_build_with ::
    "key_env \<Rightarrow> pumpfun_keys \<Rightarrow> pubkey \<Rightarrow> token_program \<Rightarrow> pubkey \<Rightarrow> u64 \<Rightarrow> u64 \<Rightarrow> instruction" where
  "pumpfun_sell_build_with K k user tp fee_recipient n min_sol_output =
     \<lparr> in_program_id = id_pumpfun (ke_ids K),
       in_accounts = to_account_metas (pumpfun_sell_layout K)
         (sell_accounts_derive K fee_recipient (fk_mint k) user (fk_creator_vault k) (token_program_id (ke_tokens K) tp)),
       in_data = pumpfun_instruction_data K (PfSell (sell_params_new n min_sol_output)) \<rparr>"

definition pumpswap_buy_build :: "key_env \<Rightarrow> pumpswap_keys \<Rightarrow> pubkey \<Rightarrow> ps_buy_params \<Rightarrow> instruction" where
  "pumpswap_buy_build K k user p =
     \<lparr> in_program_id = id_pumpswap (ke_ids K),
       in_accounts = to_account_metas (pumpswap_buy_layout K) (ps_buy_accounts_from_keys K k user),
       in_data = pumpswap_instruction_data K (PsBuy p) \<rparr>"

definition pumpswap_buy_with_setup ::
    "key_env \<Rightarrow> (pubkey \<Rightarrow> pubkey \<Rightarrow> pubkey \<Rightarrow> pubkey \<Rightarrow> instruction) \<Rightarrow> pumpswap_keys \<Rightarrow> pubkey \<Rightarrow> ps_buy_params \<Rightarrow> bool \<Rightarrow>
     instruction list" where
  "pumpswap_buy_with_setup K create_ata k user p create =
     (if create then [create_ata user user (sk_base_mint k) (te_spl_token_id (ke_tokens K))] else []) @
     [pumpswap_buy_build K k user p]"

definition pumpswap_sell_build :: "key_env \<Rightarrow> pumpswap_keys \<Rightarrow> pubkey \<Rightarrow> ps_sell_params \<Rightarrow> instruction" where
  "pumpswap_sell_build K k user p =
     \<lparr> in_program_id = id_pumpswap (ke_ids K),
       in_accounts = to_account_metas (pumpswap_sell_layout K) (ps_sell_accounts_from_keys K k user),
       in_data = pumpswap_instruction_data K (PsSell p) \<rparr>"

section \<open>Slippage\<close>

text \<open>The bounds around a quote. With a tolerance of at most 10000 basis points neither computation
  panics: the floor is the rounded-down share and never above the quote; the ceiling is the
  rounded-down share on top, and never below the quote, as long as it fits 64 bits; where it does
  not, it is the remainder modulo \<open>2 ^ 64\<close>. A larger tolerance panics where overflow is checked.\<close>

lemma slippage_bounds:
  assumes "unat bps \<le> 10000"
  shows "slippage_floor oc n bps = Some (as_u64 (unat n * (10000 - unat bps) div 10000)) \<and>
    unat n * (10000 - unat bps) div 10000 \<le> unat n \<and>
    slippage_ceiling oc n bps = Some (as_u64 (unat n * (10000 + unat bps) div 10000)) \<and>
    unat n \<le> unat n * (10000 + unat bps) div 10000 \<and>
    (\<forall>s. 10000 < unat s \<longrightarrow> slippage_floor True n s = None)"
proof -
  have n: "unat n < 2 ^ 64"
    using unsigned_less [of n] by simp
  have bps: "unat bps < 2 ^ 16"
    using unsigned_less [of bps] by simp
  have "unat n * (10000 - unat bps) \<le> 2 ^ 64 * 10000"
    using n by (intro mult_le_mono) simp_all
  then have floor: "unat n * (10000 - unat bps) < 2 ^ 128"
    by simp
  have "unat n * (10000 + unat bps) \<le> 2 ^ 64 * (10000 + 2 ^ 16)"
    using n bps by (intro mult_le_mono) simp_all
  then have ceiling: "unat n * (10000 + unat bps) < 2 ^ 128"
    by simp
  have "unat n * (10000 - unat bps) div 10000 \<le> unat n * 10000 div 10000"
    by (intro div_le_mono mult_le_mono) simp_all
  moreover have "unat n * 10000 div 10000 \<le> unat n * (10000 + unat bps) div 10000"
    by (intro div_le_mono mult_le_mono) simp_all
  ultimately show ?thesis
    using assms floor ceiling bps
    by (simp add: slippage_floor_def slippage_ceiling_def u_sub_def u_mul_def u_add_def)
qed

section \<open>What is built is read back\<close>

lemma all_required_fits:
  assumes "length ks = length (la_named L)" "\<forall>s \<in> set (la_named L). \<not> sl_optional s"
    and "length cs = length (la_conditional L)" "length rs = length (la_resolved L)"
  shows "fits L \<lparr> ac_named = map Some ks, ac_conditional = cs, ac_resolved = rs, ac_rest = [] \<rparr>"
  using assms by (auto simp: fits_def list_all2_conv_all_nth slot_fits_def)

lemma built_is_read:
  assumes "fits L a" "la_conditional L = []" "ac_rest a = []"
    and "resolves (wanted L (ac_named a)) (ac_resolved a) []"
  shows "from_pubkeys L (map am_pubkey (to_account_metas L a)) = Inr a"
proof (rule layout_build_parse)
  have "ac_conditional a = []"
    using assms(1,2) by (simp add: fits_def)
  then have "sequence_error L a = None"
    using assms(1-3) by (subst sequence_error_None_iff) (simp_all add: prefix_shape_def)
  then show "try_to_account_metas L a = Inr (to_account_metas L a)"
    by (simp add: try_to_account_metas_def)
qed (use assms in \<open>simp_all add: layout_ok_def\<close>)

lemmas built_layouts =
  pumpfun_buy_layout_def pumpfun_sell_layout_def pumpswap_buy_layout_def pumpswap_sell_layout_def
  plain_layout_def slot_defs

lemmas built_accounts =
  buy_accounts_derive_def sell_accounts_derive_def ps_buy_accounts_from_keys_def
  ps_sell_accounts_from_keys_def Let_def

text \<open>The two appended accounts of a trade are different addresses.\<close>

definition accumulator_apart :: "key_env \<Rightarrow> pubkey \<Rightarrow> pubkey \<Rightarrow> bool" where
  "accumulator_apart K mint user \<longleftrightarrow>
     derive_user_volume_accumulator_pda K user \<noteq> derive_bonding_curve_v2_pda K mint"

lemma pumpfun_buy_reads_back:
  assumes "accumulator_apart K mint user"
  shows "from_pubkeys (pumpfun_buy_layout K) (map am_pubkey (to_account_metas (pumpfun_buy_layout K)
      (buy_accounts_derive K fee mint user tp vault))) = Inr (buy_accounts_derive K fee mint user tp vault)"
proof (rule built_is_read)
  show "fits (pumpfun_buy_layout K) (buy_accounts_derive K fee mint user tp vault)"
    unfolding built_accounts by (rule all_required_fits) (simp_all add: built_layouts)
qed (use assms in \<open>simp_all add: built_layouts built_accounts wanted_def bindings_of_def bound_def accumulator_apart_def\<close>)

lemma pumpfun_sell_reads_back:
  assumes "accumulator_apart K mint user"
  shows "from_pubkeys (pumpfun_sell_layout K) (map am_pubkey (to_account_metas (pumpfun_sell_layout K)
      (sell_accounts_derive K fee mint user vault tp))) = Inr (sell_accounts_derive K fee mint user vault tp)"
proof (rule built_is_read)
  show "fits (pumpfun_sell_layout K) (sell_accounts_derive K fee mint user vault tp)"
    unfolding built_accounts by (rule all_required_fits) (simp_all add: built_layouts)
qed (use assms in \<open>simp_all add: built_layouts built_accounts wanted_def bindings_of_def bound_def accumulator_apart_def\<close>)

lemma pumpswap_sell_reads_back:
  "from_pubkeys (pumpswap_sell_layout K) (map am_pubkey (to_account_metas (pumpswap_sell_layout K)
      (ps_sell_accounts_from_keys K k user))) = Inr (ps_sell_accounts_from_keys K k user)"
proof (rule built_is_read)
  show "fits (pumpswap_sell_layout K) (ps_sell_accounts_from_keys K k user)"
    unfolding built_accounts by (rule all_required_fits) (simp_all add: built_layouts)
qed (simp_all add: built_layouts built_accounts wanted_def bindings_of_def bound_def)

section \<open>From the builder to the graph\<close>

text \<open>An instruction as a transaction of one carries it.\<close>

definition sent :: "instruction \<Rightarrow> parsed_instruction" where
  "sent ix = parsed_instruction_new (in_program_id ix) (map am_pubkey (in_accounts ix)) (in_data ix) 1 0"

definition signers :: "instruction \<Rightarrow> pubkey list" where
  "signers ix = map am_pubkey (filter am_is_signer (in_accounts ix))"

lemma sent_fields [simp]:
  "pi_program_id (sent ix) = in_program_id ix" "pi_accounts (sent ix) = map am_pubkey (in_accounts ix)"
  "pi_data (sent ix) = in_data ix"
  by (simp_all add: sent_def parsed_instruction_new_def)

lemmas metas_simps =
  to_account_metas_def named_meta_def conditional_meta_def resolved_meta_def rest_meta_def

lemma built_signers:
  "signers (pumpfun_buy_build K k user p) = [user]"
  "signers (pumpfun_sell_build K k user q) = [user]"
  "signers (pumpswap_buy_build K k' user p') = [user]"
  "signers (pumpswap_sell_build K k' user q') = [user]"
  by (simp_all add: signers_def pumpfun_buy_build_def pumpfun_sell_build_def pumpswap_buy_build_def
      pumpswap_sell_build_def buy_accounts_new_def sell_accounts_new_def built_accounts built_layouts metas_simps)

definition curve_edge :: "key_env \<Rightarrow> pubkey \<Rightarrow> pool_edge" where
  "curve_edge K mint = pool_edge_new (derive_bonding_curve_pda K mint) Pumpfun mint (te_wsol (ke_tokens K))"

lemma built_buy_edge:
  assumes "accumulator_apart K (fk_mint k) user"
  shows "read_edge K (curve_accounts (pumpfun_buy_layout K)) s
    (map am_pubkey (in_accounts (pumpfun_buy_build K k user p))) Pumpfun = Edge (curve_edge K (fk_mint k))"
  using pumpfun_buy_reads_back [OF assms]
  by (simp add: read_edge_cases pumpfun_buy_build_def buy_accounts_new_def curve_accounts_def pool_of_def
      pair_of_def field_def acc_def bindings_of_def bound_def curve_edge_def)
    (simp add: built_accounts built_layouts)

lemma built_sell_edge:
  assumes "accumulator_apart K (fk_mint k) user"
  shows "read_edge K (curve_accounts (pumpfun_sell_layout K)) s
    (map am_pubkey (in_accounts (pumpfun_sell_build K k user p))) Pumpfun = Edge (curve_edge K (fk_mint k))"
  using pumpfun_sell_reads_back [OF assms]
  by (simp add: read_edge_cases pumpfun_sell_build_def sell_accounts_new_def curve_accounts_def pool_of_def
      pair_of_def field_def acc_def bindings_of_def bound_def curve_edge_def)
    (simp add: built_accounts built_layouts)

text \<open>The addresses that both instructions of a coin name, and where the second curve stands.\<close>

definition trade_addresses :: "key_env \<Rightarrow> pumpfun_keys \<Rightarrow> pubkey \<Rightarrow> (string \<times> pubkey) list" where
  "trade_addresses K k user =
     [(''global'', ke_global K), (''fee_recipient'', ke_fee_collector K), (''mint'', fk_mint k),
      (''bonding_curve'', derive_bonding_curve_pda K (fk_mint k)),
      (''associated_bonding_curve'', derive_associated_bonding_curve K (fk_mint k)),
      (''associated_user'', classic_ata K user (fk_mint k)), (''user'', user),
      (''system_program'', ke_system_program K), (''token_program'', te_spl_token_id (ke_tokens K)),
      (''creator_vault'', fk_creator_vault k), (''event_authority'', ke_event_authority K),
      (''program'', id_pumpfun (ke_ids K)), (''fee_config'', id_fee_config_pda (ke_ids K)),
      (''fee_program'', id_pump_fees (ke_ids K))]"

definition trades_coin :: "key_env \<Rightarrow> pumpfun_keys \<Rightarrow> pubkey \<Rightarrow> layout \<Rightarrow> accounts \<Rightarrow> bool" where
  "trades_coin K k user L a \<longleftrightarrow>
     (\<forall>(n, key) \<in> set (trade_addresses K k user). acc L a n = Some key) \<and>
     ac_resolved a = [SlotAbsent, SlotPresent (derive_bonding_curve_v2_pda K (fk_mint k))] \<and> ac_rest a = []"

lemma built_accounts_trade:
  "trades_coin K k user (pumpfun_buy_layout K) (buy_accounts_new K k user)"
  "trades_coin K k user (pumpfun_sell_layout K) (sell_accounts_new K k user)"
  by (simp_all add: trades_coin_def trade_addresses_def buy_accounts_new_def sell_accounts_new_def acc_def
      bindings_of_def built_accounts built_layouts derive_associated_bonding_curve_def classic_ata_def)

text \<open>C15: What the Pump.fun builders send is what the crate reads. The data of a built buy or sell is
  decoded to its parameters, its account list to the accounts the builder derived, with every address
  under its name; only the user signs, and discovery finds in both the one edge of the coin: its
  curve, between the coin and wrapped SOL.\<close>

theorem pumpfun_built_trades_read_back:
  assumes "borsh_ok B" and "discriminators_ok K" and "inj P" and "P Pumpfun = id_pumpfun (ke_ids K)"
    and "ob_ok (bp_track_volume p)" and "ob_ok (sp_track_volume q)"
    and "accumulator_apart K (fk_mint k) user"
  shows "let b = sent (pumpfun_buy_build K k user p); s = sent (pumpfun_sell_build K k user q)
    in try_from_slice (pumpfun_instruction_rows B K) (pi_data b) = Inr (PfBuy p) \<and>
       try_from_slice (pumpfun_instruction_rows B K) (pi_data s) = Inr (PfSell q) \<and>
       pumpfun_from_accounts K (PfBuy p) (pi_accounts b) = Inr (buy_accounts_new K k user) \<and>
       pumpfun_from_accounts K (PfSell q) (pi_accounts s) = Inr (sell_accounts_new K k user) \<and>
       trades_coin K k user (pumpfun_buy_layout K) (buy_accounts_new K k user) \<and>
       trades_coin K k user (pumpfun_sell_layout K) (sell_accounts_new K k user) \<and>
       signers (pumpfun_buy_build K k user p) = [user] \<and> signers (pumpfun_sell_build K k user q) = [user] \<and>
       discover K P b = Edge (curve_edge K (fk_mint k)) \<and> discover K P s = Edge (curve_edge K (fk_mint k))"
proof -
  let ?b = "pumpfun_buy_build K k user p" and ?s = "pumpfun_sell_build K k user q"
  have data: "try_from_slice (pumpfun_instruction_rows B K) (pi_data (sent ?b)) = Inr (PfBuy p)"
    "try_from_slice (pumpfun_instruction_rows B K) (pi_data (sent ?s)) = Inr (PfSell q)"
    using pump_data_read(1) [OF assms(1,2)] assms(5,6)
    by (simp_all add: pumpfun_buy_build_def pumpfun_sell_build_def)
  have program: "pi_program_id (sent ?b) = P Pumpfun" "pi_program_id (sent ?s) = P Pumpfun"
    using assms(4) by (simp_all add: pumpfun_buy_build_def pumpfun_sell_build_def)
  have accounts: "pumpfun_from_accounts K (PfBuy p) (pi_accounts (sent ?b)) = Inr (buy_accounts_new K k user)"
    "pumpfun_from_accounts K (PfSell q) (pi_accounts (sent ?s)) = Inr (sell_accounts_new K k user)"
    using pumpfun_buy_reads_back [OF assms(7)] pumpfun_sell_reads_back [OF assms(7)]
    by (simp_all add: pumpfun_from_accounts_def pumpfun_buy_build_def pumpfun_sell_build_def
        buy_accounts_new_def sell_accounts_new_def)
  show ?thesis
    using discover_pumpfun [OF assms(2,3) program(1) data(1)] discover_pumpfun [OF assms(2,3) program(2) data(2)]
      built_buy_edge [OF assms(7)] built_sell_edge [OF assms(7)] data accounts built_signers(1,2) built_accounts_trade
    by (simp add: Let_def)
qed

text \<open>A PumpSwap sell is read back as built, a buy is not. The keys derive the user's accumulator under
  the fee program, the account that is appended to a buy is derived under the PumpSwap program; so
  the parser, which derives it from the slot, does not find it: it reads the appended account as
  absent and takes it for a vault.\<close>

lemma pumpswap_built_buy_is_misread:
  assumes "classic_ata K (derive_user_volume_accumulator K user) (sk_quote_mint k) \<noteq>
    classic_ata K (pumpswap_volume_accumulator K user) (sk_quote_mint k)"
  shows "pumpswap_from_accounts K (PsSell q) (pi_accounts (sent (pumpswap_sell_build K k user q))) =
      Inr (ps_sell_accounts_from_keys K k user) \<and>
    pumpswap_from_accounts K (PsBuy p) (pi_accounts (sent (pumpswap_buy_build K k user p))) =
      Inr ((ps_buy_accounts_from_keys K k user)
        \<lparr> ac_resolved := [SlotAbsent],
          ac_rest := [classic_ata K (pumpswap_volume_accumulator K user) (sk_quote_mint k)] \<rparr>)"
proof
  show "pumpswap_from_accounts K (PsSell q) (pi_accounts (sent (pumpswap_sell_build K k user q))) =
      Inr (ps_sell_accounts_from_keys K k user)"
    using pumpswap_sell_reads_back by (simp add: pumpswap_from_accounts_def pumpswap_sell_build_def)
  show "pumpswap_from_accounts K (PsBuy p) (pi_accounts (sent (pumpswap_buy_build K k user p))) =
      Inr ((ps_buy_accounts_from_keys K k user)
        \<lparr> ac_resolved := [SlotAbsent],
          ac_rest := [classic_ata K (pumpswap_volume_accumulator K user) (sk_quote_mint k)] \<rparr>)"
    using assms
    by (simp add: pumpswap_from_accounts_def pumpswap_buy_build_def built_accounts built_layouts metas_simps
        from_pubkeys_def wanted_def bindings_of_def bound_def sk_user_volume_accumulator_def)
qed

definition example_coin :: pumpfun_keys where
  "example_coin = pumpfun_keys_new example_keys [77] [78]"

lemma example_apart: "accumulator_apart example_keys (fk_mint example_coin) [5]"
  by (simp add: accumulator_apart_def derive_user_volume_accumulator_pda_def derive_bonding_curve_v2_pda_def
      example_keys_def seed_bytes_def)

definition pump_programs :: "protocol \<Rightarrow> pubkey" where
  "pump_programs = example_programs (Pumpfun := id_pumpfun mainnet_ids, PumpSwap := id_pumpswap mainnet_ids)"

lemma pump_programs_inj: "inj pump_programs"
  by (rule injI) (auto simp: pump_programs_def example_programs_def mainnet_ids_def split: protocol.splits if_splits)

theorem pumpfun_built_trades_read_back_witness:
  "discover example_keys pump_programs (sent (pumpfun_buy_build example_keys example_coin [5] (buy_params_new 10 20))) =
     Edge (curve_edge example_keys [77])"
proof -
  have ids: "pump_programs Pumpfun = id_pumpfun (ke_ids example_keys)"
    by (simp add: pump_programs_def example_keys_def)
  have flags: "ob_ok (bp_track_volume (buy_params_new 10 20))" "ob_ok (sp_track_volume (sell_params_new 10 20))"
    by (simp_all add: buy_params_new_def sell_params_new_def ob_ok_def)
  have "fk_mint example_coin = [77]"
    by (simp add: example_coin_def pumpfun_keys_new_def Let_def)
  then show ?thesis
    using pumpfun_built_trades_read_back [OF borsh_std_ok example_keys_discriminators pump_programs_inj ids flags
        example_apart]
    by (simp add: Let_def)
qed

definition example_pool_keys :: pumpswap_keys where
  "example_pool_keys = pumpswap_keys_new example_keys [1] [2] [3] [4] [5] [6]"

end
