(* ===== verification/DlmmInstructions.thy ===== *)
theory DlmmInstructions
  imports Layouts InstructionData Attribution
begin

text \<open>
  The instructions of Meteora DLMM (meteora_dlmm/instructions): one file per instruction, each with an
  accounts struct, a wrapper of accounts and arguments, and its parse and build. The argument structs
  and the discriminators are those of the SDK: the codec of the arguments is a parameter, by the name
  of the instruction.
\<close>

section \<open>Account layouts\<close>

definition dlmm_add_liquidity_layout :: layout where
  "dlmm_add_liquidity_layout = plain_layout
     [rw ''position'', rw ''lb_pair'', rw ''bin_array_bitmap_extension'', rw ''user_token_x'',
      rw ''user_token_y'', rw ''reserve_x'', rw ''reserve_y'', ro ''token_x_mint'',
      ro ''token_y_mint'', rw ''bin_array_lower'', rw ''bin_array_upper'', sg ''sender'',
      ro ''token_x_program'', ro ''token_y_program'', ro ''event_authority'', ro ''program'']"

definition dlmm_add_liquidity2_layout :: layout where
  "dlmm_add_liquidity2_layout = plain_layout
     [rw ''position'', rw ''lb_pair'', rw ''bin_array_bitmap_extension'', rw ''user_token_x'',
      rw ''user_token_y'', rw ''reserve_x'', rw ''reserve_y'', ro ''token_x_mint'',
      ro ''token_y_mint'', sg ''sender'', ro ''token_x_program'', ro ''token_y_program'',
      ro ''event_authority'', ro ''program'']"

definition dlmm_add_liquidity_by_strategy_layout :: layout where
  "dlmm_add_liquidity_by_strategy_layout = plain_layout
     [rw ''position'', rw ''lb_pair'', rw ''bin_array_bitmap_extension'', rw ''user_token_x'',
      rw ''user_token_y'', rw ''reserve_x'', rw ''reserve_y'', ro ''token_x_mint'',
      ro ''token_y_mint'', rw ''bin_array_lower'', rw ''bin_array_upper'', sg ''sender'',
      ro ''token_x_program'', ro ''token_y_program'', ro ''event_authority'', ro ''program'']"

definition dlmm_add_liquidity_by_strategy2_layout :: "layout" where
  "dlmm_add_liquidity_by_strategy2_layout = (plain_layout
     [rw ''position'', rw ''lb_pair'', rw ''bin_array_bitmap_extension'', rw ''user_token_x'',
      rw ''user_token_y'', rw ''reserve_x'', rw ''reserve_y'', ro ''token_x_mint'',
      ro ''token_y_mint'', sg ''sender'', ro ''token_x_program'', ro ''token_y_program'',
      ro ''event_authority'', ro ''program''])
    \<lparr> la_rest := Some (''bin_arrays'', True) \<rparr>"

definition dlmm_add_liquidity_by_strategy_one_side_layout :: layout where
  "dlmm_add_liquidity_by_strategy_one_side_layout = plain_layout
     [rw ''position'', rw ''lb_pair'', rw ''bin_array_bitmap_extension'', rw ''user_token'',
      rw ''reserve'', ro ''token_mint'', rw ''bin_array_lower'', rw ''bin_array_upper'', sg ''sender'',
      ro ''token_program'', ro ''event_authority'', ro ''program'']"

definition dlmm_add_liquidity_by_weight_layout :: layout where
  "dlmm_add_liquidity_by_weight_layout = plain_layout
     [rw ''position'', rw ''lb_pair'', rw ''bin_array_bitmap_extension'', rw ''user_token_x'',
      rw ''user_token_y'', rw ''reserve_x'', rw ''reserve_y'', ro ''token_x_mint'',
      ro ''token_y_mint'', rw ''bin_array_lower'', rw ''bin_array_upper'', sg ''sender'',
      ro ''token_x_program'', ro ''token_y_program'', ro ''event_authority'', ro ''program'']"

definition dlmm_add_liquidity_one_side_layout :: layout where
  "dlmm_add_liquidity_one_side_layout = plain_layout
     [rw ''position'', rw ''lb_pair'', rw ''bin_array_bitmap_extension'', rw ''user_token'',
      rw ''reserve'', ro ''token_mint'', rw ''bin_array_lower'', rw ''bin_array_upper'', sg ''sender'',
      ro ''token_program'', ro ''event_authority'', ro ''program'']"

definition dlmm_add_liquidity_one_side_precise_layout :: layout where
  "dlmm_add_liquidity_one_side_precise_layout = plain_layout
     [rw ''position'', rw ''lb_pair'', rw ''bin_array_bitmap_extension'', rw ''user_token'',
      rw ''reserve'', ro ''token_mint'', rw ''bin_array_lower'', rw ''bin_array_upper'', sg ''sender'',
      ro ''token_program'', ro ''event_authority'', ro ''program'']"

definition dlmm_add_liquidity_one_side_precise2_layout :: layout where
  "dlmm_add_liquidity_one_side_precise2_layout = plain_layout
     [rw ''position'', rw ''lb_pair'', rw ''bin_array_bitmap_extension'', rw ''user_token'',
      rw ''reserve'', ro ''token_mint'', sg ''sender'', ro ''token_program'', ro ''event_authority'',
      ro ''program'']"

definition dlmm_claim_fee_layout :: layout where
  "dlmm_claim_fee_layout = plain_layout
     [rw ''lb_pair'', rw ''position'', rw ''bin_array_lower'', rw ''bin_array_upper'', sg ''sender'',
      rw ''reserve_x'', rw ''reserve_y'', rw ''user_token_x'', rw ''user_token_y'',
      ro ''token_x_mint'', ro ''token_y_mint'', ro ''token_program'', ro ''event_authority'',
      ro ''program'']"

definition dlmm_claim_fee2_layout :: layout where
  "dlmm_claim_fee2_layout = plain_layout
     [rw ''lb_pair'', rw ''position'', sg ''sender'', rw ''reserve_x'', rw ''reserve_y'',
      rw ''user_token_x'', rw ''user_token_y'', ro ''token_x_mint'', ro ''token_y_mint'',
      ro ''token_program_x'', ro ''token_program_y'', ro ''memo_program'', ro ''event_authority'',
      ro ''program'']"

definition dlmm_claim_reward_layout :: layout where
  "dlmm_claim_reward_layout = plain_layout
     [rw ''lb_pair'', rw ''position'', rw ''bin_array_lower'', rw ''bin_array_upper'', sg ''sender'',
      rw ''reward_vault'', ro ''reward_mint'', rw ''user_token_account'', ro ''token_program'',
      ro ''event_authority'', ro ''program'']"

definition dlmm_claim_reward2_layout :: layout where
  "dlmm_claim_reward2_layout = plain_layout
     [rw ''lb_pair'', rw ''position'', sg ''sender'', rw ''reward_vault'', ro ''reward_mint'',
      rw ''user_token_account'', ro ''token_program'', ro ''memo_program'', ro ''event_authority'',
      ro ''program'']"

definition dlmm_close_claim_protocol_fee_operator_layout :: layout where
  "dlmm_close_claim_protocol_fee_operator_layout = plain_layout
     [rw ''claim_fee_operator'', rw ''rent_receiver'', sg ''admin'']"

definition dlmm_close_position_layout :: layout where
  "dlmm_close_position_layout = plain_layout
     [rw ''position'', rw ''lb_pair'', rw ''bin_array_lower'', rw ''bin_array_upper'', sg ''sender'',
      rw ''rent_receiver'', ro ''event_authority'', ro ''program'']"

definition dlmm_close_position2_layout :: layout where
  "dlmm_close_position2_layout = plain_layout
     [rw ''position'', sg ''sender'', rw ''rent_receiver'', ro ''event_authority'', ro ''program'']"

definition dlmm_close_position_if_empty_layout :: layout where
  "dlmm_close_position_if_empty_layout = plain_layout
     [rw ''position'', sg ''sender'', rw ''rent_receiver'', ro ''event_authority'', ro ''program'']"

definition dlmm_close_preset_parameter_layout :: layout where
  "dlmm_close_preset_parameter_layout = plain_layout
     [rw ''preset_parameter'', ws ''admin'', rw ''rent_receiver'']"

definition dlmm_close_preset_parameter2_layout :: layout where
  "dlmm_close_preset_parameter2_layout = plain_layout
     [rw ''preset_parameter'', ws ''admin'', rw ''rent_receiver'']"

definition dlmm_close_token_badge_layout :: layout where
  "dlmm_close_token_badge_layout = plain_layout
     [rw ''token_badge'', rw ''rent_receiver'', sg ''admin'']"

definition dlmm_create_claim_protocol_fee_operator_layout :: layout where
  "dlmm_create_claim_protocol_fee_operator_layout = plain_layout
     [rw ''claim_fee_operator'', ro ''operator'', ws ''admin'', ro ''system_program'']"

definition dlmm_decrease_position_length_layout :: layout where
  "dlmm_decrease_position_length_layout = plain_layout
     [rw ''rent_receiver'', rw ''position'', sg ''owner'', ro ''system_program'',
      ro ''event_authority'', ro ''program'']"

definition dlmm_for_idl_type_generation_do_not_call_layout :: layout where
  "dlmm_for_idl_type_generation_do_not_call_layout = plain_layout
     [ro ''dummy_zc_account'']"

definition dlmm_fund_reward_layout :: layout where
  "dlmm_fund_reward_layout = plain_layout
     [rw ''lb_pair'', rw ''reward_vault'', ro ''reward_mint'', rw ''funder_token_account'',
      sg ''funder'', rw ''bin_array'', ro ''token_program'', ro ''event_authority'', ro ''program'']"

definition dlmm_go_to_a_bin_layout :: layout where
  "dlmm_go_to_a_bin_layout = plain_layout
     [rw ''lb_pair'', ro ''bin_array_bitmap_extension'', ro ''from_bin_array'', ro ''to_bin_array'',
      ro ''event_authority'', ro ''program'']"

definition dlmm_increase_oracle_length_layout :: layout where
  "dlmm_increase_oracle_length_layout = plain_layout
     [rw ''oracle'', ws ''funder'', ro ''system_program'', ro ''event_authority'', ro ''program'']"

definition dlmm_increase_position_length_layout :: layout where
  "dlmm_increase_position_length_layout = plain_layout
     [ws ''funder'', ro ''lb_pair'', rw ''position'', sg ''owner'', ro ''system_program'',
      ro ''event_authority'', ro ''program'']"

definition dlmm_increase_position_length2_layout :: layout where
  "dlmm_increase_position_length2_layout = plain_layout
     [ws ''funder'', ro ''lb_pair'', rw ''position'', sg ''owner'', ro ''system_program'',
      ro ''event_authority'', ro ''program'']"

definition dlmm_initialize_bin_array_layout :: layout where
  "dlmm_initialize_bin_array_layout = plain_layout
     [ro ''lb_pair'', rw ''bin_array'', ws ''funder'', ro ''system_program'']"

definition dlmm_initialize_bin_array_bitmap_extension_layout :: layout where
  "dlmm_initialize_bin_array_bitmap_extension_layout = plain_layout
     [ro ''lb_pair'', rw ''bin_array_bitmap_extension'', ws ''funder'', ro ''system_program'',
      ro ''rent'']"

definition dlmm_initialize_customizable_permissionless_lb_pair_layout :: layout where
  "dlmm_initialize_customizable_permissionless_lb_pair_layout = plain_layout
     [rw ''lb_pair'', rw ''bin_array_bitmap_extension'', ro ''token_mint_x'', ro ''token_mint_y'',
      rw ''reserve_x'', rw ''reserve_y'', rw ''oracle'', ro ''user_token_x'', ws ''funder'',
      ro ''token_program'', ro ''system_program'', ro ''user_token_y'', ro ''event_authority'',
      ro ''program'']"

definition dlmm_initialize_customizable_permissionless_lb_pair2_layout :: layout where
  "dlmm_initialize_customizable_permissionless_lb_pair2_layout = plain_layout
     [rw ''lb_pair'', rw ''bin_array_bitmap_extension'', ro ''token_mint_x'', ro ''token_mint_y'',
      rw ''reserve_x'', rw ''reserve_y'', rw ''oracle'', ro ''user_token_x'', ws ''funder'',
      ro ''token_badge_x'', ro ''token_badge_y'', ro ''token_program_x'', ro ''token_program_y'',
      ro ''system_program'', ro ''user_token_y'', ro ''event_authority'', ro ''program'']"

definition dlmm_initialize_lb_pair_layout :: layout where
  "dlmm_initialize_lb_pair_layout = plain_layout
     [rw ''lb_pair'', rw ''bin_array_bitmap_extension'', ro ''token_mint_x'', ro ''token_mint_y'',
      rw ''reserve_x'', rw ''reserve_y'', rw ''oracle'', ro ''preset_parameter'', ws ''funder'',
      ro ''token_program'', ro ''system_program'', ro ''rent'', ro ''event_authority'', ro ''program'']"

definition dlmm_initialize_lb_pair2_layout :: layout where
  "dlmm_initialize_lb_pair2_layout = plain_layout
     [rw ''lb_pair'', rw ''bin_array_bitmap_extension'', ro ''token_mint_x'', ro ''token_mint_y'',
      rw ''reserve_x'', rw ''reserve_y'', rw ''oracle'', ro ''preset_parameter'', ws ''funder'',
      ro ''token_badge_x'', ro ''token_badge_y'', ro ''token_program_x'', ro ''token_program_y'',
      ro ''system_program'', ro ''event_authority'', ro ''program'']"

definition dlmm_initialize_permission_lb_pair_layout :: layout where
  "dlmm_initialize_permission_lb_pair_layout = plain_layout
     [sg ''base'', rw ''lb_pair'', rw ''bin_array_bitmap_extension'', ro ''token_mint_x'',
      ro ''token_mint_y'', rw ''reserve_x'', rw ''reserve_y'', rw ''oracle'', ws ''admin'',
      ro ''token_badge_x'', ro ''token_badge_y'', ro ''token_program_x'', ro ''token_program_y'',
      ro ''system_program'', ro ''rent'', ro ''event_authority'', ro ''program'']"

definition dlmm_initialize_position_layout :: layout where
  "dlmm_initialize_position_layout = plain_layout
     [ws ''payer'', ws ''position'', ro ''lb_pair'', sg ''owner'', ro ''system_program'', ro ''rent'',
      ro ''event_authority'', ro ''program'']"

definition dlmm_initialize_position2_layout :: layout where
  "dlmm_initialize_position2_layout = plain_layout
     [ws ''payer'', ws ''position'', ro ''lb_pair'', sg ''owner'', ro ''system_program'',
      ro ''event_authority'', ro ''program'']"

definition dlmm_initialize_position_by_operator_layout :: layout where
  "dlmm_initialize_position_by_operator_layout = plain_layout
     [ws ''payer'', sg ''base'', rw ''position'', ro ''lb_pair'', ro ''owner'', sg ''operator'',
      ro ''operator_token_x'', ro ''owner_token_x'', ro ''system_program'', ro ''event_authority'',
      ro ''program'']"

definition dlmm_initialize_position_pda_layout :: layout where
  "dlmm_initialize_position_pda_layout = plain_layout
     [ws ''payer'', sg ''base'', rw ''position'', ro ''lb_pair'', sg ''owner'', ro ''system_program'',
      ro ''rent'', ro ''event_authority'', ro ''program'']"

definition dlmm_initialize_preset_parameter_layout :: layout where
  "dlmm_initialize_preset_parameter_layout = plain_layout
     [rw ''preset_parameter'', ws ''admin'', ro ''system_program'', ro ''rent'']"

definition dlmm_initialize_preset_parameter2_layout :: layout where
  "dlmm_initialize_preset_parameter2_layout = plain_layout
     [rw ''preset_parameter'', ws ''admin'', ro ''system_program'']"

definition dlmm_initialize_reward_layout :: layout where
  "dlmm_initialize_reward_layout = plain_layout
     [rw ''lb_pair'', rw ''reward_vault'', ro ''reward_mint'', ro ''token_badge'', ws ''admin'',
      ro ''token_program'', ro ''system_program'', ro ''rent'', ro ''event_authority'', ro ''program'']"

definition dlmm_initialize_token_badge_layout :: layout where
  "dlmm_initialize_token_badge_layout = plain_layout
     [ro ''token_mint'', rw ''token_badge'', ws ''admin'', ro ''system_program'']"

definition dlmm_migrate_bin_array_layout :: layout where
  "dlmm_migrate_bin_array_layout = plain_layout
     [ro ''lb_pair'']"

definition dlmm_migrate_position_layout :: layout where
  "dlmm_migrate_position_layout = plain_layout
     [ws ''position_v2'', rw ''position_v1'', ro ''lb_pair'', rw ''bin_array_lower'',
      rw ''bin_array_upper'', ws ''owner'', ro ''system_program'', rw ''rent_receiver'',
      ro ''event_authority'', ro ''program'']"

definition dlmm_rebalance_liquidity_layout :: layout where
  "dlmm_rebalance_liquidity_layout = plain_layout
     [rw ''position'', rw ''lb_pair'', rw ''bin_array_bitmap_extension'', rw ''user_token_x'',
      rw ''user_token_y'', rw ''reserve_x'', rw ''reserve_y'', ro ''token_x_mint'',
      ro ''token_y_mint'', sg ''owner'', ws ''rent_payer'', ro ''token_x_program'',
      ro ''token_y_program'', ro ''memo_program'', ro ''system_program'', ro ''event_authority'',
      ro ''program'']"

definition dlmm_remove_all_liquidity_layout :: layout where
  "dlmm_remove_all_liquidity_layout = plain_layout
     [rw ''position'', rw ''lb_pair'', rw ''bin_array_bitmap_extension'', rw ''user_token_x'',
      rw ''user_token_y'', rw ''reserve_x'', rw ''reserve_y'', ro ''token_x_mint'',
      ro ''token_y_mint'', rw ''bin_array_lower'', rw ''bin_array_upper'', sg ''sender'',
      ro ''token_x_program'', ro ''token_y_program'', ro ''event_authority'', ro ''program'']"

definition dlmm_remove_liquidity_layout :: layout where
  "dlmm_remove_liquidity_layout = plain_layout
     [rw ''position'', rw ''lb_pair'', rw ''bin_array_bitmap_extension'', rw ''user_token_x'',
      rw ''user_token_y'', rw ''reserve_x'', rw ''reserve_y'', ro ''token_x_mint'',
      ro ''token_y_mint'', rw ''bin_array_lower'', rw ''bin_array_upper'', sg ''sender'',
      ro ''token_x_program'', ro ''token_y_program'', ro ''event_authority'', ro ''program'']"

definition dlmm_remove_liquidity2_layout :: layout where
  "dlmm_remove_liquidity2_layout = plain_layout
     [rw ''position'', rw ''lb_pair'', rw ''bin_array_bitmap_extension'', rw ''user_token_x'',
      rw ''user_token_y'', rw ''reserve_x'', rw ''reserve_y'', ro ''token_x_mint'',
      ro ''token_y_mint'', sg ''sender'', ro ''token_x_program'', ro ''token_y_program'',
      ro ''memo_program'', ro ''event_authority'', ro ''program'']"

definition dlmm_remove_liquidity_by_range_layout :: layout where
  "dlmm_remove_liquidity_by_range_layout = plain_layout
     [rw ''position'', rw ''lb_pair'', rw ''bin_array_bitmap_extension'', rw ''user_token_x'',
      rw ''user_token_y'', rw ''reserve_x'', rw ''reserve_y'', ro ''token_x_mint'',
      ro ''token_y_mint'', rw ''bin_array_lower'', rw ''bin_array_upper'', sg ''sender'',
      ro ''token_x_program'', ro ''token_y_program'', ro ''event_authority'', ro ''program'']"

definition dlmm_remove_liquidity_by_range2_layout :: layout where
  "dlmm_remove_liquidity_by_range2_layout = plain_layout
     [rw ''position'', rw ''lb_pair'', rw ''bin_array_bitmap_extension'', rw ''user_token_x'',
      rw ''user_token_y'', rw ''reserve_x'', rw ''reserve_y'', ro ''token_x_mint'',
      ro ''token_y_mint'', sg ''sender'', ro ''token_x_program'', ro ''token_y_program'',
      ro ''memo_program'', ro ''event_authority'', ro ''program'']"

definition dlmm_set_activation_point_layout :: layout where
  "dlmm_set_activation_point_layout = plain_layout
     [rw ''lb_pair'', ws ''admin'']"

definition dlmm_set_pair_status_layout :: layout where
  "dlmm_set_pair_status_layout = plain_layout
     [rw ''lb_pair'', sg ''admin'']"

definition dlmm_set_pair_status_permissionless_layout :: layout where
  "dlmm_set_pair_status_permissionless_layout = plain_layout
     [rw ''lb_pair'', sg ''creator'']"

definition dlmm_set_pre_activation_duration_layout :: layout where
  "dlmm_set_pre_activation_duration_layout = plain_layout
     [rw ''lb_pair'', sg ''creator'']"

definition dlmm_set_pre_activation_swap_address_layout :: layout where
  "dlmm_set_pre_activation_swap_address_layout = plain_layout
     [rw ''lb_pair'', sg ''creator'']"

definition dlmm_swap_layout :: layout where
  "dlmm_swap_layout = plain_layout
     [rw ''lb_pair'', ro ''bin_array_bitmap_extension'', rw ''reserve_x'', rw ''reserve_y'',
      rw ''user_token_in'', rw ''user_token_out'', ro ''token_x_mint'', ro ''token_y_mint'',
      rw ''oracle'', rw ''host_fee_in'', sg ''user'', ro ''token_x_program'', ro ''token_y_program'',
      ro ''event_authority'', ro ''program'']"

definition dlmm_swap2_layout :: layout where
  "dlmm_swap2_layout = plain_layout
     [rw ''lb_pair'', ro ''bin_array_bitmap_extension'', rw ''reserve_x'', rw ''reserve_y'',
      rw ''user_token_in'', rw ''user_token_out'', ro ''token_x_mint'', ro ''token_y_mint'',
      rw ''oracle'', rw ''host_fee_in'', sg ''user'', ro ''token_x_program'', ro ''token_y_program'',
      ro ''memo_program'', ro ''event_authority'', ro ''program'']"

definition dlmm_swap_exact_out_layout :: layout where
  "dlmm_swap_exact_out_layout = plain_layout
     [rw ''lb_pair'', ro ''bin_array_bitmap_extension'', rw ''reserve_x'', rw ''reserve_y'',
      rw ''user_token_in'', rw ''user_token_out'', ro ''token_x_mint'', ro ''token_y_mint'',
      rw ''oracle'', rw ''host_fee_in'', sg ''user'', ro ''token_x_program'', ro ''token_y_program'',
      ro ''event_authority'', ro ''program'']"

definition dlmm_swap_exact_out2_layout :: layout where
  "dlmm_swap_exact_out2_layout = plain_layout
     [rw ''lb_pair'', ro ''bin_array_bitmap_extension'', rw ''reserve_x'', rw ''reserve_y'',
      rw ''user_token_in'', rw ''user_token_out'', ro ''token_x_mint'', ro ''token_y_mint'',
      rw ''oracle'', rw ''host_fee_in'', sg ''user'', ro ''token_x_program'', ro ''token_y_program'',
      ro ''memo_program'', ro ''event_authority'', ro ''program'']"

definition dlmm_swap_with_price_impact_layout :: layout where
  "dlmm_swap_with_price_impact_layout = plain_layout
     [rw ''lb_pair'', ro ''bin_array_bitmap_extension'', rw ''reserve_x'', rw ''reserve_y'',
      rw ''user_token_in'', rw ''user_token_out'', ro ''token_x_mint'', ro ''token_y_mint'',
      rw ''oracle'', rw ''host_fee_in'', sg ''user'', ro ''token_x_program'', ro ''token_y_program'',
      ro ''event_authority'', ro ''program'']"

definition dlmm_swap_with_price_impact2_layout :: layout where
  "dlmm_swap_with_price_impact2_layout = plain_layout
     [rw ''lb_pair'', ro ''bin_array_bitmap_extension'', rw ''reserve_x'', rw ''reserve_y'',
      rw ''user_token_in'', rw ''user_token_out'', ro ''token_x_mint'', ro ''token_y_mint'',
      rw ''oracle'', rw ''host_fee_in'', sg ''user'', ro ''token_x_program'', ro ''token_y_program'',
      ro ''memo_program'', ro ''event_authority'', ro ''program'']"

definition dlmm_update_base_fee_parameters_layout :: layout where
  "dlmm_update_base_fee_parameters_layout = plain_layout
     [rw ''lb_pair'', sg ''admin'', ro ''event_authority'', ro ''program'']"

definition dlmm_update_dynamic_fee_parameters_layout :: layout where
  "dlmm_update_dynamic_fee_parameters_layout = plain_layout
     [rw ''lb_pair'', sg ''admin'', ro ''event_authority'', ro ''program'']"

definition dlmm_update_fees_and_reward2_layout :: layout where
  "dlmm_update_fees_and_reward2_layout = plain_layout
     [rw ''position'', rw ''lb_pair'', sg ''owner'']"

definition dlmm_update_fees_and_rewards_layout :: layout where
  "dlmm_update_fees_and_rewards_layout = plain_layout
     [rw ''position'', rw ''lb_pair'', rw ''bin_array_lower'', rw ''bin_array_upper'', sg ''owner'']"

definition dlmm_update_position_operator_layout :: layout where
  "dlmm_update_position_operator_layout = plain_layout
     [rw ''position'', sg ''owner'', ro ''event_authority'', ro ''program'']"

definition dlmm_update_reward_duration_layout :: layout where
  "dlmm_update_reward_duration_layout = plain_layout
     [rw ''lb_pair'', sg ''admin'', rw ''bin_array'', ro ''event_authority'', ro ''program'']"

definition dlmm_update_reward_funder_layout :: layout where
  "dlmm_update_reward_funder_layout = plain_layout
     [rw ''lb_pair'', sg ''admin'', ro ''event_authority'', ro ''program'']"

definition dlmm_withdraw_ineligible_reward_layout :: layout where
  "dlmm_withdraw_ineligible_reward_layout = plain_layout
     [rw ''lb_pair'', rw ''reward_vault'', ro ''reward_mint'', rw ''funder_token_account'',
      sg ''funder'', rw ''bin_array'', ro ''token_program'', ro ''memo_program'',
      ro ''event_authority'', ro ''program'']"

definition dlmm_withdraw_protocol_fee_layout :: layout where
  "dlmm_withdraw_protocol_fee_layout = plain_layout
     [rw ''lb_pair'', rw ''reserve_x'', rw ''reserve_y'', ro ''token_x_mint'', ro ''token_y_mint'',
      rw ''receiver_token_x'', rw ''receiver_token_y'', ro ''claim_fee_operator'', sg ''operator'',
      ro ''token_x_program'', ro ''token_y_program'', ro ''memo_program'']"


section \<open>The wrappers\<close>

text \<open>A file of the directory: the name that its errors give, the layout, and whether the SDK has
  arguments for it.\<close>

record dlmm_kind =
  dk_name :: string
  dk_layout :: layout
  dk_takes_args :: bool

definition dlmm_add_liquidity_ix :: dlmm_kind where
  "dlmm_add_liquidity_ix =
     \<lparr> dk_name = ''add_liquidity'', dk_layout = dlmm_add_liquidity_layout, dk_takes_args = True \<rparr>"

definition dlmm_add_liquidity2_ix :: dlmm_kind where
  "dlmm_add_liquidity2_ix =
     \<lparr> dk_name = ''add_liquidity2'', dk_layout = dlmm_add_liquidity2_layout, dk_takes_args = True \<rparr>"

definition dlmm_add_liquidity_by_strategy_ix :: dlmm_kind where
  "dlmm_add_liquidity_by_strategy_ix =
     \<lparr> dk_name = ''add_liquidity_by_strategy'', dk_layout = dlmm_add_liquidity_by_strategy_layout, dk_takes_args = True \<rparr>"

definition dlmm_add_liquidity_by_strategy2_ix :: dlmm_kind where
  "dlmm_add_liquidity_by_strategy2_ix =
     \<lparr> dk_name = ''add_liquidity_by_strategy2'', dk_layout = dlmm_add_liquidity_by_strategy2_layout, dk_takes_args = True \<rparr>"

definition dlmm_add_liquidity_by_strategy_one_side_ix :: dlmm_kind where
  "dlmm_add_liquidity_by_strategy_one_side_ix =
     \<lparr> dk_name = ''add_liquidity_by_strategy_one_side'', dk_layout = dlmm_add_liquidity_by_strategy_one_side_layout, dk_takes_args = True \<rparr>"

definition dlmm_add_liquidity_by_weight_ix :: dlmm_kind where
  "dlmm_add_liquidity_by_weight_ix =
     \<lparr> dk_name = ''add_liquidity_by_weight'', dk_layout = dlmm_add_liquidity_by_weight_layout, dk_takes_args = True \<rparr>"

definition dlmm_add_liquidity_one_side_ix :: dlmm_kind where
  "dlmm_add_liquidity_one_side_ix =
     \<lparr> dk_name = ''add_liquidity_one_side'', dk_layout = dlmm_add_liquidity_one_side_layout, dk_takes_args = True \<rparr>"

definition dlmm_add_liquidity_one_side_precise_ix :: dlmm_kind where
  "dlmm_add_liquidity_one_side_precise_ix =
     \<lparr> dk_name = ''add_liquidity_one_side_precise'', dk_layout = dlmm_add_liquidity_one_side_precise_layout, dk_takes_args = True \<rparr>"

definition dlmm_add_liquidity_one_side_precise2_ix :: dlmm_kind where
  "dlmm_add_liquidity_one_side_precise2_ix =
     \<lparr> dk_name = ''add_liquidity_one_side_precise2'', dk_layout = dlmm_add_liquidity_one_side_precise2_layout, dk_takes_args = True \<rparr>"

definition dlmm_claim_fee_ix :: dlmm_kind where
  "dlmm_claim_fee_ix =
     \<lparr> dk_name = ''claim_fee'', dk_layout = dlmm_claim_fee_layout, dk_takes_args = False \<rparr>"

definition dlmm_claim_fee2_ix :: dlmm_kind where
  "dlmm_claim_fee2_ix =
     \<lparr> dk_name = ''claim_fee2'', dk_layout = dlmm_claim_fee2_layout, dk_takes_args = True \<rparr>"

definition dlmm_claim_reward_ix :: dlmm_kind where
  "dlmm_claim_reward_ix =
     \<lparr> dk_name = ''claim_reward'', dk_layout = dlmm_claim_reward_layout, dk_takes_args = True \<rparr>"

definition dlmm_claim_reward2_ix :: dlmm_kind where
  "dlmm_claim_reward2_ix =
     \<lparr> dk_name = ''claim_reward2'', dk_layout = dlmm_claim_reward2_layout, dk_takes_args = True \<rparr>"

definition dlmm_close_claim_protocol_fee_operator_ix :: dlmm_kind where
  "dlmm_close_claim_protocol_fee_operator_ix =
     \<lparr> dk_name = ''close_claim_protocol_fee_operator'', dk_layout = dlmm_close_claim_protocol_fee_operator_layout, dk_takes_args = False \<rparr>"

definition dlmm_close_position_ix :: dlmm_kind where
  "dlmm_close_position_ix =
     \<lparr> dk_name = ''close_position'', dk_layout = dlmm_close_position_layout, dk_takes_args = False \<rparr>"

definition dlmm_close_position2_ix :: dlmm_kind where
  "dlmm_close_position2_ix =
     \<lparr> dk_name = ''close_position2'', dk_layout = dlmm_close_position2_layout, dk_takes_args = False \<rparr>"

definition dlmm_close_position_if_empty_ix :: dlmm_kind where
  "dlmm_close_position_if_empty_ix =
     \<lparr> dk_name = ''close_position_if_empty'', dk_layout = dlmm_close_position_if_empty_layout, dk_takes_args = False \<rparr>"

definition dlmm_close_preset_parameter_ix :: dlmm_kind where
  "dlmm_close_preset_parameter_ix =
     \<lparr> dk_name = ''close_preset_parameter'', dk_layout = dlmm_close_preset_parameter_layout, dk_takes_args = False \<rparr>"

definition dlmm_close_preset_parameter2_ix :: dlmm_kind where
  "dlmm_close_preset_parameter2_ix =
     \<lparr> dk_name = ''close_preset_parameter2'', dk_layout = dlmm_close_preset_parameter2_layout, dk_takes_args = False \<rparr>"

definition dlmm_close_token_badge_ix :: dlmm_kind where
  "dlmm_close_token_badge_ix =
     \<lparr> dk_name = ''close_token_badge'', dk_layout = dlmm_close_token_badge_layout, dk_takes_args = False \<rparr>"

definition dlmm_create_claim_protocol_fee_operator_ix :: dlmm_kind where
  "dlmm_create_claim_protocol_fee_operator_ix =
     \<lparr> dk_name = ''create_claim_protocol_fee_operator'', dk_layout = dlmm_create_claim_protocol_fee_operator_layout, dk_takes_args = False \<rparr>"

definition dlmm_decrease_position_length_ix :: dlmm_kind where
  "dlmm_decrease_position_length_ix =
     \<lparr> dk_name = ''decrease_position_length'', dk_layout = dlmm_decrease_position_length_layout, dk_takes_args = True \<rparr>"

definition dlmm_for_idl_type_generation_do_not_call_ix :: dlmm_kind where
  "dlmm_for_idl_type_generation_do_not_call_ix =
     \<lparr> dk_name = ''for_idl_type_generation_do_not_call'', dk_layout = dlmm_for_idl_type_generation_do_not_call_layout, dk_takes_args = True \<rparr>"

definition dlmm_fund_reward_ix :: dlmm_kind where
  "dlmm_fund_reward_ix =
     \<lparr> dk_name = ''fund_reward'', dk_layout = dlmm_fund_reward_layout, dk_takes_args = True \<rparr>"

definition dlmm_go_to_a_bin_ix :: dlmm_kind where
  "dlmm_go_to_a_bin_ix =
     \<lparr> dk_name = ''go_to_a_bin'', dk_layout = dlmm_go_to_a_bin_layout, dk_takes_args = True \<rparr>"

definition dlmm_increase_oracle_length_ix :: dlmm_kind where
  "dlmm_increase_oracle_length_ix =
     \<lparr> dk_name = ''increase_oracle_length'', dk_layout = dlmm_increase_oracle_length_layout, dk_takes_args = True \<rparr>"

definition dlmm_increase_position_length_ix :: dlmm_kind where
  "dlmm_increase_position_length_ix =
     \<lparr> dk_name = ''increase_position_length'', dk_layout = dlmm_increase_position_length_layout, dk_takes_args = True \<rparr>"

definition dlmm_increase_position_length2_ix :: dlmm_kind where
  "dlmm_increase_position_length2_ix =
     \<lparr> dk_name = ''increase_position_length2'', dk_layout = dlmm_increase_position_length2_layout, dk_takes_args = True \<rparr>"

definition dlmm_initialize_bin_array_ix :: dlmm_kind where
  "dlmm_initialize_bin_array_ix =
     \<lparr> dk_name = ''initialize_bin_array'', dk_layout = dlmm_initialize_bin_array_layout, dk_takes_args = True \<rparr>"

definition dlmm_initialize_bin_array_bitmap_extension_ix :: dlmm_kind where
  "dlmm_initialize_bin_array_bitmap_extension_ix =
     \<lparr> dk_name = ''initialize_bin_array_bitmap_extension'', dk_layout = dlmm_initialize_bin_array_bitmap_extension_layout, dk_takes_args = False \<rparr>"

definition dlmm_initialize_customizable_permissionless_lb_pair_ix :: dlmm_kind where
  "dlmm_initialize_customizable_permissionless_lb_pair_ix =
     \<lparr> dk_name = ''initialize_customizable_permissionless_lb_pair'', dk_layout = dlmm_initialize_customizable_permissionless_lb_pair_layout, dk_takes_args = True \<rparr>"

definition dlmm_initialize_customizable_permissionless_lb_pair2_ix :: dlmm_kind where
  "dlmm_initialize_customizable_permissionless_lb_pair2_ix =
     \<lparr> dk_name = ''initialize_customizable_permissionless_lb_pair2'', dk_layout = dlmm_initialize_customizable_permissionless_lb_pair2_layout, dk_takes_args = True \<rparr>"

definition dlmm_initialize_lb_pair_ix :: dlmm_kind where
  "dlmm_initialize_lb_pair_ix =
     \<lparr> dk_name = ''initialize_lb_pair'', dk_layout = dlmm_initialize_lb_pair_layout, dk_takes_args = True \<rparr>"

definition dlmm_initialize_lb_pair2_ix :: dlmm_kind where
  "dlmm_initialize_lb_pair2_ix =
     \<lparr> dk_name = ''initialize_lb_pair2'', dk_layout = dlmm_initialize_lb_pair2_layout, dk_takes_args = True \<rparr>"

definition dlmm_initialize_permission_lb_pair_ix :: dlmm_kind where
  "dlmm_initialize_permission_lb_pair_ix =
     \<lparr> dk_name = ''initialize_permission_lb_pair'', dk_layout = dlmm_initialize_permission_lb_pair_layout, dk_takes_args = True \<rparr>"

definition dlmm_initialize_position_ix :: dlmm_kind where
  "dlmm_initialize_position_ix =
     \<lparr> dk_name = ''initialize_position'', dk_layout = dlmm_initialize_position_layout, dk_takes_args = True \<rparr>"

definition dlmm_initialize_position2_ix :: dlmm_kind where
  "dlmm_initialize_position2_ix =
     \<lparr> dk_name = ''initialize_position2'', dk_layout = dlmm_initialize_position2_layout, dk_takes_args = True \<rparr>"

definition dlmm_initialize_position_by_operator_ix :: dlmm_kind where
  "dlmm_initialize_position_by_operator_ix =
     \<lparr> dk_name = ''initialize_position_by_operator'', dk_layout = dlmm_initialize_position_by_operator_layout, dk_takes_args = True \<rparr>"

definition dlmm_initialize_position_pda_ix :: dlmm_kind where
  "dlmm_initialize_position_pda_ix =
     \<lparr> dk_name = ''initialize_position_pda'', dk_layout = dlmm_initialize_position_pda_layout, dk_takes_args = True \<rparr>"

definition dlmm_initialize_preset_parameter_ix :: dlmm_kind where
  "dlmm_initialize_preset_parameter_ix =
     \<lparr> dk_name = ''initialize_preset_parameter'', dk_layout = dlmm_initialize_preset_parameter_layout, dk_takes_args = True \<rparr>"

definition dlmm_initialize_preset_parameter2_ix :: dlmm_kind where
  "dlmm_initialize_preset_parameter2_ix =
     \<lparr> dk_name = ''initialize_preset_parameter2'', dk_layout = dlmm_initialize_preset_parameter2_layout, dk_takes_args = True \<rparr>"

definition dlmm_initialize_reward_ix :: dlmm_kind where
  "dlmm_initialize_reward_ix =
     \<lparr> dk_name = ''initialize_reward'', dk_layout = dlmm_initialize_reward_layout, dk_takes_args = True \<rparr>"

definition dlmm_initialize_token_badge_ix :: dlmm_kind where
  "dlmm_initialize_token_badge_ix =
     \<lparr> dk_name = ''initialize_token_badge'', dk_layout = dlmm_initialize_token_badge_layout, dk_takes_args = False \<rparr>"

definition dlmm_migrate_bin_array_ix :: dlmm_kind where
  "dlmm_migrate_bin_array_ix =
     \<lparr> dk_name = ''migrate_bin_array'', dk_layout = dlmm_migrate_bin_array_layout, dk_takes_args = False \<rparr>"

definition dlmm_migrate_position_ix :: dlmm_kind where
  "dlmm_migrate_position_ix =
     \<lparr> dk_name = ''migrate_position'', dk_layout = dlmm_migrate_position_layout, dk_takes_args = False \<rparr>"

definition dlmm_rebalance_liquidity_ix :: dlmm_kind where
  "dlmm_rebalance_liquidity_ix =
     \<lparr> dk_name = ''rebalance_liquidity'', dk_layout = dlmm_rebalance_liquidity_layout, dk_takes_args = True \<rparr>"

definition dlmm_remove_all_liquidity_ix :: dlmm_kind where
  "dlmm_remove_all_liquidity_ix =
     \<lparr> dk_name = ''remove_all_liquidity'', dk_layout = dlmm_remove_all_liquidity_layout, dk_takes_args = False \<rparr>"

definition dlmm_remove_liquidity_ix :: dlmm_kind where
  "dlmm_remove_liquidity_ix =
     \<lparr> dk_name = ''remove_liquidity'', dk_layout = dlmm_remove_liquidity_layout, dk_takes_args = True \<rparr>"

definition dlmm_remove_liquidity2_ix :: dlmm_kind where
  "dlmm_remove_liquidity2_ix =
     \<lparr> dk_name = ''remove_liquidity2'', dk_layout = dlmm_remove_liquidity2_layout, dk_takes_args = True \<rparr>"

definition dlmm_remove_liquidity_by_range_ix :: dlmm_kind where
  "dlmm_remove_liquidity_by_range_ix =
     \<lparr> dk_name = ''remove_liquidity_by_range'', dk_layout = dlmm_remove_liquidity_by_range_layout, dk_takes_args = True \<rparr>"

definition dlmm_remove_liquidity_by_range2_ix :: dlmm_kind where
  "dlmm_remove_liquidity_by_range2_ix =
     \<lparr> dk_name = ''remove_liquidity_by_range2'', dk_layout = dlmm_remove_liquidity_by_range2_layout, dk_takes_args = True \<rparr>"

definition dlmm_set_activation_point_ix :: dlmm_kind where
  "dlmm_set_activation_point_ix =
     \<lparr> dk_name = ''set_activation_point'', dk_layout = dlmm_set_activation_point_layout, dk_takes_args = True \<rparr>"

definition dlmm_set_pair_status_ix :: dlmm_kind where
  "dlmm_set_pair_status_ix =
     \<lparr> dk_name = ''set_pair_status'', dk_layout = dlmm_set_pair_status_layout, dk_takes_args = True \<rparr>"

definition dlmm_set_pair_status_permissionless_ix :: dlmm_kind where
  "dlmm_set_pair_status_permissionless_ix =
     \<lparr> dk_name = ''set_pair_status_permissionless'', dk_layout = dlmm_set_pair_status_permissionless_layout, dk_takes_args = True \<rparr>"

definition dlmm_set_pre_activation_duration_ix :: dlmm_kind where
  "dlmm_set_pre_activation_duration_ix =
     \<lparr> dk_name = ''set_pre_activation_duration'', dk_layout = dlmm_set_pre_activation_duration_layout, dk_takes_args = True \<rparr>"

definition dlmm_set_pre_activation_swap_address_ix :: dlmm_kind where
  "dlmm_set_pre_activation_swap_address_ix =
     \<lparr> dk_name = ''set_pre_activation_swap_address'', dk_layout = dlmm_set_pre_activation_swap_address_layout, dk_takes_args = True \<rparr>"

definition dlmm_swap_ix :: dlmm_kind where
  "dlmm_swap_ix =
     \<lparr> dk_name = ''swap'', dk_layout = dlmm_swap_layout, dk_takes_args = True \<rparr>"

definition dlmm_swap2_ix :: dlmm_kind where
  "dlmm_swap2_ix =
     \<lparr> dk_name = ''swap2'', dk_layout = dlmm_swap2_layout, dk_takes_args = True \<rparr>"

definition dlmm_swap_exact_out_ix :: dlmm_kind where
  "dlmm_swap_exact_out_ix =
     \<lparr> dk_name = ''swap_exact_out'', dk_layout = dlmm_swap_exact_out_layout, dk_takes_args = True \<rparr>"

definition dlmm_swap_exact_out2_ix :: dlmm_kind where
  "dlmm_swap_exact_out2_ix =
     \<lparr> dk_name = ''swap_exact_out2'', dk_layout = dlmm_swap_exact_out2_layout, dk_takes_args = True \<rparr>"

definition dlmm_swap_with_price_impact_ix :: dlmm_kind where
  "dlmm_swap_with_price_impact_ix =
     \<lparr> dk_name = ''swap_with_price_impact'', dk_layout = dlmm_swap_with_price_impact_layout, dk_takes_args = True \<rparr>"

definition dlmm_swap_with_price_impact2_ix :: dlmm_kind where
  "dlmm_swap_with_price_impact2_ix =
     \<lparr> dk_name = ''swap_with_price_impact2'', dk_layout = dlmm_swap_with_price_impact2_layout, dk_takes_args = True \<rparr>"

definition dlmm_update_base_fee_parameters_ix :: dlmm_kind where
  "dlmm_update_base_fee_parameters_ix =
     \<lparr> dk_name = ''update_base_fee_parameters'', dk_layout = dlmm_update_base_fee_parameters_layout, dk_takes_args = True \<rparr>"

definition dlmm_update_dynamic_fee_parameters_ix :: dlmm_kind where
  "dlmm_update_dynamic_fee_parameters_ix =
     \<lparr> dk_name = ''update_dynamic_fee_parameters'', dk_layout = dlmm_update_dynamic_fee_parameters_layout, dk_takes_args = True \<rparr>"

definition dlmm_update_fees_and_reward2_ix :: dlmm_kind where
  "dlmm_update_fees_and_reward2_ix =
     \<lparr> dk_name = ''update_fees_and_reward2'', dk_layout = dlmm_update_fees_and_reward2_layout, dk_takes_args = True \<rparr>"

definition dlmm_update_fees_and_rewards_ix :: dlmm_kind where
  "dlmm_update_fees_and_rewards_ix =
     \<lparr> dk_name = ''update_fees_and_rewards'', dk_layout = dlmm_update_fees_and_rewards_layout, dk_takes_args = False \<rparr>"

definition dlmm_update_position_operator_ix :: dlmm_kind where
  "dlmm_update_position_operator_ix =
     \<lparr> dk_name = ''update_position_operator'', dk_layout = dlmm_update_position_operator_layout, dk_takes_args = True \<rparr>"

definition dlmm_update_reward_duration_ix :: dlmm_kind where
  "dlmm_update_reward_duration_ix =
     \<lparr> dk_name = ''update_reward_duration'', dk_layout = dlmm_update_reward_duration_layout, dk_takes_args = True \<rparr>"

definition dlmm_update_reward_funder_ix :: dlmm_kind where
  "dlmm_update_reward_funder_ix =
     \<lparr> dk_name = ''update_reward_funder'', dk_layout = dlmm_update_reward_funder_layout, dk_takes_args = True \<rparr>"

definition dlmm_withdraw_ineligible_reward_ix :: dlmm_kind where
  "dlmm_withdraw_ineligible_reward_ix =
     \<lparr> dk_name = ''withdraw_ineligible_reward'', dk_layout = dlmm_withdraw_ineligible_reward_layout, dk_takes_args = True \<rparr>"

definition dlmm_withdraw_protocol_fee_ix :: dlmm_kind where
  "dlmm_withdraw_protocol_fee_ix =
     \<lparr> dk_name = ''withdraw_protocol_fee'', dk_layout = dlmm_withdraw_protocol_fee_layout, dk_takes_args = True \<rparr>"

text \<open>The arms of the dispatch, in their order.\<close>

definition dlmm_kinds :: "dlmm_kind list" where
  "dlmm_kinds =
     [dlmm_add_liquidity_ix, dlmm_add_liquidity2_ix, dlmm_add_liquidity_by_strategy_ix,
      dlmm_add_liquidity_by_strategy2_ix, dlmm_add_liquidity_by_strategy_one_side_ix,
      dlmm_add_liquidity_by_weight_ix, dlmm_add_liquidity_one_side_ix,
      dlmm_add_liquidity_one_side_precise_ix, dlmm_add_liquidity_one_side_precise2_ix,
      dlmm_claim_fee_ix, dlmm_claim_fee2_ix, dlmm_claim_reward_ix, dlmm_claim_reward2_ix,
      dlmm_close_claim_protocol_fee_operator_ix, dlmm_close_position_ix,
      dlmm_close_position2_ix, dlmm_close_position_if_empty_ix, dlmm_close_preset_parameter_ix,
      dlmm_close_preset_parameter2_ix, dlmm_close_token_badge_ix,
      dlmm_create_claim_protocol_fee_operator_ix, dlmm_decrease_position_length_ix,
      dlmm_for_idl_type_generation_do_not_call_ix, dlmm_fund_reward_ix, dlmm_go_to_a_bin_ix,
      dlmm_increase_oracle_length_ix, dlmm_increase_position_length_ix,
      dlmm_increase_position_length2_ix, dlmm_initialize_bin_array_ix,
      dlmm_initialize_bin_array_bitmap_extension_ix,
      dlmm_initialize_customizable_permissionless_lb_pair_ix,
      dlmm_initialize_customizable_permissionless_lb_pair2_ix, dlmm_initialize_lb_pair_ix,
      dlmm_initialize_lb_pair2_ix, dlmm_initialize_permission_lb_pair_ix,
      dlmm_initialize_position_ix, dlmm_initialize_position2_ix,
      dlmm_initialize_position_by_operator_ix, dlmm_initialize_position_pda_ix,
      dlmm_initialize_preset_parameter_ix, dlmm_initialize_preset_parameter2_ix,
      dlmm_initialize_reward_ix, dlmm_initialize_token_badge_ix, dlmm_migrate_bin_array_ix,
      dlmm_migrate_position_ix, dlmm_rebalance_liquidity_ix, dlmm_remove_all_liquidity_ix,
      dlmm_remove_liquidity_ix, dlmm_remove_liquidity2_ix, dlmm_remove_liquidity_by_range_ix,
      dlmm_remove_liquidity_by_range2_ix, dlmm_set_activation_point_ix, dlmm_set_pair_status_ix,
      dlmm_set_pair_status_permissionless_ix, dlmm_set_pre_activation_duration_ix,
      dlmm_set_pre_activation_swap_address_ix, dlmm_swap_ix, dlmm_swap2_ix,
      dlmm_swap_exact_out_ix, dlmm_swap_exact_out2_ix, dlmm_swap_with_price_impact_ix,
      dlmm_swap_with_price_impact2_ix, dlmm_update_base_fee_parameters_ix,
      dlmm_update_dynamic_fee_parameters_ix, dlmm_update_fees_and_reward2_ix,
      dlmm_update_fees_and_rewards_ix, dlmm_update_position_operator_ix,
      dlmm_update_reward_duration_ix, dlmm_update_reward_funder_ix,
      dlmm_withdraw_ineligible_reward_ix, dlmm_withdraw_protocol_fee_ix]"

lemmas dlmm_kind_defs =
  dlmm_add_liquidity_ix_def dlmm_add_liquidity2_ix_def dlmm_add_liquidity_by_strategy_ix_def
  dlmm_add_liquidity_by_strategy2_ix_def dlmm_add_liquidity_by_strategy_one_side_ix_def
  dlmm_add_liquidity_by_weight_ix_def dlmm_add_liquidity_one_side_ix_def
  dlmm_add_liquidity_one_side_precise_ix_def dlmm_add_liquidity_one_side_precise2_ix_def
  dlmm_claim_fee_ix_def dlmm_claim_fee2_ix_def dlmm_claim_reward_ix_def
  dlmm_claim_reward2_ix_def dlmm_close_claim_protocol_fee_operator_ix_def
  dlmm_close_position_ix_def dlmm_close_position2_ix_def dlmm_close_position_if_empty_ix_def
  dlmm_close_preset_parameter_ix_def dlmm_close_preset_parameter2_ix_def
  dlmm_close_token_badge_ix_def dlmm_create_claim_protocol_fee_operator_ix_def
  dlmm_decrease_position_length_ix_def dlmm_for_idl_type_generation_do_not_call_ix_def
  dlmm_fund_reward_ix_def dlmm_go_to_a_bin_ix_def dlmm_increase_oracle_length_ix_def
  dlmm_increase_position_length_ix_def dlmm_increase_position_length2_ix_def
  dlmm_initialize_bin_array_ix_def dlmm_initialize_bin_array_bitmap_extension_ix_def
  dlmm_initialize_customizable_permissionless_lb_pair_ix_def
  dlmm_initialize_customizable_permissionless_lb_pair2_ix_def dlmm_initialize_lb_pair_ix_def
  dlmm_initialize_lb_pair2_ix_def dlmm_initialize_permission_lb_pair_ix_def
  dlmm_initialize_position_ix_def dlmm_initialize_position2_ix_def
  dlmm_initialize_position_by_operator_ix_def dlmm_initialize_position_pda_ix_def
  dlmm_initialize_preset_parameter_ix_def dlmm_initialize_preset_parameter2_ix_def
  dlmm_initialize_reward_ix_def dlmm_initialize_token_badge_ix_def dlmm_migrate_bin_array_ix_def
  dlmm_migrate_position_ix_def dlmm_rebalance_liquidity_ix_def dlmm_remove_all_liquidity_ix_def
  dlmm_remove_liquidity_ix_def dlmm_remove_liquidity2_ix_def
  dlmm_remove_liquidity_by_range_ix_def dlmm_remove_liquidity_by_range2_ix_def
  dlmm_set_activation_point_ix_def dlmm_set_pair_status_ix_def
  dlmm_set_pair_status_permissionless_ix_def dlmm_set_pre_activation_duration_ix_def
  dlmm_set_pre_activation_swap_address_ix_def dlmm_swap_ix_def dlmm_swap2_ix_def
  dlmm_swap_exact_out_ix_def dlmm_swap_exact_out2_ix_def dlmm_swap_with_price_impact_ix_def
  dlmm_swap_with_price_impact2_ix_def dlmm_update_base_fee_parameters_ix_def
  dlmm_update_dynamic_fee_parameters_ix_def dlmm_update_fees_and_reward2_ix_def
  dlmm_update_fees_and_rewards_ix_def dlmm_update_position_operator_ix_def
  dlmm_update_reward_duration_ix_def dlmm_update_reward_funder_ix_def
  dlmm_withdraw_ineligible_reward_ix_def dlmm_withdraw_protocol_fee_ix_def

lemmas dlmm_layout_defs =
  dlmm_add_liquidity_layout_def dlmm_add_liquidity2_layout_def
  dlmm_add_liquidity_by_strategy_layout_def dlmm_add_liquidity_by_strategy2_layout_def
  dlmm_add_liquidity_by_strategy_one_side_layout_def dlmm_add_liquidity_by_weight_layout_def
  dlmm_add_liquidity_one_side_layout_def dlmm_add_liquidity_one_side_precise_layout_def
  dlmm_add_liquidity_one_side_precise2_layout_def dlmm_claim_fee_layout_def
  dlmm_claim_fee2_layout_def dlmm_claim_reward_layout_def dlmm_claim_reward2_layout_def
  dlmm_close_claim_protocol_fee_operator_layout_def dlmm_close_position_layout_def
  dlmm_close_position2_layout_def dlmm_close_position_if_empty_layout_def
  dlmm_close_preset_parameter_layout_def dlmm_close_preset_parameter2_layout_def
  dlmm_close_token_badge_layout_def dlmm_create_claim_protocol_fee_operator_layout_def
  dlmm_decrease_position_length_layout_def dlmm_for_idl_type_generation_do_not_call_layout_def
  dlmm_fund_reward_layout_def dlmm_go_to_a_bin_layout_def dlmm_increase_oracle_length_layout_def
  dlmm_increase_position_length_layout_def dlmm_increase_position_length2_layout_def
  dlmm_initialize_bin_array_layout_def dlmm_initialize_bin_array_bitmap_extension_layout_def
  dlmm_initialize_customizable_permissionless_lb_pair_layout_def
  dlmm_initialize_customizable_permissionless_lb_pair2_layout_def
  dlmm_initialize_lb_pair_layout_def dlmm_initialize_lb_pair2_layout_def
  dlmm_initialize_permission_lb_pair_layout_def dlmm_initialize_position_layout_def
  dlmm_initialize_position2_layout_def dlmm_initialize_position_by_operator_layout_def
  dlmm_initialize_position_pda_layout_def dlmm_initialize_preset_parameter_layout_def
  dlmm_initialize_preset_parameter2_layout_def dlmm_initialize_reward_layout_def
  dlmm_initialize_token_badge_layout_def dlmm_migrate_bin_array_layout_def
  dlmm_migrate_position_layout_def dlmm_rebalance_liquidity_layout_def
  dlmm_remove_all_liquidity_layout_def dlmm_remove_liquidity_layout_def
  dlmm_remove_liquidity2_layout_def dlmm_remove_liquidity_by_range_layout_def
  dlmm_remove_liquidity_by_range2_layout_def dlmm_set_activation_point_layout_def
  dlmm_set_pair_status_layout_def dlmm_set_pair_status_permissionless_layout_def
  dlmm_set_pre_activation_duration_layout_def dlmm_set_pre_activation_swap_address_layout_def
  dlmm_swap_layout_def dlmm_swap2_layout_def dlmm_swap_exact_out_layout_def
  dlmm_swap_exact_out2_layout_def dlmm_swap_with_price_impact_layout_def
  dlmm_swap_with_price_impact2_layout_def dlmm_update_base_fee_parameters_layout_def
  dlmm_update_dynamic_fee_parameters_layout_def dlmm_update_fees_and_reward2_layout_def
  dlmm_update_fees_and_rewards_layout_def dlmm_update_position_operator_layout_def
  dlmm_update_reward_duration_layout_def dlmm_update_reward_funder_layout_def
  dlmm_withdraw_ineligible_reward_layout_def dlmm_withdraw_protocol_fee_layout_def

section \<open>Parse and build\<close>

text \<open>What is in the SDK: discriminators and the borsh codec of the arguments.\<close>

record 'a dlmm_sdk =
  ds_discriminator :: "string \<Rightarrow> bytes"
  ds_read_args :: "string \<Rightarrow> 'a reader"
  ds_write_args :: "string \<Rightarrow> 'a \<Rightarrow> bytes"
  ds_program_id :: pubkey

record 'a dlmm_ix =
  dx_kind :: string
  dx_accounts :: accounts
  dx_args :: "'a option"

definition parse_anchor_args :: "'a reader \<Rightarrow> bytes \<Rightarrow> bytes \<Rightarrow> string \<Rightarrow> instruction_parse_error + 'a" where
  "parse_anchor_args r data expected n =
     (if length data < 8 then Inl (DataTooShortDetailed 8 (length data))
      else if take 8 data \<noteq> expected then Inl (UnknownDiscriminator (take 8 data))
      else
        (case r (drop 8 data) of
           Inl e \<Rightarrow> Inl (DeserializationFailed (n @ '' args: '' @ e))
         | Inr (x, []) \<Rightarrow> Inr x
         | Inr (x, _ # _) \<Rightarrow> Inl (DeserializationFailed (n @ '' args: Not all bytes read''))))"

text \<open>\<open>*Ix::parse\<close>: the accounts first, then the arguments, if there are any.\<close>

definition dlmm_ix_parse :: "'a dlmm_sdk \<Rightarrow> dlmm_kind \<Rightarrow> parsed_instruction \<Rightarrow> instruction_parse_error + 'a dlmm_ix" where
  "dlmm_ix_parse S k ix =
     (case from_pubkeys (dk_layout k) (pi_accounts ix) of
        Inl e \<Rightarrow> Inl e
      | Inr a \<Rightarrow>
          if dk_takes_args k
          then (case parse_anchor_args (ds_read_args S (dk_name k)) (pi_data ix)
                       (ds_discriminator S (dk_name k)) (dk_name k) of
                  Inl e \<Rightarrow> Inl e
                | Inr x \<Rightarrow> Inr \<lparr> dx_kind = dk_name k, dx_accounts = a, dx_args = Some x \<rparr>)
          else Inr \<lparr> dx_kind = dk_name k, dx_accounts = a, dx_args = None \<rparr>)"

definition dlmm_ix_instruction :: "'a dlmm_sdk \<Rightarrow> dlmm_kind \<Rightarrow> 'a dlmm_ix \<Rightarrow> instruction" where
  "dlmm_ix_instruction S k x =
     \<lparr> in_program_id = ds_program_id S,
       in_accounts = to_account_metas (dk_layout k) (dx_accounts x),
       in_data = ds_discriminator S (dk_name k) @
         (case dx_args x of Some v \<Rightarrow> ds_write_args S (dk_name k) v | None \<Rightarrow> []) \<rparr>"

definition dlmm_ix_dispatch :: "'a dlmm_sdk \<Rightarrow> bytes \<Rightarrow> parsed_instruction \<Rightarrow> instruction_parse_error + 'a dlmm_ix" where
  "dlmm_ix_dispatch S disc ix =
     (case find (\<lambda>k. ds_discriminator S (dk_name k) = disc) dlmm_kinds of
        Some k \<Rightarrow> dlmm_ix_parse S k ix
      | None \<Rightarrow> Inl (UnknownDiscriminator disc))"

definition dlmm_parse :: "'a dlmm_sdk \<Rightarrow> parsed_instruction \<Rightarrow> instruction_parse_error + 'a dlmm_ix" where
  "dlmm_parse S ix =
     (if length (pi_data ix) < 8 then Inl (DataTooShortDetailed 8 (length (pi_data ix)))
      else dlmm_ix_dispatch S (take 8 (pi_data ix)) ix)"

section \<open>The contract\<close>

text \<open>The SDK's discriminators are distinct and of eight bytes, and what it writes it reads.\<close>

definition dlmm_sdk_ok :: "'a dlmm_sdk \<Rightarrow> bool" where
  "dlmm_sdk_ok S \<longleftrightarrow>
     distinct (map (\<lambda>k. ds_discriminator S (dk_name k)) dlmm_kinds) \<and>
     (\<forall>k \<in> set dlmm_kinds. length (ds_discriminator S (dk_name k)) = 8) \<and>
     (\<forall>n v. ds_read_args S n (ds_write_args S n v) = Inr (v, []))"

definition dlmm_ix_ok :: "dlmm_kind \<Rightarrow> 'a dlmm_ix \<Rightarrow> bool" where
  "dlmm_ix_ok k x \<longleftrightarrow>
     dx_kind x = dk_name k \<and> fits (dk_layout k) (dx_accounts x) \<and> (dx_args x \<noteq> None \<longleftrightarrow> dk_takes_args k)"

lemma dlmm_layout_shape:
  assumes "k \<in> set dlmm_kinds"
  shows "la_resolved (dk_layout k) = [] \<and> la_conditional (dk_layout k) = []"
proof -
  have "list_all (\<lambda>k. la_resolved (dk_layout k) = [] \<and> la_conditional (dk_layout k) = []) dlmm_kinds"
    by (simp add: dlmm_kinds_def dlmm_kind_defs dlmm_layout_defs plain_layout_def)
  then show ?thesis
    using assms by (simp add: list_all_iff)
qed

lemma dlmm_layout_closed:
  assumes "k \<in> set dlmm_kinds" "dk_name k \<noteq> ''add_liquidity_by_strategy2''"
  shows "la_rest (dk_layout k) = None"
proof -
  have "list_all (\<lambda>k. dk_name k \<noteq> ''add_liquidity_by_strategy2'' \<longrightarrow> la_rest (dk_layout k) = None) dlmm_kinds"
    by (simp add: dlmm_kinds_def dlmm_kind_defs dlmm_layout_defs plain_layout_def)
  then show ?thesis
    using assms by (simp add: list_all_iff)
qed

lemma find_dlmm_kind:
  assumes "dlmm_sdk_ok S" "k \<in> set dlmm_kinds"
  shows "find (\<lambda>k'. ds_discriminator S (dk_name k') = ds_discriminator S (dk_name k)) dlmm_kinds = Some k"
proof -
  have "find (\<lambda>y. f y = f x) ys = Some x" if "distinct (map f ys)" "x \<in> set ys" for f :: "dlmm_kind \<Rightarrow> bytes" and x ys
    using that by (induction ys) force+
  from this [of "\<lambda>k. ds_discriminator S (dk_name k)" dlmm_kinds k] show ?thesis
    using assms by (simp add: dlmm_sdk_ok_def)
qed

lemma dlmm_parse_kind:
  assumes "dlmm_sdk_ok S" "k \<in> set dlmm_kinds" "pi_data p = ds_discriminator S (dk_name k) @ args"
  shows "dlmm_parse S p = dlmm_ix_parse S k p"
proof -
  have "length (ds_discriminator S (dk_name k)) = 8"
    using assms(1,2) by (simp add: dlmm_sdk_ok_def)
  then show ?thesis
    using assms(3) find_dlmm_kind [OF assms(1,2)] by (simp add: dlmm_parse_def dlmm_ix_dispatch_def)
qed

lemma dlmm_accounts_read_back:
  assumes "k \<in> set dlmm_kinds" "fits (dk_layout k) a"
  shows "from_pubkeys (dk_layout k) (map am_pubkey (to_account_metas (dk_layout k) a)) = Inr a"
proof (rule layout_build_parse)
  note shape = dlmm_layout_shape [OF assms(1)]
  have none: "ac_conditional a = []" "ac_resolved a = []"
    using assms(2) shape by (auto simp: fits_def)
  then have "sequence_error (dk_layout k) a = None"
    using shape by (subst sequence_error_None_iff) (simp_all add: prefix_shape_def)
  then show "try_to_account_metas (dk_layout k) a = Inr (to_account_metas (dk_layout k) a)"
    by (simp add: try_to_account_metas_def)
  show "resolves (wanted (dk_layout k) (ac_named a)) (ac_resolved a) (ac_rest a)"
    using none shape by (simp add: wanted_def)
  show "layout_ok (dk_layout k)"
    using shape by (simp add: layout_ok_def)
qed (rule assms(2))

text \<open>C38: Every DLMM instruction is read back as it was built. For each of the 71 kinds, an instruction that
  is built from accounts that fit its layout, with arguments exactly if the kind takes them, is
  dispatched to the same kind, with the same accounts and the same arguments.\<close>

theorem dlmm_instruction_roundtrip:
  assumes "dlmm_sdk_ok S" and "k \<in> set dlmm_kinds" and "dlmm_ix_ok k x"
    and "pi_accounts p = map am_pubkey (in_accounts (dlmm_ix_instruction S k x))"
    and "pi_data p = in_data (dlmm_ix_instruction S k x)"
  shows "dlmm_parse S p = Inr x"
proof -
  have "dlmm_parse S p = dlmm_ix_parse S k p"
    using assms(5) by (intro dlmm_parse_kind [OF assms(1,2)]) (simp add: dlmm_ix_instruction_def)
  moreover have "from_pubkeys (dk_layout k) (pi_accounts p) = Inr (dx_accounts x)"
    using dlmm_accounts_read_back [OF assms(2)] assms(3,4) by (simp add: dlmm_ix_ok_def dlmm_ix_instruction_def)
  moreover have "length (ds_discriminator S (dk_name k)) = 8"
    and "\<And>v. ds_read_args S (dk_name k) (ds_write_args S (dk_name k) v) = Inr (v, [])"
    using assms(1,2) by (simp_all add: dlmm_sdk_ok_def)
  ultimately show ?thesis
    using assms(3,5)
    by (cases "dx_args x") (auto simp: dlmm_ix_parse_def dlmm_ix_ok_def dlmm_ix_instruction_def parse_anchor_args_def)
qed

text \<open>What follows the declared accounts of a DLMM instruction makes it unreadable. But for one kind of
  deposit, no layout has a place for more accounts; so a swap that names a bin array, as every swap
  of the program does, is refused with the first of them.\<close>

lemma dlmm_trailing_accounts_refused:
  assumes "dlmm_sdk_ok S" and "k \<in> set dlmm_kinds" and "dk_name k \<noteq> ''add_liquidity_by_strategy2''"
    and "pi_data p = ds_discriminator S (dk_name k) @ args"
    and "pi_accounts p = declared @ bin_array # others" and "length declared = account_count (dk_layout k)"
  shows "dlmm_parse S p =
    Inl (UnmodelledAccounts (account_count (dk_layout k)) (length (pi_accounts p)) bin_array)"
proof -
  have "from_pubkeys (dk_layout k) (pi_accounts p) =
      Inl (UnmodelledAccounts (account_count (dk_layout k)) (length (pi_accounts p)) (pi_accounts p ! length declared))"
    using from_pubkeys_closed_layout(2) [of "dk_layout k" "pi_accounts p"] dlmm_layout_shape [OF assms(2)]
      dlmm_layout_closed [OF assms(2,3)] assms(5,6) by simp
  then show ?thesis
    using dlmm_parse_kind [OF assms(1,2,4)] assms(5) by (simp add: dlmm_ix_parse_def)
qed

text \<open>An instruction without arguments does not look at what follows its discriminator.\<close>

lemma dlmm_no_args_ignores_data:
  assumes "dlmm_sdk_ok S" "k \<in> set dlmm_kinds" "\<not> dk_takes_args k"
    and "pi_data p = ds_discriminator S (dk_name k) @ junk"
  shows "dlmm_parse S p = dlmm_parse S (p \<lparr> pi_data := ds_discriminator S (dk_name k) \<rparr>)"
  using dlmm_parse_kind [OF assms(1,2,4)]
    dlmm_parse_kind [OF assms(1,2), of "p \<lparr> pi_data := ds_discriminator S (dk_name k) \<rparr>" "[]"] assms(3)
  by (cases "from_pubkeys (dk_layout k) (pi_accounts p)") (simp_all add: dlmm_ix_parse_def)

text \<open>An SDK whose discriminators are the positions in the table, and whose arguments are bytes.\<close>

definition example_sdk :: "bytes dlmm_sdk" where
  "example_sdk =
     \<lparr> ds_discriminator = (\<lambda>n. of_nat (length (takeWhile (\<lambda>m. m \<noteq> n) (map dk_name dlmm_kinds))) # replicate 7 0),
       ds_read_args = (\<lambda>n bs. Inr (bs, [])), ds_write_args = (\<lambda>n v. v), ds_program_id = [] \<rparr>"

lemma positions_distinct:
  assumes "distinct ns" "length ns \<le> 256"
  shows "distinct (map (\<lambda>n. (of_nat (length (takeWhile (\<lambda>m. m \<noteq> n) ns)) :: u8)) ns)"
proof -
  have pos: "length (takeWhile (\<lambda>m. m \<noteq> ns ! i) ns) = i" if "i < length ns" for i
  proof -
    have "\<forall>j < i. ns ! j \<noteq> ns ! i"
      using assms(1) that by (auto simp: nth_eq_iff_index_eq)
    then show ?thesis
      using that by (intro takeWhile_eq_take_P_nth [THEN arg_cong [where f = length], THEN trans]) auto
  qed
  show ?thesis
    using pos assms(2)
    by (auto simp: distinct_conv_nth word_of_nat_eq_iff take_bit_nat_eq_self)
qed

lemma example_sdk_ok: "dlmm_sdk_ok example_sdk"
proof -
  have names: "distinct (map dk_name dlmm_kinds)" "length (map dk_name dlmm_kinds) \<le> 256"
    by (simp_all add: dlmm_kinds_def dlmm_kind_defs)
  have "distinct (map (\<lambda>k. ds_discriminator example_sdk (dk_name k)) dlmm_kinds)"
    using positions_distinct [OF names] by (simp add: example_sdk_def distinct_map comp_def inj_on_def)
  then show ?thesis
    by (simp add: dlmm_sdk_ok_def example_sdk_def)
qed

definition example_swap_ix :: "bytes dlmm_ix" where
  "example_swap_ix =
     \<lparr> dx_kind = ''swap'',
       dx_accounts = \<lparr> ac_named = map (\<lambda>i. Some [of_nat i]) [1..<16], ac_conditional = [], ac_resolved = [], ac_rest = [] \<rparr>,
       dx_args = Some [1, 2, 3] \<rparr>"

definition example_swap_sent :: parsed_instruction where
  "example_swap_sent =
     parsed_instruction_new [] (map am_pubkey (in_accounts (dlmm_ix_instruction example_sdk dlmm_swap_ix example_swap_ix)))
       (in_data (dlmm_ix_instruction example_sdk dlmm_swap_ix example_swap_ix)) 1 0"

lemma example_swap_kind: "dlmm_swap_ix \<in> set dlmm_kinds"
  by (simp add: dlmm_kinds_def)

theorem dlmm_instruction_roundtrip_witness:
  "dlmm_parse example_sdk example_swap_sent = Inr example_swap_ix"
proof (rule dlmm_instruction_roundtrip [OF example_sdk_ok example_swap_kind])
  show "dlmm_ix_ok dlmm_swap_ix example_swap_ix"
    by (simp add: dlmm_ix_ok_def example_swap_ix_def dlmm_swap_ix_def dlmm_swap_layout_def plain_layout_def
        fits_def slot_defs slot_fits_def upt_rec)
qed (simp_all add: example_swap_sent_def parsed_instruction_new_def)

end
