(* ===== verification/Verify.thy ===== *)
theory Verify
  imports Quote
begin

text \<open>
  Grading quotes against executed swaps (verify.rs). A quote is any implementation of the swap
  interface, a function from parameters to an outcome; a panic of the quote is a panic of the grade.
  The theorem instantiates it with the Pump.fun bundle.
\<close>

section \<open>Error texts\<close>

text \<open>\<open>Display\<close> of the error (error.rs); the text of a key is base58, a parameter.\<close>

fun show_error :: "(pubkey \<Rightarrow> string) \<Rightarrow> error \<Rightarrow> string" where
  "show_error sk (InvalidAccountData m) = ''invalid account data: '' @ m"
| "show_error sk (DiscriminatorMismatch e a) = ''discriminator mismatch: expected '' @ e @ '', got '' @ a"
| "show_error sk (AccountDataTooShort e a) =
     ''account data too short: need '' @ show_nat e @ '' bytes, got '' @ show_nat a"
| "show_error sk ZeroAmount = ''swap amount cannot be zero''"
| "show_error sk InsufficientLiquidityData =
     ''quote exhausted the cached liquidity data before completing the swap''"
| "show_error sk (InsufficientReserves n a) =
     ''insufficient reserves: need '' @ show_nat (unat n) @ '', have '' @ show_nat (unat a)"
| "show_error sk (ExcessivePriceImpact i m) =
     ''price impact too high: '' @ show_nat (unat i) @ '' bps exceeds max '' @ show_nat (unat m) @ '' bps''"
| "show_error sk ArithmeticOverflow = ''arithmetic overflow in swap calculation''"
| "show_error sk (FeesExceedOutput g t) =
     ''trade too small: gross output '' @ show_nat (unat g) @ '' does not cover fees '' @ show_nat (unat t)"
| "show_error sk BondingCurveCompleted = ''bonding curve has completed (graduated to AMM)''"
| "show_error sk (PoolPaused r) = ''pool is paused: '' @ r"
| "show_error sk (PoolNotFound k) = ''pool not found at '' @ sk k"
| "show_error sk (error.MissingAccount n) = ''missing required account: '' @ n"
| "show_error sk (InvalidPubkey f r) = ''invalid pubkey for '' @ f @ '': '' @ r"
| "show_error sk (IdlHashMismatch p e a) =
     ''IDL hash mismatch for '' @ p @ '': expected '' @ e @ '', got '' @ a"
| "show_error sk (IdlNotFound p) = ''IDL file not found: '' @ p"
| "show_error sk (ProtocolError p m) = p @ '' error: '' @ m"
| "show_error sk (OtherError m) = m"
| "show_error sk (BoxedError m) = m"

section \<open>Observations and verdicts\<close>

datatype fee_side = FeeInput | FeeOutput

record observed_swap =
  ob_direction :: swap_direction
  ob_amount_in :: u64
  ob_amount_out :: u64
  ob_fee_amount :: "u64 option"
  ob_fee_side :: fee_side

datatype check = QuoteExactIn | QuoteExactOut

datatype divergence = Rounding | FeeRate | Structural

definition abs_diff :: "u64 \<Rightarrow> u64 \<Rightarrow> u64" where
  "abs_diff a b = (if a < b then b - a else a - b)"

definition divergence_classify :: "u64 \<Rightarrow> u64 \<Rightarrow> divergence" where
  "divergence_classify predicted observed =
     (let diff = abs_diff predicted observed
      in if diff \<le> 2 then Rounding
         else if observed = 0 then Structural
         else if unat diff * 100 \<le> unat observed then FeeRate
         else Structural)"

datatype outcome_kind = GExact | GOff u64 u64 divergence | GRefused string | GSkipped string

record verdict =
  vd_check :: check
  vd_outcome :: outcome_kind

definition passed :: "verdict \<Rightarrow> bool" where
  "passed v \<longleftrightarrow> vd_outcome v = GExact"

section \<open>Grading\<close>

record pending =
  pd_check :: check
  pd_predicted :: "u64 option"
  pd_refusal :: "string option"

definition pending_compare :: "pending \<Rightarrow> u64 \<Rightarrow> verdict" where
  "pending_compare p observed =
     \<lparr> vd_check = pd_check p,
       vd_outcome =
         (case (pd_predicted p, pd_refusal p) of
            (Some predicted, _) \<Rightarrow>
              if predicted = observed then GExact
              else GOff predicted observed (divergence_classify predicted observed)
          | (None, Some reason) \<Rightarrow> GRefused reason
          | (None, None) \<Rightarrow> GSkipped ''no prediction and no refusal'') \<rparr>"

type_synonym quoter = "swap_params \<Rightarrow> (error, swap_output) outcome"

definition grade_run ::
    "(pubkey \<Rightarrow> string) \<Rightarrow> quoter \<Rightarrow> check \<Rightarrow> u64 \<Rightarrow> swap_direction \<Rightarrow> (swap_output \<Rightarrow> u64) \<Rightarrow> pending option" where
  "grade_run sk q chk n d pick =
     map_option
       (\<lambda>r. case r of
          Inr out \<Rightarrow> \<lparr> pd_check = chk, pd_predicted = Some (pick out), pd_refusal = None \<rparr>
        | Inl e \<Rightarrow> \<lparr> pd_check = chk, pd_predicted = None, pd_refusal = Some (show_error sk e) \<rparr>)
       (q \<lparr> sp_amount = (case chk of QuoteExactIn \<Rightarrow> ExactIn n | QuoteExactOut \<Rightarrow> ExactOut n), sp_direction = d \<rparr>)"

definition skipped :: "string \<Rightarrow> verdict" where
  "skipped reason = \<lparr> vd_check = QuoteExactIn, vd_outcome = GSkipped reason \<rparr>"

definition grade_curve :: "(pubkey \<Rightarrow> string) \<Rightarrow> quoter \<Rightarrow> observed_swap \<Rightarrow> verdict option" where
  "grade_curve sk zero_fee_quote s =
     (case ob_fee_amount s of
        None \<Rightarrow> Some (skipped ''observation carries no decoded fee'')
      | Some fee \<Rightarrow>
          (case ob_fee_side s of
             FeeInput \<Rightarrow>
               (case checked_sub (unat (ob_amount_in s)) (unat fee) of
                  None \<Rightarrow> Some (skipped ''reported fee exceeds the input amount'')
                | Some net \<Rightarrow>
                    map_option (\<lambda>p. pending_compare p (ob_amount_out s))
                      (grade_run sk zero_fee_quote QuoteExactIn (as_u64 net) (ob_direction s) so_amount_out))
           | FeeOutput \<Rightarrow>
               (case checked_add 64 (unat (ob_amount_out s)) (unat fee) of
                  None \<Rightarrow> Some (skipped ''output plus fee overflows'')
                | Some gross \<Rightarrow>
                    map_option (\<lambda>p. pending_compare p (as_u64 gross))
                      (grade_run sk zero_fee_quote QuoteExactIn (ob_amount_in s) (ob_direction s) so_amount_out))))"

definition grade_full :: "(pubkey \<Rightarrow> string) \<Rightarrow> quoter \<Rightarrow> observed_swap \<Rightarrow> verdict option" where
  "grade_full sk q s =
     map_option (\<lambda>p. pending_compare p (ob_amount_out s))
       (grade_run sk q QuoteExactIn (ob_amount_in s) (ob_direction s) so_amount_out)"

definition grade_inverse :: "(pubkey \<Rightarrow> string) \<Rightarrow> quoter \<Rightarrow> observed_swap \<Rightarrow> verdict option" where
  "grade_inverse sk q s =
     map_option (\<lambda>p. pending_compare p (ob_amount_in s))
       (grade_run sk q QuoteExactOut (ob_amount_out s) (ob_direction s) so_amount_in)"

section \<open>Tally\<close>

record tally =
  ty_exact :: u64
  ty_rounding :: u64
  ty_fee_rate :: u64
  ty_structural :: u64
  ty_refused :: u64
  ty_skipped :: u64

definition tally_default :: tally where
  "tally_default = \<lparr> ty_exact = 0, ty_rounding = 0, ty_fee_rate = 0, ty_structural = 0, ty_refused = 0, ty_skipped = 0 \<rparr>"

definition tally_record :: "verdict \<Rightarrow> tally \<Rightarrow> tally" where
  "tally_record v t =
     (case vd_outcome v of
        GExact \<Rightarrow> t \<lparr> ty_exact := ty_exact t + 1 \<rparr>
      | GOff _ _ Rounding \<Rightarrow> t \<lparr> ty_rounding := ty_rounding t + 1 \<rparr>
      | GOff _ _ FeeRate \<Rightarrow> t \<lparr> ty_fee_rate := ty_fee_rate t + 1 \<rparr>
      | GOff _ _ Structural \<Rightarrow> t \<lparr> ty_structural := ty_structural t + 1 \<rparr>
      | GRefused _ \<Rightarrow> t \<lparr> ty_refused := ty_refused t + 1 \<rparr>
      | GSkipped _ \<Rightarrow> t \<lparr> ty_skipped := ty_skipped t + 1 \<rparr>)"

definition tally_graded :: "tally \<Rightarrow> u64" where
  "tally_graded t = ty_exact t + ty_rounding t + ty_fee_rate t + ty_structural t"

definition tally_exact_rate :: "tally \<Rightarrow> f64 option" where
  "tally_exact_rate t =
     (if 0 < tally_graded t
      then Some (f_div (f_of_nat (unat (ty_exact t))) (f_of_nat (unat (tally_graded t)))) else None)"

text \<open>No verdict is lost: the counters add up to the verdicts, and \<open>exact\<close> counts the passes.\<close>

lemma tally_record_step:
  "tally_graded (tally_record v t) + ty_refused (tally_record v t) + ty_skipped (tally_record v t) =
     tally_graded t + ty_refused t + ty_skipped t + 1"
  "ty_exact (tally_record v t) = ty_exact t + (if passed v then 1 else 0)"
  by (cases "vd_outcome v"; simp add: tally_record_def tally_graded_def passed_def split: divergence.split)+

lemma tally_counts_all:
  "tally_graded (fold tally_record vs t) + ty_refused (fold tally_record vs t) + ty_skipped (fold tally_record vs t) =
     tally_graded t + ty_refused t + ty_skipped t + of_nat (length vs)"
  "ty_exact (fold tally_record vs t) = ty_exact t + of_nat (length (filter passed vs))"
  by (induction vs arbitrary: t) (simp_all add: tally_record_step)

section \<open>The curve apart from the fees\<close>

lemma run_exact:
  "q \<lparr> sp_amount = ExactIn n, sp_direction = d \<rparr> = Some (Inr out) \<Longrightarrow>
   grade_run sk q QuoteExactIn n d so_amount_out =
     Some \<lparr> pd_check = QuoteExactIn, pd_predicted = Some (so_amount_out out), pd_refusal = None \<rparr>"
  by (simp add: grade_run_def)

definition no_fees :: pumpfun_fees where
  "no_fees = \<lparr> pf_lp_fee_bps = 0, pf_protocol_fee_bps = 0, pf_creator_fee_bps = 0 \<rparr>"

lemma buy_fee_no_fees [simp]: "buy_fee no_fees n = 0"
  by (simp add: buy_fee_def fee_of_def no_fees_def)

definition executed :: "swap_direction \<Rightarrow> swap_output \<Rightarrow> fee_side \<Rightarrow> observed_swap" where
  "executed d out side =
     \<lparr> ob_direction = d, ob_amount_in = so_amount_in out, ob_amount_out = so_amount_out out,
       ob_fee_amount = Some (so_fee out), ob_fee_side = side \<rparr>"

lemma full_executed:
  assumes "q \<lparr> sp_amount = ExactIn (so_amount_in out), sp_direction = d \<rparr> = Some (Inr out)"
  shows "map_option passed (grade_full sk q (executed d out side)) = Some True"
  using run_exact [of q, OF assms] by (simp add: grade_full_def executed_def passed_def pending_compare_def)

lemma curve_executed_input:
  assumes "q \<lparr> sp_amount = ExactIn (as_u64 (unat (so_amount_in out) - unat (so_fee out))), sp_direction = d \<rparr> =
      Some (Inr out0)"
    and "so_amount_out out0 = so_amount_out out" "unat (so_fee out) \<le> unat (so_amount_in out)"
  shows "map_option passed (grade_curve sk q (executed d out FeeInput)) = Some True"
  using run_exact [of q, OF assms(1)] assms(2,3)
  by (simp add: grade_curve_def executed_def passed_def pending_compare_def checked_sub_def del: of_nat_diff)

lemma curve_executed_output:
  assumes "q \<lparr> sp_amount = ExactIn (so_amount_in out), sp_direction = d \<rparr> = Some (Inr out0)"
    and "unat (so_amount_out out0) = unat (so_amount_out out) + unat (so_fee out)"
  shows "map_option passed (grade_curve sk q (executed d out FeeOutput)) = Some True"
proof -
  have "so_amount_out out0 = as_u64 (unat (so_amount_out out) + unat (so_fee out))"
    using assms(2) by (metis word_unat_eq_iff unat_as_u64 unat_u64_less)
  then show ?thesis
    using run_exact [of q, OF assms(1)] assms(2) unat_u64_less [of "so_amount_out out0"]
    by (simp add: grade_curve_def executed_def passed_def pending_compare_def checked_add_def del: of_nat_add)
qed

text \<open>C37: The two grades separate the curve from the fees. Let a Pump.fun buy or sell execute as our quote
  prices it, at whatever fees: then the whole quote is graded exact, and so is a quote of the same
  curve with zero fees, when the fee is given back to the side it was taken from, the input of a buy
  and the output of a sell. So a full grade that fails where the curve grade passes is a matter of
  the fees.\<close>

theorem grades_separate_curve_from_fees:
  fixes c f sol tok
  assumes "\<not> bc_complete c" and "tok \<noteq> 0"
    and "buy_fee f (unat sol) < unat sol"
    and "let gross = cp_out (unat (bc_virtual_token_reserves c)) (unat (bc_virtual_quote_reserves c)) (unat tok)
         in buy_fee f gross \<le> gross"
  shows "\<exists>b s. calculate_swap_with_fees oc c (buy sol) f = Some (Inr b) \<and>
    calculate_swap_with_fees oc c (sell tok) f = Some (Inr s) \<and>
    map_option passed (grade_full sk (\<lambda>p. calculate_swap_with_fees oc c p f) (executed Buy b FeeInput)) = Some True \<and>
    map_option passed (grade_curve sk (\<lambda>p. calculate_swap_with_fees oc c p no_fees) (executed Buy b FeeInput)) = Some True \<and>
    map_option passed (grade_full sk (\<lambda>p. calculate_swap_with_fees oc c p f) (executed Sell s FeeOutput)) = Some True \<and>
    map_option passed (grade_curve sk (\<lambda>p. calculate_swap_with_fees oc c p no_fees) (executed Sell s FeeOutput)) = Some True"
proof -
  let ?q = "unat (bc_virtual_quote_reserves c)" and ?t = "unat (bc_virtual_token_reserves c)"
  let ?net = "unat sol - buy_fee f (unat sol)" and ?gross = "cp_out ?t ?q (unat tok)"
  have sol: "sol \<noteq> 0" and cover: "buy_fee f (unat sol) \<le> unat sol" and net: "0 < ?net"
    using assms(3) by (auto simp: unat_gt_0)
  obtain b where b: "calculate_buy oc c sol f = Some (Inr b)" "so_amount_in b = sol"
      "unat (so_amount_out b) = cp_out ?q ?t ?net" "unat (so_fee b) = buy_fee f (unat sol)"
    using calculate_buy_ok [OF assms(1) sol cover, where oc = oc] net by auto
  have n64: "?net < 2 ^ 64"
    using unat_u64_less [of sol] by linarith
  have n: "unat (as_u64 ?net) = ?net" "as_u64 ?net \<noteq> 0"
    using n64 net by (simp_all only: unat_as_u64) (metis unat_as_u64 unat_0 less_irrefl)
  obtain b0 where b0: "calculate_buy oc c (as_u64 ?net) no_fees = Some (Inr b0)" "so_amount_out b0 = so_amount_out b"
    using calculate_buy_ok [OF assms(1) n(2), of no_fees oc] net n(1) b(3) by (auto simp: word_unat_eq_iff)
  obtain s where s: "calculate_sell oc c tok f = Some (Inr s)" "so_amount_in s = tok"
      "unat (so_amount_out s) = ?gross - buy_fee f ?gross" "unat (so_fee s) = buy_fee f ?gross"
    using calculate_sell_ok [OF assms(1,2), of f oc] assms(4) by (auto simp: Let_def)
  obtain s0 where s0: "calculate_sell oc c tok no_fees = Some (Inr s0)" "unat (so_amount_out s0) = ?gross"
    using calculate_sell_ok [OF assms(1,2), of no_fees oc] by auto
  have swaps: "calculate_swap_with_fees oc c \<lparr> sp_amount = ExactIn (as_u64 ?net), sp_direction = Buy \<rparr> no_fees = Some (Inr b0)"
    "calculate_swap_with_fees oc c \<lparr> sp_amount = ExactIn sol, sp_direction = Buy \<rparr> f = Some (Inr b)"
    "calculate_swap_with_fees oc c \<lparr> sp_amount = ExactIn tok, sp_direction = Sell \<rparr> no_fees = Some (Inr s0)"
    "calculate_swap_with_fees oc c \<lparr> sp_amount = ExactIn tok, sp_direction = Sell \<rparr> f = Some (Inr s)"
    using b(1) b0(1) s(1) s0(1) by (simp_all add: calculate_swap_with_fees_def)
  have "map_option passed (grade_full sk (\<lambda>p. calculate_swap_with_fees oc c p f) (executed Buy b FeeInput)) = Some True"
    using swaps(2) b(2) by (intro full_executed) simp
  moreover have "map_option passed (grade_full sk (\<lambda>p. calculate_swap_with_fees oc c p f) (executed Sell s FeeOutput)) = Some True"
    using swaps(4) s(2) by (intro full_executed) simp
  moreover have "map_option passed (grade_curve sk (\<lambda>p. calculate_swap_with_fees oc c p no_fees) (executed Buy b FeeInput)) = Some True"
    using swaps(1) b(2,4) cover by (intro curve_executed_input [OF _ b0(2)]) (simp_all del: of_nat_diff)
  moreover have "map_option passed (grade_curve sk (\<lambda>p. calculate_swap_with_fees oc c p no_fees) (executed Sell s FeeOutput)) = Some True"
    using swaps(3) s(2,3,4) s0(2) assms(4) by (intro curve_executed_output [of _ _ _ s0]) (simp_all add: Let_def)
  ultimately show ?thesis
    using swaps(2,4) by (auto simp: buy_def sell_def)
qed

theorem grades_separate_curve_from_fees_witness:
  "\<exists>b. calculate_swap_with_fees True initial_curve (buy 1000000000) compiled_in_fees = Some (Inr b) \<and>
     map_option passed (grade_curve (\<lambda>_. []) (\<lambda>p. calculate_swap_with_fees True initial_curve p no_fees)
       (executed Buy b FeeInput)) = Some True"
proof -
  have "\<not> bc_complete initial_curve" "(1000000 :: u64) \<noteq> 0"
    "buy_fee compiled_in_fees (unat (1000000000 :: u64)) < unat (1000000000 :: u64)"
    "let gross = cp_out (unat (bc_virtual_token_reserves initial_curve)) (unat (bc_virtual_quote_reserves initial_curve))
         (unat (1000000 :: u64))
     in buy_fee compiled_in_fees gross \<le> gross"
    by (simp_all add: initial_curve_sel buy_fee_def fee_of_def ceil_div_def compiled_in_fees_def cp_out_def Let_def)
  from grades_separate_curve_from_fees [OF this, of True "\<lambda>_. []"] show ?thesis
    by auto
qed

end
