(* ===== verification/PoolInstructions.thy ===== *)
theory PoolInstructions
  imports PumpBuild RaydiumLaunchpad MeteoraDbc RaydiumClmm
begin

text \<open>
  The instructions of the other pools: the parameters and the instruction enums of Raydium V4, CLMM,
  CPMM and Launchpad and of Meteora DBC (their instructions/ directories), with the code that
  protocol_instruction.rs expands the enums to. What the five enums share is the locale
  \<open>instruction_enum\<close>: what is written is read back, different instructions have different bytes, and
  a discriminator that no row has is refused.
\<close>

section \<open>The table of an enum, at any size of discriminator\<close>

text \<open>The discriminator in an error is eight bytes: a shorter one is filled up with zeros.\<close>

definition try_from_slice_sized :: "nat \<Rightarrow> (bytes \<times> (bytes \<Rightarrow> instruction_parse_error + 'a)) list \<Rightarrow> bytes \<Rightarrow>
    instruction_parse_error + 'a" where
  "try_from_slice_sized width rows data =
     (if length data < width then Inl DataTooShort
      else
        (case find (\<lambda>(disc, _). take width data = disc) rows of
           Some (_, dec) \<Rightarrow> dec (drop width data)
         | None \<Rightarrow> Inl (UnknownDiscriminator (take width data @ replicate (8 - width) 0))))"

lemma try_from_slice_sized_8: "try_from_slice_sized 8 = try_from_slice"
  by (intro ext) (simp add: try_from_slice_sized_def try_from_slice_def split: option.split)

definition variant :: "bytes \<Rightarrow> ('p \<Rightarrow> 'a) \<Rightarrow> string \<Rightarrow> 'p reader \<Rightarrow>
    bytes \<times> (bytes \<Rightarrow> instruction_parse_error + 'a)" where
  "variant disc wrap ty r = (disc, \<lambda>args. map_sum id wrap (from_instruction_data ty r args))"

lemma variant_decodes: "r args = Inr (p, []) \<Longrightarrow> snd (variant disc wrap ty r) args = Inr (wrap p)"
  by (simp add: variant_def from_instruction_data_def)

lemma fst_variant [simp]: "fst (variant disc wrap ty r) = disc"
  by (simp add: variant_def)

locale instruction_enum =
  fixes width :: nat
    and rows :: "borsh \<Rightarrow> (bytes \<times> (bytes \<Rightarrow> instruction_parse_error + 'a)) list"
    and disc :: "'a \<Rightarrow> bytes"
    and args :: "'a \<Rightarrow> bytes"
  assumes row: "borsh_ok B \<Longrightarrow> \<exists>r \<in> set (rows B). fst r = disc ix \<and> snd r (args ix) = Inr ix"
    and apart: "distinct (map fst (rows B))"
    and sized: "r \<in> set (rows B) \<Longrightarrow> length (fst r) = width"
begin

lemma disc_length: "length (disc ix) = width"
  using row [OF borsh_std_ok, of ix] sized by metis

lemma reads_back:
  assumes "borsh_ok B"
  shows "try_from_slice_sized width (rows B) (disc ix @ args ix) = Inr ix"
proof -
  obtain r where r: "r \<in> set (rows B)" "fst r = disc ix" "snd r (args ix) = Inr ix"
    using row [OF assms] by blast
  then have "find (\<lambda>(d, _). disc ix = d) (rows B) = Some (disc ix, snd r)"
    by (intro find_distinct_row apart) (metis prod.collapse)
  then show ?thesis
    using r(3) disc_length by (simp add: try_from_slice_sized_def)
qed

lemma data_inject: "disc ix @ args ix = disc jx @ args jx \<Longrightarrow> ix = jx"
  by (metis reads_back [OF borsh_std_ok] sum.inject(2))

lemma unknown_refused:
  assumes "take width data \<notin> fst ` set (rows B)"
  shows "\<exists>e. try_from_slice_sized width (rows B) data = Inl e \<and>
    (e = DataTooShort \<or> e = UnknownDiscriminator (take width data @ replicate (8 - width) 0))"
proof -
  have "find (\<lambda>(d, _). take width data = d) (rows B) = None"
    unfolding find_None_iff using assms by (auto intro: rev_image_eqI)
  then show ?thesis
    by (simp add: try_from_slice_sized_def)
qed

end

section \<open>Raydium V4\<close>

record v4_swap_base_in_params =
  vbi_amount_in :: u64
  vbi_minimum_amount_out :: u64

definition read_v4_swap_base_in_params :: "borsh \<Rightarrow> v4_swap_base_in_params reader" where
  "read_v4_swap_base_in_params B =
     rbind (rd_u64 B) (\<lambda>a. rbind (rd_u64 B) (\<lambda>b. 
     rret \<lparr> vbi_amount_in = a, vbi_minimum_amount_out = b \<rparr>))"

definition write_v4_swap_base_in_params :: "v4_swap_base_in_params \<Rightarrow> bytes" where
  "write_v4_swap_base_in_params p =
     le_bytes 8 (unat (vbi_amount_in p)) @ le_bytes 8 (unat (vbi_minimum_amount_out p))"

record v4_swap_base_out_params =
  vbo_max_amount_in :: u64
  vbo_amount_out :: u64

definition read_v4_swap_base_out_params :: "borsh \<Rightarrow> v4_swap_base_out_params reader" where
  "read_v4_swap_base_out_params B =
     rbind (rd_u64 B) (\<lambda>a. rbind (rd_u64 B) (\<lambda>b. 
     rret \<lparr> vbo_max_amount_in = a, vbo_amount_out = b \<rparr>))"

definition write_v4_swap_base_out_params :: "v4_swap_base_out_params \<Rightarrow> bytes" where
  "write_v4_swap_base_out_params p =
     le_bytes 8 (unat (vbo_max_amount_in p)) @ le_bytes 8 (unat (vbo_amount_out p))"

record v4_initialize2_params =
  vin_nonce :: u8
  vin_open_time :: u64
  vin_init_pc_amount :: u64
  vin_init_coin_amount :: u64

definition read_v4_initialize2_params :: "borsh \<Rightarrow> v4_initialize2_params reader" where
  "read_v4_initialize2_params B =
     rbind (rd_u8 B) (\<lambda>a. rbind (rd_u64 B) (\<lambda>b. rbind (rd_u64 B) (\<lambda>c. rbind (rd_u64 B) (\<lambda>d. 
     rret \<lparr> vin_nonce = a, vin_open_time = b, vin_init_pc_amount = c, vin_init_coin_amount = d \<rparr>))))"

definition write_v4_initialize2_params :: "v4_initialize2_params \<Rightarrow> bytes" where
  "write_v4_initialize2_params p =
     [vin_nonce p] @ le_bytes 8 (unat (vin_open_time p)) @ le_bytes 8 (unat (vin_init_pc_amount p)) @ le_bytes 8 (unat (vin_init_coin_amount p))"

record v4_deposit_params =
  vde_max_coin_amount :: u64
  vde_max_pc_amount :: u64
  vde_base_side :: u64

definition read_v4_deposit_params :: "borsh \<Rightarrow> v4_deposit_params reader" where
  "read_v4_deposit_params B =
     rbind (rd_u64 B) (\<lambda>a. rbind (rd_u64 B) (\<lambda>b. rbind (rd_u64 B) (\<lambda>c. 
     rret \<lparr> vde_max_coin_amount = a, vde_max_pc_amount = b, vde_base_side = c \<rparr>)))"

definition write_v4_deposit_params :: "v4_deposit_params \<Rightarrow> bytes" where
  "write_v4_deposit_params p =
     le_bytes 8 (unat (vde_max_coin_amount p)) @ le_bytes 8 (unat (vde_max_pc_amount p)) @ le_bytes 8 (unat (vde_base_side p))"

record v4_withdraw_params =
  vwi_amount :: u64

definition read_v4_withdraw_params :: "borsh \<Rightarrow> v4_withdraw_params reader" where
  "read_v4_withdraw_params B =
     rbind (rd_u64 B) (\<lambda>a. 
     rret \<lparr> vwi_amount = a \<rparr>)"

definition write_v4_withdraw_params :: "v4_withdraw_params \<Rightarrow> bytes" where
  "write_v4_withdraw_params p =
     le_bytes 8 (unat (vwi_amount p))"

definition v4_swap_base_in_disc :: bytes where
  "v4_swap_base_in_disc = [9]"

definition v4_swap_base_out_disc :: bytes where
  "v4_swap_base_out_disc = [11]"

definition v4_initialize2_disc :: bytes where
  "v4_initialize2_disc = [1]"

definition v4_deposit_disc :: bytes where
  "v4_deposit_disc = [3]"

definition v4_withdraw_disc :: bytes where
  "v4_withdraw_disc = [4]"

datatype v4_instruction =
    V4SwapBaseIn v4_swap_base_in_params
  | V4SwapBaseOut v4_swap_base_out_params
  | V4Initialize2 v4_initialize2_params
  | V4Deposit v4_deposit_params
  | V4Withdraw v4_withdraw_params

fun v4_instruction_discriminator :: "v4_instruction \<Rightarrow> bytes" where
  "v4_instruction_discriminator (V4SwapBaseIn _) = v4_swap_base_in_disc"
| "v4_instruction_discriminator (V4SwapBaseOut _) = v4_swap_base_out_disc"
| "v4_instruction_discriminator (V4Initialize2 _) = v4_initialize2_disc"
| "v4_instruction_discriminator (V4Deposit _) = v4_deposit_disc"
| "v4_instruction_discriminator (V4Withdraw _) = v4_withdraw_disc"

fun v4_instruction_args :: "v4_instruction \<Rightarrow> bytes" where
  "v4_instruction_args (V4SwapBaseIn p) = write_v4_swap_base_in_params p"
| "v4_instruction_args (V4SwapBaseOut p) = write_v4_swap_base_out_params p"
| "v4_instruction_args (V4Initialize2 p) = write_v4_initialize2_params p"
| "v4_instruction_args (V4Deposit p) = write_v4_deposit_params p"
| "v4_instruction_args (V4Withdraw p) = write_v4_withdraw_params p"

definition v4_instruction_data :: "v4_instruction \<Rightarrow> bytes" where
  "v4_instruction_data ix = v4_instruction_discriminator ix @ v4_instruction_args ix"

definition v4_instruction_rows :: "borsh \<Rightarrow> (bytes \<times> (bytes \<Rightarrow> instruction_parse_error + v4_instruction)) list" where
  "v4_instruction_rows B =
    [variant v4_swap_base_in_disc V4SwapBaseIn ''solana_protocols::protocols::raydium_v4::instructions::swap::SwapBaseInParams'' (read_v4_swap_base_in_params B),
     variant v4_swap_base_out_disc V4SwapBaseOut ''solana_protocols::protocols::raydium_v4::instructions::swap::SwapBaseOutParams'' (read_v4_swap_base_out_params B),
     variant v4_initialize2_disc V4Initialize2 ''solana_protocols::protocols::raydium_v4::instructions::initialize2::Initialize2Params'' (read_v4_initialize2_params B),
     variant v4_deposit_disc V4Deposit ''solana_protocols::protocols::raydium_v4::instructions::deposit::DepositParams'' (read_v4_deposit_params B),
     variant v4_withdraw_disc V4Withdraw ''solana_protocols::protocols::raydium_v4::instructions::withdraw::WithdrawParams'' (read_v4_withdraw_params B)]"

section \<open>Raydium CLMM\<close>

record clmm_swap_params =
  csw_amount :: u64
  csw_other_amount_threshold :: u64
  csw_sqrt_price_limit_x64 :: u128
  csw_is_base_input :: bool

definition read_clmm_swap_params :: "borsh \<Rightarrow> clmm_swap_params reader" where
  "read_clmm_swap_params B =
     rbind (rd_u64 B) (\<lambda>a. rbind (rd_u64 B) (\<lambda>b. rbind (rd_u128 B) (\<lambda>c. rbind (rd_bool B) (\<lambda>d. 
     rret \<lparr> csw_amount = a, csw_other_amount_threshold = b, csw_sqrt_price_limit_x64 = c, csw_is_base_input = d \<rparr>))))"

definition write_clmm_swap_params :: "clmm_swap_params \<Rightarrow> bytes" where
  "write_clmm_swap_params p =
     le_bytes 8 (unat (csw_amount p)) @ le_bytes 8 (unat (csw_other_amount_threshold p)) @ le_bytes 16 (unat (csw_sqrt_price_limit_x64 p)) @ [bool_byte (csw_is_base_input p)]"

record clmm_swap_v2_params =
  csv_amount :: u64
  csv_other_amount_threshold :: u64
  csv_sqrt_price_limit_x64 :: u128
  csv_is_base_input :: bool

definition read_clmm_swap_v2_params :: "borsh \<Rightarrow> clmm_swap_v2_params reader" where
  "read_clmm_swap_v2_params B =
     rbind (rd_u64 B) (\<lambda>a. rbind (rd_u64 B) (\<lambda>b. rbind (rd_u128 B) (\<lambda>c. rbind (rd_bool B) (\<lambda>d. 
     rret \<lparr> csv_amount = a, csv_other_amount_threshold = b, csv_sqrt_price_limit_x64 = c, csv_is_base_input = d \<rparr>))))"

definition write_clmm_swap_v2_params :: "clmm_swap_v2_params \<Rightarrow> bytes" where
  "write_clmm_swap_v2_params p =
     le_bytes 8 (unat (csv_amount p)) @ le_bytes 8 (unat (csv_other_amount_threshold p)) @ le_bytes 16 (unat (csv_sqrt_price_limit_x64 p)) @ [bool_byte (csv_is_base_input p)]"

definition clmm_swap_disc :: bytes where
  "clmm_swap_disc = [248, 198, 158, 145, 225, 117, 135, 200]"

definition clmm_swap_v2_disc :: bytes where
  "clmm_swap_v2_disc = [43, 4, 237, 11, 26, 201, 30, 98]"

datatype clmm_instruction =
    ClmmSwap clmm_swap_params
  | ClmmSwapV2 clmm_swap_v2_params

fun clmm_instruction_discriminator :: "clmm_instruction \<Rightarrow> bytes" where
  "clmm_instruction_discriminator (ClmmSwap _) = clmm_swap_disc"
| "clmm_instruction_discriminator (ClmmSwapV2 _) = clmm_swap_v2_disc"

fun clmm_instruction_args :: "clmm_instruction \<Rightarrow> bytes" where
  "clmm_instruction_args (ClmmSwap p) = write_clmm_swap_params p"
| "clmm_instruction_args (ClmmSwapV2 p) = write_clmm_swap_v2_params p"

definition clmm_instruction_data :: "clmm_instruction \<Rightarrow> bytes" where
  "clmm_instruction_data ix = clmm_instruction_discriminator ix @ clmm_instruction_args ix"

definition clmm_instruction_rows :: "borsh \<Rightarrow> (bytes \<times> (bytes \<Rightarrow> instruction_parse_error + clmm_instruction)) list" where
  "clmm_instruction_rows B =
    [variant clmm_swap_disc ClmmSwap ''solana_protocols::protocols::raydium_clmm::instructions::swap::SwapParams'' (read_clmm_swap_params B),
     variant clmm_swap_v2_disc ClmmSwapV2 ''solana_protocols::protocols::raydium_clmm::instructions::swap_v2::SwapV2Params'' (read_clmm_swap_v2_params B)]"

section \<open>Raydium CPMM\<close>

record cpmm_swap_base_input_params =
  cbi_amount_in :: u64
  cbi_minimum_amount_out :: u64

definition read_cpmm_swap_base_input_params :: "borsh \<Rightarrow> cpmm_swap_base_input_params reader" where
  "read_cpmm_swap_base_input_params B =
     rbind (rd_u64 B) (\<lambda>a. rbind (rd_u64 B) (\<lambda>b. 
     rret \<lparr> cbi_amount_in = a, cbi_minimum_amount_out = b \<rparr>))"

definition write_cpmm_swap_base_input_params :: "cpmm_swap_base_input_params \<Rightarrow> bytes" where
  "write_cpmm_swap_base_input_params p =
     le_bytes 8 (unat (cbi_amount_in p)) @ le_bytes 8 (unat (cbi_minimum_amount_out p))"

record cpmm_swap_base_output_params =
  cbo_maximum_amount_in :: u64
  cbo_amount_out :: u64

definition read_cpmm_swap_base_output_params :: "borsh \<Rightarrow> cpmm_swap_base_output_params reader" where
  "read_cpmm_swap_base_output_params B =
     rbind (rd_u64 B) (\<lambda>a. rbind (rd_u64 B) (\<lambda>b. 
     rret \<lparr> cbo_maximum_amount_in = a, cbo_amount_out = b \<rparr>))"

definition write_cpmm_swap_base_output_params :: "cpmm_swap_base_output_params \<Rightarrow> bytes" where
  "write_cpmm_swap_base_output_params p =
     le_bytes 8 (unat (cbo_maximum_amount_in p)) @ le_bytes 8 (unat (cbo_amount_out p))"

definition cpmm_swap_base_input_disc :: bytes where
  "cpmm_swap_base_input_disc = [143, 190, 90, 218, 196, 30, 51, 222]"

definition cpmm_swap_base_output_disc :: bytes where
  "cpmm_swap_base_output_disc = [55, 217, 98, 86, 163, 74, 180, 173]"

datatype cpmm_instruction =
    CpmmSwapBaseInput cpmm_swap_base_input_params
  | CpmmSwapBaseOutput cpmm_swap_base_output_params

fun cpmm_instruction_discriminator :: "cpmm_instruction \<Rightarrow> bytes" where
  "cpmm_instruction_discriminator (CpmmSwapBaseInput _) = cpmm_swap_base_input_disc"
| "cpmm_instruction_discriminator (CpmmSwapBaseOutput _) = cpmm_swap_base_output_disc"

fun cpmm_instruction_args :: "cpmm_instruction \<Rightarrow> bytes" where
  "cpmm_instruction_args (CpmmSwapBaseInput p) = write_cpmm_swap_base_input_params p"
| "cpmm_instruction_args (CpmmSwapBaseOutput p) = write_cpmm_swap_base_output_params p"

definition cpmm_instruction_data :: "cpmm_instruction \<Rightarrow> bytes" where
  "cpmm_instruction_data ix = cpmm_instruction_discriminator ix @ cpmm_instruction_args ix"

definition cpmm_instruction_rows :: "borsh \<Rightarrow> (bytes \<times> (bytes \<Rightarrow> instruction_parse_error + cpmm_instruction)) list" where
  "cpmm_instruction_rows B =
    [variant cpmm_swap_base_input_disc CpmmSwapBaseInput ''solana_protocols::protocols::raydium_cpmm::instructions::swap::SwapBaseInputParams'' (read_cpmm_swap_base_input_params B),
     variant cpmm_swap_base_output_disc CpmmSwapBaseOutput ''solana_protocols::protocols::raydium_cpmm::instructions::swap::SwapBaseOutputParams'' (read_cpmm_swap_base_output_params B)]"

section \<open>Raydium Launchpad\<close>

record launchpad_buy_exact_in_params =
  lbi_amount_in :: u64
  lbi_minimum_amount_out :: u64
  lbi_share_fee_rate :: u64

definition read_launchpad_buy_exact_in_params :: "borsh \<Rightarrow> launchpad_buy_exact_in_params reader" where
  "read_launchpad_buy_exact_in_params B =
     rbind (rd_u64 B) (\<lambda>a. rbind (rd_u64 B) (\<lambda>b. rbind (rd_u64 B) (\<lambda>c. 
     rret \<lparr> lbi_amount_in = a, lbi_minimum_amount_out = b, lbi_share_fee_rate = c \<rparr>)))"

definition write_launchpad_buy_exact_in_params :: "launchpad_buy_exact_in_params \<Rightarrow> bytes" where
  "write_launchpad_buy_exact_in_params p =
     le_bytes 8 (unat (lbi_amount_in p)) @ le_bytes 8 (unat (lbi_minimum_amount_out p)) @ le_bytes 8 (unat (lbi_share_fee_rate p))"

record launchpad_buy_exact_out_params =
  lbo_amount_out :: u64
  lbo_maximum_amount_in :: u64
  lbo_share_fee_rate :: u64

definition read_launchpad_buy_exact_out_params :: "borsh \<Rightarrow> launchpad_buy_exact_out_params reader" where
  "read_launchpad_buy_exact_out_params B =
     rbind (rd_u64 B) (\<lambda>a. rbind (rd_u64 B) (\<lambda>b. rbind (rd_u64 B) (\<lambda>c. 
     rret \<lparr> lbo_amount_out = a, lbo_maximum_amount_in = b, lbo_share_fee_rate = c \<rparr>)))"

definition write_launchpad_buy_exact_out_params :: "launchpad_buy_exact_out_params \<Rightarrow> bytes" where
  "write_launchpad_buy_exact_out_params p =
     le_bytes 8 (unat (lbo_amount_out p)) @ le_bytes 8 (unat (lbo_maximum_amount_in p)) @ le_bytes 8 (unat (lbo_share_fee_rate p))"

record launchpad_sell_exact_in_params =
  lsi_amount_in :: u64
  lsi_minimum_amount_out :: u64
  lsi_share_fee_rate :: u64

definition read_launchpad_sell_exact_in_params :: "borsh \<Rightarrow> launchpad_sell_exact_in_params reader" where
  "read_launchpad_sell_exact_in_params B =
     rbind (rd_u64 B) (\<lambda>a. rbind (rd_u64 B) (\<lambda>b. rbind (rd_u64 B) (\<lambda>c. 
     rret \<lparr> lsi_amount_in = a, lsi_minimum_amount_out = b, lsi_share_fee_rate = c \<rparr>)))"

definition write_launchpad_sell_exact_in_params :: "launchpad_sell_exact_in_params \<Rightarrow> bytes" where
  "write_launchpad_sell_exact_in_params p =
     le_bytes 8 (unat (lsi_amount_in p)) @ le_bytes 8 (unat (lsi_minimum_amount_out p)) @ le_bytes 8 (unat (lsi_share_fee_rate p))"

record launchpad_sell_exact_out_params =
  lso_amount_out :: u64
  lso_maximum_amount_in :: u64
  lso_share_fee_rate :: u64

definition read_launchpad_sell_exact_out_params :: "borsh \<Rightarrow> launchpad_sell_exact_out_params reader" where
  "read_launchpad_sell_exact_out_params B =
     rbind (rd_u64 B) (\<lambda>a. rbind (rd_u64 B) (\<lambda>b. rbind (rd_u64 B) (\<lambda>c. 
     rret \<lparr> lso_amount_out = a, lso_maximum_amount_in = b, lso_share_fee_rate = c \<rparr>)))"

definition write_launchpad_sell_exact_out_params :: "launchpad_sell_exact_out_params \<Rightarrow> bytes" where
  "write_launchpad_sell_exact_out_params p =
     le_bytes 8 (unat (lso_amount_out p)) @ le_bytes 8 (unat (lso_maximum_amount_in p)) @ le_bytes 8 (unat (lso_share_fee_rate p))"

definition launchpad_buy_exact_in_disc :: bytes where
  "launchpad_buy_exact_in_disc = [250, 234, 13, 123, 213, 156, 19, 236]"

definition launchpad_buy_exact_out_disc :: bytes where
  "launchpad_buy_exact_out_disc = [24, 211, 116, 40, 105, 3, 153, 56]"

definition launchpad_sell_exact_in_disc :: bytes where
  "launchpad_sell_exact_in_disc = [149, 39, 222, 155, 211, 124, 152, 26]"

definition launchpad_sell_exact_out_disc :: bytes where
  "launchpad_sell_exact_out_disc = [95, 200, 71, 34, 8, 9, 11, 166]"

datatype launchpad_instruction =
    LpBuyExactIn launchpad_buy_exact_in_params
  | LpBuyExactOut launchpad_buy_exact_out_params
  | LpSellExactIn launchpad_sell_exact_in_params
  | LpSellExactOut launchpad_sell_exact_out_params

fun launchpad_instruction_discriminator :: "launchpad_instruction \<Rightarrow> bytes" where
  "launchpad_instruction_discriminator (LpBuyExactIn _) = launchpad_buy_exact_in_disc"
| "launchpad_instruction_discriminator (LpBuyExactOut _) = launchpad_buy_exact_out_disc"
| "launchpad_instruction_discriminator (LpSellExactIn _) = launchpad_sell_exact_in_disc"
| "launchpad_instruction_discriminator (LpSellExactOut _) = launchpad_sell_exact_out_disc"

fun launchpad_instruction_args :: "launchpad_instruction \<Rightarrow> bytes" where
  "launchpad_instruction_args (LpBuyExactIn p) = write_launchpad_buy_exact_in_params p"
| "launchpad_instruction_args (LpBuyExactOut p) = write_launchpad_buy_exact_out_params p"
| "launchpad_instruction_args (LpSellExactIn p) = write_launchpad_sell_exact_in_params p"
| "launchpad_instruction_args (LpSellExactOut p) = write_launchpad_sell_exact_out_params p"

definition launchpad_instruction_data :: "launchpad_instruction \<Rightarrow> bytes" where
  "launchpad_instruction_data ix = launchpad_instruction_discriminator ix @ launchpad_instruction_args ix"

definition launchpad_instruction_rows :: "borsh \<Rightarrow> (bytes \<times> (bytes \<Rightarrow> instruction_parse_error + launchpad_instruction)) list" where
  "launchpad_instruction_rows B =
    [variant launchpad_buy_exact_in_disc LpBuyExactIn ''solana_protocols::protocols::raydium_launchpad::instructions::swap::BuyExactInParams'' (read_launchpad_buy_exact_in_params B),
     variant launchpad_buy_exact_out_disc LpBuyExactOut ''solana_protocols::protocols::raydium_launchpad::instructions::swap::BuyExactOutParams'' (read_launchpad_buy_exact_out_params B),
     variant launchpad_sell_exact_in_disc LpSellExactIn ''solana_protocols::protocols::raydium_launchpad::instructions::swap::SellExactInParams'' (read_launchpad_sell_exact_in_params B),
     variant launchpad_sell_exact_out_disc LpSellExactOut ''solana_protocols::protocols::raydium_launchpad::instructions::swap::SellExactOutParams'' (read_launchpad_sell_exact_out_params B)]"

section \<open>Meteora DBC\<close>

record dbc_swap_params =
  dsw_amount_in :: u64
  dsw_minimum_amount_out :: u64

definition read_dbc_swap_params :: "borsh \<Rightarrow> dbc_swap_params reader" where
  "read_dbc_swap_params B =
     rbind (rd_u64 B) (\<lambda>a. rbind (rd_u64 B) (\<lambda>b. 
     rret \<lparr> dsw_amount_in = a, dsw_minimum_amount_out = b \<rparr>))"

definition write_dbc_swap_params :: "dbc_swap_params \<Rightarrow> bytes" where
  "write_dbc_swap_params p =
     le_bytes 8 (unat (dsw_amount_in p)) @ le_bytes 8 (unat (dsw_minimum_amount_out p))"

record dbc_swap2_params =
  dst_amount_0 :: u64
  dst_amount_1 :: u64
  dst_swap_mode :: u8

definition read_dbc_swap2_params :: "borsh \<Rightarrow> dbc_swap2_params reader" where
  "read_dbc_swap2_params B =
     rbind (rd_u64 B) (\<lambda>a. rbind (rd_u64 B) (\<lambda>b. rbind (rd_u8 B) (\<lambda>c. 
     rret \<lparr> dst_amount_0 = a, dst_amount_1 = b, dst_swap_mode = c \<rparr>)))"

definition write_dbc_swap2_params :: "dbc_swap2_params \<Rightarrow> bytes" where
  "write_dbc_swap2_params p =
     le_bytes 8 (unat (dst_amount_0 p)) @ le_bytes 8 (unat (dst_amount_1 p)) @ [dst_swap_mode p]"

definition dbc_swap_disc :: bytes where
  "dbc_swap_disc = [248, 198, 158, 145, 225, 117, 135, 200]"

definition dbc_swap2_disc :: bytes where
  "dbc_swap2_disc = [65, 75, 63, 76, 235, 91, 91, 136]"

datatype dbc_instruction =
    DbcSwap dbc_swap_params
  | DbcSwap2 dbc_swap2_params

fun dbc_instruction_discriminator :: "dbc_instruction \<Rightarrow> bytes" where
  "dbc_instruction_discriminator (DbcSwap _) = dbc_swap_disc"
| "dbc_instruction_discriminator (DbcSwap2 _) = dbc_swap2_disc"

fun dbc_instruction_args :: "dbc_instruction \<Rightarrow> bytes" where
  "dbc_instruction_args (DbcSwap p) = write_dbc_swap_params p"
| "dbc_instruction_args (DbcSwap2 p) = write_dbc_swap2_params p"

definition dbc_instruction_data :: "dbc_instruction \<Rightarrow> bytes" where
  "dbc_instruction_data ix = dbc_instruction_discriminator ix @ dbc_instruction_args ix"

definition dbc_instruction_rows :: "borsh \<Rightarrow> (bytes \<times> (bytes \<Rightarrow> instruction_parse_error + dbc_instruction)) list" where
  "dbc_instruction_rows B =
    [variant dbc_swap_disc DbcSwap ''solana_protocols::protocols::meteora_dbc::instructions::swap::SwapParams'' (read_dbc_swap_params B),
     variant dbc_swap2_disc DbcSwap2 ''solana_protocols::protocols::meteora_dbc::instructions::swap::Swap2Params'' (read_dbc_swap2_params B)]"

section \<open>Round trip\<close>

lemmas pool_params_defs =
  read_v4_swap_base_in_params_def write_v4_swap_base_in_params_def
  read_v4_swap_base_out_params_def write_v4_swap_base_out_params_def
  read_v4_initialize2_params_def write_v4_initialize2_params_def
  read_v4_deposit_params_def write_v4_deposit_params_def
  read_v4_withdraw_params_def write_v4_withdraw_params_def
  read_clmm_swap_params_def write_clmm_swap_params_def
  read_clmm_swap_v2_params_def write_clmm_swap_v2_params_def
  read_cpmm_swap_base_input_params_def write_cpmm_swap_base_input_params_def
  read_cpmm_swap_base_output_params_def write_cpmm_swap_base_output_params_def
  read_launchpad_buy_exact_in_params_def write_launchpad_buy_exact_in_params_def
  read_launchpad_buy_exact_out_params_def write_launchpad_buy_exact_out_params_def
  read_launchpad_sell_exact_in_params_def write_launchpad_sell_exact_in_params_def
  read_launchpad_sell_exact_out_params_def write_launchpad_sell_exact_out_params_def
  read_dbc_swap_params_def write_dbc_swap_params_def
  read_dbc_swap2_params_def write_dbc_swap2_params_def
  rret_def

lemmas pool_discs =
  v4_swap_base_in_disc_def v4_swap_base_out_disc_def v4_initialize2_disc_def v4_deposit_disc_def v4_withdraw_disc_def clmm_swap_disc_def clmm_swap_v2_disc_def cpmm_swap_base_input_disc_def cpmm_swap_base_output_disc_def launchpad_buy_exact_in_disc_def launchpad_buy_exact_out_disc_def launchpad_sell_exact_in_disc_def launchpad_sell_exact_out_disc_def dbc_swap_disc_def dbc_swap2_disc_def

lemma u8_read_last:
  assumes "borsh_ok B"
  shows "rbind (rd_u8 B) f [v] = f v []"
  using borsh_read(2) [OF assms, of f v "[]"] by simp

lemma bool_read_last:
  assumes "borsh_ok B"
  shows "rbind (rd_bool B) f [bool_byte b] = f b []"
  using borsh_read(1) [OF assms, of f b "[]"] by simp

lemma pool_params_read:
  assumes "borsh_ok B"
  shows "read_v4_swap_base_in_params B (write_v4_swap_base_in_params p1) = Inr (p1, [])"
    and "read_v4_swap_base_out_params B (write_v4_swap_base_out_params p2) = Inr (p2, [])"
    and "read_v4_initialize2_params B (write_v4_initialize2_params p3) = Inr (p3, [])"
    and "read_v4_deposit_params B (write_v4_deposit_params p4) = Inr (p4, [])"
    and "read_v4_withdraw_params B (write_v4_withdraw_params p5) = Inr (p5, [])"
    and "read_clmm_swap_params B (write_clmm_swap_params p6) = Inr (p6, [])"
    and "read_clmm_swap_v2_params B (write_clmm_swap_v2_params p7) = Inr (p7, [])"
    and "read_cpmm_swap_base_input_params B (write_cpmm_swap_base_input_params p8) = Inr (p8, [])"
    and "read_cpmm_swap_base_output_params B (write_cpmm_swap_base_output_params p9) = Inr (p9, [])"
    and "read_launchpad_buy_exact_in_params B (write_launchpad_buy_exact_in_params q1) = Inr (q1, [])"
    and "read_launchpad_buy_exact_out_params B (write_launchpad_buy_exact_out_params q2) = Inr (q2, [])"
    and "read_launchpad_sell_exact_in_params B (write_launchpad_sell_exact_in_params q3) = Inr (q3, [])"
    and "read_launchpad_sell_exact_out_params B (write_launchpad_sell_exact_out_params q4) = Inr (q4, [])"
    and "read_dbc_swap_params B (write_dbc_swap_params q5) = Inr (q5, [])"
    and "read_dbc_swap2_params B (write_dbc_swap2_params q6) = Inr (q6, [])"
  using assms by (simp_all add: pool_params_defs u8_read_last bool_read_last)

interpretation v4: instruction_enum 1 v4_instruction_rows v4_instruction_discriminator v4_instruction_args
proof
  show "\<exists>r \<in> set (v4_instruction_rows B). fst r = v4_instruction_discriminator ix \<and>
      snd r (v4_instruction_args ix) = Inr ix" if "borsh_ok B" for B ix
    by (cases ix) (simp_all add: v4_instruction_rows_def variant_decodes pool_params_read [OF that])
qed (auto simp: v4_instruction_rows_def pool_discs)

interpretation clmm: instruction_enum 8 clmm_instruction_rows clmm_instruction_discriminator clmm_instruction_args
proof
  show "\<exists>r \<in> set (clmm_instruction_rows B). fst r = clmm_instruction_discriminator ix \<and>
      snd r (clmm_instruction_args ix) = Inr ix" if "borsh_ok B" for B ix
    by (cases ix) (simp_all add: clmm_instruction_rows_def variant_decodes pool_params_read [OF that])
qed (auto simp: clmm_instruction_rows_def pool_discs)

interpretation cpmm: instruction_enum 8 cpmm_instruction_rows cpmm_instruction_discriminator cpmm_instruction_args
proof
  show "\<exists>r \<in> set (cpmm_instruction_rows B). fst r = cpmm_instruction_discriminator ix \<and>
      snd r (cpmm_instruction_args ix) = Inr ix" if "borsh_ok B" for B ix
    by (cases ix) (simp_all add: cpmm_instruction_rows_def variant_decodes pool_params_read [OF that])
qed (auto simp: cpmm_instruction_rows_def pool_discs)

interpretation launchpad: instruction_enum 8 launchpad_instruction_rows launchpad_instruction_discriminator
  launchpad_instruction_args
proof
  show "\<exists>r \<in> set (launchpad_instruction_rows B). fst r = launchpad_instruction_discriminator ix \<and>
      snd r (launchpad_instruction_args ix) = Inr ix" if "borsh_ok B" for B ix
    by (cases ix) (simp_all add: launchpad_instruction_rows_def variant_decodes pool_params_read [OF that])
qed (auto simp: launchpad_instruction_rows_def pool_discs)

interpretation dbc: instruction_enum 8 dbc_instruction_rows dbc_instruction_discriminator dbc_instruction_args
proof
  show "\<exists>r \<in> set (dbc_instruction_rows B). fst r = dbc_instruction_discriminator ix \<and>
      snd r (dbc_instruction_args ix) = Inr ix" if "borsh_ok B" for B ix
    by (cases ix) (simp_all add: dbc_instruction_rows_def variant_decodes pool_params_read [OF that])
qed (auto simp: dbc_instruction_rows_def pool_discs)

lemma pool_data_read:
  assumes "borsh_ok B"
  shows "try_from_slice_sized 1 (v4_instruction_rows B) (v4_instruction_data v) = Inr v"
    and "try_from_slice (clmm_instruction_rows B) (clmm_instruction_data m) = Inr m"
    and "try_from_slice (cpmm_instruction_rows B) (cpmm_instruction_data c) = Inr c"
    and "try_from_slice (launchpad_instruction_rows B) (launchpad_instruction_data l) = Inr l"
    and "try_from_slice (dbc_instruction_rows B) (dbc_instruction_data d) = Inr d"
  using v4.reads_back clmm.reads_back cpmm.reads_back launchpad.reads_back dbc.reads_back assms
  by (simp_all add: v4_instruction_data_def clmm_instruction_data_def cpmm_instruction_data_def
      launchpad_instruction_data_def dbc_instruction_data_def try_from_slice_sized_8)

text \<open>Whatever is written for one of the fifteen instructions is read back as the same instruction, in the
  same program: by the first byte for Raydium V4, by the first eight for the others.\<close>

lemma pool_instruction_roundtrip:
  assumes "borsh_ok B"
  shows "try_from_slice_sized 1 (v4_instruction_rows B) (v4_instruction_data v) = Inr v \<and>
    try_from_slice (clmm_instruction_rows B) (clmm_instruction_data m) = Inr m \<and>
    try_from_slice (cpmm_instruction_rows B) (cpmm_instruction_data c) = Inr c \<and>
    try_from_slice (launchpad_instruction_rows B) (launchpad_instruction_data l) = Inr l \<and>
    try_from_slice (dbc_instruction_rows B) (dbc_instruction_data d) = Inr d"
  using pool_data_read [OF assms] by blast

text \<open>The old swaps of CLMM and of DBC have one discriminator, and the same bytes can be both: what an
  instruction is depends on its program.\<close>

lemma swap_discriminator_shared: "clmm_swap_disc = dbc_swap_disc"
  by (simp add: pool_discs)

section \<open>Constructors\<close>

definition v4_swap_base_in_new :: "u64 \<Rightarrow> u64 \<Rightarrow> v4_swap_base_in_params" where
  "v4_swap_base_in_new a m = \<lparr> vbi_amount_in = a, vbi_minimum_amount_out = m \<rparr>"

definition v4_swap_base_in_from_swap_output :: "bool \<Rightarrow> u64 \<Rightarrow> u64 \<Rightarrow> u16 \<Rightarrow> v4_swap_base_in_params option" where
  "v4_swap_base_in_from_swap_output oc amount_in expected_out bps =
     do { min_out \<leftarrow> slippage_floor oc expected_out bps; Some (v4_swap_base_in_new amount_in min_out) }"

definition v4_swap_base_out_new :: "u64 \<Rightarrow> u64 \<Rightarrow> v4_swap_base_out_params" where
  "v4_swap_base_out_new m a = \<lparr> vbo_max_amount_in = m, vbo_amount_out = a \<rparr>"

definition v4_swap_base_out_from_swap_output :: "bool \<Rightarrow> u64 \<Rightarrow> u64 \<Rightarrow> u16 \<Rightarrow> v4_swap_base_out_params option" where
  "v4_swap_base_out_from_swap_output oc expected_in amount_out bps =
     do { max_in \<leftarrow> slippage_ceiling oc expected_in bps; Some (v4_swap_base_out_new max_in amount_out) }"

definition v4_initialize2_new :: "u8 \<Rightarrow> u64 \<Rightarrow> u64 \<Rightarrow> u64 \<Rightarrow> v4_initialize2_params" where
  "v4_initialize2_new n t pc coin =
     \<lparr> vin_nonce = n, vin_open_time = t, vin_init_pc_amount = pc, vin_init_coin_amount = coin \<rparr>"

definition v4_deposit_new :: "u64 \<Rightarrow> u64 \<Rightarrow> u64 \<Rightarrow> v4_deposit_params" where
  "v4_deposit_new coin pc side = \<lparr> vde_max_coin_amount = coin, vde_max_pc_amount = pc, vde_base_side = side \<rparr>"

definition v4_withdraw_new :: "u64 \<Rightarrow> v4_withdraw_params" where
  "v4_withdraw_new a = \<lparr> vwi_amount = a \<rparr>"

definition clmm_swap_new :: "u64 \<Rightarrow> u64 \<Rightarrow> u128 \<Rightarrow> bool \<Rightarrow> clmm_swap_params" where
  "clmm_swap_new a t limit base =
     \<lparr> csw_amount = a, csw_other_amount_threshold = t, csw_sqrt_price_limit_x64 = limit, csw_is_base_input = base \<rparr>"

definition clmm_swap_v2_new :: "u64 \<Rightarrow> u64 \<Rightarrow> u128 \<Rightarrow> bool \<Rightarrow> clmm_swap_v2_params" where
  "clmm_swap_v2_new a t limit base =
     \<lparr> csv_amount = a, csv_other_amount_threshold = t, csv_sqrt_price_limit_x64 = limit, csv_is_base_input = base \<rparr>"

text \<open>The price limit of a built swap, by floats.\<close>

definition sqrt_price_x64_from_tick :: "libm \<Rightarrow> int \<Rightarrow> u128" where
  "sqrt_price_x64_from_tick M tick =
     of_nat (f_to_uint 128 (f_mul (lm_powf M f_1_0001 (f_div (f_of_int tick) (f_of_nat 2))) (f_of_nat (2 ^ 64))))"

definition clmm_swap_v2_exact_in :: "libm \<Rightarrow> bool \<Rightarrow> u64 \<Rightarrow> u64 \<Rightarrow> u16 \<Rightarrow> bool \<Rightarrow> clmm_swap_v2_params option" where
  "clmm_swap_v2_exact_in M oc amount_in expected_out bps buying =
     do { min_out \<leftarrow> slippage_floor oc expected_out bps;
          Some (clmm_swap_v2_new amount_in min_out
            (sqrt_price_x64_from_tick M (if buying then max_tick - 1 else min_tick + 1)) True) }"

definition cpmm_swap_base_input_new :: "u64 \<Rightarrow> u64 \<Rightarrow> cpmm_swap_base_input_params" where
  "cpmm_swap_base_input_new a m = \<lparr> cbi_amount_in = a, cbi_minimum_amount_out = m \<rparr>"

definition cpmm_swap_base_output_new :: "u64 \<Rightarrow> u64 \<Rightarrow> cpmm_swap_base_output_params" where
  "cpmm_swap_base_output_new m a = \<lparr> cbo_maximum_amount_in = m, cbo_amount_out = a \<rparr>"

definition launchpad_buy_exact_in_new :: "u64 \<Rightarrow> u64 \<Rightarrow> launchpad_buy_exact_in_params" where
  "launchpad_buy_exact_in_new a m = \<lparr> lbi_amount_in = a, lbi_minimum_amount_out = m, lbi_share_fee_rate = 0 \<rparr>"

definition launchpad_buy_exact_out_new :: "u64 \<Rightarrow> u64 \<Rightarrow> launchpad_buy_exact_out_params" where
  "launchpad_buy_exact_out_new a m = \<lparr> lbo_amount_out = a, lbo_maximum_amount_in = m, lbo_share_fee_rate = 0 \<rparr>"

definition launchpad_sell_exact_in_new :: "u64 \<Rightarrow> u64 \<Rightarrow> launchpad_sell_exact_in_params" where
  "launchpad_sell_exact_in_new a m = \<lparr> lsi_amount_in = a, lsi_minimum_amount_out = m, lsi_share_fee_rate = 0 \<rparr>"

definition launchpad_sell_exact_out_new :: "u64 \<Rightarrow> u64 \<Rightarrow> launchpad_sell_exact_out_params" where
  "launchpad_sell_exact_out_new a m = \<lparr> lso_amount_out = a, lso_maximum_amount_in = m, lso_share_fee_rate = 0 \<rparr>"

definition dbc_swap_new :: "u64 \<Rightarrow> u64 \<Rightarrow> dbc_swap_params" where
  "dbc_swap_new a m = \<lparr> dsw_amount_in = a, dsw_minimum_amount_out = m \<rparr>"

datatype dbc_swap_mode = ExactIn | PartialFill | ExactOut

fun swap_mode_as_u8 :: "dbc_swap_mode \<Rightarrow> u8" where
  "swap_mode_as_u8 ExactIn = 0"
| "swap_mode_as_u8 PartialFill = 1"
| "swap_mode_as_u8 ExactOut = 2"

definition swap_mode_from_u8 :: "u8 \<Rightarrow> dbc_swap_mode option" where
  "swap_mode_from_u8 v =
     (if v = 0 then Some ExactIn else if v = 1 then Some PartialFill else if v = 2 then Some ExactOut else None)"

definition dbc_swap2_new :: "u64 \<Rightarrow> u64 \<Rightarrow> dbc_swap_mode \<Rightarrow> dbc_swap2_params" where
  "dbc_swap2_new a b m = \<lparr> dst_amount_0 = a, dst_amount_1 = b, dst_swap_mode = swap_mode_as_u8 m \<rparr>"

definition dbc_swap2_mode :: "dbc_swap2_params \<Rightarrow> dbc_swap_mode option" where
  "dbc_swap2_mode p = swap_mode_from_u8 (dst_swap_mode p)"

lemma swap_mode_roundtrip: "swap_mode_from_u8 (swap_mode_as_u8 m) = Some m"
  by (cases m) (simp_all add: swap_mode_from_u8_def)

lemma dbc_swap2_mode_new [simp]: "dbc_swap2_mode (dbc_swap2_new a b m) = Some m"
  by (simp add: dbc_swap2_mode_def dbc_swap2_new_def swap_mode_roundtrip)

section \<open>Predicates and classification\<close>

fun v4_is_swap :: "v4_instruction \<Rightarrow> bool" where
  "v4_is_swap (V4SwapBaseIn _) = True"
| "v4_is_swap (V4SwapBaseOut _) = True"
| "v4_is_swap _ = False"

fun v4_is_initialize2 :: "v4_instruction \<Rightarrow> bool" where
  "v4_is_initialize2 (V4Initialize2 _) = True"
| "v4_is_initialize2 _ = False"

fun v4_is_deposit :: "v4_instruction \<Rightarrow> bool" where
  "v4_is_deposit (V4Deposit _) = True"
| "v4_is_deposit _ = False"

fun v4_is_withdraw :: "v4_instruction \<Rightarrow> bool" where
  "v4_is_withdraw (V4Withdraw _) = True"
| "v4_is_withdraw _ = False"

fun clmm_is_swap :: "clmm_instruction \<Rightarrow> bool" where
  "clmm_is_swap (ClmmSwap _) = True"
| "clmm_is_swap _ = False"

fun clmm_is_swap_v2 :: "clmm_instruction \<Rightarrow> bool" where
  "clmm_is_swap_v2 (ClmmSwapV2 _) = True"
| "clmm_is_swap_v2 _ = False"

fun clmm_is_any_swap :: "clmm_instruction \<Rightarrow> bool" where
  "clmm_is_any_swap (ClmmSwap _) = True"
| "clmm_is_any_swap (ClmmSwapV2 _) = True"

fun launchpad_is_buy :: "launchpad_instruction \<Rightarrow> bool" where
  "launchpad_is_buy (LpBuyExactIn _) = True"
| "launchpad_is_buy (LpBuyExactOut _) = True"
| "launchpad_is_buy _ = False"

fun launchpad_is_sell :: "launchpad_instruction \<Rightarrow> bool" where
  "launchpad_is_sell (LpSellExactIn _) = True"
| "launchpad_is_sell (LpSellExactOut _) = True"
| "launchpad_is_sell _ = False"

text \<open>The direction of CLMM, CPMM and DBC is taken from the side that is exact.\<close>

fun clmm_as_swap :: "clmm_instruction \<Rightarrow> swap_classification option" where
  "clmm_as_swap (ClmmSwap p) =
     Some (if csw_is_base_input p
           then swap_classification_new Buy (Exact (csw_amount p)) (Minimum (csw_other_amount_threshold p))
           else swap_classification_new Sell (Maximum (csw_other_amount_threshold p)) (Exact (csw_amount p)))"
| "clmm_as_swap (ClmmSwapV2 p) =
     Some (if csv_is_base_input p
           then swap_classification_new Buy (Exact (csv_amount p)) (Minimum (csv_other_amount_threshold p))
           else swap_classification_new Sell (Maximum (csv_other_amount_threshold p)) (Exact (csv_amount p)))"

fun cpmm_as_swap :: "cpmm_instruction \<Rightarrow> swap_classification option" where
  "cpmm_as_swap (CpmmSwapBaseInput p) =
     Some (swap_classification_new Buy (Exact (cbi_amount_in p)) (Minimum (cbi_minimum_amount_out p)))"
| "cpmm_as_swap (CpmmSwapBaseOutput p) =
     Some (swap_classification_new Sell (Maximum (cbo_maximum_amount_in p)) (Exact (cbo_amount_out p)))"

fun launchpad_as_swap :: "launchpad_instruction \<Rightarrow> swap_classification option" where
  "launchpad_as_swap (LpBuyExactIn p) =
     Some (swap_classification_new Buy (Exact (lbi_amount_in p)) (Minimum (lbi_minimum_amount_out p)))"
| "launchpad_as_swap (LpBuyExactOut p) =
     Some (swap_classification_new Buy (Maximum (lbo_maximum_amount_in p)) (Exact (lbo_amount_out p)))"
| "launchpad_as_swap (LpSellExactIn p) =
     Some (swap_classification_new Sell (Exact (lsi_amount_in p)) (Minimum (lsi_minimum_amount_out p)))"
| "launchpad_as_swap (LpSellExactOut p) =
     Some (swap_classification_new Sell (Maximum (lso_maximum_amount_in p)) (Exact (lso_amount_out p)))"

fun dbc_as_swap :: "dbc_instruction \<Rightarrow> swap_classification option" where
  "dbc_as_swap (DbcSwap p) =
     Some (swap_classification_new Buy (Exact (dsw_amount_in p)) (Minimum (dsw_minimum_amount_out p)))"
| "dbc_as_swap (DbcSwap2 p) =
     Some (case swap_mode_from_u8 (dst_swap_mode p) of
             Some ExactOut \<Rightarrow>
               swap_classification_new Sell (Maximum (dst_amount_1 p)) (Exact (dst_amount_0 p))
           | Some _ \<Rightarrow> swap_classification_new Buy (Exact (dst_amount_0 p)) (Minimum (dst_amount_1 p))
           | None \<Rightarrow> swap_classification_new Buy Unknown Unknown)"

text \<open>A launchpad instruction is a buy or a sell, and is classified as the one it is.\<close>

lemma launchpad_classified:
  "launchpad_is_sell ix = (\<not> launchpad_is_buy ix) \<and>
   map_option sc_direction (launchpad_as_swap ix) = Some (if launchpad_is_buy ix then Buy else Sell)"
  by (cases ix) (simp_all add: swap_classification_new_def)

end
