(* ===== verification/PoolBuild.thy ===== *)
theory PoolBuild
  imports PoolInstructions
begin

text \<open>
  Swaps of the other pools, as they are sent: the keys of a pool (the accounts.rs files of Raydium V4,
  CLMM, CPMM and Launchpad and of Meteora DBC), the accounts of a swap taken from them, and the
  builders. What is built is read back by the program's own layout; only the CLMM builder, which
  appends tick arrays that its layout has no place for, writes what the parser refuses.
\<close>

section \<open>What the builders are given\<close>

text \<open>The programs and the fixed authorities; \<open>try_find_program_address\<close> and
  \<open>create_program_address\<close> may fail.\<close>

record pool_env =
  po_keys :: key_env
  po_program :: "protocol \<Rightarrow> pubkey"
  po_try_find :: "bytes list \<Rightarrow> pubkey \<Rightarrow> (pubkey \<times> u8) option"
  po_create_address :: "bytes list \<Rightarrow> pubkey \<Rightarrow> pubkey option"
  po_v4_authority :: pubkey
  po_cpmm_authority :: pubkey
  po_memo_program :: pubkey
  po_dbc_authority :: pubkey

definition po_ata :: "pool_env \<Rightarrow> pubkey \<Rightarrow> pubkey \<Rightarrow> pubkey \<Rightarrow> pubkey" where
  "po_ata E owner mint program = te_ata (ke_tokens (po_keys E)) owner mint program"

definition po_spl :: "pool_env \<Rightarrow> pubkey" where
  "po_spl E = te_spl_token_id (ke_tokens (po_keys E))"

definition po_spl_2022 :: "pool_env \<Rightarrow> pubkey" where
  "po_spl_2022 E = te_spl_token_2022_id (ke_tokens (po_keys E))"

text \<open>The associated-token crate's idempotent creation.\<close>

type_synonym create_ata = "pubkey \<Rightarrow> pubkey \<Rightarrow> pubkey \<Rightarrow> pubkey \<Rightarrow> instruction"

definition all_accounts :: "pubkey list \<Rightarrow> accounts" where
  "all_accounts ks = \<lparr> ac_named = map Some ks, ac_conditional = [], ac_resolved = [], ac_rest = [] \<rparr>"

section \<open>Raydium V4\<close>

record raydium_v4_keys =
  rk_amm_id :: pubkey
  rk_amm_authority :: pubkey
  rk_amm_open_orders :: pubkey
  rk_amm_target_orders :: pubkey
  rk_base_vault :: pubkey
  rk_quote_vault :: pubkey
  rk_base_mint :: pubkey
  rk_quote_mint :: pubkey
  rk_serum_market :: pubkey
  rk_serum_program_id :: pubkey
  rk_serum_bids :: pubkey
  rk_serum_asks :: pubkey
  rk_serum_event_queue :: pubkey
  rk_serum_coin_vault :: pubkey
  rk_serum_pc_vault :: pubkey
  rk_serum_vault_signer :: pubkey

definition v4_keys_from_pool_state ::
    "pool_env \<Rightarrow> pubkey \<Rightarrow> liquidity_pool \<Rightarrow> pubkey \<Rightarrow> pubkey \<Rightarrow> pubkey \<Rightarrow> pubkey \<Rightarrow> pubkey \<Rightarrow> pubkey \<Rightarrow> raydium_v4_keys" where
  "v4_keys_from_pool_state E amm_id s bids asks event_queue coin_vault pc_vault vault_signer =
     \<lparr> rk_amm_id = amm_id, rk_amm_authority = po_v4_authority E, rk_amm_open_orders = v4_open_orders s,
       rk_amm_target_orders = v4_target_orders s, rk_base_vault = v4_base_vault s,
       rk_quote_vault = v4_quote_vault s, rk_base_mint = v4_base_mint s, rk_quote_mint = v4_quote_mint s,
       rk_serum_market = v4_market_id s, rk_serum_program_id = v4_market_program_id s,
       rk_serum_bids = bids, rk_serum_asks = asks, rk_serum_event_queue = event_queue,
       rk_serum_coin_vault = coin_vault, rk_serum_pc_vault = pc_vault, rk_serum_vault_signer = vault_signer \<rparr>"

definition v4_derive_authority :: "pool_env \<Rightarrow> pubkey" where
  "v4_derive_authority E = po_v4_authority E"

definition v4_derive_amm_id :: "pool_env \<Rightarrow> pubkey \<Rightarrow> u8 \<Rightarrow> pubkey option" where
  "v4_derive_amm_id E market_id nonce =
     map_option fst (po_try_find E
       [po_program E RaydiumV4, market_id, seed_bytes ''amm_associated_seed'', [nonce]] (po_program E RaydiumV4))"

definition v4_swap_accounts :: "pool_env \<Rightarrow> raydium_v4_keys \<Rightarrow> pubkey \<Rightarrow> pubkey \<Rightarrow> pubkey \<Rightarrow> accounts" where
  "v4_swap_accounts E k user source_mint dest_mint = all_accounts
     [po_spl E, rk_amm_id k, rk_amm_authority k, rk_amm_open_orders k, rk_amm_target_orders k,
      rk_base_vault k, rk_quote_vault k, rk_serum_program_id k, rk_serum_market k, rk_serum_bids k,
      rk_serum_asks k, rk_serum_event_queue k, rk_serum_coin_vault k, rk_serum_pc_vault k,
      rk_serum_vault_signer k, classic_ata (po_keys E) user source_mint,
      classic_ata (po_keys E) user dest_mint, user]"

definition v4_accounts_for_buy :: "pool_env \<Rightarrow> raydium_v4_keys \<Rightarrow> pubkey \<Rightarrow> accounts" where
  "v4_accounts_for_buy E k user = v4_swap_accounts E k user (rk_quote_mint k) (rk_base_mint k)"

definition v4_accounts_for_sell :: "pool_env \<Rightarrow> raydium_v4_keys \<Rightarrow> pubkey \<Rightarrow> accounts" where
  "v4_accounts_for_sell E k user = v4_swap_accounts E k user (rk_base_mint k) (rk_quote_mint k)"

definition v4_build :: "pool_env \<Rightarrow> raydium_v4_keys \<times> bool \<Rightarrow> pubkey \<Rightarrow> v4_swap_base_in_params \<Rightarrow> instruction" where
  "v4_build E keys user p =
     \<lparr> in_program_id = po_program E RaydiumV4,
       in_accounts = to_account_metas v4_swap_base_in_layout
         (if snd keys then v4_accounts_for_buy E (fst keys) user else v4_accounts_for_sell E (fst keys) user),
       in_data = v4_instruction_data (V4SwapBaseIn p) \<rparr>"

definition v4_build_with_setup ::
    "pool_env \<Rightarrow> create_ata \<Rightarrow> raydium_v4_keys \<times> bool \<Rightarrow> pubkey \<Rightarrow> v4_swap_base_in_params \<Rightarrow> bool \<Rightarrow> instruction list" where
  "v4_build_with_setup E create_ata keys user p create =
     (if create
      then [create_ata user user (if snd keys then rk_base_mint (fst keys) else rk_quote_mint (fst keys)) (po_spl E)]
      else []) @ [v4_build E keys user p]"

definition v4_buy :: "pool_env \<Rightarrow> raydium_v4_keys \<Rightarrow> pubkey \<Rightarrow> u64 \<Rightarrow> u64 \<Rightarrow> instruction" where
  "v4_buy E k user amount_in min_out = v4_build E (k, True) user (v4_swap_base_in_new amount_in min_out)"

definition v4_sell :: "pool_env \<Rightarrow> raydium_v4_keys \<Rightarrow> pubkey \<Rightarrow> u64 \<Rightarrow> u64 \<Rightarrow> instruction" where
  "v4_sell E k user amount_in min_out = v4_build E (k, False) user (v4_swap_base_in_new amount_in min_out)"

definition v4_buy_with_ata ::
    "pool_env \<Rightarrow> create_ata \<Rightarrow> raydium_v4_keys \<Rightarrow> pubkey \<Rightarrow> u64 \<Rightarrow> u64 \<Rightarrow> instruction list" where
  "v4_buy_with_ata E create_ata k user amount_in min_out =
     v4_build_with_setup E create_ata (k, True) user (v4_swap_base_in_new amount_in min_out) True"

section \<open>Raydium CPMM\<close>

record raydium_cpmm_keys =
  pk_pool_id :: pubkey
  pk_amm_config :: pubkey
  pk_token_0_mint :: pubkey
  pk_token_1_mint :: pubkey
  pk_token_0_vault :: pubkey
  pk_token_1_vault :: pubkey
  pk_token_0_program :: pubkey
  pk_token_1_program :: pubkey
  pk_observation_key :: pubkey

definition cpmm_keys_from_pool_state :: "pubkey \<Rightarrow> cpmm_pool_state \<Rightarrow> raydium_cpmm_keys" where
  "cpmm_keys_from_pool_state pool_id s =
     \<lparr> pk_pool_id = pool_id, pk_amm_config = cs_amm_config s, pk_token_0_mint = cs_token_0_mint s,
       pk_token_1_mint = cs_token_1_mint s, pk_token_0_vault = cs_token_0_vault s,
       pk_token_1_vault = cs_token_1_vault s, pk_token_0_program = cs_token_0_program s,
       pk_token_1_program = cs_token_1_program s, pk_observation_key = cs_observation_key s \<rparr>"

definition cpmm_user_token_0_ata :: "pool_env \<Rightarrow> raydium_cpmm_keys \<Rightarrow> pubkey \<Rightarrow> pubkey" where
  "cpmm_user_token_0_ata E k user = po_ata E user (pk_token_0_mint k) (pk_token_0_program k)"

definition cpmm_user_token_1_ata :: "pool_env \<Rightarrow> raydium_cpmm_keys \<Rightarrow> pubkey \<Rightarrow> pubkey" where
  "cpmm_user_token_1_ata E k user = po_ata E user (pk_token_1_mint k) (pk_token_1_program k)"

definition cpmm_swap_accounts :: "pool_env \<Rightarrow> raydium_cpmm_keys \<Rightarrow> pubkey \<Rightarrow> bool \<Rightarrow> accounts" where
  "cpmm_swap_accounts E k user buying =
     (let (input_mint, output_mint) =
            (if buying then (pk_token_1_mint k, pk_token_0_mint k) else (pk_token_0_mint k, pk_token_1_mint k));
          (input_vault, output_vault) =
            (if buying then (pk_token_1_vault k, pk_token_0_vault k) else (pk_token_0_vault k, pk_token_1_vault k));
          (input_program, output_program) =
            (if buying then (pk_token_1_program k, pk_token_0_program k)
             else (pk_token_0_program k, pk_token_1_program k))
      in all_accounts
           [user, po_cpmm_authority E, pk_amm_config k, pk_pool_id k, po_ata E user input_mint input_program,
            po_ata E user output_mint output_program, input_vault, output_vault, input_program,
            output_program, input_mint, output_mint, pk_observation_key k])"

record swap_base_input_builder_config =
  bc_keys :: raydium_cpmm_keys
  bc_is_buy :: bool

definition cpmm_build ::
    "pool_env \<Rightarrow> swap_base_input_builder_config \<Rightarrow> pubkey \<Rightarrow> cpmm_swap_base_input_params \<Rightarrow> instruction" where
  "cpmm_build E c user p =
     \<lparr> in_program_id = po_program E RaydiumCpmm,
       in_accounts = to_account_metas cpmm_swap_layout (cpmm_swap_accounts E (bc_keys c) user (bc_is_buy c)),
       in_data = cpmm_instruction_data (CpmmSwapBaseInput p) \<rparr>"

definition cpmm_build_with_setup ::
    "pool_env \<Rightarrow> create_ata \<Rightarrow> swap_base_input_builder_config \<Rightarrow> pubkey \<Rightarrow> cpmm_swap_base_input_params \<Rightarrow> bool \<Rightarrow>
     instruction list" where
  "cpmm_build_with_setup E create_ata c user p create =
     (if create
      then (let k = bc_keys c;
                (mint, program) = (if bc_is_buy c then (pk_token_0_mint k, pk_token_0_program k)
                                   else (pk_token_1_mint k, pk_token_1_program k))
            in [create_ata user user mint program])
      else []) @ [cpmm_build E c user p]"

definition cpmm_buy :: "pool_env \<Rightarrow> raydium_cpmm_keys \<Rightarrow> pubkey \<Rightarrow> u64 \<Rightarrow> u64 \<Rightarrow> instruction" where
  "cpmm_buy E k user amount_in min_out =
     cpmm_build E \<lparr> bc_keys = k, bc_is_buy = True \<rparr> user (cpmm_swap_base_input_new amount_in min_out)"

definition cpmm_sell :: "pool_env \<Rightarrow> raydium_cpmm_keys \<Rightarrow> pubkey \<Rightarrow> u64 \<Rightarrow> u64 \<Rightarrow> instruction" where
  "cpmm_sell E k user amount_in min_out =
     cpmm_build E \<lparr> bc_keys = k, bc_is_buy = False \<rparr> user (cpmm_swap_base_input_new amount_in min_out)"

definition cpmm_buy_with_ata ::
    "pool_env \<Rightarrow> create_ata \<Rightarrow> raydium_cpmm_keys \<Rightarrow> pubkey \<Rightarrow> u64 \<Rightarrow> u64 \<Rightarrow> instruction list" where
  "cpmm_buy_with_ata E create_ata k user amount_in min_out =
     cpmm_build_with_setup E create_ata \<lparr> bc_keys = k, bc_is_buy = True \<rparr> user
       (cpmm_swap_base_input_new amount_in min_out) True"

section \<open>Raydium Launchpad\<close>

record launchpad_keys =
  lk_pool_id :: pubkey
  lk_authority :: pubkey
  lk_global_config :: pubkey
  lk_platform_config :: pubkey
  lk_base_mint :: pubkey
  lk_quote_mint :: pubkey
  lk_base_vault :: pubkey
  lk_quote_vault :: pubkey
  lk_base_token_program :: pubkey
  lk_quote_token_program :: pubkey

text \<open>\<open>unwrap_or_default\<close>: an address that cannot be derived is the zero key.\<close>

definition launchpad_derive_authority :: "pool_env \<Rightarrow> pubkey \<Rightarrow> u8 \<Rightarrow> pubkey" where
  "launchpad_derive_authority E pool_id bump =
     (case po_create_address E [seed_bytes ''vault_and_lp_mint_auth_seed'', pool_id, [bump]]
        (po_program E RaydiumLaunchpad) of
        Some k \<Rightarrow> k | None \<Rightarrow> pubkey_default)"

definition launchpad_resolve_token_programs :: "pool_env \<Rightarrow> u8 \<Rightarrow> pubkey \<times> pubkey" where
  "launchpad_resolve_token_programs E flag =
     (if and flag 1 = 0 then po_spl E else po_spl_2022 E, if and flag 2 = 0 then po_spl E else po_spl_2022 E)"

definition launchpad_keys_from_pool_state :: "pool_env \<Rightarrow> pubkey \<Rightarrow> launchpad_pool_state \<Rightarrow> launchpad_keys" where
  "launchpad_keys_from_pool_state E pool_id s =
     (let (base_program, quote_program) = launchpad_resolve_token_programs E (ls_token_program_flag s)
      in \<lparr> lk_pool_id = pool_id, lk_authority = launchpad_derive_authority E pool_id (ls_auth_bump s),
           lk_global_config = ls_global_config s, lk_platform_config = ls_platform_config s,
           lk_base_mint = ls_base_mint s, lk_quote_mint = ls_quote_mint s, lk_base_vault = ls_base_vault s,
           lk_quote_vault = ls_quote_vault s, lk_base_token_program = base_program,
           lk_quote_token_program = quote_program \<rparr>)"

definition launchpad_event_authority :: "pool_env \<Rightarrow> pubkey" where
  "launchpad_event_authority E = ke_pda (po_keys E) [seed_bytes ''__event_authority''] (po_program E RaydiumLaunchpad)"

definition launchpad_user_base_ata :: "pool_env \<Rightarrow> launchpad_keys \<Rightarrow> pubkey \<Rightarrow> pubkey" where
  "launchpad_user_base_ata E k user = po_ata E user (lk_base_mint k) (lk_base_token_program k)"

definition launchpad_user_quote_ata :: "pool_env \<Rightarrow> launchpad_keys \<Rightarrow> pubkey \<Rightarrow> pubkey" where
  "launchpad_user_quote_ata E k user = po_ata E user (lk_quote_mint k) (lk_quote_token_program k)"

definition launchpad_swap_accounts :: "pool_env \<Rightarrow> launchpad_keys \<Rightarrow> pubkey \<Rightarrow> accounts" where
  "launchpad_swap_accounts E k user = all_accounts
     [user, lk_authority k, lk_global_config k, lk_platform_config k, lk_pool_id k,
      launchpad_user_base_ata E k user, launchpad_user_quote_ata E k user, lk_base_vault k, lk_quote_vault k,
      lk_base_mint k, lk_quote_mint k, lk_base_token_program k, lk_quote_token_program k,
      launchpad_event_authority E, po_program E RaydiumLaunchpad]"

definition launchpad_buy_build ::
    "pool_env \<Rightarrow> launchpad_keys \<Rightarrow> pubkey \<Rightarrow> launchpad_buy_exact_in_params \<Rightarrow> instruction" where
  "launchpad_buy_build E k user p =
     \<lparr> in_program_id = po_program E RaydiumLaunchpad,
       in_accounts = to_account_metas launchpad_swap_layout (launchpad_swap_accounts E k user),
       in_data = launchpad_instruction_data (LpBuyExactIn p) \<rparr>"

definition launchpad_buy_with_setup ::
    "pool_env \<Rightarrow> create_ata \<Rightarrow> launchpad_keys \<Rightarrow> pubkey \<Rightarrow> launchpad_buy_exact_in_params \<Rightarrow> bool \<Rightarrow> instruction list" where
  "launchpad_buy_with_setup E create_ata k user p create =
     (if create then [create_ata user user (lk_base_mint k) (lk_base_token_program k)] else []) @
     [launchpad_buy_build E k user p]"

definition launchpad_buy :: "pool_env \<Rightarrow> launchpad_keys \<Rightarrow> pubkey \<Rightarrow> u64 \<Rightarrow> u64 \<Rightarrow> instruction" where
  "launchpad_buy E k user amount_in min_out =
     launchpad_buy_build E k user (launchpad_buy_exact_in_new amount_in min_out)"

definition launchpad_buy_with_ata ::
    "pool_env \<Rightarrow> create_ata \<Rightarrow> launchpad_keys \<Rightarrow> pubkey \<Rightarrow> u64 \<Rightarrow> u64 \<Rightarrow> instruction list" where
  "launchpad_buy_with_ata E create_ata k user amount_in min_out =
     launchpad_buy_with_setup E create_ata k user (launchpad_buy_exact_in_new amount_in min_out) True"

definition launchpad_sell_build ::
    "pool_env \<Rightarrow> launchpad_keys \<Rightarrow> pubkey \<Rightarrow> launchpad_sell_exact_in_params \<Rightarrow> instruction" where
  "launchpad_sell_build E k user p =
     \<lparr> in_program_id = po_program E RaydiumLaunchpad,
       in_accounts = to_account_metas launchpad_swap_layout (launchpad_swap_accounts E k user),
       in_data = launchpad_instruction_data (LpSellExactIn p) \<rparr>"

text \<open>Sells have the trait's default setup, which creates no account.\<close>

definition launchpad_sell_with_setup ::
    "pool_env \<Rightarrow> launchpad_keys \<Rightarrow> pubkey \<Rightarrow> launchpad_sell_exact_in_params \<Rightarrow> bool \<Rightarrow> instruction list" where
  "launchpad_sell_with_setup E k user p create = [launchpad_sell_build E k user p]"

definition launchpad_sell :: "pool_env \<Rightarrow> launchpad_keys \<Rightarrow> pubkey \<Rightarrow> u64 \<Rightarrow> u64 \<Rightarrow> instruction" where
  "launchpad_sell E k user amount_in min_out =
     launchpad_sell_build E k user (launchpad_sell_exact_in_new amount_in min_out)"

section \<open>Meteora DBC\<close>

record dbc_keys =
  dk_pool :: pubkey
  dk_config :: pubkey
  dk_base_mint :: pubkey
  dk_quote_mint :: pubkey
  dk_base_vault :: pubkey
  dk_quote_vault :: pubkey
  dk_token_base_program :: pubkey
  dk_token_quote_program :: pubkey

definition dbc_resolve_token_programs :: "pool_env \<Rightarrow> u8 \<Rightarrow> pubkey \<times> pubkey" where
  "dbc_resolve_token_programs E pool_type = (if pool_type = 1 then po_spl_2022 E else po_spl E, po_spl E)"

definition dbc_keys_from_pool_state :: "pool_env \<Rightarrow> pubkey \<Rightarrow> virtual_pool \<Rightarrow> pubkey \<Rightarrow> dbc_keys" where
  "dbc_keys_from_pool_state E pool_address s quote_mint =
     (let (base_program, quote_program) = dbc_resolve_token_programs E (vp_pool_type s)
      in \<lparr> dk_pool = pool_address, dk_config = vp_config s, dk_base_mint = vp_base_mint s,
           dk_quote_mint = quote_mint, dk_base_vault = vp_base_vault s, dk_quote_vault = vp_quote_vault s,
           dk_token_base_program = base_program, dk_token_quote_program = quote_program \<rparr>)"

definition dbc_event_authority :: "pool_env \<Rightarrow> pubkey" where
  "dbc_event_authority E = ke_pda (po_keys E) [seed_bytes ''__event_authority''] (po_program E MeteoraDbC)"

definition dbc_user_base_ata :: "pool_env \<Rightarrow> dbc_keys \<Rightarrow> pubkey \<Rightarrow> pubkey" where
  "dbc_user_base_ata E k user = po_ata E user (dk_base_mint k) (dk_token_base_program k)"

definition dbc_user_quote_ata :: "pool_env \<Rightarrow> dbc_keys \<Rightarrow> pubkey \<Rightarrow> pubkey" where
  "dbc_user_quote_ata E k user = po_ata E user (dk_quote_mint k) (dk_token_quote_program k)"

definition dbc_swap_accounts :: "pool_env \<Rightarrow> dbc_keys \<Rightarrow> pubkey \<Rightarrow> bool \<Rightarrow> accounts" where
  "dbc_swap_accounts E k user buying =
     (let (input_account, output_account) =
            (if buying then (dbc_user_quote_ata E k user, dbc_user_base_ata E k user)
             else (dbc_user_base_ata E k user, dbc_user_quote_ata E k user))
      in all_accounts
           [po_dbc_authority E, dk_config k, dk_pool k, input_account, output_account, dk_base_vault k,
            dk_quote_vault k, dk_base_mint k, dk_quote_mint k, user, dk_token_base_program k,
            dk_token_quote_program k, po_program E MeteoraDbC, dbc_event_authority E, po_program E MeteoraDbC])"

record swap_builder_config =
  sb_keys :: dbc_keys
  sb_is_buy :: bool

definition dbc_build :: "pool_env \<Rightarrow> swap_builder_config \<Rightarrow> pubkey \<Rightarrow> dbc_swap_params \<Rightarrow> instruction" where
  "dbc_build E c user p =
     \<lparr> in_program_id = po_program E MeteoraDbC,
       in_accounts = to_account_metas dbc_swap_layout (dbc_swap_accounts E (sb_keys c) user (sb_is_buy c)),
       in_data = dbc_instruction_data (DbcSwap p) \<rparr>"

definition dbc_build_with_setup ::
    "pool_env \<Rightarrow> create_ata \<Rightarrow> swap_builder_config \<Rightarrow> pubkey \<Rightarrow> dbc_swap_params \<Rightarrow> bool \<Rightarrow> instruction list" where
  "dbc_build_with_setup E create_ata c user p create =
     (if create
      then (let k = sb_keys c;
                (mint, program) = (if sb_is_buy c then (dk_base_mint k, dk_token_base_program k)
                                   else (dk_quote_mint k, dk_token_quote_program k))
            in [create_ata user user mint program])
      else []) @ [dbc_build E c user p]"

definition dbc_buy :: "pool_env \<Rightarrow> dbc_keys \<Rightarrow> pubkey \<Rightarrow> u64 \<Rightarrow> u64 \<Rightarrow> instruction" where
  "dbc_buy E k user amount_in min_out =
     dbc_build E \<lparr> sb_keys = k, sb_is_buy = True \<rparr> user (dbc_swap_new amount_in min_out)"

definition dbc_buy_with_ata :: "pool_env \<Rightarrow> create_ata \<Rightarrow> dbc_keys \<Rightarrow> pubkey \<Rightarrow> u64 \<Rightarrow> u64 \<Rightarrow> instruction list" where
  "dbc_buy_with_ata E create_ata k user amount_in min_out =
     dbc_build_with_setup E create_ata \<lparr> sb_keys = k, sb_is_buy = True \<rparr> user (dbc_swap_new amount_in min_out) True"

definition dbc_sell :: "pool_env \<Rightarrow> dbc_keys \<Rightarrow> pubkey \<Rightarrow> u64 \<Rightarrow> u64 \<Rightarrow> instruction" where
  "dbc_sell E k user amount_in min_out =
     dbc_build E \<lparr> sb_keys = k, sb_is_buy = False \<rparr> user (dbc_swap_new amount_in min_out)"

section \<open>Raydium CLMM\<close>

definition clmm_user_token_0_ata :: "pool_env \<Rightarrow> raydium_clmm_keys \<Rightarrow> pubkey \<Rightarrow> pubkey" where
  "clmm_user_token_0_ata E k user = classic_ata (po_keys E) user (ck_token_mint_0 k)"

definition clmm_user_token_1_ata :: "pool_env \<Rightarrow> raydium_clmm_keys \<Rightarrow> pubkey \<Rightarrow> pubkey" where
  "clmm_user_token_1_ata E k user = classic_ata (po_keys E) user (ck_token_mint_1 k)"

definition clmm_swap_v2_accounts :: "pool_env \<Rightarrow> raydium_clmm_keys \<Rightarrow> pubkey \<Rightarrow> bool \<Rightarrow> accounts" where
  "clmm_swap_v2_accounts E k user buying =
     (let (input_mint, output_mint, input_vault, output_vault) =
            (if buying then (ck_token_mint_1 k, ck_token_mint_0 k, ck_token_vault_1 k, ck_token_vault_0 k)
             else (ck_token_mint_0 k, ck_token_mint_1 k, ck_token_vault_0 k, ck_token_vault_1 k))
      in all_accounts
           [user, ck_amm_config k, ck_pool_id k, classic_ata (po_keys E) user input_mint,
            classic_ata (po_keys E) user output_mint, input_vault, output_vault, ck_observation_key k,
            po_spl E, po_spl_2022 E, po_memo_program E, input_mint, output_mint])"

record swap_v2_builder_config =
  vc_keys :: raydium_clmm_keys
  vc_is_buy :: bool
  vc_current_tick :: i32
  vc_tick_array_count :: nat

text \<open>The tick arrays are appended; their start indices may overflow.\<close>

definition clmm_build ::
    "pool_env \<Rightarrow> bool \<Rightarrow> swap_v2_builder_config \<Rightarrow> pubkey \<Rightarrow> clmm_swap_v2_params \<Rightarrow> instruction option" where
  "clmm_build E oc c user p = do {
     tick_arrays \<leftarrow> tick_arrays_for_swap oc (ke_pda (po_keys E)) (po_program E RaydiumClmm) (vc_keys c)
       (sint (vc_current_tick c)) (vc_is_buy c) (vc_tick_array_count c);
     Some \<lparr> in_program_id = po_program E RaydiumClmm,
            in_accounts = to_account_metas clmm_swap_v2_layout (clmm_swap_v2_accounts E (vc_keys c) user (vc_is_buy c)) @
              map (\<lambda>k. \<lparr> am_pubkey = k, am_is_signer = False, am_is_writable = True \<rparr>) tick_arrays,
            in_data = clmm_instruction_data (ClmmSwapV2 p) \<rparr>
   }"

definition clmm_build_with_setup ::
    "pool_env \<Rightarrow> bool \<Rightarrow> create_ata \<Rightarrow> swap_v2_builder_config \<Rightarrow> pubkey \<Rightarrow> clmm_swap_v2_params \<Rightarrow> bool \<Rightarrow>
     instruction list option" where
  "clmm_build_with_setup E oc create_ata c user p create = do {
     ix \<leftarrow> clmm_build E oc c user p;
     Some ((if create
            then [create_ata user user
                    (if vc_is_buy c then ck_token_mint_0 (vc_keys c) else ck_token_mint_1 (vc_keys c)) (po_spl E)]
            else []) @ [ix])
   }"

definition clmm_buy ::
    "pool_env \<Rightarrow> libm \<Rightarrow> bool \<Rightarrow> raydium_clmm_keys \<Rightarrow> pubkey \<Rightarrow> i32 \<Rightarrow> u64 \<Rightarrow> u64 \<Rightarrow> instruction option" where
  "clmm_buy E M oc k user current_tick amount_in min_out =
     clmm_build E oc \<lparr> vc_keys = k, vc_is_buy = True, vc_current_tick = current_tick, vc_tick_array_count = 3 \<rparr> user
       (clmm_swap_v2_new amount_in min_out (sqrt_price_x64_from_tick M (max_tick - 1)) True)"

definition clmm_sell ::
    "pool_env \<Rightarrow> libm \<Rightarrow> bool \<Rightarrow> raydium_clmm_keys \<Rightarrow> pubkey \<Rightarrow> i32 \<Rightarrow> u64 \<Rightarrow> u64 \<Rightarrow> instruction option" where
  "clmm_sell E M oc k user current_tick amount_in min_out =
     clmm_build E oc \<lparr> vc_keys = k, vc_is_buy = False, vc_current_tick = current_tick, vc_tick_array_count = 3 \<rparr> user
       (clmm_swap_v2_new amount_in min_out (sqrt_price_x64_from_tick M (min_tick + 1)) True)"

definition clmm_buy_with_ata ::
    "pool_env \<Rightarrow> libm \<Rightarrow> bool \<Rightarrow> create_ata \<Rightarrow> raydium_clmm_keys \<Rightarrow> pubkey \<Rightarrow> i32 \<Rightarrow> u64 \<Rightarrow> u64 \<Rightarrow> instruction list option" where
  "clmm_buy_with_ata E M oc create_ata k user current_tick amount_in min_out =
     clmm_build_with_setup E oc create_ata
       \<lparr> vc_keys = k, vc_is_buy = True, vc_current_tick = current_tick, vc_tick_array_count = 3 \<rparr> user
       (clmm_swap_v2_new amount_in min_out (sqrt_price_x64_from_tick M (max_tick - 1)) True) True"

end
