(* ===== verification/Registry.thy ===== *)
theory Registry
  imports PoolBuild
begin

text \<open>
  The registry of parsers (parsing/registry.rs): the unified events, one parser per program, the map
  from programs to parsers, and the filters over the instructions of a transaction.
\<close>

section \<open>Events\<close>

text \<open>\<open>extra\<close> holds a JSON value, whose type is left open.\<close>

record 'j swap_event =
  se_protocol :: protocol
  se_pool :: pubkey
  se_token_in :: pubkey
  se_token_out :: pubkey
  se_amount_in :: u64
  se_amount_out :: u64
  se_fee :: "u64 option"
  se_user :: "pubkey option"
  se_is_buy :: "bool option"
  se_extra :: "'j option"

definition swap_event_new ::
    "protocol \<Rightarrow> pubkey \<Rightarrow> pubkey \<Rightarrow> pubkey \<Rightarrow> u64 \<Rightarrow> u64 \<Rightarrow> 'j swap_event" where
  "swap_event_new p pool token_in token_out amount_in amount_out =
     \<lparr> se_protocol = p, se_pool = pool, se_token_in = token_in, se_token_out = token_out,
       se_amount_in = amount_in, se_amount_out = amount_out, se_fee = None, se_user = None,
       se_is_buy = None, se_extra = None \<rparr>"

definition swap_with_fee :: "u64 \<Rightarrow> 'j swap_event \<Rightarrow> 'j swap_event" where
  "swap_with_fee fee e = e \<lparr> se_fee := Some fee \<rparr>"

definition swap_with_user :: "pubkey \<Rightarrow> 'j swap_event \<Rightarrow> 'j swap_event" where
  "swap_with_user user e = e \<lparr> se_user := Some user \<rparr>"

definition swap_with_direction :: "bool \<Rightarrow> 'j swap_event \<Rightarrow> 'j swap_event" where
  "swap_with_direction b e = e \<lparr> se_is_buy := Some b \<rparr>"

definition swap_with_extra :: "'j \<Rightarrow> 'j swap_event \<Rightarrow> 'j swap_event" where
  "swap_with_extra x e = e \<lparr> se_extra := Some x \<rparr>"

definition swap_effective_price :: "'j swap_event \<Rightarrow> u8 \<Rightarrow> u8 \<Rightarrow> f64" where
  "swap_effective_price e in_decimals out_decimals =
     (if se_amount_in e = 0 then f_0
      else
        let in_ui = f_div (f_of_nat (unat (se_amount_in e))) (f_powi (f_of_nat 10) (int (unat in_decimals)));
            out_ui = f_div (f_of_nat (unat (se_amount_out e))) (f_powi (f_of_nat 10) (int (unat out_decimals)))
        in f_div out_ui in_ui)"

record 'j token_creation_event =
  tv_protocol :: protocol
  tv_mint :: pubkey
  tv_pool :: pubkey
  tv_name :: bytes
  tv_symbol :: bytes
  tv_uri :: bytes
  tv_creator :: "pubkey option"
  tv_extra :: "'j option"

definition token_creation_event_new ::
    "protocol \<Rightarrow> pubkey \<Rightarrow> pubkey \<Rightarrow> bytes \<Rightarrow> bytes \<Rightarrow> bytes \<Rightarrow> 'j token_creation_event" where
  "token_creation_event_new p mint pool name symbol uri =
     \<lparr> tv_protocol = p, tv_mint = mint, tv_pool = pool, tv_name = name, tv_symbol = symbol, tv_uri = uri,
       tv_creator = None, tv_extra = None \<rparr>"

definition token_creation_with_creator :: "pubkey \<Rightarrow> 'j token_creation_event \<Rightarrow> 'j token_creation_event" where
  "token_creation_with_creator c e = e \<lparr> tv_creator := Some c \<rparr>"

definition token_creation_with_extra :: "'j \<Rightarrow> 'j token_creation_event \<Rightarrow> 'j token_creation_event" where
  "token_creation_with_extra x e = e \<lparr> tv_extra := Some x \<rparr>"

record 'j pool_creation_event =
  pv_protocol :: protocol
  pv_pool :: pubkey
  pv_token_a :: pubkey
  pv_token_b :: pubkey
  pv_initial_amount_a :: u64
  pv_initial_amount_b :: u64
  pv_creator :: "pubkey option"
  pv_lp_mint :: "pubkey option"
  pv_extra :: "'j option"

definition pool_creation_event_new ::
    "protocol \<Rightarrow> pubkey \<Rightarrow> pubkey \<Rightarrow> pubkey \<Rightarrow> u64 \<Rightarrow> u64 \<Rightarrow> 'j pool_creation_event" where
  "pool_creation_event_new p pool a b amount_a amount_b =
     \<lparr> pv_protocol = p, pv_pool = pool, pv_token_a = a, pv_token_b = b, pv_initial_amount_a = amount_a,
       pv_initial_amount_b = amount_b, pv_creator = None, pv_lp_mint = None, pv_extra = None \<rparr>"

definition pool_creation_with_creator :: "pubkey \<Rightarrow> 'j pool_creation_event \<Rightarrow> 'j pool_creation_event" where
  "pool_creation_with_creator c e = e \<lparr> pv_creator := Some c \<rparr>"

definition pool_creation_with_lp_mint :: "pubkey \<Rightarrow> 'j pool_creation_event \<Rightarrow> 'j pool_creation_event" where
  "pool_creation_with_lp_mint m e = e \<lparr> pv_lp_mint := Some m \<rparr>"

definition pool_creation_with_extra :: "'j \<Rightarrow> 'j pool_creation_event \<Rightarrow> 'j pool_creation_event" where
  "pool_creation_with_extra x e = e \<lparr> pv_extra := Some x \<rparr>"

text \<open>\<open>LiquidityAddEvent\<close> and \<open>LiquidityRemoveEvent\<close> have the same fields.\<close>

record 'j liquidity_event =
  lv_protocol :: protocol
  lv_pool :: pubkey
  lv_user :: pubkey
  lv_token_a :: pubkey
  lv_token_b :: pubkey
  lv_amount_a :: u64
  lv_amount_b :: u64
  lv_lp_amount :: "u64 option"
  lv_liquidity_delta :: "u128 option"
  lv_tick_lower :: "i32 option"
  lv_tick_upper :: "i32 option"
  lv_bin_id_lower :: "i32 option"
  lv_bin_id_upper :: "i32 option"
  lv_extra :: "'j option"

definition liquidity_event_new ::
    "protocol \<Rightarrow> pubkey \<Rightarrow> pubkey \<Rightarrow> pubkey \<Rightarrow> pubkey \<Rightarrow> u64 \<Rightarrow> u64 \<Rightarrow> 'j liquidity_event" where
  "liquidity_event_new p pool user a b amount_a amount_b =
     \<lparr> lv_protocol = p, lv_pool = pool, lv_user = user, lv_token_a = a, lv_token_b = b,
       lv_amount_a = amount_a, lv_amount_b = amount_b, lv_lp_amount = None, lv_liquidity_delta = None,
       lv_tick_lower = None, lv_tick_upper = None, lv_bin_id_lower = None, lv_bin_id_upper = None,
       lv_extra = None \<rparr>"

definition liquidity_with_lp_amount :: "u64 \<Rightarrow> 'j liquidity_event \<Rightarrow> 'j liquidity_event" where
  "liquidity_with_lp_amount n e = e \<lparr> lv_lp_amount := Some n \<rparr>"

definition liquidity_with_delta :: "u128 \<Rightarrow> 'j liquidity_event \<Rightarrow> 'j liquidity_event" where
  "liquidity_with_delta d e = e \<lparr> lv_liquidity_delta := Some d \<rparr>"

definition liquidity_with_tick_range :: "i32 \<Rightarrow> i32 \<Rightarrow> 'j liquidity_event \<Rightarrow> 'j liquidity_event" where
  "liquidity_with_tick_range lower upper e = e \<lparr> lv_tick_lower := Some lower, lv_tick_upper := Some upper \<rparr>"

definition liquidity_with_bin_range :: "i32 \<Rightarrow> i32 \<Rightarrow> 'j liquidity_event \<Rightarrow> 'j liquidity_event" where
  "liquidity_with_bin_range lower upper e = e \<lparr> lv_bin_id_lower := Some lower, lv_bin_id_upper := Some upper \<rparr>"

definition liquidity_with_extra :: "'j \<Rightarrow> 'j liquidity_event \<Rightarrow> 'j liquidity_event" where
  "liquidity_with_extra x e = e \<lparr> lv_extra := Some x \<rparr>"

datatype 'j protocol_event =
    SwapEv "'j swap_event"
  | TokenCreationEv "'j token_creation_event"
  | PoolCreationEv "'j pool_creation_event"
  | LiquidityAddEv "'j liquidity_event"
  | LiquidityRemoveEv "'j liquidity_event"

fun event_protocol :: "'j protocol_event \<Rightarrow> protocol" where
  "event_protocol (SwapEv e) = se_protocol e"
| "event_protocol (TokenCreationEv e) = tv_protocol e"
| "event_protocol (PoolCreationEv e) = pv_protocol e"
| "event_protocol (LiquidityAddEv e) = lv_protocol e"
| "event_protocol (LiquidityRemoveEv e) = lv_protocol e"

fun as_swap_event :: "'j protocol_event \<Rightarrow> 'j swap_event option" where
  "as_swap_event (SwapEv e) = Some e"
| "as_swap_event _ = None"

fun as_token_creation_event :: "'j protocol_event \<Rightarrow> 'j token_creation_event option" where
  "as_token_creation_event (TokenCreationEv e) = Some e"
| "as_token_creation_event _ = None"

fun as_pool_creation_event :: "'j protocol_event \<Rightarrow> 'j pool_creation_event option" where
  "as_pool_creation_event (PoolCreationEv e) = Some e"
| "as_pool_creation_event _ = None"

fun as_liquidity_add_event :: "'j protocol_event \<Rightarrow> 'j liquidity_event option" where
  "as_liquidity_add_event (LiquidityAddEv e) = Some e"
| "as_liquidity_add_event _ = None"

fun as_liquidity_remove_event :: "'j protocol_event \<Rightarrow> 'j liquidity_event option" where
  "as_liquidity_remove_event (LiquidityRemoveEv e) = Some e"
| "as_liquidity_remove_event _ = None"

fun is_swap_event :: "'j protocol_event \<Rightarrow> bool" where
  "is_swap_event (SwapEv _) = True"
| "is_swap_event _ = False"

fun is_token_creation_event :: "'j protocol_event \<Rightarrow> bool" where
  "is_token_creation_event (TokenCreationEv _) = True"
| "is_token_creation_event _ = False"

fun is_pool_creation_event :: "'j protocol_event \<Rightarrow> bool" where
  "is_pool_creation_event (PoolCreationEv _) = True"
| "is_pool_creation_event _ = False"

fun is_liquidity_add_event :: "'j protocol_event \<Rightarrow> bool" where
  "is_liquidity_add_event (LiquidityAddEv _) = True"
| "is_liquidity_add_event _ = False"

fun is_liquidity_remove_event :: "'j protocol_event \<Rightarrow> bool" where
  "is_liquidity_remove_event (LiquidityRemoveEv _) = True"
| "is_liquidity_remove_event _ = False"

lemmas event_defs =
  swap_event_new_def swap_with_user_def swap_with_direction_def token_creation_event_new_def
  token_creation_with_creator_def pool_creation_event_new_def pool_creation_with_creator_def
  pool_creation_with_lp_mint_def liquidity_event_new_def liquidity_with_lp_amount_def

section \<open>The parsers\<close>

type_synonym 'j parse_result = "instruction_parse_error + 'j protocol_event option"

text \<open>The \<open>?\<close> operator, an account by its position, and the accounts struct of a layout as a function of
  the field names.\<close>

definition ebind :: "'e + 'a \<Rightarrow> ('a \<Rightarrow> 'e + 'b) \<Rightarrow> 'e + 'b" where
  "ebind x f = (case x of Inl e \<Rightarrow> Inl e | Inr a \<Rightarrow> f a)"

lemma ebind_simps [simp]: "ebind (Inl e) f = Inl e" "ebind (Inr a) f = f a"
  by (simp_all add: ebind_def)

definition require_account :: "parsed_instruction \<Rightarrow> nat \<Rightarrow> instruction_parse_error + pubkey" where
  "require_account ix i = (case pi_account ix i of Some k \<Rightarrow> Inr k | None \<Rightarrow> Inl (MissingAccount i))"

definition struct :: "layout \<Rightarrow> parsed_instruction \<Rightarrow> instruction_parse_error + (string \<Rightarrow> pubkey)" where
  "struct L ix = map_sum id (\<lambda>a. bound (acc L a)) (from_pubkeys L (pi_accounts ix))"

text \<open>Pump.fun: the accounts by fixed positions, the amounts from the trade's log line.\<close>

definition registry_pumpfun_swap :: "pool_env \<Rightarrow> bytes \<Rightarrow> parsed_instruction \<Rightarrow> pumpfun_instruction \<Rightarrow> 'j parse_result" where
  "registry_pumpfun_swap E trade_disc ix pf =
     ebind (require_account ix 2) (\<lambda>mint.
     ebind (require_account ix 3) (\<lambda>bonding_curve.
     ebind (require_account ix 6) (\<lambda>user.
     case find_data_log_with_discriminator ix trade_disc of
       None \<Rightarrow> Inl (LogNotFound (if logs_truncated ix then ''trade event (logs truncated)'' else ''trade event''))
     | Some d \<Rightarrow>
         if length d < 32 + 8 + 8
         then Inl (DeserializationFailed (''trade event too short: '' @ show_nat (length d) @ '' bytes''))
         else
           let sol = of_nat (le_val (take 8 (drop 32 d)));
               token = of_nat (le_val (take 8 (drop 40 d)));
               wsol = te_wsol (ke_tokens (po_keys E));
               (token_in, token_out, amount_in, amount_out) =
                 (if pf_is_buy pf then (wsol, mint, sol, token) else (mint, wsol, token, sol))
           in Inr (Some (SwapEv (swap_with_direction (pf_is_buy pf) (swap_with_user user
                (swap_event_new Pumpfun bonding_curve token_in token_out amount_in amount_out))))))))"

definition registry_pumpfun_create :: "parsed_instruction \<Rightarrow> create_params \<Rightarrow> 'j parse_result" where
  "registry_pumpfun_create ix p =
     ebind (require_account ix 0) (\<lambda>mint.
     ebind (require_account ix 2) (\<lambda>bonding_curve.
     ebind (require_account ix 7) (\<lambda>creator.
     Inr (Some (TokenCreationEv (token_creation_with_creator creator
       (token_creation_event_new Pumpfun mint bonding_curve (cr_name p) (cr_symbol p) (cr_uri p))))))))"

definition registry_pumpfun_create_v2 :: "parsed_instruction \<Rightarrow> create_v2_params \<Rightarrow> 'j parse_result" where
  "registry_pumpfun_create_v2 ix p =
     ebind (require_account ix 0) (\<lambda>mint.
     ebind (require_account ix 2) (\<lambda>bonding_curve.
     ebind (require_account ix 5) (\<lambda>signer.
     Inr (Some (TokenCreationEv (token_creation_with_creator
       (if c2_creator p = pubkey_default then signer else c2_creator p)
       (token_creation_event_new Pumpfun mint bonding_curve (c2_name p) (c2_symbol p) (c2_uri p))))))))"

definition registry_pumpfun_parse :: "borsh \<Rightarrow> pool_env \<Rightarrow> bytes \<Rightarrow> parsed_instruction \<Rightarrow> 'j parse_result" where
  "registry_pumpfun_parse B E trade_disc ix =
     ebind (try_from_slice (pumpfun_instruction_rows B (po_keys E)) (pi_data ix)) (\<lambda>pf.
     (case pf of
        PfBuy _ \<Rightarrow> registry_pumpfun_swap E trade_disc ix pf
      | PfBuyExactSolIn _ \<Rightarrow> registry_pumpfun_swap E trade_disc ix pf
      | PfSell _ \<Rightarrow> registry_pumpfun_swap E trade_disc ix pf
      | PfCreate p \<Rightarrow> registry_pumpfun_create ix p
      | PfCreateV2 p \<Rightarrow> registry_pumpfun_create_v2 ix p
      | _ \<Rightarrow> Inr None))"

definition registry_pumpswap_parse :: "borsh \<Rightarrow> pool_env \<Rightarrow> parsed_instruction \<Rightarrow> 'j parse_result" where
  "registry_pumpswap_parse B E ix =
     ebind (try_from_slice (pumpswap_instruction_rows B (po_keys E)) (pi_data ix)) (\<lambda>ps.
     (case ps of
        PsBuyExactQuoteIn p \<Rightarrow>
          ebind (struct (pumpswap_buy_layout (po_keys E)) ix) (\<lambda>a.
          Inr (Some (SwapEv (swap_with_direction True (swap_with_user (a ''user'')
            (swap_event_new PumpSwap (a ''pool'') (a ''quote_mint'') (a ''base_mint'')
              (pq_spendable_quote_in p) (pq_min_base_amount_out p)))))))
      | PsBuy p \<Rightarrow>
          ebind (struct (pumpswap_buy_layout (po_keys E)) ix) (\<lambda>a.
          Inr (Some (SwapEv (swap_with_direction True (swap_with_user (a ''user'')
            (swap_event_new PumpSwap (a ''pool'') (a ''quote_mint'') (a ''base_mint'')
              (pb_max_quote_amount_in p) (pb_base_amount_out p)))))))
      | PsSell p \<Rightarrow>
          ebind (struct (pumpswap_sell_layout (po_keys E)) ix) (\<lambda>a.
          Inr (Some (SwapEv (swap_with_direction False (swap_with_user (a ''user'')
            (swap_event_new PumpSwap (a ''pool'') (a ''base_mint'') (a ''quote_mint'')
              (psl_base_amount_in p) (psl_min_quote_amount_out p)))))))
      | PsCreatePool p \<Rightarrow>
          ebind (struct pumpswap_create_pool_layout ix) (\<lambda>a.
          Inr (Some (PoolCreationEv (pool_creation_with_lp_mint (a ''lp_mint'')
            (pool_creation_with_creator (a ''creator'')
              (pool_creation_event_new PumpSwap (a ''pool'') (a ''base_mint'') (a ''quote_mint'')
                (cp_base_amount_in p) (cp_quote_amount_in p)))))))
      | PsDeposit p \<Rightarrow>
          ebind (struct pumpswap_deposit_layout ix) (\<lambda>a.
          Inr (Some (LiquidityAddEv (liquidity_with_lp_amount (dp_lp_token_amount_out p)
            (liquidity_event_new PumpSwap (a ''pool'') (a ''user'') (a ''base_mint'') (a ''quote_mint'')
              (dp_max_base_amount_in p) (dp_max_quote_amount_in p))))))
      | PsWithdraw p \<Rightarrow>
          ebind (struct pumpswap_withdraw_layout ix) (\<lambda>a.
          Inr (Some (LiquidityRemoveEv (liquidity_with_lp_amount (wp_lp_token_amount_in p)
            (liquidity_event_new PumpSwap (a ''pool'') (a ''user'') (a ''base_mint'') (a ''quote_mint'')
              (wp_min_base_amount_out p) (wp_min_quote_amount_out p))))))
      | PsCollectCoinCreatorFee _ \<Rightarrow> Inr None))"

text \<open>Raydium V4 names token accounts where the mints belong, and vaults in its deposits.\<close>

definition registry_v4_parse :: "borsh \<Rightarrow> parsed_instruction \<Rightarrow> 'j parse_result" where
  "registry_v4_parse B ix =
     ebind (try_from_slice_sized 1 (v4_instruction_rows B) (pi_data ix)) (\<lambda>i.
     (case i of
        V4SwapBaseIn p \<Rightarrow>
          ebind (struct v4_swap_base_in_layout ix) (\<lambda>a.
          Inr (Some (SwapEv (swap_with_user (a ''user_source_owner'')
            (swap_event_new RaydiumV4 (a ''amm_id'') (a ''user_source_token_account'')
              (a ''user_destination_token_account'') (vbi_amount_in p) (vbi_minimum_amount_out p))))))
      | V4SwapBaseOut p \<Rightarrow>
          ebind (struct v4_swap_base_in_layout ix) (\<lambda>a.
          Inr (Some (SwapEv (swap_with_user (a ''user_source_owner'')
            (swap_event_new RaydiumV4 (a ''amm_id'') (a ''user_source_token_account'')
              (a ''user_destination_token_account'') (vbo_max_amount_in p) (vbo_amount_out p))))))
      | V4Initialize2 p \<Rightarrow>
          ebind (struct v4_initialize2_layout ix) (\<lambda>a.
          Inr (Some (PoolCreationEv (pool_creation_with_lp_mint (a ''lp_mint'')
            (pool_creation_with_creator (a ''user'')
              (pool_creation_event_new RaydiumV4 (a ''amm_id'') (a ''coin_mint'') (a ''pc_mint'')
                (vin_init_coin_amount p) (vin_init_pc_amount p)))))))
      | V4Deposit p \<Rightarrow>
          ebind (struct v4_deposit_layout ix) (\<lambda>a.
          Inr (Some (LiquidityAddEv
            (liquidity_event_new RaydiumV4 (a ''amm_id'') (a ''user'') (a ''coin_vault'') (a ''pc_vault'')
              (vde_max_coin_amount p) (vde_max_pc_amount p)))))
      | V4Withdraw p \<Rightarrow>
          ebind (struct v4_withdraw_layout ix) (\<lambda>a.
          Inr (Some (LiquidityRemoveEv (liquidity_with_lp_amount (vwi_amount p)
            (liquidity_event_new RaydiumV4 (a ''amm_id'') (a ''user'') (a ''coin_vault'') (a ''pc_vault'')
              0 0)))))))"

definition registry_clmm_parse :: "borsh \<Rightarrow> parsed_instruction \<Rightarrow> 'j parse_result" where
  "registry_clmm_parse B ix =
     ebind (try_from_slice (clmm_instruction_rows B) (pi_data ix)) (\<lambda>i.
     (case i of
        ClmmSwap p \<Rightarrow>
          ebind (struct clmm_swap_layout ix) (\<lambda>a.
          let (amount_in, amount_out) =
                (if csw_is_base_input p then (csw_amount p, csw_other_amount_threshold p)
                 else (csw_other_amount_threshold p, csw_amount p))
          in Inr (Some (SwapEv (swap_with_user (a ''payer'')
               (swap_event_new RaydiumClmm (a ''pool_state'') (a ''input_vault'') (a ''output_vault'')
                 amount_in amount_out)))))
      | ClmmSwapV2 p \<Rightarrow>
          ebind (struct clmm_swap_v2_layout ix) (\<lambda>a.
          let (amount_in, amount_out) =
                (if csv_is_base_input p then (csv_amount p, csv_other_amount_threshold p)
                 else (csv_other_amount_threshold p, csv_amount p))
          in Inr (Some (SwapEv (swap_with_user (a ''payer'')
               (swap_event_new RaydiumClmm (a ''pool_state'') (a ''input_vault_mint'') (a ''output_vault_mint'')
                 amount_in amount_out)))))))"

text \<open>The DLMM parser is a stub.\<close>

definition registry_dlmm_parse :: "parsed_instruction \<Rightarrow> 'j parse_result" where
  "registry_dlmm_parse ix = Inr None"

definition registry_cpmm_parse :: "borsh \<Rightarrow> parsed_instruction \<Rightarrow> 'j parse_result" where
  "registry_cpmm_parse B ix =
     ebind (try_from_slice (cpmm_instruction_rows B) (pi_data ix)) (\<lambda>i.
     (case i of
        CpmmSwapBaseInput p \<Rightarrow>
          ebind (struct cpmm_swap_layout ix) (\<lambda>a.
          Inr (Some (SwapEv (swap_with_user (a ''payer'')
            (swap_event_new RaydiumCpmm (a ''pool_state'') (a ''input_token_mint'') (a ''output_token_mint'')
              (cbi_amount_in p) (cbi_minimum_amount_out p))))))
      | CpmmSwapBaseOutput p \<Rightarrow>
          ebind (struct cpmm_swap_layout ix) (\<lambda>a.
          Inr (Some (SwapEv (swap_with_user (a ''payer'')
            (swap_event_new RaydiumCpmm (a ''pool_state'') (a ''input_token_mint'') (a ''output_token_mint'')
              (cbo_maximum_amount_in p) (cbo_amount_out p))))))))"

definition registry_launchpad_parse :: "borsh \<Rightarrow> parsed_instruction \<Rightarrow> 'j parse_result" where
  "registry_launchpad_parse B ix =
     ebind (try_from_slice (launchpad_instruction_rows B) (pi_data ix)) (\<lambda>i.
     (case i of
        LpBuyExactIn p \<Rightarrow>
          ebind (struct launchpad_swap_layout ix) (\<lambda>a.
          Inr (Some (SwapEv (swap_with_direction True (swap_with_user (a ''payer'')
            (swap_event_new RaydiumLaunchpad (a ''pool_state'') (a ''quote_token_mint'') (a ''base_token_mint'')
              (lbi_amount_in p) (lbi_minimum_amount_out p)))))))
      | LpBuyExactOut p \<Rightarrow>
          ebind (struct launchpad_swap_layout ix) (\<lambda>a.
          Inr (Some (SwapEv (swap_with_direction True (swap_with_user (a ''payer'')
            (swap_event_new RaydiumLaunchpad (a ''pool_state'') (a ''quote_token_mint'') (a ''base_token_mint'')
              (lbo_maximum_amount_in p) (lbo_amount_out p)))))))
      | LpSellExactIn p \<Rightarrow>
          ebind (struct launchpad_swap_layout ix) (\<lambda>a.
          Inr (Some (SwapEv (swap_with_direction False (swap_with_user (a ''payer'')
            (swap_event_new RaydiumLaunchpad (a ''pool_state'') (a ''base_token_mint'') (a ''quote_token_mint'')
              (lsi_amount_in p) (lsi_minimum_amount_out p)))))))
      | LpSellExactOut p \<Rightarrow>
          ebind (struct launchpad_swap_layout ix) (\<lambda>a.
          Inr (Some (SwapEv (swap_with_direction False (swap_with_user (a ''payer'')
            (swap_event_new RaydiumLaunchpad (a ''pool_state'') (a ''base_token_mint'') (a ''quote_token_mint'')
              (lso_maximum_amount_in p) (lso_amount_out p)))))))))"

text \<open>DBC reports every swap from base to quote.\<close>

definition registry_dbc_parse :: "borsh \<Rightarrow> parsed_instruction \<Rightarrow> 'j parse_result" where
  "registry_dbc_parse B ix =
     ebind (try_from_slice (dbc_instruction_rows B) (pi_data ix)) (\<lambda>i.
     (case i of
        DbcSwap p \<Rightarrow>
          ebind (struct dbc_swap_layout ix) (\<lambda>a.
          Inr (Some (SwapEv (swap_with_user (a ''payer'')
            (swap_event_new MeteoraDbC (a ''pool'') (a ''base_mint'') (a ''quote_mint'')
              (dsw_amount_in p) (dsw_minimum_amount_out p))))))
      | DbcSwap2 p \<Rightarrow>
          ebind (struct dbc_swap_layout ix) (\<lambda>a.
          let (amount_in, amount_out) =
                (case swap_mode_from_u8 (dst_swap_mode p) of
                   Some ExactIn \<Rightarrow> (dst_amount_0 p, dst_amount_1 p)
                 | Some PartialFill \<Rightarrow> (dst_amount_0 p, dst_amount_1 p)
                 | Some ExactOut \<Rightarrow> (dst_amount_1 p, dst_amount_0 p)
                 | None \<Rightarrow> (dst_amount_0 p, dst_amount_1 p))
          in Inr (Some (SwapEv (swap_with_user (a ''payer'')
               (swap_event_new MeteoraDbC (a ''pool'') (a ''base_mint'') (a ''quote_mint'')
                 amount_in amount_out)))))))"

datatype protocol_parser =
    PumpfunParser | PumpSwapParser | RaydiumV4Parser | RaydiumClmmParser | RaydiumCpmmParser
  | RaydiumLaunchpadParser | MeteoraDlmmParser | MeteoraDbCParser

fun parser_protocol :: "protocol_parser \<Rightarrow> protocol" where
  "parser_protocol PumpfunParser = Pumpfun"
| "parser_protocol PumpSwapParser = PumpSwap"
| "parser_protocol RaydiumV4Parser = RaydiumV4"
| "parser_protocol RaydiumClmmParser = RaydiumClmm"
| "parser_protocol RaydiumCpmmParser = RaydiumCpmm"
| "parser_protocol RaydiumLaunchpadParser = RaydiumLaunchpad"
| "parser_protocol MeteoraDlmmParser = MeteoraDlmm"
| "parser_protocol MeteoraDbCParser = MeteoraDbC"

text \<open>The \<open>PROGRAM_ID\<close> constants of the protocol modules.\<close>

fun parser_program_id :: "pool_env \<Rightarrow> protocol_parser \<Rightarrow> pubkey" where
  "parser_program_id E PumpfunParser = po_program E Pumpfun"
| "parser_program_id E PumpSwapParser = po_program E PumpSwap"
| "parser_program_id E RaydiumV4Parser = po_program E RaydiumV4"
| "parser_program_id E RaydiumClmmParser = po_program E RaydiumClmm"
| "parser_program_id E RaydiumCpmmParser = po_program E RaydiumCpmm"
| "parser_program_id E RaydiumLaunchpadParser = po_program E RaydiumLaunchpad"
| "parser_program_id E MeteoraDlmmParser = po_program E MeteoraDlmm"
| "parser_program_id E MeteoraDbCParser = po_program E MeteoraDbC"

definition parser_parse :: "borsh \<Rightarrow> pool_env \<Rightarrow> bytes \<Rightarrow> protocol_parser \<Rightarrow> parsed_instruction \<Rightarrow> 'j parse_result" where
  "parser_parse B E trade_disc p ix =
     (case p of
        PumpfunParser \<Rightarrow> registry_pumpfun_parse B E trade_disc ix
      | PumpSwapParser \<Rightarrow> registry_pumpswap_parse B E ix
      | RaydiumV4Parser \<Rightarrow> registry_v4_parse B ix
      | RaydiumClmmParser \<Rightarrow> registry_clmm_parse B ix
      | MeteoraDlmmParser \<Rightarrow> registry_dlmm_parse ix
      | RaydiumCpmmParser \<Rightarrow> registry_cpmm_parse B ix
      | RaydiumLaunchpadParser \<Rightarrow> registry_launchpad_parse B ix
      | MeteoraDbCParser \<Rightarrow> registry_dbc_parse B ix)"

section \<open>The registry\<close>

type_synonym parser_registry = "pubkey \<rightharpoonup> protocol_parser"

definition parser_registry_new :: parser_registry where
  "parser_registry_new = Map.empty"

definition register_parser :: "pool_env \<Rightarrow> protocol_parser \<Rightarrow> parser_registry \<Rightarrow> parser_registry" where
  "register_parser E p r = r(parser_program_id E p \<mapsto> p)"

definition built_in_parsers :: "protocol_parser list" where
  "built_in_parsers = [PumpfunParser, PumpSwapParser, RaydiumV4Parser, RaydiumClmmParser, RaydiumCpmmParser,
     RaydiumLaunchpadParser, MeteoraDlmmParser, MeteoraDbCParser]"

definition with_all_protocols :: "pool_env \<Rightarrow> parser_registry" where
  "with_all_protocols E = fold (register_parser E) built_in_parsers parser_registry_new"

definition has_parser :: "parser_registry \<Rightarrow> pubkey \<Rightarrow> bool" where
  "has_parser r program = (r program \<noteq> None)"

definition get_parser :: "parser_registry \<Rightarrow> pubkey \<Rightarrow> protocol_parser option" where
  "get_parser r program = r program"

definition registered_programs :: "parser_registry \<Rightarrow> pubkey set" where
  "registered_programs r = dom r"

definition registry_parse ::
    "borsh \<Rightarrow> pool_env \<Rightarrow> bytes \<Rightarrow> parser_registry \<Rightarrow> parsed_instruction \<Rightarrow> 'j parse_result" where
  "registry_parse B E trade_disc r ix =
     (case r (pi_program_id ix) of
        None \<Rightarrow> Inl (UnknownProgram (pi_program_id ix))
      | Some p \<Rightarrow> parser_parse B E trade_disc p ix)"

definition registry_try_parse ::
    "borsh \<Rightarrow> pool_env \<Rightarrow> bytes \<Rightarrow> parser_registry \<Rightarrow> parsed_instruction \<Rightarrow> 'j parse_result" where
  "registry_try_parse B E trade_disc r ix =
     (case r (pi_program_id ix) of
        None \<Rightarrow> Inr None
      | Some p \<Rightarrow> parser_parse B E trade_disc p ix)"

fun parse_all ::
    "borsh \<Rightarrow> pool_env \<Rightarrow> bytes \<Rightarrow> parser_registry \<Rightarrow> parsed_instruction list \<Rightarrow>
     (instruction_parse_error + 'j protocol_event) list" where
  "parse_all B E trade_disc r [] = []"
| "parse_all B E trade_disc r (ix # ixs) =
     (case registry_try_parse B E trade_disc r ix of
        Inr (Some event) \<Rightarrow> Inr event # parse_all B E trade_disc r ixs
      | Inr None \<Rightarrow> parse_all B E trade_disc r ixs
      | Inl e \<Rightarrow> Inl e # parse_all B E trade_disc r ixs)"

text \<open>The five filters: events of one kind, and every error.\<close>

definition keep_kind :: "('j protocol_event \<Rightarrow> 'k option) \<Rightarrow> 'e + 'j protocol_event \<Rightarrow> ('e + 'k) option" where
  "keep_kind sel x = (case x of Inr event \<Rightarrow> map_option Inr (sel event) | Inl e \<Rightarrow> Some (Inl e))"

definition parse_swaps ::
    "borsh \<Rightarrow> pool_env \<Rightarrow> bytes \<Rightarrow> parser_registry \<Rightarrow> parsed_instruction list \<Rightarrow>
     (instruction_parse_error + 'j swap_event) list" where
  "parse_swaps B E trade_disc r ixs =
     List.map_filter (keep_kind as_swap_event) (parse_all B E trade_disc r ixs)"

definition parse_creations ::
    "borsh \<Rightarrow> pool_env \<Rightarrow> bytes \<Rightarrow> parser_registry \<Rightarrow> parsed_instruction list \<Rightarrow>
     (instruction_parse_error + 'j token_creation_event) list" where
  "parse_creations B E trade_disc r ixs =
     List.map_filter (keep_kind as_token_creation_event) (parse_all B E trade_disc r ixs)"

definition parse_pool_creations ::
    "borsh \<Rightarrow> pool_env \<Rightarrow> bytes \<Rightarrow> parser_registry \<Rightarrow> parsed_instruction list \<Rightarrow>
     (instruction_parse_error + 'j pool_creation_event) list" where
  "parse_pool_creations B E trade_disc r ixs =
     List.map_filter (keep_kind as_pool_creation_event) (parse_all B E trade_disc r ixs)"

definition parse_liquidity_adds ::
    "borsh \<Rightarrow> pool_env \<Rightarrow> bytes \<Rightarrow> parser_registry \<Rightarrow> parsed_instruction list \<Rightarrow>
     (instruction_parse_error + 'j liquidity_event) list" where
  "parse_liquidity_adds B E trade_disc r ixs =
     List.map_filter (keep_kind as_liquidity_add_event) (parse_all B E trade_disc r ixs)"

definition parse_liquidity_removes ::
    "borsh \<Rightarrow> pool_env \<Rightarrow> bytes \<Rightarrow> parser_registry \<Rightarrow> parsed_instruction list \<Rightarrow>
     (instruction_parse_error + 'j liquidity_event) list" where
  "parse_liquidity_removes B E trade_disc r ixs =
     List.map_filter (keep_kind as_liquidity_remove_event) (parse_all B E trade_disc r ixs)"

section \<open>Lookup\<close>

text \<open>One program per protocol: every protocol but DAMM v2 has its parser.\<close>

fun parser_of :: "protocol \<Rightarrow> protocol_parser option" where
  "parser_of Pumpfun = Some PumpfunParser"
| "parser_of PumpSwap = Some PumpSwapParser"
| "parser_of RaydiumV4 = Some RaydiumV4Parser"
| "parser_of RaydiumClmm = Some RaydiumClmmParser"
| "parser_of RaydiumCpmm = Some RaydiumCpmmParser"
| "parser_of RaydiumLaunchpad = Some RaydiumLaunchpadParser"
| "parser_of MeteoraDlmm = Some MeteoraDlmmParser"
| "parser_of MeteoraDbC = Some MeteoraDbCParser"
| "parser_of MeteoraDammV2 = None"

lemma registry_lookup:
  assumes "inj (po_program E)"
  shows "with_all_protocols E (po_program E p) = parser_of p"
  using assms by (cases p) (simp_all add: with_all_protocols_def built_in_parsers_def register_parser_def
      parser_registry_new_def inj_eq)

lemma registry_parser_program:
  "with_all_protocols E program = Some q \<Longrightarrow> program = po_program E (parser_protocol q)"
  by (auto simp: with_all_protocols_def built_in_parsers_def register_parser_def parser_registry_new_def
      split: if_splits)

section \<open>An event names the program that ran\<close>

lemma ebind_Inr_iff: "ebind x f = Inr y \<longleftrightarrow> (\<exists>a. x = Inr a \<and> f a = Inr y)"
  by (cases x) simp_all

lemma pumpfun_event_protocol:
  assumes "registry_pumpfun_parse B E td ix = Inr (Some ev)"
  shows "event_protocol ev = Pumpfun"
proof -
  obtain i where "(case i of
        PfBuy _ \<Rightarrow> registry_pumpfun_swap E td ix i
      | PfBuyExactSolIn _ \<Rightarrow> registry_pumpfun_swap E td ix i
      | PfSell _ \<Rightarrow> registry_pumpfun_swap E td ix i
      | PfCreate p \<Rightarrow> registry_pumpfun_create ix p
      | PfCreateV2 p \<Rightarrow> registry_pumpfun_create_v2 ix p
      | _ \<Rightarrow> Inr None) = Inr (Some ev)"
    using assms by (auto simp: registry_pumpfun_parse_def ebind_Inr_iff)
  then show ?thesis
    by (cases i) (auto simp: registry_pumpfun_swap_def registry_pumpfun_create_def
        registry_pumpfun_create_v2_def ebind_Inr_iff event_defs Let_def split: option.splits if_splits)
qed

lemma pumpswap_event_protocol:
  assumes "registry_pumpswap_parse B E ix = Inr (Some ev)"
  shows "event_protocol ev = PumpSwap"
proof -
  obtain i where "try_from_slice (pumpswap_instruction_rows B (po_keys E)) (pi_data ix) = Inr i"
    using assms by (auto simp: registry_pumpswap_parse_def ebind_Inr_iff)
  then show ?thesis
    using assms by (cases i) (auto simp: registry_pumpswap_parse_def ebind_Inr_iff event_defs Let_def split_beta)
qed

lemma v4_event_protocol:
  assumes "registry_v4_parse B ix = Inr (Some ev)"
  shows "event_protocol ev = RaydiumV4"
proof -
  obtain i where "try_from_slice_sized 1 (v4_instruction_rows B) (pi_data ix) = Inr i"
    using assms by (auto simp: registry_v4_parse_def ebind_Inr_iff)
  then show ?thesis
    using assms by (cases i) (auto simp: registry_v4_parse_def ebind_Inr_iff event_defs Let_def split_beta)
qed

lemma clmm_event_protocol:
  assumes "registry_clmm_parse B ix = Inr (Some ev)"
  shows "event_protocol ev = RaydiumClmm"
proof -
  obtain i where "try_from_slice (clmm_instruction_rows B) (pi_data ix) = Inr i"
    using assms by (auto simp: registry_clmm_parse_def ebind_Inr_iff)
  then show ?thesis
    using assms by (cases i) (auto simp: registry_clmm_parse_def ebind_Inr_iff event_defs Let_def split_beta)
qed

lemma cpmm_event_protocol:
  assumes "registry_cpmm_parse B ix = Inr (Some ev)"
  shows "event_protocol ev = RaydiumCpmm"
proof -
  obtain i where "try_from_slice (cpmm_instruction_rows B) (pi_data ix) = Inr i"
    using assms by (auto simp: registry_cpmm_parse_def ebind_Inr_iff)
  then show ?thesis
    using assms by (cases i) (auto simp: registry_cpmm_parse_def ebind_Inr_iff event_defs Let_def split_beta)
qed

lemma launchpad_event_protocol:
  assumes "registry_launchpad_parse B ix = Inr (Some ev)"
  shows "event_protocol ev = RaydiumLaunchpad"
proof -
  obtain i where "try_from_slice (launchpad_instruction_rows B) (pi_data ix) = Inr i"
    using assms by (auto simp: registry_launchpad_parse_def ebind_Inr_iff)
  then show ?thesis
    using assms by (cases i) (auto simp: registry_launchpad_parse_def ebind_Inr_iff event_defs Let_def split_beta)
qed

lemma dbc_event_protocol:
  assumes "registry_dbc_parse B ix = Inr (Some ev)"
  shows "event_protocol ev = MeteoraDbC"
proof -
  obtain i where "try_from_slice (dbc_instruction_rows B) (pi_data ix) = Inr i"
    using assms by (auto simp: registry_dbc_parse_def ebind_Inr_iff)
  then show ?thesis
    using assms by (cases i) (auto simp: registry_dbc_parse_def ebind_Inr_iff event_defs Let_def split_beta)
qed

lemma parser_event_protocol:
  "parser_parse B E td q ix = Inr (Some ev) \<Longrightarrow> event_protocol ev = parser_protocol q"
  using pumpfun_event_protocol pumpswap_event_protocol v4_event_protocol clmm_event_protocol cpmm_event_protocol
    launchpad_event_protocol dbc_event_protocol
  by (cases q) (simp_all add: parser_parse_def registry_dlmm_parse_def)

text \<open>An event names the protocol whose program ran, and each instruction gives at most one: what
  \<open>parse_all\<close> collects has, in order, the errors and the events of instructions of registered programs,
  and nothing of the DLMM program, whose parser is a stub, nor of DAMM v2, which has none.\<close>

lemma registry_events_name_programs:
  fixes ixs :: "parsed_instruction list" and ev :: "'j protocol_event"
  assumes "Inr ev \<in> set (parse_all B E td (with_all_protocols E) ixs)"
  shows "event_protocol ev \<notin> {MeteoraDlmm, MeteoraDammV2} \<and>
    (\<exists>ix \<in> set ixs. pi_program_id ix = po_program E (event_protocol ev) \<and>
       registry_parse B E td (with_all_protocols E) ix = Inr (Some ev)) \<and>
    length (parse_all B E td (with_all_protocols E) ixs :: (instruction_parse_error + 'j protocol_event) list) \<le> length ixs"
proof -
  let ?r = "with_all_protocols E"
  have len: "length (parse_all B E td ?r ixs :: (instruction_parse_error + 'j protocol_event) list) \<le> length ixs"
    by (induction ixs) (auto split: sum.splits option.splits)
  have "\<exists>ix \<in> set ixs. registry_try_parse B E td ?r ix = Inr (Some ev)"
    using assms by (induction ixs) (auto split: sum.splits option.splits)
  then obtain ix q where ix: "ix \<in> set ixs" "?r (pi_program_id ix) = Some q" "parser_parse B E td q ix = Inr (Some ev)"
    by (auto simp: registry_try_parse_def split: option.splits)
  note protocol = parser_event_protocol [OF ix(3)]
  have "event_protocol ev \<notin> {MeteoraDlmm, MeteoraDammV2}"
    using ix(3) protocol by (cases q) (auto simp: parser_parse_def registry_dlmm_parse_def)
  moreover have "pi_program_id ix = po_program E (event_protocol ev)"
    using registry_parser_program [OF ix(2)] protocol by simp
  moreover have "registry_parse B E td ?r ix = Inr (Some ev)"
    using ix(2,3) by (simp add: registry_parse_def)
  ultimately show ?thesis
    using ix(1) len by blast
qed

section \<open>The filters\<close>

text \<open>Every event is of one kind, so that the five filters share out the events, and each reports every
  error.\<close>

definition errors :: "('e + 'a) list \<Rightarrow> 'e list" where
  "errors xs = List.map_filter (\<lambda>x. case x of Inl e \<Rightarrow> Some e | Inr _ \<Rightarrow> None) xs"

definition oks :: "('e + 'a) list \<Rightarrow> 'a list" where
  "oks xs = List.map_filter (\<lambda>x. case x of Inl _ \<Rightarrow> None | Inr a \<Rightarrow> Some a) xs"

lemmas filter_defs = errors_def oks_def keep_kind_def map_filter_simps

lemma filter_errors: "errors (List.map_filter (keep_kind sel) xs) = errors xs"
  by (induction xs) (simp_all add: filter_defs split: sum.split option.split)

lemma filter_oks: "oks (List.map_filter (keep_kind sel) xs) = List.map_filter sel (oks xs)"
  by (induction xs) (simp_all add: filter_defs split: sum.split option.split)

lemma kinds_share_out:
  "length evs =
     length (List.map_filter as_swap_event evs) + length (List.map_filter as_token_creation_event evs) +
     length (List.map_filter as_pool_creation_event evs) + length (List.map_filter as_liquidity_add_event evs) +
     length (List.map_filter as_liquidity_remove_event evs)"
proof (induction evs)
  case (Cons ev evs)
  then show ?case
    by (cases ev) (simp_all add: map_filter_simps)
qed (simp add: map_filter_simps)

text \<open>What the filters of one transaction give: each of the five reports every error of \<open>parse_all\<close>,
  and the events, of which none is lost and none is in two filters, are shared out among them in their
  order.\<close>

lemma registry_filters_share_out:
  fixes B :: borsh and E :: pool_env and td :: bytes and r :: parser_registry and ixs :: "parsed_instruction list"
  defines "all \<equiv> parse_all B E td r ixs :: (instruction_parse_error + 'j protocol_event) list"
    and "swaps \<equiv> parse_swaps B E td r ixs :: (instruction_parse_error + 'j swap_event) list"
    and "creations \<equiv> parse_creations B E td r ixs :: (instruction_parse_error + 'j token_creation_event) list"
    and "pools \<equiv> parse_pool_creations B E td r ixs :: (instruction_parse_error + 'j pool_creation_event) list"
    and "adds \<equiv> parse_liquidity_adds B E td r ixs :: (instruction_parse_error + 'j liquidity_event) list"
    and "removes \<equiv> parse_liquidity_removes B E td r ixs :: (instruction_parse_error + 'j liquidity_event) list"
  shows "errors swaps = errors all \<and> errors creations = errors all \<and> errors pools = errors all \<and>
      errors adds = errors all \<and> errors removes = errors all"
    and "oks swaps = List.map_filter as_swap_event (oks all) \<and>
      length (oks all) = length (oks swaps) + length (oks creations) + length (oks pools) +
        length (oks adds) + length (oks removes)"
  using kinds_share_out [of "oks all"]
  by (simp_all add: all_def swaps_def creations_def pools_def adds_def removes_def parse_swaps_def
      parse_creations_def parse_pool_creations_def parse_liquidity_adds_def parse_liquidity_removes_def
      filter_errors filter_oks)

section \<open>What the builders send\<close>

text \<open>A layout of required fields alone, read by the names of its fields.\<close>

definition required_only :: "layout \<Rightarrow> bool" where
  "required_only L \<longleftrightarrow>
     (\<forall>s \<in> set (la_named L). \<not> sl_optional s) \<and> la_conditional L = [] \<and> la_resolved L = [] \<and> la_rest L = None"

lemma all_accounts_read:
  assumes "required_only L" "length ks = length (la_named L)"
  shows "from_pubkeys L (map am_pubkey (to_account_metas L (all_accounts ks))) = Inr (all_accounts ks)"
proof (rule built_is_read)
  show "fits L (all_accounts ks)"
    using assms unfolding all_accounts_def by (intro all_required_fits) (simp_all add: required_only_def)
qed (use assms in \<open>simp_all add: required_only_def all_accounts_def wanted_def\<close>)

lemma struct_sent:
  assumes "required_only L" "length ks = length (la_named L)"
    and "in_accounts ix = to_account_metas L (all_accounts ks)"
  shows "struct L (sent ix) = Inr (bound (acc L (all_accounts ks)))"
  using all_accounts_read [OF assms(1,2)] assms(3) by (simp add: struct_def)

lemmas pool_layouts =
  v4_swap_base_in_layout_def cpmm_swap_layout_def launchpad_swap_layout_def dbc_swap_layout_def
  clmm_swap_v2_layout_def plain_layout_def slot_defs

lemmas pool_builders =
  v4_buy_def v4_sell_def v4_build_def v4_swap_base_in_new_def cpmm_buy_def cpmm_sell_def cpmm_build_def
  cpmm_swap_base_input_new_def launchpad_buy_def launchpad_sell_def launchpad_buy_build_def
  launchpad_sell_build_def launchpad_buy_exact_in_new_def launchpad_sell_exact_in_new_def dbc_buy_def
  dbc_sell_def dbc_build_def dbc_swap_new_def

lemmas pool_accounts_built =
  v4_accounts_for_buy_def v4_accounts_for_sell_def v4_swap_accounts_def cpmm_swap_accounts_def
  launchpad_swap_accounts_def dbc_swap_accounts_def

lemma bound_all_accounts:
  "bound (acc L (all_accounts ks)) n = bound (bindings_of L (map Some ks)) n"
  by (simp add: bound_def acc_def all_accounts_def)

lemma pool_required_only:
  "required_only v4_swap_base_in_layout" "required_only cpmm_swap_layout" "required_only launchpad_swap_layout"
  "required_only dbc_swap_layout" "required_only clmm_swap_v2_layout"
  by (simp_all add: required_only_def pool_layouts)

lemma v4_struct:
  "in_accounts ix = to_account_metas v4_swap_base_in_layout (v4_swap_accounts E k user src dst) \<Longrightarrow>
   \<exists>a. struct v4_swap_base_in_layout (sent ix) = Inr a \<and> a ''amm_id'' = rk_amm_id k \<and>
     a ''user_source_token_account'' = classic_ata (po_keys E) user src \<and>
     a ''user_destination_token_account'' = classic_ata (po_keys E) user dst \<and> a ''user_source_owner'' = user"
  unfolding v4_swap_accounts_def
  by (subst struct_sent [OF pool_required_only(1)])
    (simp_all add: bound_all_accounts, simp_all add: pool_layouts bindings_of_def bound_def)

lemma cpmm_struct:
  "in_accounts ix = to_account_metas cpmm_swap_layout (cpmm_swap_accounts E k user buying) \<Longrightarrow>
   \<exists>a. struct cpmm_swap_layout (sent ix) = Inr a \<and> a ''pool_state'' = pk_pool_id k \<and>
     a ''input_token_mint'' = (if buying then pk_token_1_mint k else pk_token_0_mint k) \<and>
     a ''output_token_mint'' = (if buying then pk_token_0_mint k else pk_token_1_mint k) \<and> a ''payer'' = user"
  unfolding cpmm_swap_accounts_def Let_def split_beta
  by (subst struct_sent [OF pool_required_only(2)])
    (simp_all add: bound_all_accounts, simp_all add: pool_layouts bindings_of_def bound_def)

lemma launchpad_struct:
  "in_accounts ix = to_account_metas launchpad_swap_layout (launchpad_swap_accounts E k user) \<Longrightarrow>
   \<exists>a. struct launchpad_swap_layout (sent ix) = Inr a \<and> a ''pool_state'' = lk_pool_id k \<and>
     a ''base_token_mint'' = lk_base_mint k \<and> a ''quote_token_mint'' = lk_quote_mint k \<and> a ''payer'' = user"
  unfolding launchpad_swap_accounts_def
  by (subst struct_sent [OF pool_required_only(3)])
    (simp_all add: bound_all_accounts, simp_all add: pool_layouts bindings_of_def bound_def)

lemma dbc_struct:
  "in_accounts ix = to_account_metas dbc_swap_layout (dbc_swap_accounts E k user buying) \<Longrightarrow>
   \<exists>a. struct dbc_swap_layout (sent ix) = Inr a \<and> a ''pool'' = dk_pool k \<and>
     a ''base_mint'' = dk_base_mint k \<and> a ''quote_mint'' = dk_quote_mint k \<and> a ''payer'' = user"
  unfolding dbc_swap_accounts_def Let_def split_beta
  by (subst struct_sent [OF pool_required_only(4)])
    (simp_all add: bound_all_accounts, simp_all add: pool_layouts bindings_of_def bound_def)

lemma registry_sent:
  assumes "inj (po_program E)" "in_program_id ix = po_program E p" "parser_of p = Some q"
  shows "registry_parse B E td (with_all_protocols E) (sent ix) = parser_parse B E td q (sent ix)"
  using registry_lookup [OF assms(1), of p] assms(2,3) by (simp add: registry_parse_def)

text \<open>One lemma per builder: the event that its instruction is parsed to.\<close>

definition v4_event :: "pool_env \<Rightarrow> raydium_v4_keys \<Rightarrow> pubkey \<Rightarrow> pubkey \<Rightarrow> pubkey \<Rightarrow> u64 \<Rightarrow> u64 \<Rightarrow> 'j swap_event" where
  "v4_event E k user src dst a m = swap_with_user user (swap_event_new RaydiumV4 (rk_amm_id k)
     (classic_ata (po_keys E) user src) (classic_ata (po_keys E) user dst) a m)"

definition cpmm_event :: "raydium_cpmm_keys \<Rightarrow> pubkey \<Rightarrow> pubkey \<Rightarrow> pubkey \<Rightarrow> u64 \<Rightarrow> u64 \<Rightarrow> 'j swap_event" where
  "cpmm_event k user src dst a m = swap_with_user user (swap_event_new RaydiumCpmm (pk_pool_id k) src dst a m)"

definition launchpad_event :: "launchpad_keys \<Rightarrow> pubkey \<Rightarrow> bool \<Rightarrow> pubkey \<Rightarrow> pubkey \<Rightarrow> u64 \<Rightarrow> u64 \<Rightarrow> 'j swap_event" where
  "launchpad_event k user buying src dst a m = swap_with_direction buying (swap_with_user user
     (swap_event_new RaydiumLaunchpad (lk_pool_id k) src dst a m))"

definition dbc_event :: "dbc_keys \<Rightarrow> pubkey \<Rightarrow> u64 \<Rightarrow> u64 \<Rightarrow> 'j swap_event" where
  "dbc_event k user a m = swap_with_user user (swap_event_new MeteoraDbC (dk_pool k) (dk_base_mint k) (dk_quote_mint k) a m)"

lemma v4_built_event:
  assumes "borsh_ok B" "inj (po_program E)"
  shows "registry_parse B E td (with_all_protocols E) (sent (v4_buy E k user a m)) =
      Inr (Some (SwapEv (v4_event E k user (rk_quote_mint k) (rk_base_mint k) a m)))"
    and "registry_parse B E td (with_all_protocols E) (sent (v4_sell E k user a m)) =
      Inr (Some (SwapEv (v4_event E k user (rk_base_mint k) (rk_quote_mint k) a m)))"
proof -
  have program: "in_program_id (v4_buy E k user a m) = po_program E RaydiumV4"
      "in_program_id (v4_sell E k user a m) = po_program E RaydiumV4"
    by (simp_all add: pool_builders)
  obtain f g where
    "struct v4_swap_base_in_layout (sent (v4_buy E k user a m)) = Inr f" "f ''amm_id'' = rk_amm_id k"
    "f ''user_source_token_account'' = classic_ata (po_keys E) user (rk_quote_mint k)"
    "f ''user_destination_token_account'' = classic_ata (po_keys E) user (rk_base_mint k)" "f ''user_source_owner'' = user"
    "struct v4_swap_base_in_layout (sent (v4_sell E k user a m)) = Inr g" "g ''amm_id'' = rk_amm_id k"
    "g ''user_source_token_account'' = classic_ata (po_keys E) user (rk_base_mint k)"
    "g ''user_destination_token_account'' = classic_ata (po_keys E) user (rk_quote_mint k)" "g ''user_source_owner'' = user"
    using v4_struct [of "v4_buy E k user a m" E k user "rk_quote_mint k" "rk_base_mint k"]
      v4_struct [of "v4_sell E k user a m" E k user "rk_base_mint k" "rk_quote_mint k"]
    by (auto simp: pool_builders v4_accounts_for_buy_def v4_accounts_for_sell_def)
  then show "registry_parse B E td (with_all_protocols E) (sent (v4_buy E k user a m)) =
      Inr (Some (SwapEv (v4_event E k user (rk_quote_mint k) (rk_base_mint k) a m)))"
    and "registry_parse B E td (with_all_protocols E) (sent (v4_sell E k user a m)) =
      Inr (Some (SwapEv (v4_event E k user (rk_base_mint k) (rk_quote_mint k) a m)))"
    using registry_sent [OF assms(2) program(1), of RaydiumV4Parser B td]
      registry_sent [OF assms(2) program(2), of RaydiumV4Parser B td]
    by (simp_all add: parser_parse_def registry_v4_parse_def pool_builders pool_data_read [OF assms(1)] v4_event_def
        del: One_nat_def)
qed

lemma cpmm_built_event:
  assumes "borsh_ok B" "inj (po_program E)"
  shows "registry_parse B E td (with_all_protocols E) (sent (cpmm_buy E k user a m)) =
      Inr (Some (SwapEv (cpmm_event k user (pk_token_1_mint k) (pk_token_0_mint k) a m)))"
    and "registry_parse B E td (with_all_protocols E) (sent (cpmm_sell E k user a m)) =
      Inr (Some (SwapEv (cpmm_event k user (pk_token_0_mint k) (pk_token_1_mint k) a m)))"
proof -
  have program: "in_program_id (cpmm_buy E k user a m) = po_program E RaydiumCpmm"
    by (simp add: pool_builders)
  obtain f where "struct cpmm_swap_layout (sent (cpmm_buy E k user a m)) = Inr f"
    "f ''pool_state'' = pk_pool_id k" "f ''payer'' = user" "f ''input_token_mint'' = pk_token_1_mint k" "f ''output_token_mint'' = pk_token_0_mint k"
    using cpmm_struct [of "cpmm_buy E k user a m" E k user True] by (auto simp: pool_builders)
  then show "registry_parse B E td (with_all_protocols E) (sent (cpmm_buy E k user a m)) =
      Inr (Some (SwapEv (cpmm_event k user (pk_token_1_mint k) (pk_token_0_mint k) a m)))"
    using registry_sent [OF assms(2) program, of RaydiumCpmmParser B td]
    by (simp add: parser_parse_def registry_cpmm_parse_def pool_builders pool_data_read [OF assms(1)] cpmm_event_def)
  have program: "in_program_id (cpmm_sell E k user a m) = po_program E RaydiumCpmm"
    by (simp add: pool_builders)
  obtain f where "struct cpmm_swap_layout (sent (cpmm_sell E k user a m)) = Inr f"
    "f ''pool_state'' = pk_pool_id k" "f ''payer'' = user" "f ''input_token_mint'' = pk_token_0_mint k" "f ''output_token_mint'' = pk_token_1_mint k"
    using cpmm_struct [of "cpmm_sell E k user a m" E k user False] by (auto simp: pool_builders)
  then show "registry_parse B E td (with_all_protocols E) (sent (cpmm_sell E k user a m)) =
      Inr (Some (SwapEv (cpmm_event k user (pk_token_0_mint k) (pk_token_1_mint k) a m)))"
    using registry_sent [OF assms(2) program, of RaydiumCpmmParser B td]
    by (simp add: parser_parse_def registry_cpmm_parse_def pool_builders pool_data_read [OF assms(1)] cpmm_event_def)
qed

lemma launchpad_built_event:
  assumes "borsh_ok B" "inj (po_program E)"
  shows "registry_parse B E td (with_all_protocols E) (sent (launchpad_buy E k user a m)) =
      Inr (Some (SwapEv (launchpad_event k user True (lk_quote_mint k) (lk_base_mint k) a m)))"
    and "registry_parse B E td (with_all_protocols E) (sent (launchpad_sell E k user a m)) =
      Inr (Some (SwapEv (launchpad_event k user False (lk_base_mint k) (lk_quote_mint k) a m)))"
proof -
  have program: "in_program_id (launchpad_buy E k user a m) = po_program E RaydiumLaunchpad"
    by (simp add: pool_builders)
  obtain f where "struct launchpad_swap_layout (sent (launchpad_buy E k user a m)) = Inr f"
    "f ''pool_state'' = lk_pool_id k" "f ''payer'' = user" "f ''base_token_mint'' = lk_base_mint k" "f ''quote_token_mint'' = lk_quote_mint k"
    using launchpad_struct [of "launchpad_buy E k user a m" E k user] by (auto simp: pool_builders)
  then show "registry_parse B E td (with_all_protocols E) (sent (launchpad_buy E k user a m)) =
      Inr (Some (SwapEv (launchpad_event k user True (lk_quote_mint k) (lk_base_mint k) a m)))"
    using registry_sent [OF assms(2) program, of RaydiumLaunchpadParser B td]
    by (simp add: parser_parse_def registry_launchpad_parse_def pool_builders pool_data_read [OF assms(1)] launchpad_event_def)
  have program: "in_program_id (launchpad_sell E k user a m) = po_program E RaydiumLaunchpad"
    by (simp add: pool_builders)
  obtain f where "struct launchpad_swap_layout (sent (launchpad_sell E k user a m)) = Inr f"
    "f ''pool_state'' = lk_pool_id k" "f ''payer'' = user" "f ''base_token_mint'' = lk_base_mint k" "f ''quote_token_mint'' = lk_quote_mint k"
    using launchpad_struct [of "launchpad_sell E k user a m" E k user] by (auto simp: pool_builders)
  then show "registry_parse B E td (with_all_protocols E) (sent (launchpad_sell E k user a m)) =
      Inr (Some (SwapEv (launchpad_event k user False (lk_base_mint k) (lk_quote_mint k) a m)))"
    using registry_sent [OF assms(2) program, of RaydiumLaunchpadParser B td]
    by (simp add: parser_parse_def registry_launchpad_parse_def pool_builders pool_data_read [OF assms(1)] launchpad_event_def)
qed

lemma dbc_built_event:
  assumes "borsh_ok B" "inj (po_program E)"
  shows "registry_parse B E td (with_all_protocols E) (sent (dbc_buy E k user a m)) =
      Inr (Some (SwapEv (dbc_event k user a m)))"
    and "registry_parse B E td (with_all_protocols E) (sent (dbc_sell E k user a m)) =
      Inr (Some (SwapEv (dbc_event k user a m)))"
proof -
  have program: "in_program_id (dbc_buy E k user a m) = po_program E MeteoraDbC"
    by (simp add: pool_builders)
  obtain f where "struct dbc_swap_layout (sent (dbc_buy E k user a m)) = Inr f"
    "f ''pool'' = dk_pool k" "f ''payer'' = user" "f ''base_mint'' = dk_base_mint k" "f ''quote_mint'' = dk_quote_mint k"
    using dbc_struct [of "dbc_buy E k user a m" E k user True] by (auto simp: pool_builders)
  then show "registry_parse B E td (with_all_protocols E) (sent (dbc_buy E k user a m)) =
      Inr (Some (SwapEv (dbc_event k user a m)))"
    using registry_sent [OF assms(2) program, of MeteoraDbCParser B td]
    by (simp add: parser_parse_def registry_dbc_parse_def pool_builders pool_data_read [OF assms(1)] dbc_event_def)
  have program: "in_program_id (dbc_sell E k user a m) = po_program E MeteoraDbC"
    by (simp add: pool_builders)
  obtain f where "struct dbc_swap_layout (sent (dbc_sell E k user a m)) = Inr f"
    "f ''pool'' = dk_pool k" "f ''payer'' = user" "f ''base_mint'' = dk_base_mint k" "f ''quote_mint'' = dk_quote_mint k"
    using dbc_struct [of "dbc_sell E k user a m" E k user False] by (auto simp: pool_builders)
  then show "registry_parse B E td (with_all_protocols E) (sent (dbc_sell E k user a m)) =
      Inr (Some (SwapEv (dbc_event k user a m)))"
    using registry_sent [OF assms(2) program, of MeteoraDbCParser B td]
    by (simp add: parser_parse_def registry_dbc_parse_def pool_builders pool_data_read [OF assms(1)] dbc_event_def)
qed

text \<open>C39: The registry reads back what the builders of three programs send: the event of a built buy or sell
  has the pool of the keys, the amounts that were asked for, the sender, and both sides in the direction
  of the swap; for Raydium V4 the sides are the sender's token accounts, as its layout has no mints. The
  exception is DBC: its buys and its sells give one and the same event, from base to quote.\<close>

theorem built_pool_swaps_read_back:
  fixes td :: bytes
  assumes "borsh_ok B" and "inj (po_program E)"
  defines "parse \<equiv> \<lambda>ix. registry_parse B E td (with_all_protocols E) (sent ix)"
  shows "parse (v4_buy E k1 user a m) = Inr (Some (SwapEv (v4_event E k1 user (rk_quote_mint k1) (rk_base_mint k1) a m))) \<and>
    parse (v4_sell E k1 user a m) = Inr (Some (SwapEv (v4_event E k1 user (rk_base_mint k1) (rk_quote_mint k1) a m))) \<and>
    parse (cpmm_buy E k2 user a m) = Inr (Some (SwapEv (cpmm_event k2 user (pk_token_1_mint k2) (pk_token_0_mint k2) a m))) \<and>
    parse (cpmm_sell E k2 user a m) = Inr (Some (SwapEv (cpmm_event k2 user (pk_token_0_mint k2) (pk_token_1_mint k2) a m))) \<and>
    parse (launchpad_buy E k3 user a m) =
      Inr (Some (SwapEv (launchpad_event k3 user True (lk_quote_mint k3) (lk_base_mint k3) a m))) \<and>
    parse (launchpad_sell E k3 user a m) =
      Inr (Some (SwapEv (launchpad_event k3 user False (lk_base_mint k3) (lk_quote_mint k3) a m))) \<and>
    parse (dbc_buy E k4 user a m) = parse (dbc_sell E k4 user a m) \<and>
    parse (dbc_sell E k4 user a m) = Inr (Some (SwapEv (dbc_event k4 user a m)))"
  unfolding parse_def
  using v4_built_event [OF assms(1,2)] cpmm_built_event [OF assms(1,2)] launchpad_built_event [OF assms(1,2)]
    dbc_built_event [OF assms(1,2)]
  by metis

section \<open>The CLMM builder against its own parser\<close>

lemma collect_offsets_length: "collect_offsets f is = Some xs \<Longrightarrow> length xs = length is"
  by (induction "is" arbitrary: xs) (auto simp: bind_eq_Some_conv)

lemma tick_arrays_length:
  "tick_arrays_for_swap oc pda program k tick buying n = Some xs \<Longrightarrow> length xs = n"
  by (auto simp: tick_arrays_for_swap_def bind_eq_Some_conv dest: collect_offsets_length)

lemma all_accounts_keys:
  assumes "required_only L" "length ks = length (la_named L)"
  shows "map am_pubkey (to_account_metas L (all_accounts ks)) = ks"
  using assms by (intro nth_equalityI)
    (auto simp: to_account_metas_def all_accounts_def required_only_def named_meta_def)

text \<open>A CLMM swap is never built or always refused: its builder appends the tick arrays that the program
  needs, the layout of its parser ends before them, and so the registry counts them as unmodelled
  accounts, the first tick array being the first.\<close>

lemma clmm_built_swap_refused:
  assumes "borsh_ok B" and "inj (po_program E)" and "clmm_build E oc c user p = Some ix"
    and "0 < vc_tick_array_count c"
  shows "\<exists>arrays. tick_arrays_for_swap oc (ke_pda (po_keys E)) (po_program E RaydiumClmm) (vc_keys c)
        (sint (vc_current_tick c)) (vc_is_buy c) (vc_tick_array_count c) = Some arrays \<and>
      length arrays = vc_tick_array_count c \<and>
      registry_parse B E td (with_all_protocols E) (sent ix) =
        Inl (UnmodelledAccounts 13 (13 + vc_tick_array_count c) (hd arrays))"
proof -
  obtain arrays where arrays: "tick_arrays_for_swap oc (ke_pda (po_keys E)) (po_program E RaydiumClmm) (vc_keys c)
        (sint (vc_current_tick c)) (vc_is_buy c) (vc_tick_array_count c) = Some arrays"
    and ix: "in_program_id ix = po_program E RaydiumClmm" "in_data ix = clmm_instruction_data (ClmmSwapV2 p)"
      "in_accounts ix = to_account_metas clmm_swap_v2_layout (clmm_swap_v2_accounts E (vc_keys c) user (vc_is_buy c)) @
        map (\<lambda>k. \<lparr> am_pubkey = k, am_is_signer = False, am_is_writable = True \<rparr>) arrays"
    using assms(3) by (auto simp: clmm_build_def bind_eq_Some_conv)
  note len = tick_arrays_length [OF arrays]
  obtain ks where ks: "clmm_swap_v2_accounts E (vc_keys c) user (vc_is_buy c) = all_accounts ks" "length ks = 13"
    by (simp add: clmm_swap_v2_accounts_def split_beta)
  have n: "length (la_named clmm_swap_v2_layout) = 13" "account_count clmm_swap_v2_layout = 13"
    by (simp_all add: pool_layouts account_count_def)
  have "map am_pubkey (in_accounts ix) = ks @ arrays"
    using all_accounts_keys [OF pool_required_only(5), of ks] ks n(1) ix(3) by (simp add: comp_def)
  moreover have "from_pubkeys clmm_swap_v2_layout (ks @ arrays) =
      Inl (UnmodelledAccounts 13 (13 + vc_tick_array_count c) (hd arrays))"
  proof -
    have closed: "la_resolved clmm_swap_v2_layout = []" "la_rest clmm_swap_v2_layout = None"
        "length (la_conditional clmm_swap_v2_layout) = 0"
      using pool_required_only(5) by (simp_all add: required_only_def)
    have "arrays \<noteq> []"
      using assms(4) len by auto
    then show ?thesis
      using from_pubkeys_closed_layout(2) [OF closed(1,2), of "ks @ arrays"] closed(3) assms(4) ks(2) len n(2)
      by (simp add: nth_append hd_conv_nth)
  qed
  ultimately have "struct clmm_swap_v2_layout (sent ix) = Inl (UnmodelledAccounts 13 (13 + vc_tick_array_count c) (hd arrays))"
    by (simp add: struct_def)
  then have "registry_parse B E td (with_all_protocols E) (sent ix) =
      Inl (UnmodelledAccounts 13 (13 + vc_tick_array_count c) (hd arrays))"
    using registry_sent [OF assms(2) ix(1), of RaydiumClmmParser B td] ix(2)
    by (simp add: parser_parse_def registry_clmm_parse_def pool_data_read [OF assms(1)])
  then show ?thesis
    using arrays len by blast
qed

section \<open>The registry and discovery\<close>

text \<open>Pump.fun's positions are those of the layout: where the accounts of a first-version trade can be read,
  the accounts 2, 3 and 6 are its mint, its curve and its user.\<close>

lemma required_position:
  assumes "from_pubkeys L ks = Inr a" "i < length (la_named L)" "sl_name (la_named L ! i) = n"
    and "distinct (map sl_name (la_named L))" "\<not> sl_optional (la_named L ! i)"
  shows "acc L a n = Some (ks ! i)"
proof -
  have fits: "list_all2 (slot_fits (la_program_id L)) (la_named L) (ac_named a)"
    using from_pubkeys_InrD(1) [OF assms(1)] by (simp add: fits_def)
  then have len: "length (la_named L) = length (ac_named a)"
    by (rule list_all2_lengthD)
  have "slot_fits (la_program_id L) (la_named L ! i) (ac_named a ! i)"
    using fits assms(2) by (simp add: list_all2_conv_all_nth)
  then obtain k where k: "ac_named a ! i = Some k"
    using assms(5) by (cases "ac_named a ! i") (simp_all add: slot_fits_def)
  have "ks ! i = k"
    using from_pubkeys_InrD(3) [OF assms(1)] assms(2) len k by (auto simp: nth_append)
  moreover have "map_of (zip (map sl_name (la_named L)) (ac_named a)) n = Some (ac_named a ! i)"
    using map_of_zip_nth [of "map sl_name (la_named L)" "ac_named a" i] assms(2-4) len by simp
  ultimately show ?thesis
    using k by (simp add: acc_def bindings_of_def)
qed

lemma curve_positions:
  assumes "L \<in> {pumpfun_buy_layout K, pumpfun_sell_layout K}" "from_pubkeys L ks = Inr a"
  shows "pool_of (curve_accounts L) a = ks ! 3"
    and "pair_of K (curve_accounts L) a = (ks ! 2, te_wsol (ke_tokens K))"
  using assms(1) required_position [OF assms(2), of 2 "''mint''"] required_position [OF assms(2), of 3 "''bonding_curve''"]
  by (auto simp: pool_of_def pair_of_def field_def bound_def curve_accounts_def pumpfun_buy_layout_def
      pumpfun_sell_layout_def plain_layout_def slot_defs)

text \<open>The edge that an event is on: its coin against what the coin is traded for.\<close>

definition event_edge :: "'j swap_event \<Rightarrow> pool_edge" where
  "event_edge e =
     (if se_is_buy e = Some True
      then pool_edge_new (se_pool e) (se_protocol e) (se_token_out e) (se_token_in e)
      else pool_edge_new (se_pool e) (se_protocol e) (se_token_in e) (se_token_out e))"

lemma require_account_Inr: "require_account ix i = Inr k \<longleftrightarrow> i < length (pi_accounts ix) \<and> k = pi_accounts ix ! i"
  by (auto simp: require_account_def pi_account_def)

lemma pumpfun_swap_event:
  assumes "registry_pumpfun_swap E td x pf = Inr (Some (SwapEv e))"
  shows "se_pool e = pi_accounts x ! 3 \<and> se_protocol e = Pumpfun \<and> se_is_buy e = Some (pf_is_buy pf) \<and>
    se_token_in e = (if pf_is_buy pf then te_wsol (ke_tokens (po_keys E)) else pi_accounts x ! 2) \<and>
    se_token_out e = (if pf_is_buy pf then pi_accounts x ! 2 else te_wsol (ke_tokens (po_keys E)))"
  using assms
  by (auto simp: registry_pumpfun_swap_def ebind_Inr_iff require_account_Inr event_defs Let_def
      split: option.splits if_splits)

lemma pumpfun_event_edge:
  assumes "discriminators_ok (po_keys E)" "inj (po_program E)" "pi_program_id x = po_program E Pumpfun"
    and "registry_pumpfun_parse B E td x = Inr (Some (SwapEv e))"
  shows "discover (po_keys E) (po_program E) x \<noteq> NotASwap"
    and "discover (po_keys E) (po_program E) x = Edge d \<Longrightarrow> d = event_edge e"
proof -
  let ?K = "po_keys E"
  obtain pf where pf: "try_from_slice (pumpfun_instruction_rows B ?K) (pi_data x) = Inr pf"
    using assms(4) by (auto simp: registry_pumpfun_parse_def ebind_Inr_iff)
  have swap: "registry_pumpfun_swap E td x pf = Inr (Some (SwapEv e)) \<and>
      (\<exists>s L. pf_swap pf = Some s \<and> pf_accounts ?K pf = curve_accounts L \<and>
        L \<in> {pumpfun_buy_layout ?K, pumpfun_sell_layout ?K})"
    using assms(4) pf by (cases pf) (auto simp: registry_pumpfun_parse_def registry_pumpfun_create_def
        registry_pumpfun_create_v2_def ebind_Inr_iff)
  then obtain s L where s: "pf_swap pf = Some s" and L: "pf_accounts ?K pf = curve_accounts L"
      "L \<in> {pumpfun_buy_layout ?K, pumpfun_sell_layout ?K}"
    by blast
  have found: "discover ?K (po_program E) x = read_edge ?K (curve_accounts L) s (pi_accounts x) Pumpfun"
    using discover_pumpfun [OF assms(1-3) pf] s L(1) by simp
  show "discover ?K (po_program E) x \<noteq> NotASwap"
    unfolding found by (simp add: read_edge_cases split: sum.split)
  assume "discover ?K (po_program E) x = Edge d"
  then obtain a where a: "from_pubkeys L (pi_accounts x) = Inr a"
    and d: "d = pool_edge_new (pool_of (curve_accounts L) a) Pumpfun (fst (pair_of ?K (curve_accounts L) a))
      (snd (pair_of ?K (curve_accounts L) a))"
    unfolding found by (auto simp: read_edge_cases curve_accounts_def split: sum.splits)
  show "d = event_edge e"
    using curve_positions [OF L(2) a] pumpfun_swap_event [of E td x pf e] swap by (simp add: d event_edge_def)
qed

lemma pumpswap_event_edge:
  assumes "discriminators_ok (po_keys E)" "inj (po_program E)" "pi_program_id x = po_program E PumpSwap"
    and "registry_pumpswap_parse B E x = Inr (Some (SwapEv e))"
  shows "discover (po_keys E) (po_program E) x = Edge (event_edge e)"
proof -
  let ?K = "po_keys E"
  obtain ps where ps: "try_from_slice (pumpswap_instruction_rows B ?K) (pi_data x) = Inr ps"
    using assms(4) by (auto simp: registry_pumpswap_parse_def ebind_Inr_iff)
  obtain s where s: "ps_swap ps = Some s"
    using assms(4) ps by (cases ps) (auto simp: registry_pumpswap_parse_def ebind_Inr_iff)
  have event: "\<exists>a. from_pubkeys (pumpswap_layout ?K ps) (pi_accounts x) = Inr a \<and>
      event_edge e = pool_edge_new (bound (acc (pumpswap_layout ?K ps) a) ''pool'') PumpSwap
        (bound (acc (pumpswap_layout ?K ps) a) ''base_mint'') (bound (acc (pumpswap_layout ?K ps) a) ''quote_mint'')"
    using assms(4) ps s
    by (cases ps; cases "from_pubkeys (pumpswap_layout ?K ps) (pi_accounts x)")
      (auto simp: registry_pumpswap_parse_def struct_def event_defs event_edge_def)
  then show ?thesis
    using discover_pumpswap [OF assms(1-3) ps] s
    by (auto simp: read_edge_cases pool_accounts_def pool_of_def pair_of_def field_def)
qed

text \<open>C40: The two readers of swaps agree. Where the registry gives a swap of a pump program, discovery does not
  call the instruction anything else: on PumpSwap it names the same pool and the same two tokens; on
  Pump.fun, whose accounts the registry takes from fixed positions with no look at the layout, it does so
  whenever it can read the accounts.\<close>

theorem registry_agrees_with_discovery:
  assumes "discriminators_ok (po_keys E)" and "inj (po_program E)"
    and "registry_parse B E td (with_all_protocols E) x = Inr (Some (SwapEv e))"
    and "se_protocol e \<in> {Pumpfun, PumpSwap}"
  shows "discover (po_keys E) (po_program E) x \<noteq> NotASwap \<and>
    (se_protocol e = PumpSwap \<longrightarrow> discover (po_keys E) (po_program E) x = Edge (event_edge e)) \<and>
    (\<forall>d. discover (po_keys E) (po_program E) x = Edge d \<longrightarrow> d = event_edge e)"
proof -
  obtain q where q: "with_all_protocols E (pi_program_id x) = Some q" "parser_parse B E td q x = Inr (Some (SwapEv e))"
    using assms(3) by (auto simp: registry_parse_def split: option.splits)
  have protocol: "se_protocol e = parser_protocol q" "pi_program_id x = po_program E (parser_protocol q)"
    using parser_event_protocol [OF q(2)] registry_parser_program [OF q(1)] by simp_all
  consider "q = PumpfunParser" | "q = PumpSwapParser"
    using protocol(1) assms(4) by (cases q) simp_all
  then show ?thesis
  proof cases
    case 1
    then have "registry_pumpfun_parse B E td x = Inr (Some (SwapEv e))"
      using q(2) by (simp add: parser_parse_def)
    then show ?thesis
      using 1 protocol pumpfun_event_edge [OF assms(1,2), of x B td e] by simp
  next
    case 2
    then have "registry_pumpswap_parse B E x = Inr (Some (SwapEv e))"
      using q(2) by (simp add: parser_parse_def)
    then have "discover (po_keys E) (po_program E) x = Edge (event_edge e)"
      using 2 protocol(2) pumpswap_event_edge [OF assms(1,2), of x B e] by simp
    then show ?thesis
      by (simp only: discovery.distinct discovery.inject) simp
  qed
qed

section \<open>Examples\<close>

definition example_pools :: pool_env where
  "example_pools =
     \<lparr> po_keys = example_keys, po_program = pump_programs, po_try_find = (\<lambda>seeds p. Some (concat seeds @ p, 255)),
       po_create_address = (\<lambda>seeds p. Some (concat seeds @ p)), po_v4_authority = [30], po_cpmm_authority = [31],
       po_memo_program = [32], po_dbc_authority = [33] \<rparr>"

lemma example_pools_inj: "inj (po_program example_pools)"
  by (simp add: example_pools_def pump_programs_inj)

definition example_cpmm_keys :: raydium_cpmm_keys where
  "example_cpmm_keys =
     \<lparr> pk_pool_id = [40], pk_amm_config = [41], pk_token_0_mint = [42], pk_token_1_mint = [1], pk_token_0_vault = [44],
       pk_token_1_vault = [45], pk_token_0_program = [46], pk_token_1_program = [47], pk_observation_key = [48] \<rparr>"

definition example_v4_keys :: raydium_v4_keys where
  "example_v4_keys =
     \<lparr> rk_amm_id = [50], rk_amm_authority = [30], rk_amm_open_orders = [51], rk_amm_target_orders = [52],
       rk_base_vault = [53], rk_quote_vault = [54], rk_base_mint = [55], rk_quote_mint = [1], rk_serum_market = [56],
       rk_serum_program_id = [57], rk_serum_bids = [58], rk_serum_asks = [59], rk_serum_event_queue = [60],
       rk_serum_coin_vault = [61], rk_serum_pc_vault = [62], rk_serum_vault_signer = [63] \<rparr>"

definition example_launchpad_keys :: launchpad_keys where
  "example_launchpad_keys =
     \<lparr> lk_pool_id = [70], lk_authority = [71], lk_global_config = [72], lk_platform_config = [73], lk_base_mint = [74],
       lk_quote_mint = [1], lk_base_vault = [75], lk_quote_vault = [76], lk_base_token_program = [77],
       lk_quote_token_program = [78] \<rparr>"

definition example_dbc_keys :: dbc_keys where
  "example_dbc_keys =
     \<lparr> dk_pool = [80], dk_config = [81], dk_base_mint = [82], dk_quote_mint = [1], dk_base_vault = [83],
       dk_quote_vault = [84], dk_token_base_program = [85], dk_token_quote_program = [86] \<rparr>"

definition example_clmm_config :: swap_v2_builder_config where
  "example_clmm_config =
     \<lparr> vc_keys = \<lparr> ck_pool_id = [90], ck_amm_config = [91], ck_token_mint_0 = [92], ck_token_mint_1 = [1],
         ck_token_vault_0 = [93], ck_token_vault_1 = [94], ck_observation_key = [95], ck_tick_spacing = 10 \<rparr>,
       vc_is_buy = True, vc_current_tick = 7, vc_tick_array_count = 3 \<rparr>"

theorem built_pool_swaps_read_back_witness:
  "registry_parse borsh_std example_pools [] (with_all_protocols example_pools)
      (sent (launchpad_buy example_pools example_launchpad_keys [5] 10 20)) =
    Inr (Some (SwapEv (launchpad_event example_launchpad_keys [5] True [1] [74] 10 20 :: unit swap_event)))"
  using built_pool_swaps_read_back [OF borsh_std_ok example_pools_inj, where td = "[]" and 'a = unit,
      of example_v4_keys "[5]" 10 20 example_cpmm_keys example_launchpad_keys example_dbc_keys]
  by (simp add: example_launchpad_keys_def)

theorem registry_agrees_with_discovery_witness:
  "discover example_keys pump_programs (sent (pumpswap_sell_build example_keys example_pool_keys [5] (ps_sell_params_new 10 20))) \<noteq> NotASwap"
proof -
  let ?ix = "pumpswap_sell_build example_keys example_pool_keys [5] (ps_sell_params_new 10 20)"
  have keys: "po_keys example_pools = example_keys" "po_program example_pools = pump_programs"
    by (simp_all add: example_pools_def)
  have data: "try_from_slice (pumpswap_instruction_rows borsh_std example_keys) (in_data ?ix) =
      Inr (PsSell (ps_sell_params_new 10 20))"
    using pump_data_read(2) [OF borsh_std_ok example_keys_discriminators, of "PsSell (ps_sell_params_new 10 20)"]
    by (simp add: pumpswap_sell_build_def pumpswap_instruction_data_def ps_sell_params_new_def ob_ok_def)
  have "struct (pumpswap_sell_layout example_keys) (sent ?ix) =
      Inr (bound (acc (pumpswap_sell_layout example_keys) (ps_sell_accounts_from_keys example_keys example_pool_keys [5])))"
    using pumpswap_sell_reads_back [of example_keys example_pool_keys "[5]"]
    by (simp add: struct_def pumpswap_sell_build_def)
  with data have "\<exists>e :: unit swap_event. registry_pumpswap_parse borsh_std example_pools (sent ?ix) = Inr (Some (SwapEv e)) \<and>
      se_protocol e = PumpSwap"
    by (simp add: registry_pumpswap_parse_def keys event_defs)
  then obtain e :: "unit swap_event" where e: "registry_pumpswap_parse borsh_std example_pools (sent ?ix) = Inr (Some (SwapEv e))"
      "se_protocol e = PumpSwap"
    by blast
  have program: "in_program_id ?ix = po_program example_pools PumpSwap"
    by (simp add: pumpswap_sell_build_def keys pump_programs_def example_keys_def)
  have "parser_parse borsh_std example_pools [] PumpSwapParser (sent ?ix) = Inr (Some (SwapEv e))"
    unfolding parser_parse_def protocol_parser.case by (rule e(1))
  with registry_sent [OF example_pools_inj program parser_of.simps(2), of borsh_std "[]"]
  have "registry_parse borsh_std example_pools [] (with_all_protocols example_pools) (sent ?ix) = Inr (Some (SwapEv e))"
    by (rule trans)
  from registry_agrees_with_discovery [OF _ example_pools_inj this, unfolded keys, OF example_keys_discriminators]
  show ?thesis
    using e(2) by blast
qed

end
