(* ===== verification/ChainTypes.thy ===== *)
theory ChainTypes
  imports Classify
begin

text \<open>
  What the transaction parser puts out (chain/types.rs): the transaction envelope, its semantic events,
  the prices that a swap attests to, and the pairing of the token balances before and after.
\<close>

section \<open>Events\<close>

record shareholder =
  sh_address :: pubkey
  sh_share_bps :: u16

datatype curve_state =
    CurveReserves u64 u64
  | CurveBin i32
  | SqrtPriceX64 u128

record chain_swap =
  xs_protocol :: protocol
  xs_instruction :: swap_instruction
  xs_track_volume :: option_bool
  xs_completed_curve :: bool
  xs_pool :: pubkey
  xs_trader :: pubkey
  xs_token_in :: pubkey
  xs_amount_in :: u64
  xs_token_out :: pubkey
  xs_amount_out :: u64
  xs_fee_amount :: u64
  xs_fee_mint :: pubkey
  xs_state_before :: "curve_state option"
  xs_state_after :: "curve_state option"

record token_creation =
  xc_protocol :: protocol
  xc_mint :: pubkey
  xc_pool :: pubkey
  xc_creator :: pubkey
  xc_name :: bytes
  xc_symbol :: bytes
  xc_uri :: bytes
  xc_token_total_supply :: "u64 option"
  xc_initial_virtual_token_reserves :: "u64 option"
  xc_initial_virtual_sol_reserves :: "u64 option"

record migration =
  xm_mint :: pubkey
  xm_from_protocol :: protocol
  xm_from_pool :: pubkey
  xm_to_protocol :: protocol
  xm_to_pool :: pubkey
  xm_migrated_sol :: u64
  xm_migrated_tokens :: u64

datatype creator_payout =
    DirectPayout pubkey
  | SharedPayout pubkey pubkey pubkey "shareholder list"

text \<open>Timestamps are \<open>i64\<close> values that are only carried along, kept as their 64 bits.\<close>

record creator_fee =
  xf_protocol :: protocol
  xf_payout :: creator_payout
  xf_amount :: u64
  xf_quote_mint :: pubkey
  xf_mint :: "pubkey option"
  xf_timestamp :: u64

text \<open>The deltas are \<open>i128\<close> values made of \<open>u64\<close> amounts, so that they never overflow.\<close>

record liquidity_move =
  xl_protocol :: protocol
  xl_pool :: pubkey
  xl_provider :: pubkey
  xl_base_delta :: int
  xl_quote_delta :: int
  xl_lp_token_amount :: u64
  xl_pool_base_reserves :: u64
  xl_pool_quote_reserves :: u64

datatype chain_event =
    ChainSwap chain_swap
  | ChainCreation token_creation
  | ChainMigration migration
  | ChainCreatorFee creator_fee
  | ChainLiquidity liquidity_move

fun chain_event_protocol :: "chain_event \<Rightarrow> protocol" where
  "chain_event_protocol (ChainSwap s) = xs_protocol s"
| "chain_event_protocol (ChainCreation c) = xc_protocol c"
| "chain_event_protocol (ChainMigration m) = xm_from_protocol m"
| "chain_event_protocol (ChainCreatorFee c) = xf_protocol c"
| "chain_event_protocol (ChainLiquidity l) = xl_protocol l"

section \<open>The prices of a swap\<close>

fun sol_price :: "curve_state \<Rightarrow> bool \<Rightarrow> f64 option" where
  "sol_price (CurveReserves in_side out_side) sol_is_in =
     (let (sol, token) = (if sol_is_in then (in_side, out_side) else (out_side, in_side))
      in if token \<noteq> 0 then Some (f_div (f_of_nat (unat sol)) (f_of_nat (unat token))) else None)"
| "sol_price (CurveBin _) sol_is_in = None"
| "sol_price (SqrtPriceX64 _) sol_is_in = None"

definition sol_is_in_side :: "pubkey \<Rightarrow> chain_swap \<Rightarrow> bool option" where
  "sol_is_in_side wsol s =
     (if xs_token_in s = wsol then Some True else if xs_token_out s = wsol then Some False else None)"

definition sol_spot_price_before :: "pubkey \<Rightarrow> chain_swap \<Rightarrow> f64 option" where
  "sol_spot_price_before wsol s = do {
     state \<leftarrow> xs_state_before s; side \<leftarrow> sol_is_in_side wsol s; sol_price state side }"

definition sol_spot_price_after :: "pubkey \<Rightarrow> chain_swap \<Rightarrow> f64 option" where
  "sol_spot_price_after wsol s = do {
     state \<leftarrow> xs_state_after s; side \<leftarrow> sol_is_in_side wsol s; sol_price state side }"

definition sol_spot_price_latest :: "pubkey \<Rightarrow> chain_swap \<Rightarrow> f64 option" where
  "sol_spot_price_latest wsol s =
     (case sol_spot_price_after wsol s of Some p \<Rightarrow> Some p | None \<Rightarrow> sol_spot_price_before wsol s)"

definition sol_price_impact :: "pubkey \<Rightarrow> chain_swap \<Rightarrow> f64 option" where
  "sol_price_impact wsol s = do {
     before \<leftarrow> sol_spot_price_before wsol s;
     after \<leftarrow> sol_spot_price_after wsol s;
     if f_eq before f_0 then None else Some (f_sub (f_div after before) (f_of_nat 1)) }"

text \<open>A swap with one state attests to no impact, and one that is not against SOL to no price.\<close>

lemma sol_prices:
  "sol_is_in_side wsol s = None \<Longrightarrow> sol_spot_price_latest wsol s = None"
  "xs_state_before s = None \<or> xs_state_after s = None \<Longrightarrow> sol_price_impact wsol s = None"
  by (auto simp: sol_spot_price_latest_def sol_spot_price_before_def sol_spot_price_after_def
      sol_price_impact_def split: option.splits Option.bind_splits)

section \<open>Token balances\<close>

record token_balance_entry =
  tb_account_index :: u32
  tb_program :: pubkey
  tb_owner :: pubkey
  tb_mint :: pubkey
  tb_raw :: u64
  tb_decimals :: u8

record token_balance_change =
  tbc_owner :: pubkey
  tbc_mint :: pubkey
  tbc_program :: pubkey
  tbc_pre_raw :: "u64 option"
  tbc_post_raw :: "u64 option"
  tbc_decimals :: u8

definition pre_only :: "token_balance_entry \<Rightarrow> token_balance_change" where
  "pre_only q =
     \<lparr> tbc_owner = tb_owner q, tbc_mint = tb_mint q, tbc_program = tb_program q, tbc_pre_raw = Some (tb_raw q),
       tbc_post_raw = None, tbc_decimals = tb_decimals q \<rparr>"

definition post_only :: "token_balance_entry \<Rightarrow> token_balance_change" where
  "post_only p =
     \<lparr> tbc_owner = tb_owner p, tbc_mint = tb_mint p, tbc_program = tb_program p, tbc_pre_raw = None,
       tbc_post_raw = Some (tb_raw p), tbc_decimals = tb_decimals p \<rparr>"

definition both_sides :: "token_balance_entry \<Rightarrow> token_balance_entry \<Rightarrow> token_balance_change" where
  "both_sides q p =
     \<lparr> tbc_owner = tb_owner p, tbc_mint = tb_mint p, tbc_program = tb_program p, tbc_pre_raw = Some (tb_raw q),
       tbc_post_raw = Some (tb_raw p), tbc_decimals = tb_decimals p \<rparr>"

text \<open>The entry before of the same account that no later entry has taken yet.\<close>

definition find_unconsumed ::
    "token_balance_entry list \<Rightarrow> bool list \<Rightarrow> token_balance_entry \<Rightarrow> (nat \<times> token_balance_entry) option" where
  "find_unconsumed pre consumed p =
     find (\<lambda>(i, q). \<not> consumed ! i \<and> tb_account_index q = tb_account_index p) (List.enumerate 0 pre)"

definition pair_entry ::
    "token_balance_entry list \<Rightarrow> bool list \<Rightarrow> token_balance_entry \<Rightarrow> token_balance_change list \<times> bool list" where
  "pair_entry pre consumed p =
     (case find_unconsumed pre consumed p of
        Some (i, q) \<Rightarrow>
          (if tb_owner q = tb_owner p \<and> tb_mint q = tb_mint p then [both_sides q p] else [pre_only q, post_only p],
           consumed[i := True])
      | None \<Rightarrow> ([post_only p], consumed))"

fun pair_posts ::
    "token_balance_entry list \<Rightarrow> bool list \<Rightarrow> token_balance_entry list \<Rightarrow> token_balance_change list \<times> bool list" where
  "pair_posts pre consumed [] = ([], consumed)"
| "pair_posts pre consumed (p # ps) =
     (let (cs, consumed) = pair_entry pre consumed p;
          (ds, consumed) = pair_posts pre consumed ps
      in (cs @ ds, consumed))"

definition pair_balances ::
    "token_balance_entry list \<Rightarrow> token_balance_entry list \<Rightarrow> token_balance_change list" where
  "pair_balances pre post =
     (let (cs, consumed) = pair_posts pre (replicate (length pre) False) post
      in cs @ map (\<lambda>(i, q). pre_only q) (filter (\<lambda>(i, q). \<not> consumed ! i) (List.enumerate 0 pre)))"

definition raw_or_zero :: "u64 option \<Rightarrow> nat" where
  "raw_or_zero r = (case r of None \<Rightarrow> 0 | Some v \<Rightarrow> unat v)"

definition delta_raw :: "token_balance_change \<Rightarrow> int" where
  "delta_raw c = int (raw_or_zero (tbc_post_raw c)) - int (raw_or_zero (tbc_pre_raw c))"

lemma delta_raw_bounds: "\<bar>delta_raw c\<bar> < 2 ^ 64"
proof -
  have "int (raw_or_zero r) < 2 ^ 64" for r
    using unat_u64_less by (simp add: raw_or_zero_def split: option.split)
  from this [of "tbc_post_raw c"] this [of "tbc_pre_raw c"] show ?thesis
    by (simp add: delta_raw_def)
qed

section \<open>The envelope\<close>

datatype tx_error =
    Slippage
  | InsufficientFunds
  | Rejected pubkey u32
  | OtherTxError string

datatype tx_outcome = TxSuccess | TxFailed tx_error

record parsed_transaction =
  px_signature :: bytes
  px_slot :: u64
  px_index :: u64
  px_block_time :: "u64 option"
  px_fee_paid_lamports :: u64
  px_compute_used :: "u64 option"
  px_outcome :: tx_outcome
  px_events :: "chain_event list"
  px_instructions :: "parsed_instruction list"
  px_token_balances :: "token_balance_change list"

definition tx_swaps :: "parsed_transaction \<Rightarrow> chain_swap list" where
  "tx_swaps t = List.map_filter (\<lambda>e. case e of ChainSwap s \<Rightarrow> Some s | _ \<Rightarrow> None) (px_events t)"

definition tx_token_creations :: "parsed_transaction \<Rightarrow> token_creation list" where
  "tx_token_creations t = List.map_filter (\<lambda>e. case e of ChainCreation c \<Rightarrow> Some c | _ \<Rightarrow> None) (px_events t)"

definition tx_migrations :: "parsed_transaction \<Rightarrow> migration list" where
  "tx_migrations t = List.map_filter (\<lambda>e. case e of ChainMigration m \<Rightarrow> Some m | _ \<Rightarrow> None) (px_events t)"

definition tx_liquidity :: "parsed_transaction \<Rightarrow> liquidity_move list" where
  "tx_liquidity t = List.map_filter (\<lambda>e. case e of ChainLiquidity l \<Rightarrow> Some l | _ \<Rightarrow> None) (px_events t)"

definition tx_creator_fees :: "parsed_transaction \<Rightarrow> creator_fee list" where
  "tx_creator_fees t = List.map_filter (\<lambda>e. case e of ChainCreatorFee c \<Rightarrow> Some c | _ \<Rightarrow> None) (px_events t)"

definition tx_succeeded :: "parsed_transaction \<Rightarrow> bool" where
  "tx_succeeded t \<longleftrightarrow> px_outcome t = TxSuccess"

section \<open>No balance is lost\<close>

text \<open>What a holder has of a token in a list of entries, and what a list of changes gives it.\<close>

definition held :: "pubkey \<Rightarrow> pubkey \<Rightarrow> token_balance_entry \<Rightarrow> int" where
  "held holder mint e = (if tb_owner e = holder \<and> tb_mint e = mint then int (unat (tb_raw e)) else 0)"

definition gained :: "pubkey \<Rightarrow> pubkey \<Rightarrow> token_balance_change \<Rightarrow> int" where
  "gained holder mint c = (if tbc_owner c = holder \<and> tbc_mint c = mint then delta_raw c else 0)"

lemmas change_defs = held_def gained_def delta_raw_def raw_or_zero_def pre_only_def post_only_def both_sides_def

lemma gained_entries:
  "gained h m (pre_only q) = - held h m q"
  "gained h m (post_only p) = held h m p"
  "tb_owner q = tb_owner p \<Longrightarrow> tb_mint q = tb_mint p \<Longrightarrow> gained h m (both_sides q p) = held h m p - held h m q"
  by (simp_all add: change_defs)

text \<open>What the entries that are flagged hold together.\<close>

definition flagged :: "pubkey \<Rightarrow> pubkey \<Rightarrow> bool list \<Rightarrow> token_balance_entry list \<Rightarrow> int" where
  "flagged h m consumed pre = (\<Sum>i < length pre. if consumed ! i then held h m (pre ! i) else 0)"

lemma find_unconsumed_Some:
  assumes "find_unconsumed pre consumed p = Some (i, q)"
  shows "i < length pre" "q = pre ! i" "\<not> consumed ! i" "tb_account_index q = tb_account_index p"
  using assms by (auto simp: find_unconsumed_def find_Some_iff nth_enumerate_eq)

lemma flagged_update:
  assumes "i < length pre" "\<not> consumed ! i" "length consumed = length pre"
  shows "flagged h m (consumed[i := True]) pre = flagged h m consumed pre + held h m (pre ! i)"
proof -
  have "flagged h m (consumed[i := True]) pre =
      (\<Sum>j < length pre. (if consumed ! j then held h m (pre ! j) else 0) + (if j = i then held h m (pre ! i) else 0))"
    unfolding flagged_def using assms by (intro sum.cong) (auto simp: nth_list_update)
  then show ?thesis
    using assms(1) by (simp add: flagged_def sum.distrib)
qed

lemma pair_entry_gain:
  assumes "pair_entry pre consumed p = (cs, consumed')" "length consumed = length pre"
  shows "length consumed' = length pre"
    and "sum_list (map (gained h m) cs) = held h m p - (flagged h m consumed' pre - flagged h m consumed pre)"
proof -
  have "length consumed' = length pre \<and>
      sum_list (map (gained h m) cs) = held h m p - (flagged h m consumed' pre - flagged h m consumed pre)"
  proof (cases "find_unconsumed pre consumed p")
    case None
    then show ?thesis
      using assms by (auto simp: pair_entry_def gained_entries)
  next
    case (Some r)
    obtain i q where r: "r = (i, q)" by force
    note found = find_unconsumed_Some [OF Some [unfolded r]]
    show ?thesis
      using assms Some r flagged_update [OF found(1,3) assms(2), of h m] found(2)
      by (auto simp: pair_entry_def gained_entries split: if_splits)
  qed
  then show "length consumed' = length pre"
    "sum_list (map (gained h m) cs) = held h m p - (flagged h m consumed' pre - flagged h m consumed pre)"
    by blast+
qed

lemma pair_posts_gain:
  assumes "pair_posts pre consumed ps = (cs, consumed')" "length consumed = length pre"
  shows "length consumed' = length pre \<and>
    sum_list (map (gained h m) cs) =
      sum_list (map (held h m) ps) - (flagged h m consumed' pre - flagged h m consumed pre)"
  using assms
proof (induction ps arbitrary: consumed cs consumed')
  case (Cons p ps)
  obtain as c1 where entry: "pair_entry pre consumed p = (as, c1)" by force
  obtain bs c2 where rest: "pair_posts pre c1 ps = (bs, c2)" by force
  have "cs = as @ bs" "consumed' = c2"
    using Cons.prems(1) entry rest by simp_all
  then show ?case
    using pair_entry_gain(2) [OF entry Cons.prems(2), of h m]
      Cons.IH [OF rest pair_entry_gain(1) [OF entry Cons.prems(2)]] by simp
qed simp

lemma unflagged_rest:
  assumes "length consumed = length pre"
  shows "sum_list (map (gained h m) (map (\<lambda>(i, q). pre_only q) (filter (\<lambda>(i, q). \<not> consumed ! i) (List.enumerate 0 pre)))) =
    flagged h m consumed pre - sum_list (map (held h m) pre)"
proof -
  have "sum_list (map (gained h m) (map (\<lambda>(i, q). pre_only q) (filter (\<lambda>(i, q). \<not> consumed ! i) xs))) =
      sum_list (map (\<lambda>(i, q). if consumed ! i then 0 else - held h m q) xs)" for xs
    by (induction xs) (auto simp: gained_entries)
  also have "sum_list (map (\<lambda>(i, q). if consumed ! i then 0 else - held h m q) (List.enumerate 0 pre)) =
      (\<Sum>i < length pre. if consumed ! i then 0 else - held h m (pre ! i))"
    by (simp add: sum_list_sum_nth nth_enumerate_eq atLeast0LessThan)
  also have "\<dots> = (\<Sum>i < length pre. (if consumed ! i then held h m (pre ! i) else 0) - held h m (pre ! i))"
    by (intro sum.cong) auto
  finally show ?thesis
    by (simp add: flagged_def sum_subtractf sum_list_sum_nth atLeast0LessThan)
qed

lemma pair_entry_sides:
  assumes "pair_entry pre consumed p = (cs, consumed')" "c \<in> set cs" "tbc_pre_raw c \<noteq> None" "tbc_post_raw c \<noteq> None"
  shows "\<exists>q \<in> set pre. tb_account_index q = tb_account_index p \<and> tb_owner q = tb_owner p \<and> tb_mint q = tb_mint p \<and>
    c = both_sides q p"
proof (cases "find_unconsumed pre consumed p")
  case None
  then show ?thesis
    using assms by (auto simp: pair_entry_def post_only_def)
next
  case (Some r)
  obtain i q where r: "r = (i, q)" by force
  note found = find_unconsumed_Some [OF Some [unfolded r]]
  have "q \<in> set pre"
    using found(1,2) by simp
  moreover have "c = both_sides q p \<and> tb_owner q = tb_owner p \<and> tb_mint q = tb_mint p"
    using assms Some r by (auto simp: pair_entry_def pre_only_def post_only_def split: if_splits)
  ultimately show ?thesis
    using found(4) by blast
qed

lemma pair_posts_sides:
  assumes "pair_posts pre consumed ps = (cs, consumed')" "c \<in> set cs" "tbc_pre_raw c \<noteq> None" "tbc_post_raw c \<noteq> None"
  shows "\<exists>q \<in> set pre. \<exists>p \<in> set ps. tb_account_index q = tb_account_index p \<and> tb_owner q = tb_owner p \<and>
    tb_mint q = tb_mint p \<and> c = both_sides q p"
  using assms
proof (induction ps arbitrary: consumed cs consumed')
  case (Cons p ps)
  obtain as c1 where entry: "pair_entry pre consumed p = (as, c1)" by force
  obtain bs c2 where rest: "pair_posts pre c1 ps = (bs, c2)" by force
  have "cs = as @ bs"
    using Cons.prems(1) entry rest by simp
  then consider "c \<in> set as" | "c \<in> set bs"
    using Cons.prems(2) by auto
  then show ?case
  proof cases
    case 1
    then show ?thesis
      using pair_entry_sides [OF entry _ Cons.prems(3,4)] by auto
  next
    case 2
    then show ?thesis
      using Cons.IH [OF rest _ Cons.prems(3,4)] by auto
  qed
qed simp

lemma pair_balances_gain:
  "sum_list (map (gained h m) (pair_balances pre post)) =
     sum_list (map (held h m) post) - sum_list (map (held h m) pre)"
proof -
  obtain cs consumed where posts: "pair_posts pre (replicate (length pre) False) post = (cs, consumed)" by force
  have "flagged h m (replicate (length pre) False) pre = 0"
    by (simp add: flagged_def)
  with pair_posts_gain [OF posts, of h m] unflagged_rest [of consumed pre h m]
  show ?thesis
    using posts by (simp add: pair_balances_def)
qed

text \<open>C5: Pairing the balances before and after a transaction loses nothing and invents nothing: for every holder
  and token the changes add up to what the entries after hold less what the entries before held,
  whatever the order of the entries and also when accounts are closed, opened or listed twice; and a
  change with two sides is of one account that kept its owner and its token.\<close>

theorem balances_conserved:
  "sum_list (map (gained holder mint) (pair_balances pre post)) =
     sum_list (map (held holder mint) post) - sum_list (map (held holder mint) pre) \<and>
   (\<forall>c \<in> set (pair_balances pre post). tbc_pre_raw c \<noteq> None \<and> tbc_post_raw c \<noteq> None \<longrightarrow>
     (\<exists>q \<in> set pre. \<exists>p \<in> set post. tb_account_index q = tb_account_index p \<and> tb_owner q = tb_owner p \<and>
        tb_mint q = tb_mint p \<and> c = both_sides q p))"
proof -
  obtain cs consumed where posts: "pair_posts pre (replicate (length pre) False) post = (cs, consumed)" by force
  let ?rest = "map (\<lambda>(i, q). pre_only q) (filter (\<lambda>(i, q). \<not> consumed ! i) (List.enumerate 0 pre))"
  have all: "pair_balances pre post = cs @ ?rest"
    using posts by (simp add: pair_balances_def)
  have "\<exists>q \<in> set pre. \<exists>p \<in> set post. tb_account_index q = tb_account_index p \<and> tb_owner q = tb_owner p \<and>
        tb_mint q = tb_mint p \<and> c = both_sides q p"
    if "c \<in> set (pair_balances pre post)" "tbc_pre_raw c \<noteq> None" "tbc_post_raw c \<noteq> None" for c
  proof -
    have "c \<notin> set ?rest"
      using that(3) by (auto simp: pre_only_def)
    then show ?thesis
      using that(1) all pair_posts_sides [OF posts _ that(2,3)] by auto
  qed
  then show ?thesis
    using pair_balances_gain by blast
qed

text \<open>A payment, into an account that the transaction opens.\<close>

definition example_entry :: "u32 \<Rightarrow> pubkey \<Rightarrow> u64 \<Rightarrow> token_balance_entry" where
  "example_entry i holder raw =
     \<lparr> tb_account_index = i, tb_program = [6], tb_owner = holder, tb_mint = [9], tb_raw = raw, tb_decimals = 6 \<rparr>"

theorem balances_conserved_witness:
  "sum_list (map (gained [2] [9]) (pair_balances [example_entry 1 [1] 100] [example_entry 1 [1] 30, example_entry 2 [2] 70]))
     = 70"
  using balances_conserved [of "[2]" "[9]" "[example_entry 1 [1] 100]" "[example_entry 1 [1] 30, example_entry 2 [2] 70]"]
  by (simp add: held_def example_entry_def)

end
