(* ===== verification/Events.thy ===== *)
theory Events
  imports ChainTypes
begin

text \<open>
  The events that programs emit (pumpfun/events, pumpswap/events, meteora_damm_v2/events.rs): their fields
  with the borsh codec, the Anchor envelope (parsing/anchor.rs), the decoding contract that all share
  (parsing/event.rs), and the search for the event of an instruction (chain/extract/traits.rs,
  chain/extract/error.rs). An \<open>i64\<close> field is read as its 64 bits.
\<close>

section \<open>Parts of events\<close>

definition read_shareholder :: "borsh \<Rightarrow> shareholder reader" where
  "read_shareholder B =
     rbind (rd_pubkey B) (\<lambda>a. rbind (rd_u16 B) (\<lambda>b. rret \<lparr> sh_address = a, sh_share_bps = b \<rparr>))"

definition write_shareholder :: "shareholder \<Rightarrow> bytes" where
  "write_shareholder s = sh_address s @ le_bytes 2 (unat (sh_share_bps s))"

text \<open>A vector is its length and its elements.\<close>

definition read_shareholders :: "borsh \<Rightarrow> shareholder list reader" where
  "read_shareholders B = rbind (rd_u32 B) (\<lambda>n. read_array (unat n) (read_shareholder B))"

definition write_shareholders :: "shareholder list \<Rightarrow> bytes" where
  "write_shareholders ss = le_bytes 4 (length ss) @ concat (map write_shareholder ss)"

definition shareholders_ok :: "shareholder list \<Rightarrow> bool" where
  "shareholders_ok ss \<longleftrightarrow> length ss < 2 ^ 32 \<and> (\<forall>s \<in> set ss. length (sh_address s) = 32)"

text \<open>\<open>UndeclaredTail\<close>: whatever is left.\<close>

definition read_tail :: "bytes reader" where
  "read_tail bs = Inr (bs, [])"

lemma read_tail_bind [simp]: "rbind read_tail f bs = f bs []"
  by (simp add: read_tail_def rbind_def)

lemma read_shareholder_array:
  assumes "borsh_ok B" "\<forall>s \<in> set ss. length (sh_address s) = 32"
  shows "read_array (length ss) (read_shareholder B) (concat (map write_shareholder ss) @ rest) = Inr (ss, rest)"
  using assms(2)
proof (induction ss)
  case (Cons s ss)
  have "read_shareholder B (write_shareholder s @ tail) = Inr (s, tail)" for tail
    using assms(1) Cons.prems by (simp add: read_shareholder_def write_shareholder_def)
  then show ?case
    using Cons by (simp add: rbind_Inr)
qed simp

lemma read_shareholders_written [simp]:
  assumes "borsh_ok B" "shareholders_ok ss"
  shows "rbind (read_shareholders B) f (write_shareholders ss @ rest) = f ss rest"
proof -
  let ?n = "word_of_nat (length ss) :: u32"
  have n: "unat ?n = length ss"
    using assms(2) by (simp add: shareholders_ok_def unsigned_of_nat take_bit_nat_eq_self)
  have "rbind (rd_u32 B) g (le_bytes 4 (length ss) @ tail) = g ?n tail" for g :: "u32 \<Rightarrow> shareholder list reader" and tail
    using borsh_read(4) [OF assms(1), of g ?n tail] by (simp add: n)
  then have "read_shareholders B (write_shareholders ss @ rest) = Inr (ss, rest)"
    using read_shareholder_array [OF assms(1), of ss rest] assms(2) n
    by (simp add: read_shareholders_def write_shareholders_def shareholders_ok_def)
  then show ?thesis
    by (rule rbind_Inr)
qed

text \<open>The last field of an event has nothing after it.\<close>

lemma read_last [simp]:
  assumes "borsh_ok B"
  shows "rbind (rd_bool B) fb [bool_byte b] = fb b []"
    and "rbind (rd_u64 B) f64 (le_bytes 8 (unat x)) = f64 x []"
    and "length k = 32 \<Longrightarrow> rbind (rd_pubkey B) fk k = fk k []"
  using borsh_read(1,5) [OF assms, of _ _ "[]"] borsh_read(7) [OF assms, of k fk "[]"] by simp_all

section \<open>Pump.fun\<close>

record trade_event =
  ve_tr_mint :: pubkey
  ve_tr_sol_amount :: u64
  ve_tr_token_amount :: u64
  ve_tr_is_buy :: bool
  ve_tr_user :: pubkey
  ve_tr_timestamp :: u64
  ve_tr_virtual_sol_reserves :: u64
  ve_tr_virtual_token_reserves :: u64
  ve_tr_real_sol_reserves :: u64
  ve_tr_real_token_reserves :: u64
  ve_tr_fee_recipient :: pubkey
  ve_tr_fee_basis_points :: u64
  ve_tr_fee :: u64
  ve_tr_creator :: pubkey
  ve_tr_creator_fee_basis_points :: u64
  ve_tr_creator_fee :: u64
  ve_tr_track_volume :: bool
  ve_tr_total_unclaimed_tokens :: u64
  ve_tr_total_claimed_tokens :: u64
  ve_tr_current_sol_volume :: u64
  ve_tr_last_update_timestamp :: u64
  ve_tr_ix_name :: bytes
  ve_tr_mayhem_mode :: bool
  ve_tr_cashback_fee_basis_points :: u64
  ve_tr_cashback :: u64
  ve_tr_buyback_fee_basis_points :: u64
  ve_tr_buyback_fee :: u64
  ve_tr_shareholders :: "shareholder list"
  ve_tr_quote_mint :: pubkey
  ve_tr_quote_amount :: u64
  ve_tr_virtual_quote_reserves :: u64
  ve_tr_real_quote_reserves :: u64

definition read_trade_event :: "borsh \<Rightarrow> trade_event reader" where
  "read_trade_event B =
     rbind (rd_pubkey B) (\<lambda>x0. rbind (rd_u64 B) (\<lambda>x1. rbind (rd_u64 B) (\<lambda>x2.
     rbind (rd_bool B) (\<lambda>x3. rbind (rd_pubkey B) (\<lambda>x4. rbind (rd_u64 B) (\<lambda>x5.
     rbind (rd_u64 B) (\<lambda>x6. rbind (rd_u64 B) (\<lambda>x7. rbind (rd_u64 B) (\<lambda>x8.
     rbind (rd_u64 B) (\<lambda>x9. rbind (rd_pubkey B) (\<lambda>x10. rbind (rd_u64 B) (\<lambda>x11.
     rbind (rd_u64 B) (\<lambda>x12. rbind (rd_pubkey B) (\<lambda>x13. rbind (rd_u64 B) (\<lambda>x14.
     rbind (rd_u64 B) (\<lambda>x15. rbind (rd_bool B) (\<lambda>x16. rbind (rd_u64 B) (\<lambda>x17.
     rbind (rd_u64 B) (\<lambda>x18. rbind (rd_u64 B) (\<lambda>x19. rbind (rd_u64 B) (\<lambda>x20.
     rbind (read_string B) (\<lambda>x21. rbind (rd_bool B) (\<lambda>x22.
     rbind (rd_u64 B) (\<lambda>x23. rbind (rd_u64 B) (\<lambda>x24. rbind (rd_u64 B) (\<lambda>x25.
     rbind (rd_u64 B) (\<lambda>x26. rbind (read_shareholders B) (\<lambda>x27.
     rbind (rd_pubkey B) (\<lambda>x28. rbind (rd_u64 B) (\<lambda>x29. rbind (rd_u64 B) (\<lambda>x30.
     rbind (rd_u64 B) (\<lambda>x31.
     rret \<lparr> ve_tr_mint = x0, ve_tr_sol_amount = x1, ve_tr_token_amount = x2, ve_tr_is_buy = x3,
       ve_tr_user = x4, ve_tr_timestamp = x5, ve_tr_virtual_sol_reserves = x6,
       ve_tr_virtual_token_reserves = x7, ve_tr_real_sol_reserves = x8, ve_tr_real_token_reserves = x9,
       ve_tr_fee_recipient = x10, ve_tr_fee_basis_points = x11, ve_tr_fee = x12, ve_tr_creator = x13,
       ve_tr_creator_fee_basis_points = x14, ve_tr_creator_fee = x15, ve_tr_track_volume = x16,
       ve_tr_total_unclaimed_tokens = x17, ve_tr_total_claimed_tokens = x18,
       ve_tr_current_sol_volume = x19, ve_tr_last_update_timestamp = x20, ve_tr_ix_name = x21,
       ve_tr_mayhem_mode = x22, ve_tr_cashback_fee_basis_points = x23, ve_tr_cashback = x24,
       ve_tr_buyback_fee_basis_points = x25, ve_tr_buyback_fee = x26, ve_tr_shareholders = x27,
       ve_tr_quote_mint = x28, ve_tr_quote_amount = x29, ve_tr_virtual_quote_reserves = x30,
       ve_tr_real_quote_reserves = x31 \<rparr>))))))))))))))))))))))))))))))))"

definition write_trade_event :: "trade_event \<Rightarrow> bytes" where
  "write_trade_event e =
     ve_tr_mint e @ le_bytes 8 (unat (ve_tr_sol_amount e)) @ le_bytes 8 (unat (ve_tr_token_amount e)) @
     [bool_byte (ve_tr_is_buy e)] @ ve_tr_user e @ le_bytes 8 (unat (ve_tr_timestamp e)) @
     le_bytes 8 (unat (ve_tr_virtual_sol_reserves e)) @
     le_bytes 8 (unat (ve_tr_virtual_token_reserves e)) @
     le_bytes 8 (unat (ve_tr_real_sol_reserves e)) @ le_bytes 8 (unat (ve_tr_real_token_reserves e)) @
     ve_tr_fee_recipient e @ le_bytes 8 (unat (ve_tr_fee_basis_points e)) @
     le_bytes 8 (unat (ve_tr_fee e)) @ ve_tr_creator e @
     le_bytes 8 (unat (ve_tr_creator_fee_basis_points e)) @ le_bytes 8 (unat (ve_tr_creator_fee e)) @
     [bool_byte (ve_tr_track_volume e)] @ le_bytes 8 (unat (ve_tr_total_unclaimed_tokens e)) @
     le_bytes 8 (unat (ve_tr_total_claimed_tokens e)) @ le_bytes 8 (unat (ve_tr_current_sol_volume e)) @
     le_bytes 8 (unat (ve_tr_last_update_timestamp e)) @ write_string (ve_tr_ix_name e) @
     [bool_byte (ve_tr_mayhem_mode e)] @ le_bytes 8 (unat (ve_tr_cashback_fee_basis_points e)) @
     le_bytes 8 (unat (ve_tr_cashback e)) @ le_bytes 8 (unat (ve_tr_buyback_fee_basis_points e)) @
     le_bytes 8 (unat (ve_tr_buyback_fee e)) @ write_shareholders (ve_tr_shareholders e) @
     ve_tr_quote_mint e @ le_bytes 8 (unat (ve_tr_quote_amount e)) @
     le_bytes 8 (unat (ve_tr_virtual_quote_reserves e)) @ le_bytes 8 (unat (ve_tr_real_quote_reserves e))"

definition trade_event_ok :: "trade_event \<Rightarrow> bool" where
  "trade_event_ok e \<longleftrightarrow> length (ve_tr_mint e) = 32 \<and> length (ve_tr_user e) = 32 \<and>
     length (ve_tr_fee_recipient e) = 32 \<and> length (ve_tr_creator e) = 32 \<and>
     string_ok (ve_tr_ix_name e) \<and> shareholders_ok (ve_tr_shareholders e) \<and>
     length (ve_tr_quote_mint e) = 32"

record create_event =
  ve_cr_name :: bytes
  ve_cr_symbol :: bytes
  ve_cr_uri :: bytes
  ve_cr_mint :: pubkey
  ve_cr_bonding_curve :: pubkey
  ve_cr_user :: pubkey
  ve_cr_creator :: pubkey
  ve_cr_timestamp :: u64
  ve_cr_virtual_token_reserves :: u64
  ve_cr_virtual_sol_reserves :: u64
  ve_cr_real_token_reserves :: u64
  ve_cr_token_total_supply :: u64
  ve_cr_token_program :: pubkey
  ve_cr_is_mayhem_mode :: bool
  ve_cr_is_cashback_enabled :: bool
  ve_cr_quote_mint :: pubkey
  ve_cr_virtual_quote_reserves :: u64

definition read_create_event :: "borsh \<Rightarrow> create_event reader" where
  "read_create_event B =
     rbind (read_string B) (\<lambda>x0. rbind (read_string B) (\<lambda>x1.
     rbind (read_string B) (\<lambda>x2. rbind (rd_pubkey B) (\<lambda>x3.
     rbind (rd_pubkey B) (\<lambda>x4. rbind (rd_pubkey B) (\<lambda>x5.
     rbind (rd_pubkey B) (\<lambda>x6. rbind (rd_u64 B) (\<lambda>x7. rbind (rd_u64 B) (\<lambda>x8.
     rbind (rd_u64 B) (\<lambda>x9. rbind (rd_u64 B) (\<lambda>x10. rbind (rd_u64 B) (\<lambda>x11.
     rbind (rd_pubkey B) (\<lambda>x12. rbind (rd_bool B) (\<lambda>x13.
     rbind (rd_bool B) (\<lambda>x14. rbind (rd_pubkey B) (\<lambda>x15. rbind (rd_u64 B) (\<lambda>x16.
     rret \<lparr> ve_cr_name = x0, ve_cr_symbol = x1, ve_cr_uri = x2, ve_cr_mint = x3, ve_cr_bonding_curve = x4,
       ve_cr_user = x5, ve_cr_creator = x6, ve_cr_timestamp = x7, ve_cr_virtual_token_reserves = x8,
       ve_cr_virtual_sol_reserves = x9, ve_cr_real_token_reserves = x10, ve_cr_token_total_supply = x11,
       ve_cr_token_program = x12, ve_cr_is_mayhem_mode = x13, ve_cr_is_cashback_enabled = x14,
       ve_cr_quote_mint = x15, ve_cr_virtual_quote_reserves = x16 \<rparr>)))))))))))))))))"

definition write_create_event :: "create_event \<Rightarrow> bytes" where
  "write_create_event e =
     write_string (ve_cr_name e) @ write_string (ve_cr_symbol e) @ write_string (ve_cr_uri e) @
     ve_cr_mint e @ ve_cr_bonding_curve e @ ve_cr_user e @ ve_cr_creator e @
     le_bytes 8 (unat (ve_cr_timestamp e)) @ le_bytes 8 (unat (ve_cr_virtual_token_reserves e)) @
     le_bytes 8 (unat (ve_cr_virtual_sol_reserves e)) @
     le_bytes 8 (unat (ve_cr_real_token_reserves e)) @ le_bytes 8 (unat (ve_cr_token_total_supply e)) @
     ve_cr_token_program e @ [bool_byte (ve_cr_is_mayhem_mode e)] @
     [bool_byte (ve_cr_is_cashback_enabled e)] @ ve_cr_quote_mint e @
     le_bytes 8 (unat (ve_cr_virtual_quote_reserves e))"

definition create_event_ok :: "create_event \<Rightarrow> bool" where
  "create_event_ok e \<longleftrightarrow> string_ok (ve_cr_name e) \<and> string_ok (ve_cr_symbol e) \<and> string_ok (ve_cr_uri e) \<and>
     length (ve_cr_mint e) = 32 \<and> length (ve_cr_bonding_curve e) = 32 \<and>
     length (ve_cr_user e) = 32 \<and> length (ve_cr_creator e) = 32 \<and>
     length (ve_cr_token_program e) = 32 \<and> length (ve_cr_quote_mint e) = 32"

record complete_event =
  ve_co_user :: pubkey
  ve_co_mint :: pubkey
  ve_co_bonding_curve :: pubkey
  ve_co_timestamp :: u64
  ve_co_quote_mint :: pubkey

definition read_complete_event :: "borsh \<Rightarrow> complete_event reader" where
  "read_complete_event B =
     rbind (rd_pubkey B) (\<lambda>x0. rbind (rd_pubkey B) (\<lambda>x1.
     rbind (rd_pubkey B) (\<lambda>x2. rbind (rd_u64 B) (\<lambda>x3. rbind (rd_pubkey B) (\<lambda>x4.
     rret \<lparr> ve_co_user = x0, ve_co_mint = x1, ve_co_bonding_curve = x2, ve_co_timestamp = x3,
       ve_co_quote_mint = x4 \<rparr>)))))"

definition write_complete_event :: "complete_event \<Rightarrow> bytes" where
  "write_complete_event e =
     ve_co_user e @ ve_co_mint e @ ve_co_bonding_curve e @ le_bytes 8 (unat (ve_co_timestamp e)) @
     ve_co_quote_mint e"

definition complete_event_ok :: "complete_event \<Rightarrow> bool" where
  "complete_event_ok e \<longleftrightarrow> length (ve_co_user e) = 32 \<and> length (ve_co_mint e) = 32 \<and>
     length (ve_co_bonding_curve e) = 32 \<and> length (ve_co_quote_mint e) = 32"

record complete_migration_event =
  ve_cm_user :: pubkey
  ve_cm_mint :: pubkey
  ve_cm_mint_amount :: u64
  ve_cm_sol_amount :: u64
  ve_cm_pool_migration_fee :: u64
  ve_cm_bonding_curve :: pubkey
  ve_cm_timestamp :: u64
  ve_cm_pool :: pubkey
  ve_cm_quote_mint :: pubkey

definition read_complete_migration_event :: "borsh \<Rightarrow> complete_migration_event reader" where
  "read_complete_migration_event B =
     rbind (rd_pubkey B) (\<lambda>x0. rbind (rd_pubkey B) (\<lambda>x1. rbind (rd_u64 B) (\<lambda>x2.
     rbind (rd_u64 B) (\<lambda>x3. rbind (rd_u64 B) (\<lambda>x4. rbind (rd_pubkey B) (\<lambda>x5.
     rbind (rd_u64 B) (\<lambda>x6. rbind (rd_pubkey B) (\<lambda>x7. rbind (rd_pubkey B) (\<lambda>x8.
     rret \<lparr> ve_cm_user = x0, ve_cm_mint = x1, ve_cm_mint_amount = x2, ve_cm_sol_amount = x3,
       ve_cm_pool_migration_fee = x4, ve_cm_bonding_curve = x5, ve_cm_timestamp = x6, ve_cm_pool = x7,
       ve_cm_quote_mint = x8 \<rparr>)))))))))"

definition write_complete_migration_event :: "complete_migration_event \<Rightarrow> bytes" where
  "write_complete_migration_event e =
     ve_cm_user e @ ve_cm_mint e @ le_bytes 8 (unat (ve_cm_mint_amount e)) @
     le_bytes 8 (unat (ve_cm_sol_amount e)) @ le_bytes 8 (unat (ve_cm_pool_migration_fee e)) @
     ve_cm_bonding_curve e @ le_bytes 8 (unat (ve_cm_timestamp e)) @ ve_cm_pool e @ ve_cm_quote_mint e"

definition complete_migration_event_ok :: "complete_migration_event \<Rightarrow> bool" where
  "complete_migration_event_ok e \<longleftrightarrow> length (ve_cm_user e) = 32 \<and> length (ve_cm_mint e) = 32 \<and>
     length (ve_cm_bonding_curve e) = 32 \<and> length (ve_cm_pool e) = 32 \<and>
     length (ve_cm_quote_mint e) = 32"

record collect_creator_fee_event =
  ve_cf_timestamp :: u64
  ve_cf_creator :: pubkey
  ve_cf_creator_fee :: u64
  ve_cf_quote_mint :: pubkey

definition read_collect_creator_fee_event :: "borsh \<Rightarrow> collect_creator_fee_event reader" where
  "read_collect_creator_fee_event B =
     rbind (rd_u64 B) (\<lambda>x0. rbind (rd_pubkey B) (\<lambda>x1. rbind (rd_u64 B) (\<lambda>x2.
     rbind (rd_pubkey B) (\<lambda>x3.
     rret \<lparr> ve_cf_timestamp = x0, ve_cf_creator = x1, ve_cf_creator_fee = x2, ve_cf_quote_mint = x3 \<rparr>))))"

definition write_collect_creator_fee_event :: "collect_creator_fee_event \<Rightarrow> bytes" where
  "write_collect_creator_fee_event e =
     le_bytes 8 (unat (ve_cf_timestamp e)) @ ve_cf_creator e @ le_bytes 8 (unat (ve_cf_creator_fee e)) @
     ve_cf_quote_mint e"

definition collect_creator_fee_event_ok :: "collect_creator_fee_event \<Rightarrow> bool" where
  "collect_creator_fee_event_ok e \<longleftrightarrow> length (ve_cf_creator e) = 32 \<and> length (ve_cf_quote_mint e) = 32"

record distribute_creator_fees_event =
  ve_df_timestamp :: u64
  ve_df_mint :: pubkey
  ve_df_bonding_curve :: pubkey
  ve_df_sharing_config :: pubkey
  ve_df_admin :: pubkey
  ve_df_shareholders :: "shareholder list"
  ve_df_distributed :: u64
  ve_df_quote_mint :: pubkey

definition read_distribute_creator_fees_event :: "borsh \<Rightarrow> distribute_creator_fees_event reader" where
  "read_distribute_creator_fees_event B =
     rbind (rd_u64 B) (\<lambda>x0. rbind (rd_pubkey B) (\<lambda>x1. rbind (rd_pubkey B) (\<lambda>x2.
     rbind (rd_pubkey B) (\<lambda>x3. rbind (rd_pubkey B) (\<lambda>x4.
     rbind (read_shareholders B) (\<lambda>x5. rbind (rd_u64 B) (\<lambda>x6.
     rbind (rd_pubkey B) (\<lambda>x7.
     rret \<lparr> ve_df_timestamp = x0, ve_df_mint = x1, ve_df_bonding_curve = x2, ve_df_sharing_config = x3,
       ve_df_admin = x4, ve_df_shareholders = x5, ve_df_distributed = x6, ve_df_quote_mint = x7 \<rparr>))))))))"

definition write_distribute_creator_fees_event :: "distribute_creator_fees_event \<Rightarrow> bytes" where
  "write_distribute_creator_fees_event e =
     le_bytes 8 (unat (ve_df_timestamp e)) @ ve_df_mint e @ ve_df_bonding_curve e @
     ve_df_sharing_config e @ ve_df_admin e @ write_shareholders (ve_df_shareholders e) @
     le_bytes 8 (unat (ve_df_distributed e)) @ ve_df_quote_mint e"

definition distribute_creator_fees_event_ok :: "distribute_creator_fees_event \<Rightarrow> bool" where
  "distribute_creator_fees_event_ok e \<longleftrightarrow> length (ve_df_mint e) = 32 \<and> length (ve_df_bonding_curve e) = 32 \<and>
     length (ve_df_sharing_config e) = 32 \<and> length (ve_df_admin e) = 32 \<and>
     shareholders_ok (ve_df_shareholders e) \<and> length (ve_df_quote_mint e) = 32"

section \<open>PumpSwap\<close>

record buy_event =
  ve_bu_timestamp :: u64
  ve_bu_base_amount_out :: u64
  ve_bu_max_quote_amount_in :: u64
  ve_bu_user_base_token_reserves :: u64
  ve_bu_user_quote_token_reserves :: u64
  ve_bu_pool_base_token_reserves :: u64
  ve_bu_pool_quote_token_reserves :: u64
  ve_bu_quote_amount_in :: u64
  ve_bu_lp_fee_basis_points :: u64
  ve_bu_lp_fee :: u64
  ve_bu_protocol_fee_basis_points :: u64
  ve_bu_protocol_fee :: u64
  ve_bu_quote_amount_in_with_lp_fee :: u64
  ve_bu_user_quote_amount_in :: u64
  ve_bu_pool :: pubkey
  ve_bu_user :: pubkey
  ve_bu_user_base_token_account :: pubkey
  ve_bu_user_quote_token_account :: pubkey
  ve_bu_protocol_fee_recipient :: pubkey
  ve_bu_protocol_fee_recipient_token_account :: pubkey
  ve_bu_coin_creator :: pubkey
  ve_bu_coin_creator_fee_basis_points :: u64
  ve_bu_coin_creator_fee :: u64
  ve_bu_track_volume :: bool
  ve_bu_total_unclaimed_tokens :: u64
  ve_bu_total_claimed_tokens :: u64
  ve_bu_current_sol_volume :: u64
  ve_bu_last_update_timestamp :: u64
  ve_bu_min_base_amount_out :: u64
  ve_bu_ix_name :: bytes
  ve_bu_cashback_fee_basis_points :: u64
  ve_bu_cashback :: u64
  ve_bu_buyback_fee_basis_points :: u64
  ve_bu_buyback_fee :: u64
  ve_bu_undeclared_0 :: u64
  ve_bu_undeclared_1 :: u64
  ve_bu_undeclared_flag :: bool
  ve_bu_undeclared_2 :: u64
  ve_bu_undeclared_tail :: bytes

definition read_buy_event :: "borsh \<Rightarrow> buy_event reader" where
  "read_buy_event B =
     rbind (rd_u64 B) (\<lambda>x0. rbind (rd_u64 B) (\<lambda>x1. rbind (rd_u64 B) (\<lambda>x2.
     rbind (rd_u64 B) (\<lambda>x3. rbind (rd_u64 B) (\<lambda>x4. rbind (rd_u64 B) (\<lambda>x5.
     rbind (rd_u64 B) (\<lambda>x6. rbind (rd_u64 B) (\<lambda>x7. rbind (rd_u64 B) (\<lambda>x8.
     rbind (rd_u64 B) (\<lambda>x9. rbind (rd_u64 B) (\<lambda>x10. rbind (rd_u64 B) (\<lambda>x11.
     rbind (rd_u64 B) (\<lambda>x12. rbind (rd_u64 B) (\<lambda>x13. rbind (rd_pubkey B) (\<lambda>x14.
     rbind (rd_pubkey B) (\<lambda>x15. rbind (rd_pubkey B) (\<lambda>x16.
     rbind (rd_pubkey B) (\<lambda>x17. rbind (rd_pubkey B) (\<lambda>x18.
     rbind (rd_pubkey B) (\<lambda>x19. rbind (rd_pubkey B) (\<lambda>x20.
     rbind (rd_u64 B) (\<lambda>x21. rbind (rd_u64 B) (\<lambda>x22. rbind (rd_bool B) (\<lambda>x23.
     rbind (rd_u64 B) (\<lambda>x24. rbind (rd_u64 B) (\<lambda>x25. rbind (rd_u64 B) (\<lambda>x26.
     rbind (rd_u64 B) (\<lambda>x27. rbind (rd_u64 B) (\<lambda>x28.
     rbind (read_string B) (\<lambda>x29. rbind (rd_u64 B) (\<lambda>x30.
     rbind (rd_u64 B) (\<lambda>x31. rbind (rd_u64 B) (\<lambda>x32. rbind (rd_u64 B) (\<lambda>x33.
     rbind (rd_u64 B) (\<lambda>x34. rbind (rd_u64 B) (\<lambda>x35. rbind (rd_bool B) (\<lambda>x36.
     rbind (rd_u64 B) (\<lambda>x37. rbind (read_tail) (\<lambda>x38.
     rret \<lparr> ve_bu_timestamp = x0, ve_bu_base_amount_out = x1, ve_bu_max_quote_amount_in = x2,
       ve_bu_user_base_token_reserves = x3, ve_bu_user_quote_token_reserves = x4,
       ve_bu_pool_base_token_reserves = x5, ve_bu_pool_quote_token_reserves = x6,
       ve_bu_quote_amount_in = x7, ve_bu_lp_fee_basis_points = x8, ve_bu_lp_fee = x9,
       ve_bu_protocol_fee_basis_points = x10, ve_bu_protocol_fee = x11,
       ve_bu_quote_amount_in_with_lp_fee = x12, ve_bu_user_quote_amount_in = x13, ve_bu_pool = x14,
       ve_bu_user = x15, ve_bu_user_base_token_account = x16, ve_bu_user_quote_token_account = x17,
       ve_bu_protocol_fee_recipient = x18, ve_bu_protocol_fee_recipient_token_account = x19,
       ve_bu_coin_creator = x20, ve_bu_coin_creator_fee_basis_points = x21, ve_bu_coin_creator_fee = x22,
       ve_bu_track_volume = x23, ve_bu_total_unclaimed_tokens = x24, ve_bu_total_claimed_tokens = x25,
       ve_bu_current_sol_volume = x26, ve_bu_last_update_timestamp = x27, ve_bu_min_base_amount_out = x28,
       ve_bu_ix_name = x29, ve_bu_cashback_fee_basis_points = x30, ve_bu_cashback = x31,
       ve_bu_buyback_fee_basis_points = x32, ve_bu_buyback_fee = x33, ve_bu_undeclared_0 = x34,
       ve_bu_undeclared_1 = x35, ve_bu_undeclared_flag = x36, ve_bu_undeclared_2 = x37,
       ve_bu_undeclared_tail = x38 \<rparr>)))))))))))))))))))))))))))))))))))))))"

definition write_buy_event :: "buy_event \<Rightarrow> bytes" where
  "write_buy_event e =
     le_bytes 8 (unat (ve_bu_timestamp e)) @ le_bytes 8 (unat (ve_bu_base_amount_out e)) @
     le_bytes 8 (unat (ve_bu_max_quote_amount_in e)) @
     le_bytes 8 (unat (ve_bu_user_base_token_reserves e)) @
     le_bytes 8 (unat (ve_bu_user_quote_token_reserves e)) @
     le_bytes 8 (unat (ve_bu_pool_base_token_reserves e)) @
     le_bytes 8 (unat (ve_bu_pool_quote_token_reserves e)) @
     le_bytes 8 (unat (ve_bu_quote_amount_in e)) @ le_bytes 8 (unat (ve_bu_lp_fee_basis_points e)) @
     le_bytes 8 (unat (ve_bu_lp_fee e)) @ le_bytes 8 (unat (ve_bu_protocol_fee_basis_points e)) @
     le_bytes 8 (unat (ve_bu_protocol_fee e)) @
     le_bytes 8 (unat (ve_bu_quote_amount_in_with_lp_fee e)) @
     le_bytes 8 (unat (ve_bu_user_quote_amount_in e)) @ ve_bu_pool e @ ve_bu_user e @
     ve_bu_user_base_token_account e @ ve_bu_user_quote_token_account e @
     ve_bu_protocol_fee_recipient e @ ve_bu_protocol_fee_recipient_token_account e @
     ve_bu_coin_creator e @ le_bytes 8 (unat (ve_bu_coin_creator_fee_basis_points e)) @
     le_bytes 8 (unat (ve_bu_coin_creator_fee e)) @ [bool_byte (ve_bu_track_volume e)] @
     le_bytes 8 (unat (ve_bu_total_unclaimed_tokens e)) @
     le_bytes 8 (unat (ve_bu_total_claimed_tokens e)) @ le_bytes 8 (unat (ve_bu_current_sol_volume e)) @
     le_bytes 8 (unat (ve_bu_last_update_timestamp e)) @
     le_bytes 8 (unat (ve_bu_min_base_amount_out e)) @ write_string (ve_bu_ix_name e) @
     le_bytes 8 (unat (ve_bu_cashback_fee_basis_points e)) @ le_bytes 8 (unat (ve_bu_cashback e)) @
     le_bytes 8 (unat (ve_bu_buyback_fee_basis_points e)) @ le_bytes 8 (unat (ve_bu_buyback_fee e)) @
     le_bytes 8 (unat (ve_bu_undeclared_0 e)) @ le_bytes 8 (unat (ve_bu_undeclared_1 e)) @
     [bool_byte (ve_bu_undeclared_flag e)] @ le_bytes 8 (unat (ve_bu_undeclared_2 e)) @
     ve_bu_undeclared_tail e"

definition buy_event_ok :: "buy_event \<Rightarrow> bool" where
  "buy_event_ok e \<longleftrightarrow> length (ve_bu_pool e) = 32 \<and> length (ve_bu_user e) = 32 \<and>
     length (ve_bu_user_base_token_account e) = 32 \<and>
     length (ve_bu_user_quote_token_account e) = 32 \<and>
     length (ve_bu_protocol_fee_recipient e) = 32 \<and>
     length (ve_bu_protocol_fee_recipient_token_account e) = 32 \<and>
     length (ve_bu_coin_creator e) = 32 \<and> string_ok (ve_bu_ix_name e)"

record sell_event =
  ve_se_timestamp :: u64
  ve_se_base_amount_in :: u64
  ve_se_min_quote_amount_out :: u64
  ve_se_user_base_token_reserves :: u64
  ve_se_user_quote_token_reserves :: u64
  ve_se_pool_base_token_reserves :: u64
  ve_se_pool_quote_token_reserves :: u64
  ve_se_quote_amount_out :: u64
  ve_se_lp_fee_basis_points :: u64
  ve_se_lp_fee :: u64
  ve_se_protocol_fee_basis_points :: u64
  ve_se_protocol_fee :: u64
  ve_se_quote_amount_out_without_lp_fee :: u64
  ve_se_user_quote_amount_out :: u64
  ve_se_pool :: pubkey
  ve_se_user :: pubkey
  ve_se_user_base_token_account :: pubkey
  ve_se_user_quote_token_account :: pubkey
  ve_se_protocol_fee_recipient :: pubkey
  ve_se_protocol_fee_recipient_token_account :: pubkey
  ve_se_coin_creator :: pubkey
  ve_se_coin_creator_fee_basis_points :: u64
  ve_se_coin_creator_fee :: u64
  ve_se_cashback_fee_basis_points :: u64
  ve_se_cashback :: u64
  ve_se_buyback_fee_basis_points :: u64
  ve_se_buyback_fee :: u64
  ve_se_undeclared_0 :: u64
  ve_se_undeclared_1 :: u64
  ve_se_undeclared_flag :: bool
  ve_se_undeclared_2 :: u64
  ve_se_undeclared_tail :: bytes

definition read_sell_event :: "borsh \<Rightarrow> sell_event reader" where
  "read_sell_event B =
     rbind (rd_u64 B) (\<lambda>x0. rbind (rd_u64 B) (\<lambda>x1. rbind (rd_u64 B) (\<lambda>x2.
     rbind (rd_u64 B) (\<lambda>x3. rbind (rd_u64 B) (\<lambda>x4. rbind (rd_u64 B) (\<lambda>x5.
     rbind (rd_u64 B) (\<lambda>x6. rbind (rd_u64 B) (\<lambda>x7. rbind (rd_u64 B) (\<lambda>x8.
     rbind (rd_u64 B) (\<lambda>x9. rbind (rd_u64 B) (\<lambda>x10. rbind (rd_u64 B) (\<lambda>x11.
     rbind (rd_u64 B) (\<lambda>x12. rbind (rd_u64 B) (\<lambda>x13. rbind (rd_pubkey B) (\<lambda>x14.
     rbind (rd_pubkey B) (\<lambda>x15. rbind (rd_pubkey B) (\<lambda>x16.
     rbind (rd_pubkey B) (\<lambda>x17. rbind (rd_pubkey B) (\<lambda>x18.
     rbind (rd_pubkey B) (\<lambda>x19. rbind (rd_pubkey B) (\<lambda>x20.
     rbind (rd_u64 B) (\<lambda>x21. rbind (rd_u64 B) (\<lambda>x22. rbind (rd_u64 B) (\<lambda>x23.
     rbind (rd_u64 B) (\<lambda>x24. rbind (rd_u64 B) (\<lambda>x25. rbind (rd_u64 B) (\<lambda>x26.
     rbind (rd_u64 B) (\<lambda>x27. rbind (rd_u64 B) (\<lambda>x28. rbind (rd_bool B) (\<lambda>x29.
     rbind (rd_u64 B) (\<lambda>x30. rbind (read_tail) (\<lambda>x31.
     rret \<lparr> ve_se_timestamp = x0, ve_se_base_amount_in = x1, ve_se_min_quote_amount_out = x2,
       ve_se_user_base_token_reserves = x3, ve_se_user_quote_token_reserves = x4,
       ve_se_pool_base_token_reserves = x5, ve_se_pool_quote_token_reserves = x6,
       ve_se_quote_amount_out = x7, ve_se_lp_fee_basis_points = x8, ve_se_lp_fee = x9,
       ve_se_protocol_fee_basis_points = x10, ve_se_protocol_fee = x11,
       ve_se_quote_amount_out_without_lp_fee = x12, ve_se_user_quote_amount_out = x13, ve_se_pool = x14,
       ve_se_user = x15, ve_se_user_base_token_account = x16, ve_se_user_quote_token_account = x17,
       ve_se_protocol_fee_recipient = x18, ve_se_protocol_fee_recipient_token_account = x19,
       ve_se_coin_creator = x20, ve_se_coin_creator_fee_basis_points = x21, ve_se_coin_creator_fee = x22,
       ve_se_cashback_fee_basis_points = x23, ve_se_cashback = x24, ve_se_buyback_fee_basis_points = x25,
       ve_se_buyback_fee = x26, ve_se_undeclared_0 = x27, ve_se_undeclared_1 = x28,
       ve_se_undeclared_flag = x29, ve_se_undeclared_2 = x30, ve_se_undeclared_tail = x31 \<rparr>))))))))))))))))))))))))))))))))"

definition write_sell_event :: "sell_event \<Rightarrow> bytes" where
  "write_sell_event e =
     le_bytes 8 (unat (ve_se_timestamp e)) @ le_bytes 8 (unat (ve_se_base_amount_in e)) @
     le_bytes 8 (unat (ve_se_min_quote_amount_out e)) @
     le_bytes 8 (unat (ve_se_user_base_token_reserves e)) @
     le_bytes 8 (unat (ve_se_user_quote_token_reserves e)) @
     le_bytes 8 (unat (ve_se_pool_base_token_reserves e)) @
     le_bytes 8 (unat (ve_se_pool_quote_token_reserves e)) @
     le_bytes 8 (unat (ve_se_quote_amount_out e)) @ le_bytes 8 (unat (ve_se_lp_fee_basis_points e)) @
     le_bytes 8 (unat (ve_se_lp_fee e)) @ le_bytes 8 (unat (ve_se_protocol_fee_basis_points e)) @
     le_bytes 8 (unat (ve_se_protocol_fee e)) @
     le_bytes 8 (unat (ve_se_quote_amount_out_without_lp_fee e)) @
     le_bytes 8 (unat (ve_se_user_quote_amount_out e)) @ ve_se_pool e @ ve_se_user e @
     ve_se_user_base_token_account e @ ve_se_user_quote_token_account e @
     ve_se_protocol_fee_recipient e @ ve_se_protocol_fee_recipient_token_account e @
     ve_se_coin_creator e @ le_bytes 8 (unat (ve_se_coin_creator_fee_basis_points e)) @
     le_bytes 8 (unat (ve_se_coin_creator_fee e)) @
     le_bytes 8 (unat (ve_se_cashback_fee_basis_points e)) @ le_bytes 8 (unat (ve_se_cashback e)) @
     le_bytes 8 (unat (ve_se_buyback_fee_basis_points e)) @ le_bytes 8 (unat (ve_se_buyback_fee e)) @
     le_bytes 8 (unat (ve_se_undeclared_0 e)) @ le_bytes 8 (unat (ve_se_undeclared_1 e)) @
     [bool_byte (ve_se_undeclared_flag e)] @ le_bytes 8 (unat (ve_se_undeclared_2 e)) @
     ve_se_undeclared_tail e"

definition sell_event_ok :: "sell_event \<Rightarrow> bool" where
  "sell_event_ok e \<longleftrightarrow> length (ve_se_pool e) = 32 \<and> length (ve_se_user e) = 32 \<and>
     length (ve_se_user_base_token_account e) = 32 \<and>
     length (ve_se_user_quote_token_account e) = 32 \<and>
     length (ve_se_protocol_fee_recipient e) = 32 \<and>
     length (ve_se_protocol_fee_recipient_token_account e) = 32 \<and> length (ve_se_coin_creator e) = 32"

record create_pool_event =
  ve_cp_timestamp :: u64
  ve_cp_index :: u16
  ve_cp_creator :: pubkey
  ve_cp_base_mint :: pubkey
  ve_cp_quote_mint :: pubkey
  ve_cp_base_mint_decimals :: u8
  ve_cp_quote_mint_decimals :: u8
  ve_cp_base_amount_in :: u64
  ve_cp_quote_amount_in :: u64
  ve_cp_pool_base_amount :: u64
  ve_cp_pool_quote_amount :: u64
  ve_cp_minimum_liquidity :: u64
  ve_cp_initial_liquidity :: u64
  ve_cp_lp_token_amount_out :: u64
  ve_cp_pool_bump :: u8
  ve_cp_pool :: pubkey
  ve_cp_lp_mint :: pubkey
  ve_cp_user_base_token_account :: pubkey
  ve_cp_user_quote_token_account :: pubkey
  ve_cp_coin_creator :: pubkey
  ve_cp_is_mayhem_mode :: bool

definition read_create_pool_event :: "borsh \<Rightarrow> create_pool_event reader" where
  "read_create_pool_event B =
     rbind (rd_u64 B) (\<lambda>x0. rbind (rd_u16 B) (\<lambda>x1. rbind (rd_pubkey B) (\<lambda>x2.
     rbind (rd_pubkey B) (\<lambda>x3. rbind (rd_pubkey B) (\<lambda>x4. rbind (rd_u8 B) (\<lambda>x5.
     rbind (rd_u8 B) (\<lambda>x6. rbind (rd_u64 B) (\<lambda>x7. rbind (rd_u64 B) (\<lambda>x8.
     rbind (rd_u64 B) (\<lambda>x9. rbind (rd_u64 B) (\<lambda>x10. rbind (rd_u64 B) (\<lambda>x11.
     rbind (rd_u64 B) (\<lambda>x12. rbind (rd_u64 B) (\<lambda>x13. rbind (rd_u8 B) (\<lambda>x14.
     rbind (rd_pubkey B) (\<lambda>x15. rbind (rd_pubkey B) (\<lambda>x16.
     rbind (rd_pubkey B) (\<lambda>x17. rbind (rd_pubkey B) (\<lambda>x18.
     rbind (rd_pubkey B) (\<lambda>x19. rbind (rd_bool B) (\<lambda>x20.
     rret \<lparr> ve_cp_timestamp = x0, ve_cp_index = x1, ve_cp_creator = x2, ve_cp_base_mint = x3,
       ve_cp_quote_mint = x4, ve_cp_base_mint_decimals = x5, ve_cp_quote_mint_decimals = x6,
       ve_cp_base_amount_in = x7, ve_cp_quote_amount_in = x8, ve_cp_pool_base_amount = x9,
       ve_cp_pool_quote_amount = x10, ve_cp_minimum_liquidity = x11, ve_cp_initial_liquidity = x12,
       ve_cp_lp_token_amount_out = x13, ve_cp_pool_bump = x14, ve_cp_pool = x15, ve_cp_lp_mint = x16,
       ve_cp_user_base_token_account = x17, ve_cp_user_quote_token_account = x18,
       ve_cp_coin_creator = x19, ve_cp_is_mayhem_mode = x20 \<rparr>)))))))))))))))))))))"

definition write_create_pool_event :: "create_pool_event \<Rightarrow> bytes" where
  "write_create_pool_event e =
     le_bytes 8 (unat (ve_cp_timestamp e)) @ le_bytes 2 (unat (ve_cp_index e)) @ ve_cp_creator e @
     ve_cp_base_mint e @ ve_cp_quote_mint e @ [ve_cp_base_mint_decimals e] @
     [ve_cp_quote_mint_decimals e] @ le_bytes 8 (unat (ve_cp_base_amount_in e)) @
     le_bytes 8 (unat (ve_cp_quote_amount_in e)) @ le_bytes 8 (unat (ve_cp_pool_base_amount e)) @
     le_bytes 8 (unat (ve_cp_pool_quote_amount e)) @ le_bytes 8 (unat (ve_cp_minimum_liquidity e)) @
     le_bytes 8 (unat (ve_cp_initial_liquidity e)) @ le_bytes 8 (unat (ve_cp_lp_token_amount_out e)) @
     [ve_cp_pool_bump e] @ ve_cp_pool e @ ve_cp_lp_mint e @ ve_cp_user_base_token_account e @
     ve_cp_user_quote_token_account e @ ve_cp_coin_creator e @ [bool_byte (ve_cp_is_mayhem_mode e)]"

definition create_pool_event_ok :: "create_pool_event \<Rightarrow> bool" where
  "create_pool_event_ok e \<longleftrightarrow> length (ve_cp_creator e) = 32 \<and> length (ve_cp_base_mint e) = 32 \<and>
     length (ve_cp_quote_mint e) = 32 \<and> length (ve_cp_pool e) = 32 \<and>
     length (ve_cp_lp_mint e) = 32 \<and> length (ve_cp_user_base_token_account e) = 32 \<and>
     length (ve_cp_user_quote_token_account e) = 32 \<and> length (ve_cp_coin_creator e) = 32"

record deposit_event =
  ve_de_timestamp :: u64
  ve_de_lp_token_amount_out :: u64
  ve_de_max_base_amount_in :: u64
  ve_de_max_quote_amount_in :: u64
  ve_de_user_base_token_reserves :: u64
  ve_de_user_quote_token_reserves :: u64
  ve_de_pool_base_token_reserves :: u64
  ve_de_pool_quote_token_reserves :: u64
  ve_de_base_amount_in :: u64
  ve_de_quote_amount_in :: u64
  ve_de_lp_mint_supply :: u64
  ve_de_pool :: pubkey
  ve_de_user :: pubkey
  ve_de_user_base_token_account :: pubkey
  ve_de_user_quote_token_account :: pubkey
  ve_de_user_pool_token_account :: pubkey

definition read_deposit_event :: "borsh \<Rightarrow> deposit_event reader" where
  "read_deposit_event B =
     rbind (rd_u64 B) (\<lambda>x0. rbind (rd_u64 B) (\<lambda>x1. rbind (rd_u64 B) (\<lambda>x2.
     rbind (rd_u64 B) (\<lambda>x3. rbind (rd_u64 B) (\<lambda>x4. rbind (rd_u64 B) (\<lambda>x5.
     rbind (rd_u64 B) (\<lambda>x6. rbind (rd_u64 B) (\<lambda>x7. rbind (rd_u64 B) (\<lambda>x8.
     rbind (rd_u64 B) (\<lambda>x9. rbind (rd_u64 B) (\<lambda>x10. rbind (rd_pubkey B) (\<lambda>x11.
     rbind (rd_pubkey B) (\<lambda>x12. rbind (rd_pubkey B) (\<lambda>x13.
     rbind (rd_pubkey B) (\<lambda>x14. rbind (rd_pubkey B) (\<lambda>x15.
     rret \<lparr> ve_de_timestamp = x0, ve_de_lp_token_amount_out = x1, ve_de_max_base_amount_in = x2,
       ve_de_max_quote_amount_in = x3, ve_de_user_base_token_reserves = x4,
       ve_de_user_quote_token_reserves = x5, ve_de_pool_base_token_reserves = x6,
       ve_de_pool_quote_token_reserves = x7, ve_de_base_amount_in = x8, ve_de_quote_amount_in = x9,
       ve_de_lp_mint_supply = x10, ve_de_pool = x11, ve_de_user = x12,
       ve_de_user_base_token_account = x13, ve_de_user_quote_token_account = x14,
       ve_de_user_pool_token_account = x15 \<rparr>))))))))))))))))"

definition write_deposit_event :: "deposit_event \<Rightarrow> bytes" where
  "write_deposit_event e =
     le_bytes 8 (unat (ve_de_timestamp e)) @ le_bytes 8 (unat (ve_de_lp_token_amount_out e)) @
     le_bytes 8 (unat (ve_de_max_base_amount_in e)) @ le_bytes 8 (unat (ve_de_max_quote_amount_in e)) @
     le_bytes 8 (unat (ve_de_user_base_token_reserves e)) @
     le_bytes 8 (unat (ve_de_user_quote_token_reserves e)) @
     le_bytes 8 (unat (ve_de_pool_base_token_reserves e)) @
     le_bytes 8 (unat (ve_de_pool_quote_token_reserves e)) @
     le_bytes 8 (unat (ve_de_base_amount_in e)) @ le_bytes 8 (unat (ve_de_quote_amount_in e)) @
     le_bytes 8 (unat (ve_de_lp_mint_supply e)) @ ve_de_pool e @ ve_de_user e @
     ve_de_user_base_token_account e @ ve_de_user_quote_token_account e @ ve_de_user_pool_token_account e"

definition deposit_event_ok :: "deposit_event \<Rightarrow> bool" where
  "deposit_event_ok e \<longleftrightarrow> length (ve_de_pool e) = 32 \<and> length (ve_de_user e) = 32 \<and>
     length (ve_de_user_base_token_account e) = 32 \<and>
     length (ve_de_user_quote_token_account e) = 32 \<and> length (ve_de_user_pool_token_account e) = 32"

record withdraw_event =
  ve_wi_timestamp :: u64
  ve_wi_lp_token_amount_in :: u64
  ve_wi_min_base_amount_out :: u64
  ve_wi_min_quote_amount_out :: u64
  ve_wi_user_base_token_reserves :: u64
  ve_wi_user_quote_token_reserves :: u64
  ve_wi_pool_base_token_reserves :: u64
  ve_wi_pool_quote_token_reserves :: u64
  ve_wi_base_amount_out :: u64
  ve_wi_quote_amount_out :: u64
  ve_wi_lp_mint_supply :: u64
  ve_wi_pool :: pubkey
  ve_wi_user :: pubkey
  ve_wi_user_base_token_account :: pubkey
  ve_wi_user_quote_token_account :: pubkey
  ve_wi_user_pool_token_account :: pubkey

definition read_withdraw_event :: "borsh \<Rightarrow> withdraw_event reader" where
  "read_withdraw_event B =
     rbind (rd_u64 B) (\<lambda>x0. rbind (rd_u64 B) (\<lambda>x1. rbind (rd_u64 B) (\<lambda>x2.
     rbind (rd_u64 B) (\<lambda>x3. rbind (rd_u64 B) (\<lambda>x4. rbind (rd_u64 B) (\<lambda>x5.
     rbind (rd_u64 B) (\<lambda>x6. rbind (rd_u64 B) (\<lambda>x7. rbind (rd_u64 B) (\<lambda>x8.
     rbind (rd_u64 B) (\<lambda>x9. rbind (rd_u64 B) (\<lambda>x10. rbind (rd_pubkey B) (\<lambda>x11.
     rbind (rd_pubkey B) (\<lambda>x12. rbind (rd_pubkey B) (\<lambda>x13.
     rbind (rd_pubkey B) (\<lambda>x14. rbind (rd_pubkey B) (\<lambda>x15.
     rret \<lparr> ve_wi_timestamp = x0, ve_wi_lp_token_amount_in = x1, ve_wi_min_base_amount_out = x2,
       ve_wi_min_quote_amount_out = x3, ve_wi_user_base_token_reserves = x4,
       ve_wi_user_quote_token_reserves = x5, ve_wi_pool_base_token_reserves = x6,
       ve_wi_pool_quote_token_reserves = x7, ve_wi_base_amount_out = x8, ve_wi_quote_amount_out = x9,
       ve_wi_lp_mint_supply = x10, ve_wi_pool = x11, ve_wi_user = x12,
       ve_wi_user_base_token_account = x13, ve_wi_user_quote_token_account = x14,
       ve_wi_user_pool_token_account = x15 \<rparr>))))))))))))))))"

definition write_withdraw_event :: "withdraw_event \<Rightarrow> bytes" where
  "write_withdraw_event e =
     le_bytes 8 (unat (ve_wi_timestamp e)) @ le_bytes 8 (unat (ve_wi_lp_token_amount_in e)) @
     le_bytes 8 (unat (ve_wi_min_base_amount_out e)) @
     le_bytes 8 (unat (ve_wi_min_quote_amount_out e)) @
     le_bytes 8 (unat (ve_wi_user_base_token_reserves e)) @
     le_bytes 8 (unat (ve_wi_user_quote_token_reserves e)) @
     le_bytes 8 (unat (ve_wi_pool_base_token_reserves e)) @
     le_bytes 8 (unat (ve_wi_pool_quote_token_reserves e)) @
     le_bytes 8 (unat (ve_wi_base_amount_out e)) @ le_bytes 8 (unat (ve_wi_quote_amount_out e)) @
     le_bytes 8 (unat (ve_wi_lp_mint_supply e)) @ ve_wi_pool e @ ve_wi_user e @
     ve_wi_user_base_token_account e @ ve_wi_user_quote_token_account e @ ve_wi_user_pool_token_account e"

definition withdraw_event_ok :: "withdraw_event \<Rightarrow> bool" where
  "withdraw_event_ok e \<longleftrightarrow> length (ve_wi_pool e) = 32 \<and> length (ve_wi_user e) = 32 \<and>
     length (ve_wi_user_base_token_account e) = 32 \<and>
     length (ve_wi_user_quote_token_account e) = 32 \<and> length (ve_wi_user_pool_token_account e) = 32"

record collect_coin_creator_fee_event =
  ve_cc_timestamp :: u64
  ve_cc_coin_creator :: pubkey
  ve_cc_coin_creator_fee :: u64
  ve_cc_coin_creator_vault_ata :: pubkey
  ve_cc_coin_creator_token_account :: pubkey

definition read_collect_coin_creator_fee_event :: "borsh \<Rightarrow> collect_coin_creator_fee_event reader" where
  "read_collect_coin_creator_fee_event B =
     rbind (rd_u64 B) (\<lambda>x0. rbind (rd_pubkey B) (\<lambda>x1. rbind (rd_u64 B) (\<lambda>x2.
     rbind (rd_pubkey B) (\<lambda>x3. rbind (rd_pubkey B) (\<lambda>x4.
     rret \<lparr> ve_cc_timestamp = x0, ve_cc_coin_creator = x1, ve_cc_coin_creator_fee = x2,
       ve_cc_coin_creator_vault_ata = x3, ve_cc_coin_creator_token_account = x4 \<rparr>)))))"

definition write_collect_coin_creator_fee_event :: "collect_coin_creator_fee_event \<Rightarrow> bytes" where
  "write_collect_coin_creator_fee_event e =
     le_bytes 8 (unat (ve_cc_timestamp e)) @ ve_cc_coin_creator e @
     le_bytes 8 (unat (ve_cc_coin_creator_fee e)) @ ve_cc_coin_creator_vault_ata e @
     ve_cc_coin_creator_token_account e"

definition collect_coin_creator_fee_event_ok :: "collect_coin_creator_fee_event \<Rightarrow> bool" where
  "collect_coin_creator_fee_event_ok e \<longleftrightarrow> length (ve_cc_coin_creator e) = 32 \<and> length (ve_cc_coin_creator_vault_ata e) = 32 \<and>
     length (ve_cc_coin_creator_token_account e) = 32"

text \<open>\<open>BuyEvent::gross_quote_in\<close>\<close>

definition gross_quote_in :: "buy_event \<Rightarrow> u64" where
  "gross_quote_in e =
     as_u64 (saturating_add 64 (saturating_add 64 (unat (ve_bu_quote_amount_in_with_lp_fee e)) (unat (ve_bu_protocol_fee e)))
       (unat (ve_bu_coin_creator_fee e)))"

section \<open>Meteora DAMM v2\<close>

record swap_parameters2 =
  ve_p2_amount_0 :: u64
  ve_p2_amount_1 :: u64
  ve_p2_swap_mode :: u8

definition read_swap_parameters2 :: "borsh \<Rightarrow> swap_parameters2 reader" where
  "read_swap_parameters2 B =
     rbind (rd_u64 B) (\<lambda>x0. rbind (rd_u64 B) (\<lambda>x1. rbind (rd_u8 B) (\<lambda>x2.
     rret \<lparr> ve_p2_amount_0 = x0, ve_p2_amount_1 = x1, ve_p2_swap_mode = x2 \<rparr>)))"

definition write_swap_parameters2 :: "swap_parameters2 \<Rightarrow> bytes" where
  "write_swap_parameters2 e =
     le_bytes 8 (unat (ve_p2_amount_0 e)) @ le_bytes 8 (unat (ve_p2_amount_1 e)) @ [ve_p2_swap_mode e]"

definition swap_parameters2_ok :: "swap_parameters2 \<Rightarrow> bool" where
  "swap_parameters2_ok e \<longleftrightarrow> True"

record swap_result2 =
  ve_r2_included_fee_input_amount :: u64
  ve_r2_excluded_fee_input_amount :: u64
  ve_r2_amount_left :: u64
  ve_r2_output_amount :: u64
  ve_r2_next_sqrt_price :: u128
  ve_r2_trading_fee :: u64
  ve_r2_protocol_fee :: u64
  ve_r2_partner_fee :: u64
  ve_r2_referral_fee :: u64

definition read_swap_result2 :: "borsh \<Rightarrow> swap_result2 reader" where
  "read_swap_result2 B =
     rbind (rd_u64 B) (\<lambda>x0. rbind (rd_u64 B) (\<lambda>x1. rbind (rd_u64 B) (\<lambda>x2.
     rbind (rd_u64 B) (\<lambda>x3. rbind (rd_u128 B) (\<lambda>x4. rbind (rd_u64 B) (\<lambda>x5.
     rbind (rd_u64 B) (\<lambda>x6. rbind (rd_u64 B) (\<lambda>x7. rbind (rd_u64 B) (\<lambda>x8.
     rret \<lparr> ve_r2_included_fee_input_amount = x0, ve_r2_excluded_fee_input_amount = x1, ve_r2_amount_left = x2,
       ve_r2_output_amount = x3, ve_r2_next_sqrt_price = x4, ve_r2_trading_fee = x5,
       ve_r2_protocol_fee = x6, ve_r2_partner_fee = x7, ve_r2_referral_fee = x8 \<rparr>)))))))))"

definition write_swap_result2 :: "swap_result2 \<Rightarrow> bytes" where
  "write_swap_result2 e =
     le_bytes 8 (unat (ve_r2_included_fee_input_amount e)) @
     le_bytes 8 (unat (ve_r2_excluded_fee_input_amount e)) @ le_bytes 8 (unat (ve_r2_amount_left e)) @
     le_bytes 8 (unat (ve_r2_output_amount e)) @ le_bytes 16 (unat (ve_r2_next_sqrt_price e)) @
     le_bytes 8 (unat (ve_r2_trading_fee e)) @ le_bytes 8 (unat (ve_r2_protocol_fee e)) @
     le_bytes 8 (unat (ve_r2_partner_fee e)) @ le_bytes 8 (unat (ve_r2_referral_fee e))"

definition swap_result2_ok :: "swap_result2 \<Rightarrow> bool" where
  "swap_result2_ok e \<longleftrightarrow> True"

record evt_swap2 =
  ve_s2_pool :: pubkey
  ve_s2_trade_direction :: u8
  ve_s2_collect_fee_mode :: u8
  ve_s2_has_referral :: bool
  ve_s2_params :: swap_parameters2
  ve_s2_swap_result :: swap_result2
  ve_s2_included_transfer_fee_amount_in :: u64
  ve_s2_included_transfer_fee_amount_out :: u64
  ve_s2_excluded_transfer_fee_amount_out :: u64
  ve_s2_current_timestamp :: u64
  ve_s2_reserve_a_amount :: u64
  ve_s2_reserve_b_amount :: u64

definition read_evt_swap2 :: "borsh \<Rightarrow> evt_swap2 reader" where
  "read_evt_swap2 B =
     rbind (rd_pubkey B) (\<lambda>x0. rbind (rd_u8 B) (\<lambda>x1. rbind (rd_u8 B) (\<lambda>x2.
     rbind (rd_bool B) (\<lambda>x3. rbind (read_swap_parameters2 B) (\<lambda>x4.
     rbind (read_swap_result2 B) (\<lambda>x5. rbind (rd_u64 B) (\<lambda>x6.
     rbind (rd_u64 B) (\<lambda>x7. rbind (rd_u64 B) (\<lambda>x8. rbind (rd_u64 B) (\<lambda>x9.
     rbind (rd_u64 B) (\<lambda>x10. rbind (rd_u64 B) (\<lambda>x11.
     rret \<lparr> ve_s2_pool = x0, ve_s2_trade_direction = x1, ve_s2_collect_fee_mode = x2, ve_s2_has_referral = x3,
       ve_s2_params = x4, ve_s2_swap_result = x5, ve_s2_included_transfer_fee_amount_in = x6,
       ve_s2_included_transfer_fee_amount_out = x7, ve_s2_excluded_transfer_fee_amount_out = x8,
       ve_s2_current_timestamp = x9, ve_s2_reserve_a_amount = x10, ve_s2_reserve_b_amount = x11 \<rparr>))))))))))))"

definition write_evt_swap2 :: "evt_swap2 \<Rightarrow> bytes" where
  "write_evt_swap2 e =
     ve_s2_pool e @ [ve_s2_trade_direction e] @ [ve_s2_collect_fee_mode e] @
     [bool_byte (ve_s2_has_referral e)] @ write_swap_parameters2 (ve_s2_params e) @
     write_swap_result2 (ve_s2_swap_result e) @
     le_bytes 8 (unat (ve_s2_included_transfer_fee_amount_in e)) @
     le_bytes 8 (unat (ve_s2_included_transfer_fee_amount_out e)) @
     le_bytes 8 (unat (ve_s2_excluded_transfer_fee_amount_out e)) @
     le_bytes 8 (unat (ve_s2_current_timestamp e)) @ le_bytes 8 (unat (ve_s2_reserve_a_amount e)) @
     le_bytes 8 (unat (ve_s2_reserve_b_amount e))"

definition evt_swap2_ok :: "evt_swap2 \<Rightarrow> bool" where
  "evt_swap2_ok e \<longleftrightarrow> length (ve_s2_pool e) = 32"

definition is_a_to_b :: "evt_swap2 \<Rightarrow> bool" where
  "is_a_to_b e \<longleftrightarrow> ve_s2_trade_direction e = 0"

definition input_amount_gross :: "evt_swap2 \<Rightarrow> u64" where
  "input_amount_gross e = ve_r2_included_fee_input_amount (ve_s2_swap_result e)"

definition input_amount_net :: "evt_swap2 \<Rightarrow> u64" where
  "input_amount_net e = ve_r2_excluded_fee_input_amount (ve_s2_swap_result e)"

definition output_amount :: "evt_swap2 \<Rightarrow> u64" where
  "output_amount e = ve_r2_output_amount (ve_s2_swap_result e)"

definition evt_total_fee :: "evt_swap2 \<Rightarrow> u64" where
  "evt_total_fee e =
     (let r = ve_s2_swap_result e
      in as_u64 (saturating_add 64 (saturating_add 64 (saturating_add 64 (unat (ve_r2_trading_fee r))
           (unat (ve_r2_protocol_fee r))) (unat (ve_r2_partner_fee r))) (unat (ve_r2_referral_fee r))))"

section \<open>Trade events as prices\<close>

definition f_nano :: "u64 \<Rightarrow> f64" where
  "f_nano v = f_div (f_of_nat (unat v)) (f_of_nat 1000000000)"

definition f_micro :: "u64 \<Rightarrow> f64" where
  "f_micro v = f_div (f_of_nat (unat v)) (f_of_nat 1000000)"

definition sol_amount_ui :: "trade_event \<Rightarrow> f64" where
  "sol_amount_ui e = f_nano (ve_tr_sol_amount e)"

definition token_amount_ui :: "trade_event \<Rightarrow> f64" where
  "token_amount_ui e = f_micro (ve_tr_token_amount e)"

definition trade_price :: "trade_event \<Rightarrow> f64" where
  "trade_price e =
     (if f_lt f_0 (token_amount_ui e) then f_div (sol_amount_ui e) (token_amount_ui e) else f_0)"

definition post_trade_price :: "trade_event \<Rightarrow> f64" where
  "post_trade_price e =
     (let virtual_sol = f_nano (ve_tr_virtual_sol_reserves e);
          virtual_token = f_micro (ve_tr_virtual_token_reserves e)
      in if f_lt f_0 virtual_token then f_div virtual_sol virtual_token else f_0)"

definition market_cap_sol :: "trade_event \<Rightarrow> f64" where
  "market_cap_sol e = f_mul (post_trade_price e) (f_of_nat 1000000000)"

definition graduation_progress :: "trade_event \<Rightarrow> f64" where
  "graduation_progress e = f_min (f_div (f_nano (ve_tr_real_sol_reserves e)) (f_of_nat 85)) (f_of_nat 1)"

definition trade_price_impact_bps :: "trade_event \<Rightarrow> u16" where
  "trade_price_impact_bps e =
     (let effective = trade_price e; spot = post_trade_price e
      in if f_eq spot f_0 then 0
         else f_as_u16 (f_mul (f_abs (f_div (f_sub effective spot) spot)) (f_of_nat 10000)))"

section \<open>The Anchor envelope\<close>

definition anchor_event_tag :: bytes where
  "anchor_event_tag = [0xe4, 0x45, 0xa5, 0x2e, 0x51, 0xcb, 0x9a, 0x1d]"

definition split_event_ix :: "bytes \<Rightarrow> (bytes \<times> bytes) option" where
  "split_event_ix data =
     (if length data < 16 \<or> take 8 data \<noteq> anchor_event_tag then None
      else Some (take 8 (drop 8 data), drop 16 data))"

definition event_body :: "bytes \<Rightarrow> bytes \<Rightarrow> bytes option" where
  "event_body data expected =
     (case split_event_ix data of
        Some (disc, body) \<Rightarrow> if disc = expected then Some body else None
      | None \<Rightarrow> None)"

lemma event_body_framed:
  "length disc = 8 \<Longrightarrow> event_body (anchor_event_tag @ disc @ body) expected = (if disc = expected then Some body else None)"
  by (simp add: event_body_def split_event_ix_def anchor_event_tag_def eval_nat_numeral)

section \<open>The decoding contract\<close>

text \<open>A type of events is its name, its discriminator and the reader of its body.\<close>

record 'e event_type =
  et_name :: string
  et_discriminator :: bytes
  et_reader :: "'e reader"

text \<open>The discriminators are hashes of the names, which a macro computes: a function of the name.\<close>

definition event_type_of :: "(string \<Rightarrow> bytes) \<Rightarrow> string \<Rightarrow> 'e reader \<Rightarrow> 'e event_type" where
  "event_type_of disc name r = \<lparr> et_name = name, et_discriminator = disc name, et_reader = r \<rparr>"

definition from_event_body :: "'e event_type \<Rightarrow> bytes \<Rightarrow> instruction_parse_error + 'e" where
  "from_event_body T body =
     (case et_reader T body of
        Inl e \<Rightarrow> Inl (DeserializationFailed (et_name T @ '': borsh decode failed: '' @ e))
      | Inr (x, []) \<Rightarrow> Inr x
      | Inr (x, _ # _) \<Rightarrow> Inl (DeserializationFailed (et_name T @ '': borsh decode failed: Not all bytes read'')))"

definition from_event_instruction :: "'e event_type \<Rightarrow> bytes \<Rightarrow> instruction_parse_error + 'e option" where
  "from_event_instruction T data =
     (case event_body data (et_discriminator T) of
        Some body \<Rightarrow> map_sum id Some (from_event_body T body)
      | None \<Rightarrow> Inr None)"

definition children_of ::
    "pubkey \<Rightarrow> parsed_instruction \<Rightarrow> parsed_instruction list \<Rightarrow> parsed_instruction list" where
  "children_of program ix all =
     filter (\<lambda>c. pi_parent_index c = Some (pi_instruction_index ix) \<and> pi_program_id c = program) all"

text \<open>\<open>find_child_event\<close> of parsing/event.rs passes over a body that does not decode.\<close>

definition find_child_event ::
    "'e event_type \<Rightarrow> parsed_instruction \<Rightarrow> parsed_instruction list \<Rightarrow> pubkey \<Rightarrow> 'e option" where
  "find_child_event T parent all program =
     find_map (\<lambda>c. case from_event_instruction T (pi_data c) of Inr found \<Rightarrow> found | Inl _ \<Rightarrow> None)
       (children_of program parent all)"

section \<open>Extraction errors\<close>

datatype extract_error =
    AccountLayout string instruction_parse_error
  | EventMissing string
  | EventUndecodable string nat instruction_parse_error
  | Corroboration string string string
  | Unmodelled string

fun extract_error_kind :: "extract_error \<Rightarrow> string" where
  "extract_error_kind (AccountLayout _ _) = ''account_layout''"
| "extract_error_kind (EventMissing _) = ''event_missing''"
| "extract_error_kind (EventUndecodable _ _ _) = ''event_undecodable''"
| "extract_error_kind (Corroboration _ _ _) = ''corroboration''"
| "extract_error_kind (Unmodelled _) = ''unmodelled''"

text \<open>The counters: a total, which wraps as \<open>fetch_add\<close> does, and a count per protocol and kind, which is
  a number here and 64 bits in the code.\<close>

record failures =
  fl_total :: u64
  fl_tally :: "string \<times> string \<Rightarrow> nat"

definition no_failures :: failures where
  "no_failures = \<lparr> fl_total = 0, fl_tally = (\<lambda>_. 0) \<rparr>"

definition report_failure :: "string \<Rightarrow> extract_error \<Rightarrow> failures \<Rightarrow> failures" where
  "report_failure protocol e F =
     (let k = (protocol, extract_error_kind e)
      in \<lparr> fl_total = fl_total F + 1, fl_tally = (fl_tally F)(k := fl_tally F k + 1) \<rparr>)"

section \<open>The event of an instruction\<close>

definition corroborate :: "(pubkey \<Rightarrow> string) \<Rightarrow> string \<Rightarrow> pubkey \<Rightarrow> pubkey \<Rightarrow> extract_error + unit" where
  "corroborate show_key field_name from_event from_accounts =
     (if from_event = from_accounts then Inr ()
      else Inl (Corroboration field_name (show_key from_event) (show_key from_accounts)))"

fun first_event :: "'e event_type \<Rightarrow> parsed_instruction list \<Rightarrow> (extract_error + 'e) option" where
  "first_event T [] = None"
| "first_event T (c # cs) =
     (case from_event_instruction T (pi_data c) of
        Inr (Some e) \<Rightarrow> Some (Inr e)
      | Inr None \<Rightarrow> first_event T cs
      | Inl source \<Rightarrow> Some (Inl (EventUndecodable (et_name T) (length (pi_data c)) source)))"

definition child_event ::
    "'e event_type \<Rightarrow> parsed_instruction \<Rightarrow> parsed_instruction list \<Rightarrow> pubkey \<Rightarrow> extract_error + 'e" where
  "child_event T ix all program =
     (case first_event T (children_of program ix all) of
        Some r \<Rightarrow> r
      | None \<Rightarrow>
          (case find_data_log_with_discriminator ix (et_discriminator T) of
             Some payload \<Rightarrow>
               map_sum (EventUndecodable (et_name T) (length payload)) id (from_event_body T payload)
           | None \<Rightarrow> Inl (EventMissing (et_name T))))"

definition optional_child_event ::
    "'e event_type \<Rightarrow> parsed_instruction \<Rightarrow> parsed_instruction list \<Rightarrow> pubkey \<Rightarrow> extract_error + 'e option" where
  "optional_child_event T ix all program =
     (case child_event T ix all program of
        Inr e \<Rightarrow> Inr (Some e)
      | Inl (EventMissing _) \<Rightarrow> Inr None
      | Inl e \<Rightarrow> Inl e)"

section \<open>The types of events\<close>

definition trade_event_type :: "borsh \<Rightarrow> (string \<Rightarrow> bytes) \<Rightarrow> trade_event event_type" where
  "trade_event_type B disc = event_type_of disc ''TradeEvent'' (read_trade_event B)"

definition create_event_type :: "borsh \<Rightarrow> (string \<Rightarrow> bytes) \<Rightarrow> create_event event_type" where
  "create_event_type B disc = event_type_of disc ''CreateEvent'' (read_create_event B)"

definition complete_event_type :: "borsh \<Rightarrow> (string \<Rightarrow> bytes) \<Rightarrow> complete_event event_type" where
  "complete_event_type B disc = event_type_of disc ''CompleteEvent'' (read_complete_event B)"

definition complete_migration_event_type :: "borsh \<Rightarrow> (string \<Rightarrow> bytes) \<Rightarrow> complete_migration_event event_type" where
  "complete_migration_event_type B disc = event_type_of disc ''CompletePumpAmmMigrationEvent'' (read_complete_migration_event B)"

definition collect_creator_fee_event_type :: "borsh \<Rightarrow> (string \<Rightarrow> bytes) \<Rightarrow> collect_creator_fee_event event_type" where
  "collect_creator_fee_event_type B disc = event_type_of disc ''CollectCreatorFeeEvent'' (read_collect_creator_fee_event B)"

definition distribute_creator_fees_event_type :: "borsh \<Rightarrow> (string \<Rightarrow> bytes) \<Rightarrow> distribute_creator_fees_event event_type" where
  "distribute_creator_fees_event_type B disc = event_type_of disc ''DistributeCreatorFeesEvent'' (read_distribute_creator_fees_event B)"

definition buy_event_type :: "borsh \<Rightarrow> (string \<Rightarrow> bytes) \<Rightarrow> buy_event event_type" where
  "buy_event_type B disc = event_type_of disc ''BuyEvent'' (read_buy_event B)"

definition sell_event_type :: "borsh \<Rightarrow> (string \<Rightarrow> bytes) \<Rightarrow> sell_event event_type" where
  "sell_event_type B disc = event_type_of disc ''SellEvent'' (read_sell_event B)"

definition create_pool_event_type :: "borsh \<Rightarrow> (string \<Rightarrow> bytes) \<Rightarrow> create_pool_event event_type" where
  "create_pool_event_type B disc = event_type_of disc ''CreatePoolEvent'' (read_create_pool_event B)"

definition deposit_event_type :: "borsh \<Rightarrow> (string \<Rightarrow> bytes) \<Rightarrow> deposit_event event_type" where
  "deposit_event_type B disc = event_type_of disc ''DepositEvent'' (read_deposit_event B)"

definition withdraw_event_type :: "borsh \<Rightarrow> (string \<Rightarrow> bytes) \<Rightarrow> withdraw_event event_type" where
  "withdraw_event_type B disc = event_type_of disc ''WithdrawEvent'' (read_withdraw_event B)"

definition collect_coin_creator_fee_event_type :: "borsh \<Rightarrow> (string \<Rightarrow> bytes) \<Rightarrow> collect_coin_creator_fee_event event_type" where
  "collect_coin_creator_fee_event_type B disc = event_type_of disc ''CollectCoinCreatorFeeEvent'' (read_collect_coin_creator_fee_event B)"

section \<open>Codecs\<close>

text \<open>What an event is read from: a self-call of the program right under the instruction, or a line of its
  own log.\<close>

definition attested ::
    "'e event_type \<Rightarrow> parsed_instruction \<Rightarrow> parsed_instruction list \<Rightarrow> pubkey \<Rightarrow> 'e \<Rightarrow> bool" where
  "attested T ix all program e \<longleftrightarrow>
     (\<exists>body. et_reader T body = Inr (e, []) \<and>
        ((\<exists>c \<in> set all. pi_parent_index c = Some (pi_instruction_index ix) \<and> pi_program_id c = program \<and>
            event_body (pi_data c) (et_discriminator T) = Some body) \<or>
         Data (et_discriminator T) body \<in> set (pi_logs ix)))"

lemma from_event_body_Inr: "from_event_body T body = Inr e \<longleftrightarrow> et_reader T body = Inr (e, [])"
  by (auto simp: from_event_body_def split: sum.splits list.splits)

lemma first_event_attested:
  "first_event T cs = Some (Inr e) \<Longrightarrow>
     \<exists>c \<in> set cs. \<exists>body. event_body (pi_data c) (et_discriminator T) = Some body \<and> et_reader T body = Inr (e, [])"
proof (induction cs)
  case (Cons c cs)
  show ?case
  proof (cases "from_event_instruction T (pi_data c)")
    case (Inr r)
    show ?thesis
    proof (cases r)
      case None
      then show ?thesis
        using Cons Inr by auto
    next
      case (Some e')
      then have "e' = e"
        using Cons.prems Inr by simp
      then obtain body where "event_body (pi_data c) (et_discriminator T) = Some body" "from_event_body T body = Inr e"
        using Inr Some by (auto simp: from_event_instruction_def map_sum_def split: option.splits sum.splits)
      then show ?thesis
        by (auto simp: from_event_body_Inr)
    qed
  qed (use Cons in simp)
qed simp

lemma find_map_Some: "find_map f xs = Some y \<Longrightarrow> \<exists>x \<in> set xs. f x = Some y"
  by (induction xs) (auto split: option.splits)

lemma child_event_attested:
  assumes "child_event T ix all program = Inr e"
  shows "attested T ix all program e"
proof (cases "first_event T (children_of program ix all)")
  case (Some r)
  then have "first_event T (children_of program ix all) = Some (Inr e)"
    using assms by (simp add: child_event_def)
  from first_event_attested [OF this] show ?thesis
    by (auto simp: attested_def children_of_def)
next
  case None
  then obtain payload where "find_data_log_with_discriminator ix (et_discriminator T) = Some payload"
      "from_event_body T payload = Inr e"
    using assms by (auto simp: child_event_def map_sum_def split: option.splits sum.splits)
  then show ?thesis
    using find_map_Some [of _ "pi_logs ix" payload]
    by (fastforce simp: attested_def find_data_log_with_discriminator_def from_event_body_Inr
        split: log_entry.splits if_splits)
qed

lemma optional_child_event_attested:
  "optional_child_event T ix all program = Inr (Some e) \<Longrightarrow> attested T ix all program e"
  using child_event_attested by (auto simp: optional_child_event_def split: sum.splits extract_error.splits)

text \<open>An event that the program wrote: its discriminator and its body under the envelope.\<close>

definition emitted :: "'e event_type \<Rightarrow> ('e \<Rightarrow> bytes) \<Rightarrow> 'e \<Rightarrow> bytes" where
  "emitted T enc e = anchor_event_tag @ et_discriminator T @ enc e"

text \<open>The contract of an event type: its writer and its reader are inverse on the events that fit.\<close>

locale event_codec =
  fixes type_of :: "borsh \<Rightarrow> (string \<Rightarrow> bytes) \<Rightarrow> 'e event_type"
    and enc :: "'e \<Rightarrow> bytes"
    and fits_wire :: "'e \<Rightarrow> bool"
  assumes read_back: "borsh_ok B \<Longrightarrow> fits_wire e \<Longrightarrow> et_reader (type_of B disc) (enc e) = Inr (e, [])"
begin

lemma body_read: "borsh_ok B \<Longrightarrow> fits_wire e \<Longrightarrow> from_event_body (type_of B disc) (enc e) = Inr e"
  by (simp add: from_event_body_Inr read_back)

lemma emitted_read:
  assumes "borsh_ok B" "fits_wire e" "length (et_discriminator (type_of B disc)) = 8"
  shows "from_event_instruction (type_of B disc) (emitted (type_of B disc) enc e) = Inr (Some e)"
  using assms by (simp add: from_event_instruction_def emitted_def event_body_framed body_read)

text \<open>The first child that carries the event decides, whatever other events precede it.\<close>

lemma child_found:
  assumes "borsh_ok B" "fits_wire e" "length (et_discriminator (type_of B disc)) = 8"
    and "children_of program ix all = before @ c # after" "pi_data c = emitted (type_of B disc) enc e"
    and "\<forall>d \<in> set before. event_body (pi_data d) (et_discriminator (type_of B disc)) = None"
  shows "child_event (type_of B disc) ix all program = Inr e"
proof -
  have "first_event (type_of B disc) (before @ c # after) = Some (Inr e)"
    using assms(6) emitted_read [OF assms(1-3)] assms(5)
    by (induction before) (simp_all add: from_event_instruction_def)
  then show ?thesis
    using assms(4) by (simp add: child_event_def)
qed

text \<open>Without a child that carries it, the line of the old form decides.\<close>

lemma logged_found:
  assumes "borsh_ok B" "fits_wire e"
    and "\<forall>c \<in> set (children_of program ix all). event_body (pi_data c) (et_discriminator (type_of B disc)) = None"
    and "find_data_log_with_discriminator ix (et_discriminator (type_of B disc)) = Some (enc e)"
  shows "child_event (type_of B disc) ix all program = Inr e"
proof -
  have "first_event (type_of B disc) cs = None"
    if "\<forall>c \<in> set cs. event_body (pi_data c) (et_discriminator (type_of B disc)) = None" for cs
    using that by (induction cs) (simp_all add: from_event_instruction_def)
  then show ?thesis
    using assms by (simp add: child_event_def body_read)
qed

end

lemma trade_event_read_back: "borsh_ok B \<Longrightarrow> trade_event_ok e \<Longrightarrow> read_trade_event B (write_trade_event e) = Inr (e, [])"
  by (simp add: read_trade_event_def write_trade_event_def trade_event_ok_def)

interpretation ve_tr: event_codec trade_event_type write_trade_event trade_event_ok
  by unfold_locales (auto simp: trade_event_type_def event_type_of_def trade_event_read_back)

lemma create_event_read_back: "borsh_ok B \<Longrightarrow> create_event_ok e \<Longrightarrow> read_create_event B (write_create_event e) = Inr (e, [])"
  by (simp add: read_create_event_def write_create_event_def create_event_ok_def)

interpretation ve_cr: event_codec create_event_type write_create_event create_event_ok
  by unfold_locales (auto simp: create_event_type_def event_type_of_def create_event_read_back)

lemma complete_event_read_back: "borsh_ok B \<Longrightarrow> complete_event_ok e \<Longrightarrow> read_complete_event B (write_complete_event e) = Inr (e, [])"
  by (simp add: read_complete_event_def write_complete_event_def complete_event_ok_def)

interpretation ve_co: event_codec complete_event_type write_complete_event complete_event_ok
  by unfold_locales (auto simp: complete_event_type_def event_type_of_def complete_event_read_back)

lemma complete_migration_event_read_back: "borsh_ok B \<Longrightarrow> complete_migration_event_ok e \<Longrightarrow> read_complete_migration_event B (write_complete_migration_event e) = Inr (e, [])"
  by (simp add: read_complete_migration_event_def write_complete_migration_event_def complete_migration_event_ok_def)

interpretation ve_cm: event_codec complete_migration_event_type write_complete_migration_event complete_migration_event_ok
  by unfold_locales (auto simp: complete_migration_event_type_def event_type_of_def complete_migration_event_read_back)

lemma collect_creator_fee_event_read_back: "borsh_ok B \<Longrightarrow> collect_creator_fee_event_ok e \<Longrightarrow> read_collect_creator_fee_event B (write_collect_creator_fee_event e) = Inr (e, [])"
  by (simp add: read_collect_creator_fee_event_def write_collect_creator_fee_event_def collect_creator_fee_event_ok_def)

interpretation ve_cf: event_codec collect_creator_fee_event_type write_collect_creator_fee_event collect_creator_fee_event_ok
  by unfold_locales (auto simp: collect_creator_fee_event_type_def event_type_of_def collect_creator_fee_event_read_back)

lemma distribute_creator_fees_event_read_back: "borsh_ok B \<Longrightarrow> distribute_creator_fees_event_ok e \<Longrightarrow> read_distribute_creator_fees_event B (write_distribute_creator_fees_event e) = Inr (e, [])"
  by (simp add: read_distribute_creator_fees_event_def write_distribute_creator_fees_event_def distribute_creator_fees_event_ok_def)

interpretation ve_df: event_codec distribute_creator_fees_event_type write_distribute_creator_fees_event distribute_creator_fees_event_ok
  by unfold_locales (auto simp: distribute_creator_fees_event_type_def event_type_of_def distribute_creator_fees_event_read_back)

lemma buy_event_read_back: "borsh_ok B \<Longrightarrow> buy_event_ok e \<Longrightarrow> read_buy_event B (write_buy_event e) = Inr (e, [])"
  by (simp add: read_buy_event_def write_buy_event_def buy_event_ok_def)

interpretation ve_bu: event_codec buy_event_type write_buy_event buy_event_ok
  by unfold_locales (auto simp: buy_event_type_def event_type_of_def buy_event_read_back)

lemma sell_event_read_back: "borsh_ok B \<Longrightarrow> sell_event_ok e \<Longrightarrow> read_sell_event B (write_sell_event e) = Inr (e, [])"
  by (simp add: read_sell_event_def write_sell_event_def sell_event_ok_def)

interpretation ve_se: event_codec sell_event_type write_sell_event sell_event_ok
  by unfold_locales (auto simp: sell_event_type_def event_type_of_def sell_event_read_back)

lemma create_pool_event_read_back: "borsh_ok B \<Longrightarrow> create_pool_event_ok e \<Longrightarrow> read_create_pool_event B (write_create_pool_event e) = Inr (e, [])"
  by (simp add: read_create_pool_event_def write_create_pool_event_def create_pool_event_ok_def)

interpretation ve_cp: event_codec create_pool_event_type write_create_pool_event create_pool_event_ok
  by unfold_locales (auto simp: create_pool_event_type_def event_type_of_def create_pool_event_read_back)

lemma deposit_event_read_back: "borsh_ok B \<Longrightarrow> deposit_event_ok e \<Longrightarrow> read_deposit_event B (write_deposit_event e) = Inr (e, [])"
  by (simp add: read_deposit_event_def write_deposit_event_def deposit_event_ok_def)

interpretation ve_de: event_codec deposit_event_type write_deposit_event deposit_event_ok
  by unfold_locales (auto simp: deposit_event_type_def event_type_of_def deposit_event_read_back)

lemma withdraw_event_read_back: "borsh_ok B \<Longrightarrow> withdraw_event_ok e \<Longrightarrow> read_withdraw_event B (write_withdraw_event e) = Inr (e, [])"
  by (simp add: read_withdraw_event_def write_withdraw_event_def withdraw_event_ok_def)

interpretation ve_wi: event_codec withdraw_event_type write_withdraw_event withdraw_event_ok
  by unfold_locales (auto simp: withdraw_event_type_def event_type_of_def withdraw_event_read_back)

lemma collect_coin_creator_fee_event_read_back: "borsh_ok B \<Longrightarrow> collect_coin_creator_fee_event_ok e \<Longrightarrow> read_collect_coin_creator_fee_event B (write_collect_coin_creator_fee_event e) = Inr (e, [])"
  by (simp add: read_collect_coin_creator_fee_event_def write_collect_coin_creator_fee_event_def collect_coin_creator_fee_event_ok_def)

interpretation ve_cc: event_codec collect_coin_creator_fee_event_type write_collect_coin_creator_fee_event collect_coin_creator_fee_event_ok
  by unfold_locales (auto simp: collect_coin_creator_fee_event_type_def event_type_of_def collect_coin_creator_fee_event_read_back)

end
