(* ===== verification/PoolStates.thy ===== *)
theory PoolStates
  imports PoolBuild DlmmPositions
begin

text \<open>
  The unified pool state and the unified pool keys (protocols/mod.rs): one type over the pool accounts
  of eight protocols, its decoders, the detection of a protocol from the bytes, the \<open>SwapMath\<close> that it
  dispatches, and the names of the protocols. DAMM v2 has no pool state.
\<close>

section \<open>Protocols\<close>

fun protocol_name :: "protocol \<Rightarrow> string" where
  "protocol_name Pumpfun = ''Pump.fun''"
| "protocol_name PumpSwap = ''PumpSwap''"
| "protocol_name RaydiumV4 = ''Raydium V4''"
| "protocol_name RaydiumClmm = ''Raydium CLMM''"
| "protocol_name RaydiumCpmm = ''Raydium CPMM''"
| "protocol_name RaydiumLaunchpad = ''Raydium Launchpad''"
| "protocol_name MeteoraDlmm = ''Meteora DLMM''"
| "protocol_name MeteoraDbC = ''Meteora DBC''"
| "protocol_name MeteoraDammV2 = ''Meteora DAMM v2''"

fun protocol_short_name :: "protocol \<Rightarrow> string" where
  "protocol_short_name Pumpfun = ''pumpfun''"
| "protocol_short_name PumpSwap = ''pumpswap''"
| "protocol_short_name RaydiumV4 = ''raydium_v4''"
| "protocol_short_name RaydiumClmm = ''raydium_clmm''"
| "protocol_short_name RaydiumCpmm = ''raydium_cpmm''"
| "protocol_short_name RaydiumLaunchpad = ''raydium_launchpad''"
| "protocol_short_name MeteoraDlmm = ''meteora_dlmm''"
| "protocol_short_name MeteoraDbC = ''meteora_dbc''"
| "protocol_short_name MeteoraDammV2 = ''meteora_damm_v2''"

fun is_bonding_curve :: "protocol \<Rightarrow> bool" where
  "is_bonding_curve Pumpfun = True"
| "is_bonding_curve PumpSwap = False"
| "is_bonding_curve RaydiumV4 = False"
| "is_bonding_curve RaydiumClmm = False"
| "is_bonding_curve RaydiumCpmm = False"
| "is_bonding_curve RaydiumLaunchpad = True"
| "is_bonding_curve MeteoraDlmm = False"
| "is_bonding_curve MeteoraDbC = True"
| "is_bonding_curve MeteoraDammV2 = False"

fun is_concentrated_liquidity :: "protocol \<Rightarrow> bool" where
  "is_concentrated_liquidity Pumpfun = False"
| "is_concentrated_liquidity PumpSwap = False"
| "is_concentrated_liquidity RaydiumV4 = False"
| "is_concentrated_liquidity RaydiumClmm = True"
| "is_concentrated_liquidity RaydiumCpmm = False"
| "is_concentrated_liquidity RaydiumLaunchpad = False"
| "is_concentrated_liquidity MeteoraDlmm = True"
| "is_concentrated_liquidity MeteoraDbC = False"
| "is_concentrated_liquidity MeteoraDammV2 = True"

definition protocol_base_token :: "protocol \<Rightarrow> base_token" where
  "protocol_base_token p = Sol"

text \<open>\<open>Protocol::all\<close> is older than the constant \<open>Protocol::ALL\<close> and lists one protocol less.\<close>

definition protocol_all :: "protocol list" where
  "protocol_all =
     [Pumpfun, PumpSwap, RaydiumV4, RaydiumClmm, RaydiumCpmm, RaydiumLaunchpad, MeteoraDlmm, MeteoraDbC]"

section \<open>Pool states\<close>

text \<open>The discriminators of the account types, which macros compute, and the decoder of DLMM pairs, which is
  that of the vendored SDK.\<close>

record pool_decoders =
  pd_borsh :: borsh
  pd_bonding_curve :: bytes
  pd_pumpswap_pool :: bytes
  pd_clmm_pool :: bytes
  pd_cpmm_pool :: bytes
  pd_launchpad_pool :: bytes
  pd_lb_pair :: bytes
  pd_virtual_pool :: bytes
  pd_sdk_lb_pair :: "bytes \<Rightarrow> string + lb_pair"

datatype pool_state =
    PsPumpfun bonding_curve
  | PsPumpSwap pool_with_reserves
  | PsRaydiumV4 v4_pool_with_reserves
  | PsRaydiumClmm clmm_pool_state
  | PsRaydiumCpmm cpmm_pool_state
  | PsRaydiumLaunchpad launchpad_pool_state
  | PsMeteoraDlmm lb_pair
  | PsMeteoraDbC virtual_pool

text \<open>The accounts of PumpSwap and Raydium V4 have no reserves; they are decoded with zeros.\<close>

fun pool_from_account_data :: "pool_decoders \<Rightarrow> protocol \<Rightarrow> bytes \<Rightarrow> error + pool_state" where
  "pool_from_account_data D Pumpfun d =
     map_sum id PsPumpfun (bonding_curve_from_account_data (pd_borsh D) (pd_bonding_curve D) d)"
| "pool_from_account_data D PumpSwap d =
     map_sum id (\<lambda>pool. PsPumpSwap (pool_with_reserves_new pool 0 0))
       (pumpswap_pool_from_account_data (pd_borsh D) (pd_pumpswap_pool D) d)"
| "pool_from_account_data D RaydiumV4 d =
     map_sum id (\<lambda>pool. PsRaydiumV4 (v4_pool_with_reserves_new pool 0 0)) (v4_from_account_data d)"
| "pool_from_account_data D RaydiumClmm d =
     map_sum parse_error PsRaydiumClmm (clmm_from_account_data (pd_borsh D) (pd_clmm_pool D) d)"
| "pool_from_account_data D RaydiumCpmm d =
     map_sum id PsRaydiumCpmm (cpmm_from_account_data (pd_borsh D) (pd_cpmm_pool D) d)"
| "pool_from_account_data D RaydiumLaunchpad d =
     map_sum id PsRaydiumLaunchpad (launchpad_from_account_data (pd_borsh D) (pd_launchpad_pool D) d)"
| "pool_from_account_data D MeteoraDlmm d =
     map_sum id PsMeteoraDlmm (decode_lb_pair (pd_sdk_lb_pair D) (pd_lb_pair D) d)"
| "pool_from_account_data D MeteoraDbC d =
     map_sum id PsMeteoraDbC (dbc_from_account_data (pd_borsh D) (pd_virtual_pool D) d)"
| "pool_from_account_data D MeteoraDammV2 d =
     Inl (parse_error ''MeteoraDammV2 pool state parsing not implemented'')"

definition from_raydium_v4_with_reserves :: "bytes \<Rightarrow> u64 \<Rightarrow> u64 \<Rightarrow> error + pool_state" where
  "from_raydium_v4_with_reserves d base_reserve quote_reserve =
     map_sum id (\<lambda>pool. PsRaydiumV4 (v4_pool_with_reserves_new pool base_reserve quote_reserve)) (v4_from_account_data d)"

definition ok :: "'e + 'a \<Rightarrow> 'a option" where
  "ok x = (case x of Inl _ \<Rightarrow> None | Inr a \<Rightarrow> Some a)"

definition detect_and_parse :: "pool_decoders \<Rightarrow> bytes \<Rightarrow> (protocol \<times> pool_state) option" where
  "detect_and_parse D d =
     (if length d < 8 then None
      else
        case (if take 8 d = pd_bonding_curve D
              then ok (bonding_curve_from_account_data (pd_borsh D) (pd_bonding_curve D) d) else None) of
          Some curve \<Rightarrow> Some (Pumpfun, PsPumpfun curve)
        | None \<Rightarrow>
            if pool_account_size \<le> length d
            then map_option (\<lambda>pool. (PumpSwap, PsPumpSwap (pool_with_reserves_new pool 0 0)))
                   (ok (pumpswap_pool_from_account_data (pd_borsh D) (pd_pumpswap_pool D) d))
            else None)"

fun pool_protocol :: "pool_state \<Rightarrow> protocol" where
  "pool_protocol (PsPumpfun pool) = Pumpfun"
| "pool_protocol (PsPumpSwap pool) = PumpSwap"
| "pool_protocol (PsRaydiumV4 pool) = RaydiumV4"
| "pool_protocol (PsRaydiumClmm pool) = RaydiumClmm"
| "pool_protocol (PsRaydiumCpmm pool) = RaydiumCpmm"
| "pool_protocol (PsRaydiumLaunchpad pool) = RaydiumLaunchpad"
| "pool_protocol (PsMeteoraDlmm pool) = MeteoraDlmm"
| "pool_protocol (PsMeteoraDbC pool) = MeteoraDbC"

fun pool_state_is_active :: "pool_state \<Rightarrow> bool" where
  "pool_state_is_active (PsPumpfun pool) = curve_is_active pool"
| "pool_state_is_active (PsPumpSwap pool) = pool_is_active pool"
| "pool_state_is_active (PsRaydiumV4 pool) = v4_pool_is_active pool"
| "pool_state_is_active (PsRaydiumClmm pool) = clmm_is_active pool"
| "pool_state_is_active (PsRaydiumCpmm pool) = cpmm_is_active pool"
| "pool_state_is_active (PsRaydiumLaunchpad pool) = launchpad_is_active pool"
| "pool_state_is_active (PsMeteoraDlmm pool) = lb_pair_is_active pool"
| "pool_state_is_active (PsMeteoraDbC pool) = dbc_is_active pool"

fun pool_state_spot_price :: "pool_state \<Rightarrow> f64" where
  "pool_state_spot_price (PsPumpfun pool) = curve_spot_price pool"
| "pool_state_spot_price (PsPumpSwap pool) = pool_spot_price pool"
| "pool_state_spot_price (PsRaydiumV4 pool) = v4_pool_spot_price pool"
| "pool_state_spot_price (PsRaydiumClmm pool) = clmm_current_price pool"
| "pool_state_spot_price (PsRaydiumCpmm pool) = cpmm_state_spot_price pool"
| "pool_state_spot_price (PsRaydiumLaunchpad pool) = launchpad_spot_price pool"
| "pool_state_spot_price (PsMeteoraDlmm pool) = lb_pair_spot_price pool"
| "pool_state_spot_price (PsMeteoraDbC pool) = dbc_spot_price pool"

text \<open>The unwrapping: \<open>try_as\<close> answers \<open>None\<close> on another protocol, \<open>as\<close> panics, which is \<open>None\<close> as well. Three
  protocols have both forms, the others only the first.\<close>

fun pool_try_as_pumpfun :: "pool_state \<Rightarrow> bonding_curve option" where
  "pool_try_as_pumpfun (PsPumpfun pool) = Some pool"
| "pool_try_as_pumpfun _ = None"

fun pool_try_as_pumpswap :: "pool_state \<Rightarrow> pool_with_reserves option" where
  "pool_try_as_pumpswap (PsPumpSwap pool) = Some pool"
| "pool_try_as_pumpswap _ = None"

fun pool_try_as_raydium_v4 :: "pool_state \<Rightarrow> v4_pool_with_reserves option" where
  "pool_try_as_raydium_v4 (PsRaydiumV4 pool) = Some pool"
| "pool_try_as_raydium_v4 _ = None"

fun pool_try_as_raydium_clmm :: "pool_state \<Rightarrow> clmm_pool_state option" where
  "pool_try_as_raydium_clmm (PsRaydiumClmm pool) = Some pool"
| "pool_try_as_raydium_clmm _ = None"

fun pool_try_as_raydium_cpmm :: "pool_state \<Rightarrow> cpmm_pool_state option" where
  "pool_try_as_raydium_cpmm (PsRaydiumCpmm pool) = Some pool"
| "pool_try_as_raydium_cpmm _ = None"

fun pool_try_as_raydium_launchpad :: "pool_state \<Rightarrow> launchpad_pool_state option" where
  "pool_try_as_raydium_launchpad (PsRaydiumLaunchpad pool) = Some pool"
| "pool_try_as_raydium_launchpad _ = None"

fun pool_try_as_meteora_dlmm :: "pool_state \<Rightarrow> lb_pair option" where
  "pool_try_as_meteora_dlmm (PsMeteoraDlmm pool) = Some pool"
| "pool_try_as_meteora_dlmm _ = None"

fun pool_try_as_meteora_dbc :: "pool_state \<Rightarrow> virtual_pool option" where
  "pool_try_as_meteora_dbc (PsMeteoraDbC pool) = Some pool"
| "pool_try_as_meteora_dbc _ = None"

fun pool_as_pumpfun :: "pool_state \<Rightarrow> bonding_curve option" where
  "pool_as_pumpfun (PsPumpfun pool) = Some pool"
| "pool_as_pumpfun _ = None"

fun pool_as_pumpswap :: "pool_state \<Rightarrow> pool_with_reserves option" where
  "pool_as_pumpswap (PsPumpSwap pool) = Some pool"
| "pool_as_pumpswap _ = None"

fun pool_as_raydium_v4 :: "pool_state \<Rightarrow> v4_pool_with_reserves option" where
  "pool_as_raydium_v4 (PsRaydiumV4 pool) = Some pool"
| "pool_as_raydium_v4 _ = None"

text \<open>The dash of the two refusals is three bytes.\<close>

definition needs_vaults :: "string \<Rightarrow> string \<Rightarrow> error" where
  "needs_vaults name instead =
     protocol_error name (''calculate_swap requires vault reserves '' @ [CHR 0xE2, CHR 0x80, CHR 0x94] @
       '' use '' @ instead @ '' instead'')"

definition clmm_pool_swap :: "bool \<Rightarrow> clmm_pool_state \<Rightarrow> swap_params \<Rightarrow> (error, swap_output) outcome" where
  "clmm_pool_swap oc pool p = do {
     let amount_in = amount (swap_params.sp_amount p);
     (amount_out, fee) \<leftarrow> clmm_estimate_output oc (cl_sqrt_price_x64 pool) (cl_liquidity pool) amount_in
       (sp_direction p = Sell) 2500;
     Some (Inr
       \<lparr> so_amount_in = amount_in, so_amount_out = amount_out, so_fee = fee, so_protocol_fee = 0, so_lp_fee = fee,
         so_price_impact_bps = 0,
         so_effective_price =
           (if amount_in > 0 then f_div (f_of_nat (unat amount_out)) (f_of_nat (unat amount_in)) else f_0),
         so_post_swap_price = clmm_current_price pool, so_accounts_used = [] \<rparr>)
   }"

fun pool_state_calculate_swap :: "bool \<Rightarrow> pool_state \<Rightarrow> swap_params \<Rightarrow> (error, swap_output) outcome" where
  "pool_state_calculate_swap oc (PsPumpfun pool) p = curve_calculate_swap oc pool p"
| "pool_state_calculate_swap oc (PsPumpSwap pool) p = pool_calculate_swap oc pool p"
| "pool_state_calculate_swap oc (PsRaydiumV4 pool) p = v4_calculate_swap oc pool p"
| "pool_state_calculate_swap oc (PsRaydiumClmm pool) p = clmm_pool_swap oc pool p"
| "pool_state_calculate_swap oc (PsRaydiumCpmm pool) p = Some (Inl (needs_vaults ''RaydiumCpmm'' ''CpmmPoolWithReserves''))"
| "pool_state_calculate_swap oc (PsRaydiumLaunchpad pool) p = calculate_launchpad_swap oc pool 10000 p"
| "pool_state_calculate_swap oc (PsMeteoraDlmm pool) p = Some (Inl (needs_vaults ''MeteoraDlmm'' ''DlmmSwapPool''))"
| "pool_state_calculate_swap oc (PsMeteoraDbC pool) p = Some (calculate_dbc_swap pool dbc_default_fee_rate p)"

section \<open>Pool keys\<close>

datatype pool_keys =
    PkPumpfun pumpfun_keys
  | PkPumpSwap pumpswap_keys
  | PkRaydiumV4 raydium_v4_keys
  | PkRaydiumClmm raydium_clmm_keys
  | PkRaydiumCpmm raydium_cpmm_keys
  | PkRaydiumLaunchpad launchpad_keys
  | PkMeteoraDlmm dlmm_keys
  | PkMeteoraDbC dbc_keys

fun keys_protocol :: "pool_keys \<Rightarrow> protocol" where
  "keys_protocol (PkPumpfun keys) = Pumpfun"
| "keys_protocol (PkPumpSwap keys) = PumpSwap"
| "keys_protocol (PkRaydiumV4 keys) = RaydiumV4"
| "keys_protocol (PkRaydiumClmm keys) = RaydiumClmm"
| "keys_protocol (PkRaydiumCpmm keys) = RaydiumCpmm"
| "keys_protocol (PkRaydiumLaunchpad keys) = RaydiumLaunchpad"
| "keys_protocol (PkMeteoraDlmm keys) = MeteoraDlmm"
| "keys_protocol (PkMeteoraDbC keys) = MeteoraDbC"

fun keys_mint :: "pool_keys \<Rightarrow> pubkey" where
  "keys_mint (PkPumpfun keys) = fk_mint keys"
| "keys_mint (PkPumpSwap keys) = sk_base_mint keys"
| "keys_mint (PkRaydiumV4 keys) = rk_base_mint keys"
| "keys_mint (PkRaydiumClmm keys) = ck_token_mint_0 keys"
| "keys_mint (PkRaydiumCpmm keys) = pk_token_0_mint keys"
| "keys_mint (PkRaydiumLaunchpad keys) = lk_base_mint keys"
| "keys_mint (PkMeteoraDlmm keys) = dk_token_x_mint keys"
| "keys_mint (PkMeteoraDbC keys) = dk_base_mint keys"

fun keys_pool_address :: "pool_keys \<Rightarrow> pubkey" where
  "keys_pool_address (PkPumpfun keys) = fk_bonding_curve keys"
| "keys_pool_address (PkPumpSwap keys) = sk_pool keys"
| "keys_pool_address (PkRaydiumV4 keys) = rk_amm_id keys"
| "keys_pool_address (PkRaydiumClmm keys) = ck_pool_id keys"
| "keys_pool_address (PkRaydiumCpmm keys) = pk_pool_id keys"
| "keys_pool_address (PkRaydiumLaunchpad keys) = lk_pool_id keys"
| "keys_pool_address (PkMeteoraDlmm keys) = dk_lb_pair keys"
| "keys_pool_address (PkMeteoraDbC keys) = dk_pool keys"

fun keys_as_pumpfun :: "pool_keys \<Rightarrow> pumpfun_keys option" where
  "keys_as_pumpfun (PkPumpfun keys) = Some keys"
| "keys_as_pumpfun _ = None"

fun keys_as_pumpswap :: "pool_keys \<Rightarrow> pumpswap_keys option" where
  "keys_as_pumpswap (PkPumpSwap keys) = Some keys"
| "keys_as_pumpswap _ = None"

fun keys_as_raydium_v4 :: "pool_keys \<Rightarrow> raydium_v4_keys option" where
  "keys_as_raydium_v4 (PkRaydiumV4 keys) = Some keys"
| "keys_as_raydium_v4 _ = None"

fun keys_as_raydium_clmm :: "pool_keys \<Rightarrow> raydium_clmm_keys option" where
  "keys_as_raydium_clmm (PkRaydiumClmm keys) = Some keys"
| "keys_as_raydium_clmm _ = None"

fun keys_as_raydium_cpmm :: "pool_keys \<Rightarrow> raydium_cpmm_keys option" where
  "keys_as_raydium_cpmm (PkRaydiumCpmm keys) = Some keys"
| "keys_as_raydium_cpmm _ = None"

fun keys_as_raydium_launchpad :: "pool_keys \<Rightarrow> launchpad_keys option" where
  "keys_as_raydium_launchpad (PkRaydiumLaunchpad keys) = Some keys"
| "keys_as_raydium_launchpad _ = None"

fun keys_as_meteora_dlmm :: "pool_keys \<Rightarrow> dlmm_keys option" where
  "keys_as_meteora_dlmm (PkMeteoraDlmm keys) = Some keys"
| "keys_as_meteora_dlmm _ = None"

fun keys_as_meteora_dbc :: "pool_keys \<Rightarrow> dbc_keys option" where
  "keys_as_meteora_dbc (PkMeteoraDbC keys) = Some keys"
| "keys_as_meteora_dbc _ = None"

fun keys_try_as_pumpfun :: "pool_keys \<Rightarrow> pumpfun_keys option" where
  "keys_try_as_pumpfun (PkPumpfun keys) = Some keys"
| "keys_try_as_pumpfun _ = None"

fun keys_try_as_pumpswap :: "pool_keys \<Rightarrow> pumpswap_keys option" where
  "keys_try_as_pumpswap (PkPumpSwap keys) = Some keys"
| "keys_try_as_pumpswap _ = None"

fun keys_try_as_raydium_v4 :: "pool_keys \<Rightarrow> raydium_v4_keys option" where
  "keys_try_as_raydium_v4 (PkRaydiumV4 keys) = Some keys"
| "keys_try_as_raydium_v4 _ = None"

fun keys_try_as_raydium_clmm :: "pool_keys \<Rightarrow> raydium_clmm_keys option" where
  "keys_try_as_raydium_clmm (PkRaydiumClmm keys) = Some keys"
| "keys_try_as_raydium_clmm _ = None"

fun keys_try_as_raydium_cpmm :: "pool_keys \<Rightarrow> raydium_cpmm_keys option" where
  "keys_try_as_raydium_cpmm (PkRaydiumCpmm keys) = Some keys"
| "keys_try_as_raydium_cpmm _ = None"

fun keys_try_as_raydium_launchpad :: "pool_keys \<Rightarrow> launchpad_keys option" where
  "keys_try_as_raydium_launchpad (PkRaydiumLaunchpad keys) = Some keys"
| "keys_try_as_raydium_launchpad _ = None"

fun keys_try_as_meteora_dlmm :: "pool_keys \<Rightarrow> dlmm_keys option" where
  "keys_try_as_meteora_dlmm (PkMeteoraDlmm keys) = Some keys"
| "keys_try_as_meteora_dlmm _ = None"

fun keys_try_as_meteora_dbc :: "pool_keys \<Rightarrow> dbc_keys option" where
  "keys_try_as_meteora_dbc (PkMeteoraDbC keys) = Some keys"
| "keys_try_as_meteora_dbc _ = None"

section \<open>Detection and quotes of decoded pools\<close>

lemma protocol_lists: "set protocol_all = set all_protocols - {MeteoraDammV2}"
  by (auto simp: protocol_all_def all_protocols_def)

lemma protocol_names_distinct: "inj protocol_name" "inj protocol_short_name"
proof -
  have "protocol_name p = protocol_name q \<longrightarrow> p = q" "protocol_short_name p = protocol_short_name q \<longrightarrow> p = q" for p q
    by (cases p; cases q; simp)+
  then show "inj protocol_name" "inj protocol_short_name"
    by (auto intro: injI)
qed

lemma map_sum_Inr: "map_sum f g x = Inr y \<longleftrightarrow> (\<exists>a. x = Inr a \<and> y = g a)"
  by (cases x) auto

lemma ok_is_Some: "ok x = Some a \<longleftrightarrow> x = Inr a"
  by (simp add: ok_def split: sum.splits)

lemma decoded_protocol: "pool_from_account_data D p d = Inr s \<Longrightarrow> pool_protocol s = p"
  by (cases p) (auto simp: map_sum_Inr)

text \<open>A detected pool is the one that the explicit decoder of the same protocol gives.\<close>

lemma detected_pool_decodes:
  "detect_and_parse D d = Some (p, s) \<Longrightarrow>
     p \<in> {Pumpfun, PumpSwap} \<and> pool_from_account_data D p d = Inr s"
  by (auto simp: detect_and_parse_def ok_is_Some map_sum_Inr split: if_splits option.splits)

text \<open>Four protocols price the amount of a request as an input, whichever side it pins.\<close>

definition takes_amount_as_input :: "protocol \<Rightarrow> bool" where
  "takes_amount_as_input p \<longleftrightarrow> p \<in> {RaydiumV4, RaydiumClmm, RaydiumLaunchpad, MeteoraDbC}"

lemma amount_as_input:
  assumes "takes_amount_as_input (pool_protocol s)"
  shows "pool_state_calculate_swap oc s (p \<lparr> swap_params.sp_amount := swap_amount.ExactOut a \<rparr>) =
    pool_state_calculate_swap oc s (p \<lparr> swap_params.sp_amount := swap_amount.ExactIn a \<rparr>)"
  using assms
  by (cases s) (simp_all add: takes_amount_as_input_def v4_calculate_swap_def calculate_swap_output_def
      clmm_pool_swap_def calculate_launchpad_swap_def calculate_dbc_swap_def cong: if_cong)

lemma decoded_pool_quotes:
  assumes "pool_from_account_data D p d = Inr s"
  shows "pool_protocol s = p"
    and "pool_state_calculate_swap oc s q = Some (Inr out) \<Longrightarrow> p \<in> {Pumpfun, RaydiumClmm, RaydiumLaunchpad, MeteoraDbC}"
    and "p = PumpSwap \<Longrightarrow> \<not> pool_state_is_active s \<and>
      pool_state_calculate_swap oc s q = Some (Inl (swap_error ''PumpSwap pool has no reserves''))"
  using assms decoded_protocol [OF assms]
  by (cases p; auto simp: map_sum_Inr v4_from_account_data_def pool_calculate_swap_def pool_is_active_def
      pool_with_reserves_new_def)+


end
