(* ===== verification/Extract.thy ===== *)
theory Extract
  imports Events PoolStates Registry DlmmInstructions
begin

text \<open>
  From instructions to the events of a transaction (chain/extract/, pumpfun/extract.rs,
  pumpswap/extract.rs, meteora_damm_v2/extract.rs, meteora_dlmm/extract.rs): one extractor per program,
  their registry, and the assembly of the transaction. The theorems say that what is put on record was
  emitted by the program, that nothing recognised vanishes, and that a trade which is built and
  executed is put on record with the amounts that were executed.
\<close>

section \<open>The environment\<close>

text \<open>The DLMM SDK's event, with the fields that are read.\<close>

record dlmm_swap_event =
  de_lb_pair :: pubkey
  de_start_bin_id :: i32
  de_end_bin_id :: i32
  de_amount_in :: u64
  de_amount_out :: u64
  de_swap_for_y :: bool
  de_fee :: u64

text \<open>Parameters: programs, keys and discriminators, the borsh decoders, the base58 text of a key, and the
  instructions and the event of the DLMM SDK.\<close>

record 'a extract_env =
  xe_pools :: pool_env
  xe_borsh :: borsh
  xe_event_disc :: "string \<Rightarrow> bytes"
  xe_show_key :: "pubkey \<Rightarrow> string"
  xe_dlmm :: "'a dlmm_sdk"
  xe_dlmm_swap :: "dlmm_swap_event reader"

abbreviation xe_keys :: "'a extract_env \<Rightarrow> key_env" where
  "xe_keys X \<equiv> po_keys (xe_pools X)"

abbreviation xe_program :: "'a extract_env \<Rightarrow> protocol \<Rightarrow> pubkey" where
  "xe_program X \<equiv> po_program (xe_pools X)"

abbreviation xe_wsol :: "'a extract_env \<Rightarrow> pubkey" where
  "xe_wsol X \<equiv> te_wsol (ke_tokens (xe_keys X))"

abbreviation xe_event :: "(borsh \<Rightarrow> (string \<Rightarrow> bytes) \<Rightarrow> 'e event_type) \<Rightarrow> 'a extract_env \<Rightarrow> 'e event_type" where
  "xe_event T X \<equiv> T (xe_borsh X) (xe_event_disc X)"

definition layout_struct ::
    "string \<Rightarrow> layout \<Rightarrow> parsed_instruction \<Rightarrow> extract_error + (string \<Rightarrow> pubkey)" where
  "layout_struct expected L ix = map_sum (AccountLayout expected) id (struct L ix)"

definition agree :: "'a extract_env \<Rightarrow> string \<Rightarrow> pubkey \<Rightarrow> pubkey \<Rightarrow> extract_error + unit" where
  "agree X = corroborate (xe_show_key X)"

definition resolve_ix :: "'a extract_env \<Rightarrow> parsed_instruction \<Rightarrow> swap_instruction" where
  "resolve_ix X ix = resolve_swap (xe_keys X) (xe_program X) (pi_program_id ix) (pi_data ix)"

definition is_event_ix :: "parsed_instruction \<Rightarrow> bool" where
  "is_event_ix ix \<longleftrightarrow> 8 \<le> length (pi_data ix) \<and> take 8 (pi_data ix) = anchor_event_tag"

section \<open>Pump.fun swaps\<close>

record swap_identity =
  si_mint :: pubkey
  si_pool :: pubkey
  si_trader :: pubkey

definition identity_from_v1_buy :: "'a extract_env \<Rightarrow> parsed_instruction \<Rightarrow> extract_error + swap_identity" where
  "identity_from_v1_buy X ix =
     ebind (layout_struct ''BuyAccounts'' (pumpfun_buy_layout (xe_keys X)) ix) (\<lambda>a.
     Inr \<lparr> si_mint = a ''mint'', si_pool = a ''bonding_curve'', si_trader = a ''user'' \<rparr>)"

definition identity_from_v1_sell :: "'a extract_env \<Rightarrow> parsed_instruction \<Rightarrow> extract_error + swap_identity" where
  "identity_from_v1_sell X ix =
     ebind (layout_struct ''SellAccounts'' (pumpfun_sell_layout (xe_keys X)) ix) (\<lambda>a.
     Inr \<lparr> si_mint = a ''mint'', si_pool = a ''bonding_curve'', si_trader = a ''user'' \<rparr>)"

definition identity_from_v2 ::
    "'a extract_env \<Rightarrow> (string \<Rightarrow> pubkey) \<Rightarrow> trade_event \<Rightarrow> extract_error + swap_identity" where
  "identity_from_v2 X a ev =
     ebind (agree X ''mint'' (ve_tr_mint ev) (a ''base_mint'')) (\<lambda>_.
     ebind (agree X ''trader'' (ve_tr_user ev) (a ''user'')) (\<lambda>_.
     ebind (agree X ''bonding_curve'' (derive_bonding_curve_pda (xe_keys X) (ve_tr_mint ev)) (a ''bonding_curve'')) (\<lambda>_.
     Inr \<lparr> si_mint = ve_tr_mint ev, si_pool = a ''bonding_curve'', si_trader = a ''user'' \<rparr>)))"

definition swap_from ::
    "'a extract_env \<Rightarrow> swap_identity \<Rightarrow> trade_event \<Rightarrow> parsed_instruction \<Rightarrow> option_bool \<Rightarrow> chain_swap" where
  "swap_from X i ev ix track_volume =
     (let wsol = xe_wsol X;
          (token_in, amount_in, token_out, amount_out, reserve_in, reserve_out) =
            (if ve_tr_is_buy ev
             then (wsol, ve_tr_sol_amount ev, si_mint i, ve_tr_token_amount ev, ve_tr_virtual_sol_reserves ev,
                   ve_tr_virtual_token_reserves ev)
             else (si_mint i, ve_tr_token_amount ev, wsol, ve_tr_sol_amount ev, ve_tr_virtual_token_reserves ev,
                   ve_tr_virtual_sol_reserves ev))
      in \<lparr> xs_protocol = Pumpfun, xs_instruction = resolve_ix X ix, xs_track_volume = track_volume,
           xs_completed_curve = False, xs_pool = si_pool i, xs_trader = si_trader i, xs_token_in = token_in,
           xs_amount_in = amount_in, xs_token_out = token_out, xs_amount_out = amount_out,
           xs_fee_amount = as_u64 (saturating_add 64 (unat (ve_tr_fee ev)) (unat (ve_tr_creator_fee ev))),
           xs_fee_mint = wsol, xs_state_before = None,
           xs_state_after = Some (CurveReserves reserve_in reserve_out) \<rparr>)"

definition buy_params_swap ::
    "'a extract_env \<Rightarrow> buy_params \<Rightarrow> parsed_instruction \<Rightarrow> trade_event \<Rightarrow> extract_error + chain_swap" where
  "buy_params_swap X p ix ev =
     ebind (identity_from_v1_buy X ix) (\<lambda>i.
     ebind (agree X ''mint'' (ve_tr_mint ev) (si_mint i)) (\<lambda>_.
     Inr (swap_from X i ev ix (bp_track_volume p))))"

definition buy_exact_sol_in_params_swap ::
    "'a extract_env \<Rightarrow> buy_exact_sol_in_params \<Rightarrow> parsed_instruction \<Rightarrow> trade_event \<Rightarrow> extract_error + chain_swap" where
  "buy_exact_sol_in_params_swap X p ix ev =
     ebind (identity_from_v1_buy X ix) (\<lambda>i.
     ebind (agree X ''mint'' (ve_tr_mint ev) (si_mint i)) (\<lambda>_.
     Inr (swap_from X i ev ix (bs_track_volume p))))"

definition sell_params_swap ::
    "'a extract_env \<Rightarrow> sell_params \<Rightarrow> parsed_instruction \<Rightarrow> trade_event \<Rightarrow> extract_error + chain_swap" where
  "sell_params_swap X p ix ev =
     ebind (identity_from_v1_sell X ix) (\<lambda>i.
     ebind (agree X ''mint'' (ve_tr_mint ev) (si_mint i)) (\<lambda>_.
     Inr (swap_from X i ev ix OB_None)))"

definition buy_v2_params_swap ::
    "'a extract_env \<Rightarrow> buy_v2_params \<Rightarrow> parsed_instruction \<Rightarrow> trade_event \<Rightarrow> extract_error + chain_swap" where
  "buy_v2_params_swap X p ix ev =
     ebind (layout_struct ''BuyV2Accounts'' (pumpfun_buy_v2_layout (xe_keys X)) ix) (\<lambda>a.
     ebind (identity_from_v2 X a ev) (\<lambda>i. Inr (swap_from X i ev ix OB_None)))"

definition buy_exact_quote_in_v2_params_swap ::
    "'a extract_env \<Rightarrow> buy_exact_quote_in_v2_params \<Rightarrow> parsed_instruction \<Rightarrow> trade_event \<Rightarrow> extract_error + chain_swap" where
  "buy_exact_quote_in_v2_params_swap X p ix ev =
     ebind (layout_struct ''BuyV2Accounts'' (pumpfun_buy_v2_layout (xe_keys X)) ix) (\<lambda>a.
     ebind (identity_from_v2 X a ev) (\<lambda>i. Inr (swap_from X i ev ix (bq_track_volume p))))"

definition sell_v2_params_swap ::
    "'a extract_env \<Rightarrow> sell_v2_params \<Rightarrow> parsed_instruction \<Rightarrow> trade_event \<Rightarrow> extract_error + chain_swap" where
  "sell_v2_params_swap X p ix ev =
     ebind (layout_struct ''SellV2Accounts'' (pumpfun_sell_v2_layout (xe_keys X)) ix) (\<lambda>a.
     ebind (identity_from_v2 X a ev) (\<lambda>i. Inr (swap_from X i ev ix OB_None)))"

type_synonym extracted = "extract_error + chain_event option"

definition pumpfun_swap_via ::
    "'a extract_env \<Rightarrow> (parsed_instruction \<Rightarrow> trade_event \<Rightarrow> extract_error + chain_swap) \<Rightarrow> parsed_instruction \<Rightarrow>
     parsed_instruction list \<Rightarrow> extracted" where
  "pumpfun_swap_via X swap ix all =
     ebind (child_event (xe_event trade_event_type X) ix all (xe_program X Pumpfun)) (\<lambda>ev.
     ebind (swap ix ev) (\<lambda>s.
     ebind (optional_child_event (xe_event complete_event_type X) ix all (xe_program X Pumpfun)) (\<lambda>completed.
     Inr (Some (ChainSwap (s \<lparr> xs_completed_curve := completed \<noteq> None \<rparr>))))))"

section \<open>Pump.fun migrations, creations and creator fees\<close>

definition migration_from ::
    "'a extract_env \<Rightarrow> string \<Rightarrow> layout \<Rightarrow> string \<Rightarrow> parsed_instruction \<Rightarrow> complete_migration_event \<Rightarrow>
     extract_error + migration" where
  "migration_from X expected L mint_slot ix ev =
     ebind (layout_struct expected L ix) (\<lambda>a.
     ebind (agree X ''mint'' (ve_cm_mint ev) (a mint_slot)) (\<lambda>_.
     ebind (agree X ''bonding_curve'' (ve_cm_bonding_curve ev) (a ''bonding_curve'')) (\<lambda>_.
     ebind (agree X ''pool'' (ve_cm_pool ev) (a ''pool'')) (\<lambda>_.
     Inr \<lparr> xm_mint = ve_cm_mint ev, xm_from_protocol = Pumpfun, xm_from_pool = ve_cm_bonding_curve ev,
           xm_to_protocol = PumpSwap, xm_to_pool = ve_cm_pool ev, xm_migrated_sol = ve_cm_sol_amount ev,
           xm_migrated_tokens = ve_cm_mint_amount ev \<rparr>))))"

definition migrate_migration ::
    "'a extract_env \<Rightarrow> parsed_instruction \<Rightarrow> complete_migration_event \<Rightarrow> extract_error + migration" where
  "migrate_migration X = migration_from X ''MigrateAccounts'' pumpfun_migrate_layout ''mint''"

definition migrate_v2_migration ::
    "'a extract_env \<Rightarrow> parsed_instruction \<Rightarrow> complete_migration_event \<Rightarrow> extract_error + migration" where
  "migrate_v2_migration X = migration_from X ''MigrateV2Accounts'' pumpfun_migrate_v2_layout ''base_mint''"

definition create_creation ::
    "create_params \<Rightarrow> create_event option \<Rightarrow> parsed_instruction \<Rightarrow> extract_error + token_creation" where
  "create_creation p ev ix =
     ebind (layout_struct ''CreateAccounts'' pumpfun_create_layout ix) (\<lambda>a.
     Inr \<lparr> xc_protocol = Pumpfun, xc_mint = a ''mint'', xc_pool = a ''bonding_curve'', xc_creator = a ''user'',
           xc_name = cr_name p, xc_symbol = cr_symbol p, xc_uri = cr_uri p,
           xc_token_total_supply = map_option ve_cr_token_total_supply ev,
           xc_initial_virtual_token_reserves = map_option ve_cr_virtual_token_reserves ev,
           xc_initial_virtual_sol_reserves = map_option ve_cr_virtual_sol_reserves ev \<rparr>)"

definition create_v2_creation ::
    "create_v2_params \<Rightarrow> create_event option \<Rightarrow> parsed_instruction \<Rightarrow> extract_error + token_creation" where
  "create_v2_creation p ev ix =
     ebind (layout_struct ''CreateV2Accounts'' pumpfun_create_v2_layout ix) (\<lambda>a.
     Inr \<lparr> xc_protocol = Pumpfun, xc_mint = a ''mint'', xc_pool = a ''bonding_curve'',
           xc_creator = (if c2_creator p = pubkey_default then a ''user'' else c2_creator p),
           xc_name = c2_name p, xc_symbol = c2_symbol p, xc_uri = c2_uri p,
           xc_token_total_supply = map_option ve_cr_token_total_supply ev,
           xc_initial_virtual_token_reserves = map_option ve_cr_virtual_token_reserves ev,
           xc_initial_virtual_sol_reserves = map_option ve_cr_virtual_sol_reserves ev \<rparr>)"

definition collected :: "collect_creator_fee_event \<Rightarrow> creator_fee" where
  "collected ev =
     \<lparr> xf_protocol = Pumpfun, xf_payout = DirectPayout (ve_cf_creator ev), xf_amount = ve_cf_creator_fee ev,
       xf_quote_mint = ve_cf_quote_mint ev, xf_mint = None, xf_timestamp = ve_cf_timestamp ev \<rparr>"

definition distributed :: "distribute_creator_fees_event \<Rightarrow> creator_fee" where
  "distributed ev =
     \<lparr> xf_protocol = Pumpfun,
       xf_payout = SharedPayout (ve_df_bonding_curve ev) (ve_df_sharing_config ev) (ve_df_admin ev) (ve_df_shareholders ev),
       xf_amount = ve_df_distributed ev, xf_quote_mint = ve_df_quote_mint ev, xf_mint = Some (ve_df_mint ev),
       xf_timestamp = ve_df_timestamp ev \<rparr>"

text \<open>The whole extractor. A self-call that carries an event is routine, and so is data that does not decode,
  which is kept elsewhere.\<close>

definition pumpfun_try_extract ::
    "'a extract_env \<Rightarrow> parsed_instruction \<Rightarrow> parsed_instruction list \<Rightarrow> extracted" where
  "pumpfun_try_extract X ix all =
     (if is_event_ix ix then Inr None
      else
        case try_from_slice (pumpfun_instruction_rows (xe_borsh X) (xe_keys X)) (pi_data ix) of
          Inl _ \<Rightarrow> Inr None
        | Inr parsed \<Rightarrow>
            let program = xe_program X Pumpfun;
                creation = (\<lambda>f. ebind (optional_child_event (xe_event create_event_type X) ix all program) (\<lambda>ev.
                  ebind (f ev ix) (\<lambda>c. Inr (Some (ChainCreation c)))));
                migrates = (\<lambda>f. ebind (child_event (xe_event complete_migration_event_type X) ix all program) (\<lambda>ev.
                  ebind (f ix ev) (\<lambda>m. Inr (Some (ChainMigration m)))));
                collects = ebind (child_event (xe_event collect_creator_fee_event_type X) ix all program) (\<lambda>ev.
                  Inr (Some (ChainCreatorFee (collected ev))));
                distributes = ebind (child_event (xe_event distribute_creator_fees_event_type X) ix all program) (\<lambda>ev.
                  Inr (Some (ChainCreatorFee (distributed ev))))
            in (case parsed of
                  PfBuy p \<Rightarrow> pumpfun_swap_via X (buy_params_swap X p) ix all
                | PfBuyExactSolIn p \<Rightarrow> pumpfun_swap_via X (buy_exact_sol_in_params_swap X p) ix all
                | PfSell p \<Rightarrow> pumpfun_swap_via X (sell_params_swap X p) ix all
                | PfBuyV2 p \<Rightarrow> pumpfun_swap_via X (buy_v2_params_swap X p) ix all
                | PfBuyExactQuoteInV2 p \<Rightarrow> pumpfun_swap_via X (buy_exact_quote_in_v2_params_swap X p) ix all
                | PfSellV2 p \<Rightarrow> pumpfun_swap_via X (sell_v2_params_swap X p) ix all
                | PfCreate p \<Rightarrow> creation (create_creation p)
                | PfCreateV2 p \<Rightarrow> creation (create_v2_creation p)
                | PfMigrate _ \<Rightarrow> migrates (migrate_migration X)
                | PfMigrateV2 _ \<Rightarrow> migrates (migrate_v2_migration X)
                | PfCollectCreatorFee _ \<Rightarrow> collects
                | PfCollectCreatorFeeV2 _ \<Rightarrow> collects
                | PfDistributeCreatorFees _ \<Rightarrow> distributes
                | PfDistributeCreatorFeesV2 _ \<Rightarrow> distributes))"

section \<open>PumpSwap\<close>

text \<open>The fees of a PumpSwap event are added without a check; \<open>None\<close> is the panic.\<close>

definition obind :: "('e, 'a) outcome \<Rightarrow> ('a \<Rightarrow> ('e, 'b) outcome) \<Rightarrow> ('e, 'b) outcome" where
  "obind x f = (case x of None \<Rightarrow> None | Some (Inl e) \<Rightarrow> Some (Inl e) | Some (Inr a) \<Rightarrow> f a)"

lemma obind_simps [simp]:
  "obind None f = None" "obind (Some (Inl e)) f = Some (Inl e)" "obind (Some (Inr a)) f = f a"
  by (simp_all add: obind_def)

definition fee_sum :: "bool \<Rightarrow> u64 \<Rightarrow> u64 \<Rightarrow> u64 \<Rightarrow> u64 option" where
  "fee_sum oc lp_fee protocol_fee creator_fee = do {
     first \<leftarrow> u_add oc 64 (unat lp_fee) (unat protocol_fee);
     fees \<leftarrow> u_add oc 64 first (unat creator_fee);
     Some (as_u64 fees)
   }"

definition pumpswap_buy_swap ::
    "bool \<Rightarrow> 'a extract_env \<Rightarrow> option_bool \<Rightarrow> parsed_instruction \<Rightarrow> buy_event \<Rightarrow> (extract_error, chain_swap) outcome" where
  "pumpswap_buy_swap oc X track_volume ix ev =
     obind (Some (layout_struct ''BuyAccounts'' (pumpswap_buy_layout (xe_keys X)) ix)) (\<lambda>a.
     obind (Some (agree X ''pool'' (ve_bu_pool ev) (a ''pool''))) (\<lambda>_.
     do {
       fees \<leftarrow> fee_sum oc (ve_bu_lp_fee ev) (ve_bu_protocol_fee ev) (ve_bu_coin_creator_fee ev);
       Some (Inr
         \<lparr> xs_protocol = PumpSwap, xs_instruction = resolve_ix X ix, xs_track_volume = track_volume,
           xs_completed_curve = False, xs_pool = a ''pool'', xs_trader = a ''user'', xs_token_in = a ''quote_mint'',
           xs_amount_in = gross_quote_in ev, xs_token_out = a ''base_mint'',
           xs_amount_out = ve_bu_base_amount_out ev, xs_fee_amount = fees, xs_fee_mint = a ''quote_mint'',
           xs_state_before =
             Some (CurveReserves (ve_bu_pool_quote_token_reserves ev) (ve_bu_pool_base_token_reserves ev)),
           xs_state_after = None \<rparr>)
     }))"

definition pumpswap_sell_swap ::
    "bool \<Rightarrow> 'a extract_env \<Rightarrow> parsed_instruction \<Rightarrow> sell_event \<Rightarrow> (extract_error, chain_swap) outcome" where
  "pumpswap_sell_swap oc X ix ev =
     obind (Some (layout_struct ''SellAccounts'' (pumpswap_sell_layout (xe_keys X)) ix)) (\<lambda>a.
     obind (Some (agree X ''pool'' (ve_se_pool ev) (a ''pool''))) (\<lambda>_.
     do {
       fees \<leftarrow> fee_sum oc (ve_se_lp_fee ev) (ve_se_protocol_fee ev) (ve_se_coin_creator_fee ev);
       Some (Inr
         \<lparr> xs_protocol = PumpSwap, xs_instruction = resolve_ix X ix, xs_track_volume = OB_None,
           xs_completed_curve = False, xs_pool = a ''pool'', xs_trader = a ''user'', xs_token_in = a ''base_mint'',
           xs_amount_in = ve_se_base_amount_in ev, xs_token_out = a ''quote_mint'',
           xs_amount_out = ve_se_user_quote_amount_out ev, xs_fee_amount = fees, xs_fee_mint = a ''quote_mint'',
           xs_state_before =
             Some (CurveReserves (ve_se_pool_base_token_reserves ev) (ve_se_pool_quote_token_reserves ev)),
           xs_state_after = None \<rparr>)
     }))"

definition pumpswap_swap_via ::
    "'a extract_env \<Rightarrow> 'e event_type \<Rightarrow> (parsed_instruction \<Rightarrow> 'e \<Rightarrow> (extract_error, chain_swap) outcome) \<Rightarrow>
     parsed_instruction \<Rightarrow> parsed_instruction list \<Rightarrow> (extract_error, chain_event option) outcome" where
  "pumpswap_swap_via X T swap ix all =
     obind (Some (child_event T ix all (xe_program X PumpSwap))) (\<lambda>ev.
     obind (swap ix ev) (\<lambda>s. Some (Inr (Some (ChainSwap s)))))"

definition deposit_liquidity :: "'a extract_env \<Rightarrow> deposit_event \<Rightarrow> parsed_instruction \<Rightarrow> extract_error + liquidity_move" where
  "deposit_liquidity X ev ix =
     ebind (layout_struct ''DepositAccounts'' pumpswap_deposit_layout ix) (\<lambda>a.
     ebind (agree X ''pool'' (ve_de_pool ev) (a ''pool'')) (\<lambda>_.
     Inr \<lparr> xl_protocol = PumpSwap, xl_pool = a ''pool'', xl_provider = ve_de_user ev,
           xl_base_delta = int (unat (ve_de_base_amount_in ev)), xl_quote_delta = int (unat (ve_de_quote_amount_in ev)),
           xl_lp_token_amount = ve_de_lp_token_amount_out ev,
           xl_pool_base_reserves = ve_de_pool_base_token_reserves ev,
           xl_pool_quote_reserves = ve_de_pool_quote_token_reserves ev \<rparr>))"

definition withdraw_liquidity :: "'a extract_env \<Rightarrow> withdraw_event \<Rightarrow> parsed_instruction \<Rightarrow> extract_error + liquidity_move" where
  "withdraw_liquidity X ev ix =
     ebind (layout_struct ''WithdrawAccounts'' pumpswap_withdraw_layout ix) (\<lambda>a.
     ebind (agree X ''pool'' (ve_wi_pool ev) (a ''pool'')) (\<lambda>_.
     Inr \<lparr> xl_protocol = PumpSwap, xl_pool = a ''pool'', xl_provider = ve_wi_user ev,
           xl_base_delta = - int (unat (ve_wi_base_amount_out ev)), xl_quote_delta = - int (unat (ve_wi_quote_amount_out ev)),
           xl_lp_token_amount = ve_wi_lp_token_amount_in ev,
           xl_pool_base_reserves = ve_wi_pool_base_token_reserves ev,
           xl_pool_quote_reserves = ve_wi_pool_quote_token_reserves ev \<rparr>))"

definition create_pool_migration :: "'a extract_env \<Rightarrow> create_pool_event \<Rightarrow> parsed_instruction \<Rightarrow> extract_error + migration" where
  "create_pool_migration X ev ix =
     ebind (layout_struct ''CreatePoolAccounts'' pumpswap_create_pool_layout ix) (\<lambda>a.
     Inr \<lparr> xm_mint = a ''base_mint'', xm_from_protocol = Pumpfun,
           xm_from_pool = derive_bonding_curve_pda (xe_keys X) (a ''base_mint''), xm_to_protocol = PumpSwap,
           xm_to_pool = a ''pool'', xm_migrated_sol = ve_cp_quote_amount_in ev,
           xm_migrated_tokens = ve_cp_base_amount_in ev \<rparr>)"

definition coin_creator_fee :: "collect_coin_creator_fee_event \<Rightarrow> parsed_instruction \<Rightarrow> extract_error + creator_fee" where
  "coin_creator_fee ev ix =
     ebind (layout_struct ''CollectCoinCreatorFeeAccounts'' pumpswap_collect_coin_creator_fee_layout ix) (\<lambda>a.
     Inr \<lparr> xf_protocol = PumpSwap, xf_payout = DirectPayout (ve_cc_coin_creator ev),
           xf_amount = ve_cc_coin_creator_fee ev, xf_quote_mint = a ''quote_mint'', xf_mint = None,
           xf_timestamp = ve_cc_timestamp ev \<rparr>)"

definition pumpswap_try_extract ::
    "bool \<Rightarrow> 'a extract_env \<Rightarrow> parsed_instruction \<Rightarrow> parsed_instruction list \<Rightarrow> (extract_error, chain_event option) outcome" where
  "pumpswap_try_extract oc X ix all =
     (if is_event_ix ix then Some (Inr None)
      else
        case try_from_slice (pumpswap_instruction_rows (xe_borsh X) (xe_keys X)) (pi_data ix) of
          Inl _ \<Rightarrow> Some (Inr None)
        | Inr parsed \<Rightarrow>
            let program = xe_program X PumpSwap
            in (case parsed of
                  PsBuy p \<Rightarrow>
                    pumpswap_swap_via X (xe_event buy_event_type X) (pumpswap_buy_swap oc X (pb_track_volume p)) ix all
                | PsBuyExactQuoteIn p \<Rightarrow>
                    pumpswap_swap_via X (xe_event buy_event_type X) (pumpswap_buy_swap oc X (pq_track_volume p)) ix all
                | PsSell p \<Rightarrow> pumpswap_swap_via X (xe_event sell_event_type X) (pumpswap_sell_swap oc X) ix all
                | PsCreatePool _ \<Rightarrow>
                    Some (ebind (child_event (xe_event create_pool_event_type X) ix all program) (\<lambda>ev.
                      ebind (create_pool_migration X ev ix) (\<lambda>m. Inr (Some (ChainMigration m)))))
                | PsCollectCoinCreatorFee _ \<Rightarrow>
                    Some (ebind (child_event (xe_event collect_coin_creator_fee_event_type X) ix all program) (\<lambda>ev.
                      ebind (coin_creator_fee ev ix) (\<lambda>c. Inr (Some (ChainCreatorFee c)))))
                | PsDeposit _ \<Rightarrow>
                    Some (ebind (child_event (xe_event deposit_event_type X) ix all program) (\<lambda>ev.
                      ebind (deposit_liquidity X ev ix) (\<lambda>l. Inr (Some (ChainLiquidity l)))))
                | PsWithdraw _ \<Rightarrow>
                    Some (ebind (child_event (xe_event withdraw_event_type X) ix all program) (\<lambda>ev.
                      ebind (withdraw_liquidity X ev ix) (\<lambda>l. Inr (Some (ChainLiquidity l)))))))"

section \<open>Meteora DAMM v2\<close>

definition evt_swap2_disc :: bytes where
  "evt_swap2_disc = [0xbd, 0x42, 0x33, 0xa8, 0x26, 0x50, 0x75, 0x99]"

text \<open>Not strict: bytes after the last field are ignored.\<close>

definition from_self_cpi_data :: "borsh \<Rightarrow> bytes \<Rightarrow> evt_swap2 option" where
  "from_self_cpi_data B data =
     (if length data < 16 then None
      else if take 8 data \<noteq> anchor_event_tag then None
      else if take 8 (drop 8 data) \<noteq> evt_swap2_disc then None
      else (case read_evt_swap2 B (drop 16 data) of Inr (e, _) \<Rightarrow> Some e | Inl _ \<Rightarrow> None))"

text \<open>The walk up the parents is an unbounded loop: \<open>None\<close> is that it does not return.\<close>

partial_function (option) outer_swap_from :: "pubkey \<Rightarrow> parsed_instruction list \<Rightarrow> nat \<Rightarrow> parsed_instruction option option" where
  "outer_swap_from program all idx =
     (if length all \<le> idx then Some None
      else
        let candidate = all ! idx
        in if pi_program_id candidate = program \<and> 8 \<le> length (pi_data candidate) \<and>
              take 8 (pi_data candidate) \<noteq> anchor_event_tag
           then Some (Some candidate)
           else (case pi_parent_index candidate of
                   None \<Rightarrow> Some None
                 | Some parent \<Rightarrow> outer_swap_from program all parent))"

definition resolve_outer_swap ::
    "pubkey \<Rightarrow> parsed_instruction \<Rightarrow> parsed_instruction list \<Rightarrow> parsed_instruction option option" where
  "resolve_outer_swap program event_ix all =
     (case pi_parent_index event_ix of None \<Rightarrow> Some None | Some idx \<Rightarrow> outer_swap_from program all idx)"

definition damm_swap ::
    "'a extract_env \<Rightarrow> evt_swap2 \<Rightarrow> parsed_instruction \<Rightarrow> (string \<Rightarrow> pubkey) \<Rightarrow> chain_swap" where
  "damm_swap X event outer a =
     (let (token_in, token_out, reserve_in, reserve_out) =
            (if is_a_to_b event
             then (a ''token_a_mint'', a ''token_b_mint'', ve_s2_reserve_a_amount event, ve_s2_reserve_b_amount event)
             else (a ''token_b_mint'', a ''token_a_mint'', ve_s2_reserve_b_amount event, ve_s2_reserve_a_amount event))
      in \<lparr> xs_protocol = MeteoraDammV2, xs_instruction = resolve_ix X outer, xs_track_volume = OB_None,
           xs_completed_curve = False, xs_pool = a ''pool'', xs_trader = a ''payer'', xs_token_in = token_in,
           xs_amount_in = input_amount_gross event, xs_token_out = token_out, xs_amount_out = output_amount event,
           xs_fee_amount = 0, xs_fee_mint = token_in, xs_state_before = None,
           xs_state_after = Some (CurveReserves reserve_in reserve_out) \<rparr>)"

definition damm_extract :: "'a extract_env \<Rightarrow> parsed_instruction \<Rightarrow> parsed_instruction list \<Rightarrow> chain_event option option" where
  "damm_extract X ix all =
     (if length (pi_data ix) < 16 \<or> take 8 (pi_data ix) \<noteq> anchor_event_tag then Some None
      else if take 8 (drop 8 (pi_data ix)) \<noteq> evt_swap2_disc then Some None
      else
        case from_self_cpi_data (xe_borsh X) (pi_data ix) of
          None \<Rightarrow> Some None
        | Some event \<Rightarrow> do {
            found \<leftarrow> resolve_outer_swap (xe_program X MeteoraDammV2) ix all;
            Some (do {
              outer \<leftarrow> found;
              a \<leftarrow> ok (struct damm_swap_layout outer);
              if ve_s2_pool event \<noteq> a ''pool'' then None else Some (ChainSwap (damm_swap X event outer a))
            })
          })"

section \<open>Meteora DLMM\<close>

definition dlmm_swap_event_disc :: bytes where
  "dlmm_swap_event_disc = [81, 108, 227, 190, 205, 208, 10, 196]"

definition find_event_body ::
    "pubkey \<Rightarrow> parsed_instruction \<Rightarrow> parsed_instruction list \<Rightarrow> bytes \<Rightarrow> bytes option" where
  "find_event_body program outer all expected =
     map_option (\<lambda>c. drop 16 (pi_data c))
       (find (\<lambda>c. pi_parent_index c = Some (pi_instruction_index outer) \<and> pi_program_id c = program \<and>
            16 \<le> length (pi_data c) \<and> take 8 (pi_data c) = anchor_event_tag \<and> take 8 (drop 8 (pi_data c)) = expected) all)"

definition dlmm_swap_kinds :: "dlmm_kind list" where
  "dlmm_swap_kinds =
     [dlmm_swap_ix, dlmm_swap2_ix, dlmm_swap_exact_out_ix, dlmm_swap_exact_out2_ix, dlmm_swap_with_price_impact_ix,
      dlmm_swap_with_price_impact2_ix]"

record swap_common =
  sc_lb_pair :: pubkey
  sc_user :: pubkey
  sc_token_x_mint :: pubkey
  sc_token_y_mint :: pubkey

text \<open>The six functions \<open>common_from_*\<close> differ in the accounts struct only.\<close>

definition common_from :: "dlmm_kind \<Rightarrow> accounts \<Rightarrow> swap_common" where
  "common_from k a =
     (let b = bound (acc (dk_layout k) a)
      in \<lparr> sc_lb_pair = b ''lb_pair'', sc_user = b ''user'', sc_token_x_mint = b ''token_x_mint'',
           sc_token_y_mint = b ''token_y_mint'' \<rparr>)"

definition dlmm_extract_swap ::
    "'a extract_env \<Rightarrow> parsed_instruction \<Rightarrow> parsed_instruction list \<Rightarrow> swap_common \<Rightarrow> chain_event option" where
  "dlmm_extract_swap X outer all c = do {
     body \<leftarrow> find_event_body (xe_program X MeteoraDlmm) outer all dlmm_swap_event_disc;
     event \<leftarrow> (case xe_dlmm_swap X body of Inr (e, []) \<Rightarrow> Some e | _ \<Rightarrow> None);
     if de_lb_pair event \<noteq> sc_lb_pair c then None
     else
       let (token_in, token_out) =
             (if de_swap_for_y event then (sc_token_x_mint c, sc_token_y_mint c)
              else (sc_token_y_mint c, sc_token_x_mint c))
       in Some (ChainSwap
            \<lparr> xs_protocol = MeteoraDlmm, xs_instruction = resolve_ix X outer, xs_track_volume = OB_None,
              xs_completed_curve = False, xs_pool = sc_lb_pair c, xs_trader = sc_user c, xs_token_in = token_in,
              xs_amount_in = de_amount_in event, xs_token_out = token_out, xs_amount_out = de_amount_out event,
              xs_fee_amount = de_fee event, xs_fee_mint = token_in,
              xs_state_before = Some (CurveBin (de_start_bin_id event)),
              xs_state_after = Some (CurveBin (de_end_bin_id event)) \<rparr>)
   }"

definition dlmm_extract :: "'a extract_env \<Rightarrow> parsed_instruction \<Rightarrow> parsed_instruction list \<Rightarrow> chain_event option" where
  "dlmm_extract X ix all =
     (if is_event_ix ix then None
      else
        case dlmm_parse (xe_dlmm X) ix of
          Inl _ \<Rightarrow> None
        | Inr x \<Rightarrow> do {
            k \<leftarrow> find (\<lambda>k. dk_name k = dx_kind x) dlmm_swap_kinds;
            dlmm_extract_swap X ix all (common_from k (dx_accounts x))
          })"

section \<open>The registry of extractors\<close>

datatype extractor = PumpfunExtractor | PumpSwapExtractor | DammV2Extractor | DlmmExtractor

fun extractor_protocol :: "extractor \<Rightarrow> protocol" where
  "extractor_protocol PumpfunExtractor = Pumpfun"
| "extractor_protocol PumpSwapExtractor = PumpSwap"
| "extractor_protocol DammV2Extractor = MeteoraDammV2"
| "extractor_protocol DlmmExtractor = MeteoraDlmm"

text \<open>What the pump extractors do with the result: an error is counted and gives no event.\<close>

definition reported ::
    "protocol \<Rightarrow> (extract_error, chain_event option) outcome \<Rightarrow> failures \<Rightarrow> (chain_event option \<times> failures) option" where
  "reported p r F =
     (case r of
        None \<Rightarrow> None
      | Some (Inr ev) \<Rightarrow> Some (ev, F)
      | Some (Inl e) \<Rightarrow> Some (None, report_failure (protocol_short_name p) e F))"

fun run_extractor ::
    "bool \<Rightarrow> 'a extract_env \<Rightarrow> extractor \<Rightarrow> parsed_instruction \<Rightarrow> parsed_instruction list \<Rightarrow> failures \<Rightarrow>
     (chain_event option \<times> failures) option" where
  "run_extractor oc X PumpfunExtractor ix all F = reported Pumpfun (Some (pumpfun_try_extract X ix all)) F"
| "run_extractor oc X PumpSwapExtractor ix all F = reported PumpSwap (pumpswap_try_extract oc X ix all) F"
| "run_extractor oc X DammV2Extractor ix all F = map_option (\<lambda>ev. (ev, F)) (damm_extract X ix all)"
| "run_extractor oc X DlmmExtractor ix all F = Some (dlmm_extract X ix all, F)"

type_synonym extractor_registry = "pubkey \<rightharpoonup> extractor"

text \<open>A second registration for a program panics.\<close>

definition register_extractor :: "(protocol \<Rightarrow> pubkey) \<Rightarrow> extractor \<Rightarrow> extractor_registry \<Rightarrow> extractor_registry option" where
  "register_extractor P x r =
     (let program = P (extractor_protocol x)
      in if r program = None then Some (r(program \<mapsto> x)) else None)"

definition all_extractors :: "(protocol \<Rightarrow> pubkey) \<Rightarrow> extractor_registry option" where
  "all_extractors P = do {
     r \<leftarrow> register_extractor P PumpfunExtractor Map.empty;
     r \<leftarrow> register_extractor P PumpSwapExtractor r;
     r \<leftarrow> register_extractor P DammV2Extractor r;
     register_extractor P DlmmExtractor r
   }"

definition registry_extract ::
    "bool \<Rightarrow> 'a extract_env \<Rightarrow> extractor_registry \<Rightarrow> parsed_instruction \<Rightarrow> parsed_instruction list \<Rightarrow> failures \<Rightarrow>
     (chain_event option \<times> failures) option" where
  "registry_extract oc X r ix all F =
     (case r (pi_program_id ix) of None \<Rightarrow> Some (None, F) | Some x \<Rightarrow> run_extractor oc X x ix all F)"

section \<open>Transactions\<close>

record transaction_header =
  th_signature :: bytes
  th_slot :: u64
  th_index :: u64
  th_block_time :: "u64 option"
  th_success :: bool
  th_fee_paid_lamports :: u64
  th_compute_used :: "u64 option"
  th_error_message :: "string option"
  th_failed_program :: "(pubkey \<times> u32) option"
  th_token_balances :: "token_balance_change list"

text \<open>\<open>str::to_lowercase\<close> on UTF-8 bytes, as far as the search for ASCII words can tell: the two characters
  outside ASCII whose lower case has an ASCII letter are the Kelvin sign and the dotted capital I.\<close>

fun to_lowercase :: "string \<Rightarrow> string" where
  "to_lowercase [] = []"
| "to_lowercase (c # s) =
     (if of_char c = (0xE2 :: nat) \<and> take 2 s = [CHR 0x84, CHR 0xAA] then CHR ''k'' # to_lowercase (drop 2 s)
      else if of_char c = (0xC4 :: nat) \<and> take 1 s = [CHR 0xB0]
        then CHR ''i'' # CHR 0xCC # CHR 0x87 # to_lowercase (drop 1 s)
      else (if 65 \<le> (of_char c :: nat) \<and> (of_char c :: nat) \<le> 90 then char_of ((of_char c :: nat) + 32) else c) # to_lowercase s)"

definition slippage_words :: "string list" where
  "slippage_words =
     [''slippage'', ''toolittlesolreceived'', ''toomuchsolrequired'', ''exceededslippage'', ''buyslippagebelowmintokensout'']"

definition funds_words :: "string list" where
  "funds_words = [''insufficient funds'', ''insufficientfunds'']"

definition classify_error :: "transaction_header \<Rightarrow> tx_error" where
  "classify_error h =
     (let msg = map_option to_lowercase (th_error_message h);
          mentions = (\<lambda>ws. case msg of None \<Rightarrow> False | Some m \<Rightarrow> list_ex (\<lambda>w. contains_str w m) ws)
      in if mentions slippage_words then Slippage
         else if mentions funds_words then InsufficientFunds
         else (case th_failed_program h of
                 Some (program_id, custom_code) \<Rightarrow> Rejected program_id custom_code
               | None \<Rightarrow> OtherTxError (case th_error_message h of Some m \<Rightarrow> m | None \<Rightarrow> [])))"

fun extract_events ::
    "bool \<Rightarrow> 'a extract_env \<Rightarrow> extractor_registry \<Rightarrow> parsed_instruction list \<Rightarrow> parsed_instruction list \<Rightarrow> failures \<Rightarrow>
     (chain_event list \<times> failures) option" where
  "extract_events oc X r all [] F = Some ([], F)"
| "extract_events oc X r all (ix # ixs) F = do {
     (ev, F) \<leftarrow> registry_extract oc X r ix all F;
     (evs, F) \<leftarrow> extract_events oc X r all ixs F;
     Some ((case ev of Some e \<Rightarrow> e # evs | None \<Rightarrow> evs), F)
   }"

definition extract_transaction ::
    "bool \<Rightarrow> 'a extract_env \<Rightarrow> extractor_registry \<Rightarrow> transaction_header \<Rightarrow> parsed_instruction list \<Rightarrow> failures \<Rightarrow>
     (parsed_transaction \<times> failures) option" where
  "extract_transaction oc X r h ixs F = do {
     (evs, F) \<leftarrow> (if th_success h then extract_events oc X r ixs ixs F else Some ([], F));
     Some (\<lparr> px_signature = th_signature h, px_slot = th_slot h, px_index = th_index h,
             px_block_time = th_block_time h, px_fee_paid_lamports = th_fee_paid_lamports h,
             px_compute_used = th_compute_used h,
             px_outcome = (if th_success h then TxSuccess else TxFailed (classify_error h)),
             px_events = evs, px_instructions = (if th_success h then ixs else []),
             px_token_balances = (if th_success h then th_token_balances h else []) \<rparr>, F)
   }"

end
