(* ===== verification/Tape.thy ===== *)
theory Tape
  imports Extract
begin

text \<open>
  What the record of a transaction is worth: every swap on it was emitted by the program whose instruction
  it is put under, every instruction that is recognised is on it or counted, and a trade that is built,
  executed and emitted is on it with what was executed.
\<close>

section \<open>Accounts by name\<close>

text \<open>A required account of a struct is one of the accounts it was read from.\<close>

lemma required_account_listed:
  assumes "from_pubkeys L ks = Inr a" "n \<in> set (map sl_name (la_named L))" "\<forall>s \<in> set (la_named L). \<not> sl_optional s"
  shows "bound (acc L a) n \<in> set ks"
proof -
  have fits: "list_all2 (slot_fits (la_program_id L)) (la_named L) (ac_named a)"
    using from_pubkeys_InrD(1) [OF assms(1)] by (simp add: fits_def)
  then have len: "length (la_named L) = length (ac_named a)"
    by (rule list_all2_lengthD)
  have present: "v \<noteq> None" if "v \<in> set (ac_named a)" for v
  proof -
    obtain i where i: "i < length (ac_named a)" "v = ac_named a ! i"
      using \<open>v \<in> set (ac_named a)\<close> by (auto simp: in_set_conv_nth)
    then have "slot_fits (la_program_id L) (la_named L ! i) v" "\<not> sl_optional (la_named L ! i)"
      using fits len assms(3) by (auto simp: list_all2_conv_all_nth)
    then show ?thesis
      by (auto simp: slot_fits_def)
  qed
  obtain v where v: "map_of (zip (map sl_name (la_named L)) (ac_named a)) n = Some v"
    using assms(2) len by (metis dom_map_of_zip length_map domD)
  then have "v \<in> set (ac_named a)"
    by (meson map_of_SomeD set_zip_rightD)
  with present obtain k where "v = Some k" "Some k \<in> set (ac_named a)"
    by blast
  then show ?thesis
    using v from_pubkeys_InrD(3) [OF assms(1)] by (force simp: bound_def acc_def bindings_of_def)
qed

lemma layout_struct_Inr:
  "layout_struct expected L ix = Inr b \<longleftrightarrow> (\<exists>a. from_pubkeys L (pi_accounts ix) = Inr a \<and> b = bound (acc L a))"
  by (cases "from_pubkeys L (pi_accounts ix)") (auto simp: layout_struct_def struct_def)

definition names_listed :: "layout \<Rightarrow> string list \<Rightarrow> bool" where
  "names_listed L ns \<longleftrightarrow> set ns \<subseteq> set (map sl_name (la_named L)) \<and> (\<forall>s \<in> set (la_named L). \<not> sl_optional s)"

lemma struct_account_listed:
  "layout_struct expected L ix = Inr b \<Longrightarrow> names_listed L ns \<Longrightarrow> n \<in> set ns \<Longrightarrow> b n \<in> set (pi_accounts ix)"
  using required_account_listed by (auto simp: layout_struct_Inr names_listed_def)

lemmas swap_layouts =
  pumpfun_buy_layout_def pumpfun_sell_layout_def pumpfun_buy_v2_layout_def pumpfun_sell_v2_layout_def
  pumpswap_buy_layout_def pumpswap_sell_layout_def plain_layout_def slot_defs

lemma swap_names_listed:
  "names_listed (pumpfun_buy_layout K) [''mint'', ''bonding_curve'', ''user'']"
  "names_listed (pumpfun_sell_layout K) [''mint'', ''bonding_curve'', ''user'']"
  "names_listed (pumpfun_buy_v2_layout K) [''base_mint'', ''bonding_curve'', ''user'']"
  "names_listed (pumpfun_sell_v2_layout K) [''base_mint'', ''bonding_curve'', ''user'']"
  "names_listed (pumpswap_buy_layout K) [''pool'', ''user'', ''base_mint'', ''quote_mint'']"
  "names_listed (pumpswap_sell_layout K) [''pool'', ''user'', ''base_mint'', ''quote_mint'']"
  by (simp_all add: names_listed_def swap_layouts)

section \<open>Attested swaps\<close>

lemma agree_Inr [simp]: "agree X f a b = Inr u \<longleftrightarrow> a = b"
  by (simp add: agree_def corroborate_def)

text \<open>The Pump.fun swap that a trade event stands for, as the record has it.\<close>

definition records_trade :: "'a extract_env \<Rightarrow> parsed_instruction \<Rightarrow> trade_event \<Rightarrow> chain_swap \<Rightarrow> bool" where
  "records_trade X ix ev s \<longleftrightarrow>
     xs_protocol s = Pumpfun \<and> xs_pool s \<in> set (pi_accounts ix) \<and> xs_trader s \<in> set (pi_accounts ix) \<and>
     ve_tr_mint ev \<in> set (pi_accounts ix) \<and>
     (if ve_tr_is_buy ev
      then xs_token_in s = xe_wsol X \<and> xs_amount_in s = ve_tr_sol_amount ev \<and>
        xs_token_out s = ve_tr_mint ev \<and> xs_amount_out s = ve_tr_token_amount ev
      else xs_token_in s = ve_tr_mint ev \<and> xs_amount_in s = ve_tr_token_amount ev \<and>
        xs_token_out s = xe_wsol X \<and> xs_amount_out s = ve_tr_sol_amount ev)"

definition records_buy :: "parsed_instruction \<Rightarrow> buy_event \<Rightarrow> chain_swap \<Rightarrow> bool" where
  "records_buy ix ev s \<longleftrightarrow>
     xs_protocol s = PumpSwap \<and> xs_pool s = ve_bu_pool ev \<and>
     {xs_pool s, xs_trader s, xs_token_in s, xs_token_out s} \<subseteq> set (pi_accounts ix) \<and>
     xs_amount_in s = gross_quote_in ev \<and> xs_amount_out s = ve_bu_base_amount_out ev"

definition records_sell :: "parsed_instruction \<Rightarrow> sell_event \<Rightarrow> chain_swap \<Rightarrow> bool" where
  "records_sell ix ev s \<longleftrightarrow>
     xs_protocol s = PumpSwap \<and> xs_pool s = ve_se_pool ev \<and>
     {xs_pool s, xs_trader s, xs_token_in s, xs_token_out s} \<subseteq> set (pi_accounts ix) \<and>
     xs_amount_in s = ve_se_base_amount_in ev \<and> xs_amount_out s = ve_se_user_quote_amount_out ev"

definition identified :: "parsed_instruction \<Rightarrow> trade_event \<Rightarrow> swap_identity \<Rightarrow> bool" where
  "identified ix ev i \<longleftrightarrow>
     si_mint i = ve_tr_mint ev \<and> {si_mint i, si_pool i, si_trader i} \<subseteq> set (pi_accounts ix)"

lemma swap_from_records: "identified ix ev i \<Longrightarrow> records_trade X ix ev (swap_from X i ev ix tv)"
  by (auto simp: identified_def records_trade_def swap_from_def Let_def)

lemma v1_identified:
  "identity_from_v1_buy X ix = Inr i \<Longrightarrow> ve_tr_mint ev = si_mint i \<Longrightarrow> identified ix ev i"
  "identity_from_v1_sell X ix = Inr i \<Longrightarrow> ve_tr_mint ev = si_mint i \<Longrightarrow> identified ix ev i"
  using struct_account_listed [OF _ swap_names_listed(1)] struct_account_listed [OF _ swap_names_listed(2)]
  by (auto simp: identity_from_v1_buy_def identity_from_v1_sell_def ebind_Inr_iff identified_def)

lemma v2_identified:
  assumes "identity_from_v2 X a ev = Inr i"
    and "a ''base_mint'' \<in> set (pi_accounts ix)" "a ''bonding_curve'' \<in> set (pi_accounts ix)" "a ''user'' \<in> set (pi_accounts ix)"
  shows "identified ix ev i"
  using assms by (auto simp: identity_from_v2_def ebind_Inr_iff identified_def)

lemma params_swap_records:
  "buy_params_swap X p1 ix ev = Inr s \<Longrightarrow> records_trade X ix ev s"
  "buy_exact_sol_in_params_swap X p2 ix ev = Inr s \<Longrightarrow> records_trade X ix ev s"
  "sell_params_swap X p3 ix ev = Inr s \<Longrightarrow> records_trade X ix ev s"
  "buy_v2_params_swap X p4 ix ev = Inr s \<Longrightarrow> records_trade X ix ev s"
  "buy_exact_quote_in_v2_params_swap X p5 ix ev = Inr s \<Longrightarrow> records_trade X ix ev s"
  "sell_v2_params_swap X p6 ix ev = Inr s \<Longrightarrow> records_trade X ix ev s"
  using struct_account_listed [OF _ swap_names_listed(3)] struct_account_listed [OF _ swap_names_listed(4)]
  by (auto simp: buy_params_swap_def buy_exact_sol_in_params_swap_def sell_params_swap_def buy_v2_params_swap_def
      buy_exact_quote_in_v2_params_swap_def sell_v2_params_swap_def ebind_Inr_iff
      intro!: swap_from_records elim!: v1_identified v2_identified)

lemma pumpfun_swap_via_records:
  assumes "pumpfun_swap_via X swap ix all = Inr (Some (ChainSwap s))"
    and "\<And>ev s. swap ix ev = Inr s \<Longrightarrow> records_trade X ix ev s"
  shows "\<exists>ev. attested (xe_event trade_event_type X) ix all (xe_program X Pumpfun) ev \<and> records_trade X ix ev s"
proof -
  obtain ev s' completed where ev: "child_event (xe_event trade_event_type X) ix all (xe_program X Pumpfun) = Inr ev"
    and s': "swap ix ev = Inr s'" "s = s' \<lparr> xs_completed_curve := completed \<rparr>"
    using assms(1) by (auto simp: pumpfun_swap_via_def ebind_Inr_iff)
  have "records_trade X ix ev s"
    using assms(2) [OF s'(1)] s'(2) by (simp add: records_trade_def)
  then show ?thesis
    using child_event_attested [OF ev] by blast
qed

lemma no_other_pumpfun_swaps:
  "\<not> (\<exists>p. pf = PfBuy p) \<Longrightarrow> \<not> (\<exists>p. pf = PfBuyExactSolIn p) \<Longrightarrow> \<not> (\<exists>p. pf = PfSell p) \<Longrightarrow>
   \<not> (\<exists>p. pf = PfBuyV2 p) \<Longrightarrow> \<not> (\<exists>p. pf = PfBuyExactQuoteInV2 p) \<Longrightarrow> \<not> (\<exists>p. pf = PfSellV2 p) \<Longrightarrow>
   \<not> is_event_ix ix \<Longrightarrow>
   try_from_slice (pumpfun_instruction_rows (xe_borsh X) (xe_keys X)) (pi_data ix) = Inr pf \<Longrightarrow>
   pumpfun_try_extract X ix all \<noteq> Inr (Some (ChainSwap s))"
  by (cases pf) (auto simp: pumpfun_try_extract_def ebind_Inr_iff)

lemma pumpfun_try_extract_attested:
  assumes "pumpfun_try_extract X ix all = Inr (Some (ChainSwap s))"
  shows "\<exists>ev. attested (xe_event trade_event_type X) ix all (xe_program X Pumpfun) ev \<and> records_trade X ix ev s"
proof -
  have routine: "\<not> is_event_ix ix"
    using assms by (auto simp: pumpfun_try_extract_def)
  obtain pf where pf: "try_from_slice (pumpfun_instruction_rows (xe_borsh X) (xe_keys X)) (pi_data ix) = Inr pf"
    using assms routine by (auto simp: pumpfun_try_extract_def split: sum.splits)
  note via = pumpfun_swap_via_records [OF _ params_swap_records(1)] pumpfun_swap_via_records [OF _ params_swap_records(2)]
    pumpfun_swap_via_records [OF _ params_swap_records(3)] pumpfun_swap_via_records [OF _ params_swap_records(4)]
    pumpfun_swap_via_records [OF _ params_swap_records(5)] pumpfun_swap_via_records [OF _ params_swap_records(6)]
  show ?thesis
    using assms routine pf no_other_pumpfun_swaps [OF _ _ _ _ _ _ routine pf, of all s]
    by (cases pf) (simp_all add: pumpfun_try_extract_def via)
qed

lemma obind_Some: "obind x f = Some (Inr y) \<longleftrightarrow> (\<exists>a. x = Some (Inr a) \<and> f a = Some (Inr y))"
  by (auto simp: obind_def split: option.splits sum.splits)

lemma pumpswap_buy_records:
  assumes "pumpswap_buy_swap oc X tv ix ev = Some (Inr s)"
  shows "records_buy ix ev s"
proof -
  obtain a where a: "layout_struct ''BuyAccounts'' (pumpswap_buy_layout (xe_keys X)) ix = Inr a"
    using assms by (auto simp: pumpswap_buy_swap_def obind_Some)
  note listed = struct_account_listed [OF a swap_names_listed(5)]
  have [simp]: "a ''pool'' \<in> set (pi_accounts ix)" "a ''user'' \<in> set (pi_accounts ix)"
      "a ''base_mint'' \<in> set (pi_accounts ix)" "a ''quote_mint'' \<in> set (pi_accounts ix)"
    by (rule listed, simp)+
  show ?thesis
    using assms by (auto simp: pumpswap_buy_swap_def records_buy_def obind_Some a bind_eq_Some_conv)
qed

lemma pumpswap_sell_records:
  assumes "pumpswap_sell_swap oc X ix ev = Some (Inr s)"
  shows "records_sell ix ev s"
proof -
  obtain a where a: "layout_struct ''SellAccounts'' (pumpswap_sell_layout (xe_keys X)) ix = Inr a"
    using assms by (auto simp: pumpswap_sell_swap_def obind_Some)
  note listed = struct_account_listed [OF a swap_names_listed(6)]
  have [simp]: "a ''pool'' \<in> set (pi_accounts ix)" "a ''user'' \<in> set (pi_accounts ix)"
      "a ''base_mint'' \<in> set (pi_accounts ix)" "a ''quote_mint'' \<in> set (pi_accounts ix)"
    by (rule listed, simp)+
  show ?thesis
    using assms by (auto simp: pumpswap_sell_swap_def records_sell_def obind_Some a bind_eq_Some_conv)
qed

lemma pumpswap_swap_via_attested:
  assumes "pumpswap_swap_via X T swap ix all = Some (Inr (Some (ChainSwap s)))"
  shows "\<exists>ev. attested T ix all (xe_program X PumpSwap) ev \<and> swap ix ev = Some (Inr s)"
  using assms child_event_attested [of T ix all "xe_program X PumpSwap"]
  by (auto simp: pumpswap_swap_via_def obind_Some)

text \<open>What a swap of a pump program on the record rests on.\<close>

definition pump_attested :: "'a extract_env \<Rightarrow> parsed_instruction list \<Rightarrow> parsed_instruction \<Rightarrow> chain_swap \<Rightarrow> bool" where
  "pump_attested X all ix s \<longleftrightarrow>
     (\<exists>ev. attested (xe_event trade_event_type X) ix all (xe_program X Pumpfun) ev \<and> records_trade X ix ev s) \<or>
     (\<exists>ev. attested (xe_event buy_event_type X) ix all (xe_program X PumpSwap) ev \<and> records_buy ix ev s) \<or>
     (\<exists>ev. attested (xe_event sell_event_type X) ix all (xe_program X PumpSwap) ev \<and> records_sell ix ev s)"

lemma pumpswap_try_extract_attested:
  assumes "pumpswap_try_extract oc X ix all = Some (Inr (Some (ChainSwap s)))"
  shows "pump_attested X all ix s \<and> xs_protocol s = PumpSwap"
proof -
  have routine: "\<not> is_event_ix ix"
    using assms by (auto simp: pumpswap_try_extract_def)
  obtain ps where ps: "try_from_slice (pumpswap_instruction_rows (xe_borsh X) (xe_keys X)) (pi_data ix) = Inr ps"
    using assms routine by (auto simp: pumpswap_try_extract_def split: sum.splits)
  consider tv where "pumpswap_swap_via X (xe_event buy_event_type X) (pumpswap_buy_swap oc X tv) ix all = Some (Inr (Some (ChainSwap s)))"
    | "pumpswap_swap_via X (xe_event sell_event_type X) (pumpswap_sell_swap oc X) ix all = Some (Inr (Some (ChainSwap s)))"
    using assms routine ps by (cases ps) (auto simp: pumpswap_try_extract_def ebind_Inr_iff)
  then show ?thesis
  proof cases
    case 1
    from pumpswap_swap_via_attested [OF this] show ?thesis
      using pumpswap_buy_records by (fastforce simp: pump_attested_def records_buy_def)
  next
    case 2
    from pumpswap_swap_via_attested [OF this] show ?thesis
      using pumpswap_sell_records by (fastforce simp: pump_attested_def records_sell_def)
  qed
qed

section \<open>The extractor of a program\<close>

lemma register_extractor_Some:
  "register_extractor P x r = Some r' \<longleftrightarrow>
     r (P (extractor_protocol x)) = None \<and> r' = r(P (extractor_protocol x) \<mapsto> x)"
  by (auto simp: register_extractor_def Let_def)

lemma all_extractors_program:
  "all_extractors P = Some r \<Longrightarrow> r k = Some x \<Longrightarrow> k = P (extractor_protocol x)"
  by (auto simp: all_extractors_def bind_eq_Some_conv register_extractor_Some split: if_splits)

text \<open>The registry is built when the four programs have four addresses, and then each has its extractor.\<close>

lemma all_extractors_built:
  assumes "inj P"
  shows "\<exists>r. all_extractors P = Some r \<and> (\<forall>x. r (P (extractor_protocol x)) = Some x)"
proof -
  have apart: "P p = P q \<longleftrightarrow> p = q" for p q
    using assms by (simp add: inj_eq)
  show ?thesis
    by (simp add: all_extractors_def register_extractor_def Let_def apart)
      (rule allI, rename_tac x, case_tac x, simp_all add: apart)
qed

lemma reported_Some:
  "reported p r F = Some (Some ev, F') \<longleftrightarrow> r = Some (Inr (Some ev)) \<and> F' = F"
  by (auto simp: reported_def split: option.splits sum.splits)

text \<open>The swaps of the two Meteora programs.\<close>

definition damm_attested :: "'a extract_env \<Rightarrow> parsed_instruction list \<Rightarrow> parsed_instruction \<Rightarrow> chain_swap \<Rightarrow> bool" where
  "damm_attested X all ix s \<longleftrightarrow>
     (\<exists>ev outer. from_self_cpi_data (xe_borsh X) (pi_data ix) = Some ev \<and>
        outer \<in> set all \<and> pi_program_id outer = xe_program X MeteoraDammV2 \<and> xs_pool s = ve_s2_pool ev \<and>
        {xs_pool s, xs_trader s, xs_token_in s, xs_token_out s} \<subseteq> set (pi_accounts outer) \<and>
        xs_amount_in s = input_amount_gross ev \<and> xs_amount_out s = output_amount ev)"

definition dlmm_attested :: "'a extract_env \<Rightarrow> parsed_instruction list \<Rightarrow> parsed_instruction \<Rightarrow> chain_swap \<Rightarrow> bool" where
  "dlmm_attested X all ix s \<longleftrightarrow>
     (\<exists>c \<in> set all. \<exists>ev. pi_parent_index c = Some (pi_instruction_index ix) \<and>
        pi_program_id c = xe_program X MeteoraDlmm \<and> take 8 (pi_data c) = anchor_event_tag \<and>
        take 8 (drop 8 (pi_data c)) = dlmm_swap_event_disc \<and>
        xe_dlmm_swap X (drop 16 (pi_data c)) = Inr (ev, []) \<and> xs_pool s = de_lb_pair ev \<and>
        xs_amount_in s = de_amount_in ev \<and> xs_amount_out s = de_amount_out ev \<and> xs_fee_amount s = de_fee ev)"

lemma outer_swap_from_listed:
  "outer_swap_from program all i = Some (Some outer) \<Longrightarrow> outer \<in> set all \<and> pi_program_id outer = program"
proof -
  assume "outer_swap_from program all i = Some (Some outer)"
  moreover have "\<forall>o'. y = Some o' \<longrightarrow> o' \<in> set all \<and> pi_program_id o' = program"
    if "outer_swap_from program all i = Some y" for i y
    by (rule outer_swap_from.raw_induct [OF _ that,
          where P = "\<lambda>program all i y. \<forall>o'. y = Some o' \<longrightarrow> o' \<in> set all \<and> pi_program_id o' = program"])
      (auto simp: Let_def split: if_splits option.splits)
  ultimately show ?thesis
    by blast
qed

lemma damm_swap_names: "names_listed damm_swap_layout [''pool'', ''payer'', ''token_a_mint'', ''token_b_mint'']"
  by (simp add: names_listed_def damm_swap_layout_def plain_layout_def slot_defs)

lemma struct_layout_struct: "struct L ix = Inr a \<Longrightarrow> layout_struct expected L ix = Inr a"
  by (simp add: layout_struct_def)

lemma damm_swap_fields:
  "xs_protocol (damm_swap X event outer a) = MeteoraDammV2" "xs_pool (damm_swap X event outer a) = a ''pool''"
  "xs_trader (damm_swap X event outer a) = a ''payer''"
  "xs_token_in (damm_swap X event outer a) = (if is_a_to_b event then a ''token_a_mint'' else a ''token_b_mint'')"
  "xs_token_out (damm_swap X event outer a) = (if is_a_to_b event then a ''token_b_mint'' else a ''token_a_mint'')"
  "xs_amount_in (damm_swap X event outer a) = input_amount_gross event"
  "xs_amount_out (damm_swap X event outer a) = output_amount event"
  by (simp_all add: damm_swap_def)

lemma damm_extract_attested:
  assumes "damm_extract X ix all = Some (Some ev)"
  shows "\<exists>s. ev = ChainSwap s \<and> xs_protocol s = MeteoraDammV2 \<and> damm_attested X all ix s"
proof -
  obtain event outer a where event: "from_self_cpi_data (xe_borsh X) (pi_data ix) = Some event"
    and outer: "resolve_outer_swap (xe_program X MeteoraDammV2) ix all = Some (Some outer)"
    and a: "struct damm_swap_layout outer = Inr a" "ve_s2_pool event = a ''pool''"
    and s: "ev = ChainSwap (damm_swap X event outer a)"
    using assms by (auto simp: damm_extract_def bind_eq_Some_conv ok_is_Some split: if_splits option.splits)
  note listed = struct_account_listed [OF struct_layout_struct [OF a(1)] damm_swap_names]
  have [simp]: "a ''pool'' \<in> set (pi_accounts outer)" "a ''payer'' \<in> set (pi_accounts outer)"
      "a ''token_a_mint'' \<in> set (pi_accounts outer)" "a ''token_b_mint'' \<in> set (pi_accounts outer)"
    by (rule listed, simp)+
  have "outer \<in> set all \<and> pi_program_id outer = xe_program X MeteoraDammV2"
    using outer by (auto simp: resolve_outer_swap_def outer_swap_from_listed split: option.splits)
  then have "damm_attested X all ix (damm_swap X event outer a)"
    unfolding damm_attested_def using event a(2)
    by (intro exI [of _ event] exI [of _ outer]) (simp add: damm_swap_fields)
  then show ?thesis
    using s by (simp add: damm_swap_fields)
qed

lemma find_event_body_Some:
  "find_event_body program outer all expected = Some body \<Longrightarrow>
     \<exists>c \<in> set all. pi_parent_index c = Some (pi_instruction_index outer) \<and> pi_program_id c = program \<and>
       take 8 (pi_data c) = anchor_event_tag \<and> take 8 (drop 8 (pi_data c)) = expected \<and>
       body = drop 16 (pi_data c)"
  by (auto simp: find_event_body_def find_Some_iff)

lemma dlmm_extract_attested:
  assumes "dlmm_extract X ix all = Some e"
  shows "\<exists>s. e = ChainSwap s \<and> xs_protocol s = MeteoraDlmm \<and> dlmm_attested X all ix s"
proof -
  obtain c where "dlmm_extract_swap X ix all c = Some e"
    using assms by (auto simp: dlmm_extract_def bind_eq_Some_conv split: if_splits sum.splits)
  then obtain body ev where body: "find_event_body (xe_program X MeteoraDlmm) ix all dlmm_swap_event_disc = Some body"
    and read: "(case xe_dlmm_swap X body of Inr (e, []) \<Rightarrow> Some e | _ \<Rightarrow> None) = Some ev"
    and s: "\<exists>s. e = ChainSwap s \<and> xs_protocol s = MeteoraDlmm \<and> xs_pool s = de_lb_pair ev \<and>
      xs_amount_in s = de_amount_in ev \<and> xs_amount_out s = de_amount_out ev \<and> xs_fee_amount s = de_fee ev"
    by (fastforce simp: dlmm_extract_swap_def bind_eq_Some_conv Let_def split: prod.splits if_splits)
  have ev: "xe_dlmm_swap X body = Inr (ev, [])"
    using read by (auto split: sum.splits prod.splits list.splits)
  from find_event_body_Some [OF body] s ev show ?thesis
    by (fastforce simp: dlmm_attested_def)
qed

definition swap_attested :: "'a extract_env \<Rightarrow> parsed_instruction list \<Rightarrow> parsed_instruction \<Rightarrow> chain_swap \<Rightarrow> bool" where
  "swap_attested X all ix s \<longleftrightarrow>
     (case xs_protocol s of
        MeteoraDammV2 \<Rightarrow> damm_attested X all ix s
      | MeteoraDlmm \<Rightarrow> dlmm_attested X all ix s
      | _ \<Rightarrow> pump_attested X all ix s)"

lemma run_extractor_attested:
  assumes "run_extractor oc X x ix all F = Some (Some (ChainSwap s), F')"
  shows "xs_protocol s = extractor_protocol x \<and> swap_attested X all ix s"
proof (cases x)
  case PumpfunExtractor
  then have "pumpfun_try_extract X ix all = Inr (Some (ChainSwap s))"
    using assms by (simp add: reported_Some)
  from pumpfun_try_extract_attested [OF this] have "xs_protocol s = Pumpfun \<and> pump_attested X all ix s"
    unfolding pump_attested_def by (auto simp: records_trade_def)
  then show ?thesis
    using PumpfunExtractor by (simp add: swap_attested_def)
next
  case PumpSwapExtractor
  then show ?thesis
    using assms pumpswap_try_extract_attested [of oc X ix all s] by (simp add: reported_Some swap_attested_def)
next
  case DammV2Extractor
  then show ?thesis
    using assms damm_extract_attested [of X ix all] by (auto simp: swap_attested_def)
next
  case DlmmExtractor
  then show ?thesis
    using assms dlmm_extract_attested [of X ix all] by (auto simp: swap_attested_def)
qed

section \<open>The events of a transaction\<close>

lemma extract_events_from:
  "extract_events oc X r all ixs F = Some (evs, F') \<Longrightarrow> ev \<in> set evs \<Longrightarrow>
     \<exists>ix \<in> set ixs. \<exists>F1 F2. registry_extract oc X r ix all F1 = Some (Some ev, F2)"
  by (induction ixs arbitrary: F evs F')
    (auto simp: bind_eq_Some_conv split: prod.splits option.splits, blast+)

lemma registry_extract_attested:
  assumes "all_extractors (xe_program X) = Some r"
    and "registry_extract oc X r ix all F = Some (Some (ChainSwap s), F')"
  shows "pi_program_id ix = xe_program X (xs_protocol s) \<and> swap_attested X all ix s"
proof -
  obtain x where x: "r (pi_program_id ix) = Some x" "run_extractor oc X x ix all F = Some (Some (ChainSwap s), F')"
    using assms(2) by (auto simp: registry_extract_def split: option.splits)
  from run_extractor_attested [OF x(2)] all_extractors_program [OF assms(1) x(1)] show ?thesis
    by simp
qed

text \<open>C3: Every swap on the record of a transaction was emitted by the program it is put under. The transaction
  succeeded, one of its instructions is of that program, and there is an event of the program, a
  self-call right under the instruction or a line of its own log (for DAMM v2 the instruction is the
  self-call), whose amounts, direction and coin are those of the swap; its pool and trader are accounts
  that the instruction was given, or the pool is the one that the event names.\<close>

theorem extracted_swaps_attested:
  assumes "all_extractors (xe_program X) = Some r"
    and "extract_transaction oc X r h ixs F = Some (tx, F')"
    and "ChainSwap s \<in> set (px_events tx)"
  shows "th_success h \<and>
    (\<exists>ix \<in> set ixs. pi_program_id ix = xe_program X (xs_protocol s) \<and> swap_attested X ixs ix s)"
proof -
  have success: "th_success h"
    using assms(2,3) by (auto simp: extract_transaction_def split: if_splits)
  then have "extract_events oc X r ixs ixs F = Some (px_events tx, F')"
    using assms(2) by (auto simp: extract_transaction_def bind_eq_Some_conv)
  from extract_events_from [OF this assms(3)] show ?thesis
    using registry_extract_attested [OF assms(1)] success by blast
qed

section \<open>Accounting\<close>

text \<open>What the extractor of an instruction answers, before an error is counted.\<close>

definition outcome_at ::
    "bool \<Rightarrow> 'a extract_env \<Rightarrow> extractor_registry \<Rightarrow> parsed_instruction list \<Rightarrow> parsed_instruction \<Rightarrow>
     (extract_error, chain_event option) outcome" where
  "outcome_at oc X r all ix =
     (case r (pi_program_id ix) of
        None \<Rightarrow> Some (Inr None)
      | Some PumpfunExtractor \<Rightarrow> Some (pumpfun_try_extract X ix all)
      | Some PumpSwapExtractor \<Rightarrow> pumpswap_try_extract oc X ix all
      | Some DammV2Extractor \<Rightarrow> map_option Inr (damm_extract X ix all)
      | Some DlmmExtractor \<Rightarrow> Some (Inr (dlmm_extract X ix all)))"

definition event_at ::
    "bool \<Rightarrow> 'a extract_env \<Rightarrow> extractor_registry \<Rightarrow> parsed_instruction list \<Rightarrow> parsed_instruction \<Rightarrow> chain_event option" where
  "event_at oc X r all ix = (case outcome_at oc X r all ix of Some (Inr ev) \<Rightarrow> ev | _ \<Rightarrow> None)"

definition failure_at ::
    "bool \<Rightarrow> 'a extract_env \<Rightarrow> extractor_registry \<Rightarrow> parsed_instruction list \<Rightarrow> parsed_instruction \<Rightarrow> (string \<times> string) option" where
  "failure_at oc X r all ix =
     (case outcome_at oc X r all ix of
        Some (Inl e) \<Rightarrow>
          map_option (\<lambda>x. (protocol_short_name (extractor_protocol x), extract_error_kind e)) (r (pi_program_id ix))
      | _ \<Rightarrow> None)"

text \<open>An instruction that a pump extractor has to answer for: it decodes, and it is no self-call.\<close>

definition recognised :: "'a extract_env \<Rightarrow> extractor_registry \<Rightarrow> parsed_instruction \<Rightarrow> bool" where
  "recognised X r ix \<longleftrightarrow> \<not> is_event_ix ix \<and>
     (case r (pi_program_id ix) of
        Some PumpfunExtractor \<Rightarrow> \<not> isl (try_from_slice (pumpfun_instruction_rows (xe_borsh X) (xe_keys X)) (pi_data ix))
      | Some PumpSwapExtractor \<Rightarrow> \<not> isl (try_from_slice (pumpswap_instruction_rows (xe_borsh X) (xe_keys X)) (pi_data ix))
      | _ \<Rightarrow> False)"

definition counted :: "string \<times> string \<Rightarrow> failures \<Rightarrow> failures" where
  "counted k F = \<lparr> fl_total = fl_total F + 1, fl_tally = (fl_tally F)(k := fl_tally F k + 1) \<rparr>"

lemma registry_extract_outcome:
  "registry_extract oc X r ix all F =
     map_option (\<lambda>_. (event_at oc X r all ix, (case failure_at oc X r all ix of None \<Rightarrow> F | Some k \<Rightarrow> counted k F)))
       (outcome_at oc X r all ix)"
  by (auto simp: registry_extract_def outcome_at_def event_at_def failure_at_def reported_def report_failure_def
      counted_def Let_def option.map_comp split: option.splits extractor.splits sum.splits)

lemma extract_events_accounts:
  assumes "extract_events oc X r all ixs F = Some (evs, F')"
  shows "evs = List.map_filter (event_at oc X r all) ixs \<and>
    fl_total F' = fl_total F + word_of_nat (length (filter (\<lambda>ix. failure_at oc X r all ix \<noteq> None) ixs)) \<and>
    (\<forall>k. fl_tally F' k = fl_tally F k + length (filter (\<lambda>ix. failure_at oc X r all ix = Some k) ixs)) \<and>
    (\<forall>ix \<in> set ixs. outcome_at oc X r all ix \<noteq> None)"
  using assms
proof (induction ixs arbitrary: F evs)
  case (Cons ix ixs)
  let ?F = "case failure_at oc X r all ix of None \<Rightarrow> F | Some k \<Rightarrow> counted k F"
  obtain evs' where now: "outcome_at oc X r all ix \<noteq> None"
    and later: "extract_events oc X r all ixs ?F = Some (evs', F')"
    and evs: "evs = (case event_at oc X r all ix of Some e \<Rightarrow> e # evs' | None \<Rightarrow> evs')"
    using Cons.prems by (auto simp: registry_extract_outcome bind_eq_Some_conv split: prod.splits)
  note IH = Cons.IH [OF later]
  show ?case
    using IH now evs
    by (cases "failure_at oc X r all ix"; cases "event_at oc X r all ix")
      (auto simp: List.map_filter_simps counted_def)
qed (simp add: List.map_filter_simps)

lemma pumpfun_events_own:
  "pumpfun_try_extract X ix all = Inr (Some ev) \<Longrightarrow> chain_event_protocol ev = Pumpfun"
  by (auto simp: pumpfun_try_extract_def Let_def ebind_Inr_iff pumpfun_swap_via_def migrate_migration_def
      migrate_v2_migration_def migration_from_def create_creation_def create_v2_creation_def collected_def
      distributed_def records_trade_def split: if_splits sum.splits pumpfun_instruction.splits dest!: params_swap_records)

lemma pumpswap_events_own:
  "pumpswap_try_extract oc X ix all = Some (Inr (Some ev)) \<Longrightarrow> chain_event_protocol ev \<in> {Pumpfun, PumpSwap}"
  by (auto simp: pumpswap_try_extract_def Let_def ebind_Inr_iff pumpswap_swap_via_def obind_Some create_pool_migration_def
      coin_creator_fee_def deposit_liquidity_def withdraw_liquidity_def records_buy_def records_sell_def
      split: if_splits sum.splits pumpswap_instruction.splits dest!: pumpswap_buy_records pumpswap_sell_records)

text \<open>The pump extractors are silent on self-calls and on data that does not decode, and on nothing else.\<close>

lemma pumpfun_silent:
  "pumpfun_try_extract X ix all = Inr None \<longleftrightarrow>
     is_event_ix ix \<or> isl (try_from_slice (pumpfun_instruction_rows (xe_borsh X) (xe_keys X)) (pi_data ix))"
  by (auto simp: pumpfun_try_extract_def Let_def ebind_Inr_iff pumpfun_swap_via_def
      split: sum.splits pumpfun_instruction.splits)

lemma pumpswap_silent:
  "pumpswap_try_extract oc X ix all = Some (Inr None) \<longleftrightarrow>
     is_event_ix ix \<or> isl (try_from_slice (pumpswap_instruction_rows (xe_borsh X) (xe_keys X)) (pi_data ix))"
  by (auto simp: pumpswap_try_extract_def Let_def ebind_Inr_iff pumpswap_swap_via_def obind_Some
      split: sum.splits pumpswap_instruction.splits)

definition of_pump :: "chain_event \<Rightarrow> bool" where
  "of_pump ev \<longleftrightarrow> chain_event_protocol ev \<in> {Pumpfun, PumpSwap}"

text \<open>At one instruction: recognised is an event or a failure of the pump programs, and not both.\<close>

lemma recognised_answered:
  assumes "outcome_at oc X r all ix \<noteq> None"
  shows "recognised X r ix \<longleftrightarrow>
      (\<exists>e. event_at oc X r all ix = Some e \<and> of_pump e) \<or> failure_at oc X r all ix \<noteq> None"
    and "event_at oc X r all ix = None \<or> failure_at oc X r all ix = None"
proof -
  show "event_at oc X r all ix = None \<or> failure_at oc X r all ix = None"
    by (auto simp: event_at_def failure_at_def split: option.splits sum.splits)
  show "recognised X r ix \<longleftrightarrow>
      (\<exists>e. event_at oc X r all ix = Some e \<and> of_pump e) \<or> failure_at oc X r all ix \<noteq> None"
  proof (cases "r (pi_program_id ix)")
    case None
    then show ?thesis
      by (simp add: recognised_def event_at_def failure_at_def outcome_at_def)
  next
    case (Some x)
    show ?thesis
    proof (cases x)
      case PumpfunExtractor
      then show ?thesis
        using Some pumpfun_silent [of X ix all] pumpfun_events_own [of X ix all]
        by (cases "pumpfun_try_extract X ix all")
          (auto simp: recognised_def event_at_def failure_at_def outcome_at_def of_pump_def split: option.splits)
    next
      case PumpSwapExtractor
      then obtain y where y: "pumpswap_try_extract oc X ix all = Some y"
        using Some assms by (auto simp: outcome_at_def)
      then show ?thesis
        using PumpSwapExtractor Some pumpswap_silent [of oc X ix all] pumpswap_events_own [of oc X ix all]
        by (cases y)
          (auto simp: recognised_def event_at_def failure_at_def outcome_at_def of_pump_def split: option.splits)
    next
      case DammV2Extractor
      then show ?thesis
        using Some damm_extract_attested [of X ix all]
        by (auto simp: recognised_def event_at_def failure_at_def outcome_at_def of_pump_def split: option.splits)
    next
      case DlmmExtractor
      then show ?thesis
        using Some dlmm_extract_attested [of X ix all]
        by (auto simp: recognised_def event_at_def failure_at_def outcome_at_def of_pump_def split: option.splits)
    qed
  qed
qed

lemma recognised_count:
  "\<forall>ix \<in> set ixs. outcome_at oc X r all ix \<noteq> None \<Longrightarrow>
     length (filter (recognised X r) ixs) =
       length (filter of_pump (List.map_filter (event_at oc X r all) ixs)) +
       length (filter (\<lambda>ix. failure_at oc X r all ix \<noteq> None) ixs)"
proof (induction ixs)
  case (Cons ix ixs)
  then show ?case
    using recognised_answered [of oc X r all ix]
    by (cases "event_at oc X r all ix"; cases "failure_at oc X r all ix") (auto simp: List.map_filter_simps)
qed (simp add: List.map_filter_simps)

text \<open>C4: Nothing that is recognised vanishes. In a successful transaction every instruction of a pump program
  that decodes and is no self-call is on the record with an event or is counted as a failure, under its
  protocol and the kind of the error: the recognised instructions are as many as the pump events and
  the failures together. The events are in the order of the instructions. A failed transaction has no
  events, no instructions and no balances, and counts nothing.\<close>

theorem nothing_recognised_vanishes:
  assumes "extract_transaction oc X r h ixs F = Some (tx, F')"
  shows "if th_success h
    then
      length (filter (recognised X r) ixs) =
        length (filter of_pump (px_events tx)) + length (filter (\<lambda>ix. failure_at oc X r ixs ix \<noteq> None) ixs) \<and>
      fl_total F' = fl_total F + word_of_nat (length (filter (\<lambda>ix. failure_at oc X r ixs ix \<noteq> None) ixs)) \<and>
      (\<forall>k. fl_tally F' k = fl_tally F k + length (filter (\<lambda>ix. failure_at oc X r ixs ix = Some k) ixs)) \<and>
      px_events tx = List.map_filter (event_at oc X r ixs) ixs \<and> px_instructions tx = ixs \<and> px_outcome tx = TxSuccess
    else
      px_events tx = [] \<and> px_instructions tx = [] \<and> px_token_balances tx = [] \<and>
      px_outcome tx = TxFailed (classify_error h) \<and> F' = F"
proof (cases "th_success h")
  case True
  then have "extract_events oc X r ixs ixs F = Some (px_events tx, F')"
    and tx: "px_instructions tx = ixs" "px_outcome tx = TxSuccess"
    using assms by (auto simp: extract_transaction_def bind_eq_Some_conv)
  note accounts = extract_events_accounts [OF this(1)]
  show ?thesis
    using True tx accounts recognised_count [of ixs oc X r ixs] by simp
next
  case False
  then show ?thesis
    using assms by (auto simp: extract_transaction_def)
qed

section \<open>From the builder to the record\<close>

text \<open>The transaction of a trade: the instruction, and calls below it of which one is the self-call that
  carries the trade event and the others are of programs without an extractor.\<close>

definition emits_trade ::
    "'a extract_env \<Rightarrow> extractor_registry \<Rightarrow> parsed_instruction \<Rightarrow> trade_event \<Rightarrow> parsed_instruction list \<Rightarrow> bool" where
  "emits_trade X r ix ev kids \<longleftrightarrow>
     (\<exists>c. children_of (xe_program X Pumpfun) ix kids = [c] \<and>
        pi_data c = emitted (xe_event trade_event_type X) write_trade_event ev \<and>
        (\<forall>k \<in> set kids. k = c \<or> r (pi_program_id k) = None))"

text \<open>What the environment has to be like: discriminators of eight bytes, none of which is mistaken for
  another, and Pump.fun's program under its id.\<close>

definition trade_env_ok :: "'a extract_env \<Rightarrow> bool" where
  "trade_env_ok X \<longleftrightarrow>
     borsh_ok (xe_borsh X) \<and> discriminators_ok (xe_keys X) \<and> xe_program X Pumpfun = id_pumpfun (ke_ids (xe_keys X)) \<and>
     ke_instruction_disc (xe_keys X) ''buy'' \<noteq> anchor_event_tag \<and>
     ke_instruction_disc (xe_keys X) ''sell'' \<noteq> anchor_event_tag \<and>
     length (xe_event_disc X ''TradeEvent'') = 8 \<and> xe_event_disc X ''TradeEvent'' \<noteq> xe_event_disc X ''CompleteEvent''"

definition coin_identity :: "key_env \<Rightarrow> pumpfun_keys \<Rightarrow> pubkey \<Rightarrow> swap_identity" where
  "coin_identity K k user =
     \<lparr> si_mint = fk_mint k, si_pool = derive_bonding_curve_pda K (fk_mint k), si_trader = user \<rparr>"

lemma trades_coin_identity:
  assumes "from_pubkeys L (pi_accounts ix) = Inr a" "trades_coin K k user L a"
  shows "\<exists>b. layout_struct expected L ix = Inr b \<and> b ''mint'' = fk_mint k \<and>
    b ''bonding_curve'' = derive_bonding_curve_pda K (fk_mint k) \<and> b ''user'' = user"
  using assms by (auto simp: layout_struct_Inr trades_coin_def trade_addresses_def bound_def)

lemma built_accounts_read:
  assumes "accumulator_apart K (fk_mint k) user"
  shows "from_pubkeys (pumpfun_buy_layout K) (pi_accounts (sent (pumpfun_buy_build K k user p))) =
      Inr (buy_accounts_new K k user)"
    and "from_pubkeys (pumpfun_sell_layout K) (pi_accounts (sent (pumpfun_sell_build K k user q))) =
      Inr (sell_accounts_new K k user)"
  using pumpfun_buy_reads_back [OF assms] pumpfun_sell_reads_back [OF assms]
  by (simp_all add: pumpfun_buy_build_def pumpfun_sell_build_def buy_accounts_new_def sell_accounts_new_def)

lemma built_identity:
  assumes "accumulator_apart (xe_keys X) (fk_mint k) user"
  shows "identity_from_v1_buy X (sent (pumpfun_buy_build (xe_keys X) k user p)) = Inr (coin_identity (xe_keys X) k user)"
    and "identity_from_v1_sell X (sent (pumpfun_sell_build (xe_keys X) k user q)) = Inr (coin_identity (xe_keys X) k user)"
  using trades_coin_identity [OF built_accounts_read(1) [OF assms, of p] built_accounts_trade(1), of "''BuyAccounts''"]
    trades_coin_identity [OF built_accounts_read(2) [OF assms, of q] built_accounts_trade(2), of "''SellAccounts''"]
  by (auto simp: identity_from_v1_buy_def identity_from_v1_sell_def coin_identity_def)

lemma emitted_trade_found:
  assumes "trade_env_ok X" "trade_event_ok ev" "emits_trade X r ix ev kids"
    and "pi_parent_index ix = None" "pi_logs ix = []"
  shows "child_event (xe_event trade_event_type X) ix (ix # kids) (xe_program X Pumpfun) = Inr ev"
    and "optional_child_event (xe_event complete_event_type X) ix (ix # kids) (xe_program X Pumpfun) = Inr None"
proof -
  obtain c where c: "children_of (xe_program X Pumpfun) ix (ix # kids) = [c]"
    and data: "pi_data c = emitted (xe_event trade_event_type X) write_trade_event ev"
    using assms(3,4) by (auto simp: emits_trade_def children_of_def)
  have B: "borsh_ok (xe_borsh X)" and len: "length (et_discriminator (xe_event trade_event_type X)) = 8"
    using assms(1) by (simp_all add: trade_env_ok_def trade_event_type_def event_type_of_def)
  show "child_event (xe_event trade_event_type X) ix (ix # kids) (xe_program X Pumpfun) = Inr ev"
    by (rule ve_tr.child_found [OF B assms(2) len, where before = "[]" and after = "[]" and c = c])
      (simp_all add: c data)
  have "event_body (pi_data c) (et_discriminator (xe_event complete_event_type X)) = None"
    using assms(1) len
    by (simp add: data emitted_def event_body_framed)
      (simp add: trade_env_ok_def trade_event_type_def complete_event_type_def event_type_of_def)
  then show "optional_child_event (xe_event complete_event_type X) ix (ix # kids) (xe_program X Pumpfun) = Inr None"
    using assms(5)
    by (simp add: optional_child_event_def child_event_def c from_event_instruction_def
        find_data_log_with_discriminator_def)
qed

text \<open>A built trade, executed with the event of its coin, is extracted with what the event says; with the
  event of another coin it is refused.\<close>

definition trade_extracted ::
    "'a extract_env \<Rightarrow> pumpfun_keys \<Rightarrow> pubkey \<Rightarrow> trade_event \<Rightarrow> parsed_instruction \<Rightarrow> option_bool \<Rightarrow> extracted" where
  "trade_extracted X k user ev ix tv =
     (if ve_tr_mint ev = fk_mint k
      then Inr (Some (ChainSwap (swap_from X (coin_identity (xe_keys X) k user) ev ix tv)))
      else Inl (Corroboration ''mint'' (xe_show_key X (ve_tr_mint ev)) (xe_show_key X (fk_mint k))))"

lemma swap_from_incomplete [simp]:
  "swap_from X i ev ix tv \<lparr> xs_completed_curve := False \<rparr> = swap_from X i ev ix tv"
  by (simp add: swap_from_def Let_def split: prod.splits)

lemma sent_routine [simp]: "pi_parent_index (sent ix) = None" "pi_logs (sent ix) = []"
  by (simp_all add: sent_def parsed_instruction_new_def)

lemma built_trade_extracted:
  assumes "trade_env_ok X" "trade_event_ok ev" "accumulator_apart (xe_keys X) (fk_mint k) user"
  shows "ob_ok (bp_track_volume p) \<Longrightarrow> emits_trade X r (sent (pumpfun_buy_build (xe_keys X) k user p)) ev kids \<Longrightarrow>
      pumpfun_try_extract X (sent (pumpfun_buy_build (xe_keys X) k user p))
        (sent (pumpfun_buy_build (xe_keys X) k user p) # kids) =
      trade_extracted X k user ev (sent (pumpfun_buy_build (xe_keys X) k user p)) (bp_track_volume p)"
    and "ob_ok (sp_track_volume q) \<Longrightarrow> emits_trade X r (sent (pumpfun_sell_build (xe_keys X) k user q)) ev kids \<Longrightarrow>
      pumpfun_try_extract X (sent (pumpfun_sell_build (xe_keys X) k user q))
        (sent (pumpfun_sell_build (xe_keys X) k user q) # kids) =
      trade_extracted X k user ev (sent (pumpfun_sell_build (xe_keys X) k user q)) OB_None"
proof -
  have env: "borsh_ok (xe_borsh X)" "discriminators_ok (xe_keys X)"
    using assms(1) by (simp_all add: trade_env_ok_def)
  have routine: "\<not> is_event_ix (sent (pumpfun_buy_build (xe_keys X) k user p))"
      "\<not> is_event_ix (sent (pumpfun_sell_build (xe_keys X) k user q))"
    using assms(1) env(2)
    by (simp_all add: is_event_ix_def pumpfun_buy_build_def pumpfun_sell_build_def pumpfun_instruction_data_def
        discriminators_ok_def trade_env_ok_def)
  { assume p: "ob_ok (bp_track_volume p)"
      and kids: "emits_trade X r (sent (pumpfun_buy_build (xe_keys X) k user p)) ev kids"
    have "try_from_slice (pumpfun_instruction_rows (xe_borsh X) (xe_keys X))
        (pi_data (sent (pumpfun_buy_build (xe_keys X) k user p))) = Inr (PfBuy p)"
      using pump_data_read(1) [OF env] p by (simp add: pumpfun_buy_build_def)
    then show "pumpfun_try_extract X (sent (pumpfun_buy_build (xe_keys X) k user p))
        (sent (pumpfun_buy_build (xe_keys X) k user p) # kids) =
      trade_extracted X k user ev (sent (pumpfun_buy_build (xe_keys X) k user p)) (bp_track_volume p)"
      using emitted_trade_found [OF assms(1,2) kids sent_routine] routine(1) built_identity(1) [OF assms(3)]
      by (simp add: pumpfun_try_extract_def pumpfun_swap_via_def buy_params_swap_def trade_extracted_def
          agree_def corroborate_def coin_identity_def) }
  { assume q: "ob_ok (sp_track_volume q)"
      and kids: "emits_trade X r (sent (pumpfun_sell_build (xe_keys X) k user q)) ev kids"
    have "try_from_slice (pumpfun_instruction_rows (xe_borsh X) (xe_keys X))
        (pi_data (sent (pumpfun_sell_build (xe_keys X) k user q))) = Inr (PfSell q)"
      using pump_data_read(1) [OF env] q by (simp add: pumpfun_sell_build_def)
    then show "pumpfun_try_extract X (sent (pumpfun_sell_build (xe_keys X) k user q))
        (sent (pumpfun_sell_build (xe_keys X) k user q) # kids) =
      trade_extracted X k user ev (sent (pumpfun_sell_build (xe_keys X) k user q)) OB_None"
      using emitted_trade_found [OF assms(1,2) kids sent_routine] routine(2) built_identity(2) [OF assms(3)]
      by (simp add: pumpfun_try_extract_def pumpfun_swap_via_def sell_params_swap_def trade_extracted_def
          agree_def corroborate_def coin_identity_def) }
qed

lemma lone_trade_events:
  assumes "emits_trade X r ix ev kids" "length (xe_event_disc X ''TradeEvent'') = 8"
    and "r (xe_program X Pumpfun) = Some PumpfunExtractor"
  shows "extract_events oc X r all kids F = Some ([], F)"
proof -
  have silent: "registry_extract oc X r k all F = Some (None, F)" if "k \<in> set kids" for k
  proof (cases "r (pi_program_id k)")
    case (Some x)
    obtain c where c: "children_of (xe_program X Pumpfun) ix kids = [c]"
      and "pi_data c = emitted (xe_event trade_event_type X) write_trade_event ev"
      and only: "\<forall>k \<in> set kids. k = c \<or> r (pi_program_id k) = None"
      using assms(1) by (auto simp: emits_trade_def)
    moreover have "k = c"
      using only that Some by fastforce
    moreover from c have "pi_program_id c = xe_program X Pumpfun"
      by (auto simp: children_of_def dest: filter_eq_ConsD)
    moreover from calculation have "is_event_ix c"
      using assms(2)
      by (simp add: is_event_ix_def emitted_def anchor_event_tag_def eval_nat_numeral)
    ultimately show ?thesis
      using assms(3) by (simp add: registry_extract_def reported_def pumpfun_try_extract_def)
  qed (simp add: registry_extract_def)
  have "extract_events oc X r all ks F = Some ([], F)" if "set ks \<subseteq> set kids" for ks
    using that by (induction ks) (simp_all add: silent)
  then show ?thesis
    by blast
qed

definition recorded :: "extracted \<Rightarrow> failures \<Rightarrow> chain_event list \<times> failures" where
  "recorded r F =
     (case r of
        Inr (Some e) \<Rightarrow> ([e], F)
      | Inr None \<Rightarrow> ([], F)
      | Inl e \<Rightarrow> ([], report_failure ''pumpfun'' e F))"

lemma trade_transaction:
  assumes "th_success h" "emits_trade X r ix ev kids" "length (xe_event_disc X ''TradeEvent'') = 8"
    and "r (xe_program X Pumpfun) = Some PumpfunExtractor" "pi_program_id ix = xe_program X Pumpfun"
    and "pumpfun_try_extract X ix (ix # kids) = x"
  shows "\<exists>tx. extract_transaction oc X r h (ix # kids) F = Some (tx, snd (recorded x F)) \<and>
    px_events tx = fst (recorded x F)"
proof -
  have "extract_events oc X r (ix # kids) (ix # kids) F = Some (recorded x F)"
    using assms(4-6) lone_trade_events [OF assms(2-4)]
    by (auto simp: registry_extract_def reported_def recorded_def split: sum.splits option.splits)
  then show ?thesis
    using assms(1) by (simp add: extract_transaction_def split: prod.splits)
qed

lemma trade_identified:
  assumes "accumulator_apart (xe_keys X) (fk_mint k) user" "ve_tr_mint ev = fk_mint k"
    and "t = pumpfun_buy_build (xe_keys X) k user p \<or> t = pumpfun_sell_build (xe_keys X) k user q"
  shows "identified (sent t) ev (coin_identity (xe_keys X) k user)"
  using assms(2,3) v1_identified(1) [OF built_identity(1) [OF assms(1)]] v1_identified(2) [OF built_identity(2) [OF assms(1)]]
  by (auto simp: coin_identity_def)

lemma unat_as_u64_saturating: "unat (as_u64 (saturating_add 64 a b)) = min (a + b) (2 ^ 64 - 1)"
  by (simp add: saturating_add_def unsigned_of_nat take_bit_nat_eq_self min_def)

text \<open>C2: A Pump.fun trade that is built, executed and emitted is on the record with what was executed. The
  successful transaction of a built buy or sell whose program emits its trade event among calls to
  unknown programs has exactly one event: the swap at the curve of the coin, by the user, with the
  amounts, the fees and the reserves of the event, not those of the order. The one field taken from the
  order is the track-volume flag, and for a buy only: a sell is recorded without a flag even when its
  order carries one, although \<open>Swap::track_volume\<close> is documented as the flag as it appeared on the
  wire; the theorem states what the code does. If the event names another coin, no swap is recorded and a
  corroboration failure is counted.\<close>

theorem built_trade_recorded:
  assumes "trade_env_ok X" and "r (xe_program X Pumpfun) = Some PumpfunExtractor" and "trade_event_ok ev"
    and "accumulator_apart (xe_keys X) (fk_mint k) user" and "th_success h"
    and "t = pumpfun_buy_build (xe_keys X) k user p \<and> ob_ok (bp_track_volume p) \<and> tv = bp_track_volume p \<or>
         t = pumpfun_sell_build (xe_keys X) k user q \<and> ob_ok (sp_track_volume q) \<and> tv = OB_None"
    and "emits_trade X r (sent t) ev kids"
  shows "\<exists>tx F'. extract_transaction oc X r h (sent t # kids) F = Some (tx, F') \<and>
    (if ve_tr_mint ev = fk_mint k
     then F' = F \<and> (\<exists>s. px_events tx = [ChainSwap s] \<and> records_trade X (sent t) ev s \<and>
       xs_pool s = derive_bonding_curve_pda (xe_keys X) (fk_mint k) \<and> xs_trader s = user \<and>
       xs_track_volume s = tv \<and> \<not> xs_completed_curve s \<and> xs_instruction s = resolve_ix X (sent t) \<and>
       unat (xs_fee_amount s) = min (unat (ve_tr_fee ev) + unat (ve_tr_creator_fee ev)) (2 ^ 64 - 1) \<and>
       xs_state_after s = Some
         (if ve_tr_is_buy ev
          then CurveReserves (ve_tr_virtual_sol_reserves ev) (ve_tr_virtual_token_reserves ev)
          else CurveReserves (ve_tr_virtual_token_reserves ev) (ve_tr_virtual_sol_reserves ev)))
     else px_events tx = [] \<and> fl_total F' = fl_total F + 1 \<and>
       fl_tally F' (''pumpfun'', ''corroboration'') = fl_tally F (''pumpfun'', ''corroboration'') + 1)"
proof -
  let ?x = "trade_extracted X k user ev (sent t) tv"
  have extracted: "pumpfun_try_extract X (sent t) (sent t # kids) = ?x"
    using assms(6,7) built_trade_extracted [OF assms(1,3,4)] by auto
  have program: "pi_program_id (sent t) = xe_program X Pumpfun"
    using assms(1,6) by (auto simp: trade_env_ok_def pumpfun_buy_build_def pumpfun_sell_build_def)
  have len: "length (xe_event_disc X ''TradeEvent'') = 8"
    using assms(1) by (simp add: trade_env_ok_def)
  obtain tx where tx: "extract_transaction oc X r h (sent t # kids) F = Some (tx, snd (recorded ?x F))"
      "px_events tx = fst (recorded ?x F)"
    using trade_transaction [OF assms(5,7) len assms(2) program extracted] by blast
  show ?thesis
  proof (cases "ve_tr_mint ev = fk_mint k")
    case True
    let ?s = "swap_from X (coin_identity (xe_keys X) k user) ev (sent t) tv"
    have "records_trade X (sent t) ev ?s"
      using assms(6) by (intro swap_from_records trade_identified [OF assms(4) True]) blast
    then show ?thesis
      using tx True
      by (intro exI [of _ tx] exI [of _ F])
        (auto simp: recorded_def trade_extracted_def swap_from_def Let_def coin_identity_def unat_as_u64_saturating)
  next
    case False
    then show ?thesis
      using tx by (simp add: recorded_def trade_extracted_def report_failure_def Let_def)
  qed
qed

section \<open>A transaction\<close>

definition example_record_env :: "unit extract_env" where
  "example_record_env =
     \<lparr> xe_pools =
         \<lparr> po_keys = example_keys, po_program = pump_programs, po_try_find = (\<lambda>_ _. None),
           po_create_address = (\<lambda>_ _. None), po_v4_authority = [30], po_cpmm_authority = [31],
           po_memo_program = [32], po_dbc_authority = [33] \<rparr>,
       xe_borsh = borsh_std,
       xe_event_disc = (\<lambda>n. if n = ''TradeEvent'' then replicate 8 1 else replicate 8 2),
       xe_show_key = map (\<lambda>b. char_of (unat b)),
       xe_dlmm =
         \<lparr> ds_discriminator = (\<lambda>_. []), ds_read_args = (\<lambda>_ bs. Inr ((), bs)), ds_write_args = (\<lambda>_ _. []),
           ds_program_id = [34] \<rparr>,
       xe_dlmm_swap = (\<lambda>_. Inl []) \<rparr>"

definition recorded_coin :: pumpfun_keys where
  "recorded_coin = pumpfun_keys_new example_keys (replicate 32 77) [78]"

definition example_trade :: trade_event where
  "example_trade =
     \<lparr> ve_tr_mint = replicate 32 77, ve_tr_sol_amount = 500, ve_tr_token_amount = 9, ve_tr_is_buy = True,
       ve_tr_user = replicate 32 5, ve_tr_timestamp = 0, ve_tr_virtual_sol_reserves = 30500,
       ve_tr_virtual_token_reserves = 991, ve_tr_real_sol_reserves = 0, ve_tr_real_token_reserves = 0,
       ve_tr_fee_recipient = replicate 32 5, ve_tr_fee_basis_points = 0, ve_tr_fee = 5, ve_tr_creator =
       replicate 32 5, ve_tr_creator_fee_basis_points = 0, ve_tr_creator_fee = 2, ve_tr_track_volume =
       False, ve_tr_total_unclaimed_tokens = 0, ve_tr_total_claimed_tokens = 0, ve_tr_current_sol_volume
       = 0, ve_tr_last_update_timestamp = 0, ve_tr_ix_name = [], ve_tr_mayhem_mode = False,
       ve_tr_cashback_fee_basis_points = 0, ve_tr_cashback = 0, ve_tr_buyback_fee_basis_points = 0,
       ve_tr_buyback_fee = 0, ve_tr_shareholders = [], ve_tr_quote_mint = replicate 32 5,
       ve_tr_quote_amount = 0, ve_tr_virtual_quote_reserves = 0, ve_tr_real_quote_reserves = 0 \<rparr>"

definition example_order :: parsed_instruction where
  "example_order = sent (pumpfun_buy_build example_keys recorded_coin [5] (buy_params_new 8 600))"

definition example_self_call :: parsed_instruction where
  "example_self_call =
     (parsed_instruction_new (id_pumpfun mainnet_ids) [[14]]
        (emitted (xe_event trade_event_type example_record_env) write_trade_event example_trade) 2 1)
       \<lparr> pi_parent_index := Some 0 \<rparr>"

definition example_header :: transaction_header where
  "example_header =
     \<lparr> th_signature = [], th_slot = 7, th_index = 0, th_block_time = None, th_success = True,
       th_fee_paid_lamports = 5000, th_compute_used = None, th_error_message = None, th_failed_program = None,
       th_token_balances = [] \<rparr>"

lemma example_env_ok: "trade_env_ok example_record_env"
proof -
  have second: "ke_instruction_disc example_keys n ! 1 = 0 \<and> anchor_event_tag ! 1 = 0x45" for n
    by (simp_all add: example_keys_def anchor_event_tag_def)
  have apart: "ke_instruction_disc example_keys n \<noteq> anchor_event_tag" for n
    using second [of n] by auto
  have "ke_ids example_keys = mainnet_ids"
    by (simp add: example_keys_def)
  then show ?thesis
    using borsh_std_ok example_keys_discriminators apart
    by (simp add: trade_env_ok_def example_record_env_def pump_programs_def)
qed

lemma example_trade_ok: "trade_event_ok example_trade"
  by (simp add: trade_event_ok_def example_trade_def string_ok_def shareholders_ok_def)

lemma example_coin_apart: "accumulator_apart (xe_keys example_record_env) (fk_mint recorded_coin) [5]"
  by (simp add: accumulator_apart_def derive_user_volume_accumulator_pda_def derive_bonding_curve_v2_pda_def
      example_keys_def seed_bytes_def example_record_env_def recorded_coin_def pumpfun_keys_new_def Let_def)

lemma example_extractors:
  "\<exists>r. all_extractors (xe_program example_record_env) = Some r \<and>
     r (xe_program example_record_env Pumpfun) = Some PumpfunExtractor"
  using all_extractors_built [OF pump_programs_inj]
  by (auto simp: example_record_env_def dest: spec [of _ PumpfunExtractor])

lemma example_emits: "emits_trade example_record_env r example_order example_trade [example_self_call]"
  by (simp add: emits_trade_def children_of_def example_self_call_def example_order_def sent_def
      parsed_instruction_new_def example_record_env_def pump_programs_def)

text \<open>The transaction of a buy of nine tokens for 500 lamports, where the order was eight for at most 600.\<close>

lemma example_recorded:
  "\<exists>tx s. extract_transaction True example_record_env r example_header [example_order, example_self_call] F = Some (tx, F) \<and>
     px_events tx = [ChainSwap s] \<and> xs_protocol s = Pumpfun"
  if "r (xe_program example_record_env Pumpfun) = Some PumpfunExtractor"
proof -
  have keys: "xe_keys example_record_env = example_keys"
    by (simp add: example_record_env_def)
  have len: "length (xe_event_disc example_record_env ''TradeEvent'') = 8"
    using example_env_ok by (simp add: trade_env_ok_def)
  have program: "pi_program_id example_order = xe_program example_record_env Pumpfun"
    using example_env_ok by (simp add: trade_env_ok_def example_order_def pumpfun_buy_build_def keys)
  have coin: "ve_tr_mint example_trade = fk_mint recorded_coin"
    by (simp add: example_trade_def recorded_coin_def pumpfun_keys_new_def Let_def)
  have flag: "ob_ok (bp_track_volume (buy_params_new 8 600))"
    by (simp add: buy_params_new_def ob_ok_def)
  have "pumpfun_try_extract example_record_env example_order [example_order, example_self_call] =
      trade_extracted example_record_env recorded_coin [5] example_trade example_order OB_None"
    using built_trade_extracted(1) [OF example_env_ok example_trade_ok example_coin_apart flag, of r "[example_self_call]"]
      example_emits [of r]
    by (simp add: keys example_order_def buy_params_new_def)
  then show ?thesis
    using trade_transaction [of example_header example_record_env r example_order example_trade "[example_self_call]" _ True F]
      example_emits [of r] len that program
    by (auto simp: trade_extracted_def coin recorded_def example_header_def swap_from_def Let_def)
qed

theorem extracted_swaps_attested_witness:
  "\<exists>s. swap_attested example_record_env [example_order, example_self_call] example_order s \<or>
     swap_attested example_record_env [example_order, example_self_call] example_self_call s"
proof -
  obtain r where r: "all_extractors (xe_program example_record_env) = Some r"
      "r (xe_program example_record_env Pumpfun) = Some PumpfunExtractor"
    using example_extractors by blast
  obtain tx s where tx: "extract_transaction True example_record_env r example_header [example_order, example_self_call]
      no_failures = Some (tx, no_failures)" and s: "px_events tx = [ChainSwap s]"
    using example_recorded [of r, OF r(2)] by blast
  have "ChainSwap s \<in> set (px_events tx)"
    by (simp add: s)
  from extracted_swaps_attested [OF r(1) tx this] show ?thesis
    by auto
qed

theorem nothing_recognised_vanishes_witness:
  "\<exists>r. length (filter (recognised example_record_env r) [example_order, example_self_call]) =
     1 + length (filter (\<lambda>ix. failure_at True example_record_env r [example_order, example_self_call] ix \<noteq> None)
           [example_order, example_self_call])"
proof -
  obtain r where r: "r (xe_program example_record_env Pumpfun) = Some PumpfunExtractor"
    using example_extractors by blast
  obtain tx s where tx: "extract_transaction True example_record_env r example_header [example_order, example_self_call]
      no_failures = Some (tx, no_failures)" and s: "px_events tx = [ChainSwap s]" "xs_protocol s = Pumpfun"
    using example_recorded [of r, OF r] by blast
  have "th_success example_header"
    by (simp add: example_header_def)
  then show ?thesis
    using nothing_recognised_vanishes [OF tx] s by (intro exI [of _ r]) (simp add: of_pump_def del: filter.simps)
qed

theorem built_trade_recorded_witness:
  "\<exists>r tx s. extract_transaction True example_record_env r example_header [example_order, example_self_call] no_failures =
       Some (tx, no_failures) \<and> px_events tx = [ChainSwap s] \<and> xs_amount_in s = 500 \<and> xs_amount_out s = 9 \<and>
     unat (xs_fee_amount s) = 7"
proof -
  obtain r where r: "r (xe_program example_record_env Pumpfun) = Some PumpfunExtractor"
    using example_extractors by blast
  have keys: "xe_keys example_record_env = example_keys"
    by (simp add: example_record_env_def)
  let ?t = "pumpfun_buy_build (xe_keys example_record_env) recorded_coin [5] (buy_params_new 8 600)"
  have t: "?t = pumpfun_buy_build (xe_keys example_record_env) recorded_coin [5] (buy_params_new 8 600) \<and>
      ob_ok (bp_track_volume (buy_params_new 8 600)) \<and> OB_None = bp_track_volume (buy_params_new 8 600) \<or>
      ?t = pumpfun_sell_build (xe_keys example_record_env) recorded_coin [5] (sell_params_new 0 0) \<and>
      ob_ok (sp_track_volume (sell_params_new 0 0)) \<and> OB_None = OB_None"
    by (simp add: buy_params_new_def ob_ok_def)
  have success: "th_success example_header"
    by (simp add: example_header_def)
  have emits: "emits_trade example_record_env r (sent ?t) example_trade [example_self_call]"
    using example_emits [of r] by (simp add: example_order_def keys)
  have coin: "ve_tr_mint example_trade = fk_mint recorded_coin"
    by (simp add: example_trade_def recorded_coin_def pumpfun_keys_new_def Let_def)
  have event: "ve_tr_is_buy example_trade" "ve_tr_sol_amount example_trade = 500" "ve_tr_token_amount example_trade = 9"
      "ve_tr_fee example_trade = 5" "ve_tr_creator_fee example_trade = 2"
    by (simp_all add: example_trade_def)
  show ?thesis
    using built_trade_recorded [of example_record_env r, OF example_env_ok r example_trade_ok example_coin_apart success t emits, of True no_failures]
    by (auto simp: coin event records_trade_def example_order_def keys)
qed

end
