(* ===== verification/DlmmEvents.thy ===== *)
theory DlmmEvents
  imports Extract
begin

text \<open>
  The events of the DLMM program (meteora_dlmm/events): a discriminator and a decoder per event, their
  dispatch, and the events of an instruction. The structs are the SDK's; their borsh decoders are a
  parameter, a function of the name. The theorems say that an event is found by its discriminator, and
  that the swap on the record is the first swap among the events of its instruction.
\<close>

section \<open>The events\<close>

text \<open>The decoders of the SDK, by the name of the struct.\<close>

type_synonym 'e dlmm_event_sdk = "string \<Rightarrow> 'e reader"

definition sdk_event :: "string \<Rightarrow> 'e reader \<Rightarrow> bytes \<Rightarrow> instruction_parse_error + 'e" where
  "sdk_event label r body =
     (case r body of
        Inl e \<Rightarrow> Inl (DeserializationFailed (label @ '' event borsh decode: '' @ e))
      | Inr (x, []) \<Rightarrow> Inr x
      | Inr (_, _ # _) \<Rightarrow> Inl (DeserializationFailed (label @ '' event borsh decode: Not all bytes read'')))"

definition dv_add_liquidity_disc :: bytes where
  "dv_add_liquidity_disc = [31, 94, 125, 90, 227, 52, 61, 186]"

definition dv_decode_add_liquidity :: "'e dlmm_event_sdk \<Rightarrow> bytes \<Rightarrow> instruction_parse_error + 'e" where
  "dv_decode_add_liquidity R = sdk_event ''add_liquidity'' (R ''AddLiquidity'')"

definition dv_claim_fee_disc :: bytes where
  "dv_claim_fee_disc = [75, 122, 154, 48, 140, 74, 123, 163]"

definition dv_decode_claim_fee :: "'e dlmm_event_sdk \<Rightarrow> bytes \<Rightarrow> instruction_parse_error + 'e" where
  "dv_decode_claim_fee R = sdk_event ''claim_fee'' (R ''ClaimFee'')"

definition dv_claim_fee2_disc :: bytes where
  "dv_claim_fee2_disc = [232, 171, 242, 97, 58, 77, 35, 45]"

definition dv_decode_claim_fee2 :: "'e dlmm_event_sdk \<Rightarrow> bytes \<Rightarrow> instruction_parse_error + 'e" where
  "dv_decode_claim_fee2 R = sdk_event ''claim_fee2'' (R ''ClaimFee2'')"

definition dv_claim_reward_disc :: bytes where
  "dv_claim_reward_disc = [148, 116, 134, 204, 22, 171, 85, 95]"

definition dv_decode_claim_reward :: "'e dlmm_event_sdk \<Rightarrow> bytes \<Rightarrow> instruction_parse_error + 'e" where
  "dv_decode_claim_reward R = sdk_event ''claim_reward'' (R ''ClaimReward'')"

definition dv_claim_reward2_disc :: bytes where
  "dv_claim_reward2_disc = [27, 143, 244, 33, 80, 43, 110, 146]"

definition dv_decode_claim_reward2 :: "'e dlmm_event_sdk \<Rightarrow> bytes \<Rightarrow> instruction_parse_error + 'e" where
  "dv_decode_claim_reward2 R = sdk_event ''claim_reward2'' (R ''ClaimReward2'')"

definition dv_composition_fee_disc :: bytes where
  "dv_composition_fee_disc = [128, 151, 123, 106, 17, 102, 113, 142]"

definition dv_decode_composition_fee :: "'e dlmm_event_sdk \<Rightarrow> bytes \<Rightarrow> instruction_parse_error + 'e" where
  "dv_decode_composition_fee R = sdk_event ''composition_fee'' (R ''CompositionFee'')"

definition dv_decrease_position_length_disc :: bytes where
  "dv_decrease_position_length_disc = [52, 118, 235, 85, 172, 169, 15, 128]"

definition dv_decode_decrease_position_length :: "'e dlmm_event_sdk \<Rightarrow> bytes \<Rightarrow> instruction_parse_error + 'e" where
  "dv_decode_decrease_position_length R = sdk_event ''decrease_position_length'' (R ''DecreasePositionLength'')"

definition dv_dynamic_fee_parameter_update_disc :: bytes where
  "dv_dynamic_fee_parameter_update_disc = [88, 88, 178, 135, 194, 146, 91, 243]"

definition dv_decode_dynamic_fee_parameter_update :: "'e dlmm_event_sdk \<Rightarrow> bytes \<Rightarrow> instruction_parse_error + 'e" where
  "dv_decode_dynamic_fee_parameter_update R = sdk_event ''dynamic_fee_parameter_update'' (R ''DynamicFeeParameterUpdate'')"

definition dv_fee_parameter_update_disc :: bytes where
  "dv_fee_parameter_update_disc = [48, 76, 241, 117, 144, 215, 242, 44]"

definition dv_decode_fee_parameter_update :: "'e dlmm_event_sdk \<Rightarrow> bytes \<Rightarrow> instruction_parse_error + 'e" where
  "dv_decode_fee_parameter_update R = sdk_event ''fee_parameter_update'' (R ''FeeParameterUpdate'')"

definition dv_fund_reward_disc :: bytes where
  "dv_fund_reward_disc = [246, 228, 58, 130, 145, 170, 79, 204]"

definition dv_decode_fund_reward :: "'e dlmm_event_sdk \<Rightarrow> bytes \<Rightarrow> instruction_parse_error + 'e" where
  "dv_decode_fund_reward R = sdk_event ''fund_reward'' (R ''FundReward'')"

definition dv_go_to_a_bin_disc :: bytes where
  "dv_go_to_a_bin_disc = [59, 138, 76, 68, 138, 131, 176, 67]"

definition dv_decode_go_to_a_bin :: "'e dlmm_event_sdk \<Rightarrow> bytes \<Rightarrow> instruction_parse_error + 'e" where
  "dv_decode_go_to_a_bin R = sdk_event ''go_to_a_bin'' (R ''GoToABin'')"

definition dv_increase_observation_disc :: bytes where
  "dv_increase_observation_disc = [99, 249, 17, 121, 166, 156, 207, 215]"

definition dv_decode_increase_observation :: "'e dlmm_event_sdk \<Rightarrow> bytes \<Rightarrow> instruction_parse_error + 'e" where
  "dv_decode_increase_observation R = sdk_event ''increase_observation'' (R ''IncreaseObservation'')"

definition dv_increase_position_length_disc :: bytes where
  "dv_increase_position_length_disc = [157, 239, 42, 204, 30, 56, 223, 46]"

definition dv_decode_increase_position_length :: "'e dlmm_event_sdk \<Rightarrow> bytes \<Rightarrow> instruction_parse_error + 'e" where
  "dv_decode_increase_position_length R = sdk_event ''increase_position_length'' (R ''IncreasePositionLength'')"

definition dv_initialize_reward_disc :: bytes where
  "dv_initialize_reward_disc = [211, 153, 88, 62, 149, 60, 177, 70]"

definition dv_decode_initialize_reward :: "'e dlmm_event_sdk \<Rightarrow> bytes \<Rightarrow> instruction_parse_error + 'e" where
  "dv_decode_initialize_reward R = sdk_event ''initialize_reward'' (R ''InitializeReward'')"

definition dv_lb_pair_create_disc :: bytes where
  "dv_lb_pair_create_disc = [185, 74, 252, 125, 27, 215, 188, 111]"

definition dv_decode_lb_pair_create :: "'e dlmm_event_sdk \<Rightarrow> bytes \<Rightarrow> instruction_parse_error + 'e" where
  "dv_decode_lb_pair_create R = sdk_event ''lb_pair_create'' (R ''LbPairCreate'')"

definition dv_position_close_disc :: bytes where
  "dv_position_close_disc = [255, 196, 16, 107, 28, 202, 53, 128]"

definition dv_decode_position_close :: "'e dlmm_event_sdk \<Rightarrow> bytes \<Rightarrow> instruction_parse_error + 'e" where
  "dv_decode_position_close R = sdk_event ''position_close'' (R ''PositionClose'')"

definition dv_position_create_disc :: bytes where
  "dv_position_create_disc = [144, 142, 252, 84, 157, 53, 37, 121]"

definition dv_decode_position_create :: "'e dlmm_event_sdk \<Rightarrow> bytes \<Rightarrow> instruction_parse_error + 'e" where
  "dv_decode_position_create R = sdk_event ''position_create'' (R ''PositionCreate'')"

definition dv_rebalancing_disc :: bytes where
  "dv_rebalancing_disc = [0, 109, 117, 179, 61, 91, 199, 200]"

definition dv_decode_rebalancing :: "'e dlmm_event_sdk \<Rightarrow> bytes \<Rightarrow> instruction_parse_error + 'e" where
  "dv_decode_rebalancing R = sdk_event ''rebalancing'' (R ''Rebalancing'')"

definition dv_remove_liquidity_disc :: bytes where
  "dv_remove_liquidity_disc = [116, 244, 97, 232, 103, 31, 152, 58]"

definition dv_decode_remove_liquidity :: "'e dlmm_event_sdk \<Rightarrow> bytes \<Rightarrow> instruction_parse_error + 'e" where
  "dv_decode_remove_liquidity R = sdk_event ''remove_liquidity'' (R ''RemoveLiquidity'')"

definition dv_decode_swap :: "'e dlmm_event_sdk \<Rightarrow> bytes \<Rightarrow> instruction_parse_error + 'e" where
  "dv_decode_swap R = sdk_event ''swap'' (R ''Swap'')"

definition dv_update_position_lock_release_point_disc :: bytes where
  "dv_update_position_lock_release_point_disc = [133, 214, 66, 224, 64, 12, 7, 191]"

definition dv_decode_update_position_lock_release_point :: "'e dlmm_event_sdk \<Rightarrow> bytes \<Rightarrow> instruction_parse_error + 'e" where
  "dv_decode_update_position_lock_release_point R = sdk_event ''update_position_lock_release_point'' (R ''UpdatePositionLockReleasePoint'')"

definition dv_update_position_operator_disc :: bytes where
  "dv_update_position_operator_disc = [39, 115, 48, 204, 246, 47, 66, 57]"

definition dv_decode_update_position_operator :: "'e dlmm_event_sdk \<Rightarrow> bytes \<Rightarrow> instruction_parse_error + 'e" where
  "dv_decode_update_position_operator R = sdk_event ''update_position_operator'' (R ''UpdatePositionOperator'')"

definition dv_update_reward_duration_disc :: bytes where
  "dv_update_reward_duration_disc = [223, 245, 224, 153, 49, 29, 163, 172]"

definition dv_decode_update_reward_duration :: "'e dlmm_event_sdk \<Rightarrow> bytes \<Rightarrow> instruction_parse_error + 'e" where
  "dv_decode_update_reward_duration R = sdk_event ''update_reward_duration'' (R ''UpdateRewardDuration'')"

definition dv_update_reward_funder_disc :: bytes where
  "dv_update_reward_funder_disc = [224, 178, 174, 74, 252, 165, 85, 180]"

definition dv_decode_update_reward_funder :: "'e dlmm_event_sdk \<Rightarrow> bytes \<Rightarrow> instruction_parse_error + 'e" where
  "dv_decode_update_reward_funder R = sdk_event ''update_reward_funder'' (R ''UpdateRewardFunder'')"

definition dv_withdraw_ineligible_reward_disc :: bytes where
  "dv_withdraw_ineligible_reward_disc = [231, 189, 65, 149, 102, 215, 154, 244]"

definition dv_decode_withdraw_ineligible_reward :: "'e dlmm_event_sdk \<Rightarrow> bytes \<Rightarrow> instruction_parse_error + 'e" where
  "dv_decode_withdraw_ineligible_reward R = sdk_event ''withdraw_ineligible_reward'' (R ''WithdrawIneligibleReward'')"

datatype 'e dlmm_event =
    DvAddLiquidity 'e
  | DvClaimFee 'e
  | DvClaimFee2 'e
  | DvClaimReward 'e
  | DvClaimReward2 'e
  | DvCompositionFee 'e
  | DvDecreasePositionLength 'e
  | DvDynamicFeeParameterUpdate 'e
  | DvFeeParameterUpdate 'e
  | DvFundReward 'e
  | DvGoToABin 'e
  | DvIncreaseObservation 'e
  | DvIncreasePositionLength 'e
  | DvInitializeReward 'e
  | DvLbPairCreate 'e
  | DvPositionClose 'e
  | DvPositionCreate 'e
  | DvRebalancing 'e
  | DvRemoveLiquidity 'e
  | DvSwap 'e
  | DvUpdatePositionLockReleasePoint 'e
  | DvUpdatePositionOperator 'e
  | DvUpdateRewardDuration 'e
  | DvUpdateRewardFunder 'e
  | DvWithdrawIneligibleReward 'e

section \<open>Dispatch\<close>

definition dlmm_event_rows :: "'e dlmm_event_sdk \<Rightarrow> (bytes \<times> (bytes \<Rightarrow> instruction_parse_error + 'e dlmm_event)) list" where
  "dlmm_event_rows R =
    [(dv_add_liquidity_disc, map_sum id DvAddLiquidity \<circ> dv_decode_add_liquidity R),
     (dv_claim_fee_disc, map_sum id DvClaimFee \<circ> dv_decode_claim_fee R),
     (dv_claim_fee2_disc, map_sum id DvClaimFee2 \<circ> dv_decode_claim_fee2 R),
     (dv_claim_reward_disc, map_sum id DvClaimReward \<circ> dv_decode_claim_reward R),
     (dv_claim_reward2_disc, map_sum id DvClaimReward2 \<circ> dv_decode_claim_reward2 R),
     (dv_composition_fee_disc, map_sum id DvCompositionFee \<circ> dv_decode_composition_fee R),
     (dv_decrease_position_length_disc, map_sum id DvDecreasePositionLength \<circ> dv_decode_decrease_position_length R),
     (dv_dynamic_fee_parameter_update_disc, map_sum id DvDynamicFeeParameterUpdate \<circ> dv_decode_dynamic_fee_parameter_update R),
     (dv_fee_parameter_update_disc, map_sum id DvFeeParameterUpdate \<circ> dv_decode_fee_parameter_update R),
     (dv_fund_reward_disc, map_sum id DvFundReward \<circ> dv_decode_fund_reward R),
     (dv_go_to_a_bin_disc, map_sum id DvGoToABin \<circ> dv_decode_go_to_a_bin R),
     (dv_increase_observation_disc, map_sum id DvIncreaseObservation \<circ> dv_decode_increase_observation R),
     (dv_increase_position_length_disc, map_sum id DvIncreasePositionLength \<circ> dv_decode_increase_position_length R),
     (dv_initialize_reward_disc, map_sum id DvInitializeReward \<circ> dv_decode_initialize_reward R),
     (dv_lb_pair_create_disc, map_sum id DvLbPairCreate \<circ> dv_decode_lb_pair_create R),
     (dv_position_close_disc, map_sum id DvPositionClose \<circ> dv_decode_position_close R),
     (dv_position_create_disc, map_sum id DvPositionCreate \<circ> dv_decode_position_create R),
     (dv_rebalancing_disc, map_sum id DvRebalancing \<circ> dv_decode_rebalancing R),
     (dv_remove_liquidity_disc, map_sum id DvRemoveLiquidity \<circ> dv_decode_remove_liquidity R),
     (dlmm_swap_event_disc, map_sum id DvSwap \<circ> dv_decode_swap R),
     (dv_update_position_lock_release_point_disc, map_sum id DvUpdatePositionLockReleasePoint \<circ> dv_decode_update_position_lock_release_point R),
     (dv_update_position_operator_disc, map_sum id DvUpdatePositionOperator \<circ> dv_decode_update_position_operator R),
     (dv_update_reward_duration_disc, map_sum id DvUpdateRewardDuration \<circ> dv_decode_update_reward_duration R),
     (dv_update_reward_funder_disc, map_sum id DvUpdateRewardFunder \<circ> dv_decode_update_reward_funder R),
     (dv_withdraw_ineligible_reward_disc, map_sum id DvWithdrawIneligibleReward \<circ> dv_decode_withdraw_ineligible_reward R)]"

definition dlmm_event_dispatch :: "'e dlmm_event_sdk \<Rightarrow> bytes \<Rightarrow> bytes \<Rightarrow> instruction_parse_error + 'e dlmm_event" where
  "dlmm_event_dispatch R disc body =
     (case find (\<lambda>(d, f). d = disc) (dlmm_event_rows R) of
        Some (_, f) \<Rightarrow> f body
      | None \<Rightarrow> Inl (UnknownDiscriminator disc))"

definition parse_event_body :: "'e dlmm_event_sdk \<Rightarrow> bytes \<Rightarrow> instruction_parse_error + 'e dlmm_event" where
  "parse_event_body R data =
     (if length data < 16 then Inl (DataTooShortDetailed 16 (length data))
      else if take 8 data \<noteq> anchor_event_tag then Inl (UnknownDiscriminator (take 8 data))
      else dlmm_event_dispatch R (take 8 (drop 8 data)) (drop 16 data))"

definition walk_events ::
    "pubkey \<Rightarrow> 'e dlmm_event_sdk \<Rightarrow> parsed_instruction \<Rightarrow> parsed_instruction list \<Rightarrow> 'e dlmm_event list" where
  "walk_events program R outer all =
     List.map_filter
       (\<lambda>c. if pi_parent_index c \<noteq> Some (pi_instruction_index outer) then None
            else if pi_program_id c \<noteq> program then None
            else if length (pi_data c) < 16 \<or> take 8 (pi_data c) \<noteq> anchor_event_tag then None
            else (case parse_event_body R (pi_data c) of Inr ev \<Rightarrow> Some ev | Inl _ \<Rightarrow> None)) all"

section \<open>An event is found by its discriminator\<close>

lemmas dlmm_event_discs =
  dv_add_liquidity_disc_def dv_claim_fee_disc_def dv_claim_fee2_disc_def dv_claim_reward_disc_def
  dv_claim_reward2_disc_def dv_composition_fee_disc_def dv_decrease_position_length_disc_def
  dv_dynamic_fee_parameter_update_disc_def dv_fee_parameter_update_disc_def dv_fund_reward_disc_def
  dv_go_to_a_bin_disc_def dv_increase_observation_disc_def dv_increase_position_length_disc_def
  dv_initialize_reward_disc_def dv_lb_pair_create_disc_def dv_position_close_disc_def
  dv_position_create_disc_def dv_rebalancing_disc_def dv_remove_liquidity_disc_def
  dlmm_swap_event_disc_def dv_update_position_lock_release_point_disc_def
  dv_update_position_operator_disc_def dv_update_reward_duration_disc_def
  dv_update_reward_funder_disc_def dv_withdraw_ineligible_reward_disc_def

lemma dlmm_event_discs_distinct: "distinct (map fst (dlmm_event_rows R))"
  by (simp add: dlmm_event_rows_def dlmm_event_discs)

lemma dlmm_event_disc_length: "\<forall>d \<in> set (map fst (dlmm_event_rows R)). length d = 8"
  by (simp add: dlmm_event_rows_def dlmm_event_discs)

lemma find_row:
  "distinct (map fst rows) \<Longrightarrow> (d, f) \<in> set rows \<Longrightarrow> find (\<lambda>(d', f). d' = d) rows = Some (d, f)"
  by (induction rows) force+

lemma dlmm_event_found:
  assumes "(d, f) \<in> set (dlmm_event_rows R)"
  shows "parse_event_body R (anchor_event_tag @ d @ body) = f body"
proof -
  have d: "length d = 8"
    using dlmm_event_disc_length [of R] assms by force
  have tag: "length anchor_event_tag = 8"
    by (simp add: anchor_event_tag_def)
  show ?thesis
    using find_row [OF dlmm_event_discs_distinct assms]
    by (simp add: parse_event_body_def dlmm_event_dispatch_def d tag)
qed

section \<open>The swap of an instruction\<close>

fun dv_is_swap :: "'e dlmm_event \<Rightarrow> bool" where
  "dv_is_swap (DvSwap _) = True"
| "dv_is_swap _ = False"

lemma swap_row: "(dlmm_swap_event_disc, map_sum id DvSwap \<circ> dv_decode_swap R) \<in> set (dlmm_event_rows R)"
  by (simp add: dlmm_event_rows_def)

lemma row_kind:
  "\<forall>(d, f) \<in> set (dlmm_event_rows R). f body = Inr ev \<longrightarrow> dv_is_swap ev \<longrightarrow> d = dlmm_swap_event_disc"
  unfolding dlmm_event_rows_def list.set ball_simps split_conv comp_apply map_sum_Inr
  by (intro conjI) auto

lemma find_Some_member: "find P xs = Some x \<Longrightarrow> P x \<and> x \<in> set xs"
  by (metis find_Some_iff nth_mem)

lemma dispatch_swap:
  assumes "dlmm_event_dispatch R disc body = Inr ev" "dv_is_swap ev"
  shows "disc = dlmm_swap_event_disc"
proof -
  obtain r where r: "find (\<lambda>(d, f). d = disc) (dlmm_event_rows R) = Some r"
    using assms(1) by (auto simp: dlmm_event_dispatch_def split: option.splits)
  have "fst r = disc \<and> r \<in> set (dlmm_event_rows R)"
    using find_Some_member [OF r] by (auto split: prod.splits)
  then have "(disc, snd r) \<in> set (dlmm_event_rows R)" "snd r body = Inr ev"
    using assms(1) r by (auto simp: dlmm_event_dispatch_def split: prod.splits)
  then show ?thesis
    using row_kind [of R body ev] assms(2) by blast
qed

lemma sdk_event_Inr: "sdk_event label r body = Inr x \<longleftrightarrow> r body = Inr (x, [])"
  by (auto simp: sdk_event_def split: sum.splits list.splits)

text \<open>The extractor looks for the body of the first swap event, and the walk lists all events that decode.
  When the first one decodes, both name the same event.\<close>

lemma dlmm_swap_is_first_of_walk:
  assumes "find_event_body program outer all dlmm_swap_event_disc = Some body" "R ''Swap'' body = Inr (x, [])"
  shows "find dv_is_swap (walk_events program R outer all) = Some (DvSwap x)"
  using assms(1)
proof (induction all)
  case Nil
  then show ?case
    by (simp add: find_event_body_def)
next
  case (Cons c all)
  let ?own = "pi_parent_index c = Some (pi_instruction_index outer) \<and> pi_program_id c = program \<and>
    16 \<le> length (pi_data c) \<and> take 8 (pi_data c) = anchor_event_tag"
  have parse: "parse_event_body R (pi_data c) = dlmm_event_dispatch R (take 8 (drop 8 (pi_data c))) (drop 16 (pi_data c))"
    if ?own
    using that by (simp add: parse_event_body_def)
  show ?case
  proof (cases "?own \<and> take 8 (drop 8 (pi_data c)) = dlmm_swap_event_disc")
    case True
    then have "body = drop 16 (pi_data c)"
      using Cons.prems by (simp add: find_event_body_def)
    moreover have "dlmm_event_dispatch R dlmm_swap_event_disc body = Inr (DvSwap x)"
      using find_row [OF dlmm_event_discs_distinct swap_row, of R] assms(2)
      by (simp add: dlmm_event_dispatch_def dv_decode_swap_def sdk_event_def)
    ultimately show ?thesis
      using True parse by (simp add: walk_events_def List.map_filter_simps)
  next
    case False
    then have rest: "find dv_is_swap (walk_events program R outer all) = Some (DvSwap x)"
      using Cons by (simp add: find_event_body_def split: if_splits)
    show ?thesis
    proof (cases ?own)
      case True
      then have "\<not> dv_is_swap ev" if "parse_event_body R (pi_data c) = Inr ev" for ev
        using that False dispatch_swap [of R _ _ ev] parse by auto
      then show ?thesis
        using rest True by (auto simp: walk_events_def List.map_filter_simps split: sum.splits)
    next
      case not_own: False
      then show ?thesis
        using rest by (auto simp: walk_events_def List.map_filter_simps)
    qed
  qed
qed

end
