(* ===== verification/Undecoded.thy ===== *)
theory Undecoded
  imports Persist Classify
begin

text \<open>
  The store of instructions that were not decoded (undecoded.rs): a count of all, and, once capture is
  switched on, the first sample of every shape with the number of its sightings. The theorem says
  that the store is the summary of the log of reports. The fixtures are written into the file system of
  \<open>Persist\<close>.
\<close>

section \<open>The store\<close>

record undecoded_sample =
  un_program :: pubkey
  un_discriminator :: bytes
  un_data :: bytes
  un_accounts :: "pubkey list"
  un_seen :: u64

type_synonym shape_key = "pubkey \<times> bytes \<times> nat \<times> nat"

record undecoded =
  ud_total :: u64
  ud_capture :: bool
  ud_samples :: "shape_key \<rightharpoonup> undecoded_sample"

definition undecoded_initial :: undecoded where
  "undecoded_initial = \<lparr> ud_total = 0, ud_capture = False, ud_samples = Map.empty \<rparr>"

definition enable_capture :: "undecoded \<Rightarrow> undecoded" where
  "enable_capture U = U \<lparr> ud_capture := True \<rparr>"

definition shape_of :: "pubkey \<Rightarrow> bytes \<Rightarrow> pubkey list \<Rightarrow> shape_key" where
  "shape_of program data accounts = (program, take 8 data, length data, length accounts)"

definition first_sample :: "pubkey \<Rightarrow> bytes \<Rightarrow> pubkey list \<Rightarrow> undecoded_sample" where
  "first_sample program data accounts =
     \<lparr> un_program = program, un_discriminator = take 8 data, un_data = data, un_accounts = accounts, un_seen = 1 \<rparr>"

text \<open>\<open>report\<close>: the total wraps as \<open>fetch_add\<close> does, the count of a sample is plain addition.\<close>

definition report_undecoded :: "bool \<Rightarrow> pubkey \<Rightarrow> bytes \<Rightarrow> pubkey list \<Rightarrow> undecoded \<Rightarrow> undecoded option" where
  "report_undecoded oc program data accounts U =
     (let U = U \<lparr> ud_total := ud_total U + 1 \<rparr>
      in if \<not> ud_capture U then Some U
         else
           let k = shape_of program data accounts
           in (case ud_samples U k of
                 Some s \<Rightarrow> do {
                   n \<leftarrow> u_add oc 64 (unat (un_seen s)) 1;
                   Some (U \<lparr> ud_samples := (ud_samples U)(k \<mapsto> s \<lparr> un_seen := as_u64 n \<rparr>) \<rparr>)
                 }
               | None \<Rightarrow> Some (U \<lparr> ud_samples := (ud_samples U)(k \<mapsto> first_sample program data accounts) \<rparr>)))"

definition report_all_undecoded :: "undecoded \<Rightarrow> undecoded_sample set" where
  "report_all_undecoded U = ran (ud_samples U)"

definition undecoded_total :: "undecoded \<Rightarrow> u64" where
  "undecoded_total U = ud_total U"

section \<open>Fixtures\<close>

text \<open>The text of a key and the base64 encoder are third-party code. A write can fail; so can the creation of
  the directory. An I/O error is represented by the path it names.\<close>

record dump_env =
  du_show_key :: "pubkey \<Rightarrow> string"
  du_base64 :: "bytes \<Rightarrow> string"
  du_create_fails :: bool
  du_write_fails :: "path \<Rightarrow> bool"

definition hex_bytes :: "bytes \<Rightarrow> string" where
  "hex_bytes bs = concat (map (\<lambda>b. [hex_digit (unat b div 16), hex_digit (unat b mod 16)]) bs)"

fun separated :: "string \<Rightarrow> string list \<Rightarrow> string" where
  "separated sep [] = []"
| "separated sep [s] = s"
| "separated sep (s # t # ss) = s @ sep @ separated sep (t # ss)"

definition debug_bytes :: "bytes \<Rightarrow> string" where
  "debug_bytes bs = ''['' @ separated '', '' (map (\<lambda>b. show_nat (unat b)) bs) @ '']''"

definition fixture_path :: "dump_env \<Rightarrow> path \<Rightarrow> undecoded_sample \<Rightarrow> path" where
  "fixture_path E dir s =
     dir @ ''/'' @ take 8 (du_show_key E (un_program s)) @ ''_'' @ hex_bytes (un_discriminator s) @ ''.json''"

definition quote_mark :: string where
  "quote_mark = [CHR 0x22]"

definition quoted :: "string \<Rightarrow> string" where
  "quoted s = quote_mark @ s @ quote_mark"

definition fixture_json :: "dump_env \<Rightarrow> undecoded_sample \<Rightarrow> string" where
  "fixture_json E s =
     (let entry = (\<lambda>name v. ''  '' @ quoted name @ '': '' @ v)
      in ''{'' @ [CHR 0x0A] @
         separated ('','' @ [CHR 0x0A])
           [entry ''program'' (quoted (du_show_key E (un_program s))),
            entry ''discriminator'' (debug_bytes (un_discriminator s)),
            entry ''seen'' (show_nat (unat (un_seen s))),
            entry ''captured_at'' (quoted ''firehose''),
            entry ''data_len'' (show_nat (length (un_data s))),
            entry ''data_b64'' (quoted (du_base64 E (un_data s))),
            entry ''accounts'' (''['' @ separated '', '' (map (\<lambda>a. quoted (du_show_key E a)) (un_accounts s)) @ '']'')] @
         [CHR 0x0A] @ ''}'' @ [CHR 0x0A])"

text \<open>The loop over the samples, in the order in which the map yields them.\<close>

fun dump_samples ::
    "dump_env \<Rightarrow> path \<Rightarrow> undecoded_sample list \<Rightarrow> nat \<Rightarrow> fs \<Rightarrow> (path + nat) \<times> fs" where
  "dump_samples E dir [] written f = (Inr written, f)"
| "dump_samples E dir (s # ss) written f =
     (let p = fixture_path E dir s
      in if f p \<noteq> None then dump_samples E dir ss written f
         else if du_write_fails E p then (Inl p, f)
         else dump_samples E dir ss (written + 1) (f(p \<mapsto> map (\<lambda>c. of_nat (of_char c)) (fixture_json E s))))"

definition dump_fixtures :: "dump_env \<Rightarrow> path \<Rightarrow> undecoded_sample list \<Rightarrow> fs \<Rightarrow> (path + nat) \<times> fs" where
  "dump_fixtures E dir samples f = (if du_create_fails E then (Inl dir, f) else dump_samples E dir samples 0 f)"

section \<open>The store is a summary of the reports\<close>

type_synonym undecoded_report = "pubkey \<times> bytes \<times> pubkey list"

fun report_shape :: "undecoded_report \<Rightarrow> shape_key" where
  "report_shape (program, data, accounts) = shape_of program data accounts"

fun report_list :: "bool \<Rightarrow> undecoded_report list \<Rightarrow> undecoded \<Rightarrow> undecoded option" where
  "report_list oc [] U = Some U"
| "report_list oc ((program, data, accounts) # rs) U =
     Option.bind (report_undecoded oc program data accounts U) (report_list oc rs)"

text \<open>The specification: per shape, the first report with the number of reports.\<close>

definition summary :: "undecoded_report list \<Rightarrow> shape_key \<rightharpoonup> undecoded_sample" where
  "summary rs k =
     (case filter (\<lambda>r. report_shape r = k) rs of
        [] \<Rightarrow> None
      | (program, data, accounts) # more_reports \<Rightarrow>
          Some (first_sample program data accounts \<lparr> un_seen := word_of_nat (Suc (length more_reports)) \<rparr>))"

lemma summary_snoc:
  "summary (rs @ [(program, data, accounts)]) =
     (summary rs)(shape_of program data accounts \<mapsto>
        (case summary rs (shape_of program data accounts) of
           Some s \<Rightarrow> s \<lparr> un_seen := un_seen s + 1 \<rparr>
         | None \<Rightarrow> first_sample program data accounts))"
proof
  fix k
  show "summary (rs @ [(program, data, accounts)]) k = ((summary rs)(shape_of program data accounts \<mapsto>
        (case summary rs (shape_of program data accounts) of
           Some s \<Rightarrow> s \<lparr> un_seen := un_seen s + 1 \<rparr>
         | None \<Rightarrow> first_sample program data accounts))) k"
    by (cases "filter (\<lambda>r. report_shape r = k) rs") (auto simp: summary_def first_sample_def split: prod.splits)
qed

lemma summary_seen:
  assumes "summary rs k = Some s" "length rs < 2 ^ 64 - 1"
  shows "unat (un_seen s) < 2 ^ 64 - 1"
proof -
  obtain r more_reports where split: "filter (\<lambda>r. report_shape r = k) rs = r # more_reports"
    using assms(1) by (auto simp: summary_def split: list.splits)
  have "Suc (length more_reports) \<le> length rs"
    using length_filter_le [of "\<lambda>r. report_shape r = k" rs] by (simp add: split)
  then show ?thesis
    using assms split
    by (cases r) (auto simp: summary_def unsigned_of_nat take_bit_nat_eq_self simp del: of_nat_Suc)
qed

lemma report_list_summary:
  assumes "ud_capture U" "ud_samples U = summary before" "length before + length rs < 2 ^ 64 - 1"
  shows "report_list oc rs U =
    Some \<lparr> ud_total = ud_total U + word_of_nat (length rs), ud_capture = True, ud_samples = summary (before @ rs) \<rparr>"
  using assms
proof (induction rs arbitrary: before U)
  case (Cons r rs)
  obtain program data accounts where r: "r = (program, data, accounts)"
    by (cases r)
  let ?k = "shape_of program data accounts"
  let ?U = "U \<lparr> ud_total := ud_total U + 1, ud_samples := summary (before @ [r]) \<rparr>"
  have "report_undecoded oc program data accounts U = Some ?U"
  proof (cases "summary before ?k")
    case None
    then show ?thesis
      using Cons.prems(1,2) by (simp add: report_undecoded_def Let_def r summary_snoc)
  next
    case (Some s)
    then have "unat (un_seen s) < 2 ^ 64 - 1"
      using summary_seen Cons.prems(3) by fastforce
    then have "u_add oc 64 (unat (un_seen s)) 1 = Some (unat (un_seen s) + 1)" "as_u64 (unat (un_seen s) + 1) = un_seen s + 1"
      by (simp_all add: u_add_def)
    then show ?thesis
      using Cons.prems(1,2) Some by (simp add: report_undecoded_def Let_def r summary_snoc add.commute)
  qed
  moreover have "report_list oc rs ?U =
      Some \<lparr> ud_total = ud_total ?U + word_of_nat (length rs), ud_capture = True,
        ud_samples = summary ((before @ [r]) @ rs) \<rparr>"
    by (rule Cons.IH) (use Cons.prems in simp_all)
  ultimately show ?case
    by (simp add: r)
qed (cases U, simp)

text \<open>C6: The store of undecoded instructions is the summary of what was reported since capture was switched on:
  for every shape the first instruction of that shape is kept, unchanged, with the number of its
  sightings, nothing is dropped and nothing is stored twice; and every report is counted, also before
  capture, where nothing is kept. Below the capacity of the counters no report panics.\<close>

theorem undecoded_store_summarises:
  assumes "length before + length rs < 2 ^ 64 - 1"
  shows "\<exists>U V. report_list oc before undecoded_initial = Some U \<and> report_list oc rs (enable_capture U) = Some V \<and>
    ud_samples U = Map.empty \<and> ud_samples V = summary rs \<and>
    unat (undecoded_total V) = length before + length rs"
proof -
  have silent: "report_list oc rs' W = Some (W \<lparr> ud_total := ud_total W + word_of_nat (length rs') \<rparr>)"
    if "\<not> ud_capture W" for rs' W
    using that by (induction rs' arbitrary: W) (auto simp: report_undecoded_def Let_def)
  let ?U = "undecoded_initial \<lparr> ud_total := word_of_nat (length before) \<rparr>"
  have U: "report_list oc before undecoded_initial = Some ?U"
    using silent [of undecoded_initial before] by (simp add: undecoded_initial_def)
  have "ud_samples (enable_capture ?U) = summary []"
    by (simp add: enable_capture_def undecoded_initial_def summary_def fun_eq_iff)
  from report_list_summary [OF _ this, of rs oc] assms
  have "report_list oc rs (enable_capture ?U) =
      Some \<lparr> ud_total = word_of_nat (length before) + word_of_nat (length rs), ud_capture = True, ud_samples = summary rs \<rparr>"
    by (simp add: enable_capture_def)
  moreover have "unat (word_of_nat (length before) + word_of_nat (length rs) :: u64) = length before + length rs"
    using assms by (simp flip: of_nat_add add: unsigned_of_nat take_bit_nat_eq_self)
  ultimately show ?thesis
    using U by (auto simp: undecoded_total_def undecoded_initial_def)
qed

theorem undecoded_store_summarises_witness:
  "\<exists>U V. report_list True [([1], [9], [])] undecoded_initial = Some U \<and>
     report_list True [([1], [9, 9], []), ([1], [9, 9], [])] (enable_capture U) = Some V \<and> unat (undecoded_total V) = 3"
  using undecoded_store_summarises [of "[([1], [9], [])]" "[([1], [9, 9], []), ([1], [9, 9], [])]" True] by auto

text \<open>A fixture that exists is never written again, so a second dump writes nothing.\<close>

definition written_fixture :: "dump_env \<Rightarrow> path \<Rightarrow> undecoded_sample \<Rightarrow> fs \<Rightarrow> fs" where
  "written_fixture E dir s f = f(fixture_path E dir s \<mapsto> map (\<lambda>c. of_nat (of_char c)) (fixture_json E s))"

lemma dump_cases:
  "dump_samples E dir (s # ss) n f =
     (if f (fixture_path E dir s) \<noteq> None then dump_samples E dir ss n f
      else if du_write_fails E (fixture_path E dir s) then (Inl (fixture_path E dir s), f)
      else dump_samples E dir ss (n + 1) (written_fixture E dir s f))"
  by (simp add: Let_def written_fixture_def)

declare dump_samples.simps(2) [simp del]

lemma written_keeps: "f p = Some bs \<Longrightarrow> f (fixture_path E dir s) = None \<Longrightarrow> written_fixture E dir s f p = Some bs"
  by (auto simp: written_fixture_def)

lemma dump_keeps:
  "dump_samples E dir ss n f = (r, f') \<Longrightarrow> f p = Some bs \<Longrightarrow> f' p = Some bs"
  by (induction ss arbitrary: n f) (auto simp: dump_cases written_keeps split: if_splits)

lemma dump_covers:
  "dump_samples E dir ss n f = (Inr m, f') \<Longrightarrow> s \<in> set ss \<Longrightarrow> f' (fixture_path E dir s) \<noteq> None"
proof (induction ss arbitrary: n f)
  case (Cons t ss)
  show ?case
  proof (cases "f (fixture_path E dir t)")
    case None
    then have rest: "dump_samples E dir ss (n + 1) (written_fixture E dir t f) = (Inr m, f')"
      using Cons.prems(1) by (auto simp: dump_cases split: if_splits)
    have "\<exists>bs. written_fixture E dir t f (fixture_path E dir t) = Some bs"
      by (simp add: written_fixture_def)
    then show ?thesis
      using Cons.IH [OF rest] Cons.prems(2) dump_keeps [OF rest] by auto
  next
    case (Some bs)
    then have rest: "dump_samples E dir ss n f = (Inr m, f')"
      using Cons.prems(1) by (simp add: dump_cases)
    then show ?thesis
      using Cons.IH [OF rest] Cons.prems(2) dump_keeps [OF rest Some] by auto
  qed
qed simp

lemma dump_nothing_new:
  "\<forall>s \<in> set ss. f (fixture_path E dir s) \<noteq> None \<Longrightarrow> dump_samples E dir ss n f = (Inr n, f)"
  by (induction ss) (auto simp: dump_cases)

lemma dump_twice:
  assumes "dump_fixtures E dir ss f = (Inr m, f')"
  shows "dump_fixtures E dir ss f' = (Inr 0, f')"
  using assms dump_nothing_new [of ss f' E dir 0] dump_covers [of E dir ss 0 f m f'] by (simp add: dump_fixtures_def split: if_splits)

text \<open>The store tells shapes apart that the files do not: of two samples with one program and one
  discriminator, only the one that comes first in the map's order gets a fixture.\<close>

lemma dump_drops_a_shape:
  assumes "un_program s = un_program t" "un_discriminator s = un_discriminator t"
    and "f (fixture_path E dir s) = None" "\<not> du_write_fails E (fixture_path E dir s)" "\<not> du_create_fails E"
  shows "fst (dump_fixtures E dir [s, t] f) = Inr 1"
  using assms by (simp add: dump_fixtures_def dump_cases) (simp add: fixture_path_def written_fixture_def)

end
