(* ===== verification/Sources.thy ===== *)
theory Sources
  imports Extract
begin

text \<open>
  The contract of transaction sources and what it derives (parsing/source.rs, chain/extract/context.rs): the
  payer, the change of a SOL balance, the changes of token balances by owner, and the view of balances
  that the extractors are given. The theorems compare the changes by owner with the pairing of
  \<open>ChainTypes\<close>, which conserves balances.
\<close>

section \<open>Sources\<close>

datatype source_error =
    MissingMeta
  | InvalidSignature string
  | InvalidPubkeyAt string string
  | InvalidAmountAt string string
  | UnsupportedFormat string
  | DecodeError string
  | TransactionFailed string

fun source_error_text :: "source_error \<Rightarrow> string" where
  "source_error_text MissingMeta = ''transaction metadata missing''"
| "source_error_text (InvalidSignature s) = ''invalid signature: '' @ s"
| "source_error_text (InvalidPubkeyAt c v) = ''invalid pubkey at '' @ c @ '': '' @ v"
| "source_error_text (InvalidAmountAt c v) = ''invalid amount at '' @ c @ '': '' @ v"
| "source_error_text (UnsupportedFormat s) = ''unsupported transaction format: '' @ s"
| "source_error_text (DecodeError s) = ''failed to decode instruction data: '' @ s"
| "source_error_text (TransactionFailed s) = ''transaction failed: '' @ s"

record transaction_meta =
  mt_fee :: u64
  mt_pre_balances :: "u64 list"
  mt_post_balances :: "u64 list"
  mt_log_messages :: "string list"
  mt_error :: "string option"
  mt_compute_units_consumed :: "u64 option"

record source_balance =
  sb_owner :: pubkey
  sb_mint :: pubkey
  sb_amount :: u64
  sb_decimals :: u8
  sb_pre_amount :: "u64 option"

text \<open>What an implementation answers.\<close>

record transaction_source =
  tx_slot :: u64
  tx_signatures :: "source_error + bytes list"
  tx_accounts :: "source_error + pubkey list"
  tx_static_accounts :: "source_error + pubkey list"
  tx_meta :: "source_error + transaction_meta"
  tx_log_messages :: "source_error + string list"
  tx_failure :: "string option"
  tx_pre_token_balances :: "source_error + source_balance list"
  tx_post_token_balances :: "source_error + source_balance list"
  tx_pre_balances :: "source_error + u64 list"
  tx_post_balances :: "source_error + u64 list"
  tx_instructions :: "source_error + parsed_instruction list"

text \<open>The methods with a default body.\<close>

definition tx_block_time :: "transaction_source \<Rightarrow> int option" where
  "tx_block_time S = None"

definition source_failed :: "transaction_source \<Rightarrow> bool" where
  "source_failed S \<longleftrightarrow> tx_failure S \<noteq> None"

definition fee_payer :: "transaction_source \<Rightarrow> source_error + pubkey" where
  "fee_payer S =
     ebind (tx_accounts S) (\<lambda>ks. case ks of [] \<Rightarrow> Inl MissingMeta | k # _ \<Rightarrow> Inr k)"

fun first_index :: "pubkey \<Rightarrow> pubkey list \<Rightarrow> nat option" where
  "first_index k [] = None"
| "first_index k (a # ks) = (if a = k then Some 0 else map_option Suc (first_index k ks))"

definition get_or_zero :: "u64 list \<Rightarrow> nat \<Rightarrow> u64" where
  "get_or_zero xs i = (if i < length xs then xs ! i else 0)"

text \<open>\<open>as i64\<close> takes the 64 bits as a signed number; the subtraction is checked or wraps.\<close>

definition as_i64 :: "u64 \<Rightarrow> int" where
  "as_i64 w = (if unat w < 2 ^ 63 then int (unat w) else int (unat w) - 2 ^ 64)"

definition sol_balance_change :: "bool \<Rightarrow> transaction_source \<Rightarrow> pubkey \<Rightarrow> (source_error, int) outcome" where
  "sol_balance_change oc S account =
     (case (tx_accounts S, tx_pre_balances S, tx_post_balances S) of
        (Inl e, _, _) \<Rightarrow> Some (Inl e)
      | (Inr _, Inl e, _) \<Rightarrow> Some (Inl e)
      | (Inr _, Inr _, Inl e) \<Rightarrow> Some (Inl e)
      | (Inr ks, Inr pre, Inr post) \<Rightarrow>
          (case first_index account ks of
             None \<Rightarrow> Some (Inr 0)
           | Some i \<Rightarrow>
               map_option Inr (i_fit oc 64 (as_i64 (get_or_zero post i) - as_i64 (get_or_zero pre i)))))"

section \<open>Token balances by owner\<close>

definition pre_amount_of :: "source_balance list \<Rightarrow> pubkey \<times> pubkey \<rightharpoonup> u64" where
  "pre_amount_of pre = foldl (\<lambda>m b. m((sb_owner b, sb_mint b) \<mapsto> sb_amount b)) Map.empty pre"

definition balance_change :: "source_balance list \<Rightarrow> source_balance \<Rightarrow> source_balance" where
  "balance_change pre b =
     \<lparr> sb_owner = sb_owner b, sb_mint = sb_mint b, sb_amount = sb_amount b, sb_decimals = sb_decimals b,
       sb_pre_amount = Some (case pre_amount_of pre (sb_owner b, sb_mint b) of Some a \<Rightarrow> a | None \<Rightarrow> 0) \<rparr>"

definition push_change :: "(pubkey \<rightharpoonup> source_balance list) \<Rightarrow> source_balance \<Rightarrow> (pubkey \<rightharpoonup> source_balance list)" where
  "push_change m c = m(sb_owner c \<mapsto> (case m (sb_owner c) of Some cs \<Rightarrow> cs | None \<Rightarrow> []) @ [c])"

definition token_balance_changes ::
    "transaction_source \<Rightarrow> source_error + (pubkey \<rightharpoonup> source_balance list)" where
  "token_balance_changes S =
     ebind (tx_pre_token_balances S) (\<lambda>pre.
     ebind (tx_post_token_balances S) (\<lambda>post.
     Inr (foldl (\<lambda>m b. push_change m (balance_change pre b)) Map.empty post)))"

definition sb_change :: "source_balance \<Rightarrow> int option" where
  "sb_change b = map_option (\<lambda>p. int (unat (sb_amount b)) - int (unat p)) (sb_pre_amount b)"

definition is_deposit :: "source_balance \<Rightarrow> bool option" where
  "is_deposit b = map_option (\<lambda>c. c > 0) (sb_change b)"

definition is_withdrawal :: "source_balance \<Rightarrow> bool option" where
  "is_withdrawal b = map_option (\<lambda>c. c < 0) (sb_change b)"

definition abs_change :: "source_balance \<Rightarrow> u64 option" where
  "abs_change b = map_option (\<lambda>c. word_of_int \<bar>c\<bar>) (sb_change b)"

section \<open>The context of an extractor\<close>

record extract_context =
  ec_token_mint :: "pubkey \<Rightarrow> pubkey option"
  ec_pre_balance :: "pubkey \<Rightarrow> u64 option"
  ec_post_balance :: "pubkey \<Rightarrow> u64 option"

definition balance_delta :: "extract_context \<Rightarrow> pubkey \<Rightarrow> int option" where
  "balance_delta C k = do {
     pre \<leftarrow> ec_pre_balance C k;
     post \<leftarrow> ec_post_balance C k;
     Some (int (unat post) - int (unat pre))
   }"

definition no_context :: extract_context where
  "no_context = \<lparr> ec_token_mint = (\<lambda>_. None), ec_pre_balance = (\<lambda>_. None), ec_post_balance = (\<lambda>_. None) \<rparr>"

lemma no_context_knows_nothing: "balance_delta no_context k = None"
  by (simp add: balance_delta_def no_context_def)

section \<open>SOL\<close>

lemma first_index_nth: "distinct ks \<Longrightarrow> i < length ks \<Longrightarrow> first_index (ks ! i) ks = Some i"
proof (induction ks arbitrary: i)
  case (Cons a ks)
  then show ?case
    by (cases i) auto
qed simp

lemma first_index_unlisted: "k \<notin> set ks \<Longrightarrow> first_index k ks = None"
  by (induction ks) auto

lemma as_i64_small: "unat w < 2 ^ 63 \<Longrightarrow> as_i64 w = int (unat w)"
  by (simp add: as_i64_def)

lemma difference_fits: "a < 2 ^ 63 \<Longrightarrow> b < 2 ^ 63 \<Longrightarrow> in_signed 64 (int a - int b)"
  by (simp add: in_signed_def)

text \<open>Balances below \<open>2 ^ 63\<close> lamports, which the supply of SOL guarantees, change by their difference;
  an account that is not listed changes by zero.\<close>

lemma sol_change_is_difference:
  assumes "tx_accounts S = Inr ks" "tx_pre_balances S = Inr pre" "tx_post_balances S = Inr post"
    and "\<forall>w \<in> set pre \<union> set post. unat w < 2 ^ 63" "length pre = length ks" "length post = length ks"
    and "distinct ks" "i < length ks"
  shows "sol_balance_change oc S (ks ! i) = Some (Inr (int (unat (post ! i)) - int (unat (pre ! i))))"
proof -
  have small: "unat (pre ! i) < 2 ^ 63" "unat (post ! i) < 2 ^ 63"
    using assms(4,5,6,8) by auto
  then have "in_signed 64 (int (unat (post ! i)) - int (unat (pre ! i)))"
    by (intro difference_fits)
  then show ?thesis
    using assms(1,2,3,5,6,8) small first_index_nth [OF assms(7,8)]
    by (simp add: sol_balance_change_def get_or_zero_def as_i64_small i_fit_ok)
qed

section \<open>What the changes by owner miss\<close>

lemma push_changes:
  "foldl (\<lambda>m b. push_change m (balance_change pre b)) m post h =
     (if filter (\<lambda>b. sb_owner b = h) post = [] then m h
      else Some ((case m h of Some cs \<Rightarrow> cs | None \<Rightarrow> []) @
        map (balance_change pre) (filter (\<lambda>b. sb_owner b = h) post)))"
  by (induction post arbitrary: m) (auto simp: push_change_def balance_change_def)

text \<open>Every entry after is listed once, under its owner, in order; an owner without one is not listed.\<close>

lemma changes_list_posts:
  assumes "tx_pre_token_balances S = Inr pre" "tx_post_token_balances S = Inr post"
  shows "\<exists>m. token_balance_changes S = Inr m \<and> (\<forall>h. m h =
    (case filter (\<lambda>b. sb_owner b = h) post of [] \<Rightarrow> None | bs \<Rightarrow> Some (map (balance_change pre) bs)))"
  using assms by (auto simp: token_balance_changes_def push_changes split: list.splits)

lemma pre_amount_of_snoc:
  "pre_amount_of (pre @ [b]) = (pre_amount_of pre)((sb_owner b, sb_mint b) \<mapsto> sb_amount b)"
  by (simp add: pre_amount_of_def)

lemma distinct_map_apart: "distinct (map f (x # xs)) \<Longrightarrow> y \<in> set xs \<Longrightarrow> f y \<noteq> f x"
  by (metis distinct.simps(2) image_eqI list.map(2) list.set_map)

lemma pre_amount_of_distinct:
  "distinct (map (\<lambda>b. (sb_owner b, sb_mint b)) pre) \<Longrightarrow> b \<in> set pre \<Longrightarrow>
     pre_amount_of pre (sb_owner b, sb_mint b) = Some (sb_amount b)"
proof (induction pre rule: rev_induct)
  case (snoc x xs)
  have apart: "distinct (map (\<lambda>b. (sb_owner b, sb_mint b)) (x # xs))"
    using snoc.prems(1) by simp
  show ?case
  proof (cases "b \<in> set xs")
    case True
    then have "(sb_owner b, sb_mint b) \<noteq> (sb_owner x, sb_mint x)"
      using distinct_map_apart [OF apart] by blast
    then show ?thesis
      using snoc True by (auto simp: pre_amount_of_snoc)
  next
    case False
    then show ?thesis
      using snoc.prems(2) by (simp add: pre_amount_of_snoc)
  qed
qed simp

lemma pre_amount_of_absent:
  "\<forall>b \<in> set pre. (sb_owner b, sb_mint b) \<noteq> k \<Longrightarrow> pre_amount_of pre k = None"
  by (induction pre rule: rev_induct) (auto simp: pre_amount_of_snoc, simp add: pre_amount_of_def)

text \<open>An entry of the runtime's list, as the two modules have it.\<close>

definition balance_of_entry :: "token_balance_entry \<Rightarrow> source_balance" where
  "balance_of_entry e =
     \<lparr> sb_owner = tb_owner e, sb_mint = tb_mint e, sb_amount = tb_raw e, sb_decimals = tb_decimals e,
       sb_pre_amount = None \<rparr>"

definition changes_of :: "token_balance_entry list \<Rightarrow> token_balance_entry list \<Rightarrow> source_balance list" where
  "changes_of pre post = map (balance_change (map balance_of_entry pre)) (map balance_of_entry post)"

definition source_gain :: "pubkey \<Rightarrow> pubkey \<Rightarrow> source_balance list \<Rightarrow> int" where
  "source_gain h m cs =
     sum_list (map (\<lambda>c. if sb_owner c = h \<and> sb_mint c = m then the (sb_change c) else 0) cs)"

text \<open>Where a holder has at most one account of a token before and after, and one after if it has one before, the
  changes by owner are right.\<close>

lemma balance_of_entry_fields [simp]:
  "sb_owner (balance_of_entry e) = tb_owner e" "sb_mint (balance_of_entry e) = tb_mint e"
  "sb_amount (balance_of_entry e) = tb_raw e"
  by (simp_all add: balance_of_entry_def)

lemma balance_change_fields [simp]:
  "sb_owner (balance_change pre b) = sb_owner b" "sb_mint (balance_change pre b) = sb_mint b"
  by (simp_all add: balance_change_def)

lemma held_own [simp]: "held (tb_owner e) (tb_mint e) e = int (unat (tb_raw e))"
  by (simp add: held_def)

lemma held_apart: "(tb_owner x, tb_mint x) \<noteq> (h, m) \<Longrightarrow> held h m x = 0"
  by (auto simp: held_def)

lemma unique_entry_sum:
  assumes "distinct (map (\<lambda>e. (tb_owner e, tb_mint e)) es)" "e \<in> set es"
  shows "sum_list (map (held (tb_owner e) (tb_mint e)) es) = int (unat (tb_raw e))"
  using assms
proof (induction es)
  case (Cons x es)
  have none: "sum_list (map (held h m) fs) = 0" if "\<forall>f \<in> set fs. (tb_owner f, tb_mint f) \<noteq> (h, m)" for h m fs
    using that by (induction fs) (auto simp: held_def)
  show ?case
  proof (cases "e = x")
    case True
    then have "\<forall>f \<in> set es. (tb_owner f, tb_mint f) \<noteq> (tb_owner e, tb_mint e)"
      using distinct_map_apart [OF Cons.prems(1)] by blast
    from none [OF this] show ?thesis
      using True by simp
  next
    case False
    then have "e \<in> set es"
      using Cons.prems(2) by simp
    moreover have "(tb_owner x, tb_mint x) \<noteq> (tb_owner e, tb_mint e)"
      using distinct_map_apart [OF Cons.prems(1)] \<open>e \<in> set es\<close> by metis
    ultimately show ?thesis
      using Cons held_apart [of x] by simp
  qed
qed simp

lemma no_entry_sum:
  "\<forall>f \<in> set fs. (tb_owner f, tb_mint f) \<noteq> (h, m) \<Longrightarrow> sum_list (map (held h m) fs) = 0"
  by (induction fs) (auto simp: held_def)

lemma source_gain_none:
  "\<forall>f \<in> set post. (tb_owner f, tb_mint f) \<noteq> (h, m) \<Longrightarrow> source_gain h m (changes_of pre post) = 0"
  by (induction post) (auto simp: source_gain_def changes_of_def)

lemma source_gain_one:
  assumes "distinct (map (\<lambda>e. (tb_owner e, tb_mint e)) post)" "p \<in> set post"
  shows "source_gain (tb_owner p) (tb_mint p) (changes_of pre post) =
    the (sb_change (balance_change (map balance_of_entry pre) (balance_of_entry p)))"
  using assms
proof (induction post)
  case (Cons x post)
  show ?case
  proof (cases "p = x")
    case True
    then have "\<forall>f \<in> set post. (tb_owner f, tb_mint f) \<noteq> (tb_owner p, tb_mint p)"
      using distinct_map_apart [OF Cons.prems(1)] by blast
    from source_gain_none [OF this, of pre] show ?thesis
      using True by (simp add: source_gain_def changes_of_def)
  next
    case False
    then have "p \<in> set post"
      using Cons.prems(2) by simp
    moreover have "(tb_owner x, tb_mint x) \<noteq> (tb_owner p, tb_mint p)"
      using distinct_map_apart [OF Cons.prems(1)] \<open>p \<in> set post\<close> by metis
    ultimately show ?thesis
      using Cons by (auto simp: source_gain_def changes_of_def)
  qed
qed simp

lemma unique_changes_agree:
  assumes "distinct (map (\<lambda>e. (tb_owner e, tb_mint e)) pre)" "distinct (map (\<lambda>e. (tb_owner e, tb_mint e)) post)"
    and "\<exists>p \<in> set post. (tb_owner p, tb_mint p) = (h, m)"
  shows "source_gain h m (changes_of pre post) = sum_list (map (gained h m) (pair_balances pre post))"
proof -
  obtain p where p: "p \<in> set post" "tb_owner p = h" "tb_mint p = m"
    using assms(3) by auto
  have sources: "distinct (map (\<lambda>b. (sb_owner b, sb_mint b)) (map balance_of_entry pre))"
    using assms(1) by (simp add: comp_def)
  have "(case pre_amount_of (map balance_of_entry pre) (h, m) of Some a \<Rightarrow> int (unat a) | None \<Rightarrow> 0) =
      sum_list (map (held h m) pre)"
  proof (cases "\<exists>q \<in> set pre. (tb_owner q, tb_mint q) = (h, m)")
    case True
    then obtain q where q: "q \<in> set pre" "tb_owner q = h" "tb_mint q = m"
      by auto
    then show ?thesis
      using pre_amount_of_distinct [OF sources, of "balance_of_entry q"] unique_entry_sum [OF assms(1) q(1)]
      by simp
  next
    case False
    then have "pre_amount_of (map balance_of_entry pre) (h, m) = None"
      by (intro pre_amount_of_absent) auto
    then show ?thesis
      using no_entry_sum [of pre h m] False by auto
  qed
  then have "the (sb_change (balance_change (map balance_of_entry pre) (balance_of_entry p))) =
      sum_list (map (held h m) post) - sum_list (map (held h m) pre)"
    using unique_entry_sum [OF assms(2) p(1)] p(2,3)
    by (auto simp: sb_change_def balance_change_def split: option.splits)
  then show ?thesis
    using source_gain_one [OF assms(2) p(1), of pre] pair_balances_gain [of h m pre post] p(2,3) by simp
qed

text \<open>Where a holder has two accounts of one token, the amount before of the account that is listed last stands for
  both; and an account that the transaction closed has no change at all.\<close>

lemma source_changes_miscount:
  "source_gain [1] [9] (changes_of [example_entry 1 [1] 100, example_entry 2 [1] 7] [example_entry 1 [1] 100, example_entry 2 [1] 7]) = 93"
  "source_gain [1] [9] (changes_of [example_entry 1 [1] 100] []) = 0"
  "sum_list (map (gained [1] [9]) (pair_balances [example_entry 1 [1] 100] [])) = - 100"
  by (simp_all add: source_gain_def changes_of_def balance_change_def balance_of_entry_def example_entry_def sb_change_def
      pre_amount_of_def pair_balances_def change_defs List.enumerate_simps)

end
