(* ===== verification/Platform.thy ===== *)
theory Platform
  imports PumpBuild
begin

text \<open>
  The platform through which a transaction was submitted (platform.rs) and the verification of vendored IDLs
  (idl/mod.rs). The named platforms are one table; the theorems say that both directions of it agree
  and what a transaction is attributed to. SHA-256 and the reading of files are parameters.
\<close>

section \<open>Platforms\<close>

definition jupiter_v6 :: pubkey where
  "jupiter_v6 =
    [4, 121, 213, 91, 242, 49, 192, 110, 238, 116, 197, 110, 206, 104, 21, 7, 253, 177, 178, 222,
     163, 244, 142, 81, 2, 177, 205, 162, 86, 188, 19, 143]"

definition axiom_trade :: pubkey where
  "axiom_trade =
    [212, 236, 82, 84, 71, 221, 211, 147, 91, 138, 217, 212, 25, 189, 118, 23, 203, 175, 57, 222, 98,
     74, 3, 111, 59, 144, 37, 130, 243, 66, 230, 160]"

definition dflow_aggregator :: pubkey where
  "dflow_aggregator =
    [181, 227, 74, 20, 226, 188, 115, 72, 105, 14, 225, 245, 175, 93, 238, 214, 85, 56, 64, 163, 109,
     170, 184, 96, 176, 80, 96, 115, 189, 192, 60, 16]"

definition cielo_router :: pubkey where
  "cielo_router =
    [92, 190, 57, 55, 85, 26, 131, 240, 29, 7, 153, 237, 120, 28, 41, 43, 164, 44, 164, 253, 172,
     184, 102, 50, 42, 70, 40, 132, 203, 129, 252, 60]"

definition pumpfun_router_a :: pubkey where
  "pumpfun_router_a =
    [81, 170, 191, 190, 42, 27, 215, 131, 209, 146, 31, 230, 183, 173, 96, 129, 223, 23, 144, 219,
     216, 29, 160, 201, 29, 99, 79, 16, 153, 9, 55, 172]"

definition pumpfun_router_b :: pubkey where
  "pumpfun_router_b =
    [5, 42, 229, 215, 167, 218, 167, 36, 166, 234, 176, 167, 41, 84, 145, 133, 90, 212, 160, 103, 22,
     96, 103, 76, 78, 3, 69, 89, 128, 61, 101, 163]"

definition gmgn_a :: pubkey where
  "gmgn_a =
    [228, 43, 231, 127, 11, 27, 208, 70, 37, 130, 147, 59, 54, 250, 73, 124, 7, 56, 208, 123, 24,
     241, 253, 107, 23, 251, 215, 158, 204, 64, 83, 102]"

definition gmgn_b :: pubkey where
  "gmgn_b =
    [228, 16, 78, 132, 142, 78, 21, 27, 255, 111, 99, 239, 12, 211, 50, 212, 151, 198, 225, 34, 182,
     9, 43, 43, 193, 114, 26, 72, 253, 123, 196, 14]"

definition maestro_bot :: pubkey where
  "maestro_bot =
    [5, 69, 170, 246, 28, 60, 155, 230, 173, 160, 82, 83, 74, 91, 203, 121, 65, 66, 202, 98, 152,
     140, 244, 224, 117, 143, 201, 153, 189, 74, 66, 237]"

definition bloom_bot :: pubkey where
  "bloom_bot =
    [8, 182, 168, 245, 51, 56, 66, 252, 118, 74, 91, 78, 73, 8, 126, 153, 84, 45, 227, 252, 134, 138,
     195, 20, 214, 169, 221, 217, 155, 177, 133, 70]"

definition compute_budget :: pubkey where
  "compute_budget =
    [3, 6, 70, 111, 229, 33, 23, 50, 255, 236, 173, 186, 114, 195, 155, 231, 188, 140, 229, 187, 197,
     247, 18, 107, 44, 67, 155, 58, 64, 0, 0, 0]"

definition memo_v2 :: pubkey where
  "memo_v2 =
    [5, 74, 83, 90, 153, 41, 33, 6, 77, 36, 232, 113, 96, 218, 56, 124, 124, 53, 181, 221, 188, 146,
     187, 129, 228, 31, 168, 64, 65, 5, 68, 141]"

definition memo_v1 :: pubkey where
  "memo_v1 =
    [5, 74, 83, 80, 248, 93, 200, 130, 214, 20, 165, 86, 114, 120, 138, 41, 109, 223, 30, 171, 171,
     208, 166, 6, 120, 136, 73, 50, 244, 238, 246, 160]"

datatype trading_platform =
    Direct | Jupiter | Axiom | DFlow | Cielo | PumpFunRouter | Gmgn | Maestro | Bloom
  | OtherPlatform pubkey | Unattributed

definition named_platforms :: "(pubkey \<times> trading_platform) list" where
  "named_platforms =
     [(jupiter_v6, Jupiter), (axiom_trade, Axiom), (dflow_aggregator, DFlow), (cielo_router, Cielo),
      (pumpfun_router_a, PumpFunRouter), (pumpfun_router_b, PumpFunRouter), (gmgn_a, Gmgn), (gmgn_b, Gmgn),
      (maestro_bot, Maestro), (bloom_bot, Bloom)]"

fun platform_name :: "trading_platform \<Rightarrow> string" where
  "platform_name Direct = ''direct''"
| "platform_name Jupiter = ''jupiter''"
| "platform_name Axiom = ''axiom''"
| "platform_name DFlow = ''dflow''"
| "platform_name Cielo = ''cielo''"
| "platform_name PumpFunRouter = ''pumpfun_router''"
| "platform_name Gmgn = ''gmgn''"
| "platform_name Maestro = ''maestro''"
| "platform_name Bloom = ''bloom''"
| "platform_name (OtherPlatform _) = ''other''"
| "platform_name Unattributed = ''unattributed''"

fun platform_program :: "trading_platform \<Rightarrow> pubkey option" where
  "platform_program (OtherPlatform p) = Some p"
| "platform_program Direct = None"
| "platform_program Unattributed = None"
| "platform_program named = map_option fst (find (\<lambda>(_, p). p = named) named_platforms)"

definition platform_from_program_id :: "(protocol \<Rightarrow> pubkey) \<Rightarrow> pubkey \<Rightarrow> trading_platform" where
  "platform_from_program_id P program =
     (case find (\<lambda>(k, _). k = program) named_platforms of
        Some (_, named) \<Rightarrow> named
      | None \<Rightarrow> if protocol_from_program_id P program \<noteq> None then Direct else OtherPlatform program)"

text \<open>The system program and the program of associated accounts are keys of \<open>key_env\<close>.\<close>

definition is_companion :: "key_env \<Rightarrow> pubkey \<Rightarrow> bool" where
  "is_companion K program \<longleftrightarrow>
     program = compute_budget \<or> program = memo_v1 \<or> program = memo_v2 \<or> program = ke_system_program K \<or>
     program = ke_associated_token_program K \<or> program = te_spl_token_id (ke_tokens K) \<or>
     program = te_spl_token_2022_id (ke_tokens K)"

definition platform_resolve :: "key_env \<Rightarrow> (protocol \<Rightarrow> pubkey) \<Rightarrow> parsed_instruction list \<Rightarrow> trading_platform" where
  "platform_resolve K P ixs =
     (case map (\<lambda>ix. platform_from_program_id P (pi_program_id ix))
         (filter (\<lambda>ix. pi_stack_height ix = 1 \<and> \<not> is_companion K (pi_program_id ix)) ixs) of
        [] \<Rightarrow> Unattributed
      | p # _ \<Rightarrow> p)"

section \<open>IDL files\<close>

definition expected_idl_hashes :: "(string \<times> string) list" where
  "expected_idl_hashes = [(''pumpfun'', ''e3b0c44298fc1c149afbf4c8996fb92427ae41e4649b934ca495991b7852b855'')]"

record idl_verification =
  iv_protocol :: string
  iv_passed :: bool
  iv_expected :: string
  iv_actual :: "string option"
  iv_error :: "string option"

definition idl_passed :: "string \<Rightarrow> string \<Rightarrow> idl_verification" where
  "idl_passed protocol hash =
     \<lparr> iv_protocol = protocol, iv_passed = True, iv_expected = hash, iv_actual = Some hash, iv_error = None \<rparr>"

definition idl_failed :: "string \<Rightarrow> string \<Rightarrow> string \<Rightarrow> idl_verification" where
  "idl_failed protocol expected actual =
     \<lparr> iv_protocol = protocol, iv_passed = False, iv_expected = expected, iv_actual = Some actual,
       iv_error = Some (''Hash mismatch: expected '' @ expected @ '', got '' @ actual) \<rparr>"

definition idl_missing :: "string \<Rightarrow> string \<Rightarrow> idl_verification" where
  "idl_missing protocol expected =
     \<lparr> iv_protocol = protocol, iv_passed = False, iv_expected = expected, iv_actual = None,
       iv_error = Some ''IDL file not found'' \<rparr>"

definition verify_idl :: "(bytes \<Rightarrow> string) \<Rightarrow> string \<Rightarrow> bytes \<Rightarrow> string \<Rightarrow> idl_verification" where
  "verify_idl sha256 protocol content expected =
     (let actual = sha256 content
      in if actual = expected then idl_passed protocol expected else idl_failed protocol expected actual)"

definition get_expected_hash :: "string \<Rightarrow> string option" where
  "get_expected_hash protocol = map_option snd (find (\<lambda>(name, _). name = protocol) expected_idl_hashes)"

definition expected_hashes_map :: "string \<rightharpoonup> string" where
  "expected_hashes_map = foldl (\<lambda>m (name, hash). m(name \<mapsto> hash)) Map.empty expected_idl_hashes"

definition idl_failure_line :: "idl_verification \<Rightarrow> string" where
  "idl_failure_line v = ''  '' @ iv_protocol v @ '': '' @ (case iv_error v of Some e \<Rightarrow> e | None \<Rightarrow> ''unknown'')"

fun joined_lines :: "string list \<Rightarrow> string" where
  "joined_lines [] = []"
| "joined_lines [s] = s"
| "joined_lines (s # t # ss) = s @ [CHR 0x0A] @ joined_lines (t # ss)"

text \<open>The result on the table of hashes; the file of a protocol is \<open>protocol.json\<close>.\<close>

definition verify_all_idls ::
    "(bytes \<Rightarrow> string) \<Rightarrow> (string \<Rightarrow> bytes option) \<Rightarrow> error + idl_verification list" where
  "verify_all_idls sha256 read_file =
     (let results = map (\<lambda>(protocol, expected).
            case read_file (protocol @ ''.json'') of
              Some content \<Rightarrow> verify_idl sha256 protocol content expected
            | None \<Rightarrow> idl_missing protocol expected) expected_idl_hashes;
          failures = filter (\<lambda>v. \<not> iv_passed v) results
      in if failures \<noteq> []
         then Inl (protocol_error ''idl-verification''
                (''IDL verification failed:'' @ [CHR 0x0A] @ joined_lines (map idl_failure_line failures)))
         else Inr results)"

fun idl_name :: "protocol \<Rightarrow> string" where
  "idl_name Pumpfun = ''pumpfun''"
| "idl_name PumpSwap = ''pumpswap''"
| "idl_name RaydiumV4 = ''raydium_v4''"
| "idl_name RaydiumClmm = ''raydium_clmm''"
| "idl_name RaydiumCpmm = ''raydium_cpmm''"
| "idl_name RaydiumLaunchpad = ''raydium_launchpad''"
| "idl_name MeteoraDlmm = ''meteora_dlmm''"
| "idl_name MeteoraDbC = ''meteora_dbc''"
| "idl_name MeteoraDammV2 = ''meteora_damm_v2''"

section \<open>The table agrees with itself\<close>

lemmas platform_ids =
  jupiter_v6_def axiom_trade_def dflow_aggregator_def cielo_router_def pumpfun_router_a_def pumpfun_router_b_def
  gmgn_a_def gmgn_b_def maestro_bot_def bloom_bot_def

lemma named_platforms_distinct: "distinct (map fst named_platforms)"
  by (simp add: named_platforms_def platform_ids)

lemma find_entry: "distinct (map fst xs) \<Longrightarrow> (k, p) \<in> set xs \<Longrightarrow> find (\<lambda>(k', _). k' = k) xs = Some (k, p)"
  by (induction xs) force+

lemma find_no_entry: "k \<notin> set (map fst xs) \<Longrightarrow> find (\<lambda>(k', _). k' = k) xs = None"
  by (induction xs) auto

lemma named_platform_found:
  "(k, p) \<in> set named_platforms \<Longrightarrow> platform_from_program_id P k = p"
  using find_entry [OF named_platforms_distinct] by (simp add: platform_from_program_id_def)

lemma named_program_listed:
  "platform_program p = Some k \<Longrightarrow> (\<forall>q. p \<noteq> OtherPlatform q) \<Longrightarrow> (k, p) \<in> set named_platforms"
  by (cases p) (simp_all add: named_platforms_def)

text \<open>A platform that has a program is recognised by it, an unnamed one as long as its program is no protocol's
  and no named platform's.\<close>

lemma platform_program_inverse:
  assumes "platform_program p = Some k"
    and "\<forall>q. p = OtherPlatform q \<longrightarrow> q \<notin> set (map fst named_platforms) \<and> q \<notin> range P"
  shows "platform_from_program_id P k = p"
proof (cases "\<exists>q. p = OtherPlatform q")
  case True
  then obtain q where q: "p = OtherPlatform q" "k = q"
    using assms(1) by auto
  then have "find (\<lambda>(k', _). k' = k) named_platforms = None"
    using assms(2) q find_no_entry [of q named_platforms] by simp
  moreover have "protocol_from_program_id P k = None"
    using assms(2) q by (auto simp: protocol_from_program_id_def find_None_iff)
  ultimately show ?thesis
    using q by (simp add: platform_from_program_id_def)
next
  case False
  then show ?thesis
    using named_platform_found named_program_listed [OF assms(1)] by blast
qed

text \<open>Companions and inner calls do not change the attribution.\<close>

lemma platform_ignores_companions:
  "platform_resolve K P ixs =
     platform_resolve K P (filter (\<lambda>ix. pi_stack_height ix = 1 \<and> \<not> is_companion K (pi_program_id ix)) ixs)"
  by (simp add: platform_resolve_def)

text \<open>A trade that this crate builds and sends after any setup is a direct one.\<close>

lemma built_trade_is_direct:
  assumes "P Pumpfun = id_pumpfun (ke_ids K)" "inj P" "P Pumpfun \<notin> set (map fst named_platforms)"
    and "\<not> is_companion K (P Pumpfun)" "\<forall>ix \<in> set setup. is_companion K (pi_program_id ix)"
  shows "platform_resolve K P (setup @ sent (pumpfun_buy_build K k user p) # after) = Direct"
proof -
  have program: "pi_program_id (sent (pumpfun_buy_build K k user p)) = P Pumpfun"
    using assms(1) by (simp add: pumpfun_buy_build_def)
  have "filter (\<lambda>ix. pi_stack_height ix = 1 \<and> \<not> is_companion K (pi_program_id ix)) setup = []"
    using assms(5) by (simp add: filter_empty_conv)
  moreover have "pi_stack_height (sent (pumpfun_buy_build K k user p)) = 1"
    by (simp add: sent_def parsed_instruction_new_def)
  moreover have "find (\<lambda>(k', _). k' = P Pumpfun) named_platforms = None"
    by (rule find_no_entry) (rule assms(3))
  ultimately show ?thesis
    using program assms(2,4) by (simp add: platform_resolve_def platform_from_program_id_def)
qed

lemma verify_idl_passes: "iv_passed (verify_idl H n content expected) \<longleftrightarrow> H content = expected"
  by (simp add: verify_idl_def Let_def idl_passed_def idl_failed_def)

lemma verify_all_idls_Inr:
  "(\<exists>vs. verify_all_idls H read_file = Inr vs) \<longleftrightarrow>
     (\<forall>(n, expected) \<in> set expected_idl_hashes. \<exists>content. read_file (n @ ''.json'') = Some content \<and> H content = expected)"
  by (auto simp: verify_all_idls_def Let_def expected_idl_hashes_def verify_idl_def idl_passed_def idl_failed_def
      idl_missing_def split: option.splits)

end
