(* ===== verification/TokenOps.thy ===== *)
theory TokenOps
  imports InstructionData Tokens
begin

text \<open>
  The operations on token accounts (tokens.rs): mint data, instructions of the token programs, tracked
  balances and the builder. The instruction constructors and the unpacking of mints belong to the SPL
  crates: they are the fields of \<open>token_sdk\<close>, over their error type.
\<close>

section \<open>The SPL crates\<close>

record mint_state =
  ms_mint_authority :: "pubkey option"
  ms_supply :: u64
  ms_decimals :: u8
  ms_is_initialized :: bool
  ms_freeze_authority :: "pubkey option"

text \<open>\<open>td_close\<close> and \<open>td_transfer_checked\<close> exist in both crates, \<open>td_transfer\<close> is the classic one's.\<close>

record 'pe token_sdk =
  td_unpack_mint :: "bytes \<Rightarrow> 'pe + mint_state"
  td_unpack_extended :: "bytes \<Rightarrow> 'pe + mint_state"
  td_create_ata :: "pubkey \<Rightarrow> pubkey \<Rightarrow> pubkey \<Rightarrow> pubkey \<Rightarrow> instruction"
  td_close :: "token_program \<Rightarrow> pubkey \<Rightarrow> pubkey \<Rightarrow> pubkey \<Rightarrow> pubkey \<Rightarrow> 'pe + instruction"
  td_transfer :: "pubkey \<Rightarrow> pubkey \<Rightarrow> pubkey \<Rightarrow> pubkey \<Rightarrow> u64 \<Rightarrow> 'pe + instruction"
  td_transfer_checked ::
    "pubkey \<Rightarrow> pubkey \<Rightarrow> pubkey \<Rightarrow> pubkey \<Rightarrow> pubkey \<Rightarrow> u64 \<Rightarrow> u8 \<Rightarrow> 'pe + instruction"

section \<open>Mints\<close>

fun deserialize_mint :: "'pe token_sdk \<Rightarrow> token_program \<Rightarrow> bytes \<Rightarrow> 'pe + mint_state" where
  "deserialize_mint D SplToken data = td_unpack_mint D data"
| "deserialize_mint D SplToken2022 data =
     (case td_unpack_mint D data of Inr m \<Rightarrow> Inr m | Inl _ \<Rightarrow> td_unpack_extended D data)"

definition mint_decimals :: "'pe token_sdk \<Rightarrow> token_program \<Rightarrow> bytes \<Rightarrow> 'pe + u8" where
  "mint_decimals D p data = map_sum id ms_decimals (deserialize_mint D p data)"

fun base_token_text :: "base_token \<Rightarrow> string" where
  "base_token_text Sol = ''SOL''"
| "base_token_text Usdc = ''USDC''"
| "base_token_text Usdt = ''USDT''"

section \<open>Instructions\<close>

definition tk_create_ata :: "'pe token_sdk \<Rightarrow> token_env \<Rightarrow> token_with_program \<Rightarrow> pubkey \<Rightarrow> pubkey \<Rightarrow> instruction" where
  "tk_create_ata D E t owner payer = td_create_ata D payer owner (tk_mint t) (token_program_id E (tk_program t))"

definition tk_close_account ::
    "'pe token_sdk \<Rightarrow> token_env \<Rightarrow> token_with_program \<Rightarrow> pubkey \<Rightarrow> pubkey \<Rightarrow> pubkey \<Rightarrow> 'pe + instruction" where
  "tk_close_account D E t account destination authority =
     (case tk_program t of
        SplToken \<Rightarrow> td_close D SplToken (te_spl_token_id E) account destination authority
      | SplToken2022 \<Rightarrow> td_close D SplToken2022 (te_spl_token_2022_id E) account destination authority)"

definition tk_transfer ::
    "'pe token_sdk \<Rightarrow> token_env \<Rightarrow> token_with_program \<Rightarrow> pubkey \<Rightarrow> pubkey \<Rightarrow> pubkey \<Rightarrow> u64 \<Rightarrow> u8 \<Rightarrow> 'pe + instruction" where
  "tk_transfer D E t source destination authority n decimals =
     (case tk_program t of
        SplToken \<Rightarrow> td_transfer D (te_spl_token_id E) source destination authority n
      | SplToken2022 \<Rightarrow>
          td_transfer_checked D (te_spl_token_2022_id E) source (tk_mint t) destination authority n decimals)"

definition tk_transfer_simple ::
    "'pe token_sdk \<Rightarrow> token_env \<Rightarrow> token_with_program \<Rightarrow> pubkey \<Rightarrow> pubkey \<Rightarrow> pubkey \<Rightarrow> u64 \<Rightarrow> 'pe + instruction" where
  "tk_transfer_simple D E t source destination authority n =
     (case tk_program t of
        SplToken \<Rightarrow> td_transfer D (te_spl_token_id E) source destination authority n
      | SplToken2022 \<Rightarrow> td_transfer_checked D (te_spl_token_2022_id E) source (tk_mint t) destination authority n 0)"

section \<open>Token accounts\<close>

definition ta_spl_token :: "pubkey \<Rightarrow> pubkey \<Rightarrow> u64 \<Rightarrow> token_account" where
  "ta_spl_token mint owner balance = token_account_new (tk_spl_token mint) owner balance"

definition ta_token_2022 :: "pubkey \<Rightarrow> pubkey \<Rightarrow> u64 \<Rightarrow> token_account" where
  "ta_token_2022 mint owner balance = token_account_new (tk_token_2022 mint) owner balance"

definition ta_wsol :: "token_env \<Rightarrow> pubkey \<Rightarrow> u64 \<Rightarrow> token_account" where
  "ta_wsol E owner balance = token_account_new (tk_wsol E) owner balance"

definition ta_mint :: "token_account \<Rightarrow> pubkey" where
  "ta_mint a = tk_mint (ta_token a)"

definition ta_program :: "token_account \<Rightarrow> token_program" where
  "ta_program a = tk_program (ta_token a)"

definition ta_is_wsol :: "token_env \<Rightarrow> token_account \<Rightarrow> bool" where
  "ta_is_wsol E a = tk_is_wsol E (ta_token a)"

definition has_balance :: "token_account \<Rightarrow> u64 \<Rightarrow> bool" where
  "has_balance a n \<longleftrightarrow> n \<le> ta_balance a"

definition ta_create_ata :: "'pe token_sdk \<Rightarrow> token_env \<Rightarrow> token_account \<Rightarrow> pubkey \<Rightarrow> instruction" where
  "ta_create_ata D E a payer = tk_create_ata D E (ta_token a) (ta_owner a) payer"

definition ta_transfer_to ::
    "'pe token_sdk \<Rightarrow> token_env \<Rightarrow> token_account \<Rightarrow> pubkey \<Rightarrow> pubkey \<Rightarrow> u64 \<Rightarrow> u8 \<Rightarrow> 'pe + instruction" where
  "ta_transfer_to D E a destination authority n decimals =
     tk_transfer D E (ta_token a) (ta_ata E a) destination authority n decimals"

definition ta_transfer_to_account ::
    "'pe token_sdk \<Rightarrow> token_env \<Rightarrow> token_account \<Rightarrow> token_account \<Rightarrow> pubkey \<Rightarrow> u64 \<Rightarrow> u8 \<Rightarrow> 'pe + instruction" where
  "ta_transfer_to_account D E a destination authority n decimals =
     ta_transfer_to D E a (ta_ata E destination) authority n decimals"

definition ta_close :: "'pe token_sdk \<Rightarrow> token_env \<Rightarrow> token_account \<Rightarrow> pubkey \<Rightarrow> pubkey \<Rightarrow> 'pe + instruction" where
  "ta_close D E a destination authority = tk_close_account D E (ta_token a) (ta_ata E a) destination authority"

definition set_balance :: "u64 \<Rightarrow> token_account \<Rightarrow> token_account" where
  "set_balance b a = a \<lparr> ta_balance := b \<rparr>"

definition add_balance :: "u64 \<Rightarrow> token_account \<Rightarrow> token_account" where
  "add_balance n a = a \<lparr> ta_balance := as_u64 (saturating_add 64 (unat (ta_balance a)) (unat n)) \<rparr>"

definition sub_balance :: "u64 \<Rightarrow> token_account \<Rightarrow> token_account" where
  "sub_balance n a = a \<lparr> ta_balance := as_u64 (unat (ta_balance a) - unat n) \<rparr>"

section \<open>The builder\<close>

record token_account_builder =
  tb_token :: token_with_program
  tb_holder :: pubkey
  tb_decimals_of :: u8

definition ta_builder_new :: "token_with_program \<Rightarrow> pubkey \<Rightarrow> u8 \<Rightarrow> token_account_builder" where
  "ta_builder_new t owner decimals = \<lparr> tb_token = t, tb_holder = owner, tb_decimals_of = decimals \<rparr>"

definition builder_spl_token :: "pubkey \<Rightarrow> pubkey \<Rightarrow> u8 \<Rightarrow> token_account_builder" where
  "builder_spl_token mint owner decimals = ta_builder_new (tk_spl_token mint) owner decimals"

definition builder_token_2022 :: "pubkey \<Rightarrow> pubkey \<Rightarrow> u8 \<Rightarrow> token_account_builder" where
  "builder_token_2022 mint owner decimals = ta_builder_new (tk_token_2022 mint) owner decimals"

definition builder_wsol :: "token_env \<Rightarrow> pubkey \<Rightarrow> token_account_builder" where
  "builder_wsol E owner = ta_builder_new (tk_wsol E) owner 9"

definition builder_ata :: "token_env \<Rightarrow> token_account_builder \<Rightarrow> pubkey" where
  "builder_ata E b = tk_ata E (tb_token b) (tb_holder b)"

definition builder_create_ata :: "'pe token_sdk \<Rightarrow> token_env \<Rightarrow> token_account_builder \<Rightarrow> pubkey \<Rightarrow> instruction" where
  "builder_create_ata D E b payer = tk_create_ata D E (tb_token b) (tb_holder b) payer"

definition builder_transfer_from ::
    "'pe token_sdk \<Rightarrow> token_env \<Rightarrow> token_account_builder \<Rightarrow> pubkey \<Rightarrow> pubkey \<Rightarrow> u64 \<Rightarrow> 'pe + instruction" where
  "builder_transfer_from D E b destination authority n =
     tk_transfer D E (tb_token b) (builder_ata E b) destination authority n (tb_decimals_of b)"

definition builder_transfer_to ::
    "'pe token_sdk \<Rightarrow> token_env \<Rightarrow> token_account_builder \<Rightarrow> pubkey \<Rightarrow> pubkey \<Rightarrow> u64 \<Rightarrow> 'pe + instruction" where
  "builder_transfer_to D E b source authority n =
     tk_transfer D E (tb_token b) source (builder_ata E b) authority n (tb_decimals_of b)"

definition builder_close :: "'pe token_sdk \<Rightarrow> token_env \<Rightarrow> token_account_builder \<Rightarrow> pubkey \<Rightarrow> pubkey \<Rightarrow> 'pe + instruction" where
  "builder_close D E b destination authority =
     tk_close_account D E (tb_token b) (builder_ata E b) destination authority"

definition with_balance :: "token_account_builder \<Rightarrow> u64 \<Rightarrow> token_account" where
  "with_balance b balance = token_account_new (tb_token b) (tb_holder b) balance"

section \<open>Properties\<close>

text \<open>Tracked balances neither wrap nor lose the account; a withdrawal that is covered can be put back.\<close>

lemma tracked_balances:
  "unat (ta_balance (add_balance n a)) = min (unat (ta_balance a) + unat n) (2 ^ 64 - 1)"
  "unat (ta_balance (sub_balance n a)) = unat (ta_balance a) - unat n"
  "ta_token (add_balance n a) = ta_token a" "ta_owner (sub_balance n a) = ta_owner a"
proof -
  have a: "unat (ta_balance a) < 2 ^ 64"
    using unsigned_less [of "ta_balance a"] by simp
  show "unat (ta_balance (add_balance n a)) = min (unat (ta_balance a) + unat n) (2 ^ 64 - 1)"
    by (simp add: add_balance_def saturating_add_def)
  show "unat (ta_balance (sub_balance n a)) = unat (ta_balance a) - unat n"
    using a by (simp add: sub_balance_def)
qed (simp_all add: add_balance_def sub_balance_def)

lemma covered_withdrawal_is_put_back:
  assumes "has_balance a n"
  shows "add_balance n (sub_balance n a) = a"
proof -
  have "unat (ta_balance a) < 2 ^ 64"
    using unsigned_less [of "ta_balance a"] by simp
  moreover have "unat n \<le> unat (ta_balance a)"
    using assms by (simp add: has_balance_def word_le_nat_alt)
  ultimately have "unat (ta_balance (add_balance n (sub_balance n a))) = unat (ta_balance a)"
    by (simp add: tracked_balances min_def)
  then have "ta_balance (add_balance n (sub_balance n a)) = ta_balance a"
    by (metis of_nat_unat ucast_id)
  then show ?thesis
    by (cases a) (simp add: add_balance_def sub_balance_def)
qed

text \<open>What the builder sends is what the account that it builds sends.\<close>

lemma builder_agrees_with_account:
  "builder_ata E b = ta_ata E (with_balance b n)"
  "builder_create_ata D E b payer = ta_create_ata D E (with_balance b n) payer"
  "builder_close D E b dest auth = ta_close D E (with_balance b n) dest auth"
  "builder_transfer_from D E b dest auth m = ta_transfer_to D E (with_balance b n) dest auth m (tb_decimals_of b)"
  by (simp_all add: builder_ata_def ta_ata_def with_balance_def token_account_new_def builder_create_ata_def
      ta_create_ata_def builder_close_def ta_close_def builder_transfer_from_def ta_transfer_to_def)

text \<open>The simple transfer is the full one with zero decimals: the same on the classic program, a claim about the
  mint on Token-2022.\<close>

lemma simple_transfer_is_zero_decimals:
  "tk_transfer_simple D E t src dest auth n = tk_transfer D E t src dest auth n 0"
  "tk_program t = SplToken \<Longrightarrow> tk_transfer_simple D E t src dest auth n = tk_transfer D E t src dest auth n d"
  by (simp_all add: tk_transfer_simple_def tk_transfer_def)

text \<open>A mint that the classic crate unpacks is read alike under both programs.\<close>

lemma mint_read_alike:
  "td_unpack_mint D data = Inr m \<Longrightarrow> deserialize_mint D p data = Inr m \<and> mint_decimals D p data = Inr (ms_decimals m)"
  by (cases p) (simp_all add: mint_decimals_def)

end
