(* ===== verification/SplToken.thy ===== *)
theory SplToken
  imports PoolInstructions TokenOps
begin

text \<open>
  The transfers of the token program (protocols/spl_token) and the metadata account of a mint
  (metaplex.rs). The instruction enum has discriminators of one byte; it is an instance of the contract of
  instruction enums. Metadata is read with the text padded by zeros inside its strings.
\<close>

section \<open>Transfers\<close>

record spl_transfer_params =
  stp_amount :: u64

definition read_spl_transfer_params :: "borsh \<Rightarrow> spl_transfer_params reader" where
  "read_spl_transfer_params B = rbind (rd_u64 B) (\<lambda>a. rret \<lparr> stp_amount = a \<rparr>)"

definition write_spl_transfer_params :: "spl_transfer_params \<Rightarrow> bytes" where
  "write_spl_transfer_params p = le_bytes 8 (unat (stp_amount p))"

definition spl_transfer_params_new :: "u64 \<Rightarrow> spl_transfer_params" where
  "spl_transfer_params_new n = \<lparr> stp_amount = n \<rparr>"

record spl_transfer_checked_params =
  stc_amount :: u64
  stc_decimals :: u8

definition read_spl_transfer_checked_params :: "borsh \<Rightarrow> spl_transfer_checked_params reader" where
  "read_spl_transfer_checked_params B =
     rbind (rd_u64 B) (\<lambda>a. rbind (rd_u8 B) (\<lambda>b. rret \<lparr> stc_amount = a, stc_decimals = b \<rparr>))"

definition write_spl_transfer_checked_params :: "spl_transfer_checked_params \<Rightarrow> bytes" where
  "write_spl_transfer_checked_params p = le_bytes 8 (unat (stc_amount p)) @ [stc_decimals p]"

definition spl_transfer_checked_params_new :: "u64 \<Rightarrow> u8 \<Rightarrow> spl_transfer_checked_params" where
  "spl_transfer_checked_params_new n decimals = \<lparr> stc_amount = n, stc_decimals = decimals \<rparr>"

definition spl_transfer_disc :: bytes where
  "spl_transfer_disc = [3]"

definition spl_transfer_checked_disc :: bytes where
  "spl_transfer_checked_disc = [12]"

datatype spl_token_instruction =
    SplTransfer spl_transfer_params
  | SplTransferChecked spl_transfer_checked_params

fun spl_token_discriminator :: "spl_token_instruction \<Rightarrow> bytes" where
  "spl_token_discriminator (SplTransfer _) = spl_transfer_disc"
| "spl_token_discriminator (SplTransferChecked _) = spl_transfer_checked_disc"

fun spl_token_args :: "spl_token_instruction \<Rightarrow> bytes" where
  "spl_token_args (SplTransfer p) = write_spl_transfer_params p"
| "spl_token_args (SplTransferChecked p) = write_spl_transfer_checked_params p"

definition spl_token_data :: "spl_token_instruction \<Rightarrow> bytes" where
  "spl_token_data ix = spl_token_discriminator ix @ spl_token_args ix"

definition spl_token_rows :: "borsh \<Rightarrow> (bytes \<times> (bytes \<Rightarrow> instruction_parse_error + spl_token_instruction)) list" where
  "spl_token_rows B =
    [variant spl_transfer_disc SplTransfer ''solana_protocols::protocols::spl_token::instructions::transfer::TransferParams'' (read_spl_transfer_params B),
     variant spl_transfer_checked_disc SplTransferChecked ''solana_protocols::protocols::spl_token::instructions::transfer_checked::TransferCheckedParams'' (read_spl_transfer_checked_params B)]"

fun spl_token_layout :: "spl_token_instruction \<Rightarrow> layout" where
  "spl_token_layout (SplTransfer _) = spl_transfer_layout"
| "spl_token_layout (SplTransferChecked _) = spl_transfer_checked_layout"

definition spl_token_from_accounts ::
    "spl_token_instruction \<Rightarrow> pubkey list \<Rightarrow> instruction_parse_error + accounts" where
  "spl_token_from_accounts ix ks = from_pubkeys (spl_token_layout ix) ks"

fun spl_token_amount :: "spl_token_instruction \<Rightarrow> u64" where
  "spl_token_amount (SplTransfer p) = stp_amount p"
| "spl_token_amount (SplTransferChecked p) = stc_amount p"

lemma u64_read_last:
  assumes "borsh_ok B"
  shows "rbind (rd_u64 B) f (le_bytes 8 (unat x)) = f x []"
  using borsh_read(5) [OF assms, of f x "[]"] by simp

interpretation spl: instruction_enum 1 spl_token_rows spl_token_discriminator spl_token_args
proof
  show "\<exists>r \<in> set (spl_token_rows B). fst r = spl_token_discriminator ix \<and> snd r (spl_token_args ix) = Inr ix"
    if "borsh_ok B" for B ix
    using that
    by (cases ix) (simp_all add: spl_token_rows_def variant_decodes read_spl_transfer_params_def
        write_spl_transfer_params_def read_spl_transfer_checked_params_def write_spl_transfer_checked_params_def
        u64_read_last u8_read_last)
qed (auto simp: spl_token_rows_def spl_transfer_disc_def spl_transfer_checked_disc_def)

text \<open>A transfer is read back from its data, and its amount is where the two forms agree.\<close>

lemma spl_token_roundtrip:
  assumes "borsh_ok B"
  shows "try_from_slice_sized 1 (spl_token_rows B) (spl_token_data ix) = Inr ix"
  unfolding spl_token_data_def by (rule spl.reads_back [OF assms])

lemma spl_token_amount_in_data:
  "take 8 (drop 1 (spl_token_data ix)) = le_bytes 8 (unat (spl_token_amount ix))"
  by (cases ix) (simp_all add: spl_token_data_def spl_transfer_disc_def spl_transfer_checked_disc_def
      write_spl_transfer_params_def write_spl_transfer_checked_params_def)

section \<open>Metadata\<close>

text \<open>The metadata program and the derivation of addresses are parameters.\<close>

definition metadata_pda :: "(bytes list \<Rightarrow> pubkey \<Rightarrow> pubkey) \<Rightarrow> pubkey \<Rightarrow> pubkey \<Rightarrow> pubkey" where
  "metadata_pda find_pda program mint = find_pda [seed_bytes ''metadata'', program, mint] program"

record mint_display =
  md_name :: bytes
  md_symbol :: bytes
  md_uri :: bytes

datatype metadata_error =
    MetadataTruncated nat string
  | WrongKind u8
  | NotUtf8 string

definition trim_nuls :: "bytes \<Rightarrow> bytes" where
  "trim_nuls bs = rev (dropWhile (\<lambda>b. b = 0) (rev bs))"

text \<open>One string of the account: its bytes, with the offset after it.\<close>

definition metadata_string :: "bytes \<Rightarrow> string \<Rightarrow> nat \<Rightarrow> metadata_error + bytes \<times> nat" where
  "metadata_string data name off =
     (if length data < off + 4 then Inl (MetadataTruncated (length data) name)
      else
        let len = le_val (take 4 (drop off data))
        in if length data < off + 4 + len then Inl (MetadataTruncated (length data) name)
           else
             let bs = take len (drop (off + 4) data)
             in if utf8_valid bs then Inr (trim_nuls bs, off + 4 + len) else Inl (NotUtf8 name))"

definition decode_metadata :: "bytes \<Rightarrow> metadata_error + mint_display" where
  "decode_metadata data =
     (case data of
        [] \<Rightarrow> Inl (MetadataTruncated 0 ''key'')
      | key # _ \<Rightarrow>
          if key \<noteq> 4 then Inl (WrongKind key)
          else
            case metadata_string data ''name'' 65 of
              Inl e \<Rightarrow> Inl e
            | Inr (name, off) \<Rightarrow>
                (case metadata_string data ''symbol'' off of
                   Inl e \<Rightarrow> Inl e
                 | Inr (symbol, off) \<Rightarrow>
                     (case metadata_string data ''uri'' off of
                        Inl e \<Rightarrow> Inl e
                      | Inr (uri, _) \<Rightarrow> Inr \<lparr> md_name = name, md_symbol = symbol, md_uri = uri \<rparr>)))"

text \<open>An account as the metadata program writes it: strings filled up with zeros.\<close>

definition padded :: "nat \<Rightarrow> bytes \<Rightarrow> bytes" where
  "padded n bs = bs @ replicate (n - length bs) 0"

definition metadata_bytes :: "pubkey \<Rightarrow> pubkey \<Rightarrow> mint_display \<Rightarrow> bytes \<Rightarrow> bytes" where
  "metadata_bytes authority mint m rest =
     4 # authority @ mint @ write_string (padded 32 (md_name m)) @ write_string (padded 10 (md_symbol m)) @
     write_string (padded 200 (md_uri m)) @ rest"

definition ends_in_text :: "bytes \<Rightarrow> bool" where
  "ends_in_text bs \<longleftrightarrow> bs = [] \<or> last bs \<noteq> 0"

lemma trim_padded: "ends_in_text bs \<Longrightarrow> trim_nuls (padded n bs) = bs"
  by (cases bs rule: rev_cases) (auto simp: trim_nuls_def padded_def ends_in_text_def dropWhile_append)

lemma utf8_zeros: "utf8_valid (replicate n 0)"
  by (induction n) simp_all

lemma utf8_append: "utf8_valid a \<Longrightarrow> utf8_valid b \<Longrightarrow> utf8_valid (a @ b)"
proof (induction a rule: utf8_valid.induct)
  case (2 x xs)
  note step = utf8_valid.simps(2) [of x]
  show ?case
  proof (cases "x < 0x80")
    case True
    then show ?thesis
      using 2 by simp
  next
    case one: False
    show ?thesis
    proof (cases "0xC2 \<le> x \<and> x \<le> 0xDF")
      case True
      then show ?thesis
        using 2(2) [OF one True] 2(5,6) unfolding step append_Cons if_not_P [OF one] if_P [OF True]
        by (cases xs) simp_all
    next
      case two: False
      show ?thesis
      proof (cases "0xE0 \<le> x \<and> x \<le> 0xEF")
        case True
        then show ?thesis
          using 2(3) [OF one two True] 2(5,6)
          unfolding step append_Cons if_not_P [OF one] if_not_P [OF two] if_P [OF True]
          by (cases xs; cases "tl xs") simp_all
      next
        case three: False
        show ?thesis
        proof (cases "0xF0 \<le> x \<and> x \<le> 0xF4")
          case True
          then show ?thesis
            using 2(4) [OF one two three True] 2(5,6)
            unfolding step append_Cons if_not_P [OF one] if_not_P [OF two] if_not_P [OF three] if_P [OF True]
            by (cases xs; cases "tl xs"; cases "tl (tl xs)") simp_all
        next
          case four: False
          then show ?thesis
            using 2(5) unfolding step if_not_P [OF one] if_not_P [OF two] if_not_P [OF three] if_not_P [OF four] by simp
        qed
      qed
    qed
  qed
qed simp

lemma metadata_string_read:
  assumes "utf8_valid bs" "length bs < 2 ^ 32"
  shows "metadata_string (before @ write_string bs @ rest) name (length before) =
    Inr (trim_nuls bs, length before + 4 + length bs)"
  using assms by (simp add: metadata_string_def write_string_def Let_def le_val_le_bytes)


text \<open>The text that was written is read back, as long as it does not itself end in a zero.\<close>

lemma metadata_read_back:
  assumes "length authority = 32" "length mint = 32"
    and "\<forall>f \<in> {md_name, md_symbol, md_uri}. utf8_valid (f m) \<and> ends_in_text (f m)"
    and "length (md_name m) \<le> 32" "length (md_symbol m) \<le> 10" "length (md_uri m) \<le> 200"
  shows "decode_metadata (metadata_bytes authority mint m rest) = Inr m"
proof -
  let ?n = "padded 32 (md_name m)" and ?s = "padded 10 (md_symbol m)" and ?u = "padded 200 (md_uri m)"
  let ?head = "4 # authority @ mint"
  have padded: "utf8_valid (padded k t)" "length (padded k t) = k" if "utf8_valid t" "length t \<le> k" for k t
    using that by (simp_all add: padded_def utf8_append utf8_zeros)
  have len: "length (write_string bs) = 4 + length bs" for bs
    by (simp add: write_string_def)
  have head: "length ?head = 65"
    using assms(1,2) by simp
  have name: "metadata_string (?head @ write_string ?n @ tail) ''name'' 65 = Inr (md_name m, 101)" for tail
    using metadata_string_read [of ?n ?head tail "''name''"] padded [of "md_name m" 32] assms head by (simp add: trim_padded)
  have symbol: "metadata_string ((?head @ write_string ?n) @ write_string ?s @ tail) ''symbol'' 101 = Inr (md_symbol m, 115)" for tail
    using metadata_string_read [of ?s "?head @ write_string ?n" tail "''symbol''"] padded [of "md_name m" 32]
      padded [of "md_symbol m" 10] assms head len [of ?n] by (simp add: trim_padded)
  have uri: "metadata_string ((?head @ write_string ?n @ write_string ?s) @ write_string ?u @ tail) ''uri'' 115 =
      Inr (md_uri m, 319)" for tail
    using metadata_string_read [of ?u "?head @ write_string ?n @ write_string ?s" tail "''uri''"] padded [of "md_name m" 32]
      padded [of "md_symbol m" 10] padded [of "md_uri m" 200] assms head len [of ?n] len [of ?s] by (simp add: trim_padded)
  show ?thesis
    using name symbol uri by (simp add: decode_metadata_def metadata_bytes_def)
qed

end
