(* ===== verification/Spec2Isabelle.thy ===== *)
theory Spec2Isabelle
  imports Quote RaydiumLaunchpad MeteoraDbc RaydiumClmm DlmmHandlers PumpBuild DlmmInstructions Verify Registry Tape DlmmEvents Undecoded
    Sources Platform SplToken
begin

text \<open>
  A verification library for the crates of this repository: the decoders, the swap math and the
  quotes of \<open>crates/solana/protocols\<close> and the account store of \<open>crates/storage\<close> that
  feeds them.

  The program. A stream of account updates enters at \<open>Ingest::apply\<close>. The handler registry picks
  the handler of the account's owner and discriminator, the handler decodes the account and
  writes it into one field of the local cache, a map that keeps the last observations of every
  key by slot, and answers the accounts it depends on, which a resolver task fetches. A quote
  reads a pool and its dependencies from the cache at one reference slot and prices a swap. The
  cache writes a snapshot to disk when its last handle is dropped. Beside this path, every
  protocol has its own decoder and math, used directly.

  Prelude and shared parts.
  \<^item> \<open>Prelude\<close>: Rust integers as words, the operators on their values (\<open>u_add\<close>, \<open>i_fit\<close> and so
    on), panics and errors (\<open>outcome\<close>: \<open>None\<close> is a panic, \<open>Inl\<close> an error).
  \<^item> \<open>F64\<close>: \<open>f64\<close> as an executable model of IEEE binary64 with its operators.
  \<^item> \<open>SwapTypes\<close> (error.rs, traits.rs, events/mod.rs): errors, directions, amounts, slippage, the
    swap output and its builder.
  \<^item> \<open>AccountState\<close> (parsing/state.rs and the code its derive macro generates): byte readers and
    encoders, the discriminator and length checks, version groups of trailing fields.

  The store.
  \<^item> \<open>Access\<close> (storage/traits access.rs): the contract of the store as the locale \<open>slot_store\<close>, with
    what follows for every store: idempotence, monotone slots, reads at a reference slot.
  \<^item> \<open>VersionedMap\<close> (versioned_map.rs): the slot-versioned map; it interprets \<open>slot_store\<close> and
    refines the unbounded log of accepted observations.
  \<^item> \<open>Handlers\<close> (storage/traits handler/): erased handlers and the registry, which refines a lookup
    rule stated on the list of registered handlers.
  \<^item> \<open>Cache\<close>, \<open>Persist\<close> (cache.rs, persist.rs): the cache with one store per account type, its
    handles as a step relation, the snapshot file over a file system whose every call may fail.
  \<^item> \<open>Ingest\<close> (storage/ingest): the synchronous dispatch and the resolver task as a step relation.

  The protocols.
  \<^item> \<open>Tokens\<close> (tokens.rs, token_handler.rs): base tokens, token programs, token accounts.
  \<^item> \<open>ConstantProduct\<close>: the arithmetic of \<open>x * y = k\<close>, shared by most pools.
  \<^item> \<open>Pumpfun\<close>, \<open>Pumpswap\<close>, \<open>PumpHandlers\<close> (pumpfun/, pumpswap/): accounts, fee tiers, both exact
    forms of the math in both directions, the quote bundles and the handlers.
  \<^item> \<open>Quote\<close> (quote.rs): the quote over a cache, and the properties that span ingestion, cache and
    math.
  \<^item> \<open>InputFee\<close>, \<open>RaydiumV4\<close>, \<open>RaydiumCpmm\<close>, \<open>RaydiumLaunchpad\<close>, \<open>MeteoraDbc\<close>: the pools with
    a fee on the input; their contracts are the locales of \<open>InputFee\<close>, interpreted on each.
  \<^item> \<open>RaydiumClmm\<close>: the tick walk of the concentrated-liquidity pools.
  \<^item> \<open>DlmmMath\<close>, \<open>DlmmBins\<close>, \<open>DlmmBitmap\<close>, \<open>DlmmQuote\<close>, \<open>DlmmPositions\<close>, \<open>DlmmHandlers\<close>
    (meteora_dlmm/): Q64.64 prices, the fee state of a pair, the swap into a bin, the bitmaps of
    the arrays, the quotes, positions and deposits, the account handlers.

  Transactions.
  \<^item> \<open>Logs\<close> (parsing/log.rs): the parser of log lines, against the text the runtime writes.
  \<^item> \<open>Attribution\<close> (parsing/instruction.rs): the flat instruction list, the parents and the
    attribution of log lines. The reference is a tree of calls; the parser rebuilds it, and marks
    what a cut log misses.
  \<^item> \<open>AccountLayout\<close> (parsing/accounts.rs, protocols-macros account_metas.rs): the account list of an
    instruction. An accounts struct is a layout, the reader and the writer that the derive generates
    are functions of the layout, and their contract (nothing lost, what is written is read) is proved
    for every layout. \<open>Layouts\<close> (protocols/*/instructions) has the layouts of the structs.
  \<^item> \<open>InstructionData\<close>, \<open>PumpInstructions\<close> (parsing/traits.rs, protocols-macros
    protocol_instruction.rs, option_bool.rs, pumpfun/instructions, pumpswap/instructions): strict
    decoding, the trailing flag with its encodings, the parameters and the two instruction enums.
  \<^item> \<open>Classify\<close> (classify.rs, swap_instruction.rs): what an instruction is, in the three ways the code
    tells; the readings agree.
  \<^item> \<open>Discovery\<close> (chain/discovery.rs, chain/graph.rs, pairs.rs, discovery.rs): the edge that a swap's
    accounts name, against what the full parser names, and the graph of edges.
  \<^item> \<open>PumpBuild\<close> (pumpfun/accounts.rs, pumpswap/accounts.rs, the builders): keys, parameters from a
    quote, the instructions that are sent; they are read back with the parser above.
  \<^item> \<open>DlmmInstructions\<close> (meteora_dlmm/instructions): the 71 instructions of the DLMM program: their
    layouts, their wrappers and the dispatch. The discriminators and argument codecs of the generated
    SDK are the parameter \<open>dlmm_sdk\<close>.
  \<^item> \<open>PoolInstructions\<close>, \<open>PoolBuild\<close> (the instructions/ directories and accounts.rs of Raydium V4, CLMM, CPMM
    and Launchpad and of Meteora DBC): parameters, instruction enums, keys and swap builders. What the
    five enums share is the locale \<open>instruction_enum\<close>.
  \<^item> \<open>Registry\<close> (parsing/registry.rs): the unified events, a parser per program, the registry.
  \<^item> \<open>Verify\<close> (verify.rs): the grading of our quotes against executed swaps, with its tally.
  \<^item> \<open>PoolStates\<close> (protocols/mod.rs): the protocols, the enum of pool states with its decoders, detection
    and swap dispatch, the enum of pool keys.

  The record of a transaction.
  \<^item> \<open>ChainTypes\<close> (chain/types.rs): swaps, creations, migrations, fees and liquidity as events, prices
    before and after a swap, and the pairing of token balances, which conserves them.
  \<^item> \<open>Events\<close> (pumpfun/events, pumpswap/events, meteora_damm_v2/events.rs, parsing/anchor.rs, parsing/event.rs,
    chain/extract/traits.rs, chain/extract/error.rs): the events that programs emit with their codec, the
    envelope of a self-call, the search for the event of an instruction, and the counted failures. What
    the event types share is the locale \<open>event_codec\<close>, interpreted on each.
  \<^item> \<open>Extract\<close> (pumpfun/extract.rs, pumpswap/extract.rs, meteora_damm_v2/extract.rs, meteora_dlmm/extract.rs,
    chain/extract): the four extractors, their registry, the assembly of a transaction.
  \<^item> \<open>Tape\<close>: what the record is worth. Every swap on it is attested by an event of its program, nothing that
    is recognised vanishes without being counted, and a built and executed trade is on it.

  \<^item> \<open>DlmmEvents\<close> (meteora_dlmm/events): the events of the DLMM program, their dispatch, and that the swap on
    the record is the first among the events of its instruction.
  \<^item> \<open>Undecoded\<close> (undecoded.rs): the store of instructions that were not decoded, as the summary of a log.
  \<^item> \<open>Sources\<close> (parsing/source.rs, chain/extract/context.rs): transaction sources; their changes by owner
    against the pairing of \<open>ChainTypes\<close>.
  \<^item> \<open>Platform\<close> (platform.rs, idl/mod.rs): who submitted a transaction, and the hashes of vendored IDLs.
  \<^item> \<open>TokenOps\<close>, \<open>SplToken\<close> (tokens.rs, protocols/spl_token, metaplex.rs): operations on token accounts, the
    transfers of the token program, the metadata of a mint.

  Conventions. Rust structs are records with prefixed fields, enums are datatypes, \<open>HashMap\<close>s are
  maps. The flag \<open>oc\<close> of an operation is the build profile: with overflow checks an overflow is a
  panic, without them it wraps. A statement for all \<open>oc\<close> holds in both. The debug assertions and
  logging of the source are left out. In messages a dash of the source is written as two hyphens.

  Fuel and bounds. The resolver's drain runs on fuel, and \<open>ingest_drain_terminates\<close> gives enough.
  The tick walk of \<open>RaydiumClmm\<close> is bounded by the source itself. The DLMM walks are not: they run on
  fuel, one unit per round, and \<open>enough_fuel\<close>, one round per bin of the id space and two more, is
  enough unless the walk reaches a gap, where no fuel is.

  Parameters. What is not under src/ is an argument: the borsh decoders of the SDK accounts and of the DLMM
  swap event, the discriminators of events and the text of keys (\<open>extract_env\<close>), the codec of snapshots (bincode and gzip), base58 and base64, the file system, the RPC client, the derivation of program
  addresses, program identities and discriminators (macros hash them at compile time; \<open>key_env\<close> holds
  those of the pump programs, and \<open>discriminators_ok\<close> says that they are distinct), libm's
  \<open>powf\<close>, \<open>ln\<close> and \<open>powi\<close> beyond exact steps. The accounts of the DLMM SDK are records of the
  fields that the code here reads.

  Not modelled. The store of event samples, which is written only when an environment variable asks for
  it; tests, fixtures and their macros; the token processing of the derive macros, whose output is. Concurrency is modelled where the program has it: the ingest and resolver tasks, the
  handles of the cache and the calls of a snapshot write interleave step by step; the lock-free
  maps are maps, since each entry is updated under its own lock.
\<close>

end
